(* ===== verification/Kitchen_Prelude.thy ===== *)
theory Kitchen_Prelude
  imports Complex_Main
begin

text \<open>
  Shared vocabulary of the development.

  \<^item> Results: \<open>'a res\<close> is a sum, \<open>Inl\<close> carries the exception the source raises
    (\<^verbatim>\<open>AppError(code, detail, status_code, field)\<close> of \<^verbatim>\<open>app/core/http/errors.py\<close>; the
    human-readable detail and the field hint are dropped), \<open>Inr\<close> a normal return.
  \<^item> Tables: a database table is the list of its rows; \<open>row_get\<close>, \<open>row_upd\<close> and
    \<open>row_ids\<close> are primary-key lookup, in-place update and the key list.
  \<^item> Amounts: the source's floats are exact rationals here; \<open>money\<close> is
    \<^verbatim>\<open>round(float(value or 0), 2)\<close> with Python's round-half-even.
  \<^item> Instants are integers (microseconds).
  \<^item> Interface locales shared by the components: a state machine with an invariant, and a
    ledger (a balance that only moves together with the entries that explain it).
\<close>

named_theorems row_simps \<open>rewriting of table lookups\<close>
named_theorems money_simps \<open>facts about two-decimal amounts\<close>

subsection \<open>Results\<close>

datatype app_error =
  AppError string int | PyTypeError | PyKeyError | PyIndexError | PyAttributeError | IntegrityError

type_synonym 'a res = "app_error + 'a"
type_synonym instant = int

definition rbind :: "'a res \<Rightarrow> ('a \<Rightarrow> 'b res) \<Rightarrow> 'b res" where
  "rbind m f = (case m of Inl e \<Rightarrow> Inl e | Inr x \<Rightarrow> f x)"

lemma rbind_simps [simp]:
  "rbind (Inl e) f = Inl e"
  "rbind (Inr x) f = f x"
  by (simp_all add: rbind_def)

lemma rbind_eq_Inr [simp]: "rbind m f = Inr y \<longleftrightarrow> (\<exists>x. m = Inr x \<and> f x = Inr y)"
  by (cases m) auto

lemma rbind_eq_Inl: "rbind m f = Inl e \<longleftrightarrow> m = Inl e \<or> (\<exists>x. m = Inr x \<and> f x = Inl e)"
  by (cases m) auto

text \<open>A Python \<^verbatim>\<open>for\<close> loop whose body may raise: the first error leaves the loop.\<close>

fun foldE :: "('x \<Rightarrow> 's \<Rightarrow> 's res) \<Rightarrow> 'x list \<Rightarrow> 's \<Rightarrow> 's res" where
  "foldE f [] s = Inr s"
| "foldE f (x # xs) s = rbind (f x s) (foldE f xs)"

fun mapE :: "('x \<Rightarrow> 'y res) \<Rightarrow> 'x list \<Rightarrow> 'y list res" where
  "mapE f [] = Inr []"
| "mapE f (x # xs) = rbind (f x) (\<lambda>y. rbind (mapE f xs) (\<lambda>ys. Inr (y # ys)))"

lemma mapE_length: "mapE f xs = Inr ys \<Longrightarrow> length ys = length xs"
  by (induction xs arbitrary: ys) auto

lemma mapE_list_all2: "mapE f xs = Inr ys \<Longrightarrow> list_all2 (\<lambda>x y. f x = Inr y) xs ys"
  by (induction xs arbitrary: ys) auto

lemma foldE_invariant:
  assumes "foldE f xs s = Inr s'" and "P s"
    and "\<And>x s s'. x \<in> set xs \<Longrightarrow> f x s = Inr s' \<Longrightarrow> P s \<Longrightarrow> P s'"
  shows "P s'"
  using assms
proof (induction xs arbitrary: s)
  case Nil
  then show ?case by simp
next
  case (Cons x xs)
  from Cons.prems(1) obtain t where t: "f x s = Inr t" "foldE f xs t = Inr s'"
    by auto
  have "P t"
    using Cons.prems(3) [OF _ t(1)] Cons.prems(2) by simp
  moreover have "\<And>y u v. y \<in> set xs \<Longrightarrow> f y u = Inr v \<Longrightarrow> P u \<Longrightarrow> P v"
    using Cons.prems(3) by (meson list.set_intros(2))
  ultimately show ?case using Cons.IH [OF t(2)] by blast
qed

subsection \<open>Tables\<close>

definition row_get :: "('r \<Rightarrow> int) \<Rightarrow> int \<Rightarrow> 'r list \<Rightarrow> 'r option" where
  "row_get key k rows = find (\<lambda>r. key r = k) rows"

definition row_upd :: "('r \<Rightarrow> int) \<Rightarrow> int \<Rightarrow> ('r \<Rightarrow> 'r) \<Rightarrow> 'r list \<Rightarrow> 'r list" where
  "row_upd key k f rows = map (\<lambda>r. if key r = k then f r else r) rows"

definition row_ids :: "('r \<Rightarrow> int) \<Rightarrow> 'r list \<Rightarrow> int set" where
  "row_ids key rows = key ` set rows"

lemma row_get_Nil [row_simps]: "row_get key k [] = None"
  by (simp add: row_get_def)

lemma row_get_Cons [row_simps]:
  "row_get key k (r # rows) = (if key r = k then Some r else row_get key k rows)"
  by (simp add: row_get_def)

lemma row_get_SomeD: "row_get key k rows = Some r \<Longrightarrow> key r = k \<and> r \<in> set rows"
  by (auto simp: row_get_def find_Some_iff)

lemma row_get_None_iff [row_simps]: "row_get key k rows = None \<longleftrightarrow> k \<notin> row_ids key rows"
  by (auto simp: row_get_def row_ids_def find_None_iff)

lemma row_get_in_ids: "row_get key k rows = Some r \<Longrightarrow> k \<in> row_ids key rows"
  by (metis option.distinct(1) row_get_None_iff)

lemma row_get_append [row_simps]:
  "row_get key k (xs @ ys) = (case row_get key k xs of None \<Rightarrow> row_get key k ys | Some r \<Rightarrow> Some r)"
  by (induction xs) (auto simp: row_simps)

lemma row_ids_append [row_simps]: "row_ids key (xs @ ys) = row_ids key xs \<union> row_ids key ys"
  by (auto simp: row_ids_def)

text \<open>An update through the ORM never rewrites the primary key; its effect on a later lookup is
  then the update itself on that key and nothing elsewhere.\<close>

lemma row_get_upd:
  assumes "\<And>r. key (f r) = key r"
  shows "row_get key k' (row_upd key k f rows) =
    (if k' = k then map_option f (row_get key k rows) else row_get key k' rows)"
  using assms by (induction rows) (auto simp: row_upd_def row_get_def)

lemma row_ids_upd:
  assumes "\<And>r. key (f r) = key r"
  shows "row_ids key (row_upd key k f rows) = row_ids key rows"
proof -
  have "map key (row_upd key k f rows) = map key rows"
    using assms by (auto simp: row_upd_def)
  then have "set (map key (row_upd key k f rows)) = set (map key rows)"
    by (rule arg_cong)
  then show ?thesis by (simp add: row_ids_def)
qed

lemma row_upd_Nil [row_simps]: "row_upd key k f [] = []"
  by (simp add: row_upd_def)

lemma row_upd_Cons [row_simps]:
  "row_upd key k f (r # rows) = (if key r = k then f r else r) # row_upd key k f rows"
  by (simp add: row_upd_def)

lemma row_upd_idle: "k \<notin> row_ids key rows \<Longrightarrow> row_upd key k f rows = rows"
  by (induction rows) (auto simp: row_upd_def row_ids_def)

lemma row_upd_list_all:
  assumes "list_all P rows" and "\<And>r. r \<in> set rows \<Longrightarrow> key r = k \<Longrightarrow> P r \<Longrightarrow> P (f r)"
  shows "list_all P (row_upd key k f rows)"
  using assms by (auto simp: row_upd_def list_all_iff)

text \<open>The laws a keyed table promises its clients.\<close>

locale keyed_table =
  fixes key :: "'r \<Rightarrow> int" and upd :: "'u \<Rightarrow> 'r \<Rightarrow> 'r"
  assumes key_upd: "key (upd u r) = key r"
begin

lemma get_upd:
  "row_get key k' (row_upd key k (upd u) rows) =
    (if k' = k then map_option (upd u) (row_get key k rows) else row_get key k' rows)"
  by (rule row_get_upd) (simp add: key_upd)

lemma ids_upd: "row_ids key (row_upd key k (upd u) rows) = row_ids key rows"
  by (rule row_ids_upd) (simp add: key_upd)

lemma get_upd_same:
  "row_get key k rows = Some r \<Longrightarrow> row_get key k (row_upd key k (upd u) rows) = Some (upd u r)"
  by (simp add: get_upd)

lemma get_upd_other:
  "k' \<noteq> k \<Longrightarrow> row_get key k' (row_upd key k (upd u) rows) = row_get key k' rows"
  by (simp add: get_upd)

end

subsection \<open>Python dictionaries used as accumulators\<close>

text \<open>\<^verbatim>\<open>d[k] = v\<close>, keeping insertion order.\<close>

fun dict_set :: "'k \<Rightarrow> 'v \<Rightarrow> ('k \<times> 'v) list \<Rightarrow> ('k \<times> 'v) list" where
  "dict_set k v [] = [(k, v)]"
| "dict_set k v ((k', w) # d) = (if k' = k then (k, v) # d else (k', w) # dict_set k v d)"

lemma dict_set_fresh: "k \<notin> fst ` set d \<Longrightarrow> dict_set k v d = d @ [(k, v)]"
  by (induction k v d rule: dict_set.induct) auto

lemma map_of_dict_set: "map_of (dict_set k v d) j = (if j = k then Some v else map_of d j)"
  by (induction d) auto

text \<open>\<^verbatim>\<open>d[k] = d.get(k, 0.0) + v\<close>, keeping insertion order.\<close>

fun dict_add :: "'k \<Rightarrow> 'v::monoid_add \<Rightarrow> ('k \<times> 'v) list \<Rightarrow> ('k \<times> 'v) list" where
  "dict_add k v [] = [(k, v)]"
| "dict_add k v ((k', w) # d) = (if k' = k then (k', w + v) # d else (k', w) # dict_add k v d)"

definition dict_of :: "('k \<times> 'v::monoid_add) list \<Rightarrow> ('k \<times> 'v) list" where
  "dict_of xs = fold (\<lambda>(k, v) d. dict_add k v d) xs []"

definition total_for :: "'k \<Rightarrow> ('k \<times> 'v::comm_monoid_add) list \<Rightarrow> 'v" where
  "total_for k xs = sum_list (map snd (filter (\<lambda>e. fst e = k) xs))"

lemma total_for_simps [simp]:
  "total_for k [] = 0"
  "total_for k ((k', v) # xs) = (if k' = k then v + total_for k xs else total_for k xs)"
  by (simp_all add: total_for_def)

lemma total_for_append [simp]: "total_for k (xs @ ys) = total_for k xs + total_for k ys"
  by (simp add: total_for_def)

lemma total_for_absent: "k \<notin> fst ` set xs \<Longrightarrow> total_for k xs = 0"
  by (induction xs) auto

lemma total_for_nonneg:
  fixes xs :: "('k \<times> 'v::ordered_comm_monoid_add) list"
  assumes "\<forall>e \<in> set xs. 0 \<le> snd e"
  shows "0 \<le> total_for k xs"
  using assms by (auto simp: total_for_def intro!: sum_list_nonneg)

lemma map_of_dict_add:
  "map_of (dict_add k v d) = (map_of d)(k \<mapsto> (case map_of d k of None \<Rightarrow> v | Some w \<Rightarrow> w + v))"
  by (induction d) (auto simp: fun_eq_iff)

lemma dict_add_keys: "fst ` set (dict_add k v d) = insert k (fst ` set d)"
  by (induction k v d rule: dict_add.induct) auto

lemma distinct_dict_add: "distinct (map fst d) \<Longrightarrow> distinct (map fst (dict_add k v d))"
proof (induction d)
  case (Cons e d)
  then show ?case
    using dict_add_keys [of k v d] by (cases e) (auto simp flip: set_map)
qed simp

lemma dict_fold_map_of:
  fixes xs :: "('k \<times> 'v::comm_monoid_add) list"
  shows "map_of (fold (\<lambda>(k, v) d. dict_add k v d) xs d) k =
    (if k \<in> fst ` set xs \<or> map_of d k \<noteq> None
     then Some ((case map_of d k of None \<Rightarrow> 0 | Some w \<Rightarrow> w) + total_for k xs) else None)"
proof (induction xs arbitrary: d)
  case Nil
  then show ?case by (auto split: option.splits)
next
  case (Cons e xs)
  obtain k' v where "e = (k', v)" by fastforce
  then show ?case
    by (auto simp: Cons.IH map_of_dict_add add.assoc split: option.splits)
qed

lemma map_of_dict_of:
  fixes xs :: "('k \<times> 'v::comm_monoid_add) list"
  shows "map_of (dict_of xs) k = (if k \<in> fst ` set xs then Some (total_for k xs) else None)"
  unfolding dict_of_def by (subst dict_fold_map_of) simp

lemma distinct_dict_fold:
  "distinct (map fst d) \<Longrightarrow> distinct (map fst (fold (\<lambda>(k, v) d. dict_add k v d) xs d))"
  by (induction xs arbitrary: d) (auto simp: distinct_dict_add split_beta)

lemma distinct_dict_of: "distinct (map fst (dict_of xs))"
  unfolding dict_of_def by (rule distinct_dict_fold) simp

lemma set_dict_of:
  fixes xs :: "('k \<times> 'v::comm_monoid_add) list"
  shows "(k, v) \<in> set (dict_of xs) \<longleftrightarrow> k \<in> fst ` set xs \<and> v = total_for k xs"
proof -
  have "(k, v) \<in> set (dict_of xs) \<longleftrightarrow> map_of (dict_of xs) k = Some v"
    by (simp add: distinct_dict_of)
  then show ?thesis by (auto simp: map_of_dict_of)
qed

end
