(* ===== verification/Money.thy ===== *)
theory Money
  imports Kitchen_Prelude
begin

text \<open>
  Two-decimal amounts. The source computes with floats and rounds every published amount with
  \<^verbatim>\<open>_money(value) = round(float(value or 0), 2)\<close> (one copy per module:
  \<^verbatim>\<open>orders/service.py\<close>, \<^verbatim>\<open>promotions/service.py\<close>, \<^verbatim>\<open>delivery/pricing.py\<close>).
  The model computes with exact rationals; \<open>py_round\<close> is Python's \<^verbatim>\<open>round\<close> (ties to
  the even neighbour). \<open>cents x\<close> says that \<open>x\<close> is a whole number of cents, which is what a
  \<^verbatim>\<open>Numeric(10, 2)\<close> column holds.
\<close>

definition py_round :: "rat \<Rightarrow> int" where
  "py_round x =
     (let n = \<lfloor>x\<rfloor>; f = x - of_int n
      in if f < 1 / 2 then n
         else if f > 1 / 2 then n + 1
         else if even n then n else n + 1)"

definition money :: "rat \<Rightarrow> rat" where
  "money v = of_int (py_round (100 * v)) / 100"

definition money_opt :: "rat option \<Rightarrow> rat" where
  "money_opt v = money (case v of None \<Rightarrow> 0 | Some x \<Rightarrow> x)"

definition cents :: "rat \<Rightarrow> bool" where
  "cents x \<longleftrightarrow> money x = x"

text \<open>\<^verbatim>\<open>int(x)\<close> truncates towards zero.\<close>

definition py_int :: "rat \<Rightarrow> int" where
  "py_int x = (if 0 \<le> x then \<lfloor>x\<rfloor> else \<lceil>x\<rceil>)"

lemma py_round_of_int [simp]: "py_round (of_int n) = n"
  by (simp add: py_round_def)

lemma py_round_floor: "py_round x = \<lfloor>x\<rfloor> \<or> py_round x = \<lfloor>x\<rfloor> + 1"
  by (auto simp: py_round_def Let_def)

lemma py_round_half: "\<bar>of_int (py_round x) - x\<bar> \<le> 1 / 2"
proof -
  have "of_int \<lfloor>x\<rfloor> \<le> x" "x < of_int \<lfloor>x\<rfloor> + 1" by linarith+
  then show ?thesis by (auto simp: py_round_def Let_def)
qed

lemma py_round_mono: "x \<le> y \<Longrightarrow> py_round x \<le> py_round y"
proof -
  assume xy: "x \<le> y"
  then have fl: "\<lfloor>x\<rfloor> \<le> \<lfloor>y\<rfloor>" by (rule floor_mono)
  show ?thesis
  proof (cases "\<lfloor>x\<rfloor> = \<lfloor>y\<rfloor>")
    case True
    then show ?thesis using xy by (auto simp: py_round_def Let_def)
  next
    case False
    then show ?thesis using fl py_round_floor [of x] py_round_floor [of y] by linarith
  qed
qed

lemma money_mono: "x \<le> y \<Longrightarrow> money x \<le> money y"
  using py_round_mono [of "100 * x" "100 * y"]
  by (simp add: money_def divide_right_mono)

lemma money_of_cents [simp]: "money (of_int n / 100) = of_int n / 100"
  by (simp add: money_def)

lemma money_zero [simp]: "money 0 = 0"
  using money_of_cents [of 0] by simp

lemma money_nonneg [money_simps]: "0 \<le> x \<Longrightarrow> 0 \<le> money x"
  using money_mono [of 0 x] by simp

lemma money_error: "\<bar>money x - x\<bar> \<le> 1 / 200"
  using py_round_half [of "100 * x"] by (simp add: money_def field_simps abs_le_iff)

lemma money_idem [simp]: "money (money x) = money x"
  by (simp add: money_def)

lemma cents_iff: "cents x \<longleftrightarrow> (\<exists>n. x = of_int n / 100)"
proof
  assume "cents x"
  then have "x = of_int (py_round (100 * x)) / 100"
    by (simp add: cents_def money_def)
  then show "\<exists>n. x = of_int n / 100" ..
next
  assume "\<exists>n. x = of_int n / 100"
  then obtain n where "x = of_int n / 100" ..
  then show "cents x" by (simp only: cents_def money_of_cents)
qed

lemma cents_money [money_simps, simp]: "cents (money x)"
  by (simp add: cents_def)

lemma money_cents: "cents x \<Longrightarrow> money x = x"
  by (simp add: cents_def)

lemma cents_0 [simp]: "cents 0"
  by (simp add: cents_def)

lemma cents_add: "cents x \<Longrightarrow> cents y \<Longrightarrow> cents (x + y)"
  unfolding cents_iff by (metis add_divide_distrib of_int_add)

lemma cents_diff: "cents x \<Longrightarrow> cents y \<Longrightarrow> cents (x - y)"
  unfolding cents_iff by (metis diff_divide_distrib of_int_diff)

lemma cents_times_int: "cents x \<Longrightarrow> cents (of_int n * x)"
  unfolding cents_iff by (metis of_int_mult times_divide_eq_right)

lemma cents_min: "cents x \<Longrightarrow> cents y \<Longrightarrow> cents (min x y)"
  by (simp add: min_def)

lemma cents_sum_list: "\<forall>x \<in> set xs. cents x \<Longrightarrow> cents (sum_list xs)"
  by (induction xs) (auto intro: cents_add)

text \<open>Rounding never crosses an amount that is already a whole number of cents.\<close>

lemma money_le_cents: "cents y \<Longrightarrow> x \<le> y \<Longrightarrow> money x \<le> y"
  using money_mono [of x y] by (simp add: cents_def)

lemma money_ge_cents: "cents y \<Longrightarrow> y \<le> x \<Longrightarrow> y \<le> money x"
  using money_mono [of y x] by (simp add: cents_def)

lemmas cents_intros = cents_add cents_diff cents_times_int cents_min cents_money cents_0

lemma py_int_nonneg: "0 \<le> x \<Longrightarrow> 0 \<le> py_int x"
  by (simp add: py_int_def)

lemma py_int_le: "0 \<le> x \<Longrightarrow> of_int (py_int x) \<le> x"
  by (simp add: py_int_def)

lemma py_int_mono: "x \<le> y \<Longrightarrow> py_int x \<le> py_int y"
  by (auto simp: py_int_def floor_mono ceiling_mono)
     (metis ceiling_le_zero le_cases order_trans zero_le_floor)

lemma py_int_of_int [simp]: "py_int (of_int n) = n"
  by (simp add: py_int_def)

end
