(* ===== verification/Kitchen_Data.thy ===== *)
theory Kitchen_Data
  imports Money
begin

text \<open>
  The rows several components read: the catalogue (\<^verbatim>\<open>app/modules/catalog/models.py\<close>) and the
  orders (\<^verbatim>\<open>app/modules/orders/models.py\<close>). Each SQLAlchemy class is a record with the columns the
  modelled operations read or write; a nullable column is an \<open>option\<close>; a string column whose values
  a \<^verbatim>\<open>CHECK\<close> constraint closes is a datatype, and a status column without one keeps a constructor
  for every other string.
\<close>

subsection \<open>Catalogue\<close>

datatype station = Kitchen | Counter | NoStation

record category =
  cat_id :: int
  cat_name :: string
  cat_station :: "station option"

record product =
  prod_id :: int
  prod_category_id :: "int option"
  prod_name :: string
  prod_base_price :: rat
  prod_station :: "station option"
  prod_active :: bool

record availability_override =
  ov_id :: int
  ov_product_id :: int
  ov_available :: bool
  ov_reason :: "string option"
  ov_user :: int
  ov_created_at :: instant

record product_variant =
  var_id :: int
  var_product_id :: int
  var_name :: string
  var_price_delta :: rat
  var_active :: bool

record extra =
  ext_id :: int
  ext_name :: string
  ext_price :: rat
  ext_active :: bool

record menu =
  menu_id :: int
  menu_name :: string
  menu_fixed_price :: rat
  menu_active :: bool
  menu_available_from :: "instant option"
  menu_available_until :: "instant option"

record menu_group =
  mg_id :: int
  mg_menu_id :: int
  mg_name :: string
  mg_min_choices :: int
  mg_max_choices :: int
  mg_display_order :: int

record catalog =
  cat_categories :: "category list"
  cat_products :: "product list"
  cat_variants :: "product_variant list"
  cat_extras :: "extra list"
  cat_product_extras :: "(int \<times> int) list"
  cat_menus :: "menu list"
  cat_menu_groups :: "menu_group list"
  cat_menu_group_items :: "(int \<times> int) list"

subsection \<open>Orders\<close>

datatype order_type = Delivery_type | Pickup | Dine_in

datatype order_status =
  Pending | Confirmed | Queued | Preparing | Ready | Out_for_delivery
  | Delivered | Cancelled | Rejected | Delivery_failed | Other_status string

datatype payment_status = Pay_pending | Paid | Guaranteed | Other_payment string

datatype order_source = Src_customer | Src_manual | Src_system

datatype authority = Internal | External

datatype prep_status = Prep_pending | Prep_preparing | Prep_ready

datatype item_type = Item_product | Item_menu | Item_menu_component

record order =
  ord_id :: int
  ord_user_id :: "int option"
  ord_customer_email :: "string option"
  ord_customer_name :: "string option"
  ord_customer_phone :: "string option"
  ord_establishment_id :: "int option"
  ord_type :: order_type
  ord_status :: order_status
  ord_payment_status :: payment_status
  ord_source :: order_source
  ord_created_by :: "int option"
  ord_subtotal :: rat
  ord_discount_total :: rat
  ord_delivery_fee :: rat
  ord_total :: rat
  ord_delivery_address :: "string option"
  ord_delivery_zone_id :: "int option"
  ord_delivery_lat :: "rat option"
  ord_delivery_lng :: "rat option"
  ord_delivery_instructions :: "string option"
  ord_table_number :: "string option"
  ord_estimated_delivery_at :: "instant option"
  ord_idempotency_key :: "string option"
  ord_promo_code :: "string option"
  ord_delivery_code_nonce :: "string option"
  ord_created_at :: instant

record extra_line =
  xl_extra_id :: int
  xl_name :: string
  xl_quantity :: int
  xl_unit_price :: rat
  xl_total :: rat

record snapshot_selection =
  ss_group_id :: int
  ss_group_name :: string
  ss_product_id :: int
  ss_product_name :: string
  ss_variant_id :: "int option"
  ss_variant_name :: "string option"
  ss_quantity :: int
  ss_catalog_unit_price :: rat
  ss_extras :: "extra_line list"

record snapshot_group =
  sg_group_id :: int
  sg_group_name :: string
  sg_min_choices :: int
  sg_max_choices :: int
  sg_selections :: "snapshot_selection list"

record menu_snapshot =
  ms_menu_id :: int
  ms_menu_name :: string
  ms_fixed_price :: rat
  ms_groups :: "snapshot_group list"

record order_item =
  oi_id :: int
  oi_order_id :: int
  oi_type :: item_type
  oi_parent_item_id :: "int option"
  oi_menu_id :: "int option"
  oi_menu_name :: "string option"
  oi_menu_group_id :: "int option"
  oi_menu_group_name :: "string option"
  oi_menu_snapshot :: "menu_snapshot option"
  oi_product_id :: "int option"
  oi_variant_id :: "int option"
  oi_product_name :: "string option"
  oi_variant_name :: "string option"
  oi_extras_snapshot :: "extra_line list"
  oi_extras_total :: rat
  oi_quantity :: int
  oi_unit_price :: rat
  oi_catalog_unit_price :: "rat option"
  oi_total :: rat
  oi_prep_status :: prep_status
  oi_station :: station
  oi_prepared_at :: "instant option"
  oi_prepared_by :: "int option"

record status_history =
  hist_order_id :: int
  hist_status :: order_status
  hist_note :: "string option"
  hist_authority :: authority

text \<open>\<^verbatim>\<open>ck_order_items_type_shape\<close>: which references each kind of line carries.\<close>

definition item_shape_ok :: "order_item \<Rightarrow> bool" where
  "item_shape_ok it \<longleftrightarrow>
     (case oi_type it of
        Item_product \<Rightarrow>
          oi_product_id it \<noteq> None \<and> oi_parent_item_id it = None \<and> oi_menu_id it = None
      | Item_menu \<Rightarrow>
          oi_product_id it = None \<and> oi_parent_item_id it = None \<and> oi_menu_id it \<noteq> None
      | Item_menu_component \<Rightarrow>
          oi_product_id it \<noteq> None \<and> oi_parent_item_id it \<noteq> None \<and> oi_menu_id it \<noteq> None
          \<and> oi_menu_group_id it \<noteq> None)"

end
