(* ===== verification/Py_Text.thy ===== *)
theory Py_Text
  imports Kitchen_Prelude
begin

text \<open>
  The few string and list primitives of Python the source relies on: \<^verbatim>\<open>str.strip\<close>,
  \<^verbatim>\<open>str.lower\<close>, \<^verbatim>\<open>str.upper\<close>, \<^verbatim>\<open>str.split\<close> and \<^verbatim>\<open>min(..., key=...)\<close>. Characters are the
  ASCII range; case mapping of other code points is not modelled.
\<close>

definition py_space :: "char \<Rightarrow> bool" where
  "py_space c \<longleftrightarrow> (let n = (of_char c :: nat) in n = 32 \<or> (9 \<le> n \<and> n \<le> 13) \<or> (28 \<le> n \<and> n \<le> 31))"

definition py_strip :: "string \<Rightarrow> string" where
  "py_strip s = rev (dropWhile py_space (rev (dropWhile py_space s)))"

definition lower_char :: "char \<Rightarrow> char" where
  "lower_char c = (let n = (of_char c :: nat) in if 65 \<le> n \<and> n \<le> 90 then char_of (n + 32) else c)"

definition upper_char :: "char \<Rightarrow> char" where
  "upper_char c = (let n = (of_char c :: nat) in if 97 \<le> n \<and> n \<le> 122 then char_of (n - 32) else c)"

definition py_lower :: "string \<Rightarrow> string" where
  "py_lower = map lower_char"

definition py_upper :: "string \<Rightarrow> string" where
  "py_upper = map upper_char"

text \<open>\<^verbatim>\<open>s.split()\<close> and \<^verbatim>\<open>" ".join(parts)\<close>.\<close>

fun split_acc :: "string \<Rightarrow> string \<Rightarrow> string list" where
  "split_acc acc [] = (if acc = [] then [] else [rev acc])"
| "split_acc acc (c # cs) =
     (if py_space c then (if acc = [] then split_acc [] cs else rev acc # split_acc [] cs)
      else split_acc (c # acc) cs)"

definition py_split :: "string \<Rightarrow> string list" where
  "py_split s = split_acc [] s"

fun join_space :: "string list \<Rightarrow> string" where
  "join_space [] = []"
| "join_space [w] = w"
| "join_space (w # ws) = w @ '' '' @ join_space ws"

text \<open>\<^verbatim>\<open>min(b :: xs, key=f)\<close>: the first element with the least key.\<close>

fun py_min_by :: "('a \<Rightarrow> 'k::linorder) \<Rightarrow> 'a \<Rightarrow> 'a list \<Rightarrow> 'a" where
  "py_min_by f b [] = b"
| "py_min_by f b (x # xs) = py_min_by f (if f x < f b then x else b) xs"

lemma py_min_by_in: "py_min_by f b xs \<in> insert b (set xs)"
  by (induction xs arbitrary: b) auto

lemma py_min_by_le_base: "f (py_min_by f b xs) \<le> f b"
proof (induction xs arbitrary: b)
  case (Cons x xs)
  then show ?case
    using Cons.IH [of x] by (auto intro: order_trans less_imp_le)
qed simp

lemma py_min_by_le: "x \<in> set xs \<Longrightarrow> f (py_min_by f b xs) \<le> f x"
proof (induction xs arbitrary: b)
  case (Cons y ys)
  show ?case
  proof (cases "x = y")
    case True
    then show ?thesis
      using py_min_by_le_base [of f "if f y < f b then y else b" ys] by (auto split: if_splits)
  next
    case False
    then show ?thesis using Cons by auto
  qed
qed simp

lemma upper_char_idem [simp]: "upper_char (upper_char c) = upper_char c"
  by (auto simp: upper_char_def Let_def)

lemma py_upper_idem [simp]: "py_upper (py_upper s) = py_upper s"
  by (simp add: py_upper_def)

text \<open>\<^verbatim>\<open>str(n)\<close> for an integer.\<close>

fun nat_digits :: "nat \<Rightarrow> string" where
  "nat_digits n = (if n < 10 then [char_of (48 + n)] else nat_digits (n div 10) @ [char_of (48 + n mod 10)])"

declare nat_digits.simps [simp del]

definition py_str_int :: "int \<Rightarrow> string" where
  "py_str_int n = (if n < 0 then ''-'' @ nat_digits (nat (- n)) else nat_digits (nat n))"

end
