(* ===== verification/Stock_Batches.thy ===== *)
theory Stock_Batches
  imports Kitchen_Data Py_Text
begin

text \<open>
  Ingredients, their batches and the use-by dates (DLC) of \<^verbatim>\<open>app/modules/stock/service.py\<close>
  (lines 30 to 290) and \<^verbatim>\<open>app/modules/stock/models.py\<close>. A batch has up to three deadlines: the
  printed date, a delay after opening and a delay after the start of use; the earliest one counts.
\<close>

subsection \<open>Rows\<close>

record ingredient =
  ing_id :: int
  ing_name :: string
  ing_unit :: string
  current_qty :: rat
  alert_threshold :: rat
  purchase_price_per_unit :: "rat option"
  purchase_unit :: "string option"

datatype batch_status = Sealed | Opened | Expired | Consumed | Discarded

record ingredient_batch =
  bat_id :: int
  bat_ingredient_id :: int
  bat_quantity :: rat
  bat_received_at :: instant
  bat_expires_at :: "instant option"
  bat_opened_at :: "instant option"
  bat_use_within_hours :: "int option"
  bat_tertiary_started_at :: "instant option"
  bat_tertiary_use_within_hours :: "int option"
  bat_status :: batch_status
  bat_created_by :: "int option"

abbreviation hours :: "int \<Rightarrow> int" where
  "hours n \<equiv> n * 3600000000"

subsection \<open>Units\<close>

datatype unit_dimension = Mass | Volume | Count

definition unit_factors :: "(string \<times> unit_dimension \<times> rat) list" where
  "unit_factors =
    [(''g'', Mass, 1), (''gram'', Mass, 1), (''grams'', Mass, 1),
     (''kg'', Mass, 1000), (''kilogram'', Mass, 1000), (''kilograms'', Mass, 1000),
     (''ml'', Volume, 1), (''milliliter'', Volume, 1), (''milliliters'', Volume, 1),
     (''l'', Volume, 1000), (''liter'', Volume, 1000), (''liters'', Volume, 1000),
     (''piece'', Count, 1), (''pieces'', Count, 1), (''pc'', Count, 1), (''pcs'', Count, 1),
     (''unit'', Count, 1), (''units'', Count, 1), (''unite'', Count, 1), (''unites'', Count, 1),
     (''portion'', Count, 1), (''portions'', Count, 1)]"

definition clean_unit :: "string \<Rightarrow> string" where
  "clean_unit u = py_lower (py_strip u)"

definition normalize_quantity :: "rat \<Rightarrow> string option \<Rightarrow> ingredient \<Rightarrow> (rat \<times> string) res" where
  "normalize_quantity quantity from_unit ing =
    (let target_unit = clean_unit (ing_unit ing);
         source_unit = clean_unit
           (case from_unit of None \<Rightarrow> ing_unit ing | Some u \<Rightarrow> if u = [] then ing_unit ing else u)
     in if source_unit = target_unit then Inr (quantity, ing_unit ing)
        else (case (map_of unit_factors source_unit, map_of unit_factors target_unit) of
            (Some (d, f), Some (d', f')) \<Rightarrow>
              if d \<noteq> d' then Inl (AppError ''INVALID_RECIPE_UNIT'' 422)
              else Inr (quantity * f / f', ing_unit ing)
          | _ \<Rightarrow> Inl (AppError ''INVALID_RECIPE_UNIT'' 422)))"

subsection \<open>Deadlines\<close>

datatype dlc_level = Primary | Secondary | Tertiary

definition validate_primary_dlc :: "instant option \<Rightarrow> instant \<Rightarrow> instant res" where
  "validate_primary_dlc expires_at now =
    (case expires_at of
       None \<Rightarrow> Inl (AppError ''BATCH_DLC_REQUIRED'' 422)
     | Some e \<Rightarrow> if e \<le> now then Inl (AppError ''BATCH_DLC_EXPIRED'' 422) else Inr e)"

definition delayed :: "instant option \<Rightarrow> int option \<Rightarrow> instant option" where
  "delayed start dur =
    (case (start, dur) of
       (Some t, Some h) \<Rightarrow> if h = 0 then None else Some (t + hours h)
     | _ \<Rightarrow> None)"

definition secondary_batch_expires_at :: "ingredient_batch \<Rightarrow> instant option" where
  "secondary_batch_expires_at b = delayed (bat_opened_at b) (bat_use_within_hours b)"

definition tertiary_batch_expires_at :: "ingredient_batch \<Rightarrow> instant option" where
  "tertiary_batch_expires_at b =
     delayed (bat_tertiary_started_at b) (bat_tertiary_use_within_hours b)"

definition batch_deadlines :: "ingredient_batch \<Rightarrow> (dlc_level \<times> instant) list" where
  "batch_deadlines b =
     (case bat_expires_at b of None \<Rightarrow> [] | Some e \<Rightarrow> [(Primary, e)])
     @ (case secondary_batch_expires_at b of None \<Rightarrow> [] | Some e \<Rightarrow> [(Secondary, e)])
     @ (case tertiary_batch_expires_at b of None \<Rightarrow> [] | Some e \<Rightarrow> [(Tertiary, e)])"

definition effective_batch_dlc :: "ingredient_batch \<Rightarrow> (dlc_level \<times> instant) option" where
  "effective_batch_dlc b =
     (case batch_deadlines b of [] \<Rightarrow> None | d # ds \<Rightarrow> Some (py_min_by snd d ds))"

definition effective_batch_expires_at :: "ingredient_batch \<Rightarrow> instant option" where
  "effective_batch_expires_at b = map_option snd (effective_batch_dlc b)"

definition batch_is_expired :: "ingredient_batch \<Rightarrow> instant \<Rightarrow> bool" where
  "batch_is_expired b now =
     (case effective_batch_expires_at b of None \<Rightarrow> False | Some e \<Rightarrow> e \<le> now)"

definition usable_status :: "batch_status \<Rightarrow> bool" where
  "usable_status st \<longleftrightarrow> st = Sealed \<or> st = Opened"

definition batch_needs_dlc_regularization :: "ingredient_batch \<Rightarrow> bool" where
  "batch_needs_dlc_regularization b \<longleftrightarrow> usable_status (bat_status b) \<and> bat_expires_at b = None"

definition batch_is_usable :: "ingredient_batch \<Rightarrow> instant \<Rightarrow> bool" where
  "batch_is_usable b now \<longleftrightarrow>
     usable_status (bat_status b) \<and> bat_expires_at b \<noteq> None \<and> \<not> batch_is_expired b now"

text \<open>An absent or empty id set means every ingredient (\<^verbatim>\<open>if ingredient_ids:\<close>).\<close>

definition batch_in_scope :: "int list option \<Rightarrow> ingredient_batch \<Rightarrow> bool" where
  "batch_in_scope ids b \<longleftrightarrow>
     (case ids of None \<Rightarrow> True | Some sel \<Rightarrow> sel = [] \<or> bat_ingredient_id b \<in> set sel)"

definition mark_batch :: "int list option \<Rightarrow> instant \<Rightarrow> ingredient_batch \<Rightarrow> ingredient_batch" where
  "mark_batch ids now b =
     (if usable_status (bat_status b) \<and> batch_in_scope ids b \<and> batch_is_expired b now
      then b\<lparr>bat_status := Expired\<rparr> else b)"

definition mark_expired_batches ::
    "int list option \<Rightarrow> instant \<Rightarrow> ingredient_batch list \<Rightarrow> ingredient_batch list" where
  "mark_expired_batches ids now = map (mark_batch ids now)"

subsection \<open>Usable stock\<close>

record usable_stock =
  us_ingredient_id :: int
  us_current_qty :: rat
  us_usable_qty :: rat
  us_blocked_qty :: rat
  us_expired_batch_count :: nat
  us_regularize_batch_count :: nat

definition usable_qty :: "ingredient \<Rightarrow> ingredient_batch list \<Rightarrow> instant \<Rightarrow> rat" where
  "usable_qty ing bs now =
     max 0 (min (current_qty ing)
       (sum_list (map bat_quantity (filter (\<lambda>b. batch_is_usable b now) bs))))"

definition usable_stock_payload ::
    "ingredient \<Rightarrow> ingredient_batch list \<Rightarrow> instant \<Rightarrow> usable_stock" where
  "usable_stock_payload ing bs now =
     \<lparr>us_ingredient_id = ing_id ing,
      us_current_qty = current_qty ing,
      us_usable_qty = usable_qty ing bs now,
      us_blocked_qty = max 0 (current_qty ing - usable_qty ing bs now),
      us_expired_batch_count =
        length (filter (\<lambda>b. bat_status b = Expired \<or> batch_is_expired b now) bs),
      us_regularize_batch_count = length (filter batch_needs_dlc_regularization bs)\<rparr>"

definition batches_for_ingredient :: "int \<Rightarrow> ingredient_batch list \<Rightarrow> ingredient_batch list" where
  "batches_for_ingredient i bs = filter (\<lambda>b. bat_ingredient_id b = i) bs"

definition usable_quantities_for_ingredients ::
    "ingredient list \<Rightarrow> instant \<Rightarrow> ingredient_batch list
      \<Rightarrow> ingredient_batch list \<times> (int \<times> usable_stock) list" where
  "usable_quantities_for_ingredients ings now bs =
     (let bs' = mark_expired_batches (Some (map ing_id ings)) now bs
      in (bs', map (\<lambda>ing. (ing_id ing,
            usable_stock_payload ing (batches_for_ingredient (ing_id ing) bs') now)) ings))"

record batch_out =
  bp_id :: int
  bp_ingredient_id :: int
  bp_quantity :: rat
  bp_received_at :: instant
  bp_primary_expires_at :: "instant option"
  bp_secondary_started_at :: "instant option"
  bp_secondary_use_within_hours :: "int option"
  bp_secondary_expires_at :: "instant option"
  bp_tertiary_started_at :: "instant option"
  bp_tertiary_use_within_hours :: "int option"
  bp_tertiary_expires_at :: "instant option"
  bp_effective_expires_at :: "instant option"
  bp_effective_dlc_level :: "dlc_level option"
  bp_status :: batch_status

definition batch_payload :: "ingredient_batch \<Rightarrow> batch_out" where
  "batch_payload b =
     \<lparr>bp_id = bat_id b, bp_ingredient_id = bat_ingredient_id b, bp_quantity = bat_quantity b,
      bp_received_at = bat_received_at b, bp_primary_expires_at = bat_expires_at b,
      bp_secondary_started_at = bat_opened_at b,
      bp_secondary_use_within_hours = bat_use_within_hours b,
      bp_secondary_expires_at = secondary_batch_expires_at b,
      bp_tertiary_started_at = bat_tertiary_started_at b,
      bp_tertiary_use_within_hours = bat_tertiary_use_within_hours b,
      bp_tertiary_expires_at = tertiary_batch_expires_at b,
      bp_effective_expires_at = map_option snd (effective_batch_dlc b),
      bp_effective_dlc_level = map_option fst (effective_batch_dlc b),
      bp_status = bat_status b\<rparr>"

subsection \<open>Lemmas\<close>

lemmas batch_defs = batch_is_usable_def batch_is_expired_def effective_batch_expires_at_def
  effective_batch_dlc_def batch_deadlines_def secondary_batch_expires_at_def
  tertiary_batch_expires_at_def

lemma effective_dlc_None_iff: "effective_batch_dlc b = None \<longleftrightarrow> batch_deadlines b = []"
  by (simp add: effective_batch_dlc_def split: list.splits)

lemma effective_dlc_least:
  assumes "effective_batch_dlc b = Some d"
  shows "d \<in> set (batch_deadlines b)" and "e \<in> set (batch_deadlines b) \<Longrightarrow> snd d \<le> snd e"
proof -
  from assms obtain x xs where l: "batch_deadlines b = x # xs" and d: "d = py_min_by snd x xs"
    by (auto simp: effective_batch_dlc_def split: list.splits)
  show "d \<in> set (batch_deadlines b)"
    using py_min_by_in [of snd x xs] by (auto simp: l d)
  show "snd d \<le> snd e" if "e \<in> set (batch_deadlines b)"
    using that py_min_by_le_base [of snd x xs] py_min_by_le [of e xs snd x]
    by (auto simp: l d)
qed

text \<open>Expiry as a statement about the deadlines themselves.\<close>

lemma batch_is_expired_iff:
  "batch_is_expired b now \<longleftrightarrow> (\<exists>d \<in> set (batch_deadlines b). snd d \<le> now)"
proof (cases "effective_batch_dlc b")
  case None
  then show ?thesis
    using effective_dlc_None_iff [of b]
    by (simp add: batch_is_expired_def effective_batch_expires_at_def)
next
  case (Some d)
  then show ?thesis
    using effective_dlc_least [OF Some]
    by (auto simp: batch_is_expired_def effective_batch_expires_at_def intro: order_trans)
qed

lemma batch_is_expired_mono: "batch_is_expired b t \<Longrightarrow> t \<le> t' \<Longrightarrow> batch_is_expired b t'"
  by (auto simp: batch_is_expired_iff intro: order_trans)

lemma batch_is_expired_status [simp]:
  "batch_is_expired (b\<lparr>bat_status := st\<rparr>) now = batch_is_expired b now"
  by (simp add: batch_defs)

lemma batch_is_usable_Expired [simp]: "\<not> batch_is_usable (b\<lparr>bat_status := Expired\<rparr>) now"
  by (simp add: batch_is_usable_def usable_status_def)

text \<open>Marking rewrites the status only, and does not change which batches are usable: an expired
  batch was already unusable.\<close>

lemma mark_batch_fields [simp]:
  "bat_id (mark_batch ids now b) = bat_id b"
  "bat_ingredient_id (mark_batch ids now b) = bat_ingredient_id b"
  "bat_quantity (mark_batch ids now b) = bat_quantity b"
  "batch_is_expired (mark_batch ids now b) t = batch_is_expired b t"
  by (simp_all add: mark_batch_def)

lemma mark_batch_usable [simp]: "batch_is_usable (mark_batch ids now b) now = batch_is_usable b now"
  by (simp add: mark_batch_def) (simp add: batch_is_usable_def)

lemma mark_batch_idem [simp]: "mark_batch ids now (mark_batch ids now b) = mark_batch ids now b"
proof (cases "usable_status (bat_status b) \<and> batch_in_scope ids b \<and> batch_is_expired b now")
  case True
  then show ?thesis by (simp add: mark_batch_def)
next
  case False
  then show ?thesis by (simp only: mark_batch_def if_False)
qed

lemma mark_expired_length [simp]: "length (mark_expired_batches ids now bs) = length bs"
  by (simp add: mark_expired_batches_def)

lemma mark_expired_ids [simp]:
  "map bat_id (mark_expired_batches ids now bs) = map bat_id bs"
  "map bat_quantity (mark_expired_batches ids now bs) = map bat_quantity bs"
  "map bat_ingredient_id (mark_expired_batches ids now bs) = map bat_ingredient_id bs"
  by (simp_all add: mark_expired_batches_def)

lemma mark_expired_idem [simp]:
  "mark_expired_batches ids now (mark_expired_batches ids now bs) = mark_expired_batches ids now bs"
  by (simp add: mark_expired_batches_def)

lemma usable_sum_after_mark:
  "sum_list (map bat_quantity
     (filter (\<lambda>b. batch_is_usable b now) (batches_for_ingredient i (mark_expired_batches ids now bs)))) =
   sum_list (map bat_quantity
     (filter (\<lambda>b. batch_is_usable b now) (batches_for_ingredient i bs)))"
  by (induction bs) (simp_all add: mark_expired_batches_def batches_for_ingredient_def)

lemma usable_qty_after_mark [simp]:
  "usable_qty ing (batches_for_ingredient i (mark_expired_batches ids now bs)) now =
   usable_qty ing (batches_for_ingredient i bs) now"
  by (simp add: usable_qty_def usable_sum_after_mark)

lemma usable_qty_bounds:
  "0 \<le> usable_qty ing bs now"
  "0 \<le> current_qty ing \<Longrightarrow> usable_qty ing bs now \<le> current_qty ing"
  by (auto simp: usable_qty_def)

end
