(* ===== verification/Stock_Recipes.thy ===== *)
theory Stock_Recipes
  imports Stock_Batches
begin

text \<open>
  The stock tables of one tenant and the recipe side of \<^verbatim>\<open>app/modules/stock/service.py\<close>: what an
  order line consumes (\<^verbatim>\<open>_item_recipe_deltas\<close>), whether a product can be produced
  (\<^verbatim>\<open>get_products_availability\<close>) and the automatic unavailability overrides
  (\<^verbatim>\<open>sync_auto_stock_availability_overrides\<close>). A query without \<^verbatim>\<open>ORDER BY\<close> returns the rows in
  table order.
\<close>

subsection \<open>Tables\<close>

record recipe_line =
  rl_id :: int
  rl_target_id :: int
  rl_ingredient_id :: int
  rl_quantity :: rat
  rl_unit :: "string option"

datatype recipe_type = Product_recipe | Variant_recipe | Extra_recipe

datatype movement_reason =
  Order_reason int | Cancel_reason int | Batch_reason int | Batch_adjust_reason int
  | Request_reason string | Free_reason string

record stock_movement =
  mv_ingredient_id :: int
  mv_delta :: rat
  mv_reason :: movement_reason
  mv_user :: "int option"

datatype request_status = Req_pending | Req_approved | Req_rejected

record adjustment_request =
  req_id :: int
  req_ingredient_id :: int
  req_delta :: rat
  req_reason :: string
  req_note :: "string option"
  req_status :: request_status
  req_requested_by :: int
  req_reviewed_by :: "int option"
  req_reviewed_at :: "instant option"

record recipe_item =
  ri_id :: int
  ri_ingredient_id :: int
  ri_ingredient_name :: "string option"
  ri_quantity :: rat
  ri_unit :: "string option"

record recipe_audit =
  ra_type :: recipe_type
  ra_target :: int
  ra_user :: "int option"
  ra_old :: "recipe_item list"
  ra_new :: "recipe_item list"

record stock_db =
  st_catalog :: catalog
  st_ingredients :: "ingredient list"
  st_batches :: "ingredient_batch list"
  st_movements :: "stock_movement list"
  st_product_recipes :: "recipe_line list"
  st_variant_recipes :: "recipe_line list"
  st_extra_recipes :: "recipe_line list"
  st_audits :: "recipe_audit list"
  st_requests :: "adjustment_request list"
  st_overrides :: "availability_override list"
  st_override_seq :: int
  st_large_threshold :: "rat option option"

abbreviation get_ingredient :: "int \<Rightarrow> stock_db \<Rightarrow> ingredient option" where
  "get_ingredient i s \<equiv> row_get ing_id i (st_ingredients s)"

abbreviation upd_ingredient :: "int \<Rightarrow> (ingredient \<Rightarrow> ingredient) \<Rightarrow> stock_db \<Rightarrow> stock_db" where
  "upd_ingredient i f s \<equiv> s\<lparr>st_ingredients := row_upd ing_id i f (st_ingredients s)\<rparr>"

abbreviation set_qty :: "rat \<Rightarrow> ingredient \<Rightarrow> ingredient" where
  "set_qty q ing \<equiv> ing\<lparr>current_qty := q\<rparr>"

interpretation ing_qty: keyed_table ing_id "\<lambda>q ing. set_qty q ing"
  by unfold_locales simp

interpretation ing_delta: keyed_table ing_id "\<lambda>d ing. set_qty (current_qty ing + d) ing"
  by unfold_locales simp

subsection \<open>What an order line consumes\<close>

definition recipe_lines_for :: "int \<Rightarrow> recipe_line list \<Rightarrow> recipe_line list" where
  "recipe_lines_for t rs = filter (\<lambda>r. rl_target_id r = t) rs"

definition extra_quantities :: "order_item \<Rightarrow> (int \<times> int) list" where
  "extra_quantities it = dict_of (map (\<lambda>x. (xl_extra_id x, xl_quantity x)) (oi_extras_snapshot it))"

definition item_recipe_deltas :: "stock_db \<Rightarrow> order_item \<Rightarrow> (int \<times> rat) list" where
  "item_recipe_deltas s it =
    (case oi_product_id it of
       None \<Rightarrow> []
     | Some p \<Rightarrow>
         map (\<lambda>r. (rl_ingredient_id r, rl_quantity r * of_int (oi_quantity it)))
           (recipe_lines_for p (st_product_recipes s))
         @ (case oi_variant_id it of
              None \<Rightarrow> []
            | Some v \<Rightarrow> map (\<lambda>r. (rl_ingredient_id r, rl_quantity r * of_int (oi_quantity it)))
                (recipe_lines_for v (st_variant_recipes s)))
         @ (let eq = extra_quantities it
            in map (\<lambda>r. (rl_ingredient_id r, rl_quantity r * of_int (oi_quantity it)
                   * of_int (case map_of eq (rl_target_id r) of None \<Rightarrow> 0 | Some q \<Rightarrow> q)))
                 (filter (\<lambda>r. rl_target_id r \<in> fst ` set eq) (st_extra_recipes s))))"

subsection \<open>Availability of products\<close>

record product_availability =
  pa_product_id :: int
  pa_available :: bool
  pa_limiting :: "string option"
  pa_reason :: "string option"

definition stock_unavailable_reason :: "string option \<Rightarrow> string" where
  "stock_unavailable_reason l =
     (case l of None \<Rightarrow> ''Stock insuffisant''
      | Some n \<Rightarrow> if n = [] then ''Stock insuffisant'' else ''Stock insuffisant : '' @ n)"

definition dlc_unavailable_reason :: "string option \<Rightarrow> string" where
  "dlc_unavailable_reason l =
     (case l of None \<Rightarrow> ''DLC expiree''
      | Some n \<Rightarrow> if n = [] then ''DLC expiree'' else ''DLC expiree : '' @ n)"

text \<open>\<^verbatim>\<open>required_by_product\<close>: one entry per recipe line of the product, of each of its active
  variants and of each of its active extras.\<close>

definition required_entries :: "stock_db \<Rightarrow> int \<Rightarrow> (int \<times> rat) list" where
  "required_entries s p =
     map (\<lambda>r. (rl_ingredient_id r, rl_quantity r)) (recipe_lines_for p (st_product_recipes s))
     @ concat (map (\<lambda>v. map (\<lambda>r. (rl_ingredient_id r, rl_quantity r))
           (recipe_lines_for (var_id v) (st_variant_recipes s)))
         (filter (\<lambda>v. var_product_id v = p \<and> var_active v) (cat_variants (st_catalog s))))
     @ concat (map (\<lambda>pe. map (\<lambda>r. (rl_ingredient_id r, rl_quantity r))
           (recipe_lines_for (snd pe) (st_extra_recipes s)))
         (filter (\<lambda>pe. fst pe = p \<and>
             (\<exists>x \<in> set (cat_extras (st_catalog s)). ext_id x = snd pe \<and> ext_active x))
           (cat_product_extras (st_catalog s))))"

definition usable_of :: "(int \<times> usable_stock) list \<Rightarrow> ingredient \<Rightarrow> rat" where
  "usable_of us ing =
     (case map_of us (ing_id ing) of None \<Rightarrow> current_qty ing | Some u \<Rightarrow> us_usable_qty u)"

fun first_limiting ::
    "stock_db \<Rightarrow> (int \<times> usable_stock) list \<Rightarrow> (int \<times> rat) list \<Rightarrow> (string \<times> string) option" where
  "first_limiting s us [] = None"
| "first_limiting s us ((i, q) # req) =
     (case get_ingredient i s of
        None \<Rightarrow> first_limiting s us req
      | Some ing \<Rightarrow>
          if current_qty ing < q
          then Some (ing_name ing, stock_unavailable_reason (Some (ing_name ing)))
          else if usable_of us ing < q
          then Some (ing_name ing, dlc_unavailable_reason (Some (ing_name ing)))
          else first_limiting s us req)"

definition product_availability_of ::
    "stock_db \<Rightarrow> (int \<times> usable_stock) list \<Rightarrow> int \<Rightarrow> product_availability" where
  "product_availability_of s us p =
     (let req = dict_of (required_entries s p)
      in if req = [] then \<lparr>pa_product_id = p, pa_available = True, pa_limiting = None, pa_reason = None\<rparr>
         else let l = first_limiting s us req
              in \<lparr>pa_product_id = p, pa_available = (l = None),
                  pa_limiting = map_option fst l, pa_reason = map_option snd l\<rparr>)"

definition get_products_availability ::
    "int list \<Rightarrow> instant \<Rightarrow> stock_db \<Rightarrow> stock_db \<times> (int \<times> product_availability) list" where
  "get_products_availability pids now s =
     (if pids = [] then (s, [])
      else
        let used = concat (map (\<lambda>p. map fst (required_entries s p)) pids);
            ings = filter (\<lambda>ing. ing_id ing \<in> set used) (st_ingredients s);
            (bs, us) = usable_quantities_for_ingredients ings now (st_batches s)
        in (s\<lparr>st_batches := bs\<rparr>, map (\<lambda>p. (p, product_availability_of s us p)) pids))"

definition get_product_availability ::
    "int \<Rightarrow> instant \<Rightarrow> stock_db \<Rightarrow> (stock_db \<times> product_availability) res" where
  "get_product_availability p now s =
     (case row_get prod_id p (cat_products (st_catalog s)) of
        None \<Rightarrow> Inl (AppError ''PRODUCT_NOT_FOUND'' 404)
      | Some _ \<Rightarrow>
          (case get_products_availability [p] now s of
             (s', (_, pa) # _) \<Rightarrow> Inr (s', pa)
           | (s', []) \<Rightarrow> Inl (AppError ''KeyError'' 500)))"

subsection \<open>Automatic overrides\<close>

definition later_override ::
    "availability_override \<Rightarrow> availability_override \<Rightarrow> bool" where
  "later_override a b \<longleftrightarrow> ov_created_at a > ov_created_at b
     \<or> (ov_created_at a = ov_created_at b \<and> ov_id a > ov_id b)"

definition latest_override :: "int \<Rightarrow> availability_override list \<Rightarrow> availability_override option" where
  "latest_override p ovs =
     fold (\<lambda>a best. if ov_product_id a \<noteq> p then best
        else (case best of None \<Rightarrow> Some a | Some b \<Rightarrow> if later_override a b then Some a else Some b))
       ovs None"

definition latest_unavailable :: "stock_db \<Rightarrow> int \<Rightarrow> bool" where
  "latest_unavailable s p \<longleftrightarrow>
     (case latest_override p (st_overrides s) of None \<Rightarrow> False | Some a \<Rightarrow> \<not> ov_available a)"

definition add_override :: "instant \<Rightarrow> product_availability \<Rightarrow> stock_db \<Rightarrow> stock_db" where
  "add_override now pa s =
     s\<lparr>st_overrides := st_overrides s @
        [\<lparr>ov_id = st_override_seq s + 1, ov_product_id = pa_product_id pa, ov_available = False,
          ov_reason = Some (case pa_reason pa of
              None \<Rightarrow> stock_unavailable_reason (pa_limiting pa)
            | Some r \<Rightarrow> if r = [] then stock_unavailable_reason (pa_limiting pa) else r),
          ov_user = 0, ov_created_at = now\<rparr>],
       st_override_seq := st_override_seq s + 1\<rparr>"

fun create_overrides ::
    "instant \<Rightarrow> (int \<Rightarrow> bool) \<Rightarrow> product_availability list \<Rightarrow> stock_db \<Rightarrow> stock_db" where
  "create_overrides now already [] s = s"
| "create_overrides now already (pa # pas) s =
     create_overrides now already pas
       (if already (pa_product_id pa) then s else add_override now pa s)"

definition sync_auto_stock_availability_overrides ::
    "int list option \<Rightarrow> instant \<Rightarrow> stock_db \<Rightarrow> stock_db" where
  "sync_auto_stock_availability_overrides product_ids now s =
     (let pids = (case product_ids of
            None \<Rightarrow> map prod_id (filter prod_active (cat_products (st_catalog s)))
          | Some ps \<Rightarrow> filter (\<lambda>p. p \<noteq> 0) ps);
          pids = sort (remdups pids)
      in if pids = [] then s
         else let (s', av) = get_products_availability pids now s
              in create_overrides now (latest_unavailable s')
                   (filter (\<lambda>pa. \<not> pa_available pa) (map snd av)) s')"

definition product_ids_for_ingredients :: "stock_db \<Rightarrow> int list \<Rightarrow> int list" where
  "product_ids_for_ingredients s sel =
     remdups
      (map rl_target_id (filter (\<lambda>r. rl_ingredient_id r \<in> set sel) (st_product_recipes s))
       @ concat (map (\<lambda>r. map var_product_id
            (filter (\<lambda>v. var_id v = rl_target_id r) (cat_variants (st_catalog s))))
          (filter (\<lambda>r. rl_ingredient_id r \<in> set sel) (st_variant_recipes s)))
       @ concat (map (\<lambda>r. map fst
            (filter (\<lambda>pe. snd pe = rl_target_id r) (cat_product_extras (st_catalog s))))
          (filter (\<lambda>r. rl_ingredient_id r \<in> set sel) (st_extra_recipes s))))"

definition product_ids_for_recipe_target :: "stock_db \<Rightarrow> recipe_type \<Rightarrow> int \<Rightarrow> int list" where
  "product_ids_for_recipe_target s rt t =
     (case rt of
        Product_recipe \<Rightarrow> [t]
      | Variant_recipe \<Rightarrow>
          (case row_get var_id t (cat_variants (st_catalog s)) of
             None \<Rightarrow> [] | Some v \<Rightarrow> [var_product_id v])
      | Extra_recipe \<Rightarrow>
          map fst (filter (\<lambda>pe. snd pe = t) (cat_product_extras (st_catalog s))))"

subsection \<open>Lemmas\<close>

lemma map_of_ingredient_table:
  assumes "row_get ing_id i rows = Some ing" and "P i"
  shows "map_of (map (\<lambda>x. (ing_id x, f x)) (filter (\<lambda>x. P (ing_id x)) rows)) i = Some (f ing)"
  using assms by (induction rows) (auto simp: row_simps split: if_splits)

lemma usable_of_table:
  assumes "get_ingredient i s = Some ing" and "P i"
  shows "usable_of (snd (usable_quantities_for_ingredients
           (filter (\<lambda>x. P (ing_id x)) (st_ingredients s)) now (st_batches s))) ing =
         usable_qty ing (batches_for_ingredient i (st_batches s)) now"
proof -
  have "ing_id ing = i" using row_get_SomeD [OF assms(1)] by simp
  then show ?thesis
    by (simp add: usable_of_def usable_quantities_for_ingredients_def Let_def
        map_of_ingredient_table [where P = P, OF assms])
       (simp add: usable_stock_payload_def)
qed

lemma first_limiting_None_iff:
  "first_limiting s us req = None \<longleftrightarrow>
   (\<forall>i q ing. (i, q) \<in> set req \<longrightarrow> get_ingredient i s = Some ing \<longrightarrow>
      q \<le> current_qty ing \<and> q \<le> usable_of us ing)"
proof (induction s us req rule: first_limiting.induct)
  case (2 s us i q req)
  show ?case
  proof (cases "get_ingredient i s")
    case None
    then show ?thesis using 2 by auto
  next
    case (Some a)
    show ?thesis
    proof (cases "q \<le> current_qty a \<and> q \<le> usable_of us a")
      case True
      then show ?thesis using 2 Some by (auto simp: not_less)
    next
      case False
      then have "first_limiting s us ((i, q) # req) \<noteq> None" using Some by auto
      moreover have "\<exists>i' q' ing. (i', q') \<in> set ((i, q) # req) \<and> get_ingredient i' s = Some ing
          \<and> \<not> (q' \<le> current_qty ing \<and> q' \<le> usable_of us ing)"
        using False Some by (intro exI [of _ i] exI [of _ q] exI [of _ a]) simp
      ultimately show ?thesis by blast
    qed
  qed
qed simp

lemma dict_of_eq_Nil_iff: "dict_of (xs :: (int \<times> rat) list) = [] \<longleftrightarrow> xs = []"
proof
  assume e: "dict_of xs = []"
  have "set (map fst xs) = {}"
    using e map_of_dict_of [of xs] by (metis equals0I map_of.simps(1) option.distinct(1) set_map)
  then show "xs = []" by simp
qed (simp add: dict_of_def)

lemma product_availability_of_iff:
  "pa_available (product_availability_of s us p) \<longleftrightarrow>
   (\<forall>i ing. i \<in> fst ` set (required_entries s p) \<longrightarrow> get_ingredient i s = Some ing \<longrightarrow>
      total_for i (required_entries s p) \<le> current_qty ing \<and>
      total_for i (required_entries s p) \<le> usable_of us ing)"
  by (auto simp: product_availability_of_def Let_def first_limiting_None_iff set_dict_of
      dict_of_eq_Nil_iff)

text \<open>A product is reported available exactly when every known ingredient of its recipes covers the
  summed requirement, both in current and in usable quantity.\<close>

lemma products_availability_iff:
  assumes "get_products_availability pids now s = (s', av)" and "(p, pa) \<in> set av"
  shows "pa_available pa \<longleftrightarrow>
    (\<forall>i ing. i \<in> fst ` set (required_entries s p) \<longrightarrow> get_ingredient i s = Some ing \<longrightarrow>
      total_for i (required_entries s p) \<le> current_qty ing \<and>
      total_for i (required_entries s p) \<le> usable_qty ing (batches_for_ingredient i (st_batches s)) now)"
proof -
  define used where "used = set (concat (map (\<lambda>p. map fst (required_entries s p)) pids))"
  define us where "us = snd (usable_quantities_for_ingredients
      (filter (\<lambda>x. ing_id x \<in> used) (st_ingredients s)) now (st_batches s))"
  have p: "p \<in> set pids" and pa: "pa = product_availability_of s us p"
    using assms by (auto simp: get_products_availability_def us_def used_def Let_def split_beta
        split: if_splits)
  have us: "usable_of us ing = usable_qty ing (batches_for_ingredient i (st_batches s)) now"
    if "i \<in> fst ` set (required_entries s p)" "get_ingredient i s = Some ing" for i ing
    unfolding us_def using p that by (intro usable_of_table) (auto simp: used_def)
  show ?thesis
    unfolding pa product_availability_of_iff using us by (metis (no_types, lifting))
qed

lemma products_availability_frame [simp]:
  "fst (get_products_availability pids now s) =
     s\<lparr>st_batches := st_batches (fst (get_products_availability pids now s))\<rparr>"
  by (simp add: get_products_availability_def Let_def split_beta)

lemma products_availability_batches:
  "st_batches (fst (get_products_availability pids now s)) = st_batches s \<or>
   (\<exists>ids. st_batches (fst (get_products_availability pids now s)) =
      mark_expired_batches ids now (st_batches s))"
  by (auto simp: get_products_availability_def usable_quantities_for_ingredients_def Let_def)

lemma create_overrides_frame:
  "\<exists>new. create_overrides now al pas s =
     s\<lparr>st_overrides := st_overrides s @ new, st_override_seq := st_override_seq s + int (length new)\<rparr>
     \<and> (\<forall>a \<in> set new. \<not> ov_available a \<and> ov_user a = 0 \<and> ov_created_at a = now
          \<and> \<not> al (ov_product_id a))"
proof (induction pas arbitrary: s)
  case (Cons pa pas)
  show ?case
  proof (cases "al (pa_product_id pa)")
    case True
    then show ?thesis using Cons.IH [of s] by simp
  next
    case False
    obtain new where n: "create_overrides now al pas (add_override now pa s) =
        (add_override now pa s)\<lparr>st_overrides := st_overrides (add_override now pa s) @ new,
          st_override_seq := st_override_seq (add_override now pa s) + int (length new)\<rparr>"
      "\<forall>a \<in> set new. \<not> ov_available a \<and> ov_user a = 0 \<and> ov_created_at a = now
          \<and> \<not> al (ov_product_id a)"
      using Cons.IH [of "add_override now pa s"] by blast
    let ?a = "last (st_overrides (add_override now pa s))"
    have "create_overrides now al (pa # pas) s =
        s\<lparr>st_overrides := st_overrides s @ (?a # new),
          st_override_seq := st_override_seq s + int (length (?a # new))\<rparr>"
      using n(1) False by (simp add: add_override_def)
    moreover have "\<not> ov_available ?a \<and> ov_user ?a = 0 \<and> ov_created_at ?a = now
        \<and> \<not> al (ov_product_id ?a)"
      using False by (simp add: add_override_def)
    ultimately show ?thesis using n(2) by (intro exI [of _ "?a # new"]) simp
  qed
qed (intro exI [of _ "[]"], simp)

lemma create_overrides_same [simp]:
  "st_ingredients (create_overrides now al pas s) = st_ingredients s"
  "st_batches (create_overrides now al pas s) = st_batches s"
  "st_movements (create_overrides now al pas s) = st_movements s"
  "st_product_recipes (create_overrides now al pas s) = st_product_recipes s"
  "st_variant_recipes (create_overrides now al pas s) = st_variant_recipes s"
  "st_extra_recipes (create_overrides now al pas s) = st_extra_recipes s"
  "st_requests (create_overrides now al pas s) = st_requests s"
  "st_audits (create_overrides now al pas s) = st_audits s"
  "st_catalog (create_overrides now al pas s) = st_catalog s"
  "st_large_threshold (create_overrides now al pas s) = st_large_threshold s"
  using create_overrides_frame [of now al pas s] by auto

lemma sync_frame [simp]:
  "st_ingredients (sync_auto_stock_availability_overrides ps now s) = st_ingredients s"
  "st_movements (sync_auto_stock_availability_overrides ps now s) = st_movements s"
  "st_product_recipes (sync_auto_stock_availability_overrides ps now s) = st_product_recipes s"
  "st_variant_recipes (sync_auto_stock_availability_overrides ps now s) = st_variant_recipes s"
  "st_extra_recipes (sync_auto_stock_availability_overrides ps now s) = st_extra_recipes s"
  "st_requests (sync_auto_stock_availability_overrides ps now s) = st_requests s"
  "st_audits (sync_auto_stock_availability_overrides ps now s) = st_audits s"
  "st_catalog (sync_auto_stock_availability_overrides ps now s) = st_catalog s"
  "st_large_threshold (sync_auto_stock_availability_overrides ps now s) = st_large_threshold s"
  by (simp_all add: sync_auto_stock_availability_overrides_def Let_def split_beta
      get_products_availability_def)

end
