(* ===== verification/Machines.thy ===== *)
theory Machines
  imports Kitchen_Prelude
begin

text \<open>
  Two contracts that several components satisfy. A component's operations form a step relation on
  its tables; \<open>invariant_steps\<close> is the contract "every operation keeps the invariant" and lifts it
  to every run, \<open>ledger\<close> is the contract "a balance moves only together with the journal rows that
  explain it" and concludes that balance minus journal never drifts. The stock and loyalty theories
  interpret both on their own operations.
\<close>

locale invariant_steps =
  fixes step :: "'s \<Rightarrow> 's \<Rightarrow> bool" and inv :: "'s \<Rightarrow> bool"
  assumes step_inv: "step s s' \<Longrightarrow> inv s \<Longrightarrow> inv s'"
begin

lemma run_inv: "step\<^sup>*\<^sup>* s s' \<Longrightarrow> inv s \<Longrightarrow> inv s'"
  by (induction rule: rtranclp_induct) (auto intro: step_inv)

end

locale ledger =
  fixes bal :: "'s \<Rightarrow> 'k \<Rightarrow> 'v::ab_group_add"
    and entries :: "'s \<Rightarrow> ('k \<times> 'v) list"
    and live :: "'s \<Rightarrow> 'k set"
    and step :: "'s \<Rightarrow> 's \<Rightarrow> bool"
  assumes step_live: "step s s' \<Longrightarrow> k \<in> live s \<Longrightarrow> k \<in> live s'"
    and step_balanced: "step s s' \<Longrightarrow> k \<in> live s \<Longrightarrow>
      bal s' k - total_for k (entries s') = bal s k - total_for k (entries s)"
begin

lemma run_live: "step\<^sup>*\<^sup>* s s' \<Longrightarrow> k \<in> live s \<Longrightarrow> k \<in> live s'"
  by (induction rule: rtranclp_induct) (auto intro: step_live)

lemma run_balanced:
  assumes "step\<^sup>*\<^sup>* s s'" and "k \<in> live s"
  shows "bal s' k - total_for k (entries s') = bal s k - total_for k (entries s)"
  using assms
proof (induction rule: rtranclp_induct)
  case (step t u)
  from step.hyps(1) step.prems have "k \<in> live t" by (rule run_live)
  with step show ?case by (simp add: step_balanced)
qed simp

lemma run_explained:
  assumes "step\<^sup>*\<^sup>* s s'" and "k \<in> live s" and "entries s' = entries s @ new"
  shows "bal s' k = bal s k + total_for k new"
  using run_balanced [OF assms(1,2)] assms(3) by (simp add: algebra_simps)

end

text \<open>A ledger whose balances start equal to their journal keeps them equal.\<close>

locale closed_ledger = ledger +
  assumes step_open: "step s s' \<Longrightarrow> k \<in> live s' \<Longrightarrow> k \<notin> live s \<Longrightarrow>
      bal s' k = total_for k (entries s')"
begin

lemma run_reconciled:
  assumes "step\<^sup>*\<^sup>* s s'" and "\<forall>k \<in> live s. bal s k = total_for k (entries s)"
  shows "\<forall>k \<in> live s'. bal s' k = total_for k (entries s')"
  using assms
proof (induction rule: rtranclp_induct)
  case (step t u)
  show ?case
  proof
    fix k assume k: "k \<in> live u"
    show "bal u k = total_for k (entries u)"
    proof (cases "k \<in> live t")
      case True
      then show ?thesis
        using step_balanced [OF step.hyps(2) True] step.IH step.prems by simp
    next
      case False
      then show ?thesis using step_open [OF step.hyps(2) k] by simp
    qed
  qed
qed simp

end

text \<open>A detailed machine refines an abstract one: each detailed step is matched by abstract steps (possibly
  none) between the abstractions of the states.\<close>

locale simulation =
  fixes step :: "'s \<Rightarrow> 's \<Rightarrow> bool" and abs :: "'s \<Rightarrow> 'a" and astep :: "'a \<Rightarrow> 'a \<Rightarrow> bool"
  assumes step_sim: "step s s' \<Longrightarrow> astep\<^sup>*\<^sup>* (abs s) (abs s')"
begin

lemma run_sim: "step\<^sup>*\<^sup>* s s' \<Longrightarrow> astep\<^sup>*\<^sup>* (abs s) (abs s')"
  by (induction rule: rtranclp_induct) (auto dest: step_sim)

end

end
