(* ===== verification/Stock_Ops.thy ===== *)
theory Stock_Ops
  imports Stock_Recipes Machines
begin

text \<open>
  The write operations of \<^verbatim>\<open>app/modules/stock/service.py\<close> on ingredients, recipes, batches and
  adjustment requests. Every change of an ingredient's quantity is written together with a
  \<^verbatim>\<open>StockMovement\<close> row; \<open>post_movement\<close> is that pair of writes. A primary key the database
  assigns is the argument \<open>nid\<close>; the clock is the argument \<open>now\<close>. An operation that raises leaves the
  tables as they were (the request's transaction is rolled back).
\<close>

subsection \<open>Quantities and movements\<close>

definition qty :: "stock_db \<Rightarrow> int \<Rightarrow> rat" where
  "qty s i = (case get_ingredient i s of None \<Rightarrow> 0 | Some ing \<Rightarrow> current_qty ing)"

definition add_movement :: "int \<Rightarrow> rat \<Rightarrow> movement_reason \<Rightarrow> int option \<Rightarrow> stock_db \<Rightarrow> stock_db" where
  "add_movement i d reason user s =
     s\<lparr>st_movements := st_movements s @
        [\<lparr>mv_ingredient_id = i, mv_delta = d, mv_reason = reason, mv_user = user\<rparr>]\<rparr>"

definition post_movement ::
    "ingredient \<Rightarrow> rat \<Rightarrow> movement_reason \<Rightarrow> int option \<Rightarrow> stock_db \<Rightarrow> stock_db" where
  "post_movement ing d reason user s =
     add_movement (ing_id ing) d reason user
       (upd_ingredient (ing_id ing) (set_qty (current_qty ing + d)) s)"

definition journal :: "stock_db \<Rightarrow> (int \<times> rat) list" where
  "journal s = map (\<lambda>m. (mv_ingredient_id m, mv_delta m)) (st_movements s)"

definition known :: "stock_db \<Rightarrow> int set" where
  "known s = row_ids ing_id (st_ingredients s)"

definition drift :: "stock_db \<Rightarrow> int \<Rightarrow> rat" where
  "drift s i = qty s i - total_for i (journal s)"

subsection \<open>Ingredients\<close>

definition sql_trim :: "string \<Rightarrow> string" where
  "sql_trim s = rev (dropWhile (\<lambda>c. c = CHR '' '') (rev (dropWhile (\<lambda>c. c = CHR '' '') s)))"

definition ensure_unique_ingredient_name ::
    "stock_db \<Rightarrow> string \<Rightarrow> int option \<Rightarrow> string res" where
  "ensure_unique_ingredient_name s name excluded =
     (let normalized = join_space (py_split (py_strip name))
      in if normalized = [] then Inl (AppError ''INVALID_INGREDIENT_NAME'' 422)
         else if \<exists>ing \<in> set (st_ingredients s).
             py_lower (sql_trim (ing_name ing)) = py_lower normalized \<and> excluded \<noteq> Some (ing_id ing)
         then Inl (AppError ''INGREDIENT_ALREADY_EXISTS'' 409)
         else Inr normalized)"

definition ingredient_row_ok :: "ingredient \<Rightarrow> bool" where
  "ingredient_row_ok ing \<longleftrightarrow> 0 \<le> current_qty ing
     \<and> (case purchase_price_per_unit ing of None \<Rightarrow> True | Some p \<Rightarrow> 0 \<le> p)"

definition create_ingredient :: "int \<Rightarrow> ingredient \<Rightarrow> stock_db \<Rightarrow> stock_db res" where
  "create_ingredient nid data s =
     rbind (ensure_unique_ingredient_name s (ing_name data) None) (\<lambda>name.
       let ing = data\<lparr>ing_id := nid, ing_name := name\<rparr>
       in if \<not> ingredient_row_ok ing then Inl IntegrityError
          else Inr (s\<lparr>st_ingredients := st_ingredients s @ [ing]\<rparr>))"

record ingredient_patch =
  ip_name :: "string option option"
  ip_unit :: "string option option"
  ip_alert_threshold :: "rat option option"
  ip_purchase_price :: "rat option option"
  ip_purchase_unit :: "string option option"

definition apply_ingredient_patch :: "string option \<Rightarrow> ingredient_patch \<Rightarrow> ingredient \<Rightarrow> ingredient" where
  "apply_ingredient_patch name p r =
     r\<lparr>ing_name := (case name of None \<Rightarrow> ing_name r | Some n \<Rightarrow> n),
       ing_unit := (case ip_unit p of Some (Some u) \<Rightarrow> u | _ \<Rightarrow> ing_unit r),
       alert_threshold := (case ip_alert_threshold p of Some (Some t) \<Rightarrow> t | _ \<Rightarrow> alert_threshold r),
       purchase_price_per_unit :=
         (case ip_purchase_price p of None \<Rightarrow> purchase_price_per_unit r | Some v \<Rightarrow> v),
       purchase_unit := (case ip_purchase_unit p of None \<Rightarrow> purchase_unit r | Some v \<Rightarrow> v)\<rparr>"

definition patch_ingredient :: "int \<Rightarrow> ingredient_patch \<Rightarrow> stock_db \<Rightarrow> stock_db res" where
  "patch_ingredient i p s =
     (case get_ingredient i s of
        None \<Rightarrow> Inl (AppError ''INGREDIENT_NOT_FOUND'' 404)
      | Some ing \<Rightarrow>
          rbind (case ip_name p of
              Some (Some n) \<Rightarrow> rbind (ensure_unique_ingredient_name s n (Some i)) (\<lambda>n'. Inr (Some n'))
            | Some None \<Rightarrow> Inl IntegrityError
            | None \<Rightarrow> Inr None)
          (\<lambda>name.
            if ip_unit p = Some None \<or> ip_alert_threshold p = Some None then Inl IntegrityError
            else Inr (upd_ingredient i (apply_ingredient_patch name p) s)))"

definition adjust_ingredient_stock ::
    "int \<Rightarrow> rat \<Rightarrow> string \<Rightarrow> int option \<Rightarrow> instant \<Rightarrow> stock_db \<Rightarrow> stock_db res" where
  "adjust_ingredient_stock i quantity reason user now s =
     (case get_ingredient i s of
        None \<Rightarrow> Inl (AppError ''INGREDIENT_NOT_FOUND'' 404)
      | Some ing \<Rightarrow>
          let quantity_delta =
                (if reason = ''inventory'' then quantity - current_qty ing else quantity);
              new_qty = current_qty ing + quantity_delta
          in if new_qty < 0 then Inl (AppError ''INSUFFICIENT_STOCK'' 409)
             else
               let s' = post_movement ing quantity_delta (Free_reason reason) user s
               in Inr (if quantity_delta < 0
                       then sync_auto_stock_availability_overrides
                              (Some (product_ids_for_ingredients s' [i])) now s'
                       else s'))"

subsection \<open>Batches\<close>

record batch_create =
  bc_quantity :: rat
  bc_received_at :: "instant option"
  bc_expires_at :: "instant option"
  bc_use_within_hours :: "int option"
  bc_tertiary_use_within_hours :: "int option"

definition new_batch ::
    "int \<Rightarrow> int \<Rightarrow> instant \<Rightarrow> batch_create \<Rightarrow> int option \<Rightarrow> instant \<Rightarrow> ingredient_batch" where
  "new_batch nid i expires body user now =
     \<lparr>bat_id = nid, bat_ingredient_id = i, bat_quantity = bc_quantity body,
      bat_received_at = (case bc_received_at body of None \<Rightarrow> now | Some t \<Rightarrow> t),
      bat_expires_at = Some expires, bat_opened_at = None,
      bat_use_within_hours = bc_use_within_hours body, bat_tertiary_started_at = None,
      bat_tertiary_use_within_hours = bc_tertiary_use_within_hours body,
      bat_status = Sealed, bat_created_by = user\<rparr>"

definition create_batch ::
    "int \<Rightarrow> int \<Rightarrow> batch_create \<Rightarrow> int option \<Rightarrow> instant \<Rightarrow> stock_db \<Rightarrow> (stock_db \<times> batch_out) res" where
  "create_batch nid i body user now s =
     (case get_ingredient i s of
        None \<Rightarrow> Inl (AppError ''INGREDIENT_NOT_FOUND'' 404)
      | Some ing \<Rightarrow>
          rbind (validate_primary_dlc (bc_expires_at body) now) (\<lambda>expires.
            let b = new_batch nid i expires body user now
            in Inr (post_movement ing (bc_quantity body) (Batch_reason nid) user
                      (s\<lparr>st_batches := st_batches s @ [b]\<rparr>),
                    batch_payload b)))"

text \<open>\<^verbatim>\<open>supply\<close> takes the same fields as separate arguments and returns the ingredient.\<close>

definition supply_stock ::
    "int \<Rightarrow> int \<Rightarrow> rat \<Rightarrow> instant option \<Rightarrow> instant option \<Rightarrow> int option \<Rightarrow> int option
      \<Rightarrow> int option \<Rightarrow> instant \<Rightarrow> stock_db \<Rightarrow> stock_db res" where
  "supply_stock nid i quantity expires_at received_at use_within tertiary user now s =
     (case get_ingredient i s of
        None \<Rightarrow> Inl (AppError ''INGREDIENT_NOT_FOUND'' 404)
      | Some ing \<Rightarrow>
          rbind (validate_primary_dlc expires_at now) (\<lambda>expires.
            let b = new_batch nid i expires
                  \<lparr>bc_quantity = quantity, bc_received_at = received_at, bc_expires_at = expires_at,
                   bc_use_within_hours = use_within, bc_tertiary_use_within_hours = tertiary\<rparr>
                  user now
            in Inr (post_movement ing quantity (Batch_reason nid) user
                      (s\<lparr>st_batches := st_batches s @ [b]\<rparr>))))"

record batch_patch =
  bpt_quantity :: "rat option option"
  bpt_expires_at :: "instant option option"
  bpt_opened_at :: "instant option option"
  bpt_use_within_hours :: "int option option"
  bpt_tertiary_started_at :: "instant option option"
  bpt_tertiary_use_within_hours :: "int option option"
  bpt_status :: "batch_status option option"

abbreviation get_batch :: "int \<Rightarrow> stock_db \<Rightarrow> ingredient_batch option" where
  "get_batch b s \<equiv> row_get bat_id b (st_batches s)"

abbreviation upd_batch :: "int \<Rightarrow> (ingredient_batch \<Rightarrow> ingredient_batch) \<Rightarrow> stock_db \<Rightarrow> stock_db" where
  "upd_batch b f s \<equiv> s\<lparr>st_batches := row_upd bat_id b f (st_batches s)\<rparr>"

definition apply_batch_patch :: "batch_patch \<Rightarrow> ingredient_batch \<Rightarrow> ingredient_batch" where
  "apply_batch_patch p b =
     b\<lparr>bat_quantity := (case bpt_quantity p of Some (Some q) \<Rightarrow> q | _ \<Rightarrow> bat_quantity b),
       bat_expires_at := (case bpt_expires_at p of None \<Rightarrow> bat_expires_at b | Some e \<Rightarrow> e),
       bat_opened_at := (case bpt_opened_at p of None \<Rightarrow> bat_opened_at b | Some t \<Rightarrow> t),
       bat_use_within_hours :=
         (case bpt_use_within_hours p of None \<Rightarrow> bat_use_within_hours b | Some h \<Rightarrow> h),
       bat_tertiary_started_at :=
         (case bpt_tertiary_started_at p of None \<Rightarrow> bat_tertiary_started_at b | Some t \<Rightarrow> t),
       bat_tertiary_use_within_hours :=
         (case bpt_tertiary_use_within_hours p of
            None \<Rightarrow> bat_tertiary_use_within_hours b | Some h \<Rightarrow> h),
       bat_status := (case bpt_status p of Some (Some st) \<Rightarrow> st | _ \<Rightarrow> bat_status b)\<rparr>"

definition patch_batch_quantity ::
    "ingredient_batch \<Rightarrow> rat option option \<Rightarrow> stock_db \<Rightarrow> stock_db res" where
  "patch_batch_quantity b quantity s =
     (case quantity of
        None \<Rightarrow> Inr s
      | Some None \<Rightarrow> Inl PyTypeError
      | Some (Some q) \<Rightarrow>
          if q = bat_quantity b then Inr s
          else (case get_ingredient (bat_ingredient_id b) s of
              None \<Rightarrow> Inl (AppError ''INGREDIENT_NOT_FOUND'' 404)
            | Some ing \<Rightarrow>
                let delta = q - bat_quantity b
                in if current_qty ing + delta < 0 then Inl (AppError ''INSUFFICIENT_STOCK'' 409)
                   else Inr (post_movement ing delta (Batch_adjust_reason (bat_id b)) None s)))"

definition patch_batch :: "int \<Rightarrow> batch_patch \<Rightarrow> instant \<Rightarrow> stock_db \<Rightarrow> stock_db res" where
  "patch_batch bid p now s =
     (case get_batch bid s of
        None \<Rightarrow> Inl (AppError ''BATCH_NOT_FOUND'' 404)
      | Some b \<Rightarrow>
          rbind (case bpt_expires_at p of
              None \<Rightarrow> Inr () | Some e \<Rightarrow> rbind (validate_primary_dlc e now) (\<lambda>_. Inr ()))
          (\<lambda>_. rbind (patch_batch_quantity b (bpt_quantity p) s) (\<lambda>s'.
            if bpt_status p = Some None then Inl IntegrityError
            else Inr (upd_batch bid (apply_batch_patch p) s'))))"

definition open_batch :: "int \<Rightarrow> instant \<Rightarrow> stock_db \<Rightarrow> stock_db res" where
  "open_batch bid now s =
     (case get_batch bid s of
        None \<Rightarrow> Inl (AppError ''BATCH_NOT_FOUND'' 404)
      | Some b \<Rightarrow>
          if bat_status b = Discarded \<or> bat_status b = Consumed then Inl (AppError ''BATCH_CLOSED'' 409)
          else Inr (upd_batch bid (\<lambda>r. r\<lparr>
                 bat_opened_at := (case bat_opened_at r of None \<Rightarrow> Some now | Some t \<Rightarrow> Some t),
                 bat_status := Opened\<rparr>) s))"

definition start_batch_use :: "int \<Rightarrow> int option \<Rightarrow> instant \<Rightarrow> stock_db \<Rightarrow> stock_db res" where
  "start_batch_use bid requested now s =
     (case get_batch bid s of
        None \<Rightarrow> Inl (AppError ''BATCH_NOT_FOUND'' 404)
      | Some b \<Rightarrow>
          if bat_status b \<in> {Discarded, Consumed, Expired} then Inl (AppError ''BATCH_CLOSED'' 409)
          else if bat_opened_at b = None then Inl (AppError ''BATCH_NOT_OPENED'' 409)
          else
            let use_within = (case requested of None \<Rightarrow> bat_tertiary_use_within_hours b | Some h \<Rightarrow> Some h)
            in if use_within = None then Inl (AppError ''BATCH_TERTIARY_DLC_REQUIRED'' 422)
               else Inr (upd_batch bid (\<lambda>r. r\<lparr>
                      bat_tertiary_use_within_hours := use_within,
                      bat_tertiary_started_at :=
                        (case bat_tertiary_started_at r of None \<Rightarrow> Some now | Some t \<Rightarrow> Some t),
                      bat_status := Opened\<rparr>) s))"

definition discard_batch :: "int \<Rightarrow> string \<Rightarrow> int option \<Rightarrow> stock_db \<Rightarrow> stock_db res" where
  "discard_batch bid reason user s =
     (case get_batch bid s of
        None \<Rightarrow> Inl (AppError ''BATCH_NOT_FOUND'' 404)
      | Some b \<Rightarrow>
          if bat_status b = Discarded then Inr s
          else (case get_ingredient (bat_ingredient_id b) s of
              None \<Rightarrow> Inl (AppError ''INGREDIENT_NOT_FOUND'' 404)
            | Some ing \<Rightarrow>
                if current_qty ing - bat_quantity b < 0
                then Inl (AppError ''INSUFFICIENT_STOCK'' 409)
                else Inr (upd_batch bid (\<lambda>r. r\<lparr>bat_status := Discarded\<rparr>)
                       (post_movement ing (- bat_quantity b) (Free_reason reason) user s))))"

definition list_batches :: "int \<Rightarrow> instant \<Rightarrow> stock_db \<Rightarrow> (stock_db \<times> batch_out list) res" where
  "list_batches i now s =
     (case get_ingredient i s of
        None \<Rightarrow> Inl (AppError ''INGREDIENT_NOT_FOUND'' 404)
      | Some _ \<Rightarrow>
          let bs = mark_expired_batches (Some [i]) now (st_batches s)
          in Inr (s\<lparr>st_batches := bs\<rparr>,
               map batch_payload
                 (rev (sort_key bat_received_at (sort_key bat_id (batches_for_ingredient i bs))))))"

definition get_ingredient_usable_stock ::
    "int \<Rightarrow> instant \<Rightarrow> stock_db \<Rightarrow> (stock_db \<times> usable_stock) res" where
  "get_ingredient_usable_stock i now s =
     (case get_ingredient i s of
        None \<Rightarrow> Inl (AppError ''INGREDIENT_NOT_FOUND'' 404)
      | Some ing \<Rightarrow>
          let bs = mark_expired_batches (Some [i]) now (st_batches s)
          in Inr (s\<lparr>st_batches := bs\<rparr>,
               usable_stock_payload ing (batches_for_ingredient i bs) now))"

subsection \<open>Adjustment requests\<close>

definition large_adjustment_threshold :: "stock_db \<Rightarrow> rat" where
  "large_adjustment_threshold s =
     (case st_large_threshold s of None \<Rightarrow> 10 | Some None \<Rightarrow> 0 | Some (Some t) \<Rightarrow> t)"

definition is_large_adjustment :: "stock_db \<Rightarrow> rat \<Rightarrow> bool" where
  "is_large_adjustment s d \<longleftrightarrow>
     large_adjustment_threshold s > 0 \<and> \<bar>d\<bar> \<ge> large_adjustment_threshold s"

abbreviation get_request :: "int \<Rightarrow> stock_db \<Rightarrow> adjustment_request option" where
  "get_request r s \<equiv> row_get req_id r (st_requests s)"

definition create_adjustment_request ::
    "int \<Rightarrow> int \<Rightarrow> rat \<Rightarrow> string \<Rightarrow> string option \<Rightarrow> int \<Rightarrow> stock_db \<Rightarrow> (stock_db \<times> bool) res" where
  "create_adjustment_request nid i delta reason note user s =
     (case get_ingredient i s of
        None \<Rightarrow> Inl (AppError ''INGREDIENT_NOT_FOUND'' 404)
      | Some _ \<Rightarrow>
          Inr (s\<lparr>st_requests := st_requests s @
                [\<lparr>req_id = nid, req_ingredient_id = i, req_delta = delta, req_reason = reason,
                  req_note = note, req_status = Req_pending, req_requested_by = user,
                  req_reviewed_by = None, req_reviewed_at = None\<rparr>]\<rparr>,
               is_large_adjustment s delta))"

definition review_note :: "string option \<Rightarrow> string option \<Rightarrow> string option" where
  "review_note old note =
     (case note of
        None \<Rightarrow> old
      | Some n \<Rightarrow>
          if n = [] then old
          else (case old of
              None \<Rightarrow> Some (''Admin: '' @ n)
            | Some m \<Rightarrow> if m = [] then Some (''Admin: '' @ n)
                else Some (m @ [CHR 0x0A] @ ''Admin: '' @ n)))"

definition close_request ::
    "request_status \<Rightarrow> int \<Rightarrow> instant \<Rightarrow> string option \<Rightarrow> adjustment_request \<Rightarrow> adjustment_request" where
  "close_request st user now note r =
     r\<lparr>req_status := st, req_reviewed_by := Some user, req_reviewed_at := Some now,
       req_note := review_note (req_note r) note\<rparr>"

definition approve_adjustment_request ::
    "int \<Rightarrow> int \<Rightarrow> string option \<Rightarrow> instant \<Rightarrow> stock_db \<Rightarrow> stock_db res" where
  "approve_adjustment_request rid user note now s =
     (case get_request rid s of
        None \<Rightarrow> Inl (AppError ''ADJUSTMENT_REQUEST_NOT_FOUND'' 404)
      | Some r \<Rightarrow>
          if req_status r \<noteq> Req_pending then Inl (AppError ''ADJUSTMENT_REQUEST_CLOSED'' 409)
          else (case get_ingredient (req_ingredient_id r) s of
              None \<Rightarrow> Inl (AppError ''INGREDIENT_NOT_FOUND'' 404)
            | Some ing \<Rightarrow>
                if current_qty ing + req_delta r < 0 then Inl (AppError ''INSUFFICIENT_STOCK'' 409)
                else
                  let s' = post_movement ing (req_delta r) (Request_reason (req_reason r)) (Some user) s
                  in Inr (s'\<lparr>st_requests :=
                       row_upd req_id rid (close_request Req_approved user now note) (st_requests s')\<rparr>)))"

definition reject_adjustment_request ::
    "int \<Rightarrow> int \<Rightarrow> string option \<Rightarrow> instant \<Rightarrow> stock_db \<Rightarrow> stock_db res" where
  "reject_adjustment_request rid user note now s =
     (case get_request rid s of
        None \<Rightarrow> Inl (AppError ''ADJUSTMENT_REQUEST_NOT_FOUND'' 404)
      | Some r \<Rightarrow>
          if req_status r \<noteq> Req_pending then Inl (AppError ''ADJUSTMENT_REQUEST_CLOSED'' 409)
          else Inr (s\<lparr>st_requests :=
                 row_upd req_id rid (close_request Req_rejected user now note) (st_requests s)\<rparr>))"

subsection \<open>Lemmas\<close>

lemma post_movement_frame [simp]:
  "st_batches (post_movement ing d r u s) = st_batches s"
  "st_product_recipes (post_movement ing d r u s) = st_product_recipes s"
  "st_variant_recipes (post_movement ing d r u s) = st_variant_recipes s"
  "st_extra_recipes (post_movement ing d r u s) = st_extra_recipes s"
  "st_requests (post_movement ing d r u s) = st_requests s"
  "st_overrides (post_movement ing d r u s) = st_overrides s"
  "st_catalog (post_movement ing d r u s) = st_catalog s"
  "st_large_threshold (post_movement ing d r u s) = st_large_threshold s"
  by (simp_all add: post_movement_def add_movement_def)

lemma get_ingredient_post:
  assumes "get_ingredient i s = Some ing"
  shows "get_ingredient j (post_movement ing d r u s) =
    (if j = i then Some (set_qty (current_qty ing + d) ing) else get_ingredient j s)"
proof -
  have "ing_id ing = i" using row_get_SomeD [OF assms] by simp
  then show ?thesis
    using assms by (simp add: post_movement_def add_movement_def ing_qty.get_upd)
qed

lemma qty_post:
  assumes "get_ingredient i s = Some ing"
  shows "qty (post_movement ing d r u s) j = (if j = i then qty s i + d else qty s j)"
  using assms by (simp add: qty_def get_ingredient_post [OF assms])

lemma journal_post:
  assumes "get_ingredient i s = Some ing"
  shows "journal (post_movement ing d r u s) = journal s @ [(i, d)]"
  using row_get_SomeD [OF assms] by (simp add: journal_def post_movement_def add_movement_def)

lemma known_post [simp]: "known (post_movement ing d r u s) = known s"
  by (simp add: known_def post_movement_def add_movement_def ing_qty.ids_upd)

lemma drift_post:
  assumes "get_ingredient i s = Some ing"
  shows "drift (post_movement ing d r u s) j = drift s j"
  using assms by (simp add: drift_def qty_post [OF assms] journal_post [OF assms])

definition stock_nonneg :: "stock_db \<Rightarrow> bool" where
  "stock_nonneg s \<longleftrightarrow> list_all (\<lambda>ing. 0 \<le> qty s (ing_id ing)) (st_ingredients s)"

lemma stock_nonneg_iff: "stock_nonneg s \<longleftrightarrow> (\<forall>i. 0 \<le> qty s i)"
proof
  assume nn: "stock_nonneg s"
  show "\<forall>i. 0 \<le> qty s i"
  proof
    fix i
    show "0 \<le> qty s i"
    proof (cases "get_ingredient i s")
      case None
      then show ?thesis by (simp add: qty_def)
    next
      case (Some ing)
      then show ?thesis
        using nn row_get_SomeD [OF Some] by (auto simp: stock_nonneg_def list_all_iff)
    qed
  qed
qed (simp add: stock_nonneg_def list_all_iff)

lemma stock_nonneg_post:
  assumes "stock_nonneg s" and "get_ingredient i s = Some ing" and "0 \<le> current_qty ing + d"
  shows "stock_nonneg (post_movement ing d r u s)"
  using assms by (simp add: stock_nonneg_iff qty_post [OF assms(2)]) (simp add: qty_def)

lemma stock_nonneg_get: "stock_nonneg s \<Longrightarrow> get_ingredient i s = Some ing \<Longrightarrow> 0 \<le> current_qty ing"
  by (auto simp: stock_nonneg_iff qty_def dest!: spec [of _ i])

text \<open>Facts that depend on the ingredient and movement tables only.\<close>

lemma stock_view_cong:
  assumes "st_ingredients t = st_ingredients s" and "st_movements t = st_movements s"
  shows "qty t = qty s" "journal t = journal s" "known t = known s" "drift t = drift s"
    "stock_nonneg t = stock_nonneg s"
  using assms by (simp_all add: fun_eq_iff qty_def journal_def known_def drift_def stock_nonneg_def)

lemma known_iff: "i \<in> known s \<longleftrightarrow> (\<exists>ing. get_ingredient i s = Some ing)"
  using row_get_None_iff [of ing_id i "st_ingredients s"] by (auto simp: known_def)

end
