(* ===== verification/Stock_Orders.thy ===== *)
theory Stock_Orders
  imports Stock_Ops
begin

text \<open>
  Stock movements caused by orders: \<^verbatim>\<open>deduct_for_order\<close> (called in the transaction that confirms an
  order) and \<^verbatim>\<open>restore_for_order\<close> (called when a confirmed order is cancelled) of
  \<^verbatim>\<open>app/modules/stock/service.py\<close>. The argument \<open>items\<close> is the \<^verbatim>\<open>order_items\<close> table.
\<close>

definition items_of_order :: "int \<Rightarrow> order_item list \<Rightarrow> order_item list" where
  "items_of_order oid items = filter (\<lambda>it. oi_order_id it = oid) items"

definition order_deltas :: "stock_db \<Rightarrow> order_item list \<Rightarrow> (int \<times> rat) list" where
  "order_deltas s its = concat (map (item_recipe_deltas s) its)"

definition ingredients_by_id :: "stock_db \<Rightarrow> (int \<times> rat) list \<Rightarrow> ingredient list" where
  "ingredients_by_id s req =
     concat (map (\<lambda>(i, _). case get_ingredient i s of None \<Rightarrow> [] | Some ing \<Rightarrow> [ing]) req)"

fun check_required ::
    "stock_db \<Rightarrow> (int \<times> usable_stock) list \<Rightarrow> (int \<times> rat) list \<Rightarrow> unit res" where
  "check_required s us [] = Inr ()"
| "check_required s us ((i, required) # req) =
     (case get_ingredient i s of
        None \<Rightarrow> check_required s us req
      | Some ing \<Rightarrow>
          if current_qty ing < required then Inl (AppError ''INSUFFICIENT_STOCK'' 409)
          else if usable_of us ing < required then Inl (AppError ''INSUFFICIENT_STOCK'' 409)
          else check_required s us req)"

text \<open>The consuming loop; \<open>low\<close> collects the ingredients at or below their alert threshold.\<close>

fun consume :: "int \<Rightarrow> int option \<Rightarrow> (int \<times> rat) list \<Rightarrow> stock_db \<times> int list \<Rightarrow> stock_db \<times> int list" where
  "consume oid user [] (s, low) = (s, low)"
| "consume oid user ((i, delta) # ds) (s, low) =
     (case get_ingredient i s of
        None \<Rightarrow> consume oid user ds (s, low)
      | Some ing \<Rightarrow>
          consume oid user ds
            (post_movement ing (- delta) (Order_reason oid) user s,
             if current_qty ing - delta \<le> alert_threshold ing then low @ [i] else low))"

definition touched_ingredients :: "stock_db \<Rightarrow> (int \<times> rat) list \<Rightarrow> int list" where
  "touched_ingredients s ds = remdups (map fst (filter (\<lambda>(i, _). get_ingredient i s \<noteq> None) ds))"

definition deduct_for_order ::
    "int \<Rightarrow> order_item list \<Rightarrow> int option \<Rightarrow> instant \<Rightarrow> stock_db \<Rightarrow> (stock_db \<times> int list) res" where
  "deduct_for_order oid items user now s =
     (let all_deltas = order_deltas s (items_of_order oid items);
          required = dict_of all_deltas;
          (bs, us) = usable_quantities_for_ingredients (ingredients_by_id s required) now (st_batches s);
          s1 = s\<lparr>st_batches := bs\<rparr>
      in rbind (check_required s1 us required) (\<lambda>_.
           let (s2, low) = consume oid user all_deltas (s1, []);
               s3 = sync_auto_stock_availability_overrides
                      (Some (product_ids_for_ingredients s2 (touched_ingredients s1 all_deltas))) now s2
           in Inr (s3, low)))"

fun give_back :: "int \<Rightarrow> int option \<Rightarrow> (int \<times> rat) list \<Rightarrow> stock_db \<Rightarrow> stock_db" where
  "give_back oid user [] s = s"
| "give_back oid user ((i, delta) # ds) s =
     (case get_ingredient i s of
        None \<Rightarrow> give_back oid user ds s
      | Some ing \<Rightarrow>
          give_back oid user ds (post_movement ing delta (Cancel_reason oid) user s))"

definition restore_for_order ::
    "int \<Rightarrow> order_item list \<Rightarrow> int option \<Rightarrow> stock_db \<Rightarrow> stock_db" where
  "restore_for_order oid items user s =
     give_back oid user (order_deltas s (items_of_order oid items)) s"

subsection \<open>Lemmas\<close>

lemma check_required_Inr:
  "check_required s us req = Inr () \<longleftrightarrow>
   (\<forall>i q ing. (i, q) \<in> set req \<longrightarrow> get_ingredient i s = Some ing \<longrightarrow>
      q \<le> current_qty ing \<and> q \<le> usable_of us ing)"
proof -
  have "check_required s us req = Inr () \<longleftrightarrow> first_limiting s us req = None"
    by (induction s us req rule: check_required.induct) (auto split: option.splits)
  then show ?thesis by (simp only: first_limiting_None_iff)
qed

lemma check_required_cases:
  "check_required s us req = Inr () \<or> check_required s us req = Inl (AppError ''INSUFFICIENT_STOCK'' 409)"
  by (induction s us req rule: check_required.induct) (auto split: option.splits)

text \<open>The quantity the guard compares with is the usable quantity of the ingredient's batches.\<close>

lemma map_of_ingredients_by_id:
  assumes "i \<in> fst ` set req" and "get_ingredient i s = Some ing"
  shows "map_of (map (\<lambda>x. (ing_id x, f x)) (ingredients_by_id s req)) i = Some (f ing)"
  using assms
proof (induction req)
  case (Cons e req)
  obtain j q where e: "e = (j, q)" by fastforce
  show ?case
  proof (cases "j = i")
    case True
    then show ?thesis
      using Cons.prems row_get_SomeD [OF Cons.prems(2)] by (simp add: e ingredients_by_id_def)
  next
    case False
    then show ?thesis
      using Cons row_get_SomeD [of ing_id j "st_ingredients s"]
      by (auto simp: e ingredients_by_id_def split: option.split)
  qed
qed simp

lemma usable_of_required:
  assumes "i \<in> fst ` set req" and "get_ingredient i s = Some ing"
  shows "usable_of (snd (usable_quantities_for_ingredients (ingredients_by_id s req) now (st_batches s))) ing
       = usable_qty ing (batches_for_ingredient i (st_batches s)) now"
proof -
  have "ing_id ing = i" using row_get_SomeD [OF assms(2)] by simp
  then show ?thesis
    by (simp add: usable_of_def usable_quantities_for_ingredients_def Let_def
        map_of_ingredients_by_id [OF assms])
       (simp add: usable_stock_payload_def)
qed

lemma consume_frame:
  assumes "consume oid user ds (s, low) = (s', low')"
  shows "st_batches s' = st_batches s" "st_product_recipes s' = st_product_recipes s"
    "st_variant_recipes s' = st_variant_recipes s" "st_extra_recipes s' = st_extra_recipes s"
    "st_catalog s' = st_catalog s" "st_requests s' = st_requests s" "known s' = known s"
  using assms
  by (induction oid user ds "(s, low)" arbitrary: s low rule: consume.induct)
     (auto split: option.splits)

lemma consume_qty:
  assumes "consume oid user ds (s, low) = (s', low')"
  shows "qty s' i = qty s i - (if i \<in> known s then total_for i ds else 0)"
  using assms
proof (induction oid user ds "(s, low)" arbitrary: s low rule: consume.induct)
  case (2 oid user j delta ds s low)
  show ?case
  proof (cases "get_ingredient j s")
    case None
    then have "j \<notin> known s" by (simp add: known_iff)
    then show ?thesis using 2 None by auto
  next
    case (Some ing)
    then have "j \<in> known s" by (auto simp: known_iff)
    then show ?thesis using 2(2) [OF Some] 2(3) Some by (simp add: qty_post [OF Some])
  qed
qed simp

lemma consume_drift:
  assumes "consume oid user ds (s, low) = (s', low')"
  shows "drift s' i = drift s i"
  using assms
  by (induction oid user ds "(s, low)" arbitrary: s low rule: consume.induct)
     (auto simp: drift_post split: option.splits)

lemma give_back_frame [simp]:
  "st_batches (give_back oid user ds s) = st_batches s"
  "st_product_recipes (give_back oid user ds s) = st_product_recipes s"
  "st_variant_recipes (give_back oid user ds s) = st_variant_recipes s"
  "st_extra_recipes (give_back oid user ds s) = st_extra_recipes s"
  "st_requests (give_back oid user ds s) = st_requests s"
  "known (give_back oid user ds s) = known s"
  by (induction oid user ds s rule: give_back.induct) (auto split: option.splits)

lemma give_back_qty:
  "qty (give_back oid user ds s) i = qty s i + (if i \<in> known s then total_for i ds else 0)"
proof (induction oid user ds s rule: give_back.induct)
  case (2 oid user j delta ds s)
  show ?case
  proof (cases "get_ingredient j s")
    case None
    then have "j \<notin> known s" by (simp add: known_iff)
    then show ?thesis using 2 None by auto
  next
    case (Some ing)
    then have "j \<in> known s" by (auto simp: known_iff)
    then show ?thesis using 2(2) [OF Some] Some by (simp add: qty_post [OF Some])
  qed
qed simp

lemma give_back_drift: "drift (give_back oid user ds s) i = drift s i"
  by (induction oid user ds s rule: give_back.induct) (auto simp: drift_post split: option.splits)

lemma order_deltas_cong:
  assumes "st_product_recipes t = st_product_recipes s" "st_variant_recipes t = st_variant_recipes s"
    "st_extra_recipes t = st_extra_recipes s"
  shows "order_deltas t its = order_deltas s its"
proof -
  have "item_recipe_deltas t = item_recipe_deltas s"
    by (rule ext) (simp only: item_recipe_deltas_def assms)
  then show ?thesis by (simp add: order_deltas_def)
qed

text \<open>The success case of \<open>deduct_for_order\<close> in one lemma: what was checked, what was consumed.\<close>

lemma deduct_success:
  assumes "deduct_for_order oid items user now s = Inr (s', low)"
  defines "ds \<equiv> order_deltas s (items_of_order oid items)"
  shows deduct_qty: "qty s' i = qty s i - (if i \<in> known s then total_for i ds else 0)"
    and deduct_checked: "i \<in> fst ` set ds \<Longrightarrow> get_ingredient i s = Some ing \<Longrightarrow>
      total_for i ds \<le> current_qty ing \<and>
      total_for i ds \<le> usable_qty ing (batches_for_ingredient i (st_batches s)) now"
    and deduct_drift: "drift s' i = drift s i"
    and deduct_known: "known s' = known s"
    and deduct_recipes: "st_product_recipes s' = st_product_recipes s"
      "st_variant_recipes s' = st_variant_recipes s" "st_extra_recipes s' = st_extra_recipes s"
      "st_catalog s' = st_catalog s" "st_requests s' = st_requests s"
proof -
  define uq where "uq = usable_quantities_for_ingredients (ingredients_by_id s (dict_of ds)) now (st_batches s)"
  define s1 where "s1 = s\<lparr>st_batches := fst uq\<rparr>"
  define s2 where "s2 = fst (consume oid user ds (s1, []))"
  have chk: "check_required s1 (snd uq) (dict_of ds) = Inr ()"
    and s': "s' = sync_auto_stock_availability_overrides
        (Some (product_ids_for_ingredients s2 (touched_ingredients s1 ds))) now s2"
    using assms by (auto simp: deduct_for_order_def Let_def split_beta uq_def s1_def s2_def)
  have c: "consume oid user ds (s1, []) = (s2, snd (consume oid user ds (s1, [])))"
    by (simp add: s2_def)
  have view1: "qty s1 = qty s" "known s1 = known s" "drift s1 = drift s"
    by (rule stock_view_cong; simp add: s1_def)+
  have view2: "qty s' = qty s2" "known s' = known s2" "drift s' = drift s2"
    by (rule stock_view_cong; simp add: s')+
  show "qty s' i = qty s i - (if i \<in> known s then total_for i ds else 0)"
    using consume_qty [OF c] by (simp add: view1 view2)
  show "drift s' i = drift s i" using consume_drift [OF c] by (simp add: view1 view2)
  show "known s' = known s" using consume_frame(7) [OF c] by (simp add: view1 view2)
  show "st_product_recipes s' = st_product_recipes s" "st_variant_recipes s' = st_variant_recipes s"
    "st_extra_recipes s' = st_extra_recipes s" "st_catalog s' = st_catalog s"
    "st_requests s' = st_requests s"
    using consume_frame [OF c] by (simp_all add: s' s1_def)
  show "total_for i ds \<le> current_qty ing \<and>
      total_for i ds \<le> usable_qty ing (batches_for_ingredient i (st_batches s)) now"
    if i: "i \<in> fst ` set ds" and g: "get_ingredient i s = Some ing"
  proof -
    have m: "(i, total_for i ds) \<in> set (dict_of ds)" using i by (simp add: set_dict_of)
    then have "usable_of (snd uq) ing = usable_qty ing (batches_for_ingredient i (st_batches s)) now"
      unfolding uq_def by (intro usable_of_required [OF _ g]) force
    moreover have "total_for i ds \<le> current_qty ing \<and> total_for i ds \<le> usable_of (snd uq) ing"
      using chk m g unfolding check_required_Inr by (simp add: s1_def)
    ultimately show ?thesis by simp
  qed
qed

lemma deduct_error:
  assumes "deduct_for_order oid items user now s = Inl e"
  defines "ds \<equiv> order_deltas s (items_of_order oid items)"
  shows "e = AppError ''INSUFFICIENT_STOCK'' 409"
    and "\<exists>i \<in> fst ` set ds. \<exists>ing. get_ingredient i s = Some ing \<and>
      \<not> (total_for i ds \<le> current_qty ing \<and>
         total_for i ds \<le> usable_qty ing (batches_for_ingredient i (st_batches s)) now)"
proof -
  define uq where "uq = usable_quantities_for_ingredients (ingredients_by_id s (dict_of ds)) now (st_batches s)"
  define s1 where "s1 = s\<lparr>st_batches := fst uq\<rparr>"
  have chk: "check_required s1 (snd uq) (dict_of ds) = Inl e"
    using assms by (auto simp: deduct_for_order_def Let_def split_beta uq_def s1_def rbind_eq_Inl)
  then show "e = AppError ''INSUFFICIENT_STOCK'' 409"
    using check_required_cases [of s1 "snd uq" "dict_of ds"] by simp
  have "\<not> (\<forall>i q ing. (i, q) \<in> set (dict_of ds) \<longrightarrow> get_ingredient i s = Some ing \<longrightarrow>
      q \<le> current_qty ing \<and> q \<le> usable_of (snd uq) ing)"
    using chk check_required_Inr [of s1 "snd uq" "dict_of ds"] by (simp add: s1_def)
  then obtain i q ing where m: "(i, q) \<in> set (dict_of ds)" and g: "get_ingredient i s = Some ing"
    and bad: "\<not> (q \<le> current_qty ing \<and> q \<le> usable_of (snd uq) ing)" by blast
  have i: "i \<in> fst ` set ds" and q: "q = total_for i ds" using m by (simp_all add: set_dict_of)
  have "usable_of (snd uq) ing = usable_qty ing (batches_for_ingredient i (st_batches s)) now"
    unfolding uq_def using m by (intro usable_of_required [OF _ g]) force
  then show "\<exists>i \<in> fst ` set ds. \<exists>ing. get_ingredient i s = Some ing \<and>
      \<not> (total_for i ds \<le> current_qty ing \<and>
         total_for i ds \<le> usable_qty ing (batches_for_ingredient i (st_batches s)) now)"
    using i g bad q by auto
qed

lemma restore_qty:
  "qty (restore_for_order oid items user s) i = qty s i
     + (if i \<in> known s then total_for i (order_deltas s (items_of_order oid items)) else 0)"
  by (simp add: restore_for_order_def give_back_qty)

end
