(* ===== verification/Stock_Recipe_Edit.thy ===== *)
theory Stock_Recipe_Edit
  imports Stock_Ops
begin

text \<open>
  Recipe administration of \<^verbatim>\<open>app/modules/stock/service.py\<close>: the recipe of a product, a variant or
  an extra is the set of its lines in one of three tables; \<^verbatim>\<open>_recipe_config\<close> selects the table.
  \<open>nid\<close> is the first primary key the database assigns to the new lines.
\<close>

subsection \<open>The three recipe tables\<close>

definition recipe_table :: "recipe_type \<Rightarrow> stock_db \<Rightarrow> recipe_line list" where
  "recipe_table rt s =
     (case rt of Product_recipe \<Rightarrow> st_product_recipes s | Variant_recipe \<Rightarrow> st_variant_recipes s
      | Extra_recipe \<Rightarrow> st_extra_recipes s)"

definition set_recipe_table :: "recipe_type \<Rightarrow> recipe_line list \<Rightarrow> stock_db \<Rightarrow> stock_db" where
  "set_recipe_table rt rows s =
     (case rt of Product_recipe \<Rightarrow> s\<lparr>st_product_recipes := rows\<rparr>
      | Variant_recipe \<Rightarrow> s\<lparr>st_variant_recipes := rows\<rparr>
      | Extra_recipe \<Rightarrow> s\<lparr>st_extra_recipes := rows\<rparr>)"

definition ensure_recipe_target :: "recipe_type \<Rightarrow> int \<Rightarrow> stock_db \<Rightarrow> unit res" where
  "ensure_recipe_target rt t s =
     (case rt of
        Product_recipe \<Rightarrow>
          if row_get prod_id t (cat_products (st_catalog s)) = None
          then Inl (AppError ''PRODUCT_NOT_FOUND'' 404) else Inr ()
      | Variant_recipe \<Rightarrow>
          if row_get var_id t (cat_variants (st_catalog s)) = None
          then Inl (AppError ''VARIANT_NOT_FOUND'' 404) else Inr ()
      | Extra_recipe \<Rightarrow>
          if row_get ext_id t (cat_extras (st_catalog s)) = None
          then Inl (AppError ''EXTRA_NOT_FOUND'' 404) else Inr ())"

definition recipe_payload :: "stock_db \<Rightarrow> recipe_line \<Rightarrow> recipe_item" where
  "recipe_payload s r =
     (let ing = get_ingredient (rl_ingredient_id r) s
      in \<lparr>ri_id = rl_id r, ri_ingredient_id = rl_ingredient_id r,
          ri_ingredient_name = map_option ing_name ing, ri_quantity = rl_quantity r,
          ri_unit = (case rl_unit r of
              None \<Rightarrow> map_option ing_unit ing
            | Some u \<Rightarrow> if u = [] then map_option ing_unit ing else Some u)\<rparr>)"

definition recipe_lines_by_id :: "recipe_type \<Rightarrow> int \<Rightarrow> stock_db \<Rightarrow> recipe_line list" where
  "recipe_lines_by_id rt t s = sort_key rl_id (recipe_lines_for t (recipe_table rt s))"

definition recipe_audit_items :: "stock_db \<Rightarrow> recipe_line list \<Rightarrow> recipe_item list" where
  "recipe_audit_items s rs = sort_key ri_ingredient_id (sort_key ri_id (map (recipe_payload s) rs))"

definition add_recipe_audit_log ::
    "recipe_type \<Rightarrow> int \<Rightarrow> int option \<Rightarrow> recipe_item list \<Rightarrow> recipe_item list \<Rightarrow> stock_db \<Rightarrow> stock_db" where
  "add_recipe_audit_log rt t user old new s =
     (if old = new then s
      else s\<lparr>st_audits := st_audits s @
             [\<lparr>ra_type = rt, ra_target = t, ra_user = user, ra_old = old, ra_new = new\<rparr>]\<rparr>)"

definition get_recipe :: "recipe_type \<Rightarrow> int \<Rightarrow> stock_db \<Rightarrow> recipe_item list res" where
  "get_recipe rt t s =
     rbind (ensure_recipe_target rt t s)
       (\<lambda>_. Inr (map (recipe_payload s) (recipe_lines_by_id rt t s)))"

subsection \<open>Editing\<close>

record recipe_line_create =
  rlc_ingredient_id :: int
  rlc_quantity :: rat
  rlc_unit :: "string option"

definition validate_recipe_items :: "recipe_line_create list \<Rightarrow> stock_db \<Rightarrow> unit res" where
  "validate_recipe_items items s =
     (if \<not> distinct (map rlc_ingredient_id items)
      then Inl (AppError ''DUPLICATE_RECIPE_INGREDIENT'' 409)
      else if \<exists>it \<in> set items. get_ingredient (rlc_ingredient_id it) s = None
      then Inl (AppError ''INGREDIENT_NOT_FOUND'' 404)
      else Inr ())"

definition recipe_row ::
    "int \<Rightarrow> stock_db \<Rightarrow> int \<times> recipe_line_create \<Rightarrow> recipe_line res" where
  "recipe_row t s ki =
     (case get_ingredient (rlc_ingredient_id (snd ki)) s of
        None \<Rightarrow> Inl (AppError ''INGREDIENT_NOT_FOUND'' 404)
      | Some ing \<Rightarrow>
          rbind (normalize_quantity (rlc_quantity (snd ki)) (rlc_unit (snd ki)) ing) (\<lambda>qu.
            Inr \<lparr>rl_id = fst ki, rl_target_id = t, rl_ingredient_id = rlc_ingredient_id (snd ki),
                 rl_quantity = fst qu, rl_unit = Some (snd qu)\<rparr>))"

text \<open>The tail of the three editing operations: audit row, then automatic overrides.\<close>

definition finish_recipe_edit ::
    "recipe_type \<Rightarrow> int \<Rightarrow> int option \<Rightarrow> recipe_item list \<Rightarrow> recipe_item list \<Rightarrow> instant
      \<Rightarrow> stock_db \<Rightarrow> stock_db" where
  "finish_recipe_edit rt t user old new now s =
     sync_auto_stock_availability_overrides (Some (product_ids_for_recipe_target s rt t)) now
       (add_recipe_audit_log rt t user old new s)"

definition replace_recipe ::
    "int \<Rightarrow> recipe_type \<Rightarrow> int \<Rightarrow> recipe_line_create list \<Rightarrow> int option \<Rightarrow> instant \<Rightarrow> stock_db
      \<Rightarrow> (stock_db \<times> recipe_item list) res" where
  "replace_recipe nid rt t items user now s =
     rbind (ensure_recipe_target rt t s) (\<lambda>_.
     rbind (validate_recipe_items items s) (\<lambda>_.
     let old = recipe_audit_items s (recipe_lines_by_id rt t s);
         kept = filter (\<lambda>r. rl_target_id r \<noteq> t) (recipe_table rt s)
     in rbind (mapE (recipe_row t s) (zip [nid .. nid + int (length items) - 1] items)) (\<lambda>rows.
          let new = recipe_audit_items s rows
          in Inr (finish_recipe_edit rt t user old new now (set_recipe_table rt (kept @ rows) s),
                  map (recipe_payload s) rows))))"

definition create_recipe_line ::
    "int \<Rightarrow> recipe_type \<Rightarrow> int \<Rightarrow> recipe_line_create \<Rightarrow> int option \<Rightarrow> instant \<Rightarrow> stock_db
      \<Rightarrow> (stock_db \<times> recipe_item) res" where
  "create_recipe_line nid rt t item user now s =
     rbind (ensure_recipe_target rt t s) (\<lambda>_.
     rbind (validate_recipe_items [item] s) (\<lambda>_.
     let existing = recipe_lines_by_id rt t s;
         old = recipe_audit_items s existing
     in if \<exists>r \<in> set existing. rl_ingredient_id r = rlc_ingredient_id item
        then Inl (AppError ''DUPLICATE_RECIPE_INGREDIENT'' 409)
        else rbind (recipe_row t s (nid, item)) (\<lambda>row.
          let new = recipe_audit_items s (existing @ [row])
          in Inr (finish_recipe_edit rt t user old new now
                    (set_recipe_table rt (recipe_table rt s @ [row]) s),
                  recipe_payload s row))))"

definition delete_recipe_line ::
    "recipe_type \<Rightarrow> int \<Rightarrow> int option \<Rightarrow> instant \<Rightarrow> stock_db \<Rightarrow> stock_db res" where
  "delete_recipe_line rt line user now s =
     (case row_get rl_id line (recipe_table rt s) of
        None \<Rightarrow> Inl (AppError ''RECIPE_LINE_NOT_FOUND'' 404)
      | Some r \<Rightarrow>
          let t = rl_target_id r;
              existing = recipe_lines_by_id rt t s;
              old = recipe_audit_items s existing;
              new = recipe_audit_items s (filter (\<lambda>x. rl_id x \<noteq> line) existing)
          in Inr (finish_recipe_edit rt t user old new now
               (set_recipe_table rt (filter (\<lambda>x. rl_id x \<noteq> line) (recipe_table rt s)) s)))"

record missing_recipe =
  mr_type :: recipe_type
  mr_target_id :: int
  mr_name :: string
  mr_product_id :: "int option"

text \<open>The \<^verbatim>\<open>ORDER BY name\<close> uses the database collation, the argument \<open>by_name\<close>: a sort of rows by
  their name column.\<close>

definition list_missing_recipes ::
    "(missing_recipe list \<Rightarrow> missing_recipe list) \<Rightarrow> stock_db \<Rightarrow> missing_recipe list" where
  "list_missing_recipes by_name s =
     by_name (map (\<lambda>p. \<lparr>mr_type = Product_recipe, mr_target_id = prod_id p, mr_name = prod_name p,
                        mr_product_id = Some (prod_id p)\<rparr>)
       (filter (\<lambda>p. prod_active p \<and> prod_id p \<notin> rl_target_id ` set (st_product_recipes s))
         (cat_products (st_catalog s))))
     @ by_name (map (\<lambda>v. \<lparr>mr_type = Variant_recipe, mr_target_id = var_id v, mr_name = var_name v,
                          mr_product_id = Some (var_product_id v)\<rparr>)
       (filter (\<lambda>v. var_active v \<and> var_id v \<notin> rl_target_id ` set (st_variant_recipes s))
         (cat_variants (st_catalog s))))
     @ by_name (map (\<lambda>e. \<lparr>mr_type = Extra_recipe, mr_target_id = ext_id e, mr_name = ext_name e,
                          mr_product_id = None\<rparr>)
       (filter (\<lambda>e. ext_active e \<and> ext_id e \<notin> rl_target_id ` set (st_extra_recipes s))
         (cat_extras (st_catalog s))))"

subsection \<open>Lemmas\<close>

lemma recipe_table_set:
  "recipe_table rt' (set_recipe_table rt rows s) = (if rt' = rt then rows else recipe_table rt' s)"
  by (cases rt; cases rt') (simp_all add: recipe_table_def set_recipe_table_def)

lemma set_recipe_table_frame [simp]:
  "st_ingredients (set_recipe_table rt rows s) = st_ingredients s"
  "st_movements (set_recipe_table rt rows s) = st_movements s"
  "st_catalog (set_recipe_table rt rows s) = st_catalog s"
  "st_audits (set_recipe_table rt rows s) = st_audits s"
  by (cases rt; simp add: set_recipe_table_def)+

lemma finish_frame [simp]:
  "st_ingredients (finish_recipe_edit rt t user old new now s) = st_ingredients s"
  "st_movements (finish_recipe_edit rt t user old new now s) = st_movements s"
  "recipe_table rt' (finish_recipe_edit rt t user old new now s) = recipe_table rt' s"
  "st_catalog (finish_recipe_edit rt t user old new now s) = st_catalog s"
  by (cases rt'; simp add: finish_recipe_edit_def add_recipe_audit_log_def recipe_table_def)+

text \<open>What a successful replacement leaves: exactly the submitted lines for the target, in order, and
  every other target's lines untouched.\<close>

lemma recipe_row_fields:
  assumes "recipe_row t s (k, it) = Inr r"
  shows "rl_id r = k \<and> rl_target_id r = t \<and> rl_ingredient_id r = rlc_ingredient_id it
    \<and> (\<exists>ing u. get_ingredient (rlc_ingredient_id it) s = Some ing
       \<and> normalize_quantity (rlc_quantity it) (rlc_unit it) ing = Inr (rl_quantity r, u)
       \<and> rl_unit r = Some u)"
proof (cases "get_ingredient (rlc_ingredient_id it) s")
  case None
  then show ?thesis using assms by (simp add: recipe_row_def)
next
  case (Some ing)
  then obtain qu where n: "normalize_quantity (rlc_quantity it) (rlc_unit it) ing = Inr qu"
    and r: "r = \<lparr>rl_id = k, rl_target_id = t, rl_ingredient_id = rlc_ingredient_id it,
      rl_quantity = fst qu, rl_unit = Some (snd qu)\<rparr>"
    using assms by (auto simp: recipe_row_def)
  show ?thesis unfolding r using Some n by (cases qu) simp
qed

lemma replace_recipe_rows:
  assumes "replace_recipe nid rt t items user now s = Inr (s', out)"
  obtains rows where "mapE (recipe_row t s) (zip [nid .. nid + int (length items) - 1] items) = Inr rows"
    and "recipe_table rt s' = filter (\<lambda>r. rl_target_id r \<noteq> t) (recipe_table rt s) @ rows"
    and "rt' \<noteq> rt \<Longrightarrow> recipe_table rt' s' = recipe_table rt' s"
    and "distinct (map rlc_ingredient_id items)"
  using assms
  by (auto simp: replace_recipe_def validate_recipe_items_def Let_def recipe_table_set split: if_splits)

lemma recipe_rows_ingredients:
  assumes "mapE (recipe_row t s) kis = Inr rows"
  shows "map rl_ingredient_id rows = map (rlc_ingredient_id \<circ> snd) kis"
    and "\<forall>r \<in> set rows. rl_target_id r = t"
  using assms
proof (induction kis arbitrary: rows)
  case (Cons ki kis)
  obtain k it where ki: "ki = (k, it)" by fastforce
  { case 1 then show ?case using Cons.IH(1) recipe_row_fields [of t s k it] by (auto simp: ki) }
  { case 2 then show ?case using Cons.IH(2) recipe_row_fields [of t s k it] by (auto simp: ki) }
qed auto

lemma recipe_rows_ids: "mapE (recipe_row t s) kis = Inr rows \<Longrightarrow> map rl_id rows = map fst kis"
proof (induction kis arbitrary: rows)
  case (Cons ki kis)
  obtain k it where ki: "ki = (k, it)" by fastforce
  show ?case using Cons recipe_row_fields [of t s k it] by (auto simp: ki)
qed auto

lemma replace_recipe_reads_back:
  assumes "replace_recipe nid rt t items user now s = Inr (s', out)"
  shows "get_recipe rt t s' = Inr out"
proof -
  obtain rows where m: "mapE (recipe_row t s) (zip [nid .. nid + int (length items) - 1] items) = Inr rows"
    and tab: "recipe_table rt s' = filter (\<lambda>r. rl_target_id r \<noteq> t) (recipe_table rt s) @ rows"
    and out: "out = map (recipe_payload s) rows"
    and tgt: "ensure_recipe_target rt t s = Inr ()"
    and frame: "st_ingredients s' = st_ingredients s" "st_catalog s' = st_catalog s"
    using assms by (auto simp: replace_recipe_def Let_def recipe_table_set)
  have "recipe_lines_for t (recipe_table rt s') = rows"
    using recipe_rows_ingredients(2) [OF m] by (auto simp: tab recipe_lines_for_def filter_id_conv)
  moreover have "sorted (map rl_id rows)"
    using recipe_rows_ids [OF m] by simp
  ultimately have "recipe_lines_by_id rt t s' = rows"
    by (simp add: recipe_lines_by_id_def sort_key_id_if_sorted)
  moreover have "ensure_recipe_target rt t s' = Inr ()"
    using tgt by (simp only: ensure_recipe_target_def frame)
  moreover have "recipe_payload s' = recipe_payload s"
    by (rule ext) (simp only: recipe_payload_def frame)
  ultimately show ?thesis by (simp add: get_recipe_def out)
qed

end
