(* ===== verification/Stock_Overview.thy ===== *)
theory Stock_Overview
  imports Stock_Ops "HOL-Library.Product_Lexorder" "HOL-Library.List_Lexorder" "HOL-Library.Char_ord"
begin

text \<open>
  The DLC overview of \<^verbatim>\<open>app/modules/stock/service.py\<close> (lines 998 to 1178): each batch is classified
  by severity, filtered, sorted and counted. A DLC check of the HACCP module is the pair of its
  batch id and its compliance flag (both nullable columns).
\<close>

datatype severity = Sev_expired | Sev_regularize | Sev_critical | Sev_warning | Sev_ok

type_synonym dlc_check = "int option \<times> bool option"

definition dlc_overview_severity ::
    "ingredient_batch \<Rightarrow> instant option \<Rightarrow> bool \<Rightarrow> instant \<Rightarrow> instant \<Rightarrow> instant \<Rightarrow> severity" where
  "dlc_overview_severity b eff noncompliant now warning critical =
     (if batch_needs_dlc_regularization b then Sev_regularize
      else if bat_status b = Expired \<or> (case eff of None \<Rightarrow> False | Some e \<Rightarrow> e \<le> now) then Sev_expired
      else if noncompliant then Sev_critical
      else (case eff of
          None \<Rightarrow> Sev_ok
        | Some e \<Rightarrow> if e \<le> critical then Sev_critical else if e \<le> warning then Sev_warning else Sev_ok))"

definition dlc_overview_blocked_reason ::
    "ingredient_batch \<Rightarrow> string \<Rightarrow> severity \<Rightarrow> bool \<Rightarrow> string option" where
  "dlc_overview_blocked_reason b name sev noncompliant =
     (if batch_needs_dlc_regularization b then Some ''DLC primaire a regulariser''
      else if sev = Sev_expired then Some (dlc_unavailable_reason (Some name))
      else if noncompliant then Some ''Controle DLC non conforme''
      else None)"

record overview_item =
  ovi_batch_id :: int
  ovi_ingredient_id :: int
  ovi_ingredient_name :: string
  ovi_quantity :: rat
  ovi_status :: batch_status
  ovi_dlc_level :: "dlc_level option"
  ovi_severity :: severity
  ovi_primary :: "instant option"
  ovi_secondary :: "instant option"
  ovi_tertiary :: "instant option"
  ovi_effective :: "instant option"
  ovi_has_check :: bool
  ovi_noncompliant :: nat
  ovi_blocked_reason :: "string option"

definition dlc_overview_item ::
    "dlc_check list \<Rightarrow> instant \<Rightarrow> instant \<Rightarrow> instant \<Rightarrow> ingredient_batch \<times> ingredient \<Rightarrow> overview_item" where
  "dlc_overview_item checks now warning critical bi =
     (let b = fst bi; ing = snd bi; payload = batch_payload b;
          mine = filter (\<lambda>c. fst c = Some (bat_id b)) checks;
          bad = length (filter (\<lambda>c. snd c = Some False) mine);
          sev = dlc_overview_severity b (bp_effective_expires_at payload) (bad > 0) now warning critical
      in \<lparr>ovi_batch_id = bat_id b, ovi_ingredient_id = ing_id ing, ovi_ingredient_name = ing_name ing,
          ovi_quantity = bat_quantity b, ovi_status = bat_status b,
          ovi_dlc_level = bp_effective_dlc_level payload, ovi_severity = sev,
          ovi_primary = bp_primary_expires_at payload,
          ovi_secondary = bp_secondary_expires_at payload,
          ovi_tertiary = bp_tertiary_expires_at payload,
          ovi_effective = bp_effective_expires_at payload,
          ovi_has_check = (mine \<noteq> []), ovi_noncompliant = bad,
          ovi_blocked_reason = dlc_overview_blocked_reason b (ing_name ing) sev (bad > 0)\<rparr>)"

definition severity_rank :: "severity \<Rightarrow> nat" where
  "severity_rank sev =
     (case sev of Sev_expired \<Rightarrow> 0 | Sev_regularize \<Rightarrow> 1 | Sev_critical \<Rightarrow> 2 | Sev_warning \<Rightarrow> 3
      | Sev_ok \<Rightarrow> 4)"

text \<open>A missing date sorts after every date (\<^verbatim>\<open>datetime.max\<close>).\<close>

definition overview_key :: "overview_item \<Rightarrow> nat \<times> (nat \<times> int) \<times> string \<times> int" where
  "overview_key it =
     (severity_rank (ovi_severity it),
      (case ovi_effective it of None \<Rightarrow> (1, 0) | Some e \<Rightarrow> (0, e)),
      ovi_ingredient_name it, ovi_batch_id it)"

record overview_counters =
  oc_total :: nat
  oc_regularize :: nat
  oc_primary_near :: nat
  oc_secondary_near :: nat
  oc_tertiary_near :: nat
  oc_expired :: nat
  oc_missing_or_noncompliant :: nat

definition is_near :: "instant \<Rightarrow> instant \<Rightarrow> dlc_level \<Rightarrow> overview_item \<Rightarrow> bool" where
  "is_near now warning level it \<longleftrightarrow>
     ovi_dlc_level it = Some level \<and>
     (case ovi_effective it of None \<Rightarrow> False | Some e \<Rightarrow> now < e \<and> e \<le> warning)"

definition overview_counters_of :: "instant \<Rightarrow> instant \<Rightarrow> overview_item list \<Rightarrow> overview_counters" where
  "overview_counters_of now warning its =
     \<lparr>oc_total = length its,
      oc_regularize = length (filter (\<lambda>it. ovi_severity it = Sev_regularize) its),
      oc_primary_near = length (filter (is_near now warning Primary) its),
      oc_secondary_near = length (filter (is_near now warning Secondary) its),
      oc_tertiary_near = length (filter (is_near now warning Tertiary) its),
      oc_expired = length (filter (\<lambda>it. ovi_severity it = Sev_expired) its),
      oc_missing_or_noncompliant =
        length (filter (\<lambda>it. \<not> ovi_has_check it \<or> ovi_noncompliant it > 0) its)\<rparr>"

text \<open>The inner join of the query: a batch whose ingredient is missing yields no row. The three
  filters are typed here, so the 422 branches for unknown filter words do not arise.\<close>

definition overview_rows ::
    "int option \<Rightarrow> batch_status option \<Rightarrow> ingredient_batch list \<Rightarrow> stock_db
      \<Rightarrow> (ingredient_batch \<times> ingredient) list" where
  "overview_rows iid status bs s =
     concat (map (\<lambda>b. case get_ingredient (bat_ingredient_id b) s of None \<Rightarrow> [] | Some ing \<Rightarrow> [(b, ing)])
       (filter (\<lambda>b. (iid = None \<or> iid = Some (bat_ingredient_id b))
                  \<and> (status = None \<or> status = Some (bat_status b))) bs))"

definition get_dlc_overview ::
    "dlc_check list \<Rightarrow> int option \<Rightarrow> dlc_level option \<Rightarrow> severity option \<Rightarrow> batch_status option \<Rightarrow> int
      \<Rightarrow> instant \<Rightarrow> stock_db \<Rightarrow> stock_db \<times> overview_counters \<times> overview_item list" where
  "get_dlc_overview checks iid level sev status horizon now s =
     (let warning = now + hours horizon;
          critical = now + hours 24;
          bs = mark_expired_batches (map_option (\<lambda>i. [i]) iid) now (st_batches s);
          items = map (dlc_overview_item checks now warning critical) (overview_rows iid status bs s);
          items = (case level of None \<Rightarrow> items | Some l \<Rightarrow> filter (\<lambda>it. ovi_dlc_level it = Some l) items);
          items = (case sev of None \<Rightarrow> items | Some v \<Rightarrow> filter (\<lambda>it. ovi_severity it = v) items);
          items = sort_key overview_key items
      in (s\<lparr>st_batches := bs\<rparr>, overview_counters_of now warning items, items))"

definition list_alerts :: "stock_db \<Rightarrow> ingredient list" where
  "list_alerts s =
     sort_key (\<lambda>ing. (current_qty ing, ing_name ing))
       (filter (\<lambda>ing. current_qty ing < alert_threshold ing) (st_ingredients s))"

text \<open>\<^verbatim>\<open>list_ingredients\<close> with its two exact filters and its page window; the \<^verbatim>\<open>ILIKE\<close> search is the
  argument \<open>matches\<close>.\<close>

definition ingredient_filter ::
    "(string \<Rightarrow> bool) \<Rightarrow> bool option \<Rightarrow> string option \<Rightarrow> ingredient \<Rightarrow> bool" where
  "ingredient_filter matches below unit ing \<longleftrightarrow>
     (case below of None \<Rightarrow> True
      | Some True \<Rightarrow> current_qty ing < alert_threshold ing
      | Some False \<Rightarrow> alert_threshold ing \<le> current_qty ing)
     \<and> (case unit of None \<Rightarrow> True | Some u \<Rightarrow> u = [] \<or> ing_unit ing = u)
     \<and> matches (ing_name ing)"

definition page_of :: "nat \<Rightarrow> nat \<Rightarrow> 'a list \<Rightarrow> 'a list" where
  "page_of page psize rows = take psize (drop ((page - 1) * psize) rows)"

definition list_ingredients ::
    "(string \<Rightarrow> bool) \<Rightarrow> bool option \<Rightarrow> string option \<Rightarrow> nat \<Rightarrow> nat \<Rightarrow> stock_db \<Rightarrow> ingredient list \<times> nat" where
  "list_ingredients matches below unit page psize s =
     (let rows = filter (ingredient_filter matches below unit) (st_ingredients s)
      in (page_of page psize (sort_key ing_name rows), length rows))"

subsection \<open>Lemmas\<close>

lemma overview_severity_usable:
  assumes "it = dlc_overview_item checks now w c (b, ing)"
  shows "batch_is_usable b now \<longleftrightarrow>
    usable_status (ovi_status it) \<and> ovi_severity it \<noteq> Sev_expired \<and> ovi_severity it \<noteq> Sev_regularize"
proof -
  have "ovi_status it = bat_status b"
    and "ovi_severity it = dlc_overview_severity b (effective_batch_expires_at b)
      (0 < length (filter (\<lambda>c. snd c = Some False) (filter (\<lambda>c. fst c = Some (bat_id b)) checks))) now w c"
    using assms by (simp_all add: dlc_overview_item_def Let_def batch_payload_def
        effective_batch_expires_at_def)
  then show ?thesis
    by (cases "effective_batch_expires_at b")
       (auto simp: dlc_overview_severity_def batch_is_usable_def batch_is_expired_def
        batch_needs_dlc_regularization_def usable_status_def)
qed

text \<open>Walking the pages in order enumerates the rows, each once.\<close>

lemma pages_cover:
  "concat (map (\<lambda>p. page_of (Suc p) psize rows) [0..<n]) = take (n * psize) rows"
proof (induction n)
  case (Suc n)
  have "take (Suc n * psize) rows = take (n * psize) rows @ take psize (drop (n * psize) rows)"
    by (simp only: mult_Suc add.commute [of psize] take_add)
  then show ?case using Suc by (simp add: page_of_def)
qed simp

end
