(* ===== verification/Stock_Machine.thy ===== *)
theory Stock_Machine
  imports Stock_Orders Stock_Recipe_Edit Stock_Overview
begin

text \<open>
  The stock component as a state machine: one step is one successful request on the stock tables
  (the write operations of \<^verbatim>\<open>app/modules/stock/service.py\<close> and the reads that mark expired batches).
  A rule's premises are what the request schemas of \<^verbatim>\<open>app/modules/stock/schemas.py\<close> validate
  (positive quantities) and the freshness of a new primary key. The theory discharges the ledger and
  invariant contracts of \<^verbatim>\<open>Machines\<close> on these steps.
\<close>

definition recipes_positive :: "stock_db \<Rightarrow> bool" where
  "recipes_positive s \<longleftrightarrow>
     list_all (\<lambda>r. 0 < rl_quantity r) (st_product_recipes s)
     \<and> list_all (\<lambda>r. 0 < rl_quantity r) (st_variant_recipes s)
     \<and> list_all (\<lambda>r. 0 < rl_quantity r) (st_extra_recipes s)"

definition item_counts_ok :: "order_item \<Rightarrow> bool" where
  "item_counts_ok it \<longleftrightarrow> 0 \<le> oi_quantity it \<and> list_all (\<lambda>x. 0 \<le> xl_quantity x) (oi_extras_snapshot it)"

inductive stock_step :: "stock_db \<Rightarrow> stock_db \<Rightarrow> bool" where
  step_create_ingredient:
    "nid \<notin> known s \<Longrightarrow> create_ingredient nid data s = Inr s' \<Longrightarrow> stock_step s s'"
| step_patch_ingredient: "patch_ingredient i p s = Inr s' \<Longrightarrow> stock_step s s'"
| step_adjust: "adjust_ingredient_stock i q reason user now s = Inr s' \<Longrightarrow> stock_step s s'"
| step_create_batch:
    "0 < bc_quantity body \<Longrightarrow> create_batch nid i body user now s = Inr (s', payload) \<Longrightarrow> stock_step s s'"
| step_supply:
    "0 < q \<Longrightarrow> supply_stock nid i q ex rc uw tw user now s = Inr s' \<Longrightarrow> stock_step s s'"
| step_patch_batch: "patch_batch bid bp now s = Inr s' \<Longrightarrow> stock_step s s'"
| step_open_batch: "open_batch bid now s = Inr s' \<Longrightarrow> stock_step s s'"
| step_start_use: "start_batch_use bid h now s = Inr s' \<Longrightarrow> stock_step s s'"
| step_discard: "discard_batch bid reason user s = Inr s' \<Longrightarrow> stock_step s s'"
| step_list_batches: "list_batches i now s = Inr (s', bps) \<Longrightarrow> stock_step s s'"
| step_usable: "get_ingredient_usable_stock i now s = Inr (s', us) \<Longrightarrow> stock_step s s'"
| step_overview: "get_dlc_overview ck iid lv sv st hz now s = (s', cs, its) \<Longrightarrow> stock_step s s'"
| step_availability: "get_products_availability pids now s = (s', av) \<Longrightarrow> stock_step s s'"
| step_sync: "sync_auto_stock_availability_overrides ps now s = s' \<Longrightarrow> stock_step s s'"
| step_request:
    "create_adjustment_request nid i d reason note uid s = Inr (s', large) \<Longrightarrow> stock_step s s'"
| step_approve: "approve_adjustment_request rid uid note now s = Inr s' \<Longrightarrow> stock_step s s'"
| step_reject: "reject_adjustment_request rid uid note now s = Inr s' \<Longrightarrow> stock_step s s'"
| step_replace_recipe:
    "\<forall>it \<in> set items. 0 < rlc_quantity it \<Longrightarrow>
     replace_recipe nid rt t items user now s = Inr (s', ris) \<Longrightarrow> stock_step s s'"
| step_create_line:
    "0 < rlc_quantity item \<Longrightarrow>
     create_recipe_line nid rt t item user now s = Inr (s', ri) \<Longrightarrow> stock_step s s'"
| step_delete_line: "delete_recipe_line rt line user now s = Inr s' \<Longrightarrow> stock_step s s'"
| step_deduct: "deduct_for_order oid items user now s = Inr (s', low) \<Longrightarrow> stock_step s s'"
| step_restore:
    "\<forall>it \<in> set items. item_counts_ok it \<Longrightarrow>
     restore_for_order oid items user s = s' \<Longrightarrow> stock_step s s'"

subsection \<open>What one operation may do to quantities\<close>

text \<open>\<open>booked s s'\<close>: no ingredient disappears, every quantity change is journalled and no quantity
  becomes negative. Most operations are \<open>booked\<close> because they leave both tables alone or write
  through \<open>post_movement\<close>.\<close>

definition booked :: "stock_db \<Rightarrow> stock_db \<Rightarrow> bool" where
  "booked s s' \<longleftrightarrow> known s \<subseteq> known s' \<and> (\<forall>k \<in> known s. drift s' k = drift s k)
     \<and> (stock_nonneg s \<longrightarrow> stock_nonneg s')"

lemma booked_refl [simp, intro]: "booked s s"
  by (simp add: booked_def)

lemma booked_trans: "booked s t \<Longrightarrow> booked t u \<Longrightarrow> booked s u"
  by (auto simp: booked_def)

lemma booked_view:
  assumes "st_ingredients s' = st_ingredients t" "st_movements s' = st_movements t" "booked s t"
  shows "booked s s'"
  using assms stock_view_cong [OF assms(1,2)] by (simp add: booked_def)

lemma booked_same:
  "st_ingredients s' = st_ingredients s \<Longrightarrow> st_movements s' = st_movements s \<Longrightarrow> booked s s'"
  by (rule booked_view) auto

lemma booked_post:
  assumes "get_ingredient i s = Some ing" and "0 \<le> current_qty ing \<Longrightarrow> 0 \<le> current_qty ing + d"
  shows "booked s (post_movement ing d r u s)"
  using assms stock_nonneg_get [OF _ assms(1)] stock_nonneg_post [OF _ assms(1)]
  by (auto simp: booked_def drift_post [OF assms(1)])

lemma booked_create_ingredient:
  assumes "nid \<notin> known s" and "create_ingredient nid data s = Inr s'"
  shows "booked s s'"
proof -
  obtain ing where id: "ing_id ing = nid" and ok: "0 \<le> current_qty ing"
    and s': "s' = s\<lparr>st_ingredients := st_ingredients s @ [ing]\<rparr>"
  proof -
    obtain name where ok: "ingredient_row_ok (data\<lparr>ing_id := nid, ing_name := name\<rparr>)"
      and s': "s' = s\<lparr>st_ingredients := st_ingredients s @ [data\<lparr>ing_id := nid, ing_name := name\<rparr>]\<rparr>"
      using assms(2) by (auto simp: create_ingredient_def Let_def split: if_splits)
    show thesis by (rule that [OF _ _ s']) (use ok in \<open>simp_all add: ingredient_row_ok_def\<close>)
  qed
  have none: "get_ingredient nid s = None" using assms(1) by (simp add: row_get_None_iff known_def)
  have q: "qty s' k = (if k = nid then current_qty ing else qty s k)" for k
    using none id by (cases "get_ingredient k s") (auto simp: s' qty_def row_get_append row_get_Cons row_get_Nil)
  have "known s' = insert nid (known s)" by (auto simp: s' known_def row_ids_def id)
  moreover have "drift s' k = drift s k" if "k \<in> known s" for k
  proof -
    have "journal s' = journal s" by (simp add: journal_def s')
    then show ?thesis using that assms(1) by (auto simp: drift_def q)
  qed
  moreover have "stock_nonneg s'" if "stock_nonneg s"
    using that ok by (simp add: stock_nonneg_iff q)
  ultimately show ?thesis by (auto simp: booked_def)
qed

lemma booked_patch_ingredient:
  assumes "patch_ingredient i p s = Inr s'"
  shows "booked s s'"
proof -
  obtain name where s': "s' = upd_ingredient i (apply_ingredient_patch name p) s"
    using assms by (auto simp: patch_ingredient_def split: option.splits if_splits)
  let ?f = "apply_ingredient_patch name p"
  have f: "ing_id (?f r) = ing_id r" "current_qty (?f r) = current_qty r" for r
    by (simp_all add: apply_ingredient_patch_def)
  have g: "get_ingredient k s' = (if k = i then map_option ?f (get_ingredient i s) else get_ingredient k s)"
    for k using f(1) by (simp add: s' row_get_upd)
  have q: "qty s' = qty s" by (auto simp: fun_eq_iff qty_def g f(2) split: option.splits)
  have "known s' = known s" using f(1) by (simp add: known_def s' row_ids_upd)
  moreover have "journal s' = journal s" by (simp add: journal_def s')
  ultimately show ?thesis by (simp add: booked_def stock_nonneg_iff q drift_def)
qed

lemma booked_adjust:
  assumes "adjust_ingredient_stock i q reason user now s = Inr s'"
  shows "booked s s'"
proof -
  obtain ing where g: "get_ingredient i s = Some ing"
    using assms by (cases "get_ingredient i s") (auto simp: adjust_ingredient_stock_def)
  define d where "d = (if reason = ''inventory'' then q - current_qty ing else q)"
  have nn: "0 \<le> current_qty ing + d"
    and s': "st_ingredients s' = st_ingredients (post_movement ing d (Free_reason reason) user s)"
      "st_movements s' = st_movements (post_movement ing d (Free_reason reason) user s)"
    using assms by (simp_all add: adjust_ingredient_stock_def g d_def [symmetric] Let_def split: if_splits)
       (auto split: if_splits)
  show ?thesis using booked_view [OF s'] booked_post [OF g] nn by blast
qed

lemma booked_batch_in:
  assumes "get_ingredient i s = Some ing" and "0 < q"
  shows "booked s (post_movement ing q r u (s\<lparr>st_batches := bs\<rparr>))"
proof (rule booked_trans)
  show "booked s (s\<lparr>st_batches := bs\<rparr>)" by (rule booked_same) simp_all
  show "booked (s\<lparr>st_batches := bs\<rparr>) (post_movement ing q r u (s\<lparr>st_batches := bs\<rparr>))"
    using assms by (intro booked_post [of i]) auto
qed

lemma booked_create_batch:
  assumes "0 < bc_quantity body" and "create_batch nid i body user now s = Inr (s', bp)"
  shows "booked s s'"
  using assms by (auto simp: create_batch_def Let_def intro: booked_batch_in split: option.splits)

lemma booked_supply:
  assumes "0 < q" and "supply_stock nid i q ex rc uw tw user now s = Inr s'"
  shows "booked s s'"
  using assms by (auto simp: supply_stock_def Let_def intro: booked_batch_in split: option.splits)

lemma booked_patch_quantity:
  assumes "patch_batch_quantity b q s = Inr t"
  shows "booked s t"
proof (cases "q = None \<or> (\<exists>v. q = Some (Some v) \<and> v = bat_quantity b)")
  case True
  then show ?thesis using assms by (auto simp: patch_batch_quantity_def)
next
  case False
  then obtain v where q: "q = Some (Some v)" "v \<noteq> bat_quantity b"
    using assms by (cases q) (auto simp: patch_batch_quantity_def split: option.splits)
  then obtain ing where g: "get_ingredient (bat_ingredient_id b) s = Some ing"
    using assms by (cases "get_ingredient (bat_ingredient_id b) s") (auto simp: patch_batch_quantity_def)
  have nn: "0 \<le> current_qty ing + (v - bat_quantity b)"
    and t: "t = post_movement ing (v - bat_quantity b) (Batch_adjust_reason (bat_id b)) None s"
    using assms q g by (simp_all add: patch_batch_quantity_def Let_def split: if_splits)
  show ?thesis unfolding t using nn by (intro booked_post [OF g])
qed

lemma booked_patch_batch:
  assumes "patch_batch bid bp now s = Inr s'"
  shows "booked s s'"
proof -
  obtain b where b: "get_batch bid s = Some b"
    using assms by (cases "get_batch bid s") (auto simp: patch_batch_def)
  obtain t where t: "patch_batch_quantity b (bpt_quantity bp) s = Inr t"
    and s': "s' = upd_batch bid (apply_batch_patch bp) t"
    using assms by (auto simp: patch_batch_def b split: if_splits)
  show ?thesis unfolding s'
    by (rule booked_view [OF _ _ booked_patch_quantity [OF t]]) simp_all
qed

lemma booked_discard:
  assumes "discard_batch bid reason user s = Inr s'"
  shows "booked s s'"
proof -
  obtain b where b: "get_batch bid s = Some b"
    using assms by (cases "get_batch bid s") (auto simp: discard_batch_def)
  show ?thesis
  proof (cases "bat_status b = Discarded")
    case True
    then show ?thesis using assms b by (simp add: discard_batch_def)
  next
    case False
    then obtain ing where g: "get_ingredient (bat_ingredient_id b) s = Some ing"
      and nn: "0 \<le> current_qty ing + - bat_quantity b"
      and s': "s' = upd_batch bid (\<lambda>r. r\<lparr>bat_status := Discarded\<rparr>)
        (post_movement ing (- bat_quantity b) (Free_reason reason) user s)"
      using assms b by (auto simp: discard_batch_def split: option.splits if_splits)
    show ?thesis
      by (rule booked_view [OF _ _ booked_post [OF g, where d = "- bat_quantity b"]])
         (use nn in \<open>simp_all add: s'\<close>)
  qed
qed

lemma approve_success:
  assumes "approve_adjustment_request rid uid note now s = Inr s'"
  obtains r ing where "get_request rid s = Some r" and "req_status r = Req_pending"
    and "get_ingredient (req_ingredient_id r) s = Some ing"
    and "0 \<le> current_qty ing + req_delta r"
    and "s' = (post_movement ing (req_delta r) (Request_reason (req_reason r)) (Some uid) s)
      \<lparr>st_requests := row_upd req_id rid (close_request Req_approved uid now note) (st_requests s)\<rparr>"
  using assms by (auto simp: approve_adjustment_request_def Let_def split: option.splits if_splits)

lemma booked_approve:
  assumes "approve_adjustment_request rid uid note now s = Inr s'"
  shows "booked s s'"
proof -
  from assms obtain r ing where "get_request rid s = Some r" "req_status r = Req_pending"
    and g: "get_ingredient (req_ingredient_id r) s = Some ing"
    and nn: "0 \<le> current_qty ing + req_delta r"
    and s': "s' = (post_movement ing (req_delta r) (Request_reason (req_reason r)) (Some uid) s)
      \<lparr>st_requests := row_upd req_id rid (close_request Req_approved uid now note) (st_requests s)\<rparr>"
    by (rule approve_success)
  show ?thesis
    by (rule booked_view [OF _ _ booked_post [OF g, where d = "req_delta r"]])
       (use nn in \<open>simp_all add: s'\<close>)
qed

lemma booked_deduct:
  assumes "deduct_for_order oid items user now s = Inr (s', low)"
  shows "booked s s'"
proof -
  let ?ds = "order_deltas s (items_of_order oid items)"
  have "0 \<le> qty s' i" if nn: "stock_nonneg s" for i
  proof (cases "i \<in> known s \<and> i \<in> fst ` set ?ds")
    case True
    then obtain ing where g: "get_ingredient i s = Some ing" by (auto simp: known_iff)
    then show ?thesis
      using deduct_checked [OF assms _ g] True deduct_qty [OF assms, of i] by (simp add: qty_def)
  next
    case False
    then have "(if i \<in> known s then total_for i ?ds else 0) = 0"
      by (auto simp: total_for_absent)
    then show ?thesis using nn deduct_qty [OF assms, of i] by (simp add: stock_nonneg_iff)
  qed
  then show ?thesis
    by (simp add: booked_def deduct_known [OF assms] deduct_drift [OF assms] stock_nonneg_iff)
qed

lemma extra_quantities_nonneg:
  assumes "item_counts_ok it" and "map_of (extra_quantities it) e = Some q"
  shows "0 \<le> q"
proof -
  have "q = total_for e (map (\<lambda>x. (xl_extra_id x, xl_quantity x)) (oi_extras_snapshot it))"
    using assms(2) by (simp add: extra_quantities_def map_of_dict_of split: if_splits)
  then show ?thesis
    using assms(1) by (auto simp: item_counts_ok_def list_all_iff intro!: total_for_nonneg)
qed

lemma item_deltas_nonneg:
  assumes "recipes_positive s" and "item_counts_ok it" and "e \<in> set (item_recipe_deltas s it)"
  shows "0 \<le> snd e"
proof -
  have x: "0 \<le> (case map_of (extra_quantities it) k of None \<Rightarrow> 0 | Some q \<Rightarrow> q)" for k
    using extra_quantities_nonneg [OF assms(2)] by (auto split: option.splits)
  show ?thesis
    using assms x
    by (auto simp: item_recipe_deltas_def recipe_lines_for_def recipes_positive_def list_all_iff
        item_counts_ok_def Let_def split: option.splits intro!: mult_nonneg_nonneg
        intro: order_less_imp_le)
qed

lemma booked_restore:
  assumes "recipes_positive s" and "\<forall>it \<in> set items. item_counts_ok it"
  shows "booked s (restore_for_order oid items user s)"
proof -
  have "\<forall>e \<in> set (order_deltas s (items_of_order oid items)). 0 \<le> snd e"
    using assms(2) item_deltas_nonneg [OF assms(1)]
    by (fastforce simp: order_deltas_def items_of_order_def)
  then have "0 \<le> total_for i (order_deltas s (items_of_order oid items))" for i
    by (rule total_for_nonneg)
  then show ?thesis
    by (simp add: booked_def restore_qty stock_nonneg_iff)
       (simp add: restore_for_order_def give_back_drift)
qed

subsection \<open>Recipe quantities stay positive\<close>

lemma recipes_positive_iff: "recipes_positive s \<longleftrightarrow> (\<forall>rt. \<forall>r \<in> set (recipe_table rt s). 0 < rl_quantity r)"
proof
  assume p: "recipes_positive s"
  show "\<forall>rt. \<forall>r \<in> set (recipe_table rt s). 0 < rl_quantity r"
  proof
    fix rt show "\<forall>r \<in> set (recipe_table rt s). 0 < rl_quantity r"
      using p by (cases rt) (simp_all add: recipes_positive_def recipe_table_def list_all_iff)
  qed
next
  assume a: "\<forall>rt. \<forall>r \<in> set (recipe_table rt s). 0 < rl_quantity r"
  show "recipes_positive s"
    using a [THEN spec, of Product_recipe] a [THEN spec, of Variant_recipe] a [THEN spec, of Extra_recipe]
    by (simp add: recipes_positive_def recipe_table_def list_all_iff)
qed

lemma recipes_positive_cong:
  assumes "st_product_recipes s' = st_product_recipes s" "st_variant_recipes s' = st_variant_recipes s"
    "st_extra_recipes s' = st_extra_recipes s"
  shows "recipes_positive s' = recipes_positive s"
  by (simp add: recipes_positive_def assms)

lemma unit_factors_positive: "map_of unit_factors u = Some (d, f) \<Longrightarrow> 0 < f"
proof -
  assume u: "map_of unit_factors u = Some (d, f)"
  have "list_all (\<lambda>e. 0 < snd (snd e)) unit_factors" by (simp add: unit_factors_def)
  then show ?thesis using map_of_SomeD [OF u] by (auto simp: list_all_iff)
qed

lemma normalize_cases:
  assumes "normalize_quantity q u ing = Inr (q', u')"
  obtains "q' = q" | d f f' where "q' = q * f / f'" "map_of unit_factors (clean_unit (ing_unit ing)) = Some (d, f')"
    "\<exists>v. map_of unit_factors v = Some (d, f)"
proof -
  define src where "src = clean_unit (case u of None \<Rightarrow> ing_unit ing | Some u \<Rightarrow> if u = [] then ing_unit ing else u)"
  have n: "(if src = clean_unit (ing_unit ing) then Inr (q, ing_unit ing)
     else (case (map_of unit_factors src, map_of unit_factors (clean_unit (ing_unit ing))) of
            (Some (d, f), Some (d', f')) \<Rightarrow>
              if d \<noteq> d' then Inl (AppError ''INVALID_RECIPE_UNIT'' 422)
              else Inr (q * f / f', ing_unit ing)
          | _ \<Rightarrow> Inl (AppError ''INVALID_RECIPE_UNIT'' 422))) = Inr (q', u')"
    using assms by (simp only: normalize_quantity_def Let_def src_def)
  show thesis
  proof (cases "src = clean_unit (ing_unit ing)")
    case True
    then show thesis using n that(1) by simp
  next
    case False
    then show thesis
      using n that(2)
      by (cases "map_of unit_factors src"; cases "map_of unit_factors (clean_unit (ing_unit ing))")
         (fastforce split: if_splits)+
  qed
qed

lemma normalize_positive:
  assumes "0 < q" and "normalize_quantity q u ing = Inr (q', u')"
  shows "0 < q'"
  using assms(2)
proof (cases rule: normalize_cases)
  case (2 d f f')
  then have "0 < f" "0 < f'" using unit_factors_positive by blast+
  then show ?thesis using assms(1) 2(1) by simp
qed (use assms(1) in simp)

lemma recipe_rows_positive:
  assumes "mapE (recipe_row t s) kis = Inr rows" and "\<forall>ki \<in> set kis. 0 < rlc_quantity (snd ki)"
  shows "\<forall>r \<in> set rows. 0 < rl_quantity r"
  using assms
proof (induction kis arbitrary: rows)
  case (Cons ki kis)
  obtain k it where ki: "ki = (k, it)" by fastforce
  obtain r rs where r: "recipe_row t s (k, it) = Inr r" and rs: "mapE (recipe_row t s) kis = Inr rs"
    and rows: "rows = r # rs"
    using Cons.prems(1) by (auto simp: ki)
  have "0 < rl_quantity r"
    using recipe_row_fields [OF r] Cons.prems(2) normalize_positive by (auto simp: ki)
  then show ?case using Cons.IH [OF rs] Cons.prems(2) by (simp add: rows)
qed simp

lemma positive_table:
  assumes "recipes_positive s" and "\<forall>r \<in> set rows. 0 < rl_quantity r"
    and "\<And>rt'. recipe_table rt' s' = (if rt' = rt then rows else recipe_table rt' s)"
  shows "recipes_positive s'"
  using assms by (auto simp: recipes_positive_iff)

lemma replace_positive:
  assumes "recipes_positive s" and "\<forall>it \<in> set items. 0 < rlc_quantity it"
    and "replace_recipe nid rt t items user now s = Inr (s', ris)"
  shows "recipes_positive s'"
proof -
  obtain rows where m: "mapE (recipe_row t s) (zip [nid .. nid + int (length items) - 1] items) = Inr rows"
    and s': "\<And>rt'. recipe_table rt' s' =
      (if rt' = rt then filter (\<lambda>r. rl_target_id r \<noteq> t) (recipe_table rt s) @ rows else recipe_table rt' s)"
    using assms(3)
    by (auto simp: replace_recipe_def Let_def recipe_table_set)
  have "\<forall>r \<in> set rows. 0 < rl_quantity r"
    using assms(2) by (intro recipe_rows_positive [OF m]) (auto dest: set_zip_rightD)
  then show ?thesis
    using assms(1) by (intro positive_table [OF assms(1) _ s']) (auto simp: recipes_positive_iff)
qed

lemma create_line_positive:
  assumes "recipes_positive s" and "0 < rlc_quantity item"
    and "create_recipe_line nid rt t item user now s = Inr (s', ri)"
  shows "recipes_positive s'"
proof -
  obtain row where r: "recipe_row t s (nid, item) = Inr row"
    and s': "\<And>rt'. recipe_table rt' s' =
      (if rt' = rt then recipe_table rt s @ [row] else recipe_table rt' s)"
    using assms(3) by (auto simp: create_recipe_line_def Let_def recipe_table_set split: if_splits)
  have "0 < rl_quantity row"
    using recipe_row_fields [OF r] normalize_positive [OF assms(2)] by auto
  then show ?thesis
    using assms(1) by (intro positive_table [OF assms(1) _ s']) (auto simp: recipes_positive_iff)
qed

lemma delete_line_positive:
  assumes "recipes_positive s" and "delete_recipe_line rt line user now s = Inr s'"
  shows "recipes_positive s'"
proof -
  have s': "recipe_table rt' s' =
      (if rt' = rt then filter (\<lambda>x. rl_id x \<noteq> line) (recipe_table rt s) else recipe_table rt' s)" for rt'
    using assms(2) by (auto simp: delete_recipe_line_def Let_def recipe_table_set split: option.splits)
  show ?thesis
    using assms(1) by (intro positive_table [OF assms(1) _ s']) (auto simp: recipes_positive_iff)
qed

subsection \<open>The contracts of the machine\<close>

definition same_recipes :: "stock_db \<Rightarrow> stock_db \<Rightarrow> bool" where
  "same_recipes s s' \<longleftrightarrow> st_product_recipes s' = st_product_recipes s
     \<and> st_variant_recipes s' = st_variant_recipes s \<and> st_extra_recipes s' = st_extra_recipes s"

lemmas stock_op_defs = create_ingredient_def patch_ingredient_def adjust_ingredient_stock_def
  create_batch_def supply_stock_def patch_batch_def patch_batch_quantity_def open_batch_def
  start_batch_use_def discard_batch_def list_batches_def get_ingredient_usable_stock_def
  get_dlc_overview_def get_products_availability_def create_adjustment_request_def
  reject_adjustment_request_def Let_def split_beta

lemma same_recipes_ops:
  "create_ingredient nid data s = Inr s' \<Longrightarrow> same_recipes s s'"
  "patch_ingredient i p s = Inr s' \<Longrightarrow> same_recipes s s'"
  "create_batch nid i body user now s = Inr (s', pl) \<Longrightarrow> same_recipes s s'"
  "supply_stock nid i q ex rc uw tw user now s = Inr s' \<Longrightarrow> same_recipes s s'"
  "open_batch bid now s = Inr s' \<Longrightarrow> same_recipes s s'"
  "start_batch_use bid h now s = Inr s' \<Longrightarrow> same_recipes s s'"
  "list_batches i now s = Inr (s', bps) \<Longrightarrow> same_recipes s s'"
  "get_ingredient_usable_stock i now s = Inr (s', us) \<Longrightarrow> same_recipes s s'"
  "get_dlc_overview ck iid lv sv st hz now s = (s', cs, its) \<Longrightarrow> same_recipes s s'"
  "get_products_availability pids now s = (s', av) \<Longrightarrow> same_recipes s s'"
  "create_adjustment_request nid i d rs note uid s = Inr (s', large) \<Longrightarrow> same_recipes s s'"
  "reject_adjustment_request rid uid note now s = Inr s' \<Longrightarrow> same_recipes s s'"
  by (auto simp: same_recipes_def stock_op_defs split: option.splits if_splits)

lemma same_recipes_adjust:
  "adjust_ingredient_stock i q rs user now s = Inr s' \<Longrightarrow> same_recipes s s'"
  by (simp add: same_recipes_def adjust_ingredient_stock_def Let_def split: option.splits if_splits)
     (auto split: if_splits)

lemma same_recipes_patch_batch:
  assumes "patch_batch bid bp now s = Inr s'"
  shows "same_recipes s s'"
proof -
  obtain b where b: "get_batch bid s = Some b"
    using assms by (cases "get_batch bid s") (auto simp: patch_batch_def)
  obtain t where t: "patch_batch_quantity b (bpt_quantity bp) s = Inr t"
    and s': "s' = upd_batch bid (apply_batch_patch bp) t"
    using assms by (auto simp: patch_batch_def b split: if_splits)
  have "same_recipes s t"
    using t by (auto simp: same_recipes_def patch_batch_quantity_def Let_def split: option.splits if_splits)
  then show ?thesis by (simp add: same_recipes_def s')
qed

lemma same_recipes_discard: "discard_batch bid rs user s = Inr s' \<Longrightarrow> same_recipes s s'"
  by (simp add: same_recipes_def discard_batch_def split: option.splits if_splits) auto

lemma step_recipes_positive: "stock_step s s' \<Longrightarrow> recipes_positive s \<Longrightarrow> recipes_positive s'"
proof (induction rule: stock_step.induct)
  case (step_replace_recipe items nid rt t user now s s' ris)
  then show ?case using replace_positive by blast
next
  case (step_create_line item nid rt t user now s s' ri)
  then show ?case using create_line_positive by blast
next
  case (step_delete_line rt line user now s s')
  then show ?case using delete_line_positive by blast
next
  case (step_deduct oid items user now s s' low)
  then show ?case
    using recipes_positive_cong [OF deduct_recipes(1,2,3)] by blast
next
  case (step_approve rid uid nt now s s')
  then show ?case by (auto simp: recipes_positive_def elim!: approve_success)
qed (auto simp: restore_for_order_def recipes_positive_def same_recipes_def
    dest!: same_recipes_ops same_recipes_adjust same_recipes_patch_batch same_recipes_discard)

lemma step_booked: "stock_step s s' \<Longrightarrow> recipes_positive s \<Longrightarrow> booked s s'"
proof (induction rule: stock_step.induct)
  case (step_replace_recipe items nid rt t user now s s' ris)
  then show ?case by (intro booked_same) (auto simp: replace_recipe_def Let_def)
next
  case (step_create_line item nid rt t user now s s' ri)
  then show ?case by (intro booked_same) (auto simp: create_recipe_line_def Let_def split: if_splits)
next
  case (step_delete_line rt line user now s s')
  then show ?case by (intro booked_same) (auto simp: delete_recipe_line_def Let_def split: option.splits)
next
  case (step_overview ck iid lv sv st hz now s s' cs its)
  then show ?case by (intro booked_same) (auto simp: get_dlc_overview_def Let_def)
next
  case (step_availability pids now s s' av)
  then show ?case
    by (intro booked_same) (auto simp: get_products_availability_def Let_def split_beta split: if_splits)
next
  case (step_open_batch bid now s s')
  then show ?case by (intro booked_same) (auto simp: open_batch_def split: option.splits if_splits)
next
  case (step_start_use bid h now s s')
  then show ?case
    by (intro booked_same) (auto simp: start_batch_use_def Let_def split: option.splits if_splits)
next
  case (step_list_batches i now s s' bps)
  then show ?case by (intro booked_same) (auto simp: list_batches_def Let_def split: option.splits)
next
  case (step_usable i now s s' us)
  then show ?case
    by (intro booked_same) (auto simp: get_ingredient_usable_stock_def Let_def split: option.splits)
next
  case (step_sync ps now s s')
  then show ?case by (intro booked_same) auto
next
  case (step_request nid i d reason nt uid s s' large)
  then show ?case
    by (intro booked_same) (auto simp: create_adjustment_request_def split: option.splits)
next
  case (step_reject rid uid nt now s s')
  then show ?case
    by (intro booked_same) (auto simp: reject_adjustment_request_def split: option.splits if_splits)
qed (blast intro: booked_create_ingredient booked_patch_ingredient booked_adjust booked_create_batch
    booked_supply booked_patch_batch booked_discard booked_approve booked_deduct booked_restore)+

text \<open>A reachable state is one the machine reaches from a state whose recipes are positive; the
  contracts are discharged on the steps between such states.\<close>

definition recipe_step :: "stock_db \<Rightarrow> stock_db \<Rightarrow> bool" where
  "recipe_step s s' \<longleftrightarrow> recipes_positive s \<and> stock_step s s'"

interpretation recipes_inv: invariant_steps stock_step recipes_positive
  by unfold_locales (rule step_recipes_positive)

interpretation stock_inv: invariant_steps stock_step "\<lambda>s. recipes_positive s \<and> stock_nonneg s"
  using step_booked step_recipes_positive by unfold_locales (auto simp: booked_def)

interpretation stock_ledger: ledger qty journal known recipe_step
  using step_booked by unfold_locales (auto simp: recipe_step_def booked_def drift_def)

lemma run_recipe_step:
  assumes "stock_step\<^sup>*\<^sup>* s s'" and "recipes_positive s"
  shows "recipe_step\<^sup>*\<^sup>* s s'"
  using assms
proof (induction rule: rtranclp_induct)
  case (step t u)
  then have "recipe_step t u" using recipes_inv.run_inv by (simp add: recipe_step_def)
  then show ?case using step by (meson rtranclp.rtrancl_into_rtrancl)
qed simp

subsection \<open>Adjustment requests\<close>

lemma same_requests_ops:
  "create_ingredient nid data s = Inr s' \<Longrightarrow> st_requests s' = st_requests s"
  "patch_ingredient i p s = Inr s' \<Longrightarrow> st_requests s' = st_requests s"
  "create_batch nid i body user now s = Inr (s', pl) \<Longrightarrow> st_requests s' = st_requests s"
  "supply_stock nid i q ex rc uw tw user now s = Inr s' \<Longrightarrow> st_requests s' = st_requests s"
  "open_batch bid now s = Inr s' \<Longrightarrow> st_requests s' = st_requests s"
  "start_batch_use bid h now s = Inr s' \<Longrightarrow> st_requests s' = st_requests s"
  "list_batches i now s = Inr (s', bps) \<Longrightarrow> st_requests s' = st_requests s"
  "get_ingredient_usable_stock i now s = Inr (s', us) \<Longrightarrow> st_requests s' = st_requests s"
  "get_dlc_overview ck iid lv sv st hz now s = (s', cs, its) \<Longrightarrow> st_requests s' = st_requests s"
  "get_products_availability pids now s = (s', av) \<Longrightarrow> st_requests s' = st_requests s"
  by (auto simp: stock_op_defs split: option.splits if_splits)

lemma same_requests_adjust:
  "adjust_ingredient_stock i q rs user now s = Inr s' \<Longrightarrow> st_requests s' = st_requests s"
  by (simp add: adjust_ingredient_stock_def Let_def split: option.splits if_splits)
     (auto split: if_splits)

lemma same_requests_patch_batch:
  assumes "patch_batch bid bp now s = Inr s'"
  shows "st_requests s' = st_requests s"
proof -
  obtain b where b: "get_batch bid s = Some b"
    using assms by (cases "get_batch bid s") (auto simp: patch_batch_def)
  obtain t where t: "patch_batch_quantity b (bpt_quantity bp) s = Inr t"
    and s': "s' = upd_batch bid (apply_batch_patch bp) t"
    using assms by (auto simp: patch_batch_def b split: if_splits)
  have "st_requests t = st_requests s"
    using t by (auto simp: patch_batch_quantity_def Let_def split: option.splits if_splits)
  then show ?thesis by (simp add: s')
qed

lemma same_requests_discard: "discard_batch bid rs user s = Inr s' \<Longrightarrow> st_requests s' = st_requests s"
  by (simp add: discard_batch_def split: option.splits if_splits) auto

lemma set_recipe_requests [simp]: "st_requests (set_recipe_table rt rows s) = st_requests s"
  by (cases rt) (simp_all add: set_recipe_table_def)

lemma finish_requests [simp]:
  "st_requests (finish_recipe_edit rt t user old new now s) = st_requests s"
  by (simp add: finish_recipe_edit_def add_recipe_audit_log_def)

lemma close_request_id [simp]: "req_id (close_request st user now nt r) = req_id r"
  by (simp add: close_request_def)

definition closed_request :: "int \<Rightarrow> adjustment_request \<Rightarrow> stock_db \<Rightarrow> bool" where
  "closed_request rid r s \<longleftrightarrow> get_request rid s = Some r \<and> req_status r \<noteq> Req_pending"

lemma closed_request_review:
  assumes "closed_request rid r s" and "get_request rid' s = Some r'" and "req_status r' = Req_pending"
    and "st_requests s' = row_upd req_id rid' (close_request st user now nt) (st_requests s)"
  shows "closed_request rid r s'"
  using assms by (auto simp: closed_request_def row_get_upd)

lemma step_closed_request: "stock_step s s' \<Longrightarrow> closed_request rid r s \<Longrightarrow> closed_request rid r s'"
proof (induction rule: stock_step.induct)
  case (step_approve rid' uid nt now s s')
  from step_approve(1) obtain r' ing where "get_request rid' s = Some r'" "req_status r' = Req_pending"
    "get_ingredient (req_ingredient_id r') s = Some ing" "0 \<le> current_qty ing + req_delta r'"
    "s' = (post_movement ing (req_delta r') (Request_reason (req_reason r')) (Some uid) s)
      \<lparr>st_requests := row_upd req_id rid' (close_request Req_approved uid now nt) (st_requests s)\<rparr>"
    by (rule approve_success)
  then show ?case by (intro closed_request_review [OF step_approve(2)]) simp_all
next
  case (step_reject rid' uid nt now s s')
  then obtain r' where "get_request rid' s = Some r'" "req_status r' = Req_pending"
    "st_requests s' = row_upd req_id rid' (close_request Req_rejected uid now nt) (st_requests s)"
    by (auto simp: reject_adjustment_request_def split: option.splits if_splits)
  then show ?case by (intro closed_request_review [OF step_reject(2)])
next
  case (step_request nid i d reason nt uid s s' large)
  then show ?case
    by (auto simp: create_adjustment_request_def closed_request_def row_get_append split: option.splits)
next
  case (step_replace_recipe items nid rt t user now s s' ris)
  then show ?case by (auto simp: replace_recipe_def Let_def closed_request_def)
next
  case (step_create_line item nid rt t user now s s' ri)
  then show ?case by (auto simp: create_recipe_line_def Let_def closed_request_def split: if_splits)
next
  case (step_delete_line rt line user now s s')
  then show ?case by (auto simp: delete_recipe_line_def Let_def closed_request_def split: option.splits)
next
  case (step_deduct oid items user now s s' low)
  then show ?case using deduct_recipes(5) [OF step_deduct(1)] by (simp add: closed_request_def)
qed (auto simp: closed_request_def restore_for_order_def
    dest!: same_requests_ops same_requests_adjust same_requests_patch_batch same_requests_discard)

interpretation closed_requests: invariant_steps stock_step "closed_request rid r" for rid r
  by unfold_locales (rule step_closed_request)

end
