(* ===== verification/Stock_Overrides.thy ===== *)
theory Stock_Overrides
  imports Stock_Recipes
begin

text \<open>
  What the automatic overrides achieve. \<open>overrides_fresh now s\<close> says that no stored override is
  dated in the future or carries an id the sequence has not issued yet, which is how the database
  assigns both columns.
\<close>

definition overrides_fresh :: "instant \<Rightarrow> stock_db \<Rightarrow> bool" where
  "overrides_fresh now s \<longleftrightarrow>
     list_all (\<lambda>a. ov_created_at a \<le> now \<and> ov_id a \<le> st_override_seq s) (st_overrides s)"

lemma latest_override_snoc:
  "latest_override p (ovs @ [a]) =
    (if ov_product_id a \<noteq> p then latest_override p ovs
     else (case latest_override p ovs of None \<Rightarrow> Some a
           | Some b \<Rightarrow> if later_override a b then Some a else Some b))"
  by (simp add: latest_override_def)

lemma latest_override_in: "latest_override p ovs = Some a \<Longrightarrow> a \<in> set ovs"
  by (induction ovs rule: rev_induct)
     (auto simp: latest_override_snoc latest_override_def [of p "[]"] split: if_splits option.splits)

lemma add_override_fresh: "overrides_fresh now s \<Longrightarrow> overrides_fresh now (add_override now pa s)"
  by (auto simp: overrides_fresh_def add_override_def list_all_iff)

lemma add_override_latest:
  assumes "overrides_fresh now s"
  shows "latest_unavailable (add_override now pa s) p \<longleftrightarrow> p = pa_product_id pa \<or> latest_unavailable s p"
proof (cases "latest_override p (st_overrides s)")
  case None
  then show ?thesis by (auto simp: latest_unavailable_def add_override_def latest_override_snoc)
next
  case (Some b)
  have "b \<in> set (st_overrides s)" using Some by (rule latest_override_in)
  then have "ov_created_at b \<le> now" "ov_id b \<le> st_override_seq s"
    using assms by (auto simp: overrides_fresh_def list_all_iff)
  then show ?thesis
    using Some by (auto simp: latest_unavailable_def add_override_def latest_override_snoc later_override_def)
qed

lemma create_overrides_latest:
  assumes "overrides_fresh now s"
  shows "latest_unavailable (create_overrides now al pas s) p \<longleftrightarrow>
    latest_unavailable s p \<or> (\<exists>pa \<in> set pas. pa_product_id pa = p \<and> \<not> al p)"
  using assms
proof (induction pas arbitrary: s)
  case (Cons pa pas)
  show ?case
  proof (cases "al (pa_product_id pa)")
    case True
    then show ?thesis using Cons by auto
  next
    case False
    then show ?thesis
      using Cons.IH [OF add_override_fresh [OF Cons.prems], of pa] add_override_latest [OF Cons.prems, of pa p]
      by auto
  qed
qed simp

lemma create_overrides_idle:
  "\<forall>pa \<in> set pas. al (pa_product_id pa) \<Longrightarrow> create_overrides now al pas s = s"
  by (induction pas) auto

lemma usable_quantities_again:
  "usable_quantities_for_ingredients ings now (fst (usable_quantities_for_ingredients ings now bs))
   = usable_quantities_for_ingredients ings now bs"
  by (simp add: usable_quantities_for_ingredients_def Let_def)

text \<open>Availability reads the ingredient, recipe and catalogue tables only, and the batches through
  \<open>usable_quantities_for_ingredients\<close>.\<close>

definition same_view :: "stock_db \<Rightarrow> stock_db \<Rightarrow> bool" where
  "same_view s t \<longleftrightarrow> st_ingredients t = st_ingredients s \<and> st_catalog t = st_catalog s
     \<and> st_product_recipes t = st_product_recipes s \<and> st_variant_recipes t = st_variant_recipes s
     \<and> st_extra_recipes t = st_extra_recipes s"

lemma first_limiting_cong:
  "st_ingredients t = st_ingredients s \<Longrightarrow> first_limiting t us req = first_limiting s us req"
proof (induction s us req rule: first_limiting.induct)
  case (2 s us i q req)
  then show ?case by (cases "get_ingredient i s") simp_all
qed simp

lemma availability_of_cong:
  assumes "same_view s t"
  shows "required_entries t p = required_entries s p"
    and "product_availability_of t us p = product_availability_of s us p"
proof -
  show r: "required_entries t p = required_entries s p"
    using assms by (simp only: required_entries_def same_view_def)
  show "product_availability_of t us p = product_availability_of s us p"
    using assms first_limiting_cong [of t s]
    by (simp only: product_availability_of_def r same_view_def)
qed

lemma products_availability_again:
  assumes "get_products_availability pids now s = (s', av)" and "same_view s t"
    and "st_batches t = st_batches s'"
  shows "get_products_availability pids now t = (t, av)"
proof (cases "pids = []")
  case True
  then show ?thesis using assms(1) by (simp add: get_products_availability_def)
next
  case False
  define ings where "ings = filter (\<lambda>x. ing_id x \<in>
      set (concat (map (\<lambda>p. map fst (required_entries s p)) pids))) (st_ingredients s)"
  define uq where "uq = usable_quantities_for_ingredients ings now (st_batches s)"
  have s': "s' = s\<lparr>st_batches := fst uq\<rparr>"
    and av: "av = map (\<lambda>p. (p, product_availability_of s (snd uq) p)) pids"
    using assms(1) False
    by (auto simp: get_products_availability_def Let_def split_beta ings_def uq_def)
  have bt: "st_batches t = fst uq" using assms(3) by (simp add: s')
  have ings_t: "filter (\<lambda>x. ing_id x \<in>
      set (concat (map (\<lambda>p. map fst (required_entries t p)) pids))) (st_ingredients t) = ings"
    using availability_of_cong(1) [OF assms(2)] assms(2) by (simp add: ings_def same_view_def)
  have "usable_quantities_for_ingredients ings now (st_batches t) = uq"
    unfolding bt uq_def by (rule usable_quantities_again)
  then have "get_products_availability pids now t =
      (t\<lparr>st_batches := fst uq\<rparr>, map (\<lambda>p. (p, product_availability_of t (snd uq) p)) pids)"
    using False by (simp only: get_products_availability_def Let_def split_beta ings_t if_False)
  then show ?thesis using bt by (simp add: av availability_of_cong(2) [OF assms(2)])
qed

definition sync_scope :: "int list option \<Rightarrow> stock_db \<Rightarrow> int list" where
  "sync_scope ps s = sort (remdups (case ps of
       None \<Rightarrow> map prod_id (filter prod_active (cat_products (st_catalog s)))
     | Some l \<Rightarrow> filter (\<lambda>p. p \<noteq> 0) l))"

lemma sync_unfold:
  assumes "get_products_availability (sync_scope ps s) now s = (s', av)"
  shows "sync_auto_stock_availability_overrides ps now s =
    create_overrides now (latest_unavailable s') (filter (\<lambda>pa. \<not> pa_available pa) (map snd av)) s'"
proof (cases "sync_scope ps s = []")
  case True
  then show ?thesis
    using assms by (simp add: sync_auto_stock_availability_overrides_def sync_scope_def [symmetric]
        get_products_availability_def Let_def)
next
  case False
  then show ?thesis
    using assms by (simp add: sync_auto_stock_availability_overrides_def sync_scope_def [symmetric] Let_def)
qed

lemma products_availability_keys:
  assumes "get_products_availability pids now s = (s', av)"
  shows "map fst av = pids" "(p, pa) \<in> set av \<Longrightarrow> pa_product_id pa = p"
    "st_overrides s' = st_overrides s" "st_override_seq s' = st_override_seq s" "same_view s s'"
  using assms
  by (auto simp: get_products_availability_def Let_def split_beta product_availability_of_def
      same_view_def comp_def split: if_splits)

lemma sync_latest:
  assumes "overrides_fresh now s"
    and av: "get_products_availability (sync_scope ps s) now s = (s', av)"
  shows "latest_unavailable (sync_auto_stock_availability_overrides ps now s) p \<longleftrightarrow>
    latest_unavailable s p \<or> (\<exists>pa. (p, pa) \<in> set av \<and> \<not> pa_available pa)"
proof -
  note k = products_availability_keys [OF av]
  have f: "overrides_fresh now s'" using assms(1) k(3,4) by (simp add: overrides_fresh_def)
  have "latest_unavailable s' p = latest_unavailable s p" using k(3) by (simp add: latest_unavailable_def)
  moreover have "(\<exists>pa \<in> set (filter (\<lambda>pa. \<not> pa_available pa) (map snd av)). pa_product_id pa = p)
      \<longleftrightarrow> (\<exists>pa. (p, pa) \<in> set av \<and> \<not> pa_available pa)"
    using k(2) by force
  ultimately show ?thesis
    unfolding sync_unfold [OF av] create_overrides_latest [OF f] by blast
qed

lemma sync_idem:
  assumes "overrides_fresh now s"
  shows "sync_auto_stock_availability_overrides ps now (sync_auto_stock_availability_overrides ps now s)
    = sync_auto_stock_availability_overrides ps now s"
proof -
  obtain s' av where av: "get_products_availability (sync_scope ps s) now s = (s', av)" by fastforce
  define t where "t = sync_auto_stock_availability_overrides ps now s"
  have t: "t = create_overrides now (latest_unavailable s') (filter (\<lambda>pa. \<not> pa_available pa) (map snd av)) s'"
    unfolding t_def by (rule sync_unfold [OF av])
  have view: "same_view s t" by (simp add: t_def same_view_def)
  have scope: "sync_scope ps t = sync_scope ps s" by (cases ps) (simp_all add: sync_scope_def t_def)
  have av2: "get_products_availability (sync_scope ps t) now t = (t, av)"
    unfolding scope by (rule products_availability_again [OF av view]) (simp add: t)
  have "latest_unavailable t (pa_product_id pa)" if "pa \<in> set (map snd av)" "\<not> pa_available pa" for pa
    using that sync_latest [OF assms av] products_availability_keys(2) [OF av] by (fastforce simp: t_def)
  then have "sync_auto_stock_availability_overrides ps now t = t"
    unfolding sync_unfold [OF av2] by (intro create_overrides_idle) auto
  then show ?thesis by (simp add: t_def)
qed

end
