(* ===== verification/Stock_Props.thy ===== *)
theory Stock_Props
  imports Stock_Machine Stock_Overrides
begin

text \<open>
  Correctness of the stock component: properties of \<^verbatim>\<open>app/modules/stock/service.py\<close>, each followed
  by an instance on a small concrete kitchen.
\<close>

subsection \<open>A concrete kitchen\<close>

definition demo_batch :: "int \<Rightarrow> int \<Rightarrow> rat \<Rightarrow> instant \<Rightarrow> ingredient_batch" where
  "demo_batch bid i q expires =
     \<lparr>bat_id = bid, bat_ingredient_id = i, bat_quantity = q, bat_received_at = 0,
      bat_expires_at = Some expires, bat_opened_at = None, bat_use_within_hours = None,
      bat_tertiary_started_at = None, bat_tertiary_use_within_hours = None,
      bat_status = Sealed, bat_created_by = None\<rparr>"

definition demo_ingredient :: "int \<Rightarrow> string \<Rightarrow> rat \<Rightarrow> ingredient" where
  "demo_ingredient i name q =
     \<lparr>ing_id = i, ing_name = name, ing_unit = ''kg'', current_qty = q, alert_threshold = 1,
      purchase_price_per_unit = None, purchase_unit = None\<rparr>"

definition demo_catalog :: catalog where
  "demo_catalog =
     \<lparr>cat_categories = [],
      cat_products = [\<lparr>prod_id = 7, prod_category_id = None, prod_name = ''pizza'',
        prod_base_price = 12, prod_station = None, prod_active = True\<rparr>],
      cat_variants = [], cat_extras = [], cat_product_extras = [], cat_menus = [],
      cat_menu_groups = [], cat_menu_group_items = []\<rparr>"

definition demo_stock :: stock_db where
  "demo_stock =
     \<lparr>st_catalog = demo_catalog,
      st_ingredients = [demo_ingredient 1 ''flour'' 10, demo_ingredient 2 ''oil'' 3],
      st_batches = [demo_batch 11 1 8 100, demo_batch 12 1 2 5, demo_batch 13 2 3 100],
      st_movements = [],
      st_product_recipes = [\<lparr>rl_id = 1, rl_target_id = 7, rl_ingredient_id = 1, rl_quantity = 2,
        rl_unit = Some ''kg''\<rparr>],
      st_variant_recipes = [], st_extra_recipes = [], st_audits = [], st_requests = [],
      st_overrides = [], st_override_seq = 0, st_large_threshold = None\<rparr>"

definition demo_item :: "int \<Rightarrow> int \<Rightarrow> order_item" where
  "demo_item oid n =
     \<lparr>oi_id = 1, oi_order_id = oid, oi_type = Item_product, oi_parent_item_id = None,
      oi_menu_id = None, oi_menu_name = None, oi_menu_group_id = None, oi_menu_group_name = None,
      oi_menu_snapshot = None, oi_product_id = Some 7, oi_variant_id = None,
      oi_product_name = Some ''pizza'', oi_variant_name = None, oi_extras_snapshot = [],
      oi_extras_total = 0, oi_quantity = n, oi_unit_price = 12, oi_catalog_unit_price = Some 12,
      oi_total = 12 * of_int n, oi_prep_status = Prep_pending, oi_station = Kitchen,
      oi_prepared_at = None, oi_prepared_by = None\<rparr>"

lemmas demo_defs = demo_stock_def demo_ingredient_def demo_batch_def demo_catalog_def demo_item_def

lemma demo_run: "stock_step demo_stock (restore_for_order 5 [demo_item 5 2] None demo_stock)"
  by (rule step_restore [OF _ refl]) (simp add: demo_item_def item_counts_ok_def)

lemma demo_recipes: "recipes_positive demo_stock"
  by (simp add: recipes_positive_def demo_stock_def)

lemma demo_deltas: "order_deltas demo_stock (items_of_order 5 [demo_item 5 n]) = [(1, 2 * of_int n)]"
  by (simp add: order_deltas_def items_of_order_def item_recipe_deltas_def recipe_lines_for_def
      extra_quantities_def dict_of_def demo_defs)

lemma demo_flour: "get_ingredient 1 demo_stock = Some (demo_ingredient 1 ''flour'' 10)"
  by (simp add: demo_defs row_simps)

lemma demo_usable:
  "usable_qty (demo_ingredient 1 ''flour'' 10) (batches_for_ingredient 1 (st_batches demo_stock)) 50 = 8"
  by (simp add: usable_qty_def batches_for_ingredient_def demo_defs batch_defs usable_status_def delayed_def)

lemma demo_deduct: "\<exists>s' low. deduct_for_order 5 [demo_item 5 2] None 50 demo_stock = Inr (s', low)"
proof (cases "deduct_for_order 5 [demo_item 5 2] None 50 demo_stock")
  case (Inl e)
  then show ?thesis
    using deduct_error(2) [OF Inl] demo_usable
    by (auto simp: demo_deltas demo_flour) (simp_all add: demo_ingredient_def)
qed auto

subsection \<open>Quantities over whole runs\<close>

text \<open>C1. Over any sequence of stock operations (ingredient, batch, recipe, adjustment-request and
  order operations in any interleaving), the quantity of an ingredient changes by exactly the sum of
  the stock movements written meanwhile: quantity minus journal never drifts.\<close>

theorem stock_journal_explains_quantity:
  assumes "stock_step\<^sup>*\<^sup>* s s'" and "recipes_positive s" and "i \<in> known s"
  shows "qty s' i - total_for i (journal s') = qty s i - total_for i (journal s)"
  by (rule stock_ledger.run_balanced [OF run_recipe_step [OF assms(1,2)] assms(3)])

theorem stock_journal_explains_quantity_witness:
  "qty (restore_for_order 5 [demo_item 5 2] None demo_stock) 1
     - total_for 1 (journal (restore_for_order 5 [demo_item 5 2] None demo_stock))
   = qty demo_stock 1 - total_for 1 (journal demo_stock)"
  by (rule stock_journal_explains_quantity [OF r_into_rtranclp [where r = stock_step, OF demo_run] demo_recipes])
     (simp add: known_def row_ids_def demo_defs)

text \<open>No sequence of stock operations makes an ingredient's quantity negative, provided it starts
  with non-negative quantities and positive recipe lines (the table constraints).\<close>

theorem stock_never_negative:
  assumes "stock_step\<^sup>*\<^sup>* s s'" and "recipes_positive s" and "stock_nonneg s"
  shows "stock_nonneg s'"
  using stock_inv.run_inv [OF assms(1)] assms(2,3) by blast

theorem stock_never_negative_witness:
  "stock_nonneg (restore_for_order 5 [demo_item 5 2] None demo_stock)"
  by (rule stock_never_negative [OF r_into_rtranclp [where r = stock_step, OF demo_run] demo_recipes])
     (simp add: stock_nonneg_def qty_def demo_defs row_simps)

subsection \<open>Orders\<close>

text \<open>C8. \<open>deduct_for_order\<close> succeeds exactly when, for every known ingredient the order's recipes
  mention, the summed requirement is covered both by the current quantity and by the quantity of
  non-expired batches; otherwise it fails with INSUFFICIENT_STOCK and nothing is written.\<close>

theorem deduct_succeeds_iff:
  "(if \<forall>i \<in> fst ` set (order_deltas s (items_of_order oid items)). \<forall>ing.
         get_ingredient i s = Some ing \<longrightarrow>
           total_for i (order_deltas s (items_of_order oid items)) \<le> current_qty ing \<and>
           total_for i (order_deltas s (items_of_order oid items))
             \<le> usable_qty ing (batches_for_ingredient i (st_batches s)) now
    then \<exists>s' low. deduct_for_order oid items user now s = Inr (s', low)
    else deduct_for_order oid items user now s = Inl (AppError ''INSUFFICIENT_STOCK'' 409))"
proof (cases "deduct_for_order oid items user now s")
  case (Inl e)
  then show ?thesis using deduct_error [OF Inl] by auto
next
  case (Inr r)
  obtain s' low where "r = (s', low)" by fastforce
  then show ?thesis using deduct_checked [of oid items user now s s' low] Inr by auto
qed

theorem deduct_succeeds_iff_witness:
  "deduct_for_order 5 [demo_item 5 5] None 50 demo_stock = Inl (AppError ''INSUFFICIENT_STOCK'' 409)"
proof -
  let ?ds = "order_deltas demo_stock (items_of_order 5 [demo_item 5 5])"
  have "\<not> (\<forall>i \<in> fst ` set ?ds. \<forall>ing. get_ingredient i demo_stock = Some ing \<longrightarrow>
      total_for i ?ds \<le> current_qty ing \<and>
      total_for i ?ds \<le> usable_qty ing (batches_for_ingredient i (st_batches demo_stock)) 50)"
    by (simp add: demo_deltas demo_flour demo_usable)
  then show ?thesis
    using deduct_succeeds_iff [of demo_stock 5 "[demo_item 5 5]" 50 None] by (simp only: if_False)
qed

text \<open>A successful \<open>deduct_for_order\<close> lowers each known ingredient by exactly the summed recipe
  requirement of the order's lines and leaves every other quantity alone.\<close>

theorem deduct_exact:
  assumes "deduct_for_order oid items user now s = Inr (s', low)"
  shows "qty s' i = qty s i -
    (if i \<in> known s then total_for i (order_deltas s (items_of_order oid items)) else 0)"
  by (rule deduct_qty [OF assms])

theorem deduct_exact_witness:
  "\<exists>s' low. deduct_for_order 5 [demo_item 5 2] None 50 demo_stock = Inr (s', low)
     \<and> qty s' 1 = 6 \<and> qty s' 2 = 3"
proof -
  obtain s' low where d: "deduct_for_order 5 [demo_item 5 2] None 50 demo_stock = Inr (s', low)"
    using demo_deduct by blast
  have "qty demo_stock 1 = 10" "qty demo_stock 2 = 3" "known demo_stock = {1, 2}"
    by (simp_all add: qty_def known_def row_ids_def demo_defs row_simps)
  then have "qty s' 1 = 6" "qty s' 2 = 3"
    using deduct_exact [OF d, of 1] deduct_exact [OF d, of 2] by (simp_all add: demo_deltas)
  then show ?thesis using d by blast
qed

text \<open>C9. Cancelling a confirmed order undoes its stock effect: \<open>restore_for_order\<close> after a successful
  \<open>deduct_for_order\<close> brings every quantity back.\<close>

theorem restore_undoes_deduct:
  assumes "deduct_for_order oid items user now s = Inr (s', low)"
  shows "qty (restore_for_order oid items user' s') i = qty s i"
  using deduct_qty [OF assms, of i] order_deltas_cong [OF deduct_recipes(1,2,3) [OF assms]]
  by (simp add: restore_qty deduct_known [OF assms])

theorem restore_undoes_deduct_witness:
  "\<exists>s' low. deduct_for_order 5 [demo_item 5 2] None 50 demo_stock = Inr (s', low)
     \<and> qty (restore_for_order 5 [demo_item 5 2] None s') 1 = 10"
proof -
  obtain s' low where d: "deduct_for_order 5 [demo_item 5 2] None 50 demo_stock = Inr (s', low)"
    using demo_deduct by blast
  moreover have "qty demo_stock 1 = 10" by (simp add: qty_def demo_defs row_simps)
  ultimately show ?thesis using restore_undoes_deduct [OF d, of None 1] by auto
qed

subsection \<open>Batches and use-by dates\<close>

text \<open>A batch is expired exactly when one of its (at most three) deadlines has passed, the reported
  deadline is the earliest of them, and it is reported at the level it comes from.\<close>

theorem effective_deadline_is_earliest:
  "(batch_is_expired b now \<longleftrightarrow> (\<exists>d \<in> set (batch_deadlines b). snd d \<le> now))
   \<and> (effective_batch_dlc b = Some d \<longrightarrow>
        d \<in> set (batch_deadlines b) \<and> (\<forall>e \<in> set (batch_deadlines b). snd d \<le> snd e))"
  using effective_dlc_least [of b d] by (simp add: batch_is_expired_iff)

theorem effective_deadline_is_earliest_witness:
  "effective_batch_dlc ((demo_batch 1 1 4 (hours 100))\<lparr>bat_opened_at := Some 0, bat_use_within_hours := Some 24\<rparr>)
     = Some (Secondary, hours 24)
   \<and> (Secondary, hours 24) \<in> set (batch_deadlines
       ((demo_batch 1 1 4 (hours 100))\<lparr>bat_opened_at := Some 0, bat_use_within_hours := Some 24\<rparr>))"
proof -
  have e: "effective_batch_dlc ((demo_batch 1 1 4 (hours 100))\<lparr>bat_opened_at := Some 0, bat_use_within_hours := Some 24\<rparr>)
     = Some (Secondary, hours 24)"
    by (simp add: demo_batch_def batch_defs delayed_def)
  then show ?thesis using effective_deadline_is_earliest [of _ 0 "(Secondary, hours 24)"] by blast
qed

text \<open>Marking expired batches is neutral and idempotent: it never changes what is usable at that
  instant, a second pass changes nothing, and afterwards no batch in scope that is still sealed or
  opened is past its deadline.\<close>

theorem mark_expired_sound:
  "mark_expired_batches ids now (mark_expired_batches ids now bs) = mark_expired_batches ids now bs
   \<and> usable_qty ing (batches_for_ingredient i (mark_expired_batches ids now bs)) now
       = usable_qty ing (batches_for_ingredient i bs) now
   \<and> \<not> list_ex (\<lambda>b. usable_status (bat_status b) \<and> batch_in_scope ids b \<and> batch_is_expired b now)
       (mark_expired_batches ids now bs)"
proof -
  have "\<not> (usable_status (bat_status (mark_batch ids now b)) \<and> batch_in_scope ids (mark_batch ids now b)
      \<and> batch_is_expired (mark_batch ids now b) now)" for b
    by (cases "usable_status (bat_status b) \<and> batch_in_scope ids b \<and> batch_is_expired b now")
       (auto simp: mark_batch_def usable_status_def)
  then have "\<not> list_ex (\<lambda>b. usable_status (bat_status b) \<and> batch_in_scope ids b \<and> batch_is_expired b now)
      (mark_expired_batches ids now bs)"
    by (auto simp: mark_expired_batches_def list_ex_iff)
  then show ?thesis by simp
qed

text \<open>For a non-negative quantity, usable and blocked stock are non-negative and add up to the
  current quantity, and usable stock never exceeds what the non-expired batches hold.\<close>

theorem usable_stock_partition:
  assumes "0 \<le> current_qty ing"
  shows "0 \<le> us_usable_qty (usable_stock_payload ing bs now)
    \<and> 0 \<le> us_blocked_qty (usable_stock_payload ing bs now)
    \<and> us_usable_qty (usable_stock_payload ing bs now) + us_blocked_qty (usable_stock_payload ing bs now)
        = current_qty ing
    \<and> us_usable_qty (usable_stock_payload ing bs now)
        \<le> max 0 (sum_list (map bat_quantity (filter (\<lambda>b. batch_is_usable b now) bs)))"
  using assms by (auto simp: usable_stock_payload_def usable_qty_def)

theorem usable_stock_partition_witness:
  "us_usable_qty (usable_stock_payload (demo_ingredient 1 ''flour'' 10) (st_batches demo_stock) 50)
   + us_blocked_qty (usable_stock_payload (demo_ingredient 1 ''flour'' 10) (st_batches demo_stock) 50) = 10"
  using usable_stock_partition [of "demo_ingredient 1 ''flour'' 10" "st_batches demo_stock" 50]
  by (simp add: demo_ingredient_def)

text \<open>The DLC overview agrees with the stock guard: a batch it shows as sealed or opened counts as
  usable stock exactly when its severity is neither expired nor to be regularised.\<close>

theorem overview_agrees_with_usable:
  assumes "it = dlc_overview_item checks now warning critical (b, ing)"
  shows "batch_is_usable b now \<longleftrightarrow>
    usable_status (ovi_status it) \<and> ovi_severity it \<noteq> Sev_expired \<and> ovi_severity it \<noteq> Sev_regularize"
  by (rule overview_severity_usable [OF assms])

theorem overview_agrees_with_usable_witness:
  "\<not> batch_is_usable (demo_batch 12 1 2 5) 50
   \<and> ovi_severity (dlc_overview_item [] 50 1000 100 (demo_batch 12 1 2 5, demo_ingredient 1 ''flour'' 10)) = Sev_expired"
proof -
  have "ovi_severity (dlc_overview_item [] 50 1000 100 (demo_batch 12 1 2 5, demo_ingredient 1 ''flour'' 10)) = Sev_expired"
    by (simp add: dlc_overview_item_def dlc_overview_severity_def batch_payload_def demo_defs batch_defs
        delayed_def batch_needs_dlc_regularization_def)
  then show ?thesis using overview_agrees_with_usable [OF refl] by blast
qed

subsection \<open>Availability\<close>

text \<open>A product is reported available exactly when every known ingredient of its recipe, of its
  active variants and of its active extras covers the summed requirement, in current quantity and in
  quantity of non-expired batches.\<close>

theorem availability_exact:
  assumes "get_products_availability pids now s = (s', av)" and "(p, pa) \<in> set av"
  shows "pa_available pa \<longleftrightarrow>
    (\<forall>i ing. i \<in> fst ` set (required_entries s p) \<longrightarrow> get_ingredient i s = Some ing \<longrightarrow>
      total_for i (required_entries s p) \<le> current_qty ing \<and>
      total_for i (required_entries s p) \<le> usable_qty ing (batches_for_ingredient i (st_batches s)) now)"
  by (rule products_availability_iff [OF assms])

lemma demo_availability:
  obtains s' pa where "get_products_availability [7] 50 demo_stock = (s', [(7, pa)])"
  by (auto simp: get_products_availability_def split_beta Let_def)

lemma demo_required: "required_entries demo_stock 7 = [(1, 2)]"
  by (simp add: required_entries_def recipe_lines_for_def demo_stock_def demo_catalog_def)

theorem availability_exact_witness:
  "\<exists>s' pa. get_products_availability [7] 50 demo_stock = (s', [(7, pa)]) \<and> pa_available pa"
proof -
  obtain s' pa where a: "get_products_availability [7] 50 demo_stock = (s', [(7, pa)])"
    by (rule demo_availability)
  have "pa_available pa"
    using availability_exact [OF a, of 7 pa] demo_usable
    by (simp add: demo_required demo_flour) (simp add: demo_ingredient_def)
  then show ?thesis using a by blast
qed

lemma total_for_part:
  assumes "x \<in> set xs" and "\<forall>e \<in> set (concat (map f xs)). (0::rat) \<le> snd e"
  shows "total_for k (f x) \<le> total_for k (concat (map f xs))"
  using assms
proof (induction xs)
  case (Cons y ys)
  have "0 \<le> total_for k (f y)" "0 \<le> total_for k (concat (map f ys))"
    by (rule total_for_nonneg; use Cons.prems in force)+
  then show ?case using Cons by (cases "x = y") (auto intro: add_increasing)
qed simp

lemma one_unit_deltas:
  assumes "recipes_positive s" and "oi_product_id it = Some p" and "oi_quantity it = 1"
    and "oi_extras_snapshot it = []"
    and "oi_variant_id it = None \<or>
      (\<exists>v \<in> set (cat_variants (st_catalog s)). oi_variant_id it = Some (var_id v) \<and> var_product_id v = p \<and> var_active v)"
  shows "fst ` set (item_recipe_deltas s it) \<subseteq> fst ` set (required_entries s p)"
    and "total_for k (item_recipe_deltas s it) \<le> total_for k (required_entries s p)"
proof -
  let ?e = "\<lambda>r. (rl_ingredient_id r, rl_quantity r)"
  define A where "A = map ?e (recipe_lines_for p (st_product_recipes s))"
  define f where "f = (\<lambda>v :: product_variant. map ?e (recipe_lines_for (var_id v) (st_variant_recipes s)))"
  define vs where "vs = filter (\<lambda>v. var_product_id v = p \<and> var_active v) (cat_variants (st_catalog s))"
  define C where "C = concat (map (\<lambda>pe. map ?e (recipe_lines_for (snd pe) (st_extra_recipes s)))
      (filter (\<lambda>pe. fst pe = p \<and>
          (\<exists>x \<in> set (cat_extras (st_catalog s)). ext_id x = snd pe \<and> ext_active x))
        (cat_product_extras (st_catalog s))))"
  have req: "required_entries s p = A @ concat (map f vs) @ C"
    by (simp only: required_entries_def A_def f_def vs_def C_def)
  have C: "\<forall>e \<in> set C. 0 \<le> snd e"
    using assms(1) by (auto simp: recipes_positive_def list_all_iff recipe_lines_for_def C_def intro: less_imp_le)
  have B: "\<forall>e \<in> set (concat (map f vs)). 0 \<le> snd e"
    using assms(1) by (auto simp: recipes_positive_def list_all_iff recipe_lines_for_def f_def intro: less_imp_le)
  have nn: "0 \<le> total_for k C" "0 \<le> total_for k (concat (map f vs))"
    by (rule total_for_nonneg [OF C], rule total_for_nonneg [OF B])
  show "fst ` set (item_recipe_deltas s it) \<subseteq> fst ` set (required_entries s p)"
    and "total_for k (item_recipe_deltas s it) \<le> total_for k (required_entries s p)"
  proof -
    consider "oi_variant_id it = None" | v where "v \<in> set vs" "oi_variant_id it = Some (var_id v)"
      using assms(5) by (auto simp: vs_def)
    then have "fst ` set (item_recipe_deltas s it) \<subseteq> fst ` set (required_entries s p)
        \<and> total_for k (item_recipe_deltas s it) \<le> total_for k (required_entries s p)"
    proof cases
      case 1
      then have "item_recipe_deltas s it = A"
        using assms by (simp add: item_recipe_deltas_def A_def extra_quantities_def dict_of_def Let_def)
      then show ?thesis using nn by (auto simp: req)
    next
      case 2
      then have d: "item_recipe_deltas s it = A @ f v"
        using assms by (simp add: item_recipe_deltas_def A_def f_def extra_quantities_def dict_of_def Let_def)
      have "total_for k (f v) \<le> total_for k (concat (map f vs))" by (rule total_for_part [OF 2(1) B])
      then show ?thesis using nn 2(1) by (auto simp: req d)
    qed
    then show "fst ` set (item_recipe_deltas s it) \<subseteq> fst ` set (required_entries s p)"
      and "total_for k (item_recipe_deltas s it) \<le> total_for k (required_entries s p)" by auto
  qed
qed

text \<open>C31. The availability shown to customers is sufficient: while a product is reported available,
  an order of one unit of it, plain or in one of its active variants, passes the stock guard of the
  confirmation.\<close>

theorem available_product_can_be_ordered:
  assumes "recipes_positive s" and "get_products_availability pids now s = (s', av)"
    and "(p, pa) \<in> set av" and "pa_available pa"
    and "items_of_order oid items = [it]" and "oi_product_id it = Some p" and "oi_quantity it = 1"
    and "oi_extras_snapshot it = []"
    and "oi_variant_id it = None \<or>
      (\<exists>v \<in> set (cat_variants (st_catalog s)). oi_variant_id it = Some (var_id v) \<and> var_product_id v = p \<and> var_active v)"
  shows "\<exists>s'' low. deduct_for_order oid items user now s = Inr (s'', low)"
proof (cases "deduct_for_order oid items user now s")
  case (Inl e)
  let ?ds = "item_recipe_deltas s it"
  have ds: "order_deltas s (items_of_order oid items) = ?ds" by (simp add: assms(5) order_deltas_def)
  from deduct_error(2) [OF Inl] obtain i ing where i: "i \<in> fst ` set ?ds"
    and g: "get_ingredient i s = Some ing"
    and bad: "\<not> (total_for i ?ds \<le> current_qty ing \<and>
         total_for i ?ds \<le> usable_qty ing (batches_for_ingredient i (st_batches s)) now)"
    unfolding ds by blast
  note unit = one_unit_deltas(1) [OF assms(1,6,7,8,9)] one_unit_deltas(2) [OF assms(1,6,7,8,9), of i]
  have "i \<in> fst ` set (required_entries s p)" using i unit(1) by blast
  then have "total_for i (required_entries s p) \<le> current_qty ing \<and>
      total_for i (required_entries s p) \<le> usable_qty ing (batches_for_ingredient i (st_batches s)) now"
    using products_availability_iff [OF assms(2,3)] assms(4) g by blast
  then have False using bad unit(2) by auto
  then show ?thesis ..
qed auto

theorem available_product_can_be_ordered_witness:
  "\<exists>s'' low. deduct_for_order 5 [demo_item 5 1] None 50 demo_stock = Inr (s'', low)"
proof -
  obtain s' pa where a: "get_products_availability [7] 50 demo_stock = (s', [(7, pa)])"
    by (rule demo_availability)
  have av: "pa_available pa"
    using products_availability_iff [OF a, of 7 pa] demo_usable
    by (simp add: demo_required demo_flour) (simp add: demo_ingredient_def)
  show ?thesis
    by (rule available_product_can_be_ordered [OF demo_recipes a _ av, where it = "demo_item 5 1"])
       (simp_all add: items_of_order_def demo_item_def)
qed

text \<open>After a synchronisation of the automatic overrides, the latest override of a product says
  "unavailable" exactly when it already did or the product is in scope and not producible; a second
  synchronisation at the same instant changes nothing.\<close>

theorem sync_blocks_exactly_unavailable:
  assumes "overrides_fresh now s" and "get_products_availability (sync_scope ps s) now s = (s', av)"
  shows "(latest_unavailable (sync_auto_stock_availability_overrides ps now s) p \<longleftrightarrow>
       latest_unavailable s p \<or> (\<exists>pa. (p, pa) \<in> set av \<and> \<not> pa_available pa))
    \<and> sync_auto_stock_availability_overrides ps now (sync_auto_stock_availability_overrides ps now s)
       = sync_auto_stock_availability_overrides ps now s"
  using sync_latest [OF assms] sync_idem [OF assms(1)] by blast

theorem sync_blocks_exactly_unavailable_witness:
  "latest_unavailable (sync_auto_stock_availability_overrides None 200 demo_stock) 7"
proof -
  have scope: "sync_scope None demo_stock = [7]"
    by (simp add: sync_scope_def demo_stock_def demo_catalog_def)
  obtain s' pa where a: "get_products_availability [7] 200 demo_stock = (s', [(7, pa)])"
    by (auto simp: get_products_availability_def split_beta Let_def)
  have "usable_qty (demo_ingredient 1 ''flour'' 10) (batches_for_ingredient 1 (st_batches demo_stock)) 200 = 0"
    by (simp add: usable_qty_def batches_for_ingredient_def demo_defs batch_defs usable_status_def delayed_def)
  then have "\<not> pa_available pa"
    using products_availability_iff [OF a, of 7 pa] by (simp add: demo_required demo_flour)
  moreover have "overrides_fresh 200 demo_stock" by (simp add: overrides_fresh_def demo_stock_def)
  ultimately show ?thesis
    using sync_blocks_exactly_unavailable [of 200 demo_stock None s' "[(7, pa)]" 7] a by (simp add: scope)
qed

subsection \<open>Requests, units, recipes\<close>

text \<open>An adjustment request is decided once: after it has been approved or rejected, no later stock
  operation changes it, so its quantity is applied at most once.\<close>

theorem adjustment_request_decided_once:
  assumes "stock_step\<^sup>*\<^sup>* s s'" and "get_request rid s = Some r" and "req_status r \<noteq> Req_pending"
  shows "get_request rid s' = Some r
    \<and> approve_adjustment_request rid user note now s' = Inl (AppError ''ADJUSTMENT_REQUEST_CLOSED'' 409)
    \<and> reject_adjustment_request rid user note now s' = Inl (AppError ''ADJUSTMENT_REQUEST_CLOSED'' 409)"
proof -
  have "closed_request rid r s'"
    using closed_requests.run_inv [OF assms(1)] assms(2,3) by (simp add: closed_request_def)
  then show ?thesis
    by (simp add: closed_request_def approve_adjustment_request_def reject_adjustment_request_def)
qed

definition demo_request :: adjustment_request where
  "demo_request = \<lparr>req_id = 3, req_ingredient_id = 1, req_delta = 4, req_reason = ''loss'', req_note = None,
     req_status = Req_approved, req_requested_by = 9, req_reviewed_by = Some 1, req_reviewed_at = Some 0\<rparr>"

theorem adjustment_request_decided_once_witness:
  "approve_adjustment_request 3 1 None 0 (restore_for_order 5 [demo_item 5 2] None
      (demo_stock\<lparr>st_requests := [demo_request]\<rparr>)) = Inl (AppError ''ADJUSTMENT_REQUEST_CLOSED'' 409)"
proof -
  let ?s = "demo_stock\<lparr>st_requests := [demo_request]\<rparr>"
  have "stock_step ?s (restore_for_order 5 [demo_item 5 2] None ?s)"
    by (rule step_restore [OF _ refl]) (simp add: demo_item_def item_counts_ok_def)
  then have run: "stock_step\<^sup>*\<^sup>* ?s (restore_for_order 5 [demo_item 5 2] None ?s)"
    by (rule r_into_rtranclp)
  show ?thesis
    using adjustment_request_decided_once [OF run, of 3 demo_request]
    by (simp add: demo_request_def row_simps)
qed

text \<open>Unit conversion is lossless between known units of one dimension: a quantity entered in unit
  \<open>u\<close> for an ingredient kept in unit \<open>v\<close>, converted, and converted back, is the original quantity;
  mixing dimensions is refused.\<close>

theorem unit_conversion_round_trip:
  assumes "map_of unit_factors (clean_unit u) = Some (d, f)"
    and "map_of unit_factors (clean_unit (ing_unit ing)) = Some (d', f')" and "u \<noteq> []" and "ing_unit ing \<noteq> []"
  shows "if d = d' then \<exists>q'. normalize_quantity q (Some u) ing = Inr (q', ing_unit ing)
      \<and> normalize_quantity q' (Some (ing_unit ing)) (ing\<lparr>ing_unit := u\<rparr>) = Inr (q, u)
    else normalize_quantity q (Some u) ing = Inl (AppError ''INVALID_RECIPE_UNIT'' 422)"
proof -
  have "f \<noteq> 0" "f' \<noteq> 0" using unit_factors_positive assms(1,2) by fastforce+
  then show ?thesis using assms by (auto simp: normalize_quantity_def Let_def)
qed

theorem unit_conversion_round_trip_witness:
  "\<exists>q'. normalize_quantity 250 (Some ''g'') (demo_ingredient 1 ''flour'' 10) = Inr (q', ''kg'')
      \<and> normalize_quantity q' (Some ''kg'') ((demo_ingredient 1 ''flour'' 10)\<lparr>ing_unit := ''g''\<rparr>) = Inr (250, ''g'')"
proof -
  have "map_of unit_factors (clean_unit ''g'') = Some (Mass, 1)"
    "map_of unit_factors (clean_unit (ing_unit (demo_ingredient 1 ''flour'' 10))) = Some (Mass, 1000)"
    "ing_unit (demo_ingredient 1 ''flour'' 10) = ''kg''"
    by (simp_all add: demo_ingredient_def, code_simp+)
  then show ?thesis
    using unit_conversion_round_trip [of "''g''" Mass 1 "demo_ingredient 1 ''flour'' 10" Mass 1000 250] by simp
qed

text \<open>What \<open>replace_recipe\<close> answers is what \<open>get_recipe\<close> reads afterwards: the submitted lines, one per
  ingredient, in the order they were submitted.\<close>

theorem replace_recipe_read_back:
  assumes "replace_recipe nid rt t items user now s = Inr (s', out)"
  shows "get_recipe rt t s' = Inr out \<and> map ri_ingredient_id out = map rlc_ingredient_id items
    \<and> distinct (map ri_ingredient_id out)"
proof -
  obtain rows where m: "mapE (recipe_row t s) (zip [nid .. nid + int (length items) - 1] items) = Inr rows"
    and d: "distinct (map rlc_ingredient_id items)" and out: "out = map (recipe_payload s) rows"
    using assms by (auto simp: replace_recipe_def validate_recipe_items_def Let_def split: if_splits)
  have "map ri_ingredient_id out = map rl_ingredient_id rows"
    by (simp add: out recipe_payload_def Let_def)
  also have "\<dots> = map rlc_ingredient_id items"
    using recipe_rows_ingredients(1) [OF m] by (simp add: map_snd_zip flip: map_map)
  finally show ?thesis using d replace_recipe_reads_back [OF assms] by simp
qed

theorem replace_recipe_read_back_witness:
  "\<exists>s' out. replace_recipe 20 Product_recipe 7
      [\<lparr>rlc_ingredient_id = 2, rlc_quantity = 500, rlc_unit = Some ''g''\<rparr>] None 0 demo_stock = Inr (s', out)
    \<and> get_recipe Product_recipe 7 s' = Inr out \<and> map ri_ingredient_id out = [2]"
proof -
  let ?items = "[\<lparr>rlc_ingredient_id = 2, rlc_quantity = 500, rlc_unit = Some ''g''\<rparr>]"
  have u: "map_of unit_factors (clean_unit ''g'') = Some (Mass, 1)"
    "map_of unit_factors (clean_unit ''kg'') = Some (Mass, 1000)" "clean_unit ''g'' \<noteq> clean_unit ''kg''"
    by code_simp+
  have "\<exists>row. recipe_row 7 demo_stock (20, hd ?items) = Inr row"
    by (simp add: recipe_row_def demo_defs row_simps normalize_quantity_def u Let_def)
  then obtain s' out where r: "replace_recipe 20 Product_recipe 7 ?items None 0 demo_stock = Inr (s', out)"
    by (auto simp: replace_recipe_def ensure_recipe_target_def validate_recipe_items_def Let_def)
       (simp_all add: demo_defs row_simps)
  then show ?thesis using replace_recipe_read_back [OF r] by auto
qed

text \<open>Discarding a batch removes its quantity once: the batch stops being usable, the ingredient
  loses exactly the batch quantity, and discarding it again changes nothing.\<close>

theorem discard_batch_once:
  assumes "discard_batch bid reason user s = Inr s'" and "get_batch bid s = Some b"
    and "bat_status b \<noteq> Discarded"
  shows "(\<exists>b'. get_batch bid s' = Some b' \<and> \<not> batch_is_usable b' now)
    \<and> qty s' (bat_ingredient_id b) = qty s (bat_ingredient_id b) - bat_quantity b
    \<and> discard_batch bid reason' user' s' = Inr s'"
proof -
  obtain ing where g: "get_ingredient (bat_ingredient_id b) s = Some ing"
    and s': "s' = upd_batch bid (\<lambda>r. r\<lparr>bat_status := Discarded\<rparr>)
        (post_movement ing (- bat_quantity b) (Free_reason reason) user s)"
    using assms by (auto simp: discard_batch_def split: option.splits if_splits)
  let ?t = "post_movement ing (- bat_quantity b) (Free_reason reason) user s"
  have b': "get_batch bid s' = Some (b\<lparr>bat_status := Discarded\<rparr>)"
    by (simp add: s' row_get_upd assms(2))
  have "qty s' = qty ?t" by (rule stock_view_cong) (simp_all add: s')
  then have "qty s' (bat_ingredient_id b) = qty s (bat_ingredient_id b) - bat_quantity b"
    by (simp add: qty_post [OF g])
  then show ?thesis
    using b' by (simp add: discard_batch_def batch_is_usable_def usable_status_def)
qed

theorem discard_batch_once_witness:
  "\<exists>s'. discard_batch 12 ''waste'' None demo_stock = Inr s' \<and> qty s' 1 = qty demo_stock 1 - 2"
proof -
  have b: "get_batch 12 demo_stock = Some (demo_batch 12 1 2 5)" by (simp add: demo_defs row_simps)
  then obtain s' where d: "discard_batch 12 ''waste'' None demo_stock = Inr s'"
    using demo_flour by (auto simp: discard_batch_def) (simp add: demo_batch_def demo_ingredient_def demo_flour)
  then show ?thesis
    using discard_batch_once [OF d b, of 0 "''waste''" None] by (simp add: demo_batch_def)
qed

end
