(* ===== verification/Geometry.thy ===== *)
theory Geometry
  imports Kitchen_Prelude
begin

text \<open>
  Delivery-zone geometry, \<^verbatim>\<open>app/modules/delivery/geometry.py\<close>: reading a GeoJSON value into a ring,
  validating and normalising it, and the ray-casting test. Floats are reals here, so the trigonometric
  functions of \<^verbatim>\<open>math\<close> are those of the library and every number is finite. A ring is a list of
  positions \<^verbatim>\<open>[longitude, latitude]\<close>.
\<close>

datatype json =
  JNull | JBool bool | JNum real | JStr string | JList "json list" | JObj "(string \<times> json) list"

type_synonym position = "real \<times> real"
type_synonym ring = "position list"
type_synonym 'a geo_res = "string + 'a"

subsection \<open>Reading GeoJSON\<close>

lemma json_field_size: "map_of fs k = Some j \<Longrightarrow> size j < size (JObj fs)"
  by (induction fs) (auto split: if_splits)

text \<open>\<^verbatim>\<open>dict.get\<close> answers \<^verbatim>\<open>None\<close> for a missing key.\<close>

definition jget :: "(string \<times> json) list \<Rightarrow> string \<Rightarrow> json" where
  "jget fs k = (case map_of fs k of None \<Rightarrow> JNull | Some j \<Rightarrow> j)"

lemma jget_size: "size (jget fs k) < size (JObj fs)"
  using json_field_size [of fs k] by (auto simp: jget_def split: option.split)

definition polygon_ring :: "json \<Rightarrow> json list geo_res" where
  "polygon_ring coords =
     (case coords of
        JList [] \<Rightarrow> Inl ''GEOJSON_INVALID''
      | JList [r] \<Rightarrow> (case r of JList ps \<Rightarrow> Inr ps | _ \<Rightarrow> Inl ''GEOJSON_INVALID'')
      | JList _ \<Rightarrow> Inl ''GEOJSON_UNSUPPORTED''
      | _ \<Rightarrow> Inl ''GEOJSON_INVALID'')"

function extract_ring :: "json \<Rightarrow> json list geo_res" where
  "extract_ring (JObj fs) =
     (if jget fs ''type'' = JStr ''FeatureCollection'' then
        (case jget fs ''features'' of JList [f] \<Rightarrow> extract_ring f | _ \<Rightarrow> Inl ''GEOJSON_UNSUPPORTED'')
      else if jget fs ''type'' = JStr ''Feature'' then extract_ring (jget fs ''geometry'')
      else if jget fs ''type'' = JStr ''MultiPolygon'' then Inl ''GEOJSON_UNSUPPORTED''
      else if jget fs ''type'' \<noteq> JStr ''Polygon'' then Inl ''GEOJSON_INVALID''
      else polygon_ring (jget fs ''coordinates''))"
| "extract_ring JNull = Inl ''GEOJSON_INVALID''"
| "extract_ring (JBool b) = Inl ''GEOJSON_INVALID''"
| "extract_ring (JNum x) = Inl ''GEOJSON_INVALID''"
| "extract_ring (JStr t) = Inl ''GEOJSON_INVALID''"
| "extract_ring (JList js) = Inl ''GEOJSON_INVALID''"
  by pat_completeness auto

lemma jget_singleton_size: "jget fs k = JList [f] \<Longrightarrow> size f < size (JObj fs)"
  using jget_size [of fs k] by simp

termination extract_ring
  by (relation "measure size") (auto dest: jget_singleton_size simp: jget_size [simplified])

text \<open>\<^verbatim>\<open>polygon_geometry\<close>.\<close>

definition json_position :: "position \<Rightarrow> json" where
  "json_position p = JList [JNum (fst p), JNum (snd p)]"

definition polygon_geometry :: "ring \<Rightarrow> json" where
  "polygon_geometry r =
     JObj [(''type'', JStr ''Polygon''), (''coordinates'', JList [JList (map json_position r)])]"

subsection \<open>Validation\<close>

definition cross :: "position \<Rightarrow> position \<Rightarrow> position \<Rightarrow> real" where
  "cross q a b = (fst a - fst q) * (snd b - snd q) - (snd a - snd q) * (fst b - fst q)"

definition on_segment :: "position \<Rightarrow> position \<Rightarrow> position \<Rightarrow> bool" where
  "on_segment a b p \<longleftrightarrow>
     min (fst a) (fst b) \<le> fst p \<and> fst p \<le> max (fst a) (fst b)
     \<and> min (snd a) (snd b) \<le> snd p \<and> snd p \<le> max (snd a) (snd b)"

definition segments_intersect :: "position \<Rightarrow> position \<Rightarrow> position \<Rightarrow> position \<Rightarrow> bool" where
  "segments_intersect p1 p2 p3 p4 =
     (let d1 = cross p3 p4 p1; d2 = cross p3 p4 p2; d3 = cross p1 p2 p3; d4 = cross p1 p2 p4
      in ((d1 > 0 \<and> 0 > d2) \<or> (d1 < 0 \<and> 0 < d2)) \<and> ((d3 > 0 \<and> 0 > d4) \<or> (d3 < 0 \<and> 0 < d4))
         \<or> d1 = 0 \<and> on_segment p3 p4 p1
         \<or> d2 = 0 \<and> on_segment p3 p4 p2
         \<or> d3 = 0 \<and> on_segment p1 p2 p3
         \<or> d4 = 0 \<and> on_segment p1 p2 p4)"

definition has_self_intersection :: "ring \<Rightarrow> bool" where
  "has_self_intersection r =
     (let n = length r
      in list_ex (\<lambda>i. list_ex (\<lambda>j.
            \<not> (j = i \<or> (j + 1) mod n = i \<or> (i + 1) mod n = j)
            \<and> segments_intersect (r ! i) (r ! ((i + 1) mod n)) (r ! j) (r ! ((j + 1) mod n)))
          [i + 1..<n]) [0..<n])"

fun edge_sum :: "position \<Rightarrow> ring \<Rightarrow> real" where
  "edge_sum first [] = 0"
| "edge_sum first [p] = fst p * snd first - fst first * snd p"
| "edge_sum first (p # q # ps) = (fst p * snd q - fst q * snd p) + edge_sum first (q # ps)"

definition signed_area :: "ring \<Rightarrow> real" where
  "signed_area r = edge_sum (hd r) r / 2"

definition open_ring :: "ring \<Rightarrow> ring" where
  "open_ring r = (if length r > 1 \<and> hd r = last r then butlast r else r)"

definition earth_radius_m :: real where
  "earth_radius_m = 63710088 / 10"

definition km_per_degree :: real where
  "km_per_degree = pi / 180 * earth_radius_m / 1000"

definition area_km2 :: "ring \<Rightarrow> real" where
  "area_km2 ring =
     (let r = open_ring ring
      in if length r < 3 then 0
         else let mean_lat = sum_list (map snd r) / of_nat (length r);
                  kx = cos (mean_lat * pi / 180) * km_per_degree
              in \<bar>signed_area (map (\<lambda>p. (fst p * kx, snd p * km_per_degree)) r)\<bar>)"

definition clean_position :: "json \<Rightarrow> position geo_res" where
  "clean_position j =
     (case j of
        JList (JNum lng # JNum lat # _) \<Rightarrow>
          if -180 \<le> lng \<and> lng \<le> 180 \<and> -90 \<le> lat \<and> lat \<le> 90 then Inr (lng, lat)
          else Inl ''POLYGON_INVALID_COORDINATE''
      | _ \<Rightarrow> Inl ''POLYGON_INVALID_COORDINATE'')"

fun clean_ring :: "json list \<Rightarrow> ring geo_res" where
  "clean_ring [] = Inr []"
| "clean_ring (j # js) =
     (case clean_position j of
        Inl e \<Rightarrow> Inl e
      | Inr p \<Rightarrow> (case clean_ring js of Inl e \<Rightarrow> Inl e | Inr ps \<Rightarrow> Inr (p # ps)))"

definition check_ring :: "ring \<Rightarrow> ring geo_res" where
  "check_ring cleaned =
     (let r = open_ring (remdups_adj cleaned)
      in if length r < 3 then Inl ''POLYGON_TOO_FEW_POINTS''
         else if length r > 500 then Inl ''POLYGON_TOO_MANY_POINTS''
         else if has_self_intersection r then Inl ''POLYGON_SELF_INTERSECTING''
         else if area_km2 r < 1 / 10000 then Inl ''POLYGON_TOO_SMALL''
         else if area_km2 r > 20000 then Inl ''POLYGON_TOO_LARGE''
         else let r' = (if signed_area r < 0 then rev r else r)
              in Inr (r' @ [hd r']))"

definition validate_ring :: "json list \<Rightarrow> ring geo_res" where
  "validate_ring js = (case clean_ring js of Inl e \<Rightarrow> Inl e | Inr ps \<Rightarrow> check_ring ps)"

definition validate_geojson :: "json \<Rightarrow> json geo_res" where
  "validate_geojson g =
     (case extract_ring g of
        Inl e \<Rightarrow> Inl e
      | Inr js \<Rightarrow> (case validate_ring js of Inl e \<Rightarrow> Inl e | Inr r \<Rightarrow> Inr (polygon_geometry r)))"

subsection \<open>Membership\<close>

definition edge_crossed :: "real \<Rightarrow> real \<Rightarrow> position \<Rightarrow> position \<Rightarrow> bool" where
  "edge_crossed lat lng p q \<longleftrightarrow>
     (snd p > lat) \<noteq> (snd q > lat)
     \<and> lng < (fst q - fst p) * (lat - snd p) / (snd q - snd p) + fst p"

fun ray_cast :: "real \<Rightarrow> real \<Rightarrow> position \<Rightarrow> ring \<Rightarrow> bool \<Rightarrow> bool" where
  "ray_cast lat lng prev [] inside = inside"
| "ray_cast lat lng prev (p # ps) inside =
     ray_cast lat lng p ps (if edge_crossed lat lng p prev then \<not> inside else inside)"

definition point_in_ring :: "real \<Rightarrow> real \<Rightarrow> ring \<Rightarrow> bool" where
  "point_in_ring lat lng ring = ray_cast lat lng (last ring) ring False"

text \<open>\<^verbatim>\<open>float(p[0])\<close> on a stored position. A dictionary position makes \<^verbatim>\<open>p[0]\<close> raise \<^verbatim>\<open>KeyError\<close>, which
  the \<^verbatim>\<open>except\<close> clause does not name; \<open>str_float\<close> is Python's \<^verbatim>\<open>float\<close> on a string.\<close>

definition json_float :: "(string \<Rightarrow> real option) \<Rightarrow> json \<Rightarrow> real option" where
  "json_float str_float j =
     (case j of JNum x \<Rightarrow> Some x | JBool b \<Rightarrow> Some (if b then 1 else 0) | JStr t \<Rightarrow> str_float t | _ \<Rightarrow> None)"

definition stored_position :: "(string \<Rightarrow> real option) \<Rightarrow> json \<Rightarrow> position option res" where
  "stored_position str_float j =
     (case j of
        JList (a # b # _) \<Rightarrow>
          (case (json_float str_float a, json_float str_float b) of
             (Some x, Some y) \<Rightarrow> Inr (Some (x, y)) | _ \<Rightarrow> Inr None)
      | JStr (c # d # _) \<Rightarrow>
          (case (str_float [c], str_float [d]) of (Some x, Some y) \<Rightarrow> Inr (Some (x, y)) | _ \<Rightarrow> Inr None)
      | JObj _ \<Rightarrow> Inl PyKeyError
      | _ \<Rightarrow> Inr None)"

fun stored_positions :: "(string \<Rightarrow> real option) \<Rightarrow> json list \<Rightarrow> ring option res" where
  "stored_positions sf [] = Inr (Some [])"
| "stored_positions sf (j # js) =
     rbind (stored_position sf j) (\<lambda>p.
       case p of None \<Rightarrow> Inr None
       | Some p \<Rightarrow> rbind (stored_positions sf js) (\<lambda>ps. Inr (map_option (\<lambda>ps. p # ps) ps)))"

definition safe_ring :: "(string \<Rightarrow> real option) \<Rightarrow> json \<Rightarrow> ring option res" where
  "safe_ring sf g =
     (case extract_ring g of
        Inl _ \<Rightarrow> Inr None
      | Inr js \<Rightarrow> if length js < 4 then Inr None else stored_positions sf js)"

subsection \<open>Circles\<close>

definition atan2 :: "real \<Rightarrow> real \<Rightarrow> real" where
  "atan2 y x =
     (if x > 0 then arctan (y / x)
      else if x < 0 then (if y \<ge> 0 then arctan (y / x) + pi else arctan (y / x) - pi)
      else if y > 0 then pi / 2 else if y < 0 then - pi / 2 else 0)"

definition radians :: "real \<Rightarrow> real" where
  "radians x = x * pi / 180"

definition degrees :: "real \<Rightarrow> real" where
  "degrees x = x * 180 / pi"

definition round_half_even :: "real \<Rightarrow> int" where
  "round_half_even x =
     (let n = \<lfloor>x\<rfloor>; f = x - of_int n
      in if f < 1 / 2 then n else if f > 1 / 2 then n + 1 else if even n then n else n + 1)"

definition round_to :: "nat \<Rightarrow> real \<Rightarrow> real" where
  "round_to k x = of_int (round_half_even (x * 10 ^ k)) / 10 ^ k"

definition float_mod :: "real \<Rightarrow> real \<Rightarrow> real" where
  "float_mod x m = x - m * of_int \<lfloor>x / m\<rfloor>"

definition destination_point :: "real \<Rightarrow> real \<Rightarrow> real \<Rightarrow> real \<Rightarrow> real \<times> real" where
  "destination_point lat lng bearing_deg distance_m =
     (let phi1 = radians lat; lambda1 = radians lng; theta = radians bearing_deg;
          delta = distance_m / earth_radius_m;
          phi2 = arcsin (sin phi1 * cos delta + cos phi1 * sin delta * cos theta);
          lambda2 = lambda1 + atan2 (sin theta * sin delta * cos phi1) (cos delta - sin phi1 * sin phi2)
      in (degrees phi2, float_mod (degrees lambda2 + 540) 360 - 180))"

definition circle_ring :: "real \<Rightarrow> real \<Rightarrow> real \<Rightarrow> ring geo_res" where
  "circle_ring lat lng radius_m =
     (if \<not> (100 \<le> radius_m \<and> radius_m \<le> 50000) then Inl ''CIRCLE_RADIUS_OUT_OF_RANGE''
      else let points = map (\<lambda>step.
                 let p = destination_point lat lng (360 * of_nat step / 64) radius_m
                 in (round_to 6 (snd p), round_to 6 (fst p))) [0..<64]
           in Inr (points @ [hd points]))"

subsection \<open>Lemmas\<close>

text \<open>Membership is the parity of the crossed edges; an edge is crossed whichever way it is read, and
  an edge of length zero never is. So the parity does not depend on the orientation, on repeated
  positions or on an explicit closing position.\<close>

lemma edge_crossed_sym: "edge_crossed lat lng p q = edge_crossed lat lng q p"
proof (cases "snd p = snd q")
  case True
  then show ?thesis by (simp add: edge_crossed_def)
next
  case False
  have "(fst q - fst p) * (lat - snd p) / (snd q - snd p) + fst p =
      (fst p - fst q) * (lat - snd q) / (snd p - snd q) + fst q"
    using False by (simp add: divide_simps) (simp add: algebra_simps)
  then show ?thesis by (auto simp: edge_crossed_def)
qed

lemma edge_crossed_self [simp]: "\<not> edge_crossed lat lng p p"
  by (simp add: edge_crossed_def)

definition path_parity :: "real \<Rightarrow> real \<Rightarrow> ring \<Rightarrow> bool" where
  "path_parity lat lng r = (case r of [] \<Rightarrow> False | p # ps \<Rightarrow> ray_cast lat lng p ps False)"

lemma ray_cast_parity: "ray_cast lat lng p ps b = (b \<noteq> ray_cast lat lng p ps False)"
proof (induction ps arbitrary: p b)
  case (Cons q ps)
  show ?case by (simp add: Cons [of q True] Cons [of q "\<not> b"] Cons [of q b])
qed simp

lemma path_parity_simps [simp]:
  "path_parity lat lng [] = False" "path_parity lat lng [p] = False"
  "path_parity lat lng (p # q # ps) = (edge_crossed lat lng q p \<noteq> path_parity lat lng (q # ps))"
  using ray_cast_parity [of lat lng q ps True] by (simp_all add: path_parity_def)

lemma path_parity_snoc:
  "r \<noteq> [] \<Longrightarrow> path_parity lat lng (r @ [q]) = (edge_crossed lat lng q (last r) \<noteq> path_parity lat lng r)"
proof (induction r rule: induct_list012)
  case (3 x y zs)
  then show ?case by auto
qed simp_all

lemma path_parity_rev: "path_parity lat lng (rev r) = path_parity lat lng r"
proof (induction r rule: induct_list012)
  case (3 x y zs)
  have "path_parity lat lng (rev (x # y # zs)) = (edge_crossed lat lng x y \<noteq> path_parity lat lng (rev (y # zs)))"
    using path_parity_snoc [of "rev (y # zs)" lat lng x] by simp
  then show ?case using 3(2) edge_crossed_sym [of lat lng x y] by simp
qed simp_all

lemma path_parity_remdups_adj: "path_parity lat lng (remdups_adj r) = path_parity lat lng r"
proof (induction r rule: remdups_adj.induct)
  case (3 x y xs)
  show ?case
  proof (cases "x = y")
    case True
    then show ?thesis using 3(1) by simp
  next
    case False
    obtain zs where "remdups_adj (y # xs) = y # zs"
      by (metis remdups_adj_Cons_alt)
    then show ?thesis using 3(2) [OF False] False by simp
  qed
qed simp_all

lemma point_in_ring_parity:
  "r \<noteq> [] \<Longrightarrow> point_in_ring lat lng r = (edge_crossed lat lng (hd r) (last r) \<noteq> path_parity lat lng r)"
proof (cases r)
  case (Cons p ps)
  then show ?thesis
    using ray_cast_parity [of lat lng p ps True] by (simp add: point_in_ring_def path_parity_def)
qed simp

lemma point_in_ring_rev: "point_in_ring lat lng (rev r) = point_in_ring lat lng r"
proof (cases "r = []")
  case False
  then show ?thesis
    using path_parity_rev [of lat lng r] edge_crossed_sym [of lat lng "last r" "hd r"]
    by (simp add: point_in_ring_parity hd_rev last_rev)
qed simp

lemma point_in_ring_close: "r \<noteq> [] \<Longrightarrow> point_in_ring lat lng (r @ [hd r]) = point_in_ring lat lng r"
  by (simp add: point_in_ring_parity path_parity_snoc)

lemma point_in_ring_open: "point_in_ring lat lng (open_ring r) = point_in_ring lat lng r"
proof (cases "length r > 1 \<and> hd r = last r")
  case True
  define b where "b = butlast r"
  have r: "r = b @ [last r]" using True by (simp add: b_def) (metis append_butlast_last_id list.size(3) not_less_zero)
  moreover have "b \<noteq> []" using True by (cases r) (auto simp: b_def)
  moreover have "hd r = hd b" using r \<open>b \<noteq> []\<close> by (metis hd_append2)
  ultimately have "r = b @ [hd b]" using True by metis
  then show ?thesis using point_in_ring_close [OF \<open>b \<noteq> []\<close>, of lat lng] True
    by (simp add: open_ring_def b_def)
next
  case False
  then show ?thesis by (simp only: open_ring_def if_False)
qed

lemma point_in_ring_remdups_adj: "point_in_ring lat lng (remdups_adj r) = point_in_ring lat lng r"
proof (cases "r = []")
  case False
  then show ?thesis
    by (simp add: point_in_ring_parity hd_remdups_adj last_remdups_adj path_parity_remdups_adj)
qed simp

text \<open>What a validated ring is.\<close>

lemma check_ring_shape:
  assumes "check_ring ps = Inr r"
  obtains q where "r = q @ [hd q]" and "3 \<le> length q" and "length q \<le> 500" and "set q \<subseteq> set ps"
    and "q = open_ring (remdups_adj ps) \<or> q = rev (open_ring (remdups_adj ps))"
    and "\<not> has_self_intersection (open_ring (remdups_adj ps))"
proof -
  define o' where "o' = open_ring (remdups_adj ps)"
  have "set o' \<subseteq> set ps"
    by (auto simp: o'_def open_ring_def dest: in_set_butlastD)
  then show thesis
    using assms that [of "if signed_area o' < 0 then rev o' else o'"]
    by (auto simp: check_ring_def o'_def [symmetric] Let_def split: if_splits)
qed

lemma check_ring_membership:
  assumes "check_ring ps = Inr r"
  shows "point_in_ring lat lng r = point_in_ring lat lng ps"
  using assms
proof (rule check_ring_shape)
  fix q assume r: "r = q @ [hd q]" and len: "3 \<le> length q"
    and q: "q = open_ring (remdups_adj ps) \<or> q = rev (open_ring (remdups_adj ps))"
  have "point_in_ring lat lng r = point_in_ring lat lng q"
    unfolding r by (rule point_in_ring_close) (use len in auto)
  also have "\<dots> = point_in_ring lat lng (open_ring (remdups_adj ps))"
    using q point_in_ring_rev by metis
  finally show ?thesis by (simp add: point_in_ring_open point_in_ring_remdups_adj)
qed

lemma clean_ring_bounds:
  "clean_ring js = Inr ps \<Longrightarrow> \<forall>p \<in> set ps. -180 \<le> fst p \<and> fst p \<le> 180 \<and> -90 \<le> snd p \<and> snd p \<le> 90"
proof (induction js arbitrary: ps)
  case (Cons j js)
  obtain p ps' where p: "clean_position j = Inr p" and "clean_ring js = Inr ps'" "ps = p # ps'"
    using Cons.prems by (auto split: sum.splits)
  moreover have "-180 \<le> fst p \<and> fst p \<le> 180 \<and> -90 \<le> snd p \<and> snd p \<le> 90"
    using p by (auto simp: clean_position_def split: json.splits list.splits if_splits)
  ultimately show ?case using Cons.IH by auto
qed simp

lemma extract_polygon [simp]: "extract_ring (polygon_geometry r) = Inr (map json_position r)"
  by (simp add: polygon_geometry_def jget_def polygon_ring_def)

lemma stored_positions_json: "stored_positions sf (map json_position r) = Inr (Some r)"
  by (induction r) (simp_all add: stored_position_def json_position_def json_float_def)

lemma safe_ring_polygon: "4 \<le> length r \<Longrightarrow> safe_ring sf (polygon_geometry r) = Inr (Some r)"
  by (simp add: safe_ring_def stored_positions_json)

end
