(* ===== verification/Delivery_Pricing.thy ===== *)
theory Delivery_Pricing
  imports Money "HOL-Library.Product_Lexorder"
begin

text \<open>
  The delivery fee engine, \<^verbatim>\<open>app/modules/delivery/pricing.py\<close>. A local date is its proleptic ordinal
  (\<^verbatim>\<open>date.toordinal()\<close>), a local time of day the microseconds since midnight.
\<close>

type_synonym day = int
type_synonym tod = int

abbreviation day_us :: int where
  "day_us \<equiv> 86400000000"

datatype rule_kind = Fee_rule | Free_rule

record zone_rule =
  zr_id :: int
  zr_zone_id :: int
  zr_label :: string
  zr_kind :: rule_kind
  zr_fee :: "rat option"
  zr_min_subtotal :: "rat option"
  zr_days_of_week :: "int list option"
  zr_start_time :: "tod option"
  zr_end_time :: "tod option"
  zr_starts_on :: "day option"
  zr_ends_on :: "day option"
  zr_priority :: int
  zr_active :: bool

datatype applied = Applied_promotion | Applied_loyalty | Applied_rule

record pricing_result =
  pr_base_fee :: rat
  pr_fee :: rat
  pr_free_delivery :: bool
  pr_applied :: "applied option"
  pr_applied_label :: "string option"
  pr_remaining_for_free :: "rat option"

subsection \<open>Windows\<close>

definition weekday :: "day \<Rightarrow> int" where
  "weekday d = (d + 6) mod 7"

definition date_ok :: "zone_rule \<Rightarrow> day \<Rightarrow> bool" where
  "date_ok r d \<longleftrightarrow>
     (case zr_starts_on r of None \<Rightarrow> True | Some s \<Rightarrow> \<not> d < s)
     \<and> (case zr_ends_on r of None \<Rightarrow> True | Some e \<Rightarrow> \<not> d > e)"

definition day_ok :: "zone_rule \<Rightarrow> day \<Rightarrow> bool" where
  "day_ok r d \<longleftrightarrow>
     (case zr_days_of_week r of None \<Rightarrow> True | Some ds \<Rightarrow> ds = [] \<or> weekday d \<in> set ds)"

definition window_matches :: "zone_rule \<Rightarrow> day \<times> tod \<Rightarrow> bool" where
  "window_matches r local_now =
     (let d = fst local_now; t = snd local_now
      in case (zr_start_time r, zr_end_time r) of
           (Some s, Some e) \<Rightarrow>
             if s = e then date_ok r d \<and> day_ok r d
             else if s < e then s \<le> t \<and> t < e \<and> date_ok r d \<and> day_ok r d
             else if t \<ge> s then date_ok r d \<and> day_ok r d
             else if t < e then date_ok r (d - 1) \<and> day_ok r (d - 1)
             else False
         | _ \<Rightarrow> date_ok r d \<and> day_ok r d)"

subsection \<open>The fee\<close>

definition rule_key :: "zone_rule \<Rightarrow> int \<times> rat \<times> int" where
  "rule_key r = (- zr_priority r, money_opt (zr_fee r), zr_id r)"

definition best_rule :: "zone_rule list \<Rightarrow> zone_rule" where
  "best_rule rs = hd (sort_key rule_key rs)"

definition window_candidates :: "zone_rule list \<Rightarrow> day \<times> tod \<Rightarrow> zone_rule list" where
  "window_candidates rules local_now = filter (\<lambda>r. zr_active r \<and> window_matches r local_now) rules"

definition eligible_rules :: "zone_rule list \<Rightarrow> rat \<Rightarrow> day \<times> tod \<Rightarrow> rule_kind \<Rightarrow> zone_rule list" where
  "eligible_rules rules sub local_now k =
     filter (\<lambda>r. zr_kind r = k)
       (filter (\<lambda>r. sub \<ge> money_opt (zr_min_subtotal r)) (window_candidates rules local_now))"

definition upcoming_gaps :: "zone_rule list \<Rightarrow> rat \<Rightarrow> day \<times> tod \<Rightarrow> rat list" where
  "upcoming_gaps rules sub local_now =
     map (\<lambda>r. money_opt (zr_min_subtotal r) - sub)
       (filter (\<lambda>r. zr_kind r = Free_rule \<and> sub < money_opt (zr_min_subtotal r))
         (window_candidates rules local_now))"

definition evaluate_pricing ::
    "rat \<Rightarrow> zone_rule list \<Rightarrow> rat \<Rightarrow> day \<times> tod \<Rightarrow> bool \<Rightarrow> bool \<Rightarrow> pricing_result" where
  "evaluate_pricing base_fee rules subtotal local_now promo_free loyalty_free =
     (let base = money base_fee; sub = money subtotal;
          free_rules = eligible_rules rules sub local_now Free_rule;
          fee_rules = eligible_rules rules sub local_now Fee_rule
      in if promo_free then
           \<lparr>pr_base_fee = base, pr_fee = 0, pr_free_delivery = True,
            pr_applied = Some Applied_promotion, pr_applied_label = None, pr_remaining_for_free = None\<rparr>
         else if loyalty_free then
           \<lparr>pr_base_fee = base, pr_fee = 0, pr_free_delivery = True,
            pr_applied = Some Applied_loyalty, pr_applied_label = None, pr_remaining_for_free = None\<rparr>
         else if free_rules \<noteq> [] then
           \<lparr>pr_base_fee = base, pr_fee = 0, pr_free_delivery = True,
            pr_applied = Some Applied_rule, pr_applied_label = Some (zr_label (best_rule free_rules)),
            pr_remaining_for_free = None\<rparr>
         else
           let fee = (if fee_rules = [] then base else money_opt (zr_fee (best_rule fee_rules)));
               gaps = upcoming_gaps rules sub local_now
           in \<lparr>pr_base_fee = base, pr_fee = fee, pr_free_delivery = (fee = 0),
               pr_applied = (if fee_rules = [] then None else Some Applied_rule),
               pr_applied_label = (if fee_rules = [] then None else Some (zr_label (best_rule fee_rules))),
               pr_remaining_for_free =
                 (if fee > 0 \<and> gaps \<noteq> [] then Some (money (Min (set gaps))) else None)\<rparr>)"

subsection \<open>Lemmas\<close>

lemma best_rule_in: "rs \<noteq> [] \<Longrightarrow> best_rule rs \<in> set rs"
  by (metis best_rule_def hd_in_set length_0_conv length_sort set_sort)

lemma best_rule_least: "r \<in> set rs \<Longrightarrow> rule_key (best_rule rs) \<le> rule_key r"
proof -
  assume r: "r \<in> set rs"
  obtain x xs where s: "sort_key rule_key rs = x # xs"
    using r by (metis empty_iff empty_set list.exhaust set_sort)
  have "sorted (map rule_key (x # xs))" using sorted_sort_key [of rule_key rs] by (simp add: s)
  moreover have "r \<in> set (x # xs)" using r s by (metis set_sort)
  ultimately show ?thesis by (auto simp: best_rule_def s)
qed

lemma cents_money_opt [simp]: "cents (money_opt v)"
  by (simp add: money_opt_def)

text \<open>The window of a rule as a set of instants: the day \<open>d'\<close> owns the interval from its start time
  to its end time, the latter on the next day when the window passes midnight.\<close>

lemma window_matches_interval:
  assumes "zr_start_time r = Some s" and "zr_end_time r = Some e" and "s \<noteq> e"
    and "0 \<le> s" "s < day_us" "0 \<le> e" "e < day_us" "0 \<le> t" "t < day_us"
  shows "window_matches r (d, t) \<longleftrightarrow>
    (\<exists>d'. date_ok r d' \<and> day_ok r d' \<and> d' * day_us + s \<le> d * day_us + t
       \<and> d * day_us + t < d' * day_us + e + (if s < e then 0 else day_us))" (is "_ \<longleftrightarrow> ?R")
proof (cases "s < e")
  case True
  have same: "d' = d" if "d' * day_us + s \<le> d * day_us + t" "d * day_us + t < d' * day_us + e" for d'
    using that assms by linarith
  have "(d' * day_us + s \<le> d * day_us + t \<and> d * day_us + t < d' * day_us + e)
      \<longleftrightarrow> d' = d \<and> s \<le> t \<and> t < e" for d'
    by (cases "d' = d") (simp, use same in blast)
  then have "?R \<longleftrightarrow> s \<le> t \<and> t < e \<and> date_ok r d \<and> day_ok r d" using True by auto
  then show ?thesis using True assms(1,2) by (simp add: window_matches_def)
next
  case False
  have near: "d' = d \<or> d' = d - 1"
    if "d' * day_us + s \<le> d * day_us + t" "d * day_us + t < d' * day_us + e + day_us" for d'
    using that assms by linarith
  have before: "(d - 1) * day_us + s \<le> d * day_us + t \<and> d * day_us + t < (d - 1) * day_us + e + day_us
      \<longleftrightarrow> t < e"
    using assms by (auto simp: left_diff_distrib)
  have same: "d * day_us + s \<le> d * day_us + t \<and> d * day_us + t < d * day_us + e + day_us \<longleftrightarrow> s \<le> t"
    using assms by auto
  have "(d' * day_us + s \<le> d * day_us + t \<and> d * day_us + t < d' * day_us + e + day_us)
      \<longleftrightarrow> (d' = d \<and> s \<le> t) \<or> (d' = d - 1 \<and> t < e)" for d'
  proof -
    consider "d' = d" | "d' = d - 1" | "d' \<noteq> d" "d' \<noteq> d - 1" by blast
    then show ?thesis
    proof cases
      case 1
      show ?thesis unfolding 1 same by simp
    next
      case 2
      show ?thesis unfolding 2 before by simp
    next
      case 3
      then show ?thesis using near [of d'] by blast
    qed
  qed
  then have "?R \<longleftrightarrow> (\<exists>d'. date_ok r d' \<and> day_ok r d' \<and> ((d' = d \<and> s \<le> t) \<or> (d' = d - 1 \<and> t < e)))"
    using False by simp
  then have "?R \<longleftrightarrow> (s \<le> t \<and> date_ok r d \<and> day_ok r d) \<or> (t < e \<and> date_ok r (d - 1) \<and> day_ok r (d - 1))"
    by blast
  then show ?thesis using False assms(1,2,3) by (auto simp: window_matches_def)
qed

lemma evaluate_fee:
  "pr_fee (evaluate_pricing base rules sub now promo loyalty) =
    (if promo \<or> loyalty \<or> eligible_rules rules (money sub) now Free_rule \<noteq> [] then 0
     else if eligible_rules rules (money sub) now Fee_rule = [] then money base
     else money_opt (zr_fee (best_rule (eligible_rules rules (money sub) now Fee_rule))))"
  by (simp add: evaluate_pricing_def Let_def)

end
