(* ===== verification/Delivery_Zones.thy ===== *)
theory Delivery_Zones
  imports Geometry Delivery_Pricing Machines
begin

text \<open>
  Delivery zones, their administration, quotes and settings: \<^verbatim>\<open>app/modules/delivery/service.py\<close>.
  Three things come from outside: \<open>sf\<close> is Python's \<^verbatim>\<open>float\<close> on strings (only reached for unreadable
  historical polygons), \<open>isochrone\<close> the Mapbox answer behind \<^verbatim>\<open>geocoding.isochrone_ring\<close>, and
  \<open>tz\<close> the time-zone database behind \<^verbatim>\<open>pricing.local_now_for\<close>.
\<close>

subsection \<open>Rows\<close>

record establishment =
  est_id :: int
  est_name :: string
  est_timezone :: string
  est_active :: bool
  est_latitude :: "real option"
  est_longitude :: "real option"

datatype shape_kind = Kind_polygon | Kind_circle | Kind_isochrone

record delivery_zone =
  dz_id :: int
  dz_name :: string
  dz_establishment_id :: "int option"
  dz_polygon :: json
  dz_shape_kind :: shape_kind
  dz_shape_params :: "(string \<times> real) list option"
  dz_fee :: rat
  dz_min_order_amount :: rat
  dz_estimated_minutes :: int
  dz_active :: bool

record delivery_settings =
  ds_internal_enabled :: bool
  ds_driver_dispatch_enabled :: bool
  ds_delivery_proof_required :: bool
  ds_failure_min_wait_minutes :: int
  ds_failure_min_call_attempts :: int
  ds_version :: int

datatype setting_value = Setting_bool bool | Setting_int int

record settings_audit =
  sa_user :: int
  sa_field :: string
  sa_old :: setting_value
  sa_new :: setting_value

record delivery_db =
  dd_zones :: "delivery_zone list"
  dd_rules :: "zone_rule list"
  dd_establishments :: "establishment list"
  dd_settings :: "delivery_settings option"
  dd_audits :: "settings_audit list"
  dd_has_active_driver :: bool

subsection \<open>Lookup\<close>

definition in_scope :: "int option \<Rightarrow> delivery_zone \<Rightarrow> bool" where
  "in_scope eid z \<longleftrightarrow> dz_active z \<and>
     (case eid of None \<Rightarrow> True | Some e \<Rightarrow> dz_establishment_id z = Some e \<or> dz_establishment_id z = None)"

definition scoped_active_zones :: "delivery_db \<Rightarrow> int option \<Rightarrow> delivery_zone list" where
  "scoped_active_zones db eid = sort_key dz_id (filter (in_scope eid) (dd_zones db))"

definition zone_key :: "ring \<Rightarrow> delivery_zone \<Rightarrow> real \<times> int" where
  "zone_key r z = (area_km2 r, dz_id z)"

text \<open>The loop of \<^verbatim>\<open>find_zone\<close>: \<open>best\<close> is the pair of the best key and its zone.\<close>

fun zone_search ::
    "(string \<Rightarrow> real option) \<Rightarrow> real \<Rightarrow> real \<Rightarrow> delivery_zone list \<Rightarrow> ((real \<times> int) \<times> delivery_zone) option
      \<Rightarrow> ((real \<times> int) \<times> delivery_zone) option res" where
  "zone_search sf lat lng [] best = Inr best"
| "zone_search sf lat lng (z # zs) best =
     rbind (safe_ring sf (dz_polygon z)) (\<lambda>ring.
       case ring of
         None \<Rightarrow> zone_search sf lat lng zs best
       | Some r \<Rightarrow>
           if \<not> point_in_ring lat lng r then zone_search sf lat lng zs best
           else
             let key = zone_key r z
             in zone_search sf lat lng zs
                  (case best of None \<Rightarrow> Some (key, z)
                   | Some (k, z') \<Rightarrow> if key < k then Some (key, z) else Some (k, z')))"

definition find_zone ::
    "(string \<Rightarrow> real option) \<Rightarrow> delivery_db \<Rightarrow> real \<Rightarrow> real \<Rightarrow> int option \<Rightarrow> delivery_zone option res" where
  "find_zone sf db lat lng eid =
     rbind (zone_search sf lat lng (scoped_active_zones db eid) None) (\<lambda>b. Inr (map_option snd b))"

definition check_address ::
    "(string \<Rightarrow> real option) \<Rightarrow> delivery_db \<Rightarrow> real \<Rightarrow> real \<Rightarrow> int option \<Rightarrow> delivery_zone res" where
  "check_address sf db lat lng eid =
     rbind (find_zone sf db lat lng eid) (\<lambda>z.
       case z of None \<Rightarrow> Inl (AppError ''DELIVERY_ZONE_UNREACHABLE'' 422) | Some z \<Rightarrow> Inr z)"

subsection \<open>Quotes\<close>

record delivery_quote =
  dq_zone :: delivery_zone
  dq_establishment_id :: "int option"
  dq_pricing :: pricing_result
  dq_estimated_minutes :: int
  dq_min_order_amount :: rat
  dq_min_order_met :: "bool option"

definition first_active_establishment :: "delivery_db \<Rightarrow> establishment option" where
  "first_active_establishment db =
     (case sort_key est_id (filter est_active (dd_establishments db)) of [] \<Rightarrow> None | e # _ \<Rightarrow> Some e)"

definition establishment_for_zone :: "delivery_db \<Rightarrow> delivery_zone \<Rightarrow> establishment option" where
  "establishment_for_zone db z =
     (case dz_establishment_id z of
        Some e \<Rightarrow> row_get est_id e (dd_establishments db)
      | None \<Rightarrow> first_active_establishment db)"

definition zone_rules :: "delivery_db \<Rightarrow> int \<Rightarrow> zone_rule list" where
  "zone_rules db zid = sort_key zr_id (filter (\<lambda>r. zr_zone_id r = zid) (dd_rules db))"

definition quote_for_zone ::
    "(string option \<Rightarrow> instant \<Rightarrow> day \<times> tod) \<Rightarrow> delivery_db \<Rightarrow> delivery_zone \<Rightarrow> rat option \<Rightarrow> instant
      \<Rightarrow> bool \<Rightarrow> bool \<Rightarrow> delivery_quote" where
  "quote_for_zone tz db z subtotal now promo_free loyalty_free =
     (let est = establishment_for_zone db z;
          local_now = tz (map_option est_timezone est) now;
          minimum = money (dz_min_order_amount z)
      in \<lparr>dq_zone = z,
          dq_establishment_id =
            (case dz_establishment_id z of
               Some e \<Rightarrow> if e = 0 then map_option est_id est else Some e
             | None \<Rightarrow> map_option est_id est),
          dq_pricing = evaluate_pricing (dz_fee z) (zone_rules db (dz_id z))
            (case subtotal of None \<Rightarrow> 0 | Some v \<Rightarrow> v) local_now promo_free loyalty_free,
          dq_estimated_minutes = dz_estimated_minutes z,
          dq_min_order_amount = minimum,
          dq_min_order_met = map_option (\<lambda>v. v \<ge> minimum) subtotal\<rparr>)"

subsection \<open>Shapes\<close>

datatype zone_shape =
  Polygon_shape json | Circle_shape real real real | Isochrone_shape real real int

definition geo_app :: "'a geo_res \<Rightarrow> 'a res" where
  "geo_app m = (case m of Inl code \<Rightarrow> Inl (AppError code 422) | Inr x \<Rightarrow> Inr x)"

definition build_shape ::
    "(real \<Rightarrow> real \<Rightarrow> int \<Rightarrow> ring geo_res) \<Rightarrow> zone_shape
      \<Rightarrow> (json \<times> shape_kind \<times> (string \<times> real) list option) res" where
  "build_shape isochrone shape =
     (case shape of
        Polygon_shape p \<Rightarrow> rbind (geo_app (validate_geojson p)) (\<lambda>g. Inr (g, Kind_polygon, None))
      | Circle_shape lat lng radius \<Rightarrow>
          rbind (geo_app (circle_ring lat lng radius)) (\<lambda>c.
          rbind (geo_app (validate_ring (map json_position c))) (\<lambda>r.
            Inr (polygon_geometry r, Kind_circle,
                 Some [(''center_lat'', lat), (''center_lng'', lng), (''radius_m'', radius)])))
      | Isochrone_shape lat lng minutes \<Rightarrow>
          rbind (geo_app (isochrone lat lng minutes)) (\<lambda>r.
            Inr (polygon_geometry r, Kind_isochrone,
                 Some [(''center_lat'', lat), (''center_lng'', lng), (''minutes'', of_int minutes)])))"

subsection \<open>Administration\<close>

record zone_create =
  zc_name :: string
  zc_establishment_id :: "int option"
  zc_fee :: rat
  zc_min_order_amount :: rat
  zc_estimated_minutes :: int
  zc_active :: bool
  zc_shape :: "zone_shape option"
  zc_polygon :: "json option"
  zc_rules :: "zone_rule list option"

definition requested_shape :: "zone_create \<Rightarrow> zone_shape" where
  "requested_shape body =
     (case zc_shape body of
        Some s \<Rightarrow> s
      | None \<Rightarrow> Polygon_shape (case zc_polygon body of None \<Rightarrow> JObj [] | Some p \<Rightarrow> p))"

definition resolve_zone_establishment :: "delivery_db \<Rightarrow> int option \<Rightarrow> int option res" where
  "resolve_zone_establishment db eid =
     (case eid of
        None \<Rightarrow> Inr (map_option est_id (first_active_establishment db))
      | Some e \<Rightarrow>
          if \<exists>x \<in> set (dd_establishments db). est_id x = e \<and> est_active x then Inr (Some e)
          else Inl (AppError ''ESTABLISHMENT_NOT_FOUND'' 404))"

definition active_count :: "delivery_db \<Rightarrow> int option \<Rightarrow> int option \<Rightarrow> nat" where
  "active_count db eid excluded =
     length (filter (\<lambda>z. dz_active z \<and> dz_establishment_id z = eid \<and> excluded \<noteq> Some (dz_id z))
       (dd_zones db))"

definition assert_zone_capacity :: "delivery_db \<Rightarrow> int option \<Rightarrow> int option \<Rightarrow> unit res" where
  "assert_zone_capacity db eid excluded =
     (if active_count db eid excluded \<ge> 50 then Inl (AppError ''ZONE_LIMIT_REACHED'' 409) else Inr ())"

definition replace_rules :: "int \<Rightarrow> int \<Rightarrow> zone_rule list \<Rightarrow> delivery_db \<Rightarrow> delivery_db res" where
  "replace_rules nid zid rules db =
     (if length rules > 20 then Inl (AppError ''TOO_MANY_RULES'' 422)
      else Inr (db\<lparr>dd_rules := filter (\<lambda>r. zr_zone_id r \<noteq> zid) (dd_rules db)
             @ map (\<lambda>(k, r). r\<lparr>zr_id := nid + int k, zr_zone_id := zid\<rparr>) (enumerate 0 rules)\<rparr>))"

abbreviation get_zone :: "int \<Rightarrow> delivery_db \<Rightarrow> delivery_zone option" where
  "get_zone zid db \<equiv> row_get dz_id zid (dd_zones db)"

definition create_zone ::
    "(real \<Rightarrow> real \<Rightarrow> int \<Rightarrow> ring geo_res) \<Rightarrow> int \<Rightarrow> int \<Rightarrow> zone_create \<Rightarrow> delivery_db \<Rightarrow> delivery_db res" where
  "create_zone isochrone nid rid body db =
     rbind (build_shape isochrone (requested_shape body)) (\<lambda>(polygon, kind, params).
     rbind (resolve_zone_establishment db (zc_establishment_id body)) (\<lambda>eid.
     rbind (if zc_active body then assert_zone_capacity db eid None else Inr ()) (\<lambda>_.
       let z = \<lparr>dz_id = nid, dz_name = zc_name body, dz_establishment_id = eid, dz_polygon = polygon,
                dz_shape_kind = kind, dz_shape_params = params, dz_fee = zc_fee body,
                dz_min_order_amount = zc_min_order_amount body,
                dz_estimated_minutes = zc_estimated_minutes body, dz_active = zc_active body\<rparr>;
           db' = db\<lparr>dd_zones := dd_zones db @ [z]\<rparr>
       in case zc_rules body of
            Some (r # rs) \<Rightarrow> replace_rules rid nid (r # rs) db'
          | _ \<Rightarrow> Inr db')))"

definition overwrite_zone ::
    "zone_create \<Rightarrow> int option \<Rightarrow> json \<times> shape_kind \<times> (string \<times> real) list option
      \<Rightarrow> delivery_zone \<Rightarrow> delivery_zone" where
  "overwrite_zone body eid shape z =
     z\<lparr>dz_name := zc_name body, dz_establishment_id := eid, dz_polygon := fst shape,
       dz_shape_kind := fst (snd shape), dz_shape_params := snd (snd shape), dz_fee := zc_fee body,
       dz_min_order_amount := zc_min_order_amount body,
       dz_estimated_minutes := zc_estimated_minutes body, dz_active := zc_active body\<rparr>"

definition update_zone ::
    "(real \<Rightarrow> real \<Rightarrow> int \<Rightarrow> ring geo_res) \<Rightarrow> int \<Rightarrow> int \<Rightarrow> zone_create \<Rightarrow> delivery_db \<Rightarrow> delivery_db res" where
  "update_zone isochrone zid rid body db =
     (case get_zone zid db of
        None \<Rightarrow> Inl (AppError ''DELIVERY_ZONE_NOT_FOUND'' 404)
      | Some z \<Rightarrow>
          rbind (build_shape isochrone (requested_shape body)) (\<lambda>shape.
          rbind (resolve_zone_establishment db
                   (case zc_establishment_id body of None \<Rightarrow> dz_establishment_id z | Some e \<Rightarrow> Some e)) (\<lambda>eid.
          rbind (if zc_active body then assert_zone_capacity db eid (Some zid) else Inr ()) (\<lambda>_.
            let db' = db\<lparr>dd_zones := row_upd dz_id zid (overwrite_zone body eid shape) (dd_zones db)\<rparr>
            in case zc_rules body of None \<Rightarrow> Inr db' | Some rs \<Rightarrow> replace_rules rid zid rs db'))))"

definition set_zone_active :: "int \<Rightarrow> bool \<Rightarrow> delivery_db \<Rightarrow> delivery_db res" where
  "set_zone_active zid active db =
     (case get_zone zid db of
        None \<Rightarrow> Inl (AppError ''DELIVERY_ZONE_NOT_FOUND'' 404)
      | Some z \<Rightarrow>
          rbind (if active \<and> \<not> dz_active z
                 then assert_zone_capacity db (dz_establishment_id z) (Some zid) else Inr ()) (\<lambda>_.
            Inr (db\<lparr>dd_zones := row_upd dz_id zid (\<lambda>r. r\<lparr>dz_active := active\<rparr>) (dd_zones db)\<rparr>)))"

subsection \<open>Settings\<close>

definition default_settings :: delivery_settings where
  "default_settings =
     \<lparr>ds_internal_enabled = True, ds_driver_dispatch_enabled = False, ds_delivery_proof_required = False,
      ds_failure_min_wait_minutes = 5, ds_failure_min_call_attempts = 1, ds_version = 1\<rparr>"

definition get_delivery_settings :: "delivery_db \<Rightarrow> delivery_db \<times> delivery_settings" where
  "get_delivery_settings db =
     (case dd_settings db of
        Some r \<Rightarrow> (db, r)
      | None \<Rightarrow> (db\<lparr>dd_settings := Some default_settings\<rparr>, default_settings))"

definition is_delivery_enabled :: "delivery_db \<Rightarrow> bool" where
  "is_delivery_enabled db = (case dd_settings db of None \<Rightarrow> True | Some r \<Rightarrow> ds_internal_enabled r)"

type_synonym settings_state = "delivery_settings \<times> settings_audit list"

text \<open>One tracked field: audit row, new value, version bump, or nothing when the value is unchanged.\<close>

definition track ::
    "int \<Rightarrow> string \<Rightarrow> setting_value \<Rightarrow> setting_value \<Rightarrow> (delivery_settings \<Rightarrow> delivery_settings)
      \<Rightarrow> settings_state \<Rightarrow> settings_state" where
  "track user field old new upd st =
     (if old = new then st
      else ((upd (fst st))\<lparr>ds_version := ds_version (fst st) + 1\<rparr>,
            snd st @ [\<lparr>sa_user = user, sa_field = field, sa_old = old, sa_new = new\<rparr>]))"

definition track_opt ::
    "int \<Rightarrow> string \<Rightarrow> (delivery_settings \<Rightarrow> setting_value) \<Rightarrow> (setting_value \<Rightarrow> delivery_settings \<Rightarrow> delivery_settings)
      \<Rightarrow> setting_value option \<Rightarrow> settings_state \<Rightarrow> settings_state" where
  "track_opt user field get put v st =
     (case v of None \<Rightarrow> st | Some new \<Rightarrow> track user field (get (fst st)) new (put new) st)"

record settings_change =
  sc_internal_enabled :: bool
  sc_driver_dispatch :: "bool option"
  sc_proof_required :: "bool option"
  sc_failure_wait :: "int option"
  sc_failure_calls :: "int option"
  sc_expected_version :: int

definition put_bool :: "(bool \<Rightarrow> delivery_settings \<Rightarrow> delivery_settings) \<Rightarrow> setting_value \<Rightarrow> delivery_settings \<Rightarrow> delivery_settings" where
  "put_bool f v r = (case v of Setting_bool b \<Rightarrow> f b r | Setting_int _ \<Rightarrow> r)"

definition put_int :: "(int \<Rightarrow> delivery_settings \<Rightarrow> delivery_settings) \<Rightarrow> setting_value \<Rightarrow> delivery_settings \<Rightarrow> delivery_settings" where
  "put_int f v r = (case v of Setting_int n \<Rightarrow> f n r | Setting_bool _ \<Rightarrow> r)"

definition apply_settings :: "int \<Rightarrow> settings_change \<Rightarrow> settings_state \<Rightarrow> settings_state" where
  "apply_settings user c st =
     (let st1 = track user ''internal_enabled'' (Setting_bool (ds_internal_enabled (fst st)))
                  (Setting_bool (sc_internal_enabled c)) (\<lambda>r. r\<lparr>ds_internal_enabled := sc_internal_enabled c\<rparr>) st;
          st2 = track_opt user ''driver_dispatch_enabled'' (\<lambda>r. Setting_bool (ds_driver_dispatch_enabled r))
                  (put_bool (\<lambda>b r. r\<lparr>ds_driver_dispatch_enabled := b\<rparr>))
                  (map_option Setting_bool (sc_driver_dispatch c)) st1;
          st3 = track_opt user ''delivery_proof_required'' (\<lambda>r. Setting_bool (ds_delivery_proof_required r))
                  (put_bool (\<lambda>b r. r\<lparr>ds_delivery_proof_required := b\<rparr>))
                  (map_option Setting_bool (sc_proof_required c)) st2;
          st4 = track_opt user ''failure_min_wait_minutes'' (\<lambda>r. Setting_int (ds_failure_min_wait_minutes r))
                  (put_int (\<lambda>n r. r\<lparr>ds_failure_min_wait_minutes := n\<rparr>))
                  (map_option Setting_int (sc_failure_wait c)) st3
      in track_opt user ''failure_min_call_attempts'' (\<lambda>r. Setting_int (ds_failure_min_call_attempts r))
           (put_int (\<lambda>n r. r\<lparr>ds_failure_min_call_attempts := n\<rparr>))
           (map_option Setting_int (sc_failure_calls c)) st4)"

definition update_delivery_settings ::
    "int \<Rightarrow> settings_change \<Rightarrow> delivery_db \<Rightarrow> (delivery_db \<times> delivery_settings) res" where
  "update_delivery_settings user c db =
     (let (db1, row) = get_delivery_settings db
      in if ds_version row \<noteq> sc_expected_version c then Inl (AppError ''DELIVERY_SETTINGS_CONFLICT'' 409)
         else if sc_driver_dispatch c = Some True \<and> \<not> ds_driver_dispatch_enabled row
              \<and> \<not> dd_has_active_driver db1
         then Inl (AppError ''NO_ACTIVE_DRIVER'' 409)
         else let (row', audits) = apply_settings user c (row, dd_audits db1)
              in Inr (db1\<lparr>dd_settings := Some row', dd_audits := audits\<rparr>, row'))"

definition set_establishment_location ::
    "int \<Rightarrow> real \<Rightarrow> real \<Rightarrow> delivery_db \<Rightarrow> delivery_db res" where
  "set_establishment_location e lat lng db =
     (case row_get est_id e (dd_establishments db) of
        None \<Rightarrow> Inl (AppError ''ESTABLISHMENT_NOT_FOUND'' 404)
      | Some _ \<Rightarrow> Inr (db\<lparr>dd_establishments := row_upd est_id e
            (\<lambda>r. r\<lparr>est_latitude := Some lat, est_longitude := Some lng\<rparr>) (dd_establishments db)\<rparr>))"

record availability_row =
  av_id :: int
  av_name :: string
  av_latitude :: "real option"
  av_longitude :: "real option"
  av_has_zones :: bool

definition delivery_availability :: "delivery_db \<Rightarrow> bool \<times> availability_row list" where
  "delivery_availability db =
     (let zones = filter dz_active (dd_zones db);
          scoped = map dz_establishment_id zones;
          global = None \<in> set scoped
      in (is_delivery_enabled db \<and> zones \<noteq> [],
          map (\<lambda>e. \<lparr>av_id = est_id e, av_name = est_name e, av_latitude = est_latitude e,
                    av_longitude = est_longitude e,
                    av_has_zones = (global \<or> Some (est_id e) \<in> set scoped)\<rparr>)
            (sort_key est_id (filter est_active (dd_establishments db)))))"

subsection \<open>Lemmas\<close>

text \<open>The loop keeps the least key among the zones that cover the point.\<close>

definition covers ::
    "(string \<Rightarrow> real option) \<Rightarrow> real \<Rightarrow> real \<Rightarrow> delivery_zone \<Rightarrow> ring \<Rightarrow> bool" where
  "covers sf lat lng z r \<longleftrightarrow> safe_ring sf (dz_polygon z) = Inr (Some r) \<and> point_in_ring lat lng r"

definition zone_hit ::
    "(string \<Rightarrow> real option) \<Rightarrow> real \<Rightarrow> real \<Rightarrow> delivery_zone set \<Rightarrow> ((real \<times> int) \<times> delivery_zone) option \<Rightarrow> bool" where
  "zone_hit sf lat lng zs b \<longleftrightarrow>
     (case b of
        None \<Rightarrow> \<not> (\<exists>z \<in> zs. \<exists>r. covers sf lat lng z r)
      | Some (k, z) \<Rightarrow> z \<in> zs \<and> (\<exists>r. covers sf lat lng z r \<and> k = zone_key r z)
          \<and> (\<forall>y \<in> zs. \<forall>r. covers sf lat lng y r \<longrightarrow> k \<le> zone_key r y))"

lemma covers_unique: "covers sf lat lng z r \<Longrightarrow> covers sf lat lng z r' \<Longrightarrow> r' = r"
  by (simp add: covers_def)

lemma zone_hit_skip:
  "zone_hit sf lat lng A b \<Longrightarrow> \<not> (\<exists>r. covers sf lat lng z r) \<Longrightarrow> zone_hit sf lat lng (insert z A) b"
  by (auto simp: zone_hit_def split: option.splits)

lemma zone_hit_take:
  assumes "zone_hit sf lat lng A b" and c: "covers sf lat lng z r"
  shows "zone_hit sf lat lng (insert z A)
    (case b of None \<Rightarrow> Some (zone_key r z, z)
     | Some (k, z') \<Rightarrow> if zone_key r z < k then Some (zone_key r z, z) else Some (k, z'))"
proof (cases b)
  case None
  then show ?thesis using assms by (auto simp: zone_hit_def dest: covers_unique [OF c])
next
  case (Some kz)
  obtain k z' where kz: "kz = (k, z')" by fastforce
  let ?key = "zone_key r z"
  have old: "z' \<in> A" "\<exists>r. covers sf lat lng z' r \<and> k = zone_key r z'"
    "\<forall>y \<in> A. \<forall>r. covers sf lat lng y r \<longrightarrow> k \<le> zone_key r y"
    using assms(1) by (simp_all add: zone_hit_def Some kz)
  have z: "r' = r" if "covers sf lat lng z r'" for r' using covers_unique [OF c that] .
  show ?thesis
  proof (cases "?key < k")
    case True
    then have "\<forall>y \<in> insert z A. \<forall>r'. covers sf lat lng y r' \<longrightarrow> ?key \<le> zone_key r' y"
      using old(3) z by (metis insert_iff less_imp_le order.refl order.trans)
    then show ?thesis using True c by (auto simp: zone_hit_def Some kz)
  next
    case False
    then have "\<forall>y \<in> insert z A. \<forall>r'. covers sf lat lng y r' \<longrightarrow> k \<le> zone_key r' y"
      using old(3) z by (metis insert_iff linorder_not_less)
    then show ?thesis using False old(1,2) by (simp add: zone_hit_def Some kz)
  qed
qed

lemma zone_search_hit:
  assumes "zone_search sf lat lng zs b = Inr b'" and "zone_hit sf lat lng A b"
  shows "zone_hit sf lat lng (A \<union> set zs) b'"
  using assms
proof (induction zs arbitrary: b A)
  case (Cons z zs)
  obtain ring where s: "safe_ring sf (dz_polygon z) = Inr ring"
    using Cons.prems(1) by auto
  have un: "A \<union> set (z # zs) = insert z A \<union> set zs" by simp
  show ?case
  proof (cases "\<exists>r. ring = Some r \<and> point_in_ring lat lng r")
    case True
    then obtain r where r: "ring = Some r" "point_in_ring lat lng r" by blast
    then have "covers sf lat lng z r" using s by (simp add: covers_def)
    from zone_hit_take [OF Cons.prems(2) this] show ?thesis
      unfolding un using Cons.prems(1) by (intro Cons.IH) (simp_all add: s r Let_def)
  next
    case False
    then have "\<not> (\<exists>r. covers sf lat lng z r)" using s by (auto simp: covers_def)
    from zone_hit_skip [OF Cons.prems(2) this] show ?thesis
      unfolding un using Cons.prems(1) False by (intro Cons.IH) (cases ring, simp_all add: s)
  qed
qed simp

lemma scoped_set: "set (scoped_active_zones db eid) = {z \<in> set (dd_zones db). in_scope eid z}"
  by (simp add: scoped_active_zones_def)

lemma find_zone_least:
  assumes "find_zone sf db lat lng eid = Inr (Some z)"
  shows "z \<in> set (dd_zones db) \<and> in_scope eid z \<and> (\<exists>r. covers sf lat lng z r
    \<and> (\<forall>y \<in> set (dd_zones db). \<forall>r'. in_scope eid y \<and> covers sf lat lng y r' \<longrightarrow>
        zone_key r z \<le> zone_key r' y))"
proof -
  obtain k where "zone_search sf lat lng (scoped_active_zones db eid) None = Inr (Some (k, z))"
    using assms by (auto simp: find_zone_def)
  from zone_search_hit [OF this, of "{}"]
  have "zone_hit sf lat lng (set (scoped_active_zones db eid)) (Some (k, z))"
    by (simp add: zone_hit_def)
  then show ?thesis unfolding zone_hit_def scoped_set by auto
qed

lemma find_zone_none:
  assumes "find_zone sf db lat lng eid = Inr None"
  shows "\<not> (\<exists>z \<in> set (dd_zones db). in_scope eid z \<and> (\<exists>r. covers sf lat lng z r))"
proof -
  have "zone_search sf lat lng (scoped_active_zones db eid) None = Inr None"
    using assms by (auto simp: find_zone_def)
  from zone_search_hit [OF this, of "{}"]
  have "zone_hit sf lat lng (set (scoped_active_zones db eid)) None" by (simp add: zone_hit_def)
  then show ?thesis unfolding zone_hit_def scoped_set by auto
qed

subsection \<open>The zone limit\<close>

inductive zone_step :: "delivery_db \<Rightarrow> delivery_db \<Rightarrow> bool" where
  zstep_create:
    "nid \<notin> row_ids dz_id (dd_zones db) \<Longrightarrow> create_zone mapbox nid rid body db = Inr db' \<Longrightarrow> zone_step db db'"
| zstep_update: "update_zone mapbox zid rid body db = Inr db' \<Longrightarrow> zone_step db db'"
| zstep_active: "set_zone_active zid active db = Inr db' \<Longrightarrow> zone_step db db'"
| zstep_settings: "update_delivery_settings user c db = Inr (db', row) \<Longrightarrow> zone_step db db'"
| zstep_location: "set_establishment_location e lat lng db = Inr db' \<Longrightarrow> zone_step db db'"

definition zones_ok :: "delivery_db \<Rightarrow> bool" where
  "zones_ok db \<longleftrightarrow> distinct (map dz_id (dd_zones db))
     \<and> list_all (\<lambda>z. active_count db (dz_establishment_id z) None \<le> 50) (dd_zones db)"

lemma zones_ok_iff:
  "zones_ok db \<longleftrightarrow> distinct (map dz_id (dd_zones db)) \<and> (\<forall>eid. active_count db eid None \<le> 50)"
proof -
  have "active_count db eid None = 0" if "\<forall>z \<in> set (dd_zones db). dz_establishment_id z \<noteq> eid" for eid
    using that by (auto simp: active_count_def filter_empty_conv)
  then have "active_count db eid None \<le> 50"
    if "\<forall>z \<in> set (dd_zones db). active_count db (dz_establishment_id z) None \<le> 50" for eid
    using that by (cases "\<exists>z \<in> set (dd_zones db). dz_establishment_id z = eid") auto
  then show ?thesis by (auto simp: zones_ok_def list_all_iff)
qed

lemma count_conj_le: "length (filter (\<lambda>x. P x \<and> Q x) xs) \<le> length (filter P xs)"
  by (induction xs) auto

lemma count_except:
  assumes "distinct (map key rows)" and "r \<in> set rows" and "key r = k"
  shows "length (filter P rows) = length (filter (\<lambda>x. P x \<and> key x \<noteq> k) rows) + (if P r then 1 else 0)"
  using assms
proof (induction rows)
  case (Cons x rows)
  show ?case
  proof (cases "x = r")
    case True
    then have "\<forall>y \<in> set rows. key y \<noteq> k" using Cons.prems by (auto simp: image_iff)
    then have "filter (\<lambda>y. P y \<and> key y \<noteq> k) rows = filter P rows" by (auto intro: filter_cong)
    then show ?thesis using True Cons.prems by simp
  next
    case False
    then have "key x \<noteq> k" using Cons.prems by (auto simp: image_iff)
    then show ?thesis using Cons False by simp
  qed
qed simp

lemma count_upd:
  assumes d: "distinct (map key rows)" and r: "r \<in> set rows" "key r = k"
    and f: "\<And>x. key (f x) = key x"
  shows "length (filter P (row_upd key k f rows)) =
    length (filter (\<lambda>x. P x \<and> key x \<noteq> k) rows) + (if P (f r) then 1 else 0)"
proof -
  have m: "map key (row_upd key k f rows) = map key rows" using f by (auto simp: row_upd_def)
  have "f r \<in> set (row_upd key k f rows)" using r by (auto simp: row_upd_def image_iff)
  then have "length (filter P (row_upd key k f rows)) =
      length (filter (\<lambda>x. P x \<and> key x \<noteq> k) (row_upd key k f rows)) + (if P (f r) then 1 else 0)"
    using d f r by (intro count_except) (auto simp: m)
  moreover have "filter (\<lambda>x. P x \<and> key x \<noteq> k) (row_upd key k f rows) = filter (\<lambda>x. P x \<and> key x \<noteq> k) rows"
    using f by (induction rows) (auto simp: row_upd_def)
  ultimately show ?thesis by simp
qed

lemma active_count_frame [simp]: "active_count (db\<lparr>dd_rules := rs\<rparr>) eid ex = active_count db eid ex"
  by (simp add: active_count_def)

lemma replace_rules_zones: "replace_rules rid zid rs db = Inr db' \<Longrightarrow> dd_zones db' = dd_zones db"
  by (auto simp: replace_rules_def split: if_splits)

lemma zones_ok_cong: "dd_zones db' = dd_zones db \<Longrightarrow> zones_ok db' = zones_ok db"
  by (simp add: zones_ok_def active_count_def)

text \<open>Rewriting one zone keeps the limit when the zone ends inactive, or when the other active zones
  of its establishment are fewer than fifty.\<close>

lemma zones_ok_upd:
  assumes ok: "zones_ok db" and z: "get_zone zid db = Some z" and f: "\<And>x. dz_id (f x) = dz_id x"
    and cap: "dz_active (f z) \<Longrightarrow> active_count db (dz_establishment_id (f z)) (Some zid) < 50"
  shows "zones_ok (db\<lparr>dd_zones := row_upd dz_id zid f (dd_zones db)\<rparr>)"
proof -
  let ?db = "db\<lparr>dd_zones := row_upd dz_id zid f (dd_zones db)\<rparr>"
  have d: "distinct (map dz_id (dd_zones db))" and le: "\<And>eid. active_count db eid None \<le> 50"
    using ok by (auto simp: zones_ok_iff)
  have zs: "z \<in> set (dd_zones db)" "dz_id z = zid" using row_get_SomeD [OF z] by auto
  have m: "map dz_id (row_upd dz_id zid f (dd_zones db)) = map dz_id (dd_zones db)"
    using f by (auto simp: row_upd_def)
  have eq: "active_count ?db eid None =
      active_count db eid (Some zid) + (if dz_active (f z) \<and> dz_establishment_id (f z) = eid then 1 else 0)" for eid
    using count_upd [OF d zs f, where P = "\<lambda>y. dz_active y \<and> dz_establishment_id y = eid"]
    by (simp add: active_count_def conj_assoc eq_commute [of "dz_id _" zid])
  have sub: "active_count db eid (Some zid) \<le> active_count db eid None" for eid
    using count_conj_le [of "\<lambda>y. dz_active y \<and> dz_establishment_id y = eid" "\<lambda>y. zid \<noteq> dz_id y"]
    by (simp add: active_count_def conj_assoc)
  have "active_count ?db eid None \<le> 50" for eid
    using eq [of eid] cap le [of eid] sub [of eid] by (cases "dz_active (f z) \<and> dz_establishment_id (f z) = eid") auto
  then show ?thesis using d by (simp add: zones_ok_iff m)
qed

lemma create_zone_ok:
  assumes "zones_ok db" and "nid \<notin> row_ids dz_id (dd_zones db)" and "create_zone mapbox nid rid body db = Inr db'"
  shows "zones_ok db'"
proof -
  obtain z where id: "dz_id z = nid" and zs: "dd_zones db' = dd_zones db @ [z]"
    and cap: "dz_active z \<Longrightarrow> active_count db (dz_establishment_id z) None < 50"
    using assms(3)
    by (fastforce simp: create_zone_def assert_zone_capacity_def Let_def split_beta
        dest: replace_rules_zones split: if_splits list.splits option.splits)
  have "active_count db' eid None =
      active_count db eid None + (if dz_active z \<and> dz_establishment_id z = eid then 1 else 0)" for eid
    by (simp add: active_count_def zs)
  moreover have "active_count db eid None \<le> 50" for eid using assms(1) by (simp add: zones_ok_iff)
  ultimately have "active_count db' eid None \<le> 50" for eid
    using cap by (auto simp: Suc_le_eq)
  then show ?thesis using assms(1,2) id by (auto simp: zones_ok_iff zs row_ids_def)
qed

lemma update_zone_ok:
  assumes ok: "zones_ok db" and u: "update_zone mapbox zid rid body db = Inr db'"
  shows "zones_ok db'"
proof -
  obtain z where z: "get_zone zid db = Some z"
    using u by (cases "get_zone zid db") (auto simp: update_zone_def)
  define dbu where "dbu = (\<lambda>eid shape. db\<lparr>dd_zones := row_upd dz_id zid (overwrite_zone body eid shape) (dd_zones db)\<rparr>)"
  obtain shape eid where a: "(if zc_active body then assert_zone_capacity db eid (Some zid) else Inr ()) = Inr ()"
    and r: "(case zc_rules body of None \<Rightarrow> Inr (dbu eid shape) | Some rs \<Rightarrow> replace_rules rid zid rs (dbu eid shape)) = Inr db'"
    using u unfolding update_zone_def z dbu_def by (auto simp only: option.case rbind_eq_Inr Let_def)
  have cap: "zc_active body \<Longrightarrow> active_count db eid (Some zid) < 50"
    using a by (simp add: assert_zone_capacity_def split: if_splits)
  have db': "dd_zones db' = row_upd dz_id zid (overwrite_zone body eid shape) (dd_zones db)"
    using r by (cases "zc_rules body") (auto simp: dbu_def dest!: replace_rules_zones)
  have "zones_ok (db\<lparr>dd_zones := row_upd dz_id zid (overwrite_zone body eid shape) (dd_zones db)\<rparr>)"
    by (rule zones_ok_upd [OF ok z]) (use cap in \<open>simp_all add: overwrite_zone_def\<close>)
  moreover have "zones_ok db' = zones_ok (db\<lparr>dd_zones := row_upd dz_id zid (overwrite_zone body eid shape) (dd_zones db)\<rparr>)"
    by (rule zones_ok_cong) (simp add: db')
  ultimately show ?thesis by simp
qed

lemma set_active_ok:
  assumes ok: "zones_ok db" and u: "set_zone_active zid active db = Inr db'"
  shows "zones_ok db'"
proof -
  obtain z where z: "get_zone zid db = Some z"
    using u by (cases "get_zone zid db") (auto simp: set_zone_active_def)
  have zs: "z \<in> set (dd_zones db)" "dz_id z = zid" using row_get_SomeD [OF z] by auto
  have d: "distinct (map dz_id (dd_zones db))" and le: "active_count db (dz_establishment_id z) None \<le> 50"
    using ok by (auto simp: zones_ok_iff)
  have "active_count db (dz_establishment_id z) None =
      active_count db (dz_establishment_id z) (Some zid) + (if dz_active z then 1 else 0)"
    using count_except [OF d zs, where P = "\<lambda>y. dz_active y \<and> dz_establishment_id y = dz_establishment_id z"]
    by (simp add: active_count_def conj_assoc eq_commute [of "dz_id _" zid])
  then have "active_count db (dz_establishment_id z) (Some zid) < 50" if active
    using u that le by (auto simp: set_zone_active_def z assert_zone_capacity_def split: if_splits)
  moreover have "db' = db\<lparr>dd_zones := row_upd dz_id zid (\<lambda>r. r\<lparr>dz_active := active\<rparr>) (dd_zones db)\<rparr>"
    using u by (auto simp: set_zone_active_def z)
  ultimately show ?thesis by (auto intro: zones_ok_upd [OF ok z])
qed

lemma zone_step_ok: "zone_step db db' \<Longrightarrow> zones_ok db \<Longrightarrow> zones_ok db'"
proof (induction rule: zone_step.induct)
  case (zstep_settings user c db db' row)
  then have "dd_zones db' = dd_zones db"
    by (auto simp: update_delivery_settings_def get_delivery_settings_def Let_def split_beta
        split: option.splits if_splits)
  then show ?case using zstep_settings zones_ok_cong by blast
next
  case (zstep_location e lat lng db db')
  then have "dd_zones db' = dd_zones db"
    by (auto simp: set_establishment_location_def split: option.splits)
  then show ?case using zstep_location zones_ok_cong by blast
qed (blast intro: create_zone_ok update_zone_ok set_active_ok)+

interpretation zone_limit: invariant_steps zone_step zones_ok
  by unfold_locales (rule zone_step_ok)

end
