(* ===== verification/Delivery_Props.thy ===== *)
theory Delivery_Props
  imports Delivery_Zones
begin

text \<open>
  Properties of delivery fees and delivery zones (\<^verbatim>\<open>app/modules/delivery/pricing.py\<close>,
  \<^verbatim>\<open>geometry.py\<close> and \<^verbatim>\<open>service.py\<close>).
\<close>

subsection \<open>Concrete rules and zones\<close>

definition demo_rule :: "int \<Rightarrow> rule_kind \<Rightarrow> rat option \<Rightarrow> rat option \<Rightarrow> zone_rule" where
  "demo_rule rid k fee min_sub =
     \<lparr>zr_id = rid, zr_zone_id = 1, zr_label = ''rule'', zr_kind = k, zr_fee = fee,
      zr_min_subtotal = min_sub, zr_days_of_week = None, zr_start_time = None, zr_end_time = None,
      zr_starts_on = None, zr_ends_on = None, zr_priority = 0, zr_active = True\<rparr>"

definition night_rule :: zone_rule where
  "night_rule = (demo_rule 1 Free_rule None None)
     \<lparr>zr_days_of_week := Some [4], zr_start_time := Some (22 * 3600000000), zr_end_time := Some (2 * 3600000000)\<rparr>"

definition demo_square :: ring where
  "demo_square = [(0, 0), (1 / 100, 0), (1 / 100, 1 / 100), (0, 1 / 100), (0, 0)]"

definition demo_zone :: "int \<Rightarrow> delivery_zone" where
  "demo_zone zid =
     \<lparr>dz_id = zid, dz_name = ''centre'', dz_establishment_id = None, dz_polygon = polygon_geometry demo_square,
      dz_shape_kind = Kind_polygon, dz_shape_params = None, dz_fee = 3, dz_min_order_amount = 10,
      dz_estimated_minutes = 30, dz_active = True\<rparr>"

definition demo_delivery :: delivery_db where
  "demo_delivery =
     \<lparr>dd_zones = [demo_zone 1], dd_rules = [], dd_establishments = [], dd_settings = None, dd_audits = [],
      dd_has_active_driver = False\<rparr>"

subsection \<open>Fees\<close>

text \<open>A rule with a start and an end time applies at a local instant exactly when that instant lies
  in the interval some admissible day owns: from the start time to the end time of that day, or of the
  next day when the window passes midnight. So the hours after midnight belong to the day before.\<close>

theorem window_is_owned_interval:
  assumes "zr_start_time r = Some s" and "zr_end_time r = Some e" and "s \<noteq> e"
    and "0 \<le> s" "s < day_us" "0 \<le> e" "e < day_us" "0 \<le> t" "t < day_us"
  shows "window_matches r (d, t) \<longleftrightarrow>
    (\<exists>d'. date_ok r d' \<and> day_ok r d' \<and> d' * day_us + s \<le> d * day_us + t
       \<and> d * day_us + t < d' * day_us + e + (if s < e then 0 else day_us))"
  by (rule window_matches_interval [OF assms])

theorem window_is_owned_interval_witness:
  "window_matches night_rule (6, 3600000000)"
proof -
  have "date_ok night_rule 5" "day_ok night_rule 5"
    by (simp_all add: night_rule_def demo_rule_def date_ok_def day_ok_def weekday_def)
  then have "\<exists>d'. date_ok night_rule d' \<and> day_ok night_rule d'
      \<and> d' * day_us + 22 * 3600000000 \<le> 6 * day_us + 3600000000
      \<and> 6 * day_us + 3600000000 < d' * day_us + 2 * 3600000000
          + (if (22::int) * 3600000000 < 2 * 3600000000 then 0 else day_us)"
    by (intro exI [of _ 5] conjI) simp_all
  moreover have "window_matches night_rule (6, 3600000000) \<longleftrightarrow> (\<exists>d'. date_ok night_rule d' \<and> day_ok night_rule d'
      \<and> d' * day_us + 22 * 3600000000 \<le> 6 * day_us + 3600000000
      \<and> 6 * day_us + 3600000000 < d' * day_us + 2 * 3600000000
          + (if (22::int) * 3600000000 < 2 * 3600000000 then 0 else day_us))"
    by (rule window_is_owned_interval) (simp_all add: night_rule_def)
  ultimately show ?thesis by blast
qed

text \<open>C10. The delivery fee follows the announced order of precedence: a promotion or loyalty reward, or
  any eligible free-delivery rule, gives 0; otherwise the eligible fee rule of highest priority (the
  cheapest among equals) gives the fee; otherwise the base fee of the zone. The result is rounded to
  cents, is announced as free exactly when it is 0, and is never negative for non-negative tariffs.\<close>

theorem delivery_fee_precedence:
  fixes base sub :: rat and rules :: "zone_rule list" and now :: "day \<times> tod" and promo loyalty :: bool
  assumes "0 \<le> base" and "\<forall>r \<in> set rules. \<forall>v. zr_fee r = Some v \<longrightarrow> 0 \<le> v"
  defines "res \<equiv> evaluate_pricing base rules sub now promo loyalty"
    and "fees \<equiv> eligible_rules rules (money sub) now Fee_rule"
  shows "(promo \<or> loyalty \<or> eligible_rules rules (money sub) now Free_rule \<noteq> [] \<longrightarrow> pr_fee res = 0)
    \<and> (\<not> promo \<and> \<not> loyalty \<and> eligible_rules rules (money sub) now Free_rule = [] \<longrightarrow>
         (if fees = [] then pr_fee res = money base
          else \<exists>c \<in> set fees. pr_fee res = money_opt (zr_fee c)
            \<and> (\<forall>r \<in> set fees. zr_priority r < zr_priority c
                 \<or> zr_priority r = zr_priority c \<and> money_opt (zr_fee c) \<le> money_opt (zr_fee r))))
    \<and> cents (pr_fee res) \<and> 0 \<le> pr_fee res \<and> (pr_free_delivery res \<longleftrightarrow> pr_fee res = 0)"
proof -
  let ?free = "eligible_rules rules (money sub) now Free_rule"
  have fee: "pr_fee res = (if promo \<or> loyalty \<or> ?free \<noteq> [] then 0
     else if fees = [] then money base else money_opt (zr_fee (best_rule fees)))"
    by (simp add: res_def fees_def evaluate_fee)
  have best: "zr_priority r < zr_priority (best_rule fees) \<or> zr_priority r = zr_priority (best_rule fees)
      \<and> money_opt (zr_fee (best_rule fees)) \<le> money_opt (zr_fee r)" if "r \<in> set fees" for r
    using best_rule_least [OF that] by (auto simp: rule_key_def)
  have nn: "0 \<le> money_opt (zr_fee r)" if "r \<in> set rules" for r
    using assms(2) that by (cases "zr_fee r") (auto simp: money_opt_def intro: money_nonneg)
  have sub: "set fees \<subseteq> set rules" by (auto simp: fees_def eligible_rules_def window_candidates_def)
  have "0 \<le> pr_fee res" "cents (pr_fee res)"
    using fee nn sub best_rule_in [of fees] money_nonneg [OF assms(1)] by auto
  moreover have "pr_free_delivery res \<longleftrightarrow> pr_fee res = 0"
    by (simp add: res_def evaluate_pricing_def Let_def)
  moreover have "if fees = [] then pr_fee res = money base
      else \<exists>c \<in> set fees. pr_fee res = money_opt (zr_fee c)
        \<and> (\<forall>r \<in> set fees. zr_priority r < zr_priority c
             \<or> zr_priority r = zr_priority c \<and> money_opt (zr_fee c) \<le> money_opt (zr_fee r))"
    if "\<not> promo \<and> \<not> loyalty \<and> ?free = []"
    using that fee best best_rule_in [of fees] by (auto intro!: bexI [of _ "best_rule fees"])
  ultimately show ?thesis using fee by auto
qed

theorem delivery_fee_precedence_witness:
  "pr_fee (evaluate_pricing 3 [demo_rule 1 Free_rule None (Some 25), demo_rule 2 Fee_rule (Some 2) None]
      20 (5, 0) False False) = 2
   \<and> 0 \<le> pr_fee (evaluate_pricing 3 [demo_rule 1 Free_rule None (Some 25), demo_rule 2 Fee_rule (Some 2) None]
      20 (5, 0) False False)"
proof -
  let ?rs = "[demo_rule 1 Free_rule None (Some 25), demo_rule 2 Fee_rule (Some 2) None]"
  have "money 20 = 20" "money 25 = 25" "money 2 = 2"
    using money_of_cents [of 2000] money_of_cents [of 2500] money_of_cents [of 200] by simp_all
  then have "eligible_rules ?rs (money 20) (5, 0) Free_rule = []"
    "eligible_rules ?rs (money 20) (5, 0) Fee_rule = [demo_rule 2 Fee_rule (Some 2) None]"
    by (simp_all add: eligible_rules_def window_candidates_def window_matches_def demo_rule_def
        date_ok_def day_ok_def money_opt_def)
  then show ?thesis
    using delivery_fee_precedence [where base = 3 and rules = ?rs and sub = 20 and now = "(5, 0)"
        and promo = False and loyalty = False] \<open>money 2 = 2\<close>
    by (auto simp: demo_rule_def money_opt_def)
qed

text \<open>The amount announced as missing for free delivery is right: adding exactly that amount to the
  basket makes the delivery free at the same instant.\<close>

theorem remaining_amount_unlocks_free_delivery:
  assumes "pr_remaining_for_free (evaluate_pricing base rules sub now False False) = Some gap"
  shows "0 < gap \<and> pr_fee (evaluate_pricing base rules (money sub + gap) now False False) = 0"
proof -
  let ?gaps = "upcoming_gaps rules (money sub) now"
  have ne: "?gaps \<noteq> []" and g: "gap = money (Min (set ?gaps))"
    using assms by (auto simp: evaluate_pricing_def Let_def split: if_splits)
  have "Min (set ?gaps) \<in> set ?gaps" using ne by (intro Min_in) auto
  then obtain r where r: "r \<in> set (window_candidates rules now)" "zr_kind r = Free_rule"
      "money sub < money_opt (zr_min_subtotal r)"
    and m: "Min (set ?gaps) = money_opt (zr_min_subtotal r) - money sub"
    by (auto simp: upcoming_gaps_def)
  have "cents (money_opt (zr_min_subtotal r) - money sub)" by (intro cents_diff) simp_all
  then have gap: "gap = money_opt (zr_min_subtotal r) - money sub" by (simp add: g m money_cents)
  then have "money (money sub + gap) = money_opt (zr_min_subtotal r)"
    by (simp add: money_opt_def)
  then have "r \<in> set (eligible_rules rules (money (money sub + gap)) now Free_rule)"
    using r by (simp add: eligible_rules_def)
  then have "eligible_rules rules (money (money sub + gap)) now Free_rule \<noteq> []" by auto
  then show ?thesis using gap r(3) by (simp add: evaluate_fee)
qed

theorem remaining_amount_unlocks_free_delivery_witness:
  "pr_fee (evaluate_pricing 3 [demo_rule 1 Free_rule None (Some 25)] (money 20 + 5) (5, 0) False False) = 0"
proof -
  have m: "money 20 = 20" "money 25 = 25" "money 3 = 3" "money 5 = 5"
    using money_of_cents [of 2000] money_of_cents [of 2500] money_of_cents [of 300] money_of_cents [of 500] by simp_all
  have "pr_remaining_for_free (evaluate_pricing 3 [demo_rule 1 Free_rule None (Some 25)] 20 (5, 0) False False) = Some 5"
    by (simp add: evaluate_pricing_def eligible_rules_def upcoming_gaps_def window_candidates_def
        window_matches_def demo_rule_def date_ok_def day_ok_def money_opt_def m Let_def)
  from remaining_amount_unlocks_free_delivery [OF this] show ?thesis by simp
qed

subsection \<open>Zones\<close>

text \<open>\<open>find_zone\<close> answers the smallest active zone of the establishment (or of all establishments)
  that covers the point, with the smallest id among equal areas, and answers none exactly when no
  readable active zone covers the point.\<close>

theorem find_zone_most_specific:
  assumes "find_zone sf db lat lng eid = Inr res"
  shows "case res of
      None \<Rightarrow> \<not> (\<exists>z \<in> set (dd_zones db). in_scope eid z \<and> (\<exists>r. covers sf lat lng z r))
    | Some z \<Rightarrow> z \<in> set (dd_zones db) \<and> in_scope eid z \<and> (\<exists>r. covers sf lat lng z r
        \<and> (\<forall>y \<in> set (dd_zones db). \<forall>r'. in_scope eid y \<and> covers sf lat lng y r' \<longrightarrow>
             zone_key r z \<le> zone_key r' y))"
  using find_zone_least find_zone_none assms by (cases res) auto

theorem find_zone_most_specific_witness:
  "\<exists>z. find_zone (\<lambda>_. None) demo_delivery (1 / 200) (1 / 200) None = Inr (Some z)
     \<and> in_scope None z \<and> dz_id z = 1"
proof -
  have "safe_ring (\<lambda>_. None) (dz_polygon (demo_zone 1)) = Inr (Some demo_square)"
    by (simp add: demo_zone_def safe_ring_polygon demo_square_def)
  moreover have "point_in_ring (1 / 200) (1 / 200) demo_square"
    by (simp add: point_in_ring_def demo_square_def edge_crossed_def)
  ultimately have f: "find_zone (\<lambda>_. None) demo_delivery (1 / 200) (1 / 200) None = Inr (Some (demo_zone 1))"
    by (simp add: find_zone_def scoped_active_zones_def demo_delivery_def in_scope_def)
       (simp add: demo_zone_def)
  then show ?thesis using find_zone_most_specific [OF f] by (auto simp: demo_zone_def)
qed

text \<open>A polygon accepted by \<open>validate_geojson\<close> can always be read back, is closed, has 3 to 500
  corners within the coordinate bounds, and covers exactly the points of the polygon as it was drawn:
  neither dropping repeated positions nor closing it nor reversing its orientation changes membership.\<close>

theorem validated_polygon_faithful:
  assumes "extract_ring g = Inr js" and "clean_ring js = Inr drawn" and "validate_geojson g = Inr stored"
  shows "\<exists>r. safe_ring sf stored = Inr (Some r) \<and> hd r = last r \<and> 4 \<le> length r \<and> length r \<le> 501
    \<and> (\<forall>p \<in> set r. -180 \<le> fst p \<and> fst p \<le> 180 \<and> -90 \<le> snd p \<and> snd p \<le> 90)
    \<and> (\<forall>lat lng. point_in_ring lat lng r = point_in_ring lat lng drawn)"
proof -
  obtain r where c: "check_ring drawn = Inr r" and st: "stored = polygon_geometry r"
    using assms by (auto simp: validate_geojson_def validate_ring_def split: sum.splits)
  from c obtain q where "r = q @ [hd q]" "3 \<le> length q" "length q \<le> 500" "set q \<subseteq> set drawn"
    by (rule check_ring_shape) blast
  then have "4 \<le> length r" "length r \<le> 501" "hd r = last r" "set r \<subseteq> set drawn"
    by (cases q; auto)+
  then show ?thesis
    using safe_ring_polygon [of r sf] clean_ring_bounds [OF assms(2)] check_ring_membership [OF c] st
    by (intro exI [of _ r]) auto
qed

definition equator_square :: ring where
  "equator_square = [(0, - 1 / 200), (1 / 100, - 1 / 200), (1 / 100, 1 / 200), (0, 1 / 200)]"

lemma equator_area:
  "area_km2 equator_square = km_per_degree ^ 2 / 10000"
  "signed_area equator_square = 1 / 10000"
  by (simp_all add: area_km2_def open_ring_def equator_square_def signed_area_def Let_def power2_eq_square)

lemma km_per_degree_bounds: "70 < km_per_degree" "km_per_degree < 150"
  using pi_ge_two pi_less_4 by (simp_all add: km_per_degree_def earth_radius_m_def)

lemma equator_accepted: "check_ring equator_square = Inr (equator_square @ [(0, - 1 / 200)])"
proof -
  have o: "open_ring (remdups_adj equator_square) = equator_square"
    by (simp add: equator_square_def open_ring_def)
  have "\<not> has_self_intersection equator_square"
    by (simp add: has_self_intersection_def equator_square_def upt_rec segments_intersect_def cross_def
        on_segment_def)
  moreover have "(70::real) ^ 2 < km_per_degree ^ 2" "km_per_degree ^ 2 < (150::real) ^ 2"
    using km_per_degree_bounds by (intro power_strict_mono; simp)+
  ultimately show ?thesis
    by (simp add: check_ring_def o equator_area Let_def) (simp add: equator_square_def)
qed

theorem validated_polygon_faithful_witness:
  "\<exists>stored r. validate_geojson (polygon_geometry equator_square) = Inr stored
     \<and> safe_ring (\<lambda>_. None) stored = Inr (Some r)
     \<and> (\<forall>lat lng. point_in_ring lat lng r = point_in_ring lat lng equator_square)"
proof -
  have c: "clean_ring (map json_position equator_square) = Inr equator_square"
    by (simp add: equator_square_def json_position_def clean_position_def)
  then have v: "validate_geojson (polygon_geometry equator_square)
      = Inr (polygon_geometry (equator_square @ [(0, - 1 / 200)]))"
    by (simp add: validate_geojson_def validate_ring_def equator_accepted)
  show ?thesis
    using validated_polygon_faithful [OF extract_polygon c v, of "\<lambda>_. None"] v by blast
qed

text \<open>The tolerant reader is not total: a stored polygon whose positions are JSON objects makes it
  raise \<^verbatim>\<open>KeyError\<close>, because the \<^verbatim>\<open>except\<close> clause names \<^verbatim>\<open>IndexError\<close> but not \<^verbatim>\<open>KeyError\<close>.\<close>

lemma safe_ring_raises_on_object_positions:
  "safe_ring sf (JObj [(''type'', JStr ''Polygon''),
     (''coordinates'', JList [JList [JObj [], JObj [], JObj [], JObj []]])]) = Inl PyKeyError"
  by (simp add: safe_ring_def jget_def polygon_ring_def stored_position_def)

text \<open>However zones are created, edited, activated or deactivated, no establishment ever has more
  than fifty active zones (the bound the address check relies on).\<close>

theorem active_zone_limit:
  assumes "zone_step\<^sup>*\<^sup>* db db'" and "zones_ok db"
  shows "active_count db' eid None \<le> 50"
  using zone_limit.run_inv [OF assms] by (simp add: zones_ok_iff)

theorem active_zone_limit_witness:
  "\<exists>db'. set_zone_active 1 False demo_delivery = Inr db' \<and> active_count db' None None \<le> 50"
proof -
  obtain db' where s: "set_zone_active 1 False demo_delivery = Inr db'"
    by (simp add: set_zone_active_def demo_delivery_def demo_zone_def row_simps)
  then have "zone_step demo_delivery db'" by (rule zstep_active)
  then have run: "zone_step\<^sup>*\<^sup>* demo_delivery db'" by (rule r_into_rtranclp)
  have "zones_ok demo_delivery"
    by (simp add: zones_ok_def active_count_def demo_delivery_def)
  from active_zone_limit [OF run this] show ?thesis using s by blast
qed

end
