(* ===== verification/Loyalty.thy ===== *)
theory Loyalty
  imports Delivery_Pricing Machines
begin

text \<open>
  The loyalty programme: accounts, transactions, reservations
  (\<^verbatim>\<open>app/modules/loyalty/account/service.py\<close>) and the configurable earning rules, expiry and rewards
  (\<^verbatim>\<open>app/modules/loyalty/config/service.py\<close>). Points are Python integers. Primary keys the database
  assigns are the arguments \<open>nid\<close>, \<open>now\<close> is the clock and \<open>today\<close> the current date in Paris;
  \<open>has_delivered\<close> tells whether the user already has a delivered order.
\<close>

subsection \<open>Rows\<close>

datatype tx_type = Earn | Redeem | Expire | Reservation_tx | Adjustment | Manual

text \<open>The generated reason strings, one constructor per format string; \<open>Text_reason\<close> is a reason a
  caller supplies.\<close>

datatype tx_reason =
  Order_delivered int | Expired_points | Reservation_created int | Checkout_reservation int
  | Redeem_reward_reason int | Expiry_notice int day | Text_reason string

record loyalty_account =
  la_id :: int
  la_user_id :: int
  la_points :: int

record loyalty_transaction =
  lt_account_id :: int
  lt_delta :: int
  lt_reason :: tx_reason
  lt_type :: tx_type
  lt_order_id :: "int option"
  lt_reward_id :: "int option"
  lt_reservation_id :: "int option"
  lt_created_at :: instant

datatype reservation_status = Reserved | Res_confirmed | Res_cancelled | Res_expired

record point_reservation =
  pr_id :: int
  pr_user_id :: int
  pr_order_id :: int
  pr_points :: int
  pr_discount :: rat
  pr_status :: reservation_status
  pr_expires_at :: instant

datatype rule_type = First_order | Category_multiplier | Day_multiplier | Period_multiplier | Other_rule string

record loyalty_rule =
  lr_name :: string
  lr_type :: rule_type
  lr_category_id :: "int option"
  lr_multiplier :: rat
  lr_start_date :: "day option"
  lr_end_date :: "day option"
  lr_days_of_week :: "int list option"
  lr_priority :: int
  lr_active :: bool

datatype reward_type = Discount_euros | Free_product | Free_delivery_reward | Other_reward string

record loyalty_reward =
  rw_id :: int
  rw_name :: string
  rw_type :: reward_type
  rw_points_required :: int
  rw_discount_amount :: "rat option"
  rw_product_id :: "int option"
  rw_active :: bool

record loyalty_config =
  lc_base_ratio :: rat
  lc_points_expiry_days :: "int option"
  lc_points_to_euro_rate :: rat
  lc_max_multiplier :: rat
  lc_active :: bool

record loyalty_db =
  ly_accounts :: "loyalty_account list"
  ly_transactions :: "loyalty_transaction list"
  ly_reservations :: "point_reservation list"
  ly_config :: "loyalty_config option"
  ly_rules :: "loyalty_rule list"
  ly_rewards :: "loyalty_reward list"

subsection \<open>Accounts\<close>

definition default_config :: loyalty_config where
  "default_config =
     \<lparr>lc_base_ratio = 1, lc_points_expiry_days = None, lc_points_to_euro_rate = 1 / 100,
      lc_max_multiplier = 20, lc_active = True\<rparr>"

definition get_or_create_loyalty_config :: "loyalty_db \<Rightarrow> loyalty_db \<times> loyalty_config" where
  "get_or_create_loyalty_config db =
     (case ly_config db of
        Some c \<Rightarrow> (db, c)
      | None \<Rightarrow> (db\<lparr>ly_config := Some default_config\<rparr>, default_config))"

definition account_of :: "int \<Rightarrow> loyalty_db \<Rightarrow> loyalty_account option" where
  "account_of uid db = row_get la_user_id uid (ly_accounts db)"

definition get_or_create_account :: "int \<Rightarrow> int \<Rightarrow> loyalty_db \<Rightarrow> loyalty_db \<times> loyalty_account" where
  "get_or_create_account nid uid db =
     (case account_of uid db of
        Some a \<Rightarrow> (db, a)
      | None \<Rightarrow>
          let a = \<lparr>la_id = nid, la_user_id = uid, la_points = 0\<rparr>
          in (db\<lparr>ly_accounts := ly_accounts db @ [a]\<rparr>, a))"

text \<open>Every balance change is written with the transaction row that explains it.\<close>

definition post_points ::
    "loyalty_account \<Rightarrow> int \<Rightarrow> tx_reason \<Rightarrow> tx_type \<Rightarrow> int option \<Rightarrow> int option \<Rightarrow> int option \<Rightarrow> instant
      \<Rightarrow> loyalty_db \<Rightarrow> loyalty_db" where
  "post_points a d reason ty oid rid sid now db =
     db\<lparr>ly_accounts := row_upd la_id (la_id a) (\<lambda>r. r\<lparr>la_points := la_points a + d\<rparr>) (ly_accounts db),
        ly_transactions := ly_transactions db @
          [\<lparr>lt_account_id = la_id a, lt_delta = d, lt_reason = reason, lt_type = ty, lt_order_id = oid,
            lt_reward_id = rid, lt_reservation_id = sid, lt_created_at = now\<rparr>]\<rparr>"

definition add_points ::
    "int \<Rightarrow> int \<Rightarrow> int \<Rightarrow> tx_reason \<Rightarrow> tx_type \<Rightarrow> int option \<Rightarrow> instant \<Rightarrow> loyalty_db \<Rightarrow> loyalty_db res" where
  "add_points nid uid points reason ty oid now db =
     (if points \<le> 0 then Inl (AppError ''INVALID_POINTS'' 422)
      else let (db1, a) = get_or_create_account nid uid db
           in Inr (post_points a points reason ty oid None None now db1))"

definition redeem_points ::
    "int \<Rightarrow> int \<Rightarrow> int \<Rightarrow> tx_reason \<Rightarrow> int option \<Rightarrow> int option \<Rightarrow> int option \<Rightarrow> instant \<Rightarrow> loyalty_db
      \<Rightarrow> loyalty_db res" where
  "redeem_points nid uid points reason oid rid sid now db =
     (if points \<le> 0 then Inl (AppError ''INVALID_POINTS'' 422)
      else let (db1, a) = get_or_create_account nid uid db
           in if la_points a < points then Inl (AppError ''INSUFFICIENT_POINTS'' 422)
              else Inr (post_points a (- points) reason Redeem oid rid sid now db1))"

definition reserved_points :: "int \<Rightarrow> instant \<Rightarrow> loyalty_db \<Rightarrow> int" where
  "reserved_points uid now db =
     sum_list (map pr_points (filter (\<lambda>r. pr_user_id r = uid \<and> pr_status r = Reserved \<and> pr_expires_at r > now)
       (ly_reservations db)))"

definition get_available_points :: "int \<Rightarrow> int \<Rightarrow> instant \<Rightarrow> loyalty_db \<Rightarrow> loyalty_db \<times> int" where
  "get_available_points nid uid now db =
     (let (db1, a) = get_or_create_account nid uid db
      in (db1, max 0 (la_points a - reserved_points uid now db1)))"

subsection \<open>Reservations at checkout\<close>

text \<open>\<open>order_state\<close> is what the orders table says of the order: its user and whether its status still
  accepts a reservation.\<close>

definition create_checkout_reservation ::
    "(int \<Rightarrow> (int option \<times> bool) option) \<Rightarrow> int \<Rightarrow> int \<Rightarrow> int \<Rightarrow> int \<Rightarrow> int \<Rightarrow> instant \<Rightarrow> loyalty_db
      \<Rightarrow> loyalty_db res" where
  "create_checkout_reservation order_state nid rid uid oid points now db =
     (if points \<le> 0 then Inl (AppError ''INVALID_POINTS'' 422)
      else case order_state oid of
          None \<Rightarrow> Inl (AppError ''ORDER_NOT_FOUND'' 404)
        | Some (owner, eligible) \<Rightarrow>
            if owner \<noteq> Some uid then Inl (AppError ''ORDER_NOT_FOUND'' 404)
            else if \<not> eligible then Inl (AppError ''ORDER_NOT_ELIGIBLE'' 422)
            else
              let (db1, available) = get_available_points nid uid now db
              in if available < points then Inl (AppError ''INSUFFICIENT_POINTS'' 422)
                 else
                   let (db2, config) = get_or_create_loyalty_config db1;
                       res = \<lparr>pr_id = rid, pr_user_id = uid, pr_order_id = oid, pr_points = points,
                              pr_discount = of_int points * lc_points_to_euro_rate config,
                              pr_status = Reserved, pr_expires_at = now + 30 * 60000000\<rparr>;
                       db3 = db2\<lparr>ly_reservations := ly_reservations db2 @ [res]\<rparr>;
                       (db4, a) = get_or_create_account nid uid db3
                   in Inr (post_points a 0 (Reservation_created rid) Reservation_tx (Some oid) None (Some rid) now db4))"

abbreviation upd_reservation ::
    "int \<Rightarrow> (point_reservation \<Rightarrow> point_reservation) \<Rightarrow> loyalty_db \<Rightarrow> loyalty_db" where
  "upd_reservation rid f db \<equiv> db\<lparr>ly_reservations := row_upd pr_id rid f (ly_reservations db)\<rparr>"

text \<open>An expired reservation is marked and committed before the error is raised, so this operation
  returns the tables together with the outcome.\<close>

definition confirm_checkout_reservation ::
    "int \<Rightarrow> int \<Rightarrow> instant \<Rightarrow> loyalty_db \<Rightarrow> loyalty_db \<times> unit res" where
  "confirm_checkout_reservation uid rid now db =
     (case find (\<lambda>r. pr_id r = rid \<and> pr_user_id r = uid) (ly_reservations db) of
        None \<Rightarrow> (db, Inl (AppError ''RESERVATION_NOT_FOUND'' 404))
      | Some r \<Rightarrow>
          if pr_status r = Res_confirmed then (db, Inr ())
          else if pr_status r \<noteq> Reserved then (db, Inl (AppError ''RESERVATION_NOT_ACTIVE'' 422))
          else if pr_expires_at r < now
          then (upd_reservation rid (\<lambda>x. x\<lparr>pr_status := Res_expired\<rparr>) db,
                Inl (AppError ''RESERVATION_EXPIRED'' 422))
          else (case account_of uid db of
              None \<Rightarrow> (db, Inl (AppError ''INSUFFICIENT_POINTS'' 422))
            | Some a \<Rightarrow>
                if la_points a < pr_points r then (db, Inl (AppError ''INSUFFICIENT_POINTS'' 422))
                else (upd_reservation rid (\<lambda>x. x\<lparr>pr_status := Res_confirmed\<rparr>)
                        (post_points a (- pr_points r) (Checkout_reservation rid) Redeem
                           (Some (pr_order_id r)) None (Some rid) now db), Inr ())))"

definition cancel_checkout_reservation ::
    "int \<Rightarrow> int \<Rightarrow> loyalty_db \<Rightarrow> loyalty_db res" where
  "cancel_checkout_reservation uid rid db =
     (case find (\<lambda>r. pr_id r = rid \<and> pr_user_id r = uid) (ly_reservations db) of
        None \<Rightarrow> Inl (AppError ''RESERVATION_NOT_FOUND'' 404)
      | Some r \<Rightarrow>
          if pr_status r = Res_cancelled \<or> pr_status r = Res_confirmed then Inr db
          else Inr (upd_reservation rid (\<lambda>x. x\<lparr>pr_status := Res_cancelled\<rparr>) db))"

subsection \<open>Earning\<close>

record points_preview =
  pp_base :: int
  pp_bonus :: int
  pp_total :: int
  pp_rules :: "string list"
  pp_multiplier :: rat
  pp_max_multiplier :: rat
  pp_capped :: bool

definition rule_applies :: "bool \<Rightarrow> day \<Rightarrow> int list \<Rightarrow> loyalty_rule \<Rightarrow> bool" where
  "rule_applies has_delivered today cats r =
     (case lr_type r of
        First_order \<Rightarrow> \<not> has_delivered
      | Category_multiplier \<Rightarrow> (case lr_category_id r of None \<Rightarrow> False | Some c \<Rightarrow> c \<in> set cats)
      | Day_multiplier \<Rightarrow> (case lr_days_of_week r of None \<Rightarrow> False | Some ds \<Rightarrow> weekday today \<in> set ds)
      | Period_multiplier \<Rightarrow>
          (case lr_start_date r of None \<Rightarrow> True | Some d \<Rightarrow> today \<ge> d)
          \<and> (case lr_end_date r of None \<Rightarrow> True | Some d \<Rightarrow> today \<le> d)
      | Other_rule _ \<Rightarrow> False)"

definition applicable_rules :: "bool \<Rightarrow> day \<Rightarrow> int list \<Rightarrow> loyalty_db \<Rightarrow> loyalty_rule list" where
  "applicable_rules has_delivered today cats db =
     filter (rule_applies has_delivered today cats) (sort_key lr_priority (filter lr_active (ly_rules db)))"

definition compute_points_for_order ::
    "bool \<Rightarrow> day \<Rightarrow> rat \<Rightarrow> int list \<Rightarrow> loyalty_db \<Rightarrow> loyalty_db \<times> points_preview" where
  "compute_points_for_order has_delivered today order_total cats db =
     (let (db1, config) = get_or_create_loyalty_config db
      in if \<not> lc_active config
         then (db1, \<lparr>pp_base = 0, pp_bonus = 0, pp_total = 0, pp_rules = [], pp_multiplier = 0,
                     pp_max_multiplier = lc_max_multiplier config, pp_capped = False\<rparr>)
         else
           let base = py_int (order_total * lc_base_ratio config);
               rules = applicable_rules has_delivered today cats db1;
               raw = 1 + sum_list (map (\<lambda>r. lr_multiplier r - 1) rules);
               m = min raw (lc_max_multiplier config);
               tot = py_int (of_int base * m)
           in (db1, \<lparr>pp_base = base, pp_bonus = tot - base, pp_total = tot,
                     pp_rules = map lr_name rules, pp_multiplier = m,
                     pp_max_multiplier = lc_max_multiplier config,
                     pp_capped = (raw > lc_max_multiplier config)\<rparr>))"

definition already_credited :: "int \<Rightarrow> loyalty_db \<Rightarrow> bool" where
  "already_credited oid db \<longleftrightarrow> list_ex (\<lambda>t. lt_reason t = Order_delivered oid) (ly_transactions db)"

definition credit_points_for_order ::
    "bool \<Rightarrow> day \<Rightarrow> int \<Rightarrow> int \<Rightarrow> int \<Rightarrow> rat \<Rightarrow> int list \<Rightarrow> instant \<Rightarrow> loyalty_db \<Rightarrow> loyalty_db" where
  "credit_points_for_order has_delivered today nid uid oid order_total cats now db =
     (if already_credited oid db then fst (get_or_create_account nid uid db)
      else
        let (db1, preview) = compute_points_for_order has_delivered today order_total cats db;
            (db2, a) = get_or_create_account nid uid db1
        in if pp_total preview \<le> 0 then db2
           else post_points a (pp_total preview) (Order_delivered oid) Earn (Some oid) None None now db2)"

subsection \<open>Expiry\<close>

definition earned_before :: "int \<Rightarrow> instant \<Rightarrow> loyalty_db \<Rightarrow> int" where
  "earned_before aid cutoff db =
     sum_list (map lt_delta (filter (\<lambda>t. lt_account_id t = aid \<and> lt_delta t > 0 \<and> lt_type t = Earn
        \<and> lt_created_at t < cutoff) (ly_transactions db)))"

definition check_and_expire_points :: "int \<Rightarrow> int \<Rightarrow> instant \<Rightarrow> loyalty_db \<Rightarrow> loyalty_db \<times> int" where
  "check_and_expire_points nid uid now db =
     (let (db1, config) = get_or_create_loyalty_config db
      in case lc_points_expiry_days config of
           None \<Rightarrow> (db1, 0)
         | Some days \<Rightarrow>
             let (db2, a) = get_or_create_account nid uid db1
             in if la_points a \<le> 0 then (db2, 0)
                else
                  let expired = earned_before (la_id a) (now - days * day_us) db2
                  in if expired \<le> 0 then (db2, 0)
                     else let d = min expired (la_points a)
                          in (post_points a (- d) Expired_points Expire None None None now db2, d))"

fun expire_loop :: "int list \<Rightarrow> instant \<Rightarrow> loyalty_db \<times> int \<Rightarrow> loyalty_db \<times> int" where
  "expire_loop [] now st = st"
| "expire_loop (uid # uids) now (db, n) =
     (let (db', d) = check_and_expire_points 0 uid now db in expire_loop uids now (db', n + d))"

definition check_and_expire_points_for_all_users :: "instant \<Rightarrow> loyalty_db \<Rightarrow> loyalty_db \<times> int" where
  "check_and_expire_points_for_all_users now db =
     (let (db1, config) = get_or_create_loyalty_config db
      in case lc_points_expiry_days config of
           None \<Rightarrow> (db1, 0)
         | Some _ \<Rightarrow> expire_loop (map la_user_id (ly_accounts db1)) now (db1, 0))"

definition expiring_bucket :: "loyalty_account \<Rightarrow> int \<Rightarrow> instant \<Rightarrow> loyalty_db \<Rightarrow> int \<Rightarrow> int" where
  "expiring_bucket a expiry now db days =
     min (sum_list (map lt_delta (filter (\<lambda>t. lt_account_id t = la_id a \<and> lt_delta t > 0 \<and> lt_type t = Earn
        \<and> lt_created_at t \<le> now - (expiry - days) * day_us) (ly_transactions db)))) (la_points a)"

definition get_expiring_points :: "int \<Rightarrow> instant \<Rightarrow> loyalty_db \<Rightarrow> loyalty_db \<times> int \<times> (int \<times> int) list" where
  "get_expiring_points uid now db =
     (let (db1, config) = get_or_create_loyalty_config db
      in case lc_points_expiry_days config of
           None \<Rightarrow> (db1, 0, [])
         | Some expiry \<Rightarrow>
             (case account_of uid db1 of
                None \<Rightarrow> (db1, 0, [])
              | Some a \<Rightarrow>
                  let buckets = filter (\<lambda>b. snd b > 0)
                        (map (\<lambda>days. (days, expiring_bucket a expiry now db1 days)) [30, 7, 1])
                  in (db1, Max (set (0 # map snd buckets)), buckets)))"

text \<open>The reminder job. The push itself (\<^verbatim>\<open>notify_user\<close>) has no effect on these tables; the row it
  leaves behind has a zero delta and its reason is the key that makes the job idempotent within a day.\<close>

fun notify_buckets :: "loyalty_account \<Rightarrow> day \<Rightarrow> instant \<Rightarrow> (int \<times> int) list \<Rightarrow> loyalty_db \<times> int \<Rightarrow> loyalty_db \<times> int" where
  "notify_buckets a today now [] st = st"
| "notify_buckets a today now ((days, pts) # bs) (db, sent) =
     (if list_ex (\<lambda>t. lt_account_id t = la_id a \<and> lt_reason t = Expiry_notice days today) (ly_transactions db)
      then notify_buckets a today now bs (db, sent)
      else notify_buckets a today now bs
             (db\<lparr>ly_transactions := ly_transactions db @
                [\<lparr>lt_account_id = la_id a, lt_delta = 0, lt_reason = Expiry_notice days today,
                  lt_type = Adjustment, lt_order_id = None, lt_reward_id = None, lt_reservation_id = None,
                  lt_created_at = now\<rparr>]\<rparr>, sent + 1))"

fun notify_loop :: "loyalty_account list \<Rightarrow> day \<Rightarrow> instant \<Rightarrow> loyalty_db \<times> int \<Rightarrow> loyalty_db \<times> int" where
  "notify_loop [] today now st = st"
| "notify_loop (a # accs) today now (db, sent) =
     (let (db1, _, buckets) = get_expiring_points (la_user_id a) now db
      in notify_loop accs today now (notify_buckets a today now buckets (db1, sent)))"

definition notify_expiring_points_for_all_users :: "day \<Rightarrow> instant \<Rightarrow> loyalty_db \<Rightarrow> loyalty_db \<times> int" where
  "notify_expiring_points_for_all_users today now db = notify_loop (ly_accounts db) today now (db, 0)"

record account_out =
  ao_id :: int
  ao_user_id :: int
  ao_points :: int
  ao_value_euros :: rat
  ao_expiring :: int

definition build_account_response :: "int \<Rightarrow> int \<Rightarrow> instant \<Rightarrow> loyalty_db \<Rightarrow> loyalty_db \<times> account_out" where
  "build_account_response nid uid now db =
     (let (db1, a) = get_or_create_account nid uid db;
          (db2, config) = get_or_create_loyalty_config db1;
          (db3, expiring, _) = get_expiring_points uid now db2
      in (db3, \<lparr>ao_id = la_id a, ao_user_id = la_user_id a, ao_points = la_points a,
                ao_value_euros = of_int (la_points a) * lc_points_to_euro_rate config,
                ao_expiring = expiring\<rparr>))"

subsection \<open>Rules and rewards\<close>

definition validate_rule_state :: "loyalty_rule \<Rightarrow> unit res" where
  "validate_rule_state r =
     (if lr_type r = Category_multiplier \<and> lr_category_id r = None then Inl (AppError ''INVALID_RULE'' 422)
      else if lr_type r = Day_multiplier \<and> (lr_days_of_week r = None \<or> lr_days_of_week r = Some [])
        then Inl (AppError ''INVALID_RULE'' 422)
      else if lr_type r = Period_multiplier
        then (case (lr_start_date r, lr_end_date r) of
                (Some s, Some e) \<Rightarrow> if e < s then Inl (AppError ''INVALID_RULE'' 422) else Inr ()
              | _ \<Rightarrow> Inl (AppError ''INVALID_RULE'' 422))
      else Inr ())"

definition validate_reward_state :: "loyalty_reward \<Rightarrow> unit res" where
  "validate_reward_state w =
     (if rw_type w = Discount_euros \<and> rw_discount_amount w = None then Inl (AppError ''INVALID_REWARD'' 422)
      else if rw_type w = Free_product \<and> rw_product_id w = None then Inl (AppError ''INVALID_REWARD'' 422)
      else Inr ())"

definition list_available_rewards :: "int \<Rightarrow> loyalty_db \<Rightarrow> loyalty_reward list" where
  "list_available_rewards points db =
     sort_key rw_points_required (filter (\<lambda>r. rw_active r \<and> rw_points_required r \<le> points) (ly_rewards db))"

record reward_eligibility =
  re_id :: int
  re_can_redeem :: bool
  re_missing :: int

definition list_reward_catalog_with_eligibility :: "int \<Rightarrow> loyalty_db \<Rightarrow> reward_eligibility list" where
  "list_reward_catalog_with_eligibility points db =
     map (\<lambda>r. \<lparr>re_id = rw_id r, re_can_redeem = (points \<ge> rw_points_required r),
               re_missing = max 0 (rw_points_required r - points)\<rparr>)
       (sort_key rw_points_required (filter rw_active (ly_rewards db)))"

end
