(* ===== verification/Promotions.thy ===== *)
theory Promotions
  imports Money Py_Text Machines "HOL-Library.Multiset"
begin

text \<open>
  Promotion codes, \<^verbatim>\<open>app/modules/promotions/service.py\<close>. The two facts read from other modules'
  tables, whether a user's e-mail is verified and whether a user already has a delivered order, are the
  arguments \<open>verified\<close> and \<open>delivered\<close>.
\<close>

subsection \<open>Rows\<close>

datatype discount_type = Percent | Fixed

record promotion =
  pm_id :: int
  pm_code :: string
  pm_discount_type :: discount_type
  pm_discount_value :: rat
  pm_min_order_amount :: rat
  pm_starts_at :: "instant option"
  pm_ends_at :: "instant option"
  pm_active :: bool
  pm_max_uses :: "int option"
  pm_max_uses_per_user :: "int option"
  pm_current_uses :: int
  pm_first_order_only :: bool
  pm_campaign_id :: "int option"
  pm_user_id :: "int option"
  pm_public :: bool
  pm_stackable :: bool
  pm_free_delivery :: bool
  pm_email_verified_required :: bool

record promo_usage =
  pu_promo_id :: int
  pu_user_id :: int
  pu_order_id :: int

record promo_db =
  pd_promos :: "promotion list"
  pd_target_categories :: "(int \<times> int) list"
  pd_target_products :: "(int \<times> int) list"
  pd_usages :: "promo_usage list"

record cart_item =
  ci_product_id :: "int option"
  ci_category_id :: "int option"
  ci_quantity :: int
  ci_unit_price :: rat
  ci_line_total :: "rat option"

record promo_targets =
  pt_categories :: "int list"
  pt_products :: "int list"

abbreviation invalid_promo :: app_error where
  "invalid_promo \<equiv> AppError ''INVALID_PROMO'' 422"

definition cart_item_total :: "cart_item \<Rightarrow> rat" where
  "cart_item_total it =
     (case ci_line_total it of Some t \<Rightarrow> t | None \<Rightarrow> of_int (ci_quantity it) * ci_unit_price it)"

subsection \<open>Discounts\<close>

definition targeted_total :: "cart_item list \<Rightarrow> promo_targets \<Rightarrow> rat \<Rightarrow> rat" where
  "targeted_total items targets fallback =
     (if pt_categories targets = [] \<and> pt_products targets = [] then
        (if items \<noteq> [] then money (sum_list (map cart_item_total items)) else money fallback)
      else money (sum_list (map cart_item_total (filter (\<lambda>it.
          (case ci_product_id it of None \<Rightarrow> False | Some p \<Rightarrow> p \<in> set (pt_products targets))
          \<or> (case ci_category_id it of None \<Rightarrow> False | Some c \<Rightarrow> c \<in> set (pt_categories targets))) items))))"

definition targets_for_promo :: "promo_db \<Rightarrow> int \<Rightarrow> promo_targets" where
  "targets_for_promo db pid =
     \<lparr>pt_categories = map snd (filter (\<lambda>e. fst e = pid) (pd_target_categories db)),
      pt_products = map snd (filter (\<lambda>e. fst e = pid) (pd_target_products db))\<rparr>"

definition user_usage_count :: "promo_db \<Rightarrow> int \<Rightarrow> int \<Rightarrow> int" where
  "user_usage_count db pid uid =
     int (length (filter (\<lambda>u. pu_promo_id u = pid \<and> pu_user_id u = uid) (pd_usages db)))"

definition assert_promo_eligible ::
    "(int \<Rightarrow> bool) \<Rightarrow> (int \<Rightarrow> bool) \<Rightarrow> promo_db \<Rightarrow> instant \<Rightarrow> promotion \<Rightarrow> rat \<Rightarrow> int option
      \<Rightarrow> bool option \<Rightarrow> bool \<Rightarrow> unit res" where
  "assert_promo_eligible verified delivered db now promo order_total user email_verified check_global =
     (case user of
        None \<Rightarrow> Inl invalid_promo
      | Some uid \<Rightarrow>
          if \<not> pm_active promo then Inl invalid_promo
          else if (case pm_starts_at promo of None \<Rightarrow> False | Some t \<Rightarrow> t > now) then Inl invalid_promo
          else if (case pm_ends_at promo of None \<Rightarrow> False | Some t \<Rightarrow> t < now) then Inl invalid_promo
          else if (case pm_user_id promo of None \<Rightarrow> False | Some u \<Rightarrow> u \<noteq> uid) then Inl invalid_promo
          else if check_global \<and> (case pm_max_uses promo of None \<Rightarrow> False | Some m \<Rightarrow> pm_current_uses promo \<ge> m)
            then Inl invalid_promo
          else if order_total < pm_min_order_amount promo then Inl invalid_promo
          else if pm_email_verified_required promo \<and>
              \<not> (case email_verified of Some v \<Rightarrow> v | None \<Rightarrow> verified uid) then Inl invalid_promo
          else if (case pm_max_uses_per_user promo of None \<Rightarrow> False
              | Some m \<Rightarrow> user_usage_count db (pm_id promo) uid \<ge> m) then Inl invalid_promo
          else if pm_first_order_only promo \<and> delivered uid then Inl invalid_promo
          else Inr ())"

definition discount_for_promo :: "promotion \<Rightarrow> rat \<Rightarrow> rat res" where
  "discount_for_promo promo eligible_total =
     (if eligible_total \<le> 0 then Inl invalid_promo
      else let discount = (if pm_discount_type promo = Percent
                 then eligible_total * pm_discount_value promo / 100 else pm_discount_value promo)
           in Inr (money (min discount eligible_total)))"

definition normalize_codes :: "string list \<Rightarrow> string list" where
  "normalize_codes codes = map (\<lambda>c. py_upper (py_strip c)) (filter (\<lambda>c. py_strip c \<noteq> []) codes)"

definition promo_by_code :: "promo_db \<Rightarrow> string \<Rightarrow> promotion option" where
  "promo_by_code db code = find (\<lambda>p. pm_code p = code) (pd_promos db)"

definition load_promos :: "promo_db \<Rightarrow> string list \<Rightarrow> promotion list res" where
  "load_promos db codes =
     (if codes = [] then Inl invalid_promo
      else if \<not> distinct (normalize_codes codes) then Inl invalid_promo
      else mapE (\<lambda>c. case promo_by_code db c of None \<Rightarrow> Inl invalid_promo | Some p \<Rightarrow> Inr p)
             (normalize_codes codes))"

text \<open>The discount loop: \<open>rem\<close> is \<^verbatim>\<open>remaining_order_total\<close>, \<open>acc\<close> the \<^verbatim>\<open>discounts\<close> dictionary.\<close>

fun discount_loop ::
    "promo_db \<Rightarrow> cart_item list \<Rightarrow> rat \<Rightarrow> promotion list \<Rightarrow> rat \<Rightarrow> (string \<times> rat) list
      \<Rightarrow> (string \<times> rat) list res" where
  "discount_loop db items order_total [] rem acc = Inr acc"
| "discount_loop db items order_total (promo # ps) rem acc =
     (if pm_free_delivery promo \<and> pm_discount_value promo = 0
      then discount_loop db items order_total ps rem (dict_set (pm_code promo) 0 acc)
      else
        rbind (discount_for_promo promo
                 (targeted_total items (targets_for_promo db (pm_id promo)) order_total)) (\<lambda>raw.
          let discount = money (min raw rem)
          in if discount \<le> 0 then Inl invalid_promo
             else discount_loop db items order_total ps (money (rem - discount))
                    (dict_set (pm_code promo) discount acc)))"

definition percent_first :: "promotion list \<Rightarrow> promotion list" where
  "percent_first ps = sort_key (\<lambda>p. if pm_discount_type p = Percent then (0::nat) else 1) ps"

definition calculate_discounts ::
    "(int \<Rightarrow> bool) \<Rightarrow> (int \<Rightarrow> bool) \<Rightarrow> promo_db \<Rightarrow> instant \<Rightarrow> promotion list \<Rightarrow> rat \<Rightarrow> cart_item list
      \<Rightarrow> int option \<Rightarrow> bool option \<Rightarrow> bool \<Rightarrow> (rat \<times> (string \<times> rat) list) res" where
  "calculate_discounts verified delivered db now promos order_total items user email_verified check_global =
     (if length promos > 1 \<and> list_ex (\<lambda>p. \<not> pm_stackable p) promos then Inl invalid_promo
      else
        rbind (mapE (\<lambda>p. assert_promo_eligible verified delivered db now p order_total user
                        email_verified check_global) promos) (\<lambda>_.
        rbind (discount_loop db items order_total (percent_first promos) (money order_total) []) (\<lambda>ds.
          Inr (money (sum_list (map snd ds)), ds))))"

record promo_preview =
  pv_discount :: rat
  pv_discounts :: "(string \<times> rat) list"
  pv_promo_id :: "int option"
  pv_promo_ids :: "int list"
  pv_free_delivery :: bool

definition preview_promos ::
    "(int \<Rightarrow> bool) \<Rightarrow> (int \<Rightarrow> bool) \<Rightarrow> promo_db \<Rightarrow> instant \<Rightarrow> string list \<Rightarrow> rat \<Rightarrow> cart_item list
      \<Rightarrow> int option \<Rightarrow> bool option \<Rightarrow> promo_preview res" where
  "preview_promos verified delivered db now codes order_total items user email_verified =
     rbind (load_promos db codes) (\<lambda>promos.
     rbind (calculate_discounts verified delivered db now promos order_total items user email_verified True)
       (\<lambda>(discount, ds).
         Inr \<lparr>pv_discount = discount, pv_discounts = ds,
              pv_promo_id = (if length promos = 1 then Some (pm_id (hd promos)) else None),
              pv_promo_ids = map pm_id promos,
              pv_free_delivery = list_ex pm_free_delivery promos\<rparr>))"

subsection \<open>Consuming a code\<close>

abbreviation upd_promo :: "int \<Rightarrow> (promotion \<Rightarrow> promotion) \<Rightarrow> promo_db \<Rightarrow> promo_db" where
  "upd_promo pid f db \<equiv> db\<lparr>pd_promos := row_upd pm_id pid f (pd_promos db)\<rparr>"

text \<open>The conditional \<^verbatim>\<open>UPDATE ... RETURNING id\<close>.\<close>

definition quota_left :: "promotion \<Rightarrow> bool" where
  "quota_left p \<longleftrightarrow> pm_active p \<and> (case pm_max_uses p of None \<Rightarrow> True | Some m \<Rightarrow> pm_current_uses p < m)"

definition consume_use :: "int \<Rightarrow> promo_db \<Rightarrow> promo_db res" where
  "consume_use pid db =
     (if \<exists>p \<in> set (pd_promos db). pm_id p = pid \<and> quota_left p
      then Inr (upd_promo pid (\<lambda>r. if quota_left r then r\<lparr>pm_current_uses := pm_current_uses r + 1\<rparr> else r) db)
      else Inl invalid_promo)"

definition apply_promo ::
    "(int \<Rightarrow> bool) \<Rightarrow> (int \<Rightarrow> bool) \<Rightarrow> instant \<Rightarrow> string \<Rightarrow> rat \<Rightarrow> int option \<Rightarrow> cart_item list
      \<Rightarrow> bool option \<Rightarrow> promo_db \<Rightarrow> (promo_db \<times> rat) res" where
  "apply_promo verified delivered now code subtotal user items email_verified db =
     rbind (load_promos db [code]) (\<lambda>promos.
       case promos of
         [] \<Rightarrow> Inl PyIndexError
       | promo # _ \<Rightarrow>
           rbind (calculate_discounts verified delivered db now promos subtotal items user
                    email_verified False) (\<lambda>(discount, _).
           rbind (consume_use (pm_id promo) db) (\<lambda>db'. Inr (db', discount))))"

text \<open>A second usage row for the same code and order violates \<^verbatim>\<open>uq_promo_usage_code_order\<close>.\<close>

definition record_promo_usage :: "string \<Rightarrow> int \<Rightarrow> int \<Rightarrow> promo_db \<Rightarrow> promo_db res" where
  "record_promo_usage code uid oid db =
     (case promo_by_code db (py_upper code) of
        None \<Rightarrow> Inr db
      | Some p \<Rightarrow>
          if \<exists>u \<in> set (pd_usages db). pu_promo_id u = pm_id p \<and> pu_order_id u = oid
          then Inl IntegrityError
          else Inr (db\<lparr>pd_usages := pd_usages db @
                 [\<lparr>pu_promo_id = pm_id p, pu_user_id = uid, pu_order_id = oid\<rparr>]\<rparr>))"

subsection \<open>Administration\<close>

definition set_targets ::
    "int \<Rightarrow> int list option \<Rightarrow> int list option \<Rightarrow> promo_db \<Rightarrow> promo_db" where
  "set_targets pid cats prods db =
     db\<lparr>pd_target_categories := (case cats of None \<Rightarrow> pd_target_categories db
          | Some cs \<Rightarrow> filter (\<lambda>e. fst e \<noteq> pid) (pd_target_categories db)
              @ map (Pair pid) (sort (remdups cs))),
        pd_target_products := (case prods of None \<Rightarrow> pd_target_products db
          | Some ps \<Rightarrow> filter (\<lambda>e. fst e \<noteq> pid) (pd_target_products db)
              @ map (Pair pid) (sort (remdups ps)))\<rparr>"

definition create_promotion ::
    "int \<Rightarrow> promotion \<Rightarrow> int list \<Rightarrow> int list \<Rightarrow> promo_db \<Rightarrow> promo_db res" where
  "create_promotion nid data cats prods db =
     (if \<exists>p \<in> set (pd_promos db). pm_code p = pm_code data then Inl IntegrityError
      else Inr (set_targets nid (Some cats) (Some prods)
             (db\<lparr>pd_promos := pd_promos db @ [data\<lparr>pm_id := nid, pm_current_uses := 0\<rparr>]\<rparr>)))"

definition toggle_promotion :: "int \<Rightarrow> bool \<Rightarrow> promo_db \<Rightarrow> promo_db res" where
  "toggle_promotion pid active db =
     (case row_get pm_id pid (pd_promos db) of
        None \<Rightarrow> Inl (AppError ''PROMOTION_NOT_FOUND'' 404)
      | Some _ \<Rightarrow> Inr (upd_promo pid (\<lambda>r. r\<lparr>pm_active := active\<rparr>) db))"

definition delete_promotion :: "int \<Rightarrow> promo_db \<Rightarrow> promo_db" where
  "delete_promotion pid db = upd_promo pid (\<lambda>r. r\<lparr>pm_active := False\<rparr>) db"

definition expired_promo :: "instant \<Rightarrow> promotion \<Rightarrow> bool" where
  "expired_promo now p \<longleftrightarrow> pm_active p \<and> (case pm_ends_at p of None \<Rightarrow> False | Some t \<Rightarrow> t < now)"

definition cleanup_expired_promotions :: "instant \<Rightarrow> promo_db \<Rightarrow> promo_db \<times> int list" where
  "cleanup_expired_promotions now db =
     (db\<lparr>pd_promos := map (\<lambda>p. if expired_promo now p then p\<lparr>pm_active := False\<rparr> else p) (pd_promos db)\<rparr>,
      map pm_id (filter (expired_promo now) (pd_promos db)))"

text \<open>\<open>by_code\<close> is the database's \<^verbatim>\<open>ORDER BY code\<close>.\<close>

definition list_active_promos :: "(promotion list \<Rightarrow> promotion list) \<Rightarrow> instant \<Rightarrow> promo_db \<Rightarrow> promotion list" where
  "list_active_promos by_code now db =
     by_code (filter (\<lambda>p. pm_active p \<and> pm_public p \<and> pm_user_id p = None
         \<and> (case pm_starts_at p of None \<Rightarrow> True | Some t \<Rightarrow> t \<le> now)
         \<and> (case pm_ends_at p of None \<Rightarrow> True | Some t \<Rightarrow> t \<ge> now)) (pd_promos db))"

text \<open>\<^verbatim>\<open>bulk_generate\<close>: \<open>draws\<close> holds, for each code to create, the suffixes drawn by
  \<^verbatim>\<open>secrets.choice\<close> in its at most twenty attempts.\<close>

definition campaign_code :: "string \<Rightarrow> string \<Rightarrow> string" where
  "campaign_code prefix suffix = prefix @ ''-'' @ suffix"

definition pick_code :: "promo_db \<Rightarrow> string list \<Rightarrow> string \<Rightarrow> string list \<Rightarrow> string option" where
  "pick_code db codes prefix attempts =
     find (\<lambda>c. promo_by_code db c = None \<and> c \<notin> set codes) (map (campaign_code prefix) (take 20 attempts))"

fun bulk_loop ::
    "int \<Rightarrow> int \<Rightarrow> string \<Rightarrow> promotion \<Rightarrow> int list \<Rightarrow> int list \<Rightarrow> string list list \<Rightarrow> promo_db \<times> string list
      \<Rightarrow> (promo_db \<times> string list) res" where
  "bulk_loop nid cid prefix data cats prods [] (db, codes) = Inr (db, codes)"
| "bulk_loop nid cid prefix data cats prods (attempts # draws) (db, codes) =
     (case pick_code db codes prefix attempts of
        None \<Rightarrow> Inl (AppError ''PROMO_CODE_GENERATION_FAILED'' 409)
      | Some code \<Rightarrow>
          bulk_loop (nid + 1) cid prefix data cats prods draws
            (set_targets nid (Some cats) (Some prods)
               (db\<lparr>pd_promos := pd_promos db @
                  [data\<lparr>pm_id := nid, pm_code := code, pm_campaign_id := Some cid, pm_current_uses := 0\<rparr>]\<rparr>),
             codes @ [code]))"

definition bulk_generate ::
    "int \<Rightarrow> int \<Rightarrow> string \<Rightarrow> promotion \<Rightarrow> int list \<Rightarrow> int list \<Rightarrow> string list list \<Rightarrow> promo_db
      \<Rightarrow> (promo_db \<times> string list) res" where
  "bulk_generate nid cid prefix data cats prods draws db =
     bulk_loop nid cid prefix data cats prods draws (db, [])"

subsection \<open>Lemmas\<close>

lemma discount_for_promo_bounds:
  assumes "discount_for_promo p tot = Inr d" and "cents tot"
  shows "d \<le> tot" "cents d"
  using assms by (auto simp: discount_for_promo_def Let_def intro: money_le_cents split: if_splits)

lemma targeted_total_cents [simp]: "cents (targeted_total items targets fb)"
  by (simp add: targeted_total_def)

text \<open>The loop invariant: what has been granted plus what remains is the order total.\<close>

lemma discount_loop_bounds:
  assumes "discount_loop db items tot ps rem acc = Inr ds"
    and "0 \<le> rem" "cents rem" "\<forall>e \<in> set acc. 0 \<le> snd e \<and> cents (snd e)"
    and "distinct (map pm_code ps)" "\<forall>p \<in> set ps. pm_code p \<notin> fst ` set acc"
  shows "sum_list (map snd ds) \<le> sum_list (map snd acc) + rem
    \<and> (\<forall>e \<in> set ds. 0 \<le> snd e \<and> cents (snd e)) \<and> map fst ds = map fst acc @ map pm_code ps"
  using assms
proof (induction ps arbitrary: rem acc)
  case (Cons p ps)
  have fresh: "dict_set (pm_code p) v acc = acc @ [(pm_code p, v)]" for v
    using Cons.prems(6) by (intro dict_set_fresh) simp
  have ne: "\<forall>q \<in> set ps. pm_code q \<noteq> pm_code p" using Cons.prems(5) by (auto simp: image_iff)
  show ?case
  proof (cases "pm_free_delivery p \<and> pm_discount_value p = 0")
    case True
    have "discount_loop db items tot ps rem (acc @ [(pm_code p, 0)]) = Inr ds"
      using Cons.prems(1) True by (simp add: fresh)
    from Cons.IH [OF this] Cons.prems(2-6) ne show ?thesis by simp
  next
    case False
    then obtain raw where raw: "discount_for_promo p (targeted_total items (targets_for_promo db (pm_id p)) tot) = Inr raw"
      and pos: "0 < money (min raw rem)"
      and loop: "discount_loop db items tot ps (money (rem - money (min raw rem)))
          (acc @ [(pm_code p, money (min raw rem))]) = Inr ds"
      using Cons.prems(1) by (auto simp: fresh Let_def not_le split: if_splits)
    have le: "money (min raw rem) \<le> rem" using Cons.prems(3) by (intro money_le_cents) auto
    have "cents (rem - money (min raw rem))" using Cons.prems(3) by (intro cents_diff) simp_all
    then have eq: "money (rem - money (min raw rem)) = rem - money (min raw rem)" by (rule money_cents)
    from Cons.IH [OF loop] Cons.prems(2-6) pos le ne show ?thesis
      by (simp add: eq cents_diff)
  qed
qed simp

lemma load_promos_codes:
  assumes "load_promos db codes = Inr ps"
  shows "map pm_code ps = normalize_codes codes \<and> distinct (map pm_code ps) \<and> set ps \<subseteq> set (pd_promos db)"
proof -
  have d: "distinct (normalize_codes codes)"
    and m: "mapE (\<lambda>c. case promo_by_code db c of None \<Rightarrow> Inl invalid_promo | Some p \<Rightarrow> Inr p)
             (normalize_codes codes) = Inr ps"
    using assms by (auto simp: load_promos_def split: if_splits)
  have "mapE (\<lambda>c. case promo_by_code db c of None \<Rightarrow> Inl invalid_promo | Some p \<Rightarrow> Inr p) cs = Inr ps
      \<Longrightarrow> map pm_code ps = cs \<and> set ps \<subseteq> set (pd_promos db)" for cs
    by (induction cs arbitrary: ps)
       (auto simp: promo_by_code_def find_Some_iff split: option.splits)
  from this [OF m] d show ?thesis by simp
qed

lemma percent_first_codes: "distinct (map pm_code ps) \<Longrightarrow> distinct (map pm_code (percent_first ps))"
proof -
  assume d: "distinct (map pm_code ps)"
  have "mset (percent_first ps) = mset ps" by (simp add: percent_first_def)
  then have "mset (map pm_code (percent_first ps)) = mset (map pm_code ps)" by simp
  then show ?thesis using d by (metis mset_eq_imp_distinct_iff)
qed

lemma calculate_discounts_bounds:
  assumes "calculate_discounts vf dl db now ps tot items user ev cg = Inr (d, ds)"
    and "distinct (map pm_code ps)" and "0 \<le> tot"
  shows "0 \<le> d \<and> d \<le> money tot \<and> cents d \<and> d = sum_list (map snd ds)
    \<and> set (map fst ds) = set (map pm_code ps)"
proof -
  have loop: "discount_loop db items tot (percent_first ps) (money tot) [] = Inr ds"
    and d: "d = money (sum_list (map snd ds))"
    using assms(1) by (auto simp: calculate_discounts_def split: if_splits)
  have b: "sum_list (map snd ds) \<le> money tot" "\<forall>e \<in> set ds. 0 \<le> snd e \<and> cents (snd e)"
    "map fst ds = map pm_code (percent_first ps)"
    using discount_loop_bounds [OF loop] percent_first_codes [OF assms(2)] money_nonneg [OF assms(3)] by auto
  have "cents (sum_list (map snd ds))" using b(2) by (intro cents_sum_list) auto
  moreover have "0 \<le> sum_list (map snd ds)" using b(2) by (intro sum_list_nonneg) auto
  ultimately show ?thesis using b d by (simp add: money_cents percent_first_def)
qed

lemma eligible_error: "assert_promo_eligible vf dl db now p tot user ev cg = Inl e \<Longrightarrow> e = invalid_promo"
  by (auto simp: assert_promo_eligible_def split: option.splits if_splits)

lemma mapE_error: "mapE f xs = Inl e \<Longrightarrow> \<exists>x \<in> set xs. f x = Inl e"
  by (induction xs) (auto simp: rbind_eq_Inl)

lemma discount_loop_error: "discount_loop db items tot ps rem acc = Inl e \<Longrightarrow> e = invalid_promo"
proof (induction ps arbitrary: rem acc)
  case (Cons p ps)
  then show ?case
    by (auto simp: rbind_eq_Inl discount_for_promo_def Let_def split: if_splits)
qed simp

lemma calculate_error:
  "calculate_discounts vf dl db now ps tot items user ev cg = Inl e \<Longrightarrow> e = invalid_promo"
  by (auto simp: calculate_discounts_def rbind_eq_Inl
      dest!: mapE_error eligible_error discount_loop_error split: if_splits)

lemma load_error: "load_promos db codes = Inl e \<Longrightarrow> e = invalid_promo"
  by (auto simp: load_promos_def dest!: mapE_error split: if_splits option.splits)

end
