(* ===== verification/Delivery_Lifecycle.thy ===== *)
theory Delivery_Lifecycle
  imports Delivery_Zones Kitchen_Data Py_Text
begin

text \<open>
  Deliveries, their runs and their journal: how a delivery follows its order
  (\<^verbatim>\<open>app/modules/delivery/lifecycle.py\<close>), the arrival estimate (\<^verbatim>\<open>estimates.py\<close>), the hand-over
  code (\<^verbatim>\<open>proof.py\<close>) and the effective dispatch settings (\<^verbatim>\<open>dispatch_settings.py\<close>). The HMAC behind
  \<^verbatim>\<open>derive_code\<close> is the argument \<open>derive\<close>, a random nonce the argument \<open>nonce\<close>, a new primary key the
  argument \<open>nid\<close>.
\<close>

subsection \<open>Rows\<close>

datatype delivery_status = Assigned | En_route | Arrived | Done | Failed | Withdrawn

datatype event_note = Proof_note string | Order_note order_status | From_driver int | Free_note string

record driver =
  drv_id :: int
  drv_user_id :: int
  drv_establishment_id :: int
  drv_active :: bool

record delivery =
  dv_id :: int
  dv_order_id :: int
  dv_driver_id :: int
  dv_run_id :: "int option"
  dv_status :: delivery_status
  dv_assigned_by :: "int option"
  dv_assigned_at :: instant
  dv_departed_at :: "instant option"
  dv_arrived_at :: "instant option"
  dv_finished_at :: "instant option"

record delivery_event =
  de_delivery_id :: "int option"
  de_order_id :: int
  de_driver_id :: "int option"
  de_event :: string
  de_actor :: "int option"
  de_note :: "event_note option"

record delivery_run =
  dr_id :: int
  dr_driver_id :: int
  dr_active :: bool
  dr_started_at :: instant
  dr_ended_at :: "instant option"

record code_attempt =
  at_delivery_id :: int
  at_user_id :: "int option"
  at_success :: bool

datatype dispatch_mode = Counter_mode | Self_assign

record establishment_dispatch =
  ed_establishment_id :: int
  ed_mode :: dispatch_mode
  ed_max_active :: int
  ed_min_wait :: "int option"
  ed_min_calls :: "int option"
  ed_version :: int

datatype failure_reason =
  Customer_absent | Customer_unreachable | Wrong_address | Customer_refused | Order_problem | Other_reason

datatype fault = Customer_fault | Restaurant_fault

record delivery_failure =
  df_delivery_id :: int
  df_order_id :: int
  df_driver_id :: int
  df_reason :: failure_reason
  df_fault :: fault
  df_note :: "string option"
  df_call_attempts :: int
  df_waited_seconds :: "int option"
  df_pending :: bool

record dispatch_db =
  dp_drivers :: "driver list"
  dp_deliveries :: "delivery list"
  dp_events :: "delivery_event list"
  dp_runs :: "delivery_run list"
  dp_attempts :: "code_attempt list"
  dp_clocked_in :: "int list"
  dp_settings :: "establishment_dispatch list"
  dp_failures :: "delivery_failure list"

subsection \<open>Estimates\<close>

definition haversine_m :: "real \<Rightarrow> real \<Rightarrow> real \<Rightarrow> real \<Rightarrow> real" where
  "haversine_m lat1 lng1 lat2 lng2 =
     (let p1 = radians lat1; p2 = radians lat2; dp = p2 - p1; dl = radians (lng2 - lng1);
          a = (sin (dp / 2))\<^sup>2 + cos p1 * cos p2 * (sin (dl / 2))\<^sup>2
      in 2 * 6371000 * arcsin (sqrt a))"

definition eta_minutes :: "real \<Rightarrow> real \<Rightarrow> real option \<Rightarrow> real option \<Rightarrow> int option" where
  "eta_minutes lat lng dest_lat dest_lng =
     (case (dest_lat, dest_lng) of
        (Some y, Some x) \<Rightarrow>
          let meters = haversine_m lat lng y x * (13 / 10)
          in Some (max 1 \<lceil>meters / (25 / (36 / 10)) / 60\<rceil>)
      | _ \<Rightarrow> None)"

definition departure_minutes ::
    "real option \<times> real option \<Rightarrow> real option \<times> real option \<Rightarrow> int option \<Rightarrow> int \<Rightarrow> int option" where
  "departure_minutes origin destination zone_minutes other_stops =
     (let travel0 = (case (origin, destination) of
            ((Some y, Some x), (Some y', Some x')) \<Rightarrow> eta_minutes y x (Some y') (Some x')
          | _ \<Rightarrow> None);
          travel = (case travel0 of Some t \<Rightarrow> Some t
            | None \<Rightarrow> (case zone_minutes of Some z \<Rightarrow> if z \<noteq> 0 then Some z else None | None \<Rightarrow> None))
      in map_option (\<lambda>t. t + 4 * max 0 other_stops) travel)"

subsection \<open>Following the order\<close>

definition delivery_live :: "delivery \<Rightarrow> bool" where
  "delivery_live d \<longleftrightarrow> dv_status d = Assigned \<or> dv_status d = En_route \<or> dv_status d = Arrived"

definition is_dispatch_enabled :: "delivery_db \<Rightarrow> bool" where
  "is_dispatch_enabled z = (case dd_settings z of None \<Rightarrow> False | Some s \<Rightarrow> ds_driver_dispatch_enabled s)"

definition active_delivery :: "int \<Rightarrow> dispatch_db \<Rightarrow> delivery option" where
  "active_delivery oid dp = find (\<lambda>d. dv_order_id d = oid \<and> delivery_live d) (dp_deliveries dp)"

definition trim_note :: "event_note option \<Rightarrow> event_note option" where
  "trim_note n = (case n of Some (Free_note s) \<Rightarrow> if s = [] then None else Some (Free_note (take 256 s)) | _ \<Rightarrow> n)"

definition add_event ::
    "delivery option \<Rightarrow> int \<Rightarrow> string \<Rightarrow> int option \<Rightarrow> event_note option \<Rightarrow> dispatch_db \<Rightarrow> dispatch_db" where
  "add_event d oid ev actor n dp =
     dp\<lparr>dp_events := dp_events dp @
        [\<lparr>de_delivery_id = map_option dv_id d, de_order_id = oid, de_driver_id = map_option dv_driver_id d,
          de_event = ev, de_actor = actor, de_note = trim_note n\<rparr>]\<rparr>"

definition ensure_driver_for_departure :: "delivery_db \<Rightarrow> order \<Rightarrow> dispatch_db \<Rightarrow> unit res" where
  "ensure_driver_for_departure z o1 dp =
     (if ord_type o1 \<noteq> Delivery_type then Inr ()
      else if \<not> is_dispatch_enabled z then Inr ()
      else (case active_delivery (ord_id o1) dp of
          None \<Rightarrow> Inl (AppError ''DRIVER_REQUIRED'' 409)
        | Some _ \<Rightarrow> Inr ()))"

definition refresh_estimate :: "delivery_db \<Rightarrow> instant \<Rightarrow> int \<Rightarrow> order \<Rightarrow> order" where
  "refresh_estimate z now other_stops o1 =
     (let est = Option.bind (ord_establishment_id o1) (\<lambda>e. row_get est_id e (dd_establishments z));
          zone = Option.bind (ord_delivery_zone_id o1) (\<lambda>k. row_get dz_id k (dd_zones z));
          minutes = departure_minutes
            (case est of None \<Rightarrow> (None, None) | Some e \<Rightarrow> (est_latitude e, est_longitude e))
            (map_option of_rat (ord_delivery_lat o1), map_option of_rat (ord_delivery_lng o1))
            (map_option dz_estimated_minutes zone) other_stops
      in case minutes of None \<Rightarrow> o1
         | Some m \<Rightarrow> o1\<lparr>ord_estimated_delivery_at := Some (now + m * 60000000)\<rparr>)"

abbreviation upd_delivery :: "int \<Rightarrow> (delivery \<Rightarrow> delivery) \<Rightarrow> dispatch_db \<Rightarrow> dispatch_db" where
  "upd_delivery did f dp \<equiv> dp\<lparr>dp_deliveries := row_upd dv_id did f (dp_deliveries dp)\<rparr>"

definition live_on_run :: "int \<Rightarrow> dispatch_db \<Rightarrow> delivery list" where
  "live_on_run rid dp = filter (\<lambda>d. dv_run_id d = Some rid \<and> delivery_live d) (dp_deliveries dp)"

text \<open>The driver's current run: the active one with the greatest key.\<close>

definition current_run :: "int \<Rightarrow> dispatch_db \<Rightarrow> delivery_run option" where
  "current_run driver_id dp =
     (case sort_key (\<lambda>r. - dr_id r) (filter (\<lambda>r. dr_driver_id r = driver_id \<and> dr_active r) (dp_runs dp)) of
        [] \<Rightarrow> None | r # _ \<Rightarrow> Some r)"

definition on_departure ::
    "delivery_db \<Rightarrow> int \<Rightarrow> instant \<Rightarrow> int option \<Rightarrow> order \<Rightarrow> dispatch_db \<Rightarrow> order \<times> dispatch_db" where
  "on_departure z nid now actor o1 dp =
     (if ord_type o1 \<noteq> Delivery_type then (o1, dp)
      else case active_delivery (ord_id o1) dp of
        None \<Rightarrow> (refresh_estimate z now 0 o1, dp)
      | Some d \<Rightarrow>
          let (dp1, run_id) = (case current_run (dv_driver_id d) dp of
                Some r \<Rightarrow> (dp, dr_id r)
              | None \<Rightarrow> (dp\<lparr>dp_runs := dp_runs dp @
                  [\<lparr>dr_id = nid, dr_driver_id = dv_driver_id d, dr_active = True, dr_started_at = now,
                    dr_ended_at = None\<rparr>]\<rparr>, nid));
              others = int (length (filter (\<lambda>e. dv_id e \<noteq> dv_id d) (live_on_run run_id dp1)));
              o2 = refresh_estimate z now others o1
          in (o2, add_event (Some d) (ord_id o1) ''departed'' actor None
                (upd_delivery (dv_id d) (\<lambda>x. x\<lparr>dv_status := En_route, dv_departed_at := Some now,
                   dv_run_id := Some run_id\<rparr>) dp1)))"

definition complete_run_if_done :: "int option \<Rightarrow> instant \<Rightarrow> dispatch_db \<Rightarrow> dispatch_db" where
  "complete_run_if_done run now dp =
     (case run of
        None \<Rightarrow> dp
      | Some rid \<Rightarrow>
          if live_on_run rid dp = []
          then dp\<lparr>dp_runs := row_upd dr_id rid
                 (\<lambda>r. if dr_active r then r\<lparr>dr_active := False, dr_ended_at := Some now\<rparr> else r) (dp_runs dp)\<rparr>
          else dp)"

definition proof_required_for :: "delivery_db \<Rightarrow> order \<Rightarrow> dispatch_db \<Rightarrow> bool" where
  "proof_required_for z o1 dp \<longleftrightarrow>
     ord_type o1 = Delivery_type
     \<and> (case dd_settings z of None \<Rightarrow> False | Some s \<Rightarrow> ds_delivery_proof_required s)
     \<and> active_delivery (ord_id o1) dp \<noteq> None"

definition on_delivered ::
    "order \<Rightarrow> int option \<Rightarrow> string option \<Rightarrow> instant \<Rightarrow> dispatch_db \<Rightarrow> dispatch_db" where
  "on_delivered o1 actor prf now dp =
     (case active_delivery (ord_id o1) dp of
        None \<Rightarrow> dp
      | Some d \<Rightarrow>
          complete_run_if_done (dv_run_id d) now
            (add_event (Some d) (ord_id o1) ''delivered'' actor
               (case prf of None \<Rightarrow> None | Some p \<Rightarrow> if p = [] then None else Some (Proof_note p))
               (upd_delivery (dv_id d) (\<lambda>x. x\<lparr>dv_status := Done, dv_finished_at := Some now\<rparr>) dp)))"

definition on_order_closed ::
    "order \<Rightarrow> order_status \<Rightarrow> int option \<Rightarrow> instant \<Rightarrow> dispatch_db \<Rightarrow> dispatch_db" where
  "on_order_closed o1 new_status actor now dp =
     (case active_delivery (ord_id o1) dp of
        None \<Rightarrow> dp
      | Some d \<Rightarrow>
          complete_run_if_done (dv_run_id d) now
            (add_event (Some d) (ord_id o1)
               (if new_status = Delivery_failed then ''failed'' else ''cancelled'') actor
               (Some (Order_note new_status))
               (upd_delivery (dv_id d) (\<lambda>x. x\<lparr>
                  dv_status := (if new_status = Delivery_failed then Failed else Withdrawn),
                  dv_finished_at := Some now\<rparr>) dp)))"

subsection \<open>Hand-over code\<close>

definition max_failed_attempts :: nat where
  "max_failed_attempts = 5"

definition failed_attempts :: "int \<Rightarrow> dispatch_db \<Rightarrow> nat" where
  "failed_attempts did dp =
     length (filter (\<lambda>a. at_delivery_id a = did \<and> \<not> at_success a) (dp_attempts dp))"

definition ensure_nonce :: "string \<Rightarrow> int \<Rightarrow> order list \<Rightarrow> (order list \<times> string) res" where
  "ensure_nonce nonce oid orders =
     (let orders1 = row_upd ord_id oid (\<lambda>x. if ord_delivery_code_nonce x = None
              then x\<lparr>ord_delivery_code_nonce := Some nonce\<rparr> else x) orders
      in case Option.bind (row_get ord_id oid orders1) ord_delivery_code_nonce of
           None \<Rightarrow> Inl (AppError ''ORDER_NOT_FOUND'' 404)
         | Some n \<Rightarrow> Inr (orders1, n))"

definition get_code :: "(int \<Rightarrow> string \<Rightarrow> string) \<Rightarrow> string \<Rightarrow> int \<Rightarrow> order list \<Rightarrow> (order list \<times> string) res" where
  "get_code derive nonce oid orders =
     rbind (ensure_nonce nonce oid orders) (\<lambda>(orders1, n). Inr (orders1, derive oid n))"

definition regenerate_nonce :: "string \<Rightarrow> int \<Rightarrow> order list \<Rightarrow> order list" where
  "regenerate_nonce nonce oid orders =
     row_upd ord_id oid (\<lambda>x. x\<lparr>ord_delivery_code_nonce := Some nonce\<rparr>) orders"

definition code_shaped :: "string \<Rightarrow> bool" where
  "code_shaped s \<longleftrightarrow> length s = 4 \<and> list_all (\<lambda>c. 48 \<le> (of_char c :: nat) \<and> (of_char c :: nat) \<le> 57) s"

text \<open>The attempt is committed before the error is raised: the tables come back with the outcome.\<close>

definition verify_code ::
    "(int \<Rightarrow> string \<Rightarrow> string) \<Rightarrow> string \<Rightarrow> int \<Rightarrow> int \<Rightarrow> int option \<Rightarrow> string option \<Rightarrow> order list \<Rightarrow> dispatch_db
      \<Rightarrow> (order list \<times> dispatch_db) \<times> unit res" where
  "verify_code derive nonce did oid user submitted orders dp =
     (if failed_attempts did dp \<ge> max_failed_attempts
      then ((orders, dp), Inl (AppError ''DELIVERY_CODE_LOCKED'' 423))
      else let code = py_strip (case submitted of None \<Rightarrow> [] | Some s \<Rightarrow> s)
      in if \<not> code_shaped code then ((orders, dp), Inl (AppError ''DELIVERY_CODE_INVALID'' 422))
      else case get_code derive nonce oid orders of
          Inl e \<Rightarrow> ((orders, dp), Inl e)
        | Inr (orders1, expected) \<Rightarrow>
            let ok = (code = expected);
                dp1 = dp\<lparr>dp_attempts := dp_attempts dp @
                   [\<lparr>at_delivery_id = did, at_user_id = user, at_success = ok\<rparr>]\<rparr>
            in ((orders1, dp1), if ok then Inr () else Inl (AppError ''DELIVERY_CODE_INVALID'' 422)))"

subsection \<open>Effective dispatch settings\<close>

record effective_dispatch =
  ef_mode :: dispatch_mode
  ef_max_active :: int
  ef_min_wait :: int
  ef_min_calls :: int
  ef_overridden :: bool
  ef_version :: int

definition tenant_rules :: "delivery_db \<Rightarrow> int \<times> int" where
  "tenant_rules z = (case dd_settings z of None \<Rightarrow> (5, 1)
     | Some s \<Rightarrow> (ds_failure_min_wait_minutes s, ds_failure_min_call_attempts s))"

definition get_effective :: "delivery_db \<Rightarrow> int \<Rightarrow> dispatch_db \<Rightarrow> effective_dispatch" where
  "get_effective z eid dp =
     (let row = row_get ed_establishment_id eid (dp_settings dp); (wait, calls) = tenant_rules z
      in \<lparr>ef_mode = (case row of None \<Rightarrow> Counter_mode | Some r \<Rightarrow> ed_mode r),
          ef_max_active = (case row of None \<Rightarrow> 3 | Some r \<Rightarrow> ed_max_active r),
          ef_min_wait = (case Option.bind row ed_min_wait of None \<Rightarrow> wait | Some w \<Rightarrow> w),
          ef_min_calls = (case Option.bind row ed_min_calls of None \<Rightarrow> calls | Some c \<Rightarrow> c),
          ef_overridden = (case row of None \<Rightarrow> False | Some r \<Rightarrow> ed_min_wait r \<noteq> None \<or> ed_min_calls r \<noteq> None),
          ef_version = (case row of None \<Rightarrow> 0 | Some r \<Rightarrow> ed_version r)\<rparr>)"

subsection \<open>Lemmas\<close>

lemma add_event_frame [simp]:
  "dp_deliveries (add_event d oid ev actor n dp) = dp_deliveries dp"
  "dp_attempts (add_event d oid ev actor n dp) = dp_attempts dp"
  "dp_drivers (add_event d oid ev actor n dp) = dp_drivers dp"
  "dp_runs (add_event d oid ev actor n dp) = dp_runs dp"
  "dp_settings (add_event d oid ev actor n dp) = dp_settings dp"
  by (simp_all add: add_event_def)

lemma complete_run_deliveries [simp]: "dp_deliveries (complete_run_if_done run now dp) = dp_deliveries dp"
  by (simp add: complete_run_if_done_def split: option.splits)

lemma active_SomeD:
  "active_delivery oid dp = Some d \<Longrightarrow> d \<in> set (dp_deliveries dp) \<and> dv_order_id d = oid \<and> delivery_live d"
  by (auto simp: active_delivery_def find_Some_iff)

lemma active_None_iff:
  "active_delivery oid dp = None \<longleftrightarrow> (\<forall>d \<in> set (dp_deliveries dp). dv_order_id d = oid \<longrightarrow> \<not> delivery_live d)"
  by (auto simp: active_delivery_def find_None_iff)

lemma refresh_estimate_frame [simp]:
  "ord_id (refresh_estimate z now k o1) = ord_id o1"
  "ord_status (refresh_estimate z now k o1) = ord_status o1"
  "ord_type (refresh_estimate z now k o1) = ord_type o1"
  "ord_payment_status (refresh_estimate z now k o1) = ord_payment_status o1"
  by (simp_all add: refresh_estimate_def Let_def split: option.splits)

end
