(* ===== verification/Payments_Guarantee.thy ===== *)
theory Payments_Guarantee
  imports Kitchen_Data Machines Py_Text
begin

text \<open>
  Settling the card hold that guarantees a delivery paid on the doorstep:
  \<^verbatim>\<open>app/modules/payments/guarantee.py\<close>. Stripe is outside: \<open>cancel_ok\<close> tells whether cancelling an
  intent succeeds (or finds it already cancelled) and \<open>capture_ok\<close> whether a capture does. Each operation works on
  the orders and the payments and raises before its commit, so an error leaves both unchanged.
\<close>

subsection \<open>Rows\<close>

datatype pay_status = Pt_pending | Pt_authorized | Pt_paid | Pt_released | Other_pay_status string

datatype purpose = Sale | Guarantee

record payment =
  py_id :: int
  py_order_id :: int
  py_provider :: string
  py_provider_payment_id :: "string option"
  py_purpose :: purpose
  py_amount :: rat
  py_amount_received :: "rat option"
  py_currency :: string
  py_status :: pay_status
  py_captured :: "rat option"
  py_settled_at :: "instant option"
  py_settled_by :: "int option"
  py_note :: "string option"
  py_account :: "string option"
  py_reference :: "string option"
  py_expires_at :: "instant option"
  py_created_by :: "int option"
  py_created_at :: instant
  py_terms :: "string option"
  py_terms_at :: "instant option"

type_synonym till = "order list \<times> payment list"

abbreviation guarantee_released :: payment_status where
  "guarantee_released \<equiv> Other_payment ''guarantee_released''"

abbreviation guarantee_captured :: payment_status where
  "guarantee_captured \<equiv> Other_payment ''guarantee_captured''"

definition money_to_cents :: "rat \<Rightarrow> int" where
  "money_to_cents v = py_round (v * 100)"

definition is_local :: "payment \<Rightarrow> bool" where
  "is_local p \<longleftrightarrow> (case py_provider_payment_id p of None \<Rightarrow> False | Some s \<Rightarrow> take 6 s = ''local_'')"

text \<open>The authorised hold of the order with the greatest key.\<close>

definition authorized_guarantee :: "int \<Rightarrow> int option \<Rightarrow> payment list \<Rightarrow> payment option" where
  "authorized_guarantee oid only ps =
     (case sort_key (\<lambda>p. - py_id p) (filter (\<lambda>p. py_order_id p = oid \<and> py_purpose p = Guarantee
             \<and> py_status p = Pt_authorized \<and> (case only of None \<Rightarrow> True | Some k \<Rightarrow> py_id p = k)) ps) of
        [] \<Rightarrow> None | p # _ \<Rightarrow> Some p)"

definition cancel_intent_idempotent :: "(payment \<Rightarrow> bool) \<Rightarrow> payment \<Rightarrow> unit res" where
  "cancel_intent_idempotent cancel_ok p =
     (if is_local p \<or> py_provider_payment_id p = None \<or> py_provider_payment_id p = Some [] then Inr ()
      else if cancel_ok p then Inr () else Inl (AppError ''STRIPE_RELEASE_FAILED'' 502))"

abbreviation set_payment_status :: "int \<Rightarrow> payment_status \<Rightarrow> order list \<Rightarrow> order list" where
  "set_payment_status oid st orders \<equiv> row_upd ord_id oid (\<lambda>x. x\<lparr>ord_payment_status := st\<rparr>) orders"

subsection \<open>Release, capture, cash\<close>

definition release_row :: "int option \<Rightarrow> string \<Rightarrow> instant \<Rightarrow> payment \<Rightarrow> payment" where
  "release_row user reason now p =
     p\<lparr>py_status := Pt_released, py_settled_at := Some now, py_settled_by := user, py_note := Some (take 256 reason)\<rparr>"

definition release_guarantee ::
    "(payment \<Rightarrow> bool) \<Rightarrow> int \<Rightarrow> string \<Rightarrow> int option \<Rightarrow> bool \<Rightarrow> payment_status \<Rightarrow> int option \<Rightarrow> instant \<Rightarrow> till \<Rightarrow> till res" where
  "release_guarantee cancel_ok oid reason user best_effort new_status only now t =
     (case authorized_guarantee oid only (snd t) of
        None \<Rightarrow> if best_effort then Inr t else Inl (AppError ''GUARANTEE_NOT_FOUND'' 409)
      | Some p \<Rightarrow>
          (case cancel_intent_idempotent cancel_ok p of
             Inl e \<Rightarrow> if best_effort then Inr t else Inl e
           | Inr _ \<Rightarrow>
               Inr (set_payment_status oid new_status (fst t),
                    row_upd py_id (py_id p) (release_row user reason now) (snd t))))"

definition capture_row :: "int \<Rightarrow> int option \<Rightarrow> string \<Rightarrow> instant \<Rightarrow> payment \<Rightarrow> payment" where
  "capture_row c user reason now p =
     p\<lparr>py_status := Pt_paid, py_captured := Some (of_int c / 100), py_settled_at := Some now,
       py_settled_by := user, py_note := Some (take 256 reason)\<rparr>"

definition capture_guarantee ::
    "(payment \<Rightarrow> int \<Rightarrow> bool) \<Rightarrow> int \<Rightarrow> int option \<Rightarrow> string \<Rightarrow> int option \<Rightarrow> instant \<Rightarrow> till \<Rightarrow> till res" where
  "capture_guarantee capture_ok oid amount_cents reason user now t =
     (let reason1 = py_strip reason
      in if reason1 = [] then Inl (AppError ''CAPTURE_REASON_REQUIRED'' 422)
         else case authorized_guarantee oid None (snd t) of
           None \<Rightarrow> Inl (AppError ''GUARANTEE_NOT_FOUND'' 409)
         | Some p \<Rightarrow>
             let total_cents = money_to_cents (py_amount p);
                 c = (case amount_cents of None \<Rightarrow> total_cents | Some a \<Rightarrow> a)
             in if c \<le> 0 \<or> c > total_cents then Inl (AppError ''INVALID_CAPTURE_AMOUNT'' 422)
                else if \<not> is_local p \<and> \<not> capture_ok p c then Inl (AppError ''STRIPE_CAPTURE_FAILED'' 502)
                else Inr (set_payment_status oid (if c = total_cents then Paid else guarantee_captured) (fst t),
                          row_upd py_id (py_id p) (capture_row c user reason1 now) (snd t)))"

definition settle_guarantee_cash ::
    "(payment \<Rightarrow> bool) \<Rightarrow> int \<Rightarrow> int \<Rightarrow> rat option \<Rightarrow> int option \<Rightarrow> instant \<Rightarrow> till \<Rightarrow> till res" where
  "settle_guarantee_cash cancel_ok nid oid amount_received user now t =
     (case row_get ord_id oid (fst t) of
        None \<Rightarrow> Inl (AppError ''ORDER_NOT_FOUND'' 404)
      | Some ord \<Rightarrow>
          if (case amount_received of None \<Rightarrow> False | Some a \<Rightarrow> a < ord_total ord)
          then Inl (AppError ''CASH_AMOUNT_INSUFFICIENT'' 422)
          else (case authorized_guarantee oid None (snd t) of
              None \<Rightarrow> Inl (AppError ''GUARANTEE_NOT_FOUND'' 409)
            | Some p \<Rightarrow>
                rbind (cancel_intent_idempotent cancel_ok p) (\<lambda>_.
                  Inr (set_payment_status oid Paid (fst t),
                       row_upd py_id (py_id p) (release_row user ''cash_collected'' now) (snd t) @
                       [\<lparr>py_id = nid, py_order_id = oid, py_provider = ''cash'', py_provider_payment_id = None,
                         py_purpose = Sale, py_amount = ord_total ord, py_amount_received = amount_received,
                         py_currency = py_currency p, py_status = Pt_paid, py_captured = None,
                         py_settled_at = Some now, py_settled_by = user, py_note = Some ''cash_on_delivery'',
                         py_account = None, py_reference = None, py_expires_at = None, py_created_by = user,
                         py_created_at = now, py_terms = None, py_terms_at = None\<rparr>]))))"

definition handle_guarantee_canceled :: "int \<Rightarrow> instant \<Rightarrow> till \<Rightarrow> till \<times> bool" where
  "handle_guarantee_canceled pid now t =
     (case row_get py_id pid (snd t) of
        None \<Rightarrow> (t, False)
      | Some p \<Rightarrow>
          if py_purpose p \<noteq> Guarantee \<or> py_status p \<noteq> Pt_authorized then (t, False)
          else ((row_upd ord_id (py_order_id p) (\<lambda>x. if ord_payment_status x = Guaranteed
                   then x\<lparr>ord_payment_status := guarantee_released\<rparr> else x) (fst t),
                 row_upd py_id pid (\<lambda>r. r\<lparr>py_status := Pt_released, py_settled_at := Some now,
                   py_note := Some ''released_by_stripe''\<rparr>) (snd t)), True))"

subsection \<open>Lemmas\<close>

lemma authorized_SomeD:
  assumes "authorized_guarantee oid only ps = Some p"
  shows "p \<in> set ps \<and> py_order_id p = oid \<and> py_purpose p = Guarantee \<and> py_status p = Pt_authorized"
proof -
  let ?xs = "sort_key (\<lambda>p. - py_id p) (filter (\<lambda>p. py_order_id p = oid \<and> py_purpose p = Guarantee
             \<and> py_status p = Pt_authorized \<and> (case only of None \<Rightarrow> True | Some k \<Rightarrow> py_id p = k)) ps)"
  obtain rest where "?xs = p # rest"
    using assms by (cases ?xs) (auto simp: authorized_guarantee_def)
  then have "p \<in> set ?xs" by (metis list.set_intros(1))
  then show ?thesis by simp
qed

lemma row_upd_keeps:
  assumes "x \<in> set rows" and "key x \<noteq> k"
  shows "x \<in> set (row_upd key k f rows)"
  using assms by (auto simp: row_upd_def image_iff intro!: bexI [of _ x])

lemma key_unique: "distinct (map key rows) \<Longrightarrow> x \<in> set rows \<Longrightarrow> y \<in> set rows \<Longrightarrow> key x = key y \<Longrightarrow> x = y"
  by (metis distinct_map inj_on_eq_iff)

text \<open>The payments of a till: keys are unique and a captured amount lies within the hold.\<close>

definition hold_ok :: "payment \<Rightarrow> bool" where
  "hold_ok p \<longleftrightarrow> (case py_captured p of None \<Rightarrow> True
     | Some c \<Rightarrow> 0 < c \<and> c \<le> of_int (money_to_cents (py_amount p)) / 100)"

definition payments_ok :: "payment list \<Rightarrow> bool" where
  "payments_ok ps \<longleftrightarrow> distinct (map py_id ps) \<and> list_all hold_ok ps"

inductive guarantee_step :: "till \<Rightarrow> till \<Rightarrow> bool" where
  gstep_release: "release_guarantee ck oid reason user be st only now t = Inr t' \<Longrightarrow> guarantee_step t t'"
| gstep_capture: "capture_guarantee cp oid amt reason user now t = Inr t' \<Longrightarrow> guarantee_step t t'"
| gstep_cash:
    "nid \<notin> row_ids py_id (snd t) \<Longrightarrow> settle_guarantee_cash ck nid oid amt user now t = Inr t' \<Longrightarrow> guarantee_step t t'"
| gstep_canceled: "handle_guarantee_canceled pid now t = (t', b) \<Longrightarrow> guarantee_step t t'"

text \<open>Every operation touches at most one payment, an authorised hold, and adds at most a fresh one.\<close>

lemma guarantee_step_shape:
  assumes "guarantee_step t t'"
  obtains (idle) "snd t' = snd t"
  | (settle) p f new where "p \<in> set (snd t)" "py_status p = Pt_authorized" "py_purpose p = Guarantee"
      "snd t' = row_upd py_id (py_id p) f (snd t) @ new" "\<And>r. py_id (f r) = py_id r"
      "\<And>r. hold_ok r \<Longrightarrow> r = p \<Longrightarrow> hold_ok (f r)"
      "distinct (map py_id new)" "row_ids py_id new \<inter> row_ids py_id (snd t) = {}" "list_all hold_ok new"
  using assms
proof cases
  case (gstep_release ck oid reason user be st only now)
  show ?thesis
  proof (cases "snd t' = snd t")
    case False
    then obtain p where p: "authorized_guarantee oid only (snd t) = Some p"
      and t': "snd t' = row_upd py_id (py_id p) (release_row user reason now) (snd t)"
      using gstep_release by (auto simp: release_guarantee_def split: option.splits sum.splits if_splits)
    show ?thesis
      using authorized_SomeD [OF p] t'
      by (intro settle [of p "release_row user reason now" "[]"])
         (auto simp: release_row_def hold_ok_def row_ids_def split: option.splits)
  qed (rule idle)
next
  case (gstep_capture cp oid amt reason user now)
  then obtain p c where p: "authorized_guarantee oid None (snd t) = Some p"
    and c: "0 < c" "c \<le> money_to_cents (py_amount p)"
    and t': "snd t' = row_upd py_id (py_id p) (capture_row c user (py_strip reason) now) (snd t)"
    by (auto simp: capture_guarantee_def Let_def not_le split: option.splits if_splits)
  show ?thesis
    using authorized_SomeD [OF p] t' c
    by (intro settle [of p "capture_row c user (py_strip reason) now" "[]"])
       (auto simp: capture_row_def hold_ok_def row_ids_def divide_right_mono)
next
  case (gstep_cash nid ck oid amt user now)
  then obtain p and ord :: order where p: "authorized_guarantee oid None (snd t) = Some p"
    and t': "snd t' = row_upd py_id (py_id p) (release_row user ''cash_collected'' now) (snd t) @
       [\<lparr>py_id = nid, py_order_id = oid, py_provider = ''cash'', py_provider_payment_id = None,
         py_purpose = Sale, py_amount = ord_total ord, py_amount_received = amt,
         py_currency = py_currency p, py_status = Pt_paid, py_captured = None,
         py_settled_at = Some now, py_settled_by = user, py_note = Some ''cash_on_delivery'',
                         py_account = None, py_reference = None, py_expires_at = None, py_created_by = user,
                         py_created_at = now, py_terms = None, py_terms_at = None\<rparr>]"
    by (auto simp: settle_guarantee_cash_def split: option.splits if_splits)
  show ?thesis
    using authorized_SomeD [OF p] gstep_cash(1)
    by (intro settle [OF _ _ _ t'])
       (auto simp: release_row_def hold_ok_def row_ids_def split: option.splits)
next
  case (gstep_canceled pid now b)
  show ?thesis
  proof (cases "snd t' = snd t")
    case False
    then obtain p where p: "row_get py_id pid (snd t) = Some p" "py_purpose p = Guarantee" "py_status p = Pt_authorized"
      and t': "snd t' = row_upd py_id pid (\<lambda>r. r\<lparr>py_status := Pt_released, py_settled_at := Some now,
                   py_note := Some ''released_by_stripe''\<rparr>) (snd t)"
      using gstep_canceled by (auto simp: handle_guarantee_canceled_def split: option.splits if_splits)
    show ?thesis
      using row_get_SomeD [OF p(1)] p(2,3) t'
      by (intro settle [of p "\<lambda>r. r\<lparr>py_status := Pt_released, py_settled_at := Some now,
                   py_note := Some ''released_by_stripe''\<rparr>" "[]"])
         (auto simp: hold_ok_def row_ids_def split: option.splits)
  qed (rule idle)
qed

lemma guarantee_step_ok:
  assumes "guarantee_step t t'" and ok: "payments_ok (snd t)"
  shows "payments_ok (snd t')"
  using assms(1)
proof (cases rule: guarantee_step_shape)
  case idle
  then show ?thesis using ok by simp
next
  case (settle p f new)
  have m: "map py_id (row_upd py_id (py_id p) f (snd t)) = map py_id (snd t)"
    using settle(5) by (simp add: row_upd_def)
  have "list_all hold_ok (row_upd py_id (py_id p) f (snd t))"
    using ok settle(1,6) key_unique [of py_id "snd t"]
    by (intro row_upd_list_all) (auto simp: payments_ok_def)
  moreover have "set (map py_id (row_upd py_id (py_id p) f (snd t))) \<inter> set (map py_id new) = {}"
    using settle(8) unfolding m by (auto simp: row_ids_def)
  ultimately show ?thesis
    using ok settle(7,9) m by (simp add: payments_ok_def settle(4))
qed

interpretation guarantee_inv: invariant_steps guarantee_step "\<lambda>t. payments_ok (snd t)"
  by unfold_locales (rule guarantee_step_ok)

text \<open>A settled payment is never written again.\<close>

lemma settled_step:
  assumes "guarantee_step t t'" and "payments_ok (snd t)" and "q \<in> set (snd t)" and "py_status q \<noteq> Pt_authorized"
  shows "q \<in> set (snd t')"
  using assms(1)
proof (cases rule: guarantee_step_shape)
  case (settle p f new)
  have "py_id q \<noteq> py_id p" using key_unique [of py_id "snd t" q p] assms(2-4) settle(1,2) by (auto simp: payments_ok_def)
  then show ?thesis using row_upd_keeps [OF assms(3)] by (simp add: settle(4))
qed (simp add: assms(3))

end
