(* ===== verification/Orders_Status.thy ===== *)
theory Orders_Status
  imports Stock_Orders Loyalty Promotions Delivery_Lifecycle Payments_Guarantee
begin

text \<open>
  The order state machine: \<^verbatim>\<open>update_status\<close> and its helpers in \<^verbatim>\<open>app/modules/orders/service.py\<close>. It is the
  one place where the components meet: it deducts or restores stock, closes deliveries, consumes
  promotions, credits points and releases card holds. \<open>shop\<close> is the state of one tenant; an error is raised before
  the commit and leaves it unchanged (the process-local out-of-graph counter excepted, which is only compared
  on success). What is handed to the task queue and to the notification service is recorded in the
  outbox; the texts' bodies and translations are dropped.
\<close>

subsection \<open>State\<close>

record tenant_config =
  tc_peak_orders_threshold :: int
  tc_auto_calc_prep_time :: bool
  tc_prep_time_normal :: int
  tc_prep_time_peak :: int
  tc_overhead_per_order :: int

datatype notice_event = Status_event order_status | Preparation_updated | Driver_arrived

datatype notice =
  To_client int notice_event string | To_staff notice_event string | Sms_code string
  | Email_cancelled string | Stock_alert int

record shop =
  sh_orders :: "order list"
  sh_items :: "order_item list"
  sh_history :: "status_history list"
  sh_payments :: "payment list"
  sh_zones :: delivery_db
  sh_dispatch :: dispatch_db
  sh_stock :: stock_db
  sh_promos :: promo_db
  sh_loyalty :: loyalty_db
  sh_config :: "tenant_config option"
  sh_out_of_graph :: int
  sh_outbox :: "notice list"

text \<open>What the process and the outside world supply to one call: the clock, the current day in Paris, keys the
  database would draw, a random nonce, the HMAC of the hand-over code, Stripe's answer to a cancellation, and
  whether the task queue is there.\<close>

record call_env =
  ev_now :: instant
  ev_today :: day
  ev_run_key :: int
  ev_account_key :: int
  ev_nonce :: string
  ev_derive :: "int \<Rightarrow> string \<Rightarrow> string"
  ev_cancel_ok :: "payment \<Rightarrow> bool"
  ev_pool :: bool

record status_request =
  rq_status :: order_status
  rq_note :: "string option"
  rq_actor :: "int option"
  rq_authority :: authority
  rq_proof :: "string option"
  rq_redelivery :: bool

abbreviation order_of :: "int \<Rightarrow> shop \<Rightarrow> order option" where
  "order_of oid sh \<equiv> row_get ord_id oid (sh_orders sh)"

abbreviation upd_order :: "int \<Rightarrow> (order \<Rightarrow> order) \<Rightarrow> shop \<Rightarrow> shop" where
  "upd_order oid f sh \<equiv> sh\<lparr>sh_orders := row_upd ord_id oid f (sh_orders sh)\<rparr>"

subsection \<open>The graph\<close>

fun valid_transitions :: "order_status \<Rightarrow> order_status list" where
  "valid_transitions Pending = [Confirmed, Cancelled, Rejected]"
| "valid_transitions Confirmed = [Preparing, Cancelled]"
| "valid_transitions Queued = [Confirmed, Cancelled]"
| "valid_transitions Preparing = [Ready, Cancelled]"
| "valid_transitions Ready = [Out_for_delivery, Delivered]"
| "valid_transitions Out_for_delivery = [Delivered, Cancelled, Delivery_failed]"
| "valid_transitions Delivered = []"
| "valid_transitions Cancelled = []"
| "valid_transitions Rejected = []"
| "valid_transitions Delivery_failed = []"
| "valid_transitions (Other_status _) = []"

definition is_graph_transition :: "order_status \<Rightarrow> status_request \<Rightarrow> bool" where
  "is_graph_transition prev rq \<longleftrightarrow> rq_status rq \<in> set (valid_transitions prev)
     \<or> (rq_redelivery rq \<and> prev = Delivery_failed \<and> rq_status rq = Ready)"

subsection \<open>Guards\<close>

definition payment_settles :: "order \<Rightarrow> bool" where
  "payment_settles o1 \<longleftrightarrow> ord_payment_status o1 = Paid
     \<or> (ord_payment_status o1 = Guaranteed \<and> ord_type o1 = Delivery_type)"

definition status_guards :: "status_request \<Rightarrow> order \<Rightarrow> shop \<Rightarrow> unit res" where
  "status_guards rq o1 sh =
     (if rq_status rq = Delivery_failed \<and> rq_authority rq = Internal
         \<and> py_strip (case rq_note rq of None \<Rightarrow> [] | Some s \<Rightarrow> s) = []
      then Inl (AppError ''DELIVERY_FAILURE_REASON_REQUIRED'' 422)
      else if rq_status rq = Confirmed \<and> \<not> payment_settles o1 then Inl (AppError ''PAYMENT_REQUIRED'' 409)
      else
        rbind (if rq_status rq = Out_for_delivery \<and> rq_authority rq = Internal
               then ensure_driver_for_departure (sh_zones sh) o1 (sh_dispatch sh) else Inr ()) (\<lambda>_.
        if rq_status rq = Delivered \<and> rq_proof rq = None \<and> rq_authority rq = Internal
           \<and> proof_required_for (sh_zones sh) o1 (sh_dispatch sh)
        then Inl (AppError ''DELIVERY_PROOF_REQUIRED'' 409)
        else if rq_status rq = Delivered \<and> ord_payment_status o1 = Guaranteed
        then Inl (AppError ''PAYMENT_SETTLEMENT_REQUIRED'' 409)
        else if rq_authority rq = Internal \<and> \<not> is_graph_transition (ord_status o1) rq
        then Inl (AppError ''INVALID_STATUS_TRANSITION'' 422)
        else Inr ()))"

text \<open>The waiting queue: a confirmation beyond the capacity becomes \<open>Queued\<close>.\<close>

definition active_orders_count :: "shop \<Rightarrow> int" where
  "active_orders_count sh = int (length (filter (\<lambda>o1. ord_status o1 \<in> {Confirmed, Preparing, Queued}) (sh_orders sh)))"

definition actual_status :: "order_status \<Rightarrow> shop \<Rightarrow> order_status" where
  "actual_status st sh =
     (if st = Confirmed
      then (case sh_config sh of None \<Rightarrow> Confirmed
            | Some c \<Rightarrow> if active_orders_count sh \<ge> tc_peak_orders_threshold c then Queued else Confirmed)
      else st)"

subsection \<open>Effects inside the transaction\<close>

definition add_history :: "int \<Rightarrow> order_status \<Rightarrow> string option \<Rightarrow> authority \<Rightarrow> shop \<Rightarrow> shop" where
  "add_history oid st n auth sh =
     sh\<lparr>sh_history := sh_history sh @
        [\<lparr>hist_order_id = oid, hist_status = st, hist_note = n, hist_authority = auth\<rparr>]\<rparr>"

definition follow_delivery ::
    "call_env \<Rightarrow> status_request \<Rightarrow> order_status \<Rightarrow> order \<Rightarrow> delivery_db \<Rightarrow> dispatch_db \<Rightarrow> order \<times> dispatch_db" where
  "follow_delivery env rq actual o2 z dp =
     (if actual = Out_for_delivery then on_departure z (ev_run_key env) (ev_now env) (rq_actor rq) o2 dp
      else if actual = Delivered then (o2, on_delivered o2 (rq_actor rq) (rq_proof rq) (ev_now env) dp)
      else if actual \<in> {Cancelled, Rejected, Delivery_failed}
      then (o2, on_order_closed o2 actual (rq_actor rq) (ev_now env) dp)
      else (o2, dp))"

definition deactivate_promo :: "string option \<Rightarrow> promo_db \<Rightarrow> promo_db" where
  "deactivate_promo code db =
     (case code of
        None \<Rightarrow> db
      | Some c \<Rightarrow>
          if c = [] then db
          else (case promo_by_code db (py_upper c) of
              None \<Rightarrow> db
            | Some p \<Rightarrow> upd_promo (pm_id p) (\<lambda>r. r\<lparr>pm_active := False\<rparr>) db))"

definition stock_effects ::
    "call_env \<Rightarrow> status_request \<Rightarrow> order_status \<Rightarrow> order_status \<Rightarrow> order \<Rightarrow> shop \<Rightarrow> (shop \<times> int list) res" where
  "stock_effects env rq prev actual o1 sh =
     (if actual = Confirmed
      then rbind (deduct_for_order (ord_id o1) (sh_items sh) (rq_actor rq) (ev_now env) (sh_stock sh)) (\<lambda>(st, low).
        Inr (sh\<lparr>sh_stock := st, sh_promos := deactivate_promo (ord_promo_code o1) (sh_promos sh)\<rparr>, low))
      else if actual = Cancelled \<and> prev = Confirmed
      then Inr (sh\<lparr>sh_stock := restore_for_order (ord_id o1) (sh_items sh) (rq_actor rq) (sh_stock sh)\<rparr>, [])
      else Inr (sh, []))"

subsection \<open>Effects after the commit\<close>

definition release_on_close :: "call_env \<Rightarrow> status_request \<Rightarrow> order_status \<Rightarrow> int \<Rightarrow> shop \<Rightarrow> shop" where
  "release_on_close env rq actual oid sh =
     (case order_of oid sh of
        None \<Rightarrow> sh
      | Some o1 \<Rightarrow>
          if actual \<in> {Cancelled, Rejected} \<and> ord_payment_status o1 = Guaranteed
          then (case release_guarantee (ev_cancel_ok env) oid
                   (if actual = Cancelled then ''order_cancelled'' else ''order_rejected'') (rq_actor rq) True
                   guarantee_released None (ev_now env) (sh_orders sh, sh_payments sh) of
                  Inl _ \<Rightarrow> sh
                | Inr (os, ps) \<Rightarrow> sh\<lparr>sh_orders := os, sh_payments := ps\<rparr>)
          else sh)"

definition queue_jobs :: "call_env \<Rightarrow> order_status \<Rightarrow> order \<Rightarrow> int list \<Rightarrow> shop \<Rightarrow> shop" where
  "queue_jobs env actual o1 low sh =
     (if ev_pool env
      then sh\<lparr>sh_outbox := sh_outbox sh @ map Stock_alert low @
             (if actual = Cancelled
              then [Email_cancelled (case ord_customer_email o1 of None \<Rightarrow> [] | Some e \<Rightarrow> e)] else [])\<rparr>
      else sh)"

definition has_delivered_order :: "int \<Rightarrow> shop \<Rightarrow> bool" where
  "has_delivered_order uid sh \<longleftrightarrow>
     list_ex (\<lambda>o1. ord_user_id o1 = Some uid \<and> ord_status o1 = Delivered) (sh_orders sh)"

definition order_category_ids :: "int \<Rightarrow> shop \<Rightarrow> int list" where
  "order_category_ids oid sh =
     (let pids = List.map_filter oi_product_id (items_of_order oid (sh_items sh))
      in List.map_filter prod_category_id
           (filter (\<lambda>p. prod_id p \<in> set pids) (cat_products (st_catalog (sh_stock sh)))))"

definition credit_loyalty_for_order :: "call_env \<Rightarrow> order \<Rightarrow> shop \<Rightarrow> shop" where
  "credit_loyalty_for_order env o1 sh =
     (case ord_user_id o1 of
        None \<Rightarrow> sh
      | Some uid \<Rightarrow>
          sh\<lparr>sh_loyalty := credit_points_for_order (has_delivered_order uid sh) (ev_today env)
               (ev_account_key env) uid (ord_id o1) (ord_total o1) (order_category_ids (ord_id o1) sh)
               (ev_now env) (sh_loyalty sh)\<rparr>)"

definition routed_titles :: "order_status \<Rightarrow> order_status \<Rightarrow> order_type \<Rightarrow> (string \<times> string option) option" where
  "routed_titles prev actual ty =
     map_of
       [((Pending, Confirmed), (''Order confirmed'', Some ''Nouvelle commande'')),
        ((Confirmed, Preparing), (''Being prepared'', None)),
        ((Preparing, Ready), (if ty = Delivery_type then ''Order ready'' else ''Ready for pickup'', None)),
        ((Ready, Out_for_delivery), (''Your driver is on the way'', None)),
        ((Ready, Delivered), (''Delivered! Enjoy your meal'', None)),
        ((Out_for_delivery, Delivered), (''Delivered! Enjoy your meal'', None))] (prev, actual)"

definition notification_for ::
    "order_status \<Rightarrow> order_status \<Rightarrow> order_type \<Rightarrow> (string \<times> string option) option" where
  "notification_for prev actual ty =
     (if actual = Delivery_failed then Some (''Delivery failed'', Some ''Echec de livraison'')
      else if actual = Cancelled then Some (''Order cancelled'', Some ''Commande annulee'')
      else routed_titles prev actual ty)"

text \<open>The hand-over code is drawn when the order leaves; a customer without an account gets it by SMS.\<close>

definition delivery_code_for :: "call_env \<Rightarrow> order_status \<Rightarrow> order \<Rightarrow> shop \<Rightarrow> shop \<times> string option" where
  "delivery_code_for env actual o1 sh =
     (if actual = Out_for_delivery \<and> ord_type o1 = Delivery_type
      then (case get_code (ev_derive env) (ev_nonce env) (ord_id o1) (sh_orders sh) of
              Inl _ \<Rightarrow> (sh, None)
            | Inr (os, code) \<Rightarrow> (sh\<lparr>sh_orders := os\<rparr>, Some code))
      else (sh, None))"

definition notify_transition :: "call_env \<Rightarrow> order_status \<Rightarrow> order_status \<Rightarrow> order \<Rightarrow> shop \<Rightarrow> shop" where
  "notify_transition env prev actual o1 sh =
     (let (sh1, code) = delivery_code_for env actual o1 sh
      in case notification_for prev actual (ord_type o1) of
           None \<Rightarrow> sh1
         | Some (client, staff) \<Rightarrow>
             sh1\<lparr>sh_outbox := sh_outbox sh1
               @ (case ord_user_id o1 of None \<Rightarrow> [] | Some u \<Rightarrow> [To_client u (Status_event actual) client])
               @ (if code \<noteq> None \<and> ord_user_id o1 = None \<and> ev_pool env
                  then (case ord_customer_phone o1 of None \<Rightarrow> [] | Some ph \<Rightarrow> if ph = [] then [] else [Sms_code ph])
                  else [])
               @ (case staff of None \<Rightarrow> [] | Some s \<Rightarrow> [To_staff (Status_event actual) s])\<rparr>)"

subsection \<open>The handler\<close>

definition commit_transition :: "call_env \<Rightarrow> status_request \<Rightarrow> order \<Rightarrow> shop \<Rightarrow> (shop \<times> int list) res" where
  "commit_transition env rq o1 sh =
     (let prev = ord_status o1;
          sh0 = (if rq_authority rq = External \<and> \<not> is_graph_transition prev rq
                 then sh\<lparr>sh_out_of_graph := sh_out_of_graph sh + 1\<rparr> else sh);
          actual = actual_status (rq_status rq) sh;
          sh1 = add_history (ord_id o1) actual (rq_note rq) (rq_authority rq) sh0;
          (o3, dp) = follow_delivery env rq actual (o1\<lparr>ord_status := actual\<rparr>) (sh_zones sh1) (sh_dispatch sh1);
          sh2 = (upd_order (ord_id o1) (\<lambda>_. o3) sh1)\<lparr>sh_dispatch := dp\<rparr>
      in stock_effects env rq prev actual o1 sh2)"

definition after_commit :: "call_env \<Rightarrow> status_request \<Rightarrow> order \<Rightarrow> order_status \<Rightarrow> int list \<Rightarrow> shop \<Rightarrow> shop" where
  "after_commit env rq o1 actual low sh =
     (let sh1 = queue_jobs env actual o1 low (release_on_close env rq actual (ord_id o1) sh);
          sh2 = (if actual = Delivered then credit_loyalty_for_order env o1 sh1 else sh1)
      in notify_transition env (ord_status o1) actual o1 sh2)"

definition update_status :: "call_env \<Rightarrow> int \<Rightarrow> status_request \<Rightarrow> shop \<Rightarrow> shop res" where
  "update_status env oid rq sh =
     (case order_of oid sh of
        None \<Rightarrow> Inl (AppError ''ORDER_NOT_FOUND'' 404)
      | Some o1 \<Rightarrow>
          rbind (status_guards rq o1 sh) (\<lambda>_.
          rbind (commit_transition env rq o1 sh) (\<lambda>(sh1, low).
            Inr (after_commit env rq o1 (actual_status (rq_status rq) sh) low sh1))))"

definition cancel_my_order :: "call_env \<Rightarrow> int \<Rightarrow> int \<Rightarrow> shop \<Rightarrow> shop res" where
  "cancel_my_order env oid uid sh =
     (case order_of oid sh of
        None \<Rightarrow> Inl (AppError ''ORDER_NOT_FOUND'' 404)
      | Some o1 \<Rightarrow>
          if ord_user_id o1 \<noteq> Some uid then Inl (AppError ''ORDER_NOT_FOUND'' 404)
          else if ord_status o1 \<noteq> Pending then Inl (AppError ''ORDER_CANCEL_NOT_ALLOWED'' 422)
          else update_status env oid
                 \<lparr>rq_status = Cancelled, rq_note = Some ''Cancelled by customer'', rq_actor = Some uid,
                  rq_authority = Internal, rq_proof = None, rq_redelivery = False\<rparr> sh)"

end
