(* ===== verification/Site_Stock.thy ===== *)
theory Site_Stock
  imports Stock_Orders "HOL-Library.Product_Lexorder"
begin

text \<open>
  Stock per establishment and per lot: \<^verbatim>\<open>app/modules/stock/site_stock_service.py\<close> over the tables of
  \<^verbatim>\<open>site_models.py\<close>. An order is allocated lot by lot, the earliest effective deadline first; a lot with an unknown
  remainder, an exclusion or no deadline is never used. The unique constraint on movement keys is the error
  \<open>IntegrityError\<close>; length limits of text columns are not modelled.
\<close>

subsection \<open>Rows\<close>

record site_stock =
  es_establishment_id :: int
  es_ingredient_id :: int
  es_physical :: rat
  es_revision :: int
  es_reconciled_at :: "instant option"
  es_reconciled_by :: "int option"

record lot_position =
  lp_batch_id :: int
  lp_establishment_id :: int
  lp_ingredient_id :: int
  lp_remaining :: "rat option"
  lp_revision :: int
  lp_excluded_at :: "instant option"
  lp_excluded_by :: "int option"
  lp_exclusion_reason :: "string option"

record lot_allocation =
  al_id :: int
  al_order_id :: int
  al_establishment_id :: int
  al_ingredient_id :: int
  al_batch_id :: int
  al_quantity :: rat
  al_restored :: rat
  al_allocated_by :: "int option"

datatype site_reason = Order_taken int | Order_returned int | Returned_expired int

record site_movement =
  sm_establishment_id :: int
  sm_ingredient_id :: int
  sm_batch_id :: int
  sm_delta :: rat
  sm_reason :: site_reason
  sm_key :: string
  sm_actor :: int
  sm_created_at :: instant

record site_db =
  si_stocks :: "site_stock list"
  si_positions :: "lot_position list"
  si_allocations :: "lot_allocation list"
  si_movements :: "site_movement list"

type_synonym lot_key = "int \<times> int \<times> int"

definition lot_key :: "lot_position \<Rightarrow> lot_key" where
  "lot_key p = (lp_batch_id p, lp_establishment_id p, lp_ingredient_id p)"

definition find_lot :: "lot_key \<Rightarrow> site_db \<Rightarrow> lot_position option" where
  "find_lot k db = find (\<lambda>p. lot_key p = k) (si_positions db)"

definition upd_lot :: "lot_key \<Rightarrow> (lot_position \<Rightarrow> lot_position) \<Rightarrow> site_db \<Rightarrow> site_db" where
  "upd_lot k f db = db\<lparr>si_positions := map (\<lambda>p. if lot_key p = k then f p else p) (si_positions db)\<rparr>"

subsection \<open>Usable lots\<close>

definition lot_usable :: "lot_position \<Rightarrow> ingredient_batch \<Rightarrow> instant \<Rightarrow> bool" where
  "lot_usable p b now \<longleftrightarrow>
     (case lp_remaining p of None \<Rightarrow> False | Some r \<Rightarrow> r > 0)
     \<and> lp_excluded_at p = None \<and> usable_status (bat_status b)
     \<and> (case effective_batch_expires_at b of None \<Rightarrow> False | Some e \<Rightarrow> e > now)"

definition deadline_key :: "lot_position \<times> ingredient_batch \<Rightarrow> int \<times> int" where
  "deadline_key pb = (the (effective_batch_expires_at (snd pb)), bat_id (snd pb))"

definition lots_at :: "int \<Rightarrow> int \<Rightarrow> stock_db \<Rightarrow> site_db \<Rightarrow> (lot_position \<times> ingredient_batch) list" where
  "lots_at site ing s db =
     concat (map (\<lambda>p. if lp_establishment_id p = site \<and> lp_ingredient_id p = ing
         then (case row_get bat_id (lp_batch_id p) (st_batches s) of None \<Rightarrow> [] | Some b \<Rightarrow> [(p, b)]) else [])
       (si_positions db))"

definition site_positions ::
    "int \<Rightarrow> int \<Rightarrow> instant \<Rightarrow> stock_db \<Rightarrow> site_db \<Rightarrow> (lot_position \<times> ingredient_batch) list" where
  "site_positions site ing now s db =
     sort_key deadline_key (filter (\<lambda>(p, b). lot_usable p b now)
       (sort_key (\<lambda>pb. bat_id (snd pb)) (lots_at site ing s db)))"

definition remaining :: "lot_position \<Rightarrow> rat" where
  "remaining p = (case lp_remaining p of None \<Rightarrow> 0 | Some r \<Rightarrow> r)"

definition usable_quantity :: "int \<Rightarrow> int \<Rightarrow> instant \<Rightarrow> stock_db \<Rightarrow> site_db \<Rightarrow> rat" where
  "usable_quantity site ing now s db =
     sum_list (map (\<lambda>pb. remaining (fst pb)) (site_positions site ing now s db))"

definition recipe_requirements :: "stock_db \<Rightarrow> int \<Rightarrow> order_item list \<Rightarrow> (int \<times> rat) list" where
  "recipe_requirements s oid items = dict_of (order_deltas s (sort_key oi_id (items_of_order oid items)))"

subsection \<open>Availability of products at a site\<close>

record site_availability =
  sa_product_id :: int
  sa_available :: bool
  sa_limiting :: "string option"
  sa_reason :: "string option"

text \<open>What one unit of a product may need: its recipe, that of every active variant and of every active extra.\<close>

definition site_requirements :: "stock_db \<Rightarrow> int \<Rightarrow> (int \<times> rat) list" where
  "site_requirements s pid =
     (let line = (\<lambda>r. (rl_ingredient_id r, rl_quantity r));
          own = map line (filter (\<lambda>r. rl_target_id r = pid) (st_product_recipes s));
          vars = concat (map (\<lambda>v. if var_product_id v = pid \<and> var_active v
                   then map line (filter (\<lambda>r. rl_target_id r = var_id v) (st_variant_recipes s)) else [])
                 (cat_variants (st_catalog s)));
          exts = concat (map (\<lambda>(p, e). if p = pid \<and> (case row_get ext_id e (cat_extras (st_catalog s)) of
                       None \<Rightarrow> False | Some x \<Rightarrow> ext_active x)
                   then map line (filter (\<lambda>r. rl_target_id r = e) (st_extra_recipes s)) else [])
                 (cat_product_extras (st_catalog s)))
      in dict_of (own @ vars @ exts))"

fun site_limit ::
    "int \<Rightarrow> instant \<Rightarrow> stock_db \<Rightarrow> site_db \<Rightarrow> (int \<times> rat) list \<Rightarrow> (string \<times> string) option" where
  "site_limit site now s db [] = None"
| "site_limit site now s db ((i, required) # req) =
     (case get_ingredient i s of
        None \<Rightarrow> Some (py_str_int i, ''ingredient_missing'')
      | Some ing \<Rightarrow>
          if usable_quantity site i now s db < required
          then Some (ing_name ing, ''expired_or_insufficient_site_stock'')
          else site_limit site now s db req)"

definition site_availability_of :: "int \<Rightarrow> instant \<Rightarrow> stock_db \<Rightarrow> site_db \<Rightarrow> int \<Rightarrow> site_availability" where
  "site_availability_of site now s db pid =
     (let l = site_limit site now s db (site_requirements s pid)
      in \<lparr>sa_product_id = pid, sa_available = (l = None), sa_limiting = map_option fst l,
          sa_reason = map_option snd l\<rparr>)"

definition site_product_availability ::
    "int \<Rightarrow> int list \<Rightarrow> instant \<Rightarrow> stock_db \<Rightarrow> site_db \<Rightarrow> (int \<times> site_availability) list" where
  "site_product_availability site pids now s db =
     fold (\<lambda>pid d. dict_set pid (site_availability_of site now s db pid) d) pids []"

subsection \<open>Allocating an order\<close>

text \<open>SQL's \<^verbatim>\<open>LIKE\<close>: percent stands for any text, underscore for any character, a backslash quotes.\<close>

fun sql_like :: "string \<Rightarrow> string \<Rightarrow> bool" where
  "sql_like [] s = (s = [])"
| "sql_like (p # ps) s =
     (if p = CHR ''%'' then sql_like ps s \<or> (case s of [] \<Rightarrow> False | _ # s' \<Rightarrow> sql_like (p # ps) s')
      else case s of
          [] \<Rightarrow> False
        | c # s' \<Rightarrow>
            if p = CHR ''_'' then sql_like ps s'
            else if p = CHR 0x5C then (case ps of [] \<Rightarrow> False | q # qs \<Rightarrow> q = c \<and> sql_like qs s')
            else p = c \<and> sql_like ps s')"

text \<open>Taking from the usable lots in order until nothing remains to be found; the second result is what is missing.\<close>

fun take_lots :: "(lot_position \<times> ingredient_batch) list \<Rightarrow> rat \<Rightarrow> (lot_key \<times> rat) list \<times> rat" where
  "take_lots [] need = ([], need)"
| "take_lots ((p, b) # lots) need =
     (if need \<le> 0 then ([], need)
      else let q = min (remaining p) need; (rest, missing) = take_lots lots (need - q)
           in (((bat_id b, lp_establishment_id p, lp_ingredient_id p), q) # rest, missing))"

fun choose_lots ::
    "int \<Rightarrow> instant \<Rightarrow> stock_db \<Rightarrow> site_db \<Rightarrow> (int \<times> rat) list \<Rightarrow> (lot_key \<times> rat) list res" where
  "choose_lots site now s db [] = Inr []"
| "choose_lots site now s db ((i, required) # req) =
     (let (chosen, missing) = take_lots (site_positions site i now s db) required
      in if missing > 0 then Inl (AppError ''SITE_STOCK_INSUFFICIENT'' 409)
         else rbind (choose_lots site now s db req) (\<lambda>rest. Inr (chosen @ rest)))"

definition add_site_movement :: "site_movement \<Rightarrow> site_db \<Rightarrow> site_db res" where
  "add_site_movement m db =
     (if list_ex (\<lambda>x. sm_establishment_id x = sm_establishment_id m \<and> sm_key x = sm_key m) (si_movements db)
      then Inl IntegrityError else Inr (db\<lparr>si_movements := si_movements db @ [m]\<rparr>))"

definition movement_key :: "string option \<Rightarrow> int \<Rightarrow> int \<Rightarrow> int \<Rightarrow> string" where
  "movement_key key oid bid ing =
     (case key of Some k \<Rightarrow> if k = [] then ''order:'' @ py_str_int oid else k | None \<Rightarrow> ''order:'' @ py_str_int oid)
     @ '':batch:'' @ py_str_int bid @ '':'' @ py_str_int ing"

definition allocate_lot ::
    "int \<Rightarrow> int \<Rightarrow> int option \<Rightarrow> string option \<Rightarrow> instant \<Rightarrow> int \<Rightarrow> lot_key \<times> rat \<Rightarrow> site_db \<Rightarrow> site_db res" where
  "allocate_lot site oid actor key now nid kq db =
     (case kq of ((bid, est, ing), q) \<Rightarrow>
        let db1 = upd_lot (bid, est, ing) (\<lambda>p. p\<lparr>lp_remaining := Some (remaining p - q)\<rparr>) db;
            a = \<lparr>al_id = nid, al_order_id = oid, al_establishment_id = site, al_ingredient_id = ing,
                 al_batch_id = bid, al_quantity = q, al_restored = 0, al_allocated_by = actor\<rparr>
        in add_site_movement \<lparr>sm_establishment_id = site, sm_ingredient_id = ing, sm_batch_id = bid,
               sm_delta = - q, sm_reason = Order_taken oid, sm_key = movement_key key oid bid ing,
               sm_actor = (case actor of None \<Rightarrow> 0 | Some u \<Rightarrow> u), sm_created_at = now\<rparr>
             (db1\<lparr>si_allocations := si_allocations db1 @ [a]\<rparr>))"

fun allocate_lots ::
    "int \<Rightarrow> int \<Rightarrow> int option \<Rightarrow> string option \<Rightarrow> instant \<Rightarrow> int \<Rightarrow> (lot_key \<times> rat) list \<Rightarrow> site_db \<Rightarrow> site_db res" where
  "allocate_lots site oid actor key now nid [] db = Inr db"
| "allocate_lots site oid actor key now nid (kq # rest) db =
     rbind (allocate_lot site oid actor key now nid kq db) (allocate_lots site oid actor key now (nid + 1) rest)"

definition order_at_site :: "int \<Rightarrow> int \<Rightarrow> order list \<Rightarrow> bool" where
  "order_at_site site oid orders =
     list_ex (\<lambda>o1. ord_id o1 = oid \<and> ord_establishment_id o1 = Some site) orders"

text \<open>\<open>nid\<close> is the next allocation key.\<close>

definition allocate_order ::
    "int \<Rightarrow> int \<Rightarrow> int \<Rightarrow> int option \<Rightarrow> string option \<Rightarrow> instant \<Rightarrow> order list \<Rightarrow> order_item list \<Rightarrow> stock_db
      \<Rightarrow> site_db \<Rightarrow> site_db res" where
  "allocate_order nid site oid actor key now orders items s db =
     (if \<not> order_at_site site oid orders then Inl (AppError ''ORDER_SITE_MISMATCH'' 404)
      else if list_ex (\<lambda>a. al_order_id a = oid) (si_allocations db)
      then if (case key of None \<Rightarrow> False | Some k \<Rightarrow> k \<noteq> []
               \<and> list_ex (\<lambda>m. sm_establishment_id m = site \<and> sql_like (k @ '':%'') (sm_key m)) (si_movements db))
           then Inr db
           else Inl (AppError ''STOCK_ORDER_ALREADY_ALLOCATED'' 409)
      else rbind (choose_lots site now s db (recipe_requirements s oid items)) (\<lambda>chosen.
             allocate_lots site oid actor key now nid chosen db))"

subsection \<open>Giving an order back\<close>

definition restore_lot ::
    "int \<Rightarrow> int \<Rightarrow> int option \<Rightarrow> instant \<Rightarrow> stock_db \<Rightarrow> lot_allocation \<Rightarrow> site_db \<Rightarrow> site_db res" where
  "restore_lot site oid actor now s a db =
     (let pending = al_quantity a - al_restored a; k = (al_batch_id a, site, al_ingredient_id a)
      in if pending \<le> 0 then Inr db
         else case find_lot k db of
           None \<Rightarrow> Inl (AppError ''STOCK_POSITION_MISSING'' 409)
         | Some p \<Rightarrow>
             let ok = (case row_get bat_id (al_batch_id a) (st_batches s) of
                         None \<Rightarrow> False | Some b \<Rightarrow> lot_usable p b now);
                 db1 = db\<lparr>si_allocations := row_upd al_id (al_id a) (\<lambda>x. x\<lparr>al_restored := al_quantity x\<rparr>)
                           (si_allocations db)\<rparr>;
                 db2 = (if ok then upd_lot k (\<lambda>r. r\<lparr>lp_remaining := Some (remaining r + pending)\<rparr>) db1 else db1)
             in add_site_movement \<lparr>sm_establishment_id = site, sm_ingredient_id = al_ingredient_id a,
                    sm_batch_id = al_batch_id a, sm_delta = pending,
                    sm_reason = (if ok then Order_returned oid else Returned_expired oid),
                    sm_key = ''restore:'' @ py_str_int oid @ '':allocation:'' @ py_str_int (al_id a),
                    sm_actor = (case actor of None \<Rightarrow> 0 | Some u \<Rightarrow> u), sm_created_at = now\<rparr> db2)"

definition restore_order ::
    "int \<Rightarrow> int \<Rightarrow> int option \<Rightarrow> instant \<Rightarrow> order list \<Rightarrow> stock_db \<Rightarrow> site_db \<Rightarrow> site_db res" where
  "restore_order site oid actor now orders s db =
     (if \<not> order_at_site site oid orders then Inl (AppError ''ORDER_SITE_MISMATCH'' 404)
      else foldE (restore_lot site oid actor now s)
             (filter (\<lambda>a. al_order_id a = oid \<and> al_establishment_id a = site) (si_allocations db)) db)"

end
