(* ===== verification/Calendar.thy ===== *)
theory Calendar
  imports Delivery_Pricing
begin

text \<open>
  Python's proleptic Gregorian calendar on date ordinals (\<^verbatim>\<open>datetime.date\<close>), as far as the cleaning plan needs it:
  year, month and day of an ordinal and back, and the length of a month. The lemmas show that both directions are
  inverse on every date.
\<close>

definition is_leap :: "int \<Rightarrow> bool" where
  "is_leap y \<longleftrightarrow> y mod 4 = 0 \<and> (y mod 100 \<noteq> 0 \<or> y mod 400 = 0)"

definition days_before_year :: "int \<Rightarrow> int" where
  "days_before_year y = (y - 1) * 365 + (y - 1) div 4 - (y - 1) div 100 + (y - 1) div 400"

definition month_lengths :: "int \<Rightarrow> int list" where
  "month_lengths y = [31, if is_leap y then 29 else 28, 31, 30, 31, 30, 31, 31, 30, 31, 30, 31]"

definition days_in_month :: "int \<Rightarrow> int \<Rightarrow> int" where
  "days_in_month y m = month_lengths y ! nat (m - 1)"

definition days_before_month :: "int \<Rightarrow> int \<Rightarrow> int" where
  "days_before_month y m = sum_list (take (nat (m - 1)) (month_lengths y))"

definition ymd2ord :: "int \<Rightarrow> int \<Rightarrow> int \<Rightarrow> day" where
  "ymd2ord y m d = days_before_year y + days_before_month y m + d"

fun find_month :: "int \<Rightarrow> int list \<Rightarrow> int \<Rightarrow> int \<times> int" where
  "find_month m (len # lens) r = (if lens = [] \<or> r < len then (m, r + 1) else find_month (m + 1) lens (r - len))"
| "find_month m [] r = (m, r + 1)"

definition year_of :: "day \<Rightarrow> int" where
  "year_of n =
     (let k = n - 1; n400 = k div 146097; r = k mod 146097; n100 = r div 36524; r = r mod 36524;
          n4 = r div 1461; r = r mod 1461; n1 = r div 365
      in if n1 = 4 \<or> n100 = 4 then n400 * 400 + n100 * 100 + n4 * 4 + n1
         else n400 * 400 + n100 * 100 + n4 * 4 + n1 + 1)"

definition month_day_of :: "day \<Rightarrow> int \<times> int" where
  "month_day_of n = find_month 1 (month_lengths (year_of n)) (n - 1 - days_before_year (year_of n))"

subsection \<open>Years\<close>

lemma leap_digits:
  fixes a b c e :: int
  assumes "y = 400 * a + 100 * b + 4 * c + e + 1" and "0 \<le> b" "b \<le> 3" "0 \<le> c" "c \<le> 24" "0 \<le> e" "e \<le> 3"
  shows "is_leap y \<longleftrightarrow> e = 3 \<and> (c \<noteq> 24 \<or> b = 3)"
    and "days_before_year y = 146097 * a + 36524 * b + 1461 * c + 365 * e"
proof -
  have "y = (e + 1) + 4 * (100 * a + 25 * b + c)" using assms(1) by simp
  then have m4: "y mod 4 = (e + 1) mod 4" by (metis mod_mult_self2)
  have "y = (4 * c + e + 1) + 100 * (4 * a + b)" using assms(1) by simp
  then have m100: "y mod 100 = (4 * c + e + 1) mod 100" by (metis mod_mult_self2)
  have "y = (100 * b + 4 * c + e + 1) + 400 * a" using assms(1) by simp
  then have m400: "y mod 400 = (100 * b + 4 * c + e + 1) mod 400" by (metis mod_mult_self2)
  have c: "(y - 1) div 4 = 100 * a + 25 * b + c" by (rule int_div_pos_eq [where r = e]) (use assms in auto)
  have d: "(y - 1) div 100 = 4 * a + b" by (rule int_div_pos_eq [where r = "4 * c + e"]) (use assms in auto)
  have e: "(y - 1) div 400 = a" by (rule int_div_pos_eq [where r = "100 * b + 4 * c + e"]) (use assms in auto)
  show "days_before_year y = 146097 * a + 36524 * b + 1461 * c + 365 * e"
    unfolding days_before_year_def c d e using assms(1) by simp
  show "is_leap y \<longleftrightarrow> e = 3 \<and> (c \<noteq> 24 \<or> b = 3)"
  proof (cases "e = 3")
    case True
    have 1: "(4 * c + e + 1) mod 100 = 0 \<longleftrightarrow> c = 24" using True assms(4,5) by (cases "c = 24") (auto simp: mod_pos_pos_trivial)
    have 2: "(100 * b + 4 * c + e + 1) mod 400 = 0 \<longleftrightarrow> b = 3" if "c = 24"
      using True assms(2,3) that by (cases "b = 3") (auto simp: mod_pos_pos_trivial)
    show ?thesis using True 1 2 by (auto simp: is_leap_def m4 m100 m400)
  next
    case False
    then have "(e + 1) mod 4 = e + 1" using assms(6,7) by (simp add: mod_pos_pos_trivial)
    then show ?thesis using False assms(6) by (simp add: is_leap_def m4)
  qed
qed

lemma days_before_next: "days_before_year (y + 1) = days_before_year y + (if is_leap y then 366 else 365)"
proof -
  define a b c e where "a = (y - 1) div 400" and "b = (y - 1) mod 400 div 100" and "c = (y - 1) mod 100 div 4"
    and "e = (y - 1) mod 4"
  have y: "y = 400 * a + 100 * b + 4 * c + e + 1"
  proof -
    have m: "(y - 1) mod 400 mod 100 = (y - 1) mod 100" "(y - 1) mod 100 mod 4 = (y - 1) mod 4"
      by (simp_all add: mod_mod_cancel)
    have "y - 1 = 400 * a + (y - 1) mod 400" by (simp add: a_def)
    also have "(y - 1) mod 400 = 100 * b + (y - 1) mod 100" using mult_div_mod_eq [of 100 "(y - 1) mod 400"] m by (simp add: b_def)
    also have "(y - 1) mod 100 = 4 * c + e" using mult_div_mod_eq [of 4 "(y - 1) mod 100"] m by (simp add: c_def e_def)
    finally show ?thesis by simp
  qed
  have "0 \<le> (y - 1) mod 400" "(y - 1) mod 400 < 400" "0 \<le> (y - 1) mod 100" "(y - 1) mod 100 < 100" "0 \<le> e" "e < 4"
    by (simp_all add: e_def)
  then have r: "0 \<le> b" "b \<le> 3" "0 \<le> c" "c \<le> 24" "0 \<le> e" "e \<le> 3"
    unfolding b_def c_def by linarith+
  note now = leap_digits [OF y r]
  consider "e < 3" | "e = 3" "c < 24" | "e = 3" "c = 24" "b < 3" | "e = 3" "c = 24" "b = 3" using r by linarith
  then show ?thesis
  proof cases
    case 1
    have "y + 1 = 400 * a + 100 * b + 4 * c + (e + 1) + 1" using y by simp
    from leap_digits(2) [OF this r(1-4)] r 1 now show ?thesis by simp
  next
    case 2
    have "y + 1 = 400 * a + 100 * b + 4 * (c + 1) + 0 + 1" using y 2 by simp
    from leap_digits(2) [OF this r(1,2)] r 2 now show ?thesis by simp
  next
    case 3
    have "y + 1 = 400 * a + 100 * (b + 1) + 4 * 0 + 0 + 1" using y 3 by simp
    from leap_digits(2) [OF this] r 3 now show ?thesis by simp
  next
    case 4
    have "y + 1 = 400 * (a + 1) + 100 * 0 + 4 * 0 + 0 + 1" using y 4 by simp
    from leap_digits(2) [OF this] r 4 now show ?thesis by simp
  qed
qed

lemma year_of_bounds: "days_before_year (year_of n) < n \<and> n \<le> days_before_year (year_of n + 1)"
proof -
  define k where "k = n - 1"
  define a where "a = k div 146097"
  define r1 where "r1 = k mod 146097"
  define b where "b = r1 div 36524"
  define r2 where "r2 = r1 mod 36524"
  define c where "c = r2 div 1461"
  define r3 where "r3 = r2 mod 1461"
  define e where "e = r3 div 365"
  define r4 where "r4 = r3 mod 365"
  have k: "k = 146097 * a + r1" "0 \<le> r1" "r1 < 146097" by (simp_all add: a_def r1_def)
  have r1: "r1 = 36524 * b + r2" "0 \<le> r2" "r2 < 36524" by (simp_all add: b_def r2_def)
  have r2: "r2 = 1461 * c + r3" "0 \<le> r3" "r3 < 1461" by (simp_all add: c_def r3_def)
  have r3: "r3 = 365 * e + r4" "0 \<le> r4" "r4 < 365" by (simp_all add: e_def r4_def)
  have b: "0 \<le> b" "b \<le> 4" using k r1 by linarith+
  have c: "0 \<le> c" "c \<le> 24" using r1 r2 by linarith+
  have e: "0 \<le> e" "e \<le> 4" using r2 r3 by linarith+
  have y: "year_of n = (if e = 4 \<or> b = 4 then 400 * a + 100 * b + 4 * c + e else 400 * a + 100 * b + 4 * c + e + 1)"
    by (simp add: year_of_def Let_def k_def [symmetric] a_def [symmetric] r1_def [symmetric] b_def [symmetric]
        r2_def [symmetric] c_def [symmetric] r3_def [symmetric] e_def [symmetric] mult.commute)
  have span: ?thesis
    if "year_of n = 400 * a + 100 * b' + 4 * c' + e' + 1" "0 \<le> b'" "b' \<le> 3" "0 \<le> c'" "c' \<le> 24" "0 \<le> e'" "e' \<le> 3"
      "146097 * a + 36524 * b' + 1461 * c' + 365 * e' \<le> k"
      "k < 146097 * a + 36524 * b' + 1461 * c' + 365 * e' + (if e' = 3 \<and> (c' \<noteq> 24 \<or> b' = 3) then 366 else 365)"
    for b' c' e'
    using leap_digits [OF that(1-7)] days_before_next [of "year_of n"] that(8,9)
    by (auto simp: k_def split: if_splits)
  consider "b = 4" | "b < 4" "e = 4" | "b < 4" "e < 4" using b e by linarith
  then show ?thesis
  proof cases
    case 1
    then have "r2 = 0" using k r1 by linarith
    then have "c = 0" "r3 = 0" using r2 c by linarith+
    then have "e = 0" "r4 = 0" using r3 e by linarith+
    then show ?thesis using 1 y k r1 \<open>r2 = 0\<close> \<open>c = 0\<close> by (intro span [of 3 24 3]) auto
  next
    case 2
    then have "r4 = 0" "r3 = 1460" using r2 r3 by linarith+
    moreover have "\<not> (c = 24 \<and> b < 3)" using r1 r2 \<open>r3 = 1460\<close> by auto
    ultimately show ?thesis using 2 y k r1 r2 b c by (intro span [of b c 3]) auto
  next
    case 3
    then show ?thesis using y k r1 r2 r3 b c e by (intro span [of b c e]) auto
  qed
qed

lemma days_before_mono: "y < y' \<Longrightarrow> days_before_year (y + 1) \<le> days_before_year y'"
proof -
  assume "y < y'"
  then have "(y - 1 + 1) div 4 \<le> (y' - 1) div 4" "(y - 1 + 1) div 400 \<le> (y' - 1) div 400" by (simp_all add: zdiv_mono1)
  moreover have "(y' - 1) div 100 - y div 100 \<le> (y' - 1) - y"
  proof -
    define q q' where "q = (y' - 1) div 100" and "q' = y div 100"
    have "y' - 1 = 100 * q + (y' - 1) mod 100" "y = 100 * q' + y mod 100" by (simp_all add: q_def q'_def)
    moreover have "0 \<le> (y' - 1) mod 100" "y mod 100 < 100" "0 \<le> y mod 100" by simp_all
    moreover have "q' \<le> q" using \<open>y < y'\<close> by (simp add: q_def q'_def zdiv_mono1)
    ultimately have "q - q' \<le> (y' - 1) - y" using \<open>y < y'\<close> by (cases "q = q'") linarith+
    then show ?thesis by (simp add: q_def q'_def)
  qed
  ultimately show ?thesis using \<open>y < y'\<close> unfolding days_before_year_def by simp
qed

lemma year_of_unique:
  assumes "days_before_year y < n" and "n \<le> days_before_year (y + 1)"
  shows "year_of n = y"
  using year_of_bounds [of n] assms days_before_mono [of y "year_of n"] days_before_mono [of "year_of n" y]
  by (cases "year_of n" y rule: linorder_cases) auto

subsection \<open>Months\<close>

definition valid_date :: "int \<Rightarrow> int \<Rightarrow> int \<Rightarrow> bool" where
  "valid_date y m d \<longleftrightarrow> 1 \<le> m \<and> m \<le> 12 \<and> 1 \<le> d \<and> d \<le> days_in_month y m"

lemma month_lengths_length [simp]: "length (month_lengths y) = 12"
  by (simp add: month_lengths_def)

lemma month_lengths_sum: "sum_list (month_lengths y) = (if is_leap y then 366 else 365)"
  by (simp add: month_lengths_def)

lemma month_length_range: "i < 12 \<Longrightarrow> 28 \<le> month_lengths y ! i \<and> month_lengths y ! i \<le> 31"
proof -
  assume "i < 12"
  then have "month_lengths y ! i \<in> set (month_lengths y)" by (intro nth_mem) simp
  then show ?thesis by (auto simp: month_lengths_def split: if_splits)
qed

lemma find_month_spec:
  assumes "0 \<le> r" and "r < sum_list lens"
  shows "\<exists>i < length lens. find_month m lens r = (m + int i, r - sum_list (take i lens) + 1)
    \<and> 0 \<le> r - sum_list (take i lens) \<and> r - sum_list (take i lens) < lens ! i"
  using assms
proof (induction m lens r rule: find_month.induct)
  case (1 m len lens r)
  show ?case
  proof (cases "lens = [] \<or> r < len")
    case True
    then show ?thesis using 1(2,3) by (intro exI [of _ 0]) auto
  next
    case False
    then obtain i where "i < length lens" "find_month (m + 1) lens (r - len) = (m + 1 + int i, r - len - sum_list (take i lens) + 1)"
      "0 \<le> r - len - sum_list (take i lens)" "r - len - sum_list (take i lens) < lens ! i" using 1 by auto
    then show ?thesis using False by (intro exI [of _ "Suc i"]) auto
  qed
qed simp

lemma find_month_at:
  assumes "i < length lens" and "0 \<le> r - sum_list (take i lens)" and "r - sum_list (take i lens) < lens ! i"
    and "\<forall>x \<in> set lens. 0 \<le> x"
  shows "find_month m lens r = (m + int i, r - sum_list (take i lens) + 1)"
  using assms
proof (induction m lens r arbitrary: i rule: find_month.induct)
  case (1 m len lens r)
  show ?case
  proof (cases i)
    case 0
    then show ?thesis using 1(2-5) by auto
  next
    case (Suc j)
    have "0 \<le> sum_list (take j lens)" using 1(5) by (intro sum_list_nonneg) (auto dest: in_set_takeD)
    then have "\<not> (lens = [] \<or> r < len)" using 1(2,3) Suc by auto
    then show ?thesis using 1(1) [of j] 1(2-5) Suc by simp
  qed
qed simp

text \<open>Every ordinal is a date and every date has one ordinal.\<close>

lemma date_of_ordinal:
  assumes "month_day_of n = (m, d)"
  shows "valid_date (year_of n) m d \<and> ymd2ord (year_of n) m d = n"
proof -
  let ?y = "year_of n" let ?r = "n - 1 - days_before_year ?y"
  have "0 \<le> ?r" "?r < sum_list (month_lengths ?y)"
    using year_of_bounds [of n] by (simp_all add: days_before_next month_lengths_sum)
  from find_month_spec [OF this, of 1] assms show ?thesis
    by (auto simp: month_day_of_def valid_date_def ymd2ord_def days_in_month_def days_before_month_def)
qed

lemma ordinal_of_date:
  assumes "valid_date y m d"
  shows "year_of (ymd2ord y m d) = y \<and> month_day_of (ymd2ord y m d) = (m, d)"
proof -
  let ?i = "nat (m - 1)"
  have i: "?i < 12" "1 \<le> m" "1 \<le> d" "d \<le> month_lengths y ! ?i"
    using assms by (auto simp: valid_date_def days_in_month_def)
  have lens: "\<forall>x \<in> set (month_lengths y). 0 \<le> x" by (auto simp: month_lengths_def)
  have b: "0 \<le> days_before_month y m" unfolding days_before_month_def
    using lens by (intro sum_list_nonneg) (auto dest: in_set_takeD)
  have "sum_list (take ?i (month_lengths y)) + month_lengths y ! ?i + sum_list (drop (Suc ?i) (month_lengths y))
      = sum_list (month_lengths y)"
    using i(1) by (metis (no_types, lifting) add.assoc append_take_drop_id Cons_nth_drop_Suc month_lengths_length
        sum_list.Cons sum_list.append)
  moreover have "0 \<le> sum_list (drop (Suc ?i) (month_lengths y))"
    using lens by (intro sum_list_nonneg) (auto dest: in_set_dropD)
  ultimately have "days_before_month y m + d \<le> (if is_leap y then 366 else 365)"
    using i(4) month_lengths_sum [of y] by (simp add: days_before_month_def)
  then have y: "year_of (ymd2ord y m d) = y"
    by (intro year_of_unique) (use b i in \<open>simp_all add: ymd2ord_def days_before_next\<close>)
  have "find_month 1 (month_lengths y) (days_before_month y m + d - 1) =
      (1 + int ?i, days_before_month y m + d - 1 - sum_list (take ?i (month_lengths y)) + 1)"
    using i lens by (intro find_month_at) (simp_all add: days_before_month_def)
  then show ?thesis using y i by (simp add: month_day_of_def ymd2ord_def days_before_month_def add_diff_eq)
qed

end
