(* ===== verification/Haccp_Checklist.thy ===== *)
theory Haccp_Checklist
  imports Site_Stock Calendar
begin

text \<open>
  The daily hygiene checklist of an establishment: the rows of \<^verbatim>\<open>app/modules/haccp/foundation_models.py\<close> and
  \<^verbatim>\<open>models.py\<close> that the strict workflow reads, and \<^verbatim>\<open>strict_checklist.py\<close>, which derives what has to be measured,
  cleaned and confirmed on a day and what already blocks it. Requirement keys are texts as in the source; the JSON
  snapshots are typed.
\<close>

subsection \<open>Rows\<close>

datatype session_kind = Opening | Closing

datatype session_status = In_progress | Complete | Regularized

record daily_session =
  ses_id :: int
  ses_establishment_id :: int
  ses_date :: day
  ses_timezone :: string
  ses_kind :: session_kind
  ses_status :: session_status
  ses_revision :: int
  ses_validated_by :: "int option"
  ses_validated_at :: "instant option"

record operations =
  ops_establishment_id :: int
  ops_strict :: bool
  ops_activated_at :: "instant option"

record business_hours =
  bh_establishment_id :: int
  bh_day_of_week :: int
  bh_opens_at :: tod
  bh_closes_at :: tod
  bh_active :: bool

record equipment =
  eq_id :: int
  eq_name :: string
  eq_min :: "rat option"
  eq_max :: "rat option"
  eq_at_opening :: bool
  eq_at_closing :: bool
  eq_active :: bool

datatype frequency = Daily | Weekly | Monthly | Per_service

datatype task_session = Task_opening | Task_closing | Task_both

record cleaning_task =
  ct_id :: int
  ct_name :: string
  ct_zone :: string
  ct_frequency :: frequency
  ct_session :: task_session
  ct_product :: "string option"
  ct_required_role :: string
  ct_active :: bool

record cleaning_scope =
  cs_task_id :: int
  cs_establishment_id :: int
  cs_due_from :: "day option"

record lot_snapshot =
  ls_id :: int
  ls_revision :: int
  ls_remaining :: "rat option"
  ls_status :: batch_status
  ls_primary :: "instant option"
  ls_opened_at :: "instant option"
  ls_secondary_hours :: "int option"
  ls_tertiary_at :: "instant option"
  ls_tertiary_hours :: "int option"
  ls_effective :: "instant option"
  ls_excluded_at :: "instant option"
  ls_excluded_by :: "int option"
  ls_exclusion_reason :: "string option"

datatype snapshot =
  Temperature_snap string "rat option" "rat option"
  | Cleaning_snap string string frequency day string "string option"
  | Dlc_snap string string rat int "instant option" "lot_snapshot list"

datatype requirement_kind = Temperature | Cleaning | Dlc

record requirement =
  rq_id :: int
  rq_session_id :: int
  rq_establishment_id :: int
  rq_session_revision :: int
  rq_key :: string
  rq_kind :: requirement_kind
  rq_target_id :: int
  rq_snapshot :: snapshot

record requirement_batch =
  rb_requirement_id :: int
  rb_batch_id :: int
  rb_establishment_id :: int
  rb_ingredient_id :: int
  rb_batch_revision :: int
  rb_effective :: "instant option"

record evidence_value =
  ei_requirement_id :: int
  ei_temperature :: "rat option"
  ei_confirmed :: "bool option"
  ei_corrective :: "string option"

record evidence =
  ev_id :: int
  ev_establishment_id :: int
  ev_session_id :: int
  ev_requirement_id :: int
  ev_key :: "string \<times> int"
  ev_compliant :: bool
  ev_payload :: evidence_value
  ev_recorded_by :: int
  ev_recorded_at :: instant

subsection \<open>Reasons that block\<close>

datatype block_code =
  Not_configured | Stock_unreconciled | Opening_missing | Previous_closing_missing | Dlc_confirmation_missing
  | Dlc_missing | Expired_batch_not_excluded | Temperature_missing | Temperature_noncompliant | Cleaning_missing
  | Cleaning_noncompliant | Evidence_stale | Day_closed | Unresolved_noncompliance

datatype block_subject = On string | On_day day

type_synonym blocker = "block_code \<times> block_subject"

record checklist_item =
  ci_key :: string
  ci_kind :: requirement_kind
  ci_target_id :: int
  ci_snapshot :: snapshot
  ci_problems :: "block_code list"

text \<open>\<^verbatim>\<open>list(dict.fromkeys(xs))\<close>: the first occurrence of each element.\<close>

definition py_dedupe :: "'a list \<Rightarrow> 'a list" where
  "py_dedupe xs = rev (remdups (rev xs))"

lemma set_py_dedupe [simp]: "set (py_dedupe xs) = set xs"
  by (simp add: py_dedupe_def)

lemma py_dedupe_empty [simp]: "py_dedupe xs = [] \<longleftrightarrow> xs = []"
  by (simp add: py_dedupe_def)

subsection \<open>Periodic cleaning\<close>

text \<open>The latest anchored due date; the month arithmetic clips the anchor day to the length of the month.\<close>

definition month_due :: "int \<Rightarrow> int \<Rightarrow> int \<Rightarrow> day" where
  "month_due y m anchor_day = ymd2ord y m (min anchor_day (days_in_month y m))"

definition cycle_start :: "day \<Rightarrow> day \<Rightarrow> frequency \<Rightarrow> day option" where
  "cycle_start d anchor freq =
     (if d < anchor then None
      else if freq = Weekly then Some (anchor + ((d - anchor) div 7) * 7)
      else
        let y = year_of d; m = fst (month_day_of d); a = snd (month_day_of anchor); candidate = month_due y m a
        in if candidate > d then
             Some (if m = 1 then month_due (y - 1) 12 a else month_due y (m - 1) a)
           else Some candidate)"

subsection \<open>Reports and the audit trail\<close>

record report_item =
  rpi_id :: int
  rpi_kind :: requirement_kind
  rpi_snapshot :: snapshot
  rpi_blockers :: "block_code list"
  rpi_evidence :: "evidence option"

record report =
  rep_id :: int
  rep_establishment_id :: int
  rep_date :: day
  rep_kind :: session_kind
  rep_revision :: int
  rep_status :: session_status
  rep_validated_by :: "int option"
  rep_validated_at :: "instant option"
  rep_items :: "report_item list"
  rep_blockers :: "blocker list"
  rep_can_validate :: bool

text \<open>The bodies of \<^verbatim>\<open>strict_contracts.py\<close>. The SHA-256 digest of a request is the request itself here.\<close>

record strict_body =
  sb_expected_revision :: int
  sb_key :: string
  sb_items :: "evidence_value list"
  sb_reason :: string
  sb_actions :: string

type_synonym request_digest = "string \<times> int \<times> strict_body"

datatype strict_result = Report_result report | Regularized_result int day instant

datatype audit_subject = Sub_session int | Sub_request string | Sub_staff int

datatype audit_data =
  No_data | Revision_data int | Receipt_data request_digest int strict_result | Actions_data string
  | Session_data session_status int "int option" "instant option" | Revalidation_data int string | Assigned_data bool

record audit_event =
  au_establishment_id :: int
  au_session_id :: "int option"
  au_actor :: int
  au_action :: string
  au_subject :: audit_subject
  au_reason :: string
  au_before :: audit_data
  au_after :: audit_data
  au_at :: instant

record regularization =
  rg_establishment_id :: int
  rg_closing_session_id :: int
  rg_reason :: string
  rg_actions :: string
  rg_recorded_by :: int
  rg_recorded_at :: instant

subsection \<open>Tables\<close>

record haccp_db =
  hd_operations :: "operations list"
  hd_hours :: "business_hours list"
  hd_closures :: "(int \<times> day) list"
  hd_equipment :: "equipment list"
  hd_equipment_scopes :: "(int \<times> int) list"
  hd_tasks :: "cleaning_task list"
  hd_task_scopes :: "cleaning_scope list"
  hd_staff_scopes :: "(int \<times> int) list"
  hd_sessions :: "daily_session list"
  hd_requirements :: "requirement list"
  hd_requirement_batches :: "requirement_batch list"
  hd_evidence :: "evidence list"
  hd_regularizations :: "regularization list"
  hd_audits :: "audit_event list"

subsection \<open>Building the checklist\<close>

definition site_equipment :: "int \<Rightarrow> haccp_db \<Rightarrow> equipment list" where
  "site_equipment site h =
     sort_key eq_id (filter (\<lambda>e. eq_active e \<and> (eq_id e, site) \<in> set (hd_equipment_scopes h)) (hd_equipment h))"

definition site_tasks :: "int \<Rightarrow> haccp_db \<Rightarrow> (cleaning_task \<times> cleaning_scope) list" where
  "site_tasks site h =
     concat (map (\<lambda>t. map (Pair t) (filter (\<lambda>c. cs_task_id c = ct_id t \<and> cs_establishment_id c = site) (hd_task_scopes h)))
       (sort_key ct_id (filter ct_active (hd_tasks h))))"

definition unassigned_equipment :: "haccp_db \<Rightarrow> bool" where
  "unassigned_equipment h =
     list_ex (\<lambda>e. eq_active e \<and> \<not> list_ex (\<lambda>c. fst c = eq_id e) (hd_equipment_scopes h)) (hd_equipment h)"

definition unassigned_task :: "haccp_db \<Rightarrow> bool" where
  "unassigned_task h =
     list_ex (\<lambda>t. ct_active t \<and> \<not> list_ex (\<lambda>c. cs_task_id c = ct_id t) (hd_task_scopes h)) (hd_tasks h)"

definition unassigned_ingredient :: "stock_db \<Rightarrow> site_db \<Rightarrow> bool" where
  "unassigned_ingredient s db =
     list_ex (\<lambda>i. \<not> list_ex (\<lambda>e. es_ingredient_id e = ing_id i) (si_stocks db)) (st_ingredients s)"

definition equipment_item :: "equipment \<Rightarrow> checklist_item" where
  "equipment_item e =
     \<lparr>ci_key = ''equipment:'' @ py_str_int (eq_id e), ci_kind = Temperature, ci_target_id = eq_id e,
      ci_snapshot = Temperature_snap (eq_name e) (eq_min e) (eq_max e),
      ci_problems = (if (eq_min e = None \<and> eq_max e = None)
          \<or> (case (eq_min e, eq_max e) of (Some a, Some b) \<Rightarrow> a > b | _ \<Rightarrow> False)
        then [Not_configured] else [])\<rparr>"

definition checked_at :: "session_kind \<Rightarrow> equipment \<Rightarrow> bool" where
  "checked_at kind e = (case kind of Opening \<Rightarrow> eq_at_opening e | Closing \<Rightarrow> eq_at_closing e)"

definition task_in_session :: "session_kind \<Rightarrow> cleaning_task \<Rightarrow> bool" where
  "task_in_session kind t = (case ct_session t of Task_both \<Rightarrow> True
     | Task_opening \<Rightarrow> kind = Opening | Task_closing \<Rightarrow> kind = Closing)"

text \<open>Already done in the current cycle: compliant evidence in the validated revision of an earlier complete session.\<close>

definition done_in_cycle :: "int \<Rightarrow> int \<Rightarrow> day \<Rightarrow> day \<Rightarrow> haccp_db \<Rightarrow> bool" where
  "done_in_cycle site tid due d h =
     list_ex (\<lambda>ev. ev_compliant ev \<and> list_ex (\<lambda>r. rq_id r = ev_requirement_id ev \<and> rq_kind r = Cleaning \<and> rq_target_id r = tid
         \<and> list_ex (\<lambda>w. ses_id w = rq_session_id r \<and> ses_establishment_id w = site \<and> due \<le> ses_date w \<and> ses_date w < d
              \<and> ses_status w = Complete \<and> rq_session_revision r = ses_revision w) (hd_sessions h))
         (hd_requirements h)) (hd_evidence h)"

definition task_snapshot :: "cleaning_task \<Rightarrow> day \<Rightarrow> snapshot" where
  "task_snapshot t due = Cleaning_snap (ct_name t) (ct_zone t) (ct_frequency t) due (ct_required_role t) (ct_product t)"

definition task_item :: "int \<Rightarrow> day \<Rightarrow> haccp_db \<Rightarrow> cleaning_task \<times> cleaning_scope \<Rightarrow> checklist_item list" where
  "task_item site d h tc =
     (case tc of (t, c) \<Rightarrow>
        let item = (\<lambda>due problems. \<lparr>ci_key = ''task:'' @ py_str_int (ct_id t), ci_kind = Cleaning, ci_target_id = ct_id t,
              ci_snapshot = task_snapshot t due, ci_problems = problems\<rparr>);
            periodic = (ct_frequency t = Weekly \<or> ct_frequency t = Monthly)
        in if ct_frequency t = Per_service then [item d [Not_configured]]
           else if periodic then
             (case cs_due_from c of
                None \<Rightarrow> [item d [Not_configured]]
              | Some anchor \<Rightarrow>
                  (case cycle_start d anchor (ct_frequency t) of
                     None \<Rightarrow> []
                   | Some due \<Rightarrow> if done_in_cycle site (ct_id t) due d h then [] else [item due []]))
           else [item d []])"

definition snap_lot :: "lot_position \<Rightarrow> ingredient_batch \<Rightarrow> lot_snapshot" where
  "snap_lot p b =
     \<lparr>ls_id = bat_id b, ls_revision = lp_revision p, ls_remaining = lp_remaining p, ls_status = bat_status b,
      ls_primary = bat_expires_at b, ls_opened_at = bat_opened_at b, ls_secondary_hours = bat_use_within_hours b,
      ls_tertiary_at = bat_tertiary_started_at b, ls_tertiary_hours = bat_tertiary_use_within_hours b,
      ls_effective = effective_batch_expires_at b, ls_excluded_at = lp_excluded_at p,
      ls_excluded_by = lp_excluded_by p, ls_exclusion_reason = lp_exclusion_reason p\<rparr>"

definition no_hours :: "int option \<Rightarrow> bool" where
  "no_hours x \<longleftrightarrow> x = None \<or> x = Some 0"

definition lot_problems :: "instant \<Rightarrow> lot_position \<times> ingredient_batch \<Rightarrow> block_code list" where
  "lot_problems now pb =
     (case pb of (p, b) \<Rightarrow>
        (case lp_remaining p of
           None \<Rightarrow> [Stock_unreconciled]
         | Some q \<Rightarrow>
             if q = 0 \<or> lp_excluded_at p \<noteq> None then []
             else (if bat_status b = Consumed \<or> bat_status b = Discarded then [Stock_unreconciled] else [])
               @ (if bat_expires_at b = None
                     \<or> (bat_status b = Opened \<and> (bat_opened_at b = None \<or> no_hours (bat_use_within_hours b)))
                     \<or> (bat_tertiary_started_at b \<noteq> None \<and> no_hours (bat_tertiary_use_within_hours b))
                  then [Dlc_missing] else [])
               @ (if bat_status b = Expired
                     \<or> (case effective_batch_expires_at b of None \<Rightarrow> False | Some e \<Rightarrow> e \<le> now)
                  then [Expired_batch_not_excluded] else [])))"

definition stock_item :: "int \<Rightarrow> instant \<Rightarrow> stock_db \<Rightarrow> site_db \<Rightarrow> site_stock \<times> ingredient \<Rightarrow> checklist_item" where
  "stock_item site now s db ei =
     (case ei of (e, i) \<Rightarrow>
        let lots = sort_key (\<lambda>pb. bat_id (snd pb)) (lots_at site (ing_id i) s db);
            held = sum_list (map (\<lambda>pb. remaining (fst pb)) lots)
        in \<lparr>ci_key = ''ingredient:'' @ py_str_int (ing_id i), ci_kind = Dlc, ci_target_id = ing_id i,
            ci_snapshot = Dlc_snap (ing_name i) (ing_unit i) (es_physical e) (es_revision e) (es_reconciled_at e)
              (map (\<lambda>(p, b). snap_lot p b) lots),
            ci_problems = py_dedupe (
              (if es_reconciled_at e = None then [Stock_unreconciled] else [])
              @ concat (map (lot_problems now) lots)
              @ (if held \<noteq> es_physical e then [Stock_unreconciled] else []))\<rparr>)"

definition site_stocks :: "int \<Rightarrow> stock_db \<Rightarrow> site_db \<Rightarrow> (site_stock \<times> ingredient) list" where
  "site_stocks site s db =
     sort_key (\<lambda>ei. ing_id (snd ei)) (concat (map (\<lambda>e. if es_establishment_id e = site
        then (case get_ingredient (es_ingredient_id e) s of None \<Rightarrow> [] | Some i \<Rightarrow> [(e, i)]) else []) (si_stocks db)))"

definition build ::
    "int \<Rightarrow> day \<Rightarrow> session_kind \<Rightarrow> instant \<Rightarrow> haccp_db \<Rightarrow> stock_db \<Rightarrow> site_db \<Rightarrow> checklist_item list \<times> blocker list" where
  "build site d kind now h s db =
     (let eqs = site_equipment site h; tasks = site_tasks site h; stocks = site_stocks site s db
      in (map equipment_item (filter (checked_at kind) eqs)
          @ concat (map (task_item site d h) (filter (\<lambda>tc. task_in_session kind (fst tc)) tasks))
          @ map (stock_item site now s db) stocks,
          (if unassigned_equipment h then [(Not_configured, On ''unassigned:haccp_equipment'')] else [])
          @ (if unassigned_task h then [(Not_configured, On ''unassigned:haccp_cleaning_tasks'')] else [])
          @ (if eqs = [] \<or> tasks = [] then [(Not_configured, On ''equipment_or_cleaning_plan'')] else [])
          @ (if unassigned_ingredient s db then [(Not_configured, On ''unassigned_ingredients'')] else [])
          @ (if stocks = [] then [(Not_configured, On ''ingredient_inventory'')] else [])))"

end
