(* ===== verification/Haccp_Strict.thy ===== *)
theory Haccp_Strict
  imports Haccp_Checklist Delivery_Zones
begin

text \<open>
  The strict daily workflow: \<^verbatim>\<open>app/modules/haccp/strict_service.py\<close> and the order gate \<^verbatim>\<open>order_gate.py\<close>. A session
  (opening or closing of one business day) collects evidence for every requirement of its current revision and can
  be validated only without blockers. The operations raise before the caller commits, so an error changes nothing.
  The time-zone database and the database's text order are fields of \<open>haccp_env\<close>; \<open>sid\<close>, \<open>rid\<close> and \<open>eid\<close> are the next
  session, requirement and evidence keys.
\<close>

subsection \<open>Environment and access\<close>

record haccp_env =
  he_now :: instant
  he_local :: "string \<Rightarrow> instant \<Rightarrow> (day \<times> tod) option"
  he_wall :: "string \<Rightarrow> day \<Rightarrow> tod \<Rightarrow> instant option"
  he_rank :: "string \<Rightarrow> int"

record haccp_user =
  hu_id :: int
  hu_role :: string
  hu_impersonation :: bool
  hu_permissions :: "string list"

definition has_permission :: "haccp_user \<Rightarrow> string \<Rightarrow> bool" where
  "has_permission u p \<longleftrightarrow>
     (\<not> hu_impersonation u \<and> (hu_role u = ''admin'' \<or> hu_role u = ''super-admin''))
     \<or> ''*'' \<in> set (hu_permissions u) \<or> p \<in> set (hu_permissions u)"

definition strict_access :: "int \<Rightarrow> haccp_user \<Rightarrow> string \<Rightarrow> establishment list \<Rightarrow> haccp_db \<Rightarrow> establishment res" where
  "strict_access site u p sites h =
     (if (hu_role u \<noteq> ''admin'' \<and> hu_role u \<noteq> ''staff'') \<or> hu_impersonation u \<or> \<not> has_permission u p
      then Inl (AppError ''FORBIDDEN'' 403)
      else case row_get est_id site sites of
        None \<Rightarrow> Inl (AppError ''NOT_FOUND'' 404)
      | Some e \<Rightarrow>
          if hu_role u = ''staff'' \<and> (site, hu_id u) \<notin> set (hd_staff_scopes h)
          then Inl (AppError ''FORBIDDEN'' 403) else Inr e)"

abbreviation not_configured :: app_error where
  "not_configured \<equiv> AppError ''HACCP_NOT_CONFIGURED'' 409"

definition local_now :: "haccp_env \<Rightarrow> establishment \<Rightarrow> (day \<times> tod) res" where
  "local_now env site =
     (case he_local env (est_timezone site) (he_now env) of None \<Rightarrow> Inl not_configured | Some l \<Rightarrow> Inr l)"

definition wall_time :: "haccp_env \<Rightarrow> establishment \<Rightarrow> day \<Rightarrow> tod \<Rightarrow> instant res" where
  "wall_time env site d t =
     (case he_wall env (est_timezone site) d t of None \<Rightarrow> Inl not_configured | Some i \<Rightarrow> Inr i)"

subsection \<open>The business day\<close>

definition site_hours :: "int \<Rightarrow> day \<Rightarrow> haccp_db \<Rightarrow> business_hours list" where
  "site_hours site d h =
     sort_key bh_opens_at (filter (\<lambda>b. bh_establishment_id b = site \<and> bh_day_of_week b = weekday d \<and> bh_active b)
       (hd_hours h))"

definition last_close :: "business_hours list \<Rightarrow> tod" where
  "last_close slots = Max (set (map bh_closes_at slots))"

definition daily :: "int \<Rightarrow> day \<Rightarrow> session_kind \<Rightarrow> haccp_db \<Rightarrow> daily_session option" where
  "daily site d kind h =
     find (\<lambda>w. ses_establishment_id w = site \<and> ses_date w = d \<and> ses_kind w = kind) (hd_sessions h)"

definition opening_day :: "haccp_env \<Rightarrow> establishment \<Rightarrow> day \<Rightarrow> haccp_db \<Rightarrow> day res" where
  "opening_day env site d h =
     rbind (case site_hours (est_id site) (d + 1) h of
              [] \<Rightarrow> Inr d
            | b # _ \<Rightarrow>
                if bh_opens_at b div hours 1 = 0 then
                  rbind (wall_time env site (d + 1) (bh_opens_at b)) (\<lambda>first.
                    Inr (if first - hours 1 \<le> he_now env \<and> he_now env < first then d + 1 else d))
                else Inr d) (\<lambda>d1.
       let slots = site_hours (est_id site) d1 h
       in if slots = [] \<or> (est_id site, d1) \<in> set (hd_closures h) \<or> \<not> est_active site then Inl not_configured
          else
            rbind (wall_time env site d1 (bh_opens_at (slots ! 0))) (\<lambda>first.
            rbind (wall_time env site d1 (last_close slots)) (\<lambda>last1.
              if he_now env < first - hours 1 \<or> he_now env \<ge> last1
              then Inl (AppError ''HACCP_OUTSIDE_CONTROL_WINDOW'' 409) else Inr d1)))"

definition closing_day :: "haccp_env \<Rightarrow> establishment \<Rightarrow> day \<Rightarrow> haccp_db \<Rightarrow> day res" where
  "closing_day env site d h =
     (let slots = site_hours (est_id site) (d - 1) h
      in if slots = [] then Inr d
         else rbind (wall_time env site (d - 1) (last_close slots)) (\<lambda>last1.
           Inr (if (case daily (est_id site) (d - 1) Opening h of None \<Rightarrow> False | Some w \<Rightarrow> ses_status w = Complete)
                   \<and> (case daily (est_id site) (d - 1) Closing h of None \<Rightarrow> True | Some w \<Rightarrow> ses_status w = In_progress)
                   \<and> he_now env \<le> last1 + hours 4
                then d - 1 else d)))"

definition business_day :: "haccp_env \<Rightarrow> establishment \<Rightarrow> session_kind \<Rightarrow> haccp_db \<Rightarrow> day res" where
  "business_day env site kind h =
     rbind (local_now env site) (\<lambda>l.
       case kind of Opening \<Rightarrow> opening_day env site (fst l) h | Closing \<Rightarrow> closing_day env site (fst l) h)"

definition get_check :: "int \<Rightarrow> int \<Rightarrow> haccp_db \<Rightarrow> daily_session res" where
  "get_check site k h =
     (case find (\<lambda>w. ses_id w = k \<and> ses_establishment_id w = site) (hd_sessions h) of
        None \<Rightarrow> Inl (AppError ''NOT_FOUND'' 404) | Some w \<Rightarrow> Inr w)"

subsection \<open>Requirements, evidence, audit\<close>

definition audit ::
    "haccp_env \<Rightarrow> int \<Rightarrow> int option \<Rightarrow> haccp_user \<Rightarrow> string \<Rightarrow> string \<Rightarrow> audit_data \<Rightarrow> audit_data \<Rightarrow> audit_subject \<Rightarrow> haccp_db \<Rightarrow> haccp_db" where
  "audit env site ses u action reason before after subject h =
     h\<lparr>hd_audits := hd_audits h @ [\<lparr>au_establishment_id = site, au_session_id = ses, au_actor = hu_id u,
        au_action = action, au_subject = subject, au_reason = reason, au_before = before, au_after = after,
        au_at = he_now env\<rparr>]\<rparr>"

definition requirements :: "haccp_env \<Rightarrow> daily_session \<Rightarrow> haccp_db \<Rightarrow> requirement list" where
  "requirements env w h =
     sort_key (\<lambda>r. he_rank env (rq_key r))
       (filter (\<lambda>r. rq_session_id r = ses_id w \<and> rq_session_revision r = ses_revision w) (hd_requirements h))"

text \<open>Equality of the dictionaries that two association lists (last entry wins) denote.\<close>

definition same_dict :: "('k \<times> 'v) list \<Rightarrow> ('k \<times> 'v) list \<Rightarrow> bool" where
  "same_dict xs ys \<longleftrightarrow> list_all (\<lambda>k. map_of (rev xs) k = map_of (rev ys) k) (map fst xs @ map fst ys)"

definition signatures :: "checklist_item list \<Rightarrow> (string \<times> snapshot) list" where
  "signatures its = map (\<lambda>i. (ci_key i, ci_snapshot i)) its"

definition stored_signatures :: "requirement list \<Rightarrow> (string \<times> snapshot) list" where
  "stored_signatures rs = map (\<lambda>r. (rq_key r, rq_snapshot r)) rs"

definition new_requirement :: "daily_session \<Rightarrow> int \<Rightarrow> checklist_item \<Rightarrow> requirement" where
  "new_requirement w rid i =
     \<lparr>rq_id = rid, rq_session_id = ses_id w, rq_establishment_id = ses_establishment_id w,
      rq_session_revision = ses_revision w, rq_key = ci_key i, rq_kind = ci_kind i, rq_target_id = ci_target_id i,
      rq_snapshot = ci_snapshot i\<rparr>"

definition requirement_lots :: "daily_session \<Rightarrow> int \<Rightarrow> checklist_item \<Rightarrow> requirement_batch list" where
  "requirement_lots w rid i =
     (case ci_snapshot i of
        Dlc_snap _ _ _ _ _ lots \<Rightarrow>
          map (\<lambda>l. \<lparr>rb_requirement_id = rid, rb_batch_id = ls_id l, rb_establishment_id = ses_establishment_id w,
                   rb_ingredient_id = ci_target_id i, rb_batch_revision = ls_revision l,
                   rb_effective = ls_effective l\<rparr>) lots
      | _ \<Rightarrow> [])"

fun replace_requirements :: "daily_session \<Rightarrow> int \<Rightarrow> checklist_item list \<Rightarrow> haccp_db \<Rightarrow> haccp_db" where
  "replace_requirements w rid [] h = h"
| "replace_requirements w rid (i # its) h =
     replace_requirements w (rid + 1) its
       (h\<lparr>hd_requirements := hd_requirements h @ [new_requirement w rid i],
         hd_requirement_batches := hd_requirement_batches h @ requirement_lots w rid i\<rparr>)"

definition missing_closings :: "int \<Rightarrow> day \<Rightarrow> haccp_db \<Rightarrow> day list" where
  "missing_closings site before h =
     (case Option.bind (row_get ops_establishment_id site (hd_operations h)) ops_activated_at of
        None \<Rightarrow> []
      | Some activated \<Rightarrow>
          map ses_date (filter (\<lambda>w. case daily site (ses_date w) Closing h of None \<Rightarrow> True
                | Some c \<Rightarrow> ses_status c \<noteq> Complete \<and> ses_status c \<noteq> Regularized)
            (sort_key ses_date (filter (\<lambda>w. ses_establishment_id w = site \<and> ses_kind w = Opening \<and> ses_status w = Complete
                \<and> (case ses_validated_at w of None \<Rightarrow> False | Some v \<Rightarrow> activated \<le> v) \<and> ses_date w < before)
              (hd_sessions h)))))"

definition latest_by_key :: "daily_session \<Rightarrow> haccp_db \<Rightarrow> (string \<times> evidence) list" where
  "latest_by_key w h =
     fold (\<lambda>e d. fold (\<lambda>r d. dict_set (rq_key r) e d)
            (filter (\<lambda>r. rq_id r = ev_requirement_id e \<and> rq_session_id r = ses_id w) (hd_requirements h)) d)
       (sort_key ev_id (hd_evidence h)) []"

definition latest_evidence :: "int \<Rightarrow> haccp_db \<Rightarrow> evidence option" where
  "latest_evidence rid h =
     (case sort_key (\<lambda>e. - ev_id e) (filter (\<lambda>e. ev_requirement_id e = rid) (hd_evidence h)) of
        [] \<Rightarrow> None | e # _ \<Rightarrow> Some e)"

subsection \<open>Evaluation\<close>

fun missing_code :: "requirement_kind \<Rightarrow> block_code" where
  "missing_code Temperature = Temperature_missing"
| "missing_code Cleaning = Cleaning_missing"
| "missing_code Dlc = Dlc_confirmation_missing"

fun noncompliant_code :: "requirement_kind \<Rightarrow> block_code" where
  "noncompliant_code Temperature = Temperature_noncompliant"
| "noncompliant_code Cleaning = Cleaning_noncompliant"
| "noncompliant_code Dlc = Dlc_confirmation_missing"

definition expected_problems :: "string \<Rightarrow> checklist_item list \<Rightarrow> block_code list" where
  "expected_problems key expected =
     (case map_of (rev (map (\<lambda>i. (ci_key i, i)) expected)) key of None \<Rightarrow> [] | Some i \<Rightarrow> ci_problems i)"

definition evaluate_item :: "checklist_item list \<Rightarrow> haccp_db \<Rightarrow> requirement \<Rightarrow> report_item" where
  "evaluate_item expected h r =
     (let ev = latest_evidence (rq_id r) h;
          problems = expected_problems (rq_key r) expected
            @ (case ev of None \<Rightarrow> [missing_code (rq_kind r)]
               | Some e \<Rightarrow> if ev_compliant e then [] else [noncompliant_code (rq_kind r)])
      in \<lparr>rpi_id = rq_id r, rpi_kind = rq_kind r, rpi_snapshot = rq_snapshot r, rpi_blockers = py_dedupe problems,
          rpi_evidence = ev\<rparr>)"

definition is_stale :: "haccp_env \<Rightarrow> establishment \<Rightarrow> daily_session \<Rightarrow> checklist_item list \<Rightarrow> haccp_db \<Rightarrow> bool" where
  "is_stale env site w expected h \<longleftrightarrow>
     \<not> same_dict (stored_signatures (requirements env w h)) (signatures expected) \<or> ses_timezone w \<noteq> est_timezone site"

definition unresolved :: "daily_session \<Rightarrow> checklist_item list \<Rightarrow> haccp_db \<Rightarrow> blocker list" where
  "unresolved w expected h =
     map (\<lambda>ke. (Unresolved_noncompliance, On (fst ke)))
       (filter (\<lambda>ke. fst ke \<notin> ci_key ` set expected \<and> \<not> ev_compliant (snd ke)) (latest_by_key w h))"

definition day_blockers :: "establishment \<Rightarrow> daily_session \<Rightarrow> haccp_db \<Rightarrow> blocker list" where
  "day_blockers site w h =
     (case ses_kind w of
        Opening \<Rightarrow>
          map (\<lambda>d. (Previous_closing_missing, On_day d)) (missing_closings (est_id site) (ses_date w) h)
          @ (case daily (est_id site) (ses_date w) Closing h of None \<Rightarrow> []
             | Some c \<Rightarrow> if ses_status c = Complete \<or> ses_status c = Regularized
                        then [(Day_closed, On ''daily_closing'')] else [])
      | Closing \<Rightarrow>
          (case daily (est_id site) (ses_date w) Opening h of
             None \<Rightarrow> [(Opening_missing, On ''daily_opening'')]
           | Some c \<Rightarrow> if ses_status c \<noteq> Complete then [(Opening_missing, On ''daily_opening'')] else []))"

definition evaluate ::
    "haccp_env \<Rightarrow> establishment \<Rightarrow> daily_session \<Rightarrow> bool \<Rightarrow> haccp_db \<Rightarrow> stock_db \<Rightarrow> site_db \<Rightarrow> report" where
  "evaluate env site w live h s db =
     (let stored = requirements env w h;
          (expected, general) = (if live then build (est_id site) (ses_date w) (ses_kind w) (he_now env) h s db else ([], []));
          items = map (evaluate_item expected h) stored;
          blockers = general
            @ (if live \<and> is_stale env site w expected h then [(Evidence_stale, On ''checklist'')] else [])
            @ (if live then unresolved w expected h else [])
            @ concat (map (\<lambda>r. map (\<lambda>c. (c, On (rq_key r))) (rpi_blockers (evaluate_item expected h r))) stored)
            @ (if live then day_blockers site w h else [])
      in \<lparr>rep_id = ses_id w, rep_establishment_id = est_id site, rep_date = ses_date w, rep_kind = ses_kind w,
          rep_revision = ses_revision w, rep_status = ses_status w, rep_validated_by = ses_validated_by w,
          rep_validated_at = ses_validated_at w, rep_items = items, rep_blockers = blockers,
          rep_can_validate = (live \<and> ses_status w = In_progress \<and> blockers = [])\<rparr>)"

subsection \<open>Starting a session\<close>

definition upd_session :: "daily_session \<Rightarrow> haccp_db \<Rightarrow> haccp_db" where
  "upd_session w h = h\<lparr>hd_sessions := row_upd ses_id (ses_id w) (\<lambda>_. w) (hd_sessions h)\<rparr>"

definition start ::
    "haccp_env \<Rightarrow> int \<Rightarrow> int \<Rightarrow> establishment \<Rightarrow> session_kind \<Rightarrow> haccp_user \<Rightarrow> stock_db \<Rightarrow> site_db \<Rightarrow> haccp_db
      \<Rightarrow> (report \<times> haccp_db) res" where
  "start env sid rid site kind u s db h =
     rbind (business_day env site kind h) (\<lambda>d.
       let expected = (\<lambda>h1. fst (build (est_id site) d kind (he_now env) h1 s db));
           (w, h') = (case daily (est_id site) d kind h of
             None \<Rightarrow>
               let w = \<lparr>ses_id = sid, ses_establishment_id = est_id site, ses_date = d, ses_timezone = est_timezone site,
                       ses_kind = kind, ses_status = In_progress, ses_revision = 1, ses_validated_by = None,
                       ses_validated_at = None\<rparr>;
                   h1 = h\<lparr>hd_sessions := hd_sessions h @ [w]\<rparr>
               in (w, audit env (est_id site) (Some sid) u ''session_started'' ''Controle quotidien commence'' No_data No_data
                        (Sub_session sid) (replace_requirements w rid (expected h1) h1))
           | Some w \<Rightarrow>
               if ses_status w = In_progress \<and> is_stale env site w (expected h) h then
                 let w1 = w\<lparr>ses_revision := ses_revision w + 1, ses_timezone := est_timezone site\<rparr>
                 in (w1, audit env (est_id site) (Some (ses_id w)) u ''checklist_refreshed''
                       ''Configuration ou lots modifies : nouvelles preuves requises'' (Revision_data (ses_revision w))
                       (Revision_data (ses_revision w1)) (Sub_session (ses_id w))
                       (replace_requirements w1 rid (expected h) (upd_session w1 h)))
               else (w, h))
       in Inr (evaluate env site w (ses_status w = In_progress) h' s db, h'))"

subsection \<open>Recording evidence and validating\<close>

definition current_write ::
    "haccp_env \<Rightarrow> establishment \<Rightarrow> daily_session \<Rightarrow> int \<Rightarrow> stock_db \<Rightarrow> site_db \<Rightarrow> haccp_db \<Rightarrow> report res" where
  "current_write env site w revision s db h =
     rbind (business_day env site (ses_kind w) h) (\<lambda>d.
       if ses_date w \<noteq> d then Inl (AppError ''HACCP_CONTROL_DATE_INVALID'' 409)
       else if ses_revision w \<noteq> revision then Inl (AppError ''HACCP_EVIDENCE_STALE'' 409)
       else if ses_status w \<noteq> In_progress then Inl (AppError ''HACCP_SESSION_FINALIZED'' 409)
       else let rep = evaluate env site w True h s db
            in if Evidence_stale \<in> fst ` set (rep_blockers rep) then Inl (AppError ''HACCP_EVIDENCE_STALE'' 409)
               else Inr rep)"

definition replay ::
    "daily_session \<Rightarrow> haccp_user \<Rightarrow> string \<Rightarrow> strict_body \<Rightarrow> haccp_db \<Rightarrow> strict_result option res" where
  "replay w u action body h =
     (case find (\<lambda>a. au_session_id a = Some (ses_id w) \<and> au_subject a = Sub_request (sb_key body)) (hd_audits h) of
        None \<Rightarrow> Inr None
      | Some a \<Rightarrow>
          (case au_after a of
             Receipt_data digest revision result \<Rightarrow>
               if digest \<noteq> (action, hu_id u, body) then Inl (AppError ''HACCP_IDEMPOTENCY_CONFLICT'' 409)
               else if revision \<noteq> ses_revision w then Inl (AppError ''HACCP_EVIDENCE_STALE'' 409)
               else Inr (Some result)
           | _ \<Rightarrow> Inl PyTypeError))"

definition receipt ::
    "haccp_env \<Rightarrow> daily_session \<Rightarrow> haccp_user \<Rightarrow> string \<Rightarrow> string \<Rightarrow> strict_body \<Rightarrow> strict_result \<Rightarrow> haccp_db \<Rightarrow> haccp_db" where
  "receipt env w u action recorded body result h =
     audit env (ses_establishment_id w) (Some (ses_id w)) u recorded ''Requete HACCP tracee'' No_data
       (Receipt_data (action, hu_id u, body) (ses_revision w) result) (Sub_request (sb_key body)) h"

definition temperature_ok :: "snapshot \<Rightarrow> rat \<Rightarrow> bool" where
  "temperature_ok snap t =
     (case snap of
        Temperature_snap _ lo hi \<Rightarrow>
          \<not> (lo = None \<and> hi = None) \<and> (case lo of None \<Rightarrow> True | Some a \<Rightarrow> t \<ge> a) \<and> (case hi of None \<Rightarrow> True | Some b \<Rightarrow> t \<le> b)
      | _ \<Rightarrow> False)"

definition needs_admin :: "snapshot \<Rightarrow> bool" where
  "needs_admin snap = (case snap of Cleaning_snap _ _ _ _ role _ \<Rightarrow> role = ''admin'' | _ \<Rightarrow> False)"

text \<open>What the user's statement is worth before automatic findings are considered.\<close>

definition claimed :: "haccp_user \<Rightarrow> report_item \<Rightarrow> evidence_value \<Rightarrow> bool res" where
  "claimed u t v =
     (if rpi_kind t = Temperature then
        (case (ei_temperature v, ei_confirmed v) of
           (Some x, None) \<Rightarrow> Inr (temperature_ok (rpi_snapshot t) x)
         | _ \<Rightarrow> Inl (AppError ''HACCP_INVALID_EVIDENCE'' 422))
      else
        (case (ei_confirmed v, ei_temperature v) of
           (Some c, None) \<Rightarrow>
             if rpi_kind t = Cleaning \<and> needs_admin (rpi_snapshot t) \<and> hu_role u \<noteq> ''admin''
             then Inl (AppError ''FORBIDDEN'' 403) else Inr c
         | _ \<Rightarrow> Inl (AppError ''HACCP_INVALID_EVIDENCE'' 422)))"

definition judge :: "haccp_user \<Rightarrow> report \<Rightarrow> (string \<times> evidence) list \<Rightarrow> requirement list \<Rightarrow> evidence_value \<Rightarrow> bool res" where
  "judge u rep history reqs v =
     (case find (\<lambda>t. rpi_id t = ei_requirement_id v) (rev (rep_items rep)) of
        None \<Rightarrow> Inl (AppError ''NOT_FOUND'' 404)
      | Some t \<Rightarrow>
          rbind (claimed u t v) (\<lambda>compliant.
            case row_get rq_id (ei_requirement_id v) (rev reqs) of
              None \<Rightarrow> Inl PyKeyError
            | Some r \<Rightarrow>
                if (case map_of history (rq_key r) of None \<Rightarrow> False | Some e \<Rightarrow> \<not> ev_compliant e) \<and> compliant
                   \<and> py_strip (case ei_corrective v of None \<Rightarrow> [] | Some t \<Rightarrow> t) = []
                then Inl (AppError ''HACCP_CORRECTION_REQUIRED'' 422)
                else Inr (if rpi_kind t = Dlc
                     then compliant \<and> \<not> list_ex (\<lambda>c. c \<noteq> Dlc_confirmation_missing) (rpi_blockers t)
                     else compliant)))"

fun evidence_rows ::
    "haccp_env \<Rightarrow> establishment \<Rightarrow> daily_session \<Rightarrow> haccp_user \<Rightarrow> string \<Rightarrow> int \<Rightarrow> (evidence_value \<times> bool) list \<Rightarrow> evidence list" where
  "evidence_rows env site w u key eid [] = []"
| "evidence_rows env site w u key eid ((v, ok) # rest) =
     \<lparr>ev_id = eid, ev_establishment_id = est_id site, ev_session_id = ses_id w, ev_requirement_id = ei_requirement_id v,
      ev_key = (key, ei_requirement_id v), ev_compliant = ok, ev_payload = v, ev_recorded_by = hu_id u,
      ev_recorded_at = he_now env\<rparr> # evidence_rows env site w u key (eid + 1) rest"

definition record_evidence ::
    "haccp_env \<Rightarrow> int \<Rightarrow> establishment \<Rightarrow> daily_session \<Rightarrow> strict_body \<Rightarrow> haccp_user \<Rightarrow> stock_db \<Rightarrow> site_db \<Rightarrow> haccp_db
      \<Rightarrow> (strict_result \<times> haccp_db) res" where
  "record_evidence env eid site w body u s db h =
     rbind (replay w u ''evidence_recorded'' body h) (\<lambda>cached.
       case cached of
         Some r \<Rightarrow> Inr (r, h)
       | None \<Rightarrow>
           rbind (current_write env site w (sb_expected_revision body) s db h) (\<lambda>rep.
           rbind (mapE (judge u rep (latest_by_key w h) (requirements env w h)) (sb_items body)) (\<lambda>oks.
             let h1 = h\<lparr>hd_evidence := hd_evidence h @ evidence_rows env site w u (sb_key body) eid (zip (sb_items body) oks)\<rparr>;
                 result = Report_result (evaluate env site w True h1 s db)
             in Inr (result, receipt env w u ''evidence_recorded'' ''evidence_recorded'' body result h1))))"

definition complete ::
    "haccp_env \<Rightarrow> establishment \<Rightarrow> daily_session \<Rightarrow> strict_body \<Rightarrow> haccp_user \<Rightarrow> stock_db \<Rightarrow> site_db \<Rightarrow> haccp_db
      \<Rightarrow> (strict_result \<times> haccp_db) res" where
  "complete env site w body u s db h =
     rbind (replay w u ''session_completed'' body h) (\<lambda>cached.
       case cached of
         Some r \<Rightarrow> Inr (r, h)
       | None \<Rightarrow>
           rbind (current_write env site w (sb_expected_revision body) s db h) (\<lambda>rep.
             if rep_can_validate rep then
               let w1 = w\<lparr>ses_status := Complete, ses_validated_by := Some (hu_id u), ses_validated_at := Some (he_now env)\<rparr>;
                   h1 = upd_session w1 h; result = Report_result (evaluate env site w1 False h1 s db)
               in Inr (result, receipt env w1 u ''session_completed'' ''session_completed'' body result h1)
             else Inr (Report_result rep, receipt env w u ''session_completed'' ''validation_refused'' body (Report_result rep) h)))"

subsection \<open>Forgotten closings and reopening\<close>

fun prepare_days ::
    "haccp_env \<Rightarrow> int \<Rightarrow> establishment \<Rightarrow> haccp_user \<Rightarrow> day list \<Rightarrow> haccp_db \<Rightarrow> (int \<times> day \<times> int) list \<times> haccp_db" where
  "prepare_days env sid site u [] h = ([], h)"
| "prepare_days env sid site u (d # ds) h =
     (let (w, h1) = (case daily (est_id site) d Closing h of
            Some w \<Rightarrow> (w, h)
          | None \<Rightarrow>
              let w = \<lparr>ses_id = sid, ses_establishment_id = est_id site, ses_date = d, ses_timezone = est_timezone site,
                      ses_kind = Closing, ses_status = In_progress, ses_revision = 1, ses_validated_by = None,
                      ses_validated_at = None\<rparr>
              in (w, audit env (est_id site) (Some sid) u ''missed_closing_identified'' ''Fermeture oubliee identifiee maintenant''
                     No_data No_data (Sub_session sid) (h\<lparr>hd_sessions := hd_sessions h @ [w]\<rparr>)));
          (rest, h2) = prepare_days env (sid + 1) site u ds h1
      in ((ses_id w, d, ses_revision w) # rest, h2))"

definition prepare_regularization ::
    "haccp_env \<Rightarrow> int \<Rightarrow> establishment \<Rightarrow> haccp_user \<Rightarrow> haccp_db \<Rightarrow> ((int \<times> day \<times> int) list \<times> haccp_db) res" where
  "prepare_regularization env sid site u h =
     rbind (local_now env site) (\<lambda>l. Inr (prepare_days env sid site u (missing_closings (est_id site) (fst l) h) h))"

definition regularize ::
    "haccp_env \<Rightarrow> establishment \<Rightarrow> daily_session \<Rightarrow> strict_body \<Rightarrow> haccp_user \<Rightarrow> haccp_db \<Rightarrow> (strict_result \<times> haccp_db) res" where
  "regularize env site w body u h =
     rbind (replay w u ''closing_regularized'' body h) (\<lambda>cached.
       case cached of
         Some r \<Rightarrow> Inr (r, h)
       | None \<Rightarrow>
           if ses_revision w \<noteq> sb_expected_revision body then Inl (AppError ''HACCP_EVIDENCE_STALE'' 409)
           else if ses_kind w \<noteq> Closing \<or> ses_status w \<noteq> In_progress then Inl (AppError ''HACCP_REGULARIZATION_INVALID'' 409)
           else rbind (local_now env site) (\<lambda>l.
             if ses_date w \<notin> set (missing_closings (est_id site) (fst l) h)
             then Inl (AppError ''HACCP_REGULARIZATION_INVALID'' 409)
             else
               let w1 = w\<lparr>ses_status := Regularized, ses_validated_by := Some (hu_id u), ses_validated_at := Some (he_now env)\<rparr>;
                   h1 = upd_session w1 (h\<lparr>hd_regularizations := hd_regularizations h @
                     [\<lparr>rg_establishment_id = est_id site, rg_closing_session_id = ses_id w, rg_reason = sb_reason body,
                       rg_actions = sb_actions body, rg_recorded_by = hu_id u, rg_recorded_at = he_now env\<rparr>]\<rparr>);
                   result = Regularized_result (ses_id w) (ses_date w) (he_now env)
               in Inr (result, audit env (est_id site) (Some (ses_id w)) u ''regularization_explanation'' (sb_reason body) No_data
                      (Actions_data (sb_actions body)) (Sub_session (ses_id w))
                      (receipt env w1 u ''closing_regularized'' ''closing_regularized'' body result h1))))"

definition revalidate ::
    "haccp_env \<Rightarrow> int \<Rightarrow> establishment \<Rightarrow> strict_body \<Rightarrow> haccp_user \<Rightarrow> stock_db \<Rightarrow> site_db \<Rightarrow> daily_session \<Rightarrow> haccp_db
      \<Rightarrow> daily_session \<times> haccp_db" where
  "revalidate env rid site body u s db w h =
     (let w1 = w\<lparr>ses_status := In_progress, ses_validated_by := None, ses_validated_at := None, ses_revision := ses_revision w + 1\<rparr>;
          h1 = upd_session w1 h;
          expected = fst (build (est_id site) (ses_date w) (ses_kind w) (he_now env) h1 s db)
      in (w1, audit env (est_id site) (Some (ses_id w)) u ''revalidation_required'' (sb_reason body)
               (Session_data (ses_status w) (ses_revision w) (ses_validated_by w) (ses_validated_at w))
               (Revalidation_data (ses_revision w1) (sb_actions body)) (Sub_session (ses_id w))
               (replace_requirements w1 rid expected h1)))"

definition reopen ::
    "haccp_env \<Rightarrow> int \<Rightarrow> int \<Rightarrow> establishment \<Rightarrow> daily_session \<Rightarrow> strict_body \<Rightarrow> haccp_user \<Rightarrow> stock_db \<Rightarrow> site_db \<Rightarrow> haccp_db
      \<Rightarrow> (strict_result \<times> haccp_db) res" where
  "reopen env rid1 rid2 site w body u s db h =
     rbind (replay w u ''day_reopened'' body h) (\<lambda>cached.
       case cached of
         Some r \<Rightarrow> Inr (r, h)
       | None \<Rightarrow>
           if ses_kind w \<noteq> Opening \<or> ses_status w \<noteq> Complete \<or> ses_revision w \<noteq> sb_expected_revision body
           then Inl (AppError ''HACCP_REOPEN_INVALID'' 409)
           else rbind (business_day env site Opening h) (\<lambda>d.
             if ses_date w \<noteq> d then Inl (AppError ''HACCP_REOPEN_INVALID'' 409)
             else case daily (est_id site) (ses_date w) Closing h of
               None \<Rightarrow> Inl (AppError ''HACCP_REOPEN_INVALID'' 409)
             | Some c \<Rightarrow>
                 if ses_status c \<noteq> Complete then Inl (AppError ''HACCP_REOPEN_INVALID'' 409)
                 else
                   let (w1, h1) = revalidate env rid1 site body u s db w h;
                       (c1, h2) = revalidate env rid2 site body u s db c h1;
                       result = Report_result (evaluate env site w1 True h2 s db)
                   in Inr (result, receipt env w1 u ''day_reopened'' ''day_reopened'' body result h2)))"

subsection \<open>The decision and the order gate\<close>

record haccp_decision =
  hc_date :: day
  hc_satisfied :: bool
  hc_blockers :: "blocker list"
  hc_strict :: bool

definition decision :: "haccp_env \<Rightarrow> establishment \<Rightarrow> stock_db \<Rightarrow> site_db \<Rightarrow> haccp_db \<Rightarrow> haccp_decision res" where
  "decision env site s db h =
     rbind (local_now env site) (\<lambda>l.
       let d = fst l; config = row_get ops_establishment_id (est_id site) (hd_operations h);
           opening = daily (est_id site) d Opening h; closing = daily (est_id site) d Closing h;
           reasons =
             (if config = None \<or> \<not> est_active site then [(Not_configured, On ''establishment'')] else [])
             @ (case opening of None \<Rightarrow> [(Opening_missing, On ''daily_opening'')]
                | Some w \<Rightarrow> if ses_status w \<noteq> Complete then [(Opening_missing, On ''daily_opening'')] else [])
             @ (case closing of None \<Rightarrow> []
                | Some w \<Rightarrow> if ses_status w = Complete \<or> ses_status w = Regularized
                           then [(Day_closed, On ''daily_closing'')] else [])
             @ map (\<lambda>x. (Previous_closing_missing, On_day x)) (missing_closings (est_id site) d h)
             @ (case opening of None \<Rightarrow> []
                | Some w \<Rightarrow> if ses_status w = In_progress then rep_blockers (evaluate env site w True h s db) else [])
       in Inr \<lparr>hc_date = d, hc_satisfied = (reasons = []), hc_blockers = reasons,
               hc_strict = (case config of None \<Rightarrow> False | Some c \<Rightarrow> ops_strict c)\<rparr>)"

definition enforce_ordering ::
    "haccp_env \<Rightarrow> int \<Rightarrow> int list \<Rightarrow> establishment list \<Rightarrow> stock_db \<Rightarrow> site_db \<Rightarrow> haccp_db \<Rightarrow> unit res" where
  "enforce_ordering env site_id pids sites s db h =
     (case find (\<lambda>e. est_id e = site_id \<and> est_active e) sites of
        None \<Rightarrow> Inl (AppError ''ESTABLISHMENT_NOT_FOUND'' 404)
      | Some site \<Rightarrow>
          if (case row_get ops_establishment_id site_id (hd_operations h) of None \<Rightarrow> True | Some c \<Rightarrow> \<not> ops_strict c)
          then Inr ()
          else rbind (decision env site s db h) (\<lambda>hc.
            if \<not> hc_satisfied hc then Inl (AppError ''HACCP_ORDERING_BLOCKED'' 409)
            else if list_ex (\<lambda>pa. \<not> sa_available (snd pa)) (site_product_availability site_id pids (he_now env) s db)
            then Inl (AppError ''HACCP_STOCK_UNAVAILABLE'' 409)
            else Inr ()))"

end
