(* ===== verification/Orders_Create.thy ===== *)
theory Orders_Create
  imports Orders_Status Haccp_Strict
begin

text \<open>
  Creating an order: \<^verbatim>\<open>create_order\<close> of \<^verbatim>\<open>app/modules/orders/service.py\<close> with everything it resolves from the
  catalogue, the promotion codes, the loyalty programme, the delivery zones and the hygiene gate. The client sends
  references and quantities only; every price is computed here. All writes happen in one transaction, so an error
  leaves the shop as it was. Not represented: the row of the staff audit log that a redeemed reward leaves, and
  message texts.
\<close>

subsection \<open>Requests\<close>

record extra_request =
  xq_extra_id :: int
  xq_quantity :: int

record line_request =
  lq_product_id :: int
  lq_variant_id :: "int option"
  lq_quantity :: int
  lq_extras :: "extra_request list"

record selection_request =
  sq_group_id :: int
  sq_line :: line_request

record menu_request =
  mq_menu_id :: int
  mq_quantity :: int
  mq_selections :: "selection_request list"

record order_body =
  ob_establishment_id :: "int option"
  ob_order_type :: order_type
  ob_customer_email :: "string option"
  ob_customer_name :: "string option"
  ob_customer_phone :: "string option"
  ob_delivery_address :: "string option"
  ob_delivery_zone_id :: "int option"
  ob_delivery_lat :: "rat option"
  ob_delivery_lng :: "rat option"
  ob_delivery_instructions :: "string option"
  ob_promo_code :: "string option"
  ob_items :: "line_request list"
  ob_menu_items :: "menu_request list"
  ob_loyalty_points :: int
  ob_loyalty_reward_id :: "int option"

text \<open>The keyword arguments of \<^verbatim>\<open>create_order\<close>.\<close>

record create_call =
  cc_user_id :: "int option"
  cc_key :: "string option"
  cc_created_by :: "int option"
  cc_source :: order_source
  cc_table_number :: "string option"
  cc_customer_name :: "string option"
  cc_customer_phone :: "string option"
  cc_commit :: bool
  cc_skip_lookup :: bool

text \<open>What the surroundings supply: the clock and hygiene environment, text-to-float and time-zone conversion, the
  verified e-mail addresses, and the keys the database draws next (orders, lines, loyalty accounts).\<close>

record create_env =
  ce_haccp :: haccp_env
  ce_float :: "string \<Rightarrow> real option"
  ce_tz :: "string option \<Rightarrow> instant \<Rightarrow> day \<times> tod"
  ce_verified :: "int \<Rightarrow> bool"
  ce_order_key :: int
  ce_item_key :: int
  ce_account_key :: int

abbreviation ce_now :: "create_env \<Rightarrow> instant" where
  "ce_now env \<equiv> he_now (ce_haccp env)"

text \<open>\<^verbatim>\<open>not x\<close> and \<^verbatim>\<open>x or y\<close> on optional texts.\<close>

definition blank_text :: "string option \<Rightarrow> bool" where
  "blank_text t \<longleftrightarrow> t = None \<or> t = Some []"

definition or_text :: "string option \<Rightarrow> string option \<Rightarrow> string option" where
  "or_text a b = (if blank_text a then b else a)"

subsection \<open>Lines from the catalogue\<close>

record resolved_line =
  rs_request :: line_request
  rs_product :: product
  rs_unit_price :: rat
  rs_variant_name :: "string option"
  rs_extras :: "extra_line list"
  rs_extras_unit_total :: rat
  rs_station :: station

definition resolve_extra :: "catalog \<Rightarrow> int \<Rightarrow> extra_request \<Rightarrow> extra_line res" where
  "resolve_extra cat pid rq =
     (case find (\<lambda>x. ext_id x = xq_extra_id rq \<and> ext_active x \<and> (pid, ext_id x) \<in> set (cat_product_extras cat))
             (cat_extras cat) of
        None \<Rightarrow> Inl (AppError ''EXTRA_NOT_FOUND'' 404)
      | Some x \<Rightarrow>
          Inr \<lparr>xl_extra_id = ext_id x, xl_name = ext_name x, xl_quantity = xq_quantity rq,
               xl_unit_price = money (ext_price x), xl_total = money (money (ext_price x) * of_int (xq_quantity rq))\<rparr>)"

definition resolve_extras :: "catalog \<Rightarrow> int \<Rightarrow> extra_request list \<Rightarrow> (extra_line list \<times> rat) res" where
  "resolve_extras cat pid rqs =
     rbind (mapE (resolve_extra cat pid) rqs) (\<lambda>ls. Inr (ls, money (sum_list (map xl_total ls))))"

definition resolve_preparation_station :: "catalog \<Rightarrow> product \<Rightarrow> station" where
  "resolve_preparation_station cat p =
     (case prod_station p of
        Some s \<Rightarrow> s
      | None \<Rightarrow>
          (case Option.bind (prod_category_id p) (\<lambda>c. Option.bind (row_get cat_id c (cat_categories cat)) cat_station) of
             Some s \<Rightarrow> s | None \<Rightarrow> Kitchen))"

definition resolve_variant :: "catalog \<Rightarrow> line_request \<Rightarrow> (rat \<times> string option) res" where
  "resolve_variant cat lq =
     (case lq_variant_id lq of
        None \<Rightarrow> Inr (0, None)
      | Some v \<Rightarrow>
          (case row_get var_id v (cat_variants cat) of
             None \<Rightarrow> Inl (AppError ''PRODUCT_NOT_FOUND'' 404)
           | Some r \<Rightarrow>
               if \<not> var_active r \<or> var_product_id r \<noteq> lq_product_id lq then Inl (AppError ''PRODUCT_NOT_FOUND'' 404)
               else Inr (var_price_delta r, Some (var_name r))))"

definition resolve_catalog_item :: "catalog \<Rightarrow> line_request \<Rightarrow> resolved_line res" where
  "resolve_catalog_item cat lq =
     (case row_get prod_id (lq_product_id lq) (cat_products cat) of
        None \<Rightarrow> Inl (AppError ''PRODUCT_NOT_FOUND'' 404)
      | Some p \<Rightarrow>
          if \<not> prod_active p then Inl (AppError ''PRODUCT_NOT_FOUND'' 404)
          else
            rbind (resolve_variant cat lq) (\<lambda>(delta, vname).
            rbind (resolve_extras cat (lq_product_id lq) (lq_extras lq)) (\<lambda>(xs, xtotal).
              Inr \<lparr>rs_request = lq, rs_product = p, rs_unit_price = money (prod_base_price p + delta + xtotal),
                   rs_variant_name = vname, rs_extras = xs, rs_extras_unit_total = xtotal,
                   rs_station = resolve_preparation_station cat p\<rparr>)))"

subsection \<open>Availability shown and enforced by the catalogue\<close>

text \<open>\<^verbatim>\<open>_availability_map\<close> of \<^verbatim>\<open>app/modules/catalog/service.py\<close>. Reading the stock marks expired batches.\<close>

record product_status =
  ps_product_id :: int
  ps_available :: bool
  ps_limiting :: "string option"
  ps_reason :: "string option"
  ps_overridden :: bool

definition stock_status :: "int \<Rightarrow> product_availability option \<Rightarrow> product_status" where
  "stock_status p pa =
     (case pa of
        None \<Rightarrow> \<lparr>ps_product_id = p, ps_available = True, ps_limiting = None, ps_reason = None, ps_overridden = False\<rparr>
      | Some a \<Rightarrow>
          \<lparr>ps_product_id = p, ps_available = pa_available a, ps_limiting = pa_limiting a,
           ps_reason = (if \<not> pa_available a \<and> blank_text (pa_reason a)
             then Some (stock_unavailable_reason (pa_limiting a)) else pa_reason a),
           ps_overridden = False\<rparr>)"

definition overridden_status :: "availability_override option \<Rightarrow> product_status \<Rightarrow> product_status" where
  "overridden_status ov st =
     (case ov of
        None \<Rightarrow> st
      | Some o1 \<Rightarrow>
          if \<not> ov_available o1 then st\<lparr>ps_available := False, ps_reason := ov_reason o1, ps_overridden := True\<rparr>
          else if ps_available st then st\<lparr>ps_reason := ov_reason o1, ps_overridden := True\<rparr>
          else st)"

definition availability_map :: "instant \<Rightarrow> int list \<Rightarrow> stock_db \<Rightarrow> stock_db \<times> (int \<times> product_status) list" where
  "availability_map now pids s =
     (if pids = [] then (s, [])
      else let (s', raw) = get_products_availability pids now s
           in (s', map (\<lambda>p. (p, overridden_status (latest_override p (st_overrides s'))
                (stock_status p (map_of raw p)))) pids))"

subsection \<open>Menus\<close>

record resolved_menu =
  rm_request :: menu_request
  rm_menu :: menu
  rm_unit_price :: rat
  rm_components :: "(menu_group \<times> resolved_line) list"
  rm_snapshot :: menu_snapshot

abbreviation bad_selection :: app_error where
  "bad_selection \<equiv> AppError ''INVALID_MENU_SELECTION'' 422"

definition menu_open :: "instant \<Rightarrow> menu \<Rightarrow> bool" where
  "menu_open now m \<longleftrightarrow> menu_active m
     \<and> (case menu_available_from m of None \<Rightarrow> True | Some t \<Rightarrow> t \<le> now)
     \<and> (case menu_available_until m of None \<Rightarrow> True | Some t \<Rightarrow> now < t)"

definition groups_of_menu :: "catalog \<Rightarrow> int \<Rightarrow> menu_group list" where
  "groups_of_menu cat mid =
     sort_key (\<lambda>g. (mg_display_order g, mg_id g)) (filter (\<lambda>g. mg_menu_id g = mid) (cat_menu_groups cat))"

text \<open>The loop over the selections; \<open>seen\<close> is \<^verbatim>\<open>seen_selections\<close>.\<close>

fun resolve_selections ::
    "catalog \<Rightarrow> menu_group list \<Rightarrow> selection_request list \<Rightarrow> (int \<times> int) list
      \<Rightarrow> (menu_group \<times> resolved_line) list res" where
  "resolve_selections cat groups [] seen = Inr []"
| "resolve_selections cat groups (sq # sqs) seen =
     (case row_get mg_id (sq_group_id sq) groups of
        None \<Rightarrow> Inl bad_selection
      | Some g \<Rightarrow>
          let key = (sq_group_id sq, lq_product_id (sq_line sq))
          in if key \<in> set seen then Inl bad_selection
             else if key \<notin> set (cat_menu_group_items cat) then Inl bad_selection
             else
               rbind (resolve_catalog_item cat (sq_line sq)) (\<lambda>r.
               rbind (resolve_selections cat groups sqs (key # seen)) (\<lambda>cs. Inr ((g, r) # cs))))"

definition chosen_count :: "menu_group \<Rightarrow> (menu_group \<times> resolved_line) list \<Rightarrow> int" where
  "chosen_count g cs =
     sum_list (map (\<lambda>c. lq_quantity (rs_request (snd c))) (filter (\<lambda>c. mg_id (fst c) = mg_id g) cs))"

definition count_ok :: "(menu_group \<times> resolved_line) list \<Rightarrow> menu_group \<Rightarrow> bool" where
  "count_ok cs g \<longleftrightarrow> mg_min_choices g \<le> chosen_count g cs \<and> chosen_count g cs \<le> mg_max_choices g"

definition snapshot_of :: "menu \<Rightarrow> menu_group list \<Rightarrow> (menu_group \<times> resolved_line) list \<Rightarrow> menu_snapshot" where
  "snapshot_of m groups cs =
     \<lparr>ms_menu_id = menu_id m, ms_menu_name = menu_name m, ms_fixed_price = money (menu_fixed_price m),
      ms_groups = map (\<lambda>g.
        \<lparr>sg_group_id = mg_id g, sg_group_name = mg_name g, sg_min_choices = mg_min_choices g,
         sg_max_choices = mg_max_choices g,
         sg_selections = map (\<lambda>(_, r).
           \<lparr>ss_group_id = mg_id g, ss_group_name = mg_name g, ss_product_id = prod_id (rs_product r),
            ss_product_name = prod_name (rs_product r), ss_variant_id = lq_variant_id (rs_request r),
            ss_variant_name = rs_variant_name r, ss_quantity = lq_quantity (rs_request r),
            ss_catalog_unit_price = rs_unit_price r, ss_extras = rs_extras r\<rparr>)
           (filter (\<lambda>c. mg_id (fst c) = mg_id g) cs)\<rparr>) groups\<rparr>"

definition component_available :: "(int \<times> product_status) list \<Rightarrow> menu_group \<times> resolved_line \<Rightarrow> bool" where
  "component_available av c =
     (case map_of av (prod_id (rs_product (snd c))) of None \<Rightarrow> True | Some st \<Rightarrow> ps_available st)"

definition resolve_menu_item :: "instant \<Rightarrow> menu_request \<Rightarrow> stock_db \<Rightarrow> (stock_db \<times> resolved_menu) res" where
  "resolve_menu_item now mq s =
     (case row_get menu_id (mq_menu_id mq) (cat_menus (st_catalog s)) of
        None \<Rightarrow> Inl (AppError ''MENU_NOT_AVAILABLE'' 404)
      | Some m \<Rightarrow>
          if \<not> menu_open now m then Inl (AppError ''MENU_NOT_AVAILABLE'' 404)
          else
            let groups = groups_of_menu (st_catalog s) (menu_id m)
            in if groups = [] then Inl (AppError ''MENU_NOT_AVAILABLE'' 409)
               else
                 rbind (resolve_selections (st_catalog s) groups (mq_selections mq) []) (\<lambda>cs.
                   if \<not> list_all (count_ok cs) groups then Inl bad_selection
                   else
                     let (s', av) = availability_map now (map (\<lambda>c. prod_id (rs_product (snd c))) cs) s
                     in if \<not> list_all (component_available av) cs then Inl (AppError ''MENU_PRODUCT_UNAVAILABLE'' 409)
                        else Inr (s', \<lparr>rm_request = mq, rm_menu = m, rm_unit_price = money (menu_fixed_price m),
                                       rm_components = cs, rm_snapshot = snapshot_of m groups cs\<rparr>)))"

fun resolve_menus :: "instant \<Rightarrow> menu_request list \<Rightarrow> stock_db \<Rightarrow> (stock_db \<times> resolved_menu list) res" where
  "resolve_menus now [] s = Inr (s, [])"
| "resolve_menus now (mq # mqs) s =
     rbind (resolve_menu_item now mq s) (\<lambda>(s1, m).
     rbind (resolve_menus now mqs s1) (\<lambda>(s2, ms). Inr (s2, m # ms)))"

subsection \<open>Subtotal and promotion\<close>

definition line_total :: "resolved_line \<Rightarrow> rat" where
  "line_total r = of_int (lq_quantity (rs_request r)) * rs_unit_price r"

definition menu_total :: "resolved_menu \<Rightarrow> rat" where
  "menu_total m = of_int (mq_quantity (rm_request m)) * rm_unit_price m"

definition subtotal_of :: "resolved_line list \<Rightarrow> resolved_menu list \<Rightarrow> rat" where
  "subtotal_of ls ms = money (sum_list (map line_total ls) + sum_list (map menu_total ms))"

definition promo_cart :: "resolved_line list \<Rightarrow> resolved_menu list \<Rightarrow> cart_item list" where
  "promo_cart ls ms =
     map (\<lambda>r. \<lparr>ci_product_id = Some (lq_product_id (rs_request r)), ci_category_id = prod_category_id (rs_product r),
        ci_quantity = lq_quantity (rs_request r), ci_unit_price = rs_unit_price r,
        ci_line_total = Some (money (line_total r))\<rparr>) ls
     @ map (\<lambda>m. \<lparr>ci_product_id = None, ci_category_id = None, ci_quantity = mq_quantity (rm_request m),
        ci_unit_price = rm_unit_price m, ci_line_total = Some (money (menu_total m))\<rparr>) ms"

text \<open>The promotion step: new promotion tables, discount, whether the code offers the delivery.\<close>

definition use_promo_code ::
    "create_env \<Rightarrow> order_body \<Rightarrow> int option \<Rightarrow> rat \<Rightarrow> cart_item list \<Rightarrow> shop \<Rightarrow> (promo_db \<times> rat \<times> bool) res" where
  "use_promo_code env b uid subtotal cart sh =
     (case ob_promo_code b of
        None \<Rightarrow> Inr (sh_promos sh, 0, False)
      | Some code \<Rightarrow>
          if code = [] then Inr (sh_promos sh, 0, False)
          else
            let flags = promo_by_code (sh_promos sh) (py_upper (py_strip code));
                free = (case flags of None \<Rightarrow> False | Some p \<Rightarrow> pm_free_delivery p)
            in if free \<and> ob_order_type b \<noteq> Delivery_type
                  \<and> (case flags of None \<Rightarrow> False | Some p \<Rightarrow> pm_discount_value p = 0)
               then Inl (AppError ''PROMO_DELIVERY_ONLY'' 422)
               else
                 rbind (apply_promo (ce_verified env) (\<lambda>u. has_delivered_order u sh) (ce_now env) code subtotal uid cart
                          None (sh_promos sh)) (\<lambda>(db, d). Inr (db, d, free)))"

subsection \<open>Loyalty\<close>

definition resolve_loyalty_discount ::
    "int \<Rightarrow> int option \<Rightarrow> int \<Rightarrow> rat \<Rightarrow> loyalty_db \<Rightarrow> (loyalty_db \<times> rat \<times> int) res" where
  "resolve_loyalty_discount nid uid points amount db =
     (if points \<le> 0 then Inr (db, 0, 0)
      else case uid of
        None \<Rightarrow> Inl (AppError ''LOYALTY_USER_REQUIRED'' 422)
      | Some u \<Rightarrow>
          let (db1, a) = get_or_create_account nid u db
          in if la_points a < points then Inl (AppError ''INSUFFICIENT_POINTS'' 422)
             else
               let (db2, c) = get_or_create_loyalty_config db1;
                   discount = money (of_int points * lc_points_to_euro_rate c)
               in if discount > money amount then Inl (AppError ''LOYALTY_POINTS_EXCEED_TOTAL'' 422)
                  else Inr (db2, discount, points))"

definition reward_value :: "loyalty_reward \<Rightarrow> rat \<Rightarrow> resolved_line list \<Rightarrow> order_type \<Rightarrow> rat res" where
  "reward_value rw eligible ls ty =
     (case rw_type rw of
        Discount_euros \<Rightarrow>
          (case rw_discount_amount rw of
             None \<Rightarrow> Inl (AppError ''INVALID_REWARD'' 422)
           | Some d \<Rightarrow> Inr (min (money d) eligible))
      | Free_product \<Rightarrow>
          (case rw_product_id rw of
             None \<Rightarrow> Inl (AppError ''INVALID_REWARD'' 422)
           | Some p \<Rightarrow>
               let prices = map (\<lambda>r. money (rs_unit_price r))
                     (filter (\<lambda>r. lq_product_id (rs_request r) = p \<and> lq_quantity (rs_request r) > 0) ls)
               in if prices = [] then Inl (AppError ''REWARD_PRODUCT_REQUIRED'' 422)
                  else Inr (min (Min (set prices)) eligible))
      | Free_delivery_reward \<Rightarrow>
          if ty \<noteq> Delivery_type then Inl (AppError ''REWARD_DELIVERY_REQUIRED'' 422) else Inr 0
      | Other_reward _ \<Rightarrow> Inl (AppError ''INVALID_REWARD'' 422))"

definition resolve_loyalty_reward_discount ::
    "int \<Rightarrow> int option \<Rightarrow> int \<Rightarrow> rat \<Rightarrow> resolved_line list \<Rightarrow> order_type \<Rightarrow> loyalty_db
      \<Rightarrow> (loyalty_db \<times> rat \<times> loyalty_reward) res" where
  "resolve_loyalty_reward_discount nid uid rid amount ls ty db =
     (case uid of
        None \<Rightarrow> Inl (AppError ''LOYALTY_USER_REQUIRED'' 422)
      | Some u \<Rightarrow>
          (case row_get rw_id rid (ly_rewards db) of
             None \<Rightarrow> Inl (AppError ''REWARD_NOT_FOUND'' 404)
           | Some rw \<Rightarrow>
               if \<not> rw_active rw then Inl (AppError ''REWARD_NOT_FOUND'' 404)
               else
                 let (db1, a) = get_or_create_account nid u db
                 in if la_points a < rw_points_required rw then Inl (AppError ''INSUFFICIENT_POINTS'' 422)
                    else rbind (reward_value rw (money amount) ls ty) (\<lambda>d. Inr (db1, d, rw))))"

text \<open>Reward or points, at most one of them: tables, total discount so far, points to charge, reward to charge.\<close>

definition use_loyalty ::
    "create_env \<Rightarrow> order_body \<Rightarrow> int option \<Rightarrow> rat \<Rightarrow> rat \<Rightarrow> resolved_line list \<Rightarrow> loyalty_db
      \<Rightarrow> (loyalty_db \<times> rat \<times> int \<times> loyalty_reward option) res" where
  "use_loyalty env b uid subtotal discount ls db =
     (let points = ob_loyalty_points b;
          reward = (case ob_loyalty_reward_id b of None \<Rightarrow> None | Some r \<Rightarrow> if r = 0 then None else Some r)
      in if points \<noteq> 0 \<and> reward \<noteq> None then Inl (AppError ''LOYALTY_REWARD_CONFLICT'' 422)
         else case reward of
           Some r \<Rightarrow>
             rbind (resolve_loyalty_reward_discount (ce_account_key env) uid r (max 0 (subtotal - discount)) ls
                      (ob_order_type b) db) (\<lambda>(db1, d, rw). Inr (db1, money (discount + d), 0, Some rw))
         | None \<Rightarrow>
             if points = 0 then Inr (db, discount, 0, None)
             else rbind (resolve_loyalty_discount (ce_account_key env) uid points (max 0 (subtotal - discount)) db)
                    (\<lambda>(db1, d, p). Inr (db1, money (discount + d), p, None)))"

definition charge_points ::
    "create_env \<Rightarrow> int option \<Rightarrow> int \<Rightarrow> int \<Rightarrow> loyalty_db \<Rightarrow> loyalty_db res" where
  "charge_points env uid oid points db =
     (if points = 0 then Inr db
      else case uid of
        None \<Rightarrow> Inl (AppError ''LOYALTY_USER_REQUIRED'' 422)
      | Some u \<Rightarrow>
          let (db1, a) = get_or_create_account (ce_account_key env) u db
          in Inr (post_points a (- points) (Text_reason (''manual_order_'' @ py_str_int oid)) Redeem (Some oid) None None
                    (ce_now env) db1))"

definition charge_reward ::
    "create_env \<Rightarrow> int option \<Rightarrow> int \<Rightarrow> loyalty_reward option \<Rightarrow> loyalty_db \<Rightarrow> loyalty_db res" where
  "charge_reward env uid oid reward db =
     (case reward of
        None \<Rightarrow> Inr db
      | Some rw \<Rightarrow>
          (case uid of
             None \<Rightarrow> Inl (AppError ''LOYALTY_USER_REQUIRED'' 422)
           | Some u \<Rightarrow>
               let (db1, a) = get_or_create_account (ce_account_key env) u db
               in Inr (post_points a (- rw_points_required rw)
                    (Text_reason (''manual_reward_'' @ py_str_int (rw_id rw) @ ''_order_'' @ py_str_int oid)) Redeem
                    (Some oid) (Some (rw_id rw)) None (ce_now env) db1)))"

subsection \<open>Delivery and establishment\<close>

definition resolve_establishment_id :: "delivery_db \<Rightarrow> int option \<Rightarrow> int res" where
  "resolve_establishment_id db eid =
     (case eid of
        Some e \<Rightarrow>
          if list_ex (\<lambda>r. est_id r = e \<and> est_active r) (dd_establishments db) then Inr e
          else Inl (AppError ''ESTABLISHMENT_NOT_FOUND'' 404)
      | None \<Rightarrow>
          (case first_active_establishment db of
             None \<Rightarrow> Inl (AppError ''ESTABLISHMENT_REQUIRED'' 409) | Some r \<Rightarrow> Inr (est_id r)))"

definition delivery_zone_of ::
    "create_env \<Rightarrow> delivery_db \<Rightarrow> order_body \<Rightarrow> order_source \<Rightarrow> int option \<Rightarrow> delivery_zone option res" where
  "delivery_zone_of env db b src eid =
     (case (ob_delivery_lat b, ob_delivery_lng b) of
        (Some lat, Some lng) \<Rightarrow> rbind (check_address (ce_float env) db (of_rat lat) (of_rat lng) eid) (\<lambda>z. Inr (Some z))
      | _ \<Rightarrow>
          if src = Src_manual then
            (case ob_delivery_zone_id b of
               None \<Rightarrow> Inl (AppError ''DELIVERY_ZONE_REQUIRED'' 422)
             | Some zid \<Rightarrow>
                 (case row_get dz_id zid (dd_zones db) of
                    None \<Rightarrow> Inr None
                  | Some z \<Rightarrow>
                      if eid \<noteq> None \<and> dz_establishment_id z \<noteq> None \<and> dz_establishment_id z \<noteq> eid
                      then Inl (AppError ''INVALID_DELIVERY_ZONE'' 422) else Inr (Some z)))
          else Inl (AppError ''DELIVERY_COORDINATES_REQUIRED'' 422))"

definition resolve_delivery ::
    "create_env \<Rightarrow> delivery_db \<Rightarrow> order_body \<Rightarrow> order_source \<Rightarrow> rat \<Rightarrow> int option \<Rightarrow> bool \<Rightarrow> bool
      \<Rightarrow> (rat \<times> int \<times> int option \<times> int option) res" where
  "resolve_delivery env db b src subtotal eid promo_free loyalty_free =
     (if ob_order_type b \<noteq> Delivery_type then Inr (0, 0, None, None)
      else if \<not> is_delivery_enabled db then Inl (AppError ''DELIVERY_DISABLED'' 409)
      else
        rbind (delivery_zone_of env db b src eid) (\<lambda>zone.
          case zone of
            None \<Rightarrow> Inl (AppError ''INVALID_DELIVERY_ZONE'' 422)
          | Some z \<Rightarrow>
              if \<not> dz_active z then Inl (AppError ''INVALID_DELIVERY_ZONE'' 422)
              else
                let q = quote_for_zone (ce_tz env) db z (Some subtotal) (ce_now env) promo_free loyalty_free
                in if dq_min_order_met q = Some False then Inl (AppError ''DELIVERY_MIN_ORDER_NOT_MET'' 422)
                   else Inr (money (pr_fee (dq_pricing q)), dq_estimated_minutes q, Some (dz_id z), dq_establishment_id q)))"

text \<open>\<^verbatim>\<open>establishment_id\<close>: requested one first, then the zone's, then the default.\<close>

definition locate_order ::
    "create_env \<Rightarrow> delivery_db \<Rightarrow> order_body \<Rightarrow> order_source \<Rightarrow> rat \<Rightarrow> bool \<Rightarrow> bool
      \<Rightarrow> (int \<times> rat \<times> int \<times> int option) res" where
  "locate_order env db b src subtotal promo_free loyalty_free =
     rbind (if ob_order_type b = Delivery_type \<and> ob_establishment_id b \<noteq> None
            then rbind (resolve_establishment_id db (ob_establishment_id b)) (\<lambda>e. Inr (Some e)) else Inr None) (\<lambda>eid.
     rbind (resolve_delivery env db b src subtotal eid promo_free loyalty_free) (\<lambda>(fee, minutes, zid, zeid).
     rbind (case eid of Some e \<Rightarrow> Inr e
            | None \<Rightarrow> (case zeid of Some e \<Rightarrow> Inr e | None \<Rightarrow> resolve_establishment_id db (ob_establishment_id b)))
       (\<lambda>e. Inr (e, fee, minutes, zid))))"

definition estimate_delivery_at :: "instant \<Rightarrow> int \<Rightarrow> shop \<Rightarrow> instant" where
  "estimate_delivery_at now minutes sh =
     (let prep = (case sh_config sh of
            None \<Rightarrow> 25
          | Some c \<Rightarrow>
              if tc_auto_calc_prep_time c \<and> active_orders_count sh \<ge> tc_peak_orders_threshold c
              then tc_prep_time_peak c
                + max 0 (active_orders_count sh - tc_peak_orders_threshold c + 1) * tc_overhead_per_order c
              else tc_prep_time_normal c)
      in now + (prep + minutes) * 60000000)"

subsection \<open>Rows of the order\<close>

definition line_row :: "int \<Rightarrow> int \<Rightarrow> resolved_line \<Rightarrow> order_item" where
  "line_row oid k r =
     \<lparr>oi_id = k, oi_order_id = oid, oi_type = Item_product, oi_parent_item_id = None, oi_menu_id = None,
      oi_menu_name = None, oi_menu_group_id = None, oi_menu_group_name = None, oi_menu_snapshot = None,
      oi_product_id = Some (lq_product_id (rs_request r)), oi_variant_id = lq_variant_id (rs_request r),
      oi_product_name = Some (prod_name (rs_product r)), oi_variant_name = rs_variant_name r,
      oi_extras_snapshot = rs_extras r,
      oi_extras_total = money (of_int (lq_quantity (rs_request r)) * rs_extras_unit_total r),
      oi_quantity = lq_quantity (rs_request r), oi_unit_price = rs_unit_price r,
      oi_catalog_unit_price = Some (rs_unit_price r), oi_total = money (line_total r),
      oi_prep_status = Prep_pending, oi_station = rs_station r, oi_prepared_at = None, oi_prepared_by = None\<rparr>"

definition menu_row :: "int \<Rightarrow> int \<Rightarrow> resolved_menu \<Rightarrow> order_item" where
  "menu_row oid k m =
     \<lparr>oi_id = k, oi_order_id = oid, oi_type = Item_menu, oi_parent_item_id = None, oi_menu_id = Some (menu_id (rm_menu m)),
      oi_menu_name = Some (menu_name (rm_menu m)), oi_menu_group_id = None, oi_menu_group_name = None,
      oi_menu_snapshot = Some (rm_snapshot m), oi_product_id = None, oi_variant_id = None,
      oi_product_name = Some (menu_name (rm_menu m)), oi_variant_name = None, oi_extras_snapshot = [],
      oi_extras_total = 0, oi_quantity = mq_quantity (rm_request m), oi_unit_price = rm_unit_price m,
      oi_catalog_unit_price = Some (rm_unit_price m), oi_total = money (menu_total m), oi_prep_status = Prep_pending,
      oi_station = NoStation, oi_prepared_at = None, oi_prepared_by = None\<rparr>"

definition component_row :: "int \<Rightarrow> int \<Rightarrow> int \<Rightarrow> resolved_menu \<Rightarrow> menu_group \<times> resolved_line \<Rightarrow> order_item" where
  "component_row oid parent k m c =
     (case c of (g, r) \<Rightarrow>
        \<lparr>oi_id = k, oi_order_id = oid, oi_type = Item_menu_component, oi_parent_item_id = Some parent,
         oi_menu_id = Some (menu_id (rm_menu m)), oi_menu_name = Some (menu_name (rm_menu m)),
         oi_menu_group_id = Some (mg_id g), oi_menu_group_name = Some (mg_name g), oi_menu_snapshot = None,
         oi_product_id = Some (lq_product_id (rs_request r)), oi_variant_id = lq_variant_id (rs_request r),
         oi_product_name = Some (prod_name (rs_product r)), oi_variant_name = rs_variant_name r,
         oi_extras_snapshot = rs_extras r, oi_extras_total = 0,
         oi_quantity = mq_quantity (rm_request m) * lq_quantity (rs_request r), oi_unit_price = 0,
         oi_catalog_unit_price = Some (rs_unit_price r), oi_total = 0, oi_prep_status = Prep_pending,
         oi_station = rs_station r, oi_prepared_at = None, oi_prepared_by = None\<rparr>)"

fun line_rows :: "int \<Rightarrow> int \<Rightarrow> resolved_line list \<Rightarrow> order_item list" where
  "line_rows oid k [] = []"
| "line_rows oid k (r # rs) = line_row oid k r # line_rows oid (k + 1) rs"

fun component_rows :: "int \<Rightarrow> int \<Rightarrow> int \<Rightarrow> resolved_menu \<Rightarrow> (menu_group \<times> resolved_line) list \<Rightarrow> order_item list" where
  "component_rows oid parent k m [] = []"
| "component_rows oid parent k m (c # cs) = component_row oid parent k m c # component_rows oid parent (k + 1) m cs"

fun menu_rows :: "int \<Rightarrow> int \<Rightarrow> resolved_menu list \<Rightarrow> order_item list" where
  "menu_rows oid k [] = []"
| "menu_rows oid k (m # ms) =
     menu_row oid k m # component_rows oid k (k + 1) m (rm_components m)
     @ menu_rows oid (k + 1 + int (length (rm_components m))) ms"

definition item_rows :: "int \<Rightarrow> int \<Rightarrow> resolved_line list \<Rightarrow> resolved_menu list \<Rightarrow> order_item list" where
  "item_rows oid k ls ms = line_rows oid k ls @ menu_rows oid (k + int (length ls)) ms"

definition new_order ::
    "create_env \<Rightarrow> order_body \<Rightarrow> create_call \<Rightarrow> int \<Rightarrow> rat \<Rightarrow> rat \<Rightarrow> rat \<Rightarrow> int option \<Rightarrow> instant \<Rightarrow> order" where
  "new_order env b c eid subtotal discount fee zid eta =
     \<lparr>ord_id = ce_order_key env, ord_user_id = cc_user_id c, ord_customer_email = ob_customer_email b,
          ord_customer_name = or_text (cc_customer_name c) (ob_customer_name b),
          ord_customer_phone = or_text (cc_customer_phone c) (ob_customer_phone b),
          ord_establishment_id = Some eid, ord_type = ob_order_type b, ord_status = Pending,
          ord_payment_status = Pay_pending, ord_source = cc_source c, ord_created_by = cc_created_by c,
          ord_subtotal = subtotal, ord_discount_total = discount, ord_delivery_fee = fee,
          ord_total = money (subtotal - discount + fee),
          ord_delivery_address = (if ob_order_type b = Delivery_type then ob_delivery_address b else None),
          ord_delivery_zone_id = zid,
          ord_delivery_lat = (if ob_order_type b = Delivery_type then ob_delivery_lat b else None),
          ord_delivery_lng = (if ob_order_type b = Delivery_type then ob_delivery_lng b else None),
          ord_delivery_instructions = (if ob_order_type b = Delivery_type then ob_delivery_instructions b else None),
          ord_table_number = cc_table_number c, ord_estimated_delivery_at = Some eta,
          ord_idempotency_key = cc_key c, ord_promo_code = ob_promo_code b, ord_delivery_code_nonce = None,
          ord_created_at = ce_now env\<rparr>"

subsection \<open>The operation\<close>

text \<open>Within 24 hours the same key of the same customer finds the order again. The unique constraint on customer and
  key has no time limit, and rows without a customer never violate it.\<close>

definition find_idempotent_order :: "instant \<Rightarrow> int option \<Rightarrow> string \<Rightarrow> order list \<Rightarrow> order option" where
  "find_idempotent_order now uid key os =
     find (\<lambda>o1. ord_user_id o1 = uid \<and> ord_idempotency_key o1 = Some key \<and> ord_created_at o1 \<ge> now - hours 24) os"

definition key_taken :: "int option \<Rightarrow> string \<Rightarrow> order list \<Rightarrow> bool" where
  "key_taken uid key os \<longleftrightarrow>
     uid \<noteq> None \<and> list_ex (\<lambda>o1. ord_user_id o1 = uid \<and> ord_idempotency_key o1 = Some key) os"

text \<open>Everything before the first insert: stock tables, lines, menus, promotion and loyalty tables, and the row to
  insert together with the points and the reward to charge.\<close>

record prepared_order =
  po_stock :: stock_db
  po_promos :: promo_db
  po_loyalty :: loyalty_db
  po_lines :: "resolved_line list"
  po_menus :: "resolved_menu list"
  po_points :: int
  po_reward :: "loyalty_reward option"
  po_order :: order

definition ordered_products :: "order_body \<Rightarrow> resolved_menu list \<Rightarrow> int list" where
  "ordered_products b ms =
     map lq_product_id (ob_items b) @ concat (map (\<lambda>m. map (\<lambda>c. prod_id (rs_product (snd c))) (rm_components m)) ms)"

definition prepare_order ::
    "create_env \<Rightarrow> order_body \<Rightarrow> create_call \<Rightarrow> haccp_db \<Rightarrow> site_db \<Rightarrow> shop \<Rightarrow> prepared_order res" where
  "prepare_order env b c h site sh =
     rbind (mapE (resolve_catalog_item (st_catalog (sh_stock sh))) (ob_items b)) (\<lambda>ls.
     rbind (resolve_menus (ce_now env) (ob_menu_items b) (sh_stock sh)) (\<lambda>(st, ms).
     let subtotal = subtotal_of ls ms in
     rbind (use_promo_code env b (cc_user_id c) subtotal (promo_cart ls ms) sh) (\<lambda>(pdb, promo, promo_free).
     rbind (use_loyalty env b (cc_user_id c) subtotal promo ls (sh_loyalty sh)) (\<lambda>(ldb, discount, points, reward).
       if ob_order_type b = Delivery_type \<and> blank_text (or_text (cc_customer_phone c) (ob_customer_phone b))
       then Inl (AppError ''CUSTOMER_PHONE_REQUIRED'' 422)
       else
         rbind (locate_order env (sh_zones sh) b (cc_source c) subtotal promo_free
                  (case reward of None \<Rightarrow> False | Some rw \<Rightarrow> rw_type rw = Free_delivery_reward)) (\<lambda>(eid, fee, minutes, zid).
         rbind (enforce_ordering (ce_haccp env) eid (ordered_products b ms) (dd_establishments (sh_zones sh)) st site h)
           (\<lambda>_. Inr \<lparr>po_stock = st, po_promos = pdb, po_loyalty = ldb, po_lines = ls, po_menus = ms,
                  po_points = points, po_reward = reward,
                  po_order = new_order env b c eid subtotal discount fee zid
                    (estimate_delivery_at (ce_now env) minutes sh)\<rparr>))))))"

text \<open>The inserts: order, points, reward, lines, history.\<close>

definition insert_order :: "create_env \<Rightarrow> create_call \<Rightarrow> prepared_order \<Rightarrow> shop \<Rightarrow> shop res" where
  "insert_order env c p sh =
     (let o1 = po_order p; oid = ord_id o1
      in if (case cc_key c of None \<Rightarrow> False | Some key \<Rightarrow> key_taken (cc_user_id c) key (sh_orders sh)) then Inl IntegrityError
         else
           rbind (charge_points env (cc_user_id c) oid (po_points p) (po_loyalty p)) (\<lambda>l1.
           rbind (charge_reward env (cc_user_id c) oid (po_reward p) l1) (\<lambda>l2.
             Inr (add_history oid (ord_status o1) None Internal
               (sh\<lparr>sh_orders := sh_orders sh @ [o1],
                  sh_items := sh_items sh @ item_rows oid (ce_item_key env) (po_lines p) (po_menus p),
                  sh_stock := po_stock p, sh_promos := po_promos p, sh_loyalty := l2\<rparr>)))))"

text \<open>The use of the code is recorded after the commit; a failure there is logged only.\<close>

definition record_usage :: "create_call \<Rightarrow> order \<Rightarrow> shop \<Rightarrow> shop" where
  "record_usage c o1 sh =
     (case (cc_user_id c, ord_promo_code o1) of
        (Some u, Some code) \<Rightarrow>
          if cc_commit c \<and> code \<noteq> []
          then (case record_promo_usage code u (ord_id o1) (sh_promos sh) of
                  Inl _ \<Rightarrow> sh | Inr db \<Rightarrow> sh\<lparr>sh_promos := db\<rparr>)
          else sh
      | _ \<Rightarrow> sh)"

definition create_order ::
    "create_env \<Rightarrow> order_body \<Rightarrow> create_call \<Rightarrow> haccp_db \<Rightarrow> site_db \<Rightarrow> shop \<Rightarrow> (shop \<times> order) res" where
  "create_order env b c h site sh =
     (case cc_key c of
        None \<Rightarrow> Inl (AppError ''IDEMPOTENCY_KEY_REQUIRED'' 400)
      | Some key \<Rightarrow>
          if key = [] then Inl (AppError ''IDEMPOTENCY_KEY_REQUIRED'' 400)
          else if length key > 128 then Inl (AppError ''IDEMPOTENCY_KEY_TOO_LONG'' 422)
          else
            (case (if cc_skip_lookup c then None
                   else find_idempotent_order (ce_now env) (cc_user_id c) key (sh_orders sh)) of
               Some o1 \<Rightarrow> Inr (sh, o1)
             | None \<Rightarrow>
                 rbind (prepare_order env b c h site sh) (\<lambda>p.
                 rbind (insert_order env c p sh) (\<lambda>sh'. Inr (record_usage c (po_order p) sh', po_order p)))))"

end
