(* ===== verification/Allergens.thy ===== *)
theory Allergens
  imports Orders_Create "HOL-Library.Product_Lexorder" "HOL-Library.List_Lexorder" "HOL-Library.Char_ord"
begin

text \<open>
  Allergens and dietary tags, \<^verbatim>\<open>app/modules/catalog/allergen/allergen_service.py\<close>, and what \<^verbatim>\<open>catalog/service.py\<close> tells
  the customer about them: the declarations of ingredients are propagated to the products that contain them, the staff
  may declare a level by hand, and the allergens of a selection are merged from the product and every ingredient in it.
\<close>

subsection \<open>Tables\<close>

datatype allergen_level = Present_level | Traces_level | Absent_level

datatype allergen_source = From_ingredient | Declared_manually

record allergen_definition =
  ad_id :: int
  ad_name :: string
  ad_slug :: string
  ad_regulatory :: bool
  ad_description :: "string option"

record ingredient_allergen =
  ia_ingredient_id :: int
  ia_allergen_id :: int
  ia_level :: allergen_level

record product_allergen =
  pl_product_id :: int
  pl_allergen_id :: int
  pl_level :: allergen_level
  pl_source :: allergen_source

record allergen_audit =
  aa_product_id :: int
  aa_allergen_id :: int
  aa_user :: int
  aa_old_level :: "allergen_level option"
  aa_new_level :: allergen_level
  aa_old_source :: "allergen_source option"
  aa_new_source :: allergen_source
  aa_ip :: "string option"
  aa_reason :: "string option"

record dietary_tag =
  dt_id :: int
  dt_name :: string
  dt_slug :: string

record allergen_db =
  al_definitions :: "allergen_definition list"
  al_ingredients :: "ingredient_allergen list"
  al_products :: "product_allergen list"
  al_audit :: "allergen_audit list"
  al_tags :: "dietary_tag list"
  al_product_tags :: "(int \<times> int) list"

subsection \<open>Reference data\<close>

text \<open>The texts of the reference tables are not plain ASCII; \<open>name_of\<close> and \<open>text_of\<close> give them for a slug.\<close>

definition regulatory_slugs :: "string list" where
  "regulatory_slugs = [''gluten'', ''crustaces'', ''oeufs'', ''poisson'', ''cacahuetes'', ''soja'', ''lait'', ''fruits-a-coque'',
     ''celeri'', ''moutarde'', ''sesame'', ''sulfites'', ''lupin'', ''mollusques'']"

definition default_tag_slugs :: "string list" where
  "default_tag_slugs = [''vegetarien'', ''vegan'', ''sans-gluten'', ''halal'', ''casher'', ''sans-lactose'', ''sans-noix'', ''bio'']"

text \<open>\<^verbatim>\<open>INSERT ... ON CONFLICT DO NOTHING\<close>; a refused row has used up its key all the same.\<close>

fun seed_definitions :: "(string \<Rightarrow> string) \<Rightarrow> (string \<Rightarrow> string) \<Rightarrow> int \<Rightarrow> string list \<Rightarrow> allergen_db \<Rightarrow> allergen_db" where
  "seed_definitions name_of text_of key [] db = db"
| "seed_definitions name_of text_of key (s # ss) db =
     seed_definitions name_of text_of (key + 1) ss
       (if list_ex (\<lambda>d. ad_slug d = s) (al_definitions db) then db
        else db\<lparr>al_definitions := al_definitions db @ [\<lparr>ad_id = key, ad_name = name_of s, ad_slug = s, ad_regulatory = True,
               ad_description = Some (text_of s)\<rparr>]\<rparr>)"

fun seed_tags :: "(string \<Rightarrow> string) \<Rightarrow> int \<Rightarrow> string list \<Rightarrow> allergen_db \<Rightarrow> allergen_db" where
  "seed_tags name_of key [] db = db"
| "seed_tags name_of key (s # ss) db =
     seed_tags name_of (key + 1) ss
       (if list_ex (\<lambda>t. dt_slug t = s) (al_tags db) then db
        else db\<lparr>al_tags := al_tags db @ [\<lparr>dt_id = key, dt_name = name_of s, dt_slug = s\<rparr>]\<rparr>)"

definition seed_regulatory_allergens ::
    "(string \<Rightarrow> string) \<Rightarrow> (string \<Rightarrow> string) \<Rightarrow> int \<Rightarrow> int \<Rightarrow> allergen_db \<Rightarrow> allergen_db" where
  "seed_regulatory_allergens name_of text_of key tag_key db =
     seed_tags name_of tag_key default_tag_slugs (seed_definitions name_of text_of key regulatory_slugs db)"

subsection \<open>From ingredients to products\<close>

fun level_priority :: "allergen_level \<Rightarrow> int" where
  "level_priority Present_level = 2"
| "level_priority Traces_level = 1"
| "level_priority Absent_level = 0"

fun best_levels :: "(int \<times> allergen_level) list \<Rightarrow> (int \<times> allergen_level) list \<Rightarrow> (int \<times> allergen_level) list" where
  "best_levels [] best = best"
| "best_levels ((a, l) # rows) best =
     best_levels rows
       (if level_priority (case map_of best a of Some l' \<Rightarrow> l' | None \<Rightarrow> Absent_level) < level_priority l then dict_set a l best else best)"

text \<open>The declarations of the ingredients in the recipe of a product.\<close>

definition recipe_levels :: "stock_db \<Rightarrow> int \<Rightarrow> allergen_db \<Rightarrow> (int \<times> allergen_level) list" where
  "recipe_levels s pid db =
     map (\<lambda>ia. (ia_allergen_id ia, ia_level ia))
       (filter (\<lambda>ia. ia_ingredient_id ia \<in> set (map rl_ingredient_id (recipe_lines_for pid (st_product_recipes s)))) (al_ingredients db))"

definition has_product :: "stock_db \<Rightarrow> int \<Rightarrow> bool" where
  "has_product s pid \<longleftrightarrow> row_get prod_id pid (cat_products (st_catalog s)) \<noteq> None"

text \<open>The key of \<^verbatim>\<open>product_allergens\<close> is the pair of product and allergen, whatever the source of the row.\<close>

definition recompute_inner :: "stock_db \<Rightarrow> int \<Rightarrow> allergen_db \<Rightarrow> allergen_db res" where
  "recompute_inner s pid db =
     (let best = best_levels (recipe_levels s pid db) [];
          kept = filter (\<lambda>r. \<not> (pl_product_id r = pid \<and> pl_source r = From_ingredient)) (al_products db);
          new = map (\<lambda>(a, l). \<lparr>pl_product_id = pid, pl_allergen_id = a, pl_level = l, pl_source = From_ingredient\<rparr>) best
      in if best \<noteq> [] \<and> \<not> has_product s pid \<or> list_ex (\<lambda>r. pl_product_id r = pid \<and> pl_allergen_id r \<in> fst ` set best) kept
         then Inl IntegrityError
         else Inr (db\<lparr>al_products := kept @ new\<rparr>))"

definition products_with :: "stock_db \<Rightarrow> int \<Rightarrow> int list" where
  "products_with s iid = map rl_target_id (filter (\<lambda>r. rl_ingredient_id r = iid) (st_product_recipes s))"

definition set_ingredient_allergens ::
    "stock_db \<Rightarrow> int \<Rightarrow> (int \<times> allergen_level) list \<Rightarrow> allergen_db \<Rightarrow> (allergen_db \<times> ingredient_allergen list) res" where
  "set_ingredient_allergens s iid items db =
     (let new = map (\<lambda>(a, l). \<lparr>ia_ingredient_id = iid, ia_allergen_id = a, ia_level = l\<rparr>) items;
          db1 = db\<lparr>al_ingredients := filter (\<lambda>ia. ia_ingredient_id ia \<noteq> iid) (al_ingredients db) @ new\<rparr>
      in if \<not> distinct (map fst items) \<or> \<not> list_all (\<lambda>(a, l). row_get ad_id a (al_definitions db) \<noteq> None) items
            \<or> items \<noteq> [] \<and> get_ingredient iid s = None
         then Inl IntegrityError
         else rbind (foldE (recompute_inner s) (products_with s iid) db1) (\<lambda>db2. Inr (db2, new)))"

definition get_ingredient_allergens :: "int \<Rightarrow> allergen_db \<Rightarrow> ingredient_allergen list" where
  "get_ingredient_allergens iid db = filter (\<lambda>ia. ia_ingredient_id ia = iid) (al_ingredients db)"

definition ingredient_rows :: "int \<Rightarrow> allergen_db \<Rightarrow> (int \<times> allergen_level) list" where
  "ingredient_rows pid db =
     map (\<lambda>r. (pl_allergen_id r, pl_level r)) (filter (\<lambda>r. pl_product_id r = pid \<and> pl_source r = From_ingredient) (al_products db))"

text \<open>The audit rows are written in the order of a set of allergens; here the old ones come first.\<close>

definition recompute_audits :: "int \<Rightarrow> (int \<times> allergen_level) list \<Rightarrow> (int \<times> allergen_level) list \<Rightarrow> allergen_audit list" where
  "recompute_audits pid before after =
     concat (map (\<lambda>a. let old = map_of before a; new = (case map_of after a of Some l \<Rightarrow> l | None \<Rightarrow> Absent_level)
         in if old = Some new then []
            else [\<lparr>aa_product_id = pid, aa_allergen_id = a, aa_user = 0, aa_old_level = old, aa_new_level = new,
                   aa_old_source = Some From_ingredient, aa_new_source = From_ingredient, aa_ip = None, aa_reason = None\<rparr>])
       (remdups (map fst before @ map fst after)))"

definition recompute_product_allergens :: "stock_db \<Rightarrow> int \<Rightarrow> allergen_db \<Rightarrow> allergen_db res" where
  "recompute_product_allergens s pid db =
     rbind (recompute_inner s pid db) (\<lambda>db1.
       Inr (db1\<lparr>al_audit := al_audit db1 @ recompute_audits pid (ingredient_rows pid db) (ingredient_rows pid db1)\<rparr>))"

subsection \<open>Declarations by hand\<close>

definition thirty_days :: instant where
  "thirty_days = 30 * 24 * 60 * 60 * 1000000"

text \<open>The customers to warn: who ordered the product in the last thirty days.\<close>

definition affected_users :: "instant \<Rightarrow> order list \<Rightarrow> order_item list \<Rightarrow> int \<Rightarrow> int list" where
  "affected_users now orders items pid =
     remdups (concat (map (\<lambda>q. case ord_user_id q of None \<Rightarrow> [] | Some u \<Rightarrow> [u])
       (filter (\<lambda>q. now - thirty_days < ord_created_at q
            \<and> list_ex (\<lambda>i. oi_order_id i = ord_id q \<and> oi_product_id i = Some pid) items) orders)))"

definition set_product_allergen_manual ::
    "stock_db \<Rightarrow> instant \<Rightarrow> order list \<Rightarrow> order_item list \<Rightarrow> int \<Rightarrow> int \<Rightarrow> allergen_level \<Rightarrow> int \<Rightarrow> string option \<Rightarrow> string option
     \<Rightarrow> allergen_db \<Rightarrow> (allergen_db \<times> product_allergen \<times> int list) res" where
  "set_product_allergen_manual s now orders items pid aid l user ip reason db =
     (let existing = find (\<lambda>r. pl_product_id r = pid \<and> pl_allergen_id r = aid) (al_products db);
          row = \<lparr>pl_product_id = pid, pl_allergen_id = aid, pl_level = l, pl_source = Declared_manually\<rparr>;
          audit = \<lparr>aa_product_id = pid, aa_allergen_id = aid, aa_user = user, aa_old_level = map_option pl_level existing,
            aa_new_level = l, aa_old_source = map_option pl_source existing, aa_new_source = Declared_manually, aa_ip = ip, aa_reason = reason\<rparr>;
          rows = (if existing = None then al_products db @ [row]
                  else map (\<lambda>r. if pl_product_id r = pid \<and> pl_allergen_id r = aid then row else r) (al_products db))
      in if existing = None \<and> (\<not> has_product s pid \<or> row_get ad_id aid (al_definitions db) = None) then Inl IntegrityError
         else Inr (db\<lparr>al_products := rows, al_audit := al_audit db @ [audit]\<rparr>, row,
                if map_option pl_level existing \<noteq> Some l \<and> l \<noteq> Absent_level then affected_users now orders items pid else []))"

subsection \<open>What is told about a product\<close>

record allergen_view =
  vw_allergen_id :: int
  vw_name :: string
  vw_slug :: string
  vw_level :: allergen_level
  vw_source :: allergen_source
  vw_regulatory :: bool

definition view_of :: "allergen_definition \<Rightarrow> allergen_level \<Rightarrow> allergen_source \<Rightarrow> allergen_view" where
  "view_of d l src = \<lparr>vw_allergen_id = ad_id d, vw_name = ad_name d, vw_slug = ad_slug d, vw_level = l, vw_source = src,
     vw_regulatory = ad_regulatory d\<rparr>"

definition regulatory_ids :: "allergen_db \<Rightarrow> int list" where
  "regulatory_ids db = map ad_id (filter ad_regulatory (al_definitions db))"

text \<open>\<open>rank\<close> is the text order of the database.\<close>

definition product_views :: "(string \<Rightarrow> int) \<Rightarrow> allergen_db \<Rightarrow> int \<Rightarrow> allergen_view list" where
  "product_views rank db pid =
     concat (map (\<lambda>d. map (\<lambda>r. view_of d (pl_level r) (pl_source r))
         (filter (\<lambda>r. pl_product_id r = pid \<and> pl_allergen_id r = ad_id d) (al_products db)))
       (sort_key (\<lambda>d. (\<not> ad_regulatory d, rank (ad_name d))) (al_definitions db)))"

definition allergen_map :: "(string \<Rightarrow> int) \<Rightarrow> allergen_db \<Rightarrow> int list \<Rightarrow> (int \<times> allergen_view list) list \<times> (int \<times> bool) list" where
  "allergen_map rank db pids =
     (map (\<lambda>p. (p, product_views rank db p)) pids,
      map (\<lambda>p. (p, list_all (\<lambda>a. list_ex (\<lambda>v. vw_allergen_id v = a) (product_views rank db p)) (regulatory_ids db))) pids)"

text \<open>A declaration by hand prevails over one of an ingredient; in this table there is one row for each allergen.\<close>

definition merge_summary :: "(int \<times> allergen_view) list \<Rightarrow> allergen_view \<Rightarrow> (int \<times> allergen_view) list" where
  "merge_summary merged v =
     (if map_of merged (vw_allergen_id v) = None \<or> vw_source v = Declared_manually then dict_set (vw_allergen_id v) v merged else merged)"

definition get_product_dietary_tags :: "(string \<Rightarrow> int) \<Rightarrow> int \<Rightarrow> allergen_db \<Rightarrow> dietary_tag list" where
  "get_product_dietary_tags rank pid db =
     sort_key (\<lambda>t. rank (dt_name t)) (filter (\<lambda>t. (pid, dt_id t) \<in> set (al_product_tags db)) (al_tags db))"

definition get_product_allergen_summary :: "(string \<Rightarrow> int) \<Rightarrow> int \<Rightarrow> allergen_db \<Rightarrow> allergen_view list \<times> dietary_tag list \<times> bool" where
  "get_product_allergen_summary rank pid db =
     (let merged = fold (\<lambda>v m. merge_summary m v) (product_views rank db pid) []
      in (map snd merged, get_product_dietary_tags rank pid db, list_all (\<lambda>a. a \<in> fst ` set merged) (regulatory_ids db)))"

definition get_product_allergen_audit :: "int \<Rightarrow> nat \<Rightarrow> nat \<Rightarrow> allergen_db \<Rightarrow> allergen_audit list \<times> nat" where
  "get_product_allergen_audit pid limit offset db =
     (let rows = rev (filter (\<lambda>a. aa_product_id a = pid) (al_audit db)) in (take limit (drop offset rows), length rows))"

text \<open>A product may be activated when every regulatory allergen is declared.\<close>

definition validate_product_for_publication :: "int \<Rightarrow> allergen_db \<Rightarrow> unit res" where
  "validate_product_for_publication pid db =
     (if list_ex (\<lambda>d. ad_regulatory d \<and> \<not> list_ex (\<lambda>r. pl_product_id r = pid \<and> pl_allergen_id r = ad_id d) (al_products db))
           (al_definitions db)
      then Inl (AppError [] 422) else Inr ())"

subsection \<open>Tags and definitions of the restaurant\<close>

definition set_product_dietary_tags :: "(string \<Rightarrow> int) \<Rightarrow> stock_db \<Rightarrow> int \<Rightarrow> int list \<Rightarrow> allergen_db \<Rightarrow> (allergen_db \<times> dietary_tag list) res" where
  "set_product_dietary_tags rank s pid tids db =
     (let db1 = db\<lparr>al_product_tags := filter (\<lambda>pt. fst pt \<noteq> pid) (al_product_tags db) @ map (Pair pid) tids\<rparr>
      in if \<not> distinct tids \<or> \<not> list_all (\<lambda>t. row_get dt_id t (al_tags db) \<noteq> None) tids \<or> tids \<noteq> [] \<and> \<not> has_product s pid
         then Inl IntegrityError else Inr (db1, get_product_dietary_tags rank pid db1))"

definition list_dietary_tags :: "(string \<Rightarrow> int) \<Rightarrow> allergen_db \<Rightarrow> dietary_tag list" where
  "list_dietary_tags rank db = sort_key (\<lambda>t. rank (dt_name t)) (al_tags db)"

definition list_allergen_definitions :: "(string \<Rightarrow> int) \<Rightarrow> allergen_db \<Rightarrow> allergen_definition list" where
  "list_allergen_definitions rank db = sort_key (\<lambda>d. (\<not> ad_regulatory d, rank (ad_name d))) (al_definitions db)"

definition create_custom_allergen ::
    "int \<Rightarrow> string \<Rightarrow> string \<Rightarrow> string option \<Rightarrow> allergen_db \<Rightarrow> (allergen_db \<times> allergen_definition) res" where
  "create_custom_allergen key name slug description db =
     (if 50 \<le> length (filter (\<lambda>d. \<not> ad_regulatory d) (al_definitions db)) then Inl (AppError [] 422)
      else if list_ex (\<lambda>d. ad_slug d = slug) (al_definitions db) then Inl (AppError [] 409)
      else let d = \<lparr>ad_id = key, ad_name = name, ad_slug = slug, ad_regulatory = False, ad_description = description\<rparr>
           in Inr (db\<lparr>al_definitions := al_definitions db @ [d]\<rparr>, d))"

subsection \<open>What is told about a selection\<close>

text \<open>The ingredients of the product, of the chosen variant and of the chosen extras.\<close>

definition selection_ingredients :: "stock_db \<Rightarrow> int \<Rightarrow> int option \<Rightarrow> int list \<Rightarrow> int list res" where
  "selection_ingredients s pid vid eids =
     (let base = map rl_ingredient_id (recipe_lines_for pid (st_product_recipes s));
          cat = st_catalog s
      in rbind (case vid of None \<Rightarrow> Inr []
           | Some v \<Rightarrow>
               (case row_get var_id v (cat_variants cat) of
                  None \<Rightarrow> Inl (AppError ''VARIANT_NOT_FOUND'' 404)
                | Some r \<Rightarrow> if var_product_id r \<noteq> pid \<or> \<not> var_active r then Inl (AppError ''VARIANT_NOT_FOUND'' 404)
                    else Inr (map rl_ingredient_id (recipe_lines_for v (st_variant_recipes s)))))
         (\<lambda>vs. if eids = [] then Inr (base @ vs)
            else if \<not> list_all (\<lambda>e. (pid, e) \<in> set (cat_product_extras cat)) eids then Inl (AppError ''EXTRA_NOT_LINKED'' 422)
            else Inr (base @ vs @ map rl_ingredient_id (filter (\<lambda>r. rl_target_id r \<in> set eids) (st_extra_recipes s)))))"

definition merge_selection :: "allergen_definition \<times> allergen_level \<Rightarrow> (int \<times> allergen_view) list \<Rightarrow> (int \<times> allergen_view) list" where
  "merge_selection dl declared =
     (case map_of declared (ad_id (fst dl)) of
        Some v \<Rightarrow> if level_priority (vw_level v) < level_priority (snd dl)
            then dict_set (ad_id (fst dl)) (view_of (fst dl) (snd dl) From_ingredient) declared else declared
      | None \<Rightarrow> dict_set (ad_id (fst dl)) (view_of (fst dl) (snd dl) From_ingredient) declared)"

definition ingredient_levels :: "int list \<Rightarrow> allergen_db \<Rightarrow> (allergen_definition \<times> allergen_level) list" where
  "ingredient_levels iids db =
     concat (map (\<lambda>ia. case row_get ad_id (ia_allergen_id ia) (al_definitions db) of None \<Rightarrow> [] | Some d \<Rightarrow> [(d, ia_level ia)])
       (filter (\<lambda>ia. ia_ingredient_id ia \<in> set iids) (al_ingredients db)))"

definition get_selection_allergens ::
    "(string \<Rightarrow> int) \<Rightarrow> stock_db \<Rightarrow> allergen_db \<Rightarrow> int \<Rightarrow> int option \<Rightarrow> int list \<Rightarrow> (allergen_view list \<times> bool) res" where
  "get_selection_allergens rank s db pid vid eids =
     rbind (selection_ingredients s pid vid eids) (\<lambda>iids.
       let declared = fold merge_selection (ingredient_levels iids db)
             (fold (\<lambda>v m. dict_set (vw_allergen_id v) v m) (product_views rank db pid) [])
       in Inr (sort_key (\<lambda>v. (\<not> vw_regulatory v, vw_name v)) (map snd declared),
               list_all (\<lambda>a. a \<in> fst ` set declared) (regulatory_ids db)))"

definition validate_catalog_selection ::
    "(string \<Rightarrow> int) \<Rightarrow> stock_db \<Rightarrow> allergen_db \<Rightarrow> int \<Rightarrow> int option \<Rightarrow> int list \<Rightarrow> (allergen_view list \<times> bool) res" where
  "validate_catalog_selection rank s db pid vid eids =
     (case row_get prod_id pid (cat_products (st_catalog s)) of
        None \<Rightarrow> Inl (AppError ''PRODUCT_NOT_FOUND'' 404)
      | Some p \<Rightarrow>
          if \<not> prod_active p then Inl (AppError ''PRODUCT_NOT_FOUND'' 404)
          else rbind (get_selection_allergens rank s db pid vid eids) (\<lambda>(vs, complete).
            if complete then Inr (vs, complete) else Inl (AppError ''ALLERGEN_DECLARATION_INCOMPLETE'' 422)))"

definition get_catalog_completeness :: "(string \<Rightarrow> int) \<Rightarrow> stock_db \<Rightarrow> allergen_db \<Rightarrow> nat \<times> nat \<times> rat" where
  "get_catalog_completeness rank s db =
     (let ps = map prod_id (filter prod_active (cat_products (st_catalog s)));
          complete = length (filter snd (snd (allergen_map rank db ps)))
      in (length ps, complete, if ps = [] then 100 else money (of_nat complete / of_nat (length ps) * 100)))"

end
