(* ===== verification/Catalog_Admin.thy ===== *)
theory Catalog_Admin
  imports Allergens
begin

text \<open>
  The administration of the catalogue, \<^verbatim>\<open>app/modules/catalog/service.py\<close>: categories, products, variants, extras, their
  links and recommendations, with the audit trail of prices, and \<^verbatim>\<open>LocalCatalogProvider\<close> of \<^verbatim>\<open>providers.py\<close>. The tables here
  are richer than the \<open>catalog\<close> the orders read; \<open>show_shelf\<close> is what the orders see of them.
\<close>

subsection \<open>Tables\<close>

record shelf_category = category +
  sc_display_order :: int
  sc_active :: bool

record shelf_product = product +
  sp_description :: "string option"
  sp_image_url :: "string option"
  sp_featured :: bool

record recommendation =
  rc_id :: int
  rc_product_id :: int
  rc_recommended_id :: int
  rc_display_order :: int
  rc_label :: "string option"
  rc_active :: bool

datatype priced = Priced_product | Priced_variant | Priced_extra

record price_audit =
  pr_entity :: priced
  pr_entity_id :: int
  pr_old :: "rat option"
  pr_new :: rat
  pr_user :: "int option"
  pr_source :: string
  pr_reason :: "string option"

record shelf =
  sf_categories :: "shelf_category list"
  sf_products :: "shelf_product list"
  sf_variants :: "product_variant list"
  sf_extras :: "extra list"
  sf_links :: "(int \<times> int) list"
  sf_recommendations :: "recommendation list"
  sf_extra_ingredients :: "recipe_line list"
  sf_price_audits :: "price_audit list"

definition show_shelf :: "shelf \<Rightarrow> catalog \<Rightarrow> catalog" where
  "show_shelf f cat = cat\<lparr>cat_categories := map category.truncate (sf_categories f), cat_products := map product.truncate (sf_products f),
     cat_variants := sf_variants f, cat_extras := sf_extras f, cat_product_extras := sf_links f\<rparr>"

definition add_price_audit ::
    "priced \<Rightarrow> int \<Rightarrow> rat option \<Rightarrow> rat \<Rightarrow> int option \<Rightarrow> string \<Rightarrow> string option \<Rightarrow> shelf \<Rightarrow> shelf" where
  "add_price_audit kind key old new user source reason f =
     (if old = Some new then f
      else f\<lparr>sf_price_audits := sf_price_audits f @ [\<lparr>pr_entity = kind, pr_entity_id = key, pr_old = old, pr_new = new, pr_user = user,
               pr_source = source, pr_reason = reason\<rparr>]\<rparr>)"

text \<open>A field of a patch is absent, null or a value. A null in a column that must not be null is refused by the table.\<close>

definition given_value :: "'a option option \<Rightarrow> 'a \<Rightarrow> 'a" where
  "given_value v old = (case v of Some (Some x) \<Rightarrow> x | _ \<Rightarrow> old)"

definition given_or_null :: "'a option option \<Rightarrow> 'a option \<Rightarrow> 'a option" where
  "given_or_null v old = (case v of None \<Rightarrow> old | Some x \<Rightarrow> x)"

definition is_null :: "'a option option \<Rightarrow> bool" where
  "is_null v \<longleftrightarrow> v = Some None"

definition shelf_page :: "nat \<Rightarrow> nat \<Rightarrow> 'a list \<Rightarrow> 'a list" where
  "shelf_page page page_size xs = take page_size (drop ((page - 1) * page_size) xs)"

subsection \<open>Categories\<close>

record category_create =
  cc_name :: string
  cc_display_order :: int
  cc_station :: station

record category_patch =
  cp_name :: "string option option"
  cp_display_order :: "int option option"
  cp_station :: "station option option"
  cp_active :: "bool option option"

text \<open>\<open>rank\<close> is the text order of the database.\<close>

definition list_categories :: "(string \<Rightarrow> int) \<Rightarrow> nat \<Rightarrow> nat \<Rightarrow> shelf \<Rightarrow> shelf_category list \<times> nat" where
  "list_categories rank page page_size f =
     (let cs = filter sc_active (sf_categories f)
      in (shelf_page page page_size (sort_key (\<lambda>c. (sc_display_order c, rank (cat_name c))) cs), length cs))"

definition create_category :: "int \<Rightarrow> category_create \<Rightarrow> shelf \<Rightarrow> shelf \<times> shelf_category" where
  "create_category key b f =
     (let c = \<lparr>cat_id = key, cat_name = cc_name b, cat_station = Some (cc_station b), sc_display_order = cc_display_order b, sc_active = True\<rparr>
      in (f\<lparr>sf_categories := sf_categories f @ [c]\<rparr>, c))"

definition update_category :: "int \<Rightarrow> category_patch \<Rightarrow> shelf \<Rightarrow> (shelf \<times> shelf_category) res" where
  "update_category key u f =
     (case row_get cat_id key (sf_categories f) of
        None \<Rightarrow> Inl (AppError ''CATEGORY_NOT_FOUND'' 404)
      | Some c \<Rightarrow>
          if is_null (cp_name u) \<or> is_null (cp_display_order u) \<or> is_null (cp_station u) \<or> is_null (cp_active u) then Inl IntegrityError
          else let c' = c\<lparr>cat_name := given_value (cp_name u) (cat_name c),
                   cat_station := (case cp_station u of Some (Some s) \<Rightarrow> Some s | _ \<Rightarrow> cat_station c),
                   sc_display_order := given_value (cp_display_order u) (sc_display_order c), sc_active := given_value (cp_active u) (sc_active c)\<rparr>
               in Inr (f\<lparr>sf_categories := row_upd cat_id key (\<lambda>_. c') (sf_categories f)\<rparr>, c'))"

subsection \<open>Products\<close>

record product_create =
  pc_category_id :: "int option"
  pc_name :: string
  pc_description :: "string option"
  pc_base_price :: rat
  pc_image_url :: "string option"
  pc_station :: "station option"
  pc_active :: bool

record product_patch =
  pp_category_id :: "int option option"
  pp_name :: "string option option"
  pp_description :: "string option option"
  pp_base_price :: "rat option option"
  pp_image_url :: "string option option"
  pp_station :: "station option option"
  pp_active :: "bool option option"
  pp_reason :: "string option"

definition list_products :: "(string \<Rightarrow> int) \<Rightarrow> nat \<Rightarrow> nat \<Rightarrow> bool \<Rightarrow> shelf \<Rightarrow> shelf_product list \<times> nat" where
  "list_products rank page page_size include_inactive f =
     (let ps = filter (\<lambda>p. include_inactive \<or> prod_active p) (sf_products f)
      in (shelf_page page page_size (sort_key (\<lambda>p. rank (prod_name p)) ps), length ps))"

definition list_featured_products :: "(string \<Rightarrow> int) \<Rightarrow> nat \<Rightarrow> shelf \<Rightarrow> shelf_product list" where
  "list_featured_products rank limit f =
     take limit (sort_key (\<lambda>p. rank (prod_name p)) (filter (\<lambda>p. prod_active p \<and> sp_featured p) (sf_products f)))"

definition list_products_by_category :: "(string \<Rightarrow> int) \<Rightarrow> int \<Rightarrow> nat \<Rightarrow> shelf \<Rightarrow> shelf_product list" where
  "list_products_by_category rank cid limit f =
     take limit (sort_key (\<lambda>p. rank (prod_name p)) (filter (\<lambda>p. prod_active p \<and> prod_category_id p = Some cid) (sf_products f)))"

definition known_category :: "shelf \<Rightarrow> int option \<Rightarrow> bool" where
  "known_category f c \<longleftrightarrow> (case c of None \<Rightarrow> True | Some k \<Rightarrow> row_get cat_id k (sf_categories f) \<noteq> None)"

definition new_product :: "int \<Rightarrow> product_create \<Rightarrow> shelf_product" where
  "new_product key b = \<lparr>prod_id = key, prod_category_id = pc_category_id b, prod_name = pc_name b, prod_base_price = pc_base_price b,
     prod_station = pc_station b, prod_active = pc_active b, sp_description = pc_description b, sp_image_url = pc_image_url b, sp_featured = False\<rparr>"

definition create_product :: "int \<Rightarrow> product_create \<Rightarrow> int option \<Rightarrow> string \<Rightarrow> shelf \<Rightarrow> (shelf \<times> shelf_product) res" where
  "create_product key b user source f =
     (if \<not> known_category f (pc_category_id b) then Inl (AppError [] 422)
      else let p = new_product key b
           in Inr (add_price_audit Priced_product key None (prod_base_price p) user source (Some ''creation'')
                     (f\<lparr>sf_products := sf_products f @ [p]\<rparr>), p))"

definition patch_product :: "product_patch \<Rightarrow> shelf_product \<Rightarrow> shelf_product" where
  "patch_product u p = p\<lparr>prod_category_id := given_or_null (pp_category_id u) (prod_category_id p), prod_name := given_value (pp_name u) (prod_name p),
     prod_base_price := given_value (pp_base_price u) (prod_base_price p), prod_station := given_or_null (pp_station u) (prod_station p),
     prod_active := given_value (pp_active u) (prod_active p), sp_description := given_or_null (pp_description u) (sp_description p),
     sp_image_url := given_or_null (pp_image_url u) (sp_image_url p)\<rparr>"

text \<open>The price is compared before anything is written, and \<^verbatim>\<open>float(None)\<close> raises.\<close>

definition update_product :: "int \<Rightarrow> product_patch \<Rightarrow> int option \<Rightarrow> string \<Rightarrow> shelf \<Rightarrow> (shelf \<times> shelf_product) res" where
  "update_product key u user source f =
     (case row_get prod_id key (sf_products f) of
        None \<Rightarrow> Inl (AppError ''PRODUCT_NOT_FOUND'' 404)
      | Some p \<Rightarrow>
          if is_null (pp_base_price u) then Inl PyTypeError
          else
            let p' = patch_product u p;
                f1 = (if pp_base_price u = None then f
                      else add_price_audit Priced_product key (Some (prod_base_price p)) (prod_base_price p') user source (pp_reason u) f)
            in if is_null (pp_name u) \<or> is_null (pp_active u) \<or> \<not> known_category f (prod_category_id p') then Inl IntegrityError
               else Inr (f1\<lparr>sf_products := row_upd prod_id key (\<lambda>_. p') (sf_products f1)\<rparr>, p'))"

text \<open>\<^verbatim>\<open>LocalCatalogProvider\<close>: activating a product requires its allergens to be declared; deleting one deactivates it.\<close>

definition provider_update_product ::
    "allergen_db \<Rightarrow> int \<Rightarrow> product_patch \<Rightarrow> int option \<Rightarrow> shelf \<Rightarrow> (shelf \<times> shelf_product) res" where
  "provider_update_product db key u user f =
     rbind (if pp_active u = Some (Some True) then validate_product_for_publication key db else Inr ())
       (\<lambda>_. update_product key u user ''admin'' f)"

definition deactivation :: product_patch where
  "deactivation = \<lparr>pp_category_id = None, pp_name = None, pp_description = None, pp_base_price = None, pp_image_url = None,
     pp_station = None, pp_active = Some (Some False), pp_reason = None\<rparr>"

definition provider_delete_product :: "int \<Rightarrow> int option \<Rightarrow> shelf \<Rightarrow> shelf res" where
  "provider_delete_product key user f = rbind (update_product key deactivation user ''admin'' f) (\<lambda>x. Inr (fst x))"

subsection \<open>Variants\<close>

record variant_patch =
  vp_name :: "string option option"
  vp_price_delta :: "rat option option"
  vp_available :: "bool option option"
  vp_reason :: "string option"

definition create_variant ::
    "int \<Rightarrow> int \<Rightarrow> string \<Rightarrow> rat \<Rightarrow> bool \<Rightarrow> int option \<Rightarrow> string \<Rightarrow> shelf \<Rightarrow> (shelf \<times> product_variant) res" where
  "create_variant key pid name delta available user source f =
     (case row_get prod_id pid (sf_products f) of
        None \<Rightarrow> Inl (AppError ''PRODUCT_NOT_FOUND'' 404)
      | Some p \<Rightarrow>
          if \<not> prod_active p then Inl (AppError ''PRODUCT_NOT_FOUND'' 404)
          else let v = \<lparr>var_id = key, var_product_id = pid, var_name = name, var_price_delta = delta, var_active = available\<rparr>
               in Inr (add_price_audit Priced_variant key None delta user source (Some ''creation'')
                         (f\<lparr>sf_variants := sf_variants f @ [v]\<rparr>), v))"

definition list_variants :: "(string \<Rightarrow> int) \<Rightarrow> int \<Rightarrow> bool \<Rightarrow> shelf \<Rightarrow> product_variant list res" where
  "list_variants rank pid include_inactive f =
     (case row_get prod_id pid (sf_products f) of
        None \<Rightarrow> Inl (AppError ''PRODUCT_NOT_FOUND'' 404)
      | Some p \<Rightarrow> Inr (sort_key (\<lambda>v. rank (var_name v))
          (filter (\<lambda>v. var_product_id v = pid \<and> (include_inactive \<or> var_active v)) (sf_variants f))))"

definition get_variant :: "int \<Rightarrow> int \<Rightarrow> shelf \<Rightarrow> product_variant res" where
  "get_variant pid vid f =
     (case row_get var_id vid (sf_variants f) of
        None \<Rightarrow> Inl (AppError ''VARIANT_NOT_FOUND'' 404)
      | Some v \<Rightarrow> if var_product_id v \<noteq> pid then Inl (AppError ''VARIANT_NOT_FOUND'' 404) else Inr v)"

definition update_variant ::
    "int \<Rightarrow> int \<Rightarrow> variant_patch \<Rightarrow> int option \<Rightarrow> string \<Rightarrow> shelf \<Rightarrow> (shelf \<times> product_variant) res" where
  "update_variant pid vid u user source f =
     rbind (get_variant pid vid f) (\<lambda>v.
       if is_null (vp_price_delta u) then Inl PyTypeError
       else
         let v' = v\<lparr>var_name := given_value (vp_name u) (var_name v), var_price_delta := given_value (vp_price_delta u) (var_price_delta v),
               var_active := given_value (vp_available u) (var_active v)\<rparr>;
             f1 = (if vp_price_delta u = None then f
                   else add_price_audit Priced_variant vid (Some (var_price_delta v)) (var_price_delta v') user source (vp_reason u) f)
         in if is_null (vp_name u) \<or> is_null (vp_available u) then Inl IntegrityError
            else Inr (f1\<lparr>sf_variants := row_upd var_id vid (\<lambda>_. v') (sf_variants f1)\<rparr>, v'))"

definition delete_variant :: "int \<Rightarrow> int \<Rightarrow> shelf \<Rightarrow> shelf res" where
  "delete_variant pid vid f =
     rbind (get_variant pid vid f) (\<lambda>v.
       Inr (f\<lparr>sf_variants := row_upd var_id vid (\<lambda>v. v\<lparr>var_active := False\<rparr>) (sf_variants f)\<rparr>))"

subsection \<open>Extras\<close>

record extra_patch =
  ep_name :: "string option option"
  ep_price :: "rat option option"
  ep_active :: "bool option option"
  ep_reason :: "string option"

definition list_extras :: "(string \<Rightarrow> int) \<Rightarrow> nat \<Rightarrow> nat \<Rightarrow> bool \<Rightarrow> shelf \<Rightarrow> extra list \<times> nat" where
  "list_extras rank page page_size include_inactive f =
     (let xs = filter (\<lambda>x. include_inactive \<or> ext_active x) (sf_extras f)
      in (shelf_page page page_size (sort_key (\<lambda>x. rank (ext_name x)) xs), length xs))"

definition create_extra :: "int \<Rightarrow> string \<Rightarrow> rat \<Rightarrow> bool \<Rightarrow> int option \<Rightarrow> string \<Rightarrow> shelf \<Rightarrow> shelf \<times> extra" where
  "create_extra key name price active user source f =
     (let x = \<lparr>ext_id = key, ext_name = name, ext_price = price, ext_active = active\<rparr>
      in (add_price_audit Priced_extra key None price user source (Some ''creation'') (f\<lparr>sf_extras := sf_extras f @ [x]\<rparr>), x))"

definition update_extra :: "int \<Rightarrow> extra_patch \<Rightarrow> int option \<Rightarrow> string \<Rightarrow> shelf \<Rightarrow> (shelf \<times> extra) res" where
  "update_extra key u user source f =
     (case row_get ext_id key (sf_extras f) of
        None \<Rightarrow> Inl (AppError ''EXTRA_NOT_FOUND'' 404)
      | Some x \<Rightarrow>
          if is_null (ep_price u) then Inl PyTypeError
          else
            let x' = x\<lparr>ext_name := given_value (ep_name u) (ext_name x), ext_price := given_value (ep_price u) (ext_price x),
                  ext_active := given_value (ep_active u) (ext_active x)\<rparr>;
                f1 = (if ep_price u = None then f
                      else add_price_audit Priced_extra key (Some (ext_price x)) (ext_price x') user source (ep_reason u) f)
            in if is_null (ep_name u) \<or> is_null (ep_active u) then Inl IntegrityError
               else Inr (f1\<lparr>sf_extras := row_upd ext_id key (\<lambda>_. x') (sf_extras f1)\<rparr>, x'))"

text \<open>The recipe of a deleted extra goes with it.\<close>

definition delete_extra :: "int \<Rightarrow> shelf \<Rightarrow> shelf res" where
  "delete_extra key f =
     (case row_get ext_id key (sf_extras f) of
        None \<Rightarrow> Inl (AppError ''EXTRA_NOT_FOUND'' 404)
      | Some x \<Rightarrow>
          if list_ex (\<lambda>l. snd l = key) (sf_links f) then Inl (AppError ''EXTRA_STILL_LINKED'' 409)
          else Inr (f\<lparr>sf_extras := filter (\<lambda>x. ext_id x \<noteq> key) (sf_extras f),
                      sf_extra_ingredients := filter (\<lambda>r. rl_target_id r \<noteq> key) (sf_extra_ingredients f)\<rparr>))"

definition link_extra_to_product :: "int \<Rightarrow> int \<Rightarrow> shelf \<Rightarrow> shelf res" where
  "link_extra_to_product pid eid f =
     (if row_get prod_id pid (sf_products f) = None then Inl (AppError ''PRODUCT_NOT_FOUND'' 404)
      else if row_get ext_id eid (sf_extras f) = None then Inl (AppError ''EXTRA_NOT_FOUND'' 404)
      else Inr (if (pid, eid) \<in> set (sf_links f) then f else f\<lparr>sf_links := sf_links f @ [(pid, eid)]\<rparr>))"

definition unlink_extra_from_product :: "int \<Rightarrow> int \<Rightarrow> shelf \<Rightarrow> shelf res" where
  "unlink_extra_from_product pid eid f =
     (if (pid, eid) \<notin> set (sf_links f) then Inl (AppError ''EXTRA_NOT_FOUND'' 404)
      else Inr (f\<lparr>sf_links := filter (\<lambda>l. l \<noteq> (pid, eid)) (sf_links f)\<rparr>))"

definition list_product_extras :: "(string \<Rightarrow> int) \<Rightarrow> int \<Rightarrow> bool \<Rightarrow> shelf \<Rightarrow> extra list res" where
  "list_product_extras rank pid include_inactive f =
     (case row_get prod_id pid (sf_products f) of
        None \<Rightarrow> Inl (AppError ''PRODUCT_NOT_FOUND'' 404)
      | Some p \<Rightarrow> Inr (sort_key (\<lambda>x. rank (ext_name x))
          (filter (\<lambda>x. (pid, ext_id x) \<in> set (sf_links f) \<and> (include_inactive \<or> ext_active x)) (sf_extras f))))"

subsection \<open>Recommendations\<close>

definition find_recommendation :: "int \<Rightarrow> int \<Rightarrow> shelf \<Rightarrow> recommendation option" where
  "find_recommendation pid rid f = find (\<lambda>r. rc_product_id r = pid \<and> rc_recommended_id r = rid) (sf_recommendations f)"

definition add_product_recommendation ::
    "int \<Rightarrow> int \<Rightarrow> int \<Rightarrow> int \<Rightarrow> string option \<Rightarrow> shelf \<Rightarrow> (shelf \<times> recommendation) res" where
  "add_product_recommendation key pid rid position label f =
     (if row_get prod_id pid (sf_products f) = None then Inl (AppError ''PRODUCT_NOT_FOUND'' 404)
      else if row_get prod_id rid (sf_products f) = None then Inl (AppError ''RECOMMENDED_PRODUCT_NOT_FOUND'' 404)
      else if pid = rid then Inl (AppError ''INVALID_RECOMMENDATION'' 422)
      else
        case find_recommendation pid rid f of
          Some r \<Rightarrow>
            let r' = r\<lparr>rc_display_order := position, rc_label := label, rc_active := True\<rparr>
            in Inr (f\<lparr>sf_recommendations := row_upd rc_id (rc_id r) (\<lambda>_. r') (sf_recommendations f)\<rparr>, r')
        | None \<Rightarrow>
            let r = \<lparr>rc_id = key, rc_product_id = pid, rc_recommended_id = rid, rc_display_order = position, rc_label = label, rc_active = True\<rparr>
            in Inr (f\<lparr>sf_recommendations := sf_recommendations f @ [r]\<rparr>, r))"

definition get_recommendation :: "int \<Rightarrow> int \<Rightarrow> shelf \<Rightarrow> recommendation res" where
  "get_recommendation pid key f =
     (case row_get rc_id key (sf_recommendations f) of
        None \<Rightarrow> Inl (AppError ''RECOMMENDATION_NOT_FOUND'' 404)
      | Some r \<Rightarrow> if rc_product_id r \<noteq> pid then Inl (AppError ''RECOMMENDATION_NOT_FOUND'' 404) else Inr r)"

definition update_product_recommendation ::
    "int \<Rightarrow> int \<Rightarrow> int option option \<Rightarrow> string option option \<Rightarrow> bool option option \<Rightarrow> shelf \<Rightarrow> (shelf \<times> recommendation) res" where
  "update_product_recommendation pid key position label active f =
     rbind (get_recommendation pid key f) (\<lambda>r.
       if is_null position \<or> is_null active then Inl IntegrityError
       else let r' = r\<lparr>rc_display_order := given_value position (rc_display_order r), rc_label := given_or_null label (rc_label r),
                 rc_active := given_value active (rc_active r)\<rparr>
            in Inr (f\<lparr>sf_recommendations := row_upd rc_id key (\<lambda>_. r') (sf_recommendations f)\<rparr>, r'))"

definition delete_product_recommendation :: "int \<Rightarrow> int \<Rightarrow> shelf \<Rightarrow> shelf res" where
  "delete_product_recommendation pid key f =
     rbind (get_recommendation pid key f) (\<lambda>r.
       Inr (f\<lparr>sf_recommendations := row_upd rc_id key (\<lambda>r. r\<lparr>rc_active := False\<rparr>) (sf_recommendations f)\<rparr>))"

text \<open>The join of the active recommendations of a product with the active products they name.\<close>

definition list_recommended_products :: "(string \<Rightarrow> int) \<Rightarrow> int \<Rightarrow> shelf \<Rightarrow> shelf_product list" where
  "list_recommended_products rank pid f =
     map snd (sort_key (\<lambda>rp. (rc_display_order (fst rp), rank (prod_name (snd rp))))
       (concat (map (\<lambda>r. case row_get prod_id (rc_recommended_id r) (sf_products f) of None \<Rightarrow> []
           | Some p \<Rightarrow> if prod_active p then [(r, p)] else [])
         (filter (\<lambda>r. rc_product_id r = pid \<and> rc_active r) (sf_recommendations f)))))"

definition list_product_recommendations :: "int \<Rightarrow> shelf \<Rightarrow> (recommendation \<times> shelf_product option) list" where
  "list_product_recommendations pid f =
     map (\<lambda>r. (r, row_get prod_id (rc_recommended_id r) (sf_products f)))
       (sort_key rc_display_order (filter (\<lambda>r. rc_product_id r = pid \<and> rc_active r) (sf_recommendations f)))"

subsection \<open>Availability by hand, and the history of prices\<close>

definition set_product_availability_override ::
    "instant \<Rightarrow> int \<Rightarrow> bool \<Rightarrow> string option \<Rightarrow> int \<Rightarrow> stock_db \<Rightarrow> (stock_db \<times> availability_override) res" where
  "set_product_availability_override now pid available reason user s =
     (if \<not> has_product s pid then Inl (AppError ''PRODUCT_NOT_FOUND'' 404)
      else
        let r = (case reason of None \<Rightarrow> None | Some t \<Rightarrow> if py_strip t = [] then None else Some (py_strip t))
        in if \<not> available \<and> r = None then Inl (AppError ''AVAILABILITY_REASON_REQUIRED'' 422)
           else let ov = \<lparr>ov_id = st_override_seq s + 1, ov_product_id = pid, ov_available = available, ov_reason = r, ov_user = user,
                     ov_created_at = now\<rparr>
                in Inr (s\<lparr>st_overrides := st_overrides s @ [ov], st_override_seq := st_override_seq s + 1\<rparr>, ov))"

definition list_product_availability_history :: "int \<Rightarrow> stock_db \<Rightarrow> availability_override list res" where
  "list_product_availability_history pid s =
     (if \<not> has_product s pid then Inl (AppError ''PRODUCT_NOT_FOUND'' 404)
      else Inr (rev (sort_key (\<lambda>ov. (ov_created_at ov, ov_id ov)) (filter (\<lambda>ov. ov_product_id ov = pid) (st_overrides s)))))"

text \<open>The newest first; the table is in the order of writing.\<close>

definition get_price_audit :: "priced option \<Rightarrow> int \<Rightarrow> nat \<Rightarrow> nat \<Rightarrow> shelf \<Rightarrow> (price_audit list \<times> nat) res" where
  "get_price_audit kind key page page_size f =
     (case kind of
        None \<Rightarrow> Inl (AppError ''INVALID_ENTITY_TYPE'' 422)
      | Some k \<Rightarrow>
          let rows = filter (\<lambda>a. pr_entity a = k \<and> (key = 0 \<or> pr_entity_id a = key)) (sf_price_audits f)
          in Inr (shelf_page page page_size (rev rows), length rows))"

end
