(* ===== verification/Promotion_Admin.thy ===== *)
theory Promotion_Admin
  imports Catalog_Admin Promotions
begin

text \<open>
  Editing a promotion code and the figures shown to administrators, the rest of
  \<^verbatim>\<open>app/modules/promotions/service.py\<close>. A patch field is absent, null or a value, as in \<open>Catalog_Admin\<close>; the description
  is not represented, and \<open>ilike\<close> is the database's comparison of a code with a pattern.
\<close>

subsection \<open>Editing\<close>

record promo_patch =
  prp_code :: "string option option"
  prp_discount_type :: "discount_type option option"
  prp_discount_value :: "rat option option"
  prp_min_order_amount :: "rat option option"
  prp_starts_at :: "instant option option"
  prp_ends_at :: "instant option option"
  prp_active :: "bool option option"
  prp_max_uses :: "int option option"
  prp_max_uses_per_user :: "int option option"
  prp_first_order_only :: "bool option option"
  prp_campaign_id :: "int option option"
  prp_user_id :: "int option option"
  prp_public :: "bool option option"
  prp_stackable :: "bool option option"
  prp_free_delivery :: "bool option option"
  prp_email_verified_required :: "bool option option"
  prp_target_categories :: "int list option"
  prp_target_products :: "int list option"

definition empty_promo_patch :: promo_patch where
  "empty_promo_patch = \<lparr>prp_code = None, prp_discount_type = None, prp_discount_value = None, prp_min_order_amount = None,
      prp_starts_at = None, prp_ends_at = None, prp_active = None, prp_max_uses = None, prp_max_uses_per_user = None,
      prp_first_order_only = None, prp_campaign_id = None, prp_user_id = None, prp_public = None, prp_stackable = None,
      prp_free_delivery = None, prp_email_verified_required = None, prp_target_categories = None, prp_target_products = None\<rparr>"

text \<open>The bounds of the schema; the code is then stripped and put in upper case.\<close>

definition promo_patch_valid :: "promo_patch \<Rightarrow> bool" where
  "promo_patch_valid b \<longleftrightarrow>
     (case prp_code b of Some (Some c) \<Rightarrow> 1 \<le> length c \<and> length c \<le> 64 | _ \<Rightarrow> True)
     \<and> (case prp_discount_value b of Some (Some v) \<Rightarrow> 0 \<le> v | _ \<Rightarrow> True)
     \<and> (case prp_min_order_amount b of Some (Some v) \<Rightarrow> 0 \<le> v | _ \<Rightarrow> True)
     \<and> (case prp_max_uses b of Some (Some m) \<Rightarrow> 0 < m | _ \<Rightarrow> True)
     \<and> (case prp_max_uses_per_user b of Some (Some m) \<Rightarrow> 0 < m | _ \<Rightarrow> True)"

definition normalized_code :: "promo_patch \<Rightarrow> string option option" where
  "normalized_code b = map_option (map_option (\<lambda>c. py_upper (py_strip c))) (prp_code b)"

definition patch_promo :: "promo_patch \<Rightarrow> promotion \<Rightarrow> promotion" where
  "patch_promo b p =
     p\<lparr>pm_code := given_value (normalized_code b) (pm_code p),
       pm_discount_type := given_value (prp_discount_type b) (pm_discount_type p),
       pm_discount_value := given_value (prp_discount_value b) (pm_discount_value p),
       pm_min_order_amount := given_value (prp_min_order_amount b) (pm_min_order_amount p),
       pm_starts_at := given_or_null (prp_starts_at b) (pm_starts_at p),
       pm_ends_at := given_or_null (prp_ends_at b) (pm_ends_at p),
       pm_active := given_value (prp_active b) (pm_active p),
       pm_max_uses := given_or_null (prp_max_uses b) (pm_max_uses p),
       pm_max_uses_per_user := given_or_null (prp_max_uses_per_user b) (pm_max_uses_per_user p),
       pm_first_order_only := given_value (prp_first_order_only b) (pm_first_order_only p),
       pm_campaign_id := given_or_null (prp_campaign_id b) (pm_campaign_id p),
       pm_user_id := given_or_null (prp_user_id b) (pm_user_id p),
       pm_public := given_value (prp_public b) (pm_public p),
       pm_stackable := given_value (prp_stackable b) (pm_stackable p),
       pm_free_delivery := given_value (prp_free_delivery b) (pm_free_delivery p),
       pm_email_verified_required := given_value (prp_email_verified_required b) (pm_email_verified_required p)\<rparr>"

text \<open>A null in one of these columns is refused by the table; a null discount value already fails in \<^verbatim>\<open>float\<close>.\<close>

definition promo_nulls :: "promo_patch \<Rightarrow> bool" where
  "promo_nulls b \<longleftrightarrow> is_null (prp_code b) \<or> is_null (prp_discount_type b) \<or> is_null (prp_min_order_amount b)
     \<or> is_null (prp_active b) \<or> is_null (prp_first_order_only b) \<or> is_null (prp_public b) \<or> is_null (prp_stackable b)
     \<or> is_null (prp_free_delivery b) \<or> is_null (prp_email_verified_required b)"

definition update_promotion :: "int \<Rightarrow> promo_patch \<Rightarrow> promo_db \<Rightarrow> promo_db res" where
  "update_promotion pid b db =
     (if \<not> promo_patch_valid b then Inl (AppError [] 422)
      else case row_get pm_id pid (pd_promos db) of
        None \<Rightarrow> Inl (AppError ''PROMOTION_NOT_FOUND'' 404)
      | Some p \<Rightarrow>
          let q = patch_promo b p
          in if is_null (prp_discount_value b) then Inl PyTypeError
             else if pm_discount_value q \<le> 0 \<and> (is_null (prp_free_delivery b) \<or> \<not> pm_free_delivery q)
             then Inl (AppError ''INVALID_PROMOTION'' 422)
             else if promo_nulls b then Inl IntegrityError
             else if list_ex (\<lambda>r. pm_id r \<noteq> pid \<and> pm_code r = pm_code q) (pd_promos db) then Inl IntegrityError
             else Inr (set_targets pid (prp_target_categories b) (prp_target_products b) (upd_promo pid (patch_promo b) db)))"

subsection \<open>Figures\<close>

record promo_stats =
  pst_usage_count :: nat
  pst_unique_users :: nat
  pst_revenue_gross :: rat
  pst_revenue_net :: rat
  pst_discount_total :: rat

text \<open>The usages joined with their orders, when these still exist.\<close>

definition usage_orders :: "order list \<Rightarrow> promo_usage list \<Rightarrow> order list" where
  "usage_orders orders us = concat (map (\<lambda>u. case row_get ord_id (pu_order_id u) orders of None \<Rightarrow> [] | Some o1 \<Rightarrow> [o1]) us)"

definition stats_of_usages :: "order list \<Rightarrow> promo_usage list \<Rightarrow> promo_stats" where
  "stats_of_usages orders us =
     (let os = usage_orders orders us
      in \<lparr>pst_usage_count = length us, pst_unique_users = length (remdups (map pu_user_id us)),
          pst_revenue_gross = money (sum_list (map ord_subtotal os)), pst_revenue_net = money (sum_list (map ord_total os)),
          pst_discount_total = money (sum_list (map ord_discount_total os))\<rparr>)"

definition stats_for_promo :: "order list \<Rightarrow> promo_db \<Rightarrow> int \<Rightarrow> promo_stats" where
  "stats_for_promo orders db pid = stats_of_usages orders (filter (\<lambda>u. pu_promo_id u = pid) (pd_usages db))"

definition super_admin_stats_for_tenant :: "order list \<Rightarrow> promo_db \<Rightarrow> promo_stats" where
  "super_admin_stats_for_tenant orders db = stats_of_usages orders (pd_usages db)"

record promo_admin_out =
  pao_promo :: promotion
  pao_targets :: promo_targets
  pao_remaining :: "int option"
  pao_stats :: promo_stats

definition admin_out :: "order list \<Rightarrow> promo_db \<Rightarrow> promotion \<Rightarrow> promo_admin_out" where
  "admin_out orders db p =
     \<lparr>pao_promo = p, pao_targets = targets_for_promo db (pm_id p),
      pao_remaining = map_option (\<lambda>m. max 0 (m - pm_current_uses p)) (pm_max_uses p),
      pao_stats = stats_for_promo orders db (pm_id p)\<rparr>"

definition get_promotion :: "order list \<Rightarrow> int \<Rightarrow> promo_db \<Rightarrow> promo_admin_out res" where
  "get_promotion orders pid db =
     (case row_get pm_id pid (pd_promos db) of
        None \<Rightarrow> Inl (AppError ''PROMOTION_NOT_FOUND'' 404)
      | Some p \<Rightarrow> Inr (admin_out orders db p))"

record promo_filter =
  pf_active :: "bool option"
  pf_campaign_id :: "int option"
  pf_code :: "string option"
  pf_user_id :: "int option"
  pf_public :: "bool option"
  pf_starts_at :: "instant option"
  pf_ends_at :: "instant option"

definition promo_selected :: "(string \<Rightarrow> string \<Rightarrow> bool) \<Rightarrow> promo_filter \<Rightarrow> promotion \<Rightarrow> bool" where
  "promo_selected ilike f p \<longleftrightarrow>
     (case pf_active f of None \<Rightarrow> True | Some a \<Rightarrow> pm_active p = a)
     \<and> (case pf_campaign_id f of None \<Rightarrow> True | Some c \<Rightarrow> pm_campaign_id p = Some c)
     \<and> (case pf_code f of None \<Rightarrow> True | Some c \<Rightarrow> c = [] \<or> ilike (pm_code p) (''%'' @ py_upper (py_strip c) @ ''%''))
     \<and> (case pf_user_id f of None \<Rightarrow> True | Some u \<Rightarrow> pm_user_id p = Some u)
     \<and> (case pf_public f of None \<Rightarrow> True | Some a \<Rightarrow> pm_public p = a)
     \<and> (case pf_starts_at f of None \<Rightarrow> True | Some t \<Rightarrow> (case pm_starts_at p of None \<Rightarrow> True | Some s \<Rightarrow> t \<le> s))
     \<and> (case pf_ends_at f of None \<Rightarrow> True | Some t \<Rightarrow> (case pm_ends_at p of None \<Rightarrow> True | Some s \<Rightarrow> s \<le> t))"

definition list_admin ::
    "(string \<Rightarrow> string \<Rightarrow> bool) \<Rightarrow> order list \<Rightarrow> promo_filter \<Rightarrow> nat \<Rightarrow> nat \<Rightarrow> promo_db \<Rightarrow> promo_admin_out list \<times> nat" where
  "list_admin ilike orders f page page_size db =
     (let rows = filter (promo_selected ilike f) (pd_promos db)
      in (map (admin_out orders db) (shelf_page page page_size (sort_key (\<lambda>p. - pm_id p) rows)), length rows))"

subsection \<open>Lemmas\<close>

lemma patch_promo_uses [simp]: "pm_current_uses (patch_promo b p) = pm_current_uses p" "pm_id (patch_promo b p) = pm_id p"
  by (simp_all add: patch_promo_def)

lemma patch_promo_limit [simp]: "pm_max_uses (patch_promo b p) = given_or_null (prp_max_uses b) (pm_max_uses p)"
  by (simp add: patch_promo_def)

lemma update_promotion_Inr:
  assumes "update_promotion pid b db = Inr db'"
  obtains p where "row_get pm_id pid (pd_promos db) = Some p" "promo_patch_valid b"
    "pd_promos db' = row_upd pm_id pid (patch_promo b) (pd_promos db)" "pd_usages db' = pd_usages db"
  using assms by (auto simp: update_promotion_def Let_def set_targets_def split: option.splits if_splits)

end
