(* ===== verification/Promotion_Props.thy ===== *)
theory Promotion_Props
  imports Promotion_Admin
begin

text \<open>Properties of promotion codes (\<^verbatim>\<open>app/modules/promotions/service.py\<close>).\<close>

subsection \<open>A concrete code\<close>

definition demo_promo :: promotion where
  "demo_promo =
     \<lparr>pm_id = 1, pm_code = ''TEN'', pm_discount_type = Percent, pm_discount_value = 10,
      pm_min_order_amount = 0, pm_starts_at = None, pm_ends_at = None, pm_active = True,
      pm_max_uses = Some 2, pm_max_uses_per_user = Some 1, pm_current_uses = 1, pm_first_order_only = False,
      pm_campaign_id = None, pm_user_id = None, pm_public = True, pm_stackable = False,
      pm_free_delivery = False, pm_email_verified_required = False\<rparr>"

definition demo_promos :: promo_db where
  "demo_promos = \<lparr>pd_promos = [demo_promo], pd_target_categories = [], pd_target_products = [], pd_usages = []\<rparr>"

abbreviation demo_apply :: "string \<Rightarrow> (promo_db \<times> rat) res" where
  "demo_apply code \<equiv> apply_promo (\<lambda>_. True) (\<lambda>_. False) 0 code 30 (Some 4) [] None demo_promos"

lemma demo_apply_ten: "\<exists>db'. demo_apply ''TEN'' = Inr (db', 3)"
proof -
  have m: "money 30 = 30" "money 3 = 3" "money 27 = 27"
    using money_of_cents [of 3000] money_of_cents [of 300] money_of_cents [of 2700] by simp_all
  have "normalize_codes [''TEN''] = [''TEN'']" by code_simp
  then have "load_promos demo_promos [''TEN''] = Inr [demo_promo]"
    by (simp add: load_promos_def promo_by_code_def demo_promos_def demo_promo_def)
  then show ?thesis
    by (simp add: apply_promo_def calculate_discounts_def assert_promo_eligible_def user_usage_count_def
        percent_first_def targeted_total_def targets_for_promo_def discount_for_promo_def Let_def m
        consume_use_def quota_left_def demo_promos_def demo_promo_def)
qed

subsection \<open>Discounts\<close>

text \<open>For a non-negative order total, the discount granted for any accepted combination of codes is
  between 0 and the order total, is a whole number of cents, and is exactly the sum of the discounts
  reported per code.\<close>

theorem discount_within_order_total:
  assumes "preview_promos verified delivered db now codes order_total items user ev = Inr out"
    and "0 \<le> order_total"
  shows "0 \<le> pv_discount out \<and> pv_discount out \<le> money order_total \<and> cents (pv_discount out)
    \<and> pv_discount out = sum_list (map snd (pv_discounts out))
    \<and> set (map fst (pv_discounts out)) = set (normalize_codes codes)"
proof -
  obtain ps d ds where l: "load_promos db codes = Inr ps"
    and c: "calculate_discounts verified delivered db now ps order_total items user ev True = Inr (d, ds)"
    and out: "pv_discount out = d" "pv_discounts out = ds"
    using assms(1) by (auto simp: preview_promos_def split_beta)
  have codes: "map pm_code ps = normalize_codes codes" "distinct (map pm_code ps)"
    using load_promos_codes [OF l] by auto
  show ?thesis using calculate_discounts_bounds [OF c codes(2) assms(2)] codes(1) out by auto
qed

lemma eligible_quota:
  "assert_promo_eligible vf dl db now p tot user ev True = Inr () \<longleftrightarrow>
   assert_promo_eligible vf dl db now p tot user ev False = Inr () \<and>
   (case pm_max_uses p of None \<Rightarrow> True | Some m \<Rightarrow> pm_current_uses p < m)"
  by (cases "pm_max_uses p") (auto simp: assert_promo_eligible_def split: option.splits if_splits)

lemma calculate_single:
  "calculate_discounts vf dl db now [p] tot items user ev cg = Inr (d, ds) \<longleftrightarrow>
   assert_promo_eligible vf dl db now p tot user ev cg = Inr () \<and>
   discount_loop db items tot [p] (money tot) [] = Inr ds \<and> d = money (sum_list (map snd ds))"
  by (auto simp: calculate_discounts_def percent_first_def)

lemma eligible_active: "assert_promo_eligible vf dl db now p tot user ev cg = Inr () \<Longrightarrow> pm_active p"
  by (auto simp: assert_promo_eligible_def split: option.splits if_splits)

lemma load_single:
  assumes "py_strip code \<noteq> []"
  shows "load_promos db [code] = (case promo_by_code db (py_upper (py_strip code)) of
     None \<Rightarrow> Inl invalid_promo | Some p \<Rightarrow> Inr [p])"
  using assms by (auto simp: load_promos_def normalize_codes_def split: option.splits)

lemma consume_use_iff:
  assumes "distinct (map pm_id (pd_promos db))" and "p \<in> set (pd_promos db)"
  shows "(\<exists>db'. consume_use (pm_id p) db = Inr db') \<longleftrightarrow> quota_left p"
proof -
  have "q = p" if "q \<in> set (pd_promos db)" "pm_id q = pm_id p" for q
    using assms that by (metis inj_on_eq_iff distinct_map)
  then show ?thesis using assms(2) by (auto simp: consume_use_def)
qed

text \<open>C32. What the basket preview announces is what the order charges: for a non-blank code, the preview
  accepts with discount \<open>d\<close> exactly when \<open>apply_promo\<close> accepts with the same \<open>d\<close>, although the two check
  the global quota differently (the preview reads it, the order consumes it atomically).\<close>

theorem preview_agrees_with_apply:
  assumes "distinct (map pm_id (pd_promos db))" and "py_strip code \<noteq> []"
  shows "(\<exists>out. preview_promos verified delivered db now [code] subtotal items user ev = Inr out \<and> pv_discount out = d)
    \<longleftrightarrow> (\<exists>db'. apply_promo verified delivered now code subtotal user items ev db = Inr (db', d))"
proof (cases "promo_by_code db (py_upper (py_strip code))")
  case None
  then show ?thesis by (simp add: preview_promos_def apply_promo_def load_single [OF assms(2)])
next
  case (Some p)
  let ?calc = "\<lambda>cg. calculate_discounts verified delivered db now [p] subtotal items user ev cg"
  have p: "p \<in> set (pd_promos db)" using Some by (auto simp: promo_by_code_def find_Some_iff)
  have l: "load_promos db [code] = Inr [p]" by (simp add: load_single [OF assms(2)] Some)
  have "(\<exists>out. preview_promos verified delivered db now [code] subtotal items user ev = Inr out \<and> pv_discount out = d)
      \<longleftrightarrow> (\<exists>ds. ?calc True = Inr (d, ds))"
    by (cases "?calc True") (auto simp: preview_promos_def l)
  also have "\<dots> \<longleftrightarrow> (\<exists>ds. ?calc False = Inr (d, ds)) \<and> quota_left p"
    unfolding calculate_single eligible_quota
    by (auto simp: quota_left_def dest: eligible_active)
  also have "\<dots> \<longleftrightarrow> (\<exists>db'. apply_promo verified delivered now code subtotal user items ev db = Inr (db', d))"
    using consume_use_iff [OF assms(1) p] by (cases "?calc False") (auto simp: apply_promo_def l)
  finally show ?thesis .
qed

theorem preview_agrees_with_apply_witness:
  "\<exists>out. preview_promos (\<lambda>_. True) (\<lambda>_. False) demo_promos 0 [''TEN''] 30 [] (Some 4) None = Inr out
     \<and> pv_discount out = 3"
proof -
  have "distinct (map pm_id (pd_promos demo_promos))" by (simp add: demo_promos_def)
  moreover have "py_strip ''TEN'' \<noteq> []" by code_simp
  ultimately show ?thesis
    using preview_agrees_with_apply [of demo_promos "''TEN''" "\<lambda>_. True" "\<lambda>_. False" 0 30 "[]" "Some 4" None 3]
      demo_apply_ten by blast
qed

theorem discount_within_order_total_witness:
  "\<exists>out. preview_promos (\<lambda>_. True) (\<lambda>_. False) demo_promos 0 [''TEN''] 30 [] (Some 4) None = Inr out
     \<and> pv_discount out \<le> money 30"
proof -
  have m: "money 30 = 30" "money 3 = 3"
    using money_of_cents [of 3000] money_of_cents [of 300] by simp_all
  have "normalize_codes [''TEN''] = [''TEN'']" by code_simp
  then have "\<exists>out. preview_promos (\<lambda>_. True) (\<lambda>_. False) demo_promos 0 [''TEN''] 30 [] (Some 4) None = Inr out"
    by (simp add: preview_promos_def load_promos_def promo_by_code_def demo_promos_def demo_promo_def
        calculate_discounts_def assert_promo_eligible_def user_usage_count_def percent_first_def
        targeted_total_def targets_for_promo_def discount_for_promo_def Let_def m)
  then obtain out where p: "preview_promos (\<lambda>_. True) (\<lambda>_. False) demo_promos 0 [''TEN''] 30 [] (Some 4) None = Inr out"
    by blast
  then show ?thesis using discount_within_order_total [OF p] by auto
qed

text \<open>Validation errors are generic: whatever is wrong with the codes, previewing or applying them
  fails with the one error INVALID_PROMO, which reveals nothing about quotas, dates or targets. The only
  other failure is applying a blank code.\<close>

theorem promo_errors_are_generic:
  "(case preview_promos verified delivered db now codes order_total items user ev of
      Inl e \<Rightarrow> e = AppError ''INVALID_PROMO'' 422 | Inr _ \<Rightarrow> True)
   \<and> (case apply_promo verified delivered now code order_total user items ev db of
        Inl e \<Rightarrow> e = AppError ''INVALID_PROMO'' 422 \<or> (e = PyIndexError \<and> py_strip code = []) | Inr _ \<Rightarrow> True)"
proof -
  have "e = invalid_promo" if "preview_promos verified delivered db now codes order_total items user ev = Inl e" for e
    using that by (auto simp: preview_promos_def rbind_eq_Inl split_beta dest: load_error calculate_error)
  moreover have "e = invalid_promo \<or> (e = PyIndexError \<and> py_strip code = [])"
    if "apply_promo verified delivered now code order_total user items ev db = Inl e" for e
  proof -
    have ne: "ps \<noteq> []" if "load_promos db [code] = Inr ps" "py_strip code \<noteq> []" for ps
      using that by (auto simp: load_single split: option.splits)
    show ?thesis
    proof (cases "load_promos db [code]")
      case (Inl e')
      then show ?thesis using that load_error [OF Inl] by (simp add: apply_promo_def)
    next
      case (Inr ps)
      show ?thesis
      proof (cases ps)
        case Nil
        then show ?thesis using that ne Inr by (auto simp: apply_promo_def)
      next
        case (Cons p qs)
        then show ?thesis
          using that Inr by (auto simp: apply_promo_def rbind_eq_Inl consume_use_def dest: calculate_error split: if_splits)
      qed
    qed
  qed
  ultimately show ?thesis by (auto split: sum.split)
qed

subsection \<open>Quotas\<close>

text \<open>Every operation that writes codes or usages. An edit may set any limit that is not below the uses already made.\<close>

definition quota_ok :: "promotion \<Rightarrow> bool" where
  "quota_ok p \<longleftrightarrow> (case pm_max_uses p of None \<Rightarrow> True | Some m \<Rightarrow> pm_current_uses p \<le> m)"

definition keeps_quota :: "int \<Rightarrow> promo_patch \<Rightarrow> promo_db \<Rightarrow> bool" where
  "keeps_quota pid b db \<longleftrightarrow> (\<forall>p \<in> set (pd_promos db). pm_id p = pid \<longrightarrow> quota_ok (patch_promo b p))"

inductive promo_step :: "promo_db \<Rightarrow> promo_db \<Rightarrow> bool" where
  pstep_apply: "apply_promo vf dl now code sub user items ev db = Inr (db', d) \<Longrightarrow> promo_step db db'"
| pstep_record: "record_promo_usage code uid oid db = Inr db' \<Longrightarrow> promo_step db db'"
| pstep_create:
    "case pm_max_uses data of None \<Rightarrow> True | Some m \<Rightarrow> 0 < m \<Longrightarrow>
     create_promotion nid data cats prods db = Inr db' \<Longrightarrow> promo_step db db'"
| pstep_update: "keeps_quota pid b db \<Longrightarrow> update_promotion pid b db = Inr db' \<Longrightarrow> promo_step db db'"
| pstep_toggle: "toggle_promotion pid active db = Inr db' \<Longrightarrow> promo_step db db'"
| pstep_delete: "delete_promotion pid db = db' \<Longrightarrow> promo_step db db'"
| pstep_cleanup: "cleanup_expired_promotions now db = (db', pids) \<Longrightarrow> promo_step db db'"
| pstep_bulk:
    "case pm_max_uses data of None \<Rightarrow> True | Some m \<Rightarrow> 0 < m \<Longrightarrow>
     bulk_generate nid cid prefix data cats prods draws db = Inr (db', codes) \<Longrightarrow> promo_step db db'"

definition quotas_ok :: "promo_db \<Rightarrow> bool" where
  "quotas_ok db \<longleftrightarrow> list_all quota_ok (pd_promos db)"

lemma set_targets_promos [simp]: "pd_promos (set_targets pid cs ps db) = pd_promos db"
  by (simp add: set_targets_def)

lemma quota_ok_active [simp]: "quota_ok (p\<lparr>pm_active := a\<rparr>) = quota_ok p"
  by (cases "pm_max_uses p") (simp_all add: quota_ok_def)

lemma quota_ok_use: "quota_left p \<Longrightarrow> quota_ok (p\<lparr>pm_current_uses := pm_current_uses p + 1\<rparr>)"
  by (auto simp: quota_ok_def quota_left_def split: option.splits)

lemma apply_quota:
  assumes "apply_promo vf dl now code sub user items ev db = Inr (db', d)" and "quotas_ok db"
  shows "quotas_ok db'"
proof -
  obtain ps where ps: "load_promos db [code] = Inr ps"
    using assms(1) by (auto simp: apply_promo_def)
  obtain pid where c: "consume_use pid db = Inr db'"
    using assms(1) by (cases ps) (auto simp: apply_promo_def ps)
  then have "db' = upd_promo pid (\<lambda>r. if quota_left r then r\<lparr>pm_current_uses := pm_current_uses r + 1\<rparr> else r) db"
    by (auto simp: consume_use_def split: if_splits)
  then show ?thesis
    using assms(2) by (auto simp: quotas_ok_def quota_ok_use intro!: row_upd_list_all)
qed

lemma bulk_quota:
  assumes "bulk_loop nid cid prefix data cats prods draws (db, codes) = Inr (db', codes')"
    and "case pm_max_uses data of None \<Rightarrow> True | Some m \<Rightarrow> 0 < m" and "quotas_ok db"
  shows "quotas_ok db'"
  using assms
proof (induction draws arbitrary: nid db codes)
  case (Cons attempts draws)
  then obtain code where code: "pick_code db codes prefix attempts = Some code"
    by (cases "pick_code db codes prefix attempts") auto
  let ?p = "data\<lparr>pm_id := nid, pm_code := code, pm_campaign_id := Some cid, pm_current_uses := 0\<rparr>"
  let ?db = "set_targets nid (Some cats) (Some prods) (db\<lparr>pd_promos := pd_promos db @ [?p]\<rparr>)"
  have "quota_ok ?p" using Cons.prems(2) by (cases "pm_max_uses data") (simp_all add: quota_ok_def)
  then have "quotas_ok ?db" using Cons.prems(3) by (simp add: quotas_ok_def)
  moreover have "bulk_loop (nid + 1) cid prefix data cats prods draws (?db, codes @ [code]) = Inr (db', codes')"
    using Cons.prems(1) code by simp
  ultimately show ?case using Cons.IH Cons.prems(2) by blast
qed simp

lemma promo_step_quota: "promo_step db db' \<Longrightarrow> quotas_ok db \<Longrightarrow> quotas_ok db'"
proof (induction rule: promo_step.induct)
  case (pstep_apply vf dl now code sub user items ev db db' d)
  then show ?case using apply_quota by blast
next
  case (pstep_bulk data nid cid prefix cats prods draws db db' codes)
  then show ?case using bulk_quota by (auto simp: bulk_generate_def)
next
  case (pstep_update pid b db db')
  show ?case
    using pstep_update(2)
  proof (rule update_promotion_Inr)
    assume "pd_promos db' = row_upd pm_id pid (patch_promo b) (pd_promos db)"
    then show "quotas_ok db'"
      using pstep_update(1,3) by (auto simp: quotas_ok_def keeps_quota_def intro!: row_upd_list_all)
  qed
next
  case (pstep_cleanup now db db' pids)
  then show ?case by (auto simp: cleanup_expired_promotions_def quotas_ok_def list_all_iff)
qed (auto simp: record_promo_usage_def create_promotion_def toggle_promotion_def delete_promotion_def
      quotas_ok_def intro!: row_upd_list_all split: option.splits if_splits, auto simp: quota_ok_def split: option.splits)

interpretation promo_quota: invariant_steps promo_step quotas_ok
  by unfold_locales (rule promo_step_quota)

text \<open>C30. A code is never used more often than its global limit: along every sequence of applications, recorded uses,
  creations, campaigns, edits, activations, deletions and clean-ups the uses of a code stay within the limit in force,
  provided no edit puts the limit of a code below the uses already made.\<close>

theorem promo_quota_never_exceeded:
  assumes "promo_step\<^sup>*\<^sup>* db db'" and "quotas_ok db" and "p \<in> set (pd_promos db')" and "pm_max_uses p = Some m"
  shows "pm_current_uses p \<le> m"
  using promo_quota.run_inv [OF assms(1,2)] assms(3,4) by (auto simp: quotas_ok_def list_all_iff quota_ok_def)

definition demo_edit :: promo_patch where
  "demo_edit = empty_promo_patch\<lparr>prp_max_uses := Some (Some 5)\<rparr>"

lemma demo_edited: "update_promotion 1 demo_edit demo_promos = Inr (demo_promos\<lparr>pd_promos := [demo_promo\<lparr>pm_max_uses := Some 5\<rparr>]\<rparr>)"
  by (simp add: update_promotion_def demo_edit_def empty_promo_patch_def promo_patch_valid_def patch_promo_def given_value_def
      given_or_null_def is_null_def promo_nulls_def normalized_code_def set_targets_def demo_promos_def demo_promo_def
      row_simps Let_def)

theorem promo_quota_never_exceeded_witness:
  "\<exists>db' d db''. demo_apply ''TEN'' = Inr (db', d) \<and> update_promotion 1 demo_edit demo_promos = Inr db''
     \<and> promo_step demo_promos db' \<and> promo_step demo_promos db'' \<and> (\<forall>p \<in> set (pd_promos db'). pm_max_uses p = Some 2 \<longrightarrow> pm_current_uses p \<le> 2)
     \<and> (\<forall>p \<in> set (pd_promos db''). pm_max_uses p = Some 5 \<longrightarrow> pm_current_uses p \<le> 5)"
proof -
  obtain db' where a: "demo_apply ''TEN'' = Inr (db', 3)" using demo_apply_ten by blast
  then have s: "promo_step demo_promos db'" by (rule pstep_apply)
  have "keeps_quota 1 demo_edit demo_promos"
    by (simp add: keeps_quota_def quota_ok_def demo_edit_def empty_promo_patch_def given_or_null_def demo_promos_def demo_promo_def)
  then have e: "promo_step demo_promos (demo_promos\<lparr>pd_promos := [demo_promo\<lparr>pm_max_uses := Some 5\<rparr>]\<rparr>)"
    using demo_edited by (rule pstep_update)
  have q: "quotas_ok demo_promos" by (simp add: quotas_ok_def quota_ok_def demo_promos_def demo_promo_def)
  from promo_quota_never_exceeded [OF r_into_rtranclp [of promo_step, OF s] q]
    promo_quota_never_exceeded [OF r_into_rtranclp [of promo_step, OF e] q] a s e demo_edited
  show ?thesis by blast
qed

text \<open>The edit does not look at the uses already made.\<close>

lemma edit_below_uses_breaks_quota:
  "\<exists>db'. update_promotion 1 (demo_edit\<lparr>prp_max_uses := Some (Some 1)\<rparr>) (demo_promos\<lparr>pd_promos := [demo_promo\<lparr>pm_current_uses := 2\<rparr>]\<rparr>) = Inr db'
     \<and> \<not> quotas_ok db'"
  by (simp add: update_promotion_def demo_edit_def empty_promo_patch_def promo_patch_valid_def patch_promo_def given_value_def
      given_or_null_def is_null_def promo_nulls_def normalized_code_def set_targets_def demo_promos_def demo_promo_def
      row_simps Let_def quotas_ok_def quota_ok_def)

text \<open>The usage row is looked up with \<^verbatim>\<open>promo_code.upper()\<close> while the code was applied with
  \<^verbatim>\<open>code.strip().upper()\<close>: a code typed with a trailing space is applied but never recorded, so it does
  not count against the per-user limit.\<close>

lemma padded_code_escapes_user_quota:
  "\<exists>db' d. demo_apply ''TEN '' = Inr (db', d) \<and> record_promo_usage ''TEN '' 4 77 db' = Inr db'
     \<and> user_usage_count db' 1 4 = 0"
proof -
  have m: "money 30 = 30" "money 3 = 3"
    using money_of_cents [of 3000] money_of_cents [of 300] by simp_all
  have n: "normalize_codes [''TEN ''] = [''TEN'']" and u: "py_upper ''TEN '' = ''TEN ''" by code_simp+
  then have "load_promos demo_promos [''TEN ''] = Inr [demo_promo]"
    by (simp add: load_promos_def promo_by_code_def demo_promos_def demo_promo_def)
  then show ?thesis
    by (simp add: apply_promo_def calculate_discounts_def assert_promo_eligible_def user_usage_count_def
        percent_first_def targeted_total_def targets_for_promo_def discount_for_promo_def Let_def m
        consume_use_def quota_left_def demo_promos_def demo_promo_def record_promo_usage_def
        promo_by_code_def u row_upd_def)
qed

end
