(* ===== verification/Loyalty_Ledger.thy ===== *)
theory Loyalty_Ledger
  imports Loyalty
begin

text \<open>
  The loyalty operations as a state machine, and the ledger contract: a balance moves only together
  with the transaction rows that explain it, starts at zero and never becomes negative.
\<close>

definition points :: "loyalty_db \<Rightarrow> int \<Rightarrow> int" where
  "points db k = (case row_get la_id k (ly_accounts db) of None \<Rightarrow> 0 | Some a \<Rightarrow> la_points a)"

definition point_entries :: "loyalty_db \<Rightarrow> (int \<times> int) list" where
  "point_entries db = map (\<lambda>t. (lt_account_id t, lt_delta t)) (ly_transactions db)"

definition account_ids :: "loyalty_db \<Rightarrow> int set" where
  "account_ids db = row_ids la_id (ly_accounts db)"

text \<open>A primary key the sequence has not issued yet.\<close>

definition fresh_account :: "int \<Rightarrow> loyalty_db \<Rightarrow> bool" where
  "fresh_account nid db \<longleftrightarrow> nid \<notin> account_ids db \<and> nid \<notin> lt_account_id ` set (ly_transactions db)"

definition accounts_ok :: "loyalty_db \<Rightarrow> bool" where
  "accounts_ok db \<longleftrightarrow> distinct (map la_id (ly_accounts db)) \<and> list_all (\<lambda>a. 0 \<le> la_points a) (ly_accounts db)
     \<and> list_all (\<lambda>r. 0 < pr_points r) (ly_reservations db)"

inductive loyalty_step :: "loyalty_db \<Rightarrow> loyalty_db \<Rightarrow> bool" where
  lstep_add: "fresh_account nid db \<Longrightarrow> add_points nid uid pts reason ty oid now db = Inr db' \<Longrightarrow> loyalty_step db db'"
| lstep_redeem:
    "fresh_account nid db \<Longrightarrow> redeem_points nid uid pts reason oid rid sid now db = Inr db' \<Longrightarrow> loyalty_step db db'"
| lstep_available: "fresh_account nid db \<Longrightarrow> get_available_points nid uid now db = (db', n) \<Longrightarrow> loyalty_step db db'"
| lstep_reserve:
    "fresh_account nid db \<Longrightarrow>
     create_checkout_reservation os nid rid uid oid pts now db = Inr db' \<Longrightarrow> loyalty_step db db'"
| lstep_confirm: "confirm_checkout_reservation uid rid now db = (db', res) \<Longrightarrow> loyalty_step db db'"
| lstep_cancel: "cancel_checkout_reservation uid rid db = Inr db' \<Longrightarrow> loyalty_step db db'"
| lstep_credit:
    "fresh_account nid db \<Longrightarrow>
     credit_points_for_order deliv today nid uid oid tot cats now db = db' \<Longrightarrow> loyalty_step db db'"
| lstep_expire: "fresh_account nid db \<Longrightarrow> check_and_expire_points nid uid now db = (db', n) \<Longrightarrow> loyalty_step db db'"
| lstep_expiring: "get_expiring_points uid now db = (db', n, bs) \<Longrightarrow> loyalty_step db db'"
| lstep_expire_all: "check_and_expire_points_for_all_users now db = (db', n) \<Longrightarrow> loyalty_step db db'"
| lstep_notify: "notify_expiring_points_for_all_users today now db = (db', n) \<Longrightarrow> loyalty_step db db'"

subsection \<open>Single operations\<close>

definition point_gap :: "loyalty_db \<Rightarrow> int \<Rightarrow> int" where
  "point_gap db k = points db k - total_for k (point_entries db)"

definition settled :: "loyalty_db \<Rightarrow> loyalty_db \<Rightarrow> bool" where
  "settled s s' \<longleftrightarrow> accounts_ok s' \<and> account_ids s \<subseteq> account_ids s'
     \<and> (\<forall>k \<in> account_ids s. point_gap s' k = point_gap s k)
     \<and> (\<forall>k \<in> account_ids s' - account_ids s. point_gap s' k = 0)"

lemma settled_refl: "accounts_ok s \<Longrightarrow> settled s s"
  by (simp add: settled_def)

lemma settled_trans: "settled s t \<Longrightarrow> settled t u \<Longrightarrow> settled s u"
  by (auto simp: settled_def)

lemma settled_view:
  assumes "ly_accounts s' = ly_accounts t" "ly_transactions s' = ly_transactions t"
    "list_all (\<lambda>r. 0 < pr_points r) (ly_reservations s')" "settled s t"
  shows "settled s s'"
proof -
  have "points s' = points t" "point_entries s' = point_entries t" "account_ids s' = account_ids t"
    using assms by (simp_all add: fun_eq_iff points_def point_entries_def account_ids_def)
  then show ?thesis using assms by (simp add: settled_def point_gap_def accounts_ok_def)
qed

lemma account_of_row:
  assumes "accounts_ok db" and "account_of uid db = Some a"
  shows "row_get la_id (la_id a) (ly_accounts db) = Some a"
proof -
  have m: "a \<in> set (ly_accounts db)" using row_get_SomeD [of la_user_id uid "ly_accounts db" a] assms(2)
    by (simp add: account_of_def)
  have "row_get la_id (la_id a) rows = Some a" if "a \<in> set rows" "distinct (map la_id rows)" for rows
    using that
  proof (induction rows)
    case (Cons r rows)
    then show ?case by (cases "r = a") (auto simp: row_get_Cons image_iff)
  qed simp
  then show ?thesis using m assms(1) by (simp add: accounts_ok_def)
qed

lemma get_or_create_settled:
  assumes ok: "accounts_ok db" and f: "fresh_account nid db"
    and g: "get_or_create_account nid uid db = (db', a)"
  shows "settled db db'" "row_get la_id (la_id a) (ly_accounts db') = Some a" "account_of uid db' = Some a"
    "ly_transactions db' = ly_transactions db" "ly_config db' = ly_config db" "ly_rules db' = ly_rules db"
    "ly_reservations db' = ly_reservations db"
proof -
  show frame: "ly_transactions db' = ly_transactions db" "ly_config db' = ly_config db" "ly_rules db' = ly_rules db"
    "ly_reservations db' = ly_reservations db"
    using g by (auto simp: get_or_create_account_def Let_def split: option.splits)
  show acc: "account_of uid db' = Some a"
    using g by (auto simp: get_or_create_account_def Let_def account_of_def row_get_append row_get_Cons
        split: option.splits)
  have st: "settled db db'"
  proof (cases "account_of uid db")
    case None
    then have db': "db' = db\<lparr>ly_accounts := ly_accounts db @ [a]\<rparr>" and a: "la_id a = nid" "la_points a = 0"
      using g by (auto simp: get_or_create_account_def Let_def)
    have none: "row_get la_id nid (ly_accounts db) = None"
      using f by (simp add: fresh_account_def account_ids_def row_get_None_iff)
    have ids: "account_ids db' = insert nid (account_ids db)"
      by (auto simp: db' account_ids_def row_ids_def a)
    have p: "points db' k = (if k = nid then 0 else points db k)" for k
      using none a by (cases "row_get la_id k (ly_accounts db)")
        (auto simp: db' points_def row_get_append row_get_Cons row_get_Nil)
    have e: "point_entries db' = point_entries db" by (simp add: point_entries_def frame)
    have z: "total_for nid (point_entries db) = 0"
      using f by (intro total_for_absent) (auto simp: fresh_account_def point_entries_def image_iff)
    have "accounts_ok db'"
      using ok f a by (auto simp: accounts_ok_def db' fresh_account_def account_ids_def row_ids_def)
    moreover have "nid \<notin> account_ids db" using f by (simp add: fresh_account_def)
    ultimately show ?thesis
      using z by (auto simp: settled_def ids point_gap_def p e)
  next
    case (Some b)
    then show ?thesis using g ok by (simp add: get_or_create_account_def settled_refl)
  qed
  then show "settled db db'" .
  then show "row_get la_id (la_id a) (ly_accounts db') = Some a"
    using acc by (intro account_of_row) (auto simp: settled_def)
qed

lemma post_points_settled:
  assumes ok: "accounts_ok db" and a: "row_get la_id (la_id a) (ly_accounts db) = Some a"
    and nn: "0 \<le> la_points a + d"
  shows "settled db (post_points a d reason ty oid rid sid now db)"
proof -
  let ?db = "post_points a d reason ty oid rid sid now db"
  have ids: "account_ids ?db = account_ids db"
    by (simp add: account_ids_def post_points_def row_ids_upd)
  have g: "row_get la_id k (ly_accounts ?db) =
      (if k = la_id a then Some (a\<lparr>la_points := la_points a + d\<rparr>) else row_get la_id k (ly_accounts db))" for k
    using a by (simp add: post_points_def row_get_upd)
  have "points ?db k = (if k = la_id a then points db k + d else points db k)" for k
    using a by (simp add: points_def g)
  moreover have "point_entries ?db = point_entries db @ [(la_id a, d)]"
    by (simp add: point_entries_def post_points_def)
  moreover have "map la_id (ly_accounts ?db) = map la_id (ly_accounts db)"
    by (simp add: post_points_def row_upd_def)
  moreover have "list_all (\<lambda>r. 0 \<le> la_points r) (ly_accounts ?db)"
    using ok nn by (auto simp: accounts_ok_def post_points_def intro!: row_upd_list_all)
  moreover have "ly_reservations ?db = ly_reservations db" by (simp add: post_points_def)
  ultimately show ?thesis
    using ok by (auto simp: settled_def ids point_gap_def accounts_ok_def)
qed

text \<open>The common shape of the operations: fetch or create the account, then post.\<close>

lemma settled_fetch_post:
  assumes "accounts_ok db" and "fresh_account nid db" and "get_or_create_account nid uid db = (db', a)"
    and "0 \<le> la_points a + d"
  shows "settled db (post_points a d reason ty oid rid sid now db')"
proof (rule settled_trans)
  show s: "settled db db'" by (rule get_or_create_settled(1) [OF assms(1-3)])
  show "settled db' (post_points a d reason ty oid rid sid now db')"
    using s get_or_create_settled(2) [OF assms(1-3)] assms(4)
    by (intro post_points_settled) (auto simp: settled_def)
qed

lemma account_points_nonneg:
  "accounts_ok db \<Longrightarrow> row_get la_id k (ly_accounts db) = Some a \<Longrightarrow> 0 \<le> la_points a"
  using row_get_SomeD [of la_id k "ly_accounts db" a] by (auto simp: accounts_ok_def list_all_iff)

lemma config_settled:
  assumes "accounts_ok db" and "get_or_create_loyalty_config db = (db', c)"
  shows "settled db db'" "accounts_ok db'" "fresh_account nid db \<Longrightarrow> fresh_account nid db'"
    "ly_accounts db' = ly_accounts db" "ly_transactions db' = ly_transactions db"
    "ly_config db' = Some c" "ly_rules db' = ly_rules db"
proof -
  show f: "ly_accounts db' = ly_accounts db" "ly_transactions db' = ly_transactions db"
    "ly_config db' = Some c" "ly_rules db' = ly_rules db"
    using assms(2) by (auto simp: get_or_create_loyalty_config_def split: option.splits)
  have r: "ly_reservations db' = ly_reservations db"
    using assms(2) by (auto simp: get_or_create_loyalty_config_def split: option.splits)
  show "accounts_ok db'" using assms(1) f r by (simp add: accounts_ok_def)
  show "settled db db'"
    using settled_view [OF f(1,2) _ settled_refl [OF assms(1)]] assms(1) r by (simp add: accounts_ok_def)
  show "fresh_account nid db \<Longrightarrow> fresh_account nid db'"
    using f by (simp add: fresh_account_def account_ids_def)
qed

lemma add_settled:
  assumes "accounts_ok db" "fresh_account nid db" "add_points nid uid pts reason ty oid now db = Inr db'"
  shows "settled db db'"
proof -
  obtain db1 a where g: "get_or_create_account nid uid db = (db1, a)" by fastforce
  have pos: "0 < pts" and db': "db' = post_points a pts reason ty oid None None now db1"
    using assms(3) g by (auto simp: add_points_def split: if_splits)
  have "0 \<le> la_points a"
    using get_or_create_settled(1,2) [OF assms(1,2) g] account_points_nonneg by (auto simp: settled_def)
  then show ?thesis unfolding db' using pos by (intro settled_fetch_post [OF assms(1,2) g]) simp
qed

lemma redeem_settled:
  assumes "accounts_ok db" "fresh_account nid db" "redeem_points nid uid pts reason oid rid sid now db = Inr db'"
  shows "settled db db'"
proof -
  obtain db1 a where g: "get_or_create_account nid uid db = (db1, a)" by fastforce
  have "pts \<le> la_points a" and db': "db' = post_points a (- pts) reason Redeem oid rid sid now db1"
    using assms(3) g by (auto simp: redeem_points_def split: if_splits)
  then show ?thesis unfolding db' by (intro settled_fetch_post [OF assms(1,2) g]) simp
qed

lemma available_settled:
  assumes "accounts_ok db" "fresh_account nid db" "get_available_points nid uid now db = (db', n)"
  shows "settled db db'" "ly_transactions db' = ly_transactions db" "account_ids db \<subseteq> account_ids db'"
    "\<exists>a. account_of uid db' = Some a \<and> row_get la_id (la_id a) (ly_accounts db') = Some a"
proof -
  obtain a where g: "get_or_create_account nid uid db = (db', a)"
    using assms(3) by (auto simp: get_available_points_def split: prod.splits)
  show "settled db db'" "ly_transactions db' = ly_transactions db"
    "\<exists>a. account_of uid db' = Some a \<and> row_get la_id (la_id a) (ly_accounts db') = Some a"
    using get_or_create_settled [OF assms(1,2) g] by auto
  then show "account_ids db \<subseteq> account_ids db'" by (simp add: settled_def)
qed

lemma reserve_settled:
  assumes ok: "accounts_ok db" and f: "fresh_account nid db"
    and r: "create_checkout_reservation os nid rid uid oid pts now db = Inr db'"
  shows "settled db db'"
proof -
  obtain db1 n where av: "get_available_points nid uid now db = (db1, n)" by fastforce
  obtain db2 c where cf: "get_or_create_loyalty_config db1 = (db2, c)" by fastforce
  define db3 where "db3 = db2\<lparr>ly_reservations := ly_reservations db2 @
     [\<lparr>pr_id = rid, pr_user_id = uid, pr_order_id = oid, pr_points = pts,
       pr_discount = of_int pts * lc_points_to_euro_rate c, pr_status = Reserved, pr_expires_at = now + 30 * 60000000\<rparr>]\<rparr>"
  obtain db4 a where g: "get_or_create_account nid uid db3 = (db4, a)" by fastforce
  have pos: "0 < pts"
    and db': "db' = post_points a 0 (Reservation_created rid) Reservation_tx (Some oid) None (Some rid) now db4"
    using r g [unfolded db3_def, simplified] by (auto simp: create_checkout_reservation_def av cf Let_def
        split: if_splits option.splits)
  note a1 = available_settled [OF ok f av]
  have ok1: "accounts_ok db1" using a1(1) by (simp add: settled_def)
  note c1 = config_settled [OF ok1 cf]
  have s12: "settled db db2" using settled_trans [OF a1(1) c1(1)] .
  have v: "ly_accounts db3 = ly_accounts db2" "ly_transactions db3 = ly_transactions db2"
    by (simp_all add: db3_def)
  have s13: "settled db db3"
    using c1(2) pos by (intro settled_view [OF v _ s12]) (simp add: db3_def accounts_ok_def)
  obtain b where b: "account_of uid db1 = Some b" "row_get la_id (la_id b) (ly_accounts db1) = Some b"
    using a1(4) by blast
  have "account_of uid db3 = Some b" using b(1) v(1) c1(4) by (simp add: account_of_def)
  then have ab: "db4 = db3" "a = b" using g by (auto simp: get_or_create_account_def)
  have row: "row_get la_id (la_id b) (ly_accounts db3) = Some b" using b(2) v(1) c1(4) by simp
  have ok3: "accounts_ok db3" using s13 by (simp add: settled_def)
  have "settled db3 db'" unfolding db' ab
    using account_points_nonneg [OF ok3 row] by (intro post_points_settled [OF ok3 row]) simp
  then show ?thesis by (rule settled_trans [OF s13])
qed

lemma reservation_upd_settled:
  assumes st: "settled s t" and f: "\<And>r. pr_points (f r) = pr_points r"
  shows "settled s (upd_reservation rid f t)"
proof (rule settled_view [OF _ _ _ st])
  have "list_all (\<lambda>r. 0 < pr_points r) (ly_reservations t)" using st by (simp add: settled_def accounts_ok_def)
  then show "list_all (\<lambda>r. 0 < pr_points r) (ly_reservations (upd_reservation rid f t))"
    by (simp add: row_upd_list_all f)
qed simp_all

lemma confirm_cases [consumes 1]:
  assumes c: "confirm_checkout_reservation uid rid now db = (db', res)"
  obtains (idle) "db' = db" | (expired) "db' = upd_reservation rid (\<lambda>x. x\<lparr>pr_status := Res_expired\<rparr>) db"
    | (paid) r :: point_reservation and a where "account_of uid db = Some a" "pr_points r \<le> la_points a"
      "db' = upd_reservation rid (\<lambda>x. x\<lparr>pr_status := Res_confirmed\<rparr>)
        (post_points a (- pr_points r) (Checkout_reservation rid) Redeem (Some (pr_order_id r)) None (Some rid) now db)"
proof (cases "find (\<lambda>r. pr_id r = rid \<and> pr_user_id r = uid) (ly_reservations db)")
  case None
  then show ?thesis using c idle by (simp add: confirm_checkout_reservation_def)
next
  case (Some r)
  show ?thesis
  proof (cases "pr_status r = Reserved \<and> \<not> pr_expires_at r < now")
    case False
    then show ?thesis using c Some idle expired
      by (auto simp: confirm_checkout_reservation_def simp del: not_less split: if_splits)
  next
    case True
    show ?thesis
    proof (cases "account_of uid db")
      case None
      then show ?thesis using c Some True idle by (simp add: confirm_checkout_reservation_def)
    next
      case (Some a)
      show ?thesis
      proof (cases "la_points a < pr_points r")
        case True
        then show ?thesis using c Some \<open>find _ _ = _\<close> \<open>pr_status r = _ \<and> _\<close> idle
          by (simp add: confirm_checkout_reservation_def)
      next
        case False
        then show ?thesis using c Some \<open>find _ _ = _\<close> \<open>pr_status r = _ \<and> _\<close> paid [of a r]
          by (simp add: confirm_checkout_reservation_def)
      qed
    qed
  qed
qed

lemma confirm_settled:
  assumes ok: "accounts_ok db" and c: "confirm_checkout_reservation uid rid now db = (db', res)"
  shows "settled db db'"
  using c
proof (cases rule: confirm_cases)
  case idle
  then show ?thesis using settled_refl [OF ok] by simp
next
  case expired
  show ?thesis unfolding expired by (rule reservation_upd_settled [OF settled_refl [OF ok]]) simp
next
  case (paid r a)
  have "settled db (post_points a (- pr_points r) (Checkout_reservation rid) Redeem (Some (pr_order_id r)) None (Some rid) now db)"
    using paid(2) by (intro post_points_settled [OF ok account_of_row [OF ok paid(1)]]) simp
  then show ?thesis unfolding paid(3) by (rule reservation_upd_settled) simp
qed

lemma cancel_settled:
  assumes ok: "accounts_ok db" and c: "cancel_checkout_reservation uid rid db = Inr db'"
  shows "settled db db'"
proof -
  have "db' = db \<or> db' = upd_reservation rid (\<lambda>x. x\<lparr>pr_status := Res_cancelled\<rparr>) db"
    using c by (auto simp: cancel_checkout_reservation_def split: option.splits if_splits)
  then show ?thesis
    using settled_refl [OF ok] reservation_upd_settled [OF settled_refl [OF ok], of "\<lambda>x. x\<lparr>pr_status := Res_cancelled\<rparr>"]
    by auto
qed

lemma compute_config:
  "fst (compute_points_for_order deliv today tot cats db) = fst (get_or_create_loyalty_config db)"
  by (simp add: compute_points_for_order_def split_beta Let_def)

lemma credit_settled:
  assumes ok: "accounts_ok db" and f: "fresh_account nid db"
  shows "settled db (credit_points_for_order deliv today nid uid oid tot cats now db)"
proof (cases "already_credited oid db")
  case True
  obtain db1 a where g: "get_or_create_account nid uid db = (db1, a)" by fastforce
  then show ?thesis using True get_or_create_settled(1) [OF ok f g] by (simp add: credit_points_for_order_def)
next
  case False
  obtain db1 pv where c: "compute_points_for_order deliv today tot cats db = (db1, pv)" by fastforce
  obtain c' where cf: "get_or_create_loyalty_config db = (db1, c')"
    using compute_config [of deliv today tot cats db] c by (metis fst_conv surj_pair)
  note c1 = config_settled [OF ok cf]
  obtain db2 a where g: "get_or_create_account nid uid db1 = (db2, a)" by fastforce
  note g2 = get_or_create_settled [OF c1(2) c1(3) [OF f] g]
  have "0 \<le> la_points a" using g2(1,2) account_points_nonneg by (auto simp: settled_def)
  then have "settled db1 (post_points a (pp_total pv) (Order_delivered oid) Earn (Some oid) None None now db2)"
    if "\<not> pp_total pv \<le> 0"
    using that by (intro settled_fetch_post [OF c1(2) c1(3) [OF f] g]) simp
  then show ?thesis
    using False settled_trans [OF c1(1)] g2(1) by (simp add: credit_points_for_order_def c g)
qed

lemma expire_settled:
  assumes ok: "accounts_ok db" and f: "fresh_account nid db"
    and e: "check_and_expire_points nid uid now db = (db', n)"
  shows "settled db db'"
proof -
  obtain db1 c where cf: "get_or_create_loyalty_config db = (db1, c)" by fastforce
  note c1 = config_settled [OF ok cf]
  obtain db2 a where g: "get_or_create_account nid uid db1 = (db2, a)" by fastforce
  note g2 = get_or_create_settled [OF c1(2) c1(3) [OF f] g]
  define x where "x = min (earned_before (la_id a) (now - the (lc_points_expiry_days c) * day_us) db2) (la_points a)"
  have "db' = db1 \<or> db' = db2 \<or> db' = post_points a (- x) Expired_points Expire None None None now db2"
    using e by (auto simp: check_and_expire_points_def cf g x_def Let_def split: option.splits if_splits)
  moreover have "settled db1 (post_points a (- x) Expired_points Expire None None None now db2)"
    by (intro settled_fetch_post [OF c1(2) c1(3) [OF f] g]) (simp add: x_def)
  ultimately show ?thesis using c1(1) settled_trans [OF c1(1)] g2(1) by auto
qed

lemma expiring_settled:
  assumes ok: "accounts_ok db" and e: "get_expiring_points uid now db = (db', n, bs)"
  shows "settled db db'"
proof -
  obtain db1 c where cf: "get_or_create_loyalty_config db = (db1, c)" by fastforce
  have "db' = db1"
    using e by (auto simp: get_expiring_points_def cf Let_def split: option.splits)
  then show ?thesis using config_settled(1) [OF ok cf] by simp
qed

text \<open>In the nightly job every account exists, so no key is drawn.\<close>

lemma expire_existing:
  assumes ok: "accounts_ok db" and u: "uid \<in> la_user_id ` set (ly_accounts db)"
    and e: "check_and_expire_points nid uid now db = (db', n)"
  shows "settled db db'" "la_user_id ` set (ly_accounts db') = la_user_id ` set (ly_accounts db)"
proof -
  obtain db1 c where cf: "get_or_create_loyalty_config db = (db1, c)" by fastforce
  note c1 = config_settled [OF ok cf]
  obtain a where a: "account_of uid db1 = Some a"
    using u c1(4) by (cases "account_of uid db1") (auto simp: account_of_def row_get_None_iff row_ids_def)
  have g: "get_or_create_account nid uid db1 = (db1, a)" by (simp add: get_or_create_account_def a)
  define x where "x = min (earned_before (la_id a) (now - the (lc_points_expiry_days c) * day_us) db1) (la_points a)"
  let ?p = "post_points a (- x) Expired_points Expire None None None now db1"
  have d: "db' = db1 \<or> db' = ?p"
    using e by (auto simp: check_and_expire_points_def cf g x_def Let_def split: option.splits if_splits)
  have "settled db1 ?p"
    by (intro post_points_settled [OF c1(2) account_of_row [OF c1(2) a]]) (simp add: x_def)
  then show "settled db db'" using d c1(1) settled_trans [OF c1(1)] by auto
  have "map la_user_id (row_upd la_id k (\<lambda>r. r\<lparr>la_points := z\<rparr>) rows) = map la_user_id rows"
    for k z and rows :: "loyalty_account list"
    by (simp add: row_upd_def)
  then have "set (map la_user_id (ly_accounts ?p)) = set (map la_user_id (ly_accounts db1))"
    by (simp add: post_points_def del: set_map)
  then show "la_user_id ` set (ly_accounts db') = la_user_id ` set (ly_accounts db)"
    using d c1(4) by auto
qed

lemma expire_loop_settled:
  assumes "accounts_ok db" "set uids \<subseteq> la_user_id ` set (ly_accounts db)" "expire_loop uids now (db, n) = (db', m)"
  shows "settled db db'"
  using assms
proof (induction uids arbitrary: db n)
  case (Cons uid uids)
  obtain db1 d where e: "check_and_expire_points 0 uid now db = (db1, d)" by fastforce
  have u: "uid \<in> la_user_id ` set (ly_accounts db)" using Cons.prems(2) by simp
  note x = expire_existing [OF Cons.prems(1) u e]
  have "settled db1 db'"
    using Cons.IH [of db1 "n + d"] x Cons.prems e by (simp add: settled_def)
  then show ?case by (rule settled_trans [OF x(1)])
qed (simp add: settled_refl)

lemma expire_all_settled:
  assumes ok: "accounts_ok db" and e: "check_and_expire_points_for_all_users now db = (db', n)"
  shows "settled db db'"
proof -
  obtain db1 c where cf: "get_or_create_loyalty_config db = (db1, c)" by fastforce
  note c1 = config_settled [OF ok cf]
  have "settled db1 db'"
    using e expire_loop_settled [OF c1(2), of "map la_user_id (ly_accounts db1)" now 0 db' n] settled_refl [OF c1(2)]
    by (cases "lc_points_expiry_days c") (simp_all add: check_and_expire_points_for_all_users_def cf)
  then show ?thesis by (rule settled_trans [OF c1(1)])
qed

lemma notify_buckets_settled:
  "accounts_ok db \<Longrightarrow> settled db (fst (notify_buckets a today now bs (db, n)))"
proof (induction bs arbitrary: db n)
  case (Cons b bs)
  obtain days pts where b: "b = (days, pts)" by fastforce
  define db1 where "db1 = db\<lparr>ly_transactions := ly_transactions db @
                [\<lparr>lt_account_id = la_id a, lt_delta = 0, lt_reason = Expiry_notice days today,
                  lt_type = Adjustment, lt_order_id = None, lt_reward_id = None, lt_reservation_id = None,
                  lt_created_at = now\<rparr>]\<rparr>"
  have acc: "ly_accounts db1 = ly_accounts db" "ly_reservations db1 = ly_reservations db"
    by (simp_all add: db1_def)
  have p: "points db1 = points db" "account_ids db1 = account_ids db" "accounts_ok db1"
    using Cons.prems by (simp_all add: fun_eq_iff points_def account_ids_def accounts_ok_def acc)
  have "total_for k (point_entries db1) = total_for k (point_entries db)" for k
    by (simp add: point_entries_def db1_def)
  then have s: "settled db db1" using p by (simp add: settled_def point_gap_def)
  have "notify_buckets a today now (b # bs) (db, n) = notify_buckets a today now bs (db, n)
      \<or> notify_buckets a today now (b # bs) (db, n) = notify_buckets a today now bs (db1, n + 1)"
    by (simp add: b db1_def)
  then show ?case
    using Cons.IH [OF Cons.prems, of n] settled_trans [OF s Cons.IH [OF p(3), of "n + 1"]] by metis
qed (simp add: settled_refl)

lemma notify_loop_settled: "accounts_ok db \<Longrightarrow> settled db (fst (notify_loop accs today now (db, n)))"
proof (induction accs arbitrary: db n)
  case (Cons a accs)
  obtain db1 m bs where e: "get_expiring_points (la_user_id a) now db = (db1, m, bs)" by (metis prod_cases3)
  have s1: "settled db db1" by (rule expiring_settled [OF Cons.prems e])
  obtain db2 k where b: "notify_buckets a today now bs (db1, n) = (db2, k)" by fastforce
  have s2: "settled db1 db2"
    using notify_buckets_settled [of db1 a today now bs n] s1 b by (simp add: settled_def)
  have "settled db2 (fst (notify_loop accs today now (db2, k)))"
    using Cons.IH s2 by (simp add: settled_def)
  then show ?case using settled_trans [OF settled_trans [OF s1 s2]] by (simp add: e b)
qed (simp add: settled_refl)

lemma step_settled:
  assumes "loyalty_step db db'" and ok: "accounts_ok db"
  shows "settled db db'"
  using assms(1)
proof cases
  case lstep_add
  show ?thesis by (rule add_settled [OF ok lstep_add])
next
  case lstep_redeem
  show ?thesis by (rule redeem_settled [OF ok lstep_redeem])
next
  case lstep_available
  show ?thesis by (rule available_settled(1) [OF ok lstep_available])
next
  case lstep_reserve
  show ?thesis by (rule reserve_settled [OF ok lstep_reserve])
next
  case lstep_confirm
  show ?thesis by (rule confirm_settled [OF ok lstep_confirm])
next
  case lstep_cancel
  show ?thesis by (rule cancel_settled [OF ok lstep_cancel])
next
  case lstep_credit
  show ?thesis using credit_settled [OF ok lstep_credit(1)] lstep_credit(2) by blast
next
  case lstep_expire
  show ?thesis by (rule expire_settled [OF ok lstep_expire])
next
  case lstep_expiring
  show ?thesis by (rule expiring_settled [OF ok lstep_expiring])
next
  case lstep_expire_all
  show ?thesis by (rule expire_all_settled [OF ok lstep_expire_all])
next
  case (lstep_notify today now n)
  then show ?thesis using notify_loop_settled [OF ok, of "ly_accounts db" today now 0]
    by (simp add: notify_expiring_points_for_all_users_def)
qed

definition ok_step :: "loyalty_db \<Rightarrow> loyalty_db \<Rightarrow> bool" where
  "ok_step s s' \<longleftrightarrow> accounts_ok s \<and> loyalty_step s s'"

interpretation loyalty_inv: invariant_steps loyalty_step accounts_ok
  using step_settled by unfold_locales (auto simp: settled_def)

lemma ok_step_settled: "ok_step s s' \<Longrightarrow> settled s s'"
  using step_settled by (simp add: ok_step_def)

interpretation loyalty_ledger: closed_ledger points point_entries account_ids ok_step
proof unfold_locales
  fix s s' and k :: int
  assume "ok_step s s'"
  then have st: "settled s s'" by (rule ok_step_settled)
  show "k \<in> account_ids s \<Longrightarrow> points s' k - total_for k (point_entries s') = points s k - total_for k (point_entries s)"
    using st by (simp add: settled_def point_gap_def)
  show "k \<in> account_ids s \<Longrightarrow> k \<in> account_ids s'" using st by (auto simp: settled_def)
  show "k \<in> account_ids s' \<Longrightarrow> k \<notin> account_ids s \<Longrightarrow> points s' k = total_for k (point_entries s')"
    using st by (simp add: settled_def point_gap_def)
qed

lemma run_ok_step:
  assumes "loyalty_step\<^sup>*\<^sup>* s s'" and "accounts_ok s"
  shows "ok_step\<^sup>*\<^sup>* s s'"
  using assms
proof (induction rule: rtranclp_induct)
  case (step t u)
  then have "ok_step t u" using loyalty_inv.run_inv by (simp add: ok_step_def)
  then show ?case using step by (meson rtranclp.rtrancl_into_rtrancl)
qed simp

end
