(* ===== verification/Loyalty_Rewards.thy ===== *)
theory Loyalty_Rewards
  imports Loyalty_Ledger Promotions
begin

text \<open>
  Exchanging points for a reward, \<^verbatim>\<open>redeem_reward\<close> of \<^verbatim>\<open>app/modules/loyalty/config/service.py\<close>, which
  works on the loyalty and the promotion tables. The points are debited and committed first, so the
  operation returns both tables together with its outcome. \<open>code\<close> is the code drawn from
  \<^verbatim>\<open>uuid4\<close>, \<open>nid\<close> and \<open>pid\<close> the keys of a new account and a new promotion.
\<close>

record redeem_out =
  ro_discount_euros :: "rat option"
  ro_free_product_id :: "int option"
  ro_remaining_points :: int
  ro_promo_code :: "string option"

definition reward_promo :: "int \<Rightarrow> string \<Rightarrow> int \<Rightarrow> rat \<Rightarrow> bool \<Rightarrow> promotion" where
  "reward_promo pid code uid amount free_delivery =
     \<lparr>pm_id = pid, pm_code = code, pm_discount_type = Fixed, pm_discount_value = amount,
      pm_min_order_amount = 0, pm_starts_at = None, pm_ends_at = None, pm_active = True,
      pm_max_uses = Some 1, pm_max_uses_per_user = Some 1, pm_current_uses = 0,
      pm_first_order_only = False, pm_campaign_id = None, pm_user_id = Some uid, pm_public = False,
      pm_stackable = False, pm_free_delivery = free_delivery, pm_email_verified_required = False\<rparr>"

definition add_promo :: "promotion \<Rightarrow> promo_db \<Rightarrow> promo_db res" where
  "add_promo p db =
     (if \<exists>q \<in> set (pd_promos db). pm_code q = pm_code p then Inl IntegrityError
      else Inr (db\<lparr>pd_promos := pd_promos db @ [p]\<rparr>))"

definition redeem_reward ::
    "int \<Rightarrow> int \<Rightarrow> string \<Rightarrow> int \<Rightarrow> int \<Rightarrow> instant \<Rightarrow> loyalty_db \<Rightarrow> promo_db
      \<Rightarrow> (loyalty_db \<times> promo_db) \<times> redeem_out res" where
  "redeem_reward nid pid code uid reward_id now db pdb =
     (case row_get rw_id reward_id (ly_rewards db) of
        None \<Rightarrow> ((db, pdb), Inl (AppError ''REWARD_NOT_FOUND'' 404))
      | Some w \<Rightarrow>
          if \<not> rw_active w then ((db, pdb), Inl (AppError ''REWARD_NOT_FOUND'' 404))
          else
            (case redeem_points nid uid (rw_points_required w) (Redeem_reward_reason reward_id)
                    None (Some reward_id) None now db of
               Inl e \<Rightarrow> ((db, pdb), Inl e)
             | Inr db1 \<Rightarrow>
                 (let remaining = (case account_of uid db1 of None \<Rightarrow> 0 | Some a \<Rightarrow> la_points a);
                      promo =
                        (if rw_type w = Free_delivery_reward then Some (reward_promo pid code uid 0 True)
                         else if rw_type w = Discount_euros
                         then map_option (\<lambda>amt. reward_promo pid code uid amt False) (rw_discount_amount w)
                         else None)
                  in case (case promo of None \<Rightarrow> Inr pdb | Some p \<Rightarrow> add_promo p pdb) of
                       Inl e \<Rightarrow> ((db1, pdb), Inl e)
                     | Inr pdb1 \<Rightarrow>
                         if rw_type w = Discount_euros \<and> rw_discount_amount w = None
                         then ((db1, pdb1), Inl PyTypeError)
                         else ((db1, pdb1), Inr
                           \<lparr>ro_discount_euros = (if rw_type w = Discount_euros then rw_discount_amount w else None),
                            ro_free_product_id = (if rw_type w = Free_product then rw_product_id w else None),
                            ro_remaining_points = remaining,
                            ro_promo_code = map_option pm_code promo\<rparr>))))"

lemma redeem_points_account:
  assumes ok: "accounts_ok db" and a: "account_of uid db = Some a" and pts: "0 < pts" "pts \<le> la_points a"
  shows "redeem_points nid uid pts reason oid rid sid now db =
      Inr (post_points a (- pts) reason Redeem oid rid sid now db)"
    and "account_of uid (post_points a (- pts) reason Redeem oid rid sid now db) = Some (a\<lparr>la_points := la_points a - pts\<rparr>)"
proof -
  show "redeem_points nid uid pts reason oid rid sid now db =
      Inr (post_points a (- pts) reason Redeem oid rid sid now db)"
    using a pts by (simp add: redeem_points_def get_or_create_account_def)
  have "row_get la_user_id uid (row_upd la_id (la_id a) (\<lambda>r. r\<lparr>la_points := z\<rparr>) rows) = Some (a\<lparr>la_points := z\<rparr>)"
    if "row_get la_user_id uid rows = Some a" for z rows
    using that by (induction rows) (auto simp: row_simps split: if_splits)
  from this [of "ly_accounts db" "la_points a - pts"] a
  show "account_of uid (post_points a (- pts) reason Redeem oid rid sid now db) = Some (a\<lparr>la_points := la_points a - pts\<rparr>)"
    by (simp add: account_of_def post_points_def)
qed

lemma reward_promo_eligible:
  assumes "user_usage_count pdb pid uid = 0" and "0 \<le> tot"
  shows "assert_promo_eligible vf dl pdb now (reward_promo pid code uid amt fd) tot (Some v) ev cg =
    (if v = uid then Inr () else Inl invalid_promo)"
  using assms by (simp add: assert_promo_eligible_def reward_promo_def)

end
