(* ===== verification/Loyalty_Props.thy ===== *)
theory Loyalty_Props
  imports Loyalty_Rewards
begin

text \<open>Properties of the loyalty programme, with a small programme to run them on.\<close>

definition demo_loyalty :: loyalty_db where
  "demo_loyalty =
     \<lparr>ly_accounts = [\<lparr>la_id = 1, la_user_id = 4, la_points = 120\<rparr>],
      ly_transactions = [\<lparr>lt_account_id = 1, lt_delta = 120, lt_reason = Order_delivered 9, lt_type = Earn,
        lt_order_id = Some 9, lt_reward_id = None, lt_reservation_id = None, lt_created_at = 0\<rparr>],
      ly_reservations = [],
      ly_config = Some (default_config\<lparr>lc_points_expiry_days := Some 30\<rparr>),
      ly_rules = [\<lparr>lr_name = ''week-end'', lr_type = Day_multiplier, lr_category_id = None, lr_multiplier = 2,
        lr_start_date = None, lr_end_date = None, lr_days_of_week = Some [5, 6], lr_priority = 0, lr_active = True\<rparr>],
      ly_rewards = [\<lparr>rw_id = 7, rw_name = ''five'', rw_type = Discount_euros, rw_points_required = 100,
        rw_discount_amount = Some 5, rw_product_id = None, rw_active = True\<rparr>]\<rparr>"

definition no_promos :: promo_db where
  "no_promos = \<lparr>pd_promos = [], pd_target_categories = [], pd_target_products = [], pd_usages = []\<rparr>"

lemma demo_loyalty_ok: "accounts_ok demo_loyalty"
  by (simp add: accounts_ok_def demo_loyalty_def)

lemma demo_fresh: "fresh_account 2 demo_loyalty"
  by (simp add: fresh_account_def account_ids_def row_ids_def demo_loyalty_def)

text \<open>C7. The points ledger reconciles: along every run of loyalty operations (earning, redeeming,
  reservations, expiry, reminders) an account's balance equals the sum of its transactions, provided it did
  at the start; accounts opened on the way start reconciled, and no balance is ever negative.\<close>

theorem loyalty_ledger_reconciles:
  assumes "loyalty_step\<^sup>*\<^sup>* db db'" and "accounts_ok db"
    and "\<forall>k \<in> account_ids db. points db k = total_for k (point_entries db)"
    and "k \<in> account_ids db'"
  shows "points db' k = total_for k (point_entries db') \<and> 0 \<le> points db' k"
proof
  show "points db' k = total_for k (point_entries db')"
    using loyalty_ledger.run_reconciled [OF run_ok_step [OF assms(1,2)] assms(3)] assms(4) by blast
  obtain a where a: "row_get la_id k (ly_accounts db') = Some a"
    using assms(4) by (cases "row_get la_id k (ly_accounts db')") (auto simp: account_ids_def row_get_None_iff)
  show "0 \<le> points db' k"
    using account_points_nonneg [OF loyalty_inv.run_inv [OF assms(1,2)] a] a by (simp add: points_def)
qed

theorem loyalty_ledger_reconciles_witness:
  "\<exists>db'. add_points 2 5 40 (Text_reason ''gift'') Manual None 0 demo_loyalty = Inr db'
     \<and> points db' 2 = total_for 2 (point_entries db') \<and> points db' 2 = 40"
proof -
  obtain db' where add: "add_points 2 5 40 (Text_reason ''gift'') Manual None 0 demo_loyalty = Inr db'"
    and p: "points db' 2 = 40" and l: "2 \<in> account_ids db'"
    by (simp add: add_points_def get_or_create_account_def account_of_def demo_loyalty_def row_simps Let_def
        post_points_def points_def account_ids_def row_ids_def)
  have "loyalty_step\<^sup>*\<^sup>* demo_loyalty db'" using lstep_add [OF demo_fresh add] by (rule r_into_rtranclp)
  moreover have "\<forall>k \<in> account_ids demo_loyalty. points demo_loyalty k = total_for k (point_entries demo_loyalty)"
    by (simp add: account_ids_def row_ids_def points_def point_entries_def demo_loyalty_def row_simps)
  ultimately show ?thesis using loyalty_ledger_reconciles [of demo_loyalty db' 2] demo_loyalty_ok add p l by blast
qed

text \<open>An order earns points at most once: crediting an order a second time, for whatever amount and at
  whatever moment, leaves every balance and the journal as the first credit left them, provided the first one
  credited something.\<close>

theorem credit_once_per_order:
  assumes "accounts_ok db" and "fresh_account nid db"
    and "db1 = credit_points_for_order deliv today nid uid oid tot cats now db"
    and "0 < pp_total (snd (compute_points_for_order deliv today tot cats db))"
  shows "credit_points_for_order deliv' today' nid' uid oid tot' cats' now' db1 = db1"
proof -
  obtain dbc pv where c: "compute_points_for_order deliv today tot cats db = (dbc, pv)" by fastforce
  obtain cf where cfg: "get_or_create_loyalty_config db = (dbc, cf)"
    using compute_config [of deliv today tot cats db] c by (metis fst_conv surj_pair)
  note c1 = config_settled [OF assms(1) cfg]
  have pos: "0 < pp_total pv" using assms(4) c by simp
  show ?thesis
  proof (cases "already_credited oid db")
    case True
    obtain db2 a where g: "get_or_create_account nid uid db = (db2, a)" by fastforce
    have db1: "db1 = db2" using assms(3) True g by (simp add: credit_points_for_order_def)
    note g2 = get_or_create_settled [OF assms(1,2) g]
    have "already_credited oid db1" using True g2(4) db1 by (simp add: already_credited_def)
    then show ?thesis using g2(3) db1 by (simp add: credit_points_for_order_def get_or_create_account_def)
  next
    case False
    obtain db2 a where g: "get_or_create_account nid uid dbc = (db2, a)" by fastforce
    note g2 = get_or_create_settled [OF c1(2) c1(3) [OF assms(2)] g]
    have db1: "db1 = post_points a (pp_total pv) (Order_delivered oid) Earn (Some oid) None None now db2"
      using assms(3) False c g pos by (simp add: credit_points_for_order_def)
    have "already_credited oid db1" by (simp add: db1 already_credited_def post_points_def)
    moreover have "account_of uid db1 \<noteq> None"
    proof -
      have "map la_user_id (ly_accounts db1) = map la_user_id (ly_accounts db2)"
        by (simp add: db1 post_points_def row_upd_def)
      then have "row_ids la_user_id (ly_accounts db1) = row_ids la_user_id (ly_accounts db2)"
        unfolding row_ids_def by (metis set_map)
      then show ?thesis using row_get_in_ids [of la_user_id uid "ly_accounts db2" a] g2(3)
        by (simp add: account_of_def row_get_None_iff)
    qed
    ultimately show ?thesis by (auto simp: credit_points_for_order_def get_or_create_account_def)
  qed
qed

theorem credit_once_per_order_witness:
  "credit_points_for_order True 8 2 4 10 99 [] 5
     (credit_points_for_order False 8 2 4 10 50 [] 3 demo_loyalty)
   = credit_points_for_order False 8 2 4 10 50 [] 3 demo_loyalty"
proof -
  have "0 < pp_total (snd (compute_points_for_order False 8 50 [] demo_loyalty))" by code_simp
  from credit_once_per_order [OF demo_loyalty_ok demo_fresh refl this] show ?thesis .
qed

text \<open>The earned points are bounded by the configured cap: with a non-negative order total, base ratio and
  cap, and rules that multiply by at least one, the order earns at least the base points when the cap is at
  least one, never more than the base points times the cap, and the bonus is the difference.\<close>

theorem earned_points_within_cap:
  assumes "compute_points_for_order deliv today tot cats db = (db', pv)"
    and "get_or_create_loyalty_config db = (db1, c)" and "lc_active c"
    and "0 \<le> tot" and "0 \<le> lc_base_ratio c" and "1 \<le> lc_max_multiplier c"
    and "\<forall>r \<in> set (ly_rules db). 1 \<le> lr_multiplier r"
  shows "pp_base pv \<le> pp_total pv \<and> of_int (pp_total pv) \<le> of_int (pp_base pv) * lc_max_multiplier c
    \<and> pp_bonus pv = pp_total pv - pp_base pv \<and> 1 \<le> pp_multiplier pv \<and> pp_multiplier pv \<le> lc_max_multiplier c"
proof -
  define base where "base = py_int (tot * lc_base_ratio c)"
  define rs where "rs = applicable_rules deliv today cats db1"
  define m where "m = min (1 + sum_list (map (\<lambda>r. lr_multiplier r - 1) rs)) (lc_max_multiplier c)"
  have pv: "pp_base pv = base" "pp_bonus pv = py_int (of_int base * m) - base" "pp_total pv = py_int (of_int base * m)"
    "pp_multiplier pv = m"
    using assms(1-3) by (auto simp: compute_points_for_order_def Let_def base_def rs_def m_def)
  have b: "0 \<le> base" unfolding base_def by (intro py_int_nonneg mult_nonneg_nonneg assms)
  have "ly_rules db1 = ly_rules db" using assms(2) by (auto simp: get_or_create_loyalty_config_def split: option.splits)
  then have "set rs \<subseteq> set (ly_rules db)" by (auto simp: rs_def applicable_rules_def)
  then have "0 \<le> sum_list (map (\<lambda>r. lr_multiplier r - 1) rs)"
    using assms(7) by (intro sum_list_nonneg) auto
  then have m: "1 \<le> m" "m \<le> lc_max_multiplier c" using assms(6) by (auto simp: m_def)
  have "of_int base * 1 \<le> of_int base * m" using b m(1) by (intro mult_left_mono) auto
  from py_int_mono [OF this] have "base \<le> py_int (of_int base * m)" by simp
  moreover have "of_int (py_int (of_int base * m)) \<le> of_int base * m" using b m by (intro py_int_le) simp
  moreover have "of_int base * m \<le> of_int base * lc_max_multiplier c" using b m(2) by (intro mult_left_mono) auto
  ultimately show ?thesis using m by (simp add: pv)
qed

theorem earned_points_within_cap_witness:
  "pp_total (snd (compute_points_for_order False 6 (126/5) [] demo_loyalty)) \<le> 25 * 20"
proof -
  obtain db' pv where c: "compute_points_for_order False 6 (126/5) [] demo_loyalty = (db', pv)" by fastforce
  have "pp_base (snd (compute_points_for_order False 6 (126/5) [] demo_loyalty)) = 25" by code_simp
  then have b: "pp_base pv = 25" by (simp add: c)
  have g: "get_or_create_loyalty_config demo_loyalty = (demo_loyalty, default_config\<lparr>lc_points_expiry_days := Some 30\<rparr>)"
    by (simp add: get_or_create_loyalty_config_def demo_loyalty_def)
  have "pp_total pv \<le> 25 * 20"
    using earned_points_within_cap [OF c g] b
    by (simp add: default_config_def demo_loyalty_def)
  then show ?thesis by (simp add: c)
qed

text \<open>Exchanging points for a euro reward costs exactly its price and yields a code that only this
  customer can use: the balance falls by the required points, the promotion table gains one row, and that row
  is accepted for the customer on any order and refused for everybody else.\<close>

theorem redeem_reward_exchanges_points:
  assumes "accounts_ok db" and "account_of uid db = Some a"
    and "row_get rw_id reward_id (ly_rewards db) = Some w" and "rw_active w" and "rw_type w = Discount_euros"
    and "rw_discount_amount w = Some amt" and "0 < rw_points_required w" and "rw_points_required w \<le> la_points a"
    and "\<forall>p \<in> set (pd_promos pdb). pm_code p \<noteq> code" and "user_usage_count pdb pid uid = 0" and "0 \<le> order_total"
  shows "\<exists>db' pdb' out p. redeem_reward nid pid code uid reward_id now db pdb = ((db', pdb'), Inr out)
    \<and> account_of uid db' = Some (a\<lparr>la_points := la_points a - rw_points_required w\<rparr>)
    \<and> ro_promo_code out = Some code \<and> promo_by_code pdb' code = Some p
    \<and> length (pd_promos pdb') = length (pd_promos pdb) + 1 \<and> pm_discount_value p = amt
    \<and> (\<forall>v. assert_promo_eligible verified delivered pdb' now p order_total (Some v) ev True
           = (if v = uid then Inr () else Inl (AppError ''INVALID_PROMO'' 422)))"
proof -
  let ?db = "post_points a (- rw_points_required w) (Redeem_reward_reason reward_id) Redeem None (Some reward_id) None now db"
  let ?p = "reward_promo pid code uid amt False"
  let ?pdb = "pdb\<lparr>pd_promos := pd_promos pdb @ [?p]\<rparr>"
  note r = redeem_points_account [OF assms(1,2,7,8)]
  have add: "add_promo ?p pdb = Inr ?pdb" using assms(9) by (auto simp: add_promo_def reward_promo_def)
  have find: "promo_by_code ?pdb code = Some ?p"
  proof -
    have "find (\<lambda>q. pm_code q = code) (ps @ [?p]) = Some ?p" if "\<forall>q \<in> set ps. pm_code q \<noteq> code" for ps
      using that by (induction ps) (auto simp: reward_promo_def)
    then show ?thesis using assms(9) by (simp add: promo_by_code_def)
  qed
  have u: "user_usage_count ?pdb pid uid = 0" using assms(10) by (simp add: user_usage_count_def)
  have "redeem_reward nid pid code uid reward_id now db pdb = ((?db, ?pdb), Inr
      \<lparr>ro_discount_euros = Some amt, ro_free_product_id = None,
       ro_remaining_points = la_points a - rw_points_required w, ro_promo_code = Some code\<rparr>)"
    using assms(3-6) r add by (simp add: redeem_reward_def reward_promo_def)
  then show ?thesis
    using r(2) find reward_promo_eligible [OF u assms(11)] by (auto simp: reward_promo_def)
qed

theorem redeem_reward_exchanges_points_witness:
  "\<exists>db' pdb' out. redeem_reward 2 1 ''REWARD-AB'' 4 7 0 demo_loyalty no_promos = ((db', pdb'), Inr out)
    \<and> account_of 4 db' = Some \<lparr>la_id = 1, la_user_id = 4, la_points = 20\<rparr>"
proof -
  let ?a = "\<lparr>la_id = 1, la_user_id = 4, la_points = 120\<rparr>"
  let ?w = "\<lparr>rw_id = 7, rw_name = ''five'', rw_type = Discount_euros, rw_points_required = 100,
        rw_discount_amount = Some 5, rw_product_id = None, rw_active = True\<rparr>"
  have "account_of 4 demo_loyalty = Some ?a" "row_get rw_id 7 (ly_rewards demo_loyalty) = Some ?w"
    by (simp_all add: account_of_def demo_loyalty_def row_simps)
  from redeem_reward_exchanges_points [OF demo_loyalty_ok this, of 5 no_promos "''REWARD-AB''" 1 0]
  show ?thesis by (fastforce simp: no_promos_def user_usage_count_def)
qed

text \<open>The expiry job is not idempotent: it sums the earnings older than the limit without subtracting what
  earlier runs already removed, so the same earnings are taken from the balance again on the next run.\<close>

lemma expiry_deducts_twice:
  "case add_points 2 4 60 (Text_reason ''gift'') Manual None (40 * day_us) demo_loyalty of
     Inl _ \<Rightarrow> False
   | Inr db0 \<Rightarrow>
       let (db1, d1) = check_and_expire_points 2 4 (40 * day_us) db0;
           (db2, d2) = check_and_expire_points 2 4 (41 * day_us) db1
       in d1 = 120 \<and> d2 = 60 \<and> points db0 1 = 180 \<and> points db2 1 = 0"
  by code_simp

end
