(* ===== verification/Orders_Frame.thy ===== *)
theory Orders_Frame
  imports Orders_Status
begin

text \<open>
  What \<open>update_status\<close> changes and what it leaves alone. \<open>core\<close> is the part of an order the state machine reasons
  about; the effects after the commit only touch the payment status and the hand-over nonce of the order.
\<close>

definition core :: "order \<Rightarrow> int \<times> order_status \<times> order_type \<times> int option" where
  "core x = (ord_id x, ord_status x, ord_type x, ord_user_id x)"

lemma row_get_upd_const:
  assumes "key c = k"
  shows "row_get key k' (row_upd key k (\<lambda>_. c) rows) =
    (if k' = k then map_option (\<lambda>_. c) (row_get key k rows) else row_get key k' rows)"
  using assms by (induction rows) (auto simp: row_simps)

lemma row_get_map_core:
  assumes "map core xs = map core ys"
  shows "map_option core (row_get ord_id k xs) = map_option core (row_get ord_id k ys)"
  using assms
proof (induction xs arbitrary: ys)
  case (Cons x xs)
  then obtain y zs where ys: "ys = y # zs" "core x = core y" "map core xs = map core zs" by (cases ys) auto
  then have "ord_id x = ord_id y" by (simp add: core_def)
  then show ?case using Cons.IH [OF ys(3)] ys(1,2) by (simp add: row_simps)
qed simp

lemma core_upd: "(\<And>x. core (f x) = core x) \<Longrightarrow> map core (row_upd ord_id k f xs) = map core xs"
  by (simp add: row_upd_def)

subsection \<open>After the commit\<close>

lemma release_core:
  assumes "release_guarantee ck oid reason user be st only now t = Inr t'"
  shows "map core (fst t') = map core (fst t)"
proof (cases "authorized_guarantee oid only (snd t)")
  case None
  then show ?thesis using assms by (auto simp: release_guarantee_def split: if_splits)
next
  case (Some p)
  then show ?thesis
    using assms by (cases "cancel_intent_idempotent ck p")
      (auto simp: release_guarantee_def core_upd core_def split: if_splits)
qed

lemma release_shape:
  "\<exists>os ps. release_on_close env rq a oid sh = sh\<lparr>sh_orders := os, sh_payments := ps\<rparr> \<and> map core os = map core (sh_orders sh)"
proof (cases "\<exists>o1. order_of oid sh = Some o1 \<and> a \<in> {Cancelled, Rejected} \<and> ord_payment_status o1 = Guaranteed")
  case False
  then have "release_on_close env rq a oid sh = sh" by (auto simp: release_on_close_def split: option.splits)
  then show ?thesis by (intro exI [of _ "sh_orders sh"] exI [of _ "sh_payments sh"]) simp
next
  case True
  let ?r = "release_guarantee (ev_cancel_ok env) oid (if a = Cancelled then ''order_cancelled'' else ''order_rejected'')
      (rq_actor rq) True guarantee_released None (ev_now env) (sh_orders sh, sh_payments sh)"
  have eq: "release_on_close env rq a oid sh =
      (case ?r of Inl _ \<Rightarrow> sh | Inr (os, ps) \<Rightarrow> sh\<lparr>sh_orders := os, sh_payments := ps\<rparr>)"
    using True by (auto simp: release_on_close_def)
  show ?thesis
  proof (cases ?r)
    case (Inl e)
    then have "release_on_close env rq a oid sh = sh" unfolding eq by simp
    then show ?thesis by (intro exI [of _ "sh_orders sh"] exI [of _ "sh_payments sh"]) simp
  next
    case (Inr t)
    obtain os ps where t: "t = (os, ps)" by fastforce
    have "map core os = map core (sh_orders sh)" using release_core [OF Inr] t by simp
    then show ?thesis unfolding eq Inr t by auto
  qed
qed

lemma queue_shape: "\<exists>box. queue_jobs env a o1 low sh = sh\<lparr>sh_outbox := box\<rparr>"
proof (cases "ev_pool env")
  case False
  then show ?thesis by (intro exI [of _ "sh_outbox sh"]) (simp add: queue_jobs_def)
qed (auto simp: queue_jobs_def)

lemma credit_shape: "\<exists>ly. credit_loyalty_for_order env o1 sh = sh\<lparr>sh_loyalty := ly\<rparr>"
proof (cases "ord_user_id o1")
  case None
  then show ?thesis by (intro exI [of _ "sh_loyalty sh"]) (simp add: credit_loyalty_for_order_def)
qed (auto simp: credit_loyalty_for_order_def)

lemma ensure_nonce_core: "ensure_nonce n oid os = Inr (os', m) \<Longrightarrow> map core os' = map core os"
  by (auto simp: ensure_nonce_def Let_def core_upd core_def split: option.splits)

lemma code_shape:
  "\<exists>os. fst (delivery_code_for env a o1 sh) = sh\<lparr>sh_orders := os\<rparr> \<and> map core os = map core (sh_orders sh)"
proof (cases "\<exists>os code. delivery_code_for env a o1 sh = (sh\<lparr>sh_orders := os\<rparr>, Some code)
    \<and> get_code (ev_derive env) (ev_nonce env) (ord_id o1) (sh_orders sh) = Inr (os, code)")
  case True
  then obtain os code where d: "delivery_code_for env a o1 sh = (sh\<lparr>sh_orders := os\<rparr>, Some code)"
    and g: "get_code (ev_derive env) (ev_nonce env) (ord_id o1) (sh_orders sh) = Inr (os, code)" by blast
  have "map core os = map core (sh_orders sh)" using g by (auto simp: get_code_def dest: ensure_nonce_core)
  then show ?thesis using d by auto
next
  case False
  then have "delivery_code_for env a o1 sh = (sh, None)"
    by (cases "get_code (ev_derive env) (ev_nonce env) (ord_id o1) (sh_orders sh)")
       (auto simp: delivery_code_for_def split: if_splits)
  then show ?thesis by (intro exI [of _ "sh_orders sh"]) simp
qed

lemma notify_shape:
  "\<exists>os box. notify_transition env p a o1 sh = sh\<lparr>sh_orders := os, sh_outbox := box\<rparr> \<and> map core os = map core (sh_orders sh)"
proof -
  obtain os where os: "fst (delivery_code_for env a o1 sh) = sh\<lparr>sh_orders := os\<rparr>" "map core os = map core (sh_orders sh)"
    using code_shape [of env a o1 sh] by blast
  obtain code where d: "delivery_code_for env a o1 sh = (sh\<lparr>sh_orders := os\<rparr>, code)"
    using os(1) by (metis prod.collapse)
  show ?thesis
  proof (cases "notification_for p a (ord_type o1)")
    case None
    then show ?thesis using os(2)
      by (intro exI [of _ os] exI [of _ "sh_outbox sh"]) (simp add: notify_transition_def d)
  next
    case (Some tt)
    obtain cl st where "tt = (cl, st)" by fastforce
    then have "\<exists>box. notify_transition env p a o1 sh = sh\<lparr>sh_orders := os, sh_outbox := box\<rparr>"
      unfolding notify_transition_def d Some Let_def prod.case option.case by auto
    then show ?thesis using os(2) by blast
  qed
qed

lemma after_commit_shape:
  "\<exists>os ps ly box. after_commit env rq o1 a low sh =
      sh\<lparr>sh_orders := os, sh_payments := ps, sh_loyalty := ly, sh_outbox := box\<rparr> \<and> map core os = map core (sh_orders sh)"
proof -
  obtain os1 ps where r: "release_on_close env rq a (ord_id o1) sh = sh\<lparr>sh_orders := os1, sh_payments := ps\<rparr>"
    "map core os1 = map core (sh_orders sh)" using release_shape by blast
  obtain box1 where q: "queue_jobs env a o1 low (release_on_close env rq a (ord_id o1) sh) =
      sh\<lparr>sh_orders := os1, sh_payments := ps, sh_outbox := box1\<rparr>"
    using queue_shape [of env a o1 low "sh\<lparr>sh_orders := os1, sh_payments := ps\<rparr>"] by (auto simp: r(1))
  obtain ly where c: "(if a = Delivered then credit_loyalty_for_order env o1 (queue_jobs env a o1 low (release_on_close env rq a (ord_id o1) sh))
      else queue_jobs env a o1 low (release_on_close env rq a (ord_id o1) sh)) =
      sh\<lparr>sh_orders := os1, sh_payments := ps, sh_loyalty := ly, sh_outbox := box1\<rparr>"
  proof (cases "a = Delivered")
    case True
    obtain ly where "credit_loyalty_for_order env o1 (sh\<lparr>sh_orders := os1, sh_payments := ps, sh_outbox := box1\<rparr>) =
        sh\<lparr>sh_orders := os1, sh_payments := ps, sh_outbox := box1\<rparr>\<lparr>sh_loyalty := ly\<rparr>" using credit_shape by blast
    then show ?thesis using True q that [of ly] by simp
  next
    case False
    then show ?thesis using q that [of "sh_loyalty sh"] by simp
  qed
  obtain os box where n: "notify_transition env (ord_status o1) a o1
        (sh\<lparr>sh_orders := os1, sh_payments := ps, sh_loyalty := ly, sh_outbox := box1\<rparr>) =
      sh\<lparr>sh_orders := os1, sh_payments := ps, sh_loyalty := ly, sh_outbox := box1\<rparr>\<lparr>sh_orders := os, sh_outbox := box\<rparr>"
    and m: "map core os = map core (sh_orders sh)"
    using notify_shape [of env "ord_status o1" a o1
        "sh\<lparr>sh_orders := os1, sh_payments := ps, sh_loyalty := ly, sh_outbox := box1\<rparr>"] r(2) by auto
  have "after_commit env rq o1 a low sh = sh\<lparr>sh_orders := os, sh_payments := ps, sh_loyalty := ly, sh_outbox := box\<rparr>"
    unfolding after_commit_def Let_def c n by simp
  then show ?thesis using m by blast
qed

lemma after_commit_frame:
  "map core (sh_orders (after_commit env rq o1 a low sh)) = map core (sh_orders sh)"
  "sh_stock (after_commit env rq o1 a low sh) = sh_stock sh"
  "sh_items (after_commit env rq o1 a low sh) = sh_items sh"
  "sh_history (after_commit env rq o1 a low sh) = sh_history sh"
  "sh_dispatch (after_commit env rq o1 a low sh) = sh_dispatch sh"
  "sh_promos (after_commit env rq o1 a low sh) = sh_promos sh"
  "sh_config (after_commit env rq o1 a low sh) = sh_config sh"
  "sh_zones (after_commit env rq o1 a low sh) = sh_zones sh"
  using after_commit_shape [of env rq o1 a low sh] by auto

subsection \<open>The transaction\<close>

lemma update_statusE:
  assumes "update_status env oid rq sh = Inr sh'"
  obtains o1 sh1 low where "order_of oid sh = Some o1" "ord_id o1 = oid" "status_guards rq o1 sh = Inr ()"
    "commit_transition env rq o1 sh = Inr (sh1, low)"
    "sh' = after_commit env rq o1 (actual_status (rq_status rq) sh) low sh1"
proof (cases "order_of oid sh")
  case None
  then show ?thesis using assms by (simp add: update_status_def)
next
  case (Some o1)
  then show ?thesis using assms that [of o1] row_get_SomeD [OF Some] by (auto simp: update_status_def)
qed

lemma guards_graph:
  assumes "status_guards rq o1 sh = Inr ()"
  shows "rq_authority rq = Internal \<Longrightarrow> is_graph_transition (ord_status o1) rq"
    and "rq_status rq = Confirmed \<Longrightarrow> payment_settles o1"
    and "rq_status rq = Delivered \<Longrightarrow> ord_payment_status o1 \<noteq> Guaranteed"
    and "rq_status rq = Delivered \<Longrightarrow> rq_proof rq = None \<Longrightarrow> rq_authority rq = Internal \<Longrightarrow>
      \<not> proof_required_for (sh_zones sh) o1 (sh_dispatch sh)"
    and "rq_status rq = Out_for_delivery \<Longrightarrow> rq_authority rq = Internal \<Longrightarrow>
      ensure_driver_for_departure (sh_zones sh) o1 (sh_dispatch sh) = Inr ()"
  using assms by (auto simp: status_guards_def split: if_splits)

lemma follow_core:
  assumes "follow_delivery env rq a o2 z dp = (o3, dp')"
  shows "core o3 = core o2"
  using assms
  by (cases "active_delivery (ord_id o2) dp")
     (auto simp: follow_delivery_def on_departure_def core_def refresh_estimate_def Let_def
      split: if_splits option.splits prod.splits)

text \<open>The state at the commit, one component at a time.\<close>

lemma commit_parts:
  assumes c: "commit_transition env rq o1 sh = Inr (sh1, low)" and a: "a = actual_status (rq_status rq) sh"
    and f: "follow_delivery env rq a (o1\<lparr>ord_status := a\<rparr>) (sh_zones sh) (sh_dispatch sh) = (o3, dp)"
  shows "sh_orders sh1 = row_upd ord_id (ord_id o1) (\<lambda>_. o3) (sh_orders sh)"
    and "sh_dispatch sh1 = dp"
    and "sh_history sh1 = sh_history sh @
      [\<lparr>hist_order_id = ord_id o1, hist_status = a, hist_note = rq_note rq, hist_authority = rq_authority rq\<rparr>]"
    and "sh_items sh1 = sh_items sh" and "sh_config sh1 = sh_config sh" and "sh_zones sh1 = sh_zones sh"
    and "a = Confirmed \<Longrightarrow>
      deduct_for_order (ord_id o1) (sh_items sh) (rq_actor rq) (ev_now env) (sh_stock sh) = Inr (sh_stock sh1, low)"
    and "a \<noteq> Confirmed \<Longrightarrow> sh_stock sh1 =
      (if a = Cancelled \<and> ord_status o1 = Confirmed
       then restore_for_order (ord_id o1) (sh_items sh) (rq_actor rq) (sh_stock sh) else sh_stock sh)"
    and "sh_loyalty sh1 = sh_loyalty sh"
proof -
  define sh0 where "sh0 = (if rq_authority rq = External \<and> \<not> is_graph_transition (ord_status o1) rq
                 then sh\<lparr>sh_out_of_graph := sh_out_of_graph sh + 1\<rparr> else sh)"
  define h where "h = add_history (ord_id o1) a (rq_note rq) (rq_authority rq) sh0"
  define sh2 where "sh2 = (upd_order (ord_id o1) (\<lambda>_. o3) h)\<lparr>sh_dispatch := dp\<rparr>"
  have h0: "sh_orders sh0 = sh_orders sh" "sh_items sh0 = sh_items sh" "sh_history sh0 = sh_history sh"
    "sh_dispatch sh0 = sh_dispatch sh" "sh_stock sh0 = sh_stock sh" "sh_config sh0 = sh_config sh"
    "sh_zones sh0 = sh_zones sh" "sh_loyalty sh0 = sh_loyalty sh"
    by (simp_all add: sh0_def)
  have h2: "sh_orders sh2 = row_upd ord_id (ord_id o1) (\<lambda>_. o3) (sh_orders sh)" "sh_items sh2 = sh_items sh"
    "sh_history sh2 = sh_history sh @ [\<lparr>hist_order_id = ord_id o1, hist_status = a, hist_note = rq_note rq,
       hist_authority = rq_authority rq\<rparr>]" "sh_dispatch sh2 = dp" "sh_stock sh2 = sh_stock sh"
    "sh_config sh2 = sh_config sh" "sh_zones sh2 = sh_zones sh" "sh_loyalty sh2 = sh_loyalty sh"
    by (simp_all add: sh2_def h_def add_history_def h0)
  have z: "sh_zones h = sh_zones sh" "sh_dispatch h = sh_dispatch sh" by (simp_all add: h_def add_history_def h0)
  have e: "stock_effects env rq (ord_status o1) a o1 sh2 = Inr (sh1, low)"
    using c unfolding commit_transition_def Let_def a [symmetric] sh0_def [symmetric] h_def [symmetric] z f
    by (simp add: sh2_def)
  show "sh_orders sh1 = row_upd ord_id (ord_id o1) (\<lambda>_. o3) (sh_orders sh)" "sh_dispatch sh1 = dp"
    "sh_history sh1 = sh_history sh @
      [\<lparr>hist_order_id = ord_id o1, hist_status = a, hist_note = rq_note rq, hist_authority = rq_authority rq\<rparr>]"
    "sh_items sh1 = sh_items sh" "sh_config sh1 = sh_config sh" "sh_zones sh1 = sh_zones sh"
    "sh_loyalty sh1 = sh_loyalty sh"
    using e h2 by (auto simp: stock_effects_def split: if_splits)
  show "a = Confirmed \<Longrightarrow>
      deduct_for_order (ord_id o1) (sh_items sh) (rq_actor rq) (ev_now env) (sh_stock sh) = Inr (sh_stock sh1, low)"
    using e h2(2,5) by (auto simp: stock_effects_def)
  show "a \<noteq> Confirmed \<Longrightarrow> sh_stock sh1 =
      (if a = Cancelled \<and> ord_status o1 = Confirmed
       then restore_for_order (ord_id o1) (sh_items sh) (rq_actor rq) (sh_stock sh) else sh_stock sh)"
    using e h2(2,5) by (auto simp: stock_effects_def split: if_splits)
qed

end
