(* ===== verification/Orders_Preparation.thy ===== *)
theory Orders_Preparation
  imports Orders_Status
begin

text \<open>
  Preparation of the order lines on the kitchen screens: \<^verbatim>\<open>update_item_preparation\<close>,
  \<^verbatim>\<open>update_station_preparation\<close> and \<^verbatim>\<open>_station_summary\<close> of \<^verbatim>\<open>app/modules/orders/service.py\<close>. A requested
  status arrives as text.
\<close>

subsection \<open>Statuses\<close>

definition prep_name :: "prep_status \<Rightarrow> string" where
  "prep_name p = (case p of Prep_pending \<Rightarrow> ''pending'' | Prep_preparing \<Rightarrow> ''preparing'' | Prep_ready \<Rightarrow> ''ready'')"

definition prep_of_text :: "string \<Rightarrow> prep_status option" where
  "prep_of_text s = map_of [(''pending'', Prep_pending), (''preparing'', Prep_preparing), (''ready'', Prep_ready)] s"

definition active_for_preparation :: "order_status \<Rightarrow> bool" where
  "active_for_preparation st \<longleftrightarrow> st \<in> {Pending, Confirmed, Queued, Preparing, Ready, Out_for_delivery}"

definition station_preparable :: "order_status \<Rightarrow> bool" where
  "station_preparable st \<longleftrightarrow> st \<in> {Confirmed, Preparing, Ready}"

fun valid_preparation_transitions :: "prep_status \<Rightarrow> prep_status list" where
  "valid_preparation_transitions Prep_pending = [Prep_preparing, Prep_ready]"
| "valid_preparation_transitions Prep_preparing = [Prep_ready]"
| "valid_preparation_transitions Prep_ready = [Prep_preparing]"

definition apply_preparation_status :: "prep_status \<Rightarrow> int option \<Rightarrow> instant \<Rightarrow> order_item \<Rightarrow> order_item" where
  "apply_preparation_status st actor now it =
     (if st = Prep_ready
      then it\<lparr>oi_prep_status := st, oi_prepared_at := Some now, oi_prepared_by := actor\<rparr>
      else it\<lparr>oi_prep_status := st, oi_prepared_at := None, oi_prepared_by := None\<rparr>)"

subsection \<open>One line\<close>

definition update_item_preparation ::
    "int \<Rightarrow> int \<Rightarrow> string \<Rightarrow> string option \<Rightarrow> int \<Rightarrow> instant \<Rightarrow> shop \<Rightarrow> shop res" where
  "update_item_preparation oid iid status n actor now sh =
     (case prep_of_text status of
        None \<Rightarrow> Inl (AppError ''INVALID_PREPARATION_STATUS'' 422)
      | Some st \<Rightarrow>
          (case order_of oid sh of
             None \<Rightarrow> Inl (AppError ''ORDER_NOT_FOUND'' 404)
           | Some o1 \<Rightarrow>
               if \<not> active_for_preparation (ord_status o1) then Inl (AppError ''ORDER_NOT_ACTIVE'' 409)
               else (case row_get oi_id iid (sh_items sh) of
                   None \<Rightarrow> Inl (AppError ''ORDER_ITEM_NOT_FOUND'' 404)
                 | Some it \<Rightarrow>
                     if oi_order_id it \<noteq> oid then Inl (AppError ''ORDER_ITEM_NOT_FOUND'' 404)
                     else if oi_type it = Item_menu then Inl (AppError ''MENU_PARENT_NOT_PREPARABLE'' 422)
                     else
                       let sh1 = sh\<lparr>sh_items := row_upd oi_id iid (apply_preparation_status st (Some actor) now) (sh_items sh)\<rparr>
                       in Inr (case n of
                            None \<Rightarrow> sh1
                          | Some t \<Rightarrow>
                              if t = [] then sh1
                              else add_history oid (Other_status (''item_'' @ status))
                                     (Some (''Item #'' @ py_str_int iid @ '': '' @ t)) Internal sh1))))"

subsection \<open>One station\<close>

definition at_station :: "int \<Rightarrow> station \<Rightarrow> order_item \<Rightarrow> bool" where
  "at_station oid stn it \<longleftrightarrow> oi_order_id it = oid \<and> oi_station it = stn"

definition station_items :: "int \<Rightarrow> station \<Rightarrow> shop \<Rightarrow> order_item list" where
  "station_items oid stn sh = filter (at_station oid stn) (sh_items sh)"

definition prepared_lines :: "int \<Rightarrow> shop \<Rightarrow> order_item list" where
  "prepared_lines oid sh = filter (\<lambda>it. oi_order_id it = oid \<and> oi_station it \<noteq> NoStation) (sh_items sh)"

text \<open>The global status after a station changed: the new status and the note of the history row.\<close>

definition station_outcome ::
    "order_status \<Rightarrow> prep_status \<Rightarrow> string option \<Rightarrow> order_item list \<Rightarrow> (order_status \<times> string option) option" where
  "station_outcome prev st n prepared =
     (if st = Prep_ready \<and> prev = Preparing
      then (if prepared \<noteq> [] \<and> list_all (\<lambda>it. oi_prep_status it = Prep_ready) prepared then Some (Ready, n) else None)
      else if st = Prep_preparing \<and> prev = Ready
      then Some (Preparing, Some (case n of None \<Rightarrow> ''KDS station reopened''
              | Some t \<Rightarrow> if t = [] then ''KDS station reopened'' else t))
      else None)"

definition notify_preparation :: "order \<Rightarrow> order_status option \<Rightarrow> shop \<Rightarrow> shop" where
  "notify_preparation o1 changed sh =
     sh\<lparr>sh_outbox := sh_outbox sh @ [To_staff Preparation_updated ''Preparation mise a jour'']
        @ (case ord_user_id o1 of
             None \<Rightarrow> []
           | Some u \<Rightarrow> if changed = Some Ready
               then [To_client u (Status_event Ready)
                       (if ord_type o1 = Delivery_type then ''Order ready'' else ''Ready for pickup'')]
               else [])\<rparr>"

definition update_station_preparation ::
    "int \<Rightarrow> station \<Rightarrow> string \<Rightarrow> string option \<Rightarrow> int option \<Rightarrow> instant \<Rightarrow> shop \<Rightarrow> shop res" where
  "update_station_preparation oid stn status n actor now sh =
     (case prep_of_text status of
        None \<Rightarrow> Inl (AppError ''INVALID_PREPARATION_STATUS'' 422)
      | Some st \<Rightarrow>
          (case order_of oid sh of
             None \<Rightarrow> Inl (AppError ''ORDER_NOT_FOUND'' 404)
           | Some o1 \<Rightarrow>
               if \<not> station_preparable (ord_status o1) then Inl (AppError ''ORDER_NOT_PREPARABLE'' 409)
               else
                 let items = station_items oid stn sh
                 in if items = [] then Inl (AppError ''ORDER_STATION_NOT_FOUND'' 404)
                    else if list_all (\<lambda>it. oi_prep_status it = st) items then Inr sh
                    else if list_ex (\<lambda>it. oi_prep_status it \<noteq> st
                              \<and> st \<notin> set (valid_preparation_transitions (oi_prep_status it))) items
                    then Inl (AppError ''INVALID_PREPARATION_TRANSITION'' 422)
                    else
                      let sh1 = sh\<lparr>sh_items := map (\<lambda>it. if at_station oid stn it
                             then apply_preparation_status st actor now it else it) (sh_items sh)\<rparr>
                      in Inr (case station_outcome (ord_status o1) st n (prepared_lines oid sh1) of
                           None \<Rightarrow> notify_preparation o1 None sh1
                         | Some (new, global_note) \<Rightarrow>
                             notify_preparation o1 (Some new)
                               (add_history oid new global_note Internal
                                  (upd_order oid (\<lambda>x. x\<lparr>ord_status := new\<rparr>) sh1)))))"

subsection \<open>Summary\<close>

record station_row =
  sr_station :: station
  sr_total :: nat
  sr_ready :: nat
  sr_all_ready :: bool

fun bump :: "station \<Rightarrow> bool \<Rightarrow> (station \<times> nat \<times> nat) list \<Rightarrow> (station \<times> nat \<times> nat) list" where
  "bump s r [] = [(s, 1, if r then 1 else 0)]"
| "bump s r ((s', t, k) # g) = (if s' = s then (s', t + 1, if r then k + 1 else k) # g else (s', t, k) # bump s r g)"

definition station_order :: "station \<Rightarrow> nat" where
  "station_order s = (case s of Counter \<Rightarrow> 0 | Kitchen \<Rightarrow> 1 | NoStation \<Rightarrow> 2)"

definition station_summary :: "order_item list \<Rightarrow> station_row list" where
  "station_summary items =
     (let grouped = fold (\<lambda>it g. if oi_station it = NoStation then g
              else bump (oi_station it) (oi_prep_status it = Prep_ready) g) items []
      in map (\<lambda>(s, t, k). \<lparr>sr_station = s, sr_total = t, sr_ready = k, sr_all_ready = (0 < t \<and> t = k)\<rparr>)
           (sort_key (\<lambda>e. station_order (fst e)) grouped))"

text \<open>The reference: counting the lines of each station.\<close>

definition station_total :: "station \<Rightarrow> order_item list \<Rightarrow> nat" where
  "station_total s items = length (filter (\<lambda>it. oi_station it = s) items)"

definition station_ready :: "station \<Rightarrow> order_item list \<Rightarrow> nat" where
  "station_ready s items = length (filter (\<lambda>it. oi_station it = s \<and> oi_prep_status it = Prep_ready) items)"

lemma map_of_bump:
  "map_of (bump s r g) s' = (if s' = s
     then Some (case map_of g s of None \<Rightarrow> (1, if r then 1 else 0) | Some (t, k) \<Rightarrow> (t + 1, if r then k + 1 else k))
     else map_of g s')"
  by (induction s r g rule: bump.induct) auto

lemma bump_keys: "fst ` set (bump s r g) = insert s (fst ` set g)"
  by (induction s r g rule: bump.induct) auto

lemma distinct_bump: "distinct (map fst g) \<Longrightarrow> distinct (map fst (bump s r g))"
proof (induction s r g rule: bump.induct)
  case (2 s r s' t k g)
  then show ?case using bump_keys [of s r g] by (auto simp flip: set_map)
qed simp

definition station_groups :: "order_item list \<Rightarrow> (station \<times> nat \<times> nat) list \<Rightarrow> (station \<times> nat \<times> nat) list" where
  "station_groups items g = fold (\<lambda>it g. if oi_station it = NoStation then g
      else bump (oi_station it) (oi_prep_status it = Prep_ready) g) items g"

lemma station_groups_map_of:
  "map_of (station_groups items g) s =
    (if s = NoStation \<or> (station_total s items = 0 \<and> map_of g s = None) then map_of g s
     else (case map_of g s of None \<Rightarrow> Some (station_total s items, station_ready s items)
       | Some (t, k) \<Rightarrow> Some (t + station_total s items, k + station_ready s items)))"
proof (induction items arbitrary: g)
  case (Cons it items)
  show ?case
    by (cases "oi_station it = NoStation"; cases "oi_station it = s"; cases "map_of g s")
       (use Cons.IH in \<open>auto simp: station_groups_def station_total_def station_ready_def map_of_bump\<close>)
qed (auto simp: station_groups_def station_total_def station_ready_def split: option.splits)

lemma station_groups_distinct: "distinct (map fst g) \<Longrightarrow> distinct (map fst (station_groups items g))"
  by (induction items arbitrary: g) (auto simp: station_groups_def distinct_bump)

end
