(* ===== verification/Delivery_Dispatch.thy ===== *)
theory Delivery_Dispatch
  imports Orders_Status
begin

text \<open>
  Assigning deliveries to drivers and what drivers do with them: \<^verbatim>\<open>app/modules/delivery/dispatch_service.py\<close> and
  the failure report of \<^verbatim>\<open>failures.py\<close>. Operations that commit before they may raise return the shop together with
  the outcome; the others return a result. \<open>nid\<close> is the next delivery key.
\<close>

subsection \<open>Helpers\<close>

definition assignable_status :: "order_status \<Rightarrow> bool" where
  "assignable_status st \<longleftrightarrow> st \<in> {Confirmed, Queued, Preparing, Ready}"

definition clocked_in :: "driver \<Rightarrow> shop \<Rightarrow> bool" where
  "clocked_in drv sh \<longleftrightarrow> drv_user_id drv \<in> set (dp_clocked_in (sh_dispatch sh))"

abbreviation on_dispatch :: "(dispatch_db \<Rightarrow> dispatch_db) \<Rightarrow> shop \<Rightarrow> shop" where
  "on_dispatch f sh \<equiv> sh\<lparr>sh_dispatch := f (sh_dispatch sh)\<rparr>"

definition new_delivery :: "int \<Rightarrow> int \<Rightarrow> int \<Rightarrow> int \<Rightarrow> instant \<Rightarrow> delivery" where
  "new_delivery nid oid driver_id user now =
     \<lparr>dv_id = nid, dv_order_id = oid, dv_driver_id = driver_id, dv_run_id = None, dv_status = Assigned,
      dv_assigned_by = Some user, dv_assigned_at = now, dv_departed_at = None, dv_arrived_at = None,
      dv_finished_at = None\<rparr>"

definition create_delivery :: "delivery \<Rightarrow> string \<Rightarrow> int \<Rightarrow> shop \<Rightarrow> shop" where
  "create_delivery d ev user sh =
     on_dispatch (\<lambda>dp. add_event (Some d) (dv_order_id d) ev (Some user) None
        (dp\<lparr>dp_deliveries := dp_deliveries dp @ [d]\<rparr>)) sh"

subsection \<open>Counter dispatch\<close>

definition assign_one :: "int \<Rightarrow> driver \<Rightarrow> int \<Rightarrow> instant \<Rightarrow> int \<Rightarrow> shop \<Rightarrow> shop res" where
  "assign_one nid drv user now oid sh =
     (case order_of oid sh of
        None \<Rightarrow> Inl (AppError ''ORDER_NOT_FOUND'' 404)
      | Some o1 \<Rightarrow>
          if ord_type o1 \<noteq> Delivery_type then Inl (AppError ''ORDER_NOT_DELIVERY'' 422)
          else
            let current = active_delivery oid (sh_dispatch sh)
            in if (case current of None \<Rightarrow> False | Some d \<Rightarrow> dv_status d \<noteq> Assigned)
               then Inl (AppError ''DELIVERY_ALREADY_STARTED'' 409)
               else if \<not> assignable_status (ord_status o1) then Inl (AppError ''ORDER_NOT_ASSIGNABLE'' 409)
               else if (case ord_establishment_id o1 of None \<Rightarrow> False | Some e \<Rightarrow> e \<noteq> drv_establishment_id drv)
               then Inl (AppError ''DRIVER_WRONG_ESTABLISHMENT'' 409)
               else (case current of
                   None \<Rightarrow> Inr (create_delivery (new_delivery nid oid (drv_id drv) user now) ''assigned'' user sh)
                 | Some d \<Rightarrow>
                     if dv_driver_id d = drv_id drv then Inr sh
                     else Inr (on_dispatch (\<lambda>dp.
                       add_event (Some (d\<lparr>dv_driver_id := drv_id drv\<rparr>)) oid ''reassigned'' (Some user)
                         (Some (From_driver (dv_driver_id d)))
                         (upd_delivery (dv_id d) (\<lambda>x. x\<lparr>dv_driver_id := drv_id drv, dv_assigned_by := Some user,
                            dv_assigned_at := now\<rparr>) dp)) sh)))"

fun assign_loop :: "int \<Rightarrow> driver \<Rightarrow> int \<Rightarrow> instant \<Rightarrow> int list \<Rightarrow> shop \<Rightarrow> shop res" where
  "assign_loop nid drv user now [] sh = Inr sh"
| "assign_loop nid drv user now (oid # oids) sh =
     rbind (assign_one nid drv user now oid sh) (assign_loop (nid + 1) drv user now oids)"

definition assign :: "int \<Rightarrow> int list \<Rightarrow> int \<Rightarrow> int \<Rightarrow> instant \<Rightarrow> shop \<Rightarrow> shop res" where
  "assign nid order_ids driver_id user now sh =
     (case row_get drv_id driver_id (dp_drivers (sh_dispatch sh)) of
        None \<Rightarrow> Inl (AppError ''DRIVER_NOT_FOUND'' 404)
      | Some drv \<Rightarrow>
          if \<not> drv_active drv then Inl (AppError ''DRIVER_INACTIVE'' 409)
          else if \<not> clocked_in drv sh then Inl (AppError ''DRIVER_NOT_CLOCKED_IN'' 409)
          else if list_ex (\<lambda>oid. order_of oid sh = None) order_ids then Inl (AppError ''ORDER_NOT_FOUND'' 404)
          else assign_loop nid drv user now (sort order_ids) sh)"

definition withdraw :: "delivery \<Rightarrow> string \<Rightarrow> int \<Rightarrow> instant \<Rightarrow> shop \<Rightarrow> shop" where
  "withdraw d ev user now sh =
     on_dispatch (\<lambda>dp. add_event (Some d) (dv_order_id d) ev (Some user) None
       (upd_delivery (dv_id d) (\<lambda>x. x\<lparr>dv_status := Withdrawn, dv_finished_at := Some now\<rparr>) dp)) sh"

definition unassign :: "int \<Rightarrow> int \<Rightarrow> instant \<Rightarrow> shop \<Rightarrow> shop res" where
  "unassign oid user now sh =
     (case order_of oid sh of
        None \<Rightarrow> Inl (AppError ''ORDER_NOT_FOUND'' 404)
      | Some _ \<Rightarrow>
          (case active_delivery oid (sh_dispatch sh) of
             None \<Rightarrow> Inl (AppError ''DELIVERY_NOT_FOUND'' 404)
           | Some d \<Rightarrow>
               if dv_status d \<noteq> Assigned then Inl (AppError ''DELIVERY_ALREADY_STARTED'' 409)
               else Inr (withdraw d ''unassigned'' user now sh)))"

subsection \<open>Self-assignment\<close>

definition driver_active_count :: "int \<Rightarrow> shop \<Rightarrow> int" where
  "driver_active_count driver_id sh =
     int (length (filter (\<lambda>d. dv_driver_id d = driver_id \<and> delivery_live d) (dp_deliveries (sh_dispatch sh))))"

definition claim_one :: "int \<Rightarrow> driver \<Rightarrow> int \<Rightarrow> instant \<Rightarrow> int \<Rightarrow> shop \<Rightarrow> shop res" where
  "claim_one nid drv user now oid sh =
     (case order_of oid sh of
        None \<Rightarrow> Inl (AppError ''ORDER_NOT_FOUND'' 404)
      | Some o1 \<Rightarrow>
          if ord_type o1 \<noteq> Delivery_type then Inl (AppError ''ORDER_NOT_DELIVERY'' 422)
          else if (case ord_establishment_id o1 of None \<Rightarrow> False | Some e \<Rightarrow> e \<noteq> drv_establishment_id drv)
          then Inl (AppError ''DRIVER_WRONG_ESTABLISHMENT'' 409)
          else if active_delivery oid (sh_dispatch sh) \<noteq> None then Inl (AppError ''ORDER_ALREADY_TAKEN'' 409)
          else if \<not> assignable_status (ord_status o1) then Inl (AppError ''ORDER_NOT_ASSIGNABLE'' 409)
          else Inr (create_delivery (new_delivery nid oid (drv_id drv) user now) ''claimed'' user sh))"

fun claim_loop :: "int \<Rightarrow> driver \<Rightarrow> int \<Rightarrow> instant \<Rightarrow> int list \<Rightarrow> shop \<Rightarrow> shop res" where
  "claim_loop nid drv user now [] sh = Inr sh"
| "claim_loop nid drv user now (oid # oids) sh =
     rbind (claim_one nid drv user now oid sh) (claim_loop (nid + 1) drv user now oids)"

definition claim :: "int \<Rightarrow> driver \<Rightarrow> int list \<Rightarrow> int \<Rightarrow> instant \<Rightarrow> shop \<Rightarrow> shop res" where
  "claim nid drv0 order_ids user now sh =
     (let eff = get_effective (sh_zones sh) (drv_establishment_id drv0) (sh_dispatch sh)
      in if \<not> is_dispatch_enabled (sh_zones sh) then Inl (AppError ''DISPATCH_DISABLED'' 409)
         else if ef_mode eff \<noteq> Self_assign then Inl (AppError ''SELF_ASSIGN_DISABLED'' 409)
         else if order_ids = [] \<or> \<not> distinct order_ids then Inl (AppError ''ORDER_IDS_INVALID'' 422)
         else if length order_ids > 10 then Inl (AppError ''ORDER_IDS_INVALID'' 422)
         else case row_get drv_id (drv_id drv0) (dp_drivers (sh_dispatch sh)) of
           None \<Rightarrow> Inl (AppError ''DRIVER_INACTIVE'' 403)
         | Some drv \<Rightarrow>
             if \<not> drv_active drv then Inl (AppError ''DRIVER_INACTIVE'' 403)
             else if \<not> clocked_in drv sh then Inl (AppError ''DRIVER_NOT_CLOCKED_IN'' 409)
             else if list_ex (\<lambda>oid. order_of oid sh = None) order_ids then Inl (AppError ''ORDER_NOT_FOUND'' 404)
             else
               rbind (claim_loop nid drv0 user now (sort order_ids) sh) (\<lambda>sh1.
                 if driver_active_count (drv_id drv0) sh1 > ef_max_active eff
                 then Inl (AppError ''DRIVER_CAPACITY_REACHED'' 409)
                 else Inr sh1))"

definition own_delivery :: "driver \<Rightarrow> int \<Rightarrow> shop \<Rightarrow> delivery res" where
  "own_delivery drv did sh =
     (case row_get dv_id did (dp_deliveries (sh_dispatch sh)) of
        None \<Rightarrow> Inl (AppError ''DELIVERY_NOT_FOUND'' 404)
      | Some d \<Rightarrow> if dv_driver_id d \<noteq> drv_id drv then Inl (AppError ''DELIVERY_NOT_FOUND'' 404) else Inr d)"

definition release :: "driver \<Rightarrow> int \<Rightarrow> int \<Rightarrow> instant \<Rightarrow> shop \<Rightarrow> shop res" where
  "release drv did user now sh =
     (if ef_mode (get_effective (sh_zones sh) (drv_establishment_id drv) (sh_dispatch sh)) \<noteq> Self_assign
      then Inl (AppError ''SELF_ASSIGN_DISABLED'' 409)
      else rbind (own_delivery drv did sh) (\<lambda>d.
        if dv_status d \<noteq> Assigned then Inl (AppError ''DELIVERY_ALREADY_STARTED'' 409)
        else Inr (withdraw d ''released_by_driver'' user now sh)))"

subsection \<open>On the road\<close>

fun depart_check :: "driver \<Rightarrow> int list \<Rightarrow> shop \<Rightarrow> int list res" where
  "depart_check drv [] sh = Inr []"
| "depart_check drv (did # dids) sh =
     rbind (own_delivery drv did sh) (\<lambda>d.
       if dv_status d \<noteq> Assigned then Inl (AppError ''DELIVERY_NOT_ASSIGNED_STATE'' 409)
       else (case order_of (dv_order_id d) sh of
           None \<Rightarrow> Inl (AppError ''ORDER_NOT_READY'' 409)
         | Some o1 \<Rightarrow>
             if ord_status o1 \<noteq> Ready then Inl (AppError ''ORDER_NOT_READY'' 409)
             else rbind (depart_check drv dids sh) (\<lambda>oids. Inr (dv_order_id d # oids))))"

definition driver_request :: "order_status \<Rightarrow> int \<Rightarrow> string option \<Rightarrow> string option \<Rightarrow> status_request" where
  "driver_request st user n prf =
     \<lparr>rq_status = st, rq_note = n, rq_actor = Some user, rq_authority = Internal, rq_proof = prf,
      rq_redelivery = False\<rparr>"

text \<open>Each order is committed by its own \<^verbatim>\<open>update_status\<close>; \<open>envs\<close> gives the environment of each order's call.\<close>

fun depart_loop :: "(int \<Rightarrow> call_env) \<Rightarrow> int \<Rightarrow> int list \<Rightarrow> shop \<Rightarrow> shop \<times> unit res" where
  "depart_loop envs user [] sh = (sh, Inr ())"
| "depart_loop envs user (oid # rest) sh =
     (case update_status (envs oid) oid (driver_request Out_for_delivery user None None) sh of
        Inl e \<Rightarrow> (sh, Inl e)
      | Inr sh1 \<Rightarrow> depart_loop envs user rest sh1)"

definition driver_depart :: "(int \<Rightarrow> call_env) \<Rightarrow> driver \<Rightarrow> int list \<Rightarrow> int \<Rightarrow> shop \<Rightarrow> shop \<times> unit res" where
  "driver_depart envs drv dids user sh =
     (case depart_check drv (sort dids) sh of
        Inl e \<Rightarrow> (sh, Inl e)
      | Inr oids \<Rightarrow> depart_loop envs user oids sh)"

definition driver_arrived :: "driver \<Rightarrow> int \<Rightarrow> int \<Rightarrow> instant \<Rightarrow> shop \<Rightarrow> shop res" where
  "driver_arrived drv did user now sh =
     rbind (own_delivery drv did sh) (\<lambda>d.
       if dv_status d = Arrived then Inr sh
       else if dv_status d \<noteq> En_route then Inl (AppError ''DELIVERY_NOT_EN_ROUTE'' 409)
       else
         let sh1 = on_dispatch (\<lambda>dp. add_event (Some d) (dv_order_id d) ''arrived'' (Some user) None
               (upd_delivery did (\<lambda>x. x\<lparr>dv_status := Arrived, dv_arrived_at := Some now\<rparr>) dp)) sh
         in Inr (case Option.bind (order_of (dv_order_id d) sh) ord_user_id of
              None \<Rightarrow> sh1
            | Some c \<Rightarrow> sh1\<lparr>sh_outbox := sh_outbox sh1 @ [To_client c Driver_arrived ''Your driver has arrived'']\<rparr>))"

definition proof_rule :: "shop \<Rightarrow> bool" where
  "proof_rule sh = (case dd_settings (sh_zones sh) of None \<Rightarrow> False | Some s \<Rightarrow> ds_delivery_proof_required s)"

text \<open>The hand-over: code first, then the money, then the order. A wrong code is committed as an attempt, a cash
  settlement is committed before the order is closed.\<close>

definition check_code ::
    "call_env \<Rightarrow> int \<Rightarrow> int \<Rightarrow> int \<Rightarrow> string option \<Rightarrow> shop \<Rightarrow> shop \<times> string res" where
  "check_code env did oid user code sh =
     (if proof_rule sh \<or> (code \<noteq> None \<and> code \<noteq> Some [])
      then if code = None \<or> code = Some [] then (sh, Inl (AppError ''DELIVERY_CODE_REQUIRED'' 422))
      else (case verify_code (ev_derive env) (ev_nonce env) did oid (Some user) code (sh_orders sh) (sh_dispatch sh) of
              ((os, dp), r) \<Rightarrow>
                (sh\<lparr>sh_orders := os, sh_dispatch := dp\<rparr>, rbind r (\<lambda>_. Inr ''code'')))
      else (sh, Inr ''not_required''))"

definition settle_on_delivery ::
    "call_env \<Rightarrow> int \<Rightarrow> int \<Rightarrow> payment_status \<Rightarrow> rat option \<Rightarrow> int \<Rightarrow> shop \<Rightarrow> shop \<times> payment_status res" where
  "settle_on_delivery env pay_key oid ps cash user sh =
     (if ps = Guaranteed
      then if cash = None then (sh, Inl (AppError ''CASH_RECEIVED_REQUIRED'' 422))
      else (case settle_guarantee_cash (ev_cancel_ok env) pay_key oid cash (Some user) (ev_now env)
                   (sh_orders sh, sh_payments sh) of
              Inl e \<Rightarrow> (sh, Inl e)
            | Inr (os, pays) \<Rightarrow> (sh\<lparr>sh_orders := os, sh_payments := pays\<rparr>, Inr Paid))
      else (sh, Inr ps))"

definition driver_deliver ::
    "call_env \<Rightarrow> int \<Rightarrow> driver \<Rightarrow> int \<Rightarrow> rat option \<Rightarrow> int \<Rightarrow> string option \<Rightarrow> shop \<Rightarrow> shop \<times> unit res" where
  "driver_deliver env pay_key drv did cash user code sh =
     (case own_delivery drv did sh of
        Inl e \<Rightarrow> (sh, Inl e)
      | Inr d \<Rightarrow>
          if dv_status d \<noteq> En_route \<and> dv_status d \<noteq> Arrived then (sh, Inl (AppError ''DELIVERY_NOT_EN_ROUTE'' 409))
          else (case order_of (dv_order_id d) sh of
              None \<Rightarrow> (sh, Inl PyAttributeError)
            | Some o1 \<Rightarrow>
                (case check_code env did (dv_order_id d) user code sh of
                   (sh1, Inl e) \<Rightarrow> (sh1, Inl e)
                 | (sh1, Inr prf) \<Rightarrow>
                     (case settle_on_delivery env pay_key (dv_order_id d) (ord_payment_status o1) cash user sh1 of
                        (sh2, Inl e) \<Rightarrow> (sh2, Inl e)
                      | (sh2, Inr ps) \<Rightarrow>
                          if ps \<noteq> Paid then (sh2, Inl (AppError ''ORDER_NOT_PAID'' 409))
                          else (case update_status env (dv_order_id d) (driver_request Delivered user None (Some prf)) sh2 of
                              Inl e \<Rightarrow> (sh2, Inl e)
                            | Inr sh3 \<Rightarrow> (sh3, Inr ()))))))"

definition admin_deliver_without_code :: "call_env \<Rightarrow> int \<Rightarrow> string \<Rightarrow> int \<Rightarrow> shop \<Rightarrow> shop res" where
  "admin_deliver_without_code env oid reason user sh =
     (let r = py_strip reason
      in if length r < 3 then Inl (AppError ''OVERRIDE_REASON_REQUIRED'' 422)
         else case active_delivery oid (sh_dispatch sh) of
           None \<Rightarrow> Inl (AppError ''DELIVERY_NOT_EN_ROUTE'' 409)
         | Some d \<Rightarrow>
             if dv_status d \<noteq> En_route \<and> dv_status d \<noteq> Arrived then Inl (AppError ''DELIVERY_NOT_EN_ROUTE'' 409)
             else update_status env oid
                    (driver_request Delivered user (Some (''Livraison sans code : '' @ r)) (Some ''admin_override''))
                    (on_dispatch (add_event (Some d) oid ''delivered_without_code'' (Some user) (Some (Free_note r))) sh))"

subsection \<open>Reporting a failure\<close>

fun fault_of :: "failure_reason \<Rightarrow> fault" where
  "fault_of Order_problem = Restaurant_fault"
| "fault_of _ = Customer_fault"

fun reason_label :: "failure_reason \<Rightarrow> string" where
  "reason_label Customer_absent = ''Client absent''"
| "reason_label Customer_unreachable = ''Client injoignable''"
| "reason_label Wrong_address = ''Adresse introuvable ou fausse''"
| "reason_label Customer_refused = ''Client a refuse la commande''"
| "reason_label Order_problem = ''Probleme de commande (restaurant)''"
| "reason_label Other_reason = ''Autre''"

text \<open>The waiting rule for an absent customer; the result is the number of seconds waited.\<close>

definition waiting_rule ::
    "driver \<Rightarrow> delivery \<Rightarrow> failure_reason \<Rightarrow> int \<Rightarrow> instant \<Rightarrow> shop \<Rightarrow> int option res" where
  "waiting_rule drv d reason calls now sh =
     (if reason \<noteq> Customer_absent \<and> reason \<noteq> Customer_unreachable then Inr None
      else
        let eff = get_effective (sh_zones sh) (drv_establishment_id drv) (sh_dispatch sh)
        in if dv_status d \<noteq> Arrived then Inl (AppError ''FAILURE_ARRIVAL_REQUIRED'' 409)
           else case dv_arrived_at d of
             None \<Rightarrow> Inl (AppError ''FAILURE_ARRIVAL_REQUIRED'' 409)
           | Some arrived \<Rightarrow>
               let waited = py_int (of_int (now - arrived) / 1000000)
               in if waited < ef_min_wait eff * 60 then Inl (AppError ''FAILURE_TOO_EARLY'' 409)
                  else if calls < ef_min_calls eff then Inl (AppError ''FAILURE_CALL_REQUIRED'' 422)
                  else Inr (Some waited))"

definition report_failure ::
    "call_env \<Rightarrow> driver \<Rightarrow> int \<Rightarrow> failure_reason \<Rightarrow> string option \<Rightarrow> int \<Rightarrow> int \<Rightarrow> shop \<Rightarrow> shop res" where
  "report_failure env drv did reason note0 calls user sh =
     (let text = py_strip (case note0 of None \<Rightarrow> [] | Some s \<Rightarrow> s);
          n = (if text = [] then None else Some text)
      in if reason = Other_reason \<and> length text < 3 then Inl (AppError ''FAILURE_NOTE_REQUIRED'' 422)
         else
           rbind (own_delivery drv did sh) (\<lambda>d.
             if dv_status d \<noteq> En_route \<and> dv_status d \<noteq> Arrived then Inl (AppError ''DELIVERY_NOT_EN_ROUTE'' 409)
             else rbind (waiting_rule drv d reason calls (ev_now env) sh) (\<lambda>waited.
               let f = \<lparr>df_delivery_id = dv_id d, df_order_id = dv_order_id d, df_driver_id = drv_id drv,
                        df_reason = reason, df_fault = fault_of reason, df_note = map_option (take 256) n,
                        df_call_attempts = max 0 calls, df_waited_seconds = waited, df_pending = True\<rparr>;
                   sh1 = on_dispatch (\<lambda>dp. dp\<lparr>dp_failures := dp_failures dp @ [f]\<rparr>) sh;
                   label = reason_label reason @ (case n of None \<Rightarrow> [] | Some t \<Rightarrow> '' - '' @ t)
               in update_status env (dv_order_id d) (driver_request Delivery_failed user (Some label) None) sh1)))"

end
