(* ===== verification/Orders_Coherence.thy ===== *)
theory Orders_Coherence
  imports Orders_Frame Orders_Preparation Delivery_Dispatch
begin

text \<open>
  The contract between orders and deliveries announced by \<^verbatim>\<open>app/modules/delivery/lifecycle.py\<close>: an order has at
  most one live delivery, and that delivery is where the order is. \<open>coherent\<close> states it on the two tables; four
  lemmas say how it survives the four shapes of change, and every operation is one of them.
\<close>

fun follows :: "delivery_status \<Rightarrow> order_status \<Rightarrow> bool" where
  "follows Assigned st = assignable_status st"
| "follows En_route st = (st = Out_for_delivery)"
| "follows Arrived st = (st = Out_for_delivery)"
| "follows _ st = True"

definition view :: "int \<Rightarrow> order list \<Rightarrow> (order_type \<times> order_status) option" where
  "view k os = map_option (\<lambda>x. (ord_type x, ord_status x)) (row_get ord_id k os)"

definition coherent :: "order list \<Rightarrow> delivery list \<Rightarrow> bool" where
  "coherent os ds \<longleftrightarrow> distinct (map dv_id ds)
     \<and> (\<forall>d \<in> set ds. \<forall>e \<in> set ds. delivery_live d \<longrightarrow> delivery_live e \<longrightarrow> dv_order_id d = dv_order_id e \<longrightarrow> d = e)
     \<and> (\<forall>d \<in> set ds. delivery_live d \<longrightarrow>
          (\<exists>st. view (dv_order_id d) os = Some (Delivery_type, st) \<and> follows (dv_status d) st))"

lemma view_core: "map core os = map core os' \<Longrightarrow> view k os = view k os'"
proof -
  assume "map core os = map core os'"
  then have "map_option core (row_get ord_id k os) = map_option core (row_get ord_id k os')" by (rule row_get_map_core)
  then have "map_option (\<lambda>c. (fst (snd (snd c)), fst (snd c))) (map_option core (row_get ord_id k os)) =
      map_option (\<lambda>c. (fst (snd (snd c)), fst (snd c))) (map_option core (row_get ord_id k os'))" by simp
  then show ?thesis by (simp add: view_def option.map_comp comp_def core_def)
qed

lemma coherent_view: "(\<And>k. view k os' = view k os) \<Longrightarrow> coherent os' ds = coherent os ds"
  by (simp add: coherent_def)

lemma coherent_keys: "coherent os ds \<Longrightarrow> d \<in> set ds \<Longrightarrow> e \<in> set ds \<Longrightarrow> dv_id d = dv_id e \<Longrightarrow> d = e"
  by (meson coherent_def key_unique)

subsection \<open>The four shapes of change\<close>

text \<open>An order without a live delivery may go anywhere.\<close>

lemma coherent_idle:
  assumes "coherent os ds" and "\<forall>d \<in> set ds. dv_order_id d = oid \<longrightarrow> \<not> delivery_live d"
    and "\<And>k. k \<noteq> oid \<Longrightarrow> view k os' = view k os"
  shows "coherent os' ds"
  using assms unfolding coherent_def by metis

text \<open>An order whose delivery waits may move among the assignable statuses.\<close>

lemma coherent_move:
  assumes "coherent os ds" and "\<And>k. k \<noteq> oid \<Longrightarrow> view k os' = view k os"
    and "\<And>ty st. view oid os = Some (ty, st) \<Longrightarrow> \<exists>st'. view oid os' = Some (ty, st')
       \<and> (assignable_status st \<longrightarrow> assignable_status st') \<and> st \<noteq> Out_for_delivery"
  shows "coherent os' ds"
proof -
  have "\<exists>st'. view (dv_order_id d) os' = Some (Delivery_type, st') \<and> follows (dv_status d) st'"
    if d: "d \<in> set ds" "delivery_live d" for d
  proof -
    obtain st where st: "view (dv_order_id d) os = Some (Delivery_type, st)" "follows (dv_status d) st"
      using assms(1) d by (auto simp: coherent_def)
    show ?thesis
    proof (cases "dv_order_id d = oid")
      case True
      then obtain st' where "view oid os' = Some (Delivery_type, st')" "assignable_status st \<longrightarrow> assignable_status st'"
        and ne: "st \<noteq> Out_for_delivery" using assms(3) st(1) by blast
      moreover have "dv_status d = Assigned" using d(2) st(2) ne by (auto simp: delivery_live_def)
      ultimately show ?thesis using True st(2) by auto
    qed (use assms(2) st in auto)
  qed
  then show ?thesis using assms(1) by (auto simp: coherent_def)
qed

text \<open>One live delivery is rewritten together with its order.\<close>

lemma coherent_update:
  assumes co: "coherent os ds" and d: "d \<in> set ds" "delivery_live d"
    and f: "dv_id (f d) = dv_id d" "dv_order_id (f d) = dv_order_id d"
    and v: "\<And>k. k \<noteq> dv_order_id d \<Longrightarrow> view k os' = view k os"
    and live: "delivery_live (f d) \<Longrightarrow>
      \<exists>st. view (dv_order_id d) os' = Some (Delivery_type, st) \<and> follows (dv_status (f d)) st"
  shows "coherent os' (row_upd dv_id (dv_id d) f ds)"
proof -
  let ?ds = "row_upd dv_id (dv_id d) f ds"
  have only: "x = d" if "x \<in> set ds" "dv_id x = dv_id d" for x
    using coherent_keys [OF co that(1) d(1) that(2)] .
  have ids: "map dv_id ?ds = map dv_id ds" using only f(1) by (auto simp: row_upd_def)
  have mem: "y \<in> set ?ds \<longleftrightarrow> y = f d \<or> (y \<in> set ds \<and> y \<noteq> d)" for y
  proof -
    have "?ds = map (\<lambda>x. if x = d then f d else x) ds"
      unfolding row_upd_def using only by (intro map_cong) auto
    then have "y \<in> set ?ds \<longleftrightarrow> (\<exists>x \<in> set ds. y = (if x = d then f d else x))" by auto
    then show ?thesis using d(1) by (metis (full_types))
  qed
  have others: "dv_order_id y \<noteq> dv_order_id d" if "y \<in> set ds" "y \<noteq> d" "delivery_live y" for y
    using co d that unfolding coherent_def by metis
  have "\<exists>st. view (dv_order_id y) os' = Some (Delivery_type, st) \<and> follows (dv_status y) st"
    if "y \<in> set ?ds" "delivery_live y" for y
    using that co live f(2) others v unfolding mem coherent_def by metis
  moreover have "y = z" if "y \<in> set ?ds" "z \<in> set ?ds" "delivery_live y" "delivery_live z" "dv_order_id y = dv_order_id z" for y z
    using that co others f(2) unfolding mem coherent_def by metis
  ultimately show ?thesis using co ids by (simp add: coherent_def)
qed

text \<open>A fresh delivery is assigned to an assignable order that has none.\<close>

lemma coherent_new:
  assumes co: "coherent os ds" and none: "\<forall>d \<in> set ds. dv_order_id d = dv_order_id e \<longrightarrow> \<not> delivery_live d"
    and e: "dv_status e = Assigned" "dv_id e \<notin> dv_id ` set ds"
    and v: "view (dv_order_id e) os = Some (Delivery_type, st)" "assignable_status st"
  shows "coherent os (ds @ [e])"
proof -
  have "\<exists>st. view (dv_order_id y) os = Some (Delivery_type, st) \<and> follows (dv_status y) st"
    if "y \<in> set (ds @ [e])" "delivery_live y" for y
    using that co e(1) v by (auto simp: coherent_def)
  moreover have "y = z" if "y \<in> set (ds @ [e])" "z \<in> set (ds @ [e])" "delivery_live y" "delivery_live z"
      "dv_order_id y = dv_order_id z" for y z
    using that co none unfolding coherent_def by (auto; metis)
  ultimately show ?thesis using co e(2) by (simp add: coherent_def)
qed

subsection \<open>Status changes\<close>

abbreviation shop_coherent :: "shop \<Rightarrow> bool" where
  "shop_coherent sh \<equiv> coherent (sh_orders sh) (dp_deliveries (sh_dispatch sh))"

lemma view_order: "order_of oid sh = Some o1 \<Longrightarrow> view oid (sh_orders sh) = Some (ord_type o1, ord_status o1)"
  by (simp add: view_def)

lemma view_upd_const:
  assumes "ord_id o3 = oid" and "row_get ord_id oid os = Some o1"
  shows "view k (row_upd ord_id oid (\<lambda>_. o3) os) = (if k = oid then Some (ord_type o3, ord_status o3) else view k os)"
  using assms by (simp add: view_def row_get_upd_const)

lemma live_active:
  assumes "coherent os (dp_deliveries dp)" and "d \<in> set (dp_deliveries dp)" and "delivery_live d"
  shows "active_delivery (dv_order_id d) dp = Some d"
proof (cases "active_delivery (dv_order_id d) dp")
  case None
  then show ?thesis using assms by (auto simp: active_None_iff)
next
  case (Some e)
  then have "e = d" using active_SomeD [OF Some] assms unfolding coherent_def by blast
  then show ?thesis using Some by simp
qed

text \<open>The four effects of \<open>follow_delivery\<close> on the deliveries.\<close>

lemma follow_none:
  assumes "active_delivery (ord_id o2) dp = None" and "follow_delivery env rq a o2 z dp = (o3, dp')"
  shows "dp_deliveries dp' = dp_deliveries dp"
  using assms by (auto simp: follow_delivery_def on_departure_def on_delivered_def on_order_closed_def split: if_splits)

lemma follow_stay:
  assumes "a \<notin> {Out_for_delivery, Delivered, Cancelled, Rejected, Delivery_failed}"
    and "follow_delivery env rq a o2 z dp = (o3, dp')"
  shows "dp' = dp"
  using assms by (auto simp: follow_delivery_def split: if_splits)

lemma follow_close:
  assumes act: "active_delivery (ord_id o2) dp = Some d" and a: "a \<in> {Delivered, Cancelled, Rejected, Delivery_failed}"
    and f: "follow_delivery env rq a o2 z dp = (o3, dp')"
  shows "\<exists>g. dp_deliveries dp' = row_upd dv_id (dv_id d) g (dp_deliveries dp) \<and> \<not> delivery_live (g d)
    \<and> dv_id (g d) = dv_id d \<and> dv_order_id (g d) = dv_order_id d"
proof (cases "a = Delivered")
  case True
  have "dp_deliveries dp' = row_upd dv_id (dv_id d) (\<lambda>x. x\<lparr>dv_status := Done, dv_finished_at := Some (ev_now env)\<rparr>) (dp_deliveries dp)"
    using f True by (auto simp: follow_delivery_def on_delivered_def act)
  then show ?thesis by (intro exI conjI) (assumption | simp add: delivery_live_def)+
next
  case False
  let ?st = "if a = Delivery_failed then Failed else Withdrawn"
  have "dp_deliveries dp' = row_upd dv_id (dv_id d) (\<lambda>x. x\<lparr>dv_status := ?st, dv_finished_at := Some (ev_now env)\<rparr>) (dp_deliveries dp)"
    using f False a by (auto simp: follow_delivery_def on_order_closed_def act)
  then show ?thesis by (intro exI conjI) (assumption | simp add: delivery_live_def)+
qed

lemma follow_depart:
  assumes act: "active_delivery (ord_id o2) dp = Some d" and ty: "ord_type o2 = Delivery_type"
    and f: "follow_delivery env rq Out_for_delivery o2 z dp = (o3, dp')"
  shows "\<exists>g. dp_deliveries dp' = row_upd dv_id (dv_id d) g (dp_deliveries dp) \<and> dv_status (g d) = En_route
    \<and> dv_id (g d) = dv_id d \<and> dv_order_id (g d) = dv_order_id d"
proof -
  obtain rid where "dp_deliveries dp' = row_upd dv_id (dv_id d) (\<lambda>x. x\<lparr>dv_status := En_route, dv_departed_at := Some (ev_now env),
                   dv_run_id := Some rid\<rparr>) (dp_deliveries dp)"
    using f ty by (cases "current_run (dv_driver_id d) dp") (auto simp: follow_delivery_def on_departure_def act Let_def)
  then show ?thesis by (intro exI conjI) (assumption | simp)+
qed

lemma internal_targets:
  assumes "is_graph_transition p rq" and "assignable_status p"
  shows "rq_status rq \<in> {Out_for_delivery, Delivered, Cancelled} \<or> assignable_status (rq_status rq)"
  using assms by (cases p) (auto simp: is_graph_transition_def assignable_status_def)

lemma actual_cases: "actual_status st sh = st \<or> (st = Confirmed \<and> actual_status st sh = Queued)"
  by (auto simp: actual_status_def split: option.splits)

lemma update_status_coherent:
  assumes co: "shop_coherent sh" and u: "update_status env oid rq sh = Inr sh'" and int: "rq_authority rq = Internal"
  shows "shop_coherent sh'"
proof -
  obtain o1 sh1 low where o1: "order_of oid sh = Some o1" "ord_id o1 = oid" and g: "status_guards rq o1 sh = Inr ()"
    and c: "commit_transition env rq o1 sh = Inr (sh1, low)"
    and sh': "sh' = after_commit env rq o1 (actual_status (rq_status rq) sh) low sh1"
    using u by (rule update_statusE)
  define a where "a = actual_status (rq_status rq) sh"
  obtain o3 dp where f: "follow_delivery env rq a (o1\<lparr>ord_status := a\<rparr>) (sh_zones sh) (sh_dispatch sh) = (o3, dp)"
    by fastforce
  note parts = commit_parts [OF c a_def f]
  have o3: "ord_id o3 = oid" "ord_type o3 = ord_type o1" "ord_status o3 = a"
    using follow_core [OF f] o1(2) by (simp_all add: core_def)
  have v: "view k (sh_orders sh1) = (if k = oid then Some (ord_type o1, a) else view k (sh_orders sh))" for k
    using view_upd_const [OF o3(1) o1(1)] o3(2,3) o1(2) by (simp add: parts(1))
  have v0: "view oid (sh_orders sh) = Some (ord_type o1, ord_status o1)" by (rule view_order [OF o1(1)])
  have graph: "is_graph_transition (ord_status o1) rq" by (rule guards_graph(1) [OF g int])
  have oid2: "ord_id (o1\<lparr>ord_status := a\<rparr>) = oid" by (simp add: o1(2))
  have "coherent (sh_orders sh1) (dp_deliveries dp)"
  proof (cases "active_delivery oid (sh_dispatch sh)")
    case None
    then have "dp_deliveries dp = dp_deliveries (sh_dispatch sh)" using follow_none [OF _ f] oid2 by simp
    then show ?thesis using coherent_idle [OF co] None v by (auto simp: active_None_iff)
  next
    case (Some d)
    note d = active_SomeD [OF Some]
    obtain st where st: "ord_type o1 = Delivery_type" "ord_status o1 = st" "follows (dv_status d) st"
      using co d v0 unfolding coherent_def by fastforce
    have upd: "coherent (sh_orders sh1) (row_upd dv_id (dv_id d) h (dp_deliveries (sh_dispatch sh)))"
      if "dv_id (h d) = dv_id d" "dv_order_id (h d) = dv_order_id d"
        "delivery_live (h d) \<Longrightarrow> a = Out_for_delivery \<and> dv_status (h d) = En_route" for h
      using that d v st(1) by (intro coherent_update [OF co]) auto
    consider "a \<in> {Delivered, Cancelled, Rejected, Delivery_failed}" | "a = Out_for_delivery"
      | "a \<notin> {Out_for_delivery, Delivered, Cancelled, Rejected, Delivery_failed}" by blast
    then show ?thesis
    proof cases
      case 1
      obtain h where h: "dp_deliveries dp = row_upd dv_id (dv_id d) h (dp_deliveries (sh_dispatch sh))" "\<not> delivery_live (h d)"
          "dv_id (h d) = dv_id d" "dv_order_id (h d) = dv_order_id d"
        using follow_close [OF _ 1 f] Some oid2 by auto
      show ?thesis unfolding h(1) by (rule upd) (use h in auto)
    next
      case 2
      obtain h where "dp_deliveries dp = row_upd dv_id (dv_id d) h (dp_deliveries (sh_dispatch sh))" "dv_status (h d) = En_route"
          "dv_id (h d) = dv_id d" "dv_order_id (h d) = dv_order_id d"
        using follow_depart [OF _ _ f [unfolded 2]] Some oid2 st(1) by auto
      then show ?thesis using upd 2 by simp
    next
      case 3
      then have same: "dp = sh_dispatch sh" using follow_stay [OF 3 f] by simp
      have ne: "ord_status o1 \<noteq> Out_for_delivery"
        using graph 3 actual_cases [of "rq_status rq" sh] by (auto simp: is_graph_transition_def a_def)
      have "assignable_status a" if "assignable_status (ord_status o1)"
        using internal_targets [OF graph that] 3 actual_cases [of "rq_status rq" sh]
        by (auto simp: a_def assignable_status_def)
      then show ?thesis unfolding same using v v0 ne by (intro coherent_move [OF co, where oid = oid]) auto
    qed
  qed
  moreover have "view k (sh_orders sh') = view k (sh_orders sh1)" for k
    by (rule view_core) (simp add: sh' after_commit_frame)
  ultimately show ?thesis
    using coherent_view [of "sh_orders sh'" "sh_orders sh1"] by (simp add: sh' after_commit_frame parts(2))
qed

subsection \<open>Preparation\<close>

lemma add_history_frame [simp]:
  "sh_orders (add_history oid st n auth sh) = sh_orders sh"
  "sh_dispatch (add_history oid st n auth sh) = sh_dispatch sh"
  "sh_items (add_history oid st n auth sh) = sh_items sh"
  "sh_stock (add_history oid st n auth sh) = sh_stock sh"
  by (simp_all add: add_history_def)

lemma notify_preparation_frame [simp]:
  "sh_orders (notify_preparation o1 ch sh) = sh_orders sh"
  "sh_dispatch (notify_preparation o1 ch sh) = sh_dispatch sh"
  "sh_items (notify_preparation o1 ch sh) = sh_items sh"
  "sh_history (notify_preparation o1 ch sh) = sh_history sh"
  by (simp_all add: notify_preparation_def)

lemma item_preparation_frame:
  assumes "update_item_preparation oid iid status n actor now sh = Inr sh'"
  shows "sh_orders sh' = sh_orders sh" "sh_dispatch sh' = sh_dispatch sh"
  using assms by (auto simp: update_item_preparation_def Let_def split: option.splits if_splits)

lemma outcome_cases:
  "station_outcome prev st n ps = Some (new, m) \<Longrightarrow> (prev = Preparing \<and> new = Ready) \<or> (prev = Ready \<and> new = Preparing)"
  by (auto simp: station_outcome_def split: if_splits)

text \<open>What a station update does to orders and deliveries.\<close>

lemma station_preparation_orders:
  assumes "update_station_preparation oid stn status n actor now sh = Inr sh'"
  obtains (same) "sh_orders sh' = sh_orders sh" "sh_dispatch sh' = sh_dispatch sh" "sh_history sh' = sh_history sh"
  | (moved) o1 new m where "order_of oid sh = Some o1" "sh_dispatch sh' = sh_dispatch sh"
      "sh_orders sh' = row_upd ord_id oid (\<lambda>x. x\<lparr>ord_status := new\<rparr>) (sh_orders sh)"
      "(ord_status o1 = Preparing \<and> new = Ready) \<or> (ord_status o1 = Ready \<and> new = Preparing)"
      "sh_history sh' = sh_history sh @ [\<lparr>hist_order_id = oid, hist_status = new, hist_note = m, hist_authority = Internal\<rparr>]"
proof -
  obtain st where st: "prep_of_text status = Some st"
    using assms by (cases "prep_of_text status") (auto simp: update_station_preparation_def)
  obtain o1 where o1: "order_of oid sh = Some o1"
    using assms st by (cases "order_of oid sh") (auto simp: update_station_preparation_def)
  define sh1 where "sh1 = sh\<lparr>sh_items := map (\<lambda>it. if at_station oid stn it
                             then apply_preparation_status st actor now it else it) (sh_items sh)\<rparr>"
  have "sh' = sh \<or> sh' = (case station_outcome (ord_status o1) st n (prepared_lines oid sh1) of
                           None \<Rightarrow> notify_preparation o1 None sh1
                         | Some (new, global_note) \<Rightarrow>
                             notify_preparation o1 (Some new)
                               (add_history oid new global_note Internal
                                  (upd_order oid (\<lambda>x. x\<lparr>ord_status := new\<rparr>) sh1)))"
    using assms unfolding update_station_preparation_def st o1 option.case Let_def sh1_def [symmetric]
    by (auto split: if_splits)
  then show ?thesis
  proof
    assume "sh' = sh"
    then show ?thesis using same by simp
  next
    assume e: "sh' = (case station_outcome (ord_status o1) st n (prepared_lines oid sh1) of
                           None \<Rightarrow> notify_preparation o1 None sh1
                         | Some (new, global_note) \<Rightarrow>
                             notify_preparation o1 (Some new)
                               (add_history oid new global_note Internal
                                  (upd_order oid (\<lambda>x. x\<lparr>ord_status := new\<rparr>) sh1)))"
    show ?thesis
    proof (cases "station_outcome (ord_status o1) st n (prepared_lines oid sh1)")
      case None
      then show ?thesis using e same by (simp add: sh1_def)
    next
      case (Some nm)
      obtain new m where nm: "nm = (new, m)" by fastforce
      show ?thesis
        using e moved [OF o1, of new m] outcome_cases [OF Some [unfolded nm]] unfolding Some nm
        by (simp add: sh1_def add_history_def)
    qed
  qed
qed

lemma station_coherent:
  assumes co: "shop_coherent sh" and u: "update_station_preparation oid stn status n actor now sh = Inr sh'"
  shows "shop_coherent sh'"
  using u
proof (cases rule: station_preparation_orders)
  case same
  then show ?thesis using co by simp
next
  case (moved o1 new m)
  have v: "view k (sh_orders sh') = (if k = oid then Some (ord_type o1, new) else view k (sh_orders sh))" for k
    using moved(1) by (simp add: moved(3) view_def row_get_upd)
  show ?thesis
    unfolding moved(2)
    by (rule coherent_move [OF co, where oid = oid])
       (use v view_order [OF moved(1)] moved(4) in \<open>auto simp: assignable_status_def\<close>)
qed

subsection \<open>Dispatch\<close>

definition next_key :: "int \<Rightarrow> shop \<Rightarrow> bool" where
  "next_key nid sh \<longleftrightarrow> (\<forall>d \<in> set (dp_deliveries (sh_dispatch sh)). dv_id d < nid)"

lemma create_coherent:
  assumes co: "shop_coherent sh" and k: "next_key nid sh" and o1: "order_of oid sh = Some o1"
    and ok: "ord_type o1 = Delivery_type" "assignable_status (ord_status o1)" "active_delivery oid (sh_dispatch sh) = None"
  shows "shop_coherent (create_delivery (new_delivery nid oid drv user now) ev user sh)
    \<and> next_key (nid + 1) (create_delivery (new_delivery nid oid drv user now) ev user sh)"
proof
  show "shop_coherent (create_delivery (new_delivery nid oid drv user now) ev user sh)"
    using ok k view_order [OF o1] unfolding active_None_iff
    by (auto simp: create_delivery_def new_delivery_def next_key_def intro!: coherent_new [OF co])
qed (use k in \<open>auto simp: next_key_def create_delivery_def new_delivery_def\<close>)

lemma reassign_coherent:
  assumes co: "shop_coherent sh" and d: "d \<in> set (dp_deliveries (sh_dispatch sh))" "delivery_live d"
  shows "coherent (sh_orders sh) (row_upd dv_id (dv_id d)
    (\<lambda>x. x\<lparr>dv_driver_id := k, dv_assigned_by := u, dv_assigned_at := t\<rparr>) (dp_deliveries (sh_dispatch sh)))"
proof (rule coherent_update [OF co d])
  show "\<exists>st. view (dv_order_id d) (sh_orders sh) = Some (Delivery_type, st)
      \<and> follows (dv_status (d\<lparr>dv_driver_id := k, dv_assigned_by := u, dv_assigned_at := t\<rparr>)) st"
    using co d unfolding coherent_def by simp
qed simp_all

lemma next_key_upd:
  assumes "next_key nid sh" and "\<And>x. dv_id (f x) = dv_id x"
    and "dp_deliveries (sh_dispatch sh') = row_upd dv_id k f (dp_deliveries (sh_dispatch sh))"
  shows "next_key nid sh'"
  using assms by (auto simp: next_key_def row_upd_def)

lemma assign_one_coherent:
  assumes co: "shop_coherent sh" and k: "next_key nid sh" and a: "assign_one nid drv user now oid sh = Inr sh'"
  shows "shop_coherent sh' \<and> next_key (nid + 1) sh'"
proof -
  obtain o1 where o1: "order_of oid sh = Some o1"
    using a by (cases "order_of oid sh") (auto simp: assign_one_def)
  have k1: "next_key (nid + 1) sh" using k by (force simp: next_key_def)
  show ?thesis
  proof (cases "active_delivery oid (sh_dispatch sh)")
    case None
    then show ?thesis
      using a create_coherent [OF co k o1] by (auto simp: assign_one_def o1 Let_def split: if_splits)
  next
    case (Some d)
    note d = active_SomeD [OF Some]
    let ?ds = "row_upd dv_id (dv_id d) (\<lambda>x. x\<lparr>dv_driver_id := drv_id drv, dv_assigned_by := Some user,
                            dv_assigned_at := now\<rparr>) (dp_deliveries (sh_dispatch sh))"
    have "sh' = sh \<or> (sh_orders sh' = sh_orders sh \<and> dp_deliveries (sh_dispatch sh') = ?ds)"
      using a by (auto simp: assign_one_def o1 Some Let_def split: if_splits)
    then show ?thesis
    proof
      assume "sh' = sh"
      then show ?thesis using co k1 by simp
    next
      assume r: "sh_orders sh' = sh_orders sh \<and> dp_deliveries (sh_dispatch sh') = ?ds"
      have "next_key (nid + 1) sh'" by (rule next_key_upd [OF k1 _ conjunct2 [OF r]]) simp
      then show ?thesis using reassign_coherent [OF co] d r by simp
    qed
  qed
qed

lemma assign_loop_coherent:
  "shop_coherent sh \<Longrightarrow> next_key nid sh \<Longrightarrow> assign_loop nid drv user now oids sh = Inr sh' \<Longrightarrow> shop_coherent sh'"
proof (induction oids arbitrary: nid sh)
  case (Cons oid oids)
  obtain sh1 where s1: "assign_one nid drv user now oid sh = Inr sh1"
    and l: "assign_loop (nid + 1) drv user now oids sh1 = Inr sh'" using Cons.prems(3) by auto
  show ?case using Cons.IH [OF _ _ l] assign_one_coherent [OF Cons.prems(1,2) s1] by simp
qed simp

lemma claim_one_coherent:
  assumes co: "shop_coherent sh" and k: "next_key nid sh" and a: "claim_one nid drv user now oid sh = Inr sh'"
  shows "shop_coherent sh' \<and> next_key (nid + 1) sh'"
proof -
  obtain o1 where o1: "order_of oid sh = Some o1"
    using a by (cases "order_of oid sh") (auto simp: claim_one_def)
  then show ?thesis using a create_coherent [OF co k o1] by (auto simp: claim_one_def o1 split: if_splits)
qed

lemma claim_loop_coherent:
  "shop_coherent sh \<Longrightarrow> next_key nid sh \<Longrightarrow> claim_loop nid drv user now oids sh = Inr sh' \<Longrightarrow> shop_coherent sh'"
proof (induction oids arbitrary: nid sh)
  case (Cons oid oids)
  obtain sh1 where s1: "claim_one nid drv user now oid sh = Inr sh1"
    and l: "claim_loop (nid + 1) drv user now oids sh1 = Inr sh'" using Cons.prems(3) by auto
  show ?case using Cons.IH [OF _ _ l] claim_one_coherent [OF Cons.prems(1,2) s1] by simp
qed simp

lemma withdraw_coherent:
  assumes "shop_coherent sh" and "d \<in> set (dp_deliveries (sh_dispatch sh))" and "delivery_live d"
  shows "shop_coherent (withdraw d ev user now sh)"
  using assms by (auto simp: withdraw_def delivery_live_def intro!: coherent_update [OF assms])

lemma own_SomeD: "own_delivery drv did sh = Inr d \<Longrightarrow> d \<in> set (dp_deliveries (sh_dispatch sh)) \<and> dv_id d = did \<and> dv_driver_id d = drv_id drv"
  by (auto simp: own_delivery_def split: option.splits if_splits dest: row_get_SomeD)

lemma arrived_coherent:
  assumes co: "shop_coherent sh" and a: "driver_arrived drv did user now sh = Inr sh'"
  shows "shop_coherent sh'"
proof -
  obtain d where d: "own_delivery drv did sh = Inr d" using a by (auto simp: driver_arrived_def)
  note m = own_SomeD [OF d]
  let ?ds = "row_upd dv_id (dv_id d) (\<lambda>x. x\<lparr>dv_status := Arrived, dv_arrived_at := Some now\<rparr>) (dp_deliveries (sh_dispatch sh))"
  have "sh' = sh \<or> (dv_status d = En_route \<and> sh_orders sh' = sh_orders sh \<and> dp_deliveries (sh_dispatch sh') = ?ds)"
    using a m by (auto simp: driver_arrived_def d Let_def split: if_splits option.splits)
  moreover have "coherent (sh_orders sh) ?ds" if "dv_status d = En_route"
  proof (rule coherent_update [OF co])
    show "d \<in> set (dp_deliveries (sh_dispatch sh))" using m by simp
    show live: "delivery_live d" using that by (simp add: delivery_live_def)
    show "\<exists>st. view (dv_order_id d) (sh_orders sh) = Some (Delivery_type, st)
        \<and> follows (dv_status (d\<lparr>dv_status := Arrived, dv_arrived_at := Some now\<rparr>)) st"
      using co m live that unfolding coherent_def by fastforce
  qed simp_all
  ultimately show ?thesis using co by auto
qed

lemma depart_loop_coherent:
  "shop_coherent sh \<Longrightarrow> depart_loop envs user oids sh = (sh', r) \<Longrightarrow> shop_coherent sh'"
proof (induction oids arbitrary: sh)
  case (Cons oid oids)
  show ?case
  proof (cases "update_status (envs oid) oid (driver_request Out_for_delivery user None None) sh")
    case (Inl e)
    then show ?thesis using Cons.prems by simp
  next
    case (Inr sh1)
    then show ?thesis
      using Cons update_status_coherent [OF Cons.prems(1) Inr] by (simp add: driver_request_def)
  qed
qed simp

lemma check_code_frame:
  assumes "check_code env did oid user code sh = (sh1, r)"
  shows "map core (sh_orders sh1) = map core (sh_orders sh)"
    and "dp_deliveries (sh_dispatch sh1) = dp_deliveries (sh_dispatch sh)"
    and "sh_payments sh1 = sh_payments sh"
    and "sh_zones sh1 = sh_zones sh"
proof -
  have v: "map core os = map core (sh_orders sh) \<and> dp_deliveries dp = dp_deliveries (sh_dispatch sh)"
    if "verify_code dv nn did oid u c (sh_orders sh) (sh_dispatch sh) = ((os, dp), q)" for dv nn u c os dp q
    using that
    by (auto simp: verify_code_def get_code_def Let_def dest: ensure_nonce_core split: if_splits sum.splits)
  show "map core (sh_orders sh1) = map core (sh_orders sh)" "dp_deliveries (sh_dispatch sh1) = dp_deliveries (sh_dispatch sh)"
    "sh_payments sh1 = sh_payments sh" "sh_zones sh1 = sh_zones sh"
    using assms by (auto simp: check_code_def dest: v split: if_splits prod.splits)
qed

lemma settle_frame:
  assumes "settle_on_delivery env pk oid ps cash user sh = (sh1, r)"
  shows "map core (sh_orders sh1) = map core (sh_orders sh)" and "sh_dispatch sh1 = sh_dispatch sh"
proof -
  have v: "map core os = map core (sh_orders sh)"
    if "settle_guarantee_cash ck nid oid amt u now (sh_orders sh, sh_payments sh) = Inr (os, pays)" for ck nid amt u now os pays
    using that by (auto simp: settle_guarantee_cash_def core_upd core_def split: option.splits if_splits)
  show "map core (sh_orders sh1) = map core (sh_orders sh)" "sh_dispatch sh1 = sh_dispatch sh"
    using assms by (auto simp: settle_on_delivery_def dest: v split: if_splits sum.splits)
qed

lemma coherent_core:
  assumes "shop_coherent sh" and "map core (sh_orders sh1) = map core (sh_orders sh)"
    and "dp_deliveries (sh_dispatch sh1) = dp_deliveries (sh_dispatch sh)"
  shows "shop_coherent sh1"
proof -
  have "coherent (sh_orders sh1) ds = coherent (sh_orders sh) ds" for ds
    by (rule coherent_view) (rule view_core [OF assms(2)])
  then show ?thesis using assms(1,3) by simp
qed

lemma deliver_coherent:
  assumes co: "shop_coherent sh" and d: "driver_deliver env pk drv did cash user code sh = (sh', r)"
  shows "shop_coherent sh'"
proof (cases "own_delivery drv did sh")
  case (Inl e)
  then show ?thesis using co d by (simp add: driver_deliver_def)
next
  case (Inr dv)
  obtain sh1 r1 where c: "check_code env did (dv_order_id dv) user code sh = (sh1, r1)" by fastforce
  have co1: "shop_coherent sh1" by (rule coherent_core [OF co check_code_frame(1,2) [OF c]])
  have fin: "shop_coherent sh3" if "shop_coherent sh2"
    "update_status env oid (driver_request Delivered user None p) sh2 = Inr sh3" for oid p sh2 sh3
    using update_status_coherent [OF that] by (simp add: driver_request_def)
  show ?thesis
  proof (cases "order_of (dv_order_id dv) sh")
    case None
    then show ?thesis using d co unfolding driver_deliver_def Inr by (auto split: if_splits)
  next
    case (Some o1)
    obtain sh2 r2 where st: "settle_on_delivery env pk (dv_order_id dv) (ord_payment_status o1) cash user sh1 = (sh2, r2)"
      by fastforce
    have co2: "shop_coherent sh2"
      by (rule coherent_core [OF co1 settle_frame(1) [OF st]]) (simp add: settle_frame(2) [OF st])
    have "sh' = sh \<or> sh' = sh1 \<or> sh' = sh2
        \<or> (\<exists>p. update_status env (dv_order_id dv) (driver_request Delivered user None p) sh2 = Inr sh')"
      using d unfolding driver_deliver_def Inr sum.case Some option.case c prod.case
      by (cases r1; cases r2) (auto simp: st split: if_splits sum.splits)
    then show ?thesis using co co1 co2 fin by auto
  qed
qed

subsection \<open>All operations of the shop\<close>

text \<open>The operations that staff, customers and drivers trigger; a point-of-sale system imposing a status
  (authority \<open>External\<close>) is not among them.\<close>

inductive shop_step :: "shop \<Rightarrow> shop \<Rightarrow> bool" where
  sstep_status: "rq_authority rq = Internal \<Longrightarrow> update_status env oid rq sh = Inr sh' \<Longrightarrow> shop_step sh sh'"
| sstep_cancel: "cancel_my_order env oid uid sh = Inr sh' \<Longrightarrow> shop_step sh sh'"
| sstep_item: "update_item_preparation oid iid status n actor now sh = Inr sh' \<Longrightarrow> shop_step sh sh'"
| sstep_station: "update_station_preparation oid stn status n actor' now sh = Inr sh' \<Longrightarrow> shop_step sh sh'"
| sstep_assign: "next_key nid sh \<Longrightarrow> assign nid oids drvid user now sh = Inr sh' \<Longrightarrow> shop_step sh sh'"
| sstep_unassign: "unassign oid user now sh = Inr sh' \<Longrightarrow> shop_step sh sh'"
| sstep_claim: "next_key nid sh \<Longrightarrow> claim nid drv oids user now sh = Inr sh' \<Longrightarrow> shop_step sh sh'"
| sstep_release: "release drv did user now sh = Inr sh' \<Longrightarrow> shop_step sh sh'"
| sstep_depart: "driver_depart envs drv dids user sh = (sh', r) \<Longrightarrow> shop_step sh sh'"
| sstep_arrived: "driver_arrived drv did user now sh = Inr sh' \<Longrightarrow> shop_step sh sh'"
| sstep_deliver: "driver_deliver env pk drv did cash user code sh = (sh', r) \<Longrightarrow> shop_step sh sh'"
| sstep_admin: "admin_deliver_without_code env oid reason user sh = Inr sh' \<Longrightarrow> shop_step sh sh'"
| sstep_failure: "report_failure env drv did fr n calls user sh = Inr sh' \<Longrightarrow> shop_step sh sh'"

lemma cancel_internal:
  assumes "cancel_my_order env oid uid sh = Inr sh'"
  shows "\<exists>rq. rq_authority rq = Internal \<and> update_status env oid rq sh = Inr sh'"
proof -
  let ?rq = "\<lparr>rq_status = Cancelled, rq_note = Some ''Cancelled by customer'', rq_actor = Some uid,
                  rq_authority = Internal, rq_proof = None, rq_redelivery = False\<rparr>"
  have "update_status env oid ?rq sh = Inr sh'"
    using assms by (auto simp: cancel_my_order_def split: option.splits if_splits)
  then show ?thesis by (intro exI [of _ ?rq]) simp
qed

lemma shop_step_coherent:
  assumes "shop_step sh sh'" and co: "shop_coherent sh"
  shows "shop_coherent sh'"
  using assms(1)
proof cases
  case (sstep_status rq env oid)
  show ?thesis by (rule update_status_coherent [OF co sstep_status(2,1)])
next
  case (sstep_cancel env oid uid)
  then show ?thesis using cancel_internal update_status_coherent [OF co] by blast
next
  case sstep_item
  show ?thesis using co by (simp add: item_preparation_frame [OF sstep_item])
next
  case sstep_station
  show ?thesis by (rule station_coherent [OF co sstep_station])
next
  case (sstep_assign nid oids drvid user now)
  then show ?thesis using assign_loop_coherent [OF co] by (auto simp: assign_def split: option.splits if_splits)
next
  case (sstep_unassign oid user now)
  then show ?thesis
    using withdraw_coherent [OF co] by (auto simp: unassign_def dest!: active_SomeD split: option.splits if_splits)
next
  case (sstep_claim nid drv oids user now)
  then show ?thesis
    using claim_loop_coherent [OF co] by (auto simp: claim_def Let_def split: option.splits if_splits)
next
  case (sstep_release drv did user now)
  then show ?thesis
    using withdraw_coherent [OF co] by (auto simp: release_def delivery_live_def dest!: own_SomeD split: if_splits)
next
  case (sstep_depart envs drv dids user r)
  then show ?thesis
    using co depart_loop_coherent [OF co] by (auto simp: driver_depart_def split: sum.splits)
next
  case sstep_arrived
  show ?thesis by (rule arrived_coherent [OF co sstep_arrived])
next
  case sstep_deliver
  show ?thesis by (rule deliver_coherent [OF co sstep_deliver])
next
  case (sstep_admin env oid reason user)
  obtain d where u: "update_status env oid (driver_request Delivered user (Some (''Livraison sans code : '' @ py_strip reason))
      (Some ''admin_override'')) (on_dispatch (add_event (Some d) oid ''delivered_without_code'' (Some user) (Some (Free_note (py_strip reason)))) sh) = Inr sh'"
    using sstep_admin by (auto simp: admin_deliver_without_code_def Let_def split: option.splits if_splits)
  show ?thesis by (rule update_status_coherent [OF _ u]) (use co in \<open>simp_all add: driver_request_def\<close>)
next
  case (sstep_failure env drv did fr n calls user)
  then obtain oid fs label where u: "update_status env oid (driver_request Delivery_failed user (Some label) None)
      (sh\<lparr>sh_dispatch := (sh_dispatch sh)\<lparr>dp_failures := fs\<rparr>\<rparr>) = Inr sh'"
    by (auto simp: report_failure_def Let_def split: if_splits)
  show ?thesis by (rule update_status_coherent [OF _ u]) (use co in \<open>simp_all add: driver_request_def\<close>)
qed

interpretation shop_inv: invariant_steps shop_step shop_coherent
  by unfold_locales (rule shop_step_coherent)

end
