(* ===== verification/Orders_Life.thy ===== *)
theory Orders_Life
  imports Orders_Coherence
begin

text \<open>
  The life of one order and its audit trail. Every operation of the shop is a sequence of small steps: a status
  change, a station update, a line update, or a quiet step that touches neither the orders' statuses nor the
  history. The abstract life cycle \<open>life\<close> is then refined by the whole shop, and the history always ends with the
  current status.
\<close>

definition quiet :: "shop \<Rightarrow> shop \<Rightarrow> bool" where
  "quiet sh sh' \<longleftrightarrow> map core (sh_orders sh') = map core (sh_orders sh) \<and> sh_history sh' = sh_history sh
     \<and> sh_stock sh' = sh_stock sh \<and> sh_items sh' = sh_items sh"

inductive micro :: "shop \<Rightarrow> shop \<Rightarrow> bool" where
  micro_status: "rq_authority rq = Internal \<Longrightarrow> update_status env oid rq sh = Inr sh' \<Longrightarrow> micro sh sh'"
| micro_item: "update_item_preparation oid iid status n actor now sh = Inr sh' \<Longrightarrow> micro sh sh'"
| micro_station: "update_station_preparation oid stn status n actor' now sh = Inr sh' \<Longrightarrow> micro sh sh'"
| micro_quiet: "quiet sh sh' \<Longrightarrow> micro sh sh'"

lemma quiet_refl [simp]: "quiet sh sh" by (simp add: quiet_def)

lemma quiet_trans: "quiet a b \<Longrightarrow> quiet b c \<Longrightarrow> quiet a c" by (simp add: quiet_def)

lemma quiet_on_dispatch [simp]: "quiet sh (sh\<lparr>sh_dispatch := dp\<rparr>)" by (simp add: quiet_def)

lemma quiet_run: "quiet sh sh' \<Longrightarrow> micro\<^sup>*\<^sup>* sh sh'"
  using micro_quiet by blast

lemma quiet_then_status:
  assumes "quiet sh sh1" and "update_status env oid (driver_request st user n p) sh1 = Inr sh'"
  shows "micro\<^sup>*\<^sup>* sh sh'"
proof -
  have "micro sh1 sh'" by (rule micro_status [OF _ assms(2)]) (simp add: driver_request_def)
  then show ?thesis using quiet_run [OF assms(1)] by (rule rtranclp.rtrancl_into_rtrancl [rotated])
qed

lemma assign_quiet:
  assumes "assign_one nid drv user now oid sh = Inr sh'"
  shows "quiet sh sh'"
  using assms by (auto simp: assign_one_def create_delivery_def Let_def split: option.splits if_splits)

lemma assign_loop_quiet: "assign_loop nid drv user now oids sh = Inr sh' \<Longrightarrow> quiet sh sh'"
  by (induction oids arbitrary: nid sh) (auto dest: assign_quiet intro: quiet_trans)

lemma claim_loop_quiet: "claim_loop nid drv user now oids sh = Inr sh' \<Longrightarrow> quiet sh sh'"
proof (induction oids arbitrary: nid sh)
  case (Cons oid oids)
  obtain sh1 where c: "claim_one nid drv user now oid sh = Inr sh1"
    and l: "claim_loop (nid + 1) drv user now oids sh1 = Inr sh'" using Cons.prems by auto
  have "quiet sh sh1" using c by (auto simp: claim_one_def create_delivery_def split: option.splits if_splits)
  then show ?case using Cons.IH [OF l] by (rule quiet_trans)
qed simp

lemma depart_loop_micro: "depart_loop envs user oids sh = (sh', r) \<Longrightarrow> micro\<^sup>*\<^sup>* sh sh'"
proof (induction oids arbitrary: sh)
  case (Cons oid oids)
  show ?case
  proof (cases "update_status (envs oid) oid (driver_request Out_for_delivery user None None) sh")
    case (Inl e)
    then show ?thesis using Cons.prems by simp
  next
    case (Inr sh1)
    then show ?thesis using Cons quiet_then_status [OF quiet_refl Inr] by (simp add: rtranclp_trans)
  qed
qed simp

lemma check_code_quiet: "check_code env did oid user code sh = (sh1, r) \<Longrightarrow> quiet sh sh1"
  using check_code_frame(1) [of env did oid user code sh sh1 r]
  by (auto simp: quiet_def check_code_def split: if_splits prod.splits)

lemma settle_quiet: "settle_on_delivery env pk oid ps cash user sh = (sh1, r) \<Longrightarrow> quiet sh sh1"
  using settle_frame(1) [of env pk oid ps cash user sh sh1 r]
  by (auto simp: quiet_def settle_on_delivery_def split: if_splits sum.splits)

text \<open>The possible ends of a hand-over.\<close>

lemma deliver_cases:
  assumes "driver_deliver env pk drv did cash user code sh = (sh', r)"
  obtains (refused) e where "sh' = sh" "r = Inl e"
  | (checked) d o1 sh1 r1 sh2 r2 where "own_delivery drv did sh = Inr d" "order_of (dv_order_id d) sh = Some o1"
      "dv_status d = En_route \<or> dv_status d = Arrived"
      "check_code env did (dv_order_id d) user code sh = (sh1, r1)"
      "settle_on_delivery env pk (dv_order_id d) (ord_payment_status o1) cash user sh1 = (sh2, r2)"
      "(\<exists>e. r1 = Inl e \<and> sh' = sh1 \<and> r = Inl e)
       \<or> (\<exists>p. r1 = Inr p \<and> (\<exists>e. sh' = sh2 \<and> r = Inl e))
       \<or> (\<exists>p. r1 = Inr p \<and> r2 = Inr Paid \<and> r = Inr ()
            \<and> update_status env (dv_order_id d) (driver_request Delivered user None (Some p)) sh2 = Inr sh')"
proof (cases "own_delivery drv did sh")
  case (Inl e)
  then show ?thesis using assms refused by (auto simp: driver_deliver_def)
next
  case (Inr d)
  show ?thesis
  proof (cases "(dv_status d = En_route \<or> dv_status d = Arrived) \<and> order_of (dv_order_id d) sh \<noteq> None")
    case False
    then show ?thesis using assms refused unfolding driver_deliver_def Inr by (auto split: if_splits)
  next
    case True
    then obtain o1 where o1: "order_of (dv_order_id d) sh = Some o1" by blast
    obtain sh1 r1 where c: "check_code env did (dv_order_id d) user code sh = (sh1, r1)" by fastforce
    obtain sh2 r2 where st: "settle_on_delivery env pk (dv_order_id d) (ord_payment_status o1) cash user sh1 = (sh2, r2)"
      by fastforce
    show ?thesis
      by (rule checked [OF Inr o1 _ c st])
         (use assms True in \<open>auto simp: driver_deliver_def Inr o1 c st split: if_splits sum.splits\<close>)
  qed
qed

lemma shop_step_micro:
  assumes "shop_step sh sh'"
  shows "micro\<^sup>*\<^sup>* sh sh'"
  using assms
proof cases
  case (sstep_status rq env oid)
  then show ?thesis using micro_status by blast
next
  case (sstep_cancel env oid uid)
  then show ?thesis using cancel_internal micro_status by blast
next
  case sstep_item
  then show ?thesis using micro_item by blast
next
  case sstep_station
  then show ?thesis using micro_station by blast
next
  case (sstep_assign nid oids drvid user now)
  then show ?thesis
    using quiet_run assign_loop_quiet by (auto simp: assign_def split: option.splits if_splits)
next
  case (sstep_unassign oid user now)
  then show ?thesis
    using quiet_run by (auto simp: unassign_def withdraw_def split: option.splits if_splits)
next
  case (sstep_claim nid drv oids user now)
  then show ?thesis
    using quiet_run claim_loop_quiet by (auto simp: claim_def Let_def split: option.splits if_splits)
next
  case (sstep_release drv did user now)
  then show ?thesis using quiet_run by (auto simp: release_def withdraw_def split: if_splits)
next
  case (sstep_depart envs drv dids user r)
  then show ?thesis using depart_loop_micro by (auto simp: driver_depart_def split: sum.splits)
next
  case (sstep_arrived drv did user now)
  then have "quiet sh sh'"
    by (auto simp: driver_arrived_def quiet_def Let_def split: if_splits option.splits)
  then show ?thesis by (rule quiet_run)
next
  case (sstep_deliver env pk drv did cash user code r)
  then show ?thesis
  proof (cases rule: deliver_cases)
    case refused
    then show ?thesis by simp
  next
    case (checked d o1 sh1 r1 sh2 r2)
    have "quiet sh sh1" "quiet sh sh2"
      using check_code_quiet [OF checked(4)] settle_quiet [OF checked(5)] quiet_trans by blast+
    then show ?thesis using checked(6) quiet_run quiet_then_status by blast
  qed
next
  case (sstep_admin env oid reason user)
  obtain d where u: "update_status env oid (driver_request Delivered user (Some (''Livraison sans code : '' @ py_strip reason))
      (Some ''admin_override'')) (on_dispatch (add_event (Some d) oid ''delivered_without_code'' (Some user) (Some (Free_note (py_strip reason)))) sh) = Inr sh'"
    using sstep_admin by (auto simp: admin_deliver_without_code_def Let_def split: option.splits if_splits)
  show ?thesis by (rule quiet_then_status [OF quiet_on_dispatch u])
next
  case (sstep_failure env drv did fr n calls user)
  then obtain oid fs label where u: "update_status env oid (driver_request Delivery_failed user (Some label) None)
      (on_dispatch (\<lambda>dp. dp\<lparr>dp_failures := fs\<rparr>) sh) = Inr sh'"
    by (auto simp: report_failure_def Let_def split: if_splits)
  show ?thesis by (rule quiet_then_status [OF quiet_on_dispatch u])
qed

subsection \<open>The abstract life cycle\<close>

text \<open>What a customer is told: an order is accepted, prepared, handed over or given up.\<close>

inductive life :: "order_status \<Rightarrow> order_status \<Rightarrow> bool" where
  accept: "life Pending Confirmed"
| wait: "life Pending Queued"
| reject: "life Pending Rejected"
| dequeue: "life Queued Confirmed"
| start: "life Confirmed Preparing"
| finish: "life Preparing Ready"
| reopen: "life Ready Preparing"
| leave: "life Ready Out_for_delivery"
| hand_over: "s = Ready \<or> s = Out_for_delivery \<Longrightarrow> life s Delivered"
| give_up: "s \<in> {Pending, Queued, Confirmed, Preparing, Out_for_delivery} \<Longrightarrow> life s Cancelled"
| fail: "life Out_for_delivery Delivery_failed"
| redeliver: "life Delivery_failed Ready"

inductive_cases life_from_delivered: "life Delivered st"
inductive_cases life_from_cancelled: "life Cancelled st"
inductive_cases life_from_rejected: "life Rejected st"

definition status_of :: "int \<Rightarrow> shop \<Rightarrow> order_status option" where
  "status_of k sh = map_option ord_status (order_of k sh)"

inductive olife :: "order_status option \<Rightarrow> order_status option \<Rightarrow> bool" where
  some: "life s s' \<Longrightarrow> olife (Some s) (Some s')"

lemma status_core:
  assumes "map core os = map core os'"
  shows "map_option ord_status (row_get ord_id k os) = map_option ord_status (row_get ord_id k os')"
proof -
  have "map_option (\<lambda>c. fst (snd c)) (map_option core (row_get ord_id k os)) =
      map_option (\<lambda>c. fst (snd c)) (map_option core (row_get ord_id k os'))"
    using row_get_map_core [OF assms] by simp
  then show ?thesis by (simp add: option.map_comp comp_def core_def)
qed

text \<open>The status an order has after \<open>update_status\<close>, and the row it leaves in the history.\<close>

lemma update_status_result:
  assumes u: "update_status env oid rq sh = Inr sh'"
  obtains o1 where "order_of oid sh = Some o1" "status_guards rq o1 sh = Inr ()"
    "\<And>k. status_of k sh' = (if k = oid then Some (actual_status (rq_status rq) sh) else status_of k sh)"
    "sh_history sh' = sh_history sh @ [\<lparr>hist_order_id = oid, hist_status = actual_status (rq_status rq) sh,
       hist_note = rq_note rq, hist_authority = rq_authority rq\<rparr>]"
proof -
  obtain o1 sh1 low where o1: "order_of oid sh = Some o1" "ord_id o1 = oid" and g: "status_guards rq o1 sh = Inr ()"
    and c: "commit_transition env rq o1 sh = Inr (sh1, low)"
    and sh': "sh' = after_commit env rq o1 (actual_status (rq_status rq) sh) low sh1"
    using u by (rule update_statusE)
  define a where "a = actual_status (rq_status rq) sh"
  obtain o3 dp where f: "follow_delivery env rq a (o1\<lparr>ord_status := a\<rparr>) (sh_zones sh) (sh_dispatch sh) = (o3, dp)"
    by fastforce
  note parts = commit_parts [OF c a_def f]
  have o3: "ord_id o3 = oid" "ord_status o3 = a" using follow_core [OF f] o1(2) by (simp_all add: core_def)
  have "status_of k sh' = map_option ord_status (row_get ord_id k (sh_orders sh1))" for k
    unfolding status_of_def by (rule status_core) (simp add: sh' after_commit_frame)
  then have "status_of k sh' = (if k = oid then Some a else status_of k sh)" for k
    using o1 o3 by (simp add: parts(1) row_get_upd_const status_of_def)
  then show ?thesis using that [OF o1(1) g] o1(2) by (simp add: a_def sh' after_commit_frame parts(3))
qed

lemma graph_life:
  assumes "is_graph_transition p rq" and "a = actual_status (rq_status rq) sh"
  shows "a = p \<or> life p a"
proof -
  have "a = rq_status rq \<or> (rq_status rq = Confirmed \<and> a = Queued)" using assms(2) actual_cases by simp
  then show ?thesis
    using assms(1) by (cases p) (auto simp: is_graph_transition_def intro: life.intros)
qed

lemma micro_life:
  assumes "micro sh sh'"
  shows "olife\<^sup>*\<^sup>* (status_of k sh) (status_of k sh')"
  using assms
proof cases
  case (micro_status rq env oid)
  from micro_status(2) obtain o1 where o1: "order_of oid sh = Some o1" and g: "status_guards rq o1 sh = Inr ()"
    and st: "\<And>k. status_of k sh' = (if k = oid then Some (actual_status (rq_status rq) sh) else status_of k sh)"
    by (rule update_status_result) blast
  have "actual_status (rq_status rq) sh = ord_status o1 \<or> life (ord_status o1) (actual_status (rq_status rq) sh)"
    by (rule graph_life [OF guards_graph(1) [OF g micro_status(1)] refl])
  then show ?thesis using st o1 by (auto simp: status_of_def intro: olife.intros)
next
  case (micro_item oid iid status n actor now)
  then show ?thesis by (simp add: status_of_def item_preparation_frame)
next
  case (micro_station oid stn status n actor' now)
  then show ?thesis
  proof (cases rule: station_preparation_orders)
    case same
    then show ?thesis by (simp add: status_of_def)
  next
    case (moved o1 new m)
    have "status_of k sh' = (if k = oid then Some new else status_of k sh)"
      using moved(1) by (simp add: status_of_def moved(3) row_get_upd)
    moreover have "life (ord_status o1) new" using moved(4) by (auto intro: life.intros)
    ultimately show ?thesis using moved(1) by (auto simp: status_of_def intro: olife.intros)
  qed
next
  case micro_quiet
  then show ?thesis using status_core [of "sh_orders sh'" "sh_orders sh" k] by (simp add: quiet_def status_of_def)
qed

interpretation micro_refines: simulation micro "status_of k" olife for k
  by unfold_locales (rule micro_life)

interpretation shop_refines: simulation shop_step "status_of k" olife for k
  by unfold_locales (rule micro_refines.run_sim, rule shop_step_micro)

lemma olife_run: "olife\<^sup>*\<^sup>* x y \<Longrightarrow> (case x of None \<Rightarrow> y = None | Some s \<Rightarrow> \<exists>s'. y = Some s' \<and> life\<^sup>*\<^sup>* s s')"
proof (induction rule: rtranclp_induct)
  case base
  then show ?case by (cases x) auto
next
  case (step y z)
  from step.hyps(2) obtain s s' where "y = Some s" "z = Some s'" "life s s'" by (auto elim: olife.cases)
  then show ?case using step.IH by (cases x) (auto intro: rtranclp.rtrancl_into_rtrancl)
qed

lemma closed_forever:
  assumes "life\<^sup>*\<^sup>* s s'" and "s \<in> {Delivered, Cancelled, Rejected}"
  shows "s' = s"
  using assms
proof (induction rule: rtranclp_induct)
  case (step t u)
  then show ?case by (auto elim: life_from_delivered life_from_cancelled life_from_rejected)
qed simp

subsection \<open>The audit trail\<close>

text \<open>Rows written for a single line carry an \<open>item_\<close> status of their own; the others record the order.\<close>

definition order_row :: "int \<Rightarrow> status_history \<Rightarrow> bool" where
  "order_row k h \<longleftrightarrow> hist_order_id h = k \<and> (\<forall>s. hist_status h \<noteq> Other_status (''item_'' @ s))"

definition last_recorded :: "int \<Rightarrow> shop \<Rightarrow> order_status option" where
  "last_recorded k sh = (case rev (filter (order_row k) (sh_history sh)) of [] \<Rightarrow> None | h # _ \<Rightarrow> Some (hist_status h))"

definition trail_ok :: "shop \<Rightarrow> bool" where
  "trail_ok sh \<longleftrightarrow> (\<forall>k st. status_of k sh = Some st \<longrightarrow> last_recorded k sh = Some st)"

lemma last_recorded_append:
  assumes "sh_history sh' = sh_history sh @ [h]"
  shows "last_recorded k sh' = (if order_row k h then Some (hist_status h) else last_recorded k sh)"
  using assms by (simp add: last_recorded_def)

lemma internal_actual_plain:
  assumes "is_graph_transition p rq"
  shows "actual_status (rq_status rq) sh \<noteq> Other_status s"
  using assms actual_cases [of "rq_status rq" sh] by (cases p) (auto simp: is_graph_transition_def)

lemma trail_append:
  assumes "trail_ok sh" and "sh_history sh' = sh_history sh @ [\<lparr>hist_order_id = oid, hist_status = st, hist_note = n, hist_authority = au\<rparr>]"
    and "\<forall>s. st \<noteq> Other_status s" and "\<And>k. status_of k sh' = (if k = oid then Some st else status_of k sh)"
  shows "trail_ok sh'"
  using assms(1,3,4) last_recorded_append [OF assms(2)] by (auto simp: trail_ok_def order_row_def)

lemma item_history:
  assumes "update_item_preparation oid iid status n actor now sh = Inr sh'"
  shows "sh_history sh' = sh_history sh \<or> (\<exists>h s. sh_history sh' = sh_history sh @ [h] \<and> hist_status h = Other_status (''item_'' @ s))"
  using assms by (auto simp: update_item_preparation_def add_history_def Let_def split: option.splits if_splits)

lemma micro_trail:
  assumes "micro sh sh'" and ok: "trail_ok sh"
  shows "trail_ok sh'"
  using assms(1)
proof cases
  case (micro_status rq env oid)
  from micro_status(2) obtain o1 where g: "status_guards rq o1 sh = Inr ()"
    and st: "\<And>k. status_of k sh' = (if k = oid then Some (actual_status (rq_status rq) sh) else status_of k sh)"
    and h: "sh_history sh' = sh_history sh @ [\<lparr>hist_order_id = oid, hist_status = actual_status (rq_status rq) sh,
       hist_note = rq_note rq, hist_authority = rq_authority rq\<rparr>]"
    by (rule update_status_result) blast
  show ?thesis
    by (rule trail_append [OF ok h _ st]) (use internal_actual_plain [OF guards_graph(1) [OF g micro_status(1)]] in blast)
next
  case (micro_item oid iid status n actor now)
  have s: "status_of k sh' = status_of k sh" for k using item_preparation_frame [OF micro_item] by (simp add: status_of_def)
  have "last_recorded k sh' = last_recorded k sh" for k
    using item_history [OF micro_item] last_recorded_append [of sh' sh _ k]
    by (auto simp: last_recorded_def order_row_def)
  then show ?thesis using ok s by (simp add: trail_ok_def)
next
  case (micro_station oid stn status n actor' now)
  then show ?thesis
  proof (cases rule: station_preparation_orders)
    case same
    then show ?thesis using ok by (simp add: trail_ok_def status_of_def last_recorded_def)
  next
    case (moved o1 new m)
    have "status_of k sh' = (if k = oid then Some new else status_of k sh)" for k
      using moved(1) by (simp add: status_of_def moved(3) row_get_upd)
    from trail_append [OF ok moved(5) _ this] show ?thesis using moved(4) by auto
  qed
next
  case micro_quiet
  then have "status_of k sh' = status_of k sh" "last_recorded k sh' = last_recorded k sh" for k
    using status_core [of "sh_orders sh'" "sh_orders sh" k] by (simp_all add: quiet_def status_of_def last_recorded_def)
  then show ?thesis using ok by (simp add: trail_ok_def)
qed

interpretation micro_trail_inv: invariant_steps micro trail_ok
  by unfold_locales (rule micro_trail)

interpretation trail_inv: invariant_steps shop_step trail_ok
  by unfold_locales (rule micro_trail_inv.run_inv [OF shop_step_micro])

end
