(* ===== verification/Orders_Props.thy ===== *)
theory Orders_Props
  imports Orders_Life Stock_Props
begin

text \<open>Properties of orders and of their effects on stock, deliveries and payments, with a small shop.\<close>

subsection \<open>A concrete shop\<close>

definition demo_order :: "order_status \<Rightarrow> order" where
  "demo_order st =
     \<lparr>ord_id = 5, ord_user_id = Some 4, ord_customer_email = None, ord_customer_name = None, ord_customer_phone = None,
      ord_establishment_id = None, ord_type = Delivery_type, ord_status = st, ord_payment_status = Paid,
      ord_source = Src_customer, ord_created_by = None, ord_subtotal = 24, ord_discount_total = 0,
      ord_delivery_fee = 0, ord_total = 24, ord_delivery_address = None, ord_delivery_zone_id = None,
      ord_delivery_lat = None, ord_delivery_lng = None, ord_delivery_instructions = None, ord_table_number = None,
      ord_estimated_delivery_at = None, ord_idempotency_key = None, ord_promo_code = None,
      ord_delivery_code_nonce = Some ''ab'', ord_created_at = 0\<rparr>"

definition demo_driver :: driver where
  "demo_driver = \<lparr>drv_id = 1, drv_user_id = 30, drv_establishment_id = 1, drv_active = True\<rparr>"

definition demo_delivery :: "delivery_status \<Rightarrow> delivery" where
  "demo_delivery st =
     \<lparr>dv_id = 8, dv_order_id = 5, dv_driver_id = 1, dv_run_id = Some 2, dv_status = st, dv_assigned_by = None,
      dv_assigned_at = 0, dv_departed_at = Some 0, dv_arrived_at = None, dv_finished_at = None\<rparr>"

definition demo_zones :: delivery_db where
  "demo_zones = \<lparr>dd_zones = [], dd_rules = [], dd_establishments = [],
      dd_settings = Some \<lparr>ds_internal_enabled = True, ds_driver_dispatch_enabled = True,
        ds_delivery_proof_required = True, ds_failure_min_wait_minutes = 5, ds_failure_min_call_attempts = 1,
        ds_version = 1\<rparr>, dd_audits = [], dd_has_active_driver = True\<rparr>"

definition demo_dispatch :: "delivery list \<Rightarrow> dispatch_db" where
  "demo_dispatch ds = \<lparr>dp_drivers = [demo_driver], dp_deliveries = ds, dp_events = [], dp_runs = [], dp_attempts = [],
      dp_clocked_in = [30], dp_settings = [\<lparr>ed_establishment_id = 1, ed_mode = Self_assign, ed_max_active = 2,
        ed_min_wait = None, ed_min_calls = None, ed_version = 1\<rparr>], dp_failures = []\<rparr>"

definition demo_shop :: "order_status \<Rightarrow> delivery list \<Rightarrow> shop" where
  "demo_shop st ds =
     \<lparr>sh_orders = [demo_order st], sh_items = [demo_item 5 2],
      sh_history = [\<lparr>hist_order_id = 5, hist_status = st, hist_note = None, hist_authority = Internal\<rparr>],
      sh_payments = [], sh_zones = demo_zones, sh_dispatch = demo_dispatch ds, sh_stock = demo_stock,
      sh_promos = \<lparr>pd_promos = [], pd_target_categories = [], pd_target_products = [], pd_usages = []\<rparr>,
      sh_loyalty = \<lparr>ly_accounts = [], ly_transactions = [], ly_reservations = [], ly_config = None, ly_rules = [],
        ly_rewards = []\<rparr>,
      sh_config = None, sh_out_of_graph = 0, sh_outbox = []\<rparr>"

definition demo_env :: call_env where
  "demo_env = \<lparr>ev_now = 50, ev_today = 0, ev_run_key = 3, ev_account_key = 1, ev_nonce = ''n'',
      ev_derive = (\<lambda>_ _. ''1234''), ev_cancel_ok = (\<lambda>_. True), ev_pool = False\<rparr>"

definition plain_request :: "order_status \<Rightarrow> status_request" where
  "plain_request st = \<lparr>rq_status = st, rq_note = None, rq_actor = None, rq_authority = Internal, rq_proof = None,
      rq_redelivery = False\<rparr>"

lemmas demo_shop_defs = demo_shop_def demo_dispatch_def demo_driver_def demo_order_def demo_delivery_def

lemma demo_coherent: "shop_coherent (demo_shop Out_for_delivery [demo_delivery En_route])"
  by (simp add: coherent_def demo_shop_defs view_def row_simps delivery_live_def)

lemma demo_station:
  "\<exists>sh'. update_station_preparation 5 Kitchen ''ready'' None None 60 (demo_shop Preparing []) = Inr sh'
     \<and> status_of 5 sh' = Some Ready"
  by (simp add: update_station_preparation_def prep_of_text_def demo_shop_defs row_simps station_preparable_def
      station_items_def at_station_def demo_item_def station_outcome_def prepared_lines_def
      apply_preparation_status_def notify_preparation_def add_history_def status_of_def Let_def)

subsection \<open>Orders and deliveries\<close>

text \<open>C2. A delivery never diverges from its order: whatever staff, customers and drivers do, a live delivery is
  the only live one of its order, that order exists and is a delivery, and its status is where the delivery is:
  before departure while the delivery is assigned, out for delivery once the driver has left. In particular a
  closed order has no live delivery.\<close>

theorem delivery_follows_order:
  assumes "shop_step\<^sup>*\<^sup>* sh sh'" and "shop_coherent sh" and "d \<in> set (dp_deliveries (sh_dispatch sh'))"
    and "delivery_live d"
  shows "active_delivery (dv_order_id d) (sh_dispatch sh') = Some d
    \<and> (\<exists>o1. order_of (dv_order_id d) sh' = Some o1 \<and> ord_type o1 = Delivery_type
         \<and> (if dv_status d = Assigned then ord_status o1 \<in> {Confirmed, Queued, Preparing, Ready}
            else ord_status o1 = Out_for_delivery))"
proof
  have co: "shop_coherent sh'" by (rule shop_inv.run_inv [OF assms(1,2)])
  show "active_delivery (dv_order_id d) (sh_dispatch sh') = Some d" by (rule live_active [OF co assms(3,4)])
  obtain st where "view (dv_order_id d) (sh_orders sh') = Some (Delivery_type, st)" "follows (dv_status d) st"
    using co assms(3,4) by (auto simp: coherent_def)
  then show "\<exists>o1. order_of (dv_order_id d) sh' = Some o1 \<and> ord_type o1 = Delivery_type
         \<and> (if dv_status d = Assigned then ord_status o1 \<in> {Confirmed, Queued, Preparing, Ready}
            else ord_status o1 = Out_for_delivery)"
    using assms(4) by (auto simp: view_def delivery_live_def assignable_status_def)
qed

theorem delivery_follows_order_witness:
  "\<exists>sh'. driver_arrived demo_driver 8 30 60 (demo_shop Out_for_delivery [demo_delivery En_route]) = Inr sh'
     \<and> active_delivery 5 (sh_dispatch sh') = Some ((demo_delivery Arrived)\<lparr>dv_arrived_at := Some 60\<rparr>)"
proof -
  let ?d = "(demo_delivery Arrived)\<lparr>dv_arrived_at := Some 60\<rparr>"
  have "\<exists>sh'. driver_arrived demo_driver 8 30 60 (demo_shop Out_for_delivery [demo_delivery En_route]) = Inr sh'
      \<and> dp_deliveries (sh_dispatch sh') = [?d]"
    by (simp add: driver_arrived_def own_delivery_def demo_shop_defs row_simps Let_def)
  then obtain sh' where a: "driver_arrived demo_driver 8 30 60 (demo_shop Out_for_delivery [demo_delivery En_route]) = Inr sh'"
    and ds: "dp_deliveries (sh_dispatch sh') = [?d]" by blast
  have "shop_step\<^sup>*\<^sup>* (demo_shop Out_for_delivery [demo_delivery En_route]) sh'"
    using sstep_arrived [OF a] by (rule r_into_rtranclp)
  from delivery_follows_order [OF this demo_coherent, of ?d] a ds
  show ?thesis by (simp add: delivery_live_def demo_delivery_def)
qed

text \<open>A status imposed by an external system is applied without looking at the delivery, so the promise of
  \<^verbatim>\<open>delivery/lifecycle.py\<close> does not hold for it: the order goes back to the kitchen while the delivery stays on
  the road.\<close>

lemma external_status_diverges:
  "\<exists>sh'. update_status demo_env 5 ((plain_request Preparing)\<lparr>rq_authority := External\<rparr>)
       (demo_shop Out_for_delivery [demo_delivery En_route]) = Inr sh'
     \<and> status_of 5 sh' = Some Preparing \<and> dp_deliveries (sh_dispatch sh') = [demo_delivery En_route]"
  by (simp add: update_status_def status_guards_def plain_request_def commit_transition_def actual_status_def
      follow_delivery_def stock_effects_def after_commit_def release_on_close_def queue_jobs_def notify_transition_def
      delivery_code_for_def notification_for_def routed_titles_def is_graph_transition_def add_history_def
      demo_shop_defs row_simps Let_def status_of_def)

subsection \<open>The life of an order\<close>

text \<open>C3. The shop refines the announced life cycle: along every sequence of operations an order stays in the
  table and its status moves only along the abstract life cycle (accept or queue, prepare, make ready, leave,
  deliver, with reopening by the kitchen, cancellation, failure and redelivery).\<close>

theorem order_life_cycle_refined:
  assumes "shop_step\<^sup>*\<^sup>* sh sh'" and "order_of k sh = Some o1"
  shows "\<exists>o2. order_of k sh' = Some o2 \<and> life\<^sup>*\<^sup>* (ord_status o1) (ord_status o2)"
  using olife_run [OF shop_refines.run_sim [OF assms(1), of k]] assms(2) by (auto simp: status_of_def)

theorem order_life_cycle_refined_witness:
  "\<exists>sh' o2. update_station_preparation 5 Kitchen ''ready'' None None 60 (demo_shop Preparing []) = Inr sh'
     \<and> order_of 5 sh' = Some o2 \<and> life\<^sup>*\<^sup>* Preparing (ord_status o2)"
proof -
  obtain sh' where u: "update_station_preparation 5 Kitchen ''ready'' None None 60 (demo_shop Preparing []) = Inr sh'"
    using demo_station by blast
  have "shop_step\<^sup>*\<^sup>* (demo_shop Preparing []) sh'" using sstep_station [OF u] by (rule r_into_rtranclp)
  moreover have "order_of 5 (demo_shop Preparing []) = Some (demo_order Preparing)"
    by (simp add: demo_shop_defs row_simps)
  ultimately show ?thesis using order_life_cycle_refined u by (fastforce simp: demo_order_def)
qed

text \<open>A delivered, cancelled or rejected order is closed for good: no operation changes its status again.\<close>

theorem closed_orders_stay_closed:
  assumes "shop_step\<^sup>*\<^sup>* sh sh'" and "status_of k sh = Some st" and "st \<in> {Delivered, Cancelled, Rejected}"
  shows "status_of k sh' = Some st"
  using olife_run [OF shop_refines.run_sim [OF assms(1), of k]] assms(2,3) closed_forever by fastforce

theorem closed_orders_stay_closed_witness:
  "\<exists>sh'. driver_arrived demo_driver 8 30 60 (demo_shop Delivered [demo_delivery En_route]) = Inr sh'
     \<and> sh' \<noteq> demo_shop Delivered [demo_delivery En_route] \<and> status_of 5 sh' = Some Delivered"
proof -
  let ?sh = "demo_shop Delivered [demo_delivery En_route]"
  obtain sh' where a: "driver_arrived demo_driver 8 30 60 ?sh = Inr sh'" "sh' \<noteq> ?sh"
    by (simp add: driver_arrived_def own_delivery_def demo_shop_defs row_simps Let_def)
  have "status_of 5 sh' = Some Delivered"
  proof (rule closed_orders_stay_closed)
    show "shop_step\<^sup>*\<^sup>* ?sh sh'" using sstep_arrived [OF a(1)] by (rule r_into_rtranclp)
    show "status_of 5 ?sh = Some Delivered" by (simp add: status_of_def demo_shop_defs row_simps)
  qed simp
  with a show ?thesis by blast
qed

text \<open>The audit trail is complete: along every sequence of operations the last status recorded in the history
  of an order (rows about single lines aside) is its current status.\<close>

theorem history_ends_with_status:
  assumes "shop_step\<^sup>*\<^sup>* sh sh'" and "trail_ok sh" and "status_of k sh' = Some st"
  shows "last_recorded k sh' = Some st"
  using trail_inv.run_inv [OF assms(1,2)] assms(3) by (simp add: trail_ok_def)

theorem history_ends_with_status_witness:
  "\<exists>sh'. update_station_preparation 5 Kitchen ''ready'' None None 60 (demo_shop Preparing []) = Inr sh'
     \<and> last_recorded 5 sh' = Some Ready"
proof -
  obtain sh' where u: "update_station_preparation 5 Kitchen ''ready'' None None 60 (demo_shop Preparing []) = Inr sh'"
    and st: "status_of 5 sh' = Some Ready" using demo_station by blast
  have "shop_step\<^sup>*\<^sup>* (demo_shop Preparing []) sh'" using sstep_station [OF u] by (rule r_into_rtranclp)
  moreover have "trail_ok (demo_shop Preparing [])"
    by (simp add: trail_ok_def status_of_def last_recorded_def order_row_def demo_shop_defs row_simps)
  ultimately show ?thesis using history_ends_with_status [OF _ _ st] u by blast
qed

subsection \<open>Confirmation, stock and payment\<close>

lemma update_status_stock:
  assumes u: "update_status env oid rq sh = Inr sh'" and o1: "order_of oid sh = Some o1"
    and a: "a = actual_status (rq_status rq) sh"
  shows "a = Confirmed \<Longrightarrow> \<exists>low. deduct_for_order oid (sh_items sh) (rq_actor rq) (ev_now env) (sh_stock sh) = Inr (sh_stock sh', low)"
    and "a \<noteq> Confirmed \<Longrightarrow> sh_stock sh' =
      (if a = Cancelled \<and> ord_status o1 = Confirmed
       then restore_for_order oid (sh_items sh) (rq_actor rq) (sh_stock sh) else sh_stock sh)"
    and "sh_items sh' = sh_items sh"
proof -
  obtain o2 sh1 low where o2: "order_of oid sh = Some o2" "ord_id o2 = oid"
    and c: "commit_transition env rq o2 sh = Inr (sh1, low)"
    and sh': "sh' = after_commit env rq o2 (actual_status (rq_status rq) sh) low sh1"
    using u by (rule update_statusE)
  have [simp]: "o2 = o1" using o1 o2 by simp
  obtain o3 dp where f: "follow_delivery env rq a (o2\<lparr>ord_status := a\<rparr>) (sh_zones sh) (sh_dispatch sh) = (o3, dp)"
    by fastforce
  note parts = commit_parts [OF c a f]
  show "a = Confirmed \<Longrightarrow> \<exists>low. deduct_for_order oid (sh_items sh) (rq_actor rq) (ev_now env) (sh_stock sh) = Inr (sh_stock sh', low)"
    using parts(7) o2(2) by (auto simp: sh' after_commit_frame)
  show "a \<noteq> Confirmed \<Longrightarrow> sh_stock sh' =
      (if a = Cancelled \<and> ord_status o1 = Confirmed
       then restore_for_order oid (sh_items sh) (rq_actor rq) (sh_stock sh) else sh_stock sh)"
    using parts(8) o2(2) by (simp add: sh' after_commit_frame)
  show "sh_items sh' = sh_items sh" by (simp add: sh' after_commit_frame parts(4))
qed

lemma update_status_actual:
  assumes "update_status env oid rq sh = Inr sh'"
  shows "status_of oid sh' = Some (actual_status (rq_status rq) sh)"
  using assms by (rule update_status_result) simp

text \<open>C4. No confirmation without payment and stock: if a confirmation is accepted the order was paid, or guaranteed
  by a card hold and to be delivered; it then either is confirmed, and every known ingredient has gone down by
  exactly what the recipes of the order require, or waits in the queue with the stock untouched.\<close>

theorem confirmation_needs_payment_and_stock:
  assumes "update_status env oid rq sh = Inr sh'" and "rq_status rq = Confirmed" and "order_of oid sh = Some o1"
  shows "(ord_payment_status o1 = Paid \<or> (ord_payment_status o1 = Guaranteed \<and> ord_type o1 = Delivery_type))
    \<and> ((status_of oid sh' = Some Confirmed \<and>
         (\<forall>i. qty (sh_stock sh') i = qty (sh_stock sh) i -
            (if i \<in> known (sh_stock sh) then total_for i (order_deltas (sh_stock sh) (items_of_order oid (sh_items sh))) else 0)))
       \<or> (status_of oid sh' = Some Queued \<and> sh_stock sh' = sh_stock sh))"
proof
  obtain o2 where g: "order_of oid sh = Some o2" "status_guards rq o2 sh = Inr ()"
    using assms(1) by (rule update_status_result) blast
  then show "ord_payment_status o1 = Paid \<or> (ord_payment_status o1 = Guaranteed \<and> ord_type o1 = Delivery_type)"
    using guards_graph(2) [OF g(2) assms(2)] assms(3) by (simp add: payment_settles_def)
  have ac: "actual_status (rq_status rq) sh = Confirmed \<or> actual_status (rq_status rq) sh = Queued"
    using actual_cases assms(2) by auto
  note st = update_status_stock [OF assms(1,3) refl]
  show "(status_of oid sh' = Some Confirmed \<and>
         (\<forall>i. qty (sh_stock sh') i = qty (sh_stock sh) i -
            (if i \<in> known (sh_stock sh) then total_for i (order_deltas (sh_stock sh) (items_of_order oid (sh_items sh))) else 0)))
       \<or> (status_of oid sh' = Some Queued \<and> sh_stock sh' = sh_stock sh)"
    using ac update_status_actual [OF assms(1)] st(1,2) deduct_qty by fastforce
qed

lemma demo_confirm: "\<exists>sh'. update_status demo_env 5 (plain_request Confirmed) (demo_shop Pending []) = Inr sh'"
proof -
  obtain s low where d: "deduct_for_order 5 [demo_item 5 2] None 50 demo_stock = Inr (s, low)" using demo_deduct by blast
  show ?thesis
    by (simp add: update_status_def status_guards_def plain_request_def commit_transition_def actual_status_def
        follow_delivery_def stock_effects_def is_graph_transition_def add_history_def payment_settles_def
        demo_shop_defs row_simps Let_def demo_env_def d)
qed

theorem confirmation_needs_payment_and_stock_witness:
  "\<exists>sh'. update_status demo_env 5 (plain_request Confirmed) (demo_shop Pending []) = Inr sh'
     \<and> qty (sh_stock sh') 1 = 6"
proof -
  obtain sh' where u: "update_status demo_env 5 (plain_request Confirmed) (demo_shop Pending []) = Inr sh'"
    using demo_confirm by blast
  have o: "order_of 5 (demo_shop Pending []) = Some (demo_order Pending)" by (simp add: demo_shop_defs row_simps)
  have q: "qty demo_stock 1 = 10" "1 \<in> known demo_stock" by (simp_all add: qty_def known_def row_ids_def demo_defs row_simps)
  have "status_of 5 sh' = Some Confirmed"
    using update_status_actual [OF u] by (simp add: actual_status_def demo_shop_def plain_request_def)
  then show ?thesis
    using confirmation_needs_payment_and_stock [OF u _ o] u q
    by (simp add: plain_request_def demo_shop_def demo_deltas)
qed

text \<open>Confirming and then cancelling an order is neutral for the stock: whatever happened in between to other
  tables, cancelling a confirmed order gives every ingredient the quantity it had before the confirmation.\<close>

theorem cancel_restores_confirmed_stock:
  assumes "update_status env oid rq sh = Inr sh1" and "rq_status rq = Confirmed" and "status_of oid sh1 = Some Confirmed"
    and "sh_stock sh2 = sh_stock sh1" and "sh_items sh2 = sh_items sh1" and "status_of oid sh2 = Some Confirmed"
    and "update_status env' oid rq' sh2 = Inr sh3" and "rq_status rq' = Cancelled"
  shows "qty (sh_stock sh3) i = qty (sh_stock sh) i"
proof -
  obtain o1 where o1: "order_of oid sh = Some o1" using assms(1) by (rule update_status_result) blast
  obtain o2 where o2: "order_of oid sh2 = Some o2" "ord_status o2 = Confirmed" using assms(6) by (auto simp: status_of_def)
  have "actual_status (rq_status rq) sh = Confirmed" using update_status_actual [OF assms(1)] assms(3) by simp
  then obtain low where d: "deduct_for_order oid (sh_items sh) (rq_actor rq) (ev_now env) (sh_stock sh) = Inr (sh_stock sh1, low)"
    using update_status_stock(1) [OF assms(1) o1 refl] by blast
  have it: "sh_items sh1 = sh_items sh" by (rule update_status_stock(3) [OF assms(1) o1 refl])
  have "sh_stock sh3 = restore_for_order oid (sh_items sh) (rq_actor rq') (sh_stock sh1)"
    using update_status_stock(2) [OF assms(7) o2(1) refl] assms(4,5,8) o2(2) it by (simp add: actual_status_def)
  then show ?thesis
    using deduct_qty [OF d, of i] order_deltas_cong [OF deduct_recipes(1,2,3) [OF d]]
    by (simp add: restore_qty deduct_known [OF d])
qed

theorem cancel_restores_confirmed_stock_witness:
  "\<exists>sh1 sh3. update_status demo_env 5 (plain_request Confirmed) (demo_shop Pending []) = Inr sh1
     \<and> update_status demo_env 5 (plain_request Cancelled) sh1 = Inr sh3 \<and> qty (sh_stock sh3) 1 = 10"
proof -
  obtain sh1 where u: "update_status demo_env 5 (plain_request Confirmed) (demo_shop Pending []) = Inr sh1"
    using demo_confirm by blast
  have st: "status_of 5 sh1 = Some Confirmed"
    using update_status_actual [OF u] by (simp add: actual_status_def demo_shop_def plain_request_def)
  obtain sh3 where c: "update_status demo_env 5 (plain_request Cancelled) sh1 = Inr sh3"
    using st by (auto simp: update_status_def status_guards_def plain_request_def commit_transition_def actual_status_def
        follow_delivery_def stock_effects_def is_graph_transition_def status_of_def Let_def)
  have "qty (sh_stock sh3) 1 = qty (sh_stock (demo_shop Pending [])) 1"
    by (rule cancel_restores_confirmed_stock [OF u _ st refl refl st c]) (simp_all add: plain_request_def)
  moreover have "qty demo_stock 1 = 10" by (simp add: qty_def demo_defs row_simps)
  ultimately show ?thesis using u c by (auto simp: demo_shop_def)
qed

subsection \<open>Two behaviours to know\<close>

lemma length_filter_mono: "(\<And>x. P x \<Longrightarrow> Q x) \<Longrightarrow> length (filter P xs) \<le> length (filter Q xs)"
  by (induction xs) auto

text \<open>The capacity counts the waiting orders themselves: once as many orders wait as the restaurant takes at peak
  time, every confirmation, also that of a waiting order, ends in the queue again, even with an idle kitchen.\<close>

lemma full_queue_never_drains:
  assumes "update_status env oid rq sh = Inr sh'" and "rq_status rq = Confirmed" and "sh_config sh = Some c"
    and "int (length (filter (\<lambda>o1. ord_status o1 = Queued) (sh_orders sh))) \<ge> tc_peak_orders_threshold c"
  shows "status_of oid sh' = Some Queued"
proof -
  have "length (filter (\<lambda>o1. ord_status o1 = Queued) (sh_orders sh))
      \<le> length (filter (\<lambda>o1. ord_status o1 \<in> {Confirmed, Preparing, Queued}) (sh_orders sh))"
    by (rule length_filter_mono) simp
  then have "actual_status Confirmed sh = Queued"
    using assms(3,4) by (simp add: actual_status_def active_orders_count_def)
  then show ?thesis using update_status_actual [OF assms(1)] assms(2) by simp
qed

text \<open>Points are credited after the order is committed as delivered, so the customer always has a delivered order
  by then and the rule for a first order is never counted.\<close>

lemma first_order_is_never_first:
  assumes "commit_transition env rq o1 sh = Inr (sh1, low)" and "rq_status rq = Delivered"
    and "order_of oid sh = Some o1" and "ord_user_id o1 = Some uid"
  shows "has_delivered_order uid sh1"
proof -
  have a: "Delivered = actual_status (rq_status rq) sh" using assms(2) by (simp add: actual_status_def)
  have o: "sh_orders sh1 = row_upd ord_id (ord_id o1) (\<lambda>_. o1\<lparr>ord_status := Delivered\<rparr>) (sh_orders sh)"
    by (rule commit_parts(1) [OF assms(1) a]) (simp add: follow_delivery_def)
  have "o1 \<in> set (sh_orders sh)" using row_get_SomeD [OF assms(3)] by simp
  then have "o1\<lparr>ord_status := Delivered\<rparr> \<in> set (sh_orders sh1)" by (force simp: o row_upd_def)
  then show ?thesis using assms(4) unfolding has_delivered_order_def list_ex_iff by (intro bexI) simp_all
qed

end
