(* ===== verification/Dispatch_Props.thy ===== *)
theory Dispatch_Props
  imports Orders_Props
begin

text \<open>Properties of dispatch, hand-over codes and card holds, on the shop of \<open>Orders_Props\<close>.\<close>

subsection \<open>Hand-over\<close>

lemma verify_accepted:
  assumes "verify_code derive nonce did oid user submitted orders dp = ((orders1, dp1), Inr ())"
  shows "failed_attempts did dp < max_failed_attempts
    \<and> (\<exists>c. submitted = Some c \<and> get_code derive nonce oid orders = Inr (orders1, py_strip c))"
  using assms
  by (cases submitted) (auto simp: verify_code_def code_shaped_def py_strip_def Let_def split: if_splits sum.splits)

lemma check_accepted:
  assumes "check_code env did oid user code sh = (sh1, Inr p)" and "proof_rule sh"
  shows "failed_attempts did (sh_dispatch sh) < max_failed_attempts
    \<and> (\<exists>c os. code = Some c \<and> get_code (ev_derive env) (ev_nonce env) oid (sh_orders sh) = Inr (os, py_strip c))"
proof -
  obtain os dp where "verify_code (ev_derive env) (ev_nonce env) did oid (Some user) code (sh_orders sh) (sh_dispatch sh)
      = ((os, dp), Inr ())"
    using assms by (auto simp: check_code_def split: if_splits prod.splits)
  then show ?thesis using verify_accepted by blast
qed

lemma own_deliveryD: "own_delivery drv did sh = Inr d \<Longrightarrow>
    row_get dv_id did (dp_deliveries (sh_dispatch sh)) = Some d \<and> dv_driver_id d = drv_id drv"
  by (auto simp: own_delivery_def split: option.splits if_splits)

text \<open>C5. A hand-over is proved: when the restaurant requires a code, a driver closes an order as delivered only if the
  delivery is his own and on the road, the order was not locked by wrong guesses, and he typed exactly the code
  derived for that order.\<close>

theorem hand_over_is_proved:
  assumes "driver_deliver env pk drv did cash user code sh = (sh', Inr ())" and "proof_rule sh"
  shows "\<exists>d c os. row_get dv_id did (dp_deliveries (sh_dispatch sh)) = Some d \<and> dv_driver_id d = drv_id drv
    \<and> (dv_status d = En_route \<or> dv_status d = Arrived) \<and> failed_attempts did (sh_dispatch sh) < max_failed_attempts
    \<and> code = Some c \<and> get_code (ev_derive env) (ev_nonce env) (dv_order_id d) (sh_orders sh) = Inr (os, py_strip c)
    \<and> status_of (dv_order_id d) sh' = Some Delivered"
  using assms(1)
proof (cases rule: deliver_cases)
  case (checked d o1 sh1 r1 sh2 r2)
  then obtain p where c: "check_code env did (dv_order_id d) user code sh = (sh1, Inr p)"
    and u: "update_status env (dv_order_id d) (driver_request Delivered user None (Some p)) sh2 = Inr sh'" by auto
  have "status_of (dv_order_id d) sh' = Some (actual_status Delivered sh2)"
    using u by (rule update_status_result) (simp add: driver_request_def)
  then have "status_of (dv_order_id d) sh' = Some Delivered" using actual_cases [of Delivered sh2] by auto
  then show ?thesis using own_deliveryD [OF checked(1)] checked(3) check_accepted [OF c assms(2)] by blast
qed simp

lemma demo_hand_over:
  "\<exists>sh'. driver_deliver demo_env 9 demo_driver 8 None 30 (Some ''1234'')
      (demo_shop Out_for_delivery [demo_delivery En_route]) = (sh', Inr ())"
  by (simp add: driver_deliver_def own_delivery_def check_code_def verify_code_def get_code_def ensure_nonce_def
      code_shaped_def py_strip_def py_space_def proof_rule_def settle_on_delivery_def failed_attempts_def
      max_failed_attempts_def demo_zones_def demo_env_def driver_request_def
      update_status_def status_guards_def commit_transition_def actual_status_def follow_delivery_def
      on_delivered_def stock_effects_def is_graph_transition_def add_history_def
      demo_shop_defs row_simps Let_def)

theorem hand_over_is_proved_witness:
  "\<exists>sh'. driver_deliver demo_env 9 demo_driver 8 None 30 (Some ''1234'')
      (demo_shop Out_for_delivery [demo_delivery En_route]) = (sh', Inr ()) \<and> status_of 5 sh' = Some Delivered"
proof -
  obtain sh' where d: "driver_deliver demo_env 9 demo_driver 8 None 30 (Some ''1234'')
      (demo_shop Out_for_delivery [demo_delivery En_route]) = (sh', Inr ())" using demo_hand_over by blast
  have "proof_rule (demo_shop Out_for_delivery [demo_delivery En_route])"
    by (simp add: proof_rule_def demo_shop_def demo_zones_def)
  from hand_over_is_proved [OF d this] d show ?thesis by (auto simp: demo_shop_defs row_simps)
qed

text \<open>A refused code costs nothing: if the code is missing, wrong or locked the driver gets an error, no payment is
  recorded or settled, no order changes status and no delivery moves.\<close>

theorem refused_code_settles_nothing:
  assumes "driver_deliver env pk drv did cash user code sh = (sh', r)" and "proof_rule sh"
    and "\<And>d os. row_get dv_id did (dp_deliveries (sh_dispatch sh)) = Some d \<Longrightarrow>
      get_code (ev_derive env) (ev_nonce env) (dv_order_id d) (sh_orders sh) \<noteq>
        Inr (os, py_strip (case code of None \<Rightarrow> [] | Some c \<Rightarrow> c))"
  shows "(\<exists>e. r = Inl e) \<and> sh_payments sh' = sh_payments sh \<and> map core (sh_orders sh') = map core (sh_orders sh)
    \<and> dp_deliveries (sh_dispatch sh') = dp_deliveries (sh_dispatch sh)"
  using assms(1)
proof (cases rule: deliver_cases)
  case (checked d o1 sh1 r1 sh2 r2)
  have "\<nexists>p. r1 = Inr p"
    using check_accepted [OF _ assms(2)] checked(4) own_deliveryD [OF checked(1)] assms(3) by fastforce
  then obtain e where "r1 = Inl e" "sh' = sh1" "r = Inl e" using checked(6) by blast
  then show ?thesis using check_code_frame [OF checked(4)] by simp
qed simp

theorem refused_code_settles_nothing_witness:
  "\<exists>sh' e. driver_deliver demo_env 9 demo_driver 8 None 30 (Some ''9999'')
      (demo_shop Out_for_delivery [demo_delivery En_route]) = (sh', Inl e) \<and> sh_payments sh' = []
      \<and> dp_deliveries (sh_dispatch sh') = [demo_delivery En_route]"
proof -
  let ?sh = "demo_shop Out_for_delivery [demo_delivery En_route]"
  obtain sh' r where d: "driver_deliver demo_env 9 demo_driver 8 None 30 (Some ''9999'') ?sh = (sh', r)" by fastforce
  have "(\<exists>e. r = Inl e) \<and> sh_payments sh' = sh_payments ?sh \<and> map core (sh_orders sh') = map core (sh_orders ?sh)
      \<and> dp_deliveries (sh_dispatch sh') = dp_deliveries (sh_dispatch ?sh)"
    by (rule refused_code_settles_nothing [OF d])
       (auto simp: proof_rule_def demo_zones_def get_code_def ensure_nonce_def demo_env_def py_strip_def py_space_def
         demo_shop_defs row_simps)
  then show ?thesis using d by (auto simp: demo_shop_def demo_dispatch_def)
qed

subsection \<open>Guessing codes\<close>

text \<open>What a driver and the counter can do with the code of an order: try one, or have a new one issued.\<close>

inductive code_step :: "order list \<times> dispatch_db \<Rightarrow> order list \<times> dispatch_db \<Rightarrow> bool" where
  cstep_try: "verify_code derive nonce did oid user submitted os dp = (s', r) \<Longrightarrow> code_step (os, dp) s'"
| cstep_renew: "code_step (os, dp) (regenerate_nonce nonce oid os, dp)"

definition guesses_bounded :: "order list \<times> dispatch_db \<Rightarrow> bool" where
  "guesses_bounded s \<longleftrightarrow> (\<forall>did. failed_attempts did (snd s) \<le> max_failed_attempts)"

lemma verify_attempts:
  assumes "verify_code derive nonce did oid user submitted os dp = ((os1, dp1), r)"
  shows "failed_attempts k dp1 \<le> (if k = did then max (failed_attempts k dp) max_failed_attempts else failed_attempts k dp)"
  using assms
  by (auto simp: verify_code_def failed_attempts_def Let_def split: if_splits sum.splits)

interpretation guesses_inv: invariant_steps code_step guesses_bounded
proof
  fix s s' assume "code_step s s'" and ok: "guesses_bounded s"
  then show "guesses_bounded s'"
  proof cases
    case (cstep_try derive nonce did oid user submitted os dp r)
    obtain os1 dp1 where s': "s' = (os1, dp1)" by fastforce
    show ?thesis
      using verify_attempts [OF cstep_try(2) [unfolded s']] ok
      by (fastforce simp: guesses_bounded_def s' cstep_try(1) intro: order_trans split: if_splits)
  qed (simp add: guesses_bounded_def)
qed

text \<open>A code cannot be guessed: whatever is tried, at most five wrong codes are ever recorded for a delivery, and
  once there are five every further try is refused as locked without looking at the code, even the right one.\<close>

theorem code_guesses_bounded:
  assumes "code_step\<^sup>*\<^sup>* s s'" and "guesses_bounded s"
  shows "failed_attempts did (snd s') \<le> 5 \<and> (failed_attempts did (snd s') = 5 \<longrightarrow>
      verify_code derive nonce did oid user submitted (fst s') (snd s') = (s', Inl (AppError ''DELIVERY_CODE_LOCKED'' 423)))"
  using guesses_inv.run_inv [OF assms]
  by (simp add: guesses_bounded_def max_failed_attempts_def verify_code_def)

theorem code_guesses_bounded_witness:
  "failed_attempts 8 (snd (fst (verify_code (\<lambda>_ _. ''1234'') ''n'' 8 5 None (Some ''9999'') [demo_order Ready]
      (demo_dispatch [])))) = 1
   \<and> failed_attempts 8 (snd (fst (verify_code (\<lambda>_ _. ''1234'') ''n'' 8 5 None (Some ''9999'') [demo_order Ready]
      (demo_dispatch [])))) \<le> 5"
proof -
  let ?v = "verify_code (\<lambda>_ _. ''1234'') ''n'' 8 5 None (Some ''9999'') [demo_order Ready] (demo_dispatch [])"
  have "code_step\<^sup>*\<^sup>* ([demo_order Ready], demo_dispatch []) (fst ?v)"
    by (rule r_into_rtranclp, rule cstep_try [where r = "snd ?v"]) simp
  moreover have "guesses_bounded ([demo_order Ready], demo_dispatch [])"
    by (simp add: guesses_bounded_def failed_attempts_def demo_dispatch_def)
  ultimately have "failed_attempts 8 (snd (fst ?v)) \<le> 5" using code_guesses_bounded by blast
  moreover have "failed_attempts 8 (snd (fst ?v)) = 1"
    by (simp add: verify_code_def code_shaped_def py_strip_def py_space_def get_code_def ensure_nonce_def
        failed_attempts_def max_failed_attempts_def demo_dispatch_def demo_order_def row_simps Let_def)
  ultimately show ?thesis by blast
qed

subsection \<open>Self-assignment\<close>

lemma active_None_prefix:
  assumes "active_delivery oid dp' = None" and "dp_deliveries dp' = dp_deliveries dp @ added"
  shows "active_delivery oid dp = None"
  using assms by (auto simp: active_delivery_def find_None_iff)

lemma claim_loop_adds:
  assumes "claim_loop nid drv user now oids sh = Inr sh'"
  shows "\<exists>added. dp_deliveries (sh_dispatch sh') = dp_deliveries (sh_dispatch sh) @ added \<and> map dv_order_id added = oids
    \<and> (\<forall>d \<in> set added. dv_driver_id d = drv_id drv \<and> dv_status d = Assigned
          \<and> active_delivery (dv_order_id d) (sh_dispatch sh) = None)"
  using assms
proof (induction oids arbitrary: nid sh)
  case (Cons oid oids)
  let ?d = "new_delivery nid oid (drv_id drv) user now"
  obtain sh1 where c: "claim_one nid drv user now oid sh = Inr sh1"
    and l: "claim_loop (nid + 1) drv user now oids sh1 = Inr sh'" using Cons.prems by auto
  have one: "dp_deliveries (sh_dispatch sh1) = dp_deliveries (sh_dispatch sh) @ [?d]"
      "active_delivery oid (sh_dispatch sh) = None"
    using c by (auto simp: claim_one_def create_delivery_def split: option.splits if_splits)
  from Cons.IH [OF l] obtain added where m: "dp_deliveries (sh_dispatch sh') = dp_deliveries (sh_dispatch sh1) @ added"
    "map dv_order_id added = oids" "\<forall>d \<in> set added. dv_driver_id d = drv_id drv \<and> dv_status d = Assigned
          \<and> active_delivery (dv_order_id d) (sh_dispatch sh1) = None" by blast
  show ?case
    by (rule exI [of _ "?d # added"])
       (use one m active_None_prefix [OF _ one(1)] in \<open>auto simp: new_delivery_def\<close>)
qed simp

text \<open>A driver never takes more than the cap: a successful self-assignment adds exactly one assigned delivery per
  requested order, each of which nobody held, and leaves the driver with at most the allowed number of live ones.\<close>

theorem claim_respects_cap:
  assumes "claim nid drv ids user now sh = Inr sh'"
  shows "\<exists>added. dp_deliveries (sh_dispatch sh') = dp_deliveries (sh_dispatch sh) @ added
    \<and> map dv_order_id added = sort ids
    \<and> (\<forall>d \<in> set added. dv_driver_id d = drv_id drv \<and> dv_status d = Assigned
          \<and> active_delivery (dv_order_id d) (sh_dispatch sh) = None)
    \<and> driver_active_count (drv_id drv) sh'
        \<le> ef_max_active (get_effective (sh_zones sh) (drv_establishment_id drv) (sh_dispatch sh))"
proof -
  have "claim_loop nid drv user now (sort ids) sh = Inr sh'"
    and "driver_active_count (drv_id drv) sh'
        \<le> ef_max_active (get_effective (sh_zones sh) (drv_establishment_id drv) (sh_dispatch sh))"
    using assms by (auto simp: claim_def Let_def split: option.splits if_splits)
  then show ?thesis using claim_loop_adds by blast
qed

theorem claim_respects_cap_witness:
  "\<exists>sh'. claim 20 demo_driver [5] 30 60 (demo_shop Ready []) = Inr sh' \<and> driver_active_count 1 sh' \<le> 2"
proof -
  have "\<exists>sh'. claim 20 demo_driver [5] 30 60 (demo_shop Ready []) = Inr sh'"
    by (simp add: claim_def claim_one_def get_effective_def tenant_rules_def is_dispatch_enabled_def clocked_in_def
        active_delivery_def assignable_status_def driver_active_count_def create_delivery_def new_delivery_def
        demo_zones_def demo_shop_defs row_simps Let_def)
  then obtain sh' where c: "claim 20 demo_driver [5] 30 60 (demo_shop Ready []) = Inr sh'" by blast
  from claim_respects_cap [OF c] c show ?thesis
    by (auto simp: get_effective_def tenant_rules_def demo_zones_def demo_shop_defs row_simps)
qed

subsection \<open>Card holds\<close>

lemma settled_run:
  assumes "guarantee_step\<^sup>*\<^sup>* t t'" and "payments_ok (snd t)" and "q \<in> set (snd t)" and "py_status q \<noteq> Pt_authorized"
  shows "q \<in> set (snd t')"
  using assms
proof (induction rule: rtranclp_induct)
  case (step y z)
  show ?case
    by (rule settled_step [OF step.hyps(2) guarantee_inv.run_inv [OF step.hyps(1)]]) (use step in auto)
qed simp

text \<open>The release, capture, cash settlement and cancellation of a hold write authorised holds only: along every sequence of
  these four operations other payments stay as they are, payment keys stay unique and what was captured never exceeds
  the hold. (Refunds, refund events and captures made outside of the API are treated in \<open>Payments_Props\<close>.)\<close>

theorem settled_guarantee_is_final:
  assumes "guarantee_step\<^sup>*\<^sup>* t t'" and "payments_ok (snd t)"
  shows "payments_ok (snd t') \<and> (\<forall>q \<in> set (snd t). py_status q \<noteq> Pt_authorized \<longrightarrow> q \<in> set (snd t'))"
  using guarantee_inv.run_inv [OF assms] settled_run [OF assms] by blast

definition demo_hold :: payment where
  "demo_hold = \<lparr>py_id = 70, py_order_id = 5, py_provider = ''stripe'', py_provider_payment_id = Some ''pi_1'',
      py_purpose = Guarantee, py_amount = 24, py_amount_received = None, py_currency = ''EUR'',
      py_status = Pt_authorized, py_captured = None, py_settled_at = None, py_settled_by = None, py_note = None,
      py_account = None, py_reference = None, py_expires_at = None, py_created_by = None, py_created_at = 0, py_terms = None,
      py_terms_at = None\<rparr>"

theorem settled_guarantee_is_final_witness:
  "\<exists>t'. capture_guarantee (\<lambda>_ _. True) 5 (Some 1000) ''absent'' None 60 ([demo_order Ready], [demo_hold]) = Inr t'
     \<and> payments_ok (snd t')"
proof -
  have "\<exists>t'. capture_guarantee (\<lambda>_ _. True) 5 (Some 1000) ''absent'' None 60 ([demo_order Ready], [demo_hold]) = Inr t'"
    by (simp add: capture_guarantee_def py_strip_def py_space_def authorized_guarantee_def demo_hold_def is_local_def
        money_to_cents_def py_round_def Let_def)
  then obtain t' where c: "capture_guarantee (\<lambda>_ _. True) 5 (Some 1000) ''absent'' None 60
      ([demo_order Ready], [demo_hold]) = Inr t'" by blast
  have "guarantee_step\<^sup>*\<^sup>* ([demo_order Ready], [demo_hold]) t'" using gstep_capture [OF c] by (rule r_into_rtranclp)
  moreover have "payments_ok (snd ([demo_order Ready], [demo_hold]))"
    by (simp add: payments_ok_def hold_ok_def demo_hold_def)
  ultimately show ?thesis using settled_guarantee_is_final c by blast
qed

end
