(* ===== verification/Site_Props.thy ===== *)
theory Site_Props
  imports Site_Stock Orders_Props
begin

text \<open>Properties of the allocation of lots to orders.\<close>

subsection \<open>Usable lots\<close>

abbreviation lk :: "lot_position \<times> ingredient_batch \<Rightarrow> lot_key" where
  "lk pb \<equiv> (bat_id (snd pb), lp_establishment_id (fst pb), lp_ingredient_id (fst pb))"

lemma lots_at_iff:
  "(p, b) \<in> set (lots_at site ing s db) \<longleftrightarrow> p \<in> set (si_positions db) \<and> lp_establishment_id p = site
     \<and> lp_ingredient_id p = ing \<and> row_get bat_id (lp_batch_id p) (st_batches s) = Some b"
  by (auto simp: lots_at_def split: if_splits option.splits)

lemma site_positions_iff:
  "(p, b) \<in> set (site_positions site ing now s db) \<longleftrightarrow> p \<in> set (si_positions db) \<and> lp_establishment_id p = site
     \<and> lp_ingredient_id p = ing \<and> row_get bat_id (lp_batch_id p) (st_batches s) = Some b \<and> lot_usable p b now"
  by (simp add: site_positions_def lots_at_iff)

lemma site_positions_lk: "pb \<in> set (site_positions site ing now s db) \<Longrightarrow> lk pb = lot_key (fst pb)"
  by (cases pb) (auto simp: site_positions_iff lot_key_def dest: row_get_SomeD)

lemma usable_remaining: "lot_usable p b now \<Longrightarrow> 0 < remaining p"
  by (simp add: lot_usable_def remaining_def split: option.splits)

lemma lots_at_distinct:
  assumes "distinct (map lot_key (si_positions db))"
  shows "distinct (map (\<lambda>pb. lot_key (fst pb)) (lots_at site ing s db))"
proof -
  define f where "f p = (if lp_establishment_id p = site \<and> lp_ingredient_id p = ing
         then (case row_get bat_id (lp_batch_id p) (st_batches s) of None \<Rightarrow> [] | Some b \<Rightarrow> [(p, b)]) else [])" for p :: lot_position
  have f: "f p = [] \<or> (\<exists>b. f p = [(p, b)])" for p by (auto simp: f_def split: option.splits)
  have sub: "(\<lambda>pb. lot_key (fst pb)) ` set (concat (map f ps)) \<subseteq> lot_key ` set ps" for ps
    by (auto simp: f_def split: if_splits option.splits)
  have "distinct (map lot_key ps) \<Longrightarrow> distinct (map (\<lambda>pb. lot_key (fst pb)) (concat (map f ps)))" for ps
  proof (induction ps)
    case (Cons p ps)
    have "lot_key p \<notin> (\<lambda>pb. lot_key (fst pb)) ` set (concat (map f ps))" using sub [of ps] Cons.prems by auto
    then show ?case using f [of p] Cons by (elim disjE exE) (simp_all del: set_concat)
  qed simp
  from this [OF assms] show ?thesis by (simp only: lots_at_def f_def [abs_def])
qed

lemma distinct_sort_key: "distinct (map f (sort_key g xs)) = distinct (map f xs)"
  by (simp add: distinct_map)

lemma site_positions_distinct:
  assumes "distinct (map lot_key (si_positions db))"
  shows "distinct (map lk (site_positions site ing now s db))"
proof -
  have "distinct (map (\<lambda>pb. lot_key (fst pb)) (site_positions site ing now s db))"
    using lots_at_distinct [OF assms] by (simp add: site_positions_def distinct_sort_key distinct_map_filter)
  then show ?thesis by (simp add: site_positions_lk cong: map_cong)
qed

subsection \<open>Taking lots in order\<close>

lemma take_lots_sum: "sum_list (map snd (fst (take_lots lots need))) + snd (take_lots lots need) = need"
  by (induction lots need rule: take_lots.induct) (auto simp: Let_def split: prod.splits)

lemma take_lots_keys: "fst ` set (fst (take_lots lots need)) \<subseteq> lk ` set lots"
proof (induction lots need rule: take_lots.induct)
  case (2 p b lots need)
  then show ?case by (cases "need \<le> 0") (auto simp: Let_def split_beta)
qed simp

lemma take_lots_pos:
  assumes "\<forall>pb \<in> set lots. 0 < remaining (fst pb)"
  shows "\<forall>kq \<in> set (fst (take_lots lots need)). 0 < snd kq"
  using assms by (induction lots need rule: take_lots.induct) (auto simp: Let_def split: prod.splits)

lemma take_lots_missing:
  assumes "\<forall>pb \<in> set lots. 0 < remaining (fst pb)"
  shows "snd (take_lots lots need) > 0 \<longleftrightarrow> sum_list (map (\<lambda>pb. remaining (fst pb)) lots) < need"
  using assms
proof (induction lots need rule: take_lots.induct)
  case (2 p b lots need)
  have nn: "0 \<le> sum_list (map (\<lambda>pb. remaining (fst pb)) lots)"
    using 2(2) by (intro sum_list_nonneg) (auto intro: less_imp_le)
  show ?case
  proof (cases "need \<le> 0")
    case True
    then show ?thesis using nn 2(2) by auto
  next
    case False
    then show ?thesis
      using 2 nn by (cases "remaining p \<le> need") (auto simp: Let_def min_def split: prod.splits)
  qed
qed simp

lemma take_lots_nonpos: "need \<le> 0 \<Longrightarrow> take_lots lots need = ([], need)"
  by (cases lots) auto

lemma take_lots_missing_le:
  assumes "0 \<le> need"
  shows "0 \<le> snd (take_lots lots need)"
  using assms by (induction lots need rule: take_lots.induct) (auto simp: Let_def split: prod.splits)

lemma take_lots_total:
  assumes "snd (take_lots lots need) \<le> 0"
  shows "sum_list (map snd (fst (take_lots lots need))) = max 0 need"
  using take_lots_sum [of lots need] take_lots_missing_le [of need lots] take_lots_nonpos [of need lots] assms
  by (cases "need \<le> 0") auto

lemma take_lots_bound:
  assumes "distinct (map lk lots)" and "\<forall>pb \<in> set lots. 0 < remaining (fst pb)" and "pb \<in> set lots"
  shows "total_for (lk pb) (fst (take_lots lots need)) \<le> remaining (fst pb)"
  using assms
proof (induction lots need rule: take_lots.induct)
  case (2 p b lots need)
  show ?case
  proof (cases "need \<le> 0")
    case True
    then show ?thesis using 2(3,4) by (auto intro: less_imp_le)
  next
    case False
    let ?r = "take_lots lots (need - min (remaining p) need)"
    have fresh: "total_for (lk (p, b)) (fst ?r) = 0"
      by (rule total_for_absent) (use 2(2) take_lots_keys [of lots] in \<open>force simp: image_iff\<close>)
    show ?thesis
    proof (cases "pb = (p, b)")
      case True
      then show ?thesis using False fresh by (simp add: Let_def split_beta)
    next
      case other: False
      then have "lk pb \<noteq> lk (p, b)" using 2(2,4) by (force simp: image_iff)
      then show ?thesis using False other 2 by (auto simp: Let_def split_beta)
    qed
  qed
qed simp

text \<open>If a lot is touched, every lot before it is emptied.\<close>

lemma take_lots_order:
  assumes "distinct (map lk lots)" and "\<forall>pb \<in> set lots. 0 < remaining (fst pb)"
  shows "sorted_wrt (\<lambda>x y. lk y \<in> fst ` set (fst (take_lots lots need)) \<longrightarrow>
      total_for (lk x) (fst (take_lots lots need)) = remaining (fst x)) lots"
  using assms
proof (induction lots need rule: take_lots.induct)
  case (2 p b lots need)
  show ?case
  proof (cases "need \<le> 0")
    case True
    then show ?thesis by (simp add: sorted_wrt_true)
  next
    case False
    let ?q = "min (remaining p) need"
    let ?r = "take_lots lots (need - ?q)"
    have fresh: "lk (p, b) \<notin> fst ` set (fst ?r)"
      using 2(2) take_lots_keys [of lots] by (force simp: image_iff)
    have ih: "sorted_wrt (\<lambda>x y. lk y \<in> fst ` set (fst ?r) \<longrightarrow> total_for (lk x) (fst ?r) = remaining (fst x)) lots"
      using 2 False by simp
    have ne: "lk x \<noteq> lk (p, b)" if "x \<in> set lots" for x using 2(2) that by (force simp: image_iff)
    have t: "fst (take_lots ((p, b) # lots) need) = (lk (p, b), ?q) # fst ?r"
      using False by (simp add: Let_def split_beta)
    have head: "total_for (lk (p, b)) ((lk (p, b), ?q) # fst ?r) = remaining p"
      if "y \<in> set lots" "lk y \<in> fst ` set ((lk (p, b), ?q) # fst ?r)" for y
    proof -
      have "fst ?r \<noteq> []" using that ne [OF that(1)] by (auto simp del: prod.inject)
      then have "0 < need - ?q" using take_lots_nonpos [of "need - ?q" lots] by (metis fst_conv not_le)
      then show ?thesis using total_for_absent [OF fresh] by (auto simp: min_def split: if_splits)
    qed
    have "sorted_wrt (\<lambda>x y. lk y \<in> fst ` set ((lk (p, b), ?q) # fst ?r) \<longrightarrow>
        total_for (lk x) ((lk (p, b), ?q) # fst ?r) = remaining (fst x)) lots"
    proof (rule sorted_wrt_mono_rel [OF _ ih])
      fix x y assume x: "x \<in> set lots" and y: "y \<in> set lots"
        and i: "lk y \<in> fst ` set (fst ?r) \<longrightarrow> total_for (lk x) (fst ?r) = remaining (fst x)"
      have "total_for (lk x) ((lk (p, b), ?q) # fst ?r) = total_for (lk x) (fst ?r)"
        using ne [OF x] by (simp only: total_for_simps) metis
      then show "lk y \<in> fst ` set ((lk (p, b), ?q) # fst ?r) \<longrightarrow>
          total_for (lk x) ((lk (p, b), ?q) # fst ?r) = remaining (fst x)"
        using i ne [OF y] by (metis fst_conv image_insert insertE list.simps(15))
    qed
    then show ?thesis unfolding t sorted_wrt.simps using head by auto
  qed
qed simp

lemma sorted_wrt_before:
  assumes "sorted (map f xs)" and "sorted_wrt P xs" and "x \<in> set xs" and "y \<in> set xs" and "f x < f y"
  shows "P x y"
  using assms by (induction xs) auto

subsection \<open>Allocating\<close>

lemma choose_lots_Inr:
  assumes "choose_lots site now s db req = Inr chosen"
  shows "chosen = concat (map (\<lambda>(i, r). fst (take_lots (site_positions site i now s db) r)) req)"
    and "\<forall>x \<in> set req. snd (take_lots (site_positions site (fst x) now s db) (snd x)) \<le> 0"
  using assms
  by (induction req arbitrary: chosen)
     (fastforce simp: Let_def split_beta not_less split: if_splits)+

lemma choose_lots_iff:
  "(\<exists>chosen. choose_lots site now s db req = Inr chosen) \<longleftrightarrow>
     (\<forall>(i, r) \<in> set req. r \<le> usable_quantity site i now s db)"
proof (induction req)
  case (Cons e req)
  obtain i r where e: "e = (i, r)" by fastforce
  have "\<forall>pb \<in> set (site_positions site i now s db). 0 < remaining (fst pb)"
    by (auto simp: site_positions_iff dest: usable_remaining)
  from take_lots_missing [OF this, of r] Cons show ?case
    by (auto simp: e Let_def split_beta usable_quantity_def not_less)
qed simp

definition taken :: "(lot_key \<times> rat) list \<Rightarrow> lot_position \<Rightarrow> lot_position" where
  "taken chosen p = (if lot_key p \<in> fst ` set chosen
     then p\<lparr>lp_remaining := Some (remaining p - total_for (lot_key p) chosen)\<rparr> else p)"

lemma taken_key [simp]: "lot_key (taken chosen p) = lot_key p"
  by (simp add: taken_def lot_key_def)

lemma taken_remaining: "remaining (taken chosen p) = remaining p - total_for (lot_key p) chosen"
  by (simp add: taken_def remaining_def total_for_absent)

lemma taken_Cons: "taken rest (if lot_key p = k then p\<lparr>lp_remaining := Some (remaining p - q)\<rparr> else p) = taken ((k, q) # rest) p"
  by (auto simp: taken_def lot_key_def remaining_def total_for_absent)

definition allocation_of :: "lot_allocation \<Rightarrow> lot_key \<times> rat" where
  "allocation_of a = ((al_batch_id a, al_establishment_id a, al_ingredient_id a), al_quantity a)"

lemma allocate_lot_effect:
  assumes "allocate_lot site oid actor key now nid ((bid, site, ing), q) db = Inr db'"
  shows "si_positions db' = map (\<lambda>p. if lot_key p = (bid, site, ing) then p\<lparr>lp_remaining := Some (remaining p - q)\<rparr> else p)
      (si_positions db)"
    and "\<exists>a. si_allocations db' = si_allocations db @ [a] \<and> allocation_of a = ((bid, site, ing), q)
      \<and> al_order_id a = oid \<and> al_restored a = 0"
  using assms
  by (auto simp: allocate_lot_def add_site_movement_def upd_lot_def allocation_of_def Let_def split: if_splits)

lemma allocate_lots_effect:
  assumes "allocate_lots site oid actor key now nid chosen db = Inr db'"
    and "\<forall>kq \<in> set chosen. fst (snd (fst kq)) = site"
  shows "si_positions db' = map (taken chosen) (si_positions db)
    \<and> (\<exists>added. si_allocations db' = si_allocations db @ added \<and> map allocation_of added = chosen
        \<and> (\<forall>a \<in> set added. al_order_id a = oid \<and> al_restored a = 0))"
  using assms
proof (induction chosen arbitrary: nid db)
  case Nil
  then show ?case by (simp add: taken_def map_idI)
next
  case (Cons kq rest)
  obtain bid ing q where kq: "kq = ((bid, site, ing), q)" using Cons.prems(2) by (cases kq) auto
  obtain db1 where a: "allocate_lot site oid actor key now nid ((bid, site, ing), q) db = Inr db1"
    and l: "allocate_lots site oid actor key now (nid + 1) rest db1 = Inr db'" using Cons.prems(1) kq by auto
  note one = allocate_lot_effect [OF a]
  from one(2) obtain x where x: "si_allocations db1 = si_allocations db @ [x]" "allocation_of x = ((bid, site, ing), q)"
    "al_order_id x = oid" "al_restored x = 0" by blast
  from Cons.IH [OF l] Cons.prems(2) obtain added where r: "si_positions db' = map (taken rest) (si_positions db1)"
    "si_allocations db' = si_allocations db1 @ added" "map allocation_of added = rest"
    "\<forall>a \<in> set added. al_order_id a = oid \<and> al_restored a = 0" by auto
  have "si_positions db' = map (taken (kq # rest)) (si_positions db)"
    unfolding r(1) one(1) map_map by (rule map_cong [OF refl]) (simp add: taken_Cons kq)
  moreover have "si_allocations db' = si_allocations db @ (x # added)" "map allocation_of (x # added) = kq # rest"
    "\<forall>a \<in> set (x # added). al_order_id a = oid \<and> al_restored a = 0" using r x kq by simp_all
  ultimately show ?case by (intro conjI exI [of _ "x # added"])
qed

lemma concat_filter:
  assumes "distinct (map fst req)" and "(i, r) \<in> set req"
    and "\<And>j q e. (j, q) \<in> set req \<Longrightarrow> e \<in> set (f j q) \<Longrightarrow> g e = j"
  shows "filter (\<lambda>e. g e = i) (concat (map (\<lambda>(j, q). f j q) req)) = f i r"
  using assms
proof (induction req)
  case (Cons e req)
  obtain j q where e: "e = (j, q)" by fastforce
  have no: "filter (\<lambda>e. g e = i) (concat (map (\<lambda>(j, q). f j q) req)) = []" if "i \<notin> fst ` set req"
    using that Cons.prems(3) by (force simp: filter_empty_conv)
  show ?case
  proof (cases "j = i")
    case True
    then have "i \<notin> fst ` set req" "q = r" using Cons.prems(1,2) e by (auto simp: image_iff)
    moreover have "filter (\<lambda>e. g e = i) (f i r) = f i r" using Cons.prems(2,3) by (auto simp: filter_id_conv)
    ultimately show ?thesis using no e True by simp
  next
    case False
    then have "filter (\<lambda>e. g e = i) (f j q) = []" using Cons.prems(3) [of j q] e by (auto simp: filter_empty_conv)
    moreover have "filter (\<lambda>e. g e = i) (concat (map (\<lambda>(j, q). f j q) req)) = f i r"
      by (rule Cons.IH) (use Cons.prems False e in auto)
    ultimately show ?thesis using e by simp
  qed
qed simp

lemma concat_filter_absent:
  assumes "i \<notin> fst ` set req" and "\<And>j q e. (j, q) \<in> set req \<Longrightarrow> e \<in> set (f j q) \<Longrightarrow> g e = j"
  shows "filter (\<lambda>e. g e = i) (concat (map (\<lambda>(j, q). f j q) req)) = []"
  using assms by (force simp: filter_empty_conv)

lemma total_for_filter: "P k \<Longrightarrow> total_for k (filter (\<lambda>e. P (fst e)) xs) = total_for k xs"
  by (induction xs) auto

definition lot_use :: "lot_allocation list \<Rightarrow> lot_position \<Rightarrow> rat" where
  "lot_use added p = sum_list (map al_quantity (filter (\<lambda>a. fst (allocation_of a) = lot_key p) added))"

lemma lot_use_total: "lot_use added p = total_for (lot_key p) (map allocation_of added)"
  by (induction added) (auto simp: lot_use_def allocation_of_def)

definition required_for :: "int \<Rightarrow> (int \<times> rat) list \<Rightarrow> rat" where
  "required_for i req = (case map_of req i of None \<Rightarrow> 0 | Some r \<Rightarrow> r)"

lemma allocation_parts:
  assumes "allocate_order nid site oid actor key now orders items s db = Inr db'"
    and "\<not> list_ex (\<lambda>a. al_order_id a = oid) (si_allocations db)"
  obtains chosen added where "choose_lots site now s db (recipe_requirements s oid items) = Inr chosen"
    and "si_positions db' = map (taken chosen) (si_positions db)"
    and "si_allocations db' = si_allocations db @ added" and "map allocation_of added = chosen"
    and "\<forall>a \<in> set added. al_order_id a = oid \<and> al_restored a = 0"
proof -
  obtain chosen where c: "choose_lots site now s db (recipe_requirements s oid items) = Inr chosen"
    and l: "allocate_lots site oid actor key now nid chosen db = Inr db'"
    using assms by (auto simp: allocate_order_def split: if_splits)
  have "\<forall>kq \<in> set chosen. fst (snd (fst kq)) = site"
  proof
    fix kq assume "kq \<in> set chosen"
    then obtain i r where "kq \<in> set (fst (take_lots (site_positions site i now s db) r))"
      unfolding choose_lots_Inr(1) [OF c] by auto
    then have "fst kq \<in> lk ` set (site_positions site i now s db)" using take_lots_keys by blast
    then show "fst (snd (fst kq)) = site" by (auto simp: site_positions_iff)
  qed
  from allocate_lots_effect [OF l this] c that show ?thesis by blast
qed

lemma chosen_part:
  assumes c: "choose_lots site now s db (recipe_requirements s oid items) = Inr chosen"
  shows "filter (\<lambda>e. snd (snd (fst e)) = i) chosen =
    fst (take_lots (site_positions site i now s db) (required_for i (recipe_requirements s oid items)))"
proof -
  let ?req = "recipe_requirements s oid items"
  have d: "distinct (map fst ?req)" by (simp add: recipe_requirements_def distinct_dict_of)
  have g: "snd (snd (fst e)) = j" if "e \<in> set (fst (take_lots (site_positions site j now s db) q))" for j q e
  proof -
    have "fst e \<in> lk ` set (site_positions site j now s db)" using that take_lots_keys by blast
    then show ?thesis by (auto simp: site_positions_iff)
  qed
  let ?f = "\<lambda>i r. fst (take_lots (site_positions site i now s db) r)"
  show ?thesis
  proof (cases "i \<in> fst ` set ?req")
    case True
    then obtain r where r: "(i, r) \<in> set ?req" by force
    then have "required_for i ?req = r" using d by (simp add: required_for_def)
    then show ?thesis unfolding choose_lots_Inr(1) [OF c]
      using concat_filter [OF d r, of ?f "\<lambda>e. snd (snd (fst e))"] g by simp
  next
    case False
    then have "required_for i ?req = 0" by (metis map_of_eq_None_iff option.simps(4) required_for_def)
    then show ?thesis unfolding choose_lots_Inr(1) [OF c]
      using concat_filter_absent [OF False, of ?f "\<lambda>e. snd (snd (fst e))"] g by (simp add: take_lots_nonpos)
  qed
qed

lemma chosen_lot_use:
  assumes "choose_lots site now s db (recipe_requirements s oid items) = Inr chosen" and "map allocation_of added = chosen"
  shows "lot_use added p = total_for (lot_key p) (fst (take_lots (site_positions site (lp_ingredient_id p) now s db)
      (required_for (lp_ingredient_id p) (recipe_requirements s oid items))))"
  unfolding chosen_part [OF assms(1), symmetric] lot_use_total assms(2)
  by (rule total_for_filter [symmetric]) (simp add: lot_key_def)

lemma chosen_ingredient_sum:
  assumes c: "choose_lots site now s db (recipe_requirements s oid items) = Inr chosen"
    and a: "map allocation_of added = chosen"
  shows "sum_list (map al_quantity (filter (\<lambda>a. al_ingredient_id a = i) added)) =
    max 0 (required_for i (recipe_requirements s oid items))"
proof -
  have "map al_quantity (filter (\<lambda>a. al_ingredient_id a = i) added) =
      map snd (filter (\<lambda>e. snd (snd (fst e)) = i) (map allocation_of added))"
    by (induction added) (auto simp: allocation_of_def)
  moreover have "snd (take_lots (site_positions site i now s db) (required_for i (recipe_requirements s oid items))) \<le> 0"
  proof (cases "map_of (recipe_requirements s oid items) i")
    case None
    then show ?thesis by (simp add: required_for_def take_lots_nonpos)
  next
    case (Some r)
    then show ?thesis using choose_lots_Inr(2) [OF c] by (auto simp: required_for_def dest!: map_of_SomeD bspec)
  qed
  ultimately show ?thesis using take_lots_total chosen_part [OF c] a by metis
qed

lemma used_lot_usable:
  assumes u: "distinct (map lot_key (si_positions db))" and p: "p \<in> set (si_positions db)"
    and pos: "0 < total_for (lot_key p) (fst (take_lots (site_positions site (lp_ingredient_id p) now s db) r))"
  shows "lp_establishment_id p = site \<and> (\<exists>b. row_get bat_id (lp_batch_id p) (st_batches s) = Some b \<and> lot_usable p b now
      \<and> (p, b) \<in> set (site_positions site (lp_ingredient_id p) now s db))"
proof -
  have "lot_key p \<in> fst ` set (fst (take_lots (site_positions site (lp_ingredient_id p) now s db) r))"
    using pos total_for_absent by fastforce
  then obtain p' b where pb: "(p', b) \<in> set (site_positions site (lp_ingredient_id p) now s db)" "lot_key p = lk (p', b)"
    using take_lots_keys by (metis (no_types, lifting) imageE subsetD surj_pair)
  then have "lot_key p' = lot_key p" using site_positions_lk by fastforce
  moreover have "p' \<in> set (si_positions db)" using pb(1) by (simp add: site_positions_iff)
  ultimately have "p' = p" using u p by (metis distinct_map inj_on_eq_iff)
  then show ?thesis using pb(1) by (auto simp: site_positions_iff)
qed

subsection \<open>A concrete site\<close>

definition demo_lot :: "int \<Rightarrow> rat \<Rightarrow> lot_position" where
  "demo_lot bid q = \<lparr>lp_batch_id = bid, lp_establishment_id = 1, lp_ingredient_id = 1, lp_remaining = Some q,
      lp_revision = 1, lp_excluded_at = None, lp_excluded_by = None, lp_exclusion_reason = None\<rparr>"

definition demo_site :: site_db where
  "demo_site = \<lparr>si_stocks = [], si_positions = [demo_lot 11 8, demo_lot 12 1], si_allocations = [], si_movements = []\<rparr>"

definition demo_site_orders :: "order list" where
  "demo_site_orders = [(demo_order Confirmed)\<lparr>ord_establishment_id := Some 1\<rparr>]"

lemma demo_requirements: "recipe_requirements demo_stock 5 [demo_item 5 2] = [(1, 4)]"
  using demo_deltas [of 2] by (simp add: recipe_requirements_def items_of_order_def demo_item_def dict_of_def)

lemma demo_expiry: "effective_batch_expires_at (demo_batch bid i q e) = Some e"
  by (simp add: effective_batch_expires_at_def effective_batch_dlc_def batch_deadlines_def secondary_batch_expires_at_def
      tertiary_batch_expires_at_def delayed_def demo_batch_def)

lemma demo_lots: "site_positions 1 1 0 demo_stock demo_site =
    [(demo_lot 12 1, demo_batch 12 1 2 5), (demo_lot 11 8, demo_batch 11 1 8 100)]"
proof -
  have "lots_at 1 1 demo_stock demo_site =
      [(demo_lot 11 8, demo_batch 11 1 8 100), (demo_lot 12 1, demo_batch 12 1 2 5)]"
    by (simp add: lots_at_def demo_site_def demo_lot_def demo_stock_def row_simps) (simp add: demo_batch_def)
  then show ?thesis
    by (simp add: site_positions_def lot_usable_def demo_expiry deadline_key_def)
       (simp add: demo_lot_def demo_batch_def usable_status_def)
qed

lemma demo_text: "py_str_int 12 \<noteq> py_str_int 11"
  by (simp add: py_str_int_def nat_digits.simps)

lemma demo_allocation:
  "\<exists>db'. allocate_order 1 1 5 None None 0 demo_site_orders [demo_item 5 2] demo_stock demo_site = Inr db'
     \<and> map remaining (si_positions db') = [5, 0]"
  by (simp add: allocate_order_def demo_requirements demo_lots order_at_site_def demo_site_orders_def demo_order_def)
     (simp add: demo_site_def allocate_lot_def add_site_movement_def upd_lot_def demo_lot_def demo_batch_def
       lot_key_def remaining_def movement_key_def demo_text Let_def)

subsection \<open>Allocation\<close>

text \<open>C34. Lots are allocated first expired, first out: a successful allocation takes for every ingredient exactly what
  the recipes of the order need, only from lots of that establishment that are usable at that moment and never more
  than they hold; a lot is opened for the order only when every usable lot of the ingredient with an earlier
  deadline has been emptied.\<close>

theorem allocation_first_expired_first_out:
  assumes "allocate_order nid site oid actor key now orders items s db = Inr db'"
    and "\<not> list_ex (\<lambda>a. al_order_id a = oid) (si_allocations db)"
    and "distinct (map lot_key (si_positions db))"
  shows "\<exists>added. si_allocations db' = si_allocations db @ added
    \<and> (\<forall>i. sum_list (map al_quantity (filter (\<lambda>a. al_ingredient_id a = i) added)) =
          max 0 (required_for i (recipe_requirements s oid items)))
    \<and> map lot_key (si_positions db') = map lot_key (si_positions db)
    \<and> map remaining (si_positions db') = map (\<lambda>p. remaining p - lot_use added p) (si_positions db)
    \<and> (\<forall>p \<in> set (si_positions db). 0 < lot_use added p \<longrightarrow> lot_use added p \<le> remaining p
          \<and> lp_establishment_id p = site
          \<and> (\<exists>b. row_get bat_id (lp_batch_id p) (st_batches s) = Some b \<and> lot_usable p b now))
    \<and> (\<forall>i p b p2 b2. (p, b) \<in> set (site_positions site i now s db) \<longrightarrow>
          (p2, b2) \<in> set (site_positions site i now s db) \<longrightarrow> deadline_key (p, b) < deadline_key (p2, b2) \<longrightarrow>
          0 < lot_use added p2 \<longrightarrow> lot_use added p = remaining p)"
proof -
  obtain chosen added where c: "choose_lots site now s db (recipe_requirements s oid items) = Inr chosen"
    and ps: "si_positions db' = map (taken chosen) (si_positions db)"
    and al: "si_allocations db' = si_allocations db @ added" "map allocation_of added = chosen"
    using allocation_parts [OF assms(1,2)] by metis
  let ?lots = "\<lambda>i. site_positions site i now s db"
  let ?r = "\<lambda>i. required_for i (recipe_requirements s oid items)"
  have pos: "\<forall>pb \<in> set (?lots i). 0 < remaining (fst pb)" for i by (auto simp: site_positions_iff dest: usable_remaining)
  have dist: "distinct (map lk (?lots i))" for i by (rule site_positions_distinct [OF assms(3)])
  have use: "lot_use added p = total_for (lk (p, b)) (fst (take_lots (?lots i) (?r i)))" if "(p, b) \<in> set (?lots i)" for p b i
    using chosen_lot_use [OF c al(2), of p] site_positions_lk [OF that] that by (simp add: site_positions_iff)
  have bound: "lot_use added p \<le> remaining p \<and> lp_establishment_id p = site
      \<and> (\<exists>b. row_get bat_id (lp_batch_id p) (st_batches s) = Some b \<and> lot_usable p b now)"
    if p: "p \<in> set (si_positions db)" "0 < lot_use added p" for p
  proof -
    obtain b where b: "(p, b) \<in> set (?lots (lp_ingredient_id p))" "lp_establishment_id p = site"
      "row_get bat_id (lp_batch_id p) (st_batches s) = Some b" "lot_usable p b now"
      using used_lot_usable [OF assms(3) p(1)] p(2) chosen_lot_use [OF c al(2), of p] by metis
    have "lot_use added p \<le> remaining p"
      unfolding use [OF b(1)] using take_lots_bound [OF dist pos b(1)] by simp
    then show ?thesis using b by blast
  qed
  have fefo: "lot_use added p = remaining p"
    if "(p, b) \<in> set (?lots i)" "(p2, b2) \<in> set (?lots i)" "deadline_key (p, b) < deadline_key (p2, b2)"
      "0 < lot_use added p2" for i p b p2 b2
  proof -
    have "sorted (map deadline_key (?lots i))" by (simp add: site_positions_def)
    from sorted_wrt_before [OF this take_lots_order [OF dist pos] that(1,2,3), of "?r i"] that
    show ?thesis using use total_for_absent by (metis fst_conv less_irrefl)
  qed
  show ?thesis
  proof (intro exI [of _ added] conjI)
    show "\<forall>i. sum_list (map al_quantity (filter (\<lambda>a. al_ingredient_id a = i) added)) = max 0 (?r i)"
      using chosen_ingredient_sum [OF c al(2)] by simp
    show "map remaining (si_positions db') = map (\<lambda>p. remaining p - lot_use added p) (si_positions db)"
      by (simp add: ps comp_def taken_remaining lot_use_total al(2))
  qed (use al ps bound fefo in \<open>auto simp: comp_def\<close>)
qed

theorem allocation_first_expired_first_out_witness:
  "\<exists>db' added. allocate_order 1 1 5 None None 0 demo_site_orders [demo_item 5 2] demo_stock demo_site = Inr db'
     \<and> si_allocations db' = added \<and> sum_list (map al_quantity (filter (\<lambda>a. al_ingredient_id a = 1) added)) = 4
     \<and> map remaining (si_positions db') = [5, 0]"
proof -
  obtain db' where a: "allocate_order 1 1 5 None None 0 demo_site_orders [demo_item 5 2] demo_stock demo_site = Inr db'"
    and m: "map remaining (si_positions db') = [5, 0]" using demo_allocation by (elim exE conjE)
  have "\<exists>added. si_allocations db' = si_allocations demo_site @ added
      \<and> (\<forall>i. sum_list (map al_quantity (filter (\<lambda>a. al_ingredient_id a = i) added)) =
          max 0 (required_for i (recipe_requirements demo_stock 5 [demo_item 5 2])))"
  proof -
    have "\<not> list_ex (\<lambda>a. al_order_id a = 5) (si_allocations demo_site)" "distinct (map lot_key (si_positions demo_site))"
      by (simp_all add: demo_site_def lot_key_def demo_lot_def)
    from allocation_first_expired_first_out [OF a this] show ?thesis by blast
  qed
  then show ?thesis using a m by (auto simp: demo_site_def demo_requirements required_for_def)
qed

text \<open>An allocation fails for lack of stock exactly when it must: for an order of the establishment that has no
  allocation yet, the answer is \<open>SITE_STOCK_INSUFFICIENT\<close> if and only if some ingredient is needed in a larger
  quantity than the usable lots hold.\<close>

theorem allocation_refused_iff:
  assumes "order_at_site site oid orders" and "\<not> list_ex (\<lambda>a. al_order_id a = oid) (si_allocations db)"
  shows "allocate_order nid site oid actor key now orders items s db = Inl (AppError ''SITE_STOCK_INSUFFICIENT'' 409)
    \<longleftrightarrow> (\<exists>(i, r) \<in> set (recipe_requirements s oid items). usable_quantity site i now s db < r)"
proof -
  have err: "e = AppError ''SITE_STOCK_INSUFFICIENT'' 409" if "choose_lots site now s db req = Inl e" for e req
    using that by (induction req) (auto simp: Let_def rbind_eq_Inl split: if_splits prod.splits)
  have lots: "allocate_lots site oid actor key now k chosen d \<noteq> Inl (AppError c h)" for k chosen d c h
    by (induction chosen arbitrary: k d)
       (auto simp: rbind_eq_Inl allocate_lot_def add_site_movement_def Let_def split: if_splits prod.splits)
  have "allocate_order nid site oid actor key now orders items s db = Inl (AppError ''SITE_STOCK_INSUFFICIENT'' 409)
      \<longleftrightarrow> (\<exists>e. choose_lots site now s db (recipe_requirements s oid items) = Inl e)"
    using assms lots err by (auto simp: allocate_order_def rbind_eq_Inl)
  also have "\<dots> \<longleftrightarrow> \<not> (\<exists>chosen. choose_lots site now s db (recipe_requirements s oid items) = Inr chosen)"
    by (cases "choose_lots site now s db (recipe_requirements s oid items)") auto
  finally show ?thesis unfolding choose_lots_iff by (fastforce simp: not_le)
qed

theorem allocation_refused_iff_witness:
  "allocate_order 1 1 5 None None 6 demo_site_orders [demo_item 5 5] demo_stock demo_site =
     Inl (AppError ''SITE_STOCK_INSUFFICIENT'' 409)"
proof -
  have req: "recipe_requirements demo_stock 5 [demo_item 5 5] = [(1, 10)]"
    using demo_deltas [of 5] by (simp add: recipe_requirements_def items_of_order_def demo_item_def dict_of_def)
  have "lots_at 1 1 demo_stock demo_site =
      [(demo_lot 11 8, demo_batch 11 1 8 100), (demo_lot 12 1, demo_batch 12 1 2 5)]"
    by (simp add: lots_at_def demo_site_def demo_lot_def demo_stock_def row_simps) (simp add: demo_batch_def)
  then have "usable_quantity 1 1 6 demo_stock demo_site < 10"
    by (simp add: usable_quantity_def site_positions_def lot_usable_def demo_expiry deadline_key_def)
       (simp add: demo_lot_def demo_batch_def usable_status_def remaining_def)
  then show ?thesis
    using allocation_refused_iff [of 1 5 demo_site_orders demo_site]
    by (simp add: req order_at_site_def demo_site_orders_def demo_order_def demo_site_def)
qed

subsection \<open>Giving back\<close>

lemma restore_lot_allocations:
  assumes "restore_lot site oid actor now s a db = Inr db'"
  shows "si_allocations db' = (if al_quantity a \<le> al_restored a then si_allocations db
    else row_upd al_id (al_id a) (\<lambda>x. x\<lparr>al_restored := al_quantity x\<rparr>) (si_allocations db))"
  using assms
  by (auto simp: restore_lot_def add_site_movement_def upd_lot_def Let_def split: option.splits if_splits)

definition mark_returned :: "lot_allocation list \<Rightarrow> lot_allocation list \<Rightarrow> lot_allocation list" where
  "mark_returned done rows = map (\<lambda>x. if \<exists>a \<in> set done. al_id a = al_id x \<and> al_restored a < al_quantity a
     then x\<lparr>al_restored := al_quantity x\<rparr> else x) rows"

lemma restore_all_allocations:
  assumes "foldE (restore_lot site oid actor now s) todo db = Inr db'"
  shows "si_allocations db' = mark_returned todo (si_allocations db)"
  using assms
proof (induction todo arbitrary: db)
  case (Cons a todo)
  obtain db1 where r: "restore_lot site oid actor now s a db = Inr db1"
    and f: "foldE (restore_lot site oid actor now s) todo db1 = Inr db'" using Cons.prems by auto
  show ?case
    unfolding Cons.IH [OF f] restore_lot_allocations [OF r]
    by (auto simp: mark_returned_def row_upd_def)
qed (simp add: mark_returned_def)

text \<open>What an order took is given back at most once: after a successful restoration every allocation of the order
  at that establishment is fully returned, and restoring again, at any later time and by anybody, changes nothing.\<close>

theorem restore_happens_once:
  assumes r: "restore_order site oid actor now orders s db = Inr db'"
  shows "(\<forall>a \<in> set (si_allocations db'). al_order_id a = oid \<longrightarrow> al_establishment_id a = site \<longrightarrow>
      al_quantity a \<le> al_restored a)
    \<and> restore_order site oid actor' now' orders s' db' = Inr db'"
proof -
  let ?mine = "\<lambda>a. al_order_id a = oid \<and> al_establishment_id a = site"
  have "foldE (restore_lot site oid actor now s) (filter ?mine (si_allocations db)) db = Inr db'"
    and at: "order_at_site site oid orders"
    using r by (auto simp: restore_order_def split: if_splits)
  then have m: "si_allocations db' = mark_returned (filter ?mine (si_allocations db)) (si_allocations db)"
    by (simp add: restore_all_allocations)
  have full: "al_quantity a \<le> al_restored a" if "a \<in> set (si_allocations db')" "?mine a" for a
    using that by (auto simp: m mark_returned_def not_less split: if_splits)
  have "foldE (restore_lot site oid actor' now' s') todo db' = Inr db'"
    if "\<forall>a \<in> set todo. al_quantity a \<le> al_restored a" for todo
    using that by (induction todo) (auto simp: restore_lot_def Let_def)
  then show ?thesis using full at by (auto simp: restore_order_def)
qed

definition demo_returned_row :: lot_allocation where
  "demo_returned_row = \<lparr>al_id = 1, al_order_id = 5, al_establishment_id = 1, al_ingredient_id = 1, al_batch_id = 11,
     al_quantity = 3, al_restored = 1, al_allocated_by = None\<rparr>"

definition demo_returned :: site_db where
  "demo_returned = demo_site\<lparr>si_allocations := [demo_returned_row]\<rparr>"

theorem restore_happens_once_witness:
  "\<exists>db'. restore_order 1 5 None 0 demo_site_orders demo_stock demo_returned = Inr db'
     \<and> map remaining (si_positions db') = [10, 1]
     \<and> restore_order 1 5 (Some 3) 7 demo_site_orders demo_stock db' = Inr db'"
proof -
  have "lot_usable (demo_lot 11 8) (demo_batch 11 1 8 100) 0"
    by (simp add: lot_usable_def demo_expiry) (simp add: demo_lot_def demo_batch_def usable_status_def)
  moreover have "row_get bat_id 11 (st_batches demo_stock) = Some (demo_batch 11 1 8 100)"
    by (simp add: demo_stock_def row_simps) (simp add: demo_batch_def)
  moreover have "find_lot (11, 1, 1) demo_returned = Some (demo_lot 11 8)"
    by (simp add: find_lot_def demo_returned_def demo_site_def lot_key_def demo_lot_def)
  moreover have "order_at_site 1 5 demo_site_orders"
    by (simp add: order_at_site_def demo_site_orders_def demo_order_def)
  moreover have "si_allocations demo_returned = [demo_returned_row]" "si_movements demo_returned = []"
    "si_positions demo_returned = [demo_lot 11 8, demo_lot 12 1]"
    by (simp_all add: demo_returned_def demo_site_def)
  ultimately have "\<exists>db'. restore_order 1 5 None 0 demo_site_orders demo_stock demo_returned = Inr db'
      \<and> map remaining (si_positions db') = [10, 1]"
    by (simp add: restore_order_def restore_lot_def demo_returned_row_def add_site_movement_def upd_lot_def Let_def)
       (simp add: demo_lot_def lot_key_def remaining_def)
  then obtain db' where r: "restore_order 1 5 None 0 demo_site_orders demo_stock demo_returned = Inr db'"
    "map remaining (si_positions db') = [10, 1]" by (elim exE conjE)
  from restore_happens_once [OF r(1)] have "restore_order 1 5 (Some 3) 7 demo_site_orders demo_stock db' = Inr db'"
    by (rule conjunct2)
  with r show ?thesis by (intro exI conjI)
qed

text \<open>A lot that the order emptied is not given back: \<^verbatim>\<open>_usable\<close> asks for a positive remainder, so the returned quantity
  is booked as expired although the lot is still good.\<close>

lemma emptied_lot_is_not_restored:
  assumes "restore_lot site oid actor now s a db = Inr db'"
    and "find_lot (al_batch_id a, site, al_ingredient_id a) db = Some p" and "remaining p = 0"
  shows "si_positions db' = si_positions db
    \<and> (al_restored a < al_quantity a \<longrightarrow>
        (\<exists>m. si_movements db' = si_movements db @ [m] \<and> sm_delta m = al_quantity a - al_restored a
          \<and> sm_reason m = Returned_expired oid))"
proof -
  have "\<not> lot_usable p b now" for b using usable_remaining assms(3) by fastforce
  then show ?thesis
    using assms(1,2)
    by (auto simp: restore_lot_def add_site_movement_def Let_def split: option.splits if_splits)
qed

end
