(* ===== verification/Haccp_Props.thy ===== *)
theory Haccp_Props
  imports Haccp_Strict Site_Props
begin

text \<open>Properties of the strict hygiene workflow and of the order gate.\<close>

subsection \<open>Texts of keys\<close>

lemma nat_digits_nonempty [simp]: "nat_digits n \<noteq> []"
  by (subst nat_digits.simps) simp

lemma char_digit_inj:
  assumes "a < 10" and "b < 10" and "(char_of (48 + a :: nat) :: char) = char_of (48 + b)"
  shows "a = b"
proof -
  have "(of_char (char_of (48 + a) :: char) :: nat) = of_char (char_of (48 + b) :: char)" using assms(3) by (rule arg_cong)
  then show ?thesis using assms(1,2) by (simp only: of_char_of) simp
qed

lemma nat_digits_inj: "nat_digits m = nat_digits n \<Longrightarrow> m = n"
proof (induction m arbitrary: n rule: less_induct)
  case (less m)
  have d: "nat_digits k = (if k < 10 then [] else nat_digits (k div 10)) @ [char_of (48 + k mod 10)]" for k
    by (subst nat_digits.simps) simp
  have l: "m mod 10 = n mod 10" and p: "(if m < 10 then [] else nat_digits (m div 10)) = (if n < 10 then [] else nat_digits (n div 10))"
    using less.prems unfolding d [of m] d [of n] by (auto intro: char_digit_inj)
  show ?case
  proof (cases "m < 10")
    case True
    then have "n < 10" using p nat_digits_nonempty [of "n div 10"] by (cases "n < 10") (auto simp del: nat_digits_nonempty)
    then show ?thesis using l True by simp
  next
    case False
    then have "m div 10 = n div 10" using p by (intro less.IH) (auto split: if_splits)
    then show ?thesis using l by (metis mult_div_mod_eq)
  qed
qed

lemma nat_digits_no_minus: "hd (nat_digits n) \<noteq> CHR ''-''"
proof (induction n rule: nat_digits.induct)
  case (1 n)
  have c: "(char_of (48 + k) :: char) \<noteq> CHR ''-''" if "k < 10" for k :: nat
  proof
    assume "(char_of (48 + k) :: char) = CHR ''-''"
    then have "(of_char (char_of (48 + k) :: char) :: nat) = of_char (CHR ''-'')" by (rule arg_cong)
    then show False using that by (simp only: of_char_of) simp
  qed
  show ?case
    using 1 c [of n] by (subst nat_digits.simps) (auto simp: hd_append)
qed

lemma py_str_int_inj: "py_str_int a = py_str_int b \<Longrightarrow> a = b"
proof -
  assume eq: "py_str_int a = py_str_int b"
  have "hd (py_str_int x) = CHR ''-'' \<longleftrightarrow> x < 0" for x
    using nat_digits_no_minus [of "nat x"] by (simp add: py_str_int_def)
  then have "a < 0 \<longleftrightarrow> b < 0" using eq by metis
  then show ?thesis using eq nat_digits_inj [of "nat a" "nat b"] nat_digits_inj [of "nat (- a)" "nat (- b)"]
    by (auto simp: py_str_int_def split: if_splits)
qed

subsection \<open>The keys of a checklist are distinct\<close>

lemma distinct_concat_single:
  assumes "distinct (map g xs)" and "\<And>x y. x \<in> set xs \<Longrightarrow> y \<in> set (f x) \<Longrightarrow> k y = F (g x)"
    and "\<And>x. x \<in> set xs \<Longrightarrow> length (f x) \<le> 1" and "\<And>a b. F a = F b \<Longrightarrow> a = b"
  shows "distinct (map k (concat (map f xs)))"
  using assms(1-3)
proof (induction xs)
  case (Cons x xs)
  have "distinct (map k (f x))" using Cons.prems(3) [of x] by (cases "f x") auto
  moreover have "k ` set (f x) \<inter> k ` set (concat (map f xs)) = {}"
  proof -
    have "k y \<noteq> k z" if "y \<in> set (f x)" "x' \<in> set xs" "z \<in> set (f x')" for y z x'
      using that Cons.prems(1,2) assms(4) by (metis (no_types, lifting) distinct.simps(2) image_eqI list.set_intros(1)
          list.set_intros(2) list.simps(9) set_map)
    then show ?thesis by auto
  qed
  ultimately show ?case using Cons by simp
qed simp

definition haccp_keys_ok :: "haccp_db \<Rightarrow> site_db \<Rightarrow> bool" where
  "haccp_keys_ok h db \<longleftrightarrow> distinct (map eq_id (hd_equipment h)) \<and> distinct (map ct_id (hd_tasks h))
     \<and> distinct (map cs_task_id (hd_task_scopes h))
     \<and> distinct (map (\<lambda>e. (es_establishment_id e, es_ingredient_id e)) (si_stocks db))"

lemma site_tasks_distinct:
  assumes "haccp_keys_ok h db"
  shows "distinct (map (\<lambda>tc. ct_id (fst tc)) (site_tasks site h))"
  unfolding site_tasks_def
proof (rule distinct_concat_single [where F = id and g = ct_id])
  show "distinct (map ct_id (sort_key ct_id (filter ct_active (hd_tasks h))))"
    using assms by (simp add: haccp_keys_ok_def distinct_map inj_on_def)
  fix t
  have "distinct (map cs_task_id (hd_task_scopes h))" using assms by (simp add: haccp_keys_ok_def)
  then have "length (filter (\<lambda>c. cs_task_id c = ct_id t \<and> cs_establishment_id c = site) (hd_task_scopes h)) \<le> 1"
  proof (induction "hd_task_scopes h" arbitrary: h)
    case (Cons c cs)
    have "filter (\<lambda>c. cs_task_id c = ct_id t \<and> cs_establishment_id c = site) cs = []" if "cs_task_id c = ct_id t"
      using Cons.prems Cons.hyps(2) [symmetric] that by (auto simp: filter_empty_conv image_iff)
    moreover have "length (filter (\<lambda>c. cs_task_id c = ct_id t \<and> cs_establishment_id c = site) cs) \<le> 1"
      using Cons.hyps(1) [of "h\<lparr>hd_task_scopes := cs\<rparr>"] Cons.prems Cons.hyps(2) [symmetric] by simp
    ultimately show ?case using Cons.hyps(2) [symmetric] by auto
  qed simp
  then show "length (map (Pair t) (filter (\<lambda>c. cs_task_id c = ct_id t \<and> cs_establishment_id c = site) (hd_task_scopes h))) \<le> 1"
    by simp
qed auto

lemma site_stocks_distinct:
  assumes "haccp_keys_ok h db"
  shows "distinct (map (\<lambda>ei. ing_id (snd ei)) (site_stocks site s db))"
proof -
  define f where "f e = (if es_establishment_id e = site
        then (case get_ingredient (es_ingredient_id e) s of None \<Rightarrow> [] | Some i \<Rightarrow> [(e, i)]) else [])" for e :: site_stock
  have f: "fst x = e \<and> es_establishment_id e = site \<and> ing_id (snd x) = es_ingredient_id e" if "x \<in> set (f e)" for e x
  proof (cases "get_ingredient (es_ingredient_id e) s")
    case None
    then show ?thesis using that by (cases "es_establishment_id e = site") (simp_all add: f_def)
  next
    case (Some i)
    then have "ing_id i = es_ingredient_id e" using row_get_SomeD by fast
    then show ?thesis using that Some by (cases "es_establishment_id e = site") (simp_all add: f_def)
  qed
  have f1: "length (f e) \<le> 1" for e by (simp add: f_def split: option.split)
  have "distinct (map (\<lambda>ei. (es_establishment_id (fst ei), ing_id (snd ei))) (concat (map f (si_stocks db))))"
    by (rule distinct_concat_single [where F = id and g = "\<lambda>e. (es_establishment_id e, es_ingredient_id e)"])
       (use assms f f1 in \<open>auto simp: haccp_keys_ok_def\<close>)
  moreover have "\<forall>ei \<in> set (concat (map f (si_stocks db))). es_establishment_id (fst ei) = site" using f by auto
  ultimately have "distinct (map (\<lambda>ei. ing_id (snd ei)) (concat (map f (si_stocks db))))"
    by (simp only: distinct_map inj_on_def) (metis prod.collapse)
  then show ?thesis unfolding site_stocks_def by (simp add: distinct_map f_def [abs_def])
qed

lemma task_item_key: "i \<in> set (task_item site d h tc) \<Longrightarrow> ci_key i = ''task:'' @ py_str_int (ct_id (fst tc))"
  by (auto simp: task_item_def Let_def split: prod.splits if_splits option.splits)

lemma task_item_single: "length (task_item site d h tc) \<le> 1"
  by (auto simp: task_item_def Let_def split: prod.splits option.splits)

lemma build_keys_distinct:
  assumes ok: "haccp_keys_ok h db"
  shows "distinct (map ci_key (fst (build site d kind now h s db)))"
proof -
  let ?e = "map equipment_item (filter (checked_at kind) (site_equipment site h))"
  let ?t = "concat (map (task_item site d h) (filter (\<lambda>tc. task_in_session kind (fst tc)) (site_tasks site h)))"
  let ?s = "map (stock_item site now s db) (site_stocks site s db)"
  have e: "ci_key (equipment_item x) = ''equipment:'' @ py_str_int (eq_id x)" for x by (simp add: equipment_item_def)
  have st: "ci_key (stock_item site now s db x) = ''ingredient:'' @ py_str_int (ing_id (snd x))" for x
    by (simp add: stock_item_def Let_def split: prod.splits)
  have "distinct (map eq_id (filter (checked_at kind) (site_equipment site h)))"
    using ok by (auto simp: haccp_keys_ok_def site_equipment_def distinct_map inj_on_def)
  then have 1: "distinct (map ci_key ?e)" by (simp add: e distinct_map inj_on_def) (metis py_str_int_inj)
  have 2: "distinct (map ci_key ?t)"
    by (rule distinct_concat_single [where F = "\<lambda>n. ''task:'' @ py_str_int n" and g = "\<lambda>tc. ct_id (fst tc)"])
       (use site_tasks_distinct [OF ok, of site] task_item_key task_item_single py_str_int_inj
        in \<open>auto simp: distinct_map inj_on_def\<close>)
  have 3: "distinct (map ci_key ?s)"
    using site_stocks_distinct [OF ok, of site s] by (simp add: st distinct_map inj_on_def) (metis py_str_int_inj)
  show ?thesis
    using 1 2 3 by (auto simp: build_def Let_def e st dest!: task_item_key)
qed

subsection \<open>A concrete establishment\<close>

definition demo_place :: establishment where
  "demo_place = \<lparr>est_id = 1, est_name = ''Centre'', est_timezone = ''UTC'', est_active = True, est_latitude = None,
      est_longitude = None\<rparr>"

definition demo_henv :: haccp_env where
  "demo_henv = \<lparr>he_now = 0, he_local = (\<lambda>_ _. Some (10, 0)), he_wall = (\<lambda>_ d t. Some (d * day_us + t)), he_rank = (\<lambda>_. 0)\<rparr>"

definition demo_boss :: haccp_user where
  "demo_boss = \<lparr>hu_id = 3, hu_role = ''admin'', hu_impersonation = False, hu_permissions = []\<rparr>"

definition demo_session :: "int \<Rightarrow> session_kind \<Rightarrow> session_status \<Rightarrow> daily_session" where
  "demo_session k kind st = \<lparr>ses_id = k, ses_establishment_id = 1, ses_date = 10, ses_timezone = ''UTC'', ses_kind = kind,
      ses_status = st, ses_revision = 1, ses_validated_by = None, ses_validated_at = None\<rparr>"

definition demo_fridge :: equipment where
  "demo_fridge = \<lparr>eq_id = 1, eq_name = ''fridge'', eq_min = Some 0, eq_max = Some 4, eq_at_opening = True,
      eq_at_closing = True, eq_active = True\<rparr>"

definition demo_mop :: cleaning_task where
  "demo_mop = \<lparr>ct_id = 1, ct_name = ''floor'', ct_zone = ''kitchen'', ct_frequency = Daily, ct_session = Task_both,
      ct_product = None, ct_required_role = ''staff'', ct_active = True\<rparr>"

definition demo_mop_item :: checklist_item where
  "demo_mop_item = \<lparr>ci_key = ''task:'' @ py_str_int 1, ci_kind = Cleaning, ci_target_id = 1,
      ci_snapshot = task_snapshot demo_mop 10, ci_problems = []\<rparr>"

definition demo_larder :: stock_db where
  "demo_larder = demo_stock\<lparr>st_ingredients := [demo_ingredient 1 ''flour'' 9]\<rparr>"

definition demo_holding :: site_stock where
  "demo_holding = \<lparr>es_establishment_id = 1, es_ingredient_id = 1, es_physical = 9, es_revision = 1,
      es_reconciled_at = Some 0, es_reconciled_by = Some 3\<rparr>"

definition demo_cellar :: site_db where
  "demo_cellar = demo_site\<lparr>si_stocks := [demo_holding]\<rparr>"

definition demo_stock_item :: checklist_item where
  "demo_stock_item = stock_item 1 0 demo_larder demo_cellar (demo_holding, demo_ingredient 1 ''flour'' 9)"

definition demo_proof :: "int \<Rightarrow> evidence_value \<Rightarrow> evidence" where
  "demo_proof k v = \<lparr>ev_id = k, ev_establishment_id = 1, ev_session_id = 2, ev_requirement_id = ei_requirement_id v,
      ev_key = (''k'', ei_requirement_id v), ev_compliant = True, ev_payload = v, ev_recorded_by = 3, ev_recorded_at = 0\<rparr>"

abbreviation demo_confirm_value :: "int \<Rightarrow> evidence_value" where
  "demo_confirm_value k \<equiv> \<lparr>ei_requirement_id = k, ei_temperature = None, ei_confirmed = Some True, ei_corrective = None\<rparr>"

definition demo_measure :: evidence_value where
  "demo_measure = \<lparr>ei_requirement_id = 1, ei_temperature = Some 3, ei_confirmed = None, ei_corrective = None\<rparr>"

definition demo_haccp :: haccp_db where
  "demo_haccp = \<lparr>hd_operations = [\<lparr>ops_establishment_id = 1, ops_strict = True, ops_activated_at = Some 0\<rparr>], hd_hours = [],
      hd_closures = [], hd_equipment = [demo_fridge], hd_equipment_scopes = [(1, 1)], hd_tasks = [demo_mop],
      hd_task_scopes = [\<lparr>cs_task_id = 1, cs_establishment_id = 1, cs_due_from = None\<rparr>], hd_staff_scopes = [],
      hd_sessions = [demo_session 1 Opening Complete, demo_session 2 Closing In_progress],
      hd_requirements = [new_requirement (demo_session 2 Closing In_progress) 1 (equipment_item demo_fridge),
        new_requirement (demo_session 2 Closing In_progress) 2 demo_mop_item,
        new_requirement (demo_session 2 Closing In_progress) 3 demo_stock_item],
      hd_requirement_batches = [],
      hd_evidence = [demo_proof 1 demo_measure, demo_proof 2 (demo_confirm_value 2), demo_proof 3 (demo_confirm_value 3)],
      hd_regularizations = [], hd_audits = []\<rparr>"

definition demo_body :: "evidence_value list \<Rightarrow> strict_body" where
  "demo_body vs = \<lparr>sb_expected_revision = 1, sb_key = ''k1'', sb_items = vs, sb_reason = [], sb_actions = []\<rparr>"

lemma demo_cellar_lots: "sort_key (\<lambda>pb. bat_id (snd pb)) (lots_at 1 1 demo_larder demo_cellar) =
    [(demo_lot 11 8, demo_batch 11 1 8 100), (demo_lot 12 1, demo_batch 12 1 2 5)]"
proof -
  have "lots_at 1 1 demo_larder demo_cellar = [(demo_lot 11 8, demo_batch 11 1 8 100), (demo_lot 12 1, demo_batch 12 1 2 5)]"
    by (simp add: lots_at_def demo_cellar_def demo_site_def demo_lot_def demo_larder_def demo_stock_def row_simps)
       (simp add: demo_batch_def)
  then show ?thesis by (simp add: demo_batch_def)
qed

lemma demo_stock_item_fields:
  "ci_key demo_stock_item = ''ingredient:'' @ py_str_int 1" "ci_kind demo_stock_item = Dlc" "ci_problems demo_stock_item = []"
  "ci_target_id demo_stock_item = 1"
proof -
  have "lot_problems 0 (demo_lot 11 8, demo_batch 11 1 8 100) = []" "lot_problems 0 (demo_lot 12 1, demo_batch 12 1 2 5) = []"
    by (simp_all add: lot_problems_def demo_expiry) (simp_all add: demo_lot_def demo_batch_def)
  then show "ci_key demo_stock_item = ''ingredient:'' @ py_str_int 1" "ci_kind demo_stock_item = Dlc"
    "ci_problems demo_stock_item = []" "ci_target_id demo_stock_item = 1"
    by (simp_all add: demo_stock_item_def stock_item_def demo_ingredient_def demo_cellar_lots demo_holding_def Let_def)
       (simp add: demo_lot_def remaining_def)
qed

lemma demo_build: "build 1 10 Closing 0 demo_haccp demo_larder demo_cellar =
    ([equipment_item demo_fridge, demo_mop_item, demo_stock_item], [])"
proof -
  have "site_equipment 1 demo_haccp = [demo_fridge]"
    by (simp add: site_equipment_def demo_haccp_def demo_fridge_def)
  moreover have "checked_at Closing demo_fridge" by (simp add: checked_at_def demo_fridge_def)
  moreover have "site_tasks 1 demo_haccp = [(demo_mop, \<lparr>cs_task_id = 1, cs_establishment_id = 1, cs_due_from = None\<rparr>)]"
    by (simp add: site_tasks_def demo_haccp_def demo_mop_def)
  moreover have "task_in_session Closing demo_mop" by (simp add: task_in_session_def demo_mop_def)
  moreover have "task_item 1 10 demo_haccp (demo_mop, c) = [demo_mop_item]" for c
    by (simp add: task_item_def demo_mop_item_def Let_def) (simp add: demo_mop_def)
  moreover have "site_stocks 1 demo_larder demo_cellar = [(demo_holding, demo_ingredient 1 ''flour'' 9)]"
    by (simp add: site_stocks_def demo_cellar_def demo_holding_def demo_larder_def demo_ingredient_def row_simps)
  moreover have "\<not> unassigned_equipment demo_haccp" "\<not> unassigned_task demo_haccp" "\<not> unassigned_ingredient demo_larder demo_cellar"
    by (simp_all add: unassigned_equipment_def unassigned_task_def unassigned_ingredient_def demo_haccp_def demo_fridge_def
        demo_mop_def demo_larder_def demo_ingredient_def demo_cellar_def demo_holding_def)
  ultimately show ?thesis by (simp add: build_def Let_def demo_stock_item_def)
qed

subsection \<open>The order gate\<close>

lemma site_limit_None:
  "site_limit site now s db req = None \<longleftrightarrow>
     (\<forall>(i, r) \<in> set req. get_ingredient i s \<noteq> None \<and> r \<le> usable_quantity site i now s db)"
proof (induction req)
  case (Cons e req)
  obtain i r where e: "e = (i, r)" by fastforce
  show ?case
  proof (cases "get_ingredient i s")
    case (Some ing)
    then show ?thesis using Cons.IH by (cases "usable_quantity site i now s db < r") (auto simp: e not_less)
  qed (simp add: e)
qed simp

lemma dict_set_get: "map_of (dict_set a v d) k = (if k = a then Some v else map_of d k)"
  by (induction a v d rule: dict_set.induct) auto

lemma dict_fold_get:
  "map_of (fold (\<lambda>k d. dict_set k (f k) d) ks d) k = (if k \<in> set ks then Some (f k) else map_of d k)"
  by (induction ks arbitrary: d) (auto simp: dict_set_get)

lemma site_availability_all:
  assumes "\<not> list_ex (\<lambda>pa. \<not> sa_available (snd pa)) (site_product_availability site pids now s db)" and "pid \<in> set pids"
  shows "site_limit site now s db (site_requirements s pid) = None"
proof -
  have "map_of (site_product_availability site pids now s db) pid = Some (site_availability_of site now s db pid)"
    unfolding site_product_availability_def using assms(2) by (simp add: dict_fold_get)
  then have "(pid, site_availability_of site now s db pid) \<in> set (site_product_availability site pids now s db)"
    by (rule map_of_SomeD)
  then show ?thesis using assms(1) by (auto simp: list_ex_iff site_availability_of_def Let_def)
qed

lemma decision_satisfied:
  assumes "decision env site s db h = Inr hc" and "hc_satisfied hc"
  shows "\<exists>d t w. he_local env (est_timezone site) (he_now env) = Some (d, t) \<and> daily (est_id site) d Opening h = Some w
    \<and> ses_status w = Complete
    \<and> (\<forall>c. daily (est_id site) d Closing h = Some c \<longrightarrow> ses_status c = In_progress)
    \<and> missing_closings (est_id site) d h = []"
proof -
  obtain d t where l: "he_local env (est_timezone site) (he_now env) = Some (d, t)"
    using assms(1) by (auto simp: decision_def local_now_def split: option.splits)
  note g = assms [unfolded decision_def local_now_def l option.case rbind_simps Let_def fst_conv]
  have m: "missing_closings (est_id site) d h = []" using g by auto
  obtain w where w: "daily (est_id site) d Opening h = Some w" "ses_status w = Complete"
    using g by (cases "daily (est_id site) d Opening h") (auto split: if_splits)
  have c: "ses_status c = In_progress" if "daily (est_id site) d Closing h = Some c" for c
    using g that by (cases "ses_status c") auto
  show ?thesis using l w c m by blast
qed

text \<open>No order without hygiene: where strict mode is on, the gate lets an order through only if the opening control
  of the current local day has been validated, that day is not closed yet, no earlier closing was forgotten, and
  every ingredient that one unit of each ordered product may need is on the premises in usable lots.\<close>

theorem strict_gate_is_sound:
  assumes "enforce_ordering env site_id pids sites s db h = Inr ()"
    and "row_get ops_establishment_id site_id (hd_operations h) = Some c" and "ops_strict c"
  shows "\<exists>site d t w. site \<in> set sites \<and> est_id site = site_id \<and> est_active site
    \<and> he_local env (est_timezone site) (he_now env) = Some (d, t)
    \<and> daily site_id d Opening h = Some w \<and> ses_status w = Complete
    \<and> (\<forall>w'. daily site_id d Closing h = Some w' \<longrightarrow> ses_status w' = In_progress)
    \<and> missing_closings site_id d h = []
    \<and> (\<forall>pid \<in> set pids. \<forall>(i, r) \<in> set (site_requirements s pid).
          get_ingredient i s \<noteq> None \<and> r \<le> usable_quantity site_id i (he_now env) s db)"
proof -
  obtain site where f: "find (\<lambda>e. est_id e = site_id \<and> est_active e) sites = Some site"
    using assms(1) by (auto simp: enforce_ordering_def split: option.splits)
  then have site: "site \<in> set sites" "est_id site = site_id" "est_active site" by (auto simp: find_Some_iff)
  obtain hc where d: "decision env site s db h = Inr hc" "hc_satisfied hc"
    and a: "\<not> list_ex (\<lambda>pa. \<not> sa_available (snd pa)) (site_product_availability site_id pids (he_now env) s db)"
    using assms by (auto simp: enforce_ordering_def f split: if_splits)
  have "\<forall>pid \<in> set pids. \<forall>(i, r) \<in> set (site_requirements s pid).
          get_ingredient i s \<noteq> None \<and> r \<le> usable_quantity site_id i (he_now env) s db"
    using site_availability_all [OF a] unfolding site_limit_None by blast
  then show ?thesis using decision_satisfied [OF d] site by blast
qed

lemma demo_gate: "enforce_ordering demo_henv 1 [7] [demo_place] demo_stock demo_site demo_haccp = Inr ()"
proof -
  have d: "\<exists>hc. decision demo_henv demo_place demo_stock demo_site demo_haccp = Inr hc \<and> hc_satisfied hc"
    by (simp add: decision_def local_now_def demo_henv_def demo_place_def missing_closings_def daily_def demo_haccp_def
        demo_session_def row_simps Let_def)
  have u: "usable_quantity 1 1 0 demo_stock demo_site = 9"
    by (simp add: usable_quantity_def demo_lots) (simp add: demo_lot_def remaining_def)
  have r: "site_requirements demo_stock 7 = [(1, 2)]"
    by (simp add: site_requirements_def demo_stock_def demo_catalog_def dict_of_def)
  have "site_limit 1 0 demo_stock demo_site (site_requirements demo_stock 7) = None"
    by (simp add: r u demo_flour)
  then have "\<not> list_ex (\<lambda>pa. \<not> sa_available (snd pa)) (site_product_availability 1 [7] (he_now demo_henv) demo_stock demo_site)"
    by (simp add: site_product_availability_def site_availability_of_def demo_henv_def)
  then show ?thesis
    using d by (auto simp: enforce_ordering_def demo_place_def demo_haccp_def row_simps)
qed

theorem strict_gate_is_sound_witness:
  "enforce_ordering demo_henv 1 [7] [demo_place] demo_stock demo_site demo_haccp = Inr ()
     \<and> (\<exists>w. daily 1 10 Opening demo_haccp = Some w \<and> ses_status w = Complete)"
proof -
  have "row_get ops_establishment_id 1 (hd_operations demo_haccp) =
      Some \<lparr>ops_establishment_id = 1, ops_strict = True, ops_activated_at = Some 0\<rparr>"
    by (simp add: demo_haccp_def row_simps)
  from strict_gate_is_sound [OF demo_gate this] demo_gate show ?thesis by (auto simp: demo_henv_def)
qed

subsection \<open>Validation\<close>

lemma same_dict_get: "same_dict xs ys \<Longrightarrow> k \<in> fst ` set ys \<Longrightarrow> map_of (rev xs) k = map_of (rev ys) k"
  by (auto simp: same_dict_def list_all_iff)

lemma evaluate_clear:
  assumes "rep_blockers (evaluate env site w True h s db) = []"
  defines "expected \<equiv> fst (build (est_id site) (ses_date w) (ses_kind w) (he_now env) h s db)"
  shows "\<not> is_stale env site w expected h" and "day_blockers site w h = []"
    and "r \<in> set (requirements env w h) \<Longrightarrow> rpi_blockers (evaluate_item expected h r) = []"
    and "snd (build (est_id site) (ses_date w) (ses_kind w) (he_now env) h s db) = []"
    and "unresolved w expected h = []"
  using assms(1) unfolding expected_def
  by (auto simp: evaluate_def Let_def split_beta split: if_splits)

lemma item_clear:
  assumes "rpi_blockers (evaluate_item expected h r) = []"
  shows "expected_problems (rq_key r) expected = [] \<and> (\<exists>e. latest_evidence (rq_id r) h = Some e \<and> ev_compliant e)"
  using assms by (cases "latest_evidence (rq_id r) h") (auto simp: evaluate_item_def Let_def split: if_splits)

lemma evaluate_status [simp]: "rep_status (evaluate env site w live h s db) = ses_status w"
  by (simp add: evaluate_def Let_def split_beta)

lemma dict_set_values: "snd ` set (dict_set k v d) \<subseteq> insert v (snd ` set d)"
  by (induction k v d rule: dict_set.induct) auto

lemma dict_fold_values: "snd ` set (fold (\<lambda>r d. dict_set (g r) e d) rs d) \<subseteq> insert e (snd ` set d)"
proof (induction rs arbitrary: d)
  case (Cons r rs)
  have "snd ` set (fold (\<lambda>r d. dict_set (g r) e d) rs (dict_set (g r) e d)) \<subseteq> insert e (snd ` set (dict_set (g r) e d))"
    by (rule Cons.IH)
  then show ?case using dict_set_values [of "g r" e d] by auto
qed auto

lemma latest_by_key_in:
  assumes "ke \<in> set (latest_by_key w h)"
  shows "snd ke \<in> set (hd_evidence h)"
proof -
  let ?step = "\<lambda>e. fold (\<lambda>r d. dict_set (rq_key r) e d)
      (filter (\<lambda>r. rq_id r = ev_requirement_id e \<and> rq_session_id r = ses_id w) (hd_requirements h))"
  have "snd ` set (fold ?step es d) \<subseteq> set es \<union> snd ` set d" for es d
  proof (induction es arbitrary: d)
    case (Cons e es)
    have one: "snd ` set (?step e d) \<subseteq> insert e (snd ` set d)" by (rule dict_fold_values)
    have "snd ` set (fold ?step (e # es) d) \<subseteq> set es \<union> snd ` set (?step e d)" using Cons.IH [of "?step e d"] by simp
    also have "\<dots> \<subseteq> set es \<union> insert e (snd ` set d)" using one by (rule Un_mono [OF order_refl])
    finally show ?case by simp
  qed simp
  from this [of "sort_key ev_id (hd_evidence h)" "[]"] assms show ?thesis by (auto simp: latest_by_key_def)
qed

text \<open>C33. Only a proved session is validated: when \<^verbatim>\<open>complete\<close> turns a session into a complete one, every item of the
  checklist built from the live data at that moment is a requirement of the current revision with the same snapshot,
  its newest evidence is compliant and nothing automatic speaks against it (no expired, unknown or unreconciled
  lot, no unconfigured equipment), no general blocker exists, and for an opening no earlier closing is missing.\<close>

theorem validated_session_is_proved:
  assumes "complete env site w body u s db h = Inr (Report_result rep, h')" and "rep_status rep = Complete"
    and "replay w u ''session_completed'' body h = Inr None" and "haccp_keys_ok h db"
  defines "checklist \<equiv> build (est_id site) (ses_date w) (ses_kind w) (he_now env) h s db"
  shows "(\<forall>i \<in> set (fst checklist). ci_problems i = []
        \<and> (\<exists>r \<in> set (requirements env w h). rq_key r = ci_key i \<and> rq_snapshot r = ci_snapshot i
            \<and> (\<exists>e. latest_evidence (rq_id r) h = Some e \<and> ev_compliant e)))
    \<and> snd checklist = []
    \<and> (ses_kind w = Opening \<longrightarrow> missing_closings (est_id site) (ses_date w) h = [])"
proof -
  obtain rep0 where cw: "current_write env site w (sb_expected_revision body) s db h = Inr rep0"
    and fin: "rep_can_validate rep0 \<or> rep = rep0"
    using assms(1,3) by (auto simp: complete_def Let_def split: if_splits)
  have rep0: "rep0 = evaluate env site w True h s db" and ip: "ses_status w = In_progress"
    using cw by (auto simp: current_write_def Let_def split: if_splits)
  have "rep_can_validate rep0"
    using fin assms(2) ip by (auto simp: rep0 evaluate_def Let_def split_beta)
  then have clear: "rep_blockers (evaluate env site w True h s db) = []"
    by (simp add: rep0 evaluate_def Let_def split_beta)
  note cl = evaluate_clear [OF clear, folded checklist_def]
  have dist: "distinct (map ci_key (fst checklist))" unfolding checklist_def by (rule build_keys_distinct [OF assms(4)])
  have "ci_problems i = [] \<and> (\<exists>r \<in> set (requirements env w h). rq_key r = ci_key i \<and> rq_snapshot r = ci_snapshot i
            \<and> (\<exists>e. latest_evidence (rq_id r) h = Some e \<and> ev_compliant e))" if i: "i \<in> set (fst checklist)" for i
  proof -
    have sig: "map_of (rev (signatures (fst checklist))) (ci_key i) = Some (ci_snapshot i)"
      using i dist by (intro map_of_is_SomeI) (auto simp: signatures_def rev_map comp_def image_iff distinct_map)
    have prob: "expected_problems (ci_key i) (fst checklist) = ci_problems i"
    proof -
      have "map_of (rev (map (\<lambda>i. (ci_key i, i)) (fst checklist))) (ci_key i) = Some i"
        using i dist by (intro map_of_is_SomeI) (auto simp: rev_map comp_def image_iff distinct_map)
      then show ?thesis by (simp add: expected_problems_def)
    qed
    have "same_dict (stored_signatures (requirements env w h)) (signatures (fst checklist))"
      using cl(1) by (simp add: is_stale_def)
    then have "map_of (rev (stored_signatures (requirements env w h))) (ci_key i) = Some (ci_snapshot i)"
      using same_dict_get [of _ "signatures (fst checklist)" "ci_key i"] i sig by (auto simp: signatures_def image_iff)
    then obtain r where r: "r \<in> set (requirements env w h)" "rq_key r = ci_key i" "rq_snapshot r = ci_snapshot i"
      by (auto simp: stored_signatures_def dest!: map_of_SomeD)
    then show ?thesis using item_clear [OF cl(3) [OF r(1)]] prob by auto
  qed
  moreover have "ses_kind w = Opening \<longrightarrow> missing_closings (est_id site) (ses_date w) h = []"
    using cl(2) by (auto simp: day_blockers_def)
  ultimately show ?thesis using cl(4) by blast
qed

lemma demo_requirements_now:
  "requirements demo_henv (demo_session 2 Closing In_progress) demo_haccp =
     [new_requirement (demo_session 2 Closing In_progress) 1 (equipment_item demo_fridge),
      new_requirement (demo_session 2 Closing In_progress) 2 demo_mop_item,
      new_requirement (demo_session 2 Closing In_progress) 3 demo_stock_item]"
  by (simp add: requirements_def demo_henv_def demo_haccp_def new_requirement_def demo_session_def)

lemma demo_item_fields:
  "ci_key (equipment_item demo_fridge) = ''equipment:'' @ py_str_int 1" "ci_kind (equipment_item demo_fridge) = Temperature"
  "ci_problems (equipment_item demo_fridge) = []" "ci_snapshot (equipment_item demo_fridge) = Temperature_snap ''fridge'' (Some 0) (Some 4)"
  "ci_key demo_mop_item = ''task:'' @ py_str_int 1" "ci_kind demo_mop_item = Cleaning" "ci_problems demo_mop_item = []"
  by (simp_all add: equipment_item_def demo_fridge_def demo_mop_item_def)

lemma demo_evaluate:
  "rep_blockers (evaluate demo_henv demo_place (demo_session 2 Closing In_progress) True demo_haccp demo_larder demo_cellar) = []"
proof -
  have now: "he_now demo_henv = 0" "est_id demo_place = 1" "ses_date (demo_session 2 Closing In_progress) = 10"
    "ses_kind (demo_session 2 Closing In_progress) = Closing"
    by (simp_all add: demo_henv_def demo_place_def demo_session_def)
  have "latest_evidence 1 demo_haccp = Some (demo_proof 1 demo_measure)"
    "latest_evidence 2 demo_haccp = Some (demo_proof 2 (demo_confirm_value 2))"
    "latest_evidence 3 demo_haccp = Some (demo_proof 3 (demo_confirm_value 3))"
    by (simp_all add: latest_evidence_def demo_haccp_def demo_proof_def demo_measure_def)
  then have ev: "rpi_blockers (evaluate_item [equipment_item demo_fridge, demo_mop_item, demo_stock_item] demo_haccp r) = []"
    if "r \<in> set (requirements demo_henv (demo_session 2 Closing In_progress) demo_haccp)" for r
    using that unfolding demo_requirements_now
    by (auto simp: evaluate_item_def new_requirement_def expected_problems_def demo_item_fields demo_stock_item_fields
        demo_proof_def)
  have "\<not> is_stale demo_henv demo_place (demo_session 2 Closing In_progress)
      [equipment_item demo_fridge, demo_mop_item, demo_stock_item] demo_haccp"
    unfolding is_stale_def demo_requirements_now
    by (simp add: same_dict_def stored_signatures_def signatures_def new_requirement_def demo_session_def demo_place_def)
  moreover have "unresolved (demo_session 2 Closing In_progress) [equipment_item demo_fridge, demo_mop_item, demo_stock_item]
      demo_haccp = []"
  proof -
    have "ev_compliant (snd ke)" if "ke \<in> set (latest_by_key (demo_session 2 Closing In_progress) demo_haccp)" for ke
    proof -
      have "snd ke \<in> set (hd_evidence demo_haccp)" using that latest_by_key_in by blast
      then show ?thesis by (auto simp: demo_haccp_def demo_proof_def)
    qed
    then show ?thesis by (auto simp: unresolved_def filter_empty_conv)
  qed
  moreover have "day_blockers demo_place (demo_session 2 Closing In_progress) demo_haccp = []"
    by (simp add: day_blockers_def daily_def demo_haccp_def demo_session_def demo_place_def)
  ultimately show ?thesis using ev by (simp add: evaluate_def now demo_build Let_def)
qed

lemma demo_write:
  "current_write demo_henv demo_place (demo_session 2 Closing In_progress) 1 demo_larder demo_cellar demo_haccp =
     Inr (evaluate demo_henv demo_place (demo_session 2 Closing In_progress) True demo_haccp demo_larder demo_cellar)"
proof -
  have "business_day demo_henv demo_place Closing demo_haccp = Inr 10"
    by (simp add: business_day_def local_now_def demo_henv_def closing_day_def site_hours_def demo_haccp_def Let_def)
  then show ?thesis
    using demo_evaluate by (simp add: current_write_def Let_def) (simp add: demo_session_def)
qed

theorem validated_session_is_proved_witness:
  "\<exists>rep h'. complete demo_henv demo_place (demo_session 2 Closing In_progress) (demo_body []) demo_boss demo_larder demo_cellar
       demo_haccp = Inr (Report_result rep, h') \<and> rep_status rep = Complete \<and> ci_problems demo_stock_item = []"
proof -
  let ?w = "demo_session 2 Closing In_progress"
  have r: "replay ?w demo_boss ''session_completed'' (demo_body []) demo_haccp = Inr None"
    by (simp add: replay_def demo_haccp_def)
  have "rep_can_validate (evaluate demo_henv demo_place ?w True demo_haccp demo_larder demo_cellar)"
    using demo_evaluate by (simp add: evaluate_def Let_def split_beta) (simp add: demo_session_def)
  then have "\<exists>rep h'. complete demo_henv demo_place ?w (demo_body []) demo_boss demo_larder demo_cellar demo_haccp =
      Inr (Report_result rep, h') \<and> rep_status rep = Complete"
    using demo_write r by (simp add: complete_def demo_body_def Let_def)
  then obtain rep h' where c: "complete demo_henv demo_place ?w (demo_body []) demo_boss demo_larder demo_cellar demo_haccp =
      Inr (Report_result rep, h')" "rep_status rep = Complete" by (elim exE conjE)
  have "haccp_keys_ok demo_haccp demo_cellar"
    by (simp add: haccp_keys_ok_def demo_haccp_def demo_cellar_def)
  from validated_session_is_proved [OF c r this] have "ci_problems demo_stock_item = []"
    by (simp add: demo_henv_def demo_place_def demo_session_def demo_build)
  with c show ?thesis by (intro exI conjI)
qed

subsection \<open>Evidence\<close>

lemma judge_True:
  assumes "judge u rep history reqs v = Inr True"
  shows "\<exists>t. t \<in> set (rep_items rep) \<and> rpi_id t = ei_requirement_id v
    \<and> (rpi_kind t = Temperature \<longrightarrow> (\<exists>x. ei_temperature v = Some x \<and> temperature_ok (rpi_snapshot t) x))
    \<and> (rpi_kind t \<noteq> Temperature \<longrightarrow> ei_confirmed v = Some True)
    \<and> (rpi_kind t = Dlc \<longrightarrow> set (rpi_blockers t) \<subseteq> {Dlc_confirmation_missing})"
proof -
  obtain t where t: "find (\<lambda>t. rpi_id t = ei_requirement_id v) (rev (rep_items rep)) = Some t"
    using assms by (auto simp: judge_def split: option.splits)
  then have in_rep: "t \<in> set (rep_items rep)" "rpi_id t = ei_requirement_id v"
    by (metis (no_types, lifting) find_Some_iff nth_mem set_rev) (use t in \<open>auto simp: find_Some_iff\<close>)
  from assms obtain k where k: "claimed u t v = Inr k" by (auto simp: judge_def t)
  from assms obtain r where r: "row_get rq_id (ei_requirement_id v) (rev reqs) = Some r"
    by (cases "row_get rq_id (ei_requirement_id v) (rev reqs)") (auto simp: judge_def t k)
  have "(if rpi_kind t = Dlc then k \<and> \<not> list_ex (\<lambda>c. c \<noteq> Dlc_confirmation_missing) (rpi_blockers t) else k)"
    using assms unfolding judge_def t option.case k rbind_simps r by (simp split: if_splits)
  then have c: "claimed u t v = Inr True" and d: "rpi_kind t = Dlc \<longrightarrow> set (rpi_blockers t) \<subseteq> {Dlc_confirmation_missing}"
    by (auto simp: k list_ex_iff split: if_splits)
  have "rpi_kind t = Temperature \<longrightarrow> (\<exists>x. ei_temperature v = Some x \<and> temperature_ok (rpi_snapshot t) x)"
    "rpi_kind t \<noteq> Temperature \<longrightarrow> ei_confirmed v = Some True"
    using c by (auto simp: claimed_def split: option.splits if_splits)
  then show ?thesis using in_rep d by blast
qed

lemma evidence_rows_in:
  "e \<in> set (evidence_rows env site w u key eid vs) \<Longrightarrow>
     \<exists>v ok. (v, ok) \<in> set vs \<and> ev_requirement_id e = ei_requirement_id v \<and> ev_compliant e = ok \<and> ev_payload e = v"
  by (induction env site w u key eid vs rule: evidence_rows.induct) auto

lemma evaluate_item_kind:
  "rpi_id (evaluate_item expected h r) = rq_id r" "rpi_kind (evaluate_item expected h r) = rq_kind r"
  "rpi_snapshot (evaluate_item expected h r) = rq_snapshot r"
  "set (expected_problems (rq_key r) expected) \<subseteq> set (rpi_blockers (evaluate_item expected h r))"
  by (auto simp: evaluate_item_def Let_def)

text \<open>A checkbox cannot overrule the facts: evidence that \<^verbatim>\<open>record\<close> stores as compliant was a measured temperature within
  the limits of the equipment, or an explicit confirmation; for a lot confirmation no automatic finding about the
  lots of that ingredient (expired, without deadline, not reconciled) was open.\<close>

theorem compliant_evidence_is_justified:
  assumes "record_evidence env eid site w body u s db h = Inr (res, h')"
    and "hd_evidence h' = hd_evidence h @ added" and "e \<in> set added" and "ev_compliant e"
  shows "\<exists>r \<in> set (requirements env w h). rq_id r = ev_requirement_id e
    \<and> (rq_kind r = Temperature \<longrightarrow> (\<exists>x. ei_temperature (ev_payload e) = Some x \<and> temperature_ok (rq_snapshot r) x))
    \<and> (rq_kind r \<noteq> Temperature \<longrightarrow> ei_confirmed (ev_payload e) = Some True)
    \<and> (rq_kind r = Dlc \<longrightarrow> set (expected_problems (rq_key r)
          (fst (build (est_id site) (ses_date w) (ses_kind w) (he_now env) h s db))) \<subseteq> {Dlc_confirmation_missing})"
proof -
  have fresh: "replay w u ''evidence_recorded'' body h = Inr None"
  proof (cases "replay w u ''evidence_recorded'' body h")
    case (Inr cached)
    show ?thesis
    proof (cases cached)
      case (Some r)
      then have "h' = h" using assms(1) by (simp add: record_evidence_def Inr)
      then show ?thesis using assms(2,3) by simp
    qed (simp add: Inr)
  qed (use assms(1) in \<open>simp add: record_evidence_def\<close>)
  obtain rep oks where cw: "current_write env site w (sb_expected_revision body) s db h = Inr rep"
    and j: "mapE (judge u rep (latest_by_key w h) (requirements env w h)) (sb_items body) = Inr oks"
    and ev: "hd_evidence h' = hd_evidence h @ evidence_rows env site w u (sb_key body) eid (zip (sb_items body) oks)"
    using assms(1) fresh by (auto simp: record_evidence_def Let_def receipt_def audit_def)
  have "e \<in> set (evidence_rows env site w u (sb_key body) eid (zip (sb_items body) oks))"
    using ev assms(2,3) by simp
  then obtain v where v: "(v, True) \<in> set (zip (sb_items body) oks)" "ev_requirement_id e = ei_requirement_id v" "ev_payload e = v"
    using evidence_rows_in assms(4) by metis
  then have jv: "judge u rep (latest_by_key w h) (requirements env w h) v = Inr True"
    using mapE_list_all2 [OF j] by (auto simp: list_all2_iff)
  have rep: "rep = evaluate env site w True h s db"
    using cw by (auto simp: current_write_def Let_def split: if_splits)
  let ?x = "fst (build (est_id site) (ses_date w) (ses_kind w) (he_now env) h s db)"
  have items: "rep_items rep = map (evaluate_item ?x h) (requirements env w h)"
    by (simp add: rep evaluate_def Let_def split_beta)
  from judge_True [OF jv] obtain t where t: "t \<in> set (rep_items rep)" "rpi_id t = ei_requirement_id v"
    "rpi_kind t = Temperature \<longrightarrow> (\<exists>x. ei_temperature v = Some x \<and> temperature_ok (rpi_snapshot t) x)"
    "rpi_kind t \<noteq> Temperature \<longrightarrow> ei_confirmed v = Some True"
    "rpi_kind t = Dlc \<longrightarrow> set (rpi_blockers t) \<subseteq> {Dlc_confirmation_missing}" by (elim exE conjE) simp
  then obtain r where r: "r \<in> set (requirements env w h)" "t = evaluate_item ?x h r" by (auto simp: items)
  have "set (expected_problems (rq_key r) ?x) \<subseteq> {Dlc_confirmation_missing}" if "rq_kind r = Dlc"
    using t(5) that unfolding r(2) evaluate_item_kind(2) by (meson evaluate_item_kind(4) order_trans)
  then show ?thesis using t(2-4) r v(2,3) by (intro bexI [of _ r]) (simp_all add: evaluate_item_kind)
qed

theorem compliant_evidence_is_justified_witness:
  "\<exists>res h'. record_evidence demo_henv 4 demo_place (demo_session 2 Closing In_progress) (demo_body [demo_measure]) demo_boss
       demo_larder demo_cellar demo_haccp = Inr (res, h') \<and> length (hd_evidence h') = 4
     \<and> temperature_ok (Temperature_snap ''fridge'' (Some 0) (Some 4)) 3"
proof -
  let ?w = "demo_session 2 Closing In_progress" let ?b = "demo_body [demo_measure]"
  let ?rep = "evaluate demo_henv demo_place ?w True demo_haccp demo_larder demo_cellar"
  have r: "replay ?w demo_boss ''evidence_recorded'' ?b demo_haccp = Inr None" by (simp add: replay_def demo_haccp_def)
  have sess: "he_now demo_henv = 0" "est_id demo_place = 1" "ses_date ?w = 10" "ses_kind ?w = Closing"
    by (simp_all add: demo_henv_def demo_place_def demo_session_def)
  have items: "rep_items ?rep = map (evaluate_item [equipment_item demo_fridge, demo_mop_item, demo_stock_item] demo_haccp)
      (requirements demo_henv ?w demo_haccp)"
    by (simp add: evaluate_def Let_def sess demo_build)
  have hist: "\<not> (case map_of (latest_by_key ?w demo_haccp) k of None \<Rightarrow> False | Some e \<Rightarrow> \<not> ev_compliant e)" for k
  proof (cases "map_of (latest_by_key ?w demo_haccp) k")
    case (Some e)
    then have "e \<in> set (hd_evidence demo_haccp)" using latest_by_key_in map_of_SomeD by fastforce
    then show ?thesis using Some by (auto simp: demo_haccp_def demo_proof_def)
  qed simp
  have j: "judge demo_boss ?rep (latest_by_key ?w demo_haccp) (requirements demo_henv ?w demo_haccp) demo_measure = Inr True"
    unfolding judge_def items demo_requirements_now
    by (simp add: evaluate_item_kind claimed_def temperature_ok_def new_requirement_def demo_item_fields demo_measure_def
        hist row_simps del: not_None_eq)
  have "\<exists>res h'. record_evidence demo_henv 4 demo_place ?w ?b demo_boss demo_larder demo_cellar demo_haccp = Inr (res, h')
      \<and> hd_evidence h' = hd_evidence demo_haccp @ evidence_rows demo_henv demo_place ?w demo_boss ''k1'' 4 [(demo_measure, True)]"
    using r j demo_write by (simp add: record_evidence_def demo_body_def receipt_def audit_def Let_def)
  then obtain res h' where c: "record_evidence demo_henv 4 demo_place ?w ?b demo_boss demo_larder demo_cellar demo_haccp = Inr (res, h')"
    "hd_evidence h' = hd_evidence demo_haccp @ evidence_rows demo_henv demo_place ?w demo_boss ''k1'' 4 [(demo_measure, True)]"
    by (elim exE conjE)
  obtain e where e: "evidence_rows demo_henv demo_place ?w demo_boss ''k1'' 4 [(demo_measure, True)] = [e]"
    "ev_compliant e" "ev_requirement_id e = 1" "ev_payload e = demo_measure" by (simp add: demo_measure_def)
  have "\<exists>q \<in> set (requirements demo_henv ?w demo_haccp). rq_id q = 1
      \<and> (rq_kind q = Temperature \<longrightarrow> (\<exists>x. ei_temperature demo_measure = Some x \<and> temperature_ok (rq_snapshot q) x))"
    using compliant_evidence_is_justified [OF c(1) c(2), of e] e by auto
  then have "temperature_ok (Temperature_snap ''fridge'' (Some 0) (Some 4)) 3"
    unfolding demo_requirements_now by (auto simp: new_requirement_def demo_item_fields demo_measure_def)
  moreover have "length (hd_evidence h') = 4" by (simp add: c(2) e(1) demo_haccp_def)
  ultimately show ?thesis using c(1) by (intro exI conjI)
qed

subsection \<open>Retries\<close>

lemma find_append_None: "find P xs = None \<Longrightarrow> find P (xs @ ys) = find P ys"
  by (induction xs) (auto split: if_splits)

lemma replay_after_receipt:
  assumes "replay w u action body h = Inr None" and "hd_audits h1 = hd_audits h" and "ses_id w1 = ses_id w"
    and "ses_id w2 = ses_id w" and "ses_revision w2 = ses_revision w1"
  shows "replay w2 u action body (receipt env w1 u action recorded body result h1) = Inr (Some result)"
proof -
  have "find (\<lambda>a. au_session_id a = Some (ses_id w) \<and> au_subject a = Sub_request (sb_key body)) (hd_audits h) = None"
    using assms(1) by (auto simp: replay_def split: option.splits audit_data.splits if_splits)
  then show ?thesis
    using assms(2-5) by (simp add: replay_def receipt_def audit_def find_append_None)
qed

text \<open>A request can be repeated safely: sending the same evidence or the same validation again with its key, while
  the session is in the same revision, returns the stored answer and changes nothing, whatever happened to the
  clock, the lots and the configuration in between.\<close>

theorem strict_requests_are_idempotent:
  assumes "ses_id w' = ses_id w" and "ses_revision w' = ses_revision w"
  shows "(record_evidence env eid site w body u s db h = Inr (res, h') \<longrightarrow>
      record_evidence env' eid' site' w' body u s' db' h' = Inr (res, h'))
    \<and> (complete env site w body u s db h = Inr (res, h') \<longrightarrow>
      complete env' site' w' body u s' db' h' = Inr (res, h'))"
proof -
  have again: "replay w' u action body h = replay w u action body h" for action
    unfolding replay_def assms ..
  have "replay w' u ''evidence_recorded'' body h' = Inr (Some res)"
    if "record_evidence env eid site w body u s db h = Inr (res, h')"
  proof (cases "replay w u ''evidence_recorded'' body h")
    case (Inr cached)
    show ?thesis
    proof (cases cached)
      case None
      then show ?thesis
        using that Inr replay_after_receipt [of w u _ body h _ w w'] assms
        by (auto simp: record_evidence_def Let_def)
    qed (use that Inr again in \<open>auto simp: record_evidence_def\<close>)
  qed (use that in \<open>simp add: record_evidence_def\<close>)
  moreover have "replay w' u ''session_completed'' body h' = Inr (Some res)"
    if c: "complete env site w body u s db h = Inr (res, h')"
  proof (cases "replay w u ''session_completed'' body h")
    case (Inr cached)
    show ?thesis
    proof (cases cached)
      case None
      then show ?thesis
        using c Inr assms replay_after_receipt [of w u _ body h]
        by (auto simp: complete_def Let_def upd_session_def split: if_splits)
    qed (use c Inr again in \<open>auto simp: complete_def\<close>)
  qed (use c in \<open>simp add: complete_def\<close>)
  ultimately show ?thesis by (auto simp: record_evidence_def complete_def)
qed

theorem strict_requests_are_idempotent_witness:
  "\<exists>res h'. complete demo_henv demo_place (demo_session 2 Closing In_progress) (demo_body []) demo_boss demo_larder demo_cellar
       demo_haccp = Inr (res, h')
     \<and> complete (demo_henv\<lparr>he_now := 99\<rparr>) demo_place (demo_session 2 Closing Complete) (demo_body []) demo_boss demo_stock
       demo_site h' = Inr (res, h')"
proof -
  let ?w = "demo_session 2 Closing In_progress"
  have "replay ?w demo_boss ''session_completed'' (demo_body []) demo_haccp = Inr None"
    by (simp add: replay_def demo_haccp_def)
  then have "\<exists>res h'. complete demo_henv demo_place ?w (demo_body []) demo_boss demo_larder demo_cellar demo_haccp = Inr (res, h')"
    using demo_write by (simp add: complete_def demo_body_def Let_def)
  then obtain res h' where c: "complete demo_henv demo_place ?w (demo_body []) demo_boss demo_larder demo_cellar demo_haccp = Inr (res, h')"
    by (elim exE)
  have "ses_id (demo_session 2 Closing Complete) = ses_id ?w" "ses_revision (demo_session 2 Closing Complete) = ses_revision ?w"
    by (simp_all add: demo_session_def)
  from conjunct2 [OF strict_requests_are_idempotent [OF this], THEN mp, OF c] c show ?thesis by (intro exI conjI)
qed

subsection \<open>Periodic cleaning\<close>

definition month_start :: "int \<Rightarrow> day" where
  "month_start k = ymd2ord (k div 12) (k mod 12 + 1) 1"

definition month_index :: "day \<Rightarrow> int" where
  "month_index d = 12 * year_of d + fst (month_day_of d) - 1"

definition due_in :: "int \<Rightarrow> int \<Rightarrow> day" where
  "due_in a k = month_due (k div 12) (k mod 12 + 1) a"

lemma div_mod_12:
  assumes "k = 12 * q + r" and "0 \<le> r" and "r < (12 :: int)"
  shows "k div 12 = q" and "k mod 12 = r"
  using assms by (auto intro: int_div_pos_eq int_mod_pos_eq)

lemma month_start_next: "month_start (k + 1) = month_start k + days_in_month (k div 12) (k mod 12 + 1)"
proof (cases "k mod 12 = 11")
  case True
  have y: "(k + 1) div 12 = k div 12 + 1" "(k + 1) mod 12 = 0"
    using div_mod_12 [of "k + 1" "k div 12 + 1" 0] True mult_div_mod_eq [of 12 k] by auto
  show ?thesis
    unfolding month_start_def y True ymd2ord_def days_before_next
    by (simp add: days_before_month_def days_in_month_def month_lengths_def)
next
  case False
  have y: "(k + 1) div 12 = k div 12" "(k + 1) mod 12 = k mod 12 + 1"
    using div_mod_12 [of "k + 1" "k div 12" "k mod 12 + 1"] False mult_div_mod_eq [of 12 k] pos_mod_bound [of 12 k] by auto
  have "0 \<le> k mod 12" "k mod 12 < 12" by simp_all
  then have n: "nat (1 + k mod 12) = Suc (nat (k mod 12))" "nat (k mod 12) < 12" by simp_all
  show ?thesis
    unfolding month_start_def y ymd2ord_def using n
    by (simp add: days_before_month_def days_in_month_def take_Suc_conv_app_nth)
qed

lemma month_length_pos: "28 \<le> days_in_month (k div 12) (k mod 12 + 1)"
proof -
  have "nat (k mod 12) < 12" by simp
  then show ?thesis using month_length_range [of "nat (k mod 12)" "k div 12"] by (simp add: days_in_month_def)
qed

lemma month_start_mono: "j \<le> k \<Longrightarrow> month_start j \<le> month_start k"
proof (induction k rule: int_ge_induct)
  case (step i)
  then show ?case using month_start_next [of i] month_length_pos [of i] by simp
qed simp

lemma due_in_month:
  assumes "1 \<le> a"
  shows "month_start k \<le> due_in a k \<and> due_in a k < month_start (k + 1)"
  using assms month_length_pos [of k] month_start_next [of k]
  by (auto simp: due_in_def month_due_def month_start_def ymd2ord_def min_def)

lemma month_index_parts:
  "month_index d div 12 = year_of d" "month_index d mod 12 = fst (month_day_of d) - 1"
  "month_start (month_index d) \<le> d \<and> d < month_start (month_index d + 1)"
proof -
  obtain m n where md: "month_day_of d = (m, n)" by fastforce
  have v: "valid_date (year_of d) m n" "ymd2ord (year_of d) m n = d" using date_of_ordinal [OF md] by simp_all
  then have r: "1 \<le> m" "m \<le> 12" "1 \<le> n" "n \<le> days_in_month (year_of d) m" by (auto simp: valid_date_def)
  show q: "month_index d div 12 = year_of d" and p: "month_index d mod 12 = fst (month_day_of d) - 1"
    using r(1,2) div_mod_12 [of "month_index d" "year_of d" "m - 1"] by (simp_all add: month_index_def md)
  show "month_start (month_index d) \<le> d \<and> d < month_start (month_index d + 1)"
    unfolding month_start_next unfolding month_start_def q p md using v(2) r by (simp add: ymd2ord_def)
qed

text \<open>Periodic cleaning falls due when it should: the start of the current cycle is a due date, not later than the day
  in question, and no due date lies between it and that day; due dates are every seventh day from the anchor, or the
  anchor's day in each month, clipped to the length of the month.\<close>

theorem cycle_start_is_latest_due:
  assumes "anchor \<le> d"
  defines "a \<equiv> snd (month_day_of anchor)"
  shows "(\<exists>due. cycle_start d anchor Weekly = Some due \<and> anchor \<le> due \<and> due \<le> d \<and> d < due + 7 \<and> (due - anchor) mod 7 = 0)
    \<and> (\<exists>k. cycle_start d anchor Monthly = Some (due_in a k) \<and> due_in a k \<le> d \<and> (\<forall>j > k. d < due_in a j))"
proof
  have w: "cycle_start d anchor Weekly = Some (anchor + ((d - anchor) div 7) * 7)"
    using assms(1) by (simp add: cycle_start_def)
  have "d - anchor = 7 * ((d - anchor) div 7) + (d - anchor) mod 7" "0 \<le> (d - anchor) mod 7" "(d - anchor) mod 7 < 7" by simp_all
  moreover have "0 \<le> (d - anchor) div 7" using assms(1) by (simp add: pos_imp_zdiv_nonneg_iff)
  ultimately show "\<exists>due. cycle_start d anchor Weekly = Some due \<and> anchor \<le> due \<and> due \<le> d \<and> d < due + 7 \<and> (due - anchor) mod 7 = 0"
    unfolding w by (intro exI [of _ "anchor + ((d - anchor) div 7) * 7"]) auto
next
  obtain m n where "month_day_of anchor = (m, n)" by fastforce
  then have a1: "1 \<le> a" using date_of_ordinal [of anchor] by (auto simp: a_def valid_date_def)
  let ?k = "month_index d"
  note parts = month_index_parts [of d]
  have cand: "month_due (year_of d) (fst (month_day_of d)) a = due_in a ?k" by (simp add: due_in_def parts)
  have prev: "(if fst (month_day_of d) = 1 then month_due (year_of d - 1) 12 a
      else month_due (year_of d) (fst (month_day_of d) - 1) a) = due_in a (?k - 1)"
  proof (cases "fst (month_day_of d) = 1")
    case True
    then have "?k mod 12 = 0" using parts(2) by simp
    then have "(?k - 1) div 12 = ?k div 12 - 1" "(?k - 1) mod 12 = 11"
      using div_mod_12 [of "?k - 1" "?k div 12 - 1" 11] mult_div_mod_eq [of 12 ?k] by auto
    then show ?thesis using True parts(1) by (simp add: due_in_def)
  next
    case False
    then have "?k mod 12 \<noteq> 0" using parts(2) by simp
    then have "(?k - 1) div 12 = ?k div 12" "(?k - 1) mod 12 = ?k mod 12 - 1"
      using div_mod_12 [of "?k - 1" "?k div 12" "?k mod 12 - 1"] mult_div_mod_eq [of 12 ?k] pos_mod_sign [of 12 ?k]
        pos_mod_bound [of 12 ?k] by auto
    then show ?thesis using False parts(1,2) by (simp add: due_in_def)
  qed
  have m: "cycle_start d anchor Monthly = Some (if due_in a ?k > d then due_in a (?k - 1) else due_in a ?k)"
    using assms(1) cand prev by (simp add: cycle_start_def Let_def a_def [symmetric])
  have later: "d < due_in a j" if "?k < j" for j
    using due_in_month [OF a1, of j] month_start_mono [of "?k + 1" j] parts(3) that by linarith
  show "\<exists>k. cycle_start d anchor Monthly = Some (due_in a k) \<and> due_in a k \<le> d \<and> (\<forall>j > k. d < due_in a j)"
  proof (cases "due_in a ?k > d")
    case True
    have "due_in a (?k - 1) \<le> d" using due_in_month [OF a1, of "?k - 1"] parts(3) by simp
    moreover have "d < due_in a j" if "?k - 1 < j" for j using later True that by (cases "j = ?k") auto
    ultimately show ?thesis using m True by (intro exI [of _ "?k - 1"]) simp
  next
    case False
    then show ?thesis using m later by (intro exI [of _ ?k]) simp
  qed
qed

theorem cycle_start_is_latest_due_witness:
  "(\<exists>due. cycle_start 100 30 Weekly = Some due \<and> due \<le> 100 \<and> 100 < due + 7)
   \<and> (\<exists>k. cycle_start 100 30 Monthly = Some (due_in (snd (month_day_of 30)) k) \<and> due_in (snd (month_day_of 30)) k \<le> 100)"
  using cycle_start_is_latest_due [of 30 100] by auto

end
