(* ===== verification/Orders_Views.thy ===== *)
theory Orders_Views
  imports Orders_Create Orders_Preparation
begin

text \<open>
  What is read back from an order: the detail with menu components nested under their menu, the receipt, and the
  payload that orders the same things again (\<^verbatim>\<open>_serialize_order_detail\<close>, \<^verbatim>\<open>build_receipt\<close> and
  \<^verbatim>\<open>build_reorder_payload\<close> of \<^verbatim>\<open>app/modules/orders/service.py\<close>). Serialised amounts pass \<^verbatim>\<open>_money\<close> once more.
\<close>

subsection \<open>Order detail\<close>

definition serialize_order_item :: "order_item \<Rightarrow> order_item" where
  "serialize_order_item it =
     it\<lparr>oi_unit_price := money (oi_unit_price it), oi_catalog_unit_price := map_option money (oi_catalog_unit_price it),
        oi_extras_total := money (oi_extras_total it), oi_total := money (oi_total it)\<rparr>"

datatype item_node = Item_node (node_item: order_item) (node_components: "item_node list")

text \<open>The nesting by references of the source: a line whose parent is among the lines hangs below it. The depth is
  bounded by the number of lines, which is the fuel.\<close>

fun item_tree :: "nat \<Rightarrow> order_item list \<Rightarrow> order_item \<Rightarrow> item_node" where
  "item_tree 0 its it = Item_node it []"
| "item_tree (Suc n) its it =
     Item_node it (map (item_tree n its) (filter (\<lambda>c. oi_parent_item_id c = Some (oi_id it)) its))"

definition is_root :: "order_item list \<Rightarrow> order_item \<Rightarrow> bool" where
  "is_root its it \<longleftrightarrow>
     (case oi_parent_item_id it of None \<Rightarrow> True | Some p \<Rightarrow> p \<notin> oi_id ` set its)"

definition flat_items :: "int \<Rightarrow> shop \<Rightarrow> order_item list" where
  "flat_items oid sh = map serialize_order_item (sort_key oi_id (items_of_order oid (sh_items sh)))"

record order_detail =
  od_order :: order
  od_items :: "item_node list"
  od_stations :: "station_row list"
  od_history :: "status_history list"

definition serialize_order_list :: "order \<Rightarrow> order" where
  "serialize_order_list o1 =
     o1\<lparr>ord_subtotal := money (ord_subtotal o1), ord_discount_total := money (ord_discount_total o1),
        ord_delivery_fee := money (ord_delivery_fee o1), ord_total := money (ord_total o1)\<rparr>"

definition serialize_order_detail :: "order \<Rightarrow> shop \<Rightarrow> order_detail" where
  "serialize_order_detail o1 sh =
     (let its = flat_items (ord_id o1) sh
      in \<lparr>od_order = serialize_order_list o1,
          od_items = map (item_tree (length its) its) (filter (is_root its) its),
          od_stations = station_summary its,
          od_history = filter (\<lambda>h. hist_order_id h = ord_id o1) (sh_history sh)\<rparr>)"

subsection \<open>Receipt\<close>

datatype receipt_line = Receipt_line
  (rl_label: "string option") (rl_type: item_type) (rl_count: int) (rl_unit_price: rat) (rl_catalog_price: "rat option")
  (rl_extras: "extra_line list") (rl_total: rat) (rl_components: "receipt_line list")

definition text_of :: "string option \<Rightarrow> string" where
  "text_of t = (case t of None \<Rightarrow> ''None'' | Some s \<Rightarrow> s)"

definition item_label :: "order_item \<Rightarrow> string option" where
  "item_label it =
     (let base = (if oi_type it = Item_menu then oi_menu_name it
            else if blank_text (oi_product_name it)
            then Some (''Product #'' @ (case oi_product_id it of None \<Rightarrow> ''None'' | Some p \<Rightarrow> py_str_int p))
            else oi_product_name it)
      in if blank_text (oi_variant_name it) then base
         else Some (text_of base @ '' - '' @ text_of (oi_variant_name it)))"

fun receipt_line_of :: "item_node \<Rightarrow> receipt_line" where
  "receipt_line_of (Item_node it cs) =
     Receipt_line (item_label it) (oi_type it) (oi_quantity it) (oi_unit_price it) (oi_catalog_unit_price it)
       (oi_extras_snapshot it) (oi_total it) (map receipt_line_of cs)"

record order_receipt =
  rc_order :: order
  rc_items :: "receipt_line list"
  rc_subtotal :: rat
  rc_discount :: rat
  rc_fee :: rat
  rc_total :: rat

definition build_receipt :: "int \<Rightarrow> shop \<Rightarrow> order_receipt res" where
  "build_receipt oid sh =
     (case order_of oid sh of
        None \<Rightarrow> Inl (AppError ''ORDER_NOT_FOUND'' 404)
      | Some o1 \<Rightarrow>
          Inr \<lparr>rc_order = o1, rc_items = map receipt_line_of (od_items (serialize_order_detail o1 sh)),
               rc_subtotal = money (ord_subtotal o1), rc_discount = money (ord_discount_total o1),
               rc_fee = money (ord_delivery_fee o1), rc_total = money (ord_total o1)\<rparr>)"

subsection \<open>Ordering again\<close>

record reorder_item =
  ri_line :: line_request
  ri_available :: bool
  ri_warning :: "string option"

record reorder_out =
  ro_source_order_id :: int
  ro_items :: "reorder_item list"
  ro_menu_items :: "menu_request list"
  ro_unavailable :: "reorder_item list"

definition extras_again :: "extra_line list \<Rightarrow> extra_request list" where
  "extras_again xs = map (\<lambda>x. \<lparr>xq_extra_id = xl_extra_id x, xq_quantity = xl_quantity x\<rparr>) xs"

definition selections_again :: "menu_snapshot option \<Rightarrow> selection_request list" where
  "selections_again snap =
     (case snap of
        None \<Rightarrow> []
      | Some m \<Rightarrow> concat (map (\<lambda>g. map (\<lambda>s.
          \<lparr>sq_group_id = ss_group_id s,
           sq_line = \<lparr>lq_product_id = ss_product_id s, lq_variant_id = ss_variant_id s, lq_quantity = ss_quantity s,
                      lq_extras = extras_again (ss_extras s)\<rparr>\<rparr>) (sg_selections g)) (ms_groups m)))"

text \<open>The warning for a product line, \<open>None\<close> when it is still sold.\<close>

definition reorder_warning :: "catalog \<Rightarrow> order_item \<Rightarrow> string option" where
  "reorder_warning cat it =
     (case Option.bind (oi_product_id it) (\<lambda>p. row_get prod_id p (cat_products cat)) of
        None \<Rightarrow> Some ''Product unavailable''
      | Some p \<Rightarrow>
          if \<not> prod_active p then Some ''Product unavailable''
          else (case oi_variant_id it of
              None \<Rightarrow> None
            | Some v \<Rightarrow>
                (case row_get var_id v (cat_variants cat) of
                   None \<Rightarrow> Some ''Variant unavailable''
                 | Some r \<Rightarrow> if \<not> var_active r \<or> Some (var_product_id r) \<noteq> oi_product_id it
                     then Some ''Variant unavailable'' else None)))"

definition reorder_line :: "catalog \<Rightarrow> order_item \<Rightarrow> reorder_item" where
  "reorder_line cat it =
     \<lparr>ri_line = \<lparr>lq_product_id = (case oi_product_id it of None \<Rightarrow> 0 | Some p \<Rightarrow> p), lq_variant_id = oi_variant_id it,
                 lq_quantity = oi_quantity it, lq_extras = extras_again (oi_extras_snapshot it)\<rparr>,
      ri_available = (reorder_warning cat it = None), ri_warning = reorder_warning cat it\<rparr>"

definition reorder_menu :: "order_item \<Rightarrow> menu_request list" where
  "reorder_menu it =
     (case oi_menu_id it of
        None \<Rightarrow> []
      | Some m \<Rightarrow>
          if selections_again (oi_menu_snapshot it) = [] then []
          else [\<lparr>mq_menu_id = m, mq_quantity = oi_quantity it, mq_selections = selections_again (oi_menu_snapshot it)\<rparr>])"

definition build_reorder_payload :: "int \<Rightarrow> int option \<Rightarrow> bool \<Rightarrow> shop \<Rightarrow> reorder_out res" where
  "build_reorder_payload oid uid is_staff sh =
     (case order_of oid sh of
        None \<Rightarrow> Inl (AppError ''ORDER_NOT_FOUND'' 404)
      | Some o1 \<Rightarrow>
          if \<not> is_staff \<and> ord_user_id o1 \<noteq> uid then Inl (AppError ''ORDER_NOT_FOUND'' 404)
          else
            let its = sort_key oi_id (items_of_order oid (sh_items sh));
                lines = map (reorder_line (st_catalog (sh_stock sh))) (filter (\<lambda>it. oi_type it = Item_product) its)
            in Inr \<lparr>ro_source_order_id = oid, ro_items = lines,
                    ro_menu_items = concat (map reorder_menu (filter (\<lambda>it. oi_type it = Item_menu) its)),
                    ro_unavailable = filter (\<lambda>r. \<not> ri_available r) lines\<rparr>)"

end
