(* ===== verification/Checkout_Props.thy ===== *)
theory Checkout_Props
  imports Orders_Views Dispatch_Props Haccp_Props
begin

text \<open>Properties of order creation and of what is read back from an order.\<close>

subsection \<open>Lines from the catalogue\<close>

lemma resolve_extra_Inr:
  assumes "resolve_extra cat pid rq = Inr x"
  shows "xl_extra_id x = xq_extra_id rq \<and> xl_quantity x = xq_quantity rq"
  using assms by (auto simp: resolve_extra_def find_Some_iff split: option.splits)

lemma resolve_extras_again: "resolve_extras cat pid rqs = Inr (xs, t) \<Longrightarrow> extras_again xs = rqs"
proof -
  assume "resolve_extras cat pid rqs = Inr (xs, t)"
  then have "mapE (resolve_extra cat pid) rqs = Inr xs" by (auto simp: resolve_extras_def)
  then show ?thesis
    by (induction rqs arbitrary: xs) (auto simp: extras_again_def dest!: resolve_extra_Inr)
qed

lemma resolve_catalog_item_Inr:
  assumes "resolve_catalog_item cat lq = Inr r"
  obtains p delta where "row_get prod_id (lq_product_id lq) (cat_products cat) = Some p" "prod_active p"
    "resolve_variant cat lq = Inr (delta, rs_variant_name r)"
    "resolve_extras cat (lq_product_id lq) (lq_extras lq) = Inr (rs_extras r, rs_extras_unit_total r)"
    "rs_request r = lq" "rs_product r = p" "rs_unit_price r = money (prod_base_price p + delta + rs_extras_unit_total r)"
proof -
  obtain p where p: "row_get prod_id (lq_product_id lq) (cat_products cat) = Some p"
    using assms by (cases "row_get prod_id (lq_product_id lq) (cat_products cat)") (simp_all add: resolve_catalog_item_def)
  have a: "prod_active p"
    using assms by (rule_tac ccontr) (simp add: resolve_catalog_item_def p)
  obtain v x where v: "resolve_variant cat lq = Inr v" and x: "resolve_extras cat (lq_product_id lq) (lq_extras lq) = Inr x"
    and r: "r = \<lparr>rs_request = lq, rs_product = p, rs_unit_price = money (prod_base_price p + fst v + snd x),
      rs_variant_name = snd v, rs_extras = fst x, rs_extras_unit_total = snd x,
      rs_station = resolve_preparation_station cat p\<rparr>"
    using assms p a by (auto simp: resolve_catalog_item_def split_beta)
  show ?thesis
    by (rule that [of p "fst v"]) (use p a v x r in \<open>simp_all\<close>)
qed

lemma resolved_price_cents: "resolve_catalog_item cat lq = Inr r \<Longrightarrow> cents (rs_unit_price r)"
  by (erule resolve_catalog_item_Inr) simp

lemma resolved_request: "resolve_catalog_item cat lq = Inr r \<Longrightarrow> rs_request r = lq"
  by (erule resolve_catalog_item_Inr)

lemma resolved_requests: "mapE (resolve_catalog_item cat) lqs = Inr ls \<Longrightarrow> map rs_request ls = lqs"
  by (induction lqs arbitrary: ls) (auto dest: resolved_request)

lemma resolved_lines: "mapE (resolve_catalog_item cat) lqs = Inr ls \<Longrightarrow> r \<in> set ls \<Longrightarrow> resolve_catalog_item cat (rs_request r) = Inr r"
proof (induction lqs arbitrary: ls)
  case (Cons lq lqs)
  then obtain y ys where y: "resolve_catalog_item cat lq = Inr y" and ys: "mapE (resolve_catalog_item cat) lqs = Inr ys"
    and ls: "ls = y # ys" by auto
  have "resolve_catalog_item cat (rs_request y) = Inr y" using y resolved_request [OF y] by simp
  then show ?case using Cons.IH [OF ys] Cons.prems(2) by (auto simp: ls)
qed simp

subsection \<open>Menus\<close>

lemma resolve_menu_item_Inr:
  assumes "resolve_menu_item now mq s = Inr (s', m)"
  obtains mm cs where "row_get menu_id (mq_menu_id mq) (cat_menus (st_catalog s)) = Some mm" "menu_open now mm"
    "resolve_selections (st_catalog s) (groups_of_menu (st_catalog s) (menu_id mm)) (mq_selections mq) [] = Inr cs"
    "s' = fst (availability_map now (map (\<lambda>c. prod_id (rs_product (snd c))) cs) s)"
    "list_all (count_ok cs) (groups_of_menu (st_catalog s) (menu_id mm))"
    "m = \<lparr>rm_request = mq, rm_menu = mm, rm_unit_price = money (menu_fixed_price mm), rm_components = cs,
          rm_snapshot = snapshot_of mm (groups_of_menu (st_catalog s) (menu_id mm)) cs\<rparr>"
proof -
  obtain mm where mm: "row_get menu_id (mq_menu_id mq) (cat_menus (st_catalog s)) = Some mm"
    using assms by (cases "row_get menu_id (mq_menu_id mq) (cat_menus (st_catalog s))") (simp_all add: resolve_menu_item_def)
  have o: "menu_open now mm" using assms by (rule_tac ccontr) (simp add: resolve_menu_item_def mm)
  have g: "groups_of_menu (st_catalog s) (menu_id mm) \<noteq> []"
    using assms by (rule_tac notI) (simp add: resolve_menu_item_def mm o)
  obtain cs where cs: "resolve_selections (st_catalog s) (groups_of_menu (st_catalog s) (menu_id mm)) (mq_selections mq) [] = Inr cs"
    using assms by (cases "resolve_selections (st_catalog s) (groups_of_menu (st_catalog s) (menu_id mm)) (mq_selections mq) []")
      (simp_all add: resolve_menu_item_def mm o g Let_def)
  have c: "list_all (count_ok cs) (groups_of_menu (st_catalog s) (menu_id mm))"
    using assms by (rule_tac ccontr) (simp add: resolve_menu_item_def mm o g cs Let_def)
  show ?thesis
    by (rule that [OF mm o cs _ c])
       (use assms in \<open>simp_all add: resolve_menu_item_def mm o g cs c Let_def split_beta split: if_splits\<close>)
qed

lemma availability_map_catalog [simp]: "st_catalog (fst (availability_map now pids s)) = st_catalog s"
  by (simp add: availability_map_def get_products_availability_def Let_def split_beta)

lemma resolve_menus_catalog: "resolve_menus now mqs s = Inr (s', ms) \<Longrightarrow> st_catalog s' = st_catalog s"
proof (induction mqs arbitrary: s ms)
  case (Cons mq mqs)
  then obtain s1 m ms' where m: "resolve_menu_item now mq s = Inr (s1, m)" and ms: "resolve_menus now mqs s1 = Inr (s', ms')"
    by (auto simp: split_beta)
  have "st_catalog s1 = st_catalog s" by (rule resolve_menu_item_Inr [OF m]) simp
  then show ?case using Cons.IH [OF ms] by simp
qed simp

lemma resolve_menus_each:
  assumes "resolve_menus now mqs s = Inr (s', ms)"
  shows "list_all2 (\<lambda>mq m. \<exists>s1 s2. st_catalog s1 = st_catalog s \<and> resolve_menu_item now mq s1 = Inr (s2, m)) mqs ms"
  using assms
proof (induction mqs arbitrary: s ms)
  case (Cons mq mqs)
  then obtain s1 m ms' where m: "resolve_menu_item now mq s = Inr (s1, m)" and ms: "resolve_menus now mqs s1 = Inr (s', ms')"
    and e: "ms = m # ms'" by (auto simp: split_beta)
  have c: "st_catalog s1 = st_catalog s" by (rule resolve_menu_item_Inr [OF m]) simp
  show ?case using Cons.IH [OF ms] m by (auto simp: e c)
qed simp

lemma menu_price_cents: "resolve_menu_item now mq s = Inr (s', m) \<Longrightarrow> cents (rm_unit_price m)"
  by (erule resolve_menu_item_Inr) simp

lemma menus_price_cents: "resolve_menus now mqs s = Inr (s', ms) \<Longrightarrow> m \<in> set ms \<Longrightarrow> cents (rm_unit_price m)"
  by (drule resolve_menus_each) (auto simp: list_all2_conv_all_nth in_set_conv_nth dest!: spec menu_price_cents)

subsection \<open>Amounts\<close>

lemma subtotal_exact:
  assumes "\<forall>r \<in> set ls. cents (rs_unit_price r)" and "\<forall>m \<in> set ms. cents (rm_unit_price m)"
  shows "subtotal_of ls ms = sum_list (map (\<lambda>r. money (line_total r)) ls) + sum_list (map (\<lambda>m. money (menu_total m)) ms)"
proof -
  have l: "map (\<lambda>r. money (line_total r)) ls = map line_total ls" and m: "map (\<lambda>m. money (menu_total m)) ms = map menu_total ms"
    using assms by (auto simp: line_total_def menu_total_def intro!: money_cents cents_times_int)
  have "cents (sum_list (map line_total ls) + sum_list (map menu_total ms))"
    using assms by (auto simp: line_total_def menu_total_def intro!: cents_add cents_sum_list cents_times_int)
  then show ?thesis by (simp add: subtotal_of_def l m money_cents)
qed

lemma cents_subtotal [simp]: "cents (subtotal_of ls ms)"
  by (simp add: subtotal_of_def)

lemma use_promo_code_bounds:
  assumes "use_promo_code env b uid sub cart sh = Inr (db, d, free)" and "0 \<le> sub" and "cents sub"
  shows "0 \<le> d \<and> d \<le> sub \<and> cents d"
proof (cases "blank_text (ob_promo_code b)")
  case True
  then show ?thesis using assms by (auto simp: use_promo_code_def blank_text_def)
next
  case False
  then obtain code where code: "ob_promo_code b = Some code" "code \<noteq> []" by (auto simp: blank_text_def)
  from assms(1) obtain db' where "apply_promo (ce_verified env) (\<lambda>u. has_delivered_order u sh) (ce_now env) code sub uid cart None
      (sh_promos sh) = Inr (db', d)"
    by (auto simp: use_promo_code_def code Let_def split_beta split: if_splits)
  then have ap: "rbind (load_promos (sh_promos sh) [code]) (\<lambda>ps. case ps of [] \<Rightarrow> Inl PyIndexError | promo # _ \<Rightarrow>
      rbind (calculate_discounts (ce_verified env) (\<lambda>u. has_delivered_order u sh) (sh_promos sh) (ce_now env) ps sub cart uid
        None False) (\<lambda>(discount, _). rbind (consume_use (pm_id promo) (sh_promos sh)) (\<lambda>db'. Inr (db', discount)))) = Inr (db', d)"
    by (simp only: apply_promo_def)
  then obtain ps where l: "load_promos (sh_promos sh) [code] = Inr ps"
    by (cases "load_promos (sh_promos sh) [code]") simp_all
  with ap obtain ds where c: "calculate_discounts (ce_verified env) (\<lambda>u. has_delivered_order u sh) (sh_promos sh) (ce_now env) ps
      sub cart uid None False = Inr (d, ds)"
    by (cases ps) (auto simp: split_beta)
  show ?thesis
    using calculate_discounts_bounds [OF c _ assms(2)] load_promos_codes [OF l] money_cents [OF assms(3)] by auto
qed

lemma resolve_loyalty_discount_le:
  "resolve_loyalty_discount nid uid pts amount db = Inr (db', d, p) \<Longrightarrow> 0 \<le> amount \<Longrightarrow> d \<le> money amount"
  by (auto simp: resolve_loyalty_discount_def split_beta Let_def money_nonneg split: if_splits option.splits)

lemma reward_value_le: "reward_value rw eligible ls ty = Inr d \<Longrightarrow> 0 \<le> eligible \<Longrightarrow> d \<le> eligible"
  by (auto simp: reward_value_def Let_def split: reward_type.splits option.splits if_splits)

lemma resolve_reward_le:
  "resolve_loyalty_reward_discount nid uid rid amount ls ty db = Inr (db', d, rw) \<Longrightarrow> 0 \<le> amount \<Longrightarrow> d \<le> money amount"
  by (auto simp: resolve_loyalty_reward_discount_def split_beta Let_def money_nonneg dest!: reward_value_le
      split: if_splits option.splits)

lemma use_loyalty_bounds:
  assumes "use_loyalty env b uid sub d ls db = Inr (db', d', pts, rw)" and "d \<le> sub" and "cents sub" "cents d"
  shows "d' \<le> sub \<and> cents d'"
proof -
  have m: "max 0 (sub - d) = sub - d" "money (sub - d) = sub - d"
    using assms(2-4) by (simp_all add: money_cents cents_diff)
  have "d' = d \<or> (\<exists>e. d' = money (d + e) \<and> e \<le> sub - d)"
  proof (cases "ob_loyalty_reward_id b = None \<or> ob_loyalty_reward_id b = Some 0")
    case True
    then show ?thesis
      using assms(1) resolve_loyalty_discount_le [of "ce_account_key env" uid "ob_loyalty_points b" "sub - d" db] assms(2)
      by (auto simp: use_loyalty_def Let_def split_beta m split: if_splits)
  next
    case False
    then obtain r where r: "ob_loyalty_reward_id b = Some r" "r \<noteq> 0" by auto
    then show ?thesis
      using assms(1) resolve_reward_le [of "ce_account_key env" uid r "sub - d" ls "ob_order_type b" db] assms(2)
      by (auto simp: use_loyalty_def Let_def split_beta m split: if_splits)
  qed
  moreover have "money (d + e) \<le> sub" if "e \<le> sub - d" for e
    by (rule money_le_cents [OF assms(3)]) (use that in simp)
  ultimately show ?thesis using assms(2,4) by (auto simp: cents_intros)
qed

lemma resolve_delivery_cents: "resolve_delivery env db b src sub eid pf lf = Inr (fee, mins, zid, ze) \<Longrightarrow> cents fee"
  by (auto simp: resolve_delivery_def Let_def split: if_splits option.splits)

lemma locate_order_cents: "locate_order env db b src sub pf lf = Inr (e, fee, mins, zid) \<Longrightarrow> cents fee"
  by (auto simp: locate_order_def split_beta dest!: resolve_delivery_cents split: if_splits option.splits)

subsection \<open>The two phases\<close>

lemma prepare_order_Inr:
  assumes "prepare_order env b c h site sh = Inr p"
  obtains promo pf discount eid fee mins where
    "mapE (resolve_catalog_item (st_catalog (sh_stock sh))) (ob_items b) = Inr (po_lines p)"
    "resolve_menus (ce_now env) (ob_menu_items b) (sh_stock sh) = Inr (po_stock p, po_menus p)"
    "use_promo_code env b (cc_user_id c) (subtotal_of (po_lines p) (po_menus p)) (promo_cart (po_lines p) (po_menus p)) sh
      = Inr (po_promos p, promo, pf)"
    "use_loyalty env b (cc_user_id c) (subtotal_of (po_lines p) (po_menus p)) promo (po_lines p) (sh_loyalty sh)
      = Inr (po_loyalty p, discount, po_points p, po_reward p)"
    "locate_order env (sh_zones sh) b (cc_source c) (subtotal_of (po_lines p) (po_menus p)) pf
       (case po_reward p of None \<Rightarrow> False | Some rw \<Rightarrow> rw_type rw = Free_delivery_reward)
      = Inr (eid, fee, mins, ord_delivery_zone_id (po_order p))"
    "enforce_ordering (ce_haccp env) eid (ordered_products b (po_menus p)) (dd_establishments (sh_zones sh)) (po_stock p) site h = Inr ()"
    "po_order p = new_order env b c eid (subtotal_of (po_lines p) (po_menus p)) discount fee (ord_delivery_zone_id (po_order p))
       (estimate_delivery_at (ce_now env) mins sh)"
proof -
  note u = assms [unfolded prepare_order_def Let_def]
  obtain ls where ls: "mapE (resolve_catalog_item (st_catalog (sh_stock sh))) (ob_items b) = Inr ls"
    using u by (cases "mapE (resolve_catalog_item (st_catalog (sh_stock sh))) (ob_items b)") simp_all
  note u = u [unfolded ls rbind_simps]
  obtain st ms where ms: "resolve_menus (ce_now env) (ob_menu_items b) (sh_stock sh) = Inr (st, ms)"
    using u by (cases "resolve_menus (ce_now env) (ob_menu_items b) (sh_stock sh)") (simp, fastforce)
  note u = u [unfolded ms rbind_simps prod.case]
  obtain pdb promo pf where pr: "use_promo_code env b (cc_user_id c) (subtotal_of ls ms) (promo_cart ls ms) sh = Inr (pdb, promo, pf)"
    using u by (cases "use_promo_code env b (cc_user_id c) (subtotal_of ls ms) (promo_cart ls ms) sh") (simp, metis prod.collapse)
  note u = u [unfolded pr rbind_simps prod.case]
  obtain ldb discount pts rw where lo: "use_loyalty env b (cc_user_id c) (subtotal_of ls ms) promo ls (sh_loyalty sh) = Inr (ldb, discount, pts, rw)"
    using u by (cases "use_loyalty env b (cc_user_id c) (subtotal_of ls ms) promo ls (sh_loyalty sh)") (simp, metis prod.collapse)
  note u = u [unfolded lo rbind_simps prod.case]
  let ?loc = "locate_order env (sh_zones sh) b (cc_source c) (subtotal_of ls ms) pf
       (case rw of None \<Rightarrow> False | Some rw \<Rightarrow> rw_type rw = Free_delivery_reward)"
  obtain x where x: "?loc = Inr x"
    using u by (cases ?loc) (simp_all split: if_splits)
  obtain eid fee mins zid where xx: "x = (eid, fee, mins, zid)" by (metis prod.collapse)
  note loc = x [unfolded xx]
  have en: "enforce_ordering (ce_haccp env) eid (ordered_products b ms) (dd_establishments (sh_zones sh)) st site h = Inr ()"
    and p: "p = \<lparr>po_stock = st, po_promos = pdb, po_loyalty = ldb, po_lines = ls, po_menus = ms, po_points = pts, po_reward = rw,
      po_order = new_order env b c eid (subtotal_of ls ms) discount fee zid (estimate_delivery_at (ce_now env) mins sh)\<rparr>"
    using u [unfolded loc rbind_simps prod.case] by (auto split: if_splits)
  have z: "ord_delivery_zone_id (po_order p) = zid" by (simp add: p new_order_def)
  show ?thesis
    by (rule that [of promo pf discount eid fee mins]) (use ls ms pr lo loc en z in \<open>simp_all add: p\<close>)
qed

lemma create_order_Inr:
  assumes "create_order env b c h site sh = Inr (sh', o1)"
  obtains key where "cc_key c = Some key" "key \<noteq> []" "length key \<le> 128" "\<not> cc_skip_lookup c"
      "find_idempotent_order (ce_now env) (cc_user_id c) key (sh_orders sh) = Some o1" "sh' = sh"
  | key p sh1 where "cc_key c = Some key" "key \<noteq> []" "length key \<le> 128"
      "cc_skip_lookup c \<or> find_idempotent_order (ce_now env) (cc_user_id c) key (sh_orders sh) = None"
      "prepare_order env b c h site sh = Inr p" "insert_order env c p sh = Inr sh1"
      "sh' = record_usage c o1 sh1" "o1 = po_order p"
proof -
  obtain key where k: "cc_key c = Some key" using assms by (cases "cc_key c") (simp_all add: create_order_def)
  have kk: "key \<noteq> []" "length key \<le> 128"
    using assms by (auto simp: create_order_def k split: if_splits)
  let ?f = "if cc_skip_lookup c then None else find_idempotent_order (ce_now env) (cc_user_id c) key (sh_orders sh)"
  note u = assms [unfolded create_order_def k option.case]
  show ?thesis
  proof (cases ?f)
    case None
    obtain p sh1 where "prepare_order env b c h site sh = Inr p" "insert_order env c p sh = Inr sh1"
      "sh' = record_usage c o1 sh1" "o1 = po_order p"
      using u kk None by auto
    moreover have "cc_skip_lookup c \<or> find_idempotent_order (ce_now env) (cc_user_id c) key (sh_orders sh) = None"
      using None by (auto split: if_splits)
    ultimately show ?thesis using that(2) k kk by blast
  next
    case (Some o2)
    have "\<not> cc_skip_lookup c" "find_idempotent_order (ce_now env) (cc_user_id c) key (sh_orders sh) = Some o2"
      using Some by (auto split: if_splits)
    moreover have "o2 = o1 \<and> sh' = sh" using u kk Some by auto
    ultimately show ?thesis using that(1) k kk by blast
  qed
qed

text \<open>\<open>created\<close>: the call inserted a new order (it was not a repetition).\<close>

definition created :: "create_env \<Rightarrow> order_body \<Rightarrow> create_call \<Rightarrow> haccp_db \<Rightarrow> site_db \<Rightarrow> shop \<Rightarrow> shop \<Rightarrow> order \<Rightarrow> bool" where
  "created env b c h site sh sh' o1 \<longleftrightarrow> create_order env b c h site sh = Inr (sh', o1)
     \<and> (cc_skip_lookup c \<or> (\<forall>key. cc_key c = Some key \<longrightarrow>
          find_idempotent_order (ce_now env) (cc_user_id c) key (sh_orders sh) = None))"

lemma created_cases:
  assumes "created env b c h site sh sh' o1"
  obtains key p sh1 where "cc_key c = Some key" "prepare_order env b c h site sh = Inr p" "insert_order env c p sh = Inr sh1"
      "sh' = record_usage c o1 sh1" "o1 = po_order p"
proof -
  have cr: "create_order env b c h site sh = Inr (sh', o1)" using assms by (simp add: created_def)
  show ?thesis
    by (rule create_order_Inr [OF cr]) (use assms that in \<open>auto simp: created_def\<close>)
qed

lemma record_usage_frame [simp]:
  "sh_orders (record_usage c o1 sh) = sh_orders sh" "sh_items (record_usage c o1 sh) = sh_items sh"
  "sh_history (record_usage c o1 sh) = sh_history sh" "sh_dispatch (record_usage c o1 sh) = sh_dispatch sh"
  "sh_stock (record_usage c o1 sh) = sh_stock sh" "sh_loyalty (record_usage c o1 sh) = sh_loyalty sh"
  "sh_payments (record_usage c o1 sh) = sh_payments sh" "sh_outbox (record_usage c o1 sh) = sh_outbox sh"
  by (simp_all add: record_usage_def split: option.splits sum.splits)

lemma insert_order_Inr:
  assumes "insert_order env c p sh = Inr sh1"
  shows "sh_orders sh1 = sh_orders sh @ [po_order p]"
    and "sh_items sh1 = sh_items sh @ item_rows (ord_id (po_order p)) (ce_item_key env) (po_lines p) (po_menus p)"
    and "sh_history sh1 = sh_history sh @ [\<lparr>hist_order_id = ord_id (po_order p), hist_status = ord_status (po_order p),
        hist_note = None, hist_authority = Internal\<rparr>]"
    and "sh_dispatch sh1 = sh_dispatch sh" and "sh_stock sh1 = po_stock p"
    and "sh_payments sh1 = sh_payments sh" and "sh_outbox sh1 = sh_outbox sh"
    and "cc_key c = Some key \<Longrightarrow> \<not> key_taken (cc_user_id c) key (sh_orders sh)"
  using assms by (auto simp: insert_order_def Let_def add_history_def split: if_splits)

lemma created_frame:
  assumes "created env b c h site sh sh' o1"
  shows "sh_orders sh' = sh_orders sh @ [o1]"
    and "sh_history sh' = sh_history sh @ [\<lparr>hist_order_id = ord_id o1, hist_status = Pending, hist_note = None,
        hist_authority = Internal\<rparr>]"
    and "sh_dispatch sh' = sh_dispatch sh" and "ord_status o1 = Pending" and "ord_id o1 = ce_order_key env"
    and "ord_user_id o1 = cc_user_id c" and "ord_idempotency_key o1 = cc_key c" and "ord_created_at o1 = ce_now env"
    and "sh_payments sh' = sh_payments sh" and "ord_payment_status o1 = Pay_pending"
proof -
  obtain key p sh1 where p: "prepare_order env b c h site sh = Inr p" and i: "insert_order env c p sh = Inr sh1"
    and e: "sh' = record_usage c o1 sh1" "o1 = po_order p" by (rule created_cases [OF assms])
  obtain eid s d f z t where n: "po_order p = new_order env b c eid s d f z t" by (rule prepare_order_Inr [OF p])
  show "sh_orders sh' = sh_orders sh @ [o1]"
    and "sh_history sh' = sh_history sh @ [\<lparr>hist_order_id = ord_id o1, hist_status = Pending, hist_note = None,
        hist_authority = Internal\<rparr>]"
    and "sh_dispatch sh' = sh_dispatch sh" and "ord_status o1 = Pending" and "ord_id o1 = ce_order_key env"
    and "ord_user_id o1 = cc_user_id c" and "ord_idempotency_key o1 = cc_key c" and "ord_created_at o1 = ce_now env"
    and "sh_payments sh' = sh_payments sh" and "ord_payment_status o1 = Pay_pending"
    by (simp_all add: e insert_order_Inr [OF i]) (simp_all add: n new_order_def)
qed

subsection \<open>A concrete counter\<close>

definition demo_counter :: shop where
  "demo_counter = (demo_shop Pending [])\<lparr>sh_orders := [], sh_items := [], sh_history := [],
      sh_zones := demo_zones\<lparr>dd_establishments := [demo_place]\<rparr>\<rparr>"

definition demo_line :: line_request where
  "demo_line = \<lparr>lq_product_id = 7, lq_variant_id = None, lq_quantity = 2, lq_extras = []\<rparr>"

definition demo_pickup :: order_body where
  "demo_pickup = \<lparr>ob_establishment_id = Some 1, ob_order_type = Pickup, ob_customer_email = None, ob_customer_name = None,
      ob_customer_phone = None, ob_delivery_address = None, ob_delivery_zone_id = None, ob_delivery_lat = None,
      ob_delivery_lng = None, ob_delivery_instructions = None, ob_promo_code = None, ob_items = [demo_line],
      ob_menu_items = [], ob_loyalty_points = 0, ob_loyalty_reward_id = None\<rparr>"

definition demo_call :: create_call where
  "demo_call = \<lparr>cc_user_id = Some 4, cc_key = Some ''k'', cc_created_by = None, cc_source = Src_customer,
      cc_table_number = None, cc_customer_name = None, cc_customer_phone = None, cc_commit = True, cc_skip_lookup = False\<rparr>"

definition demo_cenv :: create_env where
  "demo_cenv = \<lparr>ce_haccp = demo_henv, ce_float = (\<lambda>_. None), ce_tz = (\<lambda>_ _. (10, 0)), ce_verified = (\<lambda>_. True),
      ce_order_key = 5, ce_item_key = 1, ce_account_key = 1\<rparr>"

definition demo_created_order :: order where
  "demo_created_order = new_order demo_cenv demo_pickup demo_call 1 24 0 0 None (25 * 60000000)"

lemma demo_money: "money 12 = 12" "money 24 = 24"
  using money_of_cents [of 1200] money_of_cents [of 2400] by simp_all

lemma demo_resolved: "\<exists>r. resolve_catalog_item demo_catalog demo_line = Inr r \<and> rs_request r = demo_line \<and> rs_unit_price r = 12"
  by (simp add: resolve_catalog_item_def demo_catalog_def demo_line_def row_simps resolve_variant_def resolve_extras_def demo_money)

lemma demo_prepared_call:
  assumes r: "resolve_catalog_item demo_catalog demo_line = Inr r" "rs_request r = demo_line" "rs_unit_price r = 12"
  shows "prepare_order demo_cenv demo_pickup c demo_haccp demo_site demo_counter = Inr \<lparr>po_stock = demo_stock,
      po_promos = sh_promos demo_counter, po_loyalty = sh_loyalty demo_counter, po_lines = [r], po_menus = [], po_points = 0,
      po_reward = None, po_order = new_order demo_cenv demo_pickup c 1 24 0 0 None (25 * 60000000)\<rparr>"
proof -
  have st: "st_catalog demo_stock = demo_catalog" "sh_stock demo_counter = demo_stock"
    by (simp_all add: demo_counter_def demo_shop_def demo_stock_def)
  have sub: "subtotal_of [r] [] = 24"
    by (simp add: subtotal_of_def line_total_def r(2,3)) (simp add: demo_line_def demo_money)
  have loc: "locate_order demo_cenv (sh_zones demo_counter) demo_pickup src 24 False False = Inr (1, 0, 0, None)" for src
    by (simp add: locate_order_def resolve_delivery_def resolve_establishment_id_def demo_pickup_def demo_counter_def demo_place_def)
  have eta: "estimate_delivery_at (ce_now demo_cenv) 0 demo_counter = 25 * 60000000"
    by (simp add: estimate_delivery_at_def demo_counter_def demo_shop_def demo_cenv_def demo_henv_def)
  have en: "enforce_ordering (ce_haccp demo_cenv) 1 (ordered_products demo_pickup []) (dd_establishments (sh_zones demo_counter))
      demo_stock demo_site demo_haccp = Inr ()"
    using demo_gate by (simp add: demo_cenv_def ordered_products_def demo_pickup_def demo_line_def demo_counter_def)
  have fields: "ob_items demo_pickup = [demo_line]" "ob_menu_items demo_pickup = []"
    "ob_order_type demo_pickup = Pickup" "ob_promo_code demo_pickup = None" "ob_loyalty_points demo_pickup = 0"
    "ob_loyalty_reward_id demo_pickup = None"
    by (simp_all add: demo_pickup_def)
  show ?thesis
    by (simp add: prepare_order_def st fields r(1) Let_def sub use_promo_code_def use_loyalty_def loc eta en del: rbind_eq_Inr)
qed

lemma demo_prepared:
  "\<exists>p. prepare_order demo_cenv demo_pickup demo_call demo_haccp demo_site demo_counter = Inr p
     \<and> po_order p = demo_created_order \<and> po_points p = 0 \<and> po_reward p = None"
  using demo_resolved demo_prepared_call by (fastforce simp: demo_created_order_def)

lemma demo_created:
  "\<exists>sh'. created demo_cenv demo_pickup demo_call demo_haccp demo_site demo_counter sh' demo_created_order"
proof -
  obtain p where p: "prepare_order demo_cenv demo_pickup demo_call demo_haccp demo_site demo_counter = Inr p"
    and f: "po_order p = demo_created_order" "po_points p = 0" "po_reward p = None" using demo_prepared by blast
  have k: "cc_key demo_call = Some ''k''" by (simp add: demo_call_def)
  have none: "find_idempotent_order t u k (sh_orders demo_counter) = None" "\<not> key_taken u k (sh_orders demo_counter)" for t u k
    by (simp_all add: find_idempotent_order_def key_taken_def demo_counter_def)
  have "\<exists>sh1. insert_order demo_cenv demo_call p demo_counter = Inr sh1"
    by (simp add: insert_order_def f k none charge_points_def charge_reward_def Let_def)
  then obtain sh1 where "insert_order demo_cenv demo_call p demo_counter = Inr sh1" by blast
  then show ?thesis by (simp add: created_def create_order_def k none p f)
qed

lemma demo_created_fields: "ord_id demo_created_order = 5" "ord_subtotal demo_created_order = 24" "ord_user_id demo_created_order = Some 4"
  "ord_establishment_id demo_created_order = Some 1"
  by (simp_all add: demo_created_order_def new_order_def demo_cenv_def demo_call_def)

subsection \<open>Amounts\<close>

lemma line_rows_fields:
  "sum_list (map oi_total (line_rows oid k ls)) = sum_list (map (\<lambda>r. money (line_total r)) ls)"
  "it \<in> set (line_rows oid k ls) \<Longrightarrow> oi_order_id it = oid"
  by (induction ls arbitrary: k) (auto simp: line_row_def)

lemma component_rows_fields:
  "sum_list (map oi_total (component_rows oid parent k m cs)) = 0"
  "it \<in> set (component_rows oid parent k m cs) \<Longrightarrow> oi_order_id it = oid"
  by (induction cs arbitrary: k) (auto simp: component_row_def split_beta)

lemma menu_rows_fields:
  "sum_list (map oi_total (menu_rows oid k ms)) = sum_list (map (\<lambda>m. money (menu_total m)) ms)"
  "it \<in> set (menu_rows oid k ms) \<Longrightarrow> oi_order_id it = oid"
  by (induction ms arbitrary: k) (auto simp: menu_row_def component_rows_fields(1) dest: component_rows_fields(2))

lemma item_rows_order: "it \<in> set (item_rows oid k ls ms) \<Longrightarrow> oi_order_id it = oid"
  by (auto simp: item_rows_def dest: line_rows_fields(2) menu_rows_fields(2))

lemma created_rows:
  assumes "created env b c h site sh sh' o1" and "\<forall>it \<in> set (sh_items sh). oi_order_id it \<noteq> ord_id o1"
  obtains p where "prepare_order env b c h site sh = Inr p" "o1 = po_order p" "sh_stock sh' = po_stock p"
    "items_of_order (ord_id o1) (sh_items sh') = item_rows (ord_id o1) (ce_item_key env) (po_lines p) (po_menus p)"
proof -
  obtain key p sh1 where p: "prepare_order env b c h site sh = Inr p" and i: "insert_order env c p sh = Inr sh1"
    and e: "sh' = record_usage c o1 sh1" "o1 = po_order p" by (rule created_cases [OF assms(1)])
  have "items_of_order (ord_id o1) (sh_items sh') = item_rows (ord_id o1) (ce_item_key env) (po_lines p) (po_menus p)"
    using assms(2) by (auto simp: items_of_order_def e insert_order_Inr(2) [OF i] filter_id_conv filter_empty_conv dest: item_rows_order)
  moreover have "sh_stock sh' = po_stock p" by (simp add: e insert_order_Inr(5) [OF i])
  ultimately show ?thesis by (intro that [OF p e(2)])
qed

lemma order_sums:
  assumes "created env b c h site sh sh' o1" and "0 \<le> ord_subtotal o1"
    and "\<forall>it \<in> set (sh_items sh). oi_order_id it \<noteq> ord_id o1"
  shows "ord_subtotal o1 = sum_list (map oi_total (items_of_order (ord_id o1) (sh_items sh')))
    \<and> ord_total o1 = ord_subtotal o1 - ord_discount_total o1 + ord_delivery_fee o1
    \<and> ord_discount_total o1 \<le> ord_subtotal o1
    \<and> cents (ord_subtotal o1) \<and> cents (ord_discount_total o1) \<and> cents (ord_delivery_fee o1)"
proof -
  obtain p where p: "prepare_order env b c h site sh = Inr p" and o1: "o1 = po_order p"
    and its: "items_of_order (ord_id o1) (sh_items sh') = item_rows (ord_id o1) (ce_item_key env) (po_lines p) (po_menus p)"
    by (rule created_rows [OF assms(1,3)])
  let ?s = "subtotal_of (po_lines p) (po_menus p)"
  obtain promo pf discount eid fee mins where
    ls: "mapE (resolve_catalog_item (st_catalog (sh_stock sh))) (ob_items b) = Inr (po_lines p)" and
    ms: "resolve_menus (ce_now env) (ob_menu_items b) (sh_stock sh) = Inr (po_stock p, po_menus p)" and
    pr: "use_promo_code env b (cc_user_id c) ?s (promo_cart (po_lines p) (po_menus p)) sh = Inr (po_promos p, promo, pf)" and
    lo: "use_loyalty env b (cc_user_id c) ?s promo (po_lines p) (sh_loyalty sh)
      = Inr (po_loyalty p, discount, po_points p, po_reward p)" and
    loc: "locate_order env (sh_zones sh) b (cc_source c) ?s pf
       (case po_reward p of None \<Rightarrow> False | Some rw \<Rightarrow> rw_type rw = Free_delivery_reward)
      = Inr (eid, fee, mins, ord_delivery_zone_id (po_order p))" and
    n: "po_order p = new_order env b c eid ?s discount fee (ord_delivery_zone_id (po_order p))
       (estimate_delivery_at (ce_now env) mins sh)"
    by (rule prepare_order_Inr [OF p])
  have f: "ord_subtotal o1 = ?s" "ord_discount_total o1 = discount" "ord_delivery_fee o1 = fee"
    "ord_total o1 = money (?s - discount + fee)"
    unfolding o1 by (subst n, simp add: new_order_def)+
  have "0 \<le> ?s" using assms(2) f by simp
  then have pb: "promo \<le> ?s \<and> cents promo" using use_promo_code_bounds [OF pr] by simp
  then have db: "discount \<le> ?s \<and> cents discount" using use_loyalty_bounds [OF lo] by simp
  have "?s = sum_list (map oi_total (item_rows (ord_id o1) (ce_item_key env) (po_lines p) (po_menus p)))"
  proof -
    have "\<forall>r \<in> set (po_lines p). cents (rs_unit_price r)" using resolved_lines [OF ls] resolved_price_cents by blast
    moreover have "\<forall>m \<in> set (po_menus p). cents (rm_unit_price m)" using menus_price_cents [OF ms] by blast
    ultimately show ?thesis by (simp add: subtotal_exact item_rows_def line_rows_fields menu_rows_fields)
  qed
  moreover have "money (?s - discount + fee) = ?s - discount + fee"
    using db locate_order_cents [OF loc] by (simp add: money_cents cents_intros)
  ultimately show ?thesis using db locate_order_cents [OF loc] cents_subtotal [of "po_lines p" "po_menus p"] by (simp add: f its)
qed

text \<open>C13. The bill adds up and is the server's own: for a newly created order the subtotal is the sum of the totals of the
  stored lines, the total is exactly subtotal minus discount plus delivery fee, and the discount never exceeds the
  subtotal, whatever promotion codes, points or rewards the request names.\<close>

theorem order_amounts_add_up:
  assumes "created env b c h site sh sh' o1" and "0 \<le> ord_subtotal o1"
    and "\<forall>it \<in> set (sh_items sh). oi_order_id it \<noteq> ord_id o1"
  shows "ord_subtotal o1 = sum_list (map oi_total (items_of_order (ord_id o1) (sh_items sh')))
    \<and> ord_total o1 = ord_subtotal o1 - ord_discount_total o1 + ord_delivery_fee o1
    \<and> ord_discount_total o1 \<le> ord_subtotal o1"
  using order_sums [OF assms] by blast

theorem order_amounts_add_up_witness:
  "\<exists>sh'. created demo_cenv demo_pickup demo_call demo_haccp demo_site demo_counter sh' demo_created_order
     \<and> sum_list (map oi_total (items_of_order 5 (sh_items sh'))) = 24"
proof -
  obtain sh' where c: "created demo_cenv demo_pickup demo_call demo_haccp demo_site demo_counter sh' demo_created_order"
    using demo_created by blast
  have "0 \<le> ord_subtotal demo_created_order" "\<forall>it \<in> set (sh_items demo_counter). oi_order_id it \<noteq> ord_id demo_created_order"
    by (simp_all add: demo_created_fields demo_counter_def)
  from order_amounts_add_up [OF c this] show ?thesis using c by (auto simp: demo_created_fields)
qed

subsection \<open>Repeating a request\<close>

lemma find_append_rows: "find P (xs @ ys) = (case find P xs of None \<Rightarrow> find P ys | Some x \<Rightarrow> Some x)"
  by (induction xs) simp_all

text \<open>C18. Sending an order twice creates it once: after a call created an order, a call of the same customer with the same
  key within 24 hours returns that order and changes nothing, even when its body differs.\<close>

theorem retry_returns_the_order:
  assumes "created env b c h site sh sh' o1" and "\<not> cc_skip_lookup c"
    and "ce_now env \<le> ce_now env'" and "ce_now env' \<le> ce_now env + hours 24"
  shows "create_order env' b' c h' site' sh' = Inr (sh', o1)"
proof -
  note f = created_frame [OF assms(1)]
  have cr: "create_order env b c h site sh = Inr (sh', o1)" using assms(1) by (simp add: created_def)
  obtain key where k: "cc_key c = Some key" "key \<noteq> []" "length key \<le> 128"
    by (rule create_order_Inr [OF cr])
  have none: "find_idempotent_order (ce_now env) (cc_user_id c) key (sh_orders sh) = None"
    using assms(1,2) k(1) by (simp add: created_def)
  have "find_idempotent_order (ce_now env') (cc_user_id c) key (sh_orders sh) = None"
    using none assms(3) by (fastforce simp: find_idempotent_order_def find_None_iff)
  then have "find_idempotent_order (ce_now env') (cc_user_id c) key (sh_orders sh') = Some o1"
    using assms(4) by (simp add: find_idempotent_order_def f k find_append_rows split: option.splits)
  then show ?thesis using k assms(2) by (simp add: create_order_def)
qed

theorem retry_returns_the_order_witness:
  "\<exists>sh'. created demo_cenv demo_pickup demo_call demo_haccp demo_site demo_counter sh' demo_created_order
     \<and> create_order demo_cenv (demo_pickup\<lparr>ob_items := []\<rparr>) demo_call demo_haccp demo_site sh' = Inr (sh', demo_created_order)"
proof -
  obtain sh' where c: "created demo_cenv demo_pickup demo_call demo_haccp demo_site demo_counter sh' demo_created_order"
    using demo_created by blast
  have "\<not> cc_skip_lookup demo_call" "ce_now demo_cenv \<le> ce_now demo_cenv + hours 24" by (simp_all add: demo_call_def)
  from retry_returns_the_order [OF c this(1) order_refl this(2)] c show ?thesis by blast
qed

text \<open>The key is found for 24 hours only, but the unique constraint never forgets: later the same request fails.\<close>

lemma late_retry_is_refused:
  assumes "created env b c h site sh sh' o1" and "cc_user_id c = Some u"
    and "\<forall>o2 \<in> set (sh_orders sh'). ord_created_at o2 < ce_now env' - hours 24"
    and "prepare_order env' b' c h' site' sh' = Inr p"
  shows "create_order env' b' c h' site' sh' = Inl IntegrityError"
proof -
  note f = created_frame [OF assms(1)]
  have cr: "create_order env b c h site sh = Inr (sh', o1)" using assms(1) by (simp add: created_def)
  obtain key where k: "cc_key c = Some key" "key \<noteq> []" "length key \<le> 128"
    by (rule create_order_Inr [OF cr])
  have "find_idempotent_order (ce_now env') (cc_user_id c) key (sh_orders sh') = None"
    using assms(3) by (fastforce simp: find_idempotent_order_def find_None_iff)
  moreover have "key_taken (cc_user_id c) key (sh_orders sh')"
    using assms(2) by (simp add: key_taken_def f k)
  ultimately show ?thesis using k assms(4) by (simp add: create_order_def insert_order_def Let_def)
qed

subsection \<open>The whole kitchen\<close>

text \<open>The shop with order creation; the database draws a fresh key for the order.\<close>

inductive kitchen_step :: "shop \<Rightarrow> shop \<Rightarrow> bool" where
  kstep_shop: "shop_step sh sh' \<Longrightarrow> kitchen_step sh sh'"
| kstep_create: "create_order env b c h site sh = Inr (sh', o1) \<Longrightarrow> order_of (ce_order_key env) sh = None \<Longrightarrow> kitchen_step sh sh'"

lemma create_order_created:
  assumes "create_order env b c h site sh = Inr (sh', o1)"
  shows "sh' = sh \<or> created env b c h site sh sh' o1"
  by (rule create_order_Inr [OF assms]) (use assms in \<open>auto simp: created_def\<close>)

lemma created_order_of:
  assumes "created env b c h site sh sh' o1" and "order_of (ce_order_key env) sh = None"
  shows "order_of k sh' = (if k = ce_order_key env then Some o1 else order_of k sh)"
  using assms(2) by (simp add: created_frame [OF assms(1)] row_get_append row_get_Cons row_get_Nil split: option.splits)

lemma created_coherent:
  assumes "created env b c h site sh sh' o1" and "order_of (ce_order_key env) sh = None" and "shop_coherent sh"
  shows "shop_coherent sh'"
proof -
  have "view k (sh_orders sh') = (if k = ce_order_key env then Some (ord_type o1, Pending) else view k (sh_orders sh))" for k
    using created_order_of [OF assms(1,2), of k] created_frame(4) [OF assms(1)] by (simp add: view_def)
  moreover have "view (ce_order_key env) (sh_orders sh) = None" using assms(2) by (simp add: view_def)
  ultimately show ?thesis
    using assms(3) unfolding coherent_def created_frame(3) [OF assms(1)] by (metis option.distinct(1))
qed

lemma created_trail:
  assumes "created env b c h site sh sh' o1" and "order_of (ce_order_key env) sh = None" and "trail_ok sh"
  shows "trail_ok sh'"
proof (rule trail_append [OF assms(3) created_frame(2) [OF assms(1)]])
  show "status_of k sh' = (if k = ord_id o1 then Some Pending else status_of k sh)" for k
    using created_order_of [OF assms(1,2), of k] created_frame(4,5) [OF assms(1)] by (simp add: status_of_def)
qed simp

text \<open>Every order started as pending and moved along the life cycle.\<close>

definition from_pending :: "shop \<Rightarrow> bool" where
  "from_pending sh \<longleftrightarrow> (\<forall>k st. status_of k sh = Some st \<longrightarrow> life\<^sup>*\<^sup>* Pending st)"

lemma shop_step_from_pending: "shop_step sh sh' \<Longrightarrow> from_pending sh \<Longrightarrow> from_pending sh'"
proof -
  assume s: "shop_step sh sh'" and fp: "from_pending sh"
  have "life\<^sup>*\<^sup>* Pending st" if st: "status_of k sh' = Some st" for k st
  proof -
    have o: "olife\<^sup>*\<^sup>* (status_of k sh) (status_of k sh')" by (rule shop_refines.step_sim [OF s])
    then obtain st0 where "status_of k sh = Some st0" "life\<^sup>*\<^sup>* st0 st"
      using olife_run [OF o] st by (cases "status_of k sh") auto
    then show ?thesis using fp by (auto simp: from_pending_def intro: rtranclp_trans)
  qed
  then show ?thesis by (simp add: from_pending_def)
qed

definition kitchen_ok :: "shop \<Rightarrow> bool" where
  "kitchen_ok sh \<longleftrightarrow> shop_coherent sh \<and> trail_ok sh \<and> from_pending sh"

lemma kitchen_step_ok: "kitchen_step sh sh' \<Longrightarrow> kitchen_ok sh \<Longrightarrow> kitchen_ok sh'"
proof (induction rule: kitchen_step.induct)
  case (kstep_shop sh sh')
  then show ?case
    using shop_inv.step_inv [OF kstep_shop(1)] trail_inv.step_inv [OF kstep_shop(1)] shop_step_from_pending [OF kstep_shop(1)]
    by (simp add: kitchen_ok_def)
next
  case (kstep_create env b c h site sh sh' o1)
  show ?case
  proof (cases "sh' = sh")
    case False
    then have cr: "created env b c h site sh sh' o1" using create_order_created [OF kstep_create(1)] by simp
    have "status_of k sh' = (if k = ce_order_key env then Some Pending else status_of k sh)" for k
      using created_order_of [OF cr kstep_create(2), of k] created_frame(4) [OF cr] by (simp add: status_of_def)
    then have "from_pending sh'" using kstep_create(3) by (simp add: kitchen_ok_def from_pending_def)
    then show ?thesis
      using created_coherent [OF cr kstep_create(2)] created_trail [OF cr kstep_create(2)] kstep_create(3)
      by (simp add: kitchen_ok_def)
  qed (use kstep_create in simp)
qed

interpretation kitchen_inv: invariant_steps kitchen_step kitchen_ok
  by unfold_locales (rule kitchen_step_ok)

text \<open>C12. Every order can be accounted for: in a kitchen that starts without orders and deliveries, after any sequence of
  order creations, status changes, preparation updates, dispatch and delivery operations, each order's status is
  reachable from pending along the life cycle, is the last status in its history, and agrees with its live delivery.\<close>

theorem every_order_is_accounted_for:
  assumes "kitchen_step\<^sup>*\<^sup>* sh sh'" and "sh_orders sh = []" and "dp_deliveries (sh_dispatch sh) = []"
    and "order_of k sh' = Some o1"
  shows "life\<^sup>*\<^sup>* Pending (ord_status o1) \<and> last_recorded k sh' = Some (ord_status o1)
    \<and> (\<forall>d \<in> set (dp_deliveries (sh_dispatch sh')). delivery_live d \<and> dv_order_id d = k \<longrightarrow>
         ord_type o1 = Delivery_type \<and> follows (dv_status d) (ord_status o1))"
proof -
  have "kitchen_ok sh"
    using assms(2,3) by (simp add: kitchen_ok_def coherent_def trail_ok_def from_pending_def status_of_def row_simps)
  then have ok: "kitchen_ok sh'" by (rule kitchen_inv.run_inv [OF assms(1)])
  have st: "status_of k sh' = Some (ord_status o1)" using assms(4) by (simp add: status_of_def)
  have "ord_type o1 = Delivery_type \<and> follows (dv_status d) (ord_status o1)"
    if "d \<in> set (dp_deliveries (sh_dispatch sh'))" "delivery_live d" "dv_order_id d = k" for d
    using ok that assms(4) by (auto simp: kitchen_ok_def coherent_def view_def)
  then show ?thesis using ok st by (auto simp: kitchen_ok_def trail_ok_def from_pending_def)
qed

theorem every_order_is_accounted_for_witness:
  "\<exists>sh'. kitchen_step demo_counter sh' \<and> last_recorded 5 sh' = Some Pending"
proof -
  obtain sh' where c: "created demo_cenv demo_pickup demo_call demo_haccp demo_site demo_counter sh' demo_created_order"
    using demo_created by blast
  have n: "order_of (ce_order_key demo_cenv) demo_counter = None" by (simp add: demo_counter_def row_simps row_ids_def)
  have s: "kitchen_step demo_counter sh'" using c n by (auto simp: created_def intro: kstep_create)
  have "order_of 5 sh' = Some demo_created_order"
    using created_order_of [OF c n, of 5] by (simp add: demo_cenv_def)
  moreover have "sh_orders demo_counter = []" "dp_deliveries (sh_dispatch demo_counter) = []"
    by (simp_all add: demo_counter_def demo_shop_def demo_dispatch_def)
  ultimately have "last_recorded 5 sh' = Some (ord_status demo_created_order)"
    using every_order_is_accounted_for [OF r_into_rtranclp [of kitchen_step, OF s]] by blast
  then show ?thesis using s created_frame(4) [OF c] by auto
qed

subsection \<open>Lines\<close>

lemma line_rows_cases: "it \<in> set (line_rows oid k ls) \<Longrightarrow> \<exists>r \<in> set ls. \<exists>j. it = line_row oid j r"
  by (induction ls arbitrary: k) auto

lemma component_rows_cases: "it \<in> set (component_rows oid par k m cs) \<Longrightarrow> \<exists>c \<in> set cs. \<exists>j. it = component_row oid par j m c"
  by (induction cs arbitrary: k) auto

lemma menu_rows_cases:
  "it \<in> set (menu_rows oid k ms) \<Longrightarrow> (\<exists>m \<in> set ms. \<exists>j. it = menu_row oid j m)
     \<or> (\<exists>m \<in> set ms. \<exists>c \<in> set (rm_components m). \<exists>j par. it = component_row oid par j m c)"
proof (induction ms arbitrary: k)
  case (Cons m ms)
  then consider "it = menu_row oid k m" | "it \<in> set (component_rows oid k (k + 1) m (rm_components m))"
    | "it \<in> set (menu_rows oid (k + 1 + int (length (rm_components m))) ms)" by auto
  then show ?case
  proof cases
    case 2
    then show ?thesis using component_rows_cases [OF 2] by auto
  next
    case 3
    then show ?thesis using Cons.IH [OF 3] by auto
  qed auto
qed simp

lemma item_rows_cases:
  assumes "it \<in> set (item_rows oid k ls ms)"
  obtains (line) j r where "r \<in> set ls" "it = line_row oid j r"
  | (menu) j m where "m \<in> set ms" "it = menu_row oid j m"
  | (component) j par m g r where "m \<in> set ms" "(g, r) \<in> set (rm_components m)" "it = component_row oid par j m (g, r)"
  using assms line_rows_cases menu_rows_cases unfolding item_rows_def set_append Un_iff by (metis surj_pair)

lemma menus_each:
  assumes "resolve_menus now mqs s = Inr (s', ms)" and "m \<in> set ms"
  obtains mq s1 s2 where "mq \<in> set mqs" "st_catalog s1 = st_catalog s" "resolve_menu_item now mq s1 = Inr (s2, m)"
proof -
  obtain i where i: "i < length ms" "m = ms ! i" using assms(2) by (auto simp: in_set_conv_nth)
  have len: "length mqs = length ms" using resolve_menus_each [OF assms(1)] by (rule list_all2_lengthD)
  obtain s1 s2 where "st_catalog s1 = st_catalog s" "resolve_menu_item now (mqs ! i) s1 = Inr (s2, m)"
    using list_all2_nthD2 [OF resolve_menus_each [OF assms(1)] i(1)] i(2) by blast
  then show ?thesis using that [of "mqs ! i"] i(1) len by simp
qed

text \<open>C15. Nobody names a price: every stored line of a new order is well formed; a product line costs the catalogue price of
  its active product, its variant and its extras, a menu line the fixed price of a menu on sale, and the components of
  a menu cost nothing by themselves.\<close>

theorem prices_come_from_the_catalogue:
  assumes "created env b c h site sh sh' o1" and "\<forall>it \<in> set (sh_items sh). oi_order_id it \<noteq> ord_id o1"
    and "it \<in> set (items_of_order (ord_id o1) (sh_items sh'))" and "cat = st_catalog (sh_stock sh)"
  shows "item_shape_ok it \<and> (case oi_type it of
      Item_product \<Rightarrow> \<exists>lq \<in> set (ob_items b). \<exists>p delta vn xs x.
        row_get prod_id (lq_product_id lq) (cat_products cat) = Some p \<and> prod_active p
        \<and> resolve_variant cat lq = Inr (delta, vn) \<and> resolve_extras cat (lq_product_id lq) (lq_extras lq) = Inr (xs, x)
        \<and> oi_product_id it = Some (lq_product_id lq) \<and> oi_unit_price it = money (prod_base_price p + delta + x)
        \<and> oi_total it = of_int (lq_quantity lq) * oi_unit_price it
    | Item_menu \<Rightarrow> \<exists>mq \<in> set (ob_menu_items b). \<exists>m. row_get menu_id (mq_menu_id mq) (cat_menus cat) = Some m
        \<and> menu_open (ce_now env) m \<and> oi_unit_price it = money (menu_fixed_price m)
        \<and> oi_total it = of_int (mq_quantity mq) * oi_unit_price it
    | Item_menu_component \<Rightarrow> oi_unit_price it = 0 \<and> oi_total it = 0)"
proof -
  obtain p where p: "prepare_order env b c h site sh = Inr p"
    and its: "items_of_order (ord_id o1) (sh_items sh') = item_rows (ord_id o1) (ce_item_key env) (po_lines p) (po_menus p)"
    by (rule created_rows [OF assms(1,2)])
  have ls: "mapE (resolve_catalog_item cat) (ob_items b) = Inr (po_lines p)"
    and ms: "resolve_menus (ce_now env) (ob_menu_items b) (sh_stock sh) = Inr (po_stock p, po_menus p)"
    unfolding assms(4) by (rule prepare_order_Inr [OF p]; simp)+
  from assms(3) [unfolded its] show ?thesis
  proof (cases rule: item_rows_cases)
    case (line j r)
    let ?lq = "rs_request r"
    have lq: "?lq \<in> set (ob_items b)" using line(1) by (auto simp flip: resolved_requests [OF ls])
    have r: "resolve_catalog_item cat ?lq = Inr r" by (rule resolved_lines [OF ls line(1)])
    obtain q delta where q: "row_get prod_id (lq_product_id ?lq) (cat_products cat) = Some q" "prod_active q"
      "resolve_variant cat ?lq = Inr (delta, rs_variant_name r)"
      "resolve_extras cat (lq_product_id ?lq) (lq_extras ?lq) = Inr (rs_extras r, rs_extras_unit_total r)"
      "rs_unit_price r = money (prod_base_price q + delta + rs_extras_unit_total r)"
      by (rule resolve_catalog_item_Inr [OF r])
    have t: "money (line_total r) = line_total r"
      using resolved_price_cents [OF r] by (simp add: line_total_def money_cents cents_times_int)
    have f: "item_shape_ok it" "oi_type it = Item_product" "oi_product_id it = Some (lq_product_id ?lq)"
      "oi_unit_price it = rs_unit_price r" "oi_total it = of_int (lq_quantity ?lq) * rs_unit_price r"
      using t by (simp_all add: line(2) line_row_def item_shape_ok_def line_total_def)
    show ?thesis unfolding f(2) item_type.case
      by (intro conjI f(1) bexI [OF _ lq] exI) (use q f in \<open>auto\<close>)
  next
    case (menu j m)
    obtain mq s1 s2 where mq: "mq \<in> set (ob_menu_items b)" "st_catalog s1 = cat" and m: "resolve_menu_item (ce_now env) mq s1 = Inr (s2, m)"
      unfolding assms(4) by (rule menus_each [OF ms menu(1)])
    obtain mm cs gs where mm: "row_get menu_id (mq_menu_id mq) (cat_menus cat) = Some mm" "menu_open (ce_now env) mm"
      and e: "m = \<lparr>rm_request = mq, rm_menu = mm, rm_unit_price = money (menu_fixed_price mm), rm_components = cs,
          rm_snapshot = snapshot_of mm gs cs\<rparr>"
      by (rule resolve_menu_item_Inr [OF m]) (simp add: mq(2))
    have "item_shape_ok it" "oi_type it = Item_menu" "oi_unit_price it = money (menu_fixed_price mm)"
      "oi_total it = of_int (mq_quantity mq) * money (menu_fixed_price mm)"
      by (simp_all add: menu(2) menu_row_def item_shape_ok_def menu_total_def e money_cents cents_times_int)
    then show ?thesis using mq mm by auto
  next
    case (component j par m g r)
    then show ?thesis by (simp add: component_row_def item_shape_ok_def)
  qed
qed

theorem prices_come_from_the_catalogue_witness:
  "\<exists>sh' it. created demo_cenv demo_pickup demo_call demo_haccp demo_site demo_counter sh' demo_created_order
     \<and> it \<in> set (items_of_order 5 (sh_items sh')) \<and> item_shape_ok it"
proof -
  obtain sh' where c: "created demo_cenv demo_pickup demo_call demo_haccp demo_site demo_counter sh' demo_created_order"
    using demo_created by blast
  have n: "\<forall>it \<in> set (sh_items demo_counter). oi_order_id it \<noteq> ord_id demo_created_order" by (simp add: demo_counter_def)
  obtain p where p: "prepare_order demo_cenv demo_pickup demo_call demo_haccp demo_site demo_counter = Inr p"
    and its: "items_of_order (ord_id demo_created_order) (sh_items sh') =
      item_rows (ord_id demo_created_order) (ce_item_key demo_cenv) (po_lines p) (po_menus p)" by (rule created_rows [OF c n])
  have "length (po_lines p) = length (ob_items demo_pickup)" by (rule prepare_order_Inr [OF p]) (rule mapE_length)
  then obtain r rs where "po_lines p = r # rs" by (cases "po_lines p") (simp_all add: demo_pickup_def)
  then have it: "line_row 5 (ce_item_key demo_cenv) r \<in> set (items_of_order 5 (sh_items sh'))"
    using its by (simp add: demo_created_fields item_rows_def)
  then have "line_row 5 (ce_item_key demo_cenv) r \<in> set (items_of_order (ord_id demo_created_order) (sh_items sh'))"
    by (simp add: demo_created_fields)
  from prices_come_from_the_catalogue [OF c n this refl] show ?thesis using c it by blast
qed

subsection \<open>Hygiene\<close>

lemma rows_products:
  assumes "prepare_order env b c h site sh = Inr p" and "it \<in> set (item_rows oid k (po_lines p) (po_menus p))"
    and "oi_product_id it = Some pid"
  shows "pid \<in> set (ordered_products b (po_menus p))"
proof -
  have ls: "mapE (resolve_catalog_item (st_catalog (sh_stock sh))) (ob_items b) = Inr (po_lines p)"
    and ms: "resolve_menus (ce_now env) (ob_menu_items b) (sh_stock sh) = Inr (po_stock p, po_menus p)"
    by (rule prepare_order_Inr [OF assms(1)]; simp)+
  from assms(2) show ?thesis
  proof (cases rule: item_rows_cases)
    case (line j r)
    have "rs_request r \<in> set (ob_items b)" using line(1) by (auto simp flip: resolved_requests [OF ls])
    then show ?thesis using assms(3) by (auto simp: line(2) line_row_def ordered_products_def)
  next
    case (menu j m)
    then show ?thesis using assms(3) by (simp add: menu_row_def)
  next
    case (component j par m g r)
    obtain mq s1 s2 where m: "resolve_menu_item (ce_now env) mq s1 = Inr (s2, m)" by (rule menus_each [OF ms component(1)])
    obtain mm cs gs where cs: "resolve_selections (st_catalog s1) gs (mq_selections mq) [] = Inr cs" and e: "rm_components m = cs"
      by (rule resolve_menu_item_Inr [OF m]) simp
    have "resolve_selections cat gs sqs seen = Inr cs \<Longrightarrow> (g, r) \<in> set cs \<Longrightarrow> prod_id (rs_product r) = lq_product_id (rs_request r)" for cat gs sqs seen cs
    proof (induction sqs arbitrary: seen cs)
      case (Cons sq sqs)
      then obtain r' cs' g' where "resolve_catalog_item cat (sq_line sq) = Inr r'" "cs = (g', r') # cs'"
        "resolve_selections cat gs sqs ((sq_group_id sq, lq_product_id (sq_line sq)) # seen) = Inr cs'"
        by (auto simp: Let_def split: option.splits if_splits)
      then show ?case using Cons by (auto elim!: resolve_catalog_item_Inr dest: row_get_SomeD)
    qed simp
    then have "pid = prod_id (rs_product r)" using cs component(2,3) assms(3) e by (auto simp: component_row_def)
    then show ?thesis using component(1,2) by (force simp: ordered_products_def)
  qed
qed

text \<open>C16. No order without hygiene: at an establishment in strict mode an order is created only if the opening control of the
  current local day has been validated, that day is not closed yet, no earlier closing was forgotten, and every
  ingredient that one unit of each ordered product may need, menu components included, is on the premises in usable lots.\<close>

theorem strict_site_orders_are_controlled:
  assumes "created env b c h site sh sh' o1" and "\<forall>it \<in> set (sh_items sh). oi_order_id it \<noteq> ord_id o1"
    and "ord_establishment_id o1 = Some eid" and "row_get ops_establishment_id eid (hd_operations h) = Some ops" and "ops_strict ops"
  shows "\<exists>place d t w. place \<in> set (dd_establishments (sh_zones sh)) \<and> est_id place = eid \<and> est_active place
    \<and> he_local (ce_haccp env) (est_timezone place) (ce_now env) = Some (d, t)
    \<and> daily eid d Opening h = Some w \<and> ses_status w = Complete
    \<and> (\<forall>w'. daily eid d Closing h = Some w' \<longrightarrow> ses_status w' = In_progress)
    \<and> missing_closings eid d h = []
    \<and> (\<forall>it \<in> set (items_of_order (ord_id o1) (sh_items sh')). \<forall>pid. oi_product_id it = Some pid \<longrightarrow>
         (\<forall>(i, r) \<in> set (site_requirements (sh_stock sh') pid).
            get_ingredient i (sh_stock sh') \<noteq> None \<and> r \<le> usable_quantity eid i (ce_now env) (sh_stock sh') site))"
proof -
  obtain p where p: "prepare_order env b c h site sh = Inr p" and o1: "o1 = po_order p" and st: "sh_stock sh' = po_stock p"
    and its: "items_of_order (ord_id o1) (sh_items sh') = item_rows (ord_id o1) (ce_item_key env) (po_lines p) (po_menus p)"
    by (rule created_rows [OF assms(1,2)])
  obtain e s d f z t where en: "enforce_ordering (ce_haccp env) e (ordered_products b (po_menus p)) (dd_establishments (sh_zones sh))
      (po_stock p) site h = Inr ()" and n: "po_order p = new_order env b c e s d f z t"
    by (rule prepare_order_Inr [OF p])
  have "e = eid" using assms(3) by (simp add: o1 n new_order_def)
  then obtain place d t w where g: "place \<in> set (dd_establishments (sh_zones sh))" "est_id place = eid" "est_active place"
    "he_local (ce_haccp env) (est_timezone place) (ce_now env) = Some (d, t)" "daily eid d Opening h = Some w" "ses_status w = Complete"
    "\<forall>w'. daily eid d Closing h = Some w' \<longrightarrow> ses_status w' = In_progress" "missing_closings eid d h = []"
    "\<forall>pid \<in> set (ordered_products b (po_menus p)). \<forall>(i, r) \<in> set (site_requirements (po_stock p) pid).
        get_ingredient i (po_stock p) \<noteq> None \<and> r \<le> usable_quantity eid i (ce_now env) (po_stock p) site"
    using strict_gate_is_sound [OF _ assms(4,5)] en by blast
  then show ?thesis using rows_products [OF p] unfolding st its by blast
qed

theorem strict_site_orders_are_controlled_witness:
  "\<exists>sh' w. created demo_cenv demo_pickup demo_call demo_haccp demo_site demo_counter sh' demo_created_order
     \<and> daily 1 10 Opening demo_haccp = Some w \<and> ses_status w = Complete"
proof -
  obtain sh' where c: "created demo_cenv demo_pickup demo_call demo_haccp demo_site demo_counter sh' demo_created_order"
    using demo_created by blast
  have n: "\<forall>it \<in> set (sh_items demo_counter). oi_order_id it \<noteq> ord_id demo_created_order" by (simp add: demo_counter_def)
  have o: "row_get ops_establishment_id 1 (hd_operations demo_haccp) =
      Some \<lparr>ops_establishment_id = 1, ops_strict = True, ops_activated_at = Some 0\<rparr>"
    by (simp add: demo_haccp_def row_simps)
  from strict_site_orders_are_controlled [OF c n demo_created_fields(4) o] show ?thesis
    using c by (auto simp: demo_cenv_def demo_henv_def)
qed

end
