(* ===== verification/Reorder_Props.thy ===== *)
theory Reorder_Props
  imports Checkout_Props
begin

text \<open>Reading an order back: the reorder payload and the receipt agree with what was ordered.\<close>

subsection \<open>Keys of the rows\<close>

lemma line_rows_ids:
  "sorted (map oi_id (line_rows oid k ls)) \<and> (\<forall>it \<in> set (line_rows oid k ls). k \<le> oi_id it \<and> oi_id it < k + int (length ls))"
proof (induction ls arbitrary: k)
  case (Cons r ls)
  show ?case using Cons.IH [of "k + 1"] by (fastforce simp: line_row_def)
qed simp

lemma component_rows_ids:
  "sorted (map oi_id (component_rows oid par k m cs))
    \<and> (\<forall>it \<in> set (component_rows oid par k m cs). k \<le> oi_id it \<and> oi_id it < k + int (length cs))"
proof (induction cs arbitrary: k)
  case (Cons c cs)
  have i: "oi_id (component_row oid par k m c) = k" by (simp add: component_row_def split_beta)
  show ?case using Cons.IH [of "k + 1"] by (fastforce simp: i)
qed simp

lemma menu_rows_ids: "sorted (map oi_id (menu_rows oid k ms)) \<and> (\<forall>it \<in> set (menu_rows oid k ms). k \<le> oi_id it)"
proof (induction ms arbitrary: k)
  case (Cons m ms)
  have i: "oi_id (menu_row oid k m) = k" by (simp add: menu_row_def)
  show ?case
    using Cons.IH [of "k + 1 + int (length (rm_components m))"] component_rows_ids [of oid k "k + 1" m "rm_components m"]
    by (fastforce simp: i sorted_append)
qed simp

lemma item_rows_sorted: "sort_key oi_id (item_rows oid k ls ms) = item_rows oid k ls ms"
proof -
  have "sorted (map oi_id (item_rows oid k ls ms))"
    using line_rows_ids [of oid k ls] menu_rows_ids [of oid "k + int (length ls)" ms]
    by (fastforce simp: item_rows_def sorted_append)
  then show ?thesis by (rule sort_key_id_if_sorted)
qed

lemma line_rows_type: "it \<in> set (line_rows oid k ls) \<Longrightarrow> oi_type it = Item_product"
  using line_rows_cases by (fastforce simp: line_row_def)

lemma component_rows_type: "it \<in> set (component_rows oid par k m cs) \<Longrightarrow> oi_type it = Item_menu_component"
  using component_rows_cases by (fastforce simp: component_row_def split_beta)

lemma product_rows: "filter (\<lambda>it. oi_type it = Item_product) (item_rows oid k ls ms) = line_rows oid k ls"
proof -
  have "filter (\<lambda>it. oi_type it = Item_product) (line_rows oid k ls) = line_rows oid k ls"
    by (auto simp: filter_id_conv dest: line_rows_type)
  moreover have "\<forall>it \<in> set (menu_rows oid j ms). oi_type it \<noteq> Item_product" for j
    using menu_rows_cases by (fastforce simp: menu_row_def component_row_def split_beta)
  ultimately show ?thesis by (simp add: item_rows_def filter_empty_conv)
qed

fun menu_parents :: "int \<Rightarrow> int \<Rightarrow> resolved_menu list \<Rightarrow> order_item list" where
  "menu_parents oid k [] = []"
| "menu_parents oid k (m # ms) = menu_row oid k m # menu_parents oid (k + 1 + int (length (rm_components m))) ms"

lemma menu_parent_rows: "filter (\<lambda>it. oi_type it = Item_menu) (item_rows oid k ls ms) = menu_parents oid (k + int (length ls)) ms"
proof -
  have l: "filter (\<lambda>it. oi_type it = Item_menu) (line_rows oid k ls) = []"
    by (auto simp: filter_empty_conv dest: line_rows_type)
  have c: "filter (\<lambda>it. oi_type it = Item_menu) (component_rows oid par j m cs) = []" for par j m cs
    by (auto simp: filter_empty_conv dest: component_rows_type)
  have "filter (\<lambda>it. oi_type it = Item_menu) (menu_rows oid j ms) = menu_parents oid j ms" for j
    by (induction ms arbitrary: j) (simp_all add: c, simp add: menu_row_def)
  then show ?thesis by (simp add: item_rows_def l)
qed

subsection \<open>Selections\<close>

lemma partition_by_group:
  assumes "distinct (map f gs)" and "\<forall>x \<in> set xs. k x \<in> f ` set gs"
  shows "mset (concat (map (\<lambda>g. filter (\<lambda>x. k x = f g) xs) gs)) = mset xs"
  using assms
proof (induction gs arbitrary: xs)
  case (Cons g gs)
  let ?ys = "filter (\<lambda>x. k x \<noteq> f g) xs"
  have "filter (\<lambda>x. k x = f g') ?ys = filter (\<lambda>x. k x = f g') xs" if "g' \<in> set gs" for g'
    using Cons.prems(1) that by (auto simp: filter_filter intro!: filter_cong)
  then have "map (\<lambda>g. filter (\<lambda>x. k x = f g) xs) gs = map (\<lambda>g. filter (\<lambda>x. k x = f g) ?ys) gs" by simp
  moreover have "mset (concat (map (\<lambda>g. filter (\<lambda>x. k x = f g) ?ys) gs)) = mset ?ys"
    by (rule Cons.IH) (use Cons.prems in auto)
  ultimately have "mset (concat (map (\<lambda>g. filter (\<lambda>x. k x = f g) xs) gs)) = mset ?ys" by (simp only:)
  then show ?case using multiset_partition [of "mset xs" "\<lambda>x. k x = f g"] by (simp add: mset_filter)
qed simp

definition selection_back :: "menu_group \<times> resolved_line \<Rightarrow> selection_request" where
  "selection_back c = \<lparr>sq_group_id = mg_id (fst c), sq_line = rs_request (snd c)\<rparr>"

lemma resolve_selections_back:
  assumes "resolve_selections cat gs sqs seen = Inr cs"
  shows "map selection_back cs = sqs
    \<and> (\<forall>(g, r) \<in> set cs. g \<in> set gs \<and> resolve_catalog_item cat (rs_request r) = Inr r)"
  using assms
proof (induction sqs arbitrary: seen cs)
  case (Cons sq sqs)
  obtain g where g: "row_get mg_id (sq_group_id sq) gs = Some g"
    using Cons.prems by (cases "row_get mg_id (sq_group_id sq) gs") simp_all
  obtain r cs' where r: "resolve_catalog_item cat (sq_line sq) = Inr r" and cs: "cs = (g, r) # cs'"
    and rest: "resolve_selections cat gs sqs ((sq_group_id sq, lq_product_id (sq_line sq)) # seen) = Inr cs'"
    using Cons.prems g by (auto simp: Let_def split: if_splits)
  have "selection_back (g, r) = sq" using row_get_SomeD [OF g] resolved_request [OF r] by (simp add: selection_back_def)
  then show ?case using Cons.IH [OF rest] row_get_SomeD [OF g] r resolved_request [OF r] by (simp add: cs)
qed simp

lemma resolved_line_again:
  assumes "resolve_catalog_item cat (rs_request r) = Inr r"
  shows "\<lparr>lq_product_id = prod_id (rs_product r), lq_variant_id = lq_variant_id (rs_request r),
      lq_quantity = lq_quantity (rs_request r), lq_extras = extras_again (rs_extras r)\<rparr> = rs_request r"
proof -
  obtain p delta where p: "row_get prod_id (lq_product_id (rs_request r)) (cat_products cat) = Some p" "rs_product r = p"
    and x: "resolve_extras cat (lq_product_id (rs_request r)) (lq_extras (rs_request r)) = Inr (rs_extras r, rs_extras_unit_total r)"
    by (rule resolve_catalog_item_Inr [OF assms])
  show ?thesis using row_get_SomeD [OF p(1)] resolve_extras_again [OF x] p(2) by simp
qed

lemma selections_again_back:
  assumes "resolve_selections cat gs sqs [] = Inr cs" and "distinct (map mg_id gs)"
  shows "mset (selections_again (Some (snapshot_of m gs cs))) = mset sqs"
proof -
  note again = resolve_selections_back [OF assms(1)]
  have line: "\<lparr>sq_group_id = mg_id g, sq_line = \<lparr>lq_product_id = prod_id (rs_product (snd c)), lq_variant_id = lq_variant_id (rs_request (snd c)),
      lq_quantity = lq_quantity (rs_request (snd c)), lq_extras = extras_again (rs_extras (snd c))\<rparr>\<rparr> = selection_back c"
    if "c \<in> set cs" "mg_id (fst c) = mg_id g" for c g
    using again that resolved_line_again [of cat "snd c"] by (auto simp: selection_back_def)
  have "selections_again (Some (snapshot_of m gs cs)) =
      concat (map (\<lambda>g. map selection_back (filter (\<lambda>c. mg_id (fst c) = mg_id g) cs)) gs)"
    using line by (auto simp: selections_again_def snapshot_of_def split_beta intro!: arg_cong [of _ _ concat] map_cong)
  also have "\<dots> = map selection_back (concat (map (\<lambda>g. filter (\<lambda>c. mg_id (fst c) = mg_id g) cs) gs))"
    by (simp add: map_concat comp_def)
  finally have "mset (selections_again (Some (snapshot_of m gs cs))) = image_mset selection_back (mset cs)"
    using partition_by_group [of mg_id gs cs "\<lambda>c. mg_id (fst c)"] assms(2) again by (fastforce simp: mset_map)
  then show ?thesis using again by (metis mset_map)
qed

subsection \<open>Ordering again\<close>

lemma reorder_lines:
  assumes "\<forall>r \<in> set ls. resolve_catalog_item cat (rs_request r) = Inr r"
  shows "map (\<lambda>it. ri_line (reorder_line cat it)) (line_rows oid k ls) = map rs_request ls
    \<and> (\<forall>it \<in> set (line_rows oid k ls). ri_available (reorder_line cat it))"
  using assms
proof (induction ls arbitrary: k)
  case (Cons r ls)
  let ?q = "rs_request r"
  have r: "resolve_catalog_item cat ?q = Inr r" using Cons.prems by simp
  obtain p delta where p: "row_get prod_id (lq_product_id ?q) (cat_products cat) = Some p" "prod_active p"
    and v: "resolve_variant cat ?q = Inr (delta, rs_variant_name r)"
    and x: "resolve_extras cat (lq_product_id ?q) (lq_extras ?q) = Inr (rs_extras r, rs_extras_unit_total r)"
    by (rule resolve_catalog_item_Inr [OF r])
  have "ri_line (reorder_line cat (line_row oid k r)) = ?q"
    using resolve_extras_again [OF x] by (simp add: reorder_line_def line_row_def)
  moreover have "reorder_warning cat (line_row oid k r) = None"
  proof (cases "lq_variant_id ?q")
    case None
    then show ?thesis using p by (simp add: reorder_warning_def line_row_def)
  next
    case (Some i)
    obtain w where w: "row_get var_id i (cat_variants cat) = Some w"
      using v Some by (cases "row_get var_id i (cat_variants cat)") (simp_all add: resolve_variant_def)
    then have "var_active w \<and> var_product_id w = lq_product_id ?q"
      using v Some by (simp add: resolve_variant_def split: if_splits)
    then show ?thesis using p Some w by (simp add: reorder_warning_def line_row_def)
  qed
  ultimately show ?case using Cons.IH [of "k + 1"] Cons.prems by (simp add: reorder_line_def)
qed simp

definition same_menu :: "menu_request \<Rightarrow> menu_request \<Rightarrow> bool" where
  "same_menu mq mq' \<longleftrightarrow> mq_menu_id mq' = mq_menu_id mq \<and> mq_quantity mq' = mq_quantity mq
     \<and> mset (mq_selections mq') = mset (mq_selections mq)"

lemma reorder_one_menu:
  assumes "resolve_menu_item now mq s = Inr (s2, m)" and "distinct (map mg_id (cat_menu_groups (st_catalog s)))"
    and "mq_selections mq \<noteq> []"
  shows "\<exists>mq'. reorder_menu (menu_row oid k m) = [mq'] \<and> same_menu mq mq'"
proof -
  obtain mm cs where mm: "row_get menu_id (mq_menu_id mq) (cat_menus (st_catalog s)) = Some mm"
    and cs: "resolve_selections (st_catalog s) (groups_of_menu (st_catalog s) (menu_id mm)) (mq_selections mq) [] = Inr cs"
    and m: "m = \<lparr>rm_request = mq, rm_menu = mm, rm_unit_price = money (menu_fixed_price mm), rm_components = cs,
          rm_snapshot = snapshot_of mm (groups_of_menu (st_catalog s) (menu_id mm)) cs\<rparr>"
    by (rule resolve_menu_item_Inr [OF assms(1)])
  let ?gs = "groups_of_menu (st_catalog s) (menu_id mm)"
  have "distinct (map mg_id (filter (\<lambda>g. mg_menu_id g = menu_id mm) (cat_menu_groups (st_catalog s))))"
    by (rule distinct_map_filter [OF assms(2)])
  then have "distinct (map mg_id ?gs)" by (simp add: groups_of_menu_def distinct_map)
  then have sel: "mset (selections_again (Some (snapshot_of mm ?gs cs))) = mset (mq_selections mq)"
    by (rule selections_again_back [OF cs])
  then have ne: "selections_again (Some (snapshot_of mm ?gs cs)) \<noteq> []" using assms(3) by auto
  show ?thesis
    using row_get_SomeD [OF mm] sel ne by (simp add: reorder_menu_def menu_row_def m same_menu_def)
qed

lemma reorder_menus:
  assumes "resolve_menus now mqs s = Inr (s2, ms)" and "distinct (map mg_id (cat_menu_groups (st_catalog s)))"
    and "\<forall>mq \<in> set mqs. mq_selections mq \<noteq> []"
  shows "list_all2 same_menu mqs (concat (map reorder_menu (menu_parents oid k ms)))"
  using assms
proof (induction mqs arbitrary: s ms k)
  case (Cons mq mqs)
  obtain s1 m ms' where m: "resolve_menu_item now mq s = Inr (s1, m)" and ms: "resolve_menus now mqs s1 = Inr (s2, ms')"
    and e: "ms = m # ms'" using Cons.prems(1) by (auto simp: split_beta)
  have c: "st_catalog s1 = st_catalog s" by (rule resolve_menu_item_Inr [OF m]) simp
  obtain mq' where "reorder_menu (menu_row oid k m) = [mq']" "same_menu mq mq'"
    using reorder_one_menu [OF m Cons.prems(2), of oid k] Cons.prems(3) by auto
  moreover have "list_all2 same_menu mqs (concat (map reorder_menu (menu_parents oid (k + 1 + int (length (rm_components m))) ms')))"
    by (rule Cons.IH [OF ms]) (use Cons.prems c in auto)
  ultimately show ?case by (simp add: e)
qed simp

text \<open>C20. An order can be ordered again: the reorder payload of a newly created order, read by its customer, contains exactly
  the product lines of the request, all available, and the same menus with the same selections (grouped).\<close>

theorem reorder_repeats_the_order:
  assumes "created env b c h site sh sh' o1" and "order_of (ce_order_key env) sh = None"
    and "\<forall>it \<in> set (sh_items sh). oi_order_id it \<noteq> ord_id o1"
    and "distinct (map mg_id (cat_menu_groups (st_catalog (sh_stock sh))))"
    and "\<forall>mq \<in> set (ob_menu_items b). mq_selections mq \<noteq> []"
  shows "\<exists>out. build_reorder_payload (ord_id o1) (cc_user_id c) False sh' = Inr out
    \<and> map ri_line (ro_items out) = ob_items b \<and> ro_unavailable out = []
    \<and> list_all2 same_menu (ob_menu_items b) (ro_menu_items out)"
proof -
  obtain p where p: "prepare_order env b c h site sh = Inr p" and st: "sh_stock sh' = po_stock p"
    and its: "items_of_order (ord_id o1) (sh_items sh') = item_rows (ord_id o1) (ce_item_key env) (po_lines p) (po_menus p)"
    by (rule created_rows [OF assms(1,3)])
  have ls: "mapE (resolve_catalog_item (st_catalog (sh_stock sh))) (ob_items b) = Inr (po_lines p)"
    and ms: "resolve_menus (ce_now env) (ob_menu_items b) (sh_stock sh) = Inr (po_stock p, po_menus p)"
    by (rule prepare_order_Inr [OF p]; simp)+
  have cat: "st_catalog (sh_stock sh') = st_catalog (sh_stock sh)" using resolve_menus_catalog [OF ms] st by simp
  let ?its = "item_rows (ord_id o1) (ce_item_key env) (po_lines p) (po_menus p)"
  have o1: "order_of (ord_id o1) sh' = Some o1" "ord_user_id o1 = cc_user_id c"
    using created_order_of [OF assms(1,2)] created_frame(5,6) [OF assms(1)] by simp_all
  note lines = reorder_lines [of "po_lines p" "st_catalog (sh_stock sh)" "ord_id o1" "ce_item_key env"]
  have all: "\<forall>r \<in> set (po_lines p). resolve_catalog_item (st_catalog (sh_stock sh)) (rs_request r) = Inr r"
    using resolved_lines [OF ls] by blast
  have "list_all2 same_menu (ob_menu_items b)
      (concat (map reorder_menu (menu_parents (ord_id o1) (ce_item_key env + int (length (po_lines p))) (po_menus p))))"
    by (rule reorder_menus [OF ms assms(4,5)])
  then show ?thesis
    using lines [OF all] resolved_requests [OF ls]
    by (auto simp: build_reorder_payload_def o1 its item_rows_sorted product_rows menu_parent_rows cat Let_def comp_def
        filter_empty_conv)
qed

theorem reorder_repeats_the_order_witness:
  "\<exists>sh' out. created demo_cenv demo_pickup demo_call demo_haccp demo_site demo_counter sh' demo_created_order
     \<and> build_reorder_payload 5 (Some 4) False sh' = Inr out \<and> map ri_line (ro_items out) = [demo_line]"
proof -
  obtain sh' where c: "created demo_cenv demo_pickup demo_call demo_haccp demo_site demo_counter sh' demo_created_order"
    using demo_created by blast
  have n: "order_of (ce_order_key demo_cenv) demo_counter = None"
    "\<forall>it \<in> set (sh_items demo_counter). oi_order_id it \<noteq> ord_id demo_created_order"
    "distinct (map mg_id (cat_menu_groups (st_catalog (sh_stock demo_counter))))"
    "\<forall>mq \<in> set (ob_menu_items demo_pickup). mq_selections mq \<noteq> []"
    by (simp_all add: demo_counter_def row_simps row_ids_def demo_shop_def demo_stock_def demo_catalog_def demo_pickup_def)
  have "cc_user_id demo_call = Some 4" "ob_items demo_pickup = [demo_line]" by (simp_all add: demo_call_def demo_pickup_def)
  with reorder_repeats_the_order [OF c n] c show ?thesis by (auto simp: demo_created_fields)
qed

subsection \<open>Receipt\<close>

lemma tree_total: "rl_total (receipt_line_of (item_tree n its it)) = oi_total it"
  by (cases n) simp_all

lemma row_total_cents: "it \<in> set (item_rows oid k ls ms) \<Longrightarrow> money (oi_total it) = oi_total it"
  by (erule item_rows_cases) (simp_all add: line_row_def menu_row_def component_row_def)

lemma nested_row_total: "it \<in> set (item_rows oid k ls ms) \<Longrightarrow> oi_parent_item_id it \<noteq> None \<Longrightarrow> oi_total it = 0"
  by (erule item_rows_cases) (simp_all add: line_row_def menu_row_def component_row_def)

text \<open>The receipt agrees with the bill: on the receipt of a newly created order the top-level lines add up to the
  subtotal, and the total is subtotal minus discount plus delivery fee.\<close>

theorem receipt_adds_up:
  assumes "created env b c h site sh sh' o1" and "order_of (ce_order_key env) sh = None" and "0 \<le> ord_subtotal o1"
    and "\<forall>it \<in> set (sh_items sh). oi_order_id it \<noteq> ord_id o1"
  shows "\<exists>rc. build_receipt (ord_id o1) sh' = Inr rc \<and> sum_list (map rl_total (rc_items rc)) = rc_subtotal rc
    \<and> rc_total rc = rc_subtotal rc - rc_discount rc + rc_fee rc"
proof -
  obtain p :: prepared_order where its: "items_of_order (ord_id o1) (sh_items sh') = item_rows (ord_id o1) (ce_item_key env) (po_lines p) (po_menus p)"
    by (rule created_rows [OF assms(1,4)])
  let ?rows = "item_rows (ord_id o1) (ce_item_key env) (po_lines p) (po_menus p)" and ?f = "flat_items (ord_id o1) sh'"
  have f: "?f = map serialize_order_item ?rows" by (simp add: flat_items_def its item_rows_sorted)
  have "sum_list (map oi_total (filter (is_root ?f) ?f)) = sum_list (map oi_total ?f)"
    by (rule sum_list_map_filter) (auto simp: f is_root_def serialize_order_item_def dest: nested_row_total split: option.splits)
  also have "\<dots> = sum_list (map oi_total ?rows)"
    by (simp add: f comp_def serialize_order_item_def row_total_cents cong: map_cong)
  finally have "sum_list (map rl_total (map receipt_line_of (map (item_tree n ?f) (filter (is_root ?f) ?f)))) =
      sum_list (map oi_total ?rows)" for n by (simp add: comp_def tree_total)
  moreover note sums = order_sums [OF assms(1,3,4)]
  have m: "money (ord_subtotal o1) = ord_subtotal o1" "money (ord_discount_total o1) = ord_discount_total o1"
    "money (ord_delivery_fee o1) = ord_delivery_fee o1" "money (ord_total o1) = ord_total o1"
    using sums money_cents cents_add cents_diff by metis+
  moreover have "order_of (ord_id o1) sh' = Some o1" using created_order_of [OF assms(1,2)] created_frame(5) [OF assms(1)] by simp
  ultimately show ?thesis
    using sums by (simp add: build_receipt_def serialize_order_detail_def Let_def its)
qed

theorem receipt_adds_up_witness:
  "\<exists>sh' rc. created demo_cenv demo_pickup demo_call demo_haccp demo_site demo_counter sh' demo_created_order
     \<and> build_receipt 5 sh' = Inr rc \<and> sum_list (map rl_total (rc_items rc)) = rc_subtotal rc"
proof -
  obtain sh' where c: "created demo_cenv demo_pickup demo_call demo_haccp demo_site demo_counter sh' demo_created_order"
    using demo_created by blast
  have n: "order_of (ce_order_key demo_cenv) demo_counter = None" "0 \<le> ord_subtotal demo_created_order"
    "\<forall>it \<in> set (sh_items demo_counter). oi_order_id it \<noteq> ord_id demo_created_order"
    by (simp_all add: demo_counter_def row_simps row_ids_def demo_created_fields)
  from receipt_adds_up [OF c n] c show ?thesis by (auto simp: demo_created_fields)
qed

end
