(* ===== verification/Payments_Desk.thy ===== *)
theory Payments_Desk
  imports Orders_Create
begin

text \<open>
  Payments: \<^verbatim>\<open>app/modules/payments/service.py\<close> and the part of \<^verbatim>\<open>guarantee.py\<close> that opens and finalises card holds and
  payment links. The state is a \<open>desk\<close>: the shop, the refunds and the Stripe events already seen. Several operations
  commit before they raise, so they return the desk together with the outcome. Stripe is outside: its answers are the
  functions of \<open>stripe_env\<close>, \<open>None\<close> standing for an exception. A PaymentIntent is the record \<open>intent\<close>; an absent text is
  the empty one, and the identifiers in its metadata, decimal texts this service wrote, are integers. Sending a link
  by message and the log entries are not represented.
\<close>

subsection \<open>Rows and environment\<close>

abbreviation Pt_refunded :: pay_status where "Pt_refunded \<equiv> Other_pay_status ''refunded''"
abbreviation Pt_partial :: pay_status where "Pt_partial \<equiv> Other_pay_status ''partially_refunded''"
abbreviation Pt_refund_failed :: pay_status where "Pt_refund_failed \<equiv> Other_pay_status ''refund_failed''"
abbreviation Pt_failed :: pay_status where "Pt_failed \<equiv> Other_pay_status ''failed''"
abbreviation Pt_expired :: pay_status where "Pt_expired \<equiv> Other_pay_status ''expired''"

datatype refund_status = Rf_pending | Rf_succeeded | Rf_failed

record refund =
  rf_order_id :: int
  rf_payment_id :: int
  rf_reference :: string
  rf_amount :: int
  rf_reason :: string
  rf_status :: refund_status
  rf_created_by :: "int option"
  rf_created_at :: instant

record desk =
  dk_shop :: shop
  dk_refunds :: "refund list"
  dk_events :: "string list"

record intent =
  pi_id :: string
  pi_status :: string
  pi_amount :: "int option"
  pi_received :: "int option"
  pi_capturable :: "int option"
  pi_capture_method :: string
  pi_currency :: string
  pi_tenant :: string
  pi_order :: "int option"
  pi_payment :: "int option"
  pi_purpose :: string

record stripe_env =
  se_call :: call_env
  se_haccp :: haccp_env
  se_tenant :: string
  se_local_ok :: bool
  se_account :: "string option res"
  se_currency :: string
  se_payment_key :: int
  se_create :: "payment \<Rightarrow> (string \<times> string) option"
  se_retrieve :: "string \<Rightarrow> intent option"
  se_secret :: "string \<Rightarrow> string option"
  se_refund :: "payment \<Rightarrow> int \<Rightarrow> string option"
  se_cancel :: "payment \<Rightarrow> bool"

abbreviation se_now :: "stripe_env \<Rightarrow> instant" where
  "se_now env \<equiv> ev_now (se_call env)"

abbreviation dk_payments :: "desk \<Rightarrow> payment list" where
  "dk_payments dk \<equiv> sh_payments (dk_shop dk)"

definition upd_payment :: "int \<Rightarrow> (payment \<Rightarrow> payment) \<Rightarrow> desk \<Rightarrow> desk" where
  "upd_payment k f dk = dk\<lparr>dk_shop := (dk_shop dk)\<lparr>sh_payments := row_upd py_id k f (dk_payments dk)\<rparr>\<rparr>"

definition set_pay_status :: "int \<Rightarrow> pay_status \<Rightarrow> desk \<Rightarrow> desk" where
  "set_pay_status k st = upd_payment k (\<lambda>p. p\<lparr>py_status := st\<rparr>)"

definition mark_order :: "int \<Rightarrow> payment_status \<Rightarrow> desk \<Rightarrow> desk" where
  "mark_order oid st dk = dk\<lparr>dk_shop := (dk_shop dk)\<lparr>sh_orders := set_payment_status oid st (sh_orders (dk_shop dk))\<rparr>\<rparr>"

definition add_payment :: "payment \<Rightarrow> desk \<Rightarrow> desk" where
  "add_payment p dk = dk\<lparr>dk_shop := (dk_shop dk)\<lparr>sh_payments := dk_payments dk @ [p]\<rparr>\<rparr>"

definition provider_row :: "string \<Rightarrow> payment list \<Rightarrow> payment option" where
  "provider_row ref ps = find (\<lambda>p. py_provider_payment_id p = Some ref) ps"

definition starts_with :: "string \<Rightarrow> string option \<Rightarrow> bool" where
  "starts_with pre t \<longleftrightarrow> (case t of None \<Rightarrow> False | Some s \<Rightarrow> take (length pre) s = pre)"

text \<open>\<^verbatim>\<open>_tenant_currency\<close> creates the configuration row when it is missing, and commits it.\<close>

definition default_tenant_config :: tenant_config where
  "default_tenant_config = \<lparr>tc_peak_orders_threshold = 5, tc_auto_calc_prep_time = True, tc_prep_time_normal = 25,
      tc_prep_time_peak = 45, tc_overhead_per_order = 3\<rparr>"

definition get_or_create_config :: "desk \<Rightarrow> desk" where
  "get_or_create_config dk =
     (case sh_config (dk_shop dk) of
        Some _ \<Rightarrow> dk
      | None \<Rightarrow> dk\<lparr>dk_shop := (dk_shop dk)\<lparr>sh_config := Some default_tenant_config\<rparr>\<rparr>)"

subsection \<open>Checks\<close>

definition require_customer_payment_owner :: "payment \<Rightarrow> order \<Rightarrow> int option \<Rightarrow> bool \<Rightarrow> unit res" where
  "require_customer_payment_owner p o1 user is_staff =
     (if user = None \<or> is_staff then Inr ()
      else if ord_user_id o1 = None \<or> ord_user_id o1 \<noteq> user then Inl (AppError ''PAYMENT_NOT_FOUND'' 404)
      else if py_created_by p \<noteq> None \<and> py_created_by p \<noteq> user then Inl (AppError ''PAYMENT_NOT_FOUND'' 404)
      else Inr ())"

definition expected_currency :: "payment \<Rightarrow> string" where
  "expected_currency p = py_lower (if py_currency p = [] then ''EUR'' else py_currency p)"

definition metadata_ok :: "string \<Rightarrow> payment \<Rightarrow> order \<Rightarrow> intent \<Rightarrow> bool" where
  "metadata_ok tenant p o1 i \<longleftrightarrow> pi_tenant i = tenant \<and> pi_order i = Some (ord_id o1) \<and> pi_payment i = Some (py_id p)"

definition validate_payment_intent_payload :: "string \<Rightarrow> payment \<Rightarrow> order \<Rightarrow> intent \<Rightarrow> unit res" where
  "validate_payment_intent_payload tenant p o1 i =
     (let expected = money_to_cents (py_amount p)
      in if pi_status i \<noteq> ''succeeded'' then Inl (AppError ''PAYMENT_NOT_SUCCEEDED'' 409)
         else if money_to_cents (ord_total o1) \<noteq> expected then Inl (AppError ''PAYMENT_ORDER_AMOUNT_MISMATCH'' 409)
         else if pi_amount i \<noteq> Some expected then Inl (AppError ''PAYMENT_AMOUNT_MISMATCH'' 409)
         else if (case pi_received i of None \<Rightarrow> False | Some r \<Rightarrow> r < expected)
           then Inl (AppError ''PAYMENT_AMOUNT_NOT_RECEIVED'' 409)
         else if py_lower (pi_currency i) \<noteq> expected_currency p then Inl (AppError ''PAYMENT_CURRENCY_MISMATCH'' 409)
         else if \<not> metadata_ok tenant p o1 i then Inl (AppError ''PAYMENT_METADATA_MISMATCH'' 409)
         else Inr ())"

definition retrieve_intent :: "stripe_env \<Rightarrow> payment \<Rightarrow> intent res" where
  "retrieve_intent env p =
     rbind (se_account env) (\<lambda>_.
       case se_retrieve env (case py_provider_payment_id p of None \<Rightarrow> [] | Some s \<Rightarrow> s) of
         None \<Rightarrow> Inl (AppError ''STRIPE_PAYMENT_VERIFY_FAILED'' 502) | Some i \<Rightarrow> Inr i)"

definition verify_payment_intent_with_stripe :: "stripe_env \<Rightarrow> payment \<Rightarrow> order \<Rightarrow> unit res" where
  "verify_payment_intent_with_stripe env p o1 =
     (if is_local p then (if se_local_ok env then Inr () else Inl (AppError ''PAYMENT_CONFIRMATION_REQUIRED'' 409))
      else rbind (retrieve_intent env p) (validate_payment_intent_payload (se_tenant env) p o1))"

definition is_active_pending_payment :: "payment \<Rightarrow> order \<Rightarrow> instant \<Rightarrow> bool" where
  "is_active_pending_payment p o1 now \<longleftrightarrow> py_provider_payment_id p \<noteq> None \<and> py_status p = Pt_pending
     \<and> py_provider p = ''stripe'' \<and> money_to_cents (py_amount p) = money_to_cents (ord_total o1)
     \<and> (case py_expires_at p of None \<Rightarrow> True | Some e \<Rightarrow> e > now)"

text \<open>\<open>se_secret\<close> answers the client secret of an intent, \<open>None\<close> for an exception and the empty text for an intent
  without one.\<close>

definition client_secret_for_existing_intent :: "stripe_env \<Rightarrow> payment \<Rightarrow> string res" where
  "client_secret_for_existing_intent env p =
     (case py_provider_payment_id p of
        None \<Rightarrow> Inl (AppError ''PAYMENT_INTENT_NOT_READY'' 409)
      | Some ref \<Rightarrow>
          if is_local p then Inr ref
          else (case se_secret env ref of
              None \<Rightarrow> if se_local_ok env then Inr ref else Inl (AppError ''STRIPE_PAYMENT_REUSE_FAILED'' 502)
            | Some s \<Rightarrow> if s = [] then Inl (AppError ''PAYMENT_INTENT_REUSE_FAILED'' 502) else Inr s))"

definition enforce_order_haccp_gate :: "stripe_env \<Rightarrow> haccp_db \<Rightarrow> site_db \<Rightarrow> order \<Rightarrow> shop \<Rightarrow> unit res" where
  "enforce_order_haccp_gate env h site o1 sh =
     (case ord_establishment_id o1 of
        None \<Rightarrow> Inr ()
      | Some e \<Rightarrow> enforce_ordering (se_haccp env) e (List.map_filter oi_product_id (items_of_order (ord_id o1) (sh_items sh)))
                   (dd_establishments (sh_zones sh)) (sh_stock sh) site h)"

subsection \<open>Opening a payment\<close>

definition new_payment :: "stripe_env \<Rightarrow> string \<Rightarrow> purpose \<Rightarrow> order \<Rightarrow> string option \<Rightarrow> int option \<Rightarrow> instant option \<Rightarrow> payment" where
  "new_payment env provider purp o1 account user expires =
     \<lparr>py_id = se_payment_key env, py_order_id = ord_id o1, py_provider = provider, py_provider_payment_id = None,
      py_purpose = purp, py_amount = ord_total o1, py_amount_received = None, py_currency = py_upper (se_currency env),
      py_status = Pt_pending, py_captured = None, py_settled_at = None, py_settled_by = None, py_note = None,
      py_account = account, py_reference = None, py_expires_at = expires, py_created_by = user, py_created_at = se_now env,
      py_terms = None, py_terms_at = None\<rparr>"

text \<open>The latest pending card payment of this purpose and creator.\<close>

definition latest_pending :: "purpose \<Rightarrow> int \<Rightarrow> int option \<Rightarrow> payment list \<Rightarrow> payment option" where
  "latest_pending purp oid user ps =
     (case sort_key (\<lambda>p. (- py_created_at p, - py_id p)) (filter (\<lambda>p. py_order_id p = oid \<and> py_provider p = ''stripe''
             \<and> py_purpose p = purp \<and> py_status p = Pt_pending \<and> py_created_by p = user) ps) of
        [] \<Rightarrow> None | p # _ \<Rightarrow> Some p)"

text \<open>Stripe creates the intent; outside production a failure falls back to a local reference.\<close>

definition open_intent :: "stripe_env \<Rightarrow> string \<Rightarrow> string \<Rightarrow> payment \<Rightarrow> desk \<Rightarrow> desk \<times> (payment \<times> string) res" where
  "open_intent env prefix err p dk =
     (case se_create env p of
        Some (ref, secret) \<Rightarrow>
          (add_payment (p\<lparr>py_provider_payment_id := Some ref\<rparr>) dk, Inr (p\<lparr>py_provider_payment_id := Some ref\<rparr>, secret))
      | None \<Rightarrow>
          if \<not> se_local_ok env then (dk, Inl (AppError err 502))
          else let ref = prefix @ py_str_int (py_id p)
               in (add_payment (p\<lparr>py_provider_payment_id := Some ref\<rparr>) dk, Inr (p\<lparr>py_provider_payment_id := Some ref\<rparr>, ref)))"

definition create_intent ::
    "stripe_env \<Rightarrow> haccp_db \<Rightarrow> site_db \<Rightarrow> int \<Rightarrow> int option \<Rightarrow> desk \<Rightarrow> desk \<times> (payment \<times> string) res" where
  "create_intent env h site oid user dk =
     (case order_of oid (dk_shop dk) of
        None \<Rightarrow> (dk, Inl (AppError ''ORDER_NOT_FOUND'' 404))
      | Some o1 \<Rightarrow>
          if user \<noteq> None \<and> ord_user_id o1 \<noteq> user then (dk, Inl (AppError ''ORDER_NOT_FOUND'' 404))
          else if ord_payment_status o1 = Paid \<or> ord_payment_status o1 = Guaranteed
          then (dk, Inl (AppError ''ORDER_ALREADY_PAID'' 409))
          else (case enforce_order_haccp_gate env h site o1 (dk_shop dk) of
              Inl e \<Rightarrow> (dk, Inl e)
            | Inr _ \<Rightarrow>
                (case se_account env of
                   Inl e \<Rightarrow> (dk, Inl e)
                 | Inr account \<Rightarrow>
                     (case latest_pending Sale oid user (dk_payments dk) of
                        Some p \<Rightarrow>
                          if is_active_pending_payment p o1 (se_now env)
                          then (dk, rbind (client_secret_for_existing_intent env p) (\<lambda>s. Inr (p, s)))
                          else open_intent env ''local_'' ''STRIPE_PAYMENT_FAILED''
                            (new_payment env ''stripe'' Sale o1 account user (Some (se_now env + hours 24))) (get_or_create_config dk)
                      | None \<Rightarrow>
                          open_intent env ''local_'' ''STRIPE_PAYMENT_FAILED''
                            (new_payment env ''stripe'' Sale o1 account user (Some (se_now env + hours 24))) (get_or_create_config dk)))))"

definition create_terminal_intent ::
    "stripe_env \<Rightarrow> haccp_db \<Rightarrow> site_db \<Rightarrow> int \<Rightarrow> int option \<Rightarrow> string option \<Rightarrow> bool \<Rightarrow> desk \<Rightarrow> desk \<times> (payment \<times> string) res" where
  "create_terminal_intent env h site oid user reader process dk =
     (case order_of oid (dk_shop dk) of
        None \<Rightarrow> (dk, Inl (AppError ''ORDER_NOT_FOUND'' 404))
      | Some o1 \<Rightarrow>
          (case enforce_order_haccp_gate env h site o1 (dk_shop dk) of
             Inl e \<Rightarrow> (dk, Inl e)
           | Inr _ \<Rightarrow>
               if process \<and> blank_text reader then (dk, Inl (AppError ''TERMINAL_READER_REQUIRED'' 422))
               else (case se_account env of
                   Inl e \<Rightarrow> (dk, Inl e)
                 | Inr account \<Rightarrow>
                     open_intent env ''local_terminal_'' ''STRIPE_TERMINAL_FAILED''
                       (new_payment env ''stripe_terminal'' Sale o1 account user (Some (se_now env + hours 24)))
                       (get_or_create_config dk))))"

definition guarantee_terms_version :: string where
  "guarantee_terms_version = ''2026-10-02''"

definition create_guarantee_intent ::
    "stripe_env \<Rightarrow> int \<Rightarrow> int \<Rightarrow> string \<Rightarrow> bool \<Rightarrow> desk \<Rightarrow> desk \<times> (payment \<times> string) res" where
  "create_guarantee_intent env oid user terms accepted dk =
     (if \<not> accepted then (dk, Inl (AppError ''GUARANTEE_TERMS_NOT_ACCEPTED'' 422))
      else if terms \<noteq> guarantee_terms_version then (dk, Inl (AppError ''GUARANTEE_TERMS_OUTDATED'' 409))
      else case order_of oid (dk_shop dk) of
        None \<Rightarrow> (dk, Inl (AppError ''ORDER_NOT_FOUND'' 404))
      | Some o1 \<Rightarrow>
          if ord_user_id o1 \<noteq> Some user then (dk, Inl (AppError ''ORDER_NOT_FOUND'' 404))
          else if ord_type o1 \<noteq> Delivery_type then (dk, Inl (AppError ''GUARANTEE_DELIVERY_ONLY'' 422))
          else if ord_status o1 \<noteq> Pending \<or> ord_payment_status o1 = Paid \<or> ord_payment_status o1 = Guaranteed
          then (dk, Inl (AppError ''ORDER_ALREADY_PAID'' 409))
          else (case se_account env of
              Inl e \<Rightarrow> (dk, Inl e)
            | Inr account \<Rightarrow>
                let p0 = new_payment env ''stripe'' Guarantee o1 account (Some user) (Some (se_now env + hours 24));
                    p = p0\<lparr>py_terms := Some terms, py_terms_at := Some (se_now env)\<rparr>
                in (case latest_pending Guarantee oid (Some user) (dk_payments dk) of
                      Some q \<Rightarrow>
                        if is_active_pending_payment q o1 (se_now env)
                        then (dk, rbind (client_secret_for_existing_intent env q) (\<lambda>s. Inr (q, s)))
                        else open_intent env ''local_'' ''STRIPE_PAYMENT_FAILED'' p (get_or_create_config dk)
                    | None \<Rightarrow> open_intent env ''local_'' ''STRIPE_PAYMENT_FAILED'' p (get_or_create_config dk))))"

subsection \<open>Payment links\<close>

datatype link_mode = Full_link | Guarantee_link

definition expire_links :: "int \<Rightarrow> desk \<Rightarrow> desk" where
  "expire_links oid dk =
     dk\<lparr>dk_shop := (dk_shop dk)\<lparr>sh_payments := map (\<lambda>p. if py_order_id p = oid \<and> py_status p = Pt_pending
         \<and> py_provider p = ''stripe'' then p\<lparr>py_status := Pt_expired\<rparr> else p) (dk_payments dk)\<rparr>\<rparr>"

text \<open>\<open>se_create\<close> answers the session reference and its address here. The pending row is committed before Stripe is
  called and survives a failure.\<close>

definition create_payment_link :: "stripe_env \<Rightarrow> int \<Rightarrow> link_mode \<Rightarrow> int option \<Rightarrow> desk \<Rightarrow> desk \<times> (payment \<times> string) res" where
  "create_payment_link env oid mode actor dk =
     (case order_of oid (dk_shop dk) of
        None \<Rightarrow> (dk, Inl (AppError ''ORDER_NOT_FOUND'' 404))
      | Some o1 \<Rightarrow>
          if ord_type o1 = Dine_in then (dk, Inl (AppError ''PAYMENT_LINK_UNSUPPORTED'' 422))
          else if mode = Guarantee_link \<and> ord_type o1 \<noteq> Delivery_type then (dk, Inl (AppError ''GUARANTEE_DELIVERY_ONLY'' 422))
          else if ord_status o1 \<noteq> Pending \<or> ord_payment_status o1 = Paid \<or> ord_payment_status o1 = Guaranteed
          then (dk, Inl (AppError ''ORDER_ALREADY_PAID'' 409))
          else (case se_account env of
              Inl e \<Rightarrow> (dk, Inl e)
            | Inr account \<Rightarrow>
                let p = new_payment env ''stripe'' (if mode = Guarantee_link then Guarantee else Sale) o1 account actor
                          (Some (se_now env + 60 * 60000000));
                    dk1 = expire_links oid (get_or_create_config dk)
                in (case se_create env p of
                      Some (ref, url) \<Rightarrow>
                        (add_payment (p\<lparr>py_provider_payment_id := Some ref\<rparr>) dk1, Inr (p\<lparr>py_provider_payment_id := Some ref\<rparr>, url))
                    | None \<Rightarrow>
                        if \<not> se_local_ok env then (add_payment p dk1, Inl (AppError ''STRIPE_PAYMENT_FAILED'' 502))
                        else let ref = ''cs_local_'' @ py_str_int (py_id p)
                             in (add_payment (p\<lparr>py_provider_payment_id := Some ref\<rparr>) dk1,
                                 Inr (p\<lparr>py_provider_payment_id := Some ref\<rparr>, ref)))))"

text \<open>The link still open, for a repeated request; \<open>open_url\<close> is the address of an open Checkout session.\<close>

definition get_payment_link :: "(payment \<Rightarrow> string option) \<Rightarrow> int \<Rightarrow> desk \<Rightarrow> payment option" where
  "get_payment_link open_url oid dk =
     (case sort_key (\<lambda>p. - py_id p) (filter (\<lambda>p. py_order_id p = oid \<and> py_status p = Pt_pending \<and> py_provider p = ''stripe'')
             (dk_payments dk)) of
        [] \<Rightarrow> None
      | p # _ \<Rightarrow>
          if \<not> starts_with ''cs_'' (py_provider_payment_id p) then None
          else if starts_with ''cs_local_'' (py_provider_payment_id p) then Some p
          else (case open_url p of None \<Rightarrow> None | Some url \<Rightarrow> if url = [] then None else Some p))"

end
