(* ===== verification/Payments_Settle.thy ===== *)
theory Payments_Settle
  imports Payments_Desk Orders_Views
begin

text \<open>
  Settling payments: refunds, finalisation of a payment or a card hold (with the confirmation of the order and the
  automatic refund when that fails), the events of Stripe, expiry of abandoned payments, and figures.
\<close>

subsection \<open>Refunds\<close>

definition collected_cents :: "payment \<Rightarrow> int" where
  "collected_cents p =
     (case py_captured p of
        Some c \<Rightarrow> if py_purpose p = Guarantee then money_to_cents c else money_to_cents (py_amount p)
      | None \<Rightarrow> money_to_cents (py_amount p))"

definition live_refund :: "int \<Rightarrow> refund \<Rightarrow> bool" where
  "live_refund pid r \<longleftrightarrow> rf_payment_id r = pid \<and> (rf_status r = Rf_pending \<or> rf_status r = Rf_succeeded)"

definition refunded_amount_cents :: "int \<Rightarrow> desk \<Rightarrow> int" where
  "refunded_amount_cents pid dk = sum_list (map rf_amount (filter (live_refund pid) (dk_refunds dk)))"

abbreviation paid_status :: "pay_status \<Rightarrow> bool" where
  "paid_status st \<equiv> st = Pt_paid \<or> st = Pt_partial"

definition manual_provider :: "string \<Rightarrow> bool" where
  "manual_provider s \<longleftrightarrow> s = ''cash'' \<or> s = ''external_terminal'' \<or> s = ''cash_register''"

definition timestamp_text :: "stripe_env \<Rightarrow> string" where
  "timestamp_text env = py_str_int (se_now env div 1000000)"

text \<open>The row is inserted under the unique constraint on its reference.\<close>

definition add_refund :: "refund \<Rightarrow> desk \<Rightarrow> desk res" where
  "add_refund r dk =
     (if list_ex (\<lambda>x. rf_reference x = rf_reference r) (dk_refunds dk) then Inl IntegrityError
      else Inr (dk\<lparr>dk_refunds := dk_refunds dk @ [r]\<rparr>))"

definition settle_refund :: "payment \<Rightarrow> int \<Rightarrow> refund \<Rightarrow> desk \<Rightarrow> desk \<times> refund res" where
  "settle_refund p already r dk =
     (case add_refund r dk of
        Inl e \<Rightarrow> (dk, Inl e)
      | Inr dk1 \<Rightarrow>
          (set_pay_status (py_id p) (if already + rf_amount r \<ge> collected_cents p then Pt_refunded else Pt_partial) dk1, Inr r))"

text \<open>The checks: the payment to refund, the amount and the reason.\<close>

definition refund_target :: "int \<Rightarrow> int option \<Rightarrow> string option \<Rightarrow> bool \<Rightarrow> desk \<Rightarrow> (payment \<times> int \<times> string) res" where
  "refund_target oid amount reason allow_unfulfilled dk =
     (let text = py_strip (case reason of None \<Rightarrow> [] | Some t \<Rightarrow> t)
      in if text = [] then Inl (AppError ''REFUND_REASON_REQUIRED'' 422)
         else case order_of oid (dk_shop dk) of
           None \<Rightarrow> Inl (AppError ''ORDER_NOT_FOUND'' 404)
         | Some o1 \<Rightarrow>
             if \<not> allow_unfulfilled \<and> ord_status o1 \<notin> {Cancelled, Delivered, Delivery_failed}
             then Inl (AppError ''REFUND_NOT_ALLOWED'' 400)
             else (case find (\<lambda>p. py_order_id p = oid \<and> paid_status (py_status p)) (dk_payments dk) of
                 None \<Rightarrow> Inl (AppError ''PAYMENT_NOT_FOUND'' 404)
               | Some p \<Rightarrow>
                   let rest = collected_cents p - refunded_amount_cents (py_id p) dk;
                       due = (case amount of None \<Rightarrow> rest | Some a \<Rightarrow> a)
                   in if rest \<le> 0 then Inl (AppError ''REFUND_ALREADY_COMPLETE'' 409)
                      else if due \<le> 0 then Inl (AppError ''INVALID_REFUND_AMOUNT'' 422)
                      else if due > rest then Inl (AppError ''REFUND_AMOUNT_EXCEEDS_PAYMENT'' 422)
                      else Inr (p, due, text)))"

definition refund_row :: "stripe_env \<Rightarrow> int \<Rightarrow> int option \<Rightarrow> payment \<Rightarrow> int \<Rightarrow> string \<Rightarrow> string \<Rightarrow> refund_status \<Rightarrow> refund" where
  "refund_row env oid user p due text ref st =
     \<lparr>rf_order_id = oid, rf_payment_id = py_id p, rf_reference = ref, rf_amount = due, rf_reason = text, rf_status = st,
      rf_created_by = user, rf_created_at = se_now env\<rparr>"

definition create_refund ::
    "stripe_env \<Rightarrow> int \<Rightarrow> int option \<Rightarrow> int option \<Rightarrow> string option \<Rightarrow> bool \<Rightarrow> desk \<Rightarrow> desk \<times> refund res" where
  "create_refund env oid user amount reason allow_unfulfilled dk =
     (case refund_target oid amount reason allow_unfulfilled dk of
        Inl e \<Rightarrow> (dk, Inl e)
      | Inr (p, due, text) \<Rightarrow>
          let row = refund_row env oid user p due text; already = refunded_amount_cents (py_id p) dk
          in if manual_provider (py_provider p)
             then settle_refund p already (row (''manual_'' @ py_str_int (py_id p) @ ''_'' @ timestamp_text env) Rf_succeeded) dk
             else (case se_refund env p due of
                 Some ref \<Rightarrow> settle_refund p already (row ref Rf_succeeded) dk
               | None \<Rightarrow>
                   (case add_refund (row (''failed_'' @ py_str_int (py_id p) @ ''_'' @ timestamp_text env) Rf_failed) dk of
                      Inl e \<Rightarrow> (dk, Inl e)
                    | Inr dk1 \<Rightarrow> (dk1, Inl (AppError ''STRIPE_REFUND_FAILED'' 502)))))"

subsection \<open>Finalisation\<close>

datatype finalize_out = Already_final | Order_confirmed | Order_not_confirmed "refund option"

definition auto_confirm_loyalty_reservation :: "instant \<Rightarrow> int \<Rightarrow> int option \<Rightarrow> desk \<Rightarrow> desk" where
  "auto_confirm_loyalty_reservation now oid user dk =
     (case user of
        None \<Rightarrow> dk
      | Some u \<Rightarrow>
          (case find (\<lambda>r. pr_order_id r = oid \<and> pr_user_id r = u \<and> pr_status r = Reserved \<and> pr_expires_at r > now)
                  (ly_reservations (sh_loyalty (dk_shop dk))) of
             None \<Rightarrow> dk
           | Some r \<Rightarrow> dk\<lparr>dk_shop := (dk_shop dk)\<lparr>sh_loyalty :=
               fst (confirm_checkout_reservation u (pr_id r) now (sh_loyalty (dk_shop dk)))\<rparr>\<rparr>))"

definition confirm_request :: status_request where
  "confirm_request = \<lparr>rq_status = Confirmed, rq_note = None, rq_actor = None, rq_authority = Internal, rq_proof = None,
      rq_redelivery = False\<rparr>"

text \<open>Confirms the order if it is still pending; both payment and order are already marked in \<open>dk\<close>.\<close>

definition confirm_if_pending :: "stripe_env \<Rightarrow> order \<Rightarrow> desk \<Rightarrow> desk res" where
  "confirm_if_pending env o1 dk =
     (if ord_status o1 = Pending
      then rbind (update_status (se_call env) (ord_id o1) confirm_request (dk_shop dk)) (\<lambda>sh. Inr (dk\<lparr>dk_shop := sh\<rparr>))
      else Inr dk)"

definition auto_refund_after_confirmation_failure ::
    "stripe_env \<Rightarrow> payment \<Rightarrow> string \<Rightarrow> desk \<Rightarrow> desk \<times> finalize_out res" where
  "auto_refund_after_confirmation_failure env p code dk =
     (let dk1 = set_pay_status (py_id p) Pt_paid (mark_order (py_order_id p) Paid dk)
      in case create_refund env (py_order_id p) None None (Some (''auto_refund_'' @ py_lower code)) True dk1 of
           (dk2, Inr r) \<Rightarrow> (set_pay_status (py_id p) Pt_refunded dk2, Inr (Order_not_confirmed (Some r)))
         | (dk2, Inl (AppError c http)) \<Rightarrow> (set_pay_status (py_id p) Pt_refund_failed dk2, Inr (Order_not_confirmed None))
         | (dk2, Inl e) \<Rightarrow> (dk2, Inl e))"

text \<open>The operations below run on \<open>dk\<close>, the rows as the session sees them, and fall back on \<open>base\<close>, the rows as they were
  last committed: an error or a rollback loses what was only flushed, such as the reference an event attaches to a
  payment link. Outside of events both are the same.\<close>

definition finalize_sale ::
    "stripe_env \<Rightarrow> payment \<Rightarrow> order \<Rightarrow> int option \<Rightarrow> bool \<Rightarrow> bool \<Rightarrow> intent option \<Rightarrow> desk \<Rightarrow> desk \<Rightarrow> desk \<times> finalize_out res" where
  "finalize_sale env p o1 user is_staff verify i base dk =
     (case require_customer_payment_owner p o1 user is_staff of
        Inl e \<Rightarrow> (base, Inl e)
      | Inr _ \<Rightarrow>
          if py_status p = Pt_paid \<or> py_status p = Pt_refunded \<or> py_status p = Pt_partial then (base, Inr Already_final)
          else (case (case i of
                  Some i1 \<Rightarrow> validate_payment_intent_payload (se_tenant env) p o1 i1
                | None \<Rightarrow> if verify then verify_payment_intent_with_stripe env p o1 else Inr ()) of
              Inl e \<Rightarrow> (base, Inl e)
            | Inr _ \<Rightarrow>
                (case confirm_if_pending env o1 (mark_order (ord_id o1) Paid (set_pay_status (py_id p) Pt_paid dk)) of
                   Inr dk1 \<Rightarrow> (auto_confirm_loyalty_reservation (se_now env) (ord_id o1) (ord_user_id o1) dk1, Inr Order_confirmed)
                 | Inl (AppError code http) \<Rightarrow> auto_refund_after_confirmation_failure env p code base
                 | Inl e \<Rightarrow> (base, Inl e))))"

definition validate_guarantee_intent :: "string \<Rightarrow> payment \<Rightarrow> order \<Rightarrow> intent \<Rightarrow> unit res" where
  "validate_guarantee_intent tenant p o1 i =
     (let expected = money_to_cents (py_amount p)
      in if pi_status i \<noteq> ''requires_capture'' then Inl (AppError ''GUARANTEE_NOT_AUTHORIZED'' 409)
         else if pi_capture_method i \<noteq> ''manual'' then Inl (AppError ''GUARANTEE_CAPTURE_METHOD_INVALID'' 409)
         else if money_to_cents (ord_total o1) \<noteq> expected then Inl (AppError ''PAYMENT_ORDER_AMOUNT_MISMATCH'' 409)
         else if pi_amount i \<noteq> Some expected then Inl (AppError ''PAYMENT_AMOUNT_MISMATCH'' 409)
         else if (case pi_capturable i of None \<Rightarrow> False | Some a \<Rightarrow> a < expected) then Inl (AppError ''GUARANTEE_AMOUNT_NOT_HELD'' 409)
         else if py_lower (pi_currency i) \<noteq> expected_currency p then Inl (AppError ''PAYMENT_CURRENCY_MISMATCH'' 409)
         else if \<not> (metadata_ok tenant p o1 i \<and> pi_purpose i = ''guarantee'') then Inl (AppError ''PAYMENT_METADATA_MISMATCH'' 409)
         else Inr ())"

text \<open>\<^verbatim>\<open>intent.get("amount_received") or intent.get("amount") or 0\<close>\<close>

definition intent_received :: "intent \<Rightarrow> int" where
  "intent_received i =
     (case pi_received i of
        Some r \<Rightarrow> if r = 0 then (case pi_amount i of None \<Rightarrow> 0 | Some a \<Rightarrow> a) else r
      | None \<Rightarrow> (case pi_amount i of None \<Rightarrow> 0 | Some a \<Rightarrow> a))"

definition sync_external_capture :: "stripe_env \<Rightarrow> payment \<Rightarrow> order \<Rightarrow> intent \<Rightarrow> desk \<Rightarrow> desk" where
  "sync_external_capture env p o1 i dk =
     mark_order (ord_id o1) (if intent_received i \<ge> money_to_cents (ord_total o1) then Paid else guarantee_captured)
       (upd_payment (py_id p) (\<lambda>r. r\<lparr>py_status := Pt_paid, py_captured := Some (of_int (intent_received i) / 100),
          py_settled_at := Some (se_now env), py_note := Some ''captured_outside_api''\<rparr>) dk)"

definition settled_status :: "pay_status \<Rightarrow> bool" where
  "settled_status st \<longleftrightarrow> st \<in> {Pt_authorized, Pt_paid, Pt_released, Pt_refunded, Pt_partial}"

text \<open>The hold when the order cannot be confirmed: released, or kept when Stripe refuses to cancel it.\<close>

definition auto_release :: "stripe_env \<Rightarrow> payment \<Rightarrow> order \<Rightarrow> string \<Rightarrow> desk \<Rightarrow> desk" where
  "auto_release env p o1 code dk =
     (case cancel_intent_idempotent (ev_cancel_ok (se_call env)) p of
        Inr _ \<Rightarrow> mark_order (ord_id o1) guarantee_released
          (upd_payment (py_id p) (\<lambda>r. r\<lparr>py_status := Pt_released, py_settled_at := Some (se_now env),
             py_note := Some (take 256 (''auto_release_'' @ py_lower code))\<rparr>) dk)
      | Inl _ \<Rightarrow> mark_order (ord_id o1) Guaranteed (set_pay_status (py_id p) Pt_authorized dk))"

text \<open>The payment as read again after a rollback.\<close>

definition reread :: "payment \<Rightarrow> desk \<Rightarrow> payment" where
  "reread p base = (case row_get py_id (py_id p) (dk_payments base) of None \<Rightarrow> p | Some q \<Rightarrow> q)"

definition finalize_guarantee ::
    "stripe_env \<Rightarrow> payment \<Rightarrow> order \<Rightarrow> int option \<Rightarrow> bool \<Rightarrow> bool \<Rightarrow> intent option \<Rightarrow> desk \<Rightarrow> desk \<Rightarrow> desk \<times> finalize_out res" where
  "finalize_guarantee env p o1 user is_staff verify i base dk =
     (case require_customer_payment_owner p o1 user is_staff of
        Inl e \<Rightarrow> (base, Inl e)
      | Inr _ \<Rightarrow>
          if settled_status (py_status p) then (base, Inr Already_final)
          else if ord_type o1 \<noteq> Delivery_type then (base, Inl (AppError ''GUARANTEE_DELIVERY_ONLY'' 422))
          else (case (case i of
                  Some i1 \<Rightarrow> Inr (Some i1)
                | None \<Rightarrow>
                    if \<not> verify then Inr None
                    else if is_local p then (if se_local_ok env then Inr None else Inl (AppError ''PAYMENT_CONFIRMATION_REQUIRED'' 409))
                    else rbind (retrieve_intent env p) (\<lambda>i1. Inr (Some i1))) of
              Inl e \<Rightarrow> (base, Inl e)
            | Inr j \<Rightarrow>
                if (case j of None \<Rightarrow> False | Some i1 \<Rightarrow> pi_status i1 = ''succeeded'')
                then (sync_external_capture env p o1 (the j) dk, Inr Order_confirmed)
                else (case (case j of None \<Rightarrow> Inr () | Some i1 \<Rightarrow> validate_guarantee_intent (se_tenant env) p o1 i1) of
                    Inl e \<Rightarrow> (base, Inl e)
                  | Inr _ \<Rightarrow>
                      let dk1 = mark_order (ord_id o1) Guaranteed (upd_payment (py_id p) (\<lambda>r.
                            (if py_terms r = None then r\<lparr>py_terms := Some guarantee_terms_version, py_terms_at := Some (se_now env)\<rparr>
                             else r)\<lparr>py_status := Pt_authorized\<rparr>) dk)
                      in (case confirm_if_pending env o1 dk1 of
                            Inr dk2 \<Rightarrow> (auto_confirm_loyalty_reservation (se_now env) (ord_id o1) (ord_user_id o1) dk2, Inr Order_confirmed)
                          | Inl (AppError code http) \<Rightarrow> (auto_release env (reread p base) o1 code base, Inr (Order_not_confirmed None))
                          | Inl e \<Rightarrow> (base, Inl e)))))"

definition finalize_flushed ::
    "stripe_env \<Rightarrow> string \<Rightarrow> int option \<Rightarrow> bool \<Rightarrow> bool \<Rightarrow> intent option \<Rightarrow> desk \<Rightarrow> desk \<Rightarrow> desk \<times> finalize_out res" where
  "finalize_flushed env ref user is_staff verify i base dk =
     (case provider_row ref (dk_payments dk) of
        None \<Rightarrow> (base, Inl (AppError ''PAYMENT_NOT_FOUND'' 404))
      | Some p \<Rightarrow>
          (case order_of (py_order_id p) (dk_shop dk) of
             None \<Rightarrow> (base, Inl (AppError ''ORDER_NOT_FOUND'' 404))
           | Some o1 \<Rightarrow>
               if py_purpose p = Guarantee then finalize_guarantee env p o1 user is_staff verify i base dk
               else finalize_sale env p o1 user is_staff verify i base dk))"

definition finalize_payment ::
    "stripe_env \<Rightarrow> string \<Rightarrow> int option \<Rightarrow> bool \<Rightarrow> bool \<Rightarrow> intent option \<Rightarrow> desk \<Rightarrow> desk \<times> finalize_out res" where
  "finalize_payment env ref user is_staff verify i dk = finalize_flushed env ref user is_staff verify i dk dk"

definition confirm_local_test_payment ::
    "stripe_env \<Rightarrow> int \<Rightarrow> int option \<Rightarrow> bool \<Rightarrow> desk \<Rightarrow> desk \<times> finalize_out res" where
  "confirm_local_test_payment env oid user is_staff dk =
     (if \<not> se_local_ok env then (dk, Inl (AppError ''LOCAL_TEST_PAYMENT_DISABLED'' 403))
      else case order_of oid (dk_shop dk) of
        None \<Rightarrow> (dk, Inl (AppError ''ORDER_NOT_FOUND'' 404))
      | Some o1 \<Rightarrow>
          if user \<noteq> None \<and> \<not> is_staff \<and> ord_user_id o1 \<noteq> user then (dk, Inl (AppError ''ORDER_NOT_FOUND'' 404))
          else if ord_payment_status o1 = Paid
          then (if list_ex (\<lambda>p. py_order_id p = oid \<and> py_status p = Pt_paid) (dk_payments dk) then (dk, Inr Already_final)
                else (dk, Inl (AppError ''ORDER_ALREADY_PAID'' 409)))
          else
            let ref = ''local_web_'' @ py_str_int (se_payment_key env);
                p = (new_payment env ''local_web_test'' Sale o1 None user None)\<lparr>py_provider_payment_id := Some ref\<rparr>
            in finalize_payment env ref user is_staff False None (add_payment p (get_or_create_config dk)))"

subsection \<open>Stripe events\<close>

text \<open>\<^verbatim>\<open>find_payment_for_intent\<close>: by reference, else by metadata, attaching the reference to a payment link.\<close>

definition find_payment_for_intent :: "intent \<Rightarrow> desk \<Rightarrow> desk \<times> int option" where
  "find_payment_for_intent i dk =
     (case (if pi_id i = [] then None else provider_row (pi_id i) (dk_payments dk)) of
        Some p \<Rightarrow> (dk, Some (py_id p))
      | None \<Rightarrow>
          (case pi_payment i of
             None \<Rightarrow> (dk, None)
           | Some k \<Rightarrow>
               if k = 0 then (dk, None)
               else (case row_get py_id k (dk_payments dk) of
                   None \<Rightarrow> (dk, None)
                 | Some p \<Rightarrow>
                     if py_order_id p \<noteq> (case pi_order i of None \<Rightarrow> 0 | Some x \<Rightarrow> x) then (dk, None)
                     else if pi_id i \<noteq> [] \<and> starts_with ''cs_'' (py_provider_payment_id p)
                     then (upd_payment k (\<lambda>r. r\<lparr>py_provider_payment_id := Some (pi_id i)\<rparr>) dk, Some k)
                     else (dk, Some k))))"

text \<open>Handled as a hold (\<open>True\<close>), or left to the caller, who then goes on with the flushed rows. The reference attached to a
  link is only flushed: it lasts when the finalisation commits, and a rollback loses it.\<close>

definition handle_intent_event :: "stripe_env \<Rightarrow> intent \<Rightarrow> bool \<Rightarrow> desk \<Rightarrow> desk \<times> bool res" where
  "handle_intent_event env i succeeded dk =
     (if pi_purpose i \<noteq> ''guarantee''
      then ((if succeeded then fst (find_payment_for_intent i dk) else dk), Inr False)
      else (case find_payment_for_intent i dk of
          (dk1, None) \<Rightarrow> (dk, Inl (AppError ''PAYMENT_NOT_FOUND'' 404))
        | (dk1, Some k) \<Rightarrow>
            (case row_get py_id k (dk_payments dk1) of
               None \<Rightarrow> (dk, Inl (AppError ''PAYMENT_NOT_FOUND'' 404))
             | Some p \<Rightarrow>
                 (case order_of (py_order_id p) (dk_shop dk1) of
                    None \<Rightarrow> (dk, Inl (AppError ''ORDER_NOT_FOUND'' 404))
                  | Some o1 \<Rightarrow>
                      (case finalize_guarantee env p o1 None False False (Some i) dk dk1 of
                         (dk2, Inr out) \<Rightarrow> (dk2, Inr True)
                       | (dk2, Inl e) \<Rightarrow> (dk2, Inl e))))))"

record checkout_event =
  co_payment :: "int option"
  co_intent :: "string option"

definition handle_checkout_session :: "stripe_env \<Rightarrow> checkout_event \<Rightarrow> bool \<Rightarrow> desk \<Rightarrow> desk \<times> unit res" where
  "handle_checkout_session env c expired dk =
     (case Option.bind (co_payment c) (\<lambda>k. if k = 0 then None else row_get py_id k (dk_payments dk)) of
        None \<Rightarrow> (dk, Inr ())
      | Some p \<Rightarrow>
          if expired then ((if py_status p = Pt_pending then set_pay_status (py_id p) Pt_expired dk else dk), Inr ())
          else if blank_text (co_intent c) then (dk, Inr ())
          else
            let ref = the (co_intent c);
                dk1 = (if starts_with ''cs_'' (py_provider_payment_id p)
                  then upd_payment (py_id p) (\<lambda>r. r\<lparr>py_provider_payment_id := Some ref\<rparr>) dk else dk);
                p1 = the (row_get py_id (py_id p) (dk_payments dk1))
            in (case order_of (py_order_id p) (dk_shop dk1) of
                  None \<Rightarrow> (dk1, Inr ())
                | Some o1 \<Rightarrow>
                    if settled_status (py_status p) then (dk1, Inr ())
                    else (case se_retrieve env ref of
                        None \<Rightarrow> (dk1, Inl (AppError ''STRIPE_PAYMENT_VERIFY_FAILED'' 502))
                      | Some i \<Rightarrow>
                          if py_purpose p = Guarantee
                          then (case finalize_guarantee env p1 o1 None False False (Some i) dk1 dk1 of
                              (dk2, Inr _) \<Rightarrow> (dk2, Inr ()) | (dk2, Inl e) \<Rightarrow> (dk2, Inl e))
                          else (dk1, Inr ()))))"

definition handle_payment_failure :: "stripe_env \<Rightarrow> string \<Rightarrow> desk \<Rightarrow> desk" where
  "handle_payment_failure env ref dk =
     (case provider_row ref (dk_payments dk) of
        None \<Rightarrow> dk
      | Some p \<Rightarrow>
          let t = handle_guarantee_canceled (py_id p) (se_now env) (sh_orders (dk_shop dk), dk_payments dk)
          in if py_purpose p = Guarantee \<and> snd t
             then dk\<lparr>dk_shop := (dk_shop dk)\<lparr>sh_orders := fst (fst t), sh_payments := snd (fst t)\<rparr>\<rparr>
             else if py_purpose p = Guarantee \<and> py_status p \<in> {Pt_authorized, Pt_released, Pt_paid} then dk
             else if py_status p \<in> {Pt_paid, Pt_partial, Pt_refunded, Pt_failed, Pt_released} then dk
             else mark_order (py_order_id p) (Other_payment ''failed'') (set_pay_status (py_id p) Pt_failed dk))"

definition handle_charge_refunded :: "string \<Rightarrow> int \<Rightarrow> int \<Rightarrow> desk \<Rightarrow> desk" where
  "handle_charge_refunded ref amount refunded dk =
     (case provider_row ref (dk_payments dk) of
        None \<Rightarrow> dk
      | Some p \<Rightarrow>
          if py_status p = Pt_refunded \<or> refunded \<le> 0 \<or> amount \<le> 0 then dk
          else set_pay_status (py_id p) (if refunded \<ge> amount then Pt_refunded else Pt_partial) dk)"

datatype stripe_event =
  Intent_succeeded intent | Amount_capturable intent | Untyped_event intent
  | Checkout_completed checkout_event | Checkout_expired checkout_event
  | Intent_failed string | Dispute_created | Charge_refunded string int int | Other_event

definition dispatch_event :: "stripe_env \<Rightarrow> stripe_event \<Rightarrow> desk \<Rightarrow> desk \<times> unit res" where
  "dispatch_event env e dk =
     (case e of
        Intent_succeeded i \<Rightarrow>
          (case handle_intent_event env i True dk of
             (dk1, Inl err) \<Rightarrow> (dk1, Inl err)
           | (dk1, Inr True) \<Rightarrow> (dk1, Inr ())
           | (dk1, Inr False) \<Rightarrow>
               if pi_id i = [] then (dk, Inr ())
               else (case finalize_flushed env (pi_id i) None False False (Some i) dk dk1 of
                   (dk2, Inr _) \<Rightarrow> (dk2, Inr ()) | (dk2, Inl err) \<Rightarrow> (dk2, Inl err)))
      | Amount_capturable i \<Rightarrow>
          (case handle_intent_event env i False dk of (dk1, Inl err) \<Rightarrow> (dk1, Inl err) | (dk1, Inr _) \<Rightarrow> (dk1, Inr ()))
      | Untyped_event i \<Rightarrow>
          if pi_id i = [] then (dk, Inr ())
          else (case finalize_payment env (pi_id i) None False False (Some i) dk of
              (dk1, Inr _) \<Rightarrow> (dk1, Inr ()) | (dk1, Inl err) \<Rightarrow> (dk1, Inl err))
      | Checkout_completed c \<Rightarrow> handle_checkout_session env c False dk
      | Checkout_expired c \<Rightarrow> handle_checkout_session env c True dk
      | Intent_failed ref \<Rightarrow> ((if ref = [] then dk else handle_payment_failure env ref dk), Inr ())
      | Dispute_created \<Rightarrow> (dk, Inr ())
      | Charge_refunded ref amount refunded \<Rightarrow>
          ((if ref = [] then dk else handle_charge_refunded ref amount refunded dk), Inr ())
      | Other_event \<Rightarrow> (dk, Inr ()))"

text \<open>The event is recorded and committed first; an event seen before is skipped.\<close>

definition handle_webhook :: "stripe_env \<Rightarrow> string option \<Rightarrow> stripe_event \<Rightarrow> desk \<Rightarrow> desk \<times> unit res" where
  "handle_webhook env eid e dk =
     (case eid of
        None \<Rightarrow> dispatch_event env e dk
      | Some k \<Rightarrow>
          if k = [] then dispatch_event env e dk
          else if k \<in> set (dk_events dk) then (dk, Inr ())
          else dispatch_event env e (dk\<lparr>dk_events := dk_events dk @ [k]\<rparr>))"

subsection \<open>Expiry and figures\<close>

definition is_expired_pending :: "stripe_env \<Rightarrow> int \<Rightarrow> payment \<Rightarrow> bool" where
  "is_expired_pending env h p \<longleftrightarrow> py_status p = Pt_pending \<and> py_created_at p \<le> se_now env - hours h"

definition must_cancel :: "payment \<Rightarrow> bool" where
  "must_cancel p \<longleftrightarrow> \<not> blank_text (py_provider_payment_id p) \<and> \<not> starts_with ''cs_'' (py_provider_payment_id p)
     \<and> \<not> starts_with ''local_'' (py_provider_payment_id p)"

record payment_cleanup =
  pc_payment_ids :: "int list"
  pc_cancelled :: nat
  pc_failures :: "int list"

definition cleanup_expired_pending_payments :: "stripe_env \<Rightarrow> int \<Rightarrow> desk \<Rightarrow> desk \<times> payment_cleanup" where
  "cleanup_expired_pending_payments env h dk =
     (let ps = filter (is_expired_pending env h) (dk_payments dk)
      in (dk\<lparr>dk_shop := (dk_shop dk)\<lparr>sh_payments := map (\<lambda>p. if is_expired_pending env h p then p\<lparr>py_status := Pt_expired\<rparr> else p)
              (dk_payments dk)\<rparr>\<rparr>,
          \<lparr>pc_payment_ids = map py_id ps, pc_cancelled = length (filter (\<lambda>p. must_cancel p \<and> se_cancel env p) ps),
           pc_failures = map py_id (filter (\<lambda>p. must_cancel p \<and> \<not> se_cancel env p) ps)\<rparr>))"

text \<open>\<^verbatim>\<open>worker/tasks/order_expiration.py\<close>: orders nobody paid within five minutes are cancelled, at most 100 at a time and
  the oldest first; their pending payments expire whether or not Stripe could cancel the intent. The messages to the
  customer are not represented.\<close>

definition stale_order :: "instant \<Rightarrow> order \<Rightarrow> bool" where
  "stale_order now o1 \<longleftrightarrow> ord_status o1 = Pending \<and> ord_payment_status o1 = Pay_pending \<and> ord_created_at o1 \<le> now - 300000000"

definition cancel_stale_order :: "order \<Rightarrow> desk \<Rightarrow> desk" where
  "cancel_stale_order o1 dk =
     (let sh = dk_shop dk;
          sh1 = sh\<lparr>sh_orders := row_upd ord_id (ord_id o1) (\<lambda>x. x\<lparr>ord_status := Cancelled\<rparr>) (sh_orders sh),
            sh_payments := map (\<lambda>p. if py_order_id p = ord_id o1 \<and> py_status p = Pt_pending then p\<lparr>py_status := Pt_expired\<rparr> else p)
              (sh_payments sh)\<rparr>
      in dk\<lparr>dk_shop := add_history (ord_id o1) Cancelled
           (Some ''Annulation automatique: commande en attente de paiement depuis plus de 5 minutes'') Internal sh1\<rparr>)"

definition cancel_stale_pending_orders :: "stripe_env \<Rightarrow> desk \<Rightarrow> desk" where
  "cancel_stale_pending_orders env dk =
     fold cancel_stale_order (take 100 (sort_key ord_created_at (filter (stale_order (se_now env)) (sh_orders (dk_shop dk))))) dk"

record payment_detail =
  pdt_payment :: payment
  pdt_paid :: int
  pdt_refunded :: int
  pdt_refundable :: int

definition get_payment_for_order :: "int \<Rightarrow> int \<Rightarrow> bool \<Rightarrow> desk \<Rightarrow> payment_detail res" where
  "get_payment_for_order oid user is_staff dk =
     (case order_of oid (dk_shop dk) of
        None \<Rightarrow> Inl (AppError ''PAYMENT_NOT_FOUND'' 404)
      | Some o1 \<Rightarrow>
          if \<not> is_staff \<and> ord_user_id o1 \<noteq> Some user then Inl (AppError ''PAYMENT_NOT_FOUND'' 404)
          else (case sort_key (\<lambda>p. - py_created_at p) (filter (\<lambda>p. py_order_id p = oid) (dk_payments dk)) of
              [] \<Rightarrow> Inl (AppError ''PAYMENT_NOT_FOUND'' 404)
            | p # _ \<Rightarrow>
                let paid = (if paid_status (py_status p) \<or> py_status p = Pt_refunded then collected_cents p else 0);
                    refunded = refunded_amount_cents (py_id p) dk
                in Inr \<lparr>pdt_payment = p, pdt_paid = paid, pdt_refunded = refunded, pdt_refundable = max 0 (paid - refunded)\<rparr>))"

record payment_summary =
  psm_collected :: int
  psm_refunded :: int
  psm_net :: int
  psm_payments :: nat
  psm_refunds :: nat
  psm_counts :: "(pay_status \<times> nat) list"

definition at_establishment :: "int option \<Rightarrow> int \<Rightarrow> desk \<Rightarrow> bool" where
  "at_establishment eid oid dk \<longleftrightarrow> eid = None
     \<or> (case order_of oid (dk_shop dk) of None \<Rightarrow> False | Some o1 \<Rightarrow> ord_establishment_id o1 = eid)"

definition in_period :: "instant option \<Rightarrow> instant option \<Rightarrow> instant \<Rightarrow> bool" where
  "in_period a b t \<longleftrightarrow> (case a of None \<Rightarrow> True | Some x \<Rightarrow> x \<le> t) \<and> (case b of None \<Rightarrow> True | Some y \<Rightarrow> t \<le> y)"

definition get_payment_summary :: "instant option \<Rightarrow> instant option \<Rightarrow> int option \<Rightarrow> desk \<Rightarrow> payment_summary" where
  "get_payment_summary date_from date_to eid dk =
     (let ps = filter (\<lambda>p. at_establishment eid (py_order_id p) dk \<and> in_period date_from date_to (py_created_at p)) (dk_payments dk);
          rs = filter (\<lambda>r. at_establishment eid (rf_order_id r) dk \<and> in_period date_from date_to (rf_created_at r)) (dk_refunds dk);
          collected = sum_list (map collected_cents (filter (\<lambda>p. paid_status (py_status p) \<or> py_status p = Pt_refunded) ps));
          done = filter (\<lambda>r. rf_status r = Rf_succeeded) rs;
          refunded = sum_list (map rf_amount done)
      in \<lparr>psm_collected = collected, psm_refunded = refunded, psm_net = collected - refunded,
          psm_payments = length ps, psm_refunds = length done,
          psm_counts = dict_of (map (\<lambda>p. (py_status p, 1)) ps)\<rparr>)"

end
