(* ===== verification/Orders_Manual.thy ===== *)
theory Orders_Manual
  imports Payments_Settle
begin

text \<open>
  Orders entered by the staff: \<^verbatim>\<open>create_manual_order\<close> of \<^verbatim>\<open>app/modules/orders/service.py\<close>. The order and its
  payment are written in one transaction; with a payment link the order is committed as pending and the link is
  opened afterwards, so that its failure is reported next to the order.
\<close>

record manual_body =
  mb_order :: order_body
  mb_method :: string
  mb_reference :: "string option"
  mb_amount_received :: "rat option"
  mb_link_mode :: "link_mode option"
  mb_customer_name :: "string option"
  mb_customer_phone :: "string option"
  mb_table_number :: "string option"
  mb_loyalty_customer :: "int option"
  mb_note :: "string option"

record manual_out =
  mo_order :: order_detail
  mo_payment :: "payment option"
  mo_receipt :: order_receipt
  mo_link :: "payment option"
  mo_link_error :: "string option"

definition payment_payload :: "payment \<Rightarrow> payment" where
  "payment_payload p = p\<lparr>py_amount := money (py_amount p), py_amount_received := map_option money (py_amount_received p)\<rparr>"

definition latest_payment :: "int \<Rightarrow> payment list \<Rightarrow> payment option" where
  "latest_payment oid ps =
     (case sort_key (\<lambda>p. (- py_created_at p, - py_id p)) (filter (\<lambda>p. py_order_id p = oid) ps) of
        [] \<Rightarrow> None | p # _ \<Rightarrow> Some p)"

text \<open>The answer to a repeated request.\<close>

definition manual_replay :: "(payment \<Rightarrow> string option) \<Rightarrow> order \<Rightarrow> desk \<Rightarrow> manual_out res" where
  "manual_replay open_url o1 dk =
     (let p = latest_payment (ord_id o1) (dk_payments dk);
          awaiting = (ord_status o1 = Pending \<and> (case p of None \<Rightarrow> True | Some r \<Rightarrow> py_status r = Pt_pending))
      in if p = None \<and> \<not> awaiting then Inl (AppError ''PAYMENT_NOT_FOUND'' 409)
         else
           rbind (build_receipt (ord_id o1) (dk_shop dk)) (\<lambda>rc.
             Inr \<lparr>mo_order = serialize_order_detail o1 (dk_shop dk),
                  mo_payment = (if awaiting then None else map_option payment_payload p), mo_receipt = rc,
                  mo_link = (if awaiting then get_payment_link open_url (ord_id o1) dk else None), mo_link_error = None\<rparr>))"

definition manual_checks :: "manual_body \<Rightarrow> link_mode res" where
  "manual_checks b =
     (let ty = ob_order_type (mb_order b); by_link = (mb_method b = ''payment_link'');
          mode = (case mb_link_mode b of Some m \<Rightarrow> m | None \<Rightarrow> if ty = Delivery_type then Guarantee_link else Full_link)
      in if \<not> manual_provider (mb_method b) \<and> \<not> by_link then Inl (AppError ''INVALID_PAYMENT_METHOD'' 422)
         else if ty = Delivery_type \<and> mb_method b = ''cash'' then Inl (AppError ''DELIVERY_CASH_REQUIRES_GUARANTEE'' 422)
         else if by_link \<and> ty = Dine_in then Inl (AppError ''PAYMENT_LINK_UNSUPPORTED'' 422)
         else if by_link \<and> mode = Guarantee_link \<and> ty \<noteq> Delivery_type then Inl (AppError ''GUARANTEE_DELIVERY_ONLY'' 422)
         else Inr mode)"

definition manual_call :: "manual_body \<Rightarrow> int \<Rightarrow> string \<Rightarrow> create_call" where
  "manual_call b actor key =
     \<lparr>cc_user_id = mb_loyalty_customer b, cc_key = Some key, cc_created_by = Some actor, cc_source = Src_manual,
      cc_table_number = mb_table_number b, cc_customer_name = mb_customer_name b, cc_customer_phone = mb_customer_phone b,
      cc_commit = False, cc_skip_lookup = True\<rparr>"

definition manual_payment :: "stripe_env \<Rightarrow> manual_body \<Rightarrow> int \<Rightarrow> order \<Rightarrow> payment" where
  "manual_payment env b actor o1 =
     \<lparr>py_id = se_payment_key env, py_order_id = ord_id o1, py_provider = mb_method b,
      py_provider_payment_id = mb_reference b, py_purpose = Sale, py_amount = ord_total o1,
      py_amount_received = mb_amount_received b, py_currency = ''EUR'', py_status = Pt_paid, py_captured = None,
      py_settled_at = None, py_settled_by = None, py_note = None, py_account = None, py_reference = mb_reference b,
      py_expires_at = None, py_created_by = Some actor, py_created_at = se_now env, py_terms = None, py_terms_at = None\<rparr>"

definition manual_confirmation :: "manual_body \<Rightarrow> int \<Rightarrow> status_request" where
  "manual_confirmation b actor =
     \<lparr>rq_status = Confirmed,
      rq_note = (if blank_text (mb_note b) then Some (''Manual payment: '' @ mb_method b) else mb_note b),
      rq_actor = Some actor, rq_authority = Internal, rq_proof = None, rq_redelivery = False\<rparr>"

text \<open>The transaction: the order, and unless a link was asked for its payment and its confirmation. A new order is
  pending, so the branch that only commits is the one for links.\<close>

definition manual_transaction ::
    "create_env \<Rightarrow> stripe_env \<Rightarrow> manual_body \<Rightarrow> int \<Rightarrow> string \<Rightarrow> haccp_db \<Rightarrow> site_db \<Rightarrow> desk \<Rightarrow> (desk \<times> order) res" where
  "manual_transaction cenv env b actor key h site dk =
     rbind (create_order cenv (mb_order b) (manual_call b actor key) h site (dk_shop dk)) (\<lambda>(sh, o1).
       if mb_method b = ''payment_link'' then Inr (dk\<lparr>dk_shop := sh\<rparr>, o1)
       else
         let dk1 = mark_order (ord_id o1) Paid (add_payment (manual_payment env b actor o1) (dk\<lparr>dk_shop := sh\<rparr>))
         in if ord_status o1 = Pending
            then rbind (update_status (se_call env) (ord_id o1) (manual_confirmation b actor) (dk_shop dk1))
                   (\<lambda>sh2. Inr (dk1\<lparr>dk_shop := sh2\<rparr>, o1))
            else Inr (dk1, o1))"

definition link_error :: "'a res \<Rightarrow> string option" where
  "link_error r = (case r of Inr _ \<Rightarrow> None | Inl (AppError code http) \<Rightarrow> Some code | Inl _ \<Rightarrow> Some ''PAYMENT_LINK_FAILED'')"

definition credit_manual :: "stripe_env \<Rightarrow> int \<Rightarrow> desk \<Rightarrow> desk" where
  "credit_manual env oid dk =
     (case order_of oid (dk_shop dk) of
        None \<Rightarrow> dk
      | Some o1 \<Rightarrow>
          if ord_user_id o1 \<noteq> None \<and> ord_payment_status o1 = Paid \<and> ord_status o1 \<in> {Confirmed, Queued}
          then dk\<lparr>dk_shop := credit_loyalty_for_order (se_call env) o1 (dk_shop dk)\<rparr> else dk)"

definition create_manual_order ::
    "create_env \<Rightarrow> stripe_env \<Rightarrow> (payment \<Rightarrow> string option) \<Rightarrow> manual_body \<Rightarrow> int \<Rightarrow> string option \<Rightarrow> haccp_db \<Rightarrow> site_db
      \<Rightarrow> desk \<Rightarrow> desk \<times> manual_out res" where
  "create_manual_order cenv env open_url b actor key h site dk =
     (case key of
        None \<Rightarrow> (dk, Inl (AppError ''IDEMPOTENCY_KEY_REQUIRED'' 400))
      | Some k \<Rightarrow>
          if k = [] then (dk, Inl (AppError ''IDEMPOTENCY_KEY_REQUIRED'' 400))
          else if length k > 128 then (dk, Inl (AppError ''IDEMPOTENCY_KEY_TOO_LONG'' 422))
          else (case find_idempotent_order (ce_now cenv) None k (sh_orders (dk_shop dk)) of
              Some o1 \<Rightarrow> (dk, manual_replay open_url o1 dk)
            | None \<Rightarrow>
                (case rbind (manual_checks b) (\<lambda>mode. rbind (manual_transaction cenv env b actor k h site dk) (\<lambda>r. Inr (mode, r))) of
                   Inl e \<Rightarrow> (dk, Inl e)
                 | Inr (mode, dk1, o1) \<Rightarrow>
                     let by_link = (mb_method b = ''payment_link'');
                         (dk2, link) = (if by_link then create_payment_link env (ord_id o1) mode (Some actor) dk1
                           else (dk1, Inl (AppError [] 0)));
                         dk3 = credit_manual env (ord_id o1) dk2
                     in (dk3, rbind (build_receipt (ord_id o1) (dk_shop dk3)) (\<lambda>rc.
                          case order_of (ord_id o1) (dk_shop dk3) of
                            None \<Rightarrow> Inl (AppError ''ORDER_NOT_FOUND'' 404)
                          | Some o2 \<Rightarrow>
                              Inr \<lparr>mo_order = serialize_order_detail o2 (dk_shop dk3),
                                   mo_payment = (if by_link then None
                                     else map_option payment_payload (row_get py_id (se_payment_key env) (dk_payments dk3))),
                                   mo_receipt = rc,
                                   mo_link = (case link of Inr (p, _) \<Rightarrow> Some p | Inl _ \<Rightarrow> None),
                                   mo_link_error = (if by_link then link_error link else None)\<rparr>)))))"

end
