(* ===== verification/Payments_Frame.thy ===== *)
theory Payments_Frame
  imports Orders_Manual Orders_Frame
begin

text \<open>
  What the payment operations may do to the rows: payments keep their keys, new payments have fresh keys, a
  payment that has been settled (paid, partly or fully refunded) keeps its collected amount and stays settled, and a
  card hold that has been released or captured keeps the record of its settlement and stays so.
  \<open>pays_step K\<close> says so for all payments whose key is not in \<open>K\<close>.
\<close>

subsection \<open>Steps on the payment rows\<close>

definition refundable :: "payment \<Rightarrow> bool" where
  "refundable p \<longleftrightarrow> paid_status (py_status p) \<or> py_status p = Pt_refunded"

definition settled_hold :: "payment \<Rightarrow> bool" where
  "settled_hold p \<longleftrightarrow> py_purpose p = Guarantee \<and> py_status p \<in> {Pt_released, Pt_paid, Pt_partial, Pt_refunded}"

definition same_settlement :: "payment \<Rightarrow> payment \<Rightarrow> bool" where
  "same_settlement p q \<longleftrightarrow> py_amount q = py_amount p \<and> py_captured q = py_captured p \<and> py_settled_at q = py_settled_at p
     \<and> py_settled_by q = py_settled_by p \<and> py_note q = py_note p"

definition row_ok :: "int set \<Rightarrow> payment \<Rightarrow> payment \<Rightarrow> bool" where
  "row_ok K p q \<longleftrightarrow> py_id q = py_id p \<and>
     (refundable p \<and> py_id p \<notin> K \<longrightarrow> refundable q \<and> collected_cents q = collected_cents p) \<and>
     (settled_hold p \<and> py_id p \<notin> K \<longrightarrow> settled_hold q \<and> same_settlement p q)"

text \<open>Rows still open may be rewritten freely.\<close>

definition open_pay :: "payment \<Rightarrow> bool" where
  "open_pay p \<longleftrightarrow> \<not> refundable p \<and> \<not> settled_hold p"

lemma same_settlement_refl [simp]: "same_settlement p p"
  by (simp add: same_settlement_def)

lemma same_settlement_trans: "same_settlement p q \<Longrightarrow> same_settlement q r \<Longrightarrow> same_settlement p r"
  by (simp add: same_settlement_def)

text \<open>A change of the reference alone, or of the status within the settled ones, keeps the row in order.\<close>

lemma row_ok_reference: "row_ok K p (p\<lparr>py_provider_payment_id := x\<rparr>)"
  by (simp add: row_ok_def refundable_def settled_hold_def same_settlement_def collected_cents_def split: option.split)

lemma row_ok_settled: "st \<in> {Pt_paid, Pt_partial, Pt_refunded} \<Longrightarrow> row_ok K p (p\<lparr>py_status := st\<rparr>)"
  by (auto simp: row_ok_def refundable_def settled_hold_def same_settlement_def collected_cents_def split: option.splits)

lemma row_ok_open: "open_pay p \<Longrightarrow> py_id q = py_id p \<Longrightarrow> row_ok K p q"
  by (simp add: row_ok_def open_pay_def)

definition pays_step :: "int set \<Rightarrow> payment list \<Rightarrow> payment list \<Rightarrow> bool" where
  "pays_step K ps ps' \<longleftrightarrow> (\<exists>old new. ps' = old @ new \<and> list_all2 (row_ok K) ps old
     \<and> distinct (map py_id new) \<and> row_ids py_id new \<inter> row_ids py_id ps = {})"

named_theorems pays \<open>payment rows after one operation\<close>

lemma row_ok_refl: "row_ok K p p"
  by (simp add: row_ok_def)

lemma row_ok_trans: "row_ok K p q \<Longrightarrow> row_ok K q r \<Longrightarrow> row_ok K p r"
  by (auto simp: row_ok_def intro: same_settlement_trans)

lemma pays_refl [pays]: "pays_step K ps ps"
  unfolding pays_step_def
  by (intro exI [of _ ps] exI [of _ "[]"]) (simp add: list_all2_refl row_ok_refl row_ids_def)

lemma pays_old_ids: "list_all2 (row_ok K) ps old \<Longrightarrow> map py_id old = map py_id ps"
  by (induction rule: list_all2_induct) (auto simp: row_ok_def)

lemma pays_trans:
  assumes "pays_step K ps qs" and "pays_step K qs rs"
  shows "pays_step K ps rs"
proof -
  obtain old new where 1: "qs = old @ new" "list_all2 (row_ok K) ps old" "distinct (map py_id new)"
    "row_ids py_id new \<inter> row_ids py_id ps = {}" using assms(1) by (auto simp: pays_step_def)
  obtain old' new' where 2: "rs = old' @ new'" "list_all2 (row_ok K) qs old'" "distinct (map py_id new')"
    "row_ids py_id new' \<inter> row_ids py_id qs = {}" using assms(2) by (auto simp: pays_step_def)
  obtain o1 o2 where o: "old' = o1 @ o2" "list_all2 (row_ok K) old o1" "list_all2 (row_ok K) new o2"
    using 2(2) unfolding 1(1) by (auto simp: list_all2_append1)
  have "list_all2 (row_ok K) ps o1" by (rule list_all2_trans [OF _ 1(2) o(2)]) (rule row_ok_trans)
  moreover have ids: "map py_id o2 = map py_id new" "map py_id old = map py_id ps"
    using pays_old_ids [OF o(3)] pays_old_ids [OF 1(2)] by auto
  moreover have "row_ids py_id o2 = row_ids py_id new" "row_ids py_id old = row_ids py_id ps"
    using arg_cong [OF ids(1), of set] arg_cong [OF ids(2), of set] by (simp_all add: row_ids_def)
  ultimately show ?thesis
    unfolding pays_step_def using 1(3,4) 2(3,4)
    by (intro exI [of _ o1] exI [of _ "o2 @ new'"])
       (auto simp: 1(1) 2(1) o(1) row_ids_append, auto simp: row_ids_def)
qed

lemma pays_map:
  assumes "\<And>p. p \<in> set ps \<Longrightarrow> row_ok K p (f p)"
  shows "pays_step K ps (map f ps)"
  unfolding pays_step_def
  using assms by (intro exI [of _ "map f ps"] exI [of _ "[]"]) (auto simp: list_all2_conv_all_nth row_ids_def)

lemma pays_upd:
  assumes "\<And>p. p \<in> set ps \<Longrightarrow> py_id p = k \<Longrightarrow> row_ok K p (f p)"
  shows "pays_step K ps (row_upd py_id k f ps)"
  unfolding row_upd_def by (rule pays_map) (use assms in \<open>auto simp: row_ok_refl\<close>)

lemma pays_add:
  assumes "py_id p \<notin> row_ids py_id ps"
  shows "pays_step K ps (ps @ [p])"
  unfolding pays_step_def
  using assms by (intro exI [of _ ps] exI [of _ "[p]"]) (simp add: list_all2_refl row_ok_refl row_ids_def)

lemma pays_weaken: "pays_step K ps ps' \<Longrightarrow> K \<subseteq> K' \<Longrightarrow> pays_step K' ps ps'"
  unfolding pays_step_def
  by (elim exE conjE, intro exI conjI) (auto simp: row_ok_def elim!: list_all2_mono)

text \<open>Rows that were not settled need no exemption.\<close>

lemma pays_narrow:
  assumes "pays_step K ps ps'" and "\<And>p. p \<in> set ps \<Longrightarrow> py_id p \<in> K \<Longrightarrow> open_pay p"
  shows "pays_step {} ps ps'"
proof -
  obtain old new where 1: "ps' = old @ new" "list_all2 (row_ok K) ps old" "distinct (map py_id new)"
    "row_ids py_id new \<inter> row_ids py_id ps = {}" using assms(1) by (auto simp: pays_step_def)
  have "list_all2 (row_ok {}) ps old"
    using 1(2) assms(2) by (auto simp: list_all2_conv_all_nth row_ok_def open_pay_def)
  then show ?thesis using 1 by (auto simp: pays_step_def)
qed

lemma pays_distinct:
  assumes "pays_step K ps ps'" and "distinct (map py_id ps)"
  shows "distinct (map py_id ps')"
proof -
  obtain old new where 1: "ps' = old @ new" "list_all2 (row_ok K) ps old" "distinct (map py_id new)"
    "row_ids py_id new \<inter> row_ids py_id ps = {}" using assms(1) by (auto simp: pays_step_def)
  have "distinct (map py_id ps @ map py_id new)"
    using assms(2) 1(3,4) by (simp add: row_ids_def Int_commute)
  then show ?thesis using pays_old_ids [OF 1(2)] by (simp add: 1(1))
qed

lemma pays_row:
  assumes "pays_step K ps ps'" and "p \<in> set ps"
  obtains q where "q \<in> set ps'" "row_ok K p q"
proof -
  obtain old new where 1: "ps' = old @ new" "list_all2 (row_ok K) ps old" using assms(1) by (auto simp: pays_step_def)
  obtain i where i: "i < length ps" "p = ps ! i" using assms(2) by (auto simp: in_set_conv_nth)
  then have "row_ok K p (old ! i)" "old ! i \<in> set ps'" using 1 by (auto simp: list_all2_conv_all_nth)
  then show ?thesis using that by blast
qed

lemma pays_row_back:
  assumes "pays_step K ps ps'" and "q \<in> set ps'"
  obtains p where "p \<in> set ps" "row_ok K p q" | "py_id q \<notin> row_ids py_id ps"
proof -
  obtain old new where 1: "ps' = old @ new" "list_all2 (row_ok K) ps old"
    "row_ids py_id new \<inter> row_ids py_id ps = {}" using assms(1) by (auto simp: pays_step_def)
  show ?thesis
  proof (cases "q \<in> set old")
    case True
    then obtain i where i: "i < length old" "q = old ! i" by (auto simp: in_set_conv_nth)
    then have "row_ok K (ps ! i) q" "ps ! i \<in> set ps" using 1(2) by (auto simp: list_all2_conv_all_nth)
    then show ?thesis using that(1) by blast
  next
    case False
    then have "q \<in> set new" using assms(2) 1(1) by simp
    then show ?thesis using 1(3) that(2) by (auto simp: row_ids_def)
  qed
qed

lemma pays_ids: "pays_step K ps ps' \<Longrightarrow> row_ids py_id ps \<subseteq> row_ids py_id ps'"
  by (auto simp: row_ids_def elim: pays_row) (metis (no_types, lifting) image_eqI pays_row row_ok_def)

lemma guarantee_step_pays:
  assumes "guarantee_step t t'" and "distinct (map py_id (snd t))"
  shows "pays_step K (snd t) (snd t')"
  using assms(1)
proof (cases rule: guarantee_step_shape)
  case idle
  then show ?thesis by (simp add: pays_refl)
next
  case (settle p f new)
  have "row_ok K q (f q)" if "q \<in> set (snd t)" "py_id q = py_id p" for q
    using key_unique [OF assms(2) that(1) settle(1) that(2)] settle(2,5)
    by (simp add: row_ok_def refundable_def settled_hold_def)
  then have "list_all2 (row_ok K) (snd t) (row_upd py_id (py_id p) f (snd t))"
    by (auto simp: row_upd_def list_all2_conv_all_nth row_ok_refl)
  then show ?thesis using settle(4,7,8) by (auto simp: pays_step_def)
qed

subsection \<open>The payments of the shop under the order operations\<close>

lemma release_pays:
  assumes "distinct (map py_id (sh_payments sh))"
  shows "pays_step K (sh_payments sh) (sh_payments (release_on_close env rq a oid sh))"
proof (cases "\<exists>o1. order_of oid sh = Some o1 \<and> a \<in> {Cancelled, Rejected} \<and> ord_payment_status o1 = Guaranteed")
  case False
  then have "release_on_close env rq a oid sh = sh" by (auto simp: release_on_close_def split: option.splits)
  then show ?thesis by (simp add: pays_refl)
next
  case True
  let ?r = "release_guarantee (ev_cancel_ok env) oid (if a = Cancelled then ''order_cancelled'' else ''order_rejected'')
      (rq_actor rq) True guarantee_released None (ev_now env) (sh_orders sh, sh_payments sh)"
  have eq: "release_on_close env rq a oid sh =
      (case ?r of Inl _ \<Rightarrow> sh | Inr (os, ps) \<Rightarrow> sh\<lparr>sh_orders := os, sh_payments := ps\<rparr>)"
    using True by (auto simp: release_on_close_def)
  show ?thesis
  proof (cases ?r)
    case (Inl e)
    then show ?thesis unfolding eq by (simp add: pays_refl)
  next
    case (Inr t)
    have "guarantee_step (sh_orders sh, sh_payments sh) t" using Inr by (rule gstep_release)
    then show ?thesis
      unfolding eq Inr using guarantee_step_pays [of "(sh_orders sh, sh_payments sh)" t K] assms
      by (cases t) simp
  qed
qed

lemma queue_payments: "sh_payments (queue_jobs env a o1 low sh) = sh_payments sh"
  using queue_shape [of env a o1 low sh] by auto

lemma notify_payments: "sh_payments (notify_transition env p a o1 sh) = sh_payments sh"
  using notify_shape [of env p a o1 sh] by auto

lemma credit_payments: "sh_payments (credit_loyalty_for_order env o1 sh) = sh_payments sh"
  by (simp add: credit_loyalty_for_order_def split: option.splits)

lemma commit_payments: "commit_transition env rq o1 sh = Inr (sh1, low) \<Longrightarrow> sh_payments sh1 = sh_payments sh"
  by (auto simp: commit_transition_def add_history_def stock_effects_def Let_def split: prod.splits if_splits)

lemma update_status_pays:
  assumes "update_status env oid rq sh = Inr sh'" and "distinct (map py_id (sh_payments sh))"
  shows "pays_step K (sh_payments sh) (sh_payments sh')"
  using assms(1)
proof (rule update_statusE)
  fix o1 sh1 low
  assume "commit_transition env rq o1 sh = Inr (sh1, low)"
    and sh': "sh' = after_commit env rq o1 (actual_status (rq_status rq) sh) low sh1"
  then have "sh_payments sh1 = sh_payments sh" by (rule_tac commit_payments)
  then show ?thesis
    using release_pays [of sh1] assms(2)
    by (simp add: sh' after_commit_def Let_def notify_payments queue_payments credit_payments)
qed

lemma usage_payments: "sh_payments (record_usage c o1 sh) = sh_payments sh"
  by (simp add: record_usage_def split: option.splits sum.splits)

lemma insert_payments: "insert_order cenv c p sh = Inr sh' \<Longrightarrow> sh_payments sh' = sh_payments sh"
  by (auto simp: insert_order_def add_history_def Let_def split: option.splits if_splits)

lemma create_order_payments:
  assumes "create_order cenv b c h site sh = Inr (sh', o1)"
  shows "sh_payments sh' = sh_payments sh"
proof (cases "sh' = sh")
  case False
  then obtain key p sh1 where "insert_order cenv c p sh = Inr sh1" "sh' = record_usage c (po_order p) sh1"
    using assms by (auto simp: create_order_def split: option.splits if_splits)
  then show ?thesis by (simp add: usage_payments insert_payments)
qed simp

end
