(* ===== verification/Payments_Runs.thy ===== *)
theory Payments_Runs
  imports Payments_Frame Machines
begin

text \<open>
  Every operation on payments as a step on the desk, and the invariant they keep: keys are unique, refunds are
  positive and refer to existing payments, and a payment with live refunds is settled and collected at least that
  much. \<open>safe dk dk'\<close> is what one operation promises: the invariant, steps on the payment rows, refunds only added.
\<close>

subsection \<open>The invariant\<close>

definition desk_ok :: "desk \<Rightarrow> bool" where
  "desk_ok dk \<longleftrightarrow> distinct (map py_id (dk_payments dk))
     \<and> (\<forall>r \<in> set (dk_refunds dk). rf_payment_id r \<in> row_ids py_id (dk_payments dk) \<and> 0 < rf_amount r)
     \<and> (\<forall>p \<in> set (dk_payments dk). 0 < refunded_amount_cents (py_id p) dk \<longrightarrow>
          refundable p \<and> refunded_amount_cents (py_id p) dk \<le> collected_cents p)"

definition safe :: "desk \<Rightarrow> desk \<Rightarrow> bool" where
  "safe dk dk' \<longleftrightarrow> desk_ok dk' \<and> pays_step {} (dk_payments dk) (dk_payments dk')
     \<and> (\<exists>rs. dk_refunds dk' = dk_refunds dk @ rs)"

lemma desk_simps [simp]:
  "dk_payments (upd_payment k f dk) = row_upd py_id k f (dk_payments dk)"
  "dk_refunds (upd_payment k f dk) = dk_refunds dk" "dk_events (upd_payment k f dk) = dk_events dk"
  "dk_refunds (set_pay_status k st dk) = dk_refunds dk" "dk_events (set_pay_status k st dk) = dk_events dk"
  "dk_payments (mark_order oid ps dk) = dk_payments dk" "dk_refunds (mark_order oid ps dk) = dk_refunds dk"
  "dk_events (mark_order oid ps dk) = dk_events dk"
  "dk_payments (add_payment p dk) = dk_payments dk @ [p]" "dk_refunds (add_payment p dk) = dk_refunds dk"
  "dk_events (add_payment p dk) = dk_events dk"
  "dk_payments (get_or_create_config dk) = dk_payments dk" "dk_refunds (get_or_create_config dk) = dk_refunds dk"
  "dk_events (get_or_create_config dk) = dk_events dk"
  by (simp_all add: upd_payment_def set_pay_status_def mark_order_def add_payment_def get_or_create_config_def
      split: option.splits)

lemma refunded_cong: "dk_refunds dk' = dk_refunds dk \<Longrightarrow> refunded_amount_cents k dk' = refunded_amount_cents k dk"
  by (simp add: refunded_amount_cents_def)

lemma refunded_none:
  assumes "desk_ok dk" and "k \<notin> row_ids py_id (dk_payments dk)"
  shows "refunded_amount_cents k dk = 0"
proof -
  have "filter (live_refund k) (dk_refunds dk) = []"
    using assms by (auto simp: filter_empty_conv desk_ok_def live_refund_def)
  then show ?thesis by (simp add: refunded_amount_cents_def)
qed

lemma refunded_nonneg: "desk_ok dk \<Longrightarrow> 0 \<le> refunded_amount_cents k dk"
  by (force simp: refunded_amount_cents_def desk_ok_def intro!: sum_list_nonneg)

lemma refunded_unsettled:
  assumes "desk_ok dk" and "p \<in> set (dk_payments dk)" and "\<not> refundable p"
  shows "refunded_amount_cents (py_id p) dk = 0"
  using assms refunded_nonneg [OF assms(1), of "py_id p"] by (fastforce simp: desk_ok_def)

lemma desk_ok_row: "desk_ok dk \<Longrightarrow> p \<in> set (dk_payments dk) \<Longrightarrow> q \<in> set (dk_payments dk) \<Longrightarrow> py_id q = py_id p \<Longrightarrow> q = p"
  by (auto simp: desk_ok_def intro: key_unique)

text \<open>Steps on the rows keep the invariant as long as refunds stay and exempted rows have none.\<close>

lemma desk_ok_pays:
  assumes ok: "desk_ok dk" and st: "pays_step K (dk_payments dk) (dk_payments dk')" and r: "dk_refunds dk' = dk_refunds dk"
    and K: "\<And>k. k \<in> K \<Longrightarrow> refunded_amount_cents k dk = 0"
  shows "desk_ok dk'"
  unfolding desk_ok_def
proof (intro conjI ballI impI)
  show "distinct (map py_id (dk_payments dk'))" using pays_distinct [OF st] ok by (simp add: desk_ok_def)
  show "rf_payment_id x \<in> row_ids py_id (dk_payments dk')" "0 < rf_amount x" if "x \<in> set (dk_refunds dk')" for x
    using that ok pays_ids [OF st] by (auto simp: r desk_ok_def)
  fix q assume q: "q \<in> set (dk_payments dk')" and pos: "0 < refunded_amount_cents (py_id q) dk'"
  have e: "refunded_amount_cents k dk' = refunded_amount_cents k dk" for k by (rule refunded_cong [OF r])
  have "refundable q \<and> refunded_amount_cents (py_id q) dk \<le> collected_cents q"
    using st q
  proof (cases rule: pays_row_back)
    case (1 p)
    then have i: "py_id q = py_id p" by (simp add: row_ok_def)
    then have "py_id p \<notin> K" using K pos e by fastforce
    moreover have "refundable p \<and> refunded_amount_cents (py_id p) dk \<le> collected_cents p"
      using ok 1(1) pos by (auto simp: e i desk_ok_def)
    ultimately show ?thesis using 1(2) by (simp add: row_ok_def)
  next
    case 2
    then show ?thesis using refunded_none [OF ok 2] pos by (simp add: e)
  qed
  then show "refundable q" "refunded_amount_cents (py_id q) dk' \<le> collected_cents q" by (simp_all add: e)
qed

lemma safe_pays:
  "desk_ok dk \<Longrightarrow> pays_step {} (dk_payments dk) (dk_payments dk') \<Longrightarrow> dk_refunds dk' = dk_refunds dk \<Longrightarrow> safe dk dk'"
  by (auto simp: safe_def intro: desk_ok_pays)

lemma safe_same: "desk_ok dk \<Longrightarrow> dk_payments dk' = dk_payments dk \<Longrightarrow> dk_refunds dk' = dk_refunds dk \<Longrightarrow> safe dk dk'"
  by (rule safe_pays) (simp_all add: pays_refl)

lemma safe_refl: "desk_ok dk \<Longrightarrow> safe dk dk"
  by (rule safe_same) simp_all

lemma safe_trans: "safe dk dk1 \<Longrightarrow> safe dk1 dk2 \<Longrightarrow> safe dk dk2"
  by (auto simp: safe_def intro: pays_trans)

lemma safe_ok: "safe dk dk' \<Longrightarrow> desk_ok dk'"
  by (simp add: safe_def)

lemma safe_add: "desk_ok dk \<Longrightarrow> py_id p \<notin> row_ids py_id (dk_payments dk) \<Longrightarrow> safe dk (add_payment p dk)"
  by (rule safe_pays) (simp_all add: pays_add)

text \<open>An open payment may be rewritten freely, a settled one only within the settled states.\<close>

lemma safe_upd_free:
  assumes "desk_ok dk" and "p \<in> set (dk_payments dk)" and "open_pay p" and "\<And>r. py_id (f r) = py_id r"
  shows "safe dk (upd_payment (py_id p) f dk)"
proof (rule safe_pays [OF assms(1)])
  show "pays_step {} (dk_payments dk) (dk_payments (upd_payment (py_id p) f dk))"
    using desk_ok_row [OF assms(1,2)] assms(3,4)
    by (simp only: desk_simps) (rule pays_upd, rule row_ok_open, auto)
qed simp

lemma safe_status_free:
  "desk_ok dk \<Longrightarrow> p \<in> set (dk_payments dk) \<Longrightarrow> open_pay p \<Longrightarrow> safe dk (set_pay_status (py_id p) st dk)"
  unfolding set_pay_status_def by (rule safe_upd_free) simp_all

lemma safe_status_settled:
  assumes "desk_ok dk" and "st \<in> {Pt_paid, Pt_partial, Pt_refunded}"
  shows "safe dk (set_pay_status k st dk)"
proof (rule safe_pays [OF assms(1)])
  show "pays_step {} (dk_payments dk) (dk_payments (set_pay_status k st dk))"
    unfolding set_pay_status_def desk_simps by (rule pays_upd) (rule row_ok_settled [OF assms(2)])
qed simp

subsection \<open>Refunds\<close>

lemma refund_targetD:
  assumes "refund_target oid amount reason b dk = Inr (p, due, why)"
  shows "p \<in> set (dk_payments dk) \<and> py_order_id p = oid \<and> paid_status (py_status p) \<and> 0 < due
    \<and> refunded_amount_cents (py_id p) dk + due \<le> collected_cents p
    \<and> (amount = None \<longrightarrow> refunded_amount_cents (py_id p) dk + due = collected_cents p)"
proof (cases "find (\<lambda>p. py_order_id p = oid \<and> paid_status (py_status p)) (dk_payments dk)")
  case None
  then show ?thesis using assms by (auto simp: refund_target_def Let_def split: if_splits option.splits)
next
  case (Some q)
  then have "q \<in> set (dk_payments dk) \<and> py_order_id q = oid \<and> paid_status (py_status q)"
    by (auto simp: find_Some_iff)
  then show ?thesis
    using assms Some by (cases amount) (auto simp: refund_target_def Let_def split: if_splits option.splits)
qed

lemma create_refund_cases:
  assumes "create_refund env oid user amount reason b dk = (dk', r)"
  obtains (refused) e where "dk' = dk" "r = Inl e"
  | (recorded) p row where "p \<in> set (dk_payments dk)" "py_order_id p = oid" "paid_status (py_status p)"
      "rf_payment_id row = py_id p" "rf_order_id row = oid" "0 < rf_amount row"
      "refunded_amount_cents (py_id p) dk + rf_amount row \<le> collected_cents p"
      "rf_status row = Rf_failed" "dk' = dk\<lparr>dk_refunds := dk_refunds dk @ [row]\<rparr>"
      "r = Inl (AppError ''STRIPE_REFUND_FAILED'' 502)"
  | (settled) p row where "p \<in> set (dk_payments dk)" "py_order_id p = oid" "paid_status (py_status p)"
      "rf_payment_id row = py_id p" "rf_order_id row = oid" "0 < rf_amount row"
      "refunded_amount_cents (py_id p) dk + rf_amount row \<le> collected_cents p"
      "amount = None \<Longrightarrow> refunded_amount_cents (py_id p) dk + rf_amount row = collected_cents p"
      "rf_status row = Rf_succeeded"
      "dk' = set_pay_status (py_id p) (if refunded_amount_cents (py_id p) dk + rf_amount row \<ge> collected_cents p
         then Pt_refunded else Pt_partial) (dk\<lparr>dk_refunds := dk_refunds dk @ [row]\<rparr>)" "r = Inr row"
proof (cases "refund_target oid amount reason b dk")
  case (Inl e)
  then show ?thesis using assms refused [of e] by (simp add: create_refund_def)
next
  case (Inr t)
  obtain p due why where t: "t = (p, due, why)" by (cases t)
  note tgt = Inr [unfolded t]
  have p: "p \<in> set (dk_payments dk)" "py_order_id p = oid" "paid_status (py_status p)" "0 < due"
    "refunded_amount_cents (py_id p) dk + due \<le> collected_cents p"
    "amount = None \<Longrightarrow> refunded_amount_cents (py_id p) dk + due = collected_cents p"
    using refund_targetD [OF tgt] by auto
  let ?row = "refund_row env oid user p due why"
  have f: "rf_payment_id (?row ref st) = py_id p" "rf_order_id (?row ref st) = oid" "rf_amount (?row ref st) = due"
    "rf_status (?row ref st) = st" for ref st by (simp_all add: refund_row_def)
  have s: ?thesis if "settle_refund p (refunded_amount_cents (py_id p) dk) (?row ref Rf_succeeded) dk = (dk', r)" for ref
    using that p refused settled [of p "?row ref Rf_succeeded"]
    by (auto simp: settle_refund_def add_refund_def f split: if_splits)
  show ?thesis
  proof (cases "manual_provider (py_provider p)")
    case True
    then show ?thesis using assms s by (simp add: create_refund_def tgt)
  next
    case manual: False
    show ?thesis
    proof (cases "se_refund env p due")
      case (Some ref)
      then show ?thesis using assms manual s by (simp add: create_refund_def tgt)
    next
      case None
      let ?ref = "''failed_'' @ py_str_int (py_id p) @ ''_'' @ timestamp_text env"
      have "(case add_refund (?row ?ref Rf_failed) dk of
                      Inl e \<Rightarrow> (dk, Inl e)
                    | Inr dk1 \<Rightarrow> (dk1, Inl (AppError ''STRIPE_REFUND_FAILED'' 502))) = (dk', r)"
        using assms manual None by (simp add: create_refund_def tgt)
      then show ?thesis
        using p refused recorded [of p "?row ?ref Rf_failed"] f
        by (auto simp: add_refund_def simp del: append_Cons append_Nil split: if_splits)
    qed
  qed
qed

lemma refund_row_safe:
  assumes ok: "desk_ok dk" and p: "p \<in> set (dk_payments dk)" and sp: "paid_status (py_status p)"
    and r: "rf_payment_id row = py_id p" "0 < rf_amount row"
      "refunded_amount_cents (py_id p) dk + rf_amount row \<le> collected_cents p"
  shows "safe dk (dk\<lparr>dk_refunds := dk_refunds dk @ [row]\<rparr>)"
proof -
  let ?dk = "dk\<lparr>dk_refunds := dk_refunds dk @ [row]\<rparr>"
  have e: "refunded_amount_cents k ?dk =
      refunded_amount_cents k dk + (if k = py_id p \<and> rf_status row \<noteq> Rf_failed then rf_amount row else 0)" for k
    by (cases "rf_status row") (auto simp: refunded_amount_cents_def live_refund_def r(1))
  have "desk_ok ?dk"
    unfolding desk_ok_def
  proof (intro conjI ballI impI)
    show "distinct (map py_id (dk_payments ?dk))" using ok by (simp add: desk_ok_def)
    show "rf_payment_id x \<in> row_ids py_id (dk_payments ?dk)" "0 < rf_amount x" if "x \<in> set (dk_refunds ?dk)" for x
      using that ok p r by (auto simp: desk_ok_def row_ids_def)
    fix q assume q: "q \<in> set (dk_payments ?dk)" and pos: "0 < refunded_amount_cents (py_id q) ?dk"
    have "refundable q \<and> refunded_amount_cents (py_id q) ?dk \<le> collected_cents q"
    proof (cases "py_id q = py_id p")
      case True
      then have "q = p" using desk_ok_row [OF ok p] q by simp
      then show ?thesis using sp r(2,3) by (simp add: e refundable_def)
    next
      case False
      then have "refunded_amount_cents (py_id q) ?dk = refunded_amount_cents (py_id q) dk" by (simp add: e)
      then show ?thesis using ok q pos by (simp add: desk_ok_def)
    qed
    then show "refundable q" "refunded_amount_cents (py_id q) ?dk \<le> collected_cents q" by simp_all
  qed
  then show ?thesis by (simp add: safe_def pays_refl)
qed

lemma create_refund_safe:
  assumes ok: "desk_ok dk" and c: "create_refund env oid user amount reason b dk = (dk', r)"
  shows "safe dk dk'"
  using c
proof (cases rule: create_refund_cases)
  case (refused e)
  then show ?thesis using ok by (simp add: safe_refl)
next
  case (recorded p row)
  then show ?thesis using refund_row_safe [OF ok recorded(1,3,4,6,7)] by simp
next
  case (settled p row)
  let ?dk = "dk\<lparr>dk_refunds := dk_refunds dk @ [row]\<rparr>"
  have 1: "safe dk ?dk" by (rule refund_row_safe [OF ok settled(1,3,4,6,7)])
  have "safe ?dk dk'" unfolding settled(10) by (rule safe_status_settled [OF safe_ok [OF 1]]) simp
  with 1 show ?thesis by (rule safe_trans)
qed

subsection \<open>Finalisation\<close>

lemma auto_refund_safe:
  assumes ok: "desk_ok dk" and p: "p \<in> set (dk_payments dk)" "open_pay p"
    and a: "auto_refund_after_confirmation_failure env p code dk = (dk', r)"
  shows "safe dk dk'"
proof -
  define dk1 where "dk1 = set_pay_status (py_id p) Pt_paid (mark_order (py_order_id p) Paid dk)"
  have m: "safe dk (mark_order (py_order_id p) Paid dk)" by (rule safe_same [OF ok]) simp_all
  have 1: "safe dk dk1"
    unfolding dk1_def by (rule safe_trans [OF m safe_status_free [OF safe_ok [OF m]]]) (simp_all add: p)
  obtain dk2 q where c: "create_refund env (py_order_id p) None None (Some (''auto_refund_'' @ py_lower code)) True dk1 = (dk2, q)"
    by fastforce
  have 2: "safe dk1 dk2" by (rule create_refund_safe [OF safe_ok [OF 1] c])
  note a' = a [unfolded auto_refund_after_confirmation_failure_def Let_def dk1_def [symmetric] c]
  show ?thesis
  proof (cases q)
    case (Inr row)
    then have "dk' = set_pay_status (py_id p) Pt_refunded dk2" using a' by simp
    then have "safe dk2 dk'" using safe_status_settled [OF safe_ok [OF 2]] by simp
    then show ?thesis using 1 2 safe_trans by blast
  next
    case (Inl e)
    show ?thesis
    proof (cases "\<exists>code http. e = AppError code http")
      case False
      then have "dk' = dk2" using a' Inl by (cases e) auto
      then show ?thesis using 1 2 safe_trans by blast
    next
      case True
      then have dk': "dk' = set_pay_status (py_id p) Pt_refund_failed dk2" using a' Inl by auto
      have z1: "refunded_amount_cents (py_id p) dk1 = 0"
        using refunded_unsettled [OF ok p(1)] p(2) refunded_cong [of dk1 dk] by (simp add: dk1_def open_pay_def)
      have z2: "refunded_amount_cents (py_id p) dk2 = 0"
        using c by (cases rule: create_refund_cases)
          (use z1 Inl in \<open>auto simp: refunded_amount_cents_def live_refund_def\<close>)
      have s3: "pays_step {py_id p} (dk_payments dk2) (dk_payments dk')"
        unfolding dk' set_pay_status_def desk_simps by (rule pays_upd) (simp add: row_ok_def)
      have "desk_ok dk'"
        by (rule desk_ok_pays [OF safe_ok [OF 2] s3]) (use z2 in \<open>simp_all add: dk'\<close>)
      moreover have "pays_step {} (dk_payments dk) (dk_payments dk')"
      proof (rule pays_narrow)
        show "pays_step {py_id p} (dk_payments dk) (dk_payments dk')"
          using 1 2 s3 pays_weaken [of "{}" _ _ "{py_id p}"] unfolding safe_def by (metis pays_trans empty_subsetI)
        show "open_pay x" if "x \<in> set (dk_payments dk)" "py_id x \<in> {py_id p}" for x
          using desk_ok_row [OF ok p(1) that(1)] that(2) p(2) by simp
      qed
      moreover have "\<exists>rs. dk_refunds dk' = dk_refunds dk @ rs"
        using 1 2 by (auto simp: safe_def dk')
      ultimately show ?thesis by (simp add: safe_def)
    qed
  qed
qed

lemma confirm_if_pending_safe:
  assumes ok: "desk_ok dk" and c: "confirm_if_pending env o1 dk = Inr dk'"
  shows "safe dk dk'"
proof (cases "ord_status o1 = Pending")
  case True
  then obtain sh where u: "update_status (se_call env) (ord_id o1) confirm_request (dk_shop dk) = Inr sh"
    and dk': "dk' = dk\<lparr>dk_shop := sh\<rparr>" using c by (auto simp: confirm_if_pending_def)
  show ?thesis
    by (rule safe_pays [OF ok]) (use update_status_pays [OF u] ok in \<open>simp_all add: dk' desk_ok_def\<close>)
next
  case False
  then show ?thesis using c ok by (simp add: confirm_if_pending_def safe_refl)
qed

lemma loyalty_safe: "desk_ok dk \<Longrightarrow> safe dk (auto_confirm_loyalty_reservation now oid user dk)"
  by (rule safe_same) (simp_all add: auto_confirm_loyalty_reservation_def split: option.splits)

lemma mark_safe: "desk_ok dk \<Longrightarrow> safe dk (mark_order oid st dk)"
  by (rule safe_same) simp_all

text \<open>The rows a session works on are the committed ones, except that a reference may have been attached to a link.\<close>

definition attached :: "desk \<Rightarrow> desk \<Rightarrow> bool" where
  "attached base dk \<longleftrightarrow> dk = base \<or> (\<exists>k ref. dk = upd_payment k (\<lambda>r. r\<lparr>py_provider_payment_id := ref\<rparr>) base)"

lemma attached_refl [simp]: "attached dk dk"
  by (simp add: attached_def)

lemma attached_safe:
  assumes "desk_ok base" and "attached base dk"
  shows "safe base dk"
proof (cases "dk = base")
  case False
  then obtain k ref where dk: "dk = upd_payment k (\<lambda>r. r\<lparr>py_provider_payment_id := ref\<rparr>) base"
    using assms(2) by (auto simp: attached_def)
  show ?thesis
    by (rule safe_pays [OF assms(1)]) (simp_all add: dk pays_upd row_ok_reference)
qed (simp add: assms(1) safe_refl)

lemma attached_row:
  assumes "attached base dk" and "p \<in> set (dk_payments dk)"
  obtains p0 where "p0 \<in> set (dk_payments base)" "py_id p0 = py_id p" "py_order_id p0 = py_order_id p"
    "open_pay p0 = open_pay p"
proof -
  have "\<exists>p0 x. p0 \<in> set (dk_payments base) \<and> (p = p0 \<or> p = p0\<lparr>py_provider_payment_id := x\<rparr>)"
  proof (cases "dk = base")
    case False
    then obtain k ref where "dk = upd_payment k (\<lambda>r. r\<lparr>py_provider_payment_id := ref\<rparr>) base"
      using assms(1) by (auto simp: attached_def)
    then obtain p0 where "p0 \<in> set (dk_payments base)" "p = (if py_id p0 = k then p0\<lparr>py_provider_payment_id := ref\<rparr> else p0)"
      using assms(2) by (auto simp: row_upd_def)
    then show ?thesis by metis
  qed (use assms(2) in blast)
  then show ?thesis
    using that by (elim exE conjE disjE) (simp_all add: open_pay_def refundable_def settled_hold_def)
qed

lemma settled_open: "\<not> settled_status (py_status p) \<Longrightarrow> open_pay p"
  by (auto simp: settled_status_def open_pay_def refundable_def settled_hold_def)

lemma sale_open: "\<not> refundable p \<Longrightarrow> py_purpose p \<noteq> Guarantee \<Longrightarrow> open_pay p"
  by (simp add: open_pay_def settled_hold_def)

lemma auto_refund_same:
  "py_id p = py_id q \<Longrightarrow> py_order_id p = py_order_id q \<Longrightarrow>
     auto_refund_after_confirmation_failure env p code dk = auto_refund_after_confirmation_failure env q code dk"
  by (simp add: auto_refund_after_confirmation_failure_def)

lemma finalize_sale_safe:
  assumes ok: "desk_ok base" and att: "attached base dk" and p: "p \<in> set (dk_payments dk)" "py_purpose p \<noteq> Guarantee"
    and f: "finalize_sale env p o1 user staff verify i base dk = (dk', r)"
  shows "safe base dk'"
proof (cases "dk' = base")
  case True
  then show ?thesis using ok by (simp add: safe_refl)
next
  case False
  let ?m = "mark_order (ord_id o1) Paid (set_pay_status (py_id p) Pt_paid dk)"
  have "\<not> refundable p"
    and f': "(case confirm_if_pending env o1 ?m of
        Inr dk1 \<Rightarrow> (auto_confirm_loyalty_reservation (se_now env) (ord_id o1) (ord_user_id o1) dk1, Inr Order_confirmed)
      | Inl (AppError code http) \<Rightarrow> auto_refund_after_confirmation_failure env p code base
      | Inl e \<Rightarrow> (base, Inl e)) = (dk', r)"
    using f False unfolding finalize_sale_def by (auto simp: refundable_def split: sum.splits if_splits)
  then have np: "open_pay p" using p(2) sale_open by blast
  have b: "safe base dk" by (rule attached_safe [OF ok att])
  have m: "safe base ?m"
    using safe_trans [OF safe_status_free [OF safe_ok [OF b] p(1) np] mark_safe]
      safe_ok [OF safe_status_free [OF safe_ok [OF b] p(1) np]] safe_trans [OF b] by blast
  show ?thesis
  proof (cases "confirm_if_pending env o1 ?m")
    case (Inr dk1)
    note 2 = safe_trans [OF m confirm_if_pending_safe [OF safe_ok [OF m] Inr]]
    show ?thesis using f' Inr safe_trans [OF 2 loyalty_safe [OF safe_ok [OF 2]]] by auto
  next
    case (Inl e)
    show ?thesis
    proof (cases e)
      case (AppError code http)
      obtain p0 where p0: "p0 \<in> set (dk_payments base)" "py_id p0 = py_id p" "py_order_id p0 = py_order_id p"
        "open_pay p0 = open_pay p" by (rule attached_row [OF att p(1)])
      have "auto_refund_after_confirmation_failure env p0 code base = (dk', r)"
        using f' Inl AppError auto_refund_same [OF p0(2,3)] by simp
      then show ?thesis using auto_refund_safe [OF ok p0(1)] p0(4) np by simp
    qed (use f' Inl False in auto)
  qed
qed

lemma sync_safe:
  "desk_ok dk \<Longrightarrow> p \<in> set (dk_payments dk) \<Longrightarrow> open_pay p \<Longrightarrow> safe dk (sync_external_capture env p o1 i dk)"
  unfolding sync_external_capture_def
  by (rule safe_trans [OF safe_upd_free mark_safe]) (auto intro: safe_ok [OF safe_upd_free])

lemma auto_release_safe:
  "desk_ok dk \<Longrightarrow> p \<in> set (dk_payments dk) \<Longrightarrow> open_pay p \<Longrightarrow> safe dk (auto_release env p o1 code dk)"
  unfolding auto_release_def
  by (auto split: sum.splits intro!: safe_trans [OF safe_upd_free mark_safe] safe_trans [OF safe_status_free mark_safe]
      safe_ok [OF safe_upd_free] safe_ok [OF safe_status_free])

text \<open>What a finalised hold can do: nothing, book an external capture, or mark the hold and confirm the order.\<close>

definition held :: "stripe_env \<Rightarrow> payment \<Rightarrow> order \<Rightarrow> desk \<Rightarrow> desk" where
  "held env p o1 dk = mark_order (ord_id o1) Guaranteed (upd_payment (py_id p) (\<lambda>r.
      (if py_terms r = None then r\<lparr>py_terms := Some guarantee_terms_version, py_terms_at := Some (se_now env)\<rparr>
       else r)\<lparr>py_status := Pt_authorized\<rparr>) dk)"

lemma finalize_guarantee_cases:
  assumes f: "finalize_guarantee env p o1 user staff verify i base dk = (dk', r)"
  obtains (idle) "dk' = base" "r = Inr Already_final \<or> (\<exists>e. r = Inl e)"
  | (sync) j where "dk' = sync_external_capture env p o1 j dk" "r = Inr Order_confirmed" "\<not> settled_status (py_status p)"
      "pi_status j = ''succeeded''" "\<And>i1. i = Some i1 \<Longrightarrow> j = i1"
  | (confirmed) dk2 where "confirm_if_pending env o1 (held env p o1 dk) = Inr dk2" "r = Inr Order_confirmed"
      "dk' = auto_confirm_loyalty_reservation (se_now env) (ord_id o1) (ord_user_id o1) dk2" "\<not> settled_status (py_status p)"
      "\<And>i1. i = Some i1 \<Longrightarrow> validate_guarantee_intent (se_tenant env) p o1 i1 = Inr ()" "ord_type o1 = Delivery_type"
  | (released) code http where "confirm_if_pending env o1 (held env p o1 dk) = Inl (AppError code http)"
      "dk' = auto_release env (reread p base) o1 code base" "r = Inr (Order_not_confirmed None)"
      "\<not> settled_status (py_status p)"
proof (cases "dk' = base \<and> (r = Inr Already_final \<or> (\<exists>e. r = Inl e))")
  case True
  then show ?thesis using idle by blast
next
  case False
  define pick where "pick = (case i of
                  Some i1 \<Rightarrow> Inr (Some i1)
                | None \<Rightarrow>
                    if \<not> verify then Inr None
                    else if is_local p then (if se_local_ok env then Inr None else Inl (AppError ''PAYMENT_CONFIRMATION_REQUIRED'' 409))
                    else rbind (retrieve_intent env p) (\<lambda>i1. Inr (Some i1)))"
  note f' = f [unfolded finalize_guarantee_def pick_def [symmetric] Let_def held_def [symmetric]]
  obtain u where o: "require_customer_payment_owner p o1 user staff = Inr u"
    using f' False by (cases "require_customer_payment_owner p o1 user staff") auto
  have ns: "\<not> settled_status (py_status p)" "ord_type o1 = Delivery_type"
    using f' False by (auto simp: o split: if_splits)
  obtain j where j: "pick = Inr j" using f' False by (cases pick) (auto simp: o ns)
  have ji: "j = Some i1" if "i = Some i1" for i1 using j that by (simp add: pick_def)
  show ?thesis
  proof (cases "case j of None \<Rightarrow> False | Some i1 \<Rightarrow> pi_status i1 = ''succeeded''")
    case True
    then obtain j1 where "j = Some j1" "pi_status j1 = ''succeeded''" by (cases j) auto
    then show ?thesis using f' ji by (intro sync [of j1]) (simp_all add: o ns j)
  next
    case ext: False
    have v: "(case j of None \<Rightarrow> Inr () | Some i1 \<Rightarrow> validate_guarantee_intent (se_tenant env) p o1 i1) = Inr ()"
      using f' False ext
      by (cases "case j of None \<Rightarrow> Inr () | Some i1 \<Rightarrow> validate_guarantee_intent (se_tenant env) p o1 i1") (auto simp: o ns j)
    have c: "(case confirm_if_pending env o1 (held env p o1 dk) of
          Inr dk2 \<Rightarrow> (auto_confirm_loyalty_reservation (se_now env) (ord_id o1) (ord_user_id o1) dk2, Inr Order_confirmed)
        | Inl (AppError code http) \<Rightarrow> (auto_release env (reread p base) o1 code base, Inr (Order_not_confirmed None))
        | Inl e \<Rightarrow> (base, Inl e)) = (dk', r)"
      using f' ext by (simp add: o ns j v)
    have v1: "validate_guarantee_intent (se_tenant env) p o1 i1 = Inr ()" if "i = Some i1" for i1
      using v ji [OF that] by simp
    show ?thesis
    proof (cases "confirm_if_pending env o1 (held env p o1 dk)")
      case (Inr dk2)
      then show ?thesis using c ns v1 by (intro confirmed [of dk2]) simp_all
    next
      case (Inl e)
      then show ?thesis using c ns(1) released False by (cases e) auto
    qed
  qed
qed

lemma reread_row:
  assumes ok: "desk_ok base" and att: "attached base dk" and p: "p \<in> set (dk_payments dk)"
  shows "reread p base \<in> set (dk_payments base) \<and> open_pay (reread p base) = open_pay p"
proof -
  obtain p0 where p0: "p0 \<in> set (dk_payments base)" "py_id p0 = py_id p" "open_pay p0 = open_pay p"
    by (rule attached_row [OF att p])
  obtain q where q: "row_get py_id (py_id p) (dk_payments base) = Some q"
    using p0(1,2) by (metis (no_types, lifting) image_eqI option.exhaust row_get_None_iff row_ids_def)
  then have "q = p0" using row_get_SomeD [OF q] desk_ok_row [OF ok p0(1), of q] p0(2) by simp
  then show ?thesis using q p0 by (simp add: reread_def)
qed

lemma finalize_guarantee_safe:
  assumes ok: "desk_ok base" and att: "attached base dk" and p: "p \<in> set (dk_payments dk)"
    and f: "finalize_guarantee env p o1 user staff verify i base dk = (dk', r)"
  shows "safe base dk'"
  using f
proof (cases rule: finalize_guarantee_cases)
  case idle
  then show ?thesis using ok by (simp add: safe_refl)
next
  case (sync j)
  note b = attached_safe [OF ok att]
  show ?thesis using safe_trans [OF b sync_safe [OF safe_ok [OF b] p settled_open [OF sync(3)]]] by (simp add: sync(1))
next
  case (confirmed dk2)
  note np = settled_open [OF confirmed(4)]
  note b = attached_safe [OF ok att]
  note ok1 = safe_ok [OF b]
  have 1: "safe dk (held env p o1 dk)"
    unfolding held_def
    by (rule safe_trans [OF safe_upd_free [OF ok1 p np] mark_safe [OF safe_ok [OF safe_upd_free [OF ok1 p np]]]]) simp_all
  note 2 = safe_trans [OF 1 confirm_if_pending_safe [OF safe_ok [OF 1] confirmed(1)]]
  show ?thesis using confirmed(3) safe_trans [OF b safe_trans [OF 2 loyalty_safe [OF safe_ok [OF 2]]]] by simp
next
  case (released code http)
  have "reread p base \<in> set (dk_payments base)" "open_pay (reread p base)"
    using reread_row [OF ok att p] settled_open [OF released(4)] by simp_all
  then show ?thesis using auto_release_safe [OF ok] by (simp add: released(2))
qed

lemma provider_rowD: "provider_row ref ps = Some p \<Longrightarrow> p \<in> set ps"
  by (auto simp: provider_row_def find_Some_iff)

lemma finalize_flushed_safe:
  assumes ok: "desk_ok base" and att: "attached base dk"
    and f: "finalize_flushed env ref user staff verify i base dk = (dk', r)"
  shows "safe base dk'"
proof (cases "provider_row ref (dk_payments dk)")
  case None
  then show ?thesis using f ok by (simp add: finalize_flushed_def safe_refl)
next
  case (Some p)
  show ?thesis
  proof (cases "order_of (py_order_id p) (dk_shop dk)")
    case None
    then show ?thesis using f ok Some by (simp add: finalize_flushed_def safe_refl)
  next
    case o1: (Some o1)
    show ?thesis
      using f finalize_guarantee_safe [OF ok att provider_rowD [OF Some]] finalize_sale_safe [OF ok att provider_rowD [OF Some]]
      by (simp add: finalize_flushed_def Some o1 split: if_splits)
  qed
qed

lemma finalize_payment_safe:
  "desk_ok dk \<Longrightarrow> finalize_payment env ref user staff verify i dk = (dk', r) \<Longrightarrow> safe dk dk'"
  unfolding finalize_payment_def by (rule finalize_flushed_safe [OF _ attached_refl])

subsection \<open>Opening payments\<close>

lemma open_intent_safe:
  assumes "desk_ok dk" and "py_id p \<notin> row_ids py_id (dk_payments dk)" and "open_intent env pre err p dk = (dk', r)"
  shows "safe dk dk'"
  using assms safe_add [OF assms(1), of "p\<lparr>py_provider_payment_id := Some ref\<rparr>" for ref] safe_refl
  by (auto simp: open_intent_def Let_def split: option.splits prod.splits if_splits)

lemma config_safe: "desk_ok dk \<Longrightarrow> safe dk (get_or_create_config dk)"
  by (rule safe_same) simp_all

lemma new_payment_id [simp]: "py_id (new_payment env pr purp o1 account user x) = se_payment_key env"
  by (simp add: new_payment_def)

lemma opened_safe:
  assumes ok: "desk_ok dk" and fr: "se_payment_key env \<notin> row_ids py_id (dk_payments dk)" and k: "py_id p = se_payment_key env"
    and o: "open_intent env pre err p (get_or_create_config dk) = (dk', r)"
  shows "safe dk dk'"
  using config_safe [OF ok] open_intent_safe [OF _ _ o] fr k safe_ok safe_trans by fastforce

lemma create_intent_safe:
  assumes ok: "desk_ok dk" and fr: "se_payment_key env \<notin> row_ids py_id (dk_payments dk)"
    and c: "create_intent env h site oid user dk = (dk', r)"
  shows "safe dk dk'"
  using c ok unfolding create_intent_def
  by (auto split: option.splits if_splits sum.splits intro: safe_refl dest!: opened_safe [OF ok fr, rotated])

lemma create_terminal_intent_safe:
  assumes ok: "desk_ok dk" and fr: "se_payment_key env \<notin> row_ids py_id (dk_payments dk)"
    and c: "create_terminal_intent env h site oid user reader pr dk = (dk', r)"
  shows "safe dk dk'"
  using c ok unfolding create_terminal_intent_def
  by (auto split: option.splits if_splits sum.splits intro: safe_refl dest!: opened_safe [OF ok fr, rotated])

lemma create_guarantee_intent_safe:
  assumes ok: "desk_ok dk" and fr: "se_payment_key env \<notin> row_ids py_id (dk_payments dk)"
    and c: "create_guarantee_intent env oid user terms acc dk = (dk', r)"
  shows "safe dk dk'"
  using c ok unfolding create_guarantee_intent_def Let_def
  by (auto split: option.splits if_splits sum.splits intro: safe_refl dest!: opened_safe [OF ok fr, rotated])

lemma expire_map_ids: "row_ids py_id (map (\<lambda>p. if P p then p\<lparr>py_status := st\<rparr> else p) ps) = row_ids py_id ps"
  by (induction ps) (auto simp: row_ids_def)

lemma expire_pays:
  assumes "\<And>p. P p \<Longrightarrow> py_status p = Pt_pending"
  shows "pays_step {} ps (map (\<lambda>p. if P p then p\<lparr>py_status := Pt_expired\<rparr> else p) ps)"
  by (rule pays_map) (use assms in \<open>auto simp: row_ok_def refundable_def settled_hold_def\<close>)

lemma expire_links_payments:
  "dk_payments (expire_links oid dk) = map (\<lambda>p. if py_order_id p = oid \<and> py_status p = Pt_pending \<and> py_provider p = ''stripe''
      then p\<lparr>py_status := Pt_expired\<rparr> else p) (dk_payments dk)"
  by (simp add: expire_links_def)

lemma expire_links_safe: "desk_ok dk \<Longrightarrow> safe dk (expire_links oid dk)"
  by (rule safe_pays, assumption, simp only: expire_links_payments, rule expire_pays) (simp_all add: expire_links_def)

lemma add_after_expiry_safe:
  assumes ok: "desk_ok dk" and fr: "py_id p \<notin> row_ids py_id (dk_payments dk)"
  shows "safe dk (add_payment p (expire_links oid (get_or_create_config dk)))"
proof -
  let ?dk1 = "expire_links oid (get_or_create_config dk)"
  have 1: "safe dk ?dk1"
    by (rule safe_trans [OF config_safe [OF ok] expire_links_safe [OF safe_ok [OF config_safe [OF ok]]]])
  have "safe ?dk1 (add_payment p ?dk1)"
    by (rule safe_add [OF safe_ok [OF 1]]) (use fr in \<open>simp add: expire_links_payments expire_map_ids\<close>)
  with 1 show ?thesis by (rule safe_trans)
qed

lemma create_payment_link_safe:
  assumes ok: "desk_ok dk" and fr: "se_payment_key env \<notin> row_ids py_id (dk_payments dk)"
    and c: "create_payment_link env oid mode actor dk = (dk', r)"
  shows "safe dk dk'"
  using c ok fr unfolding create_payment_link_def Let_def
  by (auto split: option.splits if_splits sum.splits intro: safe_refl add_after_expiry_safe)

lemma confirm_local_safe:
  assumes ok: "desk_ok dk" and fr: "se_payment_key env \<notin> row_ids py_id (dk_payments dk)"
    and c: "confirm_local_test_payment env oid user staff dk = (dk', r)"
  shows "safe dk dk'"
proof -
  have f: "safe dk dk'" if p: "py_id p = se_payment_key env"
    and f: "finalize_payment env ref u st False None (add_payment p (get_or_create_config dk)) = (dk', r)" for p ref u st
  proof -
    have "safe dk (add_payment p (get_or_create_config dk))"
      using safe_trans [OF config_safe [OF ok] safe_add [OF safe_ok [OF config_safe [OF ok]]]] fr p by simp
    then show ?thesis using finalize_payment_safe [OF _ f] safe_ok safe_trans by blast
  qed
  show ?thesis
    using c ok unfolding confirm_local_test_payment_def Let_def
    by (auto split: option.splits if_splits intro: safe_refl dest!: f [rotated])
qed

subsection \<open>Stripe events, expiry, staff orders\<close>

lemma find_attached:
  assumes "find_payment_for_intent i dk = (dk', r)"
  shows "attached dk dk'"
  using assms by (auto simp: find_payment_for_intent_def attached_def split: option.splits if_splits)

lemma handle_intent_safe:
  assumes ok: "desk_ok dk" and f: "handle_intent_event env i s dk = (dk', r)"
  shows "safe dk dk' \<and> (r = Inr False \<longrightarrow> attached dk dk')"
proof (cases "pi_purpose i = ''guarantee''")
  case False
  have a: "attached dk (fst (find_payment_for_intent i dk))" by (rule find_attached [OF prod.collapse [symmetric]])
  show ?thesis
    using f ok a attached_safe [OF ok a] False
    by (cases s) (simp_all add: handle_intent_event_def safe_refl split: if_splits)
next
  case True
  obtain dk1 q where fi: "find_payment_for_intent i dk = (dk1, q)" by fastforce
  note a = find_attached [OF fi]
  show ?thesis
  proof (cases "dk' = dk")
    case False
    then obtain k where q: "q = Some k" using f True fi by (cases q) (simp_all add: handle_intent_event_def)
    obtain p where p: "row_get py_id k (dk_payments dk1) = Some p"
      using f True fi q False by (cases "row_get py_id k (dk_payments dk1)") (simp_all add: handle_intent_event_def)
    obtain o1 where o1: "order_of (py_order_id p) (dk_shop dk1) = Some o1"
      using f True fi q p False by (cases "order_of (py_order_id p) (dk_shop dk1)") (simp_all add: handle_intent_event_def)
    obtain dk2 r' where g: "finalize_guarantee env p o1 None False False (Some i) dk dk1 = (dk2, r')" by fastforce
    then have "dk' = dk2 \<and> r \<noteq> Inr False"
      using f True fi q p o1 by (cases r') (simp_all add: handle_intent_event_def, auto)
    then show ?thesis
      using finalize_guarantee_safe [OF ok a conjunct2 [OF row_get_SomeD [OF p]] g] by simp
  qed (use ok safe_refl in simp)
qed

lemma checkout_safe:
  assumes ok: "desk_ok dk" and f: "handle_checkout_session env c ex dk = (dk', r)"
  shows "safe dk dk'"
proof (cases "Option.bind (co_payment c) (\<lambda>k. if k = 0 then None else row_get py_id k (dk_payments dk))")
  case None
  then show ?thesis using f ok by (simp add: handle_checkout_session_def safe_refl)
next
  case (Some p)
  then have p: "p \<in> set (dk_payments dk)" by (auto simp: bind_eq_Some_conv split: if_splits dest: row_get_SomeD)
  define dk1 where "dk1 = (if starts_with ''cs_'' (py_provider_payment_id p)
      then upd_payment (py_id p) (\<lambda>r. r\<lparr>py_provider_payment_id := Some (the (co_intent c))\<rparr>) dk else dk)"
  have 1: "safe dk dk1"
    unfolding dk1_def by (rule attached_safe [OF ok]) (auto simp: attached_def)
  have "py_id p \<in> row_ids py_id (dk_payments dk1)"
    using p pays_ids [of "{}" "dk_payments dk" "dk_payments dk1"] 1 by (auto simp: safe_def row_ids_def)
  then obtain p1 where p1: "row_get py_id (py_id p) (dk_payments dk1) = Some p1"
    by (metis option.exhaust row_get_None_iff)
  show ?thesis
  proof (cases "ex \<or> blank_text (co_intent c)")
    case True
    then show ?thesis
      using f ok safe_refl [OF ok] safe_status_free [OF ok p, of Pt_expired]
      by (auto simp: handle_checkout_session_def Some open_pay_def settled_hold_def refundable_def split: if_splits)
  next
    case False
    show ?thesis
    proof (cases "dk' = dk1")
      case neq: False
      note f' = f [unfolded handle_checkout_session_def Some option.case Let_def dk1_def [symmetric] p1 option.sel]
      obtain o1 where o1: "order_of (py_order_id p) (dk_shop dk1) = Some o1"
        using f' False neq by (cases "order_of (py_order_id p) (dk_shop dk1)") simp_all
      obtain i where i: "se_retrieve env (the (co_intent c)) = Some i"
        using f' False neq o1 by (cases "se_retrieve env (the (co_intent c))") (simp_all split: if_splits)
      obtain dk2 r' where g: "finalize_guarantee env p1 o1 None False False (Some i) dk1 dk1 = (dk2, r')" by fastforce
      then have "dk' = dk2" using f' False neq o1 i by (cases r') (simp_all split: if_splits)
      then show ?thesis
        using safe_trans [OF 1 finalize_guarantee_safe [OF safe_ok [OF 1] attached_refl conjunct2 [OF row_get_SomeD [OF p1]] g]]
        by simp
    qed (use 1 in simp)
  qed
qed

lemma handle_payment_failure_safe:
  assumes ok: "desk_ok dk"
  shows "safe dk (handle_payment_failure env ref dk)"
proof (cases "provider_row ref (dk_payments dk)")
  case None
  then show ?thesis using ok by (simp add: handle_payment_failure_def safe_refl)
next
  case (Some p)
  have p: "p \<in> set (dk_payments dk)" by (rule provider_rowD [OF Some])
  let ?t = "handle_guarantee_canceled (py_id p) (se_now env) (sh_orders (dk_shop dk), dk_payments dk)"
  obtain t b where t: "?t = (t, b)" by fastforce
  have g: "pays_step {} (dk_payments dk) (snd t)"
    using guarantee_step_pays [OF gstep_canceled [OF t]] ok by (simp add: desk_ok_def)
  have c: "safe dk (dk\<lparr>dk_shop := (dk_shop dk)\<lparr>sh_orders := fst t, sh_payments := snd t\<rparr>\<rparr>)"
    by (rule safe_pays [OF ok]) (simp_all add: g)
  have f: "safe dk (mark_order (py_order_id p) (Other_payment ''failed'') (set_pay_status (py_id p) Pt_failed dk))"
    if "open_pay p"
    using safe_trans [OF safe_status_free [OF ok p that] mark_safe [OF safe_ok [OF safe_status_free [OF ok p that]]]] .
  show ?thesis
    using ok c f safe_refl [OF ok] unfolding handle_payment_failure_def Some option.case Let_def t fst_conv snd_conv
    by (auto simp: open_pay_def refundable_def settled_hold_def)
qed

lemma handle_charge_refunded_safe:
  assumes ok: "desk_ok dk"
  shows "safe dk (handle_charge_refunded ref amount refunded dk)"
  using ok safe_refl [OF ok] safe_status_settled [OF ok, of Pt_refunded] safe_status_settled [OF ok, of Pt_partial]
  by (auto simp: handle_charge_refunded_def split: option.splits)

lemma dispatch_safe:
  assumes ok: "desk_ok dk" and d: "dispatch_event env e dk = (dk', r)"
  shows "safe dk dk'"
proof (cases e)
  case (Intent_succeeded i)
  obtain dk1 q where h: "handle_intent_event env i True dk = (dk1, q)" by fastforce
  have 1: "safe dk dk1" "q = Inr False \<Longrightarrow> attached dk dk1" using handle_intent_safe [OF ok h] by simp_all
  obtain dk2 q2 where f: "finalize_flushed env (pi_id i) None False False (Some i) dk dk1 = (dk2, q2)" by fastforce
  have 2: "safe dk dk2" if "q = Inr False" by (rule finalize_flushed_safe [OF ok 1(2) [OF that] f])
  show ?thesis
    using d h f 1 2 safe_refl [OF ok] by (simp add: dispatch_event_def Intent_succeeded split: sum.splits bool.splits if_splits)
next
  case (Amount_capturable i)
  obtain dk1 q where h: "handle_intent_event env i False dk = (dk1, q)" by fastforce
  show ?thesis using d h handle_intent_safe [OF ok h] by (simp add: dispatch_event_def Amount_capturable split: sum.splits)
next
  case (Untyped_event i)
  obtain dk1 q where f: "finalize_payment env (pi_id i) None False False (Some i) dk = (dk1, q)" by fastforce
  show ?thesis
    using d f finalize_payment_safe [OF ok f] safe_refl [OF ok]
    by (simp add: dispatch_event_def Untyped_event split: sum.splits if_splits)
next
  case (Checkout_completed c)
  then show ?thesis using d checkout_safe [OF ok] by (simp add: dispatch_event_def)
next
  case (Checkout_expired c)
  then show ?thesis using d checkout_safe [OF ok] by (simp add: dispatch_event_def)
next
  case (Intent_failed ref)
  then show ?thesis
    using d handle_payment_failure_safe [OF ok] safe_refl [OF ok] by (auto simp: dispatch_event_def split: if_splits)
next
  case (Charge_refunded ref a b)
  then show ?thesis
    using d handle_charge_refunded_safe [OF ok] safe_refl [OF ok] by (auto simp: dispatch_event_def split: if_splits)
qed (use d safe_refl [OF ok] in \<open>simp_all add: dispatch_event_def\<close>)

lemma webhook_safe:
  assumes ok: "desk_ok dk" and w: "handle_webhook env eid e dk = (dk', r)"
  shows "safe dk dk'"
proof -
  have 1: "safe dk (dk\<lparr>dk_events := dk_events dk @ [k]\<rparr>)" for k by (rule safe_same [OF ok]) simp_all
  have 2: "safe dk dk'" if "dispatch_event env e (dk\<lparr>dk_events := dk_events dk @ [k]\<rparr>) = (dk', r)" for k
    by (rule safe_trans [OF 1 dispatch_safe [OF safe_ok [OF 1] that]])
  show ?thesis
    using w 2 dispatch_safe [OF ok] safe_refl [OF ok] by (auto simp: handle_webhook_def split: option.splits if_splits)
qed

lemma cleanup_safe:
  assumes ok: "desk_ok dk" and c: "cleanup_expired_pending_payments env h dk = (dk', r)"
  shows "safe dk dk'"
proof (rule safe_pays [OF ok])
  have e: "dk_payments dk' = map (\<lambda>p. if is_expired_pending env h p then p\<lparr>py_status := Pt_expired\<rparr> else p) (dk_payments dk)"
    using c by (auto simp: cleanup_expired_pending_payments_def Let_def)
  show "pays_step {} (dk_payments dk) (dk_payments dk')"
    unfolding e by (rule expire_pays) (simp add: is_expired_pending_def)
  show "dk_refunds dk' = dk_refunds dk" using c by (auto simp: cleanup_expired_pending_payments_def Let_def)
qed

lemma stale_safe:
  assumes ok: "desk_ok dk"
  shows "safe dk (cancel_stale_pending_orders env dk)"
proof -
  have one: "safe d (cancel_stale_order o1 d)" if "desk_ok d" for d o1
  proof (rule safe_pays [OF that])
    have e: "dk_payments (cancel_stale_order o1 d) = map (\<lambda>p. if py_order_id p = ord_id o1 \<and> py_status p = Pt_pending
        then p\<lparr>py_status := Pt_expired\<rparr> else p) (dk_payments d)"
      by (simp add: cancel_stale_order_def Let_def add_history_def)
    show "pays_step {} (dk_payments d) (dk_payments (cancel_stale_order o1 d))"
      unfolding e by (rule expire_pays) simp
  qed (simp add: cancel_stale_order_def Let_def add_history_def)
  have "safe d (fold cancel_stale_order os d)" if "desk_ok d" for os d
    using that
  proof (induction os arbitrary: d)
    case (Cons x xs)
    note 1 = one [OF Cons.prems, of x]
    show ?case using safe_trans [OF 1 Cons.IH [OF safe_ok [OF 1]]] by simp
  qed (simp add: safe_refl)
  then show ?thesis using ok by (simp add: cancel_stale_pending_orders_def)
qed

lemma credit_manual_safe: "desk_ok dk \<Longrightarrow> safe dk (credit_manual env oid dk)"
  by (rule safe_same) (simp_all add: credit_manual_def credit_payments split: option.splits)

text \<open>The transaction of a staff order adds nothing when a link is asked for, and one paid payment otherwise.\<close>

lemma manual_transaction_safe:
  assumes ok: "desk_ok dk" and fr: "se_payment_key env \<notin> row_ids py_id (dk_payments dk)"
    and t: "manual_transaction cenv env b actor key h site dk = Inr (dk', o1)"
  shows "safe dk dk' \<and> (mb_method b = ''payment_link'' \<longrightarrow> dk_payments dk' = dk_payments dk)"
proof -
  obtain sh where c: "create_order cenv (mb_order b) (manual_call b actor key) h site (dk_shop dk) = Inr (sh, o1)"
    using t by (auto simp: manual_transaction_def Let_def split: if_splits)
  let ?dk0 = "dk\<lparr>dk_shop := sh\<rparr>"
  have 0: "safe dk ?dk0" by (rule safe_same [OF ok]) (simp_all add: create_order_payments [OF c])
  show ?thesis
  proof (cases "mb_method b = ''payment_link''")
    case True
    then show ?thesis using t c 0 create_order_payments [OF c] by (auto simp: manual_transaction_def)
  next
    case False
    define dk1 where "dk1 = mark_order (ord_id o1) Paid (add_payment (manual_payment env b actor o1) ?dk0)"
    have a: "safe ?dk0 (add_payment (manual_payment env b actor o1) ?dk0)"
      by (rule safe_add [OF safe_ok [OF 0]]) (use fr create_order_payments [OF c] in \<open>simp add: manual_payment_def\<close>)
    have 1: "safe dk dk1" unfolding dk1_def by (rule safe_trans [OF safe_trans [OF 0 a] mark_safe [OF safe_ok [OF a]]])
    have u: "safe dk1 (dk1\<lparr>dk_shop := sh2\<rparr>)"
      if "update_status (se_call env) (ord_id o1) (manual_confirmation b actor) (dk_shop dk1) = Inr sh2" for sh2
      by (rule safe_pays [OF safe_ok [OF 1]])
         (use update_status_pays [OF that] safe_ok [OF 1] in \<open>simp_all add: desk_ok_def\<close>)
    show ?thesis
    proof (cases "ord_status o1 = Pending")
      case True
      then obtain sh2 where "update_status (se_call env) (ord_id o1) (manual_confirmation b actor) (dk_shop dk1) = Inr sh2"
        "dk' = dk1\<lparr>dk_shop := sh2\<rparr>"
        using t c False by (auto simp: manual_transaction_def dk1_def Let_def)
      then show ?thesis using safe_trans [OF 1 u] False by simp
    next
      case np: False
      then have "dk' = dk1" using t c False by (auto simp: manual_transaction_def dk1_def Let_def)
      then show ?thesis using 1 False by simp
    qed
  qed
qed

lemma create_manual_order_safe:
  assumes ok: "desk_ok dk" and fr: "se_payment_key env \<notin> row_ids py_id (dk_payments dk)"
    and m: "create_manual_order cenv env open_url b actor key h site dk = (dk', r)"
  shows "safe dk dk'"
proof (cases "dk' = dk")
  case False
  have l: "safe dk (credit_manual env (ord_id o1) dk2)"
    if t: "manual_transaction cenv env b actor k h site dk = Inr (dk1, o1)"
      and d: "(dk2, link) = (if mb_method b = ''payment_link'' then create_payment_link env (ord_id o1) mode (Some actor) dk1
        else (dk1, Inl (AppError [] 0)))" for k dk1 o1 dk2 mode link
  proof -
    note 1 = manual_transaction_safe [OF ok fr t]
    have "safe dk1 dk2" if "mb_method b = ''payment_link''"
      using create_payment_link_safe [OF safe_ok [OF conjunct1 [OF 1]] _ sym] 1 that fr d by simp
    then have 2: "safe dk dk2" using 1 d safe_trans by (cases "mb_method b = ''payment_link''") auto
    show ?thesis by (rule safe_trans [OF 2 credit_manual_safe [OF safe_ok [OF 2]]])
  qed
  show ?thesis
    using m False l [OF _ sym] unfolding create_manual_order_def Let_def
    by (auto split: option.splits if_splits sum.splits prod.splits)
qed (use ok safe_refl in simp)

subsection \<open>Runs\<close>

text \<open>One operation on the desk; operations that may insert a payment draw a fresh key.\<close>

abbreviation fresh_payment :: "stripe_env \<Rightarrow> desk \<Rightarrow> bool" where
  "fresh_payment env dk \<equiv> se_payment_key env \<notin> row_ids py_id (dk_payments dk)"

inductive desk_step :: "desk \<Rightarrow> desk \<Rightarrow> bool" where
  dstep_create: "create_order cenv b c h site (dk_shop dk) = Inr (sh, o1) \<Longrightarrow> desk_step dk (dk\<lparr>dk_shop := sh\<rparr>)"
| dstep_manual: "fresh_payment env dk \<Longrightarrow> create_manual_order cenv env url mb actor key h site dk = (dk', rm) \<Longrightarrow> desk_step dk dk'"
| dstep_status: "update_status cenv' oid rq (dk_shop dk) = Inr sh \<Longrightarrow> desk_step dk (dk\<lparr>dk_shop := sh\<rparr>)"
| dstep_intent: "fresh_payment env dk \<Longrightarrow> create_intent env h site oid user dk = (dk', r) \<Longrightarrow> desk_step dk dk'"
| dstep_terminal: "fresh_payment env dk \<Longrightarrow> create_terminal_intent env h site oid user reader pr dk = (dk', r) \<Longrightarrow> desk_step dk dk'"
| dstep_hold: "fresh_payment env dk \<Longrightarrow> create_guarantee_intent env oid u terms acc dk = (dk', r) \<Longrightarrow> desk_step dk dk'"
| dstep_link: "fresh_payment env dk \<Longrightarrow> create_payment_link env oid mode user dk = (dk', r) \<Longrightarrow> desk_step dk dk'"
| dstep_local: "fresh_payment env dk \<Longrightarrow> confirm_local_test_payment env oid user staff dk = (dk', rf) \<Longrightarrow> desk_step dk dk'"
| dstep_finalize: "finalize_payment env ref user staff verify i dk = (dk', rf) \<Longrightarrow> desk_step dk dk'"
| dstep_refund: "create_refund env oid user amount reason unf dk = (dk', rr) \<Longrightarrow> desk_step dk dk'"
| dstep_webhook: "handle_webhook env eid e dk = (dk', ru) \<Longrightarrow> desk_step dk dk'"
| dstep_cleanup: "cleanup_expired_pending_payments env hrs dk = (dk', rc) \<Longrightarrow> desk_step dk dk'"
| dstep_stale: "desk_step dk (cancel_stale_pending_orders env dk)"
| dstep_hold_ops: "guarantee_step (sh_orders (dk_shop dk), dk_payments dk) (os, ps) \<Longrightarrow>
    desk_step dk (dk\<lparr>dk_shop := (dk_shop dk)\<lparr>sh_orders := os, sh_payments := ps\<rparr>\<rparr>)"

lemma desk_step_safe:
  assumes "desk_step dk dk'" and ok: "desk_ok dk"
  shows "safe dk dk'"
  using assms(1)
proof cases
  case (dstep_create cenv b c h site sh o1)
  then show ?thesis using create_order_payments [OF dstep_create(2)] by (intro safe_same [OF ok]) simp_all
next
  case (dstep_status cenv' oid rq sh)
  show ?thesis
    by (rule safe_pays [OF ok])
       (use update_status_pays [OF dstep_status(2)] ok in \<open>simp_all add: dstep_status(1) desk_ok_def\<close>)
next
  case (dstep_hold_ops os ps)
  show ?thesis
    by (rule safe_pays [OF ok])
       (use guarantee_step_pays [OF dstep_hold_ops(2)] ok in \<open>simp_all add: dstep_hold_ops(1) desk_ok_def\<close>)
next
  case dstep_manual
  then show ?thesis by (rule_tac create_manual_order_safe [OF ok])
next
  case dstep_intent
  then show ?thesis by (rule_tac create_intent_safe [OF ok])
next
  case dstep_terminal
  then show ?thesis by (rule_tac create_terminal_intent_safe [OF ok])
next
  case dstep_hold
  then show ?thesis by (rule_tac create_guarantee_intent_safe [OF ok])
next
  case dstep_link
  then show ?thesis by (rule_tac create_payment_link_safe [OF ok])
next
  case dstep_local
  then show ?thesis by (rule_tac confirm_local_safe [OF ok])
next
  case dstep_finalize
  then show ?thesis by (rule finalize_payment_safe [OF ok])
next
  case dstep_refund
  then show ?thesis by (rule create_refund_safe [OF ok])
next
  case dstep_webhook
  then show ?thesis by (rule webhook_safe [OF ok])
next
  case dstep_cleanup
  then show ?thesis by (rule cleanup_safe [OF ok])
next
  case dstep_stale
  then show ?thesis using stale_safe [OF ok] by simp
qed

interpretation desk_inv: invariant_steps desk_step desk_ok
  by unfold_locales (rule safe_ok [OF desk_step_safe])

lemma desk_run_safe: "desk_step\<^sup>*\<^sup>* dk dk' \<Longrightarrow> desk_ok dk \<Longrightarrow> safe dk dk'"
proof (induction rule: rtranclp_induct)
  case (step x y)
  then show ?case using safe_trans [OF step.IH desk_step_safe] safe_ok by blast
qed (rule safe_refl)

subsection \<open>The events seen\<close>

named_theorems seen \<open>operations leave the list of seen events alone\<close>

lemma refund_events [seen]: "dk_events (fst (create_refund env oid user amount reason b dk)) = dk_events dk"
proof -
  obtain dk' r where c: "create_refund env oid user amount reason b dk = (dk', r)" by fastforce
  then have "dk_events dk' = dk_events dk" by (cases rule: create_refund_cases) simp_all
  then show ?thesis by (simp add: c)
qed

lemma auto_refund_events [seen]: "dk_events (fst (auto_refund_after_confirmation_failure env p code dk)) = dk_events dk"
proof -
  define dk1 where "dk1 = set_pay_status (py_id p) Pt_paid (mark_order (py_order_id p) Paid dk)"
  obtain dk2 q where c: "create_refund env (py_order_id p) None None (Some (''auto_refund_'' @ py_lower code)) True dk1 = (dk2, q)"
    by fastforce
  have "dk_events dk2 = dk_events dk"
    using refund_events [of env "py_order_id p" None None "Some (''auto_refund_'' @ py_lower code)" True dk1]
    unfolding c by (simp add: dk1_def)
  then show ?thesis
    unfolding auto_refund_after_confirmation_failure_def Let_def dk1_def [symmetric] c
    by (auto split: sum.splits app_error.splits)
qed

lemma loyalty_events [seen]: "dk_events (auto_confirm_loyalty_reservation now oid user dk) = dk_events dk"
  by (simp add: auto_confirm_loyalty_reservation_def split: option.splits)

lemma confirm_events: "confirm_if_pending env o1 dk = Inr dk' \<Longrightarrow> dk_events dk' = dk_events dk"
  by (auto simp: confirm_if_pending_def split: if_splits)

lemma release_events [seen]: "dk_events (auto_release env p o1 code dk) = dk_events dk"
  by (simp add: auto_release_def split: sum.splits)

lemma sync_events [seen]: "dk_events (sync_external_capture env p o1 i dk) = dk_events dk"
  by (simp add: sync_external_capture_def)

lemma sale_events [seen]:
  "dk_events dk = dk_events base \<Longrightarrow> dk_events (fst (finalize_sale env p o1 user staff verify i base dk)) = dk_events base"
  by (auto simp: finalize_sale_def seen dest!: confirm_events split: sum.splits app_error.splits)

lemma guarantee_events [seen]:
  assumes "dk_events dk = dk_events base"
  shows "dk_events (fst (finalize_guarantee env p o1 user staff verify i base dk)) = dk_events base"
proof -
  obtain dk' r where f: "finalize_guarantee env p o1 user staff verify i base dk = (dk', r)" by fastforce
  then have "dk_events dk' = dk_events base"
    by (cases rule: finalize_guarantee_cases) (use assms in \<open>auto simp: seen held_def dest: confirm_events\<close>)
  then show ?thesis by (simp add: f)
qed

lemma payment_events [seen]:
  "dk_events dk = dk_events base \<Longrightarrow> dk_events (fst (finalize_flushed env ref user staff verify i base dk)) = dk_events base"
  by (simp add: finalize_flushed_def seen split: option.splits)

lemma find_events [seen]: "dk_events (fst (find_payment_for_intent i dk)) = dk_events dk"
  by (auto simp: find_payment_for_intent_def split: option.splits)

lemma intent_events [seen]: "dk_events (fst (handle_intent_event env i b dk)) = dk_events dk"
proof -
  obtain dk1 q where f: "find_payment_for_intent i dk = (dk1, q)" by fastforce
  have e: "dk_events dk1 = dk_events dk" using find_events [of i dk] f by simp
  have g: "dk_events dk2 = dk_events dk" if "finalize_guarantee env p o1 None False False (Some i) dk dk1 = (dk2, r)" for p o1 dk2 r
    using guarantee_events [OF e, of env p o1 None False False "Some i"] that by simp
  show ?thesis
    unfolding handle_intent_event_def f
    by (auto simp: e dest!: g split: option.splits sum.splits prod.splits)
qed

lemma checkout_events [seen]: "dk_events (fst (handle_checkout_session env c ex dk)) = dk_events dk"
proof -
  have g: "dk_events dk2 = dk_events dk1" if "finalize_guarantee env p o1 None False False i dk1 dk1 = (dk2, r)" for p o1 dk1 dk2 r i
    using guarantee_events [OF refl, of env p o1 None False False i dk1] that by simp
  show ?thesis
    unfolding handle_checkout_session_def Let_def
    by (auto dest!: g split: option.splits sum.splits prod.splits)
qed

lemma dispatch_events: "dk_events (fst (dispatch_event env e dk)) = dk_events dk"
proof (cases e)
  case (Intent_succeeded i)
  obtain dk1 q where h: "handle_intent_event env i True dk = (dk1, q)" by fastforce
  have 1: "dk_events dk1 = dk_events dk" using intent_events [of env i True dk] h by simp
  obtain dk2 q2 where f: "finalize_flushed env (pi_id i) None False False (Some i) dk dk1 = (dk2, q2)" by fastforce
  have 2: "dk_events dk2 = dk_events dk" using payment_events [OF 1, of env "pi_id i" None False False "Some i"] f by simp
  show ?thesis using 1 2 by (simp add: dispatch_event_def Intent_succeeded h f split: sum.splits bool.splits)
next
  case (Amount_capturable i)
  obtain dk1 q where h: "handle_intent_event env i False dk = (dk1, q)" by fastforce
  show ?thesis using intent_events [of env i False dk] h by (simp add: dispatch_event_def Amount_capturable split: sum.splits)
next
  case (Untyped_event i)
  obtain dk1 q where f: "finalize_payment env (pi_id i) None False False (Some i) dk = (dk1, q)" by fastforce
  show ?thesis using payment_events [OF refl, of env "pi_id i" None False False "Some i" dk] f
    by (simp add: dispatch_event_def Untyped_event finalize_payment_def split: sum.splits)
next
  case (Intent_failed ref)
  then show ?thesis
    by (auto simp: dispatch_event_def handle_payment_failure_def Let_def split: option.splits)
next
  case (Charge_refunded ref a b)
  then show ?thesis by (auto simp: dispatch_event_def handle_charge_refunded_def split: option.splits)
qed (simp_all add: dispatch_event_def seen)

end
