(* ===== verification/Payments_Props.thy ===== *)
theory Payments_Props
  imports Payments_Runs Checkout_Props
begin

text \<open>Properties of payments, on a desk with the order of \<open>Orders_Props\<close> and one card payment of it.\<close>

definition demo_sale :: "pay_status \<Rightarrow> payment" where
  "demo_sale st = \<lparr>py_id = 71, py_order_id = 5, py_provider = ''stripe'', py_provider_payment_id = Some ''pi_9'',
      py_purpose = Sale, py_amount = 24, py_amount_received = None, py_currency = ''EUR'', py_status = st,
      py_captured = None, py_settled_at = None, py_settled_by = None, py_note = None, py_account = None,
      py_reference = None, py_expires_at = None, py_created_by = None, py_created_at = 0, py_terms = None,
      py_terms_at = None\<rparr>"

definition demo_desk :: "order_status \<Rightarrow> pay_status \<Rightarrow> desk" where
  "demo_desk st ps = \<lparr>dk_shop = (demo_shop st [])\<lparr>sh_payments := [demo_sale ps]\<rparr>, dk_refunds = [], dk_events = []\<rparr>"

definition demo_senv :: stripe_env where
  "demo_senv = \<lparr>se_call = demo_env, se_haccp = demo_henv, se_tenant = ''t'', se_local_ok = False, se_account = Inr None,
      se_currency = ''EUR'', se_payment_key = 80, se_create = (\<lambda>_. None), se_retrieve = (\<lambda>_. None), se_secret = (\<lambda>_. None),
      se_refund = (\<lambda>_ _. Some ''re_1''), se_cancel = (\<lambda>_. True)\<rparr>"

lemma demo_desk_ok: "desk_ok (demo_desk st ps)"
  by (simp add: desk_ok_def demo_desk_def refunded_amount_cents_def)

lemma demo_collected: "collected_cents (demo_sale ps) = 2400"
  by (simp add: collected_cents_def demo_sale_def money_to_cents_def py_round_def)

lemma demo_desk_fields: "dk_payments (demo_desk st ps) = [demo_sale ps]" "dk_refunds (demo_desk st ps) = []"
  "dk_events (demo_desk st ps) = []" "order_of 5 (dk_shop (demo_desk st ps)) = Some (demo_order st)"
  by (simp_all add: demo_desk_def demo_shop_def row_simps demo_order_def)

lemma demo_refund:
  "\<exists>dk' row. create_refund demo_senv 5 None (Some 1000) (Some ''late'') False (demo_desk Delivered Pt_paid) = (dk', Inr row)
     \<and> dk_payments dk' = [demo_sale Pt_partial] \<and> rf_amount row = 1000 \<and> rf_payment_id row = 71 \<and> rf_status row = Rf_succeeded
     \<and> dk_refunds dk' = [row]"
  by (simp add: create_refund_def refund_target_def refund_row_def demo_desk_fields demo_collected refunded_amount_cents_def
      py_strip_def py_space_def settle_refund_def add_refund_def manual_provider_def set_pay_status_def Let_def row_simps demo_senv_def)
     (simp add: demo_sale_def demo_order_def)

subsection \<open>Refunds\<close>

lemma demo_refund_step:
  obtains dk' row where "desk_step (demo_desk Delivered Pt_paid) dk'" "dk_payments dk' = [demo_sale Pt_partial]"
    "dk_refunds dk' = [row]" "rf_amount row = 1000" "rf_payment_id row = 71" "rf_status row = Rf_succeeded"
  using demo_refund dstep_refund by blast

text \<open>C11. Nobody is refunded more than was collected: from a desk without refunds, after any sequence of payments, holds,
  links, refunds, Stripe events, status changes and staff orders, the live refunds of a payment are positive and sum
  to at most the amount collected with it, and a payment with a live refund is paid, partly or fully refunded.\<close>

theorem refunds_within_payment:
  assumes "desk_step\<^sup>*\<^sup>* dk dk'" and "dk_refunds dk = []" and "distinct (map py_id (dk_payments dk))"
    and "p \<in> set (dk_payments dk')"
  shows "0 \<le> refunded_amount_cents (py_id p) dk'
    \<and> (0 < refunded_amount_cents (py_id p) dk' \<longrightarrow> refunded_amount_cents (py_id p) dk' \<le> collected_cents p
         \<and> py_status p \<in> {Pt_paid, Pt_partial, Pt_refunded})
    \<and> (\<forall>r \<in> set (dk_refunds dk'). 0 < rf_amount r)"
proof -
  have "desk_ok dk" using assms(2,3) by (simp add: desk_ok_def refunded_amount_cents_def)
  then have ok: "desk_ok dk'" by (rule desk_inv.run_inv [OF assms(1)])
  show ?thesis using refunded_nonneg [OF ok] ok assms(4) by (auto simp: desk_ok_def refundable_def)
qed

theorem refunds_within_payment_witness:
  "\<exists>dk'. desk_step (demo_desk Delivered Pt_paid) dk' \<and> refunded_amount_cents 71 dk' = 1000 \<and> 1000 \<le> collected_cents (demo_sale Pt_partial)"
proof -
  obtain dk' row where s: "desk_step (demo_desk Delivered Pt_paid) dk'" "dk_payments dk' = [demo_sale Pt_partial]"
    and r: "dk_refunds dk' = [row]" "rf_amount row = 1000" "rf_payment_id row = 71" "rf_status row = Rf_succeeded"
    by (rule demo_refund_step)
  have a: "refunded_amount_cents 71 dk' = 1000" by (simp add: refunded_amount_cents_def live_refund_def r)
  have "dk_refunds (demo_desk Delivered Pt_paid) = []" "distinct (map py_id (dk_payments (demo_desk Delivered Pt_paid)))"
    "demo_sale Pt_partial \<in> set (dk_payments dk')" by (simp_all add: demo_desk_fields s(2))
  from refunds_within_payment [OF r_into_rtranclp [of desk_step, OF s(1)] this] a s(1) show ?thesis
    by (auto simp: demo_sale_def)
qed

text \<open>Settled money stays settled: along every such sequence a payment that was paid, partly or fully refunded keeps its
  row, its collected amount and one of these states, and refund rows are only ever added.\<close>

theorem settled_money_is_final:
  assumes "desk_step\<^sup>*\<^sup>* dk dk'" and "desk_ok dk" and "p \<in> set (dk_payments dk)"
    and "py_status p \<in> {Pt_paid, Pt_partial, Pt_refunded}"
  shows "(\<exists>q \<in> set (dk_payments dk'). py_id q = py_id p \<and> collected_cents q = collected_cents p
      \<and> py_status q \<in> {Pt_paid, Pt_partial, Pt_refunded}) \<and> (\<exists>rs. dk_refunds dk' = dk_refunds dk @ rs)"
proof -
  have s: "safe dk dk'" by (rule desk_run_safe [OF assms(1,2)])
  then obtain q where "q \<in> set (dk_payments dk')" "row_ok {} p q" using assms(3) by (auto simp: safe_def elim: pays_row)
  then show ?thesis using s assms(4) by (intro conjI bexI [of _ q]) (auto simp: row_ok_def refundable_def safe_def)
qed

theorem settled_money_is_final_witness:
  "\<exists>dk'. desk_step (demo_desk Delivered Pt_paid) dk' \<and> dk' \<noteq> demo_desk Delivered Pt_paid
     \<and> (\<exists>q \<in> set (dk_payments dk'). py_id q = 71 \<and> collected_cents q = 2400)"
proof -
  obtain dk' row where s: "desk_step (demo_desk Delivered Pt_paid) dk'" "dk_payments dk' = [demo_sale Pt_partial]"
    and r: "dk_refunds dk' = [row]" by (rule demo_refund_step)
  have "demo_sale Pt_paid \<in> set (dk_payments (demo_desk Delivered Pt_paid))"
    "py_status (demo_sale Pt_paid) \<in> {Pt_paid, Pt_partial, Pt_refunded}" by (simp_all add: demo_desk_fields demo_sale_def)
  from settled_money_is_final [OF r_into_rtranclp [of desk_step, OF s(1)] demo_desk_ok this]
  have "\<exists>q \<in> set (dk_payments dk'). py_id q = 71 \<and> collected_cents q = 2400"
    unfolding demo_collected by (auto simp: demo_sale_def)
  moreover have "dk' \<noteq> demo_desk Delivered Pt_paid" using r demo_desk_fields(2) by (metis list.distinct(1))
  ultimately show ?thesis using s(1) by blast
qed

text \<open>C6. A settled card hold is final: along every sequence of payments, holds, links, refunds, Stripe events, captures made
  outside of the API, cash settlements, status changes, expiries and staff orders, a hold that has been released or
  captured stays settled - it is never pending or authorised again, so it cannot be captured or released a second
  time - and its amount, captured amount, time, author and note of settlement never change.\<close>

theorem settled_hold_is_final:
  assumes "desk_step\<^sup>*\<^sup>* dk dk'" and "desk_ok dk" and "p \<in> set (dk_payments dk)"
    and "py_purpose p = Guarantee" and "py_status p \<in> {Pt_released, Pt_paid, Pt_partial, Pt_refunded}"
  shows "\<exists>q \<in> set (dk_payments dk'). py_id q = py_id p \<and> py_purpose q = Guarantee
      \<and> py_status q \<in> {Pt_released, Pt_paid, Pt_partial, Pt_refunded} \<and> py_amount q = py_amount p
      \<and> py_captured q = py_captured p \<and> py_settled_at q = py_settled_at p \<and> py_settled_by q = py_settled_by p
      \<and> py_note q = py_note p"
proof -
  have "pays_step {} (dk_payments dk) (dk_payments dk')" using desk_run_safe [OF assms(1,2)] by (simp add: safe_def)
  then obtain q where "q \<in> set (dk_payments dk')" "row_ok {} p q" by (rule pays_row [OF _ assms(3)])
  moreover have "settled_hold p" using assms(4,5) by (simp add: settled_hold_def)
  ultimately show ?thesis by (intro bexI [of _ q]) (simp_all add: row_ok_def settled_hold_def same_settlement_def)
qed

definition demo_captured :: "pay_status \<Rightarrow> payment" where
  "demo_captured st = (demo_sale st)\<lparr>py_purpose := Guarantee, py_captured := Some 10, py_settled_at := Some 50\<rparr>"

definition demo_captured_desk :: desk where
  "demo_captured_desk = (demo_desk Delivery_failed Pt_paid)\<lparr>dk_shop := (demo_shop Delivery_failed [])\<lparr>sh_payments := [demo_captured Pt_paid]\<rparr>\<rparr>"

theorem settled_hold_is_final_witness:
  "\<exists>dk'. desk_step demo_captured_desk dk' \<and> dk_payments dk' = [demo_captured Pt_refunded]
     \<and> (\<exists>q \<in> set (dk_payments dk'). py_id q = 71 \<and> py_captured q = Some 10)"
proof -
  let ?d = "handle_webhook demo_senv None (Charge_refunded ''pi_9'' 1000 1000) demo_captured_desk"
  have s: "desk_step demo_captured_desk (fst ?d)" by (rule dstep_webhook [OF prod.collapse [symmetric]])
  have d: "dk_payments demo_captured_desk = [demo_captured Pt_paid]" "dk_refunds demo_captured_desk = []"
    by (simp_all add: demo_captured_desk_def demo_desk_def)
  have p: "dk_payments (fst ?d) = [demo_captured Pt_refunded]"
    by (simp add: handle_webhook_def dispatch_event_def handle_charge_refunded_def d provider_row_def set_pay_status_def row_upd_def)
       (simp add: demo_captured_def demo_sale_def)
  have ok: "desk_ok demo_captured_desk" by (simp add: desk_ok_def d refunded_amount_cents_def)
  have "demo_captured Pt_paid \<in> set (dk_payments demo_captured_desk)" "py_purpose (demo_captured Pt_paid) = Guarantee"
    "py_status (demo_captured Pt_paid) \<in> {Pt_released, Pt_paid, Pt_partial, Pt_refunded}"
    by (simp_all add: d) (simp_all add: demo_captured_def demo_sale_def)
  from settled_hold_is_final [OF r_into_rtranclp [of desk_step, OF s] ok this]
  have "\<exists>q \<in> set (dk_payments (fst ?d)). py_id q = 71 \<and> py_captured q = Some 10"
    by (auto simp: demo_captured_def demo_sale_def)
  then show ?thesis using s p by blast
qed

subsection \<open>Stripe events\<close>

text \<open>An event counts once: after Stripe delivered an event with an identifier, whatever came of it, delivering an event
  with the same identifier again is accepted and changes nothing.\<close>

theorem webhook_counts_once:
  assumes "handle_webhook env (Some k) e dk = (dk1, r)" and "k \<noteq> []"
  shows "handle_webhook env' (Some k) e' dk1 = (dk1, Inr ())"
proof (cases "k \<in> set (dk_events dk)")
  case True
  then show ?thesis using assms by (auto simp: handle_webhook_def)
next
  case False
  then have "dispatch_event env e (dk\<lparr>dk_events := dk_events dk @ [k]\<rparr>) = (dk1, r)"
    using assms by (simp add: handle_webhook_def)
  then have "k \<in> set (dk_events dk1)"
    using dispatch_events [of env e "dk\<lparr>dk_events := dk_events dk @ [k]\<rparr>"] by simp
  then show ?thesis using assms(2) by (simp add: handle_webhook_def)
qed

theorem webhook_counts_once_witness:
  "fst (handle_webhook demo_senv (Some ''evt'') (Charge_refunded ''pi_9'' 2400 1000) (demo_desk Delivered Pt_paid))
     \<noteq> demo_desk Delivered Pt_paid
   \<and> (\<exists>dk1. fst (handle_webhook demo_senv (Some ''evt'') (Charge_refunded ''pi_9'' 2400 1000) (demo_desk Delivered Pt_paid)) = dk1
        \<and> handle_webhook demo_senv (Some ''evt'') (Charge_refunded ''pi_9'' 2400 2400) dk1 = (dk1, Inr ()))"
proof -
  let ?h = "handle_webhook demo_senv (Some ''evt'') (Charge_refunded ''pi_9'' 2400 1000) (demo_desk Delivered Pt_paid)"
  have "handle_webhook demo_senv (Some ''evt'') (Charge_refunded ''pi_9'' 2400 2400) (fst ?h) = (fst ?h, Inr ())"
    by (rule webhook_counts_once [OF prod.collapse [symmetric]]) simp
  moreover have "dk_events (fst ?h) = [''evt'']"
    using dispatch_events by (simp add: handle_webhook_def demo_desk_fields)
  then have "fst ?h \<noteq> demo_desk Delivered Pt_paid" using demo_desk_fields(3) by (metis list.distinct(1))
  ultimately show ?thesis by blast
qed

text \<open>The event is recorded before it is handled: when handling it fails, for instance because Stripe could not be
  reached, the retry that Stripe sends is skipped and the payment is never finalised by it.\<close>

lemma failed_event_is_lost:
  assumes "handle_webhook env (Some k) e dk = (dk1, Inl err)" and "k \<noteq> []"
  shows "handle_webhook env' (Some k) e dk1 = (dk1, Inr ())"
proof (cases "k \<in> set (dk_events dk)")
  case True
  then show ?thesis using assms by (auto simp: handle_webhook_def)
next
  case False
  then have "k \<in> set (dk_events dk1)"
    using assms dispatch_events [of env e "dk\<lparr>dk_events := dk_events dk @ [k]\<rparr>"] by (simp add: handle_webhook_def)
  then show ?thesis using assms(2) by (simp add: handle_webhook_def)
qed

text \<open>A failed or cancelled intent marks its order as failed without looking at the order: an order already paid with
  another payment loses its mark.\<close>

lemma failure_unpays_order:
  assumes "provider_row ref (dk_payments dk) = Some p" and "py_purpose p = Sale" and "py_status p = Pt_pending"
    and "order_of (py_order_id p) (dk_shop dk) = Some o1" and "ord_payment_status o1 = Paid"
  shows "map_option ord_payment_status (order_of (py_order_id p) (dk_shop (handle_payment_failure env ref dk)))
    = Some (Other_payment ''failed'')"
  using assms
  by (simp add: handle_payment_failure_def mark_order_def set_pay_status_def upd_payment_def row_get_upd Let_def)

subsection \<open>Finalisation\<close>

lemma confirm_payments:
  assumes "update_status env oid rq sh = Inr sh'" and "rq_status rq = Confirmed"
  shows "sh_payments sh' = sh_payments sh"
  using assms(1)
proof (rule update_statusE)
  fix o1 sh1 low
  assume c: "commit_transition env rq o1 sh = Inr (sh1, low)"
    and sh': "sh' = after_commit env rq o1 (actual_status (rq_status rq) sh) low sh1"
  have a: "actual_status (rq_status rq) sh \<notin> {Cancelled, Rejected}" using actual_cases [of "rq_status rq" sh] assms(2) by auto
  have "release_on_close env rq (actual_status (rq_status rq) sh) (ord_id o1) sh1 = sh1"
    using a by (auto simp: release_on_close_def split: option.splits)
  then show ?thesis
    by (simp add: sh' after_commit_def Let_def notify_payments queue_payments credit_payments commit_payments [OF c])
qed

text \<open>Both payment and order marked as paid.\<close>

definition charged :: "payment \<Rightarrow> order \<Rightarrow> desk \<Rightarrow> desk" where
  "charged p o1 dk = mark_order (ord_id o1) Paid (set_pay_status (py_id p) Pt_paid dk)"

lemma finalize_sale_cases:
  assumes "finalize_sale env p o1 user staff verify i base dk = (dk', r)"
  obtains (idle) "dk' = base" "r = Inr Already_final \<or> (\<exists>e. r = Inl e)"
  | (confirmed) dk1 where "case i of Some i1 \<Rightarrow> validate_payment_intent_payload (se_tenant env) p o1 i1 = Inr ()
        | None \<Rightarrow> verify \<longrightarrow> verify_payment_intent_with_stripe env p o1 = Inr ()"
      "confirm_if_pending env o1 (charged p o1 dk) = Inr dk1" "r = Inr Order_confirmed"
      "dk' = auto_confirm_loyalty_reservation (se_now env) (ord_id o1) (ord_user_id o1) dk1" "\<not> refundable p"
  | (returned) code http where "confirm_if_pending env o1 (charged p o1 dk) = Inl (AppError code http)"
      "auto_refund_after_confirmation_failure env p code base = (dk', r)" "\<not> refundable p"
proof (cases "require_customer_payment_owner p o1 user staff = Inr () \<and> \<not> refundable p \<and> (case i of
        Some i1 \<Rightarrow> validate_payment_intent_payload (se_tenant env) p o1 i1 = Inr ()
      | None \<Rightarrow> verify \<longrightarrow> verify_payment_intent_with_stripe env p o1 = Inr ())")
  case False
  then have "dk' = base \<and> (r = Inr Already_final \<or> (\<exists>e. r = Inl e))"
    using assms unfolding finalize_sale_def refundable_def by (auto split: sum.splits if_splits option.splits)
  then show ?thesis using idle by blast
next
  case True
  then have "(case confirm_if_pending env o1 (charged p o1 dk) of
      Inr dk1 \<Rightarrow> (auto_confirm_loyalty_reservation (se_now env) (ord_id o1) (ord_user_id o1) dk1, Inr Order_confirmed)
    | Inl (AppError code http) \<Rightarrow> auto_refund_after_confirmation_failure env p code base
    | Inl e \<Rightarrow> (base, Inl e)) = (dk', r)"
    using assms unfolding finalize_sale_def charged_def refundable_def
    by (auto split: sum.splits if_splits option.splits)
  then show ?thesis
    using True idle confirmed returned
    by (cases "confirm_if_pending env o1 (charged p o1 dk)") (auto split: app_error.splits)
qed

lemma validatedD:
  assumes "validate_payment_intent_payload tenant p o1 i = Inr ()"
  shows "pi_status i = ''succeeded'' \<and> pi_amount i = Some (money_to_cents (ord_total o1))
    \<and> (\<forall>x. pi_received i = Some x \<longrightarrow> money_to_cents (ord_total o1) \<le> x)
    \<and> py_lower (pi_currency i) = expected_currency p \<and> metadata_ok tenant p o1 i"
  using assms by (auto simp: validate_payment_intent_payload_def Let_def split: if_splits option.splits)

lemma charged_status: "q \<in> set (dk_payments (charged p o1 dk)) \<Longrightarrow> py_id q = py_id p \<Longrightarrow> py_status q = Pt_paid"
  by (auto simp: charged_def set_pay_status_def row_upd_def split: if_splits)

lemma loyalty_confirm_frame [simp]:
  "dk_payments (auto_confirm_loyalty_reservation now oid user dk) = dk_payments dk"
  "sh_orders (dk_shop (auto_confirm_loyalty_reservation now oid user dk)) = sh_orders (dk_shop dk)"
  by (simp_all add: auto_confirm_loyalty_reservation_def split: option.splits)

lemma validated_holdD:
  assumes "validate_guarantee_intent tenant p o1 i = Inr ()"
  shows "pi_status i = ''requires_capture'' \<and> pi_capture_method i = ''manual''
    \<and> pi_amount i = Some (money_to_cents (ord_total o1))
    \<and> (\<forall>x. pi_capturable i = Some x \<longrightarrow> money_to_cents (ord_total o1) \<le> x)
    \<and> py_lower (pi_currency i) = expected_currency p \<and> metadata_ok tenant p o1 i \<and> pi_purpose i = ''guarantee''"
  using assms by (auto simp: validate_guarantee_intent_def Let_def split: if_splits option.splits)

lemma held_status: "q \<in> set (dk_payments (held env p o1 dk)) \<Longrightarrow> py_id q = py_id p \<Longrightarrow> py_status q = Pt_authorized"
  by (auto simp: held_def row_upd_def split: if_splits)

lemma confirm_keeps_payments: "confirm_if_pending env o1 dk = Inr dk1 \<Longrightarrow> dk_payments dk1 = dk_payments dk"
  using confirm_payments by (auto simp: confirm_if_pending_def confirm_request_def split: if_splits)

lemma confirm_outcome:
  assumes "confirm_if_pending env o1 dk = Inr dk1" and "ord_status o1 = Pending"
  shows "status_of (ord_id o1) (dk_shop (auto_confirm_loyalty_reservation now oid user dk1)) \<in> {Some Confirmed, Some Queued}"
proof -
  obtain sh where u: "update_status (se_call env) (ord_id o1) confirm_request (dk_shop dk) = Inr sh"
    and d: "dk1 = dk\<lparr>dk_shop := sh\<rparr>"
    using assms by (auto simp: confirm_if_pending_def)
  show ?thesis
    using update_status_actual [OF u] actual_cases [of Confirmed "dk_shop dk"]
    by (auto simp: d status_of_def confirm_request_def)
qed

text \<open>What Stripe must report for a payment to count as charged or held, and what is recorded then.\<close>

definition charge_reported :: "stripe_env \<Rightarrow> payment \<Rightarrow> order \<Rightarrow> intent \<Rightarrow> bool" where
  "charge_reported env p o1 i \<longleftrightarrow> pi_status i = ''succeeded'' \<and> pi_amount i = Some (money_to_cents (ord_total o1))
     \<and> (\<forall>x. pi_received i = Some x \<longrightarrow> money_to_cents (ord_total o1) \<le> x)
     \<and> py_lower (pi_currency i) = expected_currency p \<and> metadata_ok (se_tenant env) p o1 i"

definition hold_reported :: "stripe_env \<Rightarrow> payment \<Rightarrow> order \<Rightarrow> intent \<Rightarrow> bool" where
  "hold_reported env p o1 i \<longleftrightarrow> pi_status i = ''requires_capture'' \<and> pi_capture_method i = ''manual''
     \<and> pi_amount i = Some (money_to_cents (ord_total o1))
     \<and> (\<forall>x. pi_capturable i = Some x \<longrightarrow> money_to_cents (ord_total o1) \<le> x)
     \<and> py_lower (pi_currency i) = expected_currency p \<and> metadata_ok (se_tenant env) p o1 i \<and> pi_purpose i = ''guarantee''"

lemma hold_outcome:
  assumes "finalize_guarantee env p o1 user staff verify (Some i) base dk = (dk', Inr Order_confirmed)"
    and "order_of (ord_id o1) (dk_shop dk) = Some o1"
  shows "hold_reported env p o1 i \<and> (\<forall>q \<in> set (dk_payments dk'). py_id q = py_id p \<longrightarrow> py_status q = Pt_authorized)
      \<and> (ord_status o1 = Pending \<longrightarrow> status_of (ord_id o1) (dk_shop dk') \<in> {Some Confirmed, Some Queued})
    \<or> pi_status i = ''succeeded''
      \<and> (\<forall>q \<in> set (dk_payments dk'). py_id q = py_id p \<longrightarrow>
            py_status q = Pt_paid \<and> py_captured q = Some (of_int (intent_received i) / 100))
      \<and> order_of (ord_id o1) (dk_shop dk') = Some (o1\<lparr>ord_payment_status :=
            if intent_received i \<ge> money_to_cents (ord_total o1) then Paid else guarantee_captured\<rparr>)"
  using assms(1)
proof (cases rule: finalize_guarantee_cases)
  case (sync j)
  then have d: "dk' = sync_external_capture env p o1 i dk" "pi_status i = ''succeeded''" by auto
  have "py_status q = Pt_paid \<and> py_captured q = Some (of_int (intent_received i) / 100)"
    if "q \<in> set (dk_payments dk')" "py_id q = py_id p" for q
    using that by (auto simp: d(1) sync_external_capture_def row_upd_def split: if_splits)
  moreover have "order_of (ord_id o1) (dk_shop dk') = Some (o1\<lparr>ord_payment_status :=
            if intent_received i \<ge> money_to_cents (ord_total o1) then Paid else guarantee_captured\<rparr>)"
    using assms(2) by (simp add: d(1) sync_external_capture_def mark_order_def upd_payment_def row_get_upd)
  ultimately show ?thesis using d(2) by blast
next
  case (confirmed dk2)
  have "hold_reported env p o1 i" unfolding hold_reported_def by (rule validated_holdD [OF confirmed(5) [OF refl]])
  moreover have "py_status q = Pt_authorized" if "q \<in> set (dk_payments dk')" "py_id q = py_id p" for q
    using held_status [of q env p o1 dk] that confirm_keeps_payments [OF confirmed(1)] by (simp add: confirmed(3))
  moreover have "status_of (ord_id o1) (dk_shop dk') \<in> {Some Confirmed, Some Queued}" if "ord_status o1 = Pending"
    using confirm_outcome [OF confirmed(1) that] by (simp add: confirmed(3))
  ultimately show ?thesis by blast
qed simp_all

text \<open>C14. No order is confirmed on a bad charge: when a payment is finalised with success on an intent reported by Stripe, then
  for a sale the intent succeeded for exactly the order's total, fully received, in the payment's currency, its metadata
  name this restaurant, this order and this payment, and the payment is now paid; for a card hold the intent holds
  exactly that total for a manual capture under the same checks and the payment is now authorised, or the hold was
  captured outside of the API and the payment records exactly the amount Stripe reports, the order counting as paid only
  if it covers the total. In the first two cases a pending order is confirmed or waits for the kitchen.\<close>

theorem paid_order_was_charged:
  assumes "finalize_flushed env ref user staff verify (Some i) base dk = (dk', Inr Order_confirmed)"
    and "provider_row ref (dk_payments dk) = Some p" and "order_of (py_order_id p) (dk_shop dk) = Some o1"
  shows "py_purpose p = Sale \<and> charge_reported env p o1 i
        \<and> (\<forall>q \<in> set (dk_payments dk'). py_id q = py_id p \<longrightarrow> py_status q = Pt_paid)
        \<and> (ord_status o1 = Pending \<longrightarrow> status_of (ord_id o1) (dk_shop dk') \<in> {Some Confirmed, Some Queued})
    \<or> py_purpose p = Guarantee \<and> hold_reported env p o1 i
        \<and> (\<forall>q \<in> set (dk_payments dk'). py_id q = py_id p \<longrightarrow> py_status q = Pt_authorized)
        \<and> (ord_status o1 = Pending \<longrightarrow> status_of (ord_id o1) (dk_shop dk') \<in> {Some Confirmed, Some Queued})
    \<or> py_purpose p = Guarantee \<and> pi_status i = ''succeeded''
        \<and> (\<forall>q \<in> set (dk_payments dk'). py_id q = py_id p \<longrightarrow>
              py_status q = Pt_paid \<and> py_captured q = Some (of_int (intent_received i) / 100))
        \<and> order_of (ord_id o1) (dk_shop dk') = Some (o1\<lparr>ord_payment_status :=
              if intent_received i \<ge> money_to_cents (ord_total o1) then Paid else guarantee_captured\<rparr>)"
proof (cases "py_purpose p = Guarantee")
  case True
  have "finalize_guarantee env p o1 user staff verify (Some i) base dk = (dk', Inr Order_confirmed)"
    using assms True by (simp add: finalize_flushed_def)
  moreover have "order_of (ord_id o1) (dk_shop dk) = Some o1" using assms(3) row_get_SomeD [OF assms(3)] by simp
  ultimately show ?thesis using hold_outcome True by blast
next
  case False
  then have sale: "py_purpose p = Sale" by (cases "py_purpose p") simp_all
  have "finalize_sale env p o1 user staff verify (Some i) base dk = (dk', Inr Order_confirmed)"
    using assms False by (simp add: finalize_flushed_def)
  then show ?thesis
  proof (cases rule: finalize_sale_cases)
    case (confirmed dk1)
    have "charge_reported env p o1 i" using validatedD [of "se_tenant env" p o1 i] confirmed(1) by (simp add: charge_reported_def)
    moreover have "py_status q = Pt_paid" if "q \<in> set (dk_payments dk')" "py_id q = py_id p" for q
      using charged_status [of q p o1 dk] that confirm_keeps_payments [OF confirmed(2)] by (simp add: confirmed(4))
    moreover have "status_of (ord_id o1) (dk_shop dk') \<in> {Some Confirmed, Some Queued}" if "ord_status o1 = Pending"
      using confirm_outcome [OF confirmed(2) that] by (simp add: confirmed(4))
    ultimately show ?thesis using sale by blast
  next
    case (returned code http)
    then show ?thesis
      by (auto simp: auto_refund_after_confirmation_failure_def Let_def split: prod.splits sum.splits app_error.splits)
  qed simp
qed

definition demo_intent :: intent where
  "demo_intent = \<lparr>pi_id = ''pi_9'', pi_status = ''succeeded'', pi_amount = Some 2400, pi_received = Some 2400,
      pi_capturable = None, pi_capture_method = ''automatic'', pi_currency = ''eur'', pi_tenant = ''t'', pi_order = Some 5,
      pi_payment = Some 71, pi_purpose = []\<rparr>"

lemma demo_eur: "py_lower ''EUR'' = py_lower ''eur''"
  by code_simp

lemma demo_validated: "validate_payment_intent_payload ''t'' (demo_sale Pt_pending) (demo_order Pending) demo_intent = Inr ()"
  by (simp add: validate_payment_intent_payload_def demo_sale_def demo_order_def demo_intent_def money_to_cents_def py_round_def
      expected_currency_def demo_eur metadata_ok_def Let_def)

lemma demo_charged: "dk_shop (charged (demo_sale Pt_pending) (demo_order Pending) (demo_desk Pending Pt_pending)) =
    (demo_shop Pending [])\<lparr>sh_payments := [demo_sale Pt_paid]\<rparr>"
  by (simp add: charged_def mark_order_def set_pay_status_def upd_payment_def demo_desk_def demo_shop_def demo_order_def
      demo_sale_def row_simps)

lemma demo_confirm_paid:
  "\<exists>sh. update_status demo_env 5 confirm_request ((demo_shop Pending [])\<lparr>sh_payments := ps\<rparr>) = Inr sh"
proof -
  obtain s low where d: "deduct_for_order 5 [demo_item 5 2] None 50 demo_stock = Inr (s, low)" using demo_deduct by blast
  show ?thesis
    by (simp add: update_status_def status_guards_def confirm_request_def commit_transition_def actual_status_def
        follow_delivery_def stock_effects_def is_graph_transition_def add_history_def payment_settles_def
        demo_shop_defs row_simps Let_def demo_env_def d)
qed

lemma demo_finalized:
  "\<exists>dk'. finalize_payment demo_senv ''pi_9'' None False False (Some demo_intent) (demo_desk Pending Pt_pending)
     = (dk', Inr Order_confirmed)"
proof -
  obtain sh where u: "update_status demo_env 5 confirm_request ((demo_shop Pending [])\<lparr>sh_payments := [demo_sale Pt_paid]\<rparr>) = Inr sh"
    using demo_confirm_paid by blast
  have p: "provider_row ''pi_9'' [demo_sale Pt_pending] = Some (demo_sale Pt_pending)"
    by (simp add: provider_row_def demo_sale_def)
  have f: "py_order_id (demo_sale x) = 5" "py_purpose (demo_sale x) = Sale" "py_status (demo_sale x) = x"
    "ord_id (demo_order y) = 5" "ord_status (demo_order y) = y" for x y by (simp_all add: demo_sale_def demo_order_def)
  have c: "confirm_if_pending demo_senv (demo_order Pending) (charged (demo_sale Pt_pending) (demo_order Pending) (demo_desk Pending Pt_pending))
      = Inr ((charged (demo_sale Pt_pending) (demo_order Pending) (demo_desk Pending Pt_pending))\<lparr>dk_shop := sh\<rparr>)"
    using u by (simp add: confirm_if_pending_def demo_charged f demo_senv_def)
  have t: "se_tenant demo_senv = ''t''" by (simp add: demo_senv_def)
  show ?thesis
    unfolding finalize_payment_def finalize_flushed_def demo_desk_fields p option.case f purpose.simps
    by (simp add: finalize_sale_def require_customer_payment_owner_def f t demo_validated c [unfolded charged_def f])
qed

theorem paid_order_was_charged_witness:
  "\<exists>dk'. finalize_payment demo_senv ''pi_9'' None False False (Some demo_intent) (demo_desk Pending Pt_pending)
     = (dk', Inr Order_confirmed) \<and> charge_reported demo_senv (demo_sale Pt_pending) (demo_order Pending) demo_intent
     \<and> status_of 5 (dk_shop dk') \<in> {Some Confirmed, Some Queued}"
proof -
  obtain dk' where f: "finalize_payment demo_senv ''pi_9'' None False False (Some demo_intent) (demo_desk Pending Pt_pending)
     = (dk', Inr Order_confirmed)" using demo_finalized by blast
  have "provider_row ''pi_9'' (dk_payments (demo_desk Pending Pt_pending)) = Some (demo_sale Pt_pending)"
    "order_of (py_order_id (demo_sale Pt_pending)) (dk_shop (demo_desk Pending Pt_pending)) = Some (demo_order Pending)"
    by (simp_all add: provider_row_def demo_desk_fields) (simp_all add: demo_sale_def demo_desk_fields)
  from paid_order_was_charged [OF f [unfolded finalize_payment_def] this] f show ?thesis
    by (auto simp: demo_order_def demo_sale_def)
qed

text \<open>What the automatic refund leaves.\<close>

lemma auto_refund_result:
  assumes "auto_refund_after_confirmation_failure env p code dk = (dk', Inr out)"
  obtains x where "out = Order_not_confirmed x"
    "\<And>q. q \<in> set (dk_payments dk') \<Longrightarrow> py_id q = py_id p \<Longrightarrow> py_status q = (if x = None then Pt_refund_failed else Pt_refunded)"
    "\<And>row. x = Some row \<Longrightarrow> row \<in> set (dk_refunds dk') \<and> rf_status row = Rf_succeeded \<and> rf_order_id row = py_order_id p
      \<and> (\<exists>q \<in> set (dk_payments dk'). py_id q = rf_payment_id row \<and> py_order_id q = py_order_id p
           \<and> refunded_amount_cents (py_id q) dk' = collected_cents q)"
    "sh_orders (dk_shop dk') = set_payment_status (py_order_id p) Paid (sh_orders (dk_shop dk))"
proof -
  define dk1 where "dk1 = set_pay_status (py_id p) Pt_paid (mark_order (py_order_id p) Paid dk)"
  obtain dk2 q where c: "create_refund env (py_order_id p) None None (Some (''auto_refund_'' @ py_lower code)) True dk1 = (dk2, q)"
    by fastforce
  have os1: "sh_orders (dk_shop (set_pay_status k st d)) = sh_orders (dk_shop d)" for k st d
    by (simp add: set_pay_status_def upd_payment_def)
  have os: "sh_orders (dk_shop dk2) = set_payment_status (py_order_id p) Paid (sh_orders (dk_shop dk))"
    using c by (cases rule: create_refund_cases) (simp_all add: os1 dk1_def mark_order_def)
  note a = assms [unfolded auto_refund_after_confirmation_failure_def Let_def dk1_def [symmetric] c]
  have st: "py_status x = st" if "x \<in> set (dk_payments (set_pay_status (py_id p) st dk2))" "py_id x = py_id p" for x st
    using that by (auto simp: set_pay_status_def row_upd_def split: if_splits)
  show ?thesis
  proof (cases q)
    case (Inr row)
    then have o: "out = Order_not_confirmed (Some row)" "dk' = set_pay_status (py_id p) Pt_refunded dk2" using a by simp_all
    have r: "row \<in> set (dk_refunds dk') \<and> rf_status row = Rf_succeeded \<and> rf_order_id row = py_order_id p
      \<and> (\<exists>q \<in> set (dk_payments dk'). py_id q = rf_payment_id row \<and> py_order_id q = py_order_id p
           \<and> refunded_amount_cents (py_id q) dk' = collected_cents q)"
      using c
    proof (cases rule: create_refund_cases)
      case (settled p1 row1)
      then have row1: "row1 = row" using Inr by simp
      have e: "refunded_amount_cents (py_id p1) dk' = refunded_amount_cents (py_id p1) dk1 + rf_amount row"
        using settled(4,9) by (simp add: o(2) settled(10) row1 refunded_amount_cents_def live_refund_def)
      have keep: "\<exists>q \<in> set (dk_payments (set_pay_status k st d)). py_id q = py_id z \<and> py_order_id q = py_order_id z
          \<and> collected_cents q = collected_cents z" if "z \<in> set (dk_payments d)" for z k st d
      proof -
        let ?z = "if py_id z = k then z\<lparr>py_status := st\<rparr> else z"
        have "?z \<in> set (dk_payments (set_pay_status k st d))"
          using that by (auto simp: set_pay_status_def row_upd_def)
        then show ?thesis by (rule rev_bexI) (simp add: collected_cents_def split: option.split)
      qed
      have "p1 \<in> set (dk_payments (dk1\<lparr>dk_refunds := dk_refunds dk1 @ [row]\<rparr>))" using settled(1) by simp
      from keep [OF this] obtain q1 where "q1 \<in> set (dk_payments dk2)" and q1: "py_id q1 = py_id p1"
          "py_order_id q1 = py_order_id p1" "collected_cents q1 = collected_cents p1"
        unfolding settled(10) row1 by blast
      from keep [OF this(1)] obtain q2 where q2: "q2 \<in> set (dk_payments dk')" "py_id q2 = py_id p1"
          "py_order_id q2 = py_order_id p1" "collected_cents q2 = collected_cents p1"
        unfolding o(2) q1 by blast
      have "row \<in> set (dk_refunds dk')" by (simp add: o(2) settled(10) row1)
      moreover have "refunded_amount_cents (py_id q2) dk' = collected_cents q2"
        using settled(8) e by (simp add: q2 row1)
      ultimately show ?thesis using q2 settled(2,4,5,9) by (auto simp: row1)
    qed (use Inr in simp_all)
    show ?thesis
    proof (rule that [OF o(1)])
      show "py_status y = (if Some row = None then Pt_refund_failed else Pt_refunded)"
        if "y \<in> set (dk_payments dk')" "py_id y = py_id p" for y using st that by (simp add: o(2))
    qed (use r os in \<open>simp_all add: o(2) os1\<close>)
  next
    case (Inl e)
    then have o: "out = Order_not_confirmed None" "dk' = set_pay_status (py_id p) Pt_refund_failed dk2"
      using a by (cases e; simp)+
    show ?thesis
    proof (rule that [OF o(1)])
      show "py_status y = (if None = None then Pt_refund_failed else Pt_refunded)"
        if "y \<in> set (dk_payments dk')" "py_id y = py_id p" for y using st that by (simp add: o(2))
    qed (use os in \<open>simp_all add: o(2) os1\<close>)
  qed
qed

text \<open>C17. A payment that confirms nothing is given back: when a card payment succeeded but the order could not be confirmed,
  the payment ends as refunded or, if the refund failed, is marked for the staff as refund failed; in the first case a
  succeeded refund of a payment of this order exists and that payment is refunded in full. This holds whatever the
  transaction had written before the finalisation (\<open>base\<close>: the committed rows), which the failure rolls back.\<close>

theorem unconfirmed_payment_is_returned:
  assumes "finalize_flushed env ref user staff verify i base dk = (dk', Inr (Order_not_confirmed x))"
    and "provider_row ref (dk_payments dk) = Some p" and "py_purpose p = Sale"
  shows "(\<forall>q \<in> set (dk_payments dk'). py_id q = py_id p \<longrightarrow> py_status q = (if x = None then Pt_refund_failed else Pt_refunded))
    \<and> (\<forall>row. x = Some row \<longrightarrow> row \<in> set (dk_refunds dk') \<and> rf_status row = Rf_succeeded \<and> rf_order_id row = py_order_id p
         \<and> (\<exists>q \<in> set (dk_payments dk'). py_id q = rf_payment_id row \<and> py_order_id q = py_order_id p
              \<and> refunded_amount_cents (py_id q) dk' = collected_cents q))"
proof -
  obtain o1 where "finalize_sale env p o1 user staff verify i base dk = (dk', Inr (Order_not_confirmed x))"
    using assms by (auto simp: finalize_flushed_def split: option.splits)
  then show ?thesis
  proof (cases rule: finalize_sale_cases)
    case (returned code http)
    from returned(2) show ?thesis by (rule auto_refund_result) blast
  qed auto
qed

lemma demo_short: "deduct_for_order 5 [demo_item 5 5] None 50 demo_stock = Inl (AppError ''INSUFFICIENT_STOCK'' 409)"
proof (cases "deduct_for_order 5 [demo_item 5 5] None 50 demo_stock")
  case (Inl e)
  then show ?thesis using deduct_error(1) [OF Inl] by simp
next
  case (Inr r)
  obtain s' low where r: "r = (s', low)" by fastforce
  show ?thesis
    using deduct_checked(1) [OF Inr [unfolded r], of 1] demo_usable by (simp add: demo_deltas demo_flour)
qed

definition demo_short_desk :: desk where
  "demo_short_desk = (demo_desk Pending Pt_pending)\<lparr>dk_shop := (demo_shop Pending [])\<lparr>sh_payments := [demo_sale Pt_pending],
      sh_items := [demo_item 5 5]\<rparr>\<rparr>"

lemma demo_short_confirm:
  "update_status demo_env 5 confirm_request ((demo_shop Pending [])\<lparr>sh_payments := ps, sh_items := [demo_item 5 5]\<rparr>)
     = Inl (AppError ''INSUFFICIENT_STOCK'' 409)"
  by (simp add: update_status_def status_guards_def confirm_request_def commit_transition_def actual_status_def
      follow_delivery_def stock_effects_def is_graph_transition_def add_history_def payment_settles_def
      demo_shop_defs row_simps Let_def demo_env_def demo_short)

lemma demo_returned:
  "\<exists>dk' row. finalize_payment demo_senv ''pi_9'' None False False (Some demo_intent) demo_short_desk
     = (dk', Inr (Order_not_confirmed (Some row)))"
proof -
  have p: "dk_payments demo_short_desk = [demo_sale Pt_pending]" "dk_refunds demo_short_desk = []"
    "order_of 5 (dk_shop demo_short_desk) = Some (demo_order Pending)"
    by (simp_all add: demo_short_desk_def demo_desk_def demo_shop_def demo_order_def row_simps)
  have f: "py_order_id (demo_sale x) = 5" "py_purpose (demo_sale x) = Sale" "py_status (demo_sale x) = x"
    "ord_id (demo_order y) = 5" "ord_status (demo_order y) = y" "py_provider (demo_sale x) = ''stripe''"
    "py_id (demo_sale x) = 71" for x y by (simp_all add: demo_sale_def demo_order_def)
  have r: "provider_row ''pi_9'' [demo_sale Pt_pending] = Some (demo_sale Pt_pending)"
    by (simp add: provider_row_def demo_sale_def)
  have t: "se_tenant demo_senv = ''t''" by (simp add: demo_senv_def)
  have m: "dk_shop (mark_order 5 Paid (set_pay_status 71 Pt_paid demo_short_desk)) =
      (demo_shop Pending [])\<lparr>sh_payments := [demo_sale Pt_paid], sh_items := [demo_item 5 5]\<rparr>"
    by (simp add: mark_order_def set_pay_status_def upd_payment_def demo_short_desk_def demo_desk_def demo_shop_def
        demo_order_def demo_sale_def row_simps)
  have c: "confirm_if_pending demo_senv (demo_order Pending) (mark_order 5 Paid (set_pay_status 71 Pt_paid demo_short_desk))
      = Inl (AppError ''INSUFFICIENT_STOCK'' 409)"
    using demo_short_confirm by (simp add: confirm_if_pending_def m f demo_senv_def)
  define dk1 where "dk1 = set_pay_status 71 Pt_paid (mark_order 5 Paid demo_short_desk)"
  have d1: "dk_payments dk1 = [demo_sale Pt_paid]" "dk_refunds dk1 = []" "\<exists>y. order_of 5 (dk_shop dk1) = Some y"
    by (simp_all add: dk1_def set_pay_status_def p row_simps f)
       (simp_all add: demo_sale_def upd_payment_def mark_order_def demo_short_desk_def demo_desk_def demo_shop_def
        demo_order_def row_simps)
  obtain y where y: "order_of 5 (dk_shop dk1) = Some y" using d1(3) by blast
  have "\<exists>dk2 row. create_refund demo_senv 5 None None (Some (''auto_refund_'' @ py_lower ''INSUFFICIENT_STOCK'')) True dk1 = (dk2, Inr row)"
    by (simp add: y create_refund_def refund_target_def d1 f demo_collected refunded_amount_cents_def py_strip_def
        py_space_def settle_refund_def add_refund_def manual_provider_def Let_def demo_senv_def)
  then obtain dk2 row where
    "create_refund demo_senv 5 None None (Some (''auto_refund_'' @ py_lower ''INSUFFICIENT_STOCK'')) True dk1 = (dk2, Inr row)"
    by blast
  then have a: "auto_refund_after_confirmation_failure demo_senv (demo_sale Pt_pending) ''INSUFFICIENT_STOCK'' demo_short_desk
      = (set_pay_status 71 Pt_refunded dk2, Inr (Order_not_confirmed (Some row)))"
    by (simp add: auto_refund_after_confirmation_failure_def f dk1_def [symmetric] Let_def del: append_Cons append_Nil)
  show ?thesis
    unfolding finalize_payment_def finalize_flushed_def p r option.case f purpose.simps
    by (simp add: finalize_sale_def require_customer_payment_owner_def f t demo_validated c a)
qed

theorem unconfirmed_payment_is_returned_witness:
  "\<exists>dk' row. finalize_payment demo_senv ''pi_9'' None False False (Some demo_intent) demo_short_desk
     = (dk', Inr (Order_not_confirmed (Some row))) \<and> row \<in> set (dk_refunds dk') \<and> rf_order_id row = 5"
proof -
  obtain dk' row where f: "finalize_payment demo_senv ''pi_9'' None False False (Some demo_intent) demo_short_desk
     = (dk', Inr (Order_not_confirmed (Some row)))" using demo_returned by blast
  have "provider_row ''pi_9'' (dk_payments demo_short_desk) = Some (demo_sale Pt_pending)" "py_purpose (demo_sale Pt_pending) = Sale"
    by (simp_all add: demo_short_desk_def provider_row_def demo_sale_def)
  from unconfirmed_payment_is_returned [OF f [unfolded finalize_payment_def] this] f show ?thesis by (auto simp: demo_sale_def)
qed

text \<open>The order of such a payment keeps the mark ``paid'' while it is still pending, so the staff can confirm it although its
  money went back.\<close>

lemma returned_order_stays_paid:
  assumes "finalize_payment env ref user staff verify i dk = (dk', Inr (Order_not_confirmed x))"
    and "provider_row ref (dk_payments dk) = Some p" and "py_purpose p = Sale"
    and "order_of (py_order_id p) (dk_shop dk) = Some o1"
  shows "\<exists>o2. order_of (py_order_id p) (dk_shop dk') = Some o2 \<and> ord_status o2 = ord_status o1 \<and> payment_settles o2"
proof -
  have "finalize_sale env p o1 user staff verify i dk dk = (dk', Inr (Order_not_confirmed x))"
    using assms by (simp add: finalize_payment_def finalize_flushed_def)
  then show ?thesis
  proof (cases rule: finalize_sale_cases)
    case (returned code http)
    then show ?thesis
      using assms(4) by (auto elim!: auto_refund_result simp: row_get_upd payment_settles_def)
  qed auto
qed

subsection \<open>Figures\<close>

lemma sum_filter_point:
  assumes "distinct (map py_id ps)" and "p \<in> set ps"
  shows "(\<Sum>q\<leftarrow>ps. if py_id q = py_id p then a else (0::int)) = a"
  using assms
proof (induction ps)
  case (Cons x xs)
  have z: "(\<Sum>q\<leftarrow>xs. if py_id q = k then a else (0::int)) = 0" if "k \<notin> py_id ` set xs" for k
    using that by (induction xs) auto
  show ?case
  proof (cases "p = x")
    case True
    then show ?thesis using Cons.prems z [of "py_id x"] by simp
  next
    case False
    then have "p \<in> set xs" "py_id x \<noteq> py_id p" using Cons.prems by (auto simp: image_iff)
    then show ?thesis using Cons by simp
  qed
qed simp

text \<open>Summed by payment, the live refunds are all the live refunds.\<close>

lemma refunds_by_payment:
  assumes "distinct (map py_id ps)" and "\<forall>r \<in> set rs. rf_payment_id r \<in> row_ids py_id ps"
  shows "(\<Sum>p\<leftarrow>ps. \<Sum>r\<leftarrow>filter (live_refund (py_id p)) rs. rf_amount r)
    = (\<Sum>r\<leftarrow>filter (\<lambda>r. rf_status r \<noteq> Rf_failed) rs. rf_amount r)"
  using assms(2)
proof (induction rs)
  case (Cons r rs)
  obtain p where p: "p \<in> set ps" "rf_payment_id r = py_id p" using Cons.prems by (auto simp: row_ids_def)
  have live: "live_refund (py_id q) r \<longleftrightarrow> py_id q = py_id p \<and> rf_status r \<noteq> Rf_failed" for q
    by (cases "rf_status r") (auto simp: live_refund_def p(2))
  have "(\<Sum>q\<leftarrow>ps. \<Sum>x\<leftarrow>filter (live_refund (py_id q)) (r # rs). rf_amount x)
      = (\<Sum>q\<leftarrow>ps. (if py_id q = py_id p then if rf_status r \<noteq> Rf_failed then rf_amount r else 0 else 0)
          + (\<Sum>x\<leftarrow>filter (live_refund (py_id q)) rs. rf_amount x))"
    by (rule arg_cong [of _ _ sum_list], rule map_cong) (simp_all add: live)
  then show ?case using Cons by (simp add: sum_list_addf sum_filter_point [OF assms(1) p(1)])
qed simp

lemma sum_list_filter_le:
  assumes "\<And>x. x \<in> set xs \<Longrightarrow> 0 \<le> f x" and "\<And>x. P x \<Longrightarrow> Q x"
  shows "(\<Sum>x\<leftarrow>filter P xs. f x) \<le> (\<Sum>x\<leftarrow>filter Q xs. (f x :: int))"
  using assms by (induction xs) (auto simp: add_increasing)

text \<open>The books balance: over all establishments and dates the refunds shown in the payment summary are not negative and
  never exceed the collected amount, so the net lies between zero and the amount collected, provided no settled
  payment was collected with a negative amount.\<close>

theorem summary_net_within_collected:
  assumes "desk_step\<^sup>*\<^sup>* dk dk'" and "desk_ok dk"
    and "\<forall>p \<in> set (dk_payments dk'). 0 \<le> collected_cents p"
  shows "0 \<le> psm_net (get_payment_summary None None None dk')
    \<and> psm_net (get_payment_summary None None None dk') \<le> psm_collected (get_payment_summary None None None dk')"
proof -
  have ok: "desk_ok dk'" by (rule desk_inv.run_inv [OF assms(1,2)])
  define c where "c = (\<Sum>p\<leftarrow>filter (\<lambda>p. paid_status (py_status p) \<or> py_status p = Pt_refunded) (dk_payments dk'). collected_cents p)"
  define d where "d = (\<Sum>r\<leftarrow>filter (\<lambda>r. rf_status r = Rf_succeeded) (dk_refunds dk'). rf_amount r)"
  have s: "psm_net (get_payment_summary None None None dk') = c - d" "psm_collected (get_payment_summary None None None dk') = c"
    by (simp_all add: get_payment_summary_def at_establishment_def in_period_def Let_def c_def d_def)
  have pos: "\<And>r. r \<in> set (dk_refunds dk') \<Longrightarrow> 0 \<le> rf_amount r" using ok by (force simp: desk_ok_def)
  have "d \<le> (\<Sum>r\<leftarrow>filter (\<lambda>r. rf_status r \<noteq> Rf_failed) (dk_refunds dk'). rf_amount r)"
    unfolding d_def by (rule sum_list_filter_le) (use pos in auto)
  also have "\<dots> = (\<Sum>p\<leftarrow>dk_payments dk'. refunded_amount_cents (py_id p) dk')"
    unfolding refunded_amount_cents_def
    by (rule refunds_by_payment [symmetric]) (use ok in \<open>auto simp: desk_ok_def\<close>)
  also have "\<dots> \<le> (\<Sum>p\<leftarrow>dk_payments dk'. if paid_status (py_status p) \<or> py_status p = Pt_refunded then collected_cents p else 0)"
  proof (rule sum_list_mono)
    fix p assume p: "p \<in> set (dk_payments dk')"
    show "refunded_amount_cents (py_id p) dk'
        \<le> (if paid_status (py_status p) \<or> py_status p = Pt_refunded then collected_cents p else 0)"
      using ok p refunded_unsettled [OF ok p] assms(3) by (fastforce simp: desk_ok_def refundable_def)
  qed
  also have "\<dots> = c" by (simp add: c_def sum_list_map_filter')
  finally have "d \<le> c" .
  moreover have "0 \<le> d" unfolding d_def using pos by (auto intro!: sum_list_nonneg)
  ultimately show ?thesis by (simp add: s)
qed

theorem summary_net_within_collected_witness:
  "\<exists>dk'. desk_step (demo_desk Delivered Pt_paid) dk' \<and> psm_refunded (get_payment_summary None None None dk') = 1000
     \<and> 0 \<le> psm_net (get_payment_summary None None None dk')"
proof -
  obtain dk' row where s: "desk_step (demo_desk Delivered Pt_paid) dk'" "dk_payments dk' = [demo_sale Pt_partial]"
    and r: "dk_refunds dk' = [row]" "rf_amount row = 1000" "rf_payment_id row = 71" "rf_status row = Rf_succeeded"
    by (rule demo_refund_step)
  have "\<forall>p \<in> set (dk_payments dk'). 0 \<le> collected_cents p" by (simp add: s(2) demo_collected)
  from summary_net_within_collected [OF r_into_rtranclp [of desk_step, OF s(1)] demo_desk_ok this]
  have "0 \<le> psm_net (get_payment_summary None None None dk')" by simp
  moreover have "psm_refunded (get_payment_summary None None None dk') = 1000"
    by (simp add: get_payment_summary_def at_establishment_def in_period_def Let_def r)
  ultimately show ?thesis using s(1) by blast
qed

subsection \<open>Orders entered by the staff\<close>

lemma new_order_status: "ord_status (new_order env b c eid sub disc fee zid eta) = Pending"
  by (simp add: new_order_def)

lemma prepare_status: "prepare_order env b c h site sh = Inr p \<Longrightarrow> ord_status (po_order p) = Pending"
  by (erule prepare_order_Inr) (metis new_order_status)

text \<open>C19. A staff order is settled on the spot: when the staff enter an order paid by cash, terminal or till and the request is
  accepted, the order exists, a paid payment over exactly its total is recorded for it with the given reference, and
  the order is confirmed or waits for the kitchen.\<close>

theorem manual_order_is_settled:
  assumes "create_manual_order cenv env url b actor (Some k) h site dk = (dk', Inr out)"
    and "find_idempotent_order (ce_now cenv) None k (sh_orders (dk_shop dk)) = None"
    and "mb_method b \<noteq> ''payment_link''"
  shows "\<exists>sh1 o1. create_order cenv (mb_order b) (manual_call b actor k) h site (dk_shop dk) = Inr (sh1, o1)
    \<and> manual_provider (mb_method b) \<and> (ob_order_type (mb_order b) = Delivery_type \<longrightarrow> mb_method b \<noteq> ''cash'')
    \<and> dk_payments dk' = dk_payments dk @ [manual_payment env b actor o1]
    \<and> status_of (ord_id o1) (dk_shop dk') \<in> {Some Confirmed, Some Queued}"
proof -
  obtain mode dk1 o1 where ch: "manual_checks b = Inr mode"
    and t: "manual_transaction cenv env b actor k h site dk = Inr (dk1, o1)" and d: "dk' = credit_manual env (ord_id o1) dk1"
    using assms unfolding create_manual_order_def Let_def by (auto split: if_splits sum.splits prod.splits)
  have m: "manual_provider (mb_method b) \<and> (ob_order_type (mb_order b) = Delivery_type \<longrightarrow> mb_method b \<noteq> ''cash'')"
    using ch assms(3) by (auto simp: manual_checks_def Let_def split: if_splits)
  obtain sh1 where c: "create_order cenv (mb_order b) (manual_call b actor k) h site (dk_shop dk) = Inr (sh1, o1)"
    using t by (auto simp: manual_transaction_def Let_def split: if_splits)
  have pnd: "ord_status o1 = Pending"
    using c by (auto simp: create_order_def manual_call_def split: if_splits dest: prepare_status)
  define dk2 where "dk2 = mark_order (ord_id o1) Paid (add_payment (manual_payment env b actor o1) (dk\<lparr>dk_shop := sh1\<rparr>))"
  obtain sh2 where u: "update_status (se_call env) (ord_id o1) (manual_confirmation b actor) (dk_shop dk2) = Inr sh2"
    and d1: "dk1 = dk2\<lparr>dk_shop := sh2\<rparr>"
    using t c pnd assms(3) by (auto simp: manual_transaction_def dk2_def Let_def)
  have rq: "rq_status (manual_confirmation b actor) = Confirmed" by (simp add: manual_confirmation_def)
  have "dk_payments dk1 = dk_payments dk @ [manual_payment env b actor o1]"
    using confirm_payments [OF u rq] create_order_payments [OF c] by (simp add: d1 dk2_def)
  moreover have "status_of (ord_id o1) sh2 \<in> {Some Confirmed, Some Queued}"
    using update_status_actual [OF u] actual_cases [of Confirmed "dk_shop dk2"] by (auto simp: rq)
  moreover have "dk_payments dk' = dk_payments dk1" "sh_orders (dk_shop dk') = sh_orders (dk_shop dk1)"
    by (simp_all add: d credit_manual_def credit_payments credit_loyalty_for_order_def split: option.splits)
  ultimately show ?thesis using c m by (auto simp: d1 status_of_def)
qed

definition demo_manual :: manual_body where
  "demo_manual = \<lparr>mb_order = demo_pickup, mb_method = ''external_terminal'', mb_reference = Some ''tpe 12'',
      mb_amount_received = None, mb_link_mode = None, mb_customer_name = None, mb_customer_phone = None,
      mb_table_number = None, mb_loyalty_customer = None, mb_note = None\<rparr>"

definition demo_counter_desk :: desk where
  "demo_counter_desk = \<lparr>dk_shop = demo_counter, dk_refunds = [], dk_events = []\<rparr>"

definition demo_manual_order :: order where
  "demo_manual_order = new_order demo_cenv demo_pickup (manual_call demo_manual 2 ''k'') 1 24 0 0 None 1500000000"

lemma demo_row_deltas:
  assumes "resolve_catalog_item demo_catalog demo_line = Inr r"
  shows "order_deltas demo_stock (items_of_order 5 [line_row 5 1 r]) = [(1, 4)]"
  using assms
  by (auto simp: resolve_catalog_item_def demo_catalog_def demo_line_def row_simps resolve_variant_def resolve_extras_def
      line_row_def order_deltas_def items_of_order_def item_recipe_deltas_def recipe_lines_for_def extra_quantities_def
      dict_of_def demo_defs)

lemma demo_row_deducted:
  assumes "resolve_catalog_item demo_catalog demo_line = Inr r"
  shows "\<exists>s low. deduct_for_order 5 [line_row 5 1 r] (Some 2) 50 demo_stock = Inr (s, low)"
proof (cases "deduct_for_order 5 [line_row 5 1 r] (Some 2) 50 demo_stock")
  case (Inl e)
  then show ?thesis
    using deduct_error(2) [OF Inl] demo_usable
    by (auto simp: demo_row_deltas [OF assms] demo_flour) (simp_all add: demo_ingredient_def)
qed auto

lemma demo_manual_call:
  "cc_key (manual_call demo_manual 2 ''k'') = Some ''k''" "cc_commit (manual_call demo_manual 2 ''k'') = False"
  "cc_user_id (manual_call demo_manual 2 ''k'') = None" "cc_skip_lookup (manual_call demo_manual 2 ''k'')"
  by (simp_all add: manual_call_def demo_manual_def)

lemma demo_manual_fields:
  "ord_id demo_manual_order = 5" "ord_status demo_manual_order = Pending" "ord_user_id demo_manual_order = None"
  "ord_type demo_manual_order = Pickup"
  by (simp_all add: demo_manual_order_def new_order_def demo_cenv_def demo_manual_call demo_pickup_def)

lemma demo_manual_created:
  assumes r: "resolve_catalog_item demo_catalog demo_line = Inr r" "rs_request r = demo_line" "rs_unit_price r = 12"
  shows "\<exists>sh1. create_order demo_cenv demo_pickup (manual_call demo_manual 2 ''k'') demo_haccp demo_site demo_counter = Inr (sh1, demo_manual_order)
     \<and> sh_orders sh1 = [demo_manual_order] \<and> sh_items sh1 = [line_row 5 1 r] \<and> sh_stock sh1 = demo_stock
     \<and> sh_config sh1 = None \<and> sh_dispatch sh1 = demo_dispatch []"
proof -
  have none: "\<not> key_taken u k (sh_orders demo_counter)" for u k by (simp add: key_taken_def demo_counter_def)
  have key: "ce_item_key demo_cenv = 1" by (simp add: demo_cenv_def)
  show ?thesis
    by (simp add: create_order_def demo_manual_call demo_prepared_call [OF r] demo_manual_order_def [symmetric] insert_order_def none
        charge_points_def charge_reward_def Let_def record_usage_def add_history_def item_rows_def demo_manual_fields key
        del: rbind_eq_Inr)
       (simp add: demo_counter_def demo_shop_def)
qed

lemma demo_manual_confirmed:
  assumes "resolve_catalog_item demo_catalog demo_line = Inr r" and "sh_orders sh = [demo_manual_order\<lparr>ord_payment_status := Paid\<rparr>]"
    and "sh_items sh = [line_row 5 1 r]" and "sh_stock sh = demo_stock" and "sh_config sh = None" and "sh_dispatch sh = demo_dispatch []"
  shows "\<exists>sh'. update_status demo_env 5 (manual_confirmation demo_manual 2) sh = Inr sh'"
proof -
  obtain s low where d: "deduct_for_order 5 [line_row 5 1 r] (Some 2) 50 demo_stock = Inr (s, low)"
    using demo_row_deducted [OF assms(1)] by blast
  show ?thesis
    by (simp add: update_status_def status_guards_def manual_confirmation_def commit_transition_def actual_status_def
        follow_delivery_def stock_effects_def is_graph_transition_def add_history_def payment_settles_def
        row_simps Let_def demo_env_def d assms demo_manual_fields)
qed

lemma demo_manual_transacted:
  "\<exists>dk1. manual_transaction demo_cenv demo_senv demo_manual 2 ''k'' demo_haccp demo_site demo_counter_desk = Inr (dk1, demo_manual_order)
     \<and> order_of 5 (dk_shop dk1) \<noteq> None"
proof -
  obtain r where r: "resolve_catalog_item demo_catalog demo_line = Inr r" "rs_request r = demo_line" "rs_unit_price r = 12"
    using demo_resolved by blast
  obtain sh1 where c: "create_order demo_cenv demo_pickup (manual_call demo_manual 2 ''k'') demo_haccp demo_site demo_counter = Inr (sh1, demo_manual_order)"
    and f: "sh_orders sh1 = [demo_manual_order]" "sh_items sh1 = [line_row 5 1 r]" "sh_stock sh1 = demo_stock"
    "sh_config sh1 = None" "sh_dispatch sh1 = demo_dispatch []" using demo_manual_created [OF r] by blast
  define dk2 where "dk2 = mark_order 5 Paid (add_payment (manual_payment demo_senv demo_manual 2 demo_manual_order) (demo_counter_desk\<lparr>dk_shop := sh1\<rparr>))"
  have g: "sh_orders (dk_shop dk2) = [demo_manual_order\<lparr>ord_payment_status := Paid\<rparr>]" "sh_items (dk_shop dk2) = [line_row 5 1 r]"
    "sh_stock (dk_shop dk2) = demo_stock" "sh_config (dk_shop dk2) = None" "sh_dispatch (dk_shop dk2) = demo_dispatch []"
    by (simp_all add: dk2_def mark_order_def add_payment_def f row_simps demo_manual_fields)
  obtain sh2 where u: "update_status demo_env 5 (manual_confirmation demo_manual 2) (dk_shop dk2) = Inr sh2"
    using demo_manual_confirmed [OF r(1) g] by blast
  have o: "order_of 5 sh2 \<noteq> None" using update_status_actual [OF u] by (auto simp: status_of_def)
  have m: "mb_order demo_manual = demo_pickup" "mb_method demo_manual \<noteq> ''payment_link''" "se_call demo_senv = demo_env"
    "dk_shop demo_counter_desk = demo_counter" by (simp_all add: demo_manual_def demo_senv_def demo_counter_desk_def)
  have "manual_transaction demo_cenv demo_senv demo_manual 2 ''k'' demo_haccp demo_site demo_counter_desk
      = Inr (dk2\<lparr>dk_shop := sh2\<rparr>, demo_manual_order)"
    by (simp add: manual_transaction_def m c demo_manual_fields u Let_def flip: dk2_def del: rbind_eq_Inr)
  then show ?thesis using o by auto
qed

theorem manual_order_is_settled_witness:
  "\<exists>dk' out. create_manual_order demo_cenv demo_senv (\<lambda>_. None) demo_manual 2 (Some ''k'') demo_haccp demo_site demo_counter_desk
       = (dk', Inr out) \<and> manual_provider (mb_method demo_manual) \<and> length (dk_payments dk') = 1
     \<and> (\<exists>oid. status_of oid (dk_shop dk') \<in> {Some Confirmed, Some Queued})"
proof -
  obtain dk1 where t: "manual_transaction demo_cenv demo_senv demo_manual 2 ''k'' demo_haccp demo_site demo_counter_desk = Inr (dk1, demo_manual_order)"
    and o: "order_of 5 (dk_shop dk1) \<noteq> None" using demo_manual_transacted by blast
  define dk3 where "dk3 = credit_manual demo_senv 5 dk1"
  have "order_of 5 (dk_shop dk3) = order_of 5 (dk_shop dk1)"
    by (simp add: dk3_def credit_manual_def credit_loyalty_for_order_def split: option.splits)
  then obtain o2 where o2: "order_of 5 (dk_shop dk3) = Some o2" using o by auto
  have m: "mb_method demo_manual \<noteq> ''payment_link''" "manual_provider (mb_method demo_manual)"
    by (simp_all add: demo_manual_def manual_provider_def)
  have ch: "\<exists>mode. manual_checks demo_manual = Inr mode"
    by (simp add: manual_checks_def Let_def m) (simp add: demo_manual_def demo_pickup_def)
  then obtain mode where ch: "manual_checks demo_manual = Inr mode" by blast
  have none: "find_idempotent_order (ce_now demo_cenv) None ''k'' (sh_orders (dk_shop demo_counter_desk)) = None"
    by (simp add: demo_counter_desk_def demo_counter_def find_idempotent_order_def)
  have "\<exists>out. create_manual_order demo_cenv demo_senv (\<lambda>_. None) demo_manual 2 (Some ''k'') demo_haccp demo_site demo_counter_desk = (dk3, Inr out)"
    by (simp add: create_manual_order_def none ch t Let_def m demo_manual_fields o2 build_receipt_def flip: dk3_def)
  then obtain out where c: "create_manual_order demo_cenv demo_senv (\<lambda>_. None) demo_manual 2 (Some ''k'') demo_haccp demo_site demo_counter_desk = (dk3, Inr out)"
    by blast
  have "dk_payments demo_counter_desk = []" by (simp add: demo_counter_desk_def demo_counter_def demo_shop_def)
  with manual_order_is_settled [OF c none m(1)] show ?thesis using c by auto
qed

end
