(* ===== verification/Tenant_Settings.thy ===== *)
theory Tenant_Settings
  imports Payments_Desk Calendar
begin

text \<open>
  The restaurant's own settings, \<^verbatim>\<open>app/modules/admin/tenants/service.py\<close>: configuration with its audit trail,
  branding, printing, opening hours, exceptional closures, the public status of the restaurant, and the job of
  \<^verbatim>\<open>worker/tasks/scheduled_closures.py\<close>. A time of day is the microseconds since midnight. The audit rows keep the
  values themselves where the code stores their JSON text. An \<^verbatim>\<open>HTTPException\<close> has a status but no code.
\<close>

subsection \<open>Tables\<close>

record tenant_settings = tenant_config +
  ts_temporarily_closed :: bool
  ts_temporary_message :: "string option"
  ts_default_message :: string
  ts_timezone :: string
  ts_currency :: string
  ts_language :: string
  ts_scheduled_close_at :: "instant option"
  ts_adjustment_threshold :: rat
  ts_print_enabled :: bool
  ts_print_config :: "json option"
  ts_frying_oil :: bool
  ts_dlc_gate :: bool
  ts_display_name :: "string option"
  ts_logo_url :: "string option"
  ts_primary_color :: "string option"
  ts_secondary_color :: "string option"
  ts_font_family :: "string option"
  ts_contact_phone :: "string option"
  ts_contact_email :: "string option"
  ts_instagram_url :: "string option"
  ts_google_url :: "string option"

definition default_settings_row :: tenant_settings where
  "default_settings_row =
     \<lparr>tc_peak_orders_threshold = 5, tc_auto_calc_prep_time = True, tc_prep_time_normal = 25, tc_prep_time_peak = 45,
      tc_overhead_per_order = 3, ts_temporarily_closed = False, ts_temporary_message = None,
      ts_default_message = ''Nous sommes temporairement fermes. Nous vous accueillons bientot !'',
      ts_timezone = ''Europe/Paris'', ts_currency = ''EUR'', ts_language = ''fr'', ts_scheduled_close_at = None,
      ts_adjustment_threshold = 10, ts_print_enabled = False, ts_print_config = None, ts_frying_oil = False,
      ts_dlc_gate = False, ts_display_name = None, ts_logo_url = None, ts_primary_color = None,
      ts_secondary_color = None, ts_font_family = None, ts_contact_phone = None, ts_contact_email = None,
      ts_instagram_url = None, ts_google_url = None\<rparr>"

datatype config_field =
  F_closed | F_closure_message | F_default_message | F_prep_normal | F_prep_peak | F_peak_threshold | F_auto_prep
  | F_overhead | F_timezone | F_threshold | F_frying_oil | F_dlc_gate | F_currency | F_language | F_scheduled_close
  | F_print_enabled | F_print_config | F_display_name | F_logo_url | F_primary_color | F_secondary_color | F_font_family
  | F_contact_phone | F_contact_email | F_instagram_url | F_google_url

datatype config_value =
  Cv_bool bool | Cv_int int | Cv_rat rat | Cv_text "string option" | Cv_instant "instant option" | Cv_json "json option"

record opening_hours =
  oh_id :: int
  oh_day_of_week :: int
  oh_slot_index :: int
  oh_opens_at :: tod
  oh_closes_at :: tod
  oh_active :: bool

record closure =
  xc_id :: int
  xc_date :: day
  xc_custom_message :: "string option"
  xc_use_default :: bool

record hours_slot =
  sl_slot_index :: int
  sl_opens_at :: tod
  sl_closes_at :: tod

datatype audit_subject = On_field config_field | On_day int

datatype audit_value = Value_of config_value | Slots_of "hours_slot list"

record config_audit =
  ca_user :: int
  ca_email :: "string option"
  ca_changed_at :: instant
  ca_subject :: audit_subject
  ca_old :: audit_value
  ca_new :: audit_value
  ca_ip :: "string option"
  ca_agent :: "string option"

record restaurant =
  rt_config :: "tenant_settings option"
  rt_hours :: "opening_hours list"
  rt_closures :: "closure list"
  rt_audit :: "config_audit list"
  rt_jobs :: "bool list"

record requester =
  ru_user :: "int option"
  ru_email :: "string option"
  ru_ip :: "string option"
  ru_agent :: "string option"

text \<open>What the operations take from outside: the clock, the time zone database and the HTML cleaner.\<close>

record tenant_env =
  te_now :: instant
  te_local :: "string \<Rightarrow> instant \<Rightarrow> day \<times> tod"
  te_clean :: "string \<Rightarrow> string"
  te_queue :: bool

subsection \<open>Fields by name\<close>

fun config_get :: "config_field \<Rightarrow> tenant_settings \<Rightarrow> config_value" where
  "config_get F_closed c = Cv_bool (ts_temporarily_closed c)"
| "config_get F_closure_message c = Cv_text (ts_temporary_message c)"
| "config_get F_default_message c = Cv_text (Some (ts_default_message c))"
| "config_get F_prep_normal c = Cv_int (tc_prep_time_normal c)"
| "config_get F_prep_peak c = Cv_int (tc_prep_time_peak c)"
| "config_get F_peak_threshold c = Cv_int (tc_peak_orders_threshold c)"
| "config_get F_auto_prep c = Cv_bool (tc_auto_calc_prep_time c)"
| "config_get F_overhead c = Cv_int (tc_overhead_per_order c)"
| "config_get F_timezone c = Cv_text (Some (ts_timezone c))"
| "config_get F_threshold c = Cv_rat (ts_adjustment_threshold c)"
| "config_get F_frying_oil c = Cv_bool (ts_frying_oil c)"
| "config_get F_dlc_gate c = Cv_bool (ts_dlc_gate c)"
| "config_get F_currency c = Cv_text (Some (ts_currency c))"
| "config_get F_language c = Cv_text (Some (ts_language c))"
| "config_get F_scheduled_close c = Cv_instant (ts_scheduled_close_at c)"
| "config_get F_print_enabled c = Cv_bool (ts_print_enabled c)"
| "config_get F_print_config c = Cv_json (ts_print_config c)"
| "config_get F_display_name c = Cv_text (ts_display_name c)"
| "config_get F_logo_url c = Cv_text (ts_logo_url c)"
| "config_get F_primary_color c = Cv_text (ts_primary_color c)"
| "config_get F_secondary_color c = Cv_text (ts_secondary_color c)"
| "config_get F_font_family c = Cv_text (ts_font_family c)"
| "config_get F_contact_phone c = Cv_text (ts_contact_phone c)"
| "config_get F_contact_email c = Cv_text (ts_contact_email c)"
| "config_get F_instagram_url c = Cv_text (ts_instagram_url c)"
| "config_get F_google_url c = Cv_text (ts_google_url c)"

text \<open>\<^verbatim>\<open>setattr\<close>; a value of another type than the column's never occurs.\<close>

fun cv_bool :: "config_value \<Rightarrow> bool \<Rightarrow> bool" where
  "cv_bool (Cv_bool b) d = b"
| "cv_bool _ d = d"

fun cv_int :: "config_value \<Rightarrow> int \<Rightarrow> int" where
  "cv_int (Cv_int n) d = n"
| "cv_int _ d = d"

fun cv_rat :: "config_value \<Rightarrow> rat \<Rightarrow> rat" where
  "cv_rat (Cv_rat q) d = q"
| "cv_rat _ d = d"

fun cv_text :: "config_value \<Rightarrow> string option \<Rightarrow> string option" where
  "cv_text (Cv_text t) d = t"
| "cv_text _ d = d"

fun cv_instant :: "config_value \<Rightarrow> instant option \<Rightarrow> instant option" where
  "cv_instant (Cv_instant i) d = i"
| "cv_instant _ d = d"

fun cv_json :: "config_value \<Rightarrow> json option \<Rightarrow> json option" where
  "cv_json (Cv_json j) d = j"
| "cv_json _ d = d"

definition cv_string :: "config_value \<Rightarrow> string \<Rightarrow> string" where
  "cv_string v d = (case cv_text v (Some d) of Some t \<Rightarrow> t | None \<Rightarrow> d)"

fun config_set :: "config_field \<Rightarrow> config_value \<Rightarrow> tenant_settings \<Rightarrow> tenant_settings" where
  "config_set F_closed v c = c\<lparr>ts_temporarily_closed := cv_bool v (ts_temporarily_closed c)\<rparr>"
| "config_set F_closure_message v c = c\<lparr>ts_temporary_message := cv_text v (ts_temporary_message c)\<rparr>"
| "config_set F_default_message v c = c\<lparr>ts_default_message := cv_string v (ts_default_message c)\<rparr>"
| "config_set F_prep_normal v c = c\<lparr>tc_prep_time_normal := cv_int v (tc_prep_time_normal c)\<rparr>"
| "config_set F_prep_peak v c = c\<lparr>tc_prep_time_peak := cv_int v (tc_prep_time_peak c)\<rparr>"
| "config_set F_peak_threshold v c = c\<lparr>tc_peak_orders_threshold := cv_int v (tc_peak_orders_threshold c)\<rparr>"
| "config_set F_auto_prep v c = c\<lparr>tc_auto_calc_prep_time := cv_bool v (tc_auto_calc_prep_time c)\<rparr>"
| "config_set F_overhead v c = c\<lparr>tc_overhead_per_order := cv_int v (tc_overhead_per_order c)\<rparr>"
| "config_set F_timezone v c = c\<lparr>ts_timezone := cv_string v (ts_timezone c)\<rparr>"
| "config_set F_threshold v c = c\<lparr>ts_adjustment_threshold := cv_rat v (ts_adjustment_threshold c)\<rparr>"
| "config_set F_frying_oil v c = c\<lparr>ts_frying_oil := cv_bool v (ts_frying_oil c)\<rparr>"
| "config_set F_dlc_gate v c = c\<lparr>ts_dlc_gate := cv_bool v (ts_dlc_gate c)\<rparr>"
| "config_set F_currency v c = c\<lparr>ts_currency := cv_string v (ts_currency c)\<rparr>"
| "config_set F_language v c = c\<lparr>ts_language := cv_string v (ts_language c)\<rparr>"
| "config_set F_scheduled_close v c = c\<lparr>ts_scheduled_close_at := cv_instant v (ts_scheduled_close_at c)\<rparr>"
| "config_set F_print_enabled v c = c\<lparr>ts_print_enabled := cv_bool v (ts_print_enabled c)\<rparr>"
| "config_set F_print_config v c = c\<lparr>ts_print_config := cv_json v (ts_print_config c)\<rparr>"
| "config_set F_display_name v c = c\<lparr>ts_display_name := cv_text v (ts_display_name c)\<rparr>"
| "config_set F_logo_url v c = c\<lparr>ts_logo_url := cv_text v (ts_logo_url c)\<rparr>"
| "config_set F_primary_color v c = c\<lparr>ts_primary_color := cv_text v (ts_primary_color c)\<rparr>"
| "config_set F_secondary_color v c = c\<lparr>ts_secondary_color := cv_text v (ts_secondary_color c)\<rparr>"
| "config_set F_font_family v c = c\<lparr>ts_font_family := cv_text v (ts_font_family c)\<rparr>"
| "config_set F_contact_phone v c = c\<lparr>ts_contact_phone := cv_text v (ts_contact_phone c)\<rparr>"
| "config_set F_contact_email v c = c\<lparr>ts_contact_email := cv_text v (ts_contact_email c)\<rparr>"
| "config_set F_instagram_url v c = c\<lparr>ts_instagram_url := cv_text v (ts_instagram_url c)\<rparr>"
| "config_set F_google_url v c = c\<lparr>ts_google_url := cv_text v (ts_google_url c)\<rparr>"

subsection \<open>Configuration\<close>

definition get_or_create_settings :: "restaurant \<Rightarrow> restaurant \<times> tenant_settings" where
  "get_or_create_settings r =
     (case rt_config r of
        Some c \<Rightarrow> (r, c)
      | None \<Rightarrow> (r\<lparr>rt_config := Some default_settings_row\<rparr>, default_settings_row))"

definition sanitize_message :: "tenant_env \<Rightarrow> string option \<Rightarrow> string option" where
  "sanitize_message env t = map_option (te_clean env) t"

definition write_config_audit ::
    "tenant_env \<Rightarrow> requester \<Rightarrow> int \<Rightarrow> audit_subject \<Rightarrow> audit_value \<Rightarrow> audit_value \<Rightarrow> restaurant \<Rightarrow> restaurant" where
  "write_config_audit env rq user subject old new r =
     r\<lparr>rt_audit := rt_audit r @ [\<lparr>ca_user = user, ca_email = ru_email rq, ca_changed_at = te_now env,
         ca_subject = subject, ca_old = old, ca_new = new, ca_ip = ru_ip rq, ca_agent = ru_agent rq\<rparr>]\<rparr>"

record config_update =
  cu_closed :: "bool option"
  cu_closure_message :: "string option"
  cu_default_message :: "string option"
  cu_prep_normal :: "int option"
  cu_prep_peak :: "int option"
  cu_peak_threshold :: "int option"
  cu_auto_prep :: "bool option"
  cu_overhead :: "int option"
  cu_timezone :: "string option"
  cu_threshold :: "rat option"
  cu_frying_oil :: "bool option"
  cu_dlc_gate :: "bool option"
  cu_currency :: "string option"
  cu_language :: "string option"

type_synonym field_updates = "(config_field \<times> config_value) list"

definition given :: "config_field \<Rightarrow> ('v \<Rightarrow> config_value) \<Rightarrow> 'v option \<Rightarrow> field_updates" where
  "given f tag v = (case v of None \<Rightarrow> [] | Some x \<Rightarrow> [(f, tag x)])"

definition text_value :: "string \<Rightarrow> config_value" where
  "text_value t = Cv_text (Some t)"

definition dump_config_update :: "config_update \<Rightarrow> field_updates" where
  "dump_config_update u =
     given F_closed Cv_bool (cu_closed u) @ given F_closure_message text_value (cu_closure_message u)
     @ given F_default_message text_value (cu_default_message u) @ given F_prep_normal Cv_int (cu_prep_normal u)
     @ given F_prep_peak Cv_int (cu_prep_peak u) @ given F_peak_threshold Cv_int (cu_peak_threshold u)
     @ given F_auto_prep Cv_bool (cu_auto_prep u) @ given F_overhead Cv_int (cu_overhead u)
     @ given F_timezone text_value (cu_timezone u) @ given F_threshold Cv_rat (cu_threshold u)
     @ given F_frying_oil Cv_bool (cu_frying_oil u) @ given F_dlc_gate Cv_bool (cu_dlc_gate u)
     @ given F_currency text_value (cu_currency u) @ given F_language text_value (cu_language u)"

text \<open>The last recorded switch of the temporary closure, and the two-minute pause after it.\<close>

definition last_toggle :: "config_audit list \<Rightarrow> config_audit option" where
  "last_toggle as =
     (case sort_key (\<lambda>a. - ca_changed_at a) (filter (\<lambda>a. ca_subject a = On_field F_closed) as) of
        [] \<Rightarrow> None | a # _ \<Rightarrow> Some a)"

definition cooling_down :: "instant \<Rightarrow> config_audit list \<Rightarrow> bool" where
  "cooling_down now as = (case last_toggle as of None \<Rightarrow> False | Some a \<Rightarrow> now - ca_changed_at a < 120 * 1000000)"

definition has_real_payment :: "payment list \<Rightarrow> bool" where
  "has_real_payment ps = list_ex (\<lambda>p. py_status p \<in> {Pt_paid, Pt_partial, Pt_refunded}) ps"

definition sanitize_update :: "tenant_env \<Rightarrow> config_field \<times> config_value \<Rightarrow> config_field \<times> config_value" where
  "sanitize_update env fv =
     (case fv of (f, v) \<Rightarrow>
        (f, if f \<in> {F_closure_message, F_default_message} then Cv_text (sanitize_message env (cv_text v None)) else v))"

text \<open>The audit rows of the values that differ from the row as it is before the update.\<close>

definition audit_updates :: "tenant_env \<Rightarrow> requester \<Rightarrow> tenant_settings \<Rightarrow> field_updates \<Rightarrow> restaurant \<Rightarrow> restaurant" where
  "audit_updates env rq c us r =
     (case ru_user rq of
        None \<Rightarrow> r
      | Some user \<Rightarrow>
          fold (\<lambda>(f, v) r. if config_get f c \<noteq> v
             then write_config_audit env rq user (On_field f) (Value_of (config_get f c)) (Value_of v) r else r) us r)"

definition set_fields :: "field_updates \<Rightarrow> tenant_settings \<Rightarrow> tenant_settings" where
  "set_fields us c = fold (\<lambda>(f, v). config_set f v) us c"

definition update_config ::
    "tenant_env \<Rightarrow> requester \<Rightarrow> config_update \<Rightarrow> payment list \<Rightarrow> restaurant \<Rightarrow> restaurant \<times> tenant_settings res" where
  "update_config env rq u payments r =
     (let (r1, c) = get_or_create_settings r; us = dump_config_update u
      in if cu_closed u \<noteq> None \<and> cooling_down (te_now env) (rt_audit r1) then (r1, Inl (AppError [] 429))
         else if (case cu_currency u of None \<Rightarrow> False | Some cur \<Rightarrow> cur \<noteq> ts_currency c) \<and> has_real_payment payments
         then (r1, Inl (AppError [] 409))
         else
           let us' = map (sanitize_update env) us;
               c' = set_fields us' c;
               r2 = (audit_updates env rq c us' r1)\<lparr>rt_config := Some c'\<rparr>;
               r3 = (if te_queue env \<and> cu_closed u \<noteq> None
                     then r2\<lparr>rt_jobs := rt_jobs r2 @ [ts_temporarily_closed c']\<rparr> else r2)
           in (r3, Inr c'))"

definition get_print_config :: "restaurant \<Rightarrow> restaurant \<times> bool \<times> json option" where
  "get_print_config r = (let (r1, c) = get_or_create_settings r in (r1, ts_print_enabled c, ts_print_config c))"

text \<open>One field: an audit row and the new value when the value differs.\<close>

definition track_field ::
    "tenant_env \<Rightarrow> requester \<Rightarrow> int \<Rightarrow> config_field \<times> config_value \<Rightarrow> restaurant \<times> tenant_settings \<Rightarrow> restaurant \<times> tenant_settings" where
  "track_field env rq user fv st =
     (case (fv, st) of ((f, v), (r, c)) \<Rightarrow>
        if config_get f c \<noteq> v
        then (write_config_audit env rq user (On_field f) (Value_of (config_get f c)) (Value_of v) r, config_set f v c)
        else (r, c))"

definition save_settings :: "restaurant \<times> tenant_settings \<Rightarrow> restaurant" where
  "save_settings st = (case st of (r, c) \<Rightarrow> r\<lparr>rt_config := Some c\<rparr>)"

definition update_print_config ::
    "tenant_env \<Rightarrow> requester \<Rightarrow> int \<Rightarrow> bool option \<Rightarrow> json option \<Rightarrow> restaurant \<Rightarrow> restaurant \<times> bool \<times> json option" where
  "update_print_config env rq user enabled config r =
     (let us = given F_print_enabled Cv_bool enabled @ given F_print_config (\<lambda>j. Cv_json (Some j)) config;
          (r1, c) = fold (track_field env rq user) us (get_or_create_settings r)
      in (save_settings (r1, c), ts_print_enabled c, ts_print_config c))"

definition schedule_closure ::
    "tenant_env \<Rightarrow> requester \<Rightarrow> int \<Rightarrow> instant option \<Rightarrow> string option \<Rightarrow> restaurant \<Rightarrow> restaurant \<times> tenant_settings" where
  "schedule_closure env rq user at_time message r =
     (let st = track_field env rq user (F_scheduled_close, Cv_instant at_time) (get_or_create_settings r);
          (r1, c) = (case message of None \<Rightarrow> st
            | Some m \<Rightarrow> track_field env rq user (F_closure_message, Cv_text (sanitize_message env (Some m))) st)
      in (save_settings (r1, c), c))"

text \<open>The worker's job for one restaurant, \<^verbatim>\<open>process_scheduled_closures\<close>: it writes both audit rows itself.\<close>

definition system_audit :: "tenant_env \<Rightarrow> config_field \<Rightarrow> config_value \<Rightarrow> config_value \<Rightarrow> config_audit" where
  "system_audit env f old new =
     \<lparr>ca_user = 0, ca_email = Some ''system'', ca_changed_at = te_now env, ca_subject = On_field f,
      ca_old = Value_of old, ca_new = Value_of new, ca_ip = None, ca_agent = None\<rparr>"

definition process_scheduled_closure :: "tenant_env \<Rightarrow> restaurant \<Rightarrow> restaurant" where
  "process_scheduled_closure env r =
     (case rt_config r of
        None \<Rightarrow> r
      | Some c \<Rightarrow>
          (case ts_scheduled_close_at c of
             None \<Rightarrow> r
           | Some t \<Rightarrow>
               if t \<le> te_now env
               then r\<lparr>rt_config := Some (c\<lparr>ts_temporarily_closed := True, ts_scheduled_close_at := None\<rparr>),
                      rt_audit := rt_audit r
                        @ [system_audit env F_closed (Cv_bool (ts_temporarily_closed c)) (Cv_bool True),
                           system_audit env F_scheduled_close (Cv_instant (Some t)) (Cv_instant None)],
                      rt_jobs := (if te_queue env then rt_jobs r @ [True] else rt_jobs r)\<rparr>
               else r))"

subsection \<open>Branding\<close>

definition branding_fields :: "config_field list" where
  "branding_fields = [F_display_name, F_logo_url, F_primary_color, F_secondary_color, F_font_family, F_contact_phone,
     F_contact_email, F_instagram_url, F_google_url]"

definition get_branding :: "restaurant \<Rightarrow> restaurant \<times> (config_field \<times> config_value) list" where
  "get_branding r = (let (r1, c) = get_or_create_settings r in (r1, map (\<lambda>f. (f, config_get f c)) branding_fields))"

definition set_branding ::
    "tenant_env \<Rightarrow> requester \<Rightarrow> int \<Rightarrow> (config_field \<times> string option) list \<Rightarrow> config_field
      \<Rightarrow> restaurant \<times> tenant_settings \<Rightarrow> restaurant \<times> tenant_settings" where
  "set_branding env rq user us f st =
     (case st of (r, c) \<Rightarrow>
        (case map_of us f of
           None \<Rightarrow> (r, c)
         | Some t \<Rightarrow>
             (write_config_audit env rq user (On_field f) (Value_of (config_get f c)) (Value_of (Cv_text t)) r,
              config_set f (Cv_text t) c)))"

definition update_branding ::
    "tenant_env \<Rightarrow> requester \<Rightarrow> int \<Rightarrow> (config_field \<times> string option) list \<Rightarrow> restaurant
      \<Rightarrow> restaurant \<times> (config_field \<times> config_value) list" where
  "update_branding env rq user us r =
     (let (r1, c) = fold (set_branding env rq user us) branding_fields (get_or_create_settings r)
      in (save_settings (r1, c), map (\<lambda>f. (f, config_get f c)) branding_fields))"

subsection \<open>What a request may say\<close>

definition supported_currencies :: "string list" where
  "supported_currencies = [''EUR'', ''USD'', ''GBP'', ''CAD'', ''CHF'', ''RSD'']"

definition supported_languages :: "string list" where
  "supported_languages = [''fr'', ''en'']"

definition within_range :: "int \<Rightarrow> int \<Rightarrow> int option \<Rightarrow> bool" where
  "within_range lo hi v = (case v of None \<Rightarrow> True | Some n \<Rightarrow> lo \<le> n \<and> n \<le> hi)"

definition short_message :: "string option \<Rightarrow> bool" where
  "short_message t = (case t of None \<Rightarrow> True | Some m \<Rightarrow> length m \<le> 500)"

definition listed :: "string list \<Rightarrow> string option \<Rightarrow> bool" where
  "listed xs t = (case t of None \<Rightarrow> True | Some x \<Rightarrow> x \<in> set xs)"

text \<open>\<^verbatim>\<open>TenantConfigUpdate\<close>: the validators run before the service sees the request; \<open>known_tz\<close> stands for the time zone
  database.\<close>

definition validate_config_update :: "(string \<Rightarrow> bool) \<Rightarrow> config_update \<Rightarrow> config_update res" where
  "validate_config_update known_tz u =
     (let u' = u\<lparr>cu_currency := map_option py_upper (cu_currency u), cu_language := map_option py_lower (cu_language u)\<rparr>
      in if short_message (cu_closure_message u) \<and> short_message (cu_default_message u)
            \<and> within_range 1 180 (cu_prep_normal u) \<and> within_range 1 360 (cu_prep_peak u)
            \<and> within_range 1 100 (cu_peak_threshold u) \<and> within_range 0 60 (cu_overhead u)
            \<and> (case cu_threshold u of None \<Rightarrow> True | Some q \<Rightarrow> 0 \<le> q)
            \<and> (case cu_timezone u of None \<Rightarrow> True | Some z \<Rightarrow> known_tz z)
            \<and> listed supported_currencies (cu_currency u') \<and> listed supported_languages (cu_language u')
         then Inr u' else Inl (AppError [] 422))"

definition blank_to_none :: "string option \<Rightarrow> string option" where
  "blank_to_none t = (case t of None \<Rightarrow> None | Some x \<Rightarrow> if py_strip x = [] then None else Some (py_strip x))"

definition hex_digit :: "char \<Rightarrow> bool" where
  "hex_digit c \<longleftrightarrow> c \<in> set ''0123456789abcdefABCDEF''"

definition hex_color :: "string \<Rightarrow> bool" where
  "hex_color s \<longleftrightarrow> length s = 7 \<and> hd s = CHR ''#'' \<and> list_all hex_digit (tl s)"

definition supported_fonts :: "string list" where
  "supported_fonts = [''inter'', ''poppins'', ''playfair_display'']"

text \<open>The validators of \<^verbatim>\<open>TenantBrandingUpdate\<close> that do not parse an address: what remains of a value, if it is accepted.
  The addresses of pages and mailboxes are judged by \<open>ok_address\<close>.\<close>

definition validate_branding :: "(config_field \<Rightarrow> string \<Rightarrow> bool) \<Rightarrow> config_field \<times> string option \<Rightarrow> (config_field \<times> string option) res" where
  "validate_branding ok_address ft =
     (case ft of (f, t) \<Rightarrow>
        let v = blank_to_none t;
            ok = (case v of None \<Rightarrow> True
              | Some x \<Rightarrow>
                  if f \<in> {F_primary_color, F_secondary_color} then hex_color x
                  else if f = F_font_family then x \<in> set supported_fonts
                  else if f = F_display_name then length x \<le> 120
                  else if f = F_contact_phone then length x \<le> 32
                  else ok_address f x)
        in if ok then Inr (f, v) else Inl (AppError [] 422))"

text \<open>\<^verbatim>\<open>TenantScheduledClosureRequest\<close>: only a moment to come, and a message of at most 500 characters.\<close>

definition validate_scheduled_closure :: "instant \<Rightarrow> instant option \<Rightarrow> string option \<Rightarrow> bool" where
  "validate_scheduled_closure now at_time message \<longleftrightarrow>
     (case at_time of None \<Rightarrow> True | Some t \<Rightarrow> now < t) \<and> short_message message"

end
