(* ===== verification/Tenant_Hours.thy ===== *)
theory Tenant_Hours
  imports Tenant_Settings
begin

text \<open>
  Opening hours, exceptional closures and what the public sees of them: whether the restaurant is open, how long the
  kitchen needs and when it opens next. Same source as \<open>Tenant_Settings\<close>.
\<close>

subsection \<open>Opening hours\<close>

definition get_business_hours :: "restaurant \<Rightarrow> opening_hours list" where
  "get_business_hours r = sort_key (\<lambda>h. (oh_day_of_week h, oh_slot_index h)) (rt_hours r)"

fun slots_apart :: "hours_slot list \<Rightarrow> bool" where
  "slots_apart (a # b # ss) \<longleftrightarrow> sl_closes_at a \<le> sl_opens_at b \<and> slots_apart (b # ss)"
| "slots_apart _ \<longleftrightarrow> True"

definition validate_no_overlap :: "hours_slot list \<Rightarrow> unit res" where
  "validate_no_overlap ss = (if slots_apart (sort_key sl_opens_at ss) then Inr () else Inl (AppError [] 422))"

definition hours_row :: "int \<Rightarrow> int \<Rightarrow> hours_slot \<Rightarrow> opening_hours" where
  "hours_row key d s =
     \<lparr>oh_id = key, oh_day_of_week = d, oh_slot_index = sl_slot_index s, oh_opens_at = sl_opens_at s,
      oh_closes_at = sl_closes_at s, oh_active = True\<rparr>"

fun hours_rows :: "int \<Rightarrow> int \<Rightarrow> hours_slot list \<Rightarrow> opening_hours list" where
  "hours_rows key d [] = []"
| "hours_rows key d (s # ss) = hours_row key d s # hours_rows (key + 1) d ss"

definition slot_of :: "opening_hours \<Rightarrow> hours_slot" where
  "slot_of h = \<lparr>sl_slot_index = oh_slot_index h, sl_opens_at = oh_opens_at h, sl_closes_at = oh_closes_at h\<rparr>"

text \<open>The slots of a day are replaced. The table checks \<^verbatim>\<open>closes_at > opens_at\<close> when the rows are written.\<close>

definition upsert_business_hours ::
    "tenant_env \<Rightarrow> requester \<Rightarrow> int \<Rightarrow> int \<Rightarrow> hours_slot list \<Rightarrow> restaurant \<Rightarrow> restaurant \<times> opening_hours list res" where
  "upsert_business_hours env rq key d slots r =
     (if \<not> (0 \<le> d \<and> d \<le> 6) then (r, Inl (AppError [] 422))
      else case validate_no_overlap slots of
        Inl e \<Rightarrow> (r, Inl e)
      | Inr _ \<Rightarrow>
          let (r1, c) = get_or_create_settings r;
              old = sort_key oh_slot_index (filter (\<lambda>h. oh_day_of_week h = d) (rt_hours r1));
              rows = hours_rows key d slots;
              r2 = r1\<lparr>rt_hours := filter (\<lambda>h. oh_day_of_week h \<noteq> d) (rt_hours r1) @ rows\<rparr>;
              r3 = (case ru_user rq of None \<Rightarrow> r2
                | Some user \<Rightarrow> write_config_audit env rq user (On_day d) (Slots_of (map slot_of old)) (Slots_of slots) r2)
          in if list_all (\<lambda>s. sl_opens_at s < sl_closes_at s) slots
             then (r3, Inr (sort_key oh_slot_index rows)) else (r1, Inl IntegrityError))"

definition delete_business_hours_day :: "int \<Rightarrow> restaurant \<Rightarrow> restaurant" where
  "delete_business_hours_day d r = r\<lparr>rt_hours := filter (\<lambda>h. oh_day_of_week h \<noteq> d) (rt_hours r)\<rparr>"

subsection \<open>Exceptional closures\<close>

definition get_exceptional_closures :: "restaurant \<Rightarrow> closure list" where
  "get_exceptional_closures r = sort_key xc_date (rt_closures r)"

definition add_exceptional_closure ::
    "tenant_env \<Rightarrow> int \<Rightarrow> day \<Rightarrow> string option \<Rightarrow> bool \<Rightarrow> restaurant \<Rightarrow> restaurant \<times> closure res" where
  "add_exceptional_closure env key d message use_default r =
     (let (r1, c) = get_or_create_settings r; today = fst (te_local env (ts_timezone c) (te_now env))
      in if d \<le> today then (r1, Inl (AppError [] 422))
         else if list_ex (\<lambda>x. xc_date x = d) (rt_closures r1) then (r1, Inl (AppError [] 409))
         else
           let x = \<lparr>xc_id = key, xc_date = d,
                    xc_custom_message = (if use_default then None else sanitize_message env message), xc_use_default = use_default\<rparr>
           in (r1\<lparr>rt_closures := rt_closures r1 @ [x]\<rparr>, Inr x))"

definition delete_exceptional_closure :: "int \<Rightarrow> restaurant \<Rightarrow> restaurant res" where
  "delete_exceptional_closure k r =
     (case row_get xc_id k (rt_closures r) of
        None \<Rightarrow> Inl (AppError [] 404)
      | Some _ \<Rightarrow> Inr (r\<lparr>rt_closures := filter (\<lambda>x. xc_id x \<noteq> k) (rt_closures r)\<rparr>))"

definition get_audit_log :: "nat \<Rightarrow> nat \<Rightarrow> restaurant \<Rightarrow> config_audit list \<times> nat" where
  "get_audit_log limit offset r =
     (take limit (drop offset (sort_key (\<lambda>a. - ca_changed_at a) (rt_audit r))), length (rt_audit r))"

subsection \<open>Status\<close>

text \<open>The code names a status \<^verbatim>\<open>in_preparation\<close>, which no order has.\<close>

definition get_active_orders_count :: "order list \<Rightarrow> int" where
  "get_active_orders_count os = int (length (filter (\<lambda>o1. ord_status o1 \<in> {Confirmed, Other_status ''in_preparation''}) os))"

definition compute_prep_time :: "tenant_settings \<Rightarrow> int \<Rightarrow> int" where
  "compute_prep_time c n =
     (if \<not> tc_auto_calc_prep_time c then tc_prep_time_normal c
      else if n \<ge> tc_peak_orders_threshold c
      then tc_prep_time_peak c + (n - tc_peak_orders_threshold c) * tc_overhead_per_order c
      else tc_prep_time_normal c + n * tc_overhead_per_order c)"

definition resolve_exceptional_message :: "closure \<Rightarrow> tenant_settings \<Rightarrow> string" where
  "resolve_exceptional_message x c =
     (if xc_use_default x then ts_default_message c
      else case xc_custom_message x of
        None \<Rightarrow> ts_default_message c
      | Some m \<Rightarrow> if m = [] then ts_default_message c else m)"

definition two_digits :: "int \<Rightarrow> string" where
  "two_digits n = (if n < 10 then ''0'' @ py_str_int n else py_str_int n)"

definition format_opening_time :: "opening_hours \<Rightarrow> string" where
  "format_opening_time h =
     py_str_int (oh_opens_at h div 3600000000) @ ''h'' @ two_digits (oh_opens_at h div 60000000 mod 60)"

definition day_names_fr :: "string list" where
  "day_names_fr = [''Lundi'', ''Mardi'', ''Mercredi'', ''Jeudi'', ''Vendredi'', ''Samedi'', ''Dimanche'']"

definition opening_label :: "int \<Rightarrow> day \<Rightarrow> opening_hours \<Rightarrow> string" where
  "opening_label delta d h =
     (if delta = 0 then ''Aujourd'' @ [CHR 0x27] @ ''hui '' @ format_opening_time h
      else if delta = 1 then ''Demain '' @ format_opening_time h
      else day_names_fr ! nat (weekday d) @ '' '' @ format_opening_time h)"

text \<open>The active slots of a weekday by opening time.\<close>

definition hours_of_day :: "int \<Rightarrow> opening_hours list \<Rightarrow> opening_hours list" where
  "hours_of_day wd hs =
     sort_key oh_opens_at (filter (\<lambda>h. oh_day_of_week h = wd)
       (sort_key (\<lambda>h. (oh_day_of_week h, oh_opens_at h)) (filter oh_active hs)))"

fun scan_days :: "opening_hours list \<Rightarrow> day list \<Rightarrow> day \<Rightarrow> tod \<Rightarrow> bool \<Rightarrow> int list \<Rightarrow> (int \<times> opening_hours) option" where
  "scan_days hs cs today now skip [] = None"
| "scan_days hs cs today now skip (k # ks) =
     (if k = 0 \<and> skip then scan_days hs cs today now skip ks
      else if today + k \<in> set cs then scan_days hs cs today now skip ks
      else case find (\<lambda>h. \<not> (k = 0 \<and> oh_opens_at h \<le> now)) (hours_of_day (weekday (today + k)) hs) of
        Some h \<Rightarrow> Some (k, h)
      | None \<Rightarrow> scan_days hs cs today now skip ks)"

definition next_opening_slot :: "restaurant \<Rightarrow> day \<Rightarrow> tod \<Rightarrow> bool \<Rightarrow> (int \<times> opening_hours) option" where
  "next_opening_slot r today now skip =
     scan_days (rt_hours r) (filter (\<lambda>d. d \<in> set (map (\<lambda>i. today + i) [0..7])) (map xc_date (rt_closures r)))
       today now skip [0..7]"

definition compute_next_opening :: "restaurant \<Rightarrow> day \<Rightarrow> tod \<Rightarrow> bool \<Rightarrow> string option" where
  "compute_next_opening r today now skip =
     map_option (\<lambda>(k, h). opening_label k (today + k) h) (next_opening_slot r today now skip)"

record tenant_status =
  tt_is_open :: bool
  tt_prep_time :: int
  tt_message :: "string option"
  tt_next_opening :: "string option"
  tt_active_orders :: int

definition status_at :: "restaurant \<Rightarrow> tenant_settings \<Rightarrow> order list \<Rightarrow> day \<Rightarrow> tod \<Rightarrow> tenant_status" where
  "status_at r c os today now =
     (let n = get_active_orders_count os; prep = compute_prep_time c n in
      if ts_temporarily_closed c
      then \<lparr>tt_is_open = False, tt_prep_time = prep,
            tt_message = Some (case ts_temporary_message c of
              None \<Rightarrow> ts_default_message c | Some m \<Rightarrow> if m = [] then ts_default_message c else m),
            tt_next_opening = compute_next_opening r today now True, tt_active_orders = n\<rparr>
      else case find (\<lambda>x. xc_date x = today) (rt_closures r) of
        Some x \<Rightarrow>
          \<lparr>tt_is_open = False, tt_prep_time = prep, tt_message = Some (resolve_exceptional_message x c),
           tt_next_opening = compute_next_opening r today now True, tt_active_orders = n\<rparr>
      | None \<Rightarrow>
          if list_ex (\<lambda>h. oh_opens_at h \<le> now \<and> now \<le> oh_closes_at h)
               (sort_key oh_slot_index (filter (\<lambda>h. oh_day_of_week h = weekday today \<and> oh_active h) (rt_hours r)))
          then \<lparr>tt_is_open = True, tt_prep_time = prep, tt_message = None, tt_next_opening = None, tt_active_orders = n\<rparr>
          else \<lparr>tt_is_open = False, tt_prep_time = prep, tt_message = None,
                tt_next_opening = compute_next_opening r today now False, tt_active_orders = n\<rparr>)"

definition get_tenant_status :: "tenant_env \<Rightarrow> order list \<Rightarrow> restaurant \<Rightarrow> restaurant \<times> tenant_status" where
  "get_tenant_status env os r =
     (let (r1, c) = get_or_create_settings r; (today, now) = te_local env (ts_timezone c) (te_now env)
      in (r1, status_at r1 c os today now))"

definition get_next_opening :: "tenant_env \<Rightarrow> restaurant \<Rightarrow> restaurant \<times> string option" where
  "get_next_opening env r =
     (let (r1, c) = get_or_create_settings r; (today, now) = te_local env (ts_timezone c) (te_now env)
      in (r1, compute_next_opening r1 today now False))"

end
