(* ===== verification/Tenant_Runs.thy ===== *)
theory Tenant_Runs
  imports Tenant_Hours Machines
begin

text \<open>
  The administration of a restaurant's settings as a step relation, and what every operation keeps: settings stay
  within the declared values, opening hours of a day do not overlap, and the audit trail explains the configuration.
\<close>

inductive tenant_step :: "payment list \<Rightarrow> restaurant \<Rightarrow> restaurant \<Rightarrow> bool" for payments where
  tstep_config: "ru_user rq \<noteq> None \<Longrightarrow> validate_config_update known_tz u = Inr u' \<Longrightarrow>
    update_config env rq u' payments r = (r', x) \<Longrightarrow> tenant_step payments r r'"
| tstep_print: "update_print_config env rq user enabled config r = (r', x) \<Longrightarrow> tenant_step payments r r'"
| tstep_schedule: "validate_scheduled_closure (te_now env) at_time message \<Longrightarrow>
    schedule_closure env rq user at_time message r = (r', c) \<Longrightarrow> tenant_step payments r r'"
| tstep_cron: "tenant_step payments r (process_scheduled_closure env r)"
| tstep_branding: "mapE (validate_branding ok_address) us = Inr us' \<Longrightarrow>
    update_branding env rq user us' r = (r', x) \<Longrightarrow> tenant_step payments r r'"
| tstep_hours: "upsert_business_hours env rq key d slots r = (r', x) \<Longrightarrow> tenant_step payments r r'"
| tstep_clear: "tenant_step payments r (delete_business_hours_day d r)"
| tstep_close: "add_exceptional_closure env key d message use_default r = (r', x) \<Longrightarrow> tenant_step payments r r'"
| tstep_reopen: "delete_exceptional_closure k r = Inr r' \<Longrightarrow> tenant_step payments r r'"
| tstep_status: "get_tenant_status env os r = (r', s) \<Longrightarrow> tenant_step payments r r'"

subsection \<open>Fields\<close>

lemma config_frame: "g \<noteq> f \<Longrightarrow> config_get g (config_set f v c) = config_get g c"
  by (cases f; cases g; simp)

text \<open>A value of the type of its column is read back.\<close>

definition fits :: "config_field \<Rightarrow> config_value \<Rightarrow> bool" where
  "fits f v \<longleftrightarrow> (\<forall>c. config_get f (config_set f v c) = v)"

lemma config_read: "fits f v \<Longrightarrow> config_get f (config_set f v c) = v"
  by (simp add: fits_def)

lemma fits_bool: "f \<in> {F_closed, F_auto_prep, F_frying_oil, F_dlc_gate, F_print_enabled} \<Longrightarrow> fits f (Cv_bool b)"
  by (auto simp: fits_def)

lemma fits_int: "f \<in> {F_prep_normal, F_prep_peak, F_peak_threshold, F_overhead} \<Longrightarrow> fits f (Cv_int n)"
  by (auto simp: fits_def)

lemma fits_some: "f \<in> {F_default_message, F_timezone, F_currency, F_language} \<Longrightarrow> fits f (Cv_text (Some t))"
  by (auto simp: fits_def cv_string_def)

lemma fits_text: "f \<in> insert F_closure_message (set branding_fields) \<Longrightarrow> fits f (Cv_text t)"
  by (auto simp: fits_def branding_fields_def)

lemma fits_rest: "fits F_threshold (Cv_rat q)" "fits F_scheduled_close (Cv_instant i)" "fits F_print_config (Cv_json j)"
  by (auto simp: fits_def)

lemmas fits_intros = fits_bool fits_int fits_some fits_text fits_rest

lemma set_given: "x \<in> set (given f tag v) \<longleftrightarrow> (\<exists>y. v = Some y \<and> x = (f, tag y))"
  by (auto simp: given_def split: option.splits)

lemma given_fits: "(f, v) \<in> set (given g tag w) \<Longrightarrow> (\<And>y. fits g (tag y)) \<Longrightarrow> fits f v"
  by (auto simp: set_given)

lemma dump_fits: "(f, v) \<in> set (dump_config_update u) \<Longrightarrow> fits f v"
  unfolding dump_config_update_def set_append Un_iff
  by (elim disjE; erule given_fits; ((unfold text_value_def)?); ((rule fits_rest)?); rule fits_bool fits_int fits_some fits_text; simp)

lemma given_absent: "g \<noteq> f \<Longrightarrow> g \<notin> fst ` set us \<Longrightarrow> g \<notin> fst ` set (given f tag v @ us)"
  and given_absent_last: "g \<noteq> f \<Longrightarrow> g \<notin> fst ` set (given f tag v)"
  by (auto simp: given_def split: option.splits)

lemma given_distinct: "f \<notin> fst ` set us \<Longrightarrow> distinct (map fst us) \<Longrightarrow> distinct (map fst (given f tag v @ us))"
  and given_distinct_last: "distinct (map fst (given f tag v))"
  by (auto simp: given_def split: option.splits)

lemma dump_distinct: "distinct (map fst (dump_config_update u))"
  unfolding dump_config_update_def
  by (intro given_distinct given_distinct_last given_absent given_absent_last config_field.distinct)

lemma sanitized_keys: "map fst (map (sanitize_update env) us) = map fst us"
  by (induction us) (auto simp: sanitize_update_def)

subsection \<open>The audit trail and the declared values\<close>

definition audited :: "config_field \<Rightarrow> config_audit list \<Rightarrow> audit_value" where
  "audited f as = fold (\<lambda>a v. if ca_subject a = On_field f then ca_new a else v) as
     (Value_of (config_get f default_settings_row))"

definition settings_of :: "restaurant \<Rightarrow> tenant_settings" where
  "settings_of r = snd (get_or_create_settings r)"

definition int_between :: "int \<Rightarrow> int \<Rightarrow> config_value \<Rightarrow> bool" where
  "int_between lo hi v \<longleftrightarrow> lo \<le> cv_int v lo \<and> cv_int v lo \<le> hi"

definition text_is :: "(string \<Rightarrow> bool) \<Rightarrow> config_value \<Rightarrow> bool" where
  "text_is p v \<longleftrightarrow> (case cv_text v None of None \<Rightarrow> True | Some t \<Rightarrow> p t)"

text \<open>The values a column may hold.\<close>

definition field_ok :: "config_field \<Rightarrow> config_value \<Rightarrow> bool" where
  "field_ok f v \<longleftrightarrow>
     (case f of
        F_prep_normal \<Rightarrow> int_between 1 180 v | F_prep_peak \<Rightarrow> int_between 1 360 v
      | F_peak_threshold \<Rightarrow> int_between 1 100 v | F_overhead \<Rightarrow> int_between 0 60 v
      | F_threshold \<Rightarrow> 0 \<le> cv_rat v 0
      | F_currency \<Rightarrow> text_is (\<lambda>t. t \<in> set supported_currencies) v
      | F_language \<Rightarrow> text_is (\<lambda>t. t \<in> set supported_languages) v
      | F_primary_color \<Rightarrow> text_is hex_color v | F_secondary_color \<Rightarrow> text_is hex_color v
      | F_font_family \<Rightarrow> text_is (\<lambda>t. t \<in> set supported_fonts) v
      | F_display_name \<Rightarrow> text_is (\<lambda>t. length t \<le> 120) v | F_contact_phone \<Rightarrow> text_is (\<lambda>t. length t \<le> 32) v
      | _ \<Rightarrow> True)"

text \<open>A configuration that holds admissible values only and is explained by the audit trail.\<close>

definition settled_config :: "restaurant \<Rightarrow> tenant_settings \<Rightarrow> bool" where
  "settled_config r c \<longleftrightarrow> (\<forall>f. field_ok f (config_get f c) \<and> Value_of (config_get f c) = audited f (rt_audit r))"

lemma audited_snoc: "audited f (as @ [a]) = (if ca_subject a = On_field f then ca_new a else audited f as)"
  by (simp add: audited_def)

lemma audited_last: "audited f as = last (Value_of (config_get f default_settings_row)
    # map ca_new (filter (\<lambda>a. ca_subject a = On_field f) as))"
  by (induction as rule: rev_induct) (auto simp: audited_snoc, simp add: audited_def)

lemma settled_write:
  assumes "settled_config r c" and "fits f v" and "field_ok f v"
  shows "settled_config (write_config_audit env rq user (On_field f) old (Value_of v) r) (config_set f v c)"
  using assms by (auto simp: settled_config_def write_config_audit_def audited_snoc config_read config_frame)

lemma config_set_same: "config_get f c = v \<Longrightarrow> fits f v \<Longrightarrow> config_get g (config_set f v c) = config_get g c"
  by (cases "g = f") (simp_all add: config_read config_frame)

lemma settled_track:
  assumes "case st of (r, c) \<Rightarrow> settled_config r c" and "fits f v" and "field_ok f v"
  shows "case track_field env rq user (f, v) st of (r, c) \<Rightarrow> settled_config r c"
  using assms settled_write by (auto simp: track_field_def split: prod.splits)

lemma settled_branding:
  assumes "case st of (r, c) \<Rightarrow> settled_config r c" and "f \<in> set branding_fields"
    and "\<And>t. map_of us f = Some t \<Longrightarrow> field_ok f (Cv_text t)"
  shows "case set_branding env rq user us f st of (r, c) \<Rightarrow> settled_config r c"
  using assms settled_write [OF _ fits_text] by (auto simp: set_branding_def split: prod.splits option.splits)

lemma settled_updates:
  assumes "settled_config r c" and "distinct (map fst us)" and "ru_user rq = Some user"
    and "\<And>f v. (f, v) \<in> set us \<Longrightarrow> fits f v \<and> field_ok f v \<and> config_get f c = config_get f c0"
  shows "settled_config (audit_updates env rq c0 us r) (set_fields us c)"
  using assms(1,2,4)
proof (induction us arbitrary: r c)
  case Nil
  then show ?case by (simp add: audit_updates_def set_fields_def assms(3))
next
  case (Cons u us)
  obtain f v where u: "u = (f, v)" by fastforce
  define r1 where "r1 = (if config_get f c0 \<noteq> v
    then write_config_audit env rq user (On_field f) (Value_of (config_get f c0)) (Value_of v) r else r)"
  have fv: "fits f v" "field_ok f v" "config_get f c = config_get f c0" using Cons.prems(3) [of f v] u by auto
  have "settled_config r1 (config_set f v c)"
  proof (cases "config_get f c0 = v")
    case True
    then show ?thesis
      using Cons.prems(1) config_set_same [OF _ fv(1), of c] fv(3) by (simp add: r1_def settled_config_def)
  next
    case False
    then show ?thesis using settled_write [OF Cons.prems(1) fv(1,2)] by (simp add: r1_def)
  qed
  moreover have "fits g w \<and> field_ok g w \<and> config_get g (config_set f v c) = config_get g c0" if "(g, w) \<in> set us" for g w
  proof -
    have "g \<noteq> f" using Cons.prems(2) that u by force
    then show ?thesis using Cons.prems(3) [of g w] that by (simp add: config_frame)
  qed
  ultimately have "settled_config (audit_updates env rq c0 us r1) (set_fields us (config_set f v c))"
    using Cons.prems(2) by (intro Cons.IH) auto
  then show ?case by (simp add: audit_updates_def set_fields_def assms(3) u r1_def)
qed

subsection \<open>Every operation\<close>

lemma settled_fresh: "settled_config r c \<Longrightarrow> rt_audit r' = rt_audit r \<Longrightarrow> settled_config r' c"
  by (simp add: settled_config_def)

lemma sanitized_update_cases:
  assumes "(f, v) \<in> set (map (sanitize_update env) us)"
  obtains v0 where "(f, v0) \<in> set us"
    and "v = (if f \<in> {F_closure_message, F_default_message} then Cv_text (sanitize_message env (cv_text v0 None)) else v0)"
  using assms by (auto simp: sanitize_update_def split: prod.splits)

lemma given_ok: "(f, v) \<in> set (given g tag w) \<Longrightarrow> (\<And>y. w = Some y \<Longrightarrow> field_ok g (tag y)) \<Longrightarrow> field_ok f v"
  by (auto simp: set_given)

lemma validated_ok:
  assumes "validate_config_update known_tz u = Inr u'" and "(f, v) \<in> set (dump_config_update u')"
  shows "field_ok f v"
proof -
  have ok: "within_range 1 180 (cu_prep_normal u')" "within_range 1 360 (cu_prep_peak u')" "within_range 1 100 (cu_peak_threshold u')"
    "within_range 0 60 (cu_overhead u')" "case cu_threshold u' of None \<Rightarrow> True | Some q \<Rightarrow> 0 \<le> q"
    "listed supported_currencies (cu_currency u')" "listed supported_languages (cu_language u')"
    using assms(1) by (auto simp: validate_config_update_def Let_def split: if_splits)
  show ?thesis
    using assms(2) unfolding dump_config_update_def set_append Un_iff
    apply (elim disjE) apply (erule given_ok; insert ok; simp add: field_ok_def text_value_def int_between_def within_range_def text_is_def listed_def)+ done
qed

lemma sanitized_text_dump:
  assumes "(f, v0) \<in> set (dump_config_update u)" and "f \<in> {F_closure_message, F_default_message}"
  shows "\<exists>t. v0 = Cv_text (Some t)"
  using assms unfolding dump_config_update_def set_append Un_iff set_given text_value_def by (elim disjE) auto

lemma update_settled:
  assumes "settled_config r c" and "rt_config r = Some c" and "ru_user rq = Some user"
    and "validate_config_update known_tz u = Inr u'"
    and "update_config env rq u' payments r = (r', x)"
  shows "settled_config r' (settings_of r')"
proof -
  define us where "us = map (sanitize_update env) (dump_config_update u')"
  have step: "fits f v \<and> field_ok f v \<and> config_get f c = config_get f c" if m: "(f, v) \<in> set us" for f v
  proof -
    obtain v0 where v0: "(f, v0) \<in> set (dump_config_update u')"
      and v: "v = (if f \<in> {F_closure_message, F_default_message} then Cv_text (sanitize_message env (cv_text v0 None)) else v0)"
      by (rule sanitized_update_cases [OF m [unfolded us_def]])
    show ?thesis
    proof (cases "f \<in> {F_closure_message, F_default_message}")
      case True
      then obtain t where "v = Cv_text (Some t)" using sanitized_text_dump [OF v0] v by (auto simp: sanitize_message_def)
      then show ?thesis using True by (auto simp: field_ok_def intro: fits_intros)
    next
      case False
      then show ?thesis using v dump_fits [OF v0] validated_ok [OF assms(4) v0] by simp
    qed
  qed
  have "distinct (map fst us)" by (simp add: us_def sanitized_keys dump_distinct del: map_map)
  from settled_updates [OF assms(1) this assms(3) step]
  have "settled_config (audit_updates env rq c us r) (set_fields us c)" by blast
  moreover have "rt_audit r' = rt_audit r \<and> rt_config r' = Some c
    \<or> rt_audit r' = rt_audit (audit_updates env rq c us r) \<and> rt_config r' = Some (set_fields us c)"
    using assms(2,5) unfolding update_config_def get_or_create_settings_def Let_def us_def [symmetric]
    by (auto split: if_splits)
  ultimately show ?thesis
    using assms(1) by (auto simp: settled_config_def settings_of_def get_or_create_settings_def)
qed

lemma settled_fold_track:
  assumes "settled_config r c" and "\<And>f v. (f, v) \<in> set us \<Longrightarrow> fits f v \<and> field_ok f v"
  shows "case fold (track_field env rq user) us (r, c) of (r, c) \<Rightarrow> settled_config r c"
  using assms
proof (induction us arbitrary: r c)
  case (Cons u us)
  obtain f v where u: "u = (f, v)" by fastforce
  obtain r1 c1 where t: "track_field env rq user (f, v) (r, c) = (r1, c1)" by fastforce
  have "settled_config r1 c1" using settled_track [of "(r, c)" f v env rq user] Cons.prems u t by auto
  then show ?case using Cons.IH Cons.prems(2) by (simp add: u t)
qed simp

lemma settled_fold_branding:
  assumes "settled_config r c" and "set fs \<subseteq> set branding_fields" and "\<And>f t. map_of us f = Some t \<Longrightarrow> f \<in> set fs \<Longrightarrow> field_ok f (Cv_text t)"
  shows "case fold (set_branding env rq user us) fs (r, c) of (r, c) \<Rightarrow> settled_config r c"
  using assms
proof (induction fs arbitrary: r c)
  case (Cons f fs)
  obtain r1 c1 where t: "set_branding env rq user us f (r, c) = (r1, c1)" by fastforce
  have "settled_config r1 c1" using settled_branding [of "(r, c)" f us env rq user] Cons.prems t by auto
  then show ?case using Cons.IH Cons.prems(2,3) by (simp add: t)
qed simp

lemma settled_saved: "settled_config r c \<Longrightarrow> settled_config (save_settings (r, c)) (settings_of (save_settings (r, c)))"
  by (simp add: settled_config_def save_settings_def settings_of_def get_or_create_settings_def)

lemma mapE_origin: "mapE f xs = Inr ys \<Longrightarrow> y \<in> set ys \<Longrightarrow> \<exists>x \<in> set xs. f x = Inr y"
  by (induction xs arbitrary: ys) auto

lemma validated_branding_ok:
  assumes "mapE (validate_branding ok_address) us = Inr us'" and "map_of us' f = Some t"
    and "f \<in> set branding_fields"
  shows "field_ok f (Cv_text t)"
proof -
  from assms(2) have m: "(f, t) \<in> set us'" by (rule map_of_SomeD)
  from mapE_origin [OF assms(1) m] obtain g s where "validate_branding ok_address (g, s) = Inr (f, t)"
    by auto
  then have v: "t = blank_to_none s" "case t of None \<Rightarrow> True | Some x \<Rightarrow>
      if f \<in> {F_primary_color, F_secondary_color} then hex_color x
      else if f = F_font_family then x \<in> set supported_fonts
      else if f = F_display_name then length x \<le> 120
      else if f = F_contact_phone then length x \<le> 32
      else ok_address f x"
    by (simp_all only: validate_branding_def Let_def prod.case if_split sum.inject prod.inject split: if_split_asm)
       (cases "blank_to_none s"; auto split: if_splits)+
  show ?thesis
    using v(2) assms(3) unfolding branding_fields_def by (cases f; cases t) (simp_all add: field_ok_def text_is_def int_between_def)
qed

definition hours_ok :: "restaurant \<Rightarrow> bool" where
  "hours_ok r \<longleftrightarrow> (\<forall>h \<in> set (rt_hours r). 0 \<le> oh_day_of_week h \<and> oh_day_of_week h \<le> 6 \<and> oh_opens_at h < oh_closes_at h)
     \<and> (\<forall>d t. length (filter (\<lambda>h. oh_day_of_week h = d \<and> oh_opens_at h \<le> t \<and> t < oh_closes_at h) (rt_hours r)) \<le> 1)
     \<and> distinct (map xc_date (rt_closures r))"

definition tenant_ok :: "restaurant \<Rightarrow> bool" where
  "tenant_ok r \<longleftrightarrow> settled_config r (settings_of r) \<and> hours_ok r"

lemma length_filter_le_filter: "length (filter p (filter q xs)) \<le> length (filter p xs)"
  by (induction xs) auto

lemma hours_ok_cong: "rt_hours r' = rt_hours r \<Longrightarrow> rt_closures r' = rt_closures r \<Longrightarrow> hours_ok r' = hours_ok r"
  by (simp add: hours_ok_def)

lemma slots_apart_sorted: "slots_apart ss \<Longrightarrow> sorted (map sl_opens_at ss) \<Longrightarrow> list_all (\<lambda>s. sl_opens_at s < sl_closes_at s) ss
    \<Longrightarrow> length (filter (\<lambda>s. sl_opens_at s \<le> t \<and> t < sl_closes_at s) ss) \<le> 1"
proof (induction ss rule: slots_apart.induct)
  case (1 a b ss)
  have "filter (\<lambda>s. sl_opens_at s \<le> t \<and> t < sl_closes_at s) (b # ss) = []" if "t < sl_closes_at a"
    using that 1(2,3) by (auto simp: filter_empty_conv)
  then show ?case using 1 by auto
qed auto

lemma hours_rows_day: "h \<in> set (hours_rows key d ss) \<Longrightarrow> oh_day_of_week h = d \<and> (\<exists>s \<in> set ss. oh_opens_at h = sl_opens_at s \<and> oh_closes_at h = sl_closes_at s)"
  by (induction ss arbitrary: key) (auto simp: hours_row_def)

lemma hours_rows_running:
  "length (filter (\<lambda>h. oh_day_of_week h = d' \<and> oh_opens_at h \<le> t \<and> t < oh_closes_at h) (hours_rows key d ss))
     = (if d' = d then length (filter (\<lambda>s. sl_opens_at s \<le> t \<and> t < sl_closes_at s) ss) else 0)"
  by (induction ss arbitrary: key) (auto simp: hours_row_def)

lemma upsert_hours_ok:
  assumes "upsert_business_hours env rq key d slots r = (r', x)" and "hours_ok r"
  shows "hours_ok r'"
proof (cases "rt_hours r' = filter (\<lambda>h. oh_day_of_week h \<noteq> d) (rt_hours r) @ hours_rows key d slots")
  case False
  have "rt_hours r' = rt_hours r \<and> rt_closures r' = rt_closures r"
    using assms(1) False by (auto simp: upsert_business_hours_def get_or_create_settings_def write_config_audit_def Let_def
        split: if_splits sum.splits option.splits)
  then show ?thesis using assms(2) hours_ok_cong by blast
next
  case True
  consider "rt_hours r' = rt_hours r \<and> rt_closures r' = rt_closures r"
    | "0 \<le> d \<and> d \<le> 6" "slots_apart (sort_key sl_opens_at slots)" "list_all (\<lambda>s. sl_opens_at s < sl_closes_at s) slots"
      "rt_closures r' = rt_closures r"
    using assms(1) by (auto simp: upsert_business_hours_def get_or_create_settings_def write_config_audit_def
        validate_no_overlap_def Let_def split: if_splits sum.splits option.splits)
  then show ?thesis
  proof cases
    case 1
    then show ?thesis using assms(2) hours_ok_cong by blast
  next
    case 2
    have "length (filter (\<lambda>s. sl_opens_at s \<le> t \<and> t < sl_closes_at s) slots)
        = length (filter (\<lambda>s. sl_opens_at s \<le> t \<and> t < sl_closes_at s) (sort_key sl_opens_at slots))" for t
      by (simp flip: size_mset add: mset_filter)
    moreover have "list_all (\<lambda>s. sl_opens_at s < sl_closes_at s) (sort_key sl_opens_at slots)"
      using 2(3) by (simp add: list_all_iff)
    ultimately have one: "length (filter (\<lambda>s. sl_opens_at s \<le> t \<and> t < sl_closes_at s) slots) \<le> 1" for t
      using slots_apart_sorted [OF 2(2)] by simp
    have "length (filter (\<lambda>h. oh_day_of_week h = d' \<and> oh_opens_at h \<le> t \<and> t < oh_closes_at h) (rt_hours r')) \<le> 1" for d' t
    proof (cases "d' = d")
      case True
      then have "filter (\<lambda>h. oh_day_of_week h = d' \<and> oh_opens_at h \<le> t \<and> t < oh_closes_at h)
          (filter (\<lambda>h. oh_day_of_week h \<noteq> d) (rt_hours r)) = []" by (auto simp: filter_empty_conv)
      then show ?thesis
        using one [of t] True by (simp add: \<open>rt_hours r' = _\<close> hours_rows_running del: filter_filter)
    next
      case False
      have "length (filter (\<lambda>h. oh_day_of_week h = d' \<and> oh_opens_at h \<le> t \<and> t < oh_closes_at h) (rt_hours r)) \<le> 1"
        using assms(2) by (simp add: hours_ok_def)
      moreover have "filter (\<lambda>h. oh_day_of_week h = d' \<and> oh_opens_at h \<le> t \<and> t < oh_closes_at h)
          (filter (\<lambda>h. oh_day_of_week h \<noteq> d) (rt_hours r))
        = filter (\<lambda>h. oh_day_of_week h = d' \<and> oh_opens_at h \<le> t \<and> t < oh_closes_at h) (rt_hours r)"
        using False by (auto intro!: filter_cong)
      ultimately show ?thesis using False by (simp add: \<open>rt_hours r' = _\<close> hours_rows_running del: filter_filter)
    qed
    moreover have "0 \<le> oh_day_of_week h \<and> oh_day_of_week h \<le> 6 \<and> oh_opens_at h < oh_closes_at h" if h: "h \<in> set (rt_hours r')" for h
      using h 2(1,3) assms(2) hours_rows_day [of h key d slots]
      by (auto simp: True hours_ok_def list_all_iff)
    ultimately show ?thesis using 2(4) assms(2) by (simp add: hours_ok_def)
  qed
qed

subsection \<open>Frames\<close>

lemma write_frame [simp]:
  "rt_hours (write_config_audit env rq user f old new r) = rt_hours r"
  "rt_closures (write_config_audit env rq user f old new r) = rt_closures r"
  "rt_config (write_config_audit env rq user f old new r) = rt_config r"
  by (simp_all add: write_config_audit_def)

lemma audit_updates_frame [simp]:
  "rt_hours (audit_updates env rq c us r) = rt_hours r" "rt_closures (audit_updates env rq c us r) = rt_closures r"
proof -
  have "rt_hours (fold (\<lambda>(f, v) r. if config_get f c \<noteq> v then write_config_audit env rq user (On_field f) (Value_of (config_get f c)) (Value_of v) r else r) us r) = rt_hours r
     \<and> rt_closures (fold (\<lambda>(f, v) r. if config_get f c \<noteq> v then write_config_audit env rq user (On_field f) (Value_of (config_get f c)) (Value_of v) r else r) us r) = rt_closures r" for user
    by (induction us arbitrary: r) auto
  then show "rt_hours (audit_updates env rq c us r) = rt_hours r" "rt_closures (audit_updates env rq c us r) = rt_closures r"
    by (simp_all add: audit_updates_def split: option.splits)
qed

lemma track_frame:
  "rt_hours (fst (track_field env rq user fv st)) = rt_hours (fst st)"
  "rt_closures (fst (track_field env rq user fv st)) = rt_closures (fst st)"
  by (simp_all add: track_field_def split: prod.splits)

lemma fold_track_frame:
  "rt_hours (fst (fold (track_field env rq user) us st)) = rt_hours (fst st)"
  "rt_closures (fst (fold (track_field env rq user) us st)) = rt_closures (fst st)"
  by (induction us arbitrary: st) (simp_all add: track_frame)

lemma fold_branding_frame:
  "rt_hours (fst (fold (set_branding env rq user us) fs st)) = rt_hours (fst st)"
  "rt_closures (fst (fold (set_branding env rq user us) fs st)) = rt_closures (fst st)"
  by (induction fs arbitrary: st) (simp_all add: set_branding_def split: prod.splits option.splits)

lemma save_frame: "rt_hours (save_settings st) = rt_hours (fst st)" "rt_closures (save_settings st) = rt_closures (fst st)"
  by (simp_all add: save_settings_def split: prod.splits)

lemma fetch_settings:
  "snd (get_or_create_settings r) = settings_of r" "rt_hours (fst (get_or_create_settings r)) = rt_hours r"
  "rt_closures (fst (get_or_create_settings r)) = rt_closures r" "rt_audit (fst (get_or_create_settings r)) = rt_audit r"
  "rt_config (fst (get_or_create_settings r)) = Some (settings_of r)"
  by (simp_all add: get_or_create_settings_def settings_of_def split: option.splits)

lemma fetch_pair: "get_or_create_settings r = (fst (get_or_create_settings r), settings_of r)"
  by (simp add: settings_of_def)

lemma settings_of_same: "rt_config r' = Some c \<Longrightarrow> settings_of r' = c"
  by (simp add: settings_of_def get_or_create_settings_def)

lemma settings_of_cong: "rt_config r' = rt_config r \<Longrightarrow> settings_of r' = settings_of r"
  by (simp add: settings_of_def get_or_create_settings_def split: option.splits)

lemma settled_fetched: "settled_config r (settings_of r) \<Longrightarrow> settled_config (fst (get_or_create_settings r)) (settings_of r)"
  by (rule settled_fresh) (simp_all add: fetch_settings)

text \<open>An operation on something else than the configuration, which at most creates the row and writes other audit rows.\<close>

lemma settled_elsewhere:
  assumes "settled_config r (settings_of r)" and "settings_of r' = settings_of r"
    and "rt_audit r' = rt_audit r \<or> (\<exists>a d. rt_audit r' = rt_audit r @ [a] \<and> ca_subject a = On_day d)"
  shows "settled_config r' (settings_of r')"
  using assms by (auto simp: settled_config_def audited_snoc)

subsection \<open>The invariant\<close>

lemma update_config_frame:
  "update_config env rq u ps r = (r', x) \<Longrightarrow> rt_hours r' = rt_hours r \<and> rt_closures r' = rt_closures r"
  by (auto simp: update_config_def Let_def get_or_create_settings_def split: if_splits option.splits)

lemma update_config_fetched:
  "update_config env rq u ps r = update_config env rq u ps (fst (get_or_create_settings r))"
  by (simp add: update_config_def get_or_create_settings_def split: option.splits)

lemma tracked_ok:
  assumes "tenant_ok r" and "\<And>f v. (f, v) \<in> set us \<Longrightarrow> fits f v \<and> field_ok f v"
  shows "tenant_ok (save_settings (fold (track_field env rq user) us (get_or_create_settings r)))"
proof -
  let ?st = "fold (track_field env rq user) us (get_or_create_settings r)"
  have "settled_config (fst (get_or_create_settings r)) (settings_of r)"
    using assms(1) by (intro settled_fetched) (simp add: tenant_ok_def)
  from settled_fold_track [OF this assms(2), of us env rq user] have "case ?st of (r, c) \<Rightarrow> settled_config r c"
    by (simp flip: fetch_pair)
  then have "settled_config (save_settings ?st) (settings_of (save_settings ?st))"
    by (cases ?st) (simp add: settled_saved)
  moreover have "hours_ok (save_settings ?st)"
    using assms(1) hours_ok_cong [of "save_settings ?st" r] by (simp add: tenant_ok_def save_frame fold_track_frame fetch_settings)
  ultimately show ?thesis by (simp add: tenant_ok_def)
qed

lemma branding_ok:
  assumes "tenant_ok r" and "mapE (validate_branding ok_address) us = Inr us'"
  shows "tenant_ok (save_settings (fold (set_branding env rq user us') branding_fields (get_or_create_settings r)))"
proof -
  let ?st = "fold (set_branding env rq user us') branding_fields (get_or_create_settings r)"
  have "settled_config (fst (get_or_create_settings r)) (settings_of r)"
    using assms(1) by (intro settled_fetched) (simp add: tenant_ok_def)
  from settled_fold_branding [OF this order_refl validated_branding_ok [OF assms(2)]]
  have "case ?st of (r, c) \<Rightarrow> settled_config r c" by (simp flip: fetch_pair)
  then have "settled_config (save_settings ?st) (settings_of (save_settings ?st))"
    by (cases ?st) (simp add: settled_saved)
  moreover have "hours_ok (save_settings ?st)"
    using assms(1) hours_ok_cong [of "save_settings ?st" r] by (simp add: tenant_ok_def save_frame fold_branding_frame fetch_settings)
  ultimately show ?thesis by (simp add: tenant_ok_def)
qed

lemma scheduled_ok:
  assumes "tenant_ok r"
  shows "tenant_ok (process_scheduled_closure env r)"
proof (cases "\<exists>c t. rt_config r = Some c \<and> ts_scheduled_close_at c = Some t \<and> t \<le> te_now env")
  case True
  then obtain c t where c: "rt_config r = Some c" "ts_scheduled_close_at c = Some t" "t \<le> te_now env" by blast
  let ?rq = "\<lparr>ru_user = None, ru_email = Some ''system'', ru_ip = None, ru_agent = None\<rparr>"
  define r1 where "r1 = write_config_audit env ?rq 0 (On_field F_closed) (Value_of (Cv_bool (ts_temporarily_closed c))) (Value_of (Cv_bool True)) r"
  define r2 where "r2 = write_config_audit env ?rq 0 (On_field F_scheduled_close) (Value_of (Cv_instant (Some t))) (Value_of (Cv_instant None)) r1"
  have "settled_config r c" using assms c(1) by (simp add: tenant_ok_def settings_of_same)
  then have "settled_config r1 (config_set F_closed (Cv_bool True) c)"
    unfolding r1_def by (rule settled_write) (simp_all add: fits_bool field_ok_def)
  then have s: "settled_config r2 (config_set F_scheduled_close (Cv_instant None) (config_set F_closed (Cv_bool True) c))"
    unfolding r2_def by (rule settled_write) (simp_all add: fits_rest field_ok_def)
  have "rt_audit (process_scheduled_closure env r) = rt_audit r2"
    "rt_config (process_scheduled_closure env r) = Some (config_set F_scheduled_close (Cv_instant None) (config_set F_closed (Cv_bool True) c))"
    "rt_hours (process_scheduled_closure env r) = rt_hours r" "rt_closures (process_scheduled_closure env r) = rt_closures r"
    using c by (simp_all add: process_scheduled_closure_def r2_def r1_def write_config_audit_def system_audit_def)
  then show ?thesis
    using s assms hours_ok_cong [of "process_scheduled_closure env r" r] settled_fresh [OF s, of "process_scheduled_closure env r"]
    by (simp add: tenant_ok_def settings_of_same)
next
  case False
  then have "process_scheduled_closure env r = r" by (auto simp: process_scheduled_closure_def split: option.splits)
  then show ?thesis using assms by simp
qed

lemma add_closure_cases:
  assumes "add_exceptional_closure env key d message use_default r = (r', x)"
  shows "rt_hours r' = rt_hours r \<and> rt_audit r' = rt_audit r \<and> rt_config r' = Some (settings_of r)
    \<and> (rt_closures r' = rt_closures r \<or> (\<exists>y. rt_closures r' = rt_closures r @ [y] \<and> xc_date y = d \<and> d \<notin> xc_date ` set (rt_closures r)))"
proof -
  obtain r1 c where f: "get_or_create_settings r = (r1, c)" by fastforce
  have "c = settings_of r" "rt_hours r1 = rt_hours r" "rt_audit r1 = rt_audit r" "rt_closures r1 = rt_closures r" "rt_config r1 = Some c"
    using f fetch_settings [of r] by simp_all
  then show ?thesis
    using assms by (simp add: add_exceptional_closure_def Let_def f split: if_splits) (auto simp: list_ex_iff)
qed

lemma tenant_ok_elsewhere:
  assumes "tenant_ok r" and "settings_of r' = settings_of r"
    and "rt_audit r' = rt_audit r \<or> (\<exists>a d. rt_audit r' = rt_audit r @ [a] \<and> ca_subject a = On_day d)" and "hours_ok r'"
  shows "tenant_ok r'"
  unfolding tenant_ok_def using settled_elsewhere [OF _ assms(2,3)] assms(1,4) unfolding tenant_ok_def by blast

lemma tenant_step_ok:
  assumes "tenant_step ps r r'" and ok: "tenant_ok r"
  shows "tenant_ok r'"
  using assms(1)
proof cases
  case (tstep_config rq known_tz u u' env x)
  let ?f = "fst (get_or_create_settings r)"
  have "settled_config ?f (settings_of r)" using ok by (intro settled_fetched) (simp add: tenant_ok_def)
  then have "settled_config r' (settings_of r')"
    using update_settled [of ?f "settings_of r" rq] tstep_config update_config_fetched [of env rq u' ps r] fetch_settings(5) [of r] by auto
  then show ?thesis using ok update_config_frame [OF tstep_config(3)] hours_ok_cong [of r' r] by (simp add: tenant_ok_def)
next
  case (tstep_print env rq user enabled config x)
  have "r' = save_settings (fold (track_field env rq user) (given F_print_enabled Cv_bool enabled @ given F_print_config (\<lambda>j. Cv_json (Some j)) config)
      (get_or_create_settings r))"
    using tstep_print by (auto simp: update_print_config_def Let_def split: prod.splits)
  also have "tenant_ok \<dots>"
    by (rule tracked_ok [OF ok]) (auto simp: set_given field_ok_def intro: fits_intros)
  finally show ?thesis .
next
  case (tstep_schedule env at_time message rq user c)
  define us where "us = (F_scheduled_close, Cv_instant at_time)
    # (case message of None \<Rightarrow> [] | Some m \<Rightarrow> [(F_closure_message, Cv_text (sanitize_message env (Some m)))])"
  have "r' = save_settings (fold (track_field env rq user) us (get_or_create_settings r))"
    using tstep_schedule(2) by (auto simp: schedule_closure_def us_def Let_def split: prod.splits option.splits)
  also have "tenant_ok \<dots>"
    by (rule tracked_ok [OF ok]) (auto simp: us_def field_ok_def intro: fits_intros split: option.splits)
  finally show ?thesis .
next
  case (tstep_cron env)
  then show ?thesis using scheduled_ok [OF ok] by simp
next
  case (tstep_branding ok_address us us' env rq user x)
  then have "r' = save_settings (fold (set_branding env rq user us') branding_fields (get_or_create_settings r))"
    by (auto simp: update_branding_def Let_def split: prod.splits)
  then show ?thesis using branding_ok [OF ok tstep_branding(1)] by simp
next
  case (tstep_hours env rq key d slots x)
  have "settings_of r' = settings_of r \<and> (rt_audit r' = rt_audit r \<or> (\<exists>a d. rt_audit r' = rt_audit r @ [a] \<and> ca_subject a = On_day d))"
    using tstep_hours by (auto simp: upsert_business_hours_def get_or_create_settings_def write_config_audit_def Let_def
        settings_of_def split: if_splits sum.splits option.splits)
  moreover have "hours_ok r'" using upsert_hours_ok [OF tstep_hours] ok by (simp add: tenant_ok_def)
  ultimately show ?thesis using tenant_ok_elsewhere [OF ok] by blast
next
  case (tstep_clear d)
  have "hours_ok r'"
    using ok tstep_clear unfolding tenant_ok_def hours_ok_def delete_business_hours_day_def
    by (auto intro: order_trans [OF length_filter_le_filter] simp del: filter_filter)
  moreover have "settings_of r' = settings_of r" "rt_audit r' = rt_audit r"
    using tstep_clear settings_of_cong [of r' r] by (simp_all add: delete_business_hours_day_def)
  ultimately show ?thesis using tenant_ok_elsewhere [OF ok] by blast
next
  case (tstep_close env key d message use_default x)
  have "settings_of r' = settings_of r \<and> rt_audit r' = rt_audit r \<and> rt_hours r' = rt_hours r
    \<and> (rt_closures r' = rt_closures r \<or> (\<exists>y. rt_closures r' = rt_closures r @ [y] \<and> xc_date y \<notin> xc_date ` set (rt_closures r)))"
    using add_closure_cases [OF tstep_close] settings_of_same by auto
  moreover from this have "hours_ok r'" using ok by (auto simp: tenant_ok_def hours_ok_def)
  ultimately show ?thesis using tenant_ok_elsewhere [OF ok] by blast
next
  case (tstep_reopen k)
  have "settings_of r' = settings_of r \<and> rt_audit r' = rt_audit r \<and> rt_hours r' = rt_hours r
    \<and> (\<exists>p. rt_closures r' = filter p (rt_closures r))"
    using tstep_reopen settings_of_cong [of r' r] by (auto simp: delete_exceptional_closure_def split: option.splits)
  moreover from this have "hours_ok r'" using ok by (auto simp: tenant_ok_def hours_ok_def distinct_map_filter)
  ultimately show ?thesis using tenant_ok_elsewhere [OF ok] by blast
next
  case (tstep_status env os s)
  then have "r' = fst (get_or_create_settings r)" by (auto simp: get_tenant_status_def Let_def split: prod.splits)
  then show ?thesis using ok settled_fetched [of r] hours_ok_cong [of r' r]
    by (simp add: tenant_ok_def fetch_settings settings_of_same)
qed

interpretation tenant_inv: invariant_steps "tenant_step ps" tenant_ok
  by unfold_locales (rule tenant_step_ok)

text \<open>A restaurant as it is provisioned: no row yet.\<close>

definition new_restaurant :: restaurant where
  "new_restaurant = \<lparr>rt_config = None, rt_hours = [], rt_closures = [], rt_audit = [], rt_jobs = []\<rparr>"

lemma default_field_ok: "field_ok f (config_get f default_settings_row)"
  by (cases f) (simp_all add: field_ok_def default_settings_row_def int_between_def text_is_def supported_currencies_def supported_languages_def)

lemma new_restaurant_ok: "tenant_ok new_restaurant"
  by (simp add: tenant_ok_def settled_config_def hours_ok_def new_restaurant_def settings_of_def get_or_create_settings_def
      audited_def default_field_ok)

end
