(* ===== verification/Tenant_Props.thy ===== *)
theory Tenant_Props
  imports Tenant_Runs
begin

text \<open>
  What the settings promise: admissible values, a complete audit trail, opening hours that never overlap, a currency
  that cannot change under settled payments, and an announced next opening that is true.
\<close>

definition demo_tenv :: tenant_env where
  "demo_tenv = \<lparr>te_now = 1000000000, te_local = (\<lambda>_ _. (736330, 36000000000)), te_clean = (\<lambda>t. t), te_queue = True\<rparr>"

definition demo_requester :: requester where
  "demo_requester = \<lparr>ru_user = Some 2, ru_email = None, ru_ip = None, ru_agent = None\<rparr>"

definition demo_update :: config_update where
  "demo_update = \<lparr>cu_closed = Some True, cu_closure_message = None, cu_default_message = None, cu_prep_normal = Some 30,
     cu_prep_peak = None, cu_peak_threshold = None, cu_auto_prep = None, cu_overhead = None, cu_timezone = None,
     cu_threshold = None, cu_frying_oil = None, cu_dlc_gate = None, cu_currency = None, cu_language = None\<rparr>"

lemma demo_update_validated: "validate_config_update (\<lambda>_. True) demo_update = Inr demo_update"
  by (simp add: validate_config_update_def demo_update_def short_message_def within_range_def listed_def Let_def)

definition demo_restaurant :: "payment list \<Rightarrow> restaurant" where
  "demo_restaurant ps = fst (update_config demo_tenv demo_requester demo_update ps new_restaurant)"

lemma demo_settings_run: "(tenant_step ps)\<^sup>*\<^sup>* new_restaurant (demo_restaurant ps)"
proof -
  have "ru_user demo_requester \<noteq> None" by (simp add: demo_requester_def)
  from tstep_config [OF this demo_update_validated, of demo_tenv ps new_restaurant]
  have "tenant_step ps new_restaurant (demo_restaurant ps)" by (auto simp: demo_restaurant_def intro: prod.collapse [symmetric])
  then show ?thesis by blast
qed

subsection \<open>Runs of the administration\<close>

text \<open>Settings keep their types: whatever sequence of configuration, branding, printing, scheduling and opening-hours
  requests a new restaurant receives, accepted or refused, its preparation times, thresholds, currency, language,
  font and colours stay within the declared ranges.\<close>

theorem settings_stay_valid:
  assumes "(tenant_step ps)\<^sup>*\<^sup>* new_restaurant r"
  shows "1 \<le> tc_prep_time_normal (settings_of r) \<and> tc_prep_time_normal (settings_of r) \<le> 180
    \<and> 1 \<le> tc_prep_time_peak (settings_of r) \<and> tc_prep_time_peak (settings_of r) \<le> 360
    \<and> 1 \<le> tc_peak_orders_threshold (settings_of r) \<and> tc_peak_orders_threshold (settings_of r) \<le> 100
    \<and> 0 \<le> tc_overhead_per_order (settings_of r) \<and> tc_overhead_per_order (settings_of r) \<le> 60
    \<and> 0 \<le> ts_adjustment_threshold (settings_of r)
    \<and> ts_currency (settings_of r) \<in> set supported_currencies \<and> ts_language (settings_of r) \<in> set supported_languages
    \<and> (\<forall>s. ts_primary_color (settings_of r) = Some s \<longrightarrow> hex_color s)
    \<and> (\<forall>s. ts_font_family (settings_of r) = Some s \<longrightarrow> s \<in> set supported_fonts)"
proof -
  have "tenant_ok r" by (rule tenant_inv.run_inv [OF assms new_restaurant_ok])
  then have ok: "field_ok f (config_get f (settings_of r))" for f by (simp add: tenant_ok_def settled_config_def)
  show ?thesis
    using ok [of F_prep_normal] ok [of F_prep_peak] ok [of F_peak_threshold] ok [of F_overhead] ok [of F_threshold]
      ok [of F_currency] ok [of F_language] ok [of F_primary_color] ok [of F_font_family]
    by (simp add: field_ok_def int_between_def text_is_def split: option.splits)
qed

theorem settings_stay_valid_witness:
  "\<exists>r. (tenant_step [])\<^sup>*\<^sup>* new_restaurant r \<and> tc_prep_time_normal (settings_of r) \<le> 180"
  using settings_stay_valid [OF demo_settings_run] demo_settings_run by blast

text \<open>C28. Nothing changes unnoticed: for a new restaurant, after any sequence of these requests and of the closing job, the
  value of every setting is the one recorded last for it in the audit trail, or the initial value when nothing was
  recorded.\<close>

theorem audit_trail_explains_settings:
  assumes "(tenant_step ps)\<^sup>*\<^sup>* new_restaurant r"
  shows "Value_of (config_get f (settings_of r))
    = last (Value_of (config_get f default_settings_row) # map ca_new (filter (\<lambda>a. ca_subject a = On_field f) (rt_audit r)))"
proof -
  have "tenant_ok r" by (rule tenant_inv.run_inv [OF assms new_restaurant_ok])
  then have "Value_of (config_get f (settings_of r)) = audited f (rt_audit r)" by (simp add: tenant_ok_def settled_config_def)
  then show ?thesis by (simp add: audited_last)
qed

theorem audit_trail_explains_settings_witness:
  "\<exists>r. (tenant_step [])\<^sup>*\<^sup>* new_restaurant r \<and> Value_of (config_get F_closed (settings_of r))
     = last (Value_of (Cv_bool False) # map ca_new (filter (\<lambda>a. ca_subject a = On_field F_closed) (rt_audit r)))"
  using audit_trail_explains_settings [OF demo_settings_run [of "[]"], of F_closed] demo_settings_run [of "[]"]
  by (intro exI [of _ "demo_restaurant []"]) (simp add: default_settings_row_def)

text \<open>Opening hours never overlap: after any sequence of requests, refused ones included, at every moment of every
  weekday at most one slot of a restaurant is running, every slot closes after it opens, and no date is closed
  twice.\<close>

theorem opening_hours_never_overlap:
  assumes "(tenant_step ps)\<^sup>*\<^sup>* new_restaurant r"
  shows "length (filter (\<lambda>h. oh_day_of_week h = d \<and> oh_opens_at h \<le> t \<and> t < oh_closes_at h) (rt_hours r)) \<le> 1
    \<and> (\<forall>h \<in> set (rt_hours r). 0 \<le> oh_day_of_week h \<and> oh_day_of_week h \<le> 6 \<and> oh_opens_at h < oh_closes_at h)
    \<and> distinct (map xc_date (rt_closures r))"
proof -
  have "tenant_ok r" by (rule tenant_inv.run_inv [OF assms new_restaurant_ok])
  then show ?thesis by (simp add: tenant_ok_def hours_ok_def)
qed

definition demo_slots :: "hours_slot list" where
  "demo_slots = [\<lparr>sl_slot_index = 1, sl_opens_at = 64800000000, sl_closes_at = 79200000000\<rparr>,
     \<lparr>sl_slot_index = 0, sl_opens_at = 39600000000, sl_closes_at = 50400000000\<rparr>]"

definition demo_open :: restaurant where
  "demo_open = fst (upsert_business_hours demo_tenv demo_requester 1 3 demo_slots new_restaurant)"

lemma demo_open_run: "(tenant_step [])\<^sup>*\<^sup>* new_restaurant demo_open"
  unfolding demo_open_def by (metis prod.collapse tstep_hours r_into_rtranclp)

lemma demo_open_fields: "rt_hours demo_open = hours_rows 1 3 demo_slots" "rt_closures demo_open = []"
  by (simp_all add: demo_open_def upsert_business_hours_def validate_no_overlap_def demo_slots_def new_restaurant_def
      get_or_create_settings_def demo_requester_def write_config_audit_def Let_def)

theorem opening_hours_never_overlap_witness:
  "\<exists>r. (tenant_step [])\<^sup>*\<^sup>* new_restaurant r \<and> length (rt_hours r) = 2
     \<and> length (filter (\<lambda>h. oh_day_of_week h = 3 \<and> oh_opens_at h \<le> 40000000000 \<and> 40000000000 < oh_closes_at h) (rt_hours r)) \<le> 1"
proof (intro exI conjI)
  show "(tenant_step [])\<^sup>*\<^sup>* new_restaurant demo_open" by (rule demo_open_run)
  show "length (rt_hours demo_open) = 2" by (simp add: demo_open_fields demo_slots_def)
  show "length (filter (\<lambda>h. oh_day_of_week h = 3 \<and> oh_opens_at h \<le> 40000000000 \<and> 40000000000 < oh_closes_at h) (rt_hours demo_open)) \<le> 1"
    using opening_hours_never_overlap [OF demo_open_run, of 3 40000000000] by simp
qed

subsection \<open>The currency\<close>

lemma set_fields_keeps:
  "(\<And>v. (g, v) \<in> set us \<Longrightarrow> v = config_get g c \<and> fits g v) \<Longrightarrow> config_get g (set_fields us c) = config_get g c"
proof (induction us arbitrary: c)
  case (Cons u us)
  obtain f v where u: "u = (f, v)" by fastforce
  have "config_get g (config_set f v c) = config_get g c"
    using Cons.prems [of v] u by (cases "f = g") (auto simp: config_read config_frame)
  then show ?case using Cons by (simp add: set_fields_def u)
qed (simp add: set_fields_def)

lemma track_keeps: "g \<notin> fst ` set us \<Longrightarrow> config_get g (snd (fold (track_field env rq user) us st)) = config_get g (snd st)"
  by (induction us arbitrary: st) (auto simp: track_field_def config_frame split: prod.splits)

lemma branding_keeps: "g \<notin> set fs \<Longrightarrow> config_get g (snd (fold (set_branding env rq user us) fs st)) = config_get g (snd st)"
  by (induction fs arbitrary: st) (auto simp: set_branding_def config_frame split: prod.splits option.splits)

lemma saved_settings: "settings_of (save_settings st) = snd st"
  by (cases st) (simp add: save_settings_def settings_of_same)

lemma update_config_currency:
  assumes "update_config env rq u ps r = (r', x)" and "has_real_payment ps"
  shows "ts_currency (settings_of r') = ts_currency (settings_of r)"
proof -
  define us where "us = map (sanitize_update env) (dump_config_update u)"
  have "rt_config r' = Some (settings_of r) \<or> (rt_config r' = Some (set_fields us (settings_of r))
      \<and> (\<forall>cur. cu_currency u = Some cur \<longrightarrow> cur = ts_currency (settings_of r)))"
    using assms fetch_settings(5) [of r] unfolding update_config_def Let_def us_def [symmetric]
    by (subst (asm) (1) fetch_pair) (auto split: if_splits option.splits)
  moreover have "v = config_get F_currency (settings_of r) \<and> fits F_currency v"
    if m: "(F_currency, v) \<in> set us" and "\<forall>cur. cu_currency u = Some cur \<longrightarrow> cur = ts_currency (settings_of r)" for v
  proof -
    obtain v0 where v0: "(F_currency, v0) \<in> set (dump_config_update u)" and v: "v = v0"
      by (rule sanitized_update_cases [OF m [unfolded us_def]]) simp
    then have "cu_currency u \<noteq> None" "v = Cv_text (cu_currency u)"
      by (auto simp: dump_config_update_def set_given text_value_def)
    then show ?thesis using that(2) by (auto intro: fits_some)
  qed
  then have "config_get F_currency (set_fields us (settings_of r)) = config_get F_currency (settings_of r)"
    if "\<forall>cur. cu_currency u = Some cur \<longrightarrow> cur = ts_currency (settings_of r)"
    using that by (intro set_fields_keeps) blast
  ultimately show ?thesis by (auto simp: settings_of_same)
qed

lemma step_currency:
  assumes "tenant_step ps r r'" and "has_real_payment ps"
  shows "ts_currency (settings_of r') = ts_currency (settings_of r)"
  using assms(1)
proof cases
  case (tstep_config rq known_tz u u' env x)
  then show ?thesis using update_config_currency assms(2) by blast
next
  case (tstep_print env rq user enabled config x)
  have "r' = save_settings (fold (track_field env rq user) (given F_print_enabled Cv_bool enabled @ given F_print_config (\<lambda>j. Cv_json (Some j)) config)
      (get_or_create_settings r))"
    using tstep_print by (auto simp: update_print_config_def Let_def split: prod.splits)
  moreover have "F_currency \<notin> fst ` set (given F_print_enabled Cv_bool enabled @ given F_print_config (\<lambda>j. Cv_json (Some j)) config)"
    by (auto simp: set_given)
  note track_keeps [OF this, of env rq user "get_or_create_settings r"]
  ultimately show ?thesis by (simp add: saved_settings fetch_settings)
next
  case (tstep_schedule env at_time message rq user c)
  define us where "us = (F_scheduled_close, Cv_instant at_time)
    # (case message of None \<Rightarrow> [] | Some m \<Rightarrow> [(F_closure_message, Cv_text (sanitize_message env (Some m)))])"
  have "r' = save_settings (fold (track_field env rq user) us (get_or_create_settings r))"
    using tstep_schedule(2) by (auto simp: schedule_closure_def us_def Let_def split: prod.splits option.splits)
  moreover have "F_currency \<notin> fst ` set us" by (auto simp: us_def split: option.splits)
  ultimately show ?thesis
    using track_keeps [of F_currency us env rq user "get_or_create_settings r"] by (simp add: saved_settings fetch_settings)
next
  case (tstep_cron env)
  then show ?thesis
    by (auto simp: process_scheduled_closure_def settings_of_def get_or_create_settings_def split: option.splits)
next
  case (tstep_branding ok_address us us' env rq user x)
  then have "r' = save_settings (fold (set_branding env rq user us') branding_fields (get_or_create_settings r))"
    by (auto simp: update_branding_def Let_def split: prod.splits)
  then show ?thesis
    using branding_keeps [of F_currency branding_fields env rq user us' "get_or_create_settings r"]
    by (simp add: saved_settings fetch_settings branding_fields_def)
next
  case (tstep_hours env rq key d slots x)
  then have "settings_of r' = settings_of r"
    by (auto simp: upsert_business_hours_def get_or_create_settings_def write_config_audit_def Let_def
        settings_of_def split: if_splits sum.splits option.splits)
  then show ?thesis by simp
next
  case (tstep_clear d)
  then show ?thesis using settings_of_cong [of r' r] by (simp add: delete_business_hours_day_def)
next
  case (tstep_close env key d message use_default x)
  then show ?thesis using add_closure_cases settings_of_same by metis
next
  case (tstep_reopen k)
  then show ?thesis using settings_of_cong [of r' r] by (auto simp: delete_exceptional_closure_def split: option.splits)
next
  case (tstep_status env os s)
  then have "r' = fst (get_or_create_settings r)" by (auto simp: get_tenant_status_def Let_def split: prod.splits)
  then show ?thesis by (simp add: fetch_settings settings_of_same)
qed

interpretation currency_inv: invariant_steps "tenant_step ps" "\<lambda>r. has_real_payment ps \<longrightarrow> ts_currency (settings_of r) = cur"
  for cur
  by unfold_locales (auto dest: step_currency)

text \<open>Money keeps its currency: while some payment of the restaurant has been collected (paid, partly or fully
  refunded), no sequence of requests changes the currency in which the restaurant charges.\<close>

theorem currency_is_locked:
  assumes "(tenant_step ps)\<^sup>*\<^sup>* r r'" and "has_real_payment ps"
  shows "ts_currency (settings_of r') = ts_currency (settings_of r)"
  using currency_inv.run_inv [OF assms(1)] assms(2) by blast

definition demo_collected_payment :: payment where
  "demo_collected_payment = \<lparr>py_id = 1, py_order_id = 5, py_provider = ''stripe'', py_provider_payment_id = None, py_purpose = Sale,
     py_amount = 24, py_amount_received = None, py_currency = ''EUR'', py_status = Pt_paid, py_captured = None,
     py_settled_at = None, py_settled_by = None, py_note = None, py_account = None, py_reference = None,
     py_expires_at = None, py_created_by = None, py_created_at = 0, py_terms = None, py_terms_at = None\<rparr>"

theorem currency_is_locked_witness:
  "\<exists>r. (tenant_step [demo_collected_payment])\<^sup>*\<^sup>* new_restaurant r \<and> ts_currency (settings_of r) = ''EUR''"
proof -
  have "has_real_payment [demo_collected_payment]" by (simp add: has_real_payment_def demo_collected_payment_def)
  from currency_is_locked [OF demo_settings_run this] demo_settings_run show ?thesis
    by (intro exI [of _ "demo_restaurant [demo_collected_payment]"])
       (simp add: new_restaurant_def settings_of_def get_or_create_settings_def default_settings_row_def)
qed

subsection \<open>The announced opening\<close>

lemma find_least:
  assumes "sorted (map f xs)" and "find P xs = Some x"
  shows "P x \<and> x \<in> set xs \<and> (\<forall>y \<in> set xs. P y \<longrightarrow> f x \<le> f y)"
  using assms by (induction xs) (auto split: if_splits)

text \<open>An opening on day \<open>k\<close> from today that is still to come.\<close>

definition opening_to_come ::
    "opening_hours list \<Rightarrow> day set \<Rightarrow> day \<Rightarrow> tod \<Rightarrow> bool \<Rightarrow> int \<Rightarrow> opening_hours \<Rightarrow> bool" where
  "opening_to_come hs cs today now skip k h \<longleftrightarrow>
     \<not> (k = 0 \<and> skip) \<and> today + k \<notin> cs \<and> h \<in> set hs \<and> oh_active h \<and> oh_day_of_week h = weekday (today + k)
     \<and> \<not> (k = 0 \<and> oh_opens_at h \<le> now)"

lemma hours_of_day_set: "h \<in> set (hours_of_day wd hs) \<longleftrightarrow> h \<in> set hs \<and> oh_active h \<and> oh_day_of_week h = wd"
  by (auto simp: hours_of_day_def)

lemma hours_of_day_sorted: "sorted (map oh_opens_at (hours_of_day wd hs))"
  by (simp add: hours_of_day_def)

lemma scan_days_spec:
  assumes "sorted_wrt (<) ks"
  shows "case scan_days hs cs today now skip ks of
      None \<Rightarrow> \<forall>k \<in> set ks. \<forall>h. \<not> opening_to_come hs (set cs) today now skip k h
    | Some (k, h) \<Rightarrow> k \<in> set ks \<and> opening_to_come hs (set cs) today now skip k h
        \<and> (\<forall>k' \<in> set ks. \<forall>h'. opening_to_come hs (set cs) today now skip k' h' \<longrightarrow> (k, oh_opens_at h) \<le> (k', oh_opens_at h'))"
  using assms
proof (induction ks)
  case (Cons k ks)
  let ?P = "\<lambda>h. \<not> (k = 0 \<and> oh_opens_at h \<le> now)"
  show ?case
  proof (cases "(k = 0 \<and> skip) \<or> today + k \<in> set cs \<or> find ?P (hours_of_day (weekday (today + k)) hs) = None")
    case True
    have "\<not> opening_to_come hs (set cs) today now skip k h" for h
      using True by (auto simp: opening_to_come_def find_None_iff hours_of_day_set)
    moreover have "scan_days hs cs today now skip (k # ks) = scan_days hs cs today now skip ks" using True by auto
    ultimately show ?thesis using Cons by (auto split: option.splits)
  next
    case False
    then obtain h where h: "find ?P (hours_of_day (weekday (today + k)) hs) = Some h" by auto
    from find_least [OF hours_of_day_sorted h] have l: "?P h" "h \<in> set hs" "oh_active h" "oh_day_of_week h = weekday (today + k)"
      "\<And>h'. h' \<in> set hs \<Longrightarrow> oh_active h' \<Longrightarrow> oh_day_of_week h' = weekday (today + k) \<Longrightarrow> ?P h' \<Longrightarrow> oh_opens_at h \<le> oh_opens_at h'"
      by (auto simp: hours_of_day_set)
    have "scan_days hs cs today now skip (k # ks) = Some (k, h)" using False h by auto
    moreover have "opening_to_come hs (set cs) today now skip k h" using False l by (auto simp: opening_to_come_def)
    moreover have "(k, oh_opens_at h) \<le> (k', oh_opens_at h')"
      if "k' \<in> set (k # ks)" "opening_to_come hs (set cs) today now skip k' h'" for k' h'
      using that Cons.prems l(5) [of h'] by (auto simp: opening_to_come_def less_eq_prod_simp)
    moreover have "k \<in> set (k # ks)" by simp
    ultimately show ?thesis by (simp only: option.case prod.case) blast
  qed
qed simp

lemma next_opening_spec:
  "case next_opening_slot r today now skip of
      None \<Rightarrow> \<forall>k \<in> {0..7}. \<forall>h. \<not> opening_to_come (rt_hours r) (xc_date ` set (rt_closures r)) today now skip k h
    | Some (k, h) \<Rightarrow> k \<in> {0..7} \<and> opening_to_come (rt_hours r) (xc_date ` set (rt_closures r)) today now skip k h
        \<and> (\<forall>k' \<in> {0..7}. \<forall>h'. opening_to_come (rt_hours r) (xc_date ` set (rt_closures r)) today now skip k' h' \<longrightarrow> (k, oh_opens_at h) \<le> (k', oh_opens_at h'))"
proof -
  define cs where "cs = filter (\<lambda>d. d \<in> set (map (\<lambda>i. today + i) [0..7])) (map xc_date (rt_closures r))"
  have s: "sorted_wrt (<) [0..7::int]" by (simp add: upto_rec1)
  have eq: "opening_to_come (rt_hours r) (set cs) today now skip k h = opening_to_come (rt_hours r) (xc_date ` set (rt_closures r)) today now skip k h"
    if "0 \<le> k" "k \<le> 7" for k h using that by (auto simp: opening_to_come_def cs_def)
  have "next_opening_slot r today now skip = scan_days (rt_hours r) cs today now skip [0..7]"
    by (simp only: next_opening_slot_def cs_def)
  with scan_days_spec [OF s, of "rt_hours r" cs today now skip] show ?thesis by (auto simp: eq split: option.splits)
qed

lemma open_iff:
  "tt_is_open (status_at r c os d t) \<longleftrightarrow> \<not> ts_temporarily_closed c \<and> d \<notin> xc_date ` set (rt_closures r)
    \<and> (\<exists>h \<in> set (rt_hours r). oh_active h \<and> oh_day_of_week h = weekday d \<and> oh_opens_at h \<le> t \<and> t \<le> oh_closes_at h)"
  by (auto simp: status_at_def Let_def find_None_iff find_Some_iff list_ex_iff split: option.splits)

lemma status_announces:
  assumes "\<not> ts_temporarily_closed c" and "\<not> tt_is_open (status_at r c os today now)"
  shows "tt_next_opening (status_at r c os today now)
    = map_option (\<lambda>(k, h). opening_label k (today + k) h) (next_opening_slot r today now (today \<in> xc_date ` set (rt_closures r)))"
proof (cases "today \<in> xc_date ` set (rt_closures r)")
  case True
  then obtain x where "find (\<lambda>x. xc_date x = today) (rt_closures r) = Some x"
    by (cases "find (\<lambda>x. xc_date x = today) (rt_closures r)") (auto simp: find_None_iff)
  then show ?thesis using assms(1) True by (simp add: status_at_def Let_def compute_next_opening_def)
next
  case False
  then have "find (\<lambda>x. xc_date x = today) (rt_closures r) = None" by (auto simp: find_None_iff)
  then show ?thesis using assms False by (simp add: status_at_def Let_def compute_next_opening_def split: if_splits)
qed

text \<open>If the restaurant is closed now, it can be open later only through an opening that is still to come.\<close>

lemma open_by_opening_to_come:
  assumes "\<not> ts_temporarily_closed c" and "\<not> tt_is_open (status_at r c os today now)"
    and "(today, now) \<le> (d, t)" and "tt_is_open (status_at r c os d t)"
  shows "\<exists>h. opening_to_come (rt_hours r) (xc_date ` set (rt_closures r)) today now (today \<in> xc_date ` set (rt_closures r)) (d - today) h
    \<and> oh_opens_at h \<le> t"
proof -
  obtain h where h: "h \<in> set (rt_hours r)" "oh_active h" "oh_day_of_week h = weekday d" "oh_opens_at h \<le> t" "t \<le> oh_closes_at h"
    "d \<notin> xc_date ` set (rt_closures r)" using assms(4) by (auto simp: open_iff)
  have "now < oh_opens_at h" if d: "d = today"
  proof (rule ccontr)
    assume "\<not> now < oh_opens_at h"
    then have "tt_is_open (status_at r c os today now)" using h d assms(1,3) by (auto simp: open_iff intro!: bexI [of _ h])
    then show False using assms(2) by simp
  qed
  then show ?thesis using h by (auto simp: opening_to_come_def)
qed

text \<open>C29. The announced opening is true: when the restaurant is closed but not by hand, it stays closed until the opening it
  announces and is open at that very moment; when it announces none, it stays closed for today and the seven days after.
  The announcement is the label of that opening.\<close>

theorem closed_until_announced_opening:
  assumes "\<not> ts_temporarily_closed c" and "\<not> tt_is_open (status_at r c os today now)"
    and "\<forall>h \<in> set (rt_hours r). oh_opens_at h < oh_closes_at h"
  shows "\<exists>n. tt_next_opening (status_at r c os today now) = map_option (\<lambda>(k, h). opening_label k (today + k) h) n
    \<and> (case n of
         None \<Rightarrow> \<forall>d t. (today, now) \<le> (d, t) \<and> d \<le> today + 7 \<longrightarrow> \<not> tt_is_open (status_at r c os d t)
       | Some (k, h) \<Rightarrow> tt_is_open (status_at r c os (today + k) (oh_opens_at h))
           \<and> (\<forall>d t. (today, now) \<le> (d, t) \<and> (d, t) < (today + k, oh_opens_at h) \<longrightarrow> \<not> tt_is_open (status_at r c os d t)))"
proof -
  define cs where "cs = xc_date ` set (rt_closures r)"
  define n where "n = next_opening_slot r today now (today \<in> cs)"
  have shown: "tt_next_opening (status_at r c os today now) = map_option (\<lambda>(k, h). opening_label k (today + k) h) n"
    unfolding n_def cs_def by (rule status_announces [OF assms(1,2)])
  note come = open_by_opening_to_come [OF assms(1,2), folded cs_def]
  note spec = next_opening_spec [of r today now "today \<in> cs", folded cs_def n_def]
  show ?thesis
  proof (intro exI conjI, rule shown, cases n)
    case None
    have "\<not> tt_is_open (status_at r c os d t)" if "(today, now) \<le> (d, t)" "d \<le> today + 7" for d t
      using spec None come [OF that(1)] that by fastforce
    then show "case n of None \<Rightarrow> \<forall>d t. (today, now) \<le> (d, t) \<and> d \<le> today + 7 \<longrightarrow> \<not> tt_is_open (status_at r c os d t)
       | Some (k, h) \<Rightarrow> tt_is_open (status_at r c os (today + k) (oh_opens_at h))
           \<and> (\<forall>d t. (today, now) \<le> (d, t) \<and> (d, t) < (today + k, oh_opens_at h) \<longrightarrow> \<not> tt_is_open (status_at r c os d t))"
      using None by simp
  next
    case (Some kh)
    obtain k h where kh: "kh = (k, h)" by fastforce
    have k: "k \<in> {0..7}" "opening_to_come (rt_hours r) cs today now (today \<in> cs) k h"
      "\<And>k' h'. k' \<in> {0..7} \<Longrightarrow> opening_to_come (rt_hours r) cs today now (today \<in> cs) k' h' \<Longrightarrow> (k, oh_opens_at h) \<le> (k', oh_opens_at h')"
      using spec Some kh by auto
    have "tt_is_open (status_at r c os (today + k) (oh_opens_at h))"
      using k(2) assms(1,3) by (auto simp: opening_to_come_def open_iff cs_def intro!: bexI [of _ h])
    moreover have "\<not> tt_is_open (status_at r c os d t)" if b: "(today, now) \<le> (d, t)" "(d, t) < (today + k, oh_opens_at h)" for d t
    proof
      assume "tt_is_open (status_at r c os d t)"
      then obtain h' where h': "opening_to_come (rt_hours r) cs today now (today \<in> cs) (d - today) h'" "oh_opens_at h' \<le> t"
        using come [OF b(1)] by blast
      from k(3) [OF _ h'(1)] b k(1) h'(2) show False by auto
    qed
    ultimately show "case n of None \<Rightarrow> \<forall>d t. (today, now) \<le> (d, t) \<and> d \<le> today + 7 \<longrightarrow> \<not> tt_is_open (status_at r c os d t)
       | Some (k, h) \<Rightarrow> tt_is_open (status_at r c os (today + k) (oh_opens_at h))
           \<and> (\<forall>d t. (today, now) \<le> (d, t) \<and> (d, t) < (today + k, oh_opens_at h) \<longrightarrow> \<not> tt_is_open (status_at r c os d t))"
      using Some kh by simp
  qed
qed

theorem closed_until_announced_opening_witness:
  "\<exists>n. tt_next_opening (status_at demo_open default_settings_row [] 4 0) = n
     \<and> \<not> tt_is_open (status_at demo_open default_settings_row [] 4 0) \<and> \<not> ts_temporarily_closed default_settings_row"
proof -
  have h: "\<forall>h \<in> set (rt_hours demo_open). oh_opens_at h < oh_closes_at h"
    by (simp add: demo_open_fields demo_slots_def hours_row_def)
  have c: "\<not> tt_is_open (status_at demo_open default_settings_row [] 4 0)"
    by (simp add: open_iff demo_open_fields demo_slots_def hours_row_def)
  have d: "\<not> ts_temporarily_closed default_settings_row" by (simp add: default_settings_row_def)
  from closed_until_announced_opening [OF d c h] c d show ?thesis by blast
qed

subsection \<open>Two divergences\<close>

text \<open>An order in preparation is not among the active orders whose number sets the announced preparation time.\<close>

lemma preparing_order_not_counted: "ord_status o1 = Preparing \<Longrightarrow> get_active_orders_count (o1 # os) = get_active_orders_count os"
  by (simp add: get_active_orders_count_def)

text \<open>A slot that ends before it begins passes the checks and is refused by the table only.\<close>

lemma reversed_slot_is_integrity_error:
  "snd (upsert_business_hours env rq key 0 [\<lparr>sl_slot_index = 0, sl_opens_at = 2, sl_closes_at = 1\<rparr>] r) = Inl IntegrityError"
  by (simp add: upsert_business_hours_def validate_no_overlap_def Let_def split: prod.splits)

end
