(* ===== verification/Menu_Admin.thy ===== *)
theory Menu_Admin
  imports Orders_Create
begin

text \<open>
  The administration of menus, \<^verbatim>\<open>app/modules/catalog/menu_service.py\<close> with \<^verbatim>\<open>menu_schemas.py\<close>: a menu has groups of
  choices, a group has products. Changing the composition takes a menu off the card; publishing it requires a
  complete composition. The tables here are richer than the \<open>catalog\<close> the orders read; \<open>show_menus\<close> is what the
  orders see of them.
\<close>

subsection \<open>Tables\<close>

record board_menu = menu +
  mr_description :: "string option"
  mr_image_url :: "string option"
  mr_display_order :: int

record group_item =
  gi_id :: int
  gi_group_id :: int
  gi_product_id :: int
  gi_display_order :: int

datatype menu_value = Mv_text "string option" | Mv_price rat | Mv_int int | Mv_bool bool | Mv_instant "instant option"

datatype menu_field =
  M_name | M_description | M_fixed_price | M_image_url | M_display_order | M_active | M_available_from | M_available_until

datatype composition_change =
  Group_created int | Group_updated int "string list" | Group_deleted int
  | Product_added int int int | Product_reordered int int | Product_removed int int int

datatype menu_action =
  Menu_created rat
  | Menu_updated "(menu_field \<times> menu_value \<times> menu_value) list" "string option"
  | Menu_price_changed menu_value menu_value "string option"
  | Menu_published "string option" | Menu_unpublished "string option"
  | Menu_deleted | Menu_auto_unpublished | Menu_composition_changed composition_change bool

record menu_audit =
  ma_actor :: int
  ma_menu_id :: int
  ma_action :: menu_action

record menu_board =
  bd_menus :: "board_menu list"
  bd_groups :: "menu_group list"
  bd_items :: "group_item list"
  bd_audit :: "menu_audit list"

definition show_menus :: "menu_board \<Rightarrow> catalog \<Rightarrow> catalog" where
  "show_menus b cat = cat\<lparr>cat_menus := map menu.truncate (bd_menus b), cat_menu_groups := bd_groups b,
     cat_menu_group_items := map (\<lambda>i. (gi_group_id i, gi_product_id i)) (bd_items b)\<rparr>"

subsection \<open>What the administration sees\<close>

datatype publish_error = No_groups | Too_few_products string int int | Inactive_products string "string list"

record group_out =
  go_group :: menu_group
  go_items :: "(group_item \<times> product) list"

record menu_out =
  mo_menu :: board_menu
  mo_groups :: "group_out list"
  mo_publishable :: bool
  mo_errors :: "publish_error list"

definition group_errors :: "group_out \<Rightarrow> publish_error list" where
  "group_errors g =
     (let active = filter (\<lambda>ip. prod_active (snd ip)) (go_items g);
          inactive = map (\<lambda>ip. prod_name (snd ip)) (filter (\<lambda>ip. \<not> prod_active (snd ip)) (go_items g))
      in (if int (length active) < mg_min_choices (go_group g)
          then [Too_few_products (mg_name (go_group g)) (mg_min_choices (go_group g)) (int (length active))] else [])
       @ (if inactive \<noteq> [] then [Inactive_products (mg_name (go_group g)) inactive] else []))"

definition publishability_errors :: "group_out list \<Rightarrow> publish_error list" where
  "publishability_errors gs = (if gs = [] then [No_groups] else concat (map group_errors gs))"

text \<open>The join of the items of a group with their products, in display order.\<close>

definition items_of_group :: "menu_board \<Rightarrow> catalog \<Rightarrow> int \<Rightarrow> (group_item \<times> product) list" where
  "items_of_group b cat gid =
     concat (map (\<lambda>i. case row_get prod_id (gi_product_id i) (cat_products cat) of None \<Rightarrow> [] | Some p \<Rightarrow> [(i, p)])
       (sort_key (\<lambda>i. (gi_display_order i, gi_id i)) (filter (\<lambda>i. gi_group_id i = gid) (bd_items b))))"

definition board_groups :: "menu_board \<Rightarrow> int \<Rightarrow> menu_group list" where
  "board_groups b mid = sort_key (\<lambda>g. (mg_display_order g, mg_id g)) (filter (\<lambda>g. mg_menu_id g = mid) (bd_groups b))"

definition menu_output :: "menu_board \<Rightarrow> catalog \<Rightarrow> board_menu \<Rightarrow> menu_out" where
  "menu_output b cat m =
     (let gs = map (\<lambda>g. \<lparr>go_group = g, go_items = items_of_group b cat (mg_id g)\<rparr>) (board_groups b (menu_id m));
          errors = publishability_errors gs
      in \<lparr>mo_menu = m, mo_groups = gs, mo_publishable = (errors = []), mo_errors = errors\<rparr>)"

definition get_menu :: "int \<Rightarrow> menu_board \<Rightarrow> board_menu res" where
  "get_menu mid b =
     (case row_get menu_id mid (bd_menus b) of None \<Rightarrow> Inl (AppError ''MENU_NOT_FOUND'' 404) | Some m \<Rightarrow> Inr m)"

definition get_menu_group :: "int \<Rightarrow> int \<Rightarrow> menu_board \<Rightarrow> menu_group res" where
  "get_menu_group mid gid b =
     (case find (\<lambda>g. mg_id g = gid \<and> mg_menu_id g = mid) (bd_groups b) of
        None \<Rightarrow> Inl (AppError ''MENU_GROUP_NOT_FOUND'' 404) | Some g \<Rightarrow> Inr g)"

definition get_group_item :: "int \<Rightarrow> int \<Rightarrow> int \<Rightarrow> menu_board \<Rightarrow> (menu_group \<times> group_item) res" where
  "get_group_item mid gid iid b =
     rbind (get_menu_group mid gid b) (\<lambda>g.
       case find (\<lambda>i. gi_id i = iid \<and> gi_group_id i = mg_id g) (bd_items b) of
         None \<Rightarrow> Inl (AppError ''MENU_GROUP_ITEM_NOT_FOUND'' 404) | Some i \<Rightarrow> Inr (g, i))"

definition audit_menu :: "int \<Rightarrow> int \<Rightarrow> menu_action \<Rightarrow> menu_board \<Rightarrow> menu_board" where
  "audit_menu actor mid act b = b\<lparr>bd_audit := bd_audit b @ [\<lparr>ma_actor = actor, ma_menu_id = mid, ma_action = act\<rparr>]\<rparr>"

definition put_menu :: "board_menu \<Rightarrow> menu_board \<Rightarrow> menu_board" where
  "put_menu m b = b\<lparr>bd_menus := row_upd menu_id (menu_id m) (\<lambda>_. m) (bd_menus b)\<rparr>"

text \<open>The answer of an operation: the menu as it is stored now.\<close>

definition answer_menu :: "int \<Rightarrow> catalog \<Rightarrow> menu_board \<Rightarrow> (menu_board \<times> menu_out) res" where
  "answer_menu mid cat b = rbind (get_menu mid b) (\<lambda>m. Inr (b, menu_output b cat m))"

definition deactivate_for_composition_change :: "int \<Rightarrow> board_menu \<Rightarrow> menu_board \<Rightarrow> menu_board \<times> bool" where
  "deactivate_for_composition_change actor m b =
     (if \<not> menu_active m then (b, False)
      else (audit_menu actor (menu_id m) Menu_auto_unpublished (put_menu (m\<lparr>menu_active := False\<rparr>) b), True))"

definition page_slice :: "nat \<Rightarrow> nat \<Rightarrow> 'a list \<Rightarrow> 'a list" where
  "page_slice page page_size xs = take page_size (drop ((page - 1) * page_size) xs)"

text \<open>\<open>rank\<close> is the text order of the database.\<close>

definition list_admin_menus :: "(string \<Rightarrow> int) \<Rightarrow> nat \<Rightarrow> nat \<Rightarrow> catalog \<Rightarrow> menu_board \<Rightarrow> menu_out list \<times> nat" where
  "list_admin_menus rank page page_size cat b =
     (map (menu_output b cat)
        (page_slice page page_size (sort_key (\<lambda>m. (mr_display_order m, rank (menu_name m), menu_id m)) (bd_menus b))),
      length (bd_menus b))"

definition get_admin_menu :: "int \<Rightarrow> catalog \<Rightarrow> menu_board \<Rightarrow> menu_out res" where
  "get_admin_menu mid cat b = rbind (get_menu mid b) (\<lambda>m. Inr (menu_output b cat m))"

subsection \<open>Requests\<close>

record menu_create =
  mc_name :: string
  mc_description :: "string option"
  mc_fixed_price :: rat
  mc_image_url :: "string option"
  mc_display_order :: int
  mc_active :: bool
  mc_available_from :: "instant option"
  mc_available_until :: "instant option"

text \<open>A field of a patch is absent, null or a value.\<close>

record menu_patch =
  mp_name :: "string option option"
  mp_description :: "string option option"
  mp_fixed_price :: "rat option option"
  mp_image_url :: "string option option"
  mp_display_order :: "int option option"
  mp_active :: "bool option option"
  mp_available_from :: "instant option option"
  mp_available_until :: "instant option option"
  mp_reason :: "string option"

record group_create =
  gc_name :: string
  gc_min_choices :: int
  gc_max_choices :: int
  gc_display_order :: int

record group_patch =
  gp_name :: "string option option"
  gp_min_choices :: "int option option"
  gp_max_choices :: "int option option"
  gp_display_order :: "int option option"

definition open_window :: "instant option \<Rightarrow> instant option \<Rightarrow> bool" where
  "open_window a b = (case (a, b) of (Some t, Some u) \<Rightarrow> t < u | _ \<Rightarrow> True)"

definition validate_menu_create :: "menu_create \<Rightarrow> menu_create res" where
  "validate_menu_create c =
     (let n = py_strip (mc_name c)
      in if mc_name c = [] \<or> length (mc_name c) > 255 \<or> n = [] \<or> mc_fixed_price c < 0 \<or> mc_display_order c < 0
           \<or> \<not> open_window (mc_available_from c) (mc_available_until c)
         then Inl (AppError [] 422) else Inr (c\<lparr>mc_name := n\<rparr>))"

definition given_ok :: "('a \<Rightarrow> bool) \<Rightarrow> 'a option option \<Rightarrow> bool" where
  "given_ok p v = (case v of Some (Some x) \<Rightarrow> p x | _ \<Rightarrow> True)"

definition good_name :: "nat \<Rightarrow> string \<Rightarrow> bool" where
  "good_name n s \<longleftrightarrow> s \<noteq> [] \<and> length s \<le> n \<and> py_strip s \<noteq> []"

definition validate_menu_patch :: "menu_patch \<Rightarrow> menu_patch res" where
  "validate_menu_patch u =
     (if given_ok (good_name 255) (mp_name u) \<and> given_ok (\<lambda>q. 0 \<le> q) (mp_fixed_price u) \<and> given_ok (\<lambda>n. 0 \<le> n) (mp_display_order u)
      then Inr (u\<lparr>mp_name := map_option (map_option py_strip) (mp_name u)\<rparr>) else Inl (AppError [] 422))"

definition validate_group_create :: "group_create \<Rightarrow> group_create res" where
  "validate_group_create c =
     (if good_name 128 (gc_name c) \<and> 1 \<le> gc_min_choices c \<and> gc_min_choices c \<le> gc_max_choices c \<and> 0 \<le> gc_display_order c
      then Inr (c\<lparr>gc_name := py_strip (gc_name c)\<rparr>) else Inl (AppError [] 422))"

definition validate_group_patch :: "group_patch \<Rightarrow> group_patch res" where
  "validate_group_patch u =
     (if given_ok (good_name 128) (gp_name u) \<and> given_ok (\<lambda>n. 1 \<le> n) (gp_min_choices u)
         \<and> given_ok (\<lambda>n. 1 \<le> n) (gp_max_choices u) \<and> given_ok (\<lambda>n. 0 \<le> n) (gp_display_order u)
      then Inr (u\<lparr>gp_name := map_option (map_option py_strip) (gp_name u)\<rparr>) else Inl (AppError [] 422))"

subsection \<open>Menus\<close>

definition new_menu :: "int \<Rightarrow> menu_create \<Rightarrow> board_menu" where
  "new_menu key c =
     \<lparr>menu_id = key, menu_name = mc_name c, menu_fixed_price = mc_fixed_price c, menu_active = mc_active c,
      menu_available_from = mc_available_from c, menu_available_until = mc_available_until c,
      mr_description = mc_description c, mr_image_url = mc_image_url c, mr_display_order = mc_display_order c\<rparr>"

definition create_menu :: "int \<Rightarrow> int \<Rightarrow> menu_create \<Rightarrow> catalog \<Rightarrow> menu_board \<Rightarrow> (menu_board \<times> menu_out) res" where
  "create_menu key actor c cat b =
     (if mc_active c then Inl (AppError ''MENU_NOT_PUBLISHABLE'' 422)
      else answer_menu key cat
             (audit_menu actor key (Menu_created (mc_fixed_price c)) (b\<lparr>bd_menus := bd_menus b @ [new_menu key c]\<rparr>)))"

fun menu_get :: "menu_field \<Rightarrow> board_menu \<Rightarrow> menu_value" where
  "menu_get M_name m = Mv_text (Some (menu_name m))"
| "menu_get M_description m = Mv_text (mr_description m)"
| "menu_get M_fixed_price m = Mv_price (menu_fixed_price m)"
| "menu_get M_image_url m = Mv_text (mr_image_url m)"
| "menu_get M_display_order m = Mv_int (mr_display_order m)"
| "menu_get M_active m = Mv_bool (menu_active m)"
| "menu_get M_available_from m = Mv_instant (menu_available_from m)"
| "menu_get M_available_until m = Mv_instant (menu_available_until m)"

definition menu_changes :: "menu_patch \<Rightarrow> menu_field list" where
  "menu_changes u =
     (if mp_name u = None then [] else [M_name]) @ (if mp_description u = None then [] else [M_description])
     @ (if mp_fixed_price u = None then [] else [M_fixed_price]) @ (if mp_image_url u = None then [] else [M_image_url])
     @ (if mp_display_order u = None then [] else [M_display_order]) @ (if mp_active u = None then [] else [M_active])
     @ (if mp_available_from u = None then [] else [M_available_from])
     @ (if mp_available_until u = None then [] else [M_available_until])"

text \<open>\<^verbatim>\<open>setattr\<close> for every given field; a null in a column that must not be null is refused by the table.\<close>

definition put_given :: "'a option option \<Rightarrow> 'a \<Rightarrow> 'a" where
  "put_given v old = (case v of Some (Some x) \<Rightarrow> x | _ \<Rightarrow> old)"

definition put_nullable :: "'a option option \<Rightarrow> 'a option \<Rightarrow> 'a option" where
  "put_nullable v old = (case v of None \<Rightarrow> old | Some x \<Rightarrow> x)"

definition patch_menu_row :: "menu_patch \<Rightarrow> board_menu \<Rightarrow> board_menu" where
  "patch_menu_row u m =
     m\<lparr>menu_name := put_given (mp_name u) (menu_name m),
       menu_fixed_price := put_given (mp_fixed_price u) (menu_fixed_price m),
       menu_active := put_given (mp_active u) (menu_active m),
       menu_available_from := put_nullable (mp_available_from u) (menu_available_from m),
       menu_available_until := put_nullable (mp_available_until u) (menu_available_until m),
       mr_description := put_nullable (mp_description u) (mr_description m),
       mr_image_url := put_nullable (mp_image_url u) (mr_image_url m),
       mr_display_order := put_given (mp_display_order u) (mr_display_order m)\<rparr>"

definition menu_nulls :: "menu_patch \<Rightarrow> bool" where
  "menu_nulls u \<longleftrightarrow> mp_name u = Some None \<or> mp_fixed_price u = Some None \<or> mp_display_order u = Some None \<or> mp_active u = Some None"

definition audit_menu_update :: "int \<Rightarrow> menu_patch \<Rightarrow> board_menu \<Rightarrow> board_menu \<Rightarrow> menu_board \<Rightarrow> menu_board" where
  "audit_menu_update actor u m m' b =
     (let changed = filter (\<lambda>f. menu_get f m \<noteq> menu_get f m') (menu_changes u); rs = mp_reason u in
      if changed = [] then b
      else
        let b1 = audit_menu actor (menu_id m) (Menu_updated (map (\<lambda>f. (f, menu_get f m, menu_get f m')) changed) rs) b;
            b2 = (if M_fixed_price \<in> set changed
              then audit_menu actor (menu_id m) (Menu_price_changed (menu_get M_fixed_price m) (menu_get M_fixed_price m') rs) b1 else b1)
        in if M_active \<in> set changed
           then audit_menu actor (menu_id m) (if menu_active m' then Menu_published rs else Menu_unpublished rs) b2 else b2)"

definition update_menu :: "int \<Rightarrow> int \<Rightarrow> menu_patch \<Rightarrow> catalog \<Rightarrow> menu_board \<Rightarrow> (menu_board \<times> menu_out) res" where
  "update_menu actor mid u cat b =
     rbind (get_menu mid b) (\<lambda>m.
       if \<not> open_window (put_nullable (mp_available_from u) (menu_available_from m))
              (put_nullable (mp_available_until u) (menu_available_until m))
       then Inl (AppError ''INVALID_MENU_AVAILABILITY'' 422)
       else if menu_nulls u then Inl IntegrityError
       else
         let m' = patch_menu_row u m; b1 = put_menu m' b
         in if menu_active m' \<and> \<not> mo_publishable (menu_output b1 cat m') then Inl (AppError ''MENU_NOT_PUBLISHABLE'' 422)
            else answer_menu mid cat (audit_menu_update actor u m m' b1))"

text \<open>The groups of a deleted menu and the items of a deleted group go with it (\<^verbatim>\<open>ON DELETE CASCADE\<close>).\<close>

definition drop_groups :: "(menu_group \<Rightarrow> bool) \<Rightarrow> menu_board \<Rightarrow> menu_board" where
  "drop_groups p b =
     b\<lparr>bd_groups := filter (\<lambda>g. \<not> p g) (bd_groups b),
       bd_items := filter (\<lambda>i. \<not> list_ex (\<lambda>g. p g \<and> mg_id g = gi_group_id i) (bd_groups b)) (bd_items b)\<rparr>"

definition delete_menu :: "int \<Rightarrow> int \<Rightarrow> menu_board \<Rightarrow> menu_board res" where
  "delete_menu actor mid b =
     rbind (get_menu mid b) (\<lambda>m.
       Inr (audit_menu actor mid Menu_deleted
         (drop_groups (\<lambda>g. mg_menu_id g = mid) (b\<lparr>bd_menus := filter (\<lambda>m. menu_id m \<noteq> mid) (bd_menus b)\<rparr>))))"

subsection \<open>Composition\<close>

definition create_group :: "int \<Rightarrow> int \<Rightarrow> int \<Rightarrow> group_create \<Rightarrow> catalog \<Rightarrow> menu_board \<Rightarrow> (menu_board \<times> menu_out) res" where
  "create_group key actor mid c cat b =
     rbind (get_menu mid b) (\<lambda>m.
       let (b1, auto) = deactivate_for_composition_change actor m b;
           g = \<lparr>mg_id = key, mg_menu_id = mid, mg_name = gc_name c, mg_min_choices = gc_min_choices c,
                mg_max_choices = gc_max_choices c, mg_display_order = gc_display_order c\<rparr>
       in answer_menu mid cat
            (audit_menu actor mid (Menu_composition_changed (Group_created key) auto) (b1\<lparr>bd_groups := bd_groups b1 @ [g]\<rparr>)))"

definition changed_by :: "'a option option \<Rightarrow> 'a \<Rightarrow> bool" where
  "changed_by v old \<longleftrightarrow> (case v of None \<Rightarrow> False | Some x \<Rightarrow> x \<noteq> Some old)"

text \<open>The names of the changed columns, sorted as the code sorts them.\<close>

definition group_changes :: "group_patch \<Rightarrow> menu_group \<Rightarrow> string list" where
  "group_changes u g =
     (if changed_by (gp_display_order u) (mg_display_order g) then [''display_order''] else [])
     @ (if changed_by (gp_max_choices u) (mg_max_choices g) then [''max_choices''] else [])
     @ (if changed_by (gp_min_choices u) (mg_min_choices g) then [''min_choices''] else [])
     @ (if changed_by (gp_name u) (mg_name g) then [''name''] else [])"

definition patch_group_row :: "group_patch \<Rightarrow> menu_group \<Rightarrow> menu_group" where
  "patch_group_row u g =
     g\<lparr>mg_name := put_given (gp_name u) (mg_name g), mg_min_choices := put_given (gp_min_choices u) (mg_min_choices g),
       mg_max_choices := put_given (gp_max_choices u) (mg_max_choices g),
       mg_display_order := put_given (gp_display_order u) (mg_display_order g)\<rparr>"

text \<open>Comparing a null with a number raises \<^verbatim>\<open>TypeError\<close>; the other nulls are refused by the table.\<close>

definition update_group :: "int \<Rightarrow> int \<Rightarrow> int \<Rightarrow> group_patch \<Rightarrow> catalog \<Rightarrow> menu_board \<Rightarrow> (menu_board \<times> menu_out) res" where
  "update_group actor mid gid u cat b =
     rbind (get_menu mid b) (\<lambda>m. rbind (get_menu_group mid gid b) (\<lambda>g.
       let g' = patch_group_row u g in
       if gp_min_choices u = Some None \<or> gp_max_choices u = Some None then Inl PyTypeError
       else if mg_max_choices g' < mg_min_choices g' then Inl (AppError ''INVALID_MENU_GROUP_RANGE'' 422)
       else if group_changes u g = [] then Inr (b, menu_output b cat m)
       else if gp_name u = Some None \<or> gp_display_order u = Some None then Inl IntegrityError
       else
         let (b1, auto) = deactivate_for_composition_change actor m b
         in answer_menu mid cat
              (audit_menu actor mid (Menu_composition_changed (Group_updated gid (group_changes u g)) auto)
                (b1\<lparr>bd_groups := row_upd mg_id gid (\<lambda>_. g') (bd_groups b1)\<rparr>))))"

definition delete_group :: "int \<Rightarrow> int \<Rightarrow> int \<Rightarrow> catalog \<Rightarrow> menu_board \<Rightarrow> (menu_board \<times> menu_out) res" where
  "delete_group actor mid gid cat b =
     rbind (get_menu mid b) (\<lambda>m. rbind (get_menu_group mid gid b) (\<lambda>g.
       let (b1, auto) = deactivate_for_composition_change actor m b
       in answer_menu mid cat
            (audit_menu actor mid (Menu_composition_changed (Group_deleted gid) auto) (drop_groups (\<lambda>g. mg_id g = gid) b1))))"

definition add_group_item ::
    "int \<Rightarrow> int \<Rightarrow> int \<Rightarrow> int \<Rightarrow> int \<Rightarrow> int \<Rightarrow> catalog \<Rightarrow> menu_board \<Rightarrow> (menu_board \<times> menu_out) res" where
  "add_group_item key actor mid gid pid position cat b =
     rbind (get_menu mid b) (\<lambda>m. rbind (get_menu_group mid gid b) (\<lambda>g.
       case row_get prod_id pid (cat_products cat) of
         None \<Rightarrow> Inl (AppError ''PRODUCT_NOT_FOUND'' 404)
       | Some p \<Rightarrow>
           if \<not> prod_active p then Inl (AppError ''MENU_PRODUCT_INACTIVE'' 422)
           else if list_ex (\<lambda>i. gi_group_id i = gid \<and> gi_product_id i = pid) (bd_items b)
           then Inl (AppError ''MENU_PRODUCT_ALREADY_IN_GROUP'' 409)
           else
             let (b1, auto) = deactivate_for_composition_change actor m b;
                 i = \<lparr>gi_id = key, gi_group_id = gid, gi_product_id = pid, gi_display_order = position\<rparr>
             in answer_menu mid cat
                  (audit_menu actor mid (Menu_composition_changed (Product_added gid key pid) auto)
                    (b1\<lparr>bd_items := bd_items b1 @ [i]\<rparr>))))"

definition update_group_item ::
    "int \<Rightarrow> int \<Rightarrow> int \<Rightarrow> int \<Rightarrow> int \<Rightarrow> catalog \<Rightarrow> menu_board \<Rightarrow> (menu_board \<times> menu_out) res" where
  "update_group_item actor mid gid iid position cat b =
     rbind (get_menu mid b) (\<lambda>m. rbind (get_group_item mid gid iid b) (\<lambda>(g, i).
       if gi_display_order i = position then Inr (b, menu_output b cat m)
       else
         let (b1, auto) = deactivate_for_composition_change actor m b
         in answer_menu mid cat
              (audit_menu actor mid (Menu_composition_changed (Product_reordered gid iid) auto)
                (b1\<lparr>bd_items := row_upd gi_id iid (\<lambda>i. i\<lparr>gi_display_order := position\<rparr>) (bd_items b1)\<rparr>))))"

definition delete_group_item :: "int \<Rightarrow> int \<Rightarrow> int \<Rightarrow> int \<Rightarrow> catalog \<Rightarrow> menu_board \<Rightarrow> (menu_board \<times> menu_out) res" where
  "delete_group_item actor mid gid iid cat b =
     rbind (get_menu mid b) (\<lambda>m. rbind (get_group_item mid gid iid b) (\<lambda>(g, i).
       let (b1, auto) = deactivate_for_composition_change actor m b
       in answer_menu mid cat
            (audit_menu actor mid (Menu_composition_changed (Product_removed gid iid (gi_product_id i)) auto)
              (b1\<lparr>bd_items := filter (\<lambda>i. gi_id i \<noteq> iid) (bd_items b1)\<rparr>))))"

subsection \<open>The card\<close>

definition public_menu_filter :: "instant \<Rightarrow> board_menu \<Rightarrow> bool" where
  "public_menu_filter now m \<longleftrightarrow> menu_active m
     \<and> (case menu_available_from m of None \<Rightarrow> True | Some t \<Rightarrow> t \<le> now)
     \<and> (case menu_available_until m of None \<Rightarrow> True | Some t \<Rightarrow> now < t)"

definition active_items :: "menu_board \<Rightarrow> catalog \<Rightarrow> int \<Rightarrow> (group_item \<times> product) list" where
  "active_items b cat gid = filter (\<lambda>ip. prod_active (snd ip)) (items_of_group b cat gid)"

definition complete_public_menu :: "menu_board \<Rightarrow> catalog \<Rightarrow> board_menu \<Rightarrow> bool" where
  "complete_public_menu b cat m \<longleftrightarrow>
     board_groups b (menu_id m) \<noteq> []
     \<and> list_all (\<lambda>g. mg_min_choices g \<le> int (length (active_items b cat (mg_id g)))) (board_groups b (menu_id m))"

record public_group =
  pg_group :: menu_group
  pg_products :: "(group_item \<times> product \<times> product_status) list"
  pg_available :: bool

record public_menu =
  pm_menu :: board_menu
  pm_groups :: "public_group list"
  pm_available :: bool

definition public_group_of :: "menu_board \<Rightarrow> catalog \<Rightarrow> (int \<times> product_status) list \<Rightarrow> menu_group \<Rightarrow> public_group" where
  "public_group_of b cat av g =
     (let ps = map (\<lambda>(i, p). (i, p, case map_of av (prod_id p) of Some st \<Rightarrow> st | None \<Rightarrow> stock_status (prod_id p) None))
            (active_items b cat (mg_id g))
      in \<lparr>pg_group = g, pg_products = ps,
          pg_available = (mg_min_choices g \<le> int (length (filter (\<lambda>(i, p, st). ps_available st) ps)))\<rparr>)"

definition public_menu_of :: "menu_board \<Rightarrow> catalog \<Rightarrow> (int \<times> product_status) list \<Rightarrow> board_menu \<Rightarrow> public_menu" where
  "public_menu_of b cat av m =
     (let gs = map (public_group_of b cat av) (board_groups b (menu_id m))
      in \<lparr>pm_menu = m, pm_groups = gs, pm_available = list_all pg_available gs\<rparr>)"

text \<open>The ids of the active products of the menus shown (the keys of \<^verbatim>\<open>active_products\<close>): by group, each once, where it
  comes first.\<close>

definition shown_products :: "menu_board \<Rightarrow> catalog \<Rightarrow> board_menu list \<Rightarrow> int list" where
  "shown_products b cat ms =
     (let gids = sort (concat (map (\<lambda>m. map mg_id (board_groups b (menu_id m))) ms));
          pids = concat (map (\<lambda>gid. map (\<lambda>ip. prod_id (snd ip)) (active_items b cat gid)) gids)
      in rev (remdups (rev pids)))"

definition build_public_menus :: "instant \<Rightarrow> menu_board \<Rightarrow> board_menu list \<Rightarrow> stock_db \<Rightarrow> stock_db \<times> public_menu list" where
  "build_public_menus now b ms s =
     (let cat = st_catalog s; (s', av) = availability_map now (shown_products b cat ms) s
      in (s', map (public_menu_of b cat av) (filter (complete_public_menu b cat) ms)))"

definition list_public_menus ::
    "(string \<Rightarrow> int) \<Rightarrow> nat \<Rightarrow> nat \<Rightarrow> instant \<Rightarrow> menu_board \<Rightarrow> stock_db \<Rightarrow> stock_db \<times> public_menu list \<times> nat" where
  "list_public_menus rank page page_size now b s =
     (let ms = sort_key (\<lambda>m. (mr_display_order m, rank (menu_name m), menu_id m)) (filter (public_menu_filter now) (bd_menus b));
          complete = filter (complete_public_menu b (st_catalog s)) ms;
          (s', out) = build_public_menus now b (page_slice page page_size complete) s
      in (s', out, length complete))"

definition get_public_menu :: "instant \<Rightarrow> int \<Rightarrow> menu_board \<Rightarrow> stock_db \<Rightarrow> stock_db \<times> public_menu res" where
  "get_public_menu now mid b s =
     (case find (\<lambda>m. menu_id m = mid \<and> public_menu_filter now m) (bd_menus b) of
        None \<Rightarrow> (s, Inl (AppError ''MENU_NOT_FOUND'' 404))
      | Some m \<Rightarrow>
          (case build_public_menus now b [m] s of
             (s', []) \<Rightarrow> (s', Inl (AppError ''MENU_NOT_FOUND'' 404))
           | (s', pm # _) \<Rightarrow> (s', Inr pm)))"

end
