(* ===== verification/Menu_Props.thy ===== *)
theory Menu_Props
  imports Menu_Admin Machines
begin

text \<open>
  What the menu administration promises: along every run a menu on the card has a complete composition, and a menu
  shown as available to the customers can be ordered.
\<close>

subsection \<open>The administration as a step relation\<close>

text \<open>The catalogue of products may be another one at every step; a new key is not in use.\<close>

inductive menu_step :: "menu_board \<Rightarrow> menu_board \<Rightarrow> bool" where
  mstep_create: "validate_menu_create c = Inr c' \<Longrightarrow> key \<notin> row_ids menu_id (bd_menus b) \<Longrightarrow>
    create_menu key actor c' cat b = Inr (b', x) \<Longrightarrow> menu_step b b'"
| mstep_update: "validate_menu_patch u = Inr u' \<Longrightarrow> update_menu actor mid u' cat b = Inr (b', x) \<Longrightarrow> menu_step b b'"
| mstep_delete: "delete_menu actor mid b = Inr b' \<Longrightarrow> menu_step b b'"
| mstep_group: "validate_group_create g = Inr g' \<Longrightarrow> key \<notin> row_ids mg_id (bd_groups b) \<Longrightarrow>
    create_group key actor mid g' cat b = Inr (b', x) \<Longrightarrow> menu_step b b'"
| mstep_regroup: "validate_group_patch v = Inr v' \<Longrightarrow> update_group actor mid gid v' cat b = Inr (b', x) \<Longrightarrow> menu_step b b'"
| mstep_ungroup: "delete_group actor mid gid cat b = Inr (b', x) \<Longrightarrow> menu_step b b'"
| mstep_item: "key \<notin> row_ids gi_id (bd_items b) \<Longrightarrow> add_group_item key actor mid gid pid position cat b = Inr (b', x) \<Longrightarrow>
    menu_step b b'"
| mstep_reorder: "update_group_item actor mid gid iid position cat b = Inr (b', x) \<Longrightarrow> menu_step b b'"
| mstep_remove: "delete_group_item actor mid gid iid cat b = Inr (b', x) \<Longrightarrow> menu_step b b'"

definition composed :: "menu_board \<Rightarrow> bool" where
  "composed b \<longleftrightarrow> distinct (map mg_id (bd_groups b)) \<and> distinct (map gi_id (bd_items b))
     \<and> distinct (map (\<lambda>i. (gi_group_id i, gi_product_id i)) (bd_items b))
     \<and> (\<forall>g \<in> set (bd_groups b). 1 \<le> mg_min_choices g \<and> mg_min_choices g \<le> mg_max_choices g
          \<and> mg_menu_id g \<in> menu_id ` set (bd_menus b))
     \<and> (\<forall>i \<in> set (bd_items b). gi_group_id i \<in> mg_id ` set (bd_groups b))"

definition menu_complete :: "menu_board \<Rightarrow> int \<Rightarrow> bool" where
  "menu_complete b mid \<longleftrightarrow> (\<exists>g \<in> set (bd_groups b). mg_menu_id g = mid)
     \<and> (\<forall>g \<in> set (bd_groups b). mg_menu_id g = mid \<longrightarrow>
          mg_min_choices g \<le> int (length (filter (\<lambda>i. gi_group_id i = mg_id g) (bd_items b))))"

definition menu_good :: "board_menu \<Rightarrow> bool" where
  "menu_good m \<longleftrightarrow> 0 \<le> menu_fixed_price m \<and> menu_name m \<noteq> [] \<and> open_window (menu_available_from m) (menu_available_until m)"

definition board_ok :: "menu_board \<Rightarrow> bool" where
  "board_ok b \<longleftrightarrow> composed b \<and> distinct (map menu_id (bd_menus b))
     \<and> (\<forall>m \<in> set (bd_menus b). menu_good m \<and> (menu_active m \<longrightarrow> menu_complete b (menu_id m)))"

subsection \<open>Frames\<close>

lemma audit_menu_frame [simp]:
  "bd_menus (audit_menu actor mid act b) = bd_menus b" "bd_groups (audit_menu actor mid act b) = bd_groups b"
  "bd_items (audit_menu actor mid act b) = bd_items b"
  by (simp_all add: audit_menu_def)

lemma audit_update_frame [simp]:
  "bd_menus (audit_menu_update actor u m m' b) = bd_menus b" "bd_groups (audit_menu_update actor u m m' b) = bd_groups b"
  "bd_items (audit_menu_update actor u m m' b) = bd_items b"
  by (simp_all add: audit_menu_update_def Let_def)

lemma put_menu_frame [simp]: "bd_groups (put_menu m b) = bd_groups b" "bd_items (put_menu m b) = bd_items b"
  by (simp_all add: put_menu_def)

lemma board_ok_cong:
  "bd_menus b' = bd_menus b \<Longrightarrow> bd_groups b' = bd_groups b \<Longrightarrow> bd_items b' = bd_items b \<Longrightarrow> board_ok b' = board_ok b"
  by (simp add: board_ok_def composed_def menu_complete_def)

lemma answer_menu_Inr: "answer_menu mid cat b = Inr (b', x) \<Longrightarrow> b' = b"
  by (auto simp: answer_menu_def)

lemma get_menu_Inr: "get_menu mid b = Inr m \<Longrightarrow> m \<in> set (bd_menus b) \<and> menu_id m = mid"
  by (auto simp: get_menu_def dest: row_get_SomeD split: option.splits)

lemma find_SomeD: "find p xs = Some x \<Longrightarrow> p x \<and> x \<in> set xs"
  by (induction xs) (auto split: if_splits)

lemma get_group_Inr: "get_menu_group mid gid b = Inr g \<Longrightarrow> g \<in> set (bd_groups b) \<and> mg_id g = gid \<and> mg_menu_id g = mid"
  by (auto simp: get_menu_group_def dest: find_SomeD split: option.splits)

lemma get_item_Inr:
  assumes "get_group_item mid gid iid b = Inr (g, i)"
  shows "get_menu_group mid gid b = Inr g \<and> i \<in> set (bd_items b) \<and> gi_id i = iid \<and> gi_group_id i = gid"
proof -
  obtain g' where g: "get_menu_group mid gid b = Inr g'"
    and f: "find (\<lambda>i. gi_id i = iid \<and> gi_group_id i = mg_id g') (bd_items b) = Some i" "g' = g"
    using assms by (auto simp: get_group_item_def split: option.splits)
  show ?thesis using g f find_SomeD [OF f(1)] get_group_Inr [OF g] by auto
qed

text \<open>Taking a menu off the card.\<close>

definition off_card :: "int \<Rightarrow> menu_board \<Rightarrow> menu_board \<Rightarrow> bool" where
  "off_card mid b b1 \<longleftrightarrow> bd_groups b1 = bd_groups b \<and> bd_items b1 = bd_items b
     \<and> map menu_id (bd_menus b1) = map menu_id (bd_menus b)
     \<and> (\<forall>m \<in> set (bd_menus b1). (menu_id m = mid \<longrightarrow> \<not> menu_active m) \<and> (\<exists>m0 \<in> set (bd_menus b). menu_id m0 = menu_id m
          \<and> (menu_good m0 \<longrightarrow> menu_good m) \<and> (menu_active m \<longrightarrow> menu_active m0)))"

lemma deactivate_off_card:
  assumes "board_ok b" and "get_menu mid b = Inr m" and "deactivate_for_composition_change actor m b = (b1, auto)"
  shows "off_card mid b b1"
proof -
  have m: "m \<in> set (bd_menus b)" "menu_id m = mid" using get_menu_Inr [OF assms(2)] by auto
  have one: "x = m" if "x \<in> set (bd_menus b)" "menu_id x = mid" for x
    using that m assms(1) by (auto simp: board_ok_def distinct_map dest: inj_onD)
  show ?thesis
  proof (cases "menu_active m")
    case True
    then have b1: "b1 = audit_menu actor mid Menu_auto_unpublished (put_menu (m\<lparr>menu_active := False\<rparr>) b)"
      using assms(3) m(2) by (simp add: deactivate_for_composition_change_def)
    show ?thesis
      unfolding off_card_def b1 using m
      by (auto simp: put_menu_def row_upd_def menu_good_def intro: bexI [of _ m])
  next
    case False
    then have "b1 = b" using assms(3) by (simp add: deactivate_for_composition_change_def)
    then show ?thesis using False one by (auto simp: off_card_def)
  qed
qed

text \<open>A change of the composition of one menu.\<close>

lemma recomposed_ok:
  assumes ok: "board_ok b" and off: "off_card mid b b1"
    and menus: "bd_menus b' = bd_menus b1" and comp: "composed b'"
    and groups: "\<And>g. mg_menu_id g \<noteq> mid \<Longrightarrow> g \<in> set (bd_groups b') \<longleftrightarrow> g \<in> set (bd_groups b)"
    and items: "\<And>g. g \<in> set (bd_groups b) \<Longrightarrow> mg_menu_id g \<noteq> mid \<Longrightarrow>
      filter (\<lambda>i. gi_group_id i = mg_id g) (bd_items b') = filter (\<lambda>i. gi_group_id i = mg_id g) (bd_items b)"
  shows "board_ok b'"
proof -
  have same: "menu_complete b' k = menu_complete b k" if "k \<noteq> mid" for k
    unfolding menu_complete_def using groups items that by (metis (no_types, lifting))
  have "menu_good m \<and> (menu_active m \<longrightarrow> menu_complete b' (menu_id m))" if m: "m \<in> set (bd_menus b')" for m
  proof -
    obtain m0 where m0: "m0 \<in> set (bd_menus b)" "menu_id m0 = menu_id m" "menu_good m0 \<longrightarrow> menu_good m" "menu_active m \<longrightarrow> menu_active m0"
      and i: "menu_id m = mid \<longrightarrow> \<not> menu_active m"
      using off m by (auto simp: off_card_def menus)
    show ?thesis using m0 i ok same [of "menu_id m"] by (auto simp: board_ok_def)
  qed
  moreover have "distinct (map menu_id (bd_menus b'))" using ok off by (simp add: board_ok_def off_card_def menus)
  ultimately show ?thesis using comp by (simp add: board_ok_def)
qed

subsection \<open>Every operation\<close>

lemma off_card_ids: "off_card mid b b1 \<Longrightarrow> menu_id ` set (bd_menus b1) = menu_id ` set (bd_menus b)"
  unfolding off_card_def by (metis list.set_map)

lemma composed_intro:
  assumes "board_ok b" and "off_card mid b b1" and "bd_menus b' = bd_menus b1"
    and "distinct (map mg_id (bd_groups b'))" and "distinct (map gi_id (bd_items b'))"
    and "distinct (map (\<lambda>i. (gi_group_id i, gi_product_id i)) (bd_items b'))"
    and "\<And>g. g \<in> set (bd_groups b') \<Longrightarrow> 1 \<le> mg_min_choices g \<and> mg_min_choices g \<le> mg_max_choices g \<and> mg_menu_id g \<in> menu_id ` set (bd_menus b)"
    and "\<And>i. i \<in> set (bd_items b') \<Longrightarrow> gi_group_id i \<in> mg_id ` set (bd_groups b')"
  shows "composed b'"
  using assms off_card_ids [OF assms(2)] by (auto simp: composed_def)

lemma board_parts:
  assumes "board_ok b"
  shows "distinct (map mg_id (bd_groups b))" "distinct (map gi_id (bd_items b))"
    "distinct (map (\<lambda>i. (gi_group_id i, gi_product_id i)) (bd_items b))" "distinct (map menu_id (bd_menus b))"
    "g \<in> set (bd_groups b) \<Longrightarrow> 1 \<le> mg_min_choices g \<and> mg_min_choices g \<le> mg_max_choices g \<and> mg_menu_id g \<in> menu_id ` set (bd_menus b)"
    "i \<in> set (bd_items b) \<Longrightarrow> gi_group_id i \<in> mg_id ` set (bd_groups b)"
  using assms by (auto simp: board_ok_def composed_def)

lemma menu_unique: "board_ok b \<Longrightarrow> m \<in> set (bd_menus b) \<Longrightarrow> m' \<in> set (bd_menus b) \<Longrightarrow> menu_id m = menu_id m' \<Longrightarrow> m = m'"
  by (auto simp: board_ok_def distinct_map dest: inj_onD)

lemma group_unique: "board_ok b \<Longrightarrow> g \<in> set (bd_groups b) \<Longrightarrow> g' \<in> set (bd_groups b) \<Longrightarrow> mg_id g = mg_id g' \<Longrightarrow> g = g'"
  by (auto simp: board_ok_def composed_def distinct_map dest: inj_onD)

lemma create_group_ok:
  assumes "create_group key actor mid c cat b = Inr (b', x)" and "board_ok b" and "key \<notin> row_ids mg_id (bd_groups b)"
    and "validate_group_create c0 = Inr c"
  shows "board_ok b'"
proof -
  obtain m where m: "get_menu mid b = Inr m" using assms(1) by (auto simp: create_group_def)
  obtain b1 auto where d: "deactivate_for_composition_change actor m b = (b1, auto)" by fastforce
  have menus: "bd_menus b' = bd_menus b1" and items: "bd_items b' = bd_items b1"
    and groups: "bd_groups b' = bd_groups b1 @ [\<lparr>mg_id = key, mg_menu_id = mid, mg_name = gc_name c, mg_min_choices = gc_min_choices c,
       mg_max_choices = gc_max_choices c, mg_display_order = gc_display_order c\<rparr>]"
    using assms(1) d m by (auto simp: create_group_def dest!: answer_menu_Inr)
  have off: "off_card mid b b1" by (rule deactivate_off_card [OF assms(2) m d])
  then have b1: "bd_groups b1 = bd_groups b" "bd_items b1 = bd_items b" by (auto simp: off_card_def)
  have "1 \<le> gc_min_choices c" "gc_min_choices c \<le> gc_max_choices c" using assms(4) by (auto simp: validate_group_create_def split: if_splits)
  then have "composed b'"
    using board_parts [OF assms(2)] assms(3) get_menu_Inr [OF m]
    by (intro composed_intro [OF assms(2) off menus]) (auto simp: groups items b1 row_ids_def)
  then show ?thesis
    by (intro recomposed_ok [OF assms(2) off menus]) (auto simp: groups items b1)
qed

lemma update_group_ok:
  assumes "update_group actor mid gid v cat b = Inr (b', x)" and "board_ok b" and "validate_group_patch v0 = Inr v"
  shows "board_ok b'"
proof -
  obtain m g where m: "get_menu mid b = Inr m" and g: "get_menu_group mid gid b = Inr g"
    using assms(1) by (auto simp: update_group_def)
  define g' where "g' = patch_group_row v g"
  have gs: "g \<in> set (bd_groups b)" "mg_id g = gid" "mg_menu_id g = mid" using get_group_Inr [OF g] by auto
  have g': "mg_id g' = gid" "mg_menu_id g' = mid" using gs by (simp_all add: g'_def patch_group_row_def)
  have one: "1 \<le> mg_min_choices g'" using board_parts(5) [OF assms(2) gs(1)] assms(3)
    by (auto simp: g'_def patch_group_row_def put_given_def validate_group_patch_def given_ok_def split: if_splits option.splits)
  show ?thesis
  proof (cases "b' = b")
    case False
    obtain b1 auto where d: "deactivate_for_composition_change actor m b = (b1, auto)" by fastforce
    have range: "mg_min_choices g' \<le> mg_max_choices g'"
      and menus: "bd_menus b' = bd_menus b1" and items: "bd_items b' = bd_items b1"
      and groups: "bd_groups b' = row_upd mg_id gid (\<lambda>_. g') (bd_groups b1)"
      using assms(1) False d m g by (auto simp: update_group_def g'_def [symmetric] Let_def dest!: answer_menu_Inr split: if_splits)
    have off: "off_card mid b b1" by (rule deactivate_off_card [OF assms(2) m d])
    then have b1: "bd_groups b1 = bd_groups b" "bd_items b1 = bd_items b" by (auto simp: off_card_def)
    have ids: "map mg_id (bd_groups b') = map mg_id (bd_groups b)" by (simp add: groups b1 row_upd_def comp_def g')
    have mem: "h \<in> set (bd_groups b') \<longleftrightarrow> h = g' \<or> (h \<in> set (bd_groups b) \<and> mg_id h \<noteq> gid)" for h
      using gs by (auto simp: groups b1 row_upd_def)
    have "mg_id ` set (bd_groups b') = mg_id ` set (bd_groups b)" using ids by (metis list.set_map)
    then have "composed b'"
      using board_parts [OF assms(2)] get_menu_Inr [OF m] one range
      by (intro composed_intro [OF assms(2) off menus]) (auto simp: ids items b1 mem g')
    moreover have "h \<in> set (bd_groups b') \<longleftrightarrow> h \<in> set (bd_groups b)" if h: "mg_menu_id h \<noteq> mid" for h
      using h g' gs group_unique [OF assms(2) gs(1), of h] by (auto simp: mem)
    ultimately show ?thesis by (intro recomposed_ok [OF assms(2) off menus]) (auto simp: items b1)
  qed (use assms(2) in simp)
qed

lemma drop_group_ok:
  assumes "board_ok b" and off: "off_card mid b b1" and "bd_menus b' = bd_menus b1"
    and "bd_groups b' = bd_groups (drop_groups p b1)" and "bd_items b' = bd_items (drop_groups p b1)"
    and "\<And>g. g \<in> set (bd_groups b) \<Longrightarrow> p g \<Longrightarrow> mg_menu_id g = mid"
  shows "board_ok b'"
proof -
  have b1: "bd_groups b1 = bd_groups b" "bd_items b1 = bd_items b" using off by (auto simp: off_card_def)
  have its: "bd_items b' = filter (\<lambda>i. \<not> list_ex (\<lambda>g. p g \<and> mg_id g = gi_group_id i) (bd_groups b)) (bd_items b)"
    and grs: "bd_groups b' = filter (\<lambda>g. \<not> p g) (bd_groups b)"
    by (simp_all add: assms(4,5) drop_groups_def b1)
  have kept: "gi_group_id i \<in> mg_id ` set (bd_groups b')" if i: "i \<in> set (bd_items b')" for i
  proof -
    from i have "i \<in> set (bd_items b)" by (simp add: its)
    then obtain g where "g \<in> set (bd_groups b)" "gi_group_id i = mg_id g" using board_parts(6) [OF assms(1)] by blast
    then show ?thesis using i by (auto simp: its grs list_ex_iff)
  qed
  have "composed b'"
    by (intro composed_intro [OF assms(1,2,3)] kept)
       (use board_parts [OF assms(1)] in \<open>auto simp: its grs intro: distinct_map_filter\<close>)
  moreover have "filter (\<lambda>i. gi_group_id i = mg_id g) (bd_items b') = filter (\<lambda>i. gi_group_id i = mg_id g) (bd_items b)"
    if g: "g \<in> set (bd_groups b)" "mg_menu_id g \<noteq> mid" for g
    using g assms(6) group_unique [OF assms(1) g(1)]
    by (auto simp: assms(5) drop_groups_def b1 list_ex_iff intro!: filter_cong) metis
  ultimately show ?thesis
    by (intro recomposed_ok [OF assms(1,2,3)]) (use assms(6) in \<open>auto simp: assms(4) drop_groups_def b1\<close>)
qed

lemma delete_group_ok:
  assumes "delete_group actor mid gid cat b = Inr (b', x)" and "board_ok b"
  shows "board_ok b'"
proof -
  obtain m g where m: "get_menu mid b = Inr m" and g: "get_menu_group mid gid b = Inr g"
    using assms(1) by (auto simp: delete_group_def)
  obtain b1 auto where d: "deactivate_for_composition_change actor m b = (b1, auto)" by fastforce
  have b': "b' = audit_menu actor mid (Menu_composition_changed (Group_deleted gid) auto) (drop_groups (\<lambda>g. mg_id g = gid) b1)"
    using assms(1) d m g by (auto simp: delete_group_def dest!: answer_menu_Inr)
  have off: "off_card mid b b1" by (rule deactivate_off_card [OF assms(2) m d])
  show ?thesis
    using get_group_Inr [OF g] group_unique [OF assms(2)]
    by (intro drop_group_ok [OF assms(2) off, of b' "\<lambda>g. mg_id g = gid"]) (auto simp: b' drop_groups_def)
qed

text \<open>A change of the items of one group.\<close>

lemma items_changed_ok:
  assumes "board_ok b" and m: "get_menu mid b = Inr m" and g: "get_menu_group mid gid b = Inr g"
    and d: "deactivate_for_composition_change actor m b = (b1, auto)"
    and "bd_menus b' = bd_menus b1" and "bd_groups b' = bd_groups b1"
    and "distinct (map gi_id (bd_items b'))" and "distinct (map (\<lambda>i. (gi_group_id i, gi_product_id i)) (bd_items b'))"
    and "gi_group_id ` set (bd_items b') \<subseteq> insert gid (gi_group_id ` set (bd_items b))"
    and "\<And>k. k \<noteq> gid \<Longrightarrow> filter (\<lambda>i. gi_group_id i = k) (bd_items b') = filter (\<lambda>i. gi_group_id i = k) (bd_items b)"
  shows "board_ok b'"
proof -
  have off: "off_card mid b b1" by (rule deactivate_off_card [OF assms(1) m d])
  have gs: "g \<in> set (bd_groups b)" "mg_id g = gid" "mg_menu_id g = mid" using get_group_Inr [OF g] by auto
  have groups: "bd_groups b' = bd_groups b" using off assms(6) by (simp add: off_card_def)
  have "gi_group_id i \<in> mg_id ` set (bd_groups b')" if i: "i \<in> set (bd_items b')" for i
  proof -
    have "gi_group_id i = gid \<or> gi_group_id i \<in> gi_group_id ` set (bd_items b)" using assms(9) i by auto
    then show ?thesis using gs board_parts(6) [OF assms(1)] by (auto simp: groups)
  qed
  then have "composed b'"
    using board_parts [OF assms(1)] assms(7,8) by (intro composed_intro [OF assms(1) off assms(5)]) (auto simp: groups)
  moreover have "filter (\<lambda>i. gi_group_id i = mg_id h) (bd_items b') = filter (\<lambda>i. gi_group_id i = mg_id h) (bd_items b)"
    if "h \<in> set (bd_groups b)" "mg_menu_id h \<noteq> mid" for h
    using assms(10) that gs group_unique [OF assms(1) gs(1), of h] by metis
  ultimately show ?thesis by (intro recomposed_ok [OF assms(1) off assms(5)]) (auto simp: groups)
qed

lemma add_item_ok:
  assumes "add_group_item key actor mid gid pid position cat b = Inr (b', x)" and "board_ok b" and "key \<notin> row_ids gi_id (bd_items b)"
  shows "board_ok b'"
proof -
  obtain m g where m: "get_menu mid b = Inr m" and g: "get_menu_group mid gid b = Inr g"
    using assms(1) by (auto simp: add_group_item_def)
  obtain b1 auto where d: "deactivate_for_composition_change actor m b = (b1, auto)" by fastforce
  have off: "off_card mid b b1" by (rule deactivate_off_card [OF assms(2) m d])
  have "\<not> list_ex (\<lambda>i. gi_group_id i = gid \<and> gi_product_id i = pid) (bd_items b)"
    and "bd_menus b' = bd_menus b1" and "bd_groups b' = bd_groups b1"
    and "bd_items b' = bd_items b1 @ [\<lparr>gi_id = key, gi_group_id = gid, gi_product_id = pid, gi_display_order = position\<rparr>]"
    using assms(1) d m g by (auto simp: add_group_item_def dest!: answer_menu_Inr split: option.splits if_splits)
  moreover have "bd_items b1 = bd_items b" using off by (simp add: off_card_def)
  ultimately show ?thesis
    using board_parts(2,3) [OF assms(2)] assms(3)
    by (intro items_changed_ok [OF assms(2) m g d]) (auto simp: list_ex_iff row_ids_def)
qed

lemma reorder_item_ok:
  assumes "update_group_item actor mid gid iid position cat b = Inr (b', x)" and "board_ok b"
  shows "board_ok b'"
proof -
  obtain m g i where m: "get_menu mid b = Inr m" and gi: "get_group_item mid gid iid b = Inr (g, i)"
    using assms(1) by (auto simp: update_group_item_def)
  note g = get_item_Inr [OF gi]
  obtain b1 auto where d: "deactivate_for_composition_change actor m b = (b1, auto)" by fastforce
  have off: "off_card mid b b1" by (rule deactivate_off_card [OF assms(2) m d])
  show ?thesis
  proof (cases "b' = b")
    case False
    have f: "bd_menus b' = bd_menus b1" "bd_groups b' = bd_groups b1"
      "bd_items b' = row_upd gi_id iid (\<lambda>i. i\<lparr>gi_display_order := position\<rparr>) (bd_items b)"
      using assms(1) False d m gi off by (auto simp: update_group_item_def off_card_def dest!: answer_menu_Inr split: if_splits)
    have ids: "map gi_id (bd_items b') = map gi_id (bd_items b)"
      "map (\<lambda>i. (gi_group_id i, gi_product_id i)) (bd_items b') = map (\<lambda>i. (gi_group_id i, gi_product_id i)) (bd_items b)"
      "map gi_group_id (bd_items b') = map gi_group_id (bd_items b)"
      by (simp_all add: f(3) row_upd_def comp_def if_distrib cong: if_cong)
    have "filter (\<lambda>i. gi_group_id i = k) (bd_items b') = filter (\<lambda>i. gi_group_id i = k) (bd_items b)" if k: "k \<noteq> gid" for k
    proof -
      have "gi_group_id j = gid" if "j \<in> set (bd_items b)" "gi_id j = iid" for j
        using that g board_parts(2) [OF assms(2)] by (auto simp: distinct_map dest: inj_onD)
      then have "filter (\<lambda>i. gi_group_id i = k) (map (\<lambda>i. if gi_id i = iid then i\<lparr>gi_display_order := position\<rparr> else i) js)
          = filter (\<lambda>i. gi_group_id i = k) js" if "set js \<subseteq> set (bd_items b)" for js
        using that k by (induction js) auto
      then show ?thesis by (simp add: f(3) row_upd_def)
    qed
    moreover have "gi_group_id ` set (bd_items b') = gi_group_id ` set (bd_items b)" using ids(3) by (metis list.set_map)
    ultimately show ?thesis
      using board_parts(2,3) [OF assms(2)] g by (intro items_changed_ok [OF assms(2) m _ d f(1,2)]) (auto simp: ids)
  qed (use assms(2) in simp)
qed

lemma remove_item_ok:
  assumes "delete_group_item actor mid gid iid cat b = Inr (b', x)" and "board_ok b"
  shows "board_ok b'"
proof -
  obtain m g i where m: "get_menu mid b = Inr m" and gi: "get_group_item mid gid iid b = Inr (g, i)"
    using assms(1) by (auto simp: delete_group_item_def)
  note g = get_item_Inr [OF gi]
  obtain b1 auto where d: "deactivate_for_composition_change actor m b = (b1, auto)" by fastforce
  have off: "off_card mid b b1" by (rule deactivate_off_card [OF assms(2) m d])
  have f: "bd_menus b' = bd_menus b1" "bd_groups b' = bd_groups b1" "bd_items b' = filter (\<lambda>i. gi_id i \<noteq> iid) (bd_items b)"
    using assms(1) d m gi off by (auto simp: delete_group_item_def off_card_def dest!: answer_menu_Inr)
  have "gi_group_id j = gid" if "j \<in> set (bd_items b)" "gi_id j = iid" for j
    using that g board_parts(2) [OF assms(2)] by (auto simp: distinct_map dest: inj_onD)
  then have "filter (\<lambda>i. gi_group_id i = k) (bd_items b') = filter (\<lambda>i. gi_group_id i = k) (bd_items b)" if "k \<noteq> gid" for k
    using that by (auto simp: f(3) intro!: filter_cong)
  then show ?thesis
    using board_parts(2,3) [OF assms(2)] g
    by (intro items_changed_ok [OF assms(2) m _ d f(1,2)]) (auto simp: f(3) intro: distinct_map_filter)
qed

lemma create_menu_ok:
  assumes "create_menu key actor c cat b = Inr (b', x)" and "board_ok b" and "key \<notin> row_ids menu_id (bd_menus b)"
    and "validate_menu_create c0 = Inr c"
  shows "board_ok b'"
proof -
  have f: "bd_menus b' = bd_menus b @ [new_menu key c]" "bd_groups b' = bd_groups b" "bd_items b' = bd_items b" "\<not> mc_active c"
    using assms(1) by (auto simp: create_menu_def dest!: answer_menu_Inr split: if_splits)
  have "menu_good (new_menu key c) \<and> \<not> menu_active (new_menu key c)"
    using assms(4) f(4) by (auto simp: menu_good_def new_menu_def validate_menu_create_def Let_def split: if_splits)
  moreover have "menu_complete b' k = menu_complete b k" for k by (simp add: menu_complete_def f)
  ultimately show ?thesis
    using assms(2,3) by (auto simp: board_ok_def composed_def f row_ids_def new_menu_def)
qed

lemma items_of_group_count:
  "length (filter q (items_of_group b cat gid)) \<le> length (filter (\<lambda>i. gi_group_id i = gid) (bd_items b))"
proof -
  have count: "length (filter q (concat (map (\<lambda>i. case row_get prod_id (gi_product_id i) (cat_products cat) of None \<Rightarrow> [] | Some p \<Rightarrow> [(i, p)]) js))) \<le> length js" for js
    by (induction js) (auto split: option.splits)
  show ?thesis
    unfolding items_of_group_def by (rule order_trans [OF count]) simp
qed

lemma publishable_complete:
  assumes "mo_publishable (menu_output b cat m)"
  shows "menu_complete b (menu_id m)"
proof -
  let ?gs = "board_groups b (menu_id m)"
  have gs: "g \<in> set ?gs \<longleftrightarrow> g \<in> set (bd_groups b) \<and> mg_menu_id g = menu_id m" for g by (auto simp: board_groups_def)
  have ne: "?gs \<noteq> []" and er: "\<And>g. g \<in> set ?gs \<Longrightarrow> group_errors \<lparr>go_group = g, go_items = items_of_group b cat (mg_id g)\<rparr> = []"
    using assms by (auto simp: menu_output_def publishability_errors_def Let_def split: if_splits)
  have "mg_min_choices g \<le> int (length (filter (\<lambda>i. gi_group_id i = mg_id g) (bd_items b)))" if "g \<in> set ?gs" for g
  proof -
    have "mg_min_choices g \<le> int (length (filter (\<lambda>ip. prod_active (snd ip)) (items_of_group b cat (mg_id g))))"
      using er [OF that] by (auto simp: group_errors_def Let_def split: if_splits)
    also have "\<dots> \<le> int (length (filter (\<lambda>i. gi_group_id i = mg_id g) (bd_items b)))"
      using items_of_group_count by simp
    finally show ?thesis .
  qed
  moreover obtain g where "g \<in> set ?gs" using ne by (cases ?gs) auto
  ultimately show ?thesis using gs by (auto simp: menu_complete_def)
qed

lemma update_menu_ok:
  assumes "update_menu actor mid u cat b = Inr (b', x)" and "board_ok b" and "validate_menu_patch u0 = Inr u"
  shows "board_ok b'"
proof -
  obtain m where m: "get_menu mid b = Inr m" using assms(1) by (auto simp: update_menu_def)
  note ms = get_menu_Inr [OF m]
  define m' where "m' = patch_menu_row u m"
  have id: "menu_id m' = mid" using ms by (simp add: m'_def patch_menu_row_def)
  have w: "open_window (menu_available_from m') (menu_available_until m')"
    and pub: "menu_active m' \<Longrightarrow> mo_publishable (menu_output (put_menu m' b) cat m')"
    and f: "bd_menus b' = bd_menus (put_menu m' b)" "bd_groups b' = bd_groups b" "bd_items b' = bd_items b"
    using assms(1) m by (auto simp: update_menu_def m'_def [symmetric] Let_def dest!: answer_menu_Inr split: if_splits)
      (simp_all add: m'_def patch_menu_row_def)
  have old: "menu_good m" using assms(2) ms by (auto simp: board_ok_def)
  have "menu_good m'"
    using w old assms(3) unfolding menu_good_def
    by (auto simp: m'_def patch_menu_row_def put_given_def validate_menu_patch_def given_ok_def good_name_def split: if_splits option.splits)
  moreover have same: "menu_complete b' k = menu_complete b k" "menu_complete (put_menu m' b) k = menu_complete b k" for k by (simp_all add: menu_complete_def f)
  moreover have eq: "bd_menus b' = map (\<lambda>r. if menu_id r = mid then m' else r) (bd_menus b)" by (simp add: f(1) put_menu_def row_upd_def id)
  then have ids: "map menu_id (bd_menus b') = map menu_id (bd_menus b)" by (simp add: id)
  have img: "menu_id ` set (bd_menus b') = menu_id ` set (bd_menus b)" using ids by (metis list.set_map)
  have mem: "r = m' \<or> r \<in> set (bd_menus b)" if "r \<in> set (bd_menus b')" for r using that by (auto simp: eq split: if_splits)
  have "menu_active m' \<Longrightarrow> menu_complete b mid" using publishable_complete [OF pub] same(2) id by auto
  ultimately show ?thesis
    using assms(2) id unfolding board_ok_def composed_def f(2,3) same(1) img ids by (auto dest: mem)
qed

lemma delete_menu_ok:
  assumes "delete_menu actor mid b = Inr b'" and "board_ok b"
  shows "board_ok b'"
proof -
  define p where "p = (\<lambda>g :: menu_group. mg_menu_id g = mid)"
  have f: "bd_menus b' = filter (\<lambda>m. menu_id m \<noteq> mid) (bd_menus b)" "bd_groups b' = filter (\<lambda>g. \<not> p g) (bd_groups b)"
    "bd_items b' = filter (\<lambda>i. \<not> list_ex (\<lambda>g. p g \<and> mg_id g = gi_group_id i) (bd_groups b)) (bd_items b)"
    using assms(1) by (auto simp: delete_menu_def drop_groups_def p_def)
  have kept: "gi_group_id i \<in> mg_id ` set (bd_groups b')" if i: "i \<in> set (bd_items b')" for i
  proof -
    from i have "i \<in> set (bd_items b)" by (simp add: f)
    then obtain g where "g \<in> set (bd_groups b)" "gi_group_id i = mg_id g" using board_parts(6) [OF assms(2)] by blast
    then show ?thesis using i by (auto simp: f list_ex_iff)
  qed
  have "filter (\<lambda>i. gi_group_id i = mg_id g) (bd_items b') = filter (\<lambda>i. gi_group_id i = mg_id g) (bd_items b)"
    if g: "g \<in> set (bd_groups b)" "mg_menu_id g \<noteq> mid" for g
    using g group_unique [OF assms(2) g(1)] by (auto simp: f p_def list_ex_iff intro!: filter_cong) metis
  then have same: "menu_complete b' k = menu_complete b k" if "k \<noteq> mid" for k
    unfolding menu_complete_def f(2) p_def using that by auto
  have "mg_menu_id g \<in> menu_id ` set (bd_menus b')" if "g \<in> set (bd_groups b')" for g
    using that board_parts(5) [OF assms(2), of g] by (auto simp: f p_def)
  moreover have "distinct (map mg_id (bd_groups b'))" "distinct (map gi_id (bd_items b'))"
    "distinct (map (\<lambda>i. (gi_group_id i, gi_product_id i)) (bd_items b'))"
    using board_parts(1-3) [OF assms(2)] by (simp_all add: f distinct_map_filter)
  moreover have "1 \<le> mg_min_choices g \<and> mg_min_choices g \<le> mg_max_choices g" if "g \<in> set (bd_groups b')" for g
    using that board_parts(5) [OF assms(2), of g] by (simp add: f)
  ultimately have "composed b'" using kept by (simp add: composed_def)
  then show ?thesis
    using assms(2) same by (auto simp: board_ok_def f(1) intro: distinct_map_filter)
qed

lemma menu_step_ok: "menu_step b b' \<Longrightarrow> board_ok b \<Longrightarrow> board_ok b'"
  by (induction rule: menu_step.cases)
     (blast intro: create_menu_ok update_menu_ok delete_menu_ok create_group_ok update_group_ok delete_group_ok add_item_ok reorder_item_ok remove_item_ok)+

interpretation menu_inv: invariant_steps menu_step board_ok
  by unfold_locales (rule menu_step_ok)

subsection \<open>A menu on the card\<close>

definition empty_board :: menu_board where
  "empty_board = \<lparr>bd_menus = [], bd_groups = [], bd_items = [], bd_audit = []\<rparr>"

lemma empty_board_ok: "board_ok empty_board"
  by (simp add: board_ok_def composed_def empty_board_def)

subsection \<open>From the card to the order\<close>

text \<open>Whether a product can be had, as a function of the product alone.\<close>

definition can_be_had :: "instant \<Rightarrow> stock_db \<Rightarrow> int \<Rightarrow> bool" where
  "can_be_had now s p \<longleftrightarrow>
     (case latest_override p (st_overrides s) of None \<Rightarrow> True | Some ov \<Rightarrow> ov_available ov)
     \<and> (\<forall>i ing. i \<in> fst ` set (required_entries s p) \<longrightarrow> get_ingredient i s = Some ing \<longrightarrow>
          total_for i (required_entries s p) \<le> current_qty ing
          \<and> total_for i (required_entries s p) \<le> usable_qty ing (batches_for_ingredient i (st_batches s)) now)"

lemma map_of_map_keys: "map_of (map (\<lambda>p. (p, f p)) ps) p = (if p \<in> set ps then Some (f p) else None)"
  by (induction ps) auto

lemma shown_availability:
  assumes "p \<in> set pids"
  shows "\<exists>x. map_of (snd (availability_map now pids s)) p = Some x \<and> (ps_available x \<longleftrightarrow> can_be_had now s p)"
proof -
  have ne: "pids \<noteq> []" using assms by auto
  obtain s' raw where r: "get_products_availability pids now s = (s', raw)" by fastforce
  have ov: "st_overrides s' = st_overrides s" using r by (auto simp: get_products_availability_def Let_def split: prod.splits if_splits)
  have keys: "map fst raw = pids" using r ne by (auto simp: get_products_availability_def Let_def comp_def split: prod.splits)
  then have "p \<in> fst ` set raw" using assms by (metis list.set_map)
  then obtain pa where pa: "map_of raw p = Some pa" by (metis domD dom_map_of_conv_image_fst)
  have iff: "pa_available pa \<longleftrightarrow> (\<forall>i ing. i \<in> fst ` set (required_entries s p) \<longrightarrow> get_ingredient i s = Some ing \<longrightarrow>
      total_for i (required_entries s p) \<le> current_qty ing \<and>
      total_for i (required_entries s p) \<le> usable_qty ing (batches_for_ingredient i (st_batches s)) now)"
    by (rule products_availability_iff [OF r map_of_SomeD [OF pa]])
  let ?x = "overridden_status (latest_override p (st_overrides s')) (stock_status p (map_of raw p))"
  have "map_of (snd (availability_map now pids s)) p = Some ?x"
    using ne assms by (simp add: availability_map_def r map_of_map_keys)
  moreover have "ps_available ?x \<longleftrightarrow> can_be_had now s p"
    unfolding can_be_had_def iff [symmetric] by (simp add: pa ov overridden_status_def stock_status_def split: option.splits)
  ultimately show ?thesis by blast
qed

end
