(* ===== verification/Menu_Card.thy ===== *)
theory Menu_Card
  imports Menu_Props
begin

text \<open>
  From the card to the order: what the public listing of \<^verbatim>\<open>menu_service.py\<close> announces, \<^verbatim>\<open>create_order\<close> accepts.
\<close>

text \<open>The orders see the menus of the board.\<close>

definition on_card :: "menu_board \<Rightarrow> stock_db \<Rightarrow> bool" where
  "on_card b s \<longleftrightarrow> show_menus b (st_catalog s) = st_catalog s"

lemma on_card_fields:
  assumes "on_card b s"
  shows "cat_menus (st_catalog s) = map menu.truncate (bd_menus b)" "cat_menu_groups (st_catalog s) = bd_groups b"
    "cat_menu_group_items (st_catalog s) = map (\<lambda>i. (gi_group_id i, gi_product_id i)) (bd_items b)"
  using arg_cong [OF assms [unfolded on_card_def], of cat_menus] arg_cong [OF assms [unfolded on_card_def], of cat_menu_groups]
    arg_cong [OF assms [unfolded on_card_def], of cat_menu_group_items]
  by (simp_all add: show_menus_def)

text \<open>The customer takes, in every group, the first available products shown, as many as must be chosen.\<close>

definition plain_line :: "int \<Rightarrow> line_request" where
  "plain_line pid = \<lparr>lq_product_id = pid, lq_variant_id = None, lq_quantity = 1, lq_extras = []\<rparr>"

definition picks_of :: "public_group \<Rightarrow> (menu_group \<times> product) list" where
  "picks_of pg = map (\<lambda>(i, p, st). (pg_group pg, p))
     (take (nat (mg_min_choices (pg_group pg))) (filter (\<lambda>(i, p, st). ps_available st) (pg_products pg)))"

definition first_choice :: "public_menu \<Rightarrow> selection_request list" where
  "first_choice pm = map (\<lambda>(g, p). \<lparr>sq_group_id = mg_id g, sq_line = plain_line (prod_id p)\<rparr>) (concat (map picks_of (pm_groups pm)))"

lemma plain_line_resolved:
  assumes "row_get prod_id pid (cat_products cat) = Some p" and "prod_active p"
  shows "\<exists>r. resolve_catalog_item cat (plain_line pid) = Inr r \<and> rs_request r = plain_line pid \<and> rs_product r = p"
  using assms by (simp add: resolve_catalog_item_def plain_line_def resolve_variant_def resolve_extras_def)

lemma picks_resolved:
  assumes "\<And>g p. (g, p) \<in> set xs \<Longrightarrow> row_get mg_id (mg_id g) groups = Some g \<and> (mg_id g, prod_id p) \<in> set (cat_menu_group_items cat)
      \<and> row_get prod_id (prod_id p) (cat_products cat) = Some p \<and> prod_active p"
    and "distinct (map (\<lambda>(g, p). (mg_id g, prod_id p)) xs)"
    and "set (map (\<lambda>(g, p). (mg_id g, prod_id p)) xs) \<inter> set seen = {}"
  shows "\<exists>cs. resolve_selections cat groups (map (\<lambda>(g, p). \<lparr>sq_group_id = mg_id g, sq_line = plain_line (prod_id p)\<rparr>) xs) seen = Inr cs
    \<and> map fst cs = map fst xs \<and> list_all2 (\<lambda>c x. rs_product (snd c) = snd x \<and> lq_quantity (rs_request (snd c)) = 1) cs xs"
  using assms
proof (induction xs arbitrary: seen)
  case (Cons x xs)
  obtain g p where x: "x = (g, p)" by fastforce
  have gp: "row_get mg_id (mg_id g) groups = Some g" "(mg_id g, prod_id p) \<in> set (cat_menu_group_items cat)"
    "row_get prod_id (prod_id p) (cat_products cat) = Some p" "prod_active p" using Cons.prems(1) [of g p] x by auto
  obtain r where r: "resolve_catalog_item cat (plain_line (prod_id p)) = Inr r" "rs_request r = plain_line (prod_id p)" "rs_product r = p"
    using plain_line_resolved [OF gp(3,4)] by blast
  have rest: "distinct (map (\<lambda>(g, p). (mg_id g, prod_id p)) xs)"
    "set (map (\<lambda>(g, p). (mg_id g, prod_id p)) xs) \<inter> set ((mg_id g, prod_id p) # seen) = {}"
    using Cons.prems(2,3) by (auto simp: x)
  obtain cs where cs: "resolve_selections cat groups (map (\<lambda>(g, p). \<lparr>sq_group_id = mg_id g, sq_line = plain_line (prod_id p)\<rparr>) xs) ((mg_id g, prod_id p) # seen) = Inr cs"
    "map fst cs = map fst xs" "list_all2 (\<lambda>c x. rs_product (snd c) = snd x \<and> lq_quantity (rs_request (snd c)) = 1) cs xs"
    using Cons.IH [OF _ rest] Cons.prems(1) by (auto simp: x)
  have "(mg_id g, prod_id p) \<notin> set seen" using Cons.prems(3) by (auto simp: x)
  moreover have "lq_product_id (plain_line k) = k" "lq_quantity (plain_line k) = 1" for k by (simp_all add: plain_line_def)
  ultimately show ?case using gp(1,2) r cs by (simp add: x Let_def)
qed simp

lemma chosen_count_picks:
  assumes "map fst cs = map fst xs" and "list_all2 (\<lambda>c x. rs_product (snd c) = snd x \<and> lq_quantity (rs_request (snd c)) = 1) cs xs"
  shows "chosen_count g cs = int (length (filter (\<lambda>x. mg_id (fst x) = mg_id g) xs))"
  using assms(2,1) unfolding chosen_count_def by (induction rule: list_all2_induct) auto

lemma items_of_group_mem:
  "(i, p) \<in> set (items_of_group b cat gid) \<Longrightarrow> i \<in> set (bd_items b) \<and> gi_group_id i = gid
     \<and> row_get prod_id (gi_product_id i) (cat_products cat) = Some p \<and> prod_id p = gi_product_id i"
  by (auto simp: items_of_group_def dest: row_get_SomeD [OF sym] split: option.splits)

lemma items_of_group_products:
  assumes "distinct (map (\<lambda>i. (gi_group_id i, gi_product_id i)) (bd_items b))"
  shows "distinct (map (\<lambda>ip. prod_id (snd ip)) (items_of_group b cat gid))"
proof -
  let ?js = "sort_key (\<lambda>i. (gi_display_order i, gi_id i)) (filter (\<lambda>i. gi_group_id i = gid) (bd_items b))"
  have "distinct (map (\<lambda>i. (gi_group_id i, gi_product_id i)) (filter (\<lambda>i. gi_group_id i = gid) (bd_items b)))"
    using assms by (rule distinct_map_filter)
  then have "distinct (map gi_product_id (filter (\<lambda>i. gi_group_id i = gid) (bd_items b)))"
    by (auto simp: distinct_map inj_on_def)
  then have d: "distinct (map gi_product_id ?js)" by (simp add: distinct_map)
  have "distinct (map (\<lambda>ip. prod_id (snd ip)) (concat (map (\<lambda>i. case row_get prod_id (gi_product_id i) (cat_products cat) of None \<Rightarrow> [] | Some p \<Rightarrow> [(i, p)]) js)))
     \<and> set (map (\<lambda>ip. prod_id (snd ip)) (concat (map (\<lambda>i. case row_get prod_id (gi_product_id i) (cat_products cat) of None \<Rightarrow> [] | Some p \<Rightarrow> [(i, p)]) js))) \<subseteq> gi_product_id ` set js"
    if "distinct (map gi_product_id js)" for js
    using that by (induction js) (auto dest!: row_get_SomeD row_get_SomeD [OF sym] split: option.splits, metis image_eqI)
  from this [OF d] show ?thesis by (simp add: items_of_group_def)
qed

lemma distinct_map_take: "distinct (map f xs) \<Longrightarrow> distinct (map f (take n xs))"
  by (simp flip: take_map)

lemma board_groups_mem: "g \<in> set (board_groups b mid) \<longleftrightarrow> g \<in> set (bd_groups b) \<and> mg_menu_id g = mid"
  by (auto simp: board_groups_def)

lemma board_groups_distinct: "board_ok b \<Longrightarrow> distinct (map mg_id (board_groups b mid))"
  using board_parts(1) [of b] by (auto simp: board_groups_def distinct_map intro: inj_on_subset)

lemma row_get_mem: "distinct (map f xs) \<Longrightarrow> x \<in> set xs \<Longrightarrow> row_get f (f x) xs = Some x"
  by (induction xs) (auto simp: row_simps)

lemma picks_mem:
  assumes "(g, p) \<in> set (picks_of (public_group_of b cat av h))"
  shows "g = h \<and> (\<exists>i st. (i, p) \<in> set (active_items b cat (mg_id h)) \<and> ps_available st
    \<and> st = (case map_of av (prod_id p) of Some st \<Rightarrow> st | None \<Rightarrow> stock_status (prod_id p) None))"
  using assms by (auto simp: picks_of_def public_group_of_def Let_def dest!: in_set_takeD)

lemma picks_count:
  assumes "pg_available (public_group_of b cat av g)" and "1 \<le> mg_min_choices g"
  shows "length (picks_of (public_group_of b cat av g)) = nat (mg_min_choices g)"
  using assms by (auto simp: picks_of_def public_group_of_def Let_def)

lemma picks_distinct:
  assumes "board_ok b"
  shows "distinct (map (\<lambda>(g, p). (mg_id g, prod_id p)) (picks_of (public_group_of b cat av g)))"
proof -
  have "distinct (map (\<lambda>ip. prod_id (snd ip)) (active_items b cat (mg_id g)))"
    unfolding active_items_def by (rule distinct_map_filter [OF items_of_group_products [OF board_parts(3) [OF assms]]])
  then have "distinct (map (\<lambda>(i, p, st). prod_id p) (pg_products (public_group_of b cat av g)))"
    by (simp add: public_group_of_def Let_def comp_def case_prod_unfold)
  then have d: "distinct (map (\<lambda>(i, p, st). prod_id p) (take (nat (mg_min_choices g)) (filter (\<lambda>(i, p, st). ps_available st) (pg_products (public_group_of b cat av g)))))"
    by (intro distinct_map_take distinct_map_filter)
  have "map (\<lambda>(g, p). (mg_id g, prod_id p)) (picks_of (public_group_of b cat av g)) = map (Pair (mg_id g))
      (map (\<lambda>(i, p, st). prod_id p) (take (nat (mg_min_choices g)) (filter (\<lambda>(i, p, st). ps_available st) (pg_products (public_group_of b cat av g)))))"
    unfolding picks_of_def map_map by (rule map_cong) (auto simp: public_group_of_def Let_def)
  moreover have "distinct (map (Pair k) xs) = distinct xs" for k :: int and xs :: "int list" by (simp add: distinct_map inj_on_def)
  ultimately show ?thesis using d by (simp only:)
qed

lemma all_picks_distinct:
  assumes "board_ok b" and "distinct (map mg_id gs)"
  shows "distinct (map (\<lambda>(g, p). (mg_id g, prod_id p)) (concat (map picks_of (map (public_group_of b cat av) gs))))"
  using assms(2)
proof (induction gs)
  case (Cons g gs)
  have "mg_id h \<noteq> mg_id g" if "(h, p) \<in> set (concat (map picks_of (map (public_group_of b cat av) gs)))" for h p
  proof -
    have "h \<in> set gs" using that by (auto dest!: picks_mem)
    then show ?thesis using Cons.prems by (metis distinct.simps(2) image_eqI list.set_map list.simps(9))
  qed
  then show ?case
    using Cons picks_distinct [OF assms(1), of cat av g] by (auto dest!: picks_mem)
qed simp

lemma picks_per_group:
  assumes "distinct (map mg_id gs)" and "g \<in> set gs"
  shows "filter (\<lambda>x. mg_id (fst x) = mg_id g) (concat (map picks_of (map (public_group_of b cat av) gs))) = picks_of (public_group_of b cat av g)"
  using assms
proof (induction gs)
  case (Cons h gs)
  have fst: "mg_id (fst x) = mg_id k" if "x \<in> set (picks_of (public_group_of b cat av k))" for x k
    using that picks_mem [of "fst x" "snd x"] by simp
  show ?case
  proof (cases "g = h")
    case True
    have "mg_id (fst x) \<noteq> mg_id h" if x: "x \<in> set (concat (map picks_of (map (public_group_of b cat av) gs)))" for x
    proof -
      obtain k where k: "k \<in> set gs" "x \<in> set (picks_of (public_group_of b cat av k))" using x by auto
      then show ?thesis using fst [OF k(2)] Cons.prems(1) by (metis distinct.simps(2) image_eqI list.set_map list.simps(9))
    qed
    then have "filter (\<lambda>x. mg_id (fst x) = mg_id h) (concat (map picks_of (map (public_group_of b cat av) gs))) = []"
      by (simp only: filter_empty_conv) blast
    then show ?thesis using True fst [of _ h] by (simp add: filter_id_conv)
  next
    case False
    then have "g \<in> set gs" using Cons.prems(2) by simp
    moreover have "mg_id h \<notin> mg_id ` set gs" using Cons.prems(1) by simp
    ultimately have g: "g \<in> set gs" "mg_id g \<noteq> mg_id h" by (auto intro: rev_image_eqI)
    then have "filter (\<lambda>x. mg_id (fst x) = mg_id g) (picks_of (public_group_of b cat av h)) = []"
      using fst [of _ h] by (auto simp: filter_empty_conv)
    then show ?thesis using Cons.IH Cons.prems(1) g(1) by simp
  qed
qed simp

text \<open>What the page of a menu that is shown says.\<close>

lemma get_public_menuD:
  assumes "get_public_menu now mid b s = (s1, Inr pm)"
  shows "\<exists>m. m \<in> set (bd_menus b) \<and> menu_id m = mid \<and> public_menu_filter now m \<and> board_groups b mid \<noteq> []
    \<and> pm = public_menu_of b (st_catalog s) (snd (availability_map now (shown_products b (st_catalog s) [m]) s)) m"
proof -
  obtain m where f: "find (\<lambda>m. menu_id m = mid \<and> public_menu_filter now m) (bd_menus b) = Some m"
    using assms by (auto simp: get_public_menu_def split: option.splits)
  from find_SomeD [OF f] have m: "m \<in> set (bd_menus b)" "menu_id m = mid" "public_menu_filter now m" by auto
  have "complete_public_menu b (st_catalog s) m"
    "pm = public_menu_of b (st_catalog s) (snd (availability_map now (shown_products b (st_catalog s) [m]) s)) m"
    using assms f unfolding get_public_menu_def build_public_menus_def
    by (auto simp: Let_def split: prod.splits list.splits if_splits)
  then show ?thesis using m by (auto simp: complete_public_menu_def)
qed

lemma active_itemD:
  assumes "(i, p) \<in> set (active_items b cat gid)"
  shows "i \<in> set (bd_items b) \<and> gi_group_id i = gid \<and> prod_id p = gi_product_id i
    \<and> row_get prod_id (prod_id p) (cat_products cat) = Some p \<and> prod_active p"
  using assms items_of_group_mem [of i p b cat gid] by (auto simp: active_items_def)

text \<open>Every pick of the customer is an active product of its group that can be had.\<close>

lemma picked_product:
  assumes "(g, p) \<in> set (concat (map picks_of (map (public_group_of b (st_catalog s)
      (snd (availability_map now (shown_products b (st_catalog s) [m]) s))) (board_groups b (menu_id m)))))"
  shows "g \<in> set (board_groups b (menu_id m)) \<and> (\<exists>i. (i, p) \<in> set (active_items b (st_catalog s) (mg_id g))) \<and> can_be_had now s (prod_id p)"
proof -
  define av where "av = snd (availability_map now (shown_products b (st_catalog s) [m]) s)"
  obtain i st where g: "g \<in> set (board_groups b (menu_id m))" and i: "(i, p) \<in> set (active_items b (st_catalog s) (mg_id g))"
    and st: "ps_available st" "st = (case map_of av (prod_id p) of Some st \<Rightarrow> st | None \<Rightarrow> stock_status (prod_id p) None)"
    using assms picks_mem unfolding av_def [symmetric] by fastforce
  have "prod_id p \<in> set (shown_products b (st_catalog s) [m])" using g i by (force simp: shown_products_def Let_def)
  from shown_availability [OF this, of now s] st g i show ?thesis by (auto simp: av_def)
qed

text \<open>C22. What the card announces can be ordered: if the public page of a menu shows it as available, then an order of that
  menu at that moment, in any quantity and with the first available products of every group, is accepted at the
  menu's fixed price.\<close>

theorem shown_menu_can_be_ordered:
  assumes "menu_step\<^sup>*\<^sup>* empty_board b" and "on_card b s"
    and "get_public_menu now mid b s = (s1, Inr pm)" and "pm_available pm"
  shows "\<exists>s2 r. resolve_menu_item now \<lparr>mq_menu_id = mid, mq_quantity = n, mq_selections = first_choice pm\<rparr> s = Inr (s2, r)
    \<and> menu_id (rm_menu r) = mid \<and> rm_unit_price r = money (menu_fixed_price (pm_menu pm))"
proof -
  define cat where "cat = st_catalog s"
  note cats = on_card_fields [OF assms(2), folded cat_def]
  have ok: "board_ok b" by (rule menu_inv.run_inv [OF assms(1) empty_board_ok])
  obtain m where m: "m \<in> set (bd_menus b)" "menu_id m = mid" "public_menu_filter now m" and ne: "board_groups b mid \<noteq> []"
    and shown: "pm = public_menu_of b cat (snd (availability_map now (shown_products b cat [m]) s)) m"
    using get_public_menuD [OF assms(3)] by (auto simp: cat_def)
  define gs where "gs = board_groups b mid"
  define av where "av = snd (availability_map now (shown_products b cat [m]) s)"
  have groups: "groups_of_menu cat mid = gs" by (simp add: groups_of_menu_def gs_def board_groups_def cats)
  have dg: "distinct (map mg_id gs)" unfolding gs_def by (rule board_groups_distinct [OF ok])
  have min: "1 \<le> mg_min_choices g \<and> mg_min_choices g \<le> mg_max_choices g" if "g \<in> set gs" for g
    using that board_parts(5) [OF ok, of g] by (simp add: gs_def board_groups_mem)
  have pgs: "pm_groups pm = map (public_group_of b cat av) gs" "\<And>g. g \<in> set gs \<Longrightarrow> pg_available (public_group_of b cat av g)"
    using assms(4) m(2) by (auto simp: shown av_def public_menu_of_def Let_def gs_def list_all_iff)
  define xs where "xs = concat (map picks_of (pm_groups pm))"
  have mem: "g \<in> set gs \<and> (\<exists>i. (i, p) \<in> set (active_items b cat (mg_id g))) \<and> can_be_had now s (prod_id p)" if "(g, p) \<in> set xs" for g p
    using picked_product [of g p b s now m] that by (simp add: xs_def pgs(1) av_def cat_def gs_def m(2))
  have sel: "\<exists>cs. resolve_selections cat gs (map (\<lambda>(g, p). \<lparr>sq_group_id = mg_id g, sq_line = plain_line (prod_id p)\<rparr>) xs) [] = Inr cs
    \<and> map fst cs = map fst xs \<and> list_all2 (\<lambda>c x. rs_product (snd c) = snd x \<and> lq_quantity (rs_request (snd c)) = 1) cs xs"
  proof (rule picks_resolved)
    fix g p assume x: "(g, p) \<in> set xs"
    then obtain i where i: "(i, p) \<in> set (active_items b cat (mg_id g))" using mem by blast
    show "row_get mg_id (mg_id g) gs = Some g \<and> (mg_id g, prod_id p) \<in> set (cat_menu_group_items cat)
      \<and> row_get prod_id (prod_id p) (cat_products cat) = Some p \<and> prod_active p"
      using active_itemD [OF i] mem [OF x] row_get_mem [OF dg] by (auto simp: cats intro: rev_image_eqI)
  qed (use all_picks_distinct [OF ok dg] in \<open>simp_all add: xs_def pgs(1)\<close>)
  then obtain cs where cs: "resolve_selections cat gs (first_choice pm) [] = Inr cs" "map fst cs = map fst xs"
    "list_all2 (\<lambda>c x. rs_product (snd c) = snd x \<and> lq_quantity (rs_request (snd c)) = 1) cs xs"
    unfolding first_choice_def xs_def by blast
  have count_one: "count_ok cs g" if g: "g \<in> set gs" for g
  proof -
    have "chosen_count g cs = int (nat (mg_min_choices g))"
      using chosen_count_picks [OF cs(2,3), of g] picks_per_group [OF dg g, of b cat av] picks_count [OF pgs(2) [OF g]] min [OF g]
      by (simp add: xs_def pgs(1))
    then show ?thesis using min [OF g] by (simp add: count_ok_def)
  qed
  then have count: "list_all (count_ok cs) gs" by (simp add: list_all_iff)
  have comp: "component_available (snd (availability_map now (map (\<lambda>c. prod_id (rs_product (snd c))) cs) s)) c" if c: "c \<in> set cs" for c
  proof -
    obtain k where k: "k < length cs" "c = cs ! k" using c by (auto simp: in_set_conv_nth)
    then have "rs_product (snd c) = snd (xs ! k)" "xs ! k \<in> set xs"
      using list_all2_nthD [OF cs(3) k(1)] list_all2_lengthD [OF cs(3)] by simp_all
    then obtain x where "x \<in> set xs" "rs_product (snd c) = snd x" by blast
    then have "can_be_had now s (prod_id (rs_product (snd c)))" using mem [of "fst x" "snd x"] by simp
    then show ?thesis
      using shown_availability [of "prod_id (rs_product (snd c))" "map (\<lambda>c. prod_id (rs_product (snd c))) cs" now s] c
      by (auto simp: component_available_def)
  qed
  have got: "row_get menu_id mid (cat_menus cat) = Some (menu.truncate m)"
  proof -
    have "distinct (map menu_id (cat_menus cat))" using board_parts(4) [OF ok] by (simp add: cats menu.truncate_def comp_def)
    moreover have "menu.truncate m \<in> set (cat_menus cat)" using m(1) by (simp add: cats)
    ultimately show ?thesis using row_get_mem [of menu_id "cat_menus cat" "menu.truncate m"] m(2) by (simp add: menu.truncate_def)
  qed
  have open_now: "menu_open now (menu.truncate m)" using m(3) by (simp add: menu_open_def public_menu_filter_def menu.truncate_def)
  obtain s2 av2 where a2: "availability_map now (map (\<lambda>c. prod_id (rs_product (snd c))) cs) s = (s2, av2)" by fastforce
  have id: "menu_id (menu.truncate m) = mid" "menu_fixed_price (menu.truncate m) = menu_fixed_price (pm_menu pm)"
    using m(2) by (simp_all add: menu.truncate_def shown public_menu_of_def Let_def)
  show ?thesis
    using comp count_one by (simp add: resolve_menu_item_def cat_def [symmetric] got open_now id groups ne [folded gs_def] cs(1) count a2 Let_def list_all_iff del: rbind_eq_Inr)
qed

subsection \<open>A menu of one course\<close>

definition card_catalog :: catalog where
  "card_catalog =
     \<lparr>cat_categories = [],
      cat_products = [\<lparr>prod_id = 7, prod_category_id = None, prod_name = ''pizza'', prod_base_price = 12, prod_station = None, prod_active = True\<rparr>],
      cat_variants = [], cat_extras = [], cat_product_extras = [], cat_menus = [], cat_menu_groups = [], cat_menu_group_items = []\<rparr>"

abbreviation lunch_create :: menu_create where
  "lunch_create \<equiv> \<lparr>mc_name = ''lunch'', mc_description = None, mc_fixed_price = 15, mc_image_url = None, mc_display_order = 0,
     mc_active = False, mc_available_from = None, mc_available_until = None\<rparr>"

abbreviation lunch :: "bool \<Rightarrow> board_menu" where
  "lunch active \<equiv> \<lparr>menu_id = 1, menu_name = ''lunch'', menu_fixed_price = 15, menu_active = active, menu_available_from = None,
     menu_available_until = None, mr_description = None, mr_image_url = None, mr_display_order = 0\<rparr>"

abbreviation main_course :: menu_group where
  "main_course \<equiv> \<lparr>mg_id = 2, mg_menu_id = 1, mg_name = ''main'', mg_min_choices = 1, mg_max_choices = 1, mg_display_order = 0\<rparr>"

abbreviation main_item :: group_item where
  "main_item \<equiv> \<lparr>gi_id = 3, gi_group_id = 2, gi_product_id = 7, gi_display_order = 0\<rparr>"

definition lunch_audit :: "menu_audit list" where
  "lunch_audit = [\<lparr>ma_actor = 9, ma_menu_id = 1, ma_action = Menu_created 15\<rparr>,
     \<lparr>ma_actor = 9, ma_menu_id = 1, ma_action = Menu_composition_changed (Group_created 2) False\<rparr>,
     \<lparr>ma_actor = 9, ma_menu_id = 1, ma_action = Menu_composition_changed (Product_added 2 3 7) False\<rparr>,
     \<lparr>ma_actor = 9, ma_menu_id = 1, ma_action = Menu_updated [(M_active, Mv_bool False, Mv_bool True)] None\<rparr>,
     \<lparr>ma_actor = 9, ma_menu_id = 1, ma_action = Menu_published None\<rparr>]"

definition lunch_board :: "menu_board" where
  "lunch_board = \<lparr>bd_menus = [lunch True], bd_groups = [main_course], bd_items = [main_item], bd_audit = lunch_audit\<rparr>"

lemma strip_lunch: "py_strip ''lunch'' = ''lunch''" and strip_main: "py_strip ''main'' = ''main''"
  by code_simp+

lemma lunch_created:
  "menu_step empty_board \<lparr>bd_menus = [lunch False], bd_groups = [], bd_items = [], bd_audit = take 1 lunch_audit\<rparr>"
  by (rule mstep_create [where c = lunch_create and c' = lunch_create and key = 1 and actor = 9 and cat = card_catalog])
    (simp_all add: validate_menu_create_def strip_lunch open_window_def empty_board_def row_ids_def create_menu_def answer_menu_def
      get_menu_def row_simps new_menu_def audit_menu_def lunch_audit_def)

lemma lunch_group_created:
  "menu_step \<lparr>bd_menus = [lunch False], bd_groups = [], bd_items = [], bd_audit = take 1 lunch_audit\<rparr>
     \<lparr>bd_menus = [lunch False], bd_groups = [main_course], bd_items = [], bd_audit = take 2 lunch_audit\<rparr>"
  by (rule mstep_group [where g = "\<lparr>gc_name = ''main'', gc_min_choices = 1, gc_max_choices = 1, gc_display_order = 0\<rparr>"
        and g' = "\<lparr>gc_name = ''main'', gc_min_choices = 1, gc_max_choices = 1, gc_display_order = 0\<rparr>"
        and key = 2 and actor = 9 and cat = card_catalog and mid = 1])
    (simp_all add: validate_group_create_def good_name_def strip_main row_ids_def create_group_def deactivate_for_composition_change_def
      answer_menu_def get_menu_def row_simps new_menu_def audit_menu_def lunch_audit_def numeral_2_eq_2 Let_def)

lemma lunch_item_added:
  "menu_step \<lparr>bd_menus = [lunch False], bd_groups = [main_course], bd_items = [], bd_audit = take 2 lunch_audit\<rparr>
     \<lparr>bd_menus = [lunch False], bd_groups = [main_course], bd_items = [main_item], bd_audit = take 3 lunch_audit\<rparr>"
  by (rule mstep_item [where key = 3 and actor = 9 and cat = card_catalog and mid = 1 and gid = 2 and pid = 7 and position = 0])
    (simp_all add: row_ids_def add_group_item_def get_menu_group_def deactivate_for_composition_change_def card_catalog_def
      answer_menu_def get_menu_def row_simps new_menu_def audit_menu_def lunch_audit_def numeral_2_eq_2 numeral_3_eq_3 Let_def)

abbreviation publish_patch :: menu_patch where
  "publish_patch \<equiv> \<lparr>mp_name = None, mp_description = None, mp_fixed_price = None, mp_image_url = None, mp_display_order = None,
     mp_active = Some (Some True), mp_available_from = None, mp_available_until = None, mp_reason = None\<rparr>"

lemma lunch_output:
  assumes "bd_groups b = [main_course]" and "bd_items b = [main_item]"
  shows "mo_publishable (menu_output b card_catalog (lunch t))"
  using assms by (simp add: menu_output_def board_groups_def items_of_group_def publishability_errors_def group_errors_def
      card_catalog_def row_simps new_menu_def)

lemma lunch_published:
  "menu_step \<lparr>bd_menus = [lunch False], bd_groups = [main_course], bd_items = [main_item], bd_audit = take 3 lunch_audit\<rparr> lunch_board"
proof -
  have m: "patch_menu_row publish_patch (lunch False) = lunch True" by (simp add: patch_menu_row_def put_given_def put_nullable_def)
  show ?thesis
    using lunch_output [of "put_menu (lunch True) \<lparr>bd_menus = [lunch False], bd_groups = [main_course], bd_items = [main_item], bd_audit = take 3 lunch_audit\<rparr>" True]
    by (intro mstep_update [where u = publish_patch and u' = publish_patch and actor = 9 and cat = card_catalog and mid = 1])
      (simp_all add: validate_menu_patch_def given_ok_def update_menu_def get_menu_def row_simps new_menu_def m put_nullable_def open_window_def
        menu_nulls_def Let_def put_menu_def answer_menu_def audit_menu_update_def menu_changes_def audit_menu_def lunch_audit_def
        lunch_board_def numeral_3_eq_3)
qed

lemma lunch_run: "menu_step\<^sup>*\<^sup>* empty_board lunch_board"
  by (rule rtranclp.rtrancl_into_rtrancl, rule rtranclp.rtrancl_into_rtrancl, rule rtranclp.rtrancl_into_rtrancl,
      rule r_into_rtranclp, rule lunch_created, rule lunch_group_created, rule lunch_item_added, rule lunch_published)

subsection \<open>What holds of every board\<close>

text \<open>C21. No half-finished menu is on sale: whatever the administration does to the menus, whenever a menu is active it has at
  least one group of choices, every group asks for at least one and at most as many choices as declared, and contains
  at least as many different products as the customer must choose; its price is not negative and its window of sale
  is not empty.\<close>

theorem published_menu_is_complete:
  assumes "menu_step\<^sup>*\<^sup>* empty_board b" and "m \<in> set (bd_menus b)" and "menu_active m"
  shows "0 \<le> menu_fixed_price m \<and> open_window (menu_available_from m) (menu_available_until m)
    \<and> (\<exists>g \<in> set (bd_groups b). mg_menu_id g = menu_id m)
    \<and> (\<forall>g \<in> set (bd_groups b). mg_menu_id g = menu_id m \<longrightarrow> 1 \<le> mg_min_choices g \<and> mg_min_choices g \<le> mg_max_choices g
         \<and> mg_min_choices g \<le> int (card {gi_product_id i |i. i \<in> set (bd_items b) \<and> gi_group_id i = mg_id g}))"
proof -
  have ok: "board_ok b" by (rule menu_inv.run_inv [OF assms(1) empty_board_ok])
  have "card {gi_product_id i |i. i \<in> set (bd_items b) \<and> gi_group_id i = k} = length (filter (\<lambda>i. gi_group_id i = k) (bd_items b))" for k
  proof -
    let ?is = "filter (\<lambda>i. gi_group_id i = k) (bd_items b)"
    have "distinct (map (\<lambda>i. (gi_group_id i, gi_product_id i)) ?is)" using board_parts(3) [OF ok] by (rule distinct_map_filter)
    then have "distinct (map gi_product_id ?is)" by (auto simp: distinct_map inj_on_def)
    then have "card (set (map gi_product_id ?is)) = length ?is" by (metis distinct_card length_map)
    moreover have "set (map gi_product_id ?is) = {gi_product_id i |i. i \<in> set (bd_items b) \<and> gi_group_id i = k}" by auto
    ultimately show ?thesis by simp
  qed
  then show ?thesis
    using ok assms(2,3) board_parts(5) [OF ok] by (auto simp: board_ok_def menu_good_def menu_complete_def)
qed

lemma published_menu_is_complete_witness:
  "menu_step\<^sup>*\<^sup>* empty_board lunch_board \<and> lunch True \<in> set (bd_menus lunch_board) \<and> menu_active (lunch True)
   \<and> (\<exists>g \<in> set (bd_groups lunch_board). mg_menu_id g = menu_id (lunch True))"
  using published_menu_is_complete [OF lunch_run, of "lunch True"] lunch_run by (simp add: lunch_board_def)

subsection \<open>A kitchen that has what the card shows\<close>

definition card_stock :: stock_db where
  "card_stock =
     \<lparr>st_catalog = show_menus lunch_board card_catalog, st_ingredients = [], st_batches = [], st_movements = [],
      st_product_recipes = [], st_variant_recipes = [], st_extra_recipes = [], st_audits = [], st_requests = [],
      st_overrides = [], st_override_seq = 0, st_large_threshold = None\<rparr>"

lemma card_stock_on_card: "on_card lunch_board card_stock"
  by (simp add: on_card_def card_stock_def show_menus_def)

lemma card_items: "active_items lunch_board (st_catalog card_stock) 2 = [(main_item, \<lparr>prod_id = 7, prod_category_id = None,
    prod_name = ''pizza'', prod_base_price = 12, prod_station = None, prod_active = True\<rparr>)]"
  by (simp add: active_items_def items_of_group_def lunch_board_def card_stock_def show_menus_def card_catalog_def row_simps)

lemma card_groups: "board_groups lunch_board 1 = [main_course]"
  by (simp add: board_groups_def lunch_board_def)

lemma card_shown:
  "\<exists>s1 pm. get_public_menu 0 1 lunch_board card_stock = (s1, Inr pm) \<and> pm_available pm \<and> menu_fixed_price (pm_menu pm) = 15"
proof -
  have f: "find (\<lambda>m. menu_id m = 1 \<and> public_menu_filter 0 m) (bd_menus lunch_board) = Some (lunch True)"
    by (simp add: lunch_board_def public_menu_filter_def new_menu_def)
  have id: "menu_id (lunch True) = 1" by (simp add: new_menu_def)
  have c: "complete_public_menu lunch_board (st_catalog card_stock) (lunch True)"
    by (simp add: complete_public_menu_def id card_groups card_items)
  define pids where "pids = shown_products lunch_board (st_catalog card_stock) [lunch True]"
  obtain s1 av where av: "availability_map 0 pids card_stock = (s1, av)" by fastforce
  have "7 \<in> set pids" by (simp add: pids_def shown_products_def id card_groups card_items)
  from shown_availability [OF this, of 0 card_stock] obtain x where x: "map_of av 7 = Some x" "ps_available x = can_be_had 0 card_stock 7"
    by (auto simp: av)
  have "can_be_had 0 card_stock 7"
    by (simp add: can_be_had_def required_entries_def card_stock_def latest_override_def recipe_lines_for_def show_menus_def card_catalog_def)
  then have "pm_available (public_menu_of lunch_board (st_catalog card_stock) av (lunch True))"
    using x by (simp add: public_menu_of_def id card_groups public_group_of_def card_items Let_def)
  moreover have "get_public_menu 0 1 lunch_board card_stock = (s1, Inr (public_menu_of lunch_board (st_catalog card_stock) av (lunch True)))"
    by (simp add: get_public_menu_def f build_public_menus_def c pids_def [symmetric] av Let_def)
  ultimately show ?thesis by (simp add: public_menu_of_def Let_def new_menu_def)
qed

lemma shown_menu_can_be_ordered_witness:
  "\<exists>pm s2 r. resolve_menu_item 0 \<lparr>mq_menu_id = 1, mq_quantity = 2, mq_selections = first_choice pm\<rparr> card_stock = Inr (s2, r)
    \<and> rm_unit_price r = money 15"
proof -
  obtain s1 pm where "get_public_menu 0 1 lunch_board card_stock = (s1, Inr pm)" "pm_available pm" "menu_fixed_price (pm_menu pm) = 15"
    using card_shown by blast
  with shown_menu_can_be_ordered [OF lunch_run card_stock_on_card this(1,2), of 2] show ?thesis by auto
qed

end
