(* ===== verification/Allergen_Props.thy ===== *)
theory Allergen_Props
  imports Allergens Machines Stock_Props
begin

text \<open>
  What the allergen declarations promise: nothing declared present in a selection is hidden from the customer, a
  declaration by hand is never overwritten by a calculation, and the tables keep their keys.
\<close>

subsection \<open>The administration as a step relation\<close>

text \<open>The recipes, the catalogue and the orders may be other ones at every step. The label says which declaration of a product
  a step makes by hand.\<close>

inductive allergen_step :: "(int \<times> int) option \<Rightarrow> allergen_db \<Rightarrow> allergen_db \<Rightarrow> bool" where
  astep_seed: "\<forall>k \<ge> key. k \<notin> row_ids ad_id (al_definitions db) \<Longrightarrow>
    allergen_step None db (seed_regulatory_allergens name_of text_of key tag_key db)"
| astep_ingredient: "set_ingredient_allergens s iid items db = Inr (db', x) \<Longrightarrow> allergen_step None db db'"
| astep_recompute: "recompute_product_allergens s pid db = Inr db' \<Longrightarrow> allergen_step None db db'"
| astep_manual: "set_product_allergen_manual s now orders items pid aid l user ip reason db = Inr (db', x) \<Longrightarrow>
    allergen_step (Some (pid, aid)) db db'"
| astep_tags: "set_product_dietary_tags rank s pid tids db = Inr (db', x) \<Longrightarrow> allergen_step None db db'"
| astep_custom: "key \<notin> row_ids ad_id (al_definitions db) \<Longrightarrow> create_custom_allergen key name slug description db = Inr (db', x) \<Longrightarrow>
    allergen_step None db db'"

abbreviation some_step :: "allergen_db \<Rightarrow> allergen_db \<Rightarrow> bool" where
  "some_step db db' \<equiv> \<exists>l. allergen_step l db db'"

subsection \<open>Keys\<close>

abbreviation declared_key :: "product_allergen \<Rightarrow> int \<times> int" where
  "declared_key r \<equiv> (pl_product_id r, pl_allergen_id r)"

definition declarations_ok :: "allergen_db \<Rightarrow> bool" where
  "declarations_ok db \<longleftrightarrow> distinct (map ad_id (al_definitions db)) \<and> distinct (map ad_slug (al_definitions db))
     \<and> length (filter (\<lambda>d. \<not> ad_regulatory d) (al_definitions db)) \<le> 50
     \<and> distinct (map declared_key (al_products db))
     \<and> (\<forall>r \<in> set (al_products db). pl_allergen_id r \<in> ad_id ` set (al_definitions db))
     \<and> (\<forall>i \<in> set (al_ingredients db). ia_allergen_id i \<in> ad_id ` set (al_definitions db))"

lemma declarations_parts:
  assumes "declarations_ok db"
  shows "distinct (map ad_id (al_definitions db))" "distinct (map ad_slug (al_definitions db))"
    "length (filter (\<lambda>d. \<not> ad_regulatory d) (al_definitions db)) \<le> 50" "distinct (map declared_key (al_products db))"
    "\<And>r. r \<in> set (al_products db) \<Longrightarrow> pl_allergen_id r \<in> ad_id ` set (al_definitions db)"
    "\<And>i. i \<in> set (al_ingredients db) \<Longrightarrow> ia_allergen_id i \<in> ad_id ` set (al_definitions db)"
  using assms by (auto simp: declarations_ok_def)

lemma dict_set_keys: "fst ` set (dict_set k v d) = insert k (fst ` set d)"
  unfolding dom_map_of_conv_image_fst [symmetric] by (auto simp: map_of_dict_set split: if_splits)

lemma distinct_dict_set: "distinct (map fst d) \<Longrightarrow> distinct (map fst (dict_set k v d))"
proof (induction d)
  case (Cons x d)
  obtain j w where x: "x = (j, w)" by fastforce
  have "fst ` set (dict_set k v d) = insert k (fst ` set d)" by (rule dict_set_keys)
  then show ?case using Cons by (auto simp only: x dict_set.simps list.map fst_conv distinct.simps list.set set_map split: if_splits)
qed simp

text \<open>The levels calculated from the ingredients: the highest declared one, where some level is above absent.\<close>

lemma best_levels_keys:
  "distinct (map fst best) \<Longrightarrow> distinct (map fst (best_levels rows best))
    \<and> fst ` set (best_levels rows best) \<subseteq> fst ` set rows \<union> fst ` set best"
proof (induction rows best rule: best_levels.induct)
  case (2 a l rows best)
  let ?b = "if level_priority (case map_of best a of Some l' \<Rightarrow> l' | None \<Rightarrow> Absent_level) < level_priority l then dict_set a l best else best"
  have "distinct (map fst ?b)" "fst ` set ?b \<subseteq> insert a (fst ` set best)"
    using 2(2) distinct_dict_set [of best a l] dict_set_keys [of a l best] by auto
  with 2(1) show ?case by (simp only: best_levels.simps list.set image_insert fst_conv) blast
qed simp

lemma recompute_inner_cases:
  assumes "recompute_inner s pid db = Inr db'"
  shows "al_definitions db' = al_definitions db \<and> al_ingredients db' = al_ingredients db \<and> al_audit db' = al_audit db
    \<and> al_tags db' = al_tags db \<and> al_product_tags db' = al_product_tags db
    \<and> (\<exists>new. al_products db' = filter (\<lambda>r. \<not> (pl_product_id r = pid \<and> pl_source r = From_ingredient)) (al_products db) @ new
        \<and> (\<forall>r \<in> set new. pl_product_id r = pid \<and> pl_source r = From_ingredient \<and> pl_allergen_id r \<in> fst ` set (recipe_levels s pid db))
        \<and> distinct (map pl_allergen_id new)
        \<and> (\<forall>r \<in> set new. \<forall>k \<in> set (al_products db). pl_product_id k = pid \<longrightarrow> pl_source k \<noteq> From_ingredient \<longrightarrow> pl_allergen_id k \<noteq> pl_allergen_id r))"
proof -
  define best where "best = best_levels (recipe_levels s pid db) []"
  define new where "new = map (\<lambda>(a, l). \<lparr>pl_product_id = pid, pl_allergen_id = a, pl_level = l, pl_source = From_ingredient\<rparr>) best"
  define kept where "kept = filter (\<lambda>r. \<not> (pl_product_id r = pid \<and> pl_source r = From_ingredient)) (al_products db)"
  have ids: "map pl_allergen_id new = map fst best" by (simp add: new_def comp_def case_prod_unfold)
  have keys: "distinct (map fst best)" "fst ` set best \<subseteq> fst ` set (recipe_levels s pid db)"
    using best_levels_keys [of "[]" "recipe_levels s pid db"] by (auto simp: best_def)
  have rows: "pl_product_id r = pid \<and> pl_source r = From_ingredient \<and> pl_allergen_id r \<in> fst ` set best" if "r \<in> set new" for r
    using that by (force simp: new_def)
  have "db' = db\<lparr>al_products := kept @ new\<rparr>" and free: "\<not> list_ex (\<lambda>r. pl_product_id r = pid \<and> pl_allergen_id r \<in> fst ` set best) kept"
    using assms unfolding recompute_inner_def Let_def best_def [symmetric] kept_def [symmetric] new_def [symmetric]
    by (simp_all split: if_splits)
  moreover have "\<forall>r \<in> set new. \<forall>k \<in> set (al_products db). pl_product_id k = pid \<longrightarrow> pl_source k \<noteq> From_ingredient \<longrightarrow> pl_allergen_id k \<noteq> pl_allergen_id r"
    using free rows by (auto simp: list_ex_iff kept_def)
  ultimately show ?thesis using rows keys by (auto simp: ids kept_def)
qed

subsection \<open>Every operation keeps the tables in order\<close>

lemma declarations_cong:
  assumes "al_definitions db' = al_definitions db" and "al_products db' = al_products db" and "al_ingredients db' = al_ingredients db"
  shows "declarations_ok db' = declarations_ok db"
  using assms by (simp add: declarations_ok_def)

lemma seed_tags_frame:
  "al_definitions (seed_tags f key ss db) = al_definitions db \<and> al_products (seed_tags f key ss db) = al_products db
    \<and> al_ingredients (seed_tags f key ss db) = al_ingredients db"
  by (induction f key ss db rule: seed_tags.induct) (simp_all add: Let_def)

lemma seed_definitions_ok:
  assumes "declarations_ok db" and "\<forall>k \<ge> key. k \<notin> ad_id ` set (al_definitions db)"
  shows "declarations_ok (seed_definitions f g key ss db) \<and> al_products (seed_definitions f g key ss db) = al_products db"
  using assms
proof (induction f g key ss db rule: seed_definitions.induct)
  case (2 f g key s ss db)
  let ?d = "\<lparr>ad_id = key, ad_name = f s, ad_slug = s, ad_regulatory = True, ad_description = Some (g s)\<rparr>"
  let ?b = "if list_ex (\<lambda>d. ad_slug d = s) (al_definitions db) then db else db\<lparr>al_definitions := al_definitions db @ [?d]\<rparr>"
  have "declarations_ok ?b"
    using 2(2,3) declarations_parts [OF 2(2)] by (auto simp: declarations_ok_def list_ex_iff)
  moreover have "\<forall>k \<ge> key + 1. k \<notin> ad_id ` set (al_definitions ?b)" using 2(3) by auto
  moreover have "al_products ?b = al_products db" by simp
  ultimately show ?case using 2(1) by (simp only: seed_definitions.simps simp_thms)
qed simp

lemma recompute_inner_ok:
  assumes "recompute_inner s pid db = Inr db'" and "declarations_ok db"
  shows "declarations_ok db'"
proof -
  note parts = declarations_parts [OF assms(2)]
  from recompute_inner_cases [OF assms(1)] obtain new where
    n: "al_products db' = filter (\<lambda>r. \<not> (pl_product_id r = pid \<and> pl_source r = From_ingredient)) (al_products db) @ new"
      "\<forall>r \<in> set new. pl_product_id r = pid \<and> pl_source r = From_ingredient \<and> pl_allergen_id r \<in> fst ` set (recipe_levels s pid db)"
      "distinct (map pl_allergen_id new)"
      "\<forall>r \<in> set new. \<forall>k \<in> set (al_products db). pl_product_id k = pid \<longrightarrow> pl_source k \<noteq> From_ingredient \<longrightarrow> pl_allergen_id k \<noteq> pl_allergen_id r"
    and fr: "al_definitions db' = al_definitions db" "al_ingredients db' = al_ingredients db" by blast
  have "distinct (map declared_key new)" using n(3) by (auto simp: distinct_map inj_on_def)
  moreover have "distinct (map declared_key (filter (\<lambda>r. \<not> (pl_product_id r = pid \<and> pl_source r = From_ingredient)) (al_products db)))"
    using parts(4) by (rule distinct_map_filter)
  moreover have fresh: "declared_key r \<notin> declared_key ` set (filter (\<lambda>r. \<not> (pl_product_id r = pid \<and> pl_source r = From_ingredient)) (al_products db))"
    if "r \<in> set new" for r using that n(2,4) by (auto simp: image_iff) metis
  moreover have "declared_key ` set (filter (\<lambda>r. \<not> (pl_product_id r = pid \<and> pl_source r = From_ingredient)) (al_products db))
      \<inter> declared_key ` set new = {}"
  proof (rule equals0I)
    fix k assume "k \<in> declared_key ` set (filter (\<lambda>r. \<not> (pl_product_id r = pid \<and> pl_source r = From_ingredient)) (al_products db))
        \<inter> declared_key ` set new"
    then obtain r where "r \<in> set new" "k = declared_key r" by blast
    then show False using fresh [of r] \<open>k \<in> _\<close> by blast
  qed
  ultimately have "distinct (map declared_key (al_products db'))" unfolding n(1) map_append distinct_append set_map by (intro conjI)
  moreover have "pl_allergen_id r \<in> ad_id ` set (al_definitions db)" if "r \<in> set (al_products db')" for r
  proof (cases "r \<in> set new")
    case True
    then obtain i where "i \<in> set (al_ingredients db)" "pl_allergen_id r = ia_allergen_id i" using n(2) by (fastforce simp: recipe_levels_def)
    then show ?thesis using parts(6) by metis
  next
    case False
    then show ?thesis using that parts(5) by (auto simp: n(1))
  qed
  ultimately show ?thesis using parts by (auto simp: declarations_ok_def fr)
qed

lemma recompute_all_ok:
  "foldE (recompute_inner s) pids db = Inr db' \<Longrightarrow> declarations_ok db \<Longrightarrow> declarations_ok db'"
  by (induction pids arbitrary: db) (auto dest: recompute_inner_ok)

lemma set_ingredient_ok:
  assumes "set_ingredient_allergens s iid items db = Inr (db', x)" and "declarations_ok db"
  shows "declarations_ok db'"
proof -
  note parts = declarations_parts [OF assms(2)]
  define new where "new = map (\<lambda>(a, l). \<lparr>ia_ingredient_id = iid, ia_allergen_id = a, ia_level = l\<rparr>) items"
  define db1 where "db1 = db\<lparr>al_ingredients := filter (\<lambda>ia. ia_ingredient_id ia \<noteq> iid) (al_ingredients db) @ new\<rparr>"
  have known: "list_all (\<lambda>(a, l). row_get ad_id a (al_definitions db) \<noteq> None) items"
    and run: "foldE (recompute_inner s) (products_with s iid) db1 = Inr db'"
    using assms(1) unfolding set_ingredient_allergens_def new_def [symmetric] Let_def db1_def [symmetric]
    by (auto split: if_split_asm)
  have "ia_allergen_id i \<in> ad_id ` set (al_definitions db)" if "i \<in> set (al_ingredients db1)" for i
    using that known parts(6) by (fastforce simp: db1_def new_def list_all_iff dest: row_get_SomeD)
  then have "declarations_ok db1" using parts by (auto simp: declarations_ok_def db1_def)
  then show ?thesis by (rule recompute_all_ok [OF run])
qed

lemma set_manual_cases:
  assumes "set_product_allergen_manual s now orders items pid aid l user ip reason db = Inr (db', x)"
  shows "al_definitions db' = al_definitions db \<and> al_ingredients db' = al_ingredients db
    \<and> (\<forall>r. r \<in> set (al_products db') \<longrightarrow> declared_key r = (pid, aid) \<or> r \<in> set (al_products db))
    \<and> (\<forall>r. r \<in> set (al_products db) \<longrightarrow> declared_key r \<noteq> (pid, aid) \<longrightarrow> r \<in> set (al_products db'))
    \<and> (distinct (map declared_key (al_products db)) \<longrightarrow> distinct (map declared_key (al_products db')))
    \<and> (\<forall>r \<in> set (al_products db'). pl_allergen_id r \<in> pl_allergen_id ` set (al_products db) \<union> ad_id ` set (al_definitions db))"
proof (cases "find (\<lambda>r. pl_product_id r = pid \<and> pl_allergen_id r = aid) (al_products db)")
  case None
  then have "al_products db' = al_products db @ [\<lparr>pl_product_id = pid, pl_allergen_id = aid, pl_level = l, pl_source = Declared_manually\<rparr>]"
    and "row_get ad_id aid (al_definitions db) \<noteq> None" and "al_definitions db' = al_definitions db" "al_ingredients db' = al_ingredients db"
    using assms by (auto simp: set_product_allergen_manual_def Let_def split: if_split_asm)
  then show ?thesis using None by (auto simp: find_None_iff dest: row_get_SomeD)
next
  case (Some r)
  let ?row = "\<lparr>pl_product_id = pid, pl_allergen_id = aid, pl_level = l, pl_source = Declared_manually\<rparr>"
  have rows: "al_products db' = map (\<lambda>r. if pl_product_id r = pid \<and> pl_allergen_id r = aid then ?row else r) (al_products db)"
    and fr: "al_definitions db' = al_definitions db" "al_ingredients db' = al_ingredients db"
    using assms Some by (auto simp: set_product_allergen_manual_def Let_def split: if_split_asm)
  have keys: "map declared_key (al_products db') = map declared_key (al_products db)" by (simp add: rows)
  then have "pl_allergen_id k \<in> pl_allergen_id ` set (al_products db)" if "k \<in> set (al_products db')" for k
    using that by (auto simp: rows split: if_splits intro: rev_image_eqI)
  moreover have "distinct (map declared_key (al_products db)) \<longrightarrow> distinct (map declared_key (al_products db'))" by (simp only: keys simp_thms)
  moreover have "\<forall>k. k \<in> set (al_products db') \<longrightarrow> declared_key k = (pid, aid) \<or> k \<in> set (al_products db)" by (auto simp: rows)
  moreover have "\<forall>k. k \<in> set (al_products db) \<longrightarrow> declared_key k \<noteq> (pid, aid) \<longrightarrow> k \<in> set (al_products db')"
    by (auto simp: rows intro: rev_image_eqI)
  ultimately show ?thesis by (simp only: fr) blast
qed

lemma set_manual_ok:
  assumes "set_product_allergen_manual s now orders items pid aid l user ip reason db = Inr (db', x)" and "declarations_ok db"
  shows "declarations_ok db'"
  using set_manual_cases [OF assms(1)] assms(2) by (fastforce simp: declarations_ok_def)

lemma create_custom_ok:
  assumes "create_custom_allergen key name slug description db = Inr (db', x)" and "declarations_ok db"
    and "key \<notin> row_ids ad_id (al_definitions db)"
  shows "declarations_ok db'"
proof -
  let ?d = "\<lparr>ad_id = key, ad_name = name, ad_slug = slug, ad_regulatory = False, ad_description = description\<rparr>"
  have "al_definitions db' = al_definitions db @ [?d]" "al_products db' = al_products db" "al_ingredients db' = al_ingredients db"
    "\<not> list_ex (\<lambda>d. ad_slug d = slug) (al_definitions db)" "length (filter (\<lambda>d. \<not> ad_regulatory d) (al_definitions db)) < 50"
    using assms(1) by (auto simp: create_custom_allergen_def Let_def split: if_splits)
  then show ?thesis using declarations_parts [OF assms(2)] assms(3) by (auto simp: declarations_ok_def row_ids_def list_ex_iff)
qed

lemma allergen_step_ok:
  assumes "some_step db db'" and "declarations_ok db"
  shows "declarations_ok db'"
proof -
  obtain l where "allergen_step l db db'" using assms(1) by blast
  then show ?thesis
  proof cases
    case (astep_seed key f g tag_key)
    have "declarations_ok (seed_definitions f g key regulatory_slugs db)"
      using seed_definitions_ok [OF assms(2)] astep_seed by (simp add: row_ids_def)
    then show ?thesis using declarations_cong seed_tags_frame unfolding astep_seed seed_regulatory_allergens_def by metis
  next
    case (astep_recompute s pid)
    then obtain db1 where "recompute_inner s pid db = Inr db1" "al_definitions db' = al_definitions db1"
      "al_products db' = al_products db1" "al_ingredients db' = al_ingredients db1" by (auto simp: recompute_product_allergens_def)
    then show ?thesis using recompute_inner_ok assms(2) declarations_cong by metis
  next
    case (astep_tags rank s pid tids x)
    then show ?thesis using declarations_cong [of db' db] assms(2) by (auto simp: set_product_dietary_tags_def Let_def split: if_splits)
  qed (use assms(2) in \<open>blast intro: set_ingredient_ok set_manual_ok create_custom_ok\<close>)+
qed

interpretation declarations_inv: invariant_steps some_step declarations_ok
  by unfold_locales (rule allergen_step_ok)

subsection \<open>A declaration by hand\<close>

lemma find_declared:
  "distinct (map declared_key rs) \<Longrightarrow> r \<in> set rs \<Longrightarrow>
    find (\<lambda>q. pl_product_id q = pl_product_id r \<and> pl_allergen_id q = pl_allergen_id r) rs = Some r"
  by (induction rs) (auto simp: rev_image_eqI)

lemma seed_products: "al_products (seed_regulatory_allergens f g key tag_key db) = al_products db"
proof -
  have "al_products (seed_definitions f g key ss db) = al_products db" for ss
    by (induction f g key ss db rule: seed_definitions.induct) simp_all
  then show ?thesis by (simp add: seed_regulatory_allergens_def seed_tags_frame)
qed

lemma recompute_keeps_manual:
  assumes "recompute_inner s pid db = Inr db'"
  shows "filter (\<lambda>r. pl_source r = Declared_manually) (al_products db') = filter (\<lambda>r. pl_source r = Declared_manually) (al_products db)"
proof -
  have "filter (\<lambda>r. pl_source r = Declared_manually) (filter (\<lambda>r. \<not> (pl_product_id r = pid \<and> pl_source r = From_ingredient)) rs)
      = filter (\<lambda>r. pl_source r = Declared_manually) rs" for rs :: "product_allergen list"
    by (induction rs) auto
  then show ?thesis using recompute_inner_cases [OF assms] by (auto simp: filter_empty_conv)
qed

lemma step_keeps_manual:
  assumes "allergen_step l db db'" and "l \<noteq> Some (declared_key r)" and "pl_source r = Declared_manually" and "r \<in> set (al_products db)"
  shows "r \<in> set (al_products db')"
proof -
  have kept: "r \<in> set (al_products d')" if "recompute_inner s pid d = Inr d'" "r \<in> set (al_products d)" for s pid d d'
  proof -
    have "r \<in> set (filter (\<lambda>r. pl_source r = Declared_manually) (al_products d))" using that(2) assms(3) by simp
    then show ?thesis using recompute_keeps_manual [OF that(1)] by (metis filter_is_subset subsetD)
  qed
  from assms(1) show ?thesis
  proof cases
    case (astep_ingredient s iid items x)
    have all: "foldE (recompute_inner s) pids d = Inr d' \<Longrightarrow> r \<in> set (al_products d) \<Longrightarrow> r \<in> set (al_products d')" for pids d d'
      by (induction pids arbitrary: d) (auto dest: kept)
    show ?thesis
      using astep_ingredient(2) assms(4) by (auto simp: set_ingredient_allergens_def Let_def split: if_split_asm dest!: all)
  next
    case (astep_recompute s pid)
    then show ?thesis using kept assms(4) by (fastforce simp: recompute_product_allergens_def)
  next
    case (astep_manual s now orders items pid aid l user ip reason x)
    then show ?thesis using set_manual_cases [OF astep_manual(2)] assms(2,4) by blast
  next
    case (astep_tags rank s pid tids x)
    then show ?thesis using assms(4) by (auto simp: set_product_dietary_tags_def Let_def split: if_splits)
  next
    case (astep_custom key name slug description x)
    then show ?thesis using assms(4) by (auto simp: create_custom_allergen_def Let_def split: if_splits)
  qed (use assms(4) seed_products in simp)
qed

interpretation manual_inv: invariant_steps "\<lambda>db db'. \<exists>l. allergen_step l db db' \<and> l \<noteq> Some (declared_key r)"
    "\<lambda>db. r \<in> set (al_products db) \<and> pl_source r = Declared_manually" for r
  by unfold_locales (blast intro: step_keeps_manual)

text \<open>C24. The staff has the last word: a level of an allergen declared by hand for a product stays exactly as declared
  through every change of ingredients and recipes, recalculation, tag, definition and declaration of other allergens;
  only another declaration by hand for the same product and allergen replaces it.\<close>

theorem manual_declaration_survives:
  assumes "set_product_allergen_manual s now orders items pid aid l user ip reason db = Inr (db1, row, warned)"
    and "(\<lambda>d d'. \<exists>k. allergen_step k d d' \<and> k \<noteq> Some (pid, aid))\<^sup>*\<^sup>* db1 db2" and "declarations_ok db"
  shows "find (\<lambda>r. pl_product_id r = pid \<and> pl_allergen_id r = aid) (al_products db2)
    = Some \<lparr>pl_product_id = pid, pl_allergen_id = aid, pl_level = l, pl_source = Declared_manually\<rparr>"
proof -
  let ?row = "\<lparr>pl_product_id = pid, pl_allergen_id = aid, pl_level = l, pl_source = Declared_manually\<rparr>"
  have "?row \<in> set (al_products db1)"
    using assms(1) by (auto simp: set_product_allergen_manual_def Let_def find_None_iff find_Some_iff split: if_split_asm)
  then have "?row \<in> set (al_products db2)" using manual_inv.run_inv [of ?row db1 db2] assms(2) by simp
  moreover have "declarations_ok db2"
  proof -
    have "some_step\<^sup>*\<^sup>* db1 db2" using assms(2) by (rule rtranclp_mono [THEN predicate2D, rotated]) auto
    then show ?thesis using declarations_inv.run_inv set_manual_ok [OF assms(1,3)] by blast
  qed
  ultimately show ?thesis
    using find_declared [of "al_products db2" ?row] declarations_parts(4) [of db2] by simp
qed

subsection \<open>The allergens of a selection\<close>

definition in_selection :: "stock_db \<Rightarrow> int \<Rightarrow> int option \<Rightarrow> int list \<Rightarrow> int \<Rightarrow> bool" where
  "in_selection s pid vid eids i \<longleftrightarrow>
     (\<exists>r \<in> set (st_product_recipes s). rl_target_id r = pid \<and> rl_ingredient_id r = i)
     \<or> (\<exists>r \<in> set (st_variant_recipes s). vid = Some (rl_target_id r) \<and> rl_ingredient_id r = i)
     \<or> (\<exists>r \<in> set (st_extra_recipes s). rl_target_id r \<in> set eids \<and> rl_ingredient_id r = i)"

definition selection_declares :: "stock_db \<Rightarrow> allergen_db \<Rightarrow> int \<Rightarrow> int option \<Rightarrow> int list \<Rightarrow> int \<Rightarrow> allergen_level \<Rightarrow> bool" where
  "selection_declares s db pid vid eids a l \<longleftrightarrow>
     (\<exists>r \<in> set (al_products db). pl_product_id r = pid \<and> pl_allergen_id r = a \<and> pl_level r = l)
     \<or> (\<exists>i \<in> set (al_ingredients db). in_selection s pid vid eids (ia_ingredient_id i) \<and> ia_allergen_id i = a \<and> ia_level i = l)"

lemma selection_ingredients_set:
  assumes "selection_ingredients s pid vid eids = Inr iids"
  shows "i \<in> set iids \<longleftrightarrow> in_selection s pid vid eids i"
proof (cases vid)
  case None
  then show ?thesis
    using assms by (auto simp: selection_ingredients_def in_selection_def recipe_lines_for_def Let_def split: if_splits)
next
  case (Some v)
  then obtain r where "row_get var_id v (cat_variants (st_catalog s)) = Some r" "var_product_id r = pid" "var_active r"
    using assms by (auto simp: selection_ingredients_def Let_def split: option.splits if_splits)
  then show ?thesis
    using assms Some by (auto simp: selection_ingredients_def in_selection_def recipe_lines_for_def Let_def split: if_splits)
qed

lemma product_views_set:
  "v \<in> set (product_views rank db pid) \<longleftrightarrow>
    (\<exists>d \<in> set (al_definitions db). \<exists>r \<in> set (al_products db). pl_product_id r = pid \<and> pl_allergen_id r = ad_id d
       \<and> v = view_of d (pl_level r) (pl_source r))"
  by (auto simp: product_views_def)

lemma view_of_fields [simp]: "vw_allergen_id (view_of d l src) = ad_id d" "vw_level (view_of d l src) = l"
  by (simp_all add: view_of_def)

lemma dict_fold_views:
  "map_of (fold (\<lambda>v m. dict_set (vw_allergen_id v) v m) vs m) a =
    (case find (\<lambda>v. vw_allergen_id v = a) (rev vs) of Some v \<Rightarrow> Some v | None \<Rightarrow> map_of m a)"
proof (induction vs rule: rev_induct)
  case (snoc v vs)
  then show ?case by (simp add: map_of_dict_set)
qed simp

lemma distinct_fold_views: "distinct (map fst m) \<Longrightarrow> distinct (map fst (fold (\<lambda>v m. dict_set (vw_allergen_id v) v m) vs m))"
  by (induction vs arbitrary: m) (auto simp: distinct_dict_set)

lemma merge_selection_keys: "distinct (map fst m) \<Longrightarrow> distinct (map fst (merge_selection dl m))"
  by (simp add: merge_selection_def distinct_dict_set split: option.splits)

lemma merge_selection_lookup:
  "map_of (merge_selection (d, l) m) a =
    (if a = ad_id d \<and> (case map_of m a of None \<Rightarrow> True | Some v \<Rightarrow> level_priority (vw_level v) < level_priority l)
     then Some (view_of d l From_ingredient) else map_of m a)"
  by (auto simp: merge_selection_def map_of_dict_set split: option.splits)

lemma fold_merge_keys: "distinct (map fst m) \<Longrightarrow> distinct (map fst (fold merge_selection dls m))"
  by (induction dls arbitrary: m) (auto intro: merge_selection_keys)

lemma fold_merge_origin:
  "map_of (fold merge_selection dls m) a = Some v \<Longrightarrow>
    map_of m a = Some v \<or> (\<exists>d l. (d, l) \<in> set dls \<and> ad_id d = a \<and> v = view_of d l From_ingredient)"
proof (induction dls arbitrary: m)
  case (Cons dl dls)
  then show ?case by (cases dl) (fastforce simp: merge_selection_lookup split: if_splits)
qed simp

lemma fold_merge_mono:
  "map_of m a = Some v \<Longrightarrow> \<exists>w. map_of (fold merge_selection dls m) a = Some w \<and> level_priority (vw_level v) \<le> level_priority (vw_level w)"
proof (induction dls arbitrary: m v)
  case (Cons dl dls)
  obtain d l where dl: "dl = (d, l)" by fastforce
  have "\<exists>u. map_of (merge_selection dl m) a = Some u \<and> level_priority (vw_level v) \<le> level_priority (vw_level u)"
    using Cons.prems by (simp add: dl merge_selection_lookup)
  then obtain u where u: "map_of (merge_selection dl m) a = Some u" "level_priority (vw_level v) \<le> level_priority (vw_level u)" by blast
  from Cons.IH [OF u(1)] u(2) show ?case by fastforce
qed simp

lemma fold_merge_covers:
  "(d, l) \<in> set dls \<Longrightarrow> \<exists>w. map_of (fold merge_selection dls m) (ad_id d) = Some w \<and> level_priority l \<le> level_priority (vw_level w)"
proof (induction dls arbitrary: m)
  case (Cons dl dls)
  show ?case
  proof (cases "dl = (d, l)")
    case True
    have "\<exists>u. map_of (merge_selection dl m) (ad_id d) = Some u \<and> level_priority l \<le> level_priority (vw_level u)"
      by (cases "map_of m (ad_id d)") (simp_all add: True merge_selection_lookup)
    then obtain u where "map_of (merge_selection dl m) (ad_id d) = Some u" "level_priority l \<le> level_priority (vw_level u)" by blast
    with fold_merge_mono [of "merge_selection dl m" "ad_id d" u dls] show ?thesis by fastforce
  qed (use Cons in auto)
qed simp

lemma ingredient_levels_set:
  assumes "declarations_ok db"
  shows "(d, l) \<in> set (ingredient_levels iids db) \<longleftrightarrow> d \<in> set (al_definitions db)
    \<and> (\<exists>i \<in> set (al_ingredients db). ia_ingredient_id i \<in> set iids \<and> ia_allergen_id i = ad_id d \<and> ia_level i = l)"
proof -
  have "row_get ad_id a (al_definitions db) = Some d \<longleftrightarrow> d \<in> set (al_definitions db) \<and> ad_id d = a" for a
    using row_get_SomeD [of ad_id a "al_definitions db" d] declarations_parts(1) [OF assms]
    by (auto simp: row_get_def find_Some_iff distinct_conv_nth in_set_conv_nth)
  then show ?thesis by (auto simp: ingredient_levels_def split: option.splits) force+
qed

text \<open>What the fold over the ingredients collects.\<close>

definition declared_in :: "allergen_db \<Rightarrow> int \<Rightarrow> int list \<Rightarrow> int \<Rightarrow> allergen_level \<Rightarrow> bool" where
  "declared_in db pid iids a l \<longleftrightarrow>
     (\<exists>r \<in> set (al_products db). pl_product_id r = pid \<and> pl_allergen_id r = a \<and> pl_level r = l)
     \<or> (\<exists>i \<in> set (al_ingredients db). ia_ingredient_id i \<in> set iids \<and> ia_allergen_id i = a \<and> ia_level i = l)"

lemma product_view_lookup:
  assumes "declarations_ok db"
  shows "map_of (fold (\<lambda>v m. dict_set (vw_allergen_id v) v m) (product_views rank db pid) []) a = Some v
    \<longleftrightarrow> v \<in> set (product_views rank db pid) \<and> vw_allergen_id v = a"
proof -
  have uniq: "v = w" if "v \<in> set (product_views rank db pid)" "w \<in> set (product_views rank db pid)" "vw_allergen_id v = vw_allergen_id w" for v w
    using that declarations_parts(1,4) [OF assms] by (fastforce simp: product_views_set distinct_map dest: inj_onD)
  show ?thesis
  proof (cases "find (\<lambda>v. vw_allergen_id v = a) (rev (product_views rank db pid))")
    case None
    moreover from this have "\<not> (\<exists>v. v \<in> set (product_views rank db pid) \<and> vw_allergen_id v = a)" by (auto simp: find_None_iff)
    ultimately show ?thesis unfolding dict_fold_views by auto
  next
    case (Some w)
    have "find p xs = Some x \<Longrightarrow> p x \<and> x \<in> set xs" for p and xs :: "allergen_view list" and x by (induction xs) (auto split: if_splits)
    from this [OF Some] have "w \<in> set (product_views rank db pid)" "vw_allergen_id w = a" by auto
    then show ?thesis using Some uniq by (auto simp: dict_fold_views)
  qed
qed

lemma merged_declarations:
  assumes "declarations_ok db"
  defines "d \<equiv> \<lambda>iids pid rank. fold merge_selection (ingredient_levels iids db)
     (fold (\<lambda>v m. dict_set (vw_allergen_id v) v m) (product_views rank db pid) [])"
  shows "distinct (map fst (d iids pid rank))"
    and "\<forall>(a, v) \<in> set (d iids pid rank). vw_allergen_id v = a"
    and "declared_in db pid iids a l \<Longrightarrow> \<exists>v. map_of (d iids pid rank) a = Some v \<and> level_priority l \<le> level_priority (vw_level v)"
    and "map_of (d iids pid rank) a = Some v \<Longrightarrow> declared_in db pid iids a (vw_level v)"
proof -
  define m where "m = fold (\<lambda>v m. dict_set (vw_allergen_id v) v m) (product_views rank db pid) []"
  have d: "d iids pid rank = fold merge_selection (ingredient_levels iids db) m" by (simp add: d_def m_def)
  note base = product_view_lookup [OF assms(1), of rank pid, folded m_def]
  show dist: "distinct (map fst (d iids pid rank))" unfolding d m_def by (intro fold_merge_keys distinct_fold_views) simp
  have origin: "map_of (d iids pid rank) a = Some v \<Longrightarrow> vw_allergen_id v = a \<and> declared_in db pid iids a (vw_level v)" for a v
    using fold_merge_origin [of "ingredient_levels iids db" m a v]
    by (auto simp: d base declared_in_def product_views_set ingredient_levels_set [OF assms(1)])
  then show "map_of (d iids pid rank) a = Some v \<Longrightarrow> declared_in db pid iids a (vw_level v)" by blast
  show "\<forall>(a, v) \<in> set (d iids pid rank). vw_allergen_id v = a" using origin dist by (auto dest: map_of_is_SomeI)
  assume "declared_in db pid iids a l"
  then consider (product) r where "r \<in> set (al_products db)" "pl_product_id r = pid" "pl_allergen_id r = a" "pl_level r = l"
    | (ingredient) i where "i \<in> set (al_ingredients db)" "ia_ingredient_id i \<in> set iids" "ia_allergen_id i = a" "ia_level i = l"
    by (auto simp: declared_in_def)
  then show "\<exists>v. map_of (d iids pid rank) a = Some v \<and> level_priority l \<le> level_priority (vw_level v)"
  proof cases
    case product
    then obtain q where q: "q \<in> set (al_definitions db)" "ad_id q = a" using declarations_parts(5) [OF assms(1)] by fastforce
    then have "view_of q l (pl_source r) \<in> set (product_views rank db pid)" using product by (auto simp: product_views_set)
    then have "map_of m a = Some (view_of q l (pl_source r))" using base q(2) by simp
    from fold_merge_mono [OF this, of "ingredient_levels iids db"] show ?thesis by (simp add: d)
  next
    case ingredient
    then obtain q where q: "q \<in> set (al_definitions db)" "ad_id q = a" using declarations_parts(6) [OF assms(1)] by fastforce
    then have "(q, l) \<in> set (ingredient_levels iids db)" using ingredient by (auto simp: ingredient_levels_set [OF assms(1)])
    from fold_merge_covers [OF this, of m] show ?thesis by (simp add: d q(2))
  qed
qed

text \<open>C23. No allergen of a selection is hidden: what the customer is told about a product with a variant and extras lists every
  allergen declared for the product or for any ingredient of the product, of the variant or of an extra, each once and
  with the highest level declared anywhere (present over traces over absent), nothing that is not declared, and the list
  is called complete exactly when every regulatory allergen is declared.\<close>

theorem selection_allergens_exact:
  assumes "get_selection_allergens rank s db pid vid eids = Inr (vs, full)" and "declarations_ok db"
  shows "distinct (map vw_allergen_id vs)
    \<and> (\<forall>a l. selection_declares s db pid vid eids a l \<longrightarrow> (\<exists>v \<in> set vs. vw_allergen_id v = a \<and> level_priority l \<le> level_priority (vw_level v)))
    \<and> (\<forall>v \<in> set vs. selection_declares s db pid vid eids (vw_allergen_id v) (vw_level v))
    \<and> (full \<longleftrightarrow> (\<forall>d \<in> set (al_definitions db). ad_regulatory d \<longrightarrow> (\<exists>l. selection_declares s db pid vid eids (ad_id d) l)))"
proof -
  obtain iids where i: "selection_ingredients s pid vid eids = Inr iids" using assms(1) by (auto simp: get_selection_allergens_def)
  define d where "d = fold merge_selection (ingredient_levels iids db) (fold (\<lambda>v m. dict_set (vw_allergen_id v) v m) (product_views rank db pid) [])"
  have vs: "vs = sort_key (\<lambda>v. (\<not> vw_regulatory v, vw_name v)) (map snd d)" and full: "full \<longleftrightarrow> list_all (\<lambda>a. a \<in> fst ` set d) (regulatory_ids db)"
    using assms(1) i by (auto simp: get_selection_allergens_def d_def Let_def)
  note merged = merged_declarations [OF assms(2), where iids = iids and pid = pid and rank = rank, folded d_def]
  have decl: "selection_declares s db pid vid eids a l \<longleftrightarrow> declared_in db pid iids a l" for a l
    by (simp add: selection_declares_def declared_in_def selection_ingredients_set [OF i])
  have ids: "map vw_allergen_id (map snd d) = map fst d" using merged(2) by (induction d) auto
  have "distinct (map vw_allergen_id vs)"
  proof -
    have "mset (map vw_allergen_id vs) = mset (map fst d)" by (simp only: vs mset_map mset_sort ids [symmetric])
    then show ?thesis using merged(1) by (metis mset_eq_imp_distinct_iff)
  qed
  moreover have "\<exists>v \<in> set vs. vw_allergen_id v = a \<and> level_priority l \<le> level_priority (vw_level v)" if "declared_in db pid iids a l" for a l
  proof -
    obtain v where v: "map_of d a = Some v" "level_priority l \<le> level_priority (vw_level v)" using merged(3) [OF \<open>declared_in db pid iids a l\<close>] by blast
    then have "(a, v) \<in> set d" by (simp add: map_of_SomeD)
    then show ?thesis using v(2) merged(2) by (auto simp: vs intro!: bexI [of _ "(a, v)"])
  qed
  moreover have "declared_in db pid iids (vw_allergen_id v) (vw_level v)" if "v \<in> set vs" for v
    using that merged(1,2,4) by (fastforce simp: vs dest: map_of_is_SomeI)
  moreover have "a \<in> fst ` set d \<longleftrightarrow> (\<exists>l. declared_in db pid iids a l)" for a
    using merged(3,4) [of a] by (metis domD domI dom_map_of_conv_image_fst)
  ultimately show ?thesis by (auto simp: decl full regulatory_ids_def list_all_iff)
qed

subsection \<open>A pizza\<close>

definition pizza_allergens :: allergen_db where
  "pizza_allergens =
     \<lparr>al_definitions = [\<lparr>ad_id = 1, ad_name = ''Gluten'', ad_slug = ''gluten'', ad_regulatory = True, ad_description = None\<rparr>,
        \<lparr>ad_id = 2, ad_name = ''Lait'', ad_slug = ''lait'', ad_regulatory = True, ad_description = None\<rparr>],
      al_ingredients = [\<lparr>ia_ingredient_id = 1, ia_allergen_id = 1, ia_level = Present_level\<rparr>],
      al_products = [\<lparr>pl_product_id = 7, pl_allergen_id = 2, pl_level = Traces_level, pl_source = Declared_manually\<rparr>],
      al_audit = [], al_tags = [], al_product_tags = []\<rparr>"

lemma pizza_ok: "declarations_ok pizza_allergens"
  by (simp add: declarations_ok_def pizza_allergens_def)

lemma pizza_selection:
  "\<exists>vs full. get_selection_allergens (\<lambda>_. 0) demo_stock pizza_allergens 7 None [] = Inr (vs, full)"
  by (simp add: get_selection_allergens_def selection_ingredients_def Let_def)

lemma selection_allergens_exact_witness:
  "\<exists>vs. get_selection_allergens (\<lambda>_. 0) demo_stock pizza_allergens 7 None [] = Inr (vs, True)
     \<and> (\<exists>v \<in> set vs. vw_allergen_id v = 1 \<and> vw_level v = Present_level) \<and> (\<exists>v \<in> set vs. vw_allergen_id v = 2 \<and> vw_level v = Traces_level)"
proof -
  obtain vs full where g: "get_selection_allergens (\<lambda>_. 0) demo_stock pizza_allergens 7 None [] = Inr (vs, full)" using pizza_selection by blast
  define D where "D = selection_declares demo_stock pizza_allergens 7 None []"
  have ex: "\<And>a l. D a l \<Longrightarrow> \<exists>v \<in> set vs. vw_allergen_id v = a \<and> level_priority l \<le> level_priority (vw_level v)"
    "\<And>v. v \<in> set vs \<Longrightarrow> D (vw_allergen_id v) (vw_level v)"
    "full \<longleftrightarrow> (\<forall>d \<in> set (al_definitions pizza_allergens). ad_regulatory d \<longrightarrow> (\<exists>l. D (ad_id d) l))"
    using selection_allergens_exact [OF g pizza_ok] unfolding D_def by simp_all
  have decl: "D a l \<longleftrightarrow> a = 1 \<and> l = Present_level \<or> a = 2 \<and> l = Traces_level" for a l
    by (auto simp: D_def selection_declares_def in_selection_def pizza_allergens_def demo_stock_def)
  have "full" unfolding ex(3) using decl [of 1 Present_level] decl [of 2 Traces_level] by (auto simp: pizza_allergens_def)
  moreover have "\<exists>v \<in> set vs. vw_allergen_id v = a \<and> vw_level v = l" if dl: "D a l" for a l
  proof -
    obtain v where v: "v \<in> set vs" "vw_allergen_id v = a" using ex(1) [OF dl] by auto
    have "D a (vw_level v)" using ex(2) [OF v(1)] v(2) by simp
    then have "vw_level v = l" using dl by (auto simp: decl)
    then show ?thesis using v by auto
  qed
  ultimately show ?thesis using g decl [of 1 Present_level] decl [of 2 Traces_level] by simp
qed

lemma manual_declaration_survives_witness:
  "\<exists>db1 row w db2. set_product_allergen_manual demo_stock 0 [] [] 7 2 Absent_level 3 None None pizza_allergens = Inr (db1, row, w)
     \<and> recompute_product_allergens demo_stock 7 db1 = Inr db2
     \<and> find (\<lambda>r. pl_product_id r = 7 \<and> pl_allergen_id r = 2) (al_products db2)
         = Some \<lparr>pl_product_id = 7, pl_allergen_id = 2, pl_level = Absent_level, pl_source = Declared_manually\<rparr>"
proof -
  obtain db1 row w where m: "set_product_allergen_manual demo_stock 0 [] [] 7 2 Absent_level 3 None None pizza_allergens = Inr (db1, row, w)"
    and f: "al_products db1 = [\<lparr>pl_product_id = 7, pl_allergen_id = 2, pl_level = Absent_level, pl_source = Declared_manually\<rparr>]"
      "al_ingredients db1 = al_ingredients pizza_allergens"
    by (simp add: set_product_allergen_manual_def Let_def pizza_allergens_def)
  have "recipe_levels demo_stock 7 db1 = [(1, Present_level)]"
    by (simp add: recipe_levels_def f pizza_allergens_def demo_stock_def recipe_lines_for_def)
  then obtain db2 where r: "recompute_product_allergens demo_stock 7 db1 = Inr db2"
    by (simp add: recompute_product_allergens_def recompute_inner_def f Let_def has_product_def demo_stock_def demo_catalog_def row_simps)
  then have "allergen_step None db1 db2" by (rule astep_recompute)
  then have "(\<lambda>d d'. \<exists>k. allergen_step k d d' \<and> k \<noteq> Some (7, 2))\<^sup>*\<^sup>* db1 db2" by (intro r_into_rtranclp) auto
  from manual_declaration_survives [OF m this pizza_ok] m r show ?thesis by blast
qed

subsection \<open>What goes wrong\<close>

text \<open>The key of the table does not contain the source. Where the staff declared an allergen by hand that an ingredient of the
  product also has, the recalculation cannot write its row: it fails, and with it every change of the allergens of
  that ingredient.\<close>

lemma best_levels_mono: "fst ` set best \<subseteq> fst ` set (best_levels rows best)"
proof (induction rows best rule: best_levels.induct)
  case (2 a l rows best)
  then show ?case using dict_set_keys [of a l best] by (auto simp only: best_levels.simps split: if_splits)
qed simp

lemma best_levels_covers: "(a, l) \<in> set rows \<Longrightarrow> l \<noteq> Absent_level \<Longrightarrow> a \<in> fst ` set (best_levels rows best)"
proof (induction rows best rule: best_levels.induct)
  case (2 b k rows best)
  show ?case
  proof (cases "(a, l) = (b, k)")
    case True
    let ?best = "if level_priority (case map_of best b of Some l' \<Rightarrow> l' | None \<Rightarrow> Absent_level) < level_priority k then dict_set b k best else best"
    have "0 < level_priority k" using 2(3) True by (cases k) auto
    then have "a \<in> fst ` set ?best"
      using True dict_set_keys [of b k best] by (cases "map_of best b") (auto dest: map_of_SomeD intro: rev_image_eqI simp del: dict_set.simps)
    then show ?thesis using best_levels_mono [of ?best rows] by (simp only: best_levels.simps) blast
  qed (use 2 in auto)
qed simp

lemma manual_row_blocks_recompute:
  assumes "r \<in> set (al_products db)" and "pl_product_id r = pid" and "pl_source r = Declared_manually"
    and "(pl_allergen_id r, l) \<in> set (recipe_levels s pid db)" and "l \<noteq> Absent_level"
  shows "recompute_product_allergens s pid db = Inl IntegrityError"
proof -
  have "pl_allergen_id r \<in> fst ` set (best_levels (recipe_levels s pid db) [])" by (rule best_levels_covers [OF assms(4,5)])
  then have "list_ex (\<lambda>r. pl_product_id r = pid \<and> pl_allergen_id r \<in> fst ` set (best_levels (recipe_levels s pid db) []))
      (filter (\<lambda>r. \<not> (pl_product_id r = pid \<and> pl_source r = From_ingredient)) (al_products db))"
    using assms(1-3) by (auto simp: list_ex_iff)
  then show ?thesis by (simp add: recompute_product_allergens_def recompute_inner_def Let_def)
qed

text \<open>The audit trail, said to record every change of a level, does not record the changes a new declaration of an ingredient
  makes to the products.\<close>

lemma ingredient_change_is_not_audited:
  assumes "set_ingredient_allergens s iid items db = Inr (db', x)"
  shows "al_audit db' = al_audit db"
proof -
  have "foldE (recompute_inner s) pids d = Inr d' \<Longrightarrow> al_audit d' = al_audit d" for pids d d'
    by (induction pids arbitrary: d) (auto dest: recompute_inner_cases)
  then show ?thesis using assms by (fastforce simp: set_ingredient_allergens_def Let_def split: if_split_asm)
qed

end
