(* ===== verification/Csv_Text.thy ===== *)
theory Csv_Text
  imports Py_Text
begin

text \<open>
  What the catalogue's import and export use of Python's standard library: the reader and the writer of the module
  \<^verbatim>\<open>csv\<close> in its default dialect, \<^verbatim>\<open>DictReader\<close>, and the texts of numbers. The reader is the state machine of the
  library, one character at a time over the whole text; a row that is not read at all is a blank line.
\<close>

subsection \<open>Reading\<close>

datatype csv_state = Start_record | Start_field | In_field | In_quoted | Quote_in_quoted | Eat_newline

abbreviation newline :: char where "newline \<equiv> char_of (10 :: nat)"
abbreviation carriage :: char where "carriage \<equiv> char_of (13 :: nat)"
abbreviation quote :: char where "quote \<equiv> char_of (34 :: nat)"
abbreviation comma :: char where "comma \<equiv> char_of (44 :: nat)"

text \<open>The field and the record are accumulated in reverse. \<open>None\<close> is \<^verbatim>\<open>csv.Error\<close> (a character after a bare carriage return).\<close>

fun csv_rows :: "csv_state \<Rightarrow> string \<Rightarrow> string list \<Rightarrow> string \<Rightarrow> string list list option" where
  "csv_rows Start_record fld rec [] = Some []"
| "csv_rows Start_field fld rec [] = Some [rev ([] # rec)]"
| "csv_rows In_field fld rec [] = Some [rev (rev fld # rec)]"
| "csv_rows In_quoted fld rec [] = Some [rev (rev fld # rec)]"
| "csv_rows Quote_in_quoted fld rec [] = Some [rev (rev fld # rec)]"
| "csv_rows Eat_newline fld rec [] = Some [rev rec]"
| "csv_rows Start_record fld rec (c # cs) =
     (if c = newline then map_option ((#) (rev rec)) (csv_rows Start_record [] [] cs)
      else if c = carriage then csv_rows Eat_newline [] rec cs
      else if c = quote then csv_rows In_quoted [] rec cs
      else if c = comma then csv_rows Start_field [] ([] # rec) cs
      else csv_rows In_field [c] rec cs)"
| "csv_rows Start_field fld rec (c # cs) =
     (if c = newline then map_option ((#) (rev ([] # rec))) (csv_rows Start_record [] [] cs)
      else if c = carriage then csv_rows Eat_newline [] ([] # rec) cs
      else if c = quote then csv_rows In_quoted [] rec cs
      else if c = comma then csv_rows Start_field [] ([] # rec) cs
      else csv_rows In_field [c] rec cs)"
| "csv_rows In_field fld rec (c # cs) =
     (if c = newline then map_option ((#) (rev (rev fld # rec))) (csv_rows Start_record [] [] cs)
      else if c = carriage then csv_rows Eat_newline [] (rev fld # rec) cs
      else if c = comma then csv_rows Start_field [] (rev fld # rec) cs
      else csv_rows In_field (c # fld) rec cs)"
| "csv_rows In_quoted fld rec (c # cs) =
     (if c = quote then csv_rows Quote_in_quoted fld rec cs else csv_rows In_quoted (c # fld) rec cs)"
| "csv_rows Quote_in_quoted fld rec (c # cs) =
     (if c = quote then csv_rows In_quoted (c # fld) rec cs
      else if c = newline then map_option ((#) (rev (rev fld # rec))) (csv_rows Start_record [] [] cs)
      else if c = carriage then csv_rows Eat_newline [] (rev fld # rec) cs
      else if c = comma then csv_rows Start_field [] (rev fld # rec) cs
      else csv_rows In_field (c # fld) rec cs)"
| "csv_rows Eat_newline fld rec (c # cs) =
     (if c = newline then map_option ((#) (rev rec)) (csv_rows Start_record [] [] cs)
      else if c = carriage then csv_rows Eat_newline [] rec cs
      else None)"

definition csv_read :: "string \<Rightarrow> string list list option" where
  "csv_read s = csv_rows Start_record [] [] s"

subsection \<open>Writing\<close>

definition needs_quotes :: "string \<Rightarrow> bool" where
  "needs_quotes s \<longleftrightarrow> list_ex (\<lambda>c. c = comma \<or> c = quote \<or> c = newline \<or> c = carriage) s"

fun double_quotes :: "string \<Rightarrow> string" where
  "double_quotes [] = []"
| "double_quotes (c # cs) = (if c = quote then quote # quote # double_quotes cs else c # double_quotes cs)"

definition write_field :: "string \<Rightarrow> string" where
  "write_field s = (if needs_quotes s then quote # double_quotes s @ [quote] else s)"

fun write_fields :: "string list \<Rightarrow> string" where
  "write_fields [] = [carriage, newline]"
| "write_fields [s] = write_field s @ [carriage, newline]"
| "write_fields (s # ss) = write_field s @ comma # write_fields ss"

text \<open>A row of one empty field is written as two quotes, so that it is not taken for a blank line.\<close>

definition write_row :: "string list \<Rightarrow> string" where
  "write_row ss = (if ss = [[]] then [quote, quote, carriage, newline] else write_fields ss)"

definition csv_write :: "string list list \<Rightarrow> string" where
  "csv_write rows = concat (map write_row rows)"

lemma char_codes [simp]:
  "newline \<noteq> carriage" "newline \<noteq> quote" "newline \<noteq> comma" "carriage \<noteq> quote" "carriage \<noteq> comma" "quote \<noteq> comma"
  "carriage \<noteq> newline" "quote \<noteq> newline" "comma \<noteq> newline" "quote \<noteq> carriage" "comma \<noteq> carriage" "comma \<noteq> quote"
  by (simp_all add: char_of_eq_iff)

lemma read_quoted: "csv_rows In_quoted fld rec (double_quotes s @ quote # rest) = csv_rows Quote_in_quoted (rev s @ fld) rec rest"
  by (induction s arbitrary: fld) auto

lemma read_plain:
  "\<not> needs_quotes s \<Longrightarrow> csv_rows In_field fld rec (s @ rest) = csv_rows In_field (rev s @ fld) rec rest"
  by (induction s arbitrary: fld) (auto simp: needs_quotes_def)

text \<open>A written field is read back, up to the separator that follows it.\<close>

lemma read_field_comma:
  assumes "st = Start_field \<or> st = Start_record"
  shows "csv_rows st fld rec (write_field s @ comma # rest) = csv_rows Start_field [] (s # rec) rest"
proof (cases "needs_quotes s")
  case True
  then show ?thesis using assms read_quoted [of "[]" rec s "comma # rest"] by (auto simp: write_field_def)
next
  case False
  then show ?thesis
    using assms read_plain [of "tl s" "[hd s]" rec "comma # rest"] by (cases s) (auto simp: write_field_def needs_quotes_def)
qed

lemma read_field_end:
  assumes "st = Start_field \<or> st = Start_record \<and> s \<noteq> []"
  shows "csv_rows st fld rec (write_field s @ carriage # newline # rest)
    = map_option ((#) (rev (s # rec))) (csv_rows Start_record [] [] rest)"
proof (cases "needs_quotes s")
  case True
  then show ?thesis using assms read_quoted [of "[]" rec s "carriage # newline # rest"] by (auto simp: write_field_def)
next
  case False
  then show ?thesis
    using assms read_plain [of "tl s" "[hd s]" rec "carriage # newline # rest"] by (cases s) (auto simp: write_field_def needs_quotes_def)
qed

lemma read_fields:
  "ss \<noteq> [] \<Longrightarrow> csv_rows Start_field fld rec (write_fields ss @ rest) = map_option ((#) (rev rec @ ss)) (csv_rows Start_record [] [] rest)"
  by (induction ss arbitrary: fld rec rule: write_fields.induct) (simp_all add: read_field_end read_field_comma)

lemma read_row:
  assumes "ss \<noteq> []"
  shows "csv_rows Start_record fld [] (write_row ss @ rest) = map_option ((#) ss) (csv_rows Start_record [] [] rest)"
proof (cases ss)
  case (Cons s tl)
  show ?thesis
  proof (cases tl)
    case Nil
    then show ?thesis using Cons by (cases "s = []") (auto simp: write_row_def read_field_end)
  next
    case (Cons t us)
    then show ?thesis using \<open>ss = s # tl\<close> read_field_comma [of Start_record fld "[]" s "write_fields tl @ rest"] read_fields [of tl "[]" "[s]" rest]
      by (auto simp: write_row_def)
  qed
qed (use assms in simp)

text \<open>What is written is read back: any texts, with commas, quotes and line breaks.\<close>

lemma csv_read_write: "[] \<notin> set rows \<Longrightarrow> csv_read (csv_write rows) = Some rows"
  unfolding csv_read_def csv_write_def by (induction rows) (auto simp: read_row)

subsection \<open>Rows as dictionaries\<close>

text \<open>\<^verbatim>\<open>DictReader\<close>: the first row names the fields, blank lines are skipped, missing fields are \<open>None\<close>, surplus ones are kept
  under no name (and dropped by the caller).\<close>

fun dict_row :: "string list \<Rightarrow> string list \<Rightarrow> (string \<times> string option) list \<Rightarrow> (string \<times> string option) list" where
  "dict_row [] vs d = d"
| "dict_row (k # ks) [] d = dict_row ks [] (dict_set k None d)"
| "dict_row (k # ks) (v # vs) d = dict_row ks vs (dict_set k (Some v) d)"

definition dict_reader :: "string list list \<Rightarrow> (string \<times> string option) list list" where
  "dict_reader rows = (case rows of [] \<Rightarrow> [] | names # rest \<Rightarrow> map (\<lambda>vs. dict_row names vs []) (filter (\<lambda>vs. vs \<noteq> []) rest))"

subsection \<open>Numbers\<close>

definition digit_value :: "char \<Rightarrow> nat option" where
  "digit_value c = (let n = (of_char c :: nat) in if 48 \<le> n \<and> n \<le> 57 then Some (n - 48) else None)"

fun parse_digits :: "nat \<Rightarrow> string \<Rightarrow> nat option" where
  "parse_digits acc [] = Some acc"
| "parse_digits acc (c # cs) = (case digit_value c of None \<Rightarrow> None | Some d \<Rightarrow> parse_digits (10 * acc + d) cs)"

definition parse_nat :: "string \<Rightarrow> nat option" where
  "parse_nat s = (if s = [] then None else parse_digits 0 s)"

text \<open>\<^verbatim>\<open>int(s)\<close> of a stripped text: a sign and digits (the underscores Python allows between digits are not read).\<close>

definition py_int_text :: "string \<Rightarrow> int option" where
  "py_int_text s =
     (case s of
        [] \<Rightarrow> None
      | c # cs \<Rightarrow> if c = CHR ''-'' then map_option (\<lambda>n. - int n) (parse_nat cs)
          else if c = CHR ''+'' then map_option int (parse_nat cs) else map_option int (parse_nat s))"

text \<open>\<^verbatim>\<open>float(s)\<close> of a stripped text: a sign, digits with at most one point, and an exponent; infinities and NaN are not numbers here.\<close>

definition split_at_char :: "(char \<Rightarrow> bool) \<Rightarrow> string \<Rightarrow> string \<times> string option" where
  "split_at_char p s = (takeWhile (\<lambda>c. \<not> p c) s, case dropWhile (\<lambda>c. \<not> p c) s of [] \<Rightarrow> None | _ # r \<Rightarrow> Some r)"

definition parse_mantissa :: "string \<Rightarrow> rat option" where
  "parse_mantissa s =
     (case split_at_char (\<lambda>c. c = CHR ''.'') s of
        (a, None) \<Rightarrow> map_option of_nat (parse_nat a)
      | (a, Some b) \<Rightarrow>
          if a = [] \<and> b = [] then None
          else (case (parse_digits 0 a, parse_digits 0 b) of
              (Some m, Some n) \<Rightarrow> Some (of_nat m + of_nat n / 10 ^ length b) | _ \<Rightarrow> None))"

definition parse_unsigned :: "string \<Rightarrow> rat option" where
  "parse_unsigned s =
     (case split_at_char (\<lambda>c. c = CHR ''e'' \<or> c = CHR ''E'') s of
        (m, None) \<Rightarrow> parse_mantissa m
      | (m, Some e) \<Rightarrow> (case (parse_mantissa m, py_int_text e) of
            (Some q, Some k) \<Rightarrow> Some (if 0 \<le> k then q * 10 ^ nat k else q / 10 ^ nat (- k)) | _ \<Rightarrow> None))"

definition py_float_text :: "string \<Rightarrow> rat option" where
  "py_float_text s =
     (case s of
        [] \<Rightarrow> None
      | c # cs \<Rightarrow> if c = CHR ''-'' then map_option uminus (parse_unsigned cs)
          else if c = CHR ''+'' then parse_unsigned cs else parse_unsigned s)"

text \<open>\<^verbatim>\<open>repr(x)\<close> of a number with at most three decimals (the columns have no more) and less than sixteen digits.\<close>

definition three_digits :: "nat \<Rightarrow> string" where
  "three_digits n = [char_of (48 + n div 100 mod 10), char_of (48 + n div 10 mod 10), char_of (48 + n mod 10)]"

definition trim_zeros :: "string \<Rightarrow> string" where
  "trim_zeros s = (case rev (dropWhile (\<lambda>c. c = CHR ''0'') (rev s)) of [] \<Rightarrow> ''0'' | t \<Rightarrow> t)"

definition py_repr_float :: "rat \<Rightarrow> string" where
  "py_repr_float x =
     (let n = nat \<lfloor>\<bar>x\<bar> * 1000\<rfloor>
      in (if x < 0 then ''-'' else []) @ nat_digits (n div 1000) @ ''.'' @ trim_zeros (three_digits (n mod 1000)))"

subsection \<open>Numbers are read back\<close>

abbreviation digit :: "nat \<Rightarrow> char" where "digit d \<equiv> char_of (48 + d)"

lemma digit_value_digit: "d < 10 \<Longrightarrow> digit_value (digit d) = Some d"
  by (simp add: digit_value_def Let_def)

lemma parse_digits_append:
  "parse_digits acc (s @ t) = (case parse_digits acc s of None \<Rightarrow> None | Some n \<Rightarrow> parse_digits n t)"
  by (induction s arbitrary: acc) (auto split: option.splits)

lemma parse_nat_digits: "parse_digits 0 (nat_digits n) = Some n"
proof (induction n rule: nat_digits.induct)
  case (1 n)
  show ?case
  proof (cases "n < 10")
    case True
    then show ?thesis by (simp add: nat_digits.simps [of n] digit_value_digit)
  next
    case False
    then have "parse_digits 0 (nat_digits n) = parse_digits (n div 10) [digit (n mod 10)]"
      using 1 by (simp add: nat_digits.simps [of n] parse_digits_append)
    also have "\<dots> = Some n" using digit_value_digit [of "n mod 10"] by simp
    finally show ?thesis .
  qed
qed

definition is_digit :: "char \<Rightarrow> bool" where
  "is_digit c \<longleftrightarrow> digit_value c \<noteq> None"

lemma digit_is_digit: "d < 10 \<Longrightarrow> is_digit (digit d)"
  by (simp add: is_digit_def digit_value_digit)

lemma not_digits [simp]: "\<not> is_digit CHR ''-''" "\<not> is_digit CHR ''+''" "\<not> is_digit CHR ''.''" "\<not> is_digit CHR ''e''" "\<not> is_digit CHR ''E''"
  by (simp_all add: is_digit_def digit_value_def)

lemma nat_digits_are_digits: "list_all is_digit (nat_digits n) \<and> nat_digits n \<noteq> []"
proof (induction n rule: nat_digits.induct)
  case (1 n)
  then show ?case using digit_is_digit [of n] digit_is_digit [of "n mod 10"]
    by (cases "n < 10") (simp_all add: nat_digits.simps [of n])
qed

lemma py_int_text_str: "py_int_text (py_str_int n) = Some n"
proof -
  show ?thesis
  proof (cases "n < 0")
    case True
    then show ?thesis using nat_digits_are_digits [of "nat (- n)"] by (simp add: py_str_int_def py_int_text_def parse_nat_def parse_nat_digits)
  next
    case False
    obtain c cs where c: "nat_digits (nat n) = c # cs" "is_digit c"
      using nat_digits_are_digits [of "nat n"] by (cases "nat_digits (nat n)") auto
    then have "c \<noteq> CHR ''-''" "c \<noteq> CHR ''+''" by auto
    moreover have "parse_nat (c # cs) = Some (nat n)" using parse_nat_digits [of "nat n"] by (simp add: parse_nat_def c)
    ultimately show ?thesis using False c by (simp add: py_str_int_def py_int_text_def del: parse_digits.simps)
  qed
qed

lemma split_at_none: "(\<And>c. c \<in> set s \<Longrightarrow> \<not> p c) \<Longrightarrow> split_at_char p s = (s, None)"
  by (simp add: split_at_char_def takeWhile_eq_all_conv [THEN iffD2] dropWhile_eq_Nil_conv [THEN iffD2])

lemma split_at_first: "(\<And>c. c \<in> set s \<Longrightarrow> \<not> p c) \<Longrightarrow> p d \<Longrightarrow> split_at_char p (s @ d # t) = (s, Some t)"
  by (simp add: split_at_char_def takeWhile_append2 dropWhile_append2)

lemma digit_zero: "d < 10 \<Longrightarrow> digit d = CHR ''0'' \<longleftrightarrow> d = 0"
proof -
  have z: "CHR ''0'' = digit 0" by code_simp
  show "d < 10 \<Longrightarrow> digit d = CHR ''0'' \<longleftrightarrow> d = 0"
    unfolding z using digit_value_digit [of d] digit_value_digit [of 0] by (cases "d = 0") (auto dest: arg_cong [of _ _ digit_value])
qed

lemma fraction_back:
  assumes "n < 1000"
  shows "\<exists>k. parse_digits 0 (trim_zeros (three_digits n)) = Some k \<and> of_nat k / 10 ^ length (trim_zeros (three_digits n)) = (of_nat n / 1000 :: rat)
    \<and> list_all is_digit (trim_zeros (three_digits n))"
proof -
  define a b c where abc: "a = n div 100" "b = n div 10 mod 10" "c = n mod 10"
  have lt: "a < 10" "b < 10" "c < 10" using assms by (auto simp: abc)
  have "n = n div 10 * 10 + c" "n div 10 = a * 10 + b"
    using div_mult_mod_eq [of n 10] div_mult_mod_eq [of "n div 10" 10] by (simp_all add: abc flip: div_mult2_eq)
  then have n: "n = 100 * a + 10 * b + c" by simp
  have t: "three_digits n = [digit a, digit b, digit c]" using lt(1) by (simp add: three_digits_def abc)
  note z = digit_zero [OF lt(1)] digit_zero [OF lt(2)] digit_zero [OF lt(3)]
  note v = digit_value_digit [OF lt(1)] digit_value_digit [OF lt(2)] digit_value_digit [OF lt(3)]
  note d = digit_is_digit [OF lt(1)] digit_is_digit [OF lt(2)] digit_is_digit [OF lt(3)]
  have d0: "is_digit CHR ''0''" "digit_value CHR ''0'' = Some 0" by (simp_all add: is_digit_def digit_value_def)
  consider "c \<noteq> 0" | "c = 0" "b \<noteq> 0" | "c = 0" "b = 0" "a \<noteq> 0" | "c = 0" "b = 0" "a = 0" by blast
  then show ?thesis
  proof cases
    case 1
    then have "trim_zeros (three_digits n) = [digit a, digit b, digit c]" by (simp add: trim_zeros_def t z)
    then show ?thesis using d v by (simp add: n)
  next
    case 2
    then have "trim_zeros (three_digits n) = [digit a, digit b]" using z by (simp add: trim_zeros_def t)
    then show ?thesis using d v 2 by (simp add: n field_simps)
  next
    case 3
    then have "trim_zeros (three_digits n) = [digit a]" using z by (simp add: trim_zeros_def t)
    then show ?thesis using d v 3 by (simp add: n field_simps)
  next
    case 4
    then have "trim_zeros (three_digits n) = ''0''" using z by (simp add: trim_zeros_def t)
    then show ?thesis using d0 4 by (simp add: n)
  qed
qed

text \<open>A number with at most three decimals is read back from its text.\<close>

lemma py_float_text_repr:
  assumes "x = of_int k / 1000"
  shows "py_float_text (py_repr_float x) = Some x"
proof -
  define n where "n = nat \<bar>k\<bar>"
  have "\<bar>x\<bar> * 1000 = of_int \<bar>k\<bar>" using assms by (simp add: abs_divide)
  then have n: "nat \<lfloor>\<bar>x\<bar> * 1000\<rfloor> = n" by (simp add: n_def flip: of_int_abs)
  have abs: "\<bar>x\<bar> = of_nat n / 1000" using assms by (simp add: n_def)
  define body where "body = nat_digits (n div 1000) @ CHR ''.'' # trim_zeros (three_digits (n mod 1000))"
  obtain m where m: "parse_digits 0 (trim_zeros (three_digits (n mod 1000))) = Some m"
    "of_nat m / 10 ^ length (trim_zeros (three_digits (n mod 1000))) = (of_nat (n mod 1000) / 1000 :: rat)"
    "list_all is_digit (trim_zeros (three_digits (n mod 1000)))" using fraction_back [of "n mod 1000"] by auto
  have dg: "is_digit c" if "c \<in> set (nat_digits (n div 1000)) \<or> c \<in> set (trim_zeros (three_digits (n mod 1000)))" for c
    using that nat_digits_are_digits [of "n div 1000"] m(3) by (auto simp: list_all_iff)
  have sep: "c \<noteq> CHR ''.'' \<and> c \<noteq> CHR ''e'' \<and> c \<noteq> CHR ''E''"
    if "c \<in> set (nat_digits (n div 1000)) \<or> c \<in> set (trim_zeros (three_digits (n mod 1000)))" for c
    using dg [OF that] by auto
  have "split_at_char (\<lambda>c. c = CHR ''.'') body = (nat_digits (n div 1000), Some (trim_zeros (three_digits (n mod 1000))))"
    unfolding body_def using sep by (intro split_at_first) auto
  moreover have "of_nat (n div 1000) + of_nat (n mod 1000) / 1000 = (of_nat n / 1000 :: rat)"
  proof -
    have "(of_nat n :: rat) = of_nat (n div 1000 * 1000 + n mod 1000)" by simp
    then show ?thesis by (simp only: of_nat_add of_nat_mult of_nat_numeral) (simp add: field_simps)
  qed
  ultimately have man: "parse_mantissa body = Some (of_nat n / 1000)"
    using nat_digits_are_digits [of "n div 1000"] m(1,2) by (simp add: parse_mantissa_def parse_nat_digits)
  have "split_at_char (\<lambda>c. c = CHR ''e'' \<or> c = CHR ''E'') body = (body, None)"
    using sep by (intro split_at_none) (auto simp: body_def)
  then have uns: "parse_unsigned body = Some (of_nat n / 1000)" by (simp add: parse_unsigned_def man)
  obtain c cs where c: "body = c # cs" "is_digit c"
    using nat_digits_are_digits [of "n div 1000"] by (cases "nat_digits (n div 1000)") (auto simp: body_def)
  then have "c \<noteq> CHR ''-''" "c \<noteq> CHR ''+''" by auto
  then have pos: "py_float_text body = Some (of_nat n / 1000)" using uns by (simp add: py_float_text_def c)
  have rep: "py_repr_float x = (if x < 0 then ''-'' else []) @ body" by (simp add: py_repr_float_def n body_def)
  show ?thesis
  proof (cases "x < 0")
    case True
    then have "of_nat n / 1000 = - x" using abs by simp
    then show ?thesis using True uns by (simp add: rep py_float_text_def)
  next
    case False
    then show ?thesis using pos abs by (simp add: rep)
  qed
qed

end
