(* ===== verification/Catalog_Import.thy ===== *)
theory Catalog_Import
  imports Catalog_Admin Csv_Text
begin

text \<open>
  Import and export of the catalogue as CSV, \<^verbatim>\<open>app/modules/catalog/service.py\<close>: a dry run that validates the rows and keeps
  the text under a token, the confirmation that applies it, all rows or none, and the export.
\<close>

subsection \<open>Rows\<close>

type_synonym csv_row = "(string \<times> string option) list"

definition normalize_row :: "csv_row \<Rightarrow> csv_row" where
  "normalize_row row = fold (\<lambda>kv d. dict_set (py_lower (py_strip (fst kv))) (map_option py_strip (snd kv)) d) (filter (\<lambda>kv. fst kv \<noteq> []) row) []"

definition read_csv_rows :: "string \<Rightarrow> (nat \<times> csv_row) list res" where
  "read_csv_rows csv_text =
     (case csv_read csv_text of
        None \<Rightarrow> Inl (AppError ''csv.Error'' 500)
      | Some rows \<Rightarrow> Inr (enumerate 2 (map normalize_row (dict_reader rows))))"

fun csv_key :: "csv_row \<Rightarrow> string list \<Rightarrow> string option" where
  "csv_key row [] = None"
| "csv_key row (n # ns) =
     (case map_of row n of Some (Some v) \<Rightarrow> if py_strip v \<noteq> [] then Some (py_strip v) else csv_key row ns | _ \<Rightarrow> csv_key row ns)"

definition bool_from_csv :: "string option \<Rightarrow> bool \<Rightarrow> bool" where
  "bool_from_csv v dflt =
     (case v of None \<Rightarrow> dflt
      | Some t \<Rightarrow> if py_strip t = [] then dflt
          else py_lower (py_strip t) \<in> {''1'', ''true'', ''yes'', ''oui'', ''active'', ''actif''})"

definition float_from_csv :: "string option \<Rightarrow> rat option" where
  "float_from_csv v = (case v of None \<Rightarrow> None | Some t \<Rightarrow> py_float_text (map (\<lambda>c. if c = comma then CHR ''.'' else c) t))"

definition csv_types :: "string list" where
  "csv_types = [''category'', ''product'', ''variant'', ''extra'', ''product_extra'', ''product_allergen'', ''dietary_tag'',
     ''product_dietary_tag'', ''recommendation'', ''extra_ingredient'']"

definition row_type :: "csv_row \<Rightarrow> string" where
  "row_type row = (case csv_key row [''type'', ''entity_type''] of None \<Rightarrow> [] | Some t \<Rightarrow> py_lower t)"

definition lacks :: "csv_row \<Rightarrow> string list \<Rightarrow> bool" where
  "lacks row ns \<longleftrightarrow> csv_key row ns = None"

definition required_missing :: "string \<Rightarrow> csv_row \<Rightarrow> bool" where
  "required_missing t row \<longleftrightarrow>
     t \<in> {''category'', ''product'', ''extra'', ''dietary_tag''} \<and> lacks row [''name'', ''product_name'', ''extra_name'']
     \<or> t = ''product'' \<and> lacks row [''base_price'', ''price'']
     \<or> t = ''variant'' \<and> (lacks row [''product_name'', ''product_id''] \<or> lacks row [''name'', ''variant_name''])
     \<or> t \<in> {''product_extra'', ''product_allergen'', ''product_dietary_tag'', ''recommendation''} \<and> lacks row [''product_name'', ''product_id'']
     \<or> t = ''extra_ingredient'' \<and> (lacks row [''extra_name'', ''extra_id''] \<or> lacks row [''ingredient_id''] \<or> lacks row [''quantity''])"

datatype row_error = Invalid_type nat | Missing_field nat | Import_failed nat

record row_preview =
  rp_row :: nat
  rp_type :: string
  rp_key :: string

fun validate_csv_rows :: "(nat \<times> csv_row) list \<Rightarrow> row_preview list \<times> row_error list" where
  "validate_csv_rows [] = ([], [])"
| "validate_csv_rows ((n, row) # rows) =
     (let (ps, es) = validate_csv_rows rows; t = row_type row;
          key = (case csv_key row [''name'', ''product_name'', ''slug'', ''recommended_product_name'', ''extra_name''] of
            Some k \<Rightarrow> k | None \<Rightarrow> ''row-'' @ nat_digits n)
      in if t \<notin> set csv_types then (ps, Invalid_type n # es)
         else if required_missing t row then (ps, Missing_field n # es)
         else (\<lparr>rp_row = n, rp_type = t, rp_key = key\<rparr> # ps, es))"

subsection \<open>The dry run\<close>

datatype import_status = Dry_run | Imported

record import_batch =
  ib_token :: string
  ib_filename :: "string option"
  ib_csv_text :: string
  ib_status :: import_status
  ib_valid :: bool
  ib_user :: "int option"

record importer =
  ip_shelf :: shelf
  ip_allergens :: allergen_db
  ip_batches :: "import_batch list"

record dry_run_response =
  dr_token :: string
  dr_valid :: bool
  dr_rows :: nat
  dr_previews :: "row_preview list"
  dr_errors :: "row_error list"

definition dry_run_catalog_csv ::
    "string \<Rightarrow> string \<Rightarrow> string option \<Rightarrow> int option \<Rightarrow> importer \<Rightarrow> (importer \<times> dry_run_response) res" where
  "dry_run_catalog_csv token csv_text filename user ip =
     rbind (read_csv_rows csv_text) (\<lambda>rows.
       let (previews, errors) = validate_csv_rows rows;
           r = \<lparr>dr_token = token, dr_valid = (errors = []), dr_rows = length rows, dr_previews = previews, dr_errors = errors\<rparr>;
           b = \<lparr>ib_token = token, ib_filename = filename, ib_csv_text = csv_text, ib_status = Dry_run, ib_valid = (errors = []), ib_user = user\<rparr>
       in Inr (ip\<lparr>ip_batches := ip_batches ip @ [b]\<rparr>, r))"

subsection \<open>One row\<close>

text \<open>The counters, and whether a table constraint is violated by what was added: the next query, or the commit, will fail.\<close>

record import_state =
  is_shelf :: shelf
  is_allergens :: allergen_db
  is_created :: nat
  is_updated :: nat
  is_linked :: nat
  is_violated :: bool

text \<open>A row ends in a state and whether it raised; what it did before it raised stays in the session.\<close>

type_synonym row_result = "import_state \<times> bool"

definition count_created :: "import_state \<Rightarrow> import_state" where "count_created st = st\<lparr>is_created := is_created st + 1\<rparr>"
definition count_updated :: "import_state \<Rightarrow> import_state" where "count_updated st = st\<lparr>is_updated := is_updated st + 1\<rparr>"
definition count_linked :: "import_state \<Rightarrow> import_state" where "count_linked st = st\<lparr>is_linked := is_linked st + 1\<rparr>"

definition on_shelf :: "(shelf \<Rightarrow> shelf) \<Rightarrow> import_state \<Rightarrow> import_state" where
  "on_shelf g st = st\<lparr>is_shelf := g (is_shelf st)\<rparr>"

text \<open>A lookup by name ignores case; \<open>None\<close> is the \<^verbatim>\<open>ValueError\<close> of a number that is none.\<close>

definition named :: "('r \<Rightarrow> string) \<Rightarrow> string \<Rightarrow> 'r list \<Rightarrow> 'r option" where
  "named nm n rows = find (\<lambda>r. py_lower (nm r) = py_lower n) rows"

definition find_product :: "csv_row \<Rightarrow> shelf \<Rightarrow> shelf_product option option" where
  "find_product row f =
     (case csv_key row [''product_id''] of
        Some t \<Rightarrow> (case py_int_text t of None \<Rightarrow> None | Some k \<Rightarrow> Some (row_get prod_id k (sf_products f)))
      | None \<Rightarrow> (case csv_key row [''product_name'', ''name''] of None \<Rightarrow> Some None | Some n \<Rightarrow> Some (named prod_name n (sf_products f))))"

definition find_extra :: "csv_row \<Rightarrow> shelf \<Rightarrow> extra option option" where
  "find_extra row f =
     (case csv_key row [''extra_id''] of
        Some t \<Rightarrow> (case py_int_text t of None \<Rightarrow> None | Some k \<Rightarrow> Some (row_get ext_id k (sf_extras f)))
      | None \<Rightarrow> (case csv_key row [''extra_name'', ''name''] of None \<Rightarrow> Some None | Some n \<Rightarrow> Some (named ext_name n (sf_extras f))))"

definition text_or_empty :: "string option \<Rightarrow> string" where
  "text_or_empty v = (case v of None \<Rightarrow> [] | Some t \<Rightarrow> t)"

definition int_or :: "string option \<Rightarrow> int \<Rightarrow> int option" where
  "int_or v dflt = (case v of None \<Rightarrow> Some dflt | Some t \<Rightarrow> py_int_text t)"

definition put_category :: "shelf_category \<Rightarrow> shelf \<Rightarrow> shelf" where
  "put_category c f = f\<lparr>sf_categories := row_upd cat_id (cat_id c) (\<lambda>_. c) (sf_categories f)\<rparr>"

definition import_category :: "int \<Rightarrow> csv_row \<Rightarrow> import_state \<Rightarrow> row_result" where
  "import_category key row st =
     (let name = text_or_empty (csv_key row [''name'']);
          old = named cat_name name (sf_categories (is_shelf st));
          c = (case old of Some c \<Rightarrow> c
             | None \<Rightarrow> \<lparr>cat_id = key, cat_name = name, cat_station = Some Kitchen, sc_display_order = 0, sc_active = True\<rparr>);
          st1 = (case old of Some _ \<Rightarrow> count_updated st
             | None \<Rightarrow> count_created (on_shelf (\<lambda>f. f\<lparr>sf_categories := sf_categories f @ [c]\<rparr>) st))
      in case int_or (csv_key row [''display_order'']) 0 of
           None \<Rightarrow> (st1, True)
         | Some n \<Rightarrow> (on_shelf (put_category (c\<lparr>sc_display_order := n, sc_active := bool_from_csv (csv_key row [''is_active'']) True\<rparr>)) st1, False))"

definition put_product :: "shelf_product \<Rightarrow> shelf \<Rightarrow> shelf" where
  "put_product p f = f\<lparr>sf_products := row_upd prod_id (prod_id p) (\<lambda>_. p) (sf_products f)\<rparr>"

definition import_product :: "int \<Rightarrow> int option \<Rightarrow> csv_row \<Rightarrow> import_state \<Rightarrow> row_result" where
  "import_product key user row st =
     (let name = text_or_empty (csv_key row [''name'', ''product_name'']);
          old = named prod_name name (sf_products (is_shelf st));
          p = (case old of Some p \<Rightarrow> p
             | None \<Rightarrow> \<lparr>prod_id = key, prod_category_id = None, prod_name = name, prod_base_price = 0, prod_station = None, prod_active = True,
                 sp_description = None, sp_image_url = None, sp_featured = False\<rparr>);
          st1 = (case old of Some _ \<Rightarrow> count_updated st
             | None \<Rightarrow> count_created (on_shelf (\<lambda>f. f\<lparr>sf_products := sf_products f @ [p]\<rparr>) st));
          cat = (case csv_key row [''category_name''] of None \<Rightarrow> prod_category_id p
             | Some n \<Rightarrow> map_option cat_id (named cat_name n (sf_categories (is_shelf st))));
          p1 = p\<lparr>prod_category_id := cat, sp_description := csv_key row [''description'']\<rparr>
      in case float_from_csv (csv_key row [''base_price'', ''price'']) of
           None \<Rightarrow> (on_shelf (put_product p1) st1, True)
         | Some price \<Rightarrow>
             let p2 = p1\<lparr>prod_base_price := price, sp_image_url := csv_key row [''image_url''],
                   prod_active := bool_from_csv (csv_key row [''is_active'']) True\<rparr>
             in (on_shelf (\<lambda>f. add_price_audit Priced_product (prod_id p) (map_option prod_base_price old) price user ''import'' (Some ''csv import'')
                   (put_product p2 f)) st1, False))"

definition put_variant :: "product_variant \<Rightarrow> shelf \<Rightarrow> shelf" where
  "put_variant v f = f\<lparr>sf_variants := row_upd var_id (var_id v) (\<lambda>_. v) (sf_variants f)\<rparr>"

definition import_variant :: "int \<Rightarrow> int option \<Rightarrow> csv_row \<Rightarrow> import_state \<Rightarrow> row_result" where
  "import_variant key user row st =
     (case find_product row (is_shelf st) of
        Some (Some p) \<Rightarrow>
          let name = text_or_empty (csv_key row [''variant_name'', ''name'']);
              old = named var_name name (filter (\<lambda>v. var_product_id v = prod_id p) (sf_variants (is_shelf st)));
              v = (case old of Some v \<Rightarrow> v
                 | None \<Rightarrow> \<lparr>var_id = key, var_product_id = prod_id p, var_name = name, var_price_delta = 0, var_active = True\<rparr>);
              st1 = (case old of Some _ \<Rightarrow> count_updated st
                 | None \<Rightarrow> count_created (on_shelf (\<lambda>f. f\<lparr>sf_variants := sf_variants f @ [v]\<rparr>) st))
          in (case float_from_csv (csv_key row [''price_delta'', ''base_price'', ''price'']) of
                None \<Rightarrow> (st1, True)
              | Some price \<Rightarrow>
                  (on_shelf (\<lambda>f. add_price_audit Priced_variant (var_id v) (map_option var_price_delta old) price user ''import'' (Some ''csv import'')
                     (put_variant (v\<lparr>var_price_delta := price, var_active := bool_from_csv (csv_key row [''is_active'']) True\<rparr>) f)) st1, False))
      | _ \<Rightarrow> (st, True))"

definition put_extra :: "extra \<Rightarrow> shelf \<Rightarrow> shelf" where
  "put_extra x f = f\<lparr>sf_extras := row_upd ext_id (ext_id x) (\<lambda>_. x) (sf_extras f)\<rparr>"

definition import_extra :: "int \<Rightarrow> int option \<Rightarrow> csv_row \<Rightarrow> import_state \<Rightarrow> row_result" where
  "import_extra key user row st =
     (let name = text_or_empty (csv_key row [''extra_name'', ''name'']);
          old = named ext_name name (sf_extras (is_shelf st));
          x = (case old of Some x \<Rightarrow> x | None \<Rightarrow> \<lparr>ext_id = key, ext_name = name, ext_price = 0, ext_active = True\<rparr>);
          st1 = (case old of Some _ \<Rightarrow> count_updated st
             | None \<Rightarrow> count_created (on_shelf (\<lambda>f. f\<lparr>sf_extras := sf_extras f @ [x]\<rparr>) st))
      in case float_from_csv (csv_key row [''price'', ''base_price'']) of
           None \<Rightarrow> (st1, True)
         | Some price \<Rightarrow>
             (on_shelf (\<lambda>f. add_price_audit Priced_extra (ext_id x) (map_option ext_price old) price user ''import'' (Some ''csv import'')
                (put_extra (x\<lparr>ext_price := price, ext_active := bool_from_csv (csv_key row [''is_active'']) True\<rparr>) f)) st1, False))"

definition import_link :: "csv_row \<Rightarrow> import_state \<Rightarrow> row_result" where
  "import_link row st =
     (case (find_product row (is_shelf st), find_extra row (is_shelf st)) of
        (Some (Some p), Some (Some x)) \<Rightarrow>
          (if (prod_id p, ext_id x) \<in> set (sf_links (is_shelf st)) then st
           else count_linked (on_shelf (\<lambda>f. f\<lparr>sf_links := sf_links f @ [(prod_id p, ext_id x)]\<rparr>) st), False)
      | _ \<Rightarrow> (st, True))"

definition level_of_text :: "string \<Rightarrow> allergen_level option" where
  "level_of_text t = (if t = ''present'' then Some Present_level else if t = ''traces'' then Some Traces_level
     else if t = ''absent'' then Some Absent_level else None)"

definition on_allergens :: "(allergen_db \<Rightarrow> allergen_db) \<Rightarrow> import_state \<Rightarrow> import_state" where
  "on_allergens g st = st\<lparr>is_allergens := g (is_allergens st)\<rparr>"

text \<open>A level that is none of the three violates the check constraint of the table.\<close>

definition import_allergen :: "csv_row \<Rightarrow> import_state \<Rightarrow> row_result" where
  "import_allergen row st =
     (case (find_product row (is_shelf st), find (\<lambda>d. Some (ad_slug d) = csv_key row [''allergen_slug'', ''slug'']) (al_definitions (is_allergens st))) of
        (Some (Some p), Some d) \<Rightarrow>
          let rows = al_products (is_allergens st);
              known = list_ex (\<lambda>r. pl_product_id r = prod_id p \<and> pl_allergen_id r = ad_id d) rows;
              st1 = (if known then count_updated st else count_created st)
          in (case level_of_text (case csv_key row [''level''] of None \<Rightarrow> ''present'' | Some t \<Rightarrow> t) of
                None \<Rightarrow> (st1\<lparr>is_violated := True\<rparr>, False)
              | Some l \<Rightarrow>
                  let new = \<lparr>pl_product_id = prod_id p, pl_allergen_id = ad_id d, pl_level = l, pl_source = Declared_manually\<rparr>
                  in (on_allergens (\<lambda>db. db\<lparr>al_products := (if known
                        then map (\<lambda>r. if pl_product_id r = prod_id p \<and> pl_allergen_id r = ad_id d then new else r) rows else rows @ [new])\<rparr>) st1, False))
      | _ \<Rightarrow> (st, True))"

definition import_tag :: "int \<Rightarrow> csv_row \<Rightarrow> import_state \<Rightarrow> row_result" where
  "import_tag key row st =
     (let name = text_or_empty (csv_key row [''name'']);
          slug = (case csv_key row [''slug''] of Some s \<Rightarrow> s | None \<Rightarrow> map (\<lambda>c. if c = CHR '' '' then CHR ''-'' else c) (py_lower name))
      in (case find (\<lambda>t. dt_slug t = slug) (al_tags (is_allergens st)) of
            None \<Rightarrow> count_created (on_allergens (\<lambda>db. db\<lparr>al_tags := al_tags db @ [\<lparr>dt_id = key, dt_name = name, dt_slug = slug\<rparr>]\<rparr>) st)
          | Some t \<Rightarrow> count_updated (on_allergens (\<lambda>db. db\<lparr>al_tags := row_upd dt_id (dt_id t) (\<lambda>t. t\<lparr>dt_name := name\<rparr>) (al_tags db)\<rparr>) st), False))"

definition import_product_tag :: "csv_row \<Rightarrow> import_state \<Rightarrow> row_result" where
  "import_product_tag row st =
     (case (find_product row (is_shelf st), find (\<lambda>t. Some (dt_slug t) = csv_key row [''dietary_slug'', ''slug'']) (al_tags (is_allergens st))) of
        (Some (Some p), Some t) \<Rightarrow>
          (if (prod_id p, dt_id t) \<in> set (al_product_tags (is_allergens st)) then st
           else count_linked (on_allergens (\<lambda>db. db\<lparr>al_product_tags := al_product_tags db @ [(prod_id p, dt_id t)]\<rparr>) st), False)
      | _ \<Rightarrow> (st, True))"

definition recommended_product :: "csv_row \<Rightarrow> shelf \<Rightarrow> shelf_product option option" where
  "recommended_product row f =
     (let by_name = (case csv_key row [''recommended_product_name'', ''recommended_name''] of None \<Rightarrow> None | Some n \<Rightarrow> named prod_name n (sf_products f))
      in case csv_key row [''recommended_product_id''] of
           None \<Rightarrow> Some by_name
         | Some t \<Rightarrow> (case py_int_text t of None \<Rightarrow> None
             | Some k \<Rightarrow> Some (case row_get prod_id k (sf_products f) of Some p \<Rightarrow> Some p | None \<Rightarrow> by_name)))"

definition import_recommendation :: "int \<Rightarrow> csv_row \<Rightarrow> import_state \<Rightarrow> row_result" where
  "import_recommendation key row st =
     (case (find_product row (is_shelf st), recommended_product row (is_shelf st)) of
        (Some (Some p), Some (Some q)) \<Rightarrow>
          if prod_id p = prod_id q then (st, True)
          else (case find_recommendation (prod_id p) (prod_id q) (is_shelf st) of
                  None \<Rightarrow> (case int_or (csv_key row [''display_order'']) 0 of None \<Rightarrow> (st, True)
                    | Some n \<Rightarrow> (count_linked (on_shelf (\<lambda>f. f\<lparr>sf_recommendations := sf_recommendations f @ [\<lparr>rc_id = key, rc_product_id = prod_id p,
                          rc_recommended_id = prod_id q, rc_display_order = n, rc_label = csv_key row [''label''], rc_active = True\<rparr>]\<rparr>) st), False))
                | Some r \<Rightarrow> (case int_or (csv_key row [''display_order'']) (rc_display_order r) of None \<Rightarrow> (st, True)
                    | Some n \<Rightarrow> (count_updated (on_shelf (\<lambda>f. f\<lparr>sf_recommendations := row_upd rc_id (rc_id r)
                          (\<lambda>_. r\<lparr>rc_display_order := n, rc_label := csv_key row [''label''], rc_active := True\<rparr>) (sf_recommendations f)\<rparr>) st), False)))
      | _ \<Rightarrow> (st, True))"

text \<open>The ingredient must exist and the quantity be positive, by constraints of the table.\<close>

definition import_extra_ingredient :: "int list \<Rightarrow> int \<Rightarrow> csv_row \<Rightarrow> import_state \<Rightarrow> row_result" where
  "import_extra_ingredient ings key row st =
     (case (find_extra row (is_shelf st), map_option py_int_text (csv_key row [''ingredient_id''])) of
        (Some (Some x), Some (Some i)) \<Rightarrow>
          (case (find (\<lambda>r. rl_target_id r = ext_id x \<and> rl_ingredient_id r = i) (sf_extra_ingredients (is_shelf st)), float_from_csv (csv_key row [''quantity''])) of
             (_, None) \<Rightarrow> (st, True)
           | (None, Some q) \<Rightarrow>
               ((count_linked (on_shelf (\<lambda>f. f\<lparr>sf_extra_ingredients := sf_extra_ingredients f @ [\<lparr>rl_id = key, rl_target_id = ext_id x, rl_ingredient_id = i,
                   rl_quantity = q, rl_unit = None\<rparr>]\<rparr>) st))\<lparr>is_violated := is_violated st \<or> q \<le> 0 \<or> i \<notin> set ings\<rparr>, False)
           | (Some r, Some q) \<Rightarrow>
               ((count_updated (on_shelf (\<lambda>f. f\<lparr>sf_extra_ingredients := row_upd rl_id (rl_id r) (\<lambda>r. r\<lparr>rl_quantity := q\<rparr>) (sf_extra_ingredients f)\<rparr>) st))
                  \<lparr>is_violated := is_violated st \<or> q \<le> 0\<rparr>, False))
      | _ \<Rightarrow> (st, True))"

definition import_row :: "(nat \<Rightarrow> int) \<Rightarrow> int list \<Rightarrow> int option \<Rightarrow> nat \<times> csv_row \<Rightarrow> import_state \<Rightarrow> row_result" where
  "import_row key ings user nr st =
     (let n = fst nr; row = snd nr; t = row_type row
      in if is_violated st then (st, True)
         else if t = ''category'' then import_category (key n) row st
         else if t = ''product'' then import_product (key n) user row st
         else if t = ''variant'' then import_variant (key n) user row st
         else if t = ''extra'' then import_extra (key n) user row st
         else if t = ''product_extra'' then import_link row st
         else if t = ''product_allergen'' then import_allergen row st
         else if t = ''dietary_tag'' then import_tag (key n) row st
         else if t = ''product_dietary_tag'' then import_product_tag row st
         else if t = ''recommendation'' then import_recommendation (key n) row st
         else if t = ''extra_ingredient'' then import_extra_ingredient ings (key n) row st
         else (st, False))"

fun import_rows :: "(nat \<Rightarrow> int) \<Rightarrow> int list \<Rightarrow> int option \<Rightarrow> (nat \<times> csv_row) list \<Rightarrow> import_state \<Rightarrow> import_state \<times> row_error list" where
  "import_rows key ings user [] st = (st, [])"
| "import_rows key ings user (nr # rows) st =
     (let (st1, failed) = import_row key ings user nr st; (st2, errors) = import_rows key ings user rows st1
      in (st2, if failed then Import_failed (fst nr) # errors else errors))"

subsection \<open>The confirmation\<close>

record confirm_response =
  cr_imported :: bool
  cr_rows :: nat
  cr_created :: nat
  cr_updated :: nat
  cr_linked :: nat
  cr_errors :: "row_error list"

definition confirm_catalog_csv ::
    "(nat \<Rightarrow> int) \<Rightarrow> int list \<Rightarrow> string \<Rightarrow> int option \<Rightarrow> importer \<Rightarrow> (importer \<times> confirm_response) res" where
  "confirm_catalog_csv key ings token user ip =
     (case find (\<lambda>b. ib_token b = token) (ip_batches ip) of
        None \<Rightarrow> Inl (AppError ''IMPORT_NOT_FOUND'' 404)
      | Some b \<Rightarrow>
          if ib_status b \<noteq> Dry_run then Inl (AppError ''IMPORT_ALREADY_PROCESSED'' 409)
          else if \<not> ib_valid b then Inl (AppError ''IMPORT_INVALID'' 422)
          else rbind (read_csv_rows (ib_csv_text b)) (\<lambda>rows.
            let st0 = \<lparr>is_shelf = ip_shelf ip, is_allergens = ip_allergens ip, is_created = 0, is_updated = 0, is_linked = 0, is_violated = False\<rparr>;
                (st, errors) = import_rows key ings user rows st0
            in if errors \<noteq> [] then Inr (ip, \<lparr>cr_imported = False, cr_rows = length rows, cr_created = 0, cr_updated = 0, cr_linked = 0, cr_errors = errors\<rparr>)
               else if is_violated st then Inl IntegrityError
               else Inr (\<lparr>ip_shelf = is_shelf st, ip_allergens = is_allergens st,
                   ip_batches = map (\<lambda>b. if ib_token b = token then b\<lparr>ib_status := Imported\<rparr> else b) (ip_batches ip)\<rparr>,
                 \<lparr>cr_imported = True, cr_rows = length rows, cr_created = is_created st, cr_updated = is_updated st, cr_linked = is_linked st,
                   cr_errors = []\<rparr>)))"

subsection \<open>The export\<close>

definition csv_fields :: "string list" where
  "csv_fields = [''type'', ''name'', ''product_name'', ''category_name'', ''description'', ''base_price'', ''image_url'', ''is_active'',
     ''variant_name'', ''price_delta'', ''extra_name'', ''price'', ''allergen_slug'', ''level'', ''dietary_slug'', ''recommended_product_name'',
     ''display_order'', ''label'', ''ingredient_id'', ''quantity'']"

definition py_str_bool :: "bool \<Rightarrow> string" where
  "py_str_bool b = (if b then ''True'' else ''False'')"

text \<open>\<^verbatim>\<open>DictWriter.writerow\<close>: the fields in the order of the header, nothing for a field that is not given.\<close>

definition dict_fields :: "(string \<times> string) list \<Rightarrow> string list" where
  "dict_fields d = map (\<lambda>n. text_or_empty (map_of d n)) csv_fields"

definition name_of_product :: "shelf \<Rightarrow> int \<Rightarrow> string" where
  "name_of_product f pid = (case row_get prod_id pid (sf_products f) of None \<Rightarrow> [] | Some p \<Rightarrow> prod_name p)"

definition name_of_extra :: "shelf \<Rightarrow> int \<Rightarrow> string" where
  "name_of_extra f xid = (case row_get ext_id xid (sf_extras f) of None \<Rightarrow> [] | Some x \<Rightarrow> ext_name x)"

definition name_of_category :: "shelf \<Rightarrow> int option \<Rightarrow> string" where
  "name_of_category f c = (case c of None \<Rightarrow> [] | Some k \<Rightarrow> (case row_get cat_id k (sf_categories f) of None \<Rightarrow> [] | Some c \<Rightarrow> cat_name c))"

definition category_line :: "shelf_category \<Rightarrow> (string \<times> string) list" where
  "category_line c = [(''type'', ''category''), (''name'', cat_name c), (''display_order'', py_str_int (sc_display_order c)), (''is_active'', py_str_bool (sc_active c))]"

definition product_line :: "shelf \<Rightarrow> shelf_product \<Rightarrow> (string \<times> string) list" where
  "product_line f p = [(''type'', ''product''), (''name'', prod_name p), (''category_name'', name_of_category f (prod_category_id p)),
     (''description'', text_or_empty (sp_description p)), (''base_price'', py_repr_float (prod_base_price p)),
     (''image_url'', text_or_empty (sp_image_url p)), (''is_active'', py_str_bool (prod_active p))]"

definition variant_line :: "shelf \<Rightarrow> product_variant \<Rightarrow> (string \<times> string) list" where
  "variant_line f v = [(''type'', ''variant''), (''product_name'', name_of_product f (var_product_id v)), (''variant_name'', var_name v),
     (''price_delta'', py_repr_float (var_price_delta v)), (''is_active'', py_str_bool (var_active v))]"

definition extra_csv_line :: "extra \<Rightarrow> (string \<times> string) list" where
  "extra_csv_line x = [(''type'', ''extra''), (''extra_name'', ext_name x), (''price'', py_repr_float (ext_price x)), (''is_active'', py_str_bool (ext_active x))]"

definition link_line :: "shelf \<Rightarrow> int \<times> int \<Rightarrow> (string \<times> string) list" where
  "link_line f l = [(''type'', ''product_extra''), (''product_name'', name_of_product f (fst l)), (''extra_name'', name_of_extra f (snd l))]"

definition recommendation_line :: "shelf \<Rightarrow> recommendation \<Rightarrow> (string \<times> string) list" where
  "recommendation_line f r = [(''type'', ''recommendation''), (''product_name'', name_of_product f (rc_product_id r)),
     (''recommended_product_name'', name_of_product f (rc_recommended_id r)), (''display_order'', py_str_int (rc_display_order r)),
     (''label'', text_or_empty (rc_label r))]"

definition ingredient_line :: "shelf \<Rightarrow> recipe_line \<Rightarrow> (string \<times> string) list" where
  "ingredient_line f r = [(''type'', ''extra_ingredient''), (''extra_name'', name_of_extra f (rl_target_id r)),
     (''ingredient_id'', py_str_int (rl_ingredient_id r)), (''quantity'', py_repr_float (rl_quantity r))]"

definition export_lines :: "(string \<Rightarrow> int) \<Rightarrow> shelf \<Rightarrow> (string \<times> string) list list" where
  "export_lines rank f =
     map category_line (sort_key (\<lambda>c. (sc_display_order c, rank (cat_name c))) (sf_categories f))
     @ map (product_line f) (sort_key (\<lambda>p. rank (prod_name p)) (sf_products f))
     @ map (variant_line f) (sort_key (\<lambda>v. (var_product_id v, rank (var_name v))) (sf_variants f))
     @ map extra_csv_line (sort_key (\<lambda>x. rank (ext_name x)) (sf_extras f))
     @ map (link_line f) (sf_links f)
     @ map (recommendation_line f) (sort_key rc_product_id (filter rc_active (sf_recommendations f)))
     @ map (ingredient_line f) (sort_key rl_target_id (sf_extra_ingredients f))"

definition export_catalog_csv :: "(string \<Rightarrow> int) \<Rightarrow> shelf \<Rightarrow> string" where
  "export_catalog_csv rank f = csv_write (csv_fields # map dict_fields (export_lines rank f))"

end
