(* ===== verification/Catalog_Props.thy ===== *)
theory Catalog_Props
  imports Catalog_Import Machines Allergen_Props
begin

text \<open>
  What the catalogue promises about prices: whatever the administration and the imports do, the price of every product,
  variant and extra is the last one its audit trail records, and every entry starts from the price before it.
\<close>

subsection \<open>Prices, and the administration as a step relation\<close>

definition price_of :: "shelf \<Rightarrow> priced \<Rightarrow> int \<Rightarrow> rat option" where
  "price_of f k i =
     (case k of Priced_product \<Rightarrow> map_option prod_base_price (row_get prod_id i (sf_products f))
      | Priced_variant \<Rightarrow> map_option var_price_delta (row_get var_id i (sf_variants f))
      | Priced_extra \<Rightarrow> map_option ext_price (row_get ext_id i (sf_extras f)))"

definition price_history :: "shelf \<Rightarrow> priced \<Rightarrow> int \<Rightarrow> price_audit list" where
  "price_history f k i = filter (\<lambda>a. pr_entity a = k \<and> pr_entity_id a = i) (sf_price_audits f)"

text \<open>A key is used when a row has it or the audit trail names it.\<close>

definition used_key :: "shelf \<Rightarrow> priced \<Rightarrow> int \<Rightarrow> bool" where
  "used_key f k i \<longleftrightarrow> price_of f k i \<noteq> None \<or> price_history f k i \<noteq> []"

text \<open>Keys come from sequences and are never given twice; the keys of the rows of an import differ from each other.\<close>

inductive shelf_step :: "importer \<Rightarrow> importer \<Rightarrow> bool" where
  sstep_category: "create_category key b (ip_shelf ip) = (f, c) \<Longrightarrow> shelf_step ip (ip\<lparr>ip_shelf := f\<rparr>)"
| sstep_recategory: "update_category key u (ip_shelf ip) = Inr (f, c) \<Longrightarrow> shelf_step ip (ip\<lparr>ip_shelf := f\<rparr>)"
| sstep_product: "\<not> used_key (ip_shelf ip) Priced_product key \<Longrightarrow> create_product key b user source (ip_shelf ip) = Inr (f, p) \<Longrightarrow>
    shelf_step ip (ip\<lparr>ip_shelf := f\<rparr>)"
| sstep_reproduct: "provider_update_product (ip_allergens ip) key pu user (ip_shelf ip) = Inr (f, p) \<Longrightarrow> shelf_step ip (ip\<lparr>ip_shelf := f\<rparr>)"
| sstep_unproduct: "provider_delete_product key user (ip_shelf ip) = Inr f \<Longrightarrow> shelf_step ip (ip\<lparr>ip_shelf := f\<rparr>)"
| sstep_variant: "\<not> used_key (ip_shelf ip) Priced_variant key \<Longrightarrow> create_variant key pid name delta av user source (ip_shelf ip) = Inr (f, v) \<Longrightarrow>
    shelf_step ip (ip\<lparr>ip_shelf := f\<rparr>)"
| sstep_revariant: "update_variant pid vid vu user source (ip_shelf ip) = Inr (f, v) \<Longrightarrow> shelf_step ip (ip\<lparr>ip_shelf := f\<rparr>)"
| sstep_unvariant: "delete_variant pid vid (ip_shelf ip) = Inr f \<Longrightarrow> shelf_step ip (ip\<lparr>ip_shelf := f\<rparr>)"
| sstep_extra: "\<not> used_key (ip_shelf ip) Priced_extra key \<Longrightarrow> create_extra key name price active user source (ip_shelf ip) = (f, x) \<Longrightarrow>
    shelf_step ip (ip\<lparr>ip_shelf := f\<rparr>)"
| sstep_reextra: "update_extra key eu user source (ip_shelf ip) = Inr (f, x) \<Longrightarrow> shelf_step ip (ip\<lparr>ip_shelf := f\<rparr>)"
| sstep_unextra: "delete_extra key (ip_shelf ip) = Inr f \<Longrightarrow> shelf_step ip (ip\<lparr>ip_shelf := f\<rparr>)"
| sstep_link: "link_extra_to_product pid eid (ip_shelf ip) = Inr f \<Longrightarrow> shelf_step ip (ip\<lparr>ip_shelf := f\<rparr>)"
| sstep_unlink: "unlink_extra_from_product pid eid (ip_shelf ip) = Inr f \<Longrightarrow> shelf_step ip (ip\<lparr>ip_shelf := f\<rparr>)"
| sstep_recommend: "add_product_recommendation key pid rid position label (ip_shelf ip) = Inr (f, r) \<Longrightarrow> shelf_step ip (ip\<lparr>ip_shelf := f\<rparr>)"
| sstep_rerecommend: "update_product_recommendation pid key position' label' active' (ip_shelf ip) = Inr (f, r) \<Longrightarrow> shelf_step ip (ip\<lparr>ip_shelf := f\<rparr>)"
| sstep_unrecommend: "delete_product_recommendation pid key (ip_shelf ip) = Inr f \<Longrightarrow> shelf_step ip (ip\<lparr>ip_shelf := f\<rparr>)"
| sstep_dry_run: "dry_run_catalog_csv token csv_text filename user ip = Inr (ip', r) \<Longrightarrow> shelf_step ip ip'"
| sstep_confirm: "inj keys \<Longrightarrow> \<forall>k n. \<not> used_key (ip_shelf ip) k (keys n) \<Longrightarrow> confirm_catalog_csv keys ings token user ip = Inr (ip', r) \<Longrightarrow>
    shelf_step ip ip'"

subsection \<open>The history of a price\<close>

text \<open>Replaying a history from a price (\<open>None\<close>: not yet there): every entry must start where the one before ended.\<close>

fun replay_prices :: "rat option \<Rightarrow> price_audit list \<Rightarrow> rat option option" where
  "replay_prices p [] = Some p"
| "replay_prices p (a # as) = (if pr_old a = p then replay_prices (Some (pr_new a)) as else None)"

definition prices_explained :: "shelf \<Rightarrow> bool" where
  "prices_explained f \<longleftrightarrow> (\<forall>k i q. price_of f k i = Some q \<longrightarrow> replay_prices None (price_history f k i) = Some (Some q))"

lemma replay_append: "replay_prices p (as @ bs) = (case replay_prices p as of None \<Rightarrow> None | Some q \<Rightarrow> replay_prices q bs)"
  by (induction as arbitrary: p) auto

lemma audit_frame [simp]:
  "sf_products (add_price_audit k i old new u src why f) = sf_products f" "sf_variants (add_price_audit k i old new u src why f) = sf_variants f"
  "sf_extras (add_price_audit k i old new u src why f) = sf_extras f" "sf_categories (add_price_audit k i old new u src why f) = sf_categories f"
  by (simp_all add: add_price_audit_def)

lemma unused_history: "\<not> used_key f k i \<Longrightarrow> price_history f k i = [] \<and> price_of f k i = None"
  by (simp add: used_key_def)

definition shelf_ok :: "shelf \<Rightarrow> bool" where
  "shelf_ok f \<longleftrightarrow> distinct (map prod_id (sf_products f)) \<and> distinct (map var_id (sf_variants f)) \<and> distinct (map ext_id (sf_extras f))
     \<and> prices_explained f"

definition keys_distinct :: "shelf \<Rightarrow> bool" where
  "keys_distinct f \<longleftrightarrow> distinct (map prod_id (sf_products f)) \<and> distinct (map var_id (sf_variants f)) \<and> distinct (map ext_id (sf_extras f))"

lemma shelf_ok_iff: "shelf_ok f \<longleftrightarrow> keys_distinct f \<and> prices_explained f"
  by (auto simp: shelf_ok_def keys_distinct_def)

text \<open>A change that leaves prices and audit trail alone (or removes a row).\<close>

lemma quiet_ok:
  assumes "shelf_ok f" and "keys_distinct f'" and "sf_price_audits f' = sf_price_audits f"
    and "\<And>k i. price_of f' k i = None \<or> price_of f' k i = price_of f k i"
  shows "shelf_ok f'"
proof -
  have "price_history f' k i = price_history f k i" for k i by (simp add: price_history_def assms(3))
  then show ?thesis using assms(1,2,4) unfolding shelf_ok_iff prices_explained_def by (metis option.distinct(1))
qed

lemma shelf_ok_cong:
  assumes "sf_products f' = sf_products f" and "sf_variants f' = sf_variants f" and "sf_extras f' = sf_extras f"
    and "sf_price_audits f' = sf_price_audits f"
  shows "shelf_ok f' = shelf_ok f"
  using assms by (simp add: shelf_ok_def prices_explained_def price_of_def price_history_def cong: priced.case_cong)

text \<open>A new price, with the audit row from the old one.\<close>

lemma audited_ok:
  assumes "shelf_ok f" and "keys_distinct f1" and "sf_price_audits f1 = sf_price_audits f"
    and "\<And>k' i'. (k', i') \<noteq> (k, i) \<Longrightarrow> price_of f1 k' i' = price_of f k' i'" and "price_of f1 k i = Some q"
    and "old = price_of f k i" and "price_of f k i = None \<Longrightarrow> price_history f k i = []"
  shows "shelf_ok (add_price_audit k i old q user src why f1)"
proof -
  let ?f = "add_price_audit k i old q user src why f1"
  have price: "price_of ?f = price_of f1" by (intro ext) (simp add: price_of_def split: priced.split)
  have hist: "price_history ?f k' i' = price_history f k' i' @
      (if (k', i') = (k, i) \<and> old \<noteq> Some q then [\<lparr>pr_entity = k, pr_entity_id = i, pr_old = old, pr_new = q, pr_user = user, pr_source = src, pr_reason = why\<rparr>] else [])" for k' i'
    by (auto simp: price_history_def add_price_audit_def assms(3))
  have "replay_prices None (price_history ?f k' i') = Some (Some p)" if p: "price_of ?f k' i' = Some p" for k' i' p
  proof (cases "(k', i') = (k, i)")
    case True
    have "replay_prices None (price_history f k i) = Some (price_of f k i)"
      using assms(1,7) by (cases "price_of f k i") (simp_all add: shelf_ok_iff prices_explained_def)
    then have "replay_prices None (price_history f k i) = Some old" by (simp only: assms(6))
    moreover have "p = q" "k' = k" "i' = i" using True p assms(5) by (simp_all add: price)
    ultimately show ?thesis by (simp add: hist replay_append del: split_paired_All)
  next
    case False
    then show ?thesis using assms(1,4) p by (auto simp: hist price shelf_ok_iff prices_explained_def)
  qed
  then show ?thesis using assms(2) by (simp add: shelf_ok_iff keys_distinct_def prices_explained_def)
qed

lemma audit_commutes:
  "(add_price_audit k i old q user src why f)\<lparr>sf_products := ps\<rparr> = add_price_audit k i old q user src why (f\<lparr>sf_products := ps\<rparr>)"
  "(add_price_audit k i old q user src why f)\<lparr>sf_variants := vs\<rparr> = add_price_audit k i old q user src why (f\<lparr>sf_variants := vs\<rparr>)"
  "(add_price_audit k i old q user src why f)\<lparr>sf_extras := xs\<rparr> = add_price_audit k i old q user src why (f\<lparr>sf_extras := xs\<rparr>)"
  by (simp_all add: add_price_audit_def)

lemma map_ids_upd: "(\<And>r. key r = i \<Longrightarrow> key (g r) = i) \<Longrightarrow> map key (row_upd key i g rows) = map key rows"
  by (induction rows) (auto simp: row_upd_def)

lemma row_get_put: "key r = i \<Longrightarrow> row_get key j (row_upd key i (\<lambda>_. r) rows) = (if j = i then (if row_get key i rows = None then None else Some r) else row_get key j rows)"
  by (induction rows) (auto simp: row_upd_def row_get_def)

lemma row_get_snoc: "row_get key i (rows @ [r]) = (case row_get key i rows of Some x \<Rightarrow> Some x | None \<Rightarrow> if key r = i then Some r else None)"
  by (induction rows) (auto simp: row_get_def)

lemma row_get_filter_ne: "row_get key i (filter (\<lambda>r. key r \<noteq> j) rows) = (if i = j then None else row_get key i rows)"
  by (induction rows) (auto simp: row_get_def)

lemma row_get_the: "distinct (map key rows) \<Longrightarrow> r \<in> set rows \<Longrightarrow> row_get key (key r) rows = Some r"
  by (induction rows) (auto simp: row_get_def)

lemmas price_simps = price_of_def row_get_put row_get_snoc row_get_filter_ne keys_distinct_def map_ids_upd

subsection \<open>Every operation keeps prices explained\<close>

lemma fresh_row:
  assumes "\<not> used_key f k i"
  shows "case k of Priced_product \<Rightarrow> row_get prod_id i (sf_products f) = None \<and> i \<notin> prod_id ` set (sf_products f)
      | Priced_variant \<Rightarrow> row_get var_id i (sf_variants f) = None \<and> i \<notin> var_id ` set (sf_variants f)
      | Priced_extra \<Rightarrow> row_get ext_id i (sf_extras f) = None \<and> i \<notin> ext_id ` set (sf_extras f)"
  using assms by (cases k) (simp_all add: used_key_def price_of_def row_get_None_iff row_ids_def)

lemma create_product_ok:
  assumes "shelf_ok f" and "\<not> used_key f Priced_product key" and "create_product key b user source f = Inr (f', p)"
  shows "shelf_ok f'"
proof -
  have f': "f' = add_price_audit Priced_product key None (pc_base_price b) user source (Some ''creation'') (f\<lparr>sf_products := sf_products f @ [new_product key b]\<rparr>)"
    using assms(3) by (auto simp: create_product_def Let_def new_product_def split: if_splits)
  show ?thesis
    unfolding f' using assms(1) fresh_row [OF assms(2)] unused_history [OF assms(2)]
    by (intro audited_ok [OF assms(1)]) (auto simp: price_simps new_product_def shelf_ok_iff split: priced.splits option.splits)
qed

lemma update_product_ok:
  assumes "shelf_ok f" and "update_product key u user source f = Inr (f', p')"
  shows "shelf_ok f'"
proof -
  obtain p where p: "row_get prod_id key (sf_products f) = Some p" "p' = patch_product u p" "pp_base_price u \<noteq> Some None"
    and f': "f' = (if pp_base_price u = None then f\<lparr>sf_products := row_upd prod_id key (\<lambda>_. p') (sf_products f)\<rparr>
      else add_price_audit Priced_product key (Some (prod_base_price p)) (prod_base_price p') user source (pp_reason u)
        (f\<lparr>sf_products := row_upd prod_id key (\<lambda>_. p') (sf_products f)\<rparr>))"
    using assms(2) by (auto simp: update_product_def Let_def is_null_def audit_commutes split: option.splits if_splits)
  have id: "prod_id p = key" "prod_id p' = key" using row_get_SomeD [OF p(1)] by (simp_all add: p(2) patch_product_def)
  show ?thesis
  proof (cases "pp_base_price u = None")
    case True
    then have "prod_base_price p' = prod_base_price p" by (simp add: p(2) patch_product_def given_value_def)
    then show ?thesis unfolding f' using True p(1) id assms(1)
      by (intro quiet_ok [OF assms(1)]) (auto simp: price_simps shelf_ok_iff split: priced.splits)
  next
    case False
    then show ?thesis unfolding f' if_not_P [OF False] using p(1) id assms(1)
      by (intro audited_ok [OF assms(1)]) (auto simp: price_simps shelf_ok_iff split: priced.splits)
  qed
qed

lemma provider_update_ok: "shelf_ok f \<Longrightarrow> provider_update_product db key u user f = Inr (f', p') \<Longrightarrow> shelf_ok f'"
  by (auto simp: provider_update_product_def rbind_eq_Inr intro: update_product_ok)

lemma provider_delete_ok: "shelf_ok f \<Longrightarrow> provider_delete_product key user f = Inr f' \<Longrightarrow> shelf_ok f'"
  by (auto simp: provider_delete_product_def rbind_eq_Inr intro: update_product_ok)

lemma create_variant_ok:
  assumes "shelf_ok f" and "\<not> used_key f Priced_variant key" and "create_variant key pid name delta av user source f = Inr (f', v)"
  shows "shelf_ok f'"
proof -
  have f': "f' = add_price_audit Priced_variant key None delta user source (Some ''creation'') (f\<lparr>sf_variants := sf_variants f @ [v]\<rparr>)"
    and v: "var_id v = key" "var_price_delta v = delta"
    using assms(3) by (auto simp: create_variant_def Let_def split: if_splits option.splits)
  show ?thesis
    unfolding f' using assms(1) fresh_row [OF assms(2)] unused_history [OF assms(2)] v
    by (intro audited_ok [OF assms(1)]) (auto simp: price_simps shelf_ok_iff split: priced.splits option.splits)
qed

lemma get_variantD: "get_variant pid vid f = Inr v \<Longrightarrow> row_get var_id vid (sf_variants f) = Some v \<and> var_product_id v = pid \<and> var_id v = vid"
  by (auto simp: get_variant_def dest: row_get_SomeD split: option.splits if_splits)

lemma update_variant_ok:
  assumes "shelf_ok f" and "update_variant pid vid u user source f = Inr (f', v')"
  shows "shelf_ok f'"
proof -
  obtain v where v: "row_get var_id vid (sf_variants f) = Some v" "var_id v = vid" "var_id v' = vid" "vp_price_delta u \<noteq> Some None"
    "var_price_delta v' = given_value (vp_price_delta u) (var_price_delta v)"
    and f': "f' = (if vp_price_delta u = None then f\<lparr>sf_variants := row_upd var_id vid (\<lambda>_. v') (sf_variants f)\<rparr>
      else add_price_audit Priced_variant vid (Some (var_price_delta v)) (var_price_delta v') user source (vp_reason u)
        (f\<lparr>sf_variants := row_upd var_id vid (\<lambda>_. v') (sf_variants f)\<rparr>))"
    using assms(2) by (auto simp: update_variant_def rbind_eq_Inr Let_def is_null_def audit_commutes dest!: get_variantD split: if_splits)
  show ?thesis
  proof (cases "vp_price_delta u = None")
    case True
    then have "var_price_delta v' = var_price_delta v" by (simp add: v(5) given_value_def)
    then show ?thesis unfolding f' using True v(1,2,3) assms(1)
      by (intro quiet_ok [OF assms(1)]) (auto simp: price_simps shelf_ok_iff split: priced.splits)
  next
    case False
    then show ?thesis unfolding f' if_not_P [OF False] using v(1,2,3) assms(1)
      by (intro audited_ok [OF assms(1)]) (auto simp: price_simps shelf_ok_iff split: priced.splits)
  qed
qed

lemma row_get_change:
  "(\<And>r. key (g r) = key r) \<Longrightarrow> row_get key j (row_upd key i g rows) = map_option (\<lambda>r. if key r = i then g r else r) (row_get key j rows)"
  by (induction rows) (auto simp: row_upd_def row_get_def)

lemma price_of_withdrawn:
  "map_option var_price_delta (map_option (\<lambda>r. if var_id r = vid then r\<lparr>var_active := False\<rparr> else r) x) = map_option var_price_delta x"
  by (cases x) simp_all

lemma delete_variant_ok:
  assumes "shelf_ok f" and "delete_variant pid vid f = Inr f'"
  shows "shelf_ok f'"
  using assms
  by (intro quiet_ok [OF assms(1)])
     (auto simp: delete_variant_def rbind_eq_Inr shelf_ok_iff keys_distinct_def map_ids_upd price_of_def row_get_change price_of_withdrawn split: priced.splits)

lemma create_extra_ok:
  assumes "shelf_ok f" and "\<not> used_key f Priced_extra key" and "create_extra key name price active user source f = (f', x)"
  shows "shelf_ok f'"
proof -
  have f': "f' = add_price_audit Priced_extra key None price user source (Some ''creation'') (f\<lparr>sf_extras := sf_extras f @ [x]\<rparr>)"
    and x: "ext_id x = key" "ext_price x = price"
    using assms(3) by (auto simp: create_extra_def Let_def)
  show ?thesis
    unfolding f' using assms(1) fresh_row [OF assms(2)] unused_history [OF assms(2)] x
    by (intro audited_ok [OF assms(1)]) (auto simp: price_simps shelf_ok_iff split: priced.splits option.splits)
qed

lemma update_extra_ok:
  assumes "shelf_ok f" and "update_extra key u user source f = Inr (f', x')"
  shows "shelf_ok f'"
proof -
  obtain x where x: "row_get ext_id key (sf_extras f) = Some x" "ext_id x = key" "ext_id x' = key" "ep_price u \<noteq> Some None"
    "ext_price x' = given_value (ep_price u) (ext_price x)"
    and f': "f' = (if ep_price u = None then f\<lparr>sf_extras := row_upd ext_id key (\<lambda>_. x') (sf_extras f)\<rparr>
      else add_price_audit Priced_extra key (Some (ext_price x)) (ext_price x') user source (ep_reason u)
        (f\<lparr>sf_extras := row_upd ext_id key (\<lambda>_. x') (sf_extras f)\<rparr>))"
    using assms(2) by (auto simp: update_extra_def Let_def is_null_def audit_commutes dest: row_get_SomeD split: option.splits if_splits)
  show ?thesis
  proof (cases "ep_price u = None")
    case True
    then have "ext_price x' = ext_price x" by (simp add: x(5) given_value_def)
    then show ?thesis unfolding f' using True x(1,2,3) assms(1)
      by (intro quiet_ok [OF assms(1)]) (auto simp: price_simps shelf_ok_iff split: priced.splits)
  next
    case False
    then show ?thesis unfolding f' if_not_P [OF False] using x(1,2,3) assms(1)
      by (intro audited_ok [OF assms(1)]) (auto simp: price_simps shelf_ok_iff split: priced.splits)
  qed
qed

lemma delete_extra_ok:
  assumes "shelf_ok f" and "delete_extra key f = Inr f'"
  shows "shelf_ok f'"
  using assms
  by (intro quiet_ok [OF assms(1)])
     (auto simp: delete_extra_def shelf_ok_iff price_simps distinct_map_filter split: option.splits if_splits priced.splits)

text \<open>The other operations do not touch what is priced.\<close>

definition same_prices :: "shelf \<Rightarrow> shelf \<Rightarrow> bool" where
  "same_prices f f' \<longleftrightarrow> sf_products f' = sf_products f \<and> sf_variants f' = sf_variants f \<and> sf_extras f' = sf_extras f
     \<and> sf_price_audits f' = sf_price_audits f"

lemma same_prices_ok: "same_prices f f' \<Longrightarrow> shelf_ok f \<Longrightarrow> shelf_ok f'"
  unfolding same_prices_def using shelf_ok_cong by blast

lemma create_category_quiet: "create_category key b f = (f', c) \<Longrightarrow> same_prices f f'"
  by (auto simp: create_category_def same_prices_def Let_def)

lemma update_category_quiet: "update_category key cu f = Inr (f', c) \<Longrightarrow> same_prices f f'"
  by (cases "row_get cat_id key (sf_categories f)") (auto simp: update_category_def same_prices_def Let_def split: if_splits)

lemma link_quiet: "link_extra_to_product pid eid f = Inr f' \<Longrightarrow> same_prices f f'"
  by (auto simp: link_extra_to_product_def same_prices_def split: if_splits)

lemma unlink_quiet: "unlink_extra_from_product pid eid f = Inr f' \<Longrightarrow> same_prices f f'"
  by (auto simp: unlink_extra_from_product_def same_prices_def split: if_splits)

lemma recommend_quiet: "add_product_recommendation key pid rid position label f = Inr (f', r) \<Longrightarrow> same_prices f f'"
  by (cases "find_recommendation pid rid f") (auto simp: add_product_recommendation_def same_prices_def Let_def split: if_splits)

lemma rerecommend_quiet: "update_product_recommendation pid key position label active f = Inr (f', r) \<Longrightarrow> same_prices f f'"
  by (auto simp: update_product_recommendation_def same_prices_def rbind_eq_Inr Let_def split: if_splits)

lemma unrecommend_quiet: "delete_product_recommendation pid key f = Inr f' \<Longrightarrow> same_prices f f'"
  by (auto simp: delete_product_recommendation_def same_prices_def rbind_eq_Inr)

lemmas quiet_operations = create_category_quiet update_category_quiet link_quiet unlink_quiet recommend_quiet rerecommend_quiet unrecommend_quiet

subsection \<open>The rows of an import\<close>

declare csv_key.simps [simp del]

definition grows_by :: "shelf \<Rightarrow> shelf \<Rightarrow> int \<Rightarrow> bool" where
  "grows_by f f' n \<longleftrightarrow> shelf_ok f' \<and> (\<forall>k i. used_key f' k i \<longrightarrow> used_key f k i \<or> i = n)"

lemma grows_same: "shelf_ok f \<Longrightarrow> same_prices f f' \<Longrightarrow> grows_by f f' n"
  using same_prices_ok [of f f']
  by (simp add: grows_by_def used_key_def price_of_def price_history_def same_prices_def cong: priced.case_cong)

lemma used_audit:
  "used_key (add_price_audit k i old q user src why f) k' i' \<Longrightarrow> used_key f k' i' \<or> k' = k \<and> i' = i"
  by (auto simp: used_key_def add_price_audit_def price_of_def price_history_def split: if_splits cong: priced.case_cong)

text \<open>A row that is updated, or added under a fresh key, with its price audited.\<close>

lemma grows_audited:
  assumes "shelf_ok f" and "keys_distinct f1" and "sf_price_audits f1 = sf_price_audits f"
    and oth: "\<And>k' i'. (k', i') \<noteq> (k, i) \<Longrightarrow> price_of f1 k' i' = price_of f k' i'" and "price_of f1 k i = Some q"
    and "price_of f k i = old" and "old = None \<Longrightarrow> i = n \<and> \<not> used_key f k n"
  shows "grows_by f (add_price_audit k i old q user src why f1) n"
proof -
  have "shelf_ok (add_price_audit k i old q user src why f1)"
    using assms(6,7) unused_history [of f k n] by (intro audited_ok [OF assms(1,2,3) oth assms(5)]) auto
  moreover have "used_key f1 k' i' \<Longrightarrow> used_key f k' i' \<or> (k', i') = (k, i)" for k' i'
    by (cases "(k', i') = (k, i)") (simp_all add: used_key_def price_history_def oth assms(3))
  moreover have "i = n \<or> used_key f k i"
    using assms(6,7) by (cases old) (simp_all add: used_key_def)
  ultimately show ?thesis unfolding grows_by_def by (metis used_audit prod.inject)
qed

lemma put_rows:
  assumes "distinct (map key rows0)" and "old = None \<Longrightarrow> rows = rows0 @ [r1] \<and> key r1 = key r" and "old \<noteq> None \<Longrightarrow> rows = rows0"
    and "map_option g (row_get key (key r) rows0) = old"
  shows "distinct (map key (row_upd key (key r) (\<lambda>_. r) rows))"
    and "row_get key j (row_upd key (key r) (\<lambda>_. r) rows) = (if j = key r then Some r else row_get key j rows0)"
proof -
  have "distinct (map key rows) \<and> row_get key (key r) rows \<noteq> None \<and> (j \<noteq> key r \<longrightarrow> row_get key j rows = row_get key j rows0)"
  proof (cases old)
    case None
    then have "row_get key (key r) rows0 = None" using assms(4) by simp
    then have "key r \<notin> key ` set rows0" by (simp add: row_get_None_iff row_ids_def)
    then show ?thesis using None assms(1,2) by (auto simp: row_get_snoc split: option.split)
  next
    case (Some q)
    then show ?thesis using assms(1,3,4) by auto
  qed
  then show "distinct (map key (row_upd key (key r) (\<lambda>_. r) rows))"
    and "row_get key j (row_upd key (key r) (\<lambda>_. r) rows) = (if j = key r then Some r else row_get key j rows0)"
    by (auto simp: map_ids_upd row_get_put)
qed

lemma put_product_grows:
  assumes "shelf_ok f" and "map_option prod_base_price (row_get prod_id i (sf_products f)) = old"
    and "old = None \<Longrightarrow> i = n \<and> \<not> used_key f Priced_product n \<and> rows = sf_products f @ [p1] \<and> prod_id p1 = i"
    and "old \<noteq> None \<Longrightarrow> rows = sf_products f" and i: "prod_id p = i" and "prod_base_price p = price"
  shows "grows_by f (add_price_audit Priced_product i old price user src why (f\<lparr>sf_products := row_upd prod_id i (\<lambda>_. p) rows\<rparr>)) n"
proof -
  have "distinct (map prod_id (sf_products f))" using assms(1) by (simp add: shelf_ok_def)
  from put_rows [OF this, of old rows p1 p prod_base_price] show ?thesis
    using assms by (intro grows_audited [OF assms(1)]) (auto simp: shelf_ok_def keys_distinct_def price_of_def split: priced.split)
qed

lemma put_variant_grows:
  assumes "shelf_ok f" and "map_option var_price_delta (row_get var_id i (sf_variants f)) = old"
    and "old = None \<Longrightarrow> i = n \<and> \<not> used_key f Priced_variant n \<and> rows = sf_variants f @ [v1] \<and> var_id v1 = i"
    and "old \<noteq> None \<Longrightarrow> rows = sf_variants f" and i: "var_id v = i" and "var_price_delta v = price"
  shows "grows_by f (add_price_audit Priced_variant i old price user src why (f\<lparr>sf_variants := row_upd var_id i (\<lambda>_. v) rows\<rparr>)) n"
proof -
  have "distinct (map var_id (sf_variants f))" using assms(1) by (simp add: shelf_ok_def)
  from put_rows [OF this, of old rows v1 v var_price_delta] show ?thesis
    using assms by (intro grows_audited [OF assms(1)]) (auto simp: shelf_ok_def keys_distinct_def price_of_def split: priced.split)
qed

lemma put_extra_grows:
  assumes "shelf_ok f" and "map_option ext_price (row_get ext_id i (sf_extras f)) = old"
    and "old = None \<Longrightarrow> i = n \<and> \<not> used_key f Priced_extra n \<and> rows = sf_extras f @ [x1] \<and> ext_id x1 = i"
    and "old \<noteq> None \<Longrightarrow> rows = sf_extras f" and i: "ext_id x = i" and "ext_price x = price"
  shows "grows_by f (add_price_audit Priced_extra i old price user src why (f\<lparr>sf_extras := row_upd ext_id i (\<lambda>_. x) rows\<rparr>)) n"
proof -
  have "distinct (map ext_id (sf_extras f))" using assms(1) by (simp add: shelf_ok_def)
  from put_rows [OF this, of old rows x1 x ext_price] show ?thesis
    using assms by (intro grows_audited [OF assms(1)]) (auto simp: shelf_ok_def keys_distinct_def price_of_def split: priced.split)
qed

lemma namedD: "named nm n rows = Some r \<Longrightarrow> r \<in> set rows"
  by (auto simp: named_def find_Some_iff)

lemma named_product: "shelf_ok f \<Longrightarrow> named prod_name n (sf_products f) = Some p \<Longrightarrow> row_get prod_id (prod_id p) (sf_products f) = Some p"
  by (intro row_get_the) (simp_all add: shelf_ok_def namedD)

lemma import_product_grows:
  assumes ok: "shelf_ok (is_shelf st)" and fresh: "\<not> used_key (is_shelf st) Priced_product key" and "import_product key user row st = (st', False)"
  shows "grows_by (is_shelf st) (is_shelf st') key"
proof -
  let ?f = "is_shelf st"
  obtain price where price: "float_from_csv (csv_key row [''base_price'', ''price'']) = Some price"
    using assms(3) by (cases "float_from_csv (csv_key row [''base_price'', ''price''])") (simp_all add: import_product_def Let_def)
  show ?thesis
  proof (cases "named prod_name (text_or_empty (csv_key row [''name'', ''product_name''])) (sf_products ?f)")
    case None
    then show ?thesis using assms(3) ok fresh fresh_row [OF fresh]
      by (auto simp: import_product_def Let_def price on_shelf_def count_created_def put_product_def intro!: put_product_grows)
  next
    case (Some p0)
    then show ?thesis using assms(3) ok named_product [OF ok Some]
      by (auto simp: import_product_def Let_def price on_shelf_def count_updated_def put_product_def intro!: put_product_grows)
  qed
qed

lemma named_variant:
  "shelf_ok f \<Longrightarrow> named var_name n (filter P (sf_variants f)) = Some v \<Longrightarrow> row_get var_id (var_id v) (sf_variants f) = Some v"
  by (intro row_get_the) (auto simp: shelf_ok_def dest: namedD)

lemma import_variant_grows:
  assumes ok: "shelf_ok (is_shelf st)" and fresh: "\<not> used_key (is_shelf st) Priced_variant key" and "import_variant key user row st = (st', False)"
  shows "grows_by (is_shelf st) (is_shelf st') key"
proof -
  let ?f = "is_shelf st"
  obtain p price where price: "find_product row ?f = Some (Some p)" "float_from_csv (csv_key row [''price_delta'', ''base_price'', ''price'']) = Some price"
    using assms(3) by (auto simp: import_variant_def Let_def split: option.splits)
  show ?thesis
  proof (cases "named var_name (text_or_empty (csv_key row [''variant_name'', ''name''])) (filter (\<lambda>v. var_product_id v = prod_id p) (sf_variants ?f))")
    case None
    then show ?thesis using assms(3) ok fresh fresh_row [OF fresh]
      by (auto simp: import_variant_def Let_def price on_shelf_def count_created_def put_variant_def intro!: put_variant_grows)
  next
    case (Some v0)
    then show ?thesis using assms(3) ok named_variant [OF ok Some]
      by (auto simp: import_variant_def Let_def price on_shelf_def count_updated_def put_variant_def intro!: put_variant_grows)
  qed
qed

lemma named_extra: "shelf_ok f \<Longrightarrow> named ext_name n (sf_extras f) = Some x \<Longrightarrow> row_get ext_id (ext_id x) (sf_extras f) = Some x"
  by (intro row_get_the) (simp_all add: shelf_ok_def namedD)

lemma import_extra_grows:
  assumes ok: "shelf_ok (is_shelf st)" and fresh: "\<not> used_key (is_shelf st) Priced_extra key" and "import_extra key user row st = (st', False)"
  shows "grows_by (is_shelf st) (is_shelf st') key"
proof -
  let ?f = "is_shelf st"
  obtain price where price: "float_from_csv (csv_key row [''price'', ''base_price'']) = Some price"
    using assms(3) by (cases "float_from_csv (csv_key row [''price'', ''base_price''])") (simp_all add: import_extra_def Let_def)
  show ?thesis
  proof (cases "named ext_name (text_or_empty (csv_key row [''extra_name'', ''name''])) (sf_extras ?f)")
    case None
    then show ?thesis using assms(3) ok fresh fresh_row [OF fresh]
      by (auto simp: import_extra_def Let_def price on_shelf_def count_created_def put_extra_def intro!: put_extra_grows)
  next
    case (Some x0)
    then show ?thesis using assms(3) ok named_extra [OF ok Some]
      by (auto simp: import_extra_def Let_def price on_shelf_def count_updated_def put_extra_def intro!: put_extra_grows)
  qed
qed

text \<open>The other kinds of row leave what is priced alone.\<close>

lemmas import_state_defs = on_shelf_def on_allergens_def count_created_def count_updated_def count_linked_def

lemma import_category_quiet: "import_category key row st = (st', False) \<Longrightarrow> same_prices (is_shelf st) (is_shelf st')"
  by (auto simp: import_category_def Let_def import_state_defs put_category_def same_prices_def split: option.splits)

lemma import_link_quiet: "import_link row st = (st', False) \<Longrightarrow> same_prices (is_shelf st) (is_shelf st')"
  by (auto simp: import_link_def import_state_defs same_prices_def split: option.splits if_splits)

lemma import_allergen_quiet: "import_allergen row st = (st', False) \<Longrightarrow> same_prices (is_shelf st) (is_shelf st')"
  by (auto simp: import_allergen_def Let_def import_state_defs same_prices_def split: option.splits if_splits)

lemma import_tag_quiet: "import_tag key row st = (st', False) \<Longrightarrow> same_prices (is_shelf st) (is_shelf st')"
  by (auto simp: import_tag_def Let_def import_state_defs same_prices_def split: option.splits)

lemma import_product_tag_quiet: "import_product_tag row st = (st', False) \<Longrightarrow> same_prices (is_shelf st) (is_shelf st')"
  by (auto simp: import_product_tag_def import_state_defs same_prices_def split: option.splits if_splits)

lemma import_recommendation_quiet: "import_recommendation key row st = (st', False) \<Longrightarrow> same_prices (is_shelf st) (is_shelf st')"
  by (auto simp: import_recommendation_def import_state_defs same_prices_def split: option.splits if_splits)

lemma import_extra_ingredient_quiet: "import_extra_ingredient ings key row st = (st', False) \<Longrightarrow> same_prices (is_shelf st) (is_shelf st')"
  by (auto simp: import_extra_ingredient_def import_state_defs same_prices_def split: option.splits)

lemmas quiet_rows = import_category_quiet import_link_quiet import_allergen_quiet import_tag_quiet import_product_tag_quiet
  import_recommendation_quiet import_extra_ingredient_quiet

lemma import_row_grows:
  assumes ok: "shelf_ok (is_shelf st)" and fresh: "\<And>k. \<not> used_key (is_shelf st) k (key (fst nr))" and "import_row key ings user nr st = (st', False)"
  shows "grows_by (is_shelf st) (is_shelf st') (key (fst nr))"
proof -
  have refl: "same_prices (is_shelf st) (is_shelf st)" by (simp add: same_prices_def)
  show ?thesis
    using assms(3) import_product_grows [OF ok fresh] import_variant_grows [OF ok fresh] import_extra_grows [OF ok fresh]
      grows_same [OF ok] quiet_rows refl
    unfolding import_row_def Let_def by (auto split: if_splits)
qed

lemma import_rows_ok:
  assumes "import_rows key ings user rows st = (st', [])" and "shelf_ok (is_shelf st)" and "distinct (map fst rows)" and "inj key"
    and "\<And>k n. n \<in> fst ` set rows \<Longrightarrow> \<not> used_key (is_shelf st) k (key n)"
  shows "shelf_ok (is_shelf st')"
  using assms
proof (induction rows arbitrary: st)
  case Nil
  then show ?case by simp
next
  case (Cons nr rows)
  obtain st1 where row: "import_row key ings user nr st = (st1, False)" and rest: "import_rows key ings user rows st1 = (st', [])"
    using Cons.prems(1) by (auto simp: Let_def split: prod.splits if_splits)
  have "\<not> used_key (is_shelf st) k (key (fst nr))" for k by (rule Cons.prems(5)) simp
  from import_row_grows [OF Cons.prems(2) this row]
  have g: "shelf_ok (is_shelf st1)" "\<And>k i. used_key (is_shelf st1) k i \<Longrightarrow> used_key (is_shelf st) k i \<or> i = key (fst nr)"
    by (auto simp: grows_by_def)
  show ?case
  proof (rule Cons.IH [OF rest g(1) _ Cons.prems(4)])
    show "distinct (map fst rows)" using Cons.prems(3) by simp
    fix k n assume n: "n \<in> fst ` set rows"
    then have "n \<noteq> fst nr" using Cons.prems(3) by (metis distinct.simps(2) list.simps(9) set_map)
    moreover have "\<not> used_key (is_shelf st) k (key n)" using Cons.prems(5) n by simp
    ultimately show "\<not> used_key (is_shelf st1) k (key n)" using g(2) injD [OF Cons.prems(4)] by blast
  qed
qed

subsection \<open>The whole administration\<close>

lemma confirmed:
  assumes "confirm_catalog_csv key ings token user ip = Inr (ip', r)"
  obtains (refused) "ip' = ip" "\<not> cr_imported r"
  | (applied) rows st b where "import_rows key ings user (enumerate 2 rows) \<lparr>is_shelf = ip_shelf ip, is_allergens = ip_allergens ip, is_created = 0,
        is_updated = 0, is_linked = 0, is_violated = False\<rparr> = (st, [])"
      "ip' = \<lparr>ip_shelf = is_shelf st, ip_allergens = is_allergens st,
         ip_batches = map (\<lambda>b. if ib_token b = token then b\<lparr>ib_status := Imported\<rparr> else b) (ip_batches ip)\<rparr>"
      "find (\<lambda>b. ib_token b = token) (ip_batches ip) = Some b" "cr_imported r"
proof -
  obtain b where b: "find (\<lambda>b. ib_token b = token) (ip_batches ip) = Some b" "ib_status b = Dry_run" "ib_valid b"
    using assms by (auto simp: confirm_catalog_csv_def split: option.splits if_splits)
  obtain rows where rows: "read_csv_rows (ib_csv_text b) = Inr (enumerate 2 rows)"
    using assms by (simp add: confirm_catalog_csv_def b rbind_eq_Inr read_csv_rows_def) (auto split: option.splits)
  obtain st errors where imp: "import_rows key ings user (enumerate 2 rows) \<lparr>is_shelf = ip_shelf ip, is_allergens = ip_allergens ip, is_created = 0,
        is_updated = 0, is_linked = 0, is_violated = False\<rparr> = (st, errors)" by fastforce
  show ?thesis
  proof (cases "errors = []")
    case True
    then show ?thesis using assms imp by (intro applied [of rows st b]) (auto simp: confirm_catalog_csv_def b rows Let_def split: if_splits)
  next
    case False
    then show ?thesis using assms imp by (intro refused) (auto simp: confirm_catalog_csv_def b rows Let_def)
  qed
qed

lemma confirm_ok:
  assumes "confirm_catalog_csv key ings token user ip = Inr (ip', r)" and "shelf_ok (ip_shelf ip)" and "inj key"
    and "\<And>k n. \<not> used_key (ip_shelf ip) k (key n)"
  shows "shelf_ok (ip_shelf ip')"
  using assms(1)
proof (cases rule: confirmed)
  case refused
  then show ?thesis using assms(2) by simp
next
  case (applied rows st b)
  have "shelf_ok (is_shelf st)" by (rule import_rows_ok [OF applied(1)]) (use assms(2-4) in \<open>simp_all add: map_fst_enumerate\<close>)
  then show ?thesis by (simp add: applied(2))
qed

lemma dry_run_frame:
  "dry_run_catalog_csv token csv_text filename user ip = Inr (ip', r) \<Longrightarrow>
   ip_shelf ip' = ip_shelf ip \<and> ip_allergens ip' = ip_allergens ip \<and> (\<exists>b. ip_batches ip' = ip_batches ip @ [b])"
  by (auto simp: dry_run_catalog_csv_def rbind_eq_Inr Let_def case_prod_beta)

interpretation catalogue: invariant_steps shelf_step "\<lambda>ip. shelf_ok (ip_shelf ip)"
proof
  fix ip ip' assume "shelf_step ip ip'" and ok: "shelf_ok (ip_shelf ip)"
  then show "shelf_ok (ip_shelf ip')"
  proof (cases rule: shelf_step.cases)
    case (sstep_dry_run token csv_text filename user r)
    then show ?thesis using ok dry_run_frame by metis
  next
    case (sstep_confirm keys ings token user r)
    then show ?thesis using ok confirm_ok by blast
  qed (use ok in \<open>auto intro: create_product_ok provider_update_ok provider_delete_ok create_variant_ok update_variant_ok delete_variant_ok
        create_extra_ok update_extra_ok delete_extra_ok same_prices_ok quiet_operations\<close>)
qed

text \<open>C25. Whatever sequence of administrative operations and CSV imports the catalogue goes through, the price of every product, variant
  and extra it shows is the one its audit trail leads to: the trail starts with a price out of nothing, every later entry
  starts from the price the entry before it ended in, and the last one ends in the current price.\<close>

theorem prices_are_explained:
  assumes "shelf_step\<^sup>*\<^sup>* ip ip'" and "shelf_ok (ip_shelf ip)" and "price_of (ip_shelf ip') k i = Some q"
  shows "replay_prices None (price_history (ip_shelf ip') k i) = Some (Some q)"
  using catalogue.run_inv [OF assms(1,2)] assms(3) by (simp add: shelf_ok_def prices_explained_def)

definition empty_importer :: importer where
  "empty_importer = \<lparr>ip_shelf = \<lparr>sf_categories = [], sf_products = [], sf_variants = [], sf_extras = [], sf_links = [], sf_recommendations = [],
      sf_extra_ingredients = [], sf_price_audits = []\<rparr>,
    ip_allergens = pizza_allergens, ip_batches = []\<rparr>"

definition demo_pizza :: product_create where
  "demo_pizza = \<lparr>pc_category_id = None, pc_name = ''Reine'', pc_description = None, pc_base_price = 12, pc_image_url = None, pc_station = None,
     pc_active = False\<rparr>"

definition dearer :: product_patch where
  "dearer = \<lparr>pp_category_id = None, pp_name = None, pp_description = None, pp_base_price = Some (Some 13), pp_image_url = None, pp_station = None,
     pp_active = None, pp_reason = Some ''flour''\<rparr>"

theorem prices_are_explained_witness:
  "\<exists>ip'. shelf_step\<^sup>*\<^sup>* empty_importer ip' \<and> price_of (ip_shelf ip') Priced_product 7 = Some 13
     \<and> length (price_history (ip_shelf ip') Priced_product 7) = 2
     \<and> replay_prices None (price_history (ip_shelf ip') Priced_product 7) = Some (Some 13)"
proof -
  define f1 where "f1 = fst (projr (create_product 7 demo_pizza None ''admin'' (ip_shelf empty_importer)))"
  define f2 where "f2 = fst (projr (provider_update_product pizza_allergens 7 dearer None f1))"
  note defs = f1_def f2_def demo_pizza_def dearer_def empty_importer_def create_product_def known_category_def new_product_def
    provider_update_product_def update_product_def patch_product_def given_value_def given_or_null_def is_null_def add_price_audit_def Let_def row_simps
  have ok: "shelf_ok (ip_shelf empty_importer)"
    by (simp add: shelf_ok_def prices_explained_def price_of_def empty_importer_def row_simps split: priced.split)
  have "shelf_step empty_importer (empty_importer\<lparr>ip_shelf := f1\<rparr>)"
    by (rule sstep_product [of _ _ demo_pizza None "''admin''" _ "new_product 7 demo_pizza"])
       (simp_all add: defs used_key_def price_of_def price_history_def)
  moreover have "shelf_step (empty_importer\<lparr>ip_shelf := f1\<rparr>) (empty_importer\<lparr>ip_shelf := f1\<rparr>\<lparr>ip_shelf := f2\<rparr>)"
    by (rule sstep_reproduct [of _ 7 dearer None _ "patch_product dearer (new_product 7 demo_pizza)"]) (simp_all add: defs)
  ultimately have run: "shelf_step\<^sup>*\<^sup>* empty_importer (empty_importer\<lparr>ip_shelf := f2\<rparr>)" by simp
  have price: "price_of f2 Priced_product 7 = Some 13" by (simp add: defs price_of_def)
  have "length (price_history f2 Priced_product 7) = 2" by (simp add: defs price_history_def)
  then show ?thesis using run price prices_are_explained [OF run ok, of Priced_product 7 13] by fastforce
qed

subsection \<open>An import is applied once, and entirely or not at all\<close>

definition token_done :: "string \<Rightarrow> importer \<Rightarrow> bool" where
  "token_done token ip \<longleftrightarrow> map_option ib_status (find (\<lambda>b. ib_token b = token) (ip_batches ip)) = Some Imported"

lemma find_mark:
  "find (\<lambda>b. ib_token b = t) (map (\<lambda>b. if ib_token b = token then b\<lparr>ib_status := Imported\<rparr> else b) bs)
    = map_option (\<lambda>b. if ib_token b = token then b\<lparr>ib_status := Imported\<rparr> else b) (find (\<lambda>b. ib_token b = t) bs)"
  by (induction bs) auto

lemma find_append_Some: "find P xs = Some b \<Longrightarrow> find P (xs @ ys) = Some b"
  by (induction xs) (auto split: if_splits)

lemma confirm_marks:
  assumes "confirm_catalog_csv keys ings token user ip = Inr (ip', r)"
  shows "(cr_imported r \<longrightarrow> token_done token ip') \<and> (\<not> cr_imported r \<longrightarrow> ip' = ip) \<and> (token_done t ip \<longrightarrow> token_done t ip')"
  using assms
proof (cases rule: confirmed)
  case (applied rows st b)
  then have "ib_token b = token" by (auto simp: find_Some_iff)
  then show ?thesis using applied
    by (cases "find (\<lambda>b. ib_token b = t) (ip_batches ip)") (simp_all add: token_done_def find_mark)
qed simp

interpretation applied_token: invariant_steps shelf_step "token_done token"
proof
  fix ip ip' assume "shelf_step ip ip'" and d: "token_done token ip"
  then show "token_done token ip'"
  proof (cases rule: shelf_step.cases)
    case (sstep_dry_run tk csv_text filename user r)
    obtain b where b: "find (\<lambda>b. ib_token b = token) (ip_batches ip) = Some b" "ib_status b = Imported" using d by (auto simp: token_done_def)
    then have "find (\<lambda>b. ib_token b = token) (ip_batches ip') = Some b"
      using dry_run_frame [OF sstep_dry_run] find_append_Some by metis
    then show ?thesis using b(2) by (simp add: token_done_def)
  next
    case (sstep_confirm keys ings tk user r)
    then show ?thesis using d confirm_marks by blast
  qed (use d in \<open>simp_all add: token_done_def\<close>)
qed

text \<open>C27. Confirming a CSV import either changes nothing at all (and reports the rows that failed) or applies all of it; and once a
  token has been applied, no later confirmation of it, whatever happened to the catalogue in between, is accepted: it is
  refused with 409.\<close>

theorem import_applied_once:
  assumes "confirm_catalog_csv keys ings token user ip = Inr (ip', r)"
  shows "if cr_imported r
    then cr_errors r = [] \<and> (\<forall>later keys' ings' user'. shelf_step\<^sup>*\<^sup>* ip' later \<longrightarrow>
           confirm_catalog_csv keys' ings' token user' later = Inl (AppError ''IMPORT_ALREADY_PROCESSED'' 409))
    else cr_errors r \<noteq> [] \<and> ip' = ip"
proof -
  have errs: "cr_imported r \<longleftrightarrow> cr_errors r = []"
    using assms by (auto simp: confirm_catalog_csv_def rbind_eq_Inr Let_def case_prod_beta split: option.splits if_splits)
  have "confirm_catalog_csv keys' ings' token user' later = Inl (AppError ''IMPORT_ALREADY_PROCESSED'' 409)"
    if "token_done token later" for keys' ings' user' later
    using that by (auto simp: token_done_def confirm_catalog_csv_def)
  then show ?thesis using confirm_marks [OF assms] applied_token.run_inv errs by auto
qed

definition demo_csv :: string where
  "demo_csv = ''type,name'' @ [newline] @ ''category,Pizzas''"

definition demo_import :: importer where
  "demo_import = fst (projr (dry_run_catalog_csv ''token'' demo_csv None None empty_importer))"

lemma demo_rows: "read_csv_rows demo_csv = Inr [(2, [(''type'', Some ''category''), (''name'', Some ''Pizzas'')])]"
  by code_simp

theorem import_applied_once_witness:
  "\<exists>ip' r. confirm_catalog_csv int [] ''token'' None demo_import = Inr (ip', r) \<and> cr_imported r \<and> cr_created r = 1
     \<and> confirm_catalog_csv int [] ''token'' None ip' = Inl (AppError ''IMPORT_ALREADY_PROCESSED'' 409)"
proof -
  define x where "x = confirm_catalog_csv int [] ''token'' None demo_import"
  have lower: "py_strip ''category'' = ''category''" "py_lower ''category'' = ''category''" "py_strip ''Pizzas'' = ''Pizzas''" by code_simp+
  note step = confirm_catalog_csv_def demo_import_def dry_run_catalog_csv_def empty_importer_def demo_rows rbind_def Let_def row_type_def csv_key.simps
    csv_types_def required_missing_def lacks_def lower import_row_def import_category_def named_def text_or_empty_def int_or_def import_state_defs
    put_category_def bool_from_csv_def
  obtain ip' r where x: "x = Inr (ip', r)" "cr_imported r" "cr_created r = 1" unfolding x_def by (simp add: step)
  then have "\<forall>later keys' ings' user'. shelf_step\<^sup>*\<^sup>* ip' later \<longrightarrow>
      confirm_catalog_csv keys' ings' ''token'' user' later = Inl (AppError ''IMPORT_ALREADY_PROCESSED'' 409)"
    using import_applied_once [of int "[]" "''token''" None demo_import ip' r] unfolding x_def by auto
  then show ?thesis using x unfolding x_def by blast
qed

end
