(* ===== verification/Catalog_Roundtrip.thy ===== *)
theory Catalog_Roundtrip
  imports Catalog_Props
begin

text \<open>
  The CSV export of the catalogue and its import fit together: a tidy catalogue that is exported and imported again is
  accepted and nothing changes.
\<close>

subsection \<open>The export is accepted by the import\<close>

lemma fold_dict_set:
  "distinct (map fst d @ map g kvs) \<Longrightarrow> fold (\<lambda>kv d. dict_set (g kv) (h kv) d) kvs d = d @ map (\<lambda>kv. (g kv, h kv)) kvs"
  by (induction kvs arbitrary: d) (simp_all add: dict_set_fresh)

lemma dict_row_zip:
  "length vs = length ks \<Longrightarrow> distinct (map fst d @ ks) \<Longrightarrow> dict_row ks vs d = d @ zip ks (map Some vs)"
proof (induction ks arbitrary: vs d)
  case (Cons k ks)
  then show ?case by (cases vs) (simp_all add: dict_set_fresh)
qed simp

text \<open>What the importer sees of an exported line: every field of the header, with the text without its outer blanks.\<close>

definition read_line :: "(string \<times> string) list \<Rightarrow> csv_row" where
  "read_line d = map (\<lambda>n. (n, Some (py_strip (text_or_empty (map_of d n))))) csv_fields"

lemma csv_fields_normal: "distinct csv_fields" "[] \<notin> set csv_fields" "\<forall>n \<in> set csv_fields. py_lower (py_strip n) = n"
proof -
  show "distinct csv_fields" "[] \<notin> set csv_fields" by (simp_all add: csv_fields_def)
  show "\<forall>n \<in> set csv_fields. py_lower (py_strip n) = n" by code_simp
qed

lemma normalize_exported: "normalize_row (dict_row csv_fields (dict_fields d) []) = read_line d"
proof -
  define val where "val n = text_or_empty (map_of d n)" for n
  have zip: "dict_row csv_fields (dict_fields d) [] = map (\<lambda>n. (n, Some (val n))) csv_fields"
    using csv_fields_normal(1) by (subst dict_row_zip) (simp_all add: dict_fields_def val_def comp_def zip_map2 zip_same_conv_map)
  have "filter (\<lambda>kv. fst kv \<noteq> []) (map (\<lambda>n. (n, Some (val n))) csv_fields) = map (\<lambda>n. (n, Some (val n))) csv_fields"
    using csv_fields_normal(2) by (auto simp: filter_id_conv)
  moreover have "map (\<lambda>n. py_lower (py_strip n)) csv_fields = csv_fields"
    using csv_fields_normal(3) by (simp add: map_idI)
  ultimately show ?thesis
    using csv_fields_normal(1,3) unfolding normalize_row_def zip
    by (subst fold_dict_set) (auto simp: read_line_def val_def comp_def)
qed

lemma read_exported: "read_csv_rows (export_catalog_csv rank f) = Inr (enumerate 2 (map read_line (export_lines rank f)))"
proof -
  have "dict_fields d \<noteq> []" for d by (simp add: dict_fields_def csv_fields_def)
  then have "csv_read (export_catalog_csv rank f) = Some (csv_fields # map dict_fields (export_lines rank f))"
    unfolding export_catalog_csv_def by (subst csv_read_write) (auto simp: csv_fields_def dict_fields_def)
  then show ?thesis
    using \<open>\<And>d. dict_fields d \<noteq> []\<close> by (simp add: read_csv_rows_def dict_reader_def filter_id_conv [THEN iffD2] normalize_exported comp_def)
qed

text \<open>A key the importer looks up in an exported line.\<close>

definition cell :: "(string \<times> string) list \<Rightarrow> string \<Rightarrow> string" where
  "cell d n = py_strip (text_or_empty (map_of d n))"

lemma map_of_keys: "map_of (map (\<lambda>n. (n, g n)) ns) k = (if k \<in> set ns then Some (g k) else None)"
  by (induction ns) auto

lemma strip_ends: "py_strip s = [] \<or> \<not> py_space (hd (py_strip s)) \<and> \<not> py_space (last (py_strip s))"
proof (cases "py_strip s = []")
  case False
  define t where "t = dropWhile py_space s"
  have st: "py_strip s = rev (dropWhile py_space (rev t))" by (simp add: py_strip_def t_def)
  then have ne: "dropWhile py_space (rev t) \<noteq> []" "t \<noteq> []" using False by auto
  have "\<not> py_space (last (py_strip s))" using hd_dropWhile [OF ne(1)] by (simp add: st last_rev)
  moreover obtain u where u: "t = py_strip s @ u"
    using takeWhile_dropWhile_id [of py_space "rev t"] by (metis st rev_append rev_rev_ident)
  moreover have "\<not> py_space (hd t)" using hd_dropWhile [of py_space s] ne(2) by (simp add: t_def)
  ultimately show ?thesis using False by (metis hd_append2)
qed simp

lemma dropWhile_none: "\<not> P (hd s) \<Longrightarrow> dropWhile P s = s"
  by (cases s) simp_all

lemma strip_nil [simp]: "py_strip [] = []"
  by (simp add: py_strip_def)

lemma strip_tidy:
  assumes "\<not> py_space (hd s)" and "\<not> py_space (last s)"
  shows "py_strip s = s"
proof (cases "s = []")
  case False
  then have "\<not> py_space (hd (rev s))" using assms(2) by (simp add: hd_rev)
  then show ?thesis by (simp add: py_strip_def dropWhile_none [where P = py_space, OF assms(1)] dropWhile_none)
qed simp

lemma strip_idem [simp]: "py_strip (py_strip s) = py_strip s"
  using strip_ends [of s] strip_tidy [of "py_strip s"] by auto

lemma strip_solid: "(\<And>c. c \<in> set s \<Longrightarrow> \<not> py_space c) \<Longrightarrow> py_strip s = s"
  by (cases "s = []") (auto intro: strip_tidy)

lemma csv_key_read:
  "csv_key (read_line d) (n # ns) = (if n \<in> set csv_fields \<and> cell d n \<noteq> [] then Some (cell d n) else csv_key (read_line d) ns)"
  by (auto simp: csv_key.simps read_line_def map_of_keys cell_def)

lemma csv_key_none: "csv_key row [] = None" by (simp add: csv_key.simps)

subsection \<open>A tidy catalogue is exported and imported back unchanged\<close>

definition tidy_text :: "string \<Rightarrow> bool" where
  "tidy_text t \<longleftrightarrow> t \<noteq> [] \<and> py_strip t = t"

definition tidy_opt :: "string option \<Rightarrow> bool" where
  "tidy_opt v \<longleftrightarrow> (case v of None \<Rightarrow> True | Some t \<Rightarrow> tidy_text t)"

definition three_decimals :: "rat \<Rightarrow> bool" where
  "three_decimals q \<longleftrightarrow> q = of_int \<lfloor>q * 1000\<rfloor> / 1000"

definition unique_names :: "('r \<Rightarrow> string) \<Rightarrow> 'r list \<Rightarrow> bool" where
  "unique_names nm rows \<longleftrightarrow> list_all (\<lambda>r. tidy_text (nm r)) rows \<and> distinct (map (\<lambda>r. py_lower (nm r)) rows)"

definition tidy_products :: "shelf \<Rightarrow> bool" where
  "tidy_products f \<longleftrightarrow> unique_names prod_name (sf_products f) \<and> distinct (map prod_id (sf_products f))
     \<and> list_all (\<lambda>p. three_decimals (prod_base_price p) \<and> tidy_opt (sp_description p) \<and> tidy_opt (sp_image_url p)
          \<and> known_category f (prod_category_id p)) (sf_products f)"

definition tidy_variants :: "shelf \<Rightarrow> bool" where
  "tidy_variants f \<longleftrightarrow> distinct (map var_id (sf_variants f)) \<and> distinct (map (\<lambda>v. (var_product_id v, py_lower (var_name v))) (sf_variants f))
     \<and> list_all (\<lambda>v. tidy_text (var_name v) \<and> three_decimals (var_price_delta v)
          \<and> row_get prod_id (var_product_id v) (sf_products f) \<noteq> None) (sf_variants f)"

definition tidy_recommendations :: "shelf \<Rightarrow> bool" where
  "tidy_recommendations f \<longleftrightarrow> distinct (map rc_id (sf_recommendations f))
     \<and> distinct (map (\<lambda>r. (rc_product_id r, rc_recommended_id r)) (sf_recommendations f))
     \<and> list_all (\<lambda>r. tidy_opt (rc_label r) \<and> rc_product_id r \<noteq> rc_recommended_id r \<and> row_get prod_id (rc_product_id r) (sf_products f) \<noteq> None
          \<and> row_get prod_id (rc_recommended_id r) (sf_products f) \<noteq> None) (sf_recommendations f)"

definition tidy_ingredients :: "shelf \<Rightarrow> bool" where
  "tidy_ingredients f \<longleftrightarrow> distinct (map rl_id (sf_extra_ingredients f))
     \<and> distinct (map (\<lambda>r. (rl_target_id r, rl_ingredient_id r)) (sf_extra_ingredients f))
     \<and> list_all (\<lambda>r. three_decimals (rl_quantity r) \<and> 0 < rl_quantity r \<and> row_get ext_id (rl_target_id r) (sf_extras f) \<noteq> None) (sf_extra_ingredients f)"

definition tidy_shelf :: "shelf \<Rightarrow> bool" where
  "tidy_shelf f \<longleftrightarrow> unique_names cat_name (sf_categories f) \<and> distinct (map cat_id (sf_categories f)) \<and> tidy_products f \<and> tidy_variants f
     \<and> unique_names ext_name (sf_extras f) \<and> distinct (map ext_id (sf_extras f)) \<and> list_all (\<lambda>x. three_decimals (ext_price x)) (sf_extras f)
     \<and> list_all (\<lambda>l. row_get prod_id (fst l) (sf_products f) \<noteq> None \<and> row_get ext_id (snd l) (sf_extras f) \<noteq> None) (sf_links f)
     \<and> tidy_recommendations f \<and> tidy_ingredients f"

lemma named_unique: "unique_names nm rows \<Longrightarrow> r \<in> set rows \<Longrightarrow> named nm (nm r) rows = Some r"
  unfolding unique_names_def named_def by (induction rows) (auto simp: image_iff)

lemma find_key_unique: "distinct (map k rows) \<Longrightarrow> r \<in> set rows \<Longrightarrow> find (\<lambda>x. k x = k r) rows = Some r"
  by (induction rows) (auto simp: image_iff)

lemma row_upd_self: "distinct (map key rows) \<Longrightarrow> r \<in> set rows \<Longrightarrow> row_upd key (key r) (\<lambda>_. r) rows = rows"
  unfolding row_upd_def by (intro map_idI) (auto simp: distinct_map dest: inj_onD)

lemma find_filter: "find P (filter Q xs) = find (\<lambda>x. Q x \<and> P x) xs"
  by (induction xs) auto

lemma digit_solid: "is_digit c \<Longrightarrow> \<not> py_space c \<and> c \<noteq> comma"
  by (auto simp: is_digit_def digit_value_def py_space_def Let_def split: if_splits)

lemma sign_solid: "\<not> py_space CHR ''-''" "\<not> py_space CHR ''.''" "CHR ''-'' \<noteq> comma" "CHR ''.'' \<noteq> comma"
  by (simp_all add: py_space_def) code_simp+

lemma int_solid: "c \<in> set (py_str_int n) \<Longrightarrow> \<not> py_space c"
  using nat_digits_are_digits [of "nat n"] nat_digits_are_digits [of "nat (- n)"] digit_solid sign_solid
  by (auto simp: py_str_int_def list_all_iff split: if_splits)

lemma float_solid: "c \<in> set (py_repr_float q) \<Longrightarrow> \<not> py_space c \<and> c \<noteq> comma"
  using nat_digits_are_digits [of "nat \<lfloor>\<bar>q\<bar> * 1000\<rfloor> div 1000"] fraction_back [of "nat \<lfloor>\<bar>q\<bar> * 1000\<rfloor> mod 1000"] digit_solid sign_solid
  by (auto simp: py_repr_float_def Let_def list_all_iff split: if_splits)

lemma number_cells:
  "py_strip (py_str_int n) = py_str_int n" "py_str_int n \<noteq> []" "py_strip (py_repr_float q) = py_repr_float q" "py_repr_float q \<noteq> []"
proof -
  show "py_strip (py_str_int n) = py_str_int n" "py_strip (py_repr_float q) = py_repr_float q"
    using int_solid float_solid by (blast intro: strip_solid)+
  show "py_str_int n \<noteq> []" using nat_digits_are_digits by (simp add: py_str_int_def)
  show "py_repr_float q \<noteq> []" by (simp add: py_repr_float_def Let_def)
qed

lemma price_back: "three_decimals q \<Longrightarrow> float_from_csv (Some (py_repr_float q)) = Some q"
proof -
  assume q: "three_decimals q"
  have "map (\<lambda>c. if c = comma then CHR ''.'' else c) (py_repr_float q) = py_repr_float q" using float_solid by (auto intro!: map_idI)
  then show ?thesis using py_float_text_repr q by (simp add: float_from_csv_def three_decimals_def)
qed

text \<open>A row that changes nothing but the count of updates.\<close>

definition kept :: "import_state \<Rightarrow> import_state \<Rightarrow> bool" where
  "kept st st' \<longleftrightarrow> is_shelf st' = is_shelf st \<and> is_allergens st' = is_allergens st \<and> is_created st' = is_created st
     \<and> is_linked st' = is_linked st \<and> is_violated st' = is_violated st"

lemma kept_updated: "kept st (count_updated st)" and kept_refl: "kept st st"
  by (simp_all add: kept_def count_updated_def)

lemma kept_on_shelf: "kept st st' \<Longrightarrow> g (is_shelf st) = is_shelf st \<Longrightarrow> kept st (on_shelf g st')"
  by (simp add: kept_def on_shelf_def)

lemma types_normal: "\<forall>t \<in> set csv_types. py_lower (py_strip t) = t \<and> py_strip t = t \<and> t \<noteq> []"
  by code_simp

lemma row_type_line:
  assumes "map_of d ''type'' = Some t" and "t \<in> set csv_types"
  shows "row_type (read_line d) = t"
  using assms types_normal by (auto simp: row_type_def csv_key_read cell_def text_or_empty_def csv_fields_def)

lemma bool_cell: "py_strip (py_str_bool b) = py_str_bool b" "py_str_bool b \<noteq> []"
proof -
  have "py_strip ''True'' = ''True''" "py_strip ''False'' = ''False''" by code_simp+
  then show "py_strip (py_str_bool b) = py_str_bool b" "py_str_bool b \<noteq> []" by (simp_all add: py_str_bool_def)
qed

lemma bool_back: "bool_from_csv (Some (py_str_bool b)) dflt = b"
proof -
  have "py_lower ''True'' = ''true''" "py_lower ''False'' = ''false''" by code_simp+
  then show ?thesis using bool_cell [of b] by (cases b) (simp_all add: bool_from_csv_def py_str_bool_def)
qed

lemma opt_cell: "tidy_opt v \<Longrightarrow> (if py_strip (text_or_empty v) \<noteq> [] then Some (py_strip (text_or_empty v)) else None) = v"
  by (cases v) (auto simp: tidy_opt_def tidy_text_def text_or_empty_def)

lemmas cell_simps = csv_key_read csv_key_none cell_def text_or_empty_def [of "Some _"] text_or_empty_def [of None] csv_fields_def number_cells bool_cell bool_back

text \<open>The rows of a tidy catalogue are found again by the texts of the export.\<close>

lemma unique_namesD: "unique_names nm rows \<Longrightarrow> r \<in> set rows \<Longrightarrow> tidy_text (nm r) \<and> named nm (nm r) rows = Some r"
  using named_unique [of nm rows r] by (simp add: unique_names_def list_all_iff)

lemma tidy_category:
  assumes "tidy_shelf f" and "c \<in> set (sf_categories f)"
  shows "tidy_text (cat_name c)" and "named cat_name (cat_name c) (sf_categories f) = Some c" and "put_category c f = f"
  using assms unique_namesD [of cat_name "sf_categories f" c] by (simp_all add: tidy_shelf_def put_category_def row_upd_self)

lemma tidy_product:
  assumes "tidy_shelf f" and "p \<in> set (sf_products f)"
  shows "tidy_text (prod_name p)" and "named prod_name (prod_name p) (sf_products f) = Some p" and "put_product p f = f"
    and "three_decimals (prod_base_price p)" and "tidy_opt (sp_description p)" and "tidy_opt (sp_image_url p)" and "known_category f (prod_category_id p)"
  using assms unique_namesD [of prod_name "sf_products f" p]
  by (simp_all add: tidy_shelf_def tidy_products_def put_product_def row_upd_self list_all_iff)

lemma tidy_extra:
  assumes "tidy_shelf f" and "x \<in> set (sf_extras f)"
  shows "tidy_text (ext_name x)" and "named ext_name (ext_name x) (sf_extras f) = Some x" and "put_extra x f = f" and "three_decimals (ext_price x)"
  using assms unique_namesD [of ext_name "sf_extras f" x] by (simp_all add: tidy_shelf_def put_extra_def row_upd_self list_all_iff)

lemma name_of_productD:
  assumes "tidy_shelf f" and "row_get prod_id k (sf_products f) \<noteq> None"
  obtains p where "row_get prod_id k (sf_products f) = Some p" "prod_id p = k" "name_of_product f k = prod_name p" "tidy_text (prod_name p)"
    "named prod_name (prod_name p) (sf_products f) = Some p"
proof -
  obtain p where p: "row_get prod_id k (sf_products f) = Some p" using assms(2) by auto
  note in_rows = row_get_SomeD [OF p]
  show ?thesis using that [of p] p in_rows tidy_product [OF assms(1), of p] by (simp add: name_of_product_def)
qed

lemma name_of_extraD:
  assumes "tidy_shelf f" and "row_get ext_id k (sf_extras f) \<noteq> None"
  obtains x where "row_get ext_id k (sf_extras f) = Some x" "ext_id x = k" "name_of_extra f k = ext_name x" "tidy_text (ext_name x)"
    "named ext_name (ext_name x) (sf_extras f) = Some x"
proof -
  obtain x where x: "row_get ext_id k (sf_extras f) = Some x" using assms(2) by auto
  note in_rows = row_get_SomeD [OF x]
  show ?thesis using that [of x] x in_rows tidy_extra [OF assms(1), of x] by (simp add: name_of_extra_def)
qed

lemma name_of_categoryD:
  assumes "tidy_shelf f" and "row_get cat_id k (sf_categories f) \<noteq> None"
  obtains c where "cat_id c = k" "name_of_category f (Some k) = cat_name c" "tidy_text (cat_name c)"
    "named cat_name (cat_name c) (sf_categories f) = Some c"
proof -
  obtain c where c: "row_get cat_id k (sf_categories f) = Some c" using assms(2) by auto
  note in_rows = row_get_SomeD [OF c]
  show ?thesis using that [of c] c in_rows tidy_category [OF assms(1), of c] by (simp add: name_of_category_def)
qed

lemma same_price_unaudited: "add_price_audit k i (Some q) q user src why f = f"
  by (simp add: add_price_audit_def)

subsection \<open>Every kind of exported row changes nothing when it is read back\<close>

lemma reimport_category:
  assumes f: "tidy_shelf (is_shelf st)" and c: "c \<in> set (sf_categories (is_shelf st))"
  shows "\<exists>st'. import_category key (read_line (category_line c)) st = (st', False) \<and> kept st st'"
proof -
  note t = tidy_category [OF f c]
  have cells: "csv_key (read_line (category_line c)) [''name''] = Some (cat_name c)"
    "csv_key (read_line (category_line c)) [''display_order''] = Some (py_str_int (sc_display_order c))"
    "csv_key (read_line (category_line c)) [''is_active''] = Some (py_str_bool (sc_active c))"
    using t(1) by (simp_all add: cell_simps category_line_def tidy_text_def)
  show ?thesis
    by (simp add: import_category_def cells text_or_empty_def t(2) int_or_def py_int_text_str bool_back kept_on_shelf [OF kept_updated] t(3))
qed

lemma reimport_product:
  assumes f: "tidy_shelf (is_shelf st)" and p: "p \<in> set (sf_products (is_shelf st))"
  shows "\<exists>st'. import_product key user (read_line (product_line (is_shelf st) p)) st = (st', False) \<and> kept st st'"
proof -
  let ?f = "is_shelf st" and ?row = "read_line (product_line (is_shelf st) p)"
  note t = tidy_product [OF f p]
  have cells: "csv_key ?row [''name'', ''product_name''] = Some (prod_name p)" "csv_key ?row [''description''] = sp_description p"
    "csv_key ?row [''base_price'', ''price''] = Some (py_repr_float (prod_base_price p))" "csv_key ?row [''image_url''] = sp_image_url p"
    "csv_key ?row [''is_active''] = Some (py_str_bool (prod_active p))"
    using t(1) opt_cell [OF t(5)] opt_cell [OF t(6)] by (simp_all add: cell_simps product_line_def tidy_text_def split: if_split_asm)
  have cat: "(case csv_key ?row [''category_name''] of None \<Rightarrow> prod_category_id p
      | Some n \<Rightarrow> map_option cat_id (named cat_name n (sf_categories ?f))) = prod_category_id p"
  proof (cases "prod_category_id p")
    case None
    then show ?thesis by (simp add: cell_simps product_line_def name_of_category_def)
  next
    case (Some k)
    then have "row_get cat_id k (sf_categories ?f) \<noteq> None" using t(7) by (simp add: known_category_def)
    then obtain c where "cat_id c = k" "name_of_category ?f (Some k) = cat_name c" "tidy_text (cat_name c)"
      "named cat_name (cat_name c) (sf_categories ?f) = Some c" by (rule name_of_categoryD [OF f])
    then show ?thesis by (simp add: cell_simps product_line_def Some tidy_text_def)
  qed
  show ?thesis using cat
    by (cases "csv_key ?row [''category_name'']")
       (simp_all add: import_product_def Let_def cells text_or_empty_def [of "Some _"] t(2) price_back [OF t(4)] bool_back
        same_price_unaudited kept_on_shelf [OF kept_updated] t(3))
qed

lemma reimport_variant:
  assumes f: "tidy_shelf (is_shelf st)" and v: "v \<in> set (sf_variants (is_shelf st))"
  shows "\<exists>st'. import_variant key user (read_line (variant_line (is_shelf st) v)) st = (st', False) \<and> kept st st'"
proof -
  let ?f = "is_shelf st" and ?row = "read_line (variant_line (is_shelf st) v)"
  have t: "tidy_text (var_name v)" "three_decimals (var_price_delta v)" "row_get prod_id (var_product_id v) (sf_products ?f) \<noteq> None"
    using f v by (simp_all add: tidy_shelf_def tidy_variants_def list_all_iff)
  obtain p where p: "prod_id p = var_product_id v" "name_of_product ?f (var_product_id v) = prod_name p" "tidy_text (prod_name p)"
    "named prod_name (prod_name p) (sf_products ?f) = Some p" by (rule name_of_productD [OF f t(3)])
  have cells: "csv_key ?row [''product_id''] = None" "csv_key ?row [''product_name'', ''name''] = Some (prod_name p)"
    "csv_key ?row [''variant_name'', ''name''] = Some (var_name v)"
    "csv_key ?row [''price_delta'', ''base_price'', ''price''] = Some (py_repr_float (var_price_delta v))"
    "csv_key ?row [''is_active''] = Some (py_str_bool (var_active v))"
    using t(1) p(2,3) by (simp_all add: cell_simps variant_line_def tidy_text_def)
  have "find (\<lambda>w. (var_product_id w, py_lower (var_name w)) = (var_product_id v, py_lower (var_name v))) (sf_variants ?f) = Some v"
    using f v by (intro find_key_unique [of "\<lambda>w. (var_product_id w, py_lower (var_name w))"]) (simp_all add: tidy_shelf_def tidy_variants_def)
  then have old: "named var_name (var_name v) (filter (\<lambda>w. var_product_id w = prod_id p) (sf_variants ?f)) = Some v"
    by (simp add: named_def find_filter p(1))
  have put: "put_variant v ?f = ?f" using f v by (simp add: put_variant_def row_upd_self tidy_shelf_def tidy_variants_def)
  show ?thesis
    by (simp add: import_variant_def find_product_def Let_def cells p(4) text_or_empty_def [of "Some _"] old price_back [OF t(2)] bool_back
        same_price_unaudited kept_on_shelf [OF kept_updated] put)
qed

lemma reimport_extra:
  assumes f: "tidy_shelf (is_shelf st)" and x: "x \<in> set (sf_extras (is_shelf st))"
  shows "\<exists>st'. import_extra key user (read_line (extra_csv_line x)) st = (st', False) \<and> kept st st'"
proof -
  note t = tidy_extra [OF f x]
  let ?row = "read_line (extra_csv_line x)"
  have cells: "csv_key ?row [''extra_name'', ''name''] = Some (ext_name x)"
    "csv_key ?row [''price'', ''base_price''] = Some (py_repr_float (ext_price x))"
    "csv_key ?row [''is_active''] = Some (py_str_bool (ext_active x))"
    using t(1) by (simp_all add: cell_simps extra_csv_line_def tidy_text_def)
  show ?thesis
    by (simp add: import_extra_def Let_def cells text_or_empty_def [of "Some _"] t(2) price_back [OF t(4)] bool_back
        same_price_unaudited kept_on_shelf [OF kept_updated] t(3))
qed

lemma reimport_link:
  assumes f: "tidy_shelf (is_shelf st)" and l: "l \<in> set (sf_links (is_shelf st))"
  shows "import_link (read_line (link_line (is_shelf st) l)) st = (st, False)"
proof -
  let ?f = "is_shelf st" and ?row = "read_line (link_line (is_shelf st) l)"
  have ref: "row_get prod_id (fst l) (sf_products ?f) \<noteq> None" "row_get ext_id (snd l) (sf_extras ?f) \<noteq> None"
    using f l by (simp_all add: tidy_shelf_def list_all_iff)
  obtain p where p: "prod_id p = fst l" "name_of_product ?f (fst l) = prod_name p" "tidy_text (prod_name p)"
    "named prod_name (prod_name p) (sf_products ?f) = Some p" by (rule name_of_productD [OF f ref(1)])
  obtain x where x: "ext_id x = snd l" "name_of_extra ?f (snd l) = ext_name x" "tidy_text (ext_name x)"
    "named ext_name (ext_name x) (sf_extras ?f) = Some x" by (rule name_of_extraD [OF f ref(2)])
  have cells: "csv_key ?row [''product_id''] = None" "csv_key ?row [''product_name'', ''name''] = Some (prod_name p)"
    "csv_key ?row [''extra_id''] = None" "csv_key ?row [''extra_name'', ''name''] = Some (ext_name x)"
    using p(2,3) x(2,3) by (simp_all add: cell_simps link_line_def tidy_text_def)
  show ?thesis using l by (simp add: import_link_def find_product_def find_extra_def cells p(1,4) x(1,4))
qed

lemma reimport_recommendation:
  assumes f: "tidy_shelf (is_shelf st)" and r: "r \<in> set (sf_recommendations (is_shelf st))" and act: "rc_active r"
  shows "\<exists>st'. import_recommendation key (read_line (recommendation_line (is_shelf st) r)) st = (st', False) \<and> kept st st'"
proof -
  let ?f = "is_shelf st" and ?row = "read_line (recommendation_line (is_shelf st) r)"
  have t: "tidy_opt (rc_label r)" "rc_product_id r \<noteq> rc_recommended_id r" "row_get prod_id (rc_product_id r) (sf_products ?f) \<noteq> None"
    "row_get prod_id (rc_recommended_id r) (sf_products ?f) \<noteq> None"
    using f r by (simp_all add: tidy_shelf_def tidy_recommendations_def list_all_iff)
  obtain p where p: "prod_id p = rc_product_id r" "name_of_product ?f (rc_product_id r) = prod_name p" "tidy_text (prod_name p)"
    "named prod_name (prod_name p) (sf_products ?f) = Some p" by (rule name_of_productD [OF f t(3)])
  obtain q where q: "prod_id q = rc_recommended_id r" "name_of_product ?f (rc_recommended_id r) = prod_name q" "tidy_text (prod_name q)"
    "named prod_name (prod_name q) (sf_products ?f) = Some q" by (rule name_of_productD [OF f t(4)])
  have cells: "csv_key ?row [''product_id''] = None" "csv_key ?row [''product_name'', ''name''] = Some (prod_name p)"
    "csv_key ?row [''recommended_product_id''] = None" "csv_key ?row [''recommended_product_name'', ''recommended_name''] = Some (prod_name q)"
    "csv_key ?row [''display_order''] = Some (py_str_int (rc_display_order r))" "csv_key ?row [''label''] = rc_label r"
    using p(2,3) q(2,3) opt_cell [OF t(1)] by (simp_all add: cell_simps recommendation_line_def tidy_text_def split: if_split_asm)
  have "find (\<lambda>s. (rc_product_id s, rc_recommended_id s) = (rc_product_id r, rc_recommended_id r)) (sf_recommendations ?f) = Some r"
    using f r by (intro find_key_unique [of "\<lambda>s. (rc_product_id s, rc_recommended_id s)"]) (simp_all add: tidy_shelf_def tidy_recommendations_def)
  then have old: "find_recommendation (rc_product_id r) (rc_recommended_id r) ?f = Some r" by (simp add: find_recommendation_def)
  have same: "r\<lparr>rc_active := True\<rparr> = r" using act by (cases r) simp
  have put: "row_upd rc_id (rc_id r) (\<lambda>_. r) (sf_recommendations ?f) = sf_recommendations ?f"
    using f r by (simp add: row_upd_self tidy_shelf_def tidy_recommendations_def)
  show ?thesis using t(2)
    by (simp add: import_recommendation_def find_product_def recommended_product_def Let_def cells p(1,4) q(1,4) old int_or_def py_int_text_str
        same put kept_def on_shelf_def count_updated_def)
qed

lemma reimport_ingredient:
  assumes f: "tidy_shelf (is_shelf st)" and r: "r \<in> set (sf_extra_ingredients (is_shelf st))"
  shows "\<exists>st'. import_extra_ingredient ings key (read_line (ingredient_line (is_shelf st) r)) st = (st', False) \<and> kept st st'"
proof -
  let ?f = "is_shelf st" and ?row = "read_line (ingredient_line (is_shelf st) r)"
  have t: "three_decimals (rl_quantity r)" "0 < rl_quantity r" "row_get ext_id (rl_target_id r) (sf_extras ?f) \<noteq> None"
    using f r by (simp_all add: tidy_shelf_def tidy_ingredients_def list_all_iff)
  obtain x where x: "ext_id x = rl_target_id r" "name_of_extra ?f (rl_target_id r) = ext_name x" "tidy_text (ext_name x)"
    "named ext_name (ext_name x) (sf_extras ?f) = Some x" by (rule name_of_extraD [OF f t(3)])
  have cells: "csv_key ?row [''extra_id''] = None" "csv_key ?row [''extra_name'', ''name''] = Some (ext_name x)"
    "csv_key ?row [''ingredient_id''] = Some (py_str_int (rl_ingredient_id r))" "csv_key ?row [''quantity''] = Some (py_repr_float (rl_quantity r))"
    using x(2,3) by (simp_all add: cell_simps ingredient_line_def tidy_text_def)
  have "find (\<lambda>s. (rl_target_id s, rl_ingredient_id s) = (rl_target_id r, rl_ingredient_id r)) (sf_extra_ingredients ?f) = Some r"
    using f r by (intro find_key_unique [of "\<lambda>s. (rl_target_id s, rl_ingredient_id s)"]) (simp_all add: tidy_shelf_def tidy_ingredients_def)
  then have old: "find (\<lambda>s. rl_target_id s = rl_target_id r \<and> rl_ingredient_id s = rl_ingredient_id r) (sf_extra_ingredients ?f) = Some r" by simp
  have "row_upd rl_id (rl_id r) (\<lambda>s. s\<lparr>rl_quantity := rl_quantity r\<rparr>) (sf_extra_ingredients ?f) = sf_extra_ingredients ?f"
    using f r unfolding row_upd_def by (intro map_idI) (auto simp: tidy_shelf_def tidy_ingredients_def distinct_map dest: inj_onD)
  then show ?thesis using t(2)
    by (simp add: import_extra_ingredient_def find_extra_def cells x(1,4) py_int_text_str price_back [OF t(1)] old kept_def on_shelf_def count_updated_def)
qed

subsection \<open>The round trip\<close>

text \<open>Which rows the export writes.\<close>

definition exported :: "shelf \<Rightarrow> (string \<times> string) list \<Rightarrow> bool" where
  "exported f d \<longleftrightarrow> (\<exists>c \<in> set (sf_categories f). d = category_line c) \<or> (\<exists>p \<in> set (sf_products f). d = product_line f p)
     \<or> (\<exists>v \<in> set (sf_variants f). d = variant_line f v) \<or> (\<exists>x \<in> set (sf_extras f). d = extra_csv_line x)
     \<or> (\<exists>l \<in> set (sf_links f). d = link_line f l) \<or> (\<exists>r \<in> set (sf_recommendations f). rc_active r \<and> d = recommendation_line f r)
     \<or> (\<exists>r \<in> set (sf_extra_ingredients f). d = ingredient_line f r)"

lemma export_lines_exported: "d \<in> set (export_lines rank f) \<Longrightarrow> exported f d"
  by (auto simp: export_lines_def exported_def)

lemma exported_type:
  "row_type (read_line (category_line c)) = ''category''" "row_type (read_line (product_line f p)) = ''product''"
  "row_type (read_line (variant_line f v)) = ''variant''" "row_type (read_line (extra_csv_line x)) = ''extra''"
  "row_type (read_line (link_line f l)) = ''product_extra''" "row_type (read_line (recommendation_line f r)) = ''recommendation''"
  "row_type (read_line (ingredient_line f i)) = ''extra_ingredient''"
  by (rule row_type_line; simp add: category_line_def product_line_def variant_line_def extra_csv_line_def link_line_def recommendation_line_def
      ingredient_line_def csv_types_def)+

lemma reimport_row:
  assumes f: "tidy_shelf (is_shelf st)" and d: "exported (is_shelf st) d" and "\<not> is_violated st"
  shows "\<exists>st'. import_row key ings user (n, read_line d) st = (st', False) \<and> kept st st'"
  using d unfolding exported_def
  by (elim disjE bexE conjE)
     (simp_all add: import_row_def exported_type assms(3) reimport_category [OF f] reimport_product [OF f] reimport_variant [OF f]
       reimport_extra [OF f] reimport_link [OF f] reimport_recommendation [OF f] reimport_ingredient [OF f] kept_refl)

lemma kept_trans: "kept a b \<Longrightarrow> kept b c \<Longrightarrow> kept a c"
  by (simp add: kept_def)

lemma reimport_rows:
  assumes "tidy_shelf (is_shelf st)" and "\<not> is_violated st" and "\<And>nr. nr \<in> set rows \<Longrightarrow> \<exists>d. snd nr = read_line d \<and> exported (is_shelf st) d"
  shows "\<exists>st'. import_rows key ings user rows st = (st', []) \<and> kept st st'"
  using assms
proof (induction rows arbitrary: st)
  case Nil
  then show ?case by (simp add: kept_refl)
next
  case (Cons nr rows)
  obtain d where d: "nr = (fst nr, read_line d)" "exported (is_shelf st) d" using Cons.prems(3) [of nr] by (metis list.set_intros(1) prod.collapse)
  obtain st1 where st1: "import_row key ings user nr st = (st1, False)" "kept st st1"
    using reimport_row [OF Cons.prems(1) d(2) Cons.prems(2), of key ings user "fst nr"] d(1) by auto
  then have same: "is_shelf st1 = is_shelf st" "is_violated st1 = is_violated st" by (simp_all add: kept_def)
  obtain st2 where "import_rows key ings user rows st1 = (st2, [])" "kept st1 st2"
    using Cons.IH [of st1] Cons.prems same by auto
  then show ?case using st1 kept_trans by auto
qed

lemma find_after: "find P xs = None \<Longrightarrow> find P (xs @ ys) = find P ys"
  by (induction xs) (auto split: if_splits)

text \<open>The dry run accepts every exported row.\<close>

lemma lacks_line: "lacks (read_line d) (n # ns) \<longleftrightarrow> \<not> (n \<in> set csv_fields \<and> cell d n \<noteq> []) \<and> lacks (read_line d) ns" "lacks row [] \<longleftrightarrow> True"
  by (simp_all add: lacks_def csv_key_read csv_key_none)

lemma validate_accepts:
  "list_all (\<lambda>nr. row_type (snd nr) \<in> set csv_types \<and> \<not> required_missing (row_type (snd nr)) (snd nr)) rows \<Longrightarrow> snd (validate_csv_rows rows) = []"
  by (induction rows rule: validate_csv_rows.induct) (auto simp: Let_def case_prod_beta)

lemma exported_valid:
  assumes f: "tidy_shelf f" and d: "exported f d"
  shows "row_type (read_line d) \<in> set csv_types \<and> \<not> required_missing (row_type (read_line d)) (read_line d)"
proof -
  note lines = required_missing_def lacks_line cell_def csv_fields_def text_or_empty_def tidy_text_def number_cells csv_types_def
  consider c where "c \<in> set (sf_categories f)" "d = category_line c" | p where "p \<in> set (sf_products f)" "d = product_line f p"
    | v where "v \<in> set (sf_variants f)" "d = variant_line f v" | x where "x \<in> set (sf_extras f)" "d = extra_csv_line x"
    | l where "l \<in> set (sf_links f)" "d = link_line f l" | r where "r \<in> set (sf_recommendations f)" "d = recommendation_line f r"
    | i where "i \<in> set (sf_extra_ingredients f)" "d = ingredient_line f i"
    using d unfolding exported_def by blast
  then show ?thesis
  proof cases
    case 1
    show ?thesis using tidy_category(1) [OF f 1(1)] unfolding 1(2) exported_type by (simp add: lines category_line_def)
  next
    case 2
    show ?thesis using tidy_product(1) [OF f 2(1)] unfolding 2(2) exported_type by (simp add: lines product_line_def)
  next
    case 3
    then have "row_get prod_id (var_product_id v) (sf_products f) \<noteq> None" "tidy_text (var_name v)"
      using f by (simp_all add: tidy_shelf_def tidy_variants_def list_all_iff)
    moreover from name_of_productD [OF f this(1)] have "tidy_text (name_of_product f (var_product_id v))" by metis
    ultimately show ?thesis unfolding 3(2) exported_type by (simp add: lines variant_line_def)
  next
    case 4
    show ?thesis using tidy_extra(1) [OF f 4(1)] unfolding 4(2) exported_type by (simp add: lines extra_csv_line_def)
  next
    case 5
    then have "row_get prod_id (fst l) (sf_products f) \<noteq> None" using f by (simp add: tidy_shelf_def list_all_iff)
    from name_of_productD [OF f this] have "tidy_text (name_of_product f (fst l))" by metis
    then show ?thesis unfolding 5(2) exported_type by (simp add: lines link_line_def)
  next
    case 6
    then have "row_get prod_id (rc_product_id r) (sf_products f) \<noteq> None"
      using f by (simp add: tidy_shelf_def tidy_recommendations_def list_all_iff)
    from name_of_productD [OF f this] have "tidy_text (name_of_product f (rc_product_id r))" by metis
    then show ?thesis unfolding 6(2) exported_type by (simp add: lines recommendation_line_def)
  next
    case 7
    then have "row_get ext_id (rl_target_id i) (sf_extras f) \<noteq> None"
      using f by (simp add: tidy_shelf_def tidy_ingredients_def list_all_iff)
    from name_of_extraD [OF f this] have "tidy_text (name_of_extra f (rl_target_id i))" by metis
    then show ?thesis unfolding 7(2) exported_type by (simp add: lines ingredient_line_def)
  qed
qed

text \<open>C26. Exporting a tidy catalogue (names without outer blanks and unique up to case, prices with at most three decimals, references
  that exist) and importing the file again is accepted by the dry run and by the confirmation, creates and links nothing,
  and leaves the catalogue, its price audit included, exactly as it was.\<close>

theorem reimport_changes_nothing:
  assumes "tidy_shelf (ip_shelf ip)" and "token \<notin> ib_token ` set (ip_batches ip)"
  shows "\<exists>ip1 r1 ip2 r2. dry_run_catalog_csv token (export_catalog_csv rank (ip_shelf ip)) filename user ip = Inr (ip1, r1) \<and> dr_valid r1
    \<and> confirm_catalog_csv key ings token user' ip1 = Inr (ip2, r2) \<and> cr_imported r2
    \<and> cr_rows r2 = length (export_lines rank (ip_shelf ip)) \<and> cr_created r2 = 0 \<and> cr_linked r2 = 0
    \<and> ip_shelf ip2 = ip_shelf ip \<and> ip_allergens ip2 = ip_allergens ip"
proof -
  let ?f = "ip_shelf ip" and ?rows = "enumerate 2 (map read_line (export_lines rank (ip_shelf ip)))"
  let ?st = "\<lparr>is_shelf = ?f, is_allergens = ip_allergens ip, is_created = 0, is_updated = 0, is_linked = 0, is_violated = False\<rparr>"
  have rows: "\<exists>d. snd nr = read_line d \<and> exported ?f d" if nr: "nr \<in> set ?rows" for nr
  proof -
    have "snd nr \<in> set (map read_line (export_lines rank ?f))" using imageI [OF nr, of snd] by (metis list.set_map map_snd_enumerate)
    then show ?thesis using export_lines_exported by auto
  qed
  have "row_type (snd nr) \<in> set csv_types \<and> \<not> required_missing (row_type (snd nr)) (snd nr)" if nr: "nr \<in> set ?rows" for nr
  proof -
    obtain d where "snd nr = read_line d" "exported ?f d" using rows [OF nr] by blast
    then show ?thesis using exported_valid [OF assms(1)] by metis
  qed
  then have valid: "snd (validate_csv_rows ?rows) = []" by (intro validate_accepts [unfolded list_all_iff] ballI)
  define b where "b = \<lparr>ib_token = token, ib_filename = filename, ib_csv_text = export_catalog_csv rank ?f, ib_status = Dry_run, ib_valid = True, ib_user = user\<rparr>"
  define ip1 where "ip1 = ip\<lparr>ip_batches := ip_batches ip @ [b]\<rparr>"
  obtain r1 where dry: "dry_run_catalog_csv token (export_catalog_csv rank ?f) filename user ip = Inr (ip1, r1)" "dr_valid r1"
    using valid by (simp add: dry_run_catalog_csv_def read_exported rbind_def Let_def case_prod_beta ip1_def b_def)
  have "find (\<lambda>b. ib_token b = token) (ip_batches ip) = None" using assms(2) by (auto simp: find_None_iff)
  then have b: "find (\<lambda>b. ib_token b = token) (ip_batches ip1) = Some b" by (simp add: ip1_def find_after b_def)
  obtain st where st: "import_rows key ings user' ?rows ?st = (st, [])" "kept ?st st"
    using reimport_rows [of ?st ?rows key ings user'] assms(1) rows by auto
  have same: "ip_shelf ip1 = ?f" "ip_allergens ip1 = ip_allergens ip" by (simp_all add: ip1_def)
  show ?thesis using dry st by (simp add: confirm_catalog_csv_def b, simp add: b_def read_exported rbind_def Let_def same kept_def)
qed

definition text_length :: "string \<Rightarrow> int" where
  "text_length s = int (length s)"

definition demo_shelf :: shelf where
  "demo_shelf = \<lparr>sf_categories = [\<lparr>cat_id = 1, cat_name = ''Pizzas'', cat_station = Some Kitchen, sc_display_order = 2, sc_active = True\<rparr>],
     sf_products = [\<lparr>prod_id = 5, prod_category_id = Some 1, prod_name = ''Reine'', prod_base_price = 25 / 2, prod_station = None, prod_active = True,
         sp_description = Some ''ham, mushrooms'', sp_image_url = None, sp_featured = False\<rparr>,
       \<lparr>prod_id = 6, prod_category_id = None, prod_name = ''Tiramisu'', prod_base_price = 6, prod_station = None, prod_active = False,
         sp_description = None, sp_image_url = None, sp_featured = False\<rparr>],
     sf_variants = [\<lparr>var_id = 3, var_product_id = 5, var_name = ''Large'', var_price_delta = 3, var_active = True\<rparr>],
     sf_extras = [\<lparr>ext_id = 4, ext_name = ''Cheese'', ext_price = 3 / 2, ext_active = True\<rparr>], sf_links = [(5, 4)],
     sf_recommendations = [\<lparr>rc_id = 8, rc_product_id = 5, rc_recommended_id = 6, rc_display_order = 0, rc_label = Some ''Dessert'', rc_active = True\<rparr>],
     sf_extra_ingredients = [\<lparr>rl_id = 9, rl_target_id = 4, rl_ingredient_id = 2, rl_quantity = 1 / 20, rl_unit = None\<rparr>], sf_price_audits = []\<rparr>"

lemma demo_shelf_tidy: "tidy_shelf demo_shelf"
  by code_simp

theorem reimport_changes_nothing_witness:
  "\<exists>ip1 r1 ip2 r2. dry_run_catalog_csv ''token'' (export_catalog_csv text_length demo_shelf) None None (empty_importer\<lparr>ip_shelf := demo_shelf\<rparr>)
      = Inr (ip1, r1) \<and> confirm_catalog_csv int [2] ''token'' None ip1 = Inr (ip2, r2) \<and> cr_rows r2 = 8 \<and> ip_shelf ip2 = demo_shelf"
proof -
  have t: "tidy_shelf (ip_shelf (empty_importer\<lparr>ip_shelf := demo_shelf\<rparr>))" by (simp add: demo_shelf_tidy)
  have "''token'' \<notin> ib_token ` set (ip_batches (empty_importer\<lparr>ip_shelf := demo_shelf\<rparr>))" by (simp add: empty_importer_def)
  from reimport_changes_nothing [OF t this, of text_length None None int "[2]" None]
  obtain ip1 r1 ip2 r2 where "dry_run_catalog_csv ''token'' (export_catalog_csv text_length demo_shelf) None None (empty_importer\<lparr>ip_shelf := demo_shelf\<rparr>)
      = Inr (ip1, r1)" "confirm_catalog_csv int [2] ''token'' None ip1 = Inr (ip2, r2)" "cr_rows r2 = length (export_lines text_length demo_shelf)"
    "ip_shelf ip2 = demo_shelf" by auto
  moreover have "length (export_lines text_length demo_shelf) = 8" by (simp add: export_lines_def demo_shelf_def)
  ultimately show ?thesis by auto
qed

end
