(* ===== verification/Auth_Data.thy ===== *)
theory Auth_Data
  imports Csv_Text "HOL-Library.Sublist"
begin

text \<open>
  Accounts, sessions and tokens, \<^verbatim>\<open>app/modules/auth/models.py\<close>, \<^verbatim>\<open>app/core/auth/security.py\<close> and \<^verbatim>\<open>token_revocation.py\<close>.
  The cryptographic libraries (bcrypt, HMAC, JWT, TOTP, Fernet) and the settings they are used with are the record \<open>crypto\<close>,
  a parameter. The accounts of one restaurant are one value; \<open>tenancies\<close> maps the slug of a restaurant to them.
\<close>

subsection \<open>Claims and the cryptographic parameters\<close>

record claims =
  cl_sub :: "int option"
  cl_email :: "string option"
  cl_phone :: "string option"
  cl_role :: "string option"
  cl_permissions :: "string list option"
  cl_tenant_id :: "int option"
  cl_tenant_slug :: "string option"
  cl_must_change :: bool
  cl_type :: string
  cl_jti :: "string option"
  cl_exp :: instant
  cl_sid :: "string option"
  cl_auth_version :: "int option"
  cl_impersonation :: bool
  cl_impersonation_id :: "string option"
  cl_by_id :: "int option"
  cl_by_email :: "string option"
  cl_source_sid :: "string option"

text \<open>Fernet: a missing key, and a text of another key, are different exceptions.\<close>

datatype decrypted = Plain string | Not_configured | Bad_cipher

text \<open>\<open>cy_decode\<close> is \<^verbatim>\<open>jwt.decode\<close>: \<open>None\<close> for a bad signature or an expired token.\<close>

record crypto =
  cy_verify :: "string \<Rightarrow> string \<Rightarrow> bool"
  cy_hash :: "string \<Rightarrow> string"
  cy_lookup :: "string \<Rightarrow> string"
  cy_encode :: "claims \<Rightarrow> string"
  cy_decode :: "instant \<Rightarrow> string \<Rightarrow> claims option"
  cy_totp :: "instant \<Rightarrow> string \<Rightarrow> string \<Rightarrow> bool"
  cy_encrypt :: "string \<Rightarrow> string option"
  cy_decrypt :: "string \<Rightarrow> decrypted"
  cy_super_encrypt :: "string \<Rightarrow> string option"
  cy_super_decrypt :: "string \<Rightarrow> decrypted"
  cy_access_minutes :: int
  cy_refresh_days :: int
  cy_country_code :: string

abbreviation second_us :: int where "second_us \<equiv> 1000000"
abbreviation minutes_us :: "int \<Rightarrow> int" where "minutes_us n \<equiv> n * 60 * second_us"
abbreviation days_us :: "int \<Rightarrow> int" where "days_us n \<equiv> n * 86400 * second_us"

text \<open>The expiry is written in whole seconds.\<close>

definition whole_seconds :: "instant \<Rightarrow> instant" where
  "whole_seconds t = t div second_us * second_us"

definition create_access_token :: "crypto \<Rightarrow> instant \<Rightarrow> string \<Rightarrow> int option \<Rightarrow> claims \<Rightarrow> string" where
  "create_access_token cy now jti ttl c =
     cy_encode cy (c\<lparr>cl_exp := whole_seconds (now + (case ttl of None \<Rightarrow> minutes_us (cy_access_minutes cy) | Some d \<Rightarrow> d)),
       cl_type := ''access'', cl_jti := Some jti\<rparr>)"

definition create_refresh_token :: "crypto \<Rightarrow> instant \<Rightarrow> string \<Rightarrow> int option \<Rightarrow> claims \<Rightarrow> string" where
  "create_refresh_token cy now jti ttl c =
     cy_encode cy (c\<lparr>cl_exp := whole_seconds (now + (case ttl of None \<Rightarrow> days_us (cy_refresh_days cy) | Some d \<Rightarrow> d)),
       cl_type := ''refresh'', cl_jti := Some jti\<rparr>)"

subsection \<open>Rows\<close>

record account =
  us_id :: int
  us_email :: "string option"
  us_password_hash :: string
  us_full_name :: "string option"
  us_phone :: "string option"
  us_phone_e164 :: "string option"
  us_phone_verified_at :: "instant option"
  us_otp_hash :: "string option"
  us_otp_expires_at :: "instant option"
  us_otp_attempts :: int
  us_pending_profile :: bool
  us_role :: string
  us_permissions :: "string list option"
  us_active :: bool
  us_marketing_email :: bool
  us_marketing_push :: bool
  us_verification_token :: "string option"
  us_verification_expires_at :: "instant option"
  us_verified_at :: "instant option"
  us_reset_token :: "string option"
  us_reset_expires_at :: "instant option"
  us_must_change :: bool
  us_mfa_secret :: "string option"
  us_mfa_enabled :: bool
  us_backup_codes :: "string list option"

record refresh_row =
  rt_id :: int
  rt_user_id :: int
  rt_hash :: string
  rt_lookup :: "string option"
  rt_created_at :: instant
  rt_expires_at :: instant
  rt_revoked_at :: "instant option"
  rt_user_agent :: "string option"
  rt_ip :: "string option"

text \<open>\<open>ac_suspended\<close> is the flag of the row in \<^verbatim>\<open>public.tenants\<close>.\<close>

record accounts =
  ac_tenant_id :: int
  ac_suspended :: bool
  ac_users :: "account list"
  ac_sessions :: "refresh_row list"

type_synonym tenancies = "string \<Rightarrow> accounts option"

definition new_account :: "int \<Rightarrow> string option \<Rightarrow> string \<Rightarrow> string \<Rightarrow> account" where
  "new_account key email password_hash role =
     \<lparr>us_id = key, us_email = email, us_password_hash = password_hash, us_full_name = None, us_phone = None, us_phone_e164 = None,
      us_phone_verified_at = None, us_otp_hash = None, us_otp_expires_at = None, us_otp_attempts = 0, us_pending_profile = False,
      us_role = role, us_permissions = None, us_active = True, us_marketing_email = False, us_marketing_push = False,
      us_verification_token = None, us_verification_expires_at = None, us_verified_at = None, us_reset_token = None,
      us_reset_expires_at = None, us_must_change = False, us_mfa_secret = None, us_mfa_enabled = False, us_backup_codes = None\<rparr>"

definition get_user :: "int \<Rightarrow> accounts \<Rightarrow> account option" where
  "get_user uid a = row_get us_id uid (ac_users a)"

definition put_user :: "account \<Rightarrow> accounts \<Rightarrow> accounts" where
  "put_user u a = a\<lparr>ac_users := row_upd us_id (us_id u) (\<lambda>_. u) (ac_users a)\<rparr>"

definition add_user :: "account \<Rightarrow> accounts \<Rightarrow> accounts" where
  "add_user u a = a\<lparr>ac_users := ac_users a @ [u]\<rparr>"

definition active_user_by_email :: "string \<Rightarrow> accounts \<Rightarrow> account option" where
  "active_user_by_email email a = find (\<lambda>u. us_email u = Some email \<and> us_active u) (ac_users a)"

text \<open>\<^verbatim>\<open>UPDATE refresh_tokens SET revoked_at WHERE user_id AND revoked_at IS NULL\<close>, with the sessions to keep.\<close>

definition revoke_where :: "instant \<Rightarrow> (refresh_row \<Rightarrow> bool) \<Rightarrow> accounts \<Rightarrow> accounts" where
  "revoke_where now p a = a\<lparr>ac_sessions := map (\<lambda>r. if rt_revoked_at r = None \<and> p r then r\<lparr>rt_revoked_at := Some now\<rparr> else r) (ac_sessions a)\<rparr>"

definition revoke_user_sessions :: "instant \<Rightarrow> int \<Rightarrow> accounts \<Rightarrow> accounts" where
  "revoke_user_sessions now uid a = revoke_where now (\<lambda>r. rt_user_id r = uid) a"

subsection \<open>The deny list in Redis\<close>

text \<open>Keys with the instant at which they expire, and what was published for the open connections.\<close>

record deny_list =
  dl_disabled :: "((string option \<times> int) \<times> instant) list"
  dl_jtis :: "(string \<times> instant) list"
  dl_published :: "(string \<times> int \<times> string) list"

definition user_disabled_key :: "int \<Rightarrow> string option \<Rightarrow> string option \<times> int" where
  "user_disabled_key uid slug = (if slug = Some [] then None else slug, uid)"

definition revoke_jti :: "instant \<Rightarrow> string \<Rightarrow> instant \<Rightarrow> deny_list \<Rightarrow> deny_list" where
  "revoke_jti now jti expires_at d =
     d\<lparr>dl_jtis := dict_set jti (now + max 1 ((expires_at - now) div second_us) * second_us) (dl_jtis d)\<rparr>"

definition is_jti_revoked :: "instant \<Rightarrow> string \<Rightarrow> deny_list \<Rightarrow> bool" where
  "is_jti_revoked now jti d \<longleftrightarrow> (case map_of (dl_jtis d) jti of None \<Rightarrow> False | Some e \<Rightarrow> now < e)"

definition flag_user_disabled :: "instant \<Rightarrow> int \<Rightarrow> string option \<Rightarrow> deny_list \<Rightarrow> deny_list" where
  "flag_user_disabled now uid slug d = d\<lparr>dl_disabled := dict_set (user_disabled_key uid slug) (now + 86400 * second_us) (dl_disabled d)\<rparr>"

definition is_user_disabled :: "instant \<Rightarrow> int \<Rightarrow> string option \<Rightarrow> deny_list \<Rightarrow> bool" where
  "is_user_disabled now uid slug d \<longleftrightarrow> (case map_of (dl_disabled d) (user_disabled_key uid slug) of None \<Rightarrow> False | Some e \<Rightarrow> now < e)"

definition clear_user_disabled :: "int \<Rightarrow> string option \<Rightarrow> deny_list \<Rightarrow> deny_list" where
  "clear_user_disabled uid slug d = d\<lparr>dl_disabled := filter (\<lambda>kv. fst kv \<noteq> user_disabled_key uid slug) (dl_disabled d)\<rparr>"

definition publish_session_revoked :: "int \<Rightarrow> string \<Rightarrow> string \<Rightarrow> deny_list \<Rightarrow> deny_list" where
  "publish_session_revoked uid slug reason d = d\<lparr>dl_published := dl_published d @ [(slug, uid, reason)]\<rparr>"

text \<open>What follows a disabling operation, where a pool is configured.\<close>

definition cut_off :: "instant \<Rightarrow> int \<Rightarrow> string \<Rightarrow> string \<Rightarrow> deny_list option \<Rightarrow> deny_list option" where
  "cut_off now uid slug reason d = map_option (\<lambda>d. publish_session_revoked uid slug reason (flag_user_disabled now uid (Some slug) d)) d"

subsection \<open>Passwords and phone numbers\<close>

definition char_in :: "char \<Rightarrow> char \<Rightarrow> char \<Rightarrow> bool" where
  "char_in a b c \<longleftrightarrow> (of_char a :: nat) \<le> of_char c \<and> (of_char c :: nat) \<le> of_char b"

definition password_policy :: "string \<Rightarrow> bool" where
  "password_policy v \<longleftrightarrow> 8 \<le> length v \<and> list_ex (char_in CHR ''A'' CHR ''Z'') v \<and> list_ex (char_in CHR ''0'' CHR ''9'') v
     \<and> list_ex (\<lambda>c. c \<in> set ''!@#$%^&*'') v"

definition begins_with :: "string \<Rightarrow> string \<Rightarrow> bool" where
  "begins_with p s \<longleftrightarrow> take (length p) s = p"

definition normalize_phone_e164 :: "string \<Rightarrow> string \<Rightarrow> string res" where
  "normalize_phone_e164 country phone =
     (let compact = filter (\<lambda>c. \<not> py_space c \<and> c \<notin> set ''-.()'') (py_strip phone);
          n = (if begins_with ''00'' compact then ''+'' @ drop 2 compact
               else if begins_with ''0'' compact then country @ drop 1 compact else compact)
      in if \<not> begins_with ''+'' n \<or> \<not> (drop 1 n \<noteq> [] \<and> list_all (char_in CHR ''0'' CHR ''9'') (drop 1 n)) \<or> \<not> (8 \<le> length n \<and> length n \<le> 16)
         then Inl (AppError ''INVALID_PHONE'' 422) else Inr n)"

subsection \<open>Issuing tokens\<close>

text \<open>What is drawn at random, and the key of the new row.\<close>

record minted =
  mi_key :: int
  mi_access_jti :: string
  mi_refresh_jti :: string

record token_pair =
  tp_access :: string
  tp_refresh :: string
  tp_session_id :: int

definition payload_of :: "account \<Rightarrow> int option \<Rightarrow> string \<Rightarrow> claims" where
  "payload_of u tenant_id slug =
     \<lparr>cl_sub = Some (us_id u), cl_email = us_email u, cl_phone = us_phone_e164 u, cl_role = Some (us_role u), cl_permissions = us_permissions u,
      cl_tenant_id = tenant_id, cl_tenant_slug = Some slug, cl_must_change = us_must_change u, cl_type = [], cl_jti = None, cl_exp = 0,
      cl_sid = None, cl_auth_version = None, cl_impersonation = False, cl_impersonation_id = None, cl_by_id = None, cl_by_email = None,
      cl_source_sid = None\<rparr>"

text \<open>The lookup of a token is unique in the table.\<close>

definition issue_tokens ::
    "crypto \<Rightarrow> instant \<Rightarrow> minted \<Rightarrow> account \<Rightarrow> int option \<Rightarrow> string \<Rightarrow> accounts \<Rightarrow> (accounts \<times> token_pair) res" where
  "issue_tokens cy now mi u tenant_id slug a =
     (let payload = payload_of u tenant_id slug;
          access = create_access_token cy now (mi_access_jti mi) None payload;
          refresh = create_refresh_token cy now (mi_refresh_jti mi) None payload;
          row = \<lparr>rt_id = mi_key mi, rt_user_id = us_id u, rt_hash = cy_hash cy refresh, rt_lookup = Some (cy_lookup cy refresh), rt_created_at = now,
                rt_expires_at = now + days_us (cy_refresh_days cy), rt_revoked_at = None, rt_user_agent = None, rt_ip = None\<rparr>
      in if list_ex (\<lambda>r. rt_lookup r = Some (cy_lookup cy refresh)) (ac_sessions a) then Inl IntegrityError
         else Inr (a\<lparr>ac_sessions := ac_sessions a @ [row]\<rparr>, \<lparr>tp_access = access, tp_refresh = refresh, tp_session_id = mi_key mi\<rparr>))"

end
