(* ===== verification/Auth_Service.thy ===== *)
theory Auth_Service
  imports Auth_Data
begin

text \<open>
  Signing in, sessions and passwords, \<^verbatim>\<open>app/modules/auth/service.py\<close>. Registration of a restaurant is not modelled: it creates
  a database schema. The messages that are queued (the links sent by mail) are the return values.
\<close>

subsection \<open>Second factor\<close>

definition given_text :: "string option \<Rightarrow> bool" where
  "given_text v \<longleftrightarrow> v \<noteq> None \<and> v \<noteq> Some []"

definition decrypt_mfa_secret :: "crypto \<Rightarrow> string option \<Rightarrow> string option" where
  "decrypt_mfa_secret cy v = 
     (case v of None \<Rightarrow> None | Some t \<Rightarrow> if t = [] then None else (case cy_decrypt cy t of Plain p \<Rightarrow> Some p | _ \<Rightarrow> None))"

definition verify_totp :: "crypto \<Rightarrow> instant \<Rightarrow> string option \<Rightarrow> string option \<Rightarrow> bool" where
  "verify_totp cy now secret code =
     (case (secret, code) of (Some s, Some c) \<Rightarrow> s \<noteq> [] \<and> c \<noteq> [] \<and> cy_totp cy now s (py_strip c) | _ \<Rightarrow> False)"

definition mfa_role :: "string \<Rightarrow> bool" where
  "mfa_role role \<longleftrightarrow> role = ''super-admin'' \<or> role = ''admin''"

text \<open>The secret and the codes are drawn at random; only their ciphertext and hashes are kept.\<close>

definition setup_mfa :: "crypto \<Rightarrow> string \<Rightarrow> string list \<Rightarrow> int \<Rightarrow> accounts \<Rightarrow> (accounts \<times> string list) res" where
  "setup_mfa cy secret codes uid a =
     (case get_user uid a of
        None \<Rightarrow> Inl (AppError ''UNAUTHORIZED'' 401)
      | Some u \<Rightarrow>
          if \<not> mfa_role (us_role u) then Inl (AppError ''FORBIDDEN'' 403)
          else if us_mfa_enabled u then Inl (AppError ''MFA_ALREADY_ENABLED'' 409)
          else (case cy_encrypt cy secret of
                  None \<Rightarrow> Inl (AppError ''CryptoNotConfigured'' 500)
                | Some cipher \<Rightarrow>
                    Inr (put_user (u\<lparr>us_mfa_secret := Some cipher, us_mfa_enabled := False, us_backup_codes := Some (map (cy_hash cy) codes)\<rparr>) a, codes)))"

definition confirm_mfa :: "crypto \<Rightarrow> instant \<Rightarrow> int \<Rightarrow> string option \<Rightarrow> accounts \<Rightarrow> accounts res" where
  "confirm_mfa cy now uid totp_code a =
     (case get_user uid a of
        None \<Rightarrow> Inl (AppError ''UNAUTHORIZED'' 401)
      | Some u \<Rightarrow>
          if \<not> mfa_role (us_role u) then Inl (AppError ''FORBIDDEN'' 403)
          else if \<not> verify_totp cy now (decrypt_mfa_secret cy (us_mfa_secret u)) totp_code then Inl (AppError ''INVALID_MFA_CODE'' 400)
          else Inr (put_user (u\<lparr>us_mfa_enabled := True\<rparr>) a))"

definition regenerate_mfa_backup_codes ::
    "crypto \<Rightarrow> instant \<Rightarrow> string list \<Rightarrow> int \<Rightarrow> string option \<Rightarrow> accounts \<Rightarrow> (accounts \<times> string list) res" where
  "regenerate_mfa_backup_codes cy now codes uid totp_code a =
     (case get_user uid a of
        None \<Rightarrow> Inl (AppError ''UNAUTHORIZED'' 401)
      | Some u \<Rightarrow>
          if \<not> mfa_role (us_role u) then Inl (AppError ''FORBIDDEN'' 403)
          else if \<not> us_mfa_enabled u \<or> \<not> given_text (us_mfa_secret u) then Inl (AppError ''MFA_NOT_ENABLED'' 400)
          else if \<not> verify_totp cy now (decrypt_mfa_secret cy (us_mfa_secret u)) totp_code then Inl (AppError ''INVALID_MFA_CODE'' 400)
          else Inr (put_user (u\<lparr>us_backup_codes := Some (map (cy_hash cy) codes)\<rparr>) a, codes))"

text \<open>The first stored hash that verifies is consumed.\<close>

fun take_backup_code :: "(string \<Rightarrow> bool) \<Rightarrow> string list \<Rightarrow> string list option" where
  "take_backup_code ok [] = None"
| "take_backup_code ok (h # hs) = (if ok h then Some hs else map_option ((#) h) (take_backup_code ok hs))"

definition verify_login_mfa :: "crypto \<Rightarrow> instant \<Rightarrow> account \<Rightarrow> string option \<Rightarrow> account res" where
  "verify_login_mfa cy now u mfa_code =
     (case mfa_code of
        None \<Rightarrow> Inl (AppError ''MFA_REQUIRED'' 401)
      | Some code \<Rightarrow>
          if code = [] \<or> \<not> given_text (us_mfa_secret u) then Inl (AppError ''MFA_REQUIRED'' 401)
          else if verify_totp cy now (decrypt_mfa_secret cy (us_mfa_secret u)) mfa_code then Inr u
          else (case take_backup_code (cy_verify cy (py_strip code)) (case us_backup_codes u of None \<Rightarrow> [] | Some hs \<Rightarrow> hs) of
                  Some hs \<Rightarrow> Inr (u\<lparr>us_backup_codes := Some hs\<rparr>)
                | None \<Rightarrow> Inl (AppError ''INVALID_MFA_CODE'' 401)))"

subsection \<open>Signing in\<close>

definition authenticate ::
    "crypto \<Rightarrow> instant \<Rightarrow> minted \<Rightarrow> string \<Rightarrow> string \<Rightarrow> string \<Rightarrow> string option \<Rightarrow> accounts \<Rightarrow> (accounts \<times> token_pair) res" where
  "authenticate cy now mi slug email password mfa_code a =
     (case active_user_by_email email a of
        None \<Rightarrow> Inl (AppError ''INVALID_CREDENTIALS'' 401)
      | Some u \<Rightarrow>
          if \<not> cy_verify cy password (us_password_hash u) then Inl (AppError ''INVALID_CREDENTIALS'' 401)
          else
            rbind (if mfa_role (us_role u) \<and> us_mfa_enabled u then verify_login_mfa cy now u mfa_code else Inr u)
              (\<lambda>u'. issue_tokens cy now mi u' (Some (ac_tenant_id a)) slug (put_user u' a)))"

definition on_tenant :: "string \<Rightarrow> app_error \<Rightarrow> (accounts \<Rightarrow> (accounts \<times> 'r) res) \<Rightarrow> tenancies \<Rightarrow> (tenancies \<times> 'r) res" where
  "on_tenant slug e g pf = (case pf slug of None \<Rightarrow> Inl e | Some a \<Rightarrow> rbind (g a) (\<lambda>x. Inr (pf(slug \<mapsto> fst x), snd x)))"

definition login ::
    "crypto \<Rightarrow> instant \<Rightarrow> minted \<Rightarrow> string \<Rightarrow> string \<Rightarrow> string \<Rightarrow> string option \<Rightarrow> tenancies \<Rightarrow> (tenancies \<times> token_pair) res" where
  "login cy now mi slug email password mfa_code =
     on_tenant slug (AppError ''TENANT_NOT_FOUND'' 404) (authenticate cy now mi slug email password mfa_code)"

subsection \<open>Rotation of refresh tokens\<close>

definition current_row :: "crypto \<Rightarrow> string \<Rightarrow> int \<Rightarrow> accounts \<Rightarrow> refresh_row res" where
  "current_row cy token uid a =
     (case find (\<lambda>r. rt_lookup r = Some (cy_lookup cy token) \<and> rt_revoked_at r = None) (ac_sessions a) of
        Some r \<Rightarrow> if cy_verify cy token (rt_hash r) then Inr r else Inl (AppError ''INVALID_TOKEN'' 401)
      | None \<Rightarrow>
          (case filter (\<lambda>r. rt_user_id r = uid \<and> rt_lookup r = None \<and> rt_revoked_at r = None \<and> cy_verify cy token (rt_hash r)) (ac_sessions a) of
             [] \<Rightarrow> Inl (AppError ''INVALID_TOKEN'' 401)
           | r # _ \<Rightarrow> Inr r))"

text \<open>The conditional update claims the row; it must have changed exactly one.\<close>

definition rotate :: "crypto \<Rightarrow> instant \<Rightarrow> minted \<Rightarrow> claims \<Rightarrow> int \<Rightarrow> string \<Rightarrow> string \<Rightarrow> accounts \<Rightarrow> (accounts \<times> token_pair) res" where
  "rotate cy now mi c uid slug token a =
     rbind (current_row cy token uid a) (\<lambda>r.
       case get_user uid a of
         None \<Rightarrow> Inl (AppError ''UNAUTHORIZED'' 401)
       | Some u \<Rightarrow>
           if \<not> us_active u then Inl (AppError ''UNAUTHORIZED'' 401)
           else if length (filter (\<lambda>x. rt_id x = rt_id r \<and> rt_revoked_at x = None) (ac_sessions a)) \<noteq> 1 then Inl (AppError ''INVALID_TOKEN'' 401)
           else issue_tokens cy now mi u (cl_tenant_id c) slug (revoke_where now (\<lambda>x. rt_id x = rt_id r) a))"

text \<open>A token without the slug of a restaurant (a refresh token of the platform) raises \<^verbatim>\<open>KeyError\<close>.\<close>

definition refresh_token :: "crypto \<Rightarrow> instant \<Rightarrow> minted \<Rightarrow> string \<Rightarrow> tenancies \<Rightarrow> (tenancies \<times> token_pair) res" where
  "refresh_token cy now mi token pf =
     (case cy_decode cy now token of
        None \<Rightarrow> Inl (AppError ''INVALID_TOKEN'' 401)
      | Some c \<Rightarrow>
          if cl_type c \<noteq> ''refresh'' then Inl (AppError ''INVALID_TOKEN'' 401)
          else (case (cl_tenant_slug c, cl_sub c) of
                  (Some slug, Some uid) \<Rightarrow> on_tenant slug (AppError ''UndefinedTable'' 500) (rotate cy now mi c uid slug token) pf
                | _ \<Rightarrow> Inl PyKeyError))"

subsection \<open>Sessions\<close>

definition logout :: "instant \<Rightarrow> int \<Rightarrow> accounts \<Rightarrow> accounts" where
  "logout now uid a = revoke_user_sessions now uid a"

record session_out =
  so_id :: int
  so_created_at :: instant
  so_expires_at :: instant
  so_user_agent :: "string option"
  so_ip :: "string option"
  so_is_current :: bool

definition get_sessions :: "instant \<Rightarrow> int \<Rightarrow> int option \<Rightarrow> accounts \<Rightarrow> session_out list" where
  "get_sessions now uid current a =
     map (\<lambda>r. \<lparr>so_id = rt_id r, so_created_at = rt_created_at r, so_expires_at = rt_expires_at r, so_user_agent = rt_user_agent r,
                so_ip = rt_ip r, so_is_current = (Some (rt_id r) = current)\<rparr>)
       (filter (\<lambda>r. rt_user_id r = uid \<and> rt_revoked_at r = None \<and> now < rt_expires_at r) (ac_sessions a))"

definition revoke_session :: "instant \<Rightarrow> int \<Rightarrow> int \<Rightarrow> accounts \<Rightarrow> accounts res" where
  "revoke_session now session_id uid a =
     (if list_ex (\<lambda>r. rt_id r = session_id \<and> rt_user_id r = uid \<and> rt_revoked_at r = None) (ac_sessions a)
      then Inr (revoke_where now (\<lambda>r. rt_id r = session_id) a)
      else Inl (AppError ''NOT_FOUND'' 404))"

definition revoke_all_sessions ::
    "instant \<Rightarrow> int \<Rightarrow> string \<Rightarrow> int option \<Rightarrow> bool \<Rightarrow> deny_list option \<Rightarrow> accounts \<Rightarrow> accounts \<times> deny_list option" where
  "revoke_all_sessions now uid slug current revoke_current d a =
     (revoke_where now (\<lambda>r. rt_user_id r = uid \<and> (revoke_current \<or> current \<noteq> Some (rt_id r))) a,
      if revoke_current then map_option (publish_session_revoked uid slug ''sessions_revoked'') d else d)"

subsection \<open>Passwords\<close>

text \<open>The token is sent by mail, its hash is stored. An unknown restaurant or address is not reported.\<close>

definition forgot_password :: "crypto \<Rightarrow> instant \<Rightarrow> string \<Rightarrow> string \<Rightarrow> string \<Rightarrow> tenancies \<Rightarrow> tenancies \<times> (int \<times> string) option" where
  "forgot_password cy now token slug email pf =
     (case pf slug of
        None \<Rightarrow> (pf, None)
      | Some a \<Rightarrow>
          (case active_user_by_email email a of
             None \<Rightarrow> (pf, None)
           | Some u \<Rightarrow> (pf(slug \<mapsto> put_user (u\<lparr>us_reset_token := Some (cy_hash cy token), us_reset_expires_at := Some (now + minutes_us 30)\<rparr>) a),
                       Some (us_id u, token))))"

definition reset_in_tenant :: "crypto \<Rightarrow> instant \<Rightarrow> string \<Rightarrow> string \<Rightarrow> string \<Rightarrow> accounts \<Rightarrow> (accounts \<times> int) res" where
  "reset_in_tenant cy now email token new_password a =
     (case active_user_by_email email a of
        None \<Rightarrow> Inl (AppError ''INVALID_TOKEN'' 400)
      | Some u \<Rightarrow>
          (case (us_reset_token u, us_reset_expires_at u) of
             (Some h, Some e) \<Rightarrow>
               if e < now \<or> \<not> cy_verify cy token h then Inl (AppError ''INVALID_TOKEN'' 400)
               else Inr (revoke_user_sessions now (us_id u) (put_user (u\<lparr>us_password_hash := cy_hash cy new_password, us_reset_token := None,
                   us_reset_expires_at := None, us_must_change := False\<rparr>) a), us_id u)
           | _ \<Rightarrow> Inl (AppError ''INVALID_TOKEN'' 400)))"

definition reset_password ::
    "crypto \<Rightarrow> instant \<Rightarrow> string \<Rightarrow> string \<Rightarrow> string \<Rightarrow> string \<Rightarrow> deny_list option \<Rightarrow> tenancies \<Rightarrow> (tenancies \<times> deny_list option) res" where
  "reset_password cy now slug email token new_password d pf =
     (if \<not> password_policy new_password then Inl (AppError [] 422)
      else rbind (on_tenant slug (AppError ''INVALID_TOKEN'' 400) (reset_in_tenant cy now email token new_password) pf)
        (\<lambda>x. Inr (fst x, cut_off now (snd x) slug ''password_reset'' d)))"

definition change_password ::
    "crypto \<Rightarrow> instant \<Rightarrow> int \<Rightarrow> string option \<Rightarrow> string \<Rightarrow> int option \<Rightarrow> accounts \<Rightarrow> accounts res" where
  "change_password cy now uid current_password new_password kept_session a =
     (if \<not> password_policy new_password then Inl (AppError [] 422)
      else
        case get_user uid a of
          None \<Rightarrow> Inl (AppError ''UNAUTHORIZED'' 401)
        | Some u \<Rightarrow>
            rbind (if us_must_change u then Inr ()
                else (case current_password of
                        None \<Rightarrow> Inl (AppError ''VALIDATION_ERROR'' 422)
                      | Some p \<Rightarrow> if p = [] then Inl (AppError ''VALIDATION_ERROR'' 422)
                          else if \<not> cy_verify cy p (us_password_hash u) then Inl (AppError ''INVALID_CREDENTIALS'' 401) else Inr ()))
              (\<lambda>_. Inr (revoke_where now (\<lambda>r. rt_user_id r = us_id u \<and> kept_session \<noteq> Some (rt_id r))
                 (put_user (u\<lparr>us_password_hash := cy_hash cy new_password, us_must_change := False\<rparr>) a))))"

subsection \<open>Mail addresses\<close>

definition verify_email :: "instant \<Rightarrow> string \<Rightarrow> accounts \<Rightarrow> accounts res" where
  "verify_email now token a =
     (case find (\<lambda>u. us_verification_token u = Some token) (ac_users a) of
        None \<Rightarrow> Inl (AppError ''INVALID_TOKEN'' 400)
      | Some u \<Rightarrow>
          (case us_verification_expires_at u of
             None \<Rightarrow> Inl (AppError ''INVALID_TOKEN'' 400)
           | Some e \<Rightarrow> if e < now then Inl (AppError ''INVALID_TOKEN'' 400)
               else Inr (put_user (u\<lparr>us_verified_at := Some now, us_verification_token := None, us_verification_expires_at := None\<rparr>) a)))"

definition resend_verification :: "instant \<Rightarrow> string \<Rightarrow> int \<Rightarrow> accounts \<Rightarrow> (accounts \<times> string) res" where
  "resend_verification now token uid a =
     (case get_user uid a of
        None \<Rightarrow> Inl (AppError ''UNAUTHORIZED'' 401)
      | Some u \<Rightarrow>
          if us_verified_at u \<noteq> None then Inl (AppError ''ALREADY_VERIFIED'' 400)
          else Inr (put_user (u\<lparr>us_verification_token := Some token, us_verification_expires_at := Some (now + minutes_us (24 * 60))\<rparr>) a, token))"

end
