(* ===== verification/Super_Admin.thy ===== *)
theory Super_Admin
  imports Auth_Service
begin

text \<open>
  Signing in to the platform, \<^verbatim>\<open>app/modules/super_admin/service.py\<close>, and the validation of its tokens, \<^verbatim>\<open>core/auth/super_admin.py\<close>
  and \<^verbatim>\<open>impersonation.py\<close>. These accounts live in the schema \<^verbatim>\<open>public\<close>, apart from every restaurant.
\<close>

subsection \<open>Tables\<close>

record super_admin =
  sa_id :: int
  sa_email :: string
  sa_password_hash :: string
  sa_active :: bool
  sa_last_login_at :: "instant option"
  sa_mfa_secret :: "string option"
  sa_mfa_enabled :: bool
  sa_auth_version :: int

record recovery_code =
  rc_key :: int
  rc_super_admin_id :: int
  rc_hash :: string
  rc_used_at :: "instant option"

record super_session =
  ss_id :: string
  ss_super_admin_id :: int
  ss_lookup :: string
  ss_expires_at :: instant
  ss_revoked_at :: "instant option"
  ss_last_used_at :: "instant option"
  ss_ip :: "string option"
  ss_user_agent :: "string option"

record impersonation_row =
  im_id :: string
  im_super_admin_id :: int
  im_source_sid :: string
  im_tenant_slug :: string
  im_expires_at :: instant
  im_revoked_at :: "instant option"

record platform_audit =
  pa_event :: string
  pa_actor_id :: "int option"
  pa_actor_email :: "string option"
  pa_target :: "string option"

record super_db =
  sd_admins :: "super_admin list"
  sd_codes :: "recovery_code list"
  sd_sessions :: "super_session list"
  sd_impersonations :: "impersonation_row list"
  sd_audit :: "platform_audit list"

definition get_admin :: "int \<Rightarrow> super_db \<Rightarrow> super_admin option" where
  "get_admin k s = row_get sa_id k (sd_admins s)"

definition put_admin :: "super_admin \<Rightarrow> super_db \<Rightarrow> super_db" where
  "put_admin m s = s\<lparr>sd_admins := row_upd sa_id (sa_id m) (\<lambda>_. m) (sd_admins s)\<rparr>"

definition platform_event :: "string \<Rightarrow> int option \<Rightarrow> string option \<Rightarrow> string option \<Rightarrow> super_db \<Rightarrow> super_db" where
  "platform_event ev actor email target s = s\<lparr>sd_audit := sd_audit s @ [\<lparr>pa_event = ev, pa_actor_id = actor, pa_actor_email = email, pa_target = target\<rparr>]\<rparr>"

record super_settings =
  se_enrollment_minutes :: int
  se_refresh_days :: int
  se_impersonation_minutes :: int

subsection \<open>Second factor\<close>

text \<open>The first unused code of the account that verifies is marked as used.\<close>

fun use_recovery_code :: "instant \<Rightarrow> (recovery_code \<Rightarrow> bool) \<Rightarrow> recovery_code list \<Rightarrow> recovery_code list option" where
  "use_recovery_code now ok [] = None"
| "use_recovery_code now ok (r # rs) = (if ok r then Some (r\<lparr>rc_used_at := Some now\<rparr> # rs) else map_option ((#) r) (use_recovery_code now ok rs))"

text \<open>A missing key falls back on the codes; a secret of another key is not caught.\<close>

definition super_verify_mfa :: "crypto \<Rightarrow> instant \<Rightarrow> super_admin \<Rightarrow> string option \<Rightarrow> super_db \<Rightarrow> super_db option res" where
  "super_verify_mfa cy now m mfa_code s =
     (case mfa_code of
        None \<Rightarrow> Inr None
      | Some t \<Rightarrow>
          if t = [] then Inr None
          else
            let code = py_strip t;
                by_code = map_option (\<lambda>cs. s\<lparr>sd_codes := cs\<rparr>)
                  (use_recovery_code now (\<lambda>r. rc_super_admin_id r = sa_id m \<and> rc_used_at r = None \<and> cy_verify cy code (rc_hash r)) (sd_codes s))
            in (case sa_mfa_secret m of
                  None \<Rightarrow> Inr by_code
                | Some c \<Rightarrow>
                    if c = [] then Inr by_code
                    else (case cy_super_decrypt cy c of
                            Bad_cipher \<Rightarrow> Inl (AppError ''InvalidToken'' 500)
                          | Not_configured \<Rightarrow> Inr by_code
                          | Plain secret \<Rightarrow> if secret \<noteq> [] \<and> cy_totp cy now secret code then Inr (Some s) else Inr by_code)))"

subsection \<open>Signing in\<close>

record super_tokens =
  st_access :: string
  st_refresh :: "string option"
  st_mfa_setup_required :: bool

definition super_claims :: "super_admin \<Rightarrow> string \<Rightarrow> string option \<Rightarrow> claims" where
  "super_claims m role sid =
     \<lparr>cl_sub = Some (sa_id m), cl_email = Some (sa_email m), cl_phone = None, cl_role = Some role, cl_permissions = None, cl_tenant_id = None,
      cl_tenant_slug = None, cl_must_change = False, cl_type = [], cl_jti = None, cl_exp = 0, cl_sid = sid, cl_auth_version = Some (sa_auth_version m),
      cl_impersonation = False, cl_impersonation_id = None, cl_by_id = None, cl_by_email = None, cl_source_sid = None\<rparr>"

definition super_refresh_claims :: "super_admin \<Rightarrow> string \<Rightarrow> claims" where
  "super_refresh_claims m sid = (super_claims m ''super-admin'' (Some sid))\<lparr>cl_email := None, cl_auth_version := None\<rparr>"

text \<open>Failures are audited and committed before they are raised, so the tables are returned with the outcome.\<close>

definition super_login ::
    "crypto \<Rightarrow> super_settings \<Rightarrow> instant \<Rightarrow> string \<Rightarrow> string \<Rightarrow> string \<Rightarrow> string \<Rightarrow> string \<Rightarrow> string option \<Rightarrow> string option \<Rightarrow> string option \<Rightarrow> super_db
      \<Rightarrow> super_db \<times> super_tokens res" where
  "super_login cy se now sid jti jti' email password mfa_code ip agent s =
     (case find (\<lambda>m. sa_email m = email) (sd_admins s) of
        None \<Rightarrow> (platform_event ''login_failed'' None (Some email) None s, Inl (AppError ''UNAUTHORIZED'' 401))
      | Some m \<Rightarrow>
          if \<not> cy_verify cy password (sa_password_hash m) then
            (platform_event ''login_failed'' (Some (sa_id m)) (Some email) None s, Inl (AppError ''UNAUTHORIZED'' 401))
          else if \<not> sa_active m then
            (platform_event ''login_failed'' (Some (sa_id m)) (Some (sa_email m)) None s, Inl (AppError ''UNAUTHORIZED'' 401))
          else if \<not> sa_mfa_enabled m then
            (platform_event ''login_success'' (Some (sa_id m)) (Some (sa_email m)) None (put_admin (m\<lparr>sa_last_login_at := Some now\<rparr>) s),
             Inr \<lparr>st_access = create_access_token cy now jti (Some (minutes_us (se_enrollment_minutes se))) (super_claims m ''super-admin-enrollment'' None),
                  st_refresh = None, st_mfa_setup_required = True\<rparr>)
          else
            (case super_verify_mfa cy now m mfa_code s of
               Inl e \<Rightarrow> (s, Inl e)
             | Inr None \<Rightarrow> (platform_event ''mfa_failed'' (Some (sa_id m)) (Some (sa_email m)) None s,
                        Inl (AppError (if given_text mfa_code then ''INVALID_MFA_CODE'' else ''MFA_REQUIRED'') 401))
             | Inr (Some s1) \<Rightarrow>
                 let access = create_access_token cy now jti None (super_claims m ''super-admin'' (Some sid));
                     refresh = create_refresh_token cy now jti' (Some (days_us (se_refresh_days se))) (super_refresh_claims m sid);
                     row = \<lparr>ss_id = sid, ss_super_admin_id = sa_id m, ss_lookup = cy_lookup cy refresh, ss_expires_at = now + days_us (se_refresh_days se),
                            ss_revoked_at = None, ss_last_used_at = None, ss_ip = ip, ss_user_agent = agent\<rparr>
                 in if list_ex (\<lambda>r. ss_id r = sid \<or> ss_lookup r = cy_lookup cy refresh) (sd_sessions s) then (s, Inl IntegrityError)
                    else (platform_event ''login_success'' (Some (sa_id m)) (Some (sa_email m)) (Some sid)
                            (put_admin (m\<lparr>sa_last_login_at := Some now\<rparr>) (s1\<lparr>sd_sessions := sd_sessions s1 @ [row]\<rparr>)),
                          Inr \<lparr>st_access = access, st_refresh = Some refresh, st_mfa_setup_required = False\<rparr>)))"

definition super_setup_mfa :: "crypto \<Rightarrow> string \<Rightarrow> (int \<times> string) list \<Rightarrow> int \<Rightarrow> super_db \<Rightarrow> (super_db \<times> string list) res" where
  "super_setup_mfa cy secret codes k s =
     (case get_admin k s of
        None \<Rightarrow> Inl (AppError ''UNAUTHORIZED'' 401)
      | Some m \<Rightarrow>
          if \<not> sa_active m then Inl (AppError ''UNAUTHORIZED'' 401)
          else if sa_mfa_enabled m then Inl (AppError ''MFA_ALREADY_ENABLED'' 409)
          else (case cy_super_encrypt cy secret of
                  None \<Rightarrow> Inl (AppError ''CryptoNotConfigured'' 500)
                | Some cipher \<Rightarrow>
                    Inr ((put_admin (m\<lparr>sa_mfa_secret := Some cipher\<rparr>) s)
                      \<lparr>sd_codes := filter (\<lambda>r. \<not> (rc_super_admin_id r = k \<and> rc_used_at r = None)) (sd_codes s)
                         @ map (\<lambda>kc. \<lparr>rc_key = fst kc, rc_super_admin_id = k, rc_hash = cy_hash cy (snd kc), rc_used_at = None\<rparr>) codes\<rparr>, map snd codes)))"

definition super_confirm_mfa :: "crypto \<Rightarrow> instant \<Rightarrow> int \<Rightarrow> string option \<Rightarrow> super_db \<Rightarrow> super_db res" where
  "super_confirm_mfa cy now k totp_code s =
     (case get_admin k s of
        None \<Rightarrow> Inl (AppError ''UNAUTHORIZED'' 401)
      | Some m \<Rightarrow>
          if \<not> sa_active m then Inl (AppError ''UNAUTHORIZED'' 401)
          else if sa_mfa_enabled m then Inl (AppError ''MFA_ALREADY_ENABLED'' 409)
          else (case sa_mfa_secret m of
                  None \<Rightarrow> Inl (AppError ''MFA_NOT_SETUP'' 400)
                | Some c \<Rightarrow>
                    if c = [] then Inl (AppError ''MFA_NOT_SETUP'' 400)
                    else (case cy_super_decrypt cy c of
                            Not_configured \<Rightarrow> Inl (AppError ''CryptoNotConfigured'' 500)
                          | Bad_cipher \<Rightarrow> Inl (AppError ''InvalidToken'' 500)
                          | Plain secret \<Rightarrow>
                              if \<not> given_text totp_code \<or> \<not> cy_totp cy now secret (py_strip (the totp_code)) then Inl (AppError ''INVALID_MFA_CODE'' 400)
                              else Inr (platform_event ''mfa_enabled'' (Some k) (Some (sa_email m)) None (put_admin (m\<lparr>sa_mfa_enabled := True\<rparr>) s)))))"

subsection \<open>Sessions\<close>

text \<open>The rotation: the row changes only while it still carries the lookup of the token presented.\<close>

definition refresh_session ::
    "crypto \<Rightarrow> super_settings \<Rightarrow> instant \<Rightarrow> string \<Rightarrow> string \<Rightarrow> string \<Rightarrow> super_db \<Rightarrow> (super_db \<times> super_tokens) res" where
  "refresh_session cy se now jti jti' token s =
     (case cy_decode cy now token of
        None \<Rightarrow> Inl (AppError ''UNAUTHORIZED'' 401)
      | Some c \<Rightarrow>
          if cl_type c \<noteq> ''refresh'' \<or> cl_role c \<noteq> Some ''super-admin'' then Inl (AppError ''UNAUTHORIZED'' 401)
          else (case (cl_sid c, cl_sub c) of
                  (Some sid, Some k) \<Rightarrow>
                    (case get_admin k s of
                       None \<Rightarrow> Inl (AppError ''UNAUTHORIZED'' 401)
                     | Some m \<Rightarrow>
                         if sid = [] \<or> \<not> sa_active m then Inl (AppError ''UNAUTHORIZED'' 401)
                         else
                           let access = create_access_token cy now jti None (super_claims m ''super-admin'' (Some sid));
                               refresh = create_refresh_token cy now jti' (Some (days_us (se_refresh_days se))) (super_refresh_claims m sid);
                               hit = (\<lambda>r. ss_id r = sid \<and> ss_super_admin_id r = k \<and> ss_lookup r = cy_lookup cy token \<and> ss_revoked_at r = None \<and> now < ss_expires_at r)
                           in if length (filter hit (sd_sessions s)) \<noteq> 1 then Inl (AppError ''UNAUTHORIZED'' 401)
                              else if list_ex (\<lambda>r. \<not> hit r \<and> ss_lookup r = cy_lookup cy refresh) (sd_sessions s) then Inl IntegrityError
                              else Inr (s\<lparr>sd_sessions := map (\<lambda>r. if hit r then r\<lparr>ss_lookup := cy_lookup cy refresh, ss_expires_at := now + days_us (se_refresh_days se),
                                         ss_last_used_at := Some now\<rparr> else r) (sd_sessions s)\<rparr>,
                                       \<lparr>st_access = access, st_refresh = Some refresh, st_mfa_setup_required = False\<rparr>))
                | _ \<Rightarrow> Inl (AppError ''UNAUTHORIZED'' 401)))"

definition super_logout :: "instant \<Rightarrow> int \<Rightarrow> string option \<Rightarrow> super_db \<Rightarrow> super_db" where
  "super_logout now k sid s =
     (case sid of
        None \<Rightarrow> s
      | Some i \<Rightarrow>
          if i = [] then s
          else platform_event ''session_revoked'' (Some k) (map_option sa_email (get_admin k s)) (Some i)
                 (s\<lparr>sd_sessions := map (\<lambda>r. if ss_id r = i \<and> ss_super_admin_id r = k then r\<lparr>ss_revoked_at := Some now\<rparr> else r) (sd_sessions s)\<rparr>))"

definition super_revoke_all :: "instant \<Rightarrow> int \<Rightarrow> super_db \<Rightarrow> super_db res" where
  "super_revoke_all now k s =
     (case get_admin k s of
        None \<Rightarrow> Inl (AppError ''UNAUTHORIZED'' 401)
      | Some m \<Rightarrow> Inr (platform_event ''session_revoked_all'' (Some k) (Some (sa_email m)) None
          ((put_admin (m\<lparr>sa_auth_version := sa_auth_version m + 1\<rparr>) s)
            \<lparr>sd_sessions := map (\<lambda>r. if ss_super_admin_id r = k \<and> ss_revoked_at r = None then r\<lparr>ss_revoked_at := Some now\<rparr> else r) (sd_sessions s)\<rparr>)))"

subsection \<open>Validation of platform tokens\<close>

definition live_version :: "int \<Rightarrow> string \<Rightarrow> super_db \<Rightarrow> int option" where
  "live_version k email s = map_option sa_auth_version (find (\<lambda>m. sa_id m = k \<and> sa_email m = email \<and> sa_active m) (sd_admins s))"

definition live_super_session :: "instant \<Rightarrow> string \<Rightarrow> int \<Rightarrow> super_db \<Rightarrow> bool" where
  "live_super_session now sid k s \<longleftrightarrow>
     list_ex (\<lambda>r. ss_id r = sid \<and> ss_super_admin_id r = k \<and> ss_revoked_at r = None \<and> now < ss_expires_at r) (sd_sessions s)"

definition validate_super_admin_session ::
    "instant \<Rightarrow> int \<Rightarrow> string option \<Rightarrow> int option \<Rightarrow> string option \<Rightarrow> bool \<Rightarrow> super_db \<Rightarrow> bool" where
  "validate_super_admin_session now k email version sid require_session s =
     (case (email, version) of
        (Some e, Some v) \<Rightarrow>
          live_version k e s = Some v
          \<and> (require_session \<longrightarrow> (case sid of None \<Rightarrow> False | Some i \<Rightarrow> i \<noteq> [] \<and> live_super_session now i k s))
      | _ \<Rightarrow> False)"

definition impersonation_permissions :: "string list" where
  "impersonation_permissions = [''orders:read'', ''stock:read'', ''catalog:read'', ''payments:read'', ''haccp:read'', ''print:read'']"

text \<open>The actor is the current user of the platform; the token is pinned to one restaurant.\<close>

definition create_impersonation_token ::
    "crypto \<Rightarrow> super_settings \<Rightarrow> instant \<Rightarrow> string \<Rightarrow> super_admin \<Rightarrow> string option \<Rightarrow> int \<Rightarrow> string \<Rightarrow> string \<Rightarrow> string" where
  "create_impersonation_token cy se now jti m sid tenant_id slug imp_id =
     create_access_token cy now jti (Some (minutes_us (se_impersonation_minutes se)))
       ((super_claims m ''admin'' None)\<lparr>cl_email := Some (''impersonation:'' @ sa_email m @ ''->'' @ slug), cl_tenant_slug := Some slug,
          cl_tenant_id := Some tenant_id, cl_impersonation := True, cl_impersonation_id := Some imp_id, cl_by_id := Some (sa_id m),
          cl_by_email := Some (sa_email m), cl_source_sid := sid, cl_permissions := Some impersonation_permissions\<rparr>)"

definition validate_impersonation_token :: "instant \<Rightarrow> claims \<Rightarrow> tenancies \<Rightarrow> super_db \<Rightarrow> bool" where
  "validate_impersonation_token now c pf s =
     (case (cl_by_id c, cl_by_email c, cl_auth_version c, cl_source_sid c, cl_tenant_slug c, cl_impersonation_id c) of
        (Some k, Some email, Some version, Some sid, Some slug, Some i) \<Rightarrow>
          k \<noteq> 0 \<and> email \<noteq> [] \<and> sid \<noteq> [] \<and> slug \<noteq> [] \<and> i \<noteq> []
          \<and> live_version k email s = Some version \<and> live_super_session now sid k s
          \<and> list_ex (\<lambda>r. im_id r = i \<and> im_super_admin_id r = k \<and> im_source_sid r = sid \<and> im_tenant_slug r = slug \<and> im_revoked_at r = None
               \<and> now < im_expires_at r) (sd_impersonations s)
          \<and> pf slug \<noteq> None
      | _ \<Rightarrow> False)"

end
