(* ===== verification/Auth_Access.thy ===== *)
theory Auth_Access
  imports Super_Admin
begin

text \<open>
  What every request passes, \<^verbatim>\<open>app/core/http/deps.py\<close>: the identity behind an access token and its permissions. Then the
  impersonation of a restaurant by the platform (\<^verbatim>\<open>admin/superadmin/router.py\<close>), the accounts the administrators of a restaurant
  manage (\<^verbatim>\<open>admin/users/service.py\<close>) and those customers open themselves (\<^verbatim>\<open>customer/service.py\<close>).
\<close>

subsection \<open>The current user\<close>

record current_user =
  cu_id :: "int option"
  cu_tenant_id :: "int option"
  cu_tenant_slug :: "string option"
  cu_role :: "string option"
  cu_permissions :: "string list option"
  cu_email :: "string option"
  cu_phone :: "string option"
  cu_must_change :: bool
  cu_jti :: "string option"
  cu_exp :: instant
  cu_sid :: "string option"
  cu_auth_version :: "int option"
  cu_impersonation :: bool
  cu_by_id :: "int option"
  cu_by_email :: "string option"
  cu_impersonation_id :: "string option"

definition must_change_allowed_paths :: "string list" where
  "must_change_allowed_paths = [''/auth/change-password'', ''/auth/logout'']"

definition get_live_tenant_user_state :: "int \<Rightarrow> string \<Rightarrow> tenancies \<Rightarrow> account option" where
  "get_live_tenant_user_state uid slug pf = (case pf slug of None \<Rightarrow> None | Some a \<Rightarrow> get_user uid a)"

definition identity_matches :: "claims \<Rightarrow> account \<Rightarrow> bool" where
  "identity_matches c u \<longleftrightarrow> (if cl_email c \<noteq> None then us_email u = cl_email c else cl_phone c \<noteq> None \<and> us_phone_e164 u = cl_phone c)"

definition user_of_claims :: "claims \<Rightarrow> current_user" where
  "user_of_claims c = \<lparr>cu_id = cl_sub c, cu_tenant_id = cl_tenant_id c, cu_tenant_slug = cl_tenant_slug c, cu_role = cl_role c,
     cu_permissions = cl_permissions c, cu_email = cl_email c, cu_phone = cl_phone c, cu_must_change = cl_must_change c, cu_jti = cl_jti c,
     cu_exp = cl_exp c, cu_sid = cl_sid c, cu_auth_version = cl_auth_version c, cu_impersonation = cl_impersonation c, cu_by_id = cl_by_id c,
     cu_by_email = cl_by_email c, cu_impersonation_id = cl_impersonation_id c\<rparr>"

definition unauthorized :: "'a res" where
  "unauthorized = Inl (AppError ''UNAUTHORIZED'' 401)"

text \<open>The claims are replaced by the state of the account where there is one; an empty name counts as no name.\<close>

definition text_or_none :: "string option \<Rightarrow> string option" where
  "text_or_none t = (if t = Some [] then None else t)"

definition live_claims :: "instant \<Rightarrow> tenancies \<Rightarrow> super_db \<Rightarrow> claims \<Rightarrow> claims res" where
  "live_claims now pf s c =
     (if cl_impersonation c then (if validate_impersonation_token now c pf s then Inr c else unauthorized)
      else
        case cl_sub c of
          None \<Rightarrow> Inr c
        | Some k \<Rightarrow>
            (case text_or_none (cl_tenant_slug c) of
               Some slug \<Rightarrow>
                 (case get_live_tenant_user_state k slug pf of
                    None \<Rightarrow> unauthorized
                  | Some u \<Rightarrow>
                      if \<not> identity_matches c u \<or> \<not> us_active u then unauthorized
                      else Inr (c\<lparr>cl_role := Some (us_role u), cl_permissions := us_permissions u\<rparr>))
             | None \<Rightarrow>
                 if cl_role c = Some ''super-admin'' \<or> cl_role c = Some ''super-admin-enrollment'' then
                   (if validate_super_admin_session now k (cl_email c) (cl_auth_version c) (cl_sid c) (cl_role c = Some ''super-admin'') s then Inr c
                    else unauthorized)
                 else Inr c))"

definition denied_by_list :: "instant \<Rightarrow> claims \<Rightarrow> deny_list option \<Rightarrow> bool" where
  "denied_by_list now c d \<longleftrightarrow> (case d of None \<Rightarrow> False
     | Some l \<Rightarrow> (case cl_jti c of None \<Rightarrow> False | Some j \<Rightarrow> j \<noteq> [] \<and> is_jti_revoked now j l)
          \<or> (case cl_sub c of None \<Rightarrow> False | Some uid \<Rightarrow> is_user_disabled now uid (cl_tenant_slug c) l))"

definition get_current_user ::
    "crypto \<Rightarrow> instant \<Rightarrow> string option \<Rightarrow> string \<Rightarrow> tenancies \<Rightarrow> deny_list option \<Rightarrow> super_db \<Rightarrow> current_user res" where
  "get_current_user cy now credentials path pf d s =
     (case credentials of
        None \<Rightarrow> unauthorized
      | Some token \<Rightarrow>
          (case cy_decode cy now token of
             None \<Rightarrow> unauthorized
           | Some c \<Rightarrow>
               if cl_type c \<noteq> ''access'' \<or> denied_by_list now c d then unauthorized
               else
                 rbind (live_claims now pf s c) (\<lambda>c'.
                   if cl_must_change c' \<and> \<not> list_ex (\<lambda>p. sublist p path) must_change_allowed_paths then Inl (AppError ''MUST_CHANGE_PASSWORD'' 403)
                   else if cl_role c' \<noteq> Some ''super-admin'' \<and> (case text_or_none (cl_tenant_slug c') of None \<Rightarrow> False | Some slug \<Rightarrow>
                       (case pf slug of None \<Rightarrow> False | Some a \<Rightarrow> ac_suspended a)) then Inl (AppError ''FORBIDDEN'' 403)
                   else Inr (user_of_claims c'))))"

definition get_optional_user ::
    "crypto \<Rightarrow> instant \<Rightarrow> string option \<Rightarrow> string \<Rightarrow> tenancies \<Rightarrow> deny_list option \<Rightarrow> super_db \<Rightarrow> current_user option res" where
  "get_optional_user cy now credentials path pf d s =
     (if credentials = None then Inr None else rbind (get_current_user cy now credentials path pf d s) (\<lambda>u. Inr (Some u)))"

subsection \<open>Permissions\<close>

definition require_role :: "string list \<Rightarrow> current_user \<Rightarrow> current_user res" where
  "require_role roles u =
     (if cu_impersonation u \<or> \<not> (case cu_role u of None \<Rightarrow> False | Some r \<Rightarrow> r \<in> set roles) then Inl (AppError ''FORBIDDEN'' 403) else Inr u)"

definition holds_permission :: "current_user \<Rightarrow> string \<Rightarrow> bool" where
  "holds_permission u p \<longleftrightarrow>
     (let listed = (case cu_permissions u of None \<Rightarrow> [] | Some ps \<Rightarrow> ps)
      in \<not> cu_impersonation u \<and> (cu_role u = Some ''admin'' \<or> cu_role u = Some ''super-admin'') \<or> ''*'' \<in> set listed \<or> p \<in> set listed)"

definition require_permission :: "string \<Rightarrow> string list \<Rightarrow> current_user \<Rightarrow> current_user res" where
  "require_permission p roles u =
     (let allowed = (if roles = [] then [''staff'', ''admin''] else roles) @ [''admin'', ''super-admin'']
      in if \<not> (case cu_role u of None \<Rightarrow> False | Some r \<Rightarrow> r \<in> set allowed) \<or> \<not> holds_permission u p then Inl (AppError ''FORBIDDEN'' 403)
         else Inr u)"

subsection \<open>Impersonation\<close>

definition impersonate ::
    "crypto \<Rightarrow> super_settings \<Rightarrow> instant \<Rightarrow> string \<Rightarrow> string \<Rightarrow> current_user \<Rightarrow> string \<Rightarrow> tenancies \<Rightarrow> super_db \<Rightarrow> (super_db \<times> string) res" where
  "impersonate cy se now jti imp_id actor slug pf s =
     rbind (require_role [''super-admin''] actor) (\<lambda>_.
       case pf slug of
         None \<Rightarrow> Inl (AppError ''NOT_FOUND'' 404)
       | Some a \<Rightarrow>
           (case (cu_id actor, cu_email actor, cu_auth_version actor, cu_sid actor) of
              (Some k, Some email, Some version, Some sid) \<Rightarrow>
                let m = \<lparr>sa_id = k, sa_email = email, sa_password_hash = [], sa_active = True, sa_last_login_at = None, sa_mfa_secret = None,
                          sa_mfa_enabled = True, sa_auth_version = version\<rparr>;
                    row = \<lparr>im_id = imp_id, im_super_admin_id = k, im_source_sid = sid, im_tenant_slug = slug,
                           im_expires_at = whole_seconds (now + minutes_us (se_impersonation_minutes se)), im_revoked_at = None\<rparr>
                in Inr (platform_event ''impersonation_started'' (Some k) (Some email) (Some slug) (s\<lparr>sd_impersonations := sd_impersonations s @ [row]\<rparr>),
                        create_impersonation_token cy se now jti m (Some sid) (ac_tenant_id a) slug imp_id)
            | _ \<Rightarrow> Inl IntegrityError))"

definition end_impersonation :: "instant \<Rightarrow> current_user \<Rightarrow> deny_list option \<Rightarrow> super_db \<Rightarrow> (super_db \<times> deny_list option) res" where
  "end_impersonation now u d s =
     (case cu_impersonation_id u of
        None \<Rightarrow> Inl (AppError ''BAD_REQUEST'' 400)
      | Some i \<Rightarrow>
          if \<not> cu_impersonation u \<or> i = [] then Inl (AppError ''BAD_REQUEST'' 400)
          else
            let hit = (\<lambda>r. im_id r = i \<and> im_revoked_at r = None);
                s1 = s\<lparr>sd_impersonations := map (\<lambda>r. if hit r then r\<lparr>im_revoked_at := Some now\<rparr> else r) (sd_impersonations s)\<rparr>;
                s2 = (if list_ex hit (sd_impersonations s) then platform_event ''impersonation_ended'' (cu_by_id u) (cu_by_email u) (cu_tenant_slug u) s1 else s1);
                d' = (case cu_jti u of None \<Rightarrow> d | Some j \<Rightarrow> if j = [] then d else map_option (revoke_jti now j (cu_exp u)) d)
            in Inr (s2, d'))"

subsection \<open>Accounts managed by the administrators\<close>

record admin_user_out =
  au_id :: int
  au_email :: "string option"
  au_full_name :: "string option"
  au_role :: string
  au_permissions :: "string list option"
  au_active :: bool
  au_verified :: bool
  au_must_change :: bool

definition user_out :: "account \<Rightarrow> admin_user_out" where
  "user_out u = \<lparr>au_id = us_id u, au_email = us_email u, au_full_name = us_full_name u, au_role = us_role u, au_permissions = us_permissions u,
     au_active = us_active u, au_verified = (us_verified_at u \<noteq> None), au_must_change = us_must_change u\<rparr>"

definition list_users ::
    "nat \<Rightarrow> nat \<Rightarrow> string option \<Rightarrow> bool option \<Rightarrow> bool option \<Rightarrow> accounts \<Rightarrow> admin_user_out list \<times> nat" where
  "list_users page page_size role active verified a =
     (let us = filter (\<lambda>u. (role = None \<or> role = Some (us_role u)) \<and> (active = None \<or> active = Some (us_active u))
            \<and> (verified = None \<or> verified = Some (us_verified_at u \<noteq> None))) (ac_users a)
      in (map user_out (take page_size (drop ((page - 1) * page_size) us)), length us))"

text \<open>The temporary password is drawn at random.\<close>

definition create_user ::
    "crypto \<Rightarrow> instant \<Rightarrow> int \<Rightarrow> string \<Rightarrow> string \<Rightarrow> string option \<Rightarrow> string \<Rightarrow> string list option \<Rightarrow> accounts \<Rightarrow> (accounts \<times> int \<times> string) res" where
  "create_user cy now key temporary email full_name role permissions a =
     (if list_ex (\<lambda>u. us_email u = Some email) (ac_users a) then Inl (AppError ''EMAIL_EXISTS'' 409)
      else Inr (add_user ((new_account key (Some email) (cy_hash cy temporary) role)\<lparr>us_full_name := full_name,
             us_permissions := Some (case permissions of None \<Rightarrow> [] | Some ps \<Rightarrow> ps), us_must_change := True, us_verified_at := Some now\<rparr>) a,
             key, temporary))"

definition with_user :: "int \<Rightarrow> app_error \<Rightarrow> (account \<Rightarrow> 'r res) \<Rightarrow> accounts \<Rightarrow> 'r res" where
  "with_user uid e g a = (case get_user uid a of None \<Rightarrow> Inl e | Some u \<Rightarrow> g u)"

definition update_user_permissions ::
    "instant \<Rightarrow> int \<Rightarrow> string \<Rightarrow> string list \<Rightarrow> deny_list option \<Rightarrow> accounts \<Rightarrow> (accounts \<times> deny_list option) res" where
  "update_user_permissions now uid slug permissions d a =
     with_user uid (AppError ''NOT_FOUND'' 404) (\<lambda>u.
       if us_role u \<noteq> ''staff'' \<and> us_role u \<noteq> ''admin'' then Inl (AppError ''INVALID_ROLE'' 422)
       else Inr (revoke_user_sessions now uid (put_user (u\<lparr>us_permissions := Some permissions\<rparr>) a),
                 map_option (publish_session_revoked uid slug ''permissions_changed'') d)) a"

definition deactivate_user :: "instant \<Rightarrow> int \<Rightarrow> string \<Rightarrow> deny_list option \<Rightarrow> accounts \<Rightarrow> (accounts \<times> deny_list option) res" where
  "deactivate_user now uid slug d a =
     with_user uid (AppError ''NOT_FOUND'' 404) (\<lambda>u.
       Inr (revoke_user_sessions now uid (put_user (u\<lparr>us_active := False\<rparr>) a), cut_off now uid slug ''account_disabled'' d)) a"

definition reactivate_user :: "int \<Rightarrow> string \<Rightarrow> deny_list option \<Rightarrow> accounts \<Rightarrow> (accounts \<times> deny_list option) res" where
  "reactivate_user uid slug d a =
     with_user uid (AppError ''NOT_FOUND'' 404) (\<lambda>u.
       Inr (put_user (u\<lparr>us_active := True\<rparr>) a, map_option (clear_user_disabled uid (Some slug)) d)) a"

definition admin_reset_password ::
    "crypto \<Rightarrow> instant \<Rightarrow> string \<Rightarrow> int \<Rightarrow> string \<Rightarrow> deny_list option \<Rightarrow> accounts \<Rightarrow> (accounts \<times> deny_list option) res" where
  "admin_reset_password cy now temporary uid slug d a =
     with_user uid (AppError ''NOT_FOUND'' 404) (\<lambda>u.
       Inr (revoke_user_sessions now uid (put_user (u\<lparr>us_password_hash := cy_hash cy temporary, us_must_change := True\<rparr>) a),
            cut_off now uid slug ''password_reset'' d)) a"

subsection \<open>Accounts of customers\<close>

definition email_taken :: "string \<Rightarrow> accounts \<Rightarrow> bool" where
  "email_taken email a \<longleftrightarrow> list_ex (\<lambda>u. us_email u = Some email) (ac_users a)"

definition user_by_phone :: "string \<Rightarrow> accounts \<Rightarrow> account option" where
  "user_by_phone phone a = find (\<lambda>u. us_phone_e164 u = Some phone) (ac_users a)"

record customer_register =
  cr_email :: string
  cr_password :: string
  cr_full_name :: "string option"
  cr_phone :: "string option"

text \<open>The account is committed before the tokens are issued; the insertion of a token is a transaction of its own.\<close>

definition register_customer ::
    "crypto \<Rightarrow> instant \<Rightarrow> int \<Rightarrow> minted \<Rightarrow> string \<Rightarrow> string \<Rightarrow> customer_register \<Rightarrow> accounts \<Rightarrow> accounts \<times> token_pair res" where
  "register_customer cy now key mi token slug b a =
     (if email_taken (cr_email b) a then (a, Inl (AppError ''EMAIL_ALREADY_EXISTS'' 409))
      else
        case (case cr_phone b of None \<Rightarrow> Inr None | Some p \<Rightarrow> if p = [] then Inr None else rbind (normalize_phone_e164 (cy_country_code cy) p) (\<lambda>n. Inr (Some n))) of
          Inl e \<Rightarrow> (a, Inl e)
        | Inr phone \<Rightarrow>
            if (case phone of None \<Rightarrow> False | Some n \<Rightarrow> user_by_phone n a \<noteq> None) then (a, Inl (AppError ''PHONE_ALREADY_EXISTS'' 409))
            else
              let u = (new_account key (Some (cr_email b)) (cy_hash cy (cr_password b)) ''customer'')\<lparr>us_full_name := cr_full_name b, us_phone := cr_phone b,
                    us_phone_e164 := phone, us_verification_token := Some token, us_verification_expires_at := Some (now + minutes_us (24 * 60))\<rparr>;
                  a1 = add_user u a
              in (case issue_tokens cy now mi u (Some (ac_tenant_id a)) slug a1 of Inl e \<Rightarrow> (a1, Inl e) | Inr (a2, t) \<Rightarrow> (a2, Inr t)))"

definition otp_ttl :: int where "otp_ttl = minutes_us 10"
definition otp_max_attempts :: int where "otp_max_attempts = 5"

definition send_otp :: "crypto \<Rightarrow> instant \<Rightarrow> string \<Rightarrow> account \<Rightarrow> account" where
  "send_otp cy now code u = u\<lparr>us_otp_hash := Some (cy_hash cy code), us_otp_expires_at := Some (now + otp_ttl), us_otp_attempts := 0\<rparr>"

definition phone_account :: "crypto \<Rightarrow> int \<Rightarrow> string \<Rightarrow> string option \<Rightarrow> string \<Rightarrow> string \<Rightarrow> account" where
  "phone_account cy key secret full_name phone e164 =
     (new_account key None (cy_hash cy secret) ''customer'')\<lparr>us_full_name := full_name, us_phone := Some phone, us_phone_e164 := Some e164, us_pending_profile := True\<rparr>"

text \<open>A code and the password of a new account are drawn at random; the code leaves by text message.\<close>

definition start_phone_auth ::
    "crypto \<Rightarrow> instant \<Rightarrow> int \<Rightarrow> string \<Rightarrow> string \<Rightarrow> string \<Rightarrow> accounts \<Rightarrow> (accounts \<times> string \<times> string) res" where
  "start_phone_auth cy now key secret code phone a =
     rbind (normalize_phone_e164 (cy_country_code cy) phone) (\<lambda>e164.
       case user_by_phone e164 a of
         None \<Rightarrow> Inr (add_user (send_otp cy now code (phone_account cy key secret None phone e164)) a, e164, code)
       | Some u \<Rightarrow> if \<not> us_active u then Inl (AppError ''ACCOUNT_DISABLED'' 403) else Inr (put_user (send_otp cy now code u) a, e164, code))"

definition register_phone ::
    "crypto \<Rightarrow> instant \<Rightarrow> int \<Rightarrow> string \<Rightarrow> string \<Rightarrow> string option \<Rightarrow> string \<Rightarrow> accounts \<Rightarrow> (accounts \<times> string \<times> string) res" where
  "register_phone cy now key secret code full_name phone a =
     rbind (normalize_phone_e164 (cy_country_code cy) phone) (\<lambda>e164.
       case user_by_phone e164 a of
         None \<Rightarrow> Inr (add_user (send_otp cy now code (phone_account cy key secret full_name phone e164)) a, e164, code)
       | Some u \<Rightarrow>
           if \<not> us_active u then Inl (AppError ''ACCOUNT_DISABLED'' 403)
           else Inr (put_user (send_otp cy now code (u\<lparr>us_full_name := full_name, us_phone := Some phone\<rparr>)) a, e164, code))"

definition invalid_phone_code :: app_error where
  "invalid_phone_code = AppError ''INVALID_PHONE_CODE'' 401"

text \<open>A wrong code is counted, and an expired one removed, before the error is raised.\<close>

definition verify_phone_auth ::
    "crypto \<Rightarrow> instant \<Rightarrow> minted \<Rightarrow> string \<Rightarrow> string \<Rightarrow> string \<Rightarrow> accounts \<Rightarrow> accounts \<times> token_pair res" where
  "verify_phone_auth cy now mi slug phone code a =
     (case normalize_phone_e164 (cy_country_code cy) phone of
        Inl e \<Rightarrow> (a, Inl e)
      | Inr e164 \<Rightarrow>
          (case find (\<lambda>u. us_phone_e164 u = Some e164 \<and> us_role u = ''customer'' \<and> us_active u) (ac_users a) of
             None \<Rightarrow> (a, Inl invalid_phone_code)
           | Some u \<Rightarrow>
               (case (us_otp_hash u, us_otp_expires_at u) of
                  (Some h, Some e) \<Rightarrow>
                    if h = [] then (a, Inl invalid_phone_code)
                    else if e < now then (put_user (u\<lparr>us_otp_hash := None, us_otp_expires_at := None\<rparr>) a, Inl invalid_phone_code)
                    else if otp_max_attempts \<le> us_otp_attempts u then (a, Inl (AppError ''PHONE_CODE_LOCKED'' 429))
                    else if \<not> cy_verify cy code h then (put_user (u\<lparr>us_otp_attempts := us_otp_attempts u + 1\<rparr>) a, Inl invalid_phone_code)
                    else
                      let u' = u\<lparr>us_phone_verified_at := Some now, us_otp_hash := None, us_otp_expires_at := None, us_otp_attempts := 0,
                                us_pending_profile := False\<rparr>
                      in (case issue_tokens cy now mi u' (Some (ac_tenant_id a)) slug (put_user u' a) of Inl e \<Rightarrow> (a, Inl e) | Inr (a2, t) \<Rightarrow> (a2, Inr t))
                | _ \<Rightarrow> (a, Inl invalid_phone_code))))"

record profile_update =
  pu_full_name :: "string option"
  pu_email :: "string option"
  pu_phone :: "string option"
  pu_marketing_email :: "bool option"
  pu_marketing_push :: "bool option"

definition or_keep :: "'a option \<Rightarrow> 'a \<Rightarrow> 'a" where
  "or_keep v old = (case v of None \<Rightarrow> old | Some x \<Rightarrow> x)"

definition update_profile :: "crypto \<Rightarrow> int \<Rightarrow> profile_update \<Rightarrow> accounts \<Rightarrow> (accounts \<times> account) res" where
  "update_profile cy uid b a =
     with_user uid (AppError ''UNAUTHORIZED'' 401) (\<lambda>u.
       if (case pu_email b of None \<Rightarrow> False | Some e \<Rightarrow> list_ex (\<lambda>x. us_email x = Some e \<and> us_id x \<noteq> us_id u) (ac_users a)) then
         Inl (AppError ''EMAIL_ALREADY_EXISTS'' 409)
       else
         let u1 = u\<lparr>us_full_name := (case pu_full_name b of None \<Rightarrow> us_full_name u | Some n \<Rightarrow> Some n),
               us_email := (case pu_email b of None \<Rightarrow> us_email u | Some e \<Rightarrow> Some e),
               us_marketing_email := or_keep (pu_marketing_email b) (us_marketing_email u), us_marketing_push := or_keep (pu_marketing_push b) (us_marketing_push u)\<rparr>
         in (case pu_phone b of
               None \<Rightarrow> Inr (put_user u1 a, u1)
             | Some p \<Rightarrow>
                 rbind (normalize_phone_e164 (cy_country_code cy) p) (\<lambda>e164.
                   if us_phone_e164 u1 = Some e164 then Inr (put_user (u1\<lparr>us_phone := Some p\<rparr>) a, u1\<lparr>us_phone := Some p\<rparr>)
                   else if list_ex (\<lambda>x. us_phone_e164 x = Some e164 \<and> us_id x \<noteq> us_id u1) (ac_users a) then Inl (AppError ''PHONE_ALREADY_EXISTS'' 409)
                   else let u2 = u1\<lparr>us_phone := Some p, us_phone_e164 := Some e164, us_phone_verified_at := None\<rparr> in Inr (put_user u2 a, u2)))) a"

definition delete_account ::
    "crypto \<Rightarrow> instant \<Rightarrow> int \<Rightarrow> string \<Rightarrow> string \<Rightarrow> deny_list option \<Rightarrow> accounts \<Rightarrow> (accounts \<times> deny_list option) res" where
  "delete_account cy now uid slug password d a =
     with_user uid (AppError ''UNAUTHORIZED'' 401) (\<lambda>u.
       if \<not> cy_verify cy password (us_password_hash u) then Inl (AppError ''INVALID_CREDENTIALS'' 401)
       else Inr (put_user (u\<lparr>us_active := False\<rparr>) (revoke_user_sessions now uid a), map_option (flag_user_disabled now uid (Some slug)) d)) a"

end
