(* ===== verification/Customer_Admin.thy ===== *)
theory Customer_Admin
  imports Auth_Access Kitchen_Data Loyalty
begin

text \<open>
  The customers as the staff of a restaurant see them, \<^verbatim>\<open>app/modules/admin/customers/service.py\<close>: lists and figures, messages with
  the consent they need, the audit trail, and the deactivation and anonymisation of an account; and the worker that
  sends a queued e-mail, \<^verbatim>\<open>send_customer_communication_email\<close> in \<^verbatim>\<open>worker/tasks/emails.py\<close>. The instants at which accounts were
  created are the function \<open>created\<close>, \<open>ilike\<close> is the database's comparison with a pattern. What is handed to the queue and to
  the push service after the commit is returned as a list of actions.
\<close>

subsection \<open>Rows\<close>

datatype channel = Ch_email | Ch_push

datatype message_type = Transactional | Marketing

datatype comm_status = Cs_queued | Cs_sent | Cs_skipped | Cs_failed

record communication =
  cmn_id :: int
  cmn_user_id :: int
  cmn_channel :: channel
  cmn_type :: message_type
  cmn_template_key :: "string option"
  cmn_subject :: "string option"
  cmn_body :: string
  cmn_status :: comm_status
  cmn_error :: "string option"
  cmn_sent_by :: "int option"
  cmn_created_at :: instant
  cmn_sent_at :: "instant option"

record admin_audit =
  aau_actor :: "int option"
  aau_actor_email :: "string option"
  aau_action :: string
  aau_target_type :: string
  aau_target_id :: string
  aau_reason :: "string option"
  aau_communications :: "int list"
  aau_created_at :: instant

record customer_desk =
  cds_communications :: "communication list"
  cds_audits :: "admin_audit list"

record staff_actor =
  sta_id :: int
  sta_email :: "string option"

definition record_admin_audit ::
    "instant \<Rightarrow> staff_actor \<Rightarrow> string \<Rightarrow> string \<Rightarrow> string \<Rightarrow> string option \<Rightarrow> int list \<Rightarrow> customer_desk \<Rightarrow> customer_desk" where
  "record_admin_audit now who action target_type target_id reason ids s =
     s\<lparr>cds_audits := cds_audits s @ [\<lparr>aau_actor = Some (sta_id who), aau_actor_email = sta_email who, aau_action = action,
         aau_target_type = target_type, aau_target_id = target_id, aau_reason = reason, aau_communications = ids,
         aau_created_at = now\<rparr>]\<rparr>"

text \<open>\<^verbatim>\<open>LIKE 'loyalty_%'\<close>, where the underscore stands for any character.\<close>

definition loyalty_action :: "string \<Rightarrow> bool" where
  "loyalty_action s \<longleftrightarrow> take 7 s = ''loyalty'' \<and> 8 \<le> length s"

definition audit_selected :: "string option \<Rightarrow> string option \<Rightarrow> bool \<Rightarrow> admin_audit \<Rightarrow> bool" where
  "audit_selected action target_type loyalty_only r \<longleftrightarrow>
     (case action of None \<Rightarrow> True | Some x \<Rightarrow> x = [] \<or> aau_action r = x)
     \<and> (case target_type of None \<Rightarrow> True | Some x \<Rightarrow> x = [] \<or> aau_target_type r = x)
     \<and> (loyalty_only \<longrightarrow> loyalty_action (aau_action r))"

definition customer_page :: "nat \<Rightarrow> nat \<Rightarrow> 'a list \<Rightarrow> 'a list" where
  "customer_page page page_size xs = take page_size (drop ((page - 1) * page_size) xs)"

text \<open>The rows are kept in the order of their keys, so the reversed list breaks ties of the instant by descending key.\<close>

definition list_admin_audit_logs ::
    "string option \<Rightarrow> string option \<Rightarrow> bool \<Rightarrow> nat \<Rightarrow> nat \<Rightarrow> customer_desk \<Rightarrow> admin_audit list \<times> nat" where
  "list_admin_audit_logs action target_type loyalty_only page page_size s =
     (let rows = filter (audit_selected action target_type loyalty_only) (cds_audits s)
      in (customer_page page page_size (sort_key (\<lambda>r. - aau_created_at r) (rev rows)), length rows))"

subsection \<open>Lists and figures\<close>

record customer_filter =
  cft_query :: "string option"
  cft_active :: "bool option"
  cft_verified :: "bool option"
  cft_email_opt_in :: "bool option"
  cft_push_opt_in :: "bool option"

definition customer_selected :: "(string \<Rightarrow> string \<Rightarrow> bool) \<Rightarrow> customer_filter \<Rightarrow> account \<Rightarrow> bool" where
  "customer_selected ilike f u \<longleftrightarrow> us_role u = ''customer''
     \<and> (case cft_query f of None \<Rightarrow> True | Some q \<Rightarrow> q = [] \<or>
          list_ex (\<lambda>x. case x of None \<Rightarrow> False | Some t \<Rightarrow> ilike t (''%'' @ py_strip q @ ''%''))
            [us_email u, us_full_name u, us_phone u])
     \<and> (case cft_active f of None \<Rightarrow> True | Some b \<Rightarrow> us_active u = b)
     \<and> (case cft_verified f of None \<Rightarrow> True | Some b \<Rightarrow> (us_verified_at u \<noteq> None) = b)
     \<and> (case cft_email_opt_in f of None \<Rightarrow> True | Some b \<Rightarrow> us_marketing_email u = b)
     \<and> (case cft_push_opt_in f of None \<Rightarrow> True | Some b \<Rightarrow> us_marketing_push u = b)"

record customer_item =
  cit_id :: int
  cit_email :: "string option"
  cit_full_name :: "string option"
  cit_phone :: "string option"
  cit_active :: bool
  cit_verified :: bool
  cit_email_opt_in :: bool
  cit_push_opt_in :: bool
  cit_order_count :: nat
  cit_total_spent :: rat
  cit_last_order_at :: "instant option"
  cit_points :: int

definition orders_of_customer :: "int \<Rightarrow> order list \<Rightarrow> order list" where
  "orders_of_customer uid orders = filter (\<lambda>x. ord_user_id x = Some uid) orders"

definition build_customer_item :: "order list \<Rightarrow> loyalty_account list \<Rightarrow> account \<Rightarrow> customer_item" where
  "build_customer_item orders points u =
     (let os = orders_of_customer (us_id u) orders
      in \<lparr>cit_id = us_id u, cit_email = us_email u, cit_full_name = us_full_name u, cit_phone = us_phone u, cit_active = us_active u,
          cit_verified = (us_verified_at u \<noteq> None), cit_email_opt_in = us_marketing_email u, cit_push_opt_in = us_marketing_push u,
          cit_order_count = length os, cit_total_spent = money (sum_list (map ord_total os)),
          cit_last_order_at = (if os = [] then None else Some (Max (set (map ord_created_at os)))),
          cit_points = (case find (\<lambda>l. la_user_id l = us_id u) points of None \<Rightarrow> 0 | Some l \<Rightarrow> la_points l)\<rparr>)"

definition customers_sorted :: "(int \<Rightarrow> instant) \<Rightarrow> account list \<Rightarrow> account list" where
  "customers_sorted created us = sort_key (\<lambda>u. - created (us_id u)) (sort_key (\<lambda>u. - us_id u) us)"

definition list_customers ::
    "(string \<Rightarrow> string \<Rightarrow> bool) \<Rightarrow> (int \<Rightarrow> instant) \<Rightarrow> customer_filter \<Rightarrow> nat \<Rightarrow> nat \<Rightarrow> order list \<Rightarrow> loyalty_account list \<Rightarrow> accounts
      \<Rightarrow> customer_item list \<times> nat" where
  "list_customers ilike created f page page_size orders points a =
     (let us = filter (customer_selected ilike f) (ac_users a)
      in (map (build_customer_item orders points) (customer_page page page_size (customers_sorted created us)), length us))"

definition get_customer :: "int \<Rightarrow> accounts \<Rightarrow> account res" where
  "get_customer cid a =
     (case get_user cid a of
        None \<Rightarrow> Inl (AppError ''CUSTOMER_NOT_FOUND'' 404)
      | Some u \<Rightarrow> if us_role u = ''customer'' then Inr u else Inl (AppError ''CUSTOMER_NOT_FOUND'' 404))"

definition communications_of :: "int \<Rightarrow> customer_desk \<Rightarrow> communication list" where
  "communications_of cid s = sort_key (\<lambda>c. - cmn_created_at c) (sort_key (\<lambda>c. - cmn_id c)
     (filter (\<lambda>c. cmn_user_id c = cid) (cds_communications s)))"

definition list_customer_communications :: "int \<Rightarrow> nat \<Rightarrow> nat \<Rightarrow> accounts \<Rightarrow> customer_desk \<Rightarrow> (communication list \<times> nat) res" where
  "list_customer_communications cid page page_size a s =
     rbind (get_customer cid a) (\<lambda>_.
       Inr (customer_page page page_size (communications_of cid s), length (communications_of cid s)))"

subsection \<open>Messages\<close>

record message_template =
  tpl_key :: string
  tpl_type :: message_type
  tpl_subject :: string
  tpl_body :: string

definition message_templates :: "message_template list" where
  "message_templates =
     [\<lparr>tpl_key = ''promo'', tpl_type = Marketing, tpl_subject = ''Une offre vous attend'',
       tpl_body = ''Une nouvelle offre est disponible dans votre application.''\<rparr>,
      \<lparr>tpl_key = ''order_delay'', tpl_type = Transactional, tpl_subject = ''Votre commande prend un peu de retard'',
       tpl_body = ''Votre commande prend un peu de retard. Merci pour votre patience.''\<rparr>,
      \<lparr>tpl_key = ''loyalty'', tpl_type = Transactional, tpl_subject = ''Vos avantages fidelite'',
       tpl_body = ''Consultez vos avantages fidelite disponibles dans l'application.''\<rparr>]"

record message_request =
  mrq_channels :: "channel list"
  mrq_type :: message_type
  mrq_template_key :: "string option"
  mrq_subject :: "string option"
  mrq_body :: "string option"

definition message_request_valid :: "message_request \<Rightarrow> bool" where
  "message_request_valid b \<longleftrightarrow> 1 \<le> length (mrq_channels b) \<and> length (mrq_channels b) \<le> 2
     \<and> (case mrq_subject b of None \<Rightarrow> True | Some t \<Rightarrow> length t \<le> 255)
     \<and> (case mrq_body b of None \<Rightarrow> True | Some t \<Rightarrow> 1 \<le> length t \<and> length t \<le> 2000)
     \<and> (given_text (mrq_template_key b) \<or> given_text (mrq_body b))
     \<and> \<not> (Ch_email \<in> set (mrq_channels b) \<and> \<not> given_text (mrq_subject b) \<and> \<not> given_text (mrq_template_key b))"

text \<open>Subject, text, key and type of what is sent: a template decides the type.\<close>

record message =
  msg_subject :: "string option"
  msg_text :: string
  msg_template_key :: "string option"
  msg_type :: message_type

definition resolve_message :: "message_request \<Rightarrow> message res" where
  "resolve_message b =
     (let template = (if given_text (mrq_template_key b) then find (\<lambda>t. Some (tpl_key t) = mrq_template_key b) message_templates else None)
      in if given_text (mrq_template_key b) \<and> template = None then Inl (AppError ''MESSAGE_TEMPLATE_NOT_FOUND'' 404)
         else
           let subject = (if given_text (mrq_subject b) then mrq_subject b else map_option tpl_subject template);
               txt1 = (if given_text (mrq_body b) then mrq_body b else map_option tpl_body template)
           in if \<not> given_text txt1 then Inl (AppError ''MESSAGE_BODY_REQUIRED'' 422)
              else Inr \<lparr>msg_subject = subject, msg_text = the txt1, msg_template_key = mrq_template_key b,
                        msg_type = (case template of None \<Rightarrow> mrq_type b | Some t \<Rightarrow> tpl_type t)\<rparr>)"

definition can_send :: "account \<Rightarrow> channel \<Rightarrow> message_type \<Rightarrow> bool" where
  "can_send u ch ty =
     (if ty = Transactional then True
      else case ch of Ch_email \<Rightarrow> us_marketing_email u | Ch_push \<Rightarrow> us_marketing_push u)"

datatype message_action = Email_job int | Push_message int string string

text \<open>The row for one channel. \<open>pool\<close> tells whether a queue is configured; without one an e-mail is only recorded.\<close>

definition message_row :: "instant \<Rightarrow> bool \<Rightarrow> int \<Rightarrow> int \<Rightarrow> message \<Rightarrow> account \<Rightarrow> channel \<Rightarrow> communication" where
  "message_row now pool key who m u ch =
     (let base = \<lparr>cmn_id = key, cmn_user_id = us_id u, cmn_channel = ch, cmn_type = msg_type m, cmn_template_key = msg_template_key m,
            cmn_subject = msg_subject m, cmn_body = msg_text m, cmn_status = Cs_skipped, cmn_error = Some ''marketing_opt_out'',
            cmn_sent_by = Some who, cmn_created_at = now, cmn_sent_at = None\<rparr>
      in if \<not> can_send u ch (msg_type m) then base
         else case ch of
           Ch_push \<Rightarrow> base\<lparr>cmn_status := Cs_sent, cmn_error := None, cmn_sent_at := Some now\<rparr>
         | Ch_email \<Rightarrow> if pool then base\<lparr>cmn_status := Cs_queued, cmn_error := None\<rparr>
             else base\<lparr>cmn_error := Some ''email_worker_unavailable''\<rparr>)"

record send_result =
  snd_rows :: "communication list"
  snd_ids :: "int list"
  snd_skipped :: nat
  snd_actions :: "message_action list"

fun send_channels :: "instant \<Rightarrow> bool \<Rightarrow> int \<Rightarrow> int \<Rightarrow> message \<Rightarrow> account \<Rightarrow> channel list \<Rightarrow> send_result" where
  "send_channels now pool key who m u [] = \<lparr>snd_rows = [], snd_ids = [], snd_skipped = 0, snd_actions = []\<rparr>"
| "send_channels now pool key who m u (ch # chs) =
     (let r = send_channels now pool (key + 1) who m u chs; row = message_row now pool key who m u ch
      in if \<not> can_send u ch (msg_type m) then r\<lparr>snd_rows := row # snd_rows r, snd_skipped := snd_skipped r + 1\<rparr>
         else case ch of
           Ch_email \<Rightarrow>
             if pool then r\<lparr>snd_rows := row # snd_rows r, snd_ids := key # snd_ids r, snd_actions := Email_job key # snd_actions r\<rparr>
             else r\<lparr>snd_rows := row # snd_rows r, snd_ids := key # snd_ids r, snd_skipped := snd_skipped r + 1\<rparr>
         | Ch_push \<Rightarrow> r\<lparr>snd_rows := row # snd_rows r, snd_ids := key # snd_ids r,
             snd_actions := Push_message (us_id u) (if given_text (msg_subject m) then the (msg_subject m) else ''Message'') (msg_text m)
               # snd_actions r\<rparr>)"

definition send_to_user :: "instant \<Rightarrow> bool \<Rightarrow> int \<Rightarrow> int \<Rightarrow> message_request \<Rightarrow> account \<Rightarrow> send_result res" where
  "send_to_user now pool key who b u = rbind (resolve_message b) (\<lambda>m. Inr (send_channels now pool key who m u (mrq_channels b)))"

text \<open>Nothing is handed over where no queue is configured.\<close>

definition dispatch_message_actions :: "bool \<Rightarrow> message_action list \<Rightarrow> message_action list" where
  "dispatch_message_actions pool acts = (if pool then acts else [])"

record send_out =
  sno_created :: nat
  sno_skipped :: nat
  sno_ids :: "int list"

definition send_customer_message ::
    "instant \<Rightarrow> bool \<Rightarrow> int \<Rightarrow> staff_actor \<Rightarrow> int \<Rightarrow> message_request \<Rightarrow> accounts \<Rightarrow> customer_desk
      \<Rightarrow> (customer_desk \<times> send_out \<times> message_action list) res" where
  "send_customer_message now pool key who cid b a s =
     (if \<not> message_request_valid b then Inl (AppError [] 422)
      else rbind (get_customer cid a) (\<lambda>u.
        rbind (send_to_user now pool key (sta_id who) b u) (\<lambda>r.
          Inr (record_admin_audit now who ''customer_message_sent'' ''customer'' (py_str_int cid) None (snd_ids r)
                 (s\<lparr>cds_communications := cds_communications s @ snd_rows r\<rparr>),
               \<lparr>sno_created = length (snd_ids r), sno_skipped = snd_skipped r, sno_ids = snd_ids r\<rparr>,
               dispatch_message_actions pool (snd_actions r)))))"

record bulk_request =
  brq_message :: message_request
  brq_ids :: "int list option"
  brq_filter :: customer_filter
  brq_confirm :: bool

definition bulk_request_valid :: "bulk_request \<Rightarrow> bool" where
  "bulk_request_valid b \<longleftrightarrow> message_request_valid (brq_message b) \<and> brq_ids b \<noteq> Some []
     \<and> (case cft_query (brq_filter b) of None \<Rightarrow> True | Some q \<Rightarrow> length q \<le> 255)
     \<and> (brq_ids b \<noteq> None \<or> cft_query (brq_filter b) \<noteq> None \<or> cft_active (brq_filter b) \<noteq> None \<or> cft_verified (brq_filter b) \<noteq> None
        \<or> cft_email_opt_in (brq_filter b) \<noteq> None \<or> cft_push_opt_in (brq_filter b) \<noteq> None)
     \<and> brq_confirm b"

definition bulk_users :: "(string \<Rightarrow> string \<Rightarrow> bool) \<Rightarrow> bulk_request \<Rightarrow> accounts \<Rightarrow> account list" where
  "bulk_users ilike b a =
     sort_key us_id (filter (\<lambda>u. customer_selected ilike (brq_filter b) u
       \<and> (case brq_ids b of None \<Rightarrow> True | Some ids \<Rightarrow> us_id u \<in> set ids)) (ac_users a))"

fun send_to_users :: "instant \<Rightarrow> bool \<Rightarrow> int \<Rightarrow> int \<Rightarrow> message \<Rightarrow> channel list \<Rightarrow> account list \<Rightarrow> send_result" where
  "send_to_users now pool key who m chs [] = \<lparr>snd_rows = [], snd_ids = [], snd_skipped = 0, snd_actions = []\<rparr>"
| "send_to_users now pool key who m chs (u # us) =
     (let r = send_channels now pool key who m u chs; q = send_to_users now pool (key + int (length chs)) who m chs us
      in \<lparr>snd_rows = snd_rows r @ snd_rows q, snd_ids = snd_ids r @ snd_ids q, snd_skipped = snd_skipped r + snd_skipped q,
          snd_actions = snd_actions r @ snd_actions q\<rparr>)"

text \<open>The message is resolved for each customer, so an unusable one is refused only where there is somebody to send it to.\<close>

definition send_bulk_customer_message ::
    "(string \<Rightarrow> string \<Rightarrow> bool) \<Rightarrow> instant \<Rightarrow> bool \<Rightarrow> int \<Rightarrow> staff_actor \<Rightarrow> bulk_request \<Rightarrow> accounts \<Rightarrow> customer_desk
      \<Rightarrow> (customer_desk \<times> send_out \<times> message_action list) res" where
  "send_bulk_customer_message ilike now pool key who b a s =
     (if \<not> bulk_request_valid b then Inl (AppError [] 422)
      else
        let us = bulk_users ilike b a
        in rbind (if us = [] then Inr \<lparr>snd_rows = [], snd_ids = [], snd_skipped = 0, snd_actions = []\<rparr>
             else rbind (resolve_message (brq_message b)) (\<lambda>m.
               Inr (send_to_users now pool key (sta_id who) m (mrq_channels (brq_message b)) us))) (\<lambda>r.
           Inr (record_admin_audit now who ''customer_bulk_message_sent'' ''customer_segment'' ''bulk'' None (snd_ids r)
                  (s\<lparr>cds_communications := cds_communications s @ snd_rows r\<rparr>),
                \<lparr>sno_created = length (snd_ids r), sno_skipped = snd_skipped r, sno_ids = snd_ids r\<rparr>,
                dispatch_message_actions pool (snd_actions r))))"

text \<open>The worker: \<open>smtp\<close> is \<open>None\<close> where no mail server is configured, and otherwise tells what sending raises, if anything. The
  third component is the mail handed to the server. A failure is committed and raised again.\<close>

definition set_communication :: "int \<Rightarrow> comm_status \<Rightarrow> string option \<Rightarrow> customer_desk \<Rightarrow> customer_desk" where
  "set_communication k st err s =
     s\<lparr>cds_communications := row_upd cmn_id k (\<lambda>c. c\<lparr>cmn_status := st, cmn_error := err\<rparr>) (cds_communications s)\<rparr>"

definition send_customer_communication_email ::
    "(string option \<Rightarrow> string \<Rightarrow> string \<Rightarrow> string option) option \<Rightarrow> instant \<Rightarrow> int \<Rightarrow> accounts \<Rightarrow> customer_desk
      \<Rightarrow> customer_desk \<times> unit res \<times> (string option \<times> string \<times> string) list" where
  "send_customer_communication_email smtp now k a s =
     (case row_get cmn_id k (cds_communications s) of
        None \<Rightarrow> (s, Inr (), [])
      | Some c \<Rightarrow>
          if cmn_channel c \<noteq> Ch_email then (s, Inr (), [])
          else (case get_user (cmn_user_id c) a of
              None \<Rightarrow> (set_communication k Cs_skipped (Some ''customer_unavailable'') s, Inr (), [])
            | Some u \<Rightarrow>
                if us_role u \<noteq> ''customer'' \<or> \<not> us_active u
                then (set_communication k Cs_skipped (Some ''customer_unavailable'') s, Inr (), [])
                else
                  let subject = (if given_text (cmn_subject c) then the (cmn_subject c) else ''Message'')
                  in (case smtp of
                        None \<Rightarrow> (set_communication k Cs_skipped (Some ''smtp_not_configured'') s, Inr (), [])
                      | Some send \<Rightarrow>
                          (case send (us_email u) subject (cmn_body c) of
                             None \<Rightarrow> (s\<lparr>cds_communications := row_upd cmn_id k (\<lambda>x. x\<lparr>cmn_status := Cs_sent, cmn_sent_at := Some now, cmn_error := None\<rparr>)
                                 (cds_communications s)\<rparr>, Inr (), [(us_email u, subject, cmn_body c)])
                           | Some err \<Rightarrow> (set_communication k Cs_failed (Some (take 1000 err)) s, Inl (AppError err 500), [])))))"

subsection \<open>Privacy\<close>

definition deactivate_customer ::
    "instant \<Rightarrow> staff_actor \<Rightarrow> int \<Rightarrow> string \<Rightarrow> string \<Rightarrow> deny_list option \<Rightarrow> accounts \<Rightarrow> customer_desk
      \<Rightarrow> (accounts \<times> customer_desk \<times> deny_list option) res" where
  "deactivate_customer now who cid slug reason d a s =
     rbind (get_customer cid a) (\<lambda>u.
       Inr (revoke_user_sessions now cid (put_user (u\<lparr>us_active := False\<rparr>) a),
            record_admin_audit now who ''customer_privacy_delete'' ''customer'' (py_str_int cid) (Some reason) [] s,
            cut_off now cid slug ''customer_privacy_delete'' d))"

definition anonymized_email :: "int \<Rightarrow> string" where
  "anonymized_email cid = ''anon-'' @ py_str_int cid @ ''@deleted.local''"

definition anonymized_order :: "int \<Rightarrow> order \<Rightarrow> order" where
  "anonymized_order cid x =
     (if ord_user_id x = Some cid then x\<lparr>ord_customer_email := Some (anonymized_email cid), ord_customer_name := Some ''Client anonymise'',
        ord_customer_phone := None\<rparr> else x)"

text \<open>The address is unique among the accounts.\<close>

definition anonymize_customer ::
    "instant \<Rightarrow> staff_actor \<Rightarrow> int \<Rightarrow> string \<Rightarrow> string \<Rightarrow> deny_list option \<Rightarrow> order list \<Rightarrow> accounts \<Rightarrow> customer_desk
      \<Rightarrow> (accounts \<times> order list \<times> customer_desk \<times> deny_list option) res" where
  "anonymize_customer now who cid slug reason d orders a s =
     rbind (get_customer cid a) (\<lambda>u.
       if list_ex (\<lambda>x. us_id x \<noteq> cid \<and> us_email x = Some (anonymized_email cid)) (ac_users a) then Inl IntegrityError
       else Inr (revoke_user_sessions now cid (put_user (u\<lparr>us_email := Some (anonymized_email cid), us_full_name := Some ''Client anonymise'',
                   us_phone := None, us_active := False, us_marketing_email := False, us_marketing_push := False\<rparr>) a),
                 map (anonymized_order cid) orders,
                 record_admin_audit now who ''customer_anonymized'' ''customer'' (py_str_int cid) (Some reason) [] s,
                 cut_off now cid slug ''customer_anonymized'' d))"

end
