(* ===== verification/Auth_Sessions.thy ===== *)
theory Auth_Sessions
  imports Customer_Admin Machines
begin

text \<open>
  Every operation on accounts as a step, and what all of them do to the sessions: rows are only added, under a lookup that
  was never used, and a revoked row stays revoked. From this follows what a refresh token is worth after it was used or
  after its account was cut off.
\<close>

subsection \<open>Steps\<close>

text \<open>The operations within one restaurant. The last step is what other modules do to accounts: drivers and loyalty customers
  are entered, restaurants are suspended and resumed; none of these writes a session.\<close>

inductive account_step :: "crypto \<Rightarrow> accounts \<Rightarrow> accounts \<Rightarrow> bool" for cy where
  acstep_setup_mfa: "setup_mfa cy secret codes uid a = Inr (a', out) \<Longrightarrow> account_step cy a a'"
| acstep_confirm_mfa: "confirm_mfa cy now uid code a = Inr a' \<Longrightarrow> account_step cy a a'"
| acstep_backup_codes: "regenerate_mfa_backup_codes cy now codes uid code a = Inr (a', out) \<Longrightarrow> account_step cy a a'"
| acstep_logout: "account_step cy a (logout now uid a)"
| acstep_revoke_session: "revoke_session now session_id uid a = Inr a' \<Longrightarrow> account_step cy a a'"
| acstep_revoke_all: "revoke_all_sessions now uid slug current revoke_current d a = (a', d') \<Longrightarrow> account_step cy a a'"
| acstep_change_password: "change_password cy now uid old new_password kept_session a = Inr a' \<Longrightarrow> account_step cy a a'"
| acstep_verify_email: "verify_email now token a = Inr a' \<Longrightarrow> account_step cy a a'"
| acstep_resend: "resend_verification now token uid a = Inr (a', out) \<Longrightarrow> account_step cy a a'"
| acstep_create_user: "create_user cy now key temporary email full_name role permissions a = Inr (a', r) \<Longrightarrow> account_step cy a a'"
| acstep_permissions: "update_user_permissions now uid slug ps d a = Inr (a', d') \<Longrightarrow> account_step cy a a'"
| acstep_deactivate: "deactivate_user now uid slug d a = Inr (a', d') \<Longrightarrow> account_step cy a a'"
| acstep_reactivate: "reactivate_user uid slug d a = Inr (a', d') \<Longrightarrow> account_step cy a a'"
| acstep_admin_reset: "admin_reset_password cy now temporary uid slug d a = Inr (a', d') \<Longrightarrow> account_step cy a a'"
| acstep_register: "register_customer cy now key mi token slug b a = (a', r) \<Longrightarrow> account_step cy a a'"
| acstep_start_phone: "start_phone_auth cy now key secret code phone a = Inr (a', out) \<Longrightarrow> account_step cy a a'"
| acstep_register_phone: "register_phone cy now key secret code name' phone a = Inr (a', out) \<Longrightarrow> account_step cy a a'"
| acstep_verify_phone: "verify_phone_auth cy now mi slug phone code a = (a', r) \<Longrightarrow> account_step cy a a'"
| acstep_profile: "update_profile cy uid b a = Inr (a', u) \<Longrightarrow> account_step cy a a'"
| acstep_delete: "delete_account cy now uid slug password d a = Inr (a', d') \<Longrightarrow> account_step cy a a'"
| acstep_deactivate_customer: "deactivate_customer now who cid slug reason d a cs = Inr (a', cs', d') \<Longrightarrow> account_step cy a a'"
| acstep_anonymize_customer:
    "anonymize_customer now who cid slug reason d orders a cs = Inr (a', orders', cs', d') \<Longrightarrow> account_step cy a a'"
| acstep_other: "ac_sessions a' = ac_sessions a \<Longrightarrow> account_step cy a a'"

text \<open>All restaurants together, with the operations that find their restaurant themselves, and restaurants being opened.\<close>

inductive auth_step :: "crypto \<Rightarrow> tenancies \<Rightarrow> tenancies \<Rightarrow> bool" for cy where
  austep_account: "pf slug = Some a \<Longrightarrow> account_step cy a a' \<Longrightarrow> auth_step cy pf (pf(slug \<mapsto> a'))"
| austep_login: "login cy now mi slug email password code pf = Inr (pf', t) \<Longrightarrow> auth_step cy pf pf'"
| austep_refresh: "refresh_token cy now mi token pf = Inr (pf', t) \<Longrightarrow> auth_step cy pf pf'"
| austep_forgot: "forgot_password cy now token slug email pf = (pf', out) \<Longrightarrow> auth_step cy pf pf'"
| austep_reset: "reset_password cy now slug email token new_password d pf = Inr (pf', d') \<Longrightarrow> auth_step cy pf pf'"
| austep_open: "pf slug = None \<Longrightarrow> ac_sessions a = [] \<Longrightarrow> auth_step cy pf (pf(slug \<mapsto> a))"

subsection \<open>What happens to session rows\<close>

definition same_row :: "refresh_row \<Rightarrow> refresh_row \<Rightarrow> bool" where
  "same_row r r' \<longleftrightarrow> rt_id r' = rt_id r \<and> rt_user_id r' = rt_user_id r \<and> rt_hash r' = rt_hash r \<and> rt_lookup r' = rt_lookup r
     \<and> (rt_revoked_at r \<noteq> None \<longrightarrow> rt_revoked_at r' = rt_revoked_at r)"

definition fresh_rows :: "refresh_row list \<Rightarrow> refresh_row list \<Rightarrow> bool" where
  "fresh_rows old news \<longleftrightarrow> distinct (map rt_lookup news) \<and> (\<forall>r \<in> set news. rt_lookup r \<noteq> None \<and> rt_lookup r \<notin> rt_lookup ` set old)"

definition sessions_grow :: "accounts \<Rightarrow> accounts \<Rightarrow> bool" where
  "sessions_grow a a' \<longleftrightarrow> (\<exists>g news. ac_sessions a' = map g (ac_sessions a) @ news \<and> (\<forall>r. same_row r (g r)) \<and> fresh_rows (ac_sessions a) news)"

lemma same_row_refl [simp]: "same_row r r"
  by (simp add: same_row_def)

lemma same_row_trans: "same_row r s \<Longrightarrow> same_row s t \<Longrightarrow> same_row r t"
  by (auto simp: same_row_def)

lemma grow_same: "ac_sessions a' = ac_sessions a \<Longrightarrow> sessions_grow a a'"
  unfolding sessions_grow_def by (rule exI [of _ id], rule exI [of _ "[]"]) (simp add: fresh_rows_def)

lemma grow_users [simp]: "ac_sessions (put_user u a) = ac_sessions a" "ac_sessions (add_user u a) = ac_sessions a"
  by (simp_all add: put_user_def add_user_def)

lemma grow_revoke: "ac_sessions a0 = ac_sessions a \<Longrightarrow> sessions_grow a (revoke_where now p a0)"
  unfolding sessions_grow_def revoke_where_def
  by (rule exI [of _ "\<lambda>r. if rt_revoked_at r = None \<and> p r then r\<lparr>rt_revoked_at := Some now\<rparr> else r"], rule exI [of _ "[]"])
     (simp add: fresh_rows_def same_row_def)

lemma lookups_kept: "(\<forall>r. same_row r (g r)) \<Longrightarrow> map rt_lookup (map g rows) = map rt_lookup rows"
  by (simp add: same_row_def)

lemma grow_issue:
  assumes "issue_tokens cy now mi u tenant_id slug a0 = Inr (a', t)" and "sessions_grow a a0"
  shows "sessions_grow a a'"
proof -
  obtain g news where g: "ac_sessions a0 = map g (ac_sessions a) @ news" "\<forall>r. same_row r (g r)" "fresh_rows (ac_sessions a) news"
    using assms(2) by (auto simp: sessions_grow_def)
  obtain row where row: "ac_sessions a' = ac_sessions a0 @ [row]" "rt_lookup row \<noteq> None" "rt_lookup row \<notin> rt_lookup ` set (ac_sessions a0)"
    using assms(1) by (fastforce simp: issue_tokens_def Let_def list_ex_iff split: if_splits)
  have "rt_lookup ` set (map g (ac_sessions a)) = rt_lookup ` set (ac_sessions a)"
    using arg_cong [OF lookups_kept [OF g(2), of "ac_sessions a"], of set] by (simp only: set_map)
  then have "fresh_rows (ac_sessions a) (news @ [row])"
    using g(1,3) row(2,3) by (auto simp: fresh_rows_def)
  then show ?thesis using g(1,2) row(1) unfolding sessions_grow_def by (intro exI [of _ g] exI [of _ "news @ [row]"]) simp
qed

lemma grow_trans:
  assumes "sessions_grow a b" and "sessions_grow b c"
  shows "sessions_grow a c"
proof -
  obtain g news where g: "ac_sessions b = map g (ac_sessions a) @ news" "\<forall>r. same_row r (g r)" "fresh_rows (ac_sessions a) news"
    using assms(1) by (auto simp: sessions_grow_def)
  obtain h later where h: "ac_sessions c = map h (ac_sessions b) @ later" "\<forall>r. same_row r (h r)" "fresh_rows (ac_sessions b) later"
    using assms(2) by (auto simp: sessions_grow_def)
  have lk: "map rt_lookup (map h news) = map rt_lookup news" "rt_lookup ` set (ac_sessions b) = rt_lookup ` set (ac_sessions a) \<union> rt_lookup ` set news"
    using lookups_kept [OF h(2), of news] arg_cong [OF lookups_kept [OF g(2), of "ac_sessions a"], of set] by (simp_all add: g(1) image_Un image_image)
  have hl: "rt_lookup (h r) = rt_lookup r" for r using h(2) by (simp add: same_row_def)
  have "fresh_rows (ac_sessions a) (map h news @ later)"
    using g(3) h(3) lk(2) unfolding fresh_rows_def map_append lk(1) distinct_append set_append
    by (auto simp: hl) (metis imageI)
  moreover have "\<forall>r. same_row r (h (g r))" using g(2) h(2) same_row_trans by blast
  ultimately show ?thesis
    unfolding sessions_grow_def using g(1) h(1) by (intro exI [of _ "h \<circ> g"] exI [of _ "map h news @ later"]) simp
qed

subsection \<open>Every step adds fresh rows only\<close>

lemma grow_refl [simp, intro]: "sessions_grow a a" and grow_put [simp, intro]: "sessions_grow a (put_user u a)"
  and grow_add [simp, intro]: "sessions_grow a (add_user u a)"
  by (rule grow_same, simp)+

lemma grow_revoke_put [intro]: "sessions_grow a (revoke_where now p (put_user u a))" "sessions_grow a (revoke_where now p a)"
  by (rule grow_revoke, simp)+

lemma grow_put_revoke [intro]: "sessions_grow a (put_user u (revoke_where now p a))"
  using grow_trans [OF grow_revoke_put(2) grow_put] .

lemma grow_authenticate:
  assumes "authenticate cy now mi slug email password code a = Inr (a', t)"
  shows "sessions_grow a a'"
proof -
  obtain u where "issue_tokens cy now mi u (Some (ac_tenant_id a)) slug (put_user u a) = Inr (a', t)"
    using assms by (auto simp: authenticate_def split: option.splits if_splits)
  then show ?thesis by (rule grow_issue) (rule grow_put)
qed

lemma grow_rotate:
  assumes "rotate cy now mi c uid slug token a = Inr (a', t)"
  shows "sessions_grow a a'"
proof -
  obtain r where r: "current_row cy token uid a = Inr r" using assms by (auto simp: rotate_def)
  obtain u where "issue_tokens cy now mi u (cl_tenant_id c) slug (revoke_where now (\<lambda>x. rt_id x = rt_id r) a) = Inr (a', t)"
    using assms by (cases "get_user uid a") (auto simp: rotate_def r split: if_splits)
  then show ?thesis by (rule grow_issue) (rule grow_revoke_put)
qed

lemma grow_register:
  assumes "register_customer cy now key mi token slug b a = (a', r)"
  shows "sessions_grow a a'"
proof -
  consider "a' = a" | u where "a' = add_user u a" | u t where "issue_tokens cy now mi u (Some (ac_tenant_id a)) slug (add_user u a) = Inr (a', t)"
    using assms unfolding register_customer_def Let_def by (auto split: option.splits if_splits sum.splits)
  then show ?thesis
  proof cases
    case 3
    then show ?thesis by (rule grow_issue) (rule grow_add)
  qed auto
qed

lemma grow_verify_phone:
  assumes "verify_phone_auth cy now mi slug phone code a = (a', r)"
  shows "sessions_grow a a'"
proof -
  consider "a' = a" | u where "a' = put_user u a" | u t where "issue_tokens cy now mi u (Some (ac_tenant_id a)) slug (put_user u a) = Inr (a', t)"
    using assms unfolding verify_phone_auth_def Let_def by (auto split: option.splits if_splits sum.splits)
  then show ?thesis
  proof cases
    case 3
    then show ?thesis by (rule grow_issue) (rule grow_put)
  qed auto
qed

lemma grow_profile: "update_profile cy uid b a = Inr (a', u) \<Longrightarrow> sessions_grow a a'"
  unfolding update_profile_def with_user_def Let_def
  by (cases "get_user uid a"; cases "pu_phone b") (auto split: if_splits)

lemma grow_verify_email: "verify_email now token a = Inr a' \<Longrightarrow> sessions_grow a a'"
  by (auto simp: verify_email_def split: option.splits if_splits)

lemma grow_mfa:
  "setup_mfa cy secret codes uid a = Inr (a', out) \<Longrightarrow> sessions_grow a a'"
  "confirm_mfa cy now uid code a = Inr a' \<Longrightarrow> sessions_grow a a'"
  "regenerate_mfa_backup_codes cy now codes uid code a = Inr (a', out) \<Longrightarrow> sessions_grow a a'"
  by (auto simp: setup_mfa_def confirm_mfa_def regenerate_mfa_backup_codes_def split: option.splits if_splits)

lemma grow_phone:
  "start_phone_auth cy now key secret code phone a = Inr (a', out) \<Longrightarrow> sessions_grow a a'"
  "register_phone cy now key secret code full_name phone a = Inr (a', out) \<Longrightarrow> sessions_grow a a'"
  by (auto simp: start_phone_auth_def register_phone_def split: option.splits if_splits)

lemmas session_revokers = logout_def revoke_user_sessions_def revoke_session_def revoke_all_sessions_def change_password_def
  update_user_permissions_def deactivate_user_def admin_reset_password_def delete_account_def reset_in_tenant_def

lemma grow_revokers:
  "revoke_session now session_id uid a = Inr a' \<Longrightarrow> sessions_grow a a'"
  "revoke_all_sessions now uid slug current revoke_current d a = (a', d') \<Longrightarrow> sessions_grow a a'"
  "change_password cy now uid old new_password kept_session a = Inr a' \<Longrightarrow> sessions_grow a a'"
  "update_user_permissions now uid slug ps d a = Inr (a', d') \<Longrightarrow> sessions_grow a a'"
  "deactivate_user now uid slug d a = Inr (a', d') \<Longrightarrow> sessions_grow a a'"
  "admin_reset_password cy now temporary uid slug d a = Inr (a', d') \<Longrightarrow> sessions_grow a a'"
  "delete_account cy now uid slug password d a = Inr (a', d') \<Longrightarrow> sessions_grow a a'"
  "reset_in_tenant cy now email token new_password a = Inr (a', uid) \<Longrightarrow> sessions_grow a a'"
  by (auto simp: session_revokers with_user_def split: option.splits if_splits)

lemma grow_customer_off:
  "deactivate_customer now who cid slug reason d a cs = Inr (a', cs', d') \<Longrightarrow> sessions_grow a a'"
  "anonymize_customer now who cid slug reason d orders a cs = Inr (a', orders', cs', d') \<Longrightarrow> sessions_grow a a'"
  by (auto simp: deactivate_customer_def anonymize_customer_def revoke_user_sessions_def grow_revoke split: if_splits)

lemma account_step_grows: "account_step cy a a' \<Longrightarrow> sessions_grow a a'"
proof (induction rule: account_step.induct)
  case (acstep_logout a now uid)
  then show ?case by (simp add: logout_def revoke_user_sessions_def grow_revoke_put)
next
  case (acstep_resend now token uid a a' out)
  then show ?case by (auto simp: resend_verification_def split: option.splits if_splits)
next
  case (acstep_create_user now key temporary email full_name role permissions a a' r)
  then show ?case by (auto simp: create_user_def split: if_splits)
next
  case (acstep_reactivate uid slug d a a' d')
  then show ?case by (auto simp: reactivate_user_def with_user_def split: option.splits)
next
  case (acstep_other a' a)
  then show ?case by (rule grow_same)
qed (blast dest: grow_customer_off grow_mfa grow_phone grow_register grow_verify_phone grow_profile grow_verify_email grow_revokers)+

definition tenancies_grow :: "tenancies \<Rightarrow> tenancies \<Rightarrow> bool" where
  "tenancies_grow pf pf' \<longleftrightarrow> (\<forall>slug a. pf slug = Some a \<longrightarrow> (\<exists>a'. pf' slug = Some a' \<and> sessions_grow a a'))"

lemma on_tenantD: "on_tenant slug e g pf = Inr (pf', r) \<Longrightarrow> \<exists>a a'. pf slug = Some a \<and> g a = Inr (a', r) \<and> pf' = pf(slug \<mapsto> a')"
  by (auto simp: on_tenant_def split: option.splits)

text \<open>A step changes one restaurant, opens one, or changes none.\<close>

definition one_tenant :: "tenancies \<Rightarrow> tenancies \<Rightarrow> bool" where
  "one_tenant pf pf' \<longleftrightarrow> pf' = pf \<or> (\<exists>slug a a'. pf slug = Some a \<and> sessions_grow a a' \<and> pf' = pf(slug \<mapsto> a'))
     \<or> (\<exists>slug a'. pf slug = None \<and> ac_sessions a' = [] \<and> pf' = pf(slug \<mapsto> a'))"

lemma one_tenantI: "pf slug = Some a \<Longrightarrow> sessions_grow a a' \<Longrightarrow> one_tenant pf (pf(slug \<mapsto> a'))"
  by (auto simp: one_tenant_def)

lemma auth_step_one:
  assumes "auth_step cy pf pf'"
  shows "one_tenant pf pf'"
  using assms
proof (cases rule: auth_step.cases)
  case (austep_account slug a a')
  then show ?thesis using account_step_grows one_tenantI by blast
next
  case (austep_login now mi slug email password code t)
  then obtain a a' where "pf slug = Some a" "authenticate cy now mi slug email password code a = Inr (a', t)" "pf' = pf(slug \<mapsto> a')"
    unfolding login_def using on_tenantD by metis
  then show ?thesis using grow_authenticate one_tenantI by metis
next
  case (austep_refresh now mi token t)
  then obtain c slug uid where "on_tenant slug (AppError ''UndefinedTable'' 500) (rotate cy now mi c uid slug token) pf = Inr (pf', t)"
    by (auto simp: refresh_token_def split: option.splits if_splits)
  then obtain a a' where "pf slug = Some a" "rotate cy now mi c uid slug token a = Inr (a', t)" "pf' = pf(slug \<mapsto> a')" using on_tenantD by metis
  then show ?thesis using grow_rotate one_tenantI by metis
next
  case (austep_forgot now token slug email out)
  have "pf' = pf \<or> (\<exists>a u. pf slug = Some a \<and> pf' = pf(slug \<mapsto> put_user u a))"
    using austep_forgot by (auto simp: forgot_password_def split: option.splits)
  then show ?thesis using grow_put by (auto simp: one_tenant_def)
next
  case (austep_reset now slug email token new_password d d')
  then obtain uid where "on_tenant slug (AppError ''INVALID_TOKEN'' 400) (reset_in_tenant cy now email token new_password) pf = Inr (pf', uid)"
    by (auto simp: reset_password_def split: if_splits)
  then obtain a a' where a: "pf slug = Some a" "reset_in_tenant cy now email token new_password a = Inr (a', uid)" "pf' = pf(slug \<mapsto> a')"
    using on_tenantD by metis
  from grow_revokers(8) [OF a(2)] show ?thesis using a one_tenantI by metis
next
  case (austep_open slug a)
  then show ?thesis unfolding one_tenant_def by blast
qed

lemma auth_step_grows: "auth_step cy pf pf' \<Longrightarrow> tenancies_grow pf pf'"
  using auth_step_one [of cy pf pf'] grow_refl by (auto simp: one_tenant_def tenancies_grow_def)

lemma auth_run_grows: "(auth_step cy)\<^sup>*\<^sup>* pf pf' \<Longrightarrow> tenancies_grow pf pf'"
proof (induction rule: rtranclp_induct)
  case base
  then show ?case using grow_refl by (auto simp: tenancies_grow_def)
next
  case (step y z)
  then show ?case using auth_step_grows [OF step(2)] grow_trans unfolding tenancies_grow_def by meson
qed

subsection \<open>Dead tokens stay dead\<close>

text \<open>Every row has its lookup (rows older than the lookups are gone), and lookups are unique, as the table demands.\<close>

definition sessions_ok :: "accounts \<Rightarrow> bool" where
  "sessions_ok a \<longleftrightarrow> distinct (map rt_lookup (ac_sessions a)) \<and> (\<forall>r \<in> set (ac_sessions a). rt_lookup r \<noteq> None)"

definition tenancies_ok :: "tenancies \<Rightarrow> bool" where
  "tenancies_ok pf \<longleftrightarrow> (\<forall>slug a. pf slug = Some a \<longrightarrow> sessions_ok a)"

definition token_dead :: "string \<Rightarrow> accounts \<Rightarrow> bool" where
  "token_dead l a \<longleftrightarrow> (\<exists>r \<in> set (ac_sessions a). rt_lookup r = Some l \<and> rt_revoked_at r \<noteq> None)"

lemma sessions_ok_grow:
  assumes "sessions_ok a" and "sessions_grow a a'"
  shows "sessions_ok a'"
proof -
  obtain g news where g: "ac_sessions a' = map g (ac_sessions a) @ news" "\<forall>r. same_row r (g r)" "fresh_rows (ac_sessions a) news"
    using assms(2) by (auto simp: sessions_grow_def)
  have lk: "rt_lookup (g r) = rt_lookup r" for r using g(2) by (simp add: same_row_def)
  have "map rt_lookup (ac_sessions a') = map rt_lookup (ac_sessions a) @ map rt_lookup news" using lookups_kept [OF g(2)] by (simp only: g(1) map_append)
  then have "distinct (map rt_lookup (ac_sessions a'))" using assms(1) g(3) by (auto simp: sessions_ok_def fresh_rows_def) (metis imageI)
  moreover have "\<forall>r \<in> set (ac_sessions a'). rt_lookup r \<noteq> None" using assms(1) g(1,3) lk by (auto simp: sessions_ok_def fresh_rows_def)
  ultimately show ?thesis by (simp add: sessions_ok_def)
qed

lemma token_dead_grow: "token_dead l a \<Longrightarrow> sessions_grow a a' \<Longrightarrow> token_dead l a'"
proof -
  assume dead: "token_dead l a" and "sessions_grow a a'"
  then obtain g news where g: "ac_sessions a' = map g (ac_sessions a) @ news" "\<forall>r. same_row r (g r)" by (auto simp: sessions_grow_def)
  obtain r where r: "r \<in> set (ac_sessions a)" "rt_lookup r = Some l" "rt_revoked_at r \<noteq> None" using dead by (auto simp: token_dead_def)
  have "same_row r (g r)" using g(2) by blast
  then have "rt_lookup (g r) = Some l" "rt_revoked_at (g r) \<noteq> None" using r(2,3) by (simp_all add: same_row_def)
  moreover have "g r \<in> set (ac_sessions a')" using r(1) by (simp add: g(1))
  ultimately show ?thesis unfolding token_dead_def by blast
qed

interpretation sessions: invariant_steps "auth_step cy" tenancies_ok
proof
  fix pf pf' assume step: "auth_step cy pf pf'" and ok: "tenancies_ok pf"
  from auth_step_one [OF step] consider "pf' = pf" | slug a a' where "pf slug = Some a" "sessions_grow a a'" "pf' = pf(slug \<mapsto> a')"
    | slug a' where "pf slug = None" "ac_sessions a' = []" "pf' = pf(slug \<mapsto> a')"
    unfolding one_tenant_def by blast
  then show "tenancies_ok pf'"
  proof cases
    case (2 slug a a')
    then have "sessions_ok a'" using ok sessions_ok_grow unfolding tenancies_ok_def by blast
    then show ?thesis using ok 2(3) by (simp add: tenancies_ok_def)
  next
    case (3 slug a')
    then show ?thesis using ok by (simp add: tenancies_ok_def sessions_ok_def)
  qed (simp add: ok)
qed

lemma dead_row_unique:
  assumes "sessions_ok a" and "token_dead l a" and "r \<in> set (ac_sessions a)" and "rt_lookup r = Some l"
  shows "rt_revoked_at r \<noteq> None"
proof -
  obtain q where q: "q \<in> set (ac_sessions a)" "rt_lookup q = Some l" "rt_revoked_at q \<noteq> None" using assms(2) by (auto simp: token_dead_def)
  have "inj_on rt_lookup (set (ac_sessions a))" using assms(1) by (simp add: sessions_ok_def distinct_map)
  then have "q = r" using q(1,2) assms(3,4) by (metis inj_onD)
  then show ?thesis using q(3) by simp
qed

lemma dead_token_refused:
  assumes "sessions_ok a" and "token_dead (cy_lookup cy token) a"
  shows "rotate cy now mi c uid slug token a = Inl (AppError ''INVALID_TOKEN'' 401)"
proof -
  have "find (\<lambda>r. rt_lookup r = Some (cy_lookup cy token) \<and> rt_revoked_at r = None) (ac_sessions a) = None"
    using dead_row_unique [OF assms] by (auto simp: find_None_iff)
  moreover have "filter (\<lambda>r. rt_user_id r = uid \<and> rt_lookup r = None \<and> rt_revoked_at r = None \<and> cy_verify cy token (rt_hash r)) (ac_sessions a) = []"
    using assms(1) by (auto simp: filter_empty_conv sessions_ok_def)
  ultimately show ?thesis by (simp add: rotate_def current_row_def)
qed

text \<open>A token is looked at in the restaurant it names.\<close>

lemma dead_token_not_refreshed:
  assumes "pf slug = Some a" and "sessions_ok a" and "token_dead (cy_lookup cy token) a"
    and "\<And>c. cy_decode cy now token = Some c \<Longrightarrow> cl_tenant_slug c = Some slug \<and> cl_sub c \<noteq> None"
  shows "refresh_token cy now mi token pf = Inl (AppError ''INVALID_TOKEN'' 401)"
proof (cases "cy_decode cy now token")
  case (Some c)
  then obtain uid where "cl_tenant_slug c = Some slug" "cl_sub c = Some uid" using assms(4) by blast
  then show ?thesis using dead_token_refused [OF assms(2,3)] assms(1) by (simp add: refresh_token_def Some on_tenant_def)
qed (simp add: refresh_token_def)

lemma rotate_kills:
  assumes "rotate cy now mi c uid slug token a = Inr (a', t)" and "sessions_ok a"
  shows "token_dead (cy_lookup cy token) a'"
proof -
  obtain r where r: "current_row cy token uid a = Inr r" using assms(1) by (auto simp: rotate_def)
  obtain u where iss: "issue_tokens cy now mi u (cl_tenant_id c) slug (revoke_where now (\<lambda>x. rt_id x = rt_id r) a) = Inr (a', t)"
    using assms by (cases "get_user uid a") (auto simp: rotate_def r split: if_splits)
  have "filter (\<lambda>r. rt_user_id r = uid \<and> rt_lookup r = None \<and> rt_revoked_at r = None \<and> cy_verify cy token (rt_hash r)) (ac_sessions a) = []"
    using assms(2) by (auto simp: filter_empty_conv sessions_ok_def)
  then have "r \<in> set (ac_sessions a)" "rt_lookup r = Some (cy_lookup cy token)" "rt_revoked_at r = None"
    using r by (auto simp: current_row_def find_Some_iff split: option.splits if_splits)
  then have "token_dead (cy_lookup cy token) (revoke_where now (\<lambda>x. rt_id x = rt_id r) a)"
    unfolding token_dead_def revoke_where_def by (intro bexI [of _ "r\<lparr>rt_revoked_at := Some now\<rparr>"]) (auto intro!: image_eqI [of _ _ r])
  then show ?thesis by (rule token_dead_grow) (rule grow_issue [OF iss grow_refl])
qed

text \<open>C36. A refresh token is good for one exchange: once it was exchanged for a new pair, it is refused with 401 in every state the
  accounts can reach, whatever sign-ins, registrations, password changes, deactivations, reactivations, erasures, other exchanges
  and writes of other modules happen in between. The session rows carry the lookups of their tokens (rows older than the
  lookups are gone), and the token is decoded to the same claims whenever its signature and expiry are accepted.\<close>

theorem refresh_is_single_use:
  assumes "refresh_token cy now mi token pf = Inr (pf1, t)" and "(auth_step cy)\<^sup>*\<^sup>* pf1 pf2" and "tenancies_ok pf"
    and "\<And>n c c'. cy_decode cy now token = Some c \<Longrightarrow> cy_decode cy n token = Some c' \<Longrightarrow> c' = c"
  shows "refresh_token cy now' mi' token pf2 = Inl (AppError ''INVALID_TOKEN'' 401)"
proof -
  obtain c slug uid where c: "cy_decode cy now token = Some c" "cl_tenant_slug c = Some slug" "cl_sub c = Some uid"
    and on: "on_tenant slug (AppError ''UndefinedTable'' 500) (rotate cy now mi c uid slug token) pf = Inr (pf1, t)"
    using assms(1) by (auto simp: refresh_token_def split: option.splits if_splits)
  obtain a a1 where a: "pf slug = Some a" "rotate cy now mi c uid slug token a = Inr (a1, t)" "pf1 = pf(slug \<mapsto> a1)" using on_tenantD [OF on] by metis
  have dead: "token_dead (cy_lookup cy token) a1" using rotate_kills [OF a(2)] a(1) assms(3) by (simp add: tenancies_ok_def)
  have "pf1 slug = Some a1" by (simp add: a(3))
  then obtain a2 where a2: "pf2 slug = Some a2" "sessions_grow a1 a2" using auth_run_grows [OF assms(2)] unfolding tenancies_grow_def by blast
  have "tenancies_ok pf2" using sessions.run_inv [OF assms(2)] sessions.step_inv [OF austep_refresh [OF assms(1)] assms(3)] .
  then have "sessions_ok a2" using a2(1) by (simp add: tenancies_ok_def)
  with a2(1) show ?thesis
  proof (rule dead_token_not_refreshed [where slug = slug])
    show "token_dead (cy_lookup cy token) a2" by (rule token_dead_grow [OF dead a2(2)])
    show "cl_tenant_slug c' = Some slug \<and> cl_sub c' \<noteq> None" if "cy_decode cy now' token = Some c'" for c'
      using assms(4) [OF c(1) that] c(2,3) by simp
  qed
qed

text \<open>Cutting an account off (deactivating it, changing its permissions, resetting its password by an administrator) ends its
  sessions for good: a refresh token whose session existed at that moment is refused with 401 in every later state, even after
  the account was reactivated.\<close>

theorem cut_off_sessions_stay_dead:
  assumes "pf slug = Some a" and "tenancies_ok pf"
    and "deactivate_user now uid slug d a = Inr (a1, d1) \<or> update_user_permissions now uid slug ps d a = Inr (a1, d1)
      \<or> admin_reset_password cy now temporary uid slug d a = Inr (a1, d1)"
    and "(auth_step cy)\<^sup>*\<^sup>* (pf(slug \<mapsto> a1)) pf2"
    and "r \<in> set (ac_sessions a)" and "rt_user_id r = uid" and "rt_lookup r = Some (cy_lookup cy token)"
    and "\<And>c. cy_decode cy now' token = Some c \<Longrightarrow> cl_tenant_slug c = Some slug \<and> cl_sub c \<noteq> None"
  shows "refresh_token cy now' mi' token pf2 = Inl (AppError ''INVALID_TOKEN'' 401)"
proof -
  let ?pf1 = "pf(slug \<mapsto> a1)"
  obtain u where a1: "a1 = revoke_user_sessions now uid (put_user u a)"
    using assms(3) by (auto simp: deactivate_user_def update_user_permissions_def admin_reset_password_def with_user_def split: option.splits if_splits)
  have dead: "token_dead (cy_lookup cy token) a1"
    using assms(5-7) unfolding a1 token_dead_def revoke_user_sessions_def revoke_where_def
    by (intro bexI [of _ "if rt_revoked_at r = None then r\<lparr>rt_revoked_at := Some now\<rparr> else r"]) (auto intro!: image_eqI [of _ _ r])
  have "account_step cy a a1"
    using assms(3) acstep_deactivate acstep_permissions acstep_admin_reset by metis
  then have ok1: "tenancies_ok ?pf1" using sessions.step_inv austep_account assms(1,2) by metis
  have "?pf1 slug = Some a1" by simp
  then obtain a2 where a2: "pf2 slug = Some a2" "sessions_grow a1 a2" using auth_run_grows [OF assms(4)] unfolding tenancies_grow_def by blast
  have "sessions_ok a2" using sessions.run_inv [OF assms(4) ok1] a2(1) by (simp add: tenancies_ok_def)
  with a2(1) show ?thesis
    by (rule dead_token_not_refreshed [where slug = slug]) (use token_dead_grow [OF dead a2(2)] assms(8) in blast)+
qed

subsection \<open>A restaurant with one account, and its tokens\<close>

text \<open>Transparent cryptography: hashes and lookups are the text itself.\<close>

definition demo_user :: account where
  "demo_user = (new_account 1 (Some ''ana@example.org'') ''Secret#1'' ''staff'')\<lparr>us_permissions := Some [''orders:read'']\<rparr>"

definition demo_claims :: claims where
  "demo_claims = (payload_of demo_user (Some 4) ''roma'')\<lparr>cl_type := ''refresh'', cl_jti := Some ''j1'', cl_exp := 10 ^ 15\<rparr>"

definition demo_crypto :: crypto where
  "demo_crypto = \<lparr>cy_verify = (=), cy_hash = id, cy_lookup = id, cy_encode = (\<lambda>c. cl_type c @ (case cl_jti c of None \<Rightarrow> [] | Some j \<Rightarrow> j)),
     cy_decode = (\<lambda>now t. if t = ''first'' \<and> now < 10 ^ 15 then Some demo_claims else None), cy_totp = (\<lambda>_ s c. s = c),
     cy_encrypt = Some, cy_decrypt = Plain, cy_super_encrypt = Some, cy_super_decrypt = Plain, cy_access_minutes = 15, cy_refresh_days = 30,
     cy_country_code = ''+33''\<rparr>"

definition demo_row :: refresh_row where
  "demo_row = \<lparr>rt_id = 1, rt_user_id = 1, rt_hash = ''first'', rt_lookup = Some ''first'', rt_created_at = 0, rt_expires_at = 10 ^ 15,
     rt_revoked_at = None, rt_user_agent = None, rt_ip = None\<rparr>"

definition demo_accounts :: accounts where
  "demo_accounts = \<lparr>ac_tenant_id = 4, ac_suspended = False, ac_users = [demo_user], ac_sessions = [demo_row]\<rparr>"

definition demo_tenancies :: tenancies where
  "demo_tenancies = [''roma'' \<mapsto> demo_accounts]"

definition demo_minted :: "int \<Rightarrow> minted" where
  "demo_minted k = \<lparr>mi_key = k, mi_access_jti = ''a'' @ py_str_int k, mi_refresh_jti = ''r'' @ py_str_int k\<rparr>"

lemma demo_ok: "tenancies_ok demo_tenancies"
  by (simp add: tenancies_ok_def demo_tenancies_def sessions_ok_def demo_accounts_def demo_row_def)

lemmas demo_defs = demo_tenancies_def demo_accounts_def demo_row_def demo_user_def demo_crypto_def demo_claims_def new_account_def payload_of_def

theorem refresh_is_single_use_witness:
  "\<exists>pf1 t. refresh_token demo_crypto 5 (demo_minted 2) ''first'' demo_tenancies = Inr (pf1, t)
     \<and> refresh_token demo_crypto 6 (demo_minted 3) ''first'' pf1 = Inl (AppError ''INVALID_TOKEN'' 401)"
proof -
  obtain pf1 t where ok: "refresh_token demo_crypto 5 (demo_minted 2) ''first'' demo_tenancies = Inr (pf1, t)"
    by (simp add: refresh_token_def on_tenant_def rotate_def current_row_def get_user_def row_simps revoke_where_def issue_tokens_def Let_def
        create_access_token_def create_refresh_token_def demo_minted_def demo_defs)
  have stable: "c' = c" if "cy_decode demo_crypto 5 ''first'' = Some c" "cy_decode demo_crypto n ''first'' = Some c'" for n c c'
    using that by (auto simp: demo_crypto_def split: if_splits)
  have "refresh_token demo_crypto 6 (demo_minted 3) ''first'' pf1 = Inl (AppError ''INVALID_TOKEN'' 401)"
    by (rule refresh_is_single_use [OF ok rtranclp.rtrancl_refl demo_ok]) (rule stable)
  then show ?thesis using ok by blast
qed

theorem cut_off_sessions_stay_dead_witness:
  "\<exists>a1 d1. deactivate_user 5 1 ''roma'' None demo_accounts = Inr (a1, d1)
     \<and> refresh_token demo_crypto 6 (demo_minted 3) ''first'' (demo_tenancies(''roma'' \<mapsto> a1)) = Inl (AppError ''INVALID_TOKEN'' 401)"
proof -
  have roma: "demo_tenancies ''roma'' = Some demo_accounts" by (simp add: demo_tenancies_def)
  have user: "get_user 1 demo_accounts = Some demo_user" by (simp add: get_user_def demo_accounts_def row_simps demo_user_def new_account_def)
  obtain a1 d1 where ok: "deactivate_user 5 1 ''roma'' None demo_accounts = Inr (a1, d1)"
    by (simp add: deactivate_user_def with_user_def user)
  have row: "demo_row \<in> set (ac_sessions demo_accounts)" "rt_user_id demo_row = 1" "rt_lookup demo_row = Some (cy_lookup demo_crypto ''first'')"
    by (simp_all add: demo_accounts_def demo_row_def demo_crypto_def)
  have dec: "cl_tenant_slug c = Some ''roma'' \<and> cl_sub c \<noteq> None" if "cy_decode demo_crypto 6 ''first'' = Some c" for c
    using that by (auto simp: demo_defs split: if_splits)
  show ?thesis
    using ok cut_off_sessions_stay_dead [where mi' = "demo_minted 3", OF roma demo_ok disjI1 [OF ok] rtranclp.rtrancl_refl row dec] by blast
qed

end
