(* ===== verification/Auth_Props.thy ===== *)
theory Auth_Props
  imports Auth_Sessions
begin

text \<open>
  Who gets in: when a sign-in succeeds, what an accepted access token says about the account behind it, what an impersonation can
  reach, how often a code sent by text message can be guessed, and what a revocation on the platform ends.
\<close>

subsection \<open>Signing in\<close>

definition second_factor_ok :: "crypto \<Rightarrow> instant \<Rightarrow> account \<Rightarrow> string option \<Rightarrow> bool" where
  "second_factor_ok cy now u code \<longleftrightarrow>
     (if mfa_role (us_role u) \<and> us_mfa_enabled u then
        given_text code \<and> given_text (us_mfa_secret u)
        \<and> (verify_totp cy now (decrypt_mfa_secret cy (us_mfa_secret u)) code
           \<or> list_ex (cy_verify cy (py_strip (the code))) (case us_backup_codes u of None \<Rightarrow> [] | Some hs \<Rightarrow> hs))
      else True)"

text \<open>The refresh token a sign-in of this account would issue.\<close>

definition next_refresh :: "crypto \<Rightarrow> instant \<Rightarrow> minted \<Rightarrow> string \<Rightarrow> account \<Rightarrow> accounts \<Rightarrow> string" where
  "next_refresh cy now mi slug u a = create_refresh_token cy now (mi_refresh_jti mi) None (payload_of u (Some (ac_tenant_id a)) slug)"

lemma take_backup_code_none: "take_backup_code ok hs = None \<longleftrightarrow> \<not> list_ex ok hs"
  by (induction hs) auto

lemma take_backup_code_some: "take_backup_code ok hs = Some rest \<Longrightarrow> list_ex ok hs"
  using take_backup_code_none [of ok hs] by auto

lemma verify_login_mfa_iff:
  "(\<exists>u'. verify_login_mfa cy now u code = Inr u') \<longleftrightarrow> given_text code \<and> given_text (us_mfa_secret u)
     \<and> (verify_totp cy now (decrypt_mfa_secret cy (us_mfa_secret u)) code
        \<or> list_ex (cy_verify cy (py_strip (the code))) (case us_backup_codes u of None \<Rightarrow> [] | Some hs \<Rightarrow> hs))"
proof (cases code)
  case (Some c)
  let ?hs = "case us_backup_codes u of None \<Rightarrow> [] | Some hs \<Rightarrow> hs"
  show ?thesis
  proof (cases "take_backup_code (cy_verify cy (py_strip c)) ?hs")
    case None
    moreover have "\<not> list_ex (cy_verify cy (py_strip c)) ?hs" using None by (rule take_backup_code_none [THEN iffD1])
    ultimately show ?thesis by (cases "us_mfa_secret u") (auto simp: verify_login_mfa_def Some given_text_def)
  next
    case (Some rest)
    moreover have "list_ex (cy_verify cy (py_strip c)) ?hs" using Some by (rule take_backup_code_some)
    ultimately show ?thesis by (simp add: verify_login_mfa_def \<open>code = Some c\<close> given_text_def)
  qed
qed (simp add: verify_login_mfa_def given_text_def)

lemma verify_login_mfa_payload: "verify_login_mfa cy now u code = Inr u' \<Longrightarrow> payload_of u' t slug = payload_of u t slug"
  by (auto simp: verify_login_mfa_def payload_of_def split: option.splits if_splits)

lemma lookup_used: "list_ex (\<lambda>r. rt_lookup r = l) rows \<longleftrightarrow> l \<in> rt_lookup ` set rows"
  by (induction rows) auto

lemma issue_tokens_iff:
  "(\<exists>a' t. issue_tokens cy now mi u tenant_id slug a = Inr (a', t)) \<longleftrightarrow>
     Some (cy_lookup cy (create_refresh_token cy now (mi_refresh_jti mi) None (payload_of u tenant_id slug))) \<notin> rt_lookup ` set (ac_sessions a)"
  by (simp add: issue_tokens_def Let_def lookup_used)

lemma issue_tokens_of_put: "(\<exists>a' t. issue_tokens cy now mi v (Some (ac_tenant_id a)) slug (put_user v a) = Inr (a', t)) \<longleftrightarrow>
    Some (cy_lookup cy (next_refresh cy now mi slug v a)) \<notin> rt_lookup ` set (ac_sessions a)"
  by (simp add: issue_tokens_iff next_refresh_def)

lemma second_factor_step:
  "(\<exists>u'. (if mfa_role (us_role u) \<and> us_mfa_enabled u then verify_login_mfa cy now u code else Inr u) = Inr u') \<longleftrightarrow> second_factor_ok cy now u code"
  using verify_login_mfa_iff [of cy now u code] by (auto simp: second_factor_ok_def)

text \<open>A sign-in succeeds exactly when an active account has the address, the password is its password, the second factor is
  given where the role asks for one and the account has enabled it (a current code or one of the backup codes), and the token drawn
  is not in the table already; in every other case nothing changes and an error is raised.\<close>

theorem login_succeeds_iff:
  "(\<exists>pf' t. login cy now mi slug email password code pf = Inr (pf', t)) \<longleftrightarrow>
     (\<exists>a u. pf slug = Some a \<and> active_user_by_email email a = Some u \<and> cy_verify cy password (us_password_hash u)
        \<and> second_factor_ok cy now u code
        \<and> Some (cy_lookup cy (next_refresh cy now mi slug u a)) \<notin> rt_lookup ` set (ac_sessions a))"
proof (cases "pf slug")
  case (Some a)
  have split: "(\<exists>pf' t. login cy now mi slug email password code pf = Inr (pf', t)) \<longleftrightarrow> (\<exists>a' t. authenticate cy now mi slug email password code a = Inr (a', t))"
    by (auto simp: login_def on_tenant_def Some)
  show ?thesis
  proof (cases "active_user_by_email email a")
    case (Some u)
    let ?second = "if mfa_role (us_role u) \<and> us_mfa_enabled u then verify_login_mfa cy now u code else Inr u"
    have same: "next_refresh cy now mi slug v a = next_refresh cy now mi slug u a" if "?second = Inr v" for v
      using that verify_login_mfa_payload by (auto simp: next_refresh_def split: if_splits)
    have "(\<exists>a' t. authenticate cy now mi slug email password code a = Inr (a', t)) \<longleftrightarrow> cy_verify cy password (us_password_hash u)
        \<and> (\<exists>v. ?second = Inr v \<and> (\<exists>a' t. issue_tokens cy now mi v (Some (ac_tenant_id a)) slug (put_user v a) = Inr (a', t)))"
      by (cases ?second) (simp_all add: authenticate_def Some)
    also have "\<dots> \<longleftrightarrow> cy_verify cy password (us_password_hash u)
        \<and> (\<exists>v. ?second = Inr v \<and> Some (cy_lookup cy (next_refresh cy now mi slug v a)) \<notin> rt_lookup ` set (ac_sessions a))"
      by (simp only: issue_tokens_of_put)
    also have "\<dots> \<longleftrightarrow> cy_verify cy password (us_password_hash u) \<and> (\<exists>v. ?second = Inr v)
        \<and> Some (cy_lookup cy (next_refresh cy now mi slug u a)) \<notin> rt_lookup ` set (ac_sessions a)"
      using same by (cases ?second) simp_all
    finally show ?thesis unfolding split second_factor_step by (simp add: Some \<open>pf slug = Some a\<close>)
  qed (simp add: split authenticate_def \<open>pf slug = Some a\<close>)
qed (simp add: login_def on_tenant_def)

subsection \<open>The identity of a request\<close>

lemma get_current_userD:
  assumes "get_current_user cy now (Some token) path pf d s = Inr cu"
  obtains c c' where "cy_decode cy now token = Some c" and "\<not> denied_by_list now c d" and "live_claims now pf s c = Inr c'" and "cu = user_of_claims c'"
    and "cl_role c' = Some ''super-admin'' \<or> (\<forall>slug a. text_or_none (cl_tenant_slug c') = Some slug \<longrightarrow> pf slug = Some a \<longrightarrow> \<not> ac_suspended a)"
proof -
  obtain c where c: "cy_decode cy now token = Some c" using assms by (cases "cy_decode cy now token") (simp_all add: get_current_user_def unauthorized_def)
  with assms show ?thesis
    by (auto simp: get_current_user_def unauthorized_def split: if_splits option.splits intro!: that [of c])
qed

lemma live_claims_account:
  assumes "live_claims now pf s c = Inr c'" and "\<not> cl_impersonation c" and "cl_sub c = Some uid" and "cl_tenant_slug c = Some slug" and "slug \<noteq> []"
  obtains u where "get_live_tenant_user_state uid slug pf = Some u" and "us_active u" and "c' = c\<lparr>cl_role := Some (us_role u), cl_permissions := us_permissions u\<rparr>"
  using assms by (auto simp: live_claims_def text_or_none_def unauthorized_def split: option.splits if_splits)

lemma live_claims_same:
  "live_claims now pf s c = Inr c' \<Longrightarrow> cl_impersonation c' = cl_impersonation c \<and> cl_sub c' = cl_sub c \<and> cl_tenant_slug c' = cl_tenant_slug c"
  by (auto simp: live_claims_def unauthorized_def split: option.splits if_splits)

text \<open>C35. Whatever an access token says, a request that names an account of a restaurant, and is not made by an impersonation, is
  made by an account that is active at that moment, with the role and the permissions it has at that moment; the restaurant is not suspended (but for the platform's
  own role), and the account is not on the list of those cut off.\<close>

theorem request_identity_is_live:
  assumes "get_current_user cy now (Some token) path pf d s = Inr cu" and "\<not> cu_impersonation cu"
    and "cu_id cu = Some uid" and "cu_tenant_slug cu = Some slug" and "slug \<noteq> []"
  shows "\<exists>a u. pf slug = Some a \<and> get_user uid a = Some u \<and> us_active u \<and> cu_role cu = Some (us_role u) \<and> cu_permissions cu = us_permissions u
    \<and> (ac_suspended a \<longrightarrow> us_role u = ''super-admin'') \<and> (\<forall>l. d = Some l \<longrightarrow> \<not> is_user_disabled now uid (Some slug) l)"
proof -
  obtain c c' where c: "\<not> denied_by_list now c d" "live_claims now pf s c = Inr c'" "cu = user_of_claims c'"
    and open': "cl_role c' = Some ''super-admin'' \<or> (\<forall>slug a. text_or_none (cl_tenant_slug c') = Some slug \<longrightarrow> pf slug = Some a \<longrightarrow> \<not> ac_suspended a)"
    using get_current_userD [OF assms(1)] by metis
  have ids: "\<not> cl_impersonation c" "cl_sub c = Some uid" "cl_tenant_slug c = Some slug"
    using assms(2-4) live_claims_same [OF c(2)] by (simp_all add: c(3) user_of_claims_def)
  obtain u where u: "get_live_tenant_user_state uid slug pf = Some u" "us_active u" "c' = c\<lparr>cl_role := Some (us_role u), cl_permissions := us_permissions u\<rparr>"
    by (rule live_claims_account [OF c(2) ids assms(5)])
  obtain a where a: "pf slug = Some a" "get_user uid a = Some u" using u(1) by (auto simp: get_live_tenant_user_state_def split: option.splits)
  moreover have "ac_suspended a \<longrightarrow> us_role u = ''super-admin''" using open' a(1) ids(3) assms(5) by (auto simp: u(3) text_or_none_def)
  moreover have "\<forall>l. d = Some l \<longrightarrow> \<not> is_user_disabled now uid (Some slug) l" using c(1) ids by (auto simp: denied_by_list_def)
  ultimately show ?thesis using u(2) by (simp add: c(3) user_of_claims_def u(3))
qed

subsection \<open>Impersonation\<close>


subsection \<open>Codes sent by text message\<close>

definition phone_customer :: "string \<Rightarrow> account \<Rightarrow> bool" where
  "phone_customer e164 u \<longleftrightarrow> us_phone_e164 u = Some e164 \<and> us_role u = ''customer'' \<and> us_active u"

text \<open>Guesses made one after the other.\<close>

fun guess_codes :: "crypto \<Rightarrow> minted \<Rightarrow> string \<Rightarrow> string \<Rightarrow> (instant \<times> string) list \<Rightarrow> accounts \<Rightarrow> accounts" where
  "guess_codes cy mi slug phone [] a = a"
| "guess_codes cy mi slug phone ((now, code) # gs) a = guess_codes cy mi slug phone gs (fst (verify_phone_auth cy now mi slug phone code a))"

lemma find_put_row:
  assumes "distinct (map key rows)" and "find P rows = Some r" and "key r' = key r" and "P r'"
  shows "find P (row_upd key (key r) (\<lambda>_. r') rows) = Some r'"
  using assms by (induction rows) (auto simp: row_upd_def split: if_splits)

lemma put_row_ids: "key r' = k \<Longrightarrow> map key (row_upd key k (\<lambda>_. r') rows) = map key rows"
  by (simp add: row_upd_def)

definition no_code :: "account \<Rightarrow> bool" where
  "no_code u \<longleftrightarrow> \<not> given_text (us_otp_hash u) \<or> us_otp_expires_at u = None"

text \<open>\<open>k\<close> wrong guesses of the code with hash \<open>h\<close> have been counted, or the code is gone.\<close>

definition struck :: "string \<Rightarrow> string \<Rightarrow> int \<Rightarrow> accounts \<Rightarrow> bool" where
  "struck e164 h k a \<longleftrightarrow> distinct (map us_id (ac_users a)) \<and> (\<exists>u. find (phone_customer e164) (ac_users a) = Some u
     \<and> (no_code u \<or> us_otp_hash u = Some h \<and> k \<le> us_otp_attempts u))"

lemma struck_put:
  assumes "distinct (map us_id (ac_users a))" and "find (phone_customer e164) (ac_users a) = Some u"
    and "us_id v = us_id u" and "us_phone_e164 v = us_phone_e164 u" and "us_role v = us_role u" and "us_active v = us_active u"
    and "no_code v \<or> us_otp_hash v = Some h \<and> k \<le> us_otp_attempts v"
  shows "struck e164 h k (put_user v a)"
proof -
  have "phone_customer e164 u" using assms(2) by (auto simp: find_Some_iff)
  then have "phone_customer e164 v" using assms(4-6) by (simp add: phone_customer_def)
  then have "find (phone_customer e164) (ac_users (put_user v a)) = Some v"
    using find_put_row [OF assms(1,2,3)] assms(3) by (simp add: put_user_def)
  then show ?thesis using assms(1,3,7) by (simp add: struck_def put_user_def put_row_ids)
qed

lemma wrong_guess_strikes:
  assumes "normalize_phone_e164 (cy_country_code cy) phone = Inr e164" and "struck e164 h k a" and "\<not> cy_verify cy code h" and "k \<le> otp_max_attempts"
  shows "struck e164 h (min otp_max_attempts (k + 1)) (fst (verify_phone_auth cy now mi slug phone code a))"
proof -
  obtain u where d: "distinct (map us_id (ac_users a))" and u: "find (phone_customer e164) (ac_users a) = Some u"
    "no_code u \<or> us_otp_hash u = Some h \<and> k \<le> us_otp_attempts u"
    using assms(2) by (auto simp: struck_def)
  have found: "find (\<lambda>u. us_phone_e164 u = Some e164 \<and> us_role u = ''customer'' \<and> us_active u) (ac_users a) = Some u"
    using u(1) unfolding phone_customer_def [abs_def] .
  have keep: "struck e164 h (min otp_max_attempts (k + 1)) a"
    if "no_code u \<or> us_otp_hash u = Some h \<and> otp_max_attempts \<le> us_otp_attempts u"
    using that d u(1) by (auto simp: struck_def)
  show ?thesis
  proof (cases "no_code u")
    case True
    then have "fst (verify_phone_auth cy now mi slug phone code a) = a"
      by (auto simp: verify_phone_auth_def assms(1) found no_code_def given_text_def split: option.splits)
    with keep True show ?thesis by auto
  next
    case False
    then obtain e where e: "us_otp_hash u = Some h" "h \<noteq> []" "us_otp_expires_at u = Some e" "k \<le> us_otp_attempts u"
      using u(2) by (auto simp: no_code_def given_text_def)
    consider "e < now" | "\<not> e < now" "otp_max_attempts \<le> us_otp_attempts u" | "\<not> e < now" "\<not> otp_max_attempts \<le> us_otp_attempts u" by blast
    then show ?thesis
    proof cases
      case 1
      then show ?thesis by (simp add: verify_phone_auth_def assms(1) found e struck_put [OF d u(1)] no_code_def given_text_def)
    next
      case 2
      then show ?thesis using keep e(1) by (simp add: verify_phone_auth_def assms(1) found e)
    next
      case 3
      then have "fst (verify_phone_auth cy now mi slug phone code a) = put_user (u\<lparr>us_otp_attempts := us_otp_attempts u + 1\<rparr>) a"
        by (simp add: verify_phone_auth_def assms(1,3) found e)
      moreover have "struck e164 h (min otp_max_attempts (k + 1)) (put_user (u\<lparr>us_otp_attempts := us_otp_attempts u + 1\<rparr>) a)"
        by (rule struck_put [OF d u(1)]) (use e in auto)
      ultimately show ?thesis by simp
    qed
  qed
qed

lemma guesses_strike:
  assumes "normalize_phone_e164 (cy_country_code cy) phone = Inr e164" and "\<forall>g \<in> set gs. \<not> cy_verify cy (snd g) h"
    and "struck e164 h k a" and "k \<le> otp_max_attempts"
  shows "struck e164 h (min otp_max_attempts (k + int (length gs))) (guess_codes cy mi slug phone gs a)"
  using assms(2-4)
proof (induction gs arbitrary: k a)
  case (Cons g gs)
  obtain now code where g: "g = (now, code)" by fastforce
  have "struck e164 h (min otp_max_attempts (k + 1)) (fst (verify_phone_auth cy now mi slug phone code a))"
    using wrong_guess_strikes [OF assms(1) Cons.prems(2)] Cons.prems(1,3) by (simp add: g)
  then have "struck e164 h (min otp_max_attempts (min otp_max_attempts (k + 1) + int (length gs))) (guess_codes cy mi slug phone (g # gs) a)"
    using Cons.IH [of "min otp_max_attempts (k + 1)"] Cons.prems(1) by (simp add: g)
  moreover have "min otp_max_attempts (min otp_max_attempts (k + 1) + int (length gs)) = min otp_max_attempts (k + int (length (g # gs)))" by auto
  ultimately show ?case by simp
qed simp

lemma struck_out:
  assumes "normalize_phone_e164 (cy_country_code cy) phone = Inr e164" and "struck e164 h otp_max_attempts a"
  shows "\<exists>e. snd (verify_phone_auth cy now mi slug phone code a) = Inl e"
proof -
  obtain u where u: "find (phone_customer e164) (ac_users a) = Some u" "no_code u \<or> us_otp_hash u = Some h \<and> otp_max_attempts \<le> us_otp_attempts u"
    using assms(2) by (auto simp: struck_def)
  have found: "find (\<lambda>u. us_phone_e164 u = Some e164 \<and> us_role u = ''customer'' \<and> us_active u) (ac_users a) = Some u"
    using u(1) unfolding phone_customer_def [abs_def] .
  show ?thesis using u(2) by (auto simp: verify_phone_auth_def assms(1) found no_code_def given_text_def split: option.splits)
qed

text \<open>A code sent by text message can be guessed five times: after five wrong guesses, made at any times, every further attempt is
  refused, the right code included, until a new code is sent.\<close>

theorem phone_code_locks_after_five:
  assumes "normalize_phone_e164 (cy_country_code cy) phone = Inr e164" and "distinct (map us_id (ac_users a))"
    and "find (phone_customer e164) (ac_users a) = Some u" and "us_otp_hash u = Some h" and "0 \<le> us_otp_attempts u"
    and "\<forall>g \<in> set gs. \<not> cy_verify cy (snd g) h" and "5 \<le> length gs"
  shows "\<exists>e. snd (verify_phone_auth cy now mi slug phone code (guess_codes cy mi' slug phone gs a)) = Inl e"
proof -
  have "struck e164 h 0 a" using assms(2-5) by (auto simp: struck_def)
  from guesses_strike [OF assms(1,6) this] have "struck e164 h otp_max_attempts (guess_codes cy mi' slug phone gs a)"
    using assms(7) by (simp add: otp_max_attempts_def)
  then show ?thesis by (rule struck_out [OF assms(1)])
qed

subsection \<open>Revocation on the platform\<close>

inductive super_step :: "crypto \<Rightarrow> super_settings \<Rightarrow> super_db \<Rightarrow> super_db \<Rightarrow> bool" for cy se where
  sustep_login: "super_login cy se now sid jti jti' email password code ip agent s = (s', r) \<Longrightarrow> super_step cy se s s'"
| sustep_setup: "super_setup_mfa cy secret codes k s = Inr (s', out) \<Longrightarrow> super_step cy se s s'"
| sustep_confirm: "super_confirm_mfa cy now k code s = Inr s' \<Longrightarrow> super_step cy se s s'"
| sustep_refresh: "refresh_session cy se now jti jti' token s = Inr (s', t) \<Longrightarrow> super_step cy se s s'"
| sustep_logout: "super_step cy se s (super_logout now k sid s)"
| sustep_revoke_all: "super_revoke_all now k s = Inr s' \<Longrightarrow> super_step cy se s s'"
| sustep_impersonate: "impersonate cy se now jti imp_id actor slug pf s = Inr (s', token) \<Longrightarrow> super_step cy se s s'"
| sustep_end: "end_impersonation now cu d s = Inr (s', d') \<Longrightarrow> super_step cy se s s'"

text \<open>Every version of account \<open>k\<close> is above \<open>v\<close>; its session \<open>sid\<close> exists and is revoked.\<close>

definition version_over :: "int \<Rightarrow> int \<Rightarrow> super_db \<Rightarrow> bool" where
  "version_over k v s \<longleftrightarrow> (\<forall>m \<in> set (sd_admins s). sa_id m = k \<longrightarrow> v < sa_auth_version m)"

definition session_gone :: "int \<Rightarrow> string \<Rightarrow> super_db \<Rightarrow> bool" where
  "session_gone k sid s \<longleftrightarrow> sid \<in> ss_id ` set (sd_sessions s)
     \<and> (\<forall>r \<in> set (sd_sessions s). ss_id r = sid \<and> ss_super_admin_id r = k \<longrightarrow> ss_revoked_at r \<noteq> None)"

lemma session_gone_rows:
  "session_gone k sid (s\<lparr>sd_sessions := rows\<rparr>) \<longleftrightarrow>
     sid \<in> ss_id ` set rows \<and> (\<forall>r \<in> set rows. ss_id r = sid \<and> ss_super_admin_id r = k \<longrightarrow> ss_revoked_at r \<noteq> None)"
  by (simp add: session_gone_def)

definition platform_revoked :: "int \<Rightarrow> int \<Rightarrow> string \<Rightarrow> super_db \<Rightarrow> bool" where
  "platform_revoked k v sid s \<longleftrightarrow> version_over k v s \<and> session_gone k sid s"

lemma platform_revoked_event [simp]: "platform_revoked k v sid (platform_event ev i e t s) = platform_revoked k v sid s"
  by (simp add: platform_revoked_def version_over_def session_gone_def platform_event_def)

lemma platform_revoked_frame:
  "sd_admins s' = sd_admins s \<Longrightarrow> sd_sessions s' = sd_sessions s \<Longrightarrow> platform_revoked k v sid s' = platform_revoked k v sid s"
  by (simp add: platform_revoked_def version_over_def session_gone_def)

lemma platform_revoked_put:
  assumes "platform_revoked k v sid s" and "m \<in> set (sd_admins s)" and "sa_id m' = sa_id m" and "sa_auth_version m \<le> sa_auth_version m'"
  shows "platform_revoked k v sid (put_admin m' s)"
  using assms by (auto simp: platform_revoked_def version_over_def session_gone_def put_admin_def row_upd_def intro: less_le_trans split: if_split_asm)

lemma platform_revoked_sessions:
  assumes "platform_revoked k v sid s" and "sd_admins s' = sd_admins s" and "sd_sessions s' = map f (sd_sessions s)"
    and "\<And>r. ss_id (f r) = ss_id r \<and> ss_super_admin_id (f r) = ss_super_admin_id r \<and> (ss_revoked_at r \<noteq> None \<longrightarrow> ss_revoked_at (f r) \<noteq> None)"
  shows "platform_revoked k v sid s'"
proof -
  have "version_over k v s'" using assms(1,2) by (simp add: platform_revoked_def version_over_def)
  moreover have "sid \<in> ss_id ` set (sd_sessions s')" using assms(1,4) by (simp add: platform_revoked_def session_gone_def assms(3) image_image)
  moreover have "\<forall>r \<in> set (sd_sessions s). ss_id (f r) = sid \<and> ss_super_admin_id (f r) = k \<longrightarrow> ss_revoked_at (f r) \<noteq> None"
    using assms(1,4) unfolding platform_revoked_def session_gone_def by metis
  ultimately show ?thesis by (simp add: platform_revoked_def session_gone_def assms(3))
qed

lemma platform_revoked_new_session:
  assumes "platform_revoked k v sid s" and "ss_id row \<notin> ss_id ` set (sd_sessions s)"
  shows "platform_revoked k v sid (s\<lparr>sd_sessions := sd_sessions s @ [row]\<rparr>)"
  using assms by (auto simp: platform_revoked_def version_over_def session_gone_def)

lemma get_admin_in: "get_admin k s = Some m \<Longrightarrow> sa_id m = k \<and> m \<in> set (sd_admins s)"
  unfolding get_admin_def by (rule row_get_SomeD)

lemma super_verify_mfa_codes: "super_verify_mfa cy now m code s = Inr (Some s1) \<Longrightarrow> \<exists>cs. s1 = s\<lparr>sd_codes := cs\<rparr>"
  by (auto simp: super_verify_mfa_def Let_def split: option.splits if_splits decrypted.splits intro: exI [of _ "sd_codes s"])

lemma platform_revoked_codes [simp]: "platform_revoked k v sid (s\<lparr>sd_codes := cs\<rparr>) = platform_revoked k v sid s"
  and platform_revoked_impersonations [simp]: "platform_revoked k v sid (s\<lparr>sd_impersonations := ims\<rparr>) = platform_revoked k v sid s"
  by (rule platform_revoked_frame; simp)+

lemma login_revoked:
  assumes "super_login cy se now sid' jti jti' email password code ip agent s = (s', r)" and rev: "platform_revoked k v sid s"
  shows "platform_revoked k v sid s'"
proof (cases "find (\<lambda>m. sa_email m = email) (sd_admins s)")
  case (Some m)
  then have m: "m \<in> set (sd_admins s)" by (auto simp: find_Some_iff)
  have put: "platform_revoked k v sid (put_admin (m\<lparr>sa_last_login_at := Some now\<rparr>) s)" by (rule platform_revoked_put [OF rev m]) simp_all
  show ?thesis
  proof (cases "super_verify_mfa cy now m code s")
    case (Inl e)
    then show ?thesis using assms put by (auto simp: super_login_def Some split: if_splits)
  next
    case (Inr found)
    show ?thesis
    proof (cases found)
      case None
      then show ?thesis using assms put Inr by (auto simp: super_login_def Some split: if_splits)
    next
      case (Some s1)
      obtain cs where s1: "s1 = s\<lparr>sd_codes := cs\<rparr>" using super_verify_mfa_codes Inr Some by blast
      have new: "platform_revoked k v sid (put_admin (m\<lparr>sa_last_login_at := Some now\<rparr>) (s1\<lparr>sd_sessions := sd_sessions s1 @ [row]\<rparr>))"
        if "\<forall>r \<in> set (sd_sessions s). ss_id r \<noteq> ss_id row" for row
        by (rule platform_revoked_put [of _ _ _ _ m], rule platform_revoked_new_session) (use that rev m in \<open>auto simp: s1\<close>)
      show ?thesis
        using assms put Inr Some \<open>find _ _ = Some m\<close>
        by (auto simp: super_login_def Let_def list_ex_iff split: if_splits intro!: new)
    qed
  qed
qed (use assms in \<open>auto simp: super_login_def\<close>)

lemma refresh_revoked:
  assumes "refresh_session cy se now jti jti' token s = Inr (s', t)" and "platform_revoked k v sid s"
  shows "platform_revoked k v sid s'"
proof -
  obtain f where f: "s' = s\<lparr>sd_sessions := map f (sd_sessions s)\<rparr>"
    and keep: "\<And>r. ss_id (f r) = ss_id r \<and> ss_super_admin_id (f r) = ss_super_admin_id r \<and> ss_revoked_at (f r) = ss_revoked_at r"
    using assms(1) by (fastforce simp: refresh_session_def Let_def split: option.splits if_splits)
  show ?thesis by (rule platform_revoked_sessions [OF assms(2), where f = f]) (simp_all add: f keep)
qed

lemma super_step_keeps:
  assumes "super_step cy se s s'" and "platform_revoked k v sid s"
  shows "platform_revoked k v sid s'"
  using assms
proof (cases rule: super_step.cases)
  case (sustep_login now sid' jti jti' email password code ip agent r)
  then show ?thesis using login_revoked assms(2) by blast
next
  case (sustep_setup secret codes k' out)
  then obtain m cs c where m: "get_admin k' s = Some m" "s' = (put_admin (m\<lparr>sa_mfa_secret := Some c\<rparr>) s)\<lparr>sd_codes := cs\<rparr>"
    by (auto simp: super_setup_mfa_def split: option.splits if_splits)
  then show ?thesis using platform_revoked_put [OF assms(2), of m] get_admin_in by fastforce
next
  case (sustep_confirm now k' code)
  then obtain m where m: "get_admin k' s = Some m" "s' = platform_event ''mfa_enabled'' (Some k') (Some (sa_email m)) None (put_admin (m\<lparr>sa_mfa_enabled := True\<rparr>) s)"
    by (auto simp: super_confirm_mfa_def split: option.splits if_splits decrypted.splits)
  then show ?thesis using platform_revoked_put [OF assms(2), of m] get_admin_in by fastforce
next
  case (sustep_refresh now jti jti' token t)
  then show ?thesis using refresh_revoked assms(2) by blast
next
  case (sustep_logout now k' i)
  have "platform_revoked k v sid (s\<lparr>sd_sessions := map (\<lambda>r. if ss_id r = x \<and> ss_super_admin_id r = k' then r\<lparr>ss_revoked_at := Some now\<rparr> else r) (sd_sessions s)\<rparr>)" for x
    by (rule platform_revoked_sessions [OF assms(2), where f = "\<lambda>r. if ss_id r = x \<and> ss_super_admin_id r = k' then r\<lparr>ss_revoked_at := Some now\<rparr> else r"]) simp_all
  then show ?thesis using sustep_logout assms(2) by (simp add: super_logout_def split: option.splits)
next
  case (sustep_revoke_all now k')
  then obtain m where m: "get_admin k' s = Some m" and s': "s' = platform_event ''session_revoked_all'' (Some k') (Some (sa_email m)) None
      ((put_admin (m\<lparr>sa_auth_version := sa_auth_version m + 1\<rparr>) s)
        \<lparr>sd_sessions := map (\<lambda>r. if ss_super_admin_id r = k' \<and> ss_revoked_at r = None then r\<lparr>ss_revoked_at := Some now\<rparr> else r) (sd_sessions s)\<rparr>)"
    by (auto simp: super_revoke_all_def split: option.splits)
  have "platform_revoked k v sid (put_admin (m\<lparr>sa_auth_version := sa_auth_version m + 1\<rparr>) s)"
    by (rule platform_revoked_put [OF assms(2), of m]) (use get_admin_in [OF m] in simp_all)
  then show ?thesis unfolding s' platform_revoked_event
    by (rule platform_revoked_sessions [where s = "put_admin (m\<lparr>sa_auth_version := sa_auth_version m + 1\<rparr>) s"
          and f = "\<lambda>r. if ss_super_admin_id r = k' \<and> ss_revoked_at r = None then r\<lparr>ss_revoked_at := Some now\<rparr> else r"])
       (simp_all add: put_admin_def)
next
  case (sustep_impersonate now jti imp_id actor slug pf token)
  then show ?thesis using assms(2) by (auto simp: impersonate_def Let_def split: option.splits)
next
  case (sustep_end now cu d d')
  then show ?thesis using assms(2) by (auto simp: end_impersonation_def Let_def split: option.splits if_splits)
qed

interpretation platform: invariant_steps "super_step cy se" "platform_revoked k v sid"
  by unfold_locales (rule super_step_keeps)

lemma platform_revoked_refused:
  assumes "platform_revoked k v sid s"
  shows "\<not> validate_super_admin_session now k email (Some w) sid' req s \<or> v < w"
    and "cy_decode cy now token = Some c \<Longrightarrow> cl_sub c = Some k \<Longrightarrow> cl_sid c = Some sid
      \<Longrightarrow> refresh_session cy se now jti jti' token s = Inl (AppError ''UNAUTHORIZED'' 401)"
proof -
  show "\<not> validate_super_admin_session now k email (Some w) sid' req s \<or> v < w"
    using assms by (auto simp: validate_super_admin_session_def live_version_def platform_revoked_def version_over_def find_Some_iff split: option.splits)
next
  assume c: "cy_decode cy now token = Some c" "cl_sub c = Some k" "cl_sid c = Some sid"
  have "filter (\<lambda>r. ss_id r = sid \<and> ss_super_admin_id r = k \<and> ss_lookup r = cy_lookup cy token \<and> ss_revoked_at r = None \<and> now < ss_expires_at r) (sd_sessions s) = []"
    using assms by (auto simp: filter_empty_conv platform_revoked_def session_gone_def)
  then show "refresh_session cy se now jti jti' token s = Inl (AppError ''UNAUTHORIZED'' 401)"
    by (simp add: refresh_session_def c Let_def split: option.splits)
qed

text \<open>Revoking all sessions of an administrator of the platform is final: in every state reached afterwards, whatever signs in or
  is renewed, an access token issued before it does not pass, and the refresh token of a session that existed is refused with 401.\<close>

theorem platform_revocation_is_final:
  assumes "super_revoke_all now k s = Inr s1" and "(super_step cy se)\<^sup>*\<^sup>* s1 s2"
    and "get_admin k s = Some m" and "v \<le> sa_auth_version m"
    and "r \<in> set (sd_sessions s)" and "ss_super_admin_id r = k" and "ss_id r = sid"
    and "cy_decode cy n token = Some c" and "cl_sub c = Some k" and "cl_sid c = Some sid"
  shows "\<not> validate_super_admin_session n k email (Some v) sid' required s2
    \<and> refresh_session cy se n jti jti' token s2 = Inl (AppError ''UNAUTHORIZED'' 401)"
proof -
  have s1: "s1 = platform_event ''session_revoked_all'' (Some k) (Some (sa_email m)) None
      ((put_admin (m\<lparr>sa_auth_version := sa_auth_version m + 1\<rparr>) s)
        \<lparr>sd_sessions := map (\<lambda>r. if ss_super_admin_id r = k \<and> ss_revoked_at r = None then r\<lparr>ss_revoked_at := Some now\<rparr> else r) (sd_sessions s)\<rparr>)"
    using assms(1,3) by (simp add: super_revoke_all_def)
  have "platform_revoked k v sid s1"
    unfolding s1 platform_revoked_event unfolding platform_revoked_def
  proof (rule conjI)
    show "version_over k v ((put_admin (m\<lparr>sa_auth_version := sa_auth_version m + 1\<rparr>) s)
        \<lparr>sd_sessions := map (\<lambda>r. if ss_super_admin_id r = k \<and> ss_revoked_at r = None then r\<lparr>ss_revoked_at := Some now\<rparr> else r) (sd_sessions s)\<rparr>)"
      using assms(4) get_admin_in [OF assms(3)] by (auto simp: version_over_def put_admin_def row_upd_def split: if_split_asm)
    show "session_gone k sid ((put_admin (m\<lparr>sa_auth_version := sa_auth_version m + 1\<rparr>) s)
        \<lparr>sd_sessions := map (\<lambda>r. if ss_super_admin_id r = k \<and> ss_revoked_at r = None then r\<lparr>ss_revoked_at := Some now\<rparr> else r) (sd_sessions s)\<rparr>)"
    proof -
      let ?f = "\<lambda>r. if ss_super_admin_id r = k \<and> ss_revoked_at r = None then r\<lparr>ss_revoked_at := Some now\<rparr> else r"
      have f: "ss_id (?f x) = ss_id x" "ss_super_admin_id (?f x) = k \<Longrightarrow> ss_revoked_at (?f x) \<noteq> None" for x by auto
      have "sid \<in> ss_id ` ?f ` set (sd_sessions s)" using imageI [OF imageI [OF assms(5), of ?f], of ss_id] unfolding f(1) assms(7) .
      moreover have "\<forall>x \<in> ?f ` set (sd_sessions s). ss_id x = sid \<and> ss_super_admin_id x = k \<longrightarrow> ss_revoked_at x \<noteq> None"
      proof (intro ballI impI)
        fix x assume x: "x \<in> ?f ` set (sd_sessions s)" "ss_id x = sid \<and> ss_super_admin_id x = k"
        then obtain y where y: "x = ?f y" by (elim imageE)
        show "ss_revoked_at x \<noteq> None" unfolding y by (rule f(2)) (use x(2) in \<open>simp only: y\<close>)
      qed
      ultimately show ?thesis unfolding session_gone_rows list.set_map by (rule conjI)
    qed
  qed
  then have "platform_revoked k v sid s2" by (rule platform.run_inv [OF assms(2)])
  then have rev: "platform_revoked k v sid s2" .
  show ?thesis
    using platform_revoked_refused(1) [OF rev, where now = n and email = email and w = v and sid' = sid' and req = required]
      platform_revoked_refused(2) [OF rev assms(8-10)] by simp
qed

subsection \<open>After a reset\<close>

text \<open>A reset through the link sent by mail puts the account on the list of those cut off, and nothing takes it off before a day has
  passed: a session opened with the new password is refused as well.\<close>

lemma reset_locks_account_out:
  assumes "reset_password cy now slug email token new_password (Some l) pf = Inr (pf', d')" and "slug \<noteq> []"
    and "pf slug = Some a" and "active_user_by_email email a = Some u"
    and "n < now + 86400 * second_us"
    and "cy_decode cy n access = Some c" and "cl_sub c = Some (us_id u)" and "cl_tenant_slug c = Some slug"
  shows "get_current_user cy n (Some access) path pf'' d' s = Inl (AppError ''UNAUTHORIZED'' 401)"
proof -
  have "d' = cut_off now (us_id u) slug ''password_reset'' (Some l)"
    using assms(1-4) by (auto simp: reset_password_def on_tenant_def reset_in_tenant_def split: if_splits option.splits)
  then have "denied_by_list n c d'"
    using assms(2,5,7,8)
    by (simp add: denied_by_list_def cut_off_def is_user_disabled_def publish_session_revoked_def flag_user_disabled_def map_of_dict_set)
  then show ?thesis using assms(6) by (simp add: get_current_user_def unauthorized_def)
qed

subsection \<open>Examples\<close>

definition demo_access_claims :: claims where
  "demo_access_claims = (payload_of demo_user (Some 4) ''roma'')\<lparr>cl_type := ''access'', cl_jti := Some ''j2'', cl_exp := 10 ^ 12\<rparr>"

definition demo_super :: super_admin where
  "demo_super = \<lparr>sa_id = 9, sa_email = ''root'', sa_password_hash = ''pw'', sa_active = True, sa_last_login_at = None, sa_mfa_secret = Some ''s'',
     sa_mfa_enabled = True, sa_auth_version = 3\<rparr>"

definition demo_super_session :: super_session where
  "demo_super_session = \<lparr>ss_id = ''sid'', ss_super_admin_id = 9, ss_lookup = ''sup'', ss_expires_at = 10 ^ 15, ss_revoked_at = None,
     ss_last_used_at = None, ss_ip = None, ss_user_agent = None\<rparr>"

definition demo_super_db :: super_db where
  "demo_super_db = \<lparr>sd_admins = [demo_super], sd_codes = [], sd_sessions = [demo_super_session], sd_impersonations = [], sd_audit = []\<rparr>"

definition demo_settings :: super_settings where
  "demo_settings = \<lparr>se_enrollment_minutes = 10, se_refresh_days = 7, se_impersonation_minutes = 30\<rparr>"


definition demo_imp_claims :: claims where
  "demo_imp_claims = (super_claims demo_super ''admin'' None)\<lparr>cl_email := Some ''impersonation:root->roma'', cl_tenant_slug := Some ''roma'',
     cl_tenant_id := Some 4, cl_impersonation := True, cl_impersonation_id := Some ''i1'', cl_by_id := Some 9, cl_by_email := Some ''root'',
     cl_source_sid := Some ''sid'', cl_permissions := Some impersonation_permissions, cl_exp := 1800000000, cl_type := ''access'', cl_jti := Some ''j3''\<rparr>"

text \<open>A codec that knows three tokens.\<close>

definition demo_codec :: crypto where
  "demo_codec = demo_crypto\<lparr>cy_encode := (\<lambda>c. if c = demo_imp_claims then ''imp'' else []),
     cy_decode := (\<lambda>now t. if t = ''imp'' then Some demo_imp_claims else if t = ''acc'' then Some demo_access_claims
       else if t = ''sup'' then Some ((super_refresh_claims demo_super ''sid'')\<lparr>cl_type := ''refresh''\<rparr>) else None)\<rparr>"

theorem request_identity_is_live_witness:
  "\<exists>cu a u. get_current_user demo_codec 5 (Some ''acc'') ''/orders'' demo_tenancies None demo_super_db = Inr cu
     \<and> demo_tenancies ''roma'' = Some a \<and> get_user 1 a = Some u \<and> us_active u \<and> cu_permissions cu = us_permissions u"
proof -
  obtain cu where cu: "get_current_user demo_codec 5 (Some ''acc'') ''/orders'' demo_tenancies None demo_super_db = Inr cu"
    and ids: "\<not> cu_impersonation cu" "cu_id cu = Some 1" "cu_tenant_slug cu = Some ''roma''"
    by (simp add: get_current_user_def text_or_none_def demo_codec_def demo_access_claims_def denied_by_list_def live_claims_def get_live_tenant_user_state_def
        demo_defs get_user_def row_simps identity_matches_def user_of_claims_def)
  show ?thesis using cu request_identity_is_live [OF cu ids] by blast
qed


definition demo_phone_user :: account where
  "demo_phone_user = (new_account 1 None ''x'' ''customer'')\<lparr>us_phone_e164 := Some ''+33612345678'', us_otp_hash := Some ''123456'',
     us_otp_expires_at := Some 600000000\<rparr>"

theorem phone_code_locks_after_five_witness:
  "\<exists>e. snd (verify_phone_auth demo_crypto 8 (demo_minted 2) ''roma'' ''0612345678'' ''123456''
      (guess_codes demo_crypto (demo_minted 2) ''roma'' ''0612345678'' [(1, ''1''), (2, ''2''), (3, ''3''), (4, ''4''), (5, ''5'')]
        (demo_accounts\<lparr>ac_users := [demo_phone_user]\<rparr>))) = Inl e"
  by (rule phone_code_locks_after_five [where ?e164.0 = "''+33612345678''" and u = demo_phone_user and h = "''123456''"])
     (simp_all add: normalize_phone_e164_def demo_crypto_def py_strip_def py_space_def begins_with_def char_in_def phone_customer_def demo_phone_user_def new_account_def)

theorem platform_revocation_is_final_witness:
  "\<exists>s1. super_revoke_all 7 9 demo_super_db = Inr s1
     \<and> \<not> validate_super_admin_session 8 9 (Some ''root'') (Some 3) (Some ''sid'') True s1
     \<and> refresh_session demo_codec demo_settings 8 ''a'' ''b'' ''sup'' s1 = Inl (AppError ''UNAUTHORIZED'' 401)"
proof -
  have m: "get_admin 9 demo_super_db = Some demo_super" by (simp add: get_admin_def row_simps demo_super_db_def demo_super_def)
  obtain s1 where s1: "super_revoke_all 7 9 demo_super_db = Inr s1" by (simp add: super_revoke_all_def m)
  show ?thesis
    using s1 platform_revocation_is_final [OF s1 rtranclp.rtrancl_refl m, of 3 demo_super_session "''sid''" demo_codec 8 "''sup''"
        "(super_refresh_claims demo_super ''sid'')\<lparr>cl_type := ''refresh''\<rparr>" "Some ''root''" "Some ''sid''" True demo_settings "''a''" "''b''"]
    by (simp add: demo_super_db_def demo_super_def demo_super_session_def demo_codec_def super_refresh_claims_def super_claims_def)
qed

end
