(* ===== verification/Customer_Props.thy ===== *)
theory Customer_Props
  imports Customer_Admin
begin

text \<open>Properties of the messages to customers and of the erasure of an account (\<^verbatim>\<open>app/modules/admin/customers/service.py\<close>).\<close>

subsection \<open>Consent\<close>














text \<open>Two things the code does not do. Without a queue a push message is recorded as sent although nothing is handed over; and the
  anonymisation of an account leaves the number it signs in with.\<close>

lemma push_recorded_as_sent:
  assumes "can_send u Ch_push (msg_type m)"
  shows "\<exists>row. snd_rows (send_channels now False key who m u [Ch_push]) = [row] \<and> cmn_status row = Cs_sent
    \<and> dispatch_message_actions False (snd_actions (send_channels now False key who m u [Ch_push])) = []"
  using assms by (simp add: message_row_def dispatch_message_actions_def Let_def)

lemma anonymised_number_stays:
  assumes "anonymize_customer now who cid slug reason d orders a s = Inr (a', orders', s', d')" and "get_user cid a = Some u"
  shows "map_option us_phone_e164 (get_user cid a') = Some (us_phone_e164 u)"
proof -
  have k: "us_id u = cid" using assms(2) row_get_SomeD unfolding get_user_def by metis
  have put: "row_get us_id (us_id u) (row_upd us_id (us_id u) (\<lambda>_. v) rows) = Some v"
    if "us_id v = us_id u" "row_get us_id (us_id u) rows = Some u" for v rows
    using that by (induction rows) (auto simp: row_upd_def row_get_def)
  show ?thesis
    using assms k
    by (auto simp: anonymize_customer_def get_customer_def get_user_def put_user_def revoke_user_sessions_def revoke_where_def put
        split: if_splits)
qed

end
