(* ===== verification/Kds.thy ===== *)
theory Kds
  imports Auth_Access "HOL-Library.Product_Lexorder"
begin

text \<open>
  The kitchen display, \<^verbatim>\<open>app/modules/kds\<close>: screens, the codes that pair a tablet with a screen, and the remote sessions opened with
  them. The digests and the encryption of the code shown as a QR code are parameters; codes and tokens are drawn at random.
\<close>

subsection \<open>Tables\<close>

record kds_screen =
  kd_id :: int
  kd_name :: string
  kd_key :: string
  kd_mode :: string
  kd_station :: string
  kd_interaction :: string
  kd_per_page :: int
  kd_active :: bool
  kd_remote :: bool
  kd_created_at :: instant
  kd_updated_at :: instant

record pairing_row =
  kc_id :: int
  kc_screen_id :: int
  kc_code_hash :: string
  kc_expires_at :: instant
  kc_used_at :: "instant option"
  kc_created_by :: "int option"
  kc_created_at :: instant

record remote_row =
  kr_id :: int
  kr_hash :: string
  kr_screen_id :: int
  kr_paired_by :: "int option"
  kr_device :: "string option"
  kr_created_at :: instant
  kr_last_seen_at :: instant
  kr_expires_at :: instant
  kr_revoked_at :: "instant option"

record kds_db =
  ks_screens :: "kds_screen list"
  ks_codes :: "pairing_row list"
  ks_remotes :: "remote_row list"

text \<open>What is read of a decrypted payload: a field is \<open>None\<close> where it is absent or not of the type wanted.\<close>

record qr_payload =
  qr_typ :: "string option"
  qr_tenant :: "string option"
  qr_screen_id :: "int option"
  qr_code :: "string option"
  qr_exp :: "int option"
  qr_nonce :: string

record kds_crypto =
  kx_digest :: "string \<Rightarrow> string \<Rightarrow> string \<Rightarrow> string"
  kx_encrypt :: "qr_payload \<Rightarrow> string"
  kx_decrypt :: "string \<Rightarrow> qr_payload option"

definition pairing_code_ttl :: int where "pairing_code_ttl = minutes_us 5"
definition remote_session_ttl :: int where "remote_session_ttl = minutes_us (12 * 60)"

definition is_expired :: "instant \<Rightarrow> instant \<Rightarrow> bool" where
  "is_expired expires_at now \<longleftrightarrow> expires_at \<le> now"

definition hash_pairing_code :: "kds_crypto \<Rightarrow> string \<Rightarrow> string \<Rightarrow> string" where
  "hash_pairing_code kx slug code = kx_digest kx ''kds-pairing'' slug code"

definition hash_remote_session_token :: "kds_crypto \<Rightarrow> string \<Rightarrow> string \<Rightarrow> string" where
  "hash_remote_session_token kx slug token = kx_digest kx ''kds-session'' slug token"

subsection \<open>The payload of the QR code\<close>

definition pairing_payload :: "string \<Rightarrow> string \<Rightarrow> int \<Rightarrow> string \<Rightarrow> instant \<Rightarrow> qr_payload" where
  "pairing_payload nonce slug screen_id code expires_at =
     \<lparr>qr_typ = Some ''kds_pairing'', qr_tenant = Some slug, qr_screen_id = Some screen_id, qr_code = Some code,
      qr_exp = Some (expires_at div second_us), qr_nonce = nonce\<rparr>"

definition encode_pairing_payload :: "kds_crypto \<Rightarrow> string \<Rightarrow> string \<Rightarrow> int \<Rightarrow> string \<Rightarrow> instant \<Rightarrow> string" where
  "encode_pairing_payload kx nonce slug screen_id code expires_at = kx_encrypt kx (pairing_payload nonce slug screen_id code expires_at)"

definition six_digits :: "string \<Rightarrow> bool" where
  "six_digits code \<longleftrightarrow> list_all (char_in CHR ''0'' CHR ''9'') code \<and> length code = 6"

definition payload_invalid :: "'a res" where
  "payload_invalid = Inl (AppError ''KDS_PAIRING_PAYLOAD_INVALID'' 401)"

definition decode_pairing_payload :: "kds_crypto \<Rightarrow> instant \<Rightarrow> string \<Rightarrow> string \<Rightarrow> (int \<times> string \<times> instant) res" where
  "decode_pairing_payload kx now qr_text slug =
     (case kx_decrypt kx (py_strip qr_text) of
        None \<Rightarrow> payload_invalid
      | Some p \<Rightarrow>
          if qr_typ p \<noteq> Some ''kds_pairing'' \<or> qr_tenant p \<noteq> Some slug then payload_invalid
          else (case qr_code p of
                  None \<Rightarrow> payload_invalid
                | Some code \<Rightarrow>
                    if \<not> six_digits code then payload_invalid
                    else (case (qr_screen_id p, qr_exp p) of
                            (Some screen_id, Some e) \<Rightarrow>
                              if e \<le> now div second_us then Inl (AppError ''KDS_PAIRING_PAYLOAD_EXPIRED'' 401)
                              else Inr (screen_id, code, e * second_us)
                          | _ \<Rightarrow> payload_invalid)))"

subsection \<open>Screens\<close>

definition alnum_char :: "char \<Rightarrow> bool" where
  "alnum_char c \<longleftrightarrow> char_in CHR ''a'' CHR ''z'' c \<or> char_in CHR ''0'' CHR ''9'' c"

definition screen_key_ok :: "string \<Rightarrow> bool" where
  "screen_key_ok k \<longleftrightarrow> k \<noteq> [] \<and> length k \<le> 64 \<and> alnum_char (hd k) \<and> alnum_char (last k)
     \<and> list_all (\<lambda>c. alnum_char c \<or> c = CHR ''_'' \<or> c = CHR ''-'') k"

record screen_body =
  kb_name :: string
  kb_key :: string
  kb_mode :: string
  kb_station :: string
  kb_interaction :: string
  kb_per_page :: int
  kb_active :: bool
  kb_remote :: bool

definition text_between :: "nat \<Rightarrow> nat \<Rightarrow> string \<Rightarrow> bool" where
  "text_between lo hi s \<longleftrightarrow> lo \<le> length s \<and> length s \<le> hi"

definition kds_mode_ok :: "string \<Rightarrow> bool" where
  "kds_mode_ok m \<longleftrightarrow> m \<in> set [''kitchen'', ''counter'', ''service'']"

definition interaction_ok :: "string \<Rightarrow> bool" where
  "interaction_ok i \<longleftrightarrow> i \<in> set [''wall'', ''touch'']"

text \<open>The schema strips the three texts before it checks them.\<close>

definition screen_body_ok :: "screen_body \<Rightarrow> bool" where
  "screen_body_ok b \<longleftrightarrow> text_between 1 120 (py_strip (kb_name b)) \<and> screen_key_ok (py_strip (kb_key b)) \<and> kds_mode_ok (kb_mode b)
     \<and> text_between 1 64 (py_strip (kb_station b)) \<and> interaction_ok (kb_interaction b) \<and> 1 \<le> kb_per_page b \<and> kb_per_page b \<le> 8"

definition get_screen_or_404 :: "int \<Rightarrow> kds_db \<Rightarrow> kds_screen res" where
  "get_screen_or_404 k s = (case row_get kd_id k (ks_screens s) of None \<Rightarrow> Inl (AppError ''KDS_SCREEN_NOT_FOUND'' 404) | Some x \<Rightarrow> Inr x)"

definition list_screens :: "(string \<Rightarrow> int) \<Rightarrow> bool \<Rightarrow> kds_db \<Rightarrow> kds_screen list" where
  "list_screens rank include_inactive s =
     sort_key (\<lambda>x. (rank (kd_name x), kd_id x)) (filter (\<lambda>x. include_inactive \<or> kd_active x) (ks_screens s))"

definition screen_key_taken :: "string \<Rightarrow> kds_db \<Rightarrow> bool" where
  "screen_key_taken k s \<longleftrightarrow> list_ex (\<lambda>x. kd_key x = k) (ks_screens s)"

definition create_screen :: "instant \<Rightarrow> int \<Rightarrow> screen_body \<Rightarrow> kds_db \<Rightarrow> (kds_db \<times> kds_screen) res" where
  "create_screen now key b s =
     (if \<not> screen_body_ok b then Inl (AppError [] 422)
      else if screen_key_taken (py_strip (kb_key b)) s then Inl (AppError ''KDS_SCREEN_KEY_ALREADY_EXISTS'' 409)
      else let x = \<lparr>kd_id = key, kd_name = py_strip (kb_name b), kd_key = py_strip (kb_key b), kd_mode = kb_mode b, kd_station = py_strip (kb_station b),
                 kd_interaction = kb_interaction b, kd_per_page = kb_per_page b, kd_active = kb_active b, kd_remote = kb_remote b,
                 kd_created_at = now, kd_updated_at = now\<rparr>
           in Inr (s\<lparr>ks_screens := ks_screens s @ [x]\<rparr>, x))"

record screen_patch =
  kp_name :: "string option"
  kp_key :: "string option"
  kp_mode :: "string option"
  kp_station :: "string option"
  kp_interaction :: "string option"
  kp_per_page :: "int option"
  kp_active :: "bool option"
  kp_remote :: "bool option"

definition patch_ok :: "('a \<Rightarrow> bool) \<Rightarrow> 'a option \<Rightarrow> bool" where
  "patch_ok p v = (case v of None \<Rightarrow> True | Some x \<Rightarrow> p x)"

definition screen_patch_ok :: "screen_patch \<Rightarrow> bool" where
  "screen_patch_ok b \<longleftrightarrow> patch_ok (text_between 1 120 \<circ> py_strip) (kp_name b) \<and> patch_ok (screen_key_ok \<circ> py_strip) (kp_key b)
     \<and> patch_ok kds_mode_ok (kp_mode b) \<and> patch_ok (text_between 1 64 \<circ> py_strip) (kp_station b) \<and> patch_ok interaction_ok (kp_interaction b)
     \<and> patch_ok (\<lambda>n. 1 \<le> n \<and> n \<le> 8) (kp_per_page b)"

definition patched_screen :: "instant \<Rightarrow> screen_patch \<Rightarrow> kds_screen \<Rightarrow> kds_screen" where
  "patched_screen now b x =
     (let y = x\<lparr>kd_name := or_keep (map_option py_strip (kp_name b)) (kd_name x), kd_key := or_keep (map_option py_strip (kp_key b)) (kd_key x),
            kd_mode := or_keep (kp_mode b) (kd_mode x), kd_station := or_keep (map_option py_strip (kp_station b)) (kd_station x),
            kd_interaction := or_keep (kp_interaction b) (kd_interaction x), kd_per_page := or_keep (kp_per_page b) (kd_per_page x),
            kd_active := or_keep (kp_active b) (kd_active x), kd_remote := or_keep (kp_remote b) (kd_remote x)\<rparr>
      in if y = x then x else y\<lparr>kd_updated_at := now\<rparr>)"

definition update_screen :: "instant \<Rightarrow> int \<Rightarrow> screen_patch \<Rightarrow> kds_db \<Rightarrow> (kds_db \<times> kds_screen) res" where
  "update_screen now k b s =
     (if \<not> screen_patch_ok b then Inl (AppError [] 422)
      else rbind (get_screen_or_404 k s) (\<lambda>x.
        if (case kp_key b of None \<Rightarrow> False | Some nk \<Rightarrow> py_strip nk \<noteq> kd_key x \<and> screen_key_taken (py_strip nk) s)
        then Inl (AppError ''KDS_SCREEN_KEY_ALREADY_EXISTS'' 409)
        else let y = patched_screen now b x in Inr (s\<lparr>ks_screens := row_upd kd_id k (\<lambda>_. y) (ks_screens s)\<rparr>, y)))"

subsection \<open>Pairing codes\<close>

definition live_code :: "instant \<Rightarrow> pairing_row \<Rightarrow> bool" where
  "live_code now p \<longleftrightarrow> kc_used_at p = None \<and> now < kc_expires_at p"

text \<open>Ten draws at most.\<close>

definition generate_unique_pairing_code :: "kds_crypto \<Rightarrow> string \<Rightarrow> instant \<Rightarrow> (nat \<Rightarrow> string) \<Rightarrow> kds_db \<Rightarrow> (string \<times> string) res" where
  "generate_unique_pairing_code kx slug now draw s =
     (case find (\<lambda>c. \<not> list_ex (\<lambda>p. kc_code_hash p = hash_pairing_code kx slug c \<and> live_code now p) (ks_codes s)) (map draw [0..<10]) of
        None \<Rightarrow> Inl (AppError ''PAIRING_CODE_GENERATION_FAILED'' 503)
      | Some c \<Rightarrow> Inr (c, hash_pairing_code kx slug c))"

definition generate_unique_remote_token :: "kds_crypto \<Rightarrow> string \<Rightarrow> (nat \<Rightarrow> string) \<Rightarrow> kds_db \<Rightarrow> (string \<times> string) res" where
  "generate_unique_remote_token kx slug draw s =
     (case find (\<lambda>t. \<not> list_ex (\<lambda>r. kr_hash r = hash_remote_session_token kx slug t) (ks_remotes s)) (map draw [0..<10]) of
        None \<Rightarrow> Inl (AppError ''KDS_SESSION_GENERATION_FAILED'' 503)
      | Some t \<Rightarrow> Inr (t, hash_remote_session_token kx slug t))"

record pairing_out =
  ko_screen_id :: int
  ko_code :: string
  ko_expires_at :: instant
  ko_payload :: string

definition create_pairing_code ::
    "kds_crypto \<Rightarrow> instant \<Rightarrow> int \<Rightarrow> (nat \<Rightarrow> string) \<Rightarrow> string \<Rightarrow> string \<Rightarrow> int \<Rightarrow> int \<Rightarrow> kds_db \<Rightarrow> (kds_db \<times> pairing_out) res" where
  "create_pairing_code kx now key draw nonce slug screen_id by_id s =
     rbind (get_screen_or_404 screen_id s) (\<lambda>x.
       if \<not> kd_active x then Inl (AppError ''KDS_SCREEN_INACTIVE'' 409)
       else if \<not> kd_remote x then Inl (AppError ''KDS_SCREEN_REMOTE_DISABLED'' 409)
       else
         let s1 = s\<lparr>ks_codes := map (\<lambda>p. if kc_screen_id p = screen_id \<and> live_code now p then p\<lparr>kc_used_at := Some now\<rparr> else p) (ks_codes s)\<rparr>
         in rbind (generate_unique_pairing_code kx slug now draw s1) (\<lambda>(code, h).
              let e = now + pairing_code_ttl;
                  p = \<lparr>kc_id = key, kc_screen_id = screen_id, kc_code_hash = h, kc_expires_at = e, kc_used_at = None, kc_created_by = Some by_id,
                       kc_created_at = now\<rparr>
              in Inr (s1\<lparr>ks_codes := ks_codes s1 @ [p]\<rparr>,
                      \<lparr>ko_screen_id = screen_id, ko_code = code, ko_expires_at = e,
                       ko_payload = encode_pairing_payload kx nonce slug screen_id code e\<rparr>)))"

definition resolve_pairing_payload :: "kds_crypto \<Rightarrow> instant \<Rightarrow> string \<Rightarrow> string \<Rightarrow> kds_db \<Rightarrow> (int \<times> string \<times> instant \<times> kds_screen) res" where
  "resolve_pairing_payload kx now slug qr_text s =
     rbind (decode_pairing_payload kx now qr_text slug) (\<lambda>(screen_id, code, e).
       rbind (get_screen_or_404 screen_id s) (\<lambda>x.
         if \<not> kd_active x then Inl (AppError ''KDS_SCREEN_INACTIVE'' 409)
         else if \<not> kd_remote x then Inl (AppError ''KDS_SCREEN_REMOTE_DISABLED'' 409)
         else Inr (screen_id, code, e, x)))"

subsection \<open>Remote sessions\<close>

text \<open>The latest row with the hash decides.\<close>

definition pairing_candidates :: "string \<Rightarrow> kds_db \<Rightarrow> pairing_row list" where
  "pairing_candidates h s = rev (sort_key (\<lambda>p. (kc_created_at p, kc_id p)) (filter (\<lambda>p. kc_code_hash p = h) (ks_codes s)))"

definition pair_remote ::
    "kds_crypto \<Rightarrow> instant \<Rightarrow> int \<Rightarrow> (nat \<Rightarrow> string) \<Rightarrow> string \<Rightarrow> string \<Rightarrow> int \<Rightarrow> string option \<Rightarrow> kds_db \<Rightarrow> (kds_db \<times> string \<times> instant \<times> kds_screen) res" where
  "pair_remote kx now key draw slug code by_id device s =
     (case pairing_candidates (hash_pairing_code kx slug code) s of
        [] \<Rightarrow> Inl (AppError ''PAIRING_CODE_INVALID'' 400)
      | p # _ \<Rightarrow>
          if kc_used_at p \<noteq> None then Inl (AppError ''PAIRING_CODE_ALREADY_USED'' 409)
          else if is_expired (kc_expires_at p) now then Inl (AppError ''PAIRING_CODE_EXPIRED'' 400)
          else
            rbind (get_screen_or_404 (kc_screen_id p) s) (\<lambda>x.
              if \<not> kd_active x then Inl (AppError ''KDS_SCREEN_INACTIVE'' 409)
              else
                let s1 = s\<lparr>ks_codes := row_upd kc_id (kc_id p) (\<lambda>q. q\<lparr>kc_used_at := Some now\<rparr>) (ks_codes s)\<rparr>
                in rbind (generate_unique_remote_token kx slug draw s1) (\<lambda>(token, h).
                     let r = \<lparr>kr_id = key, kr_hash = h, kr_screen_id = kd_id x, kr_paired_by = Some by_id, kr_device = device, kr_created_at = now,
                              kr_last_seen_at = now, kr_expires_at = now + remote_session_ttl, kr_revoked_at = None\<rparr>
                     in Inr (s1\<lparr>ks_remotes := ks_remotes s1 @ [r]\<rparr>, token, kr_expires_at r, x))))"

definition remote_by_token :: "kds_crypto \<Rightarrow> string \<Rightarrow> string \<Rightarrow> kds_db \<Rightarrow> remote_row option" where
  "remote_by_token kx slug token s = find (\<lambda>r. kr_hash r = hash_remote_session_token kx slug (py_strip token)) (ks_remotes s)"

definition update_remote :: "remote_row \<Rightarrow> kds_db \<Rightarrow> kds_db" where
  "update_remote r s = s\<lparr>ks_remotes := row_upd kr_id (kr_id r) (\<lambda>_. r) (ks_remotes s)\<rparr>"

definition resolve_remote_session :: "kds_crypto \<Rightarrow> instant \<Rightarrow> string \<Rightarrow> string \<Rightarrow> bool \<Rightarrow> kds_db \<Rightarrow> (kds_db \<times> remote_row \<times> kds_screen) res" where
  "resolve_remote_session kx now slug token touch s =
     (if token = [] \<or> py_strip token = [] then Inl (AppError ''KDS_SESSION_INVALID'' 401)
      else
        case remote_by_token kx slug token s of
          None \<Rightarrow> Inl (AppError ''KDS_SESSION_INVALID'' 401)
        | Some r \<Rightarrow>
            if kr_revoked_at r \<noteq> None then Inl (AppError ''KDS_SESSION_REVOKED'' 401)
            else if is_expired (kr_expires_at r) now then Inl (AppError ''KDS_SESSION_EXPIRED'' 401)
            else rbind (get_screen_or_404 (kr_screen_id r) s) (\<lambda>x.
              if \<not> kd_active x then Inl (AppError ''KDS_SCREEN_INACTIVE'' 403)
              else let r' = (if touch then r\<lparr>kr_last_seen_at := now\<rparr> else r) in Inr (if touch then update_remote r' s else s, r', x)))"

definition revoke_remote_session :: "kds_crypto \<Rightarrow> instant \<Rightarrow> string \<Rightarrow> string \<Rightarrow> kds_db \<Rightarrow> kds_db res" where
  "revoke_remote_session kx now slug token s =
     (if token = [] \<or> py_strip token = [] then Inl (AppError ''KDS_SESSION_INVALID'' 401)
      else
        case remote_by_token kx slug token s of
          None \<Rightarrow> Inl (AppError ''KDS_SESSION_INVALID'' 401)
        | Some r \<Rightarrow>
            if kr_revoked_at r \<noteq> None then Inr s
            else if is_expired (kr_expires_at r) now then Inl (AppError ''KDS_SESSION_EXPIRED'' 401)
            else Inr (update_remote (r\<lparr>kr_revoked_at := Some now\<rparr>) s))"

definition revoke_screen_sessions :: "instant \<Rightarrow> int \<Rightarrow> kds_db \<Rightarrow> (kds_db \<times> nat) res" where
  "revoke_screen_sessions now screen_id s =
     rbind (get_screen_or_404 screen_id s) (\<lambda>_.
       let hit = (\<lambda>r. kr_screen_id r = screen_id \<and> kr_revoked_at r = None)
       in Inr (s\<lparr>ks_remotes := map (\<lambda>r. if hit r then r\<lparr>kr_revoked_at := Some now\<rparr> else r) (ks_remotes s)\<rparr>, length (filter hit (ks_remotes s))))"

text \<open>The routes of a paired tablet ask for the permission and the header.\<close>

definition get_kds_remote_session ::
    "kds_crypto \<Rightarrow> instant \<Rightarrow> current_user \<Rightarrow> string \<Rightarrow> string option \<Rightarrow> kds_db \<Rightarrow> (kds_db \<times> remote_row \<times> kds_screen) res" where
  "get_kds_remote_session kx now u slug header s =
     rbind (require_permission ''orders:preparation'' [''staff'', ''admin''] u) (\<lambda>_.
       case header of
         None \<Rightarrow> Inl (AppError ''KDS_SESSION_INVALID'' 401)
       | Some token \<Rightarrow> if token = [] then Inl (AppError ''KDS_SESSION_INVALID'' 401) else resolve_remote_session kx now slug token True s)"

end
