(* ===== verification/Kds_Props.thy ===== *)
theory Kds_Props
  imports Kds Machines
begin

text \<open>
  What pairing promises: a screen has one live code at a time and a live code names one screen, a code shown on a screen opens it, and
  the sessions of a screen end for good when they are revoked.
\<close>

subsection \<open>Steps\<close>

text \<open>A state is taken together with the time of its last operation. Keys come from sequences.\<close>

inductive kds_step :: "kds_crypto \<Rightarrow> instant \<times> kds_db \<Rightarrow> instant \<times> kds_db \<Rightarrow> bool" for kx where
  kdstep_create_screen: "t \<le> now \<Longrightarrow> create_screen now key b s = Inr (s', x) \<Longrightarrow> kds_step kx (t, s) (now, s')"
| kdstep_update_screen: "t \<le> now \<Longrightarrow> update_screen now k b s = Inr (s', x) \<Longrightarrow> kds_step kx (t, s) (now, s')"
| kdstep_code: "t \<le> now \<Longrightarrow> \<forall>p \<in> set (ks_codes s). kc_id p < key \<Longrightarrow> create_pairing_code kx now key draw nonce slug k by_id s = Inr (s', out)
    \<Longrightarrow> kds_step kx (t, s) (now, s')"
| kdstep_pair: "t \<le> now \<Longrightarrow> key \<notin> kr_id ` set (ks_remotes s) \<Longrightarrow> pair_remote kx now key draw slug code by_id device s = Inr (s', out)
    \<Longrightarrow> kds_step kx (t, s) (now, s')"
| kdstep_resolve: "t \<le> now \<Longrightarrow> resolve_remote_session kx now slug token touch s = Inr (s', out) \<Longrightarrow> kds_step kx (t, s) (now, s')"
| kdstep_revoke: "t \<le> now \<Longrightarrow> revoke_remote_session kx now slug token s = Inr s' \<Longrightarrow> kds_step kx (t, s) (now, s')"
| kdstep_revoke_screen: "t \<le> now \<Longrightarrow> revoke_screen_sessions now k s = Inr (s', n) \<Longrightarrow> kds_step kx (t, s) (now, s')"

subsection \<open>Codes\<close>

definition codes_apart :: "instant \<Rightarrow> pairing_row list \<Rightarrow> bool" where
  "codes_apart t ps \<longleftrightarrow> (\<forall>p \<in> set ps. \<forall>q \<in> set ps. live_code t p \<longrightarrow> live_code t q
     \<longrightarrow> kc_screen_id p = kc_screen_id q \<or> kc_code_hash p = kc_code_hash q \<longrightarrow> p = q)"

definition codes_ok :: "instant \<times> kds_db \<Rightarrow> bool" where
  "codes_ok ts \<longleftrightarrow> distinct (map kc_id (ks_codes (snd ts))) \<and> (\<forall>p \<in> set (ks_codes (snd ts)). kc_created_at p \<le> fst ts)
     \<and> codes_apart (fst ts) (ks_codes (snd ts))"

text \<open>A row may be marked as used; nothing else changes.\<close>

definition spends :: "(pairing_row \<Rightarrow> pairing_row) \<Rightarrow> bool" where
  "spends f \<longleftrightarrow> (\<forall>p. f p = p \<or> (\<exists>u. f p = p\<lparr>kc_used_at := Some u\<rparr>))"

lemma spends_cases: "spends f \<Longrightarrow> (f p = p \<Longrightarrow> Q) \<Longrightarrow> (\<And>u. f p = p\<lparr>kc_used_at := Some u\<rparr> \<Longrightarrow> Q) \<Longrightarrow> Q"
  unfolding spends_def by blast

lemma spends_fields:
  assumes "spends f"
  shows "kc_id (f p) = kc_id p" and "kc_created_at (f p) = kc_created_at p" and "live_code t (f p) \<Longrightarrow> f p = p"
  by (rule spends_cases [OF assms, of p]; simp add: live_code_def)+

lemma live_earlier: "live_code t' p \<Longrightarrow> t \<le> t' \<Longrightarrow> live_code t p"
  by (simp add: live_code_def)

lemma codes_ok_spend:
  assumes "codes_ok (t, s)" and "t \<le> t'" and "ks_codes s' = map f (ks_codes s)" and "spends f"
  shows "codes_ok (t', s')"
proof -
  have ids: "map kc_id (map f (ks_codes s)) = map kc_id (ks_codes s)" by (simp add: spends_fields(1) [OF assms(4)])
  have "codes_apart t' (map f (ks_codes s))"
    unfolding codes_apart_def
  proof (intro ballI impI)
    fix p q assume "p \<in> set (map f (ks_codes s))" "q \<in> set (map f (ks_codes s))" and live: "live_code t' p" "live_code t' q"
      and same: "kc_screen_id p = kc_screen_id q \<or> kc_code_hash p = kc_code_hash q"
    then obtain p' q' where p: "p' \<in> set (ks_codes s)" "p = f p'" and q: "q' \<in> set (ks_codes s)" "q = f q'" by auto
    have "p = p'" "q = q'" using spends_fields(3) [OF assms(4)] live p(2) q(2) by blast+
    then show "p = q" using assms(1) live_earlier [OF live(1) assms(2)] live_earlier [OF live(2) assms(2)] same p(1) q(1)
      by (auto simp: codes_ok_def codes_apart_def)
  qed
  moreover have "\<forall>p \<in> set (map f (ks_codes s)). kc_created_at p \<le> t'"
    using assms(1,2) by (auto simp: codes_ok_def spends_fields(2) [OF assms(4)] intro: order_trans)
  moreover have "distinct (map kc_id (map f (ks_codes s)))" unfolding ids using assms(1) by (simp add: codes_ok_def)
  ultimately show ?thesis unfolding codes_ok_def fst_conv snd_conv assms(3) by blast
qed

lemma spends_id: "spends (\<lambda>p. p)"
  by (simp add: spends_def)

lemma codes_ok_same: "codes_ok (t, s) \<Longrightarrow> t \<le> t' \<Longrightarrow> ks_codes s' = ks_codes s \<Longrightarrow> codes_ok (t', s')"
  using codes_ok_spend [OF _ _ _ spends_id] by simp

lemma codes_ok_add:
  assumes "codes_ok (t, s)" and "\<forall>p \<in> set (ks_codes s). kc_id p < kc_id r" and "kc_created_at r \<le> t"
    and "\<forall>p \<in> set (ks_codes s). live_code t p \<longrightarrow> kc_screen_id p \<noteq> kc_screen_id r \<and> kc_code_hash p \<noteq> kc_code_hash r"
  shows "codes_ok (t, s\<lparr>ks_codes := ks_codes s @ [r]\<rparr>)"
proof -
  have "kc_id r \<notin> kc_id ` set (ks_codes s)" using assms(2) by auto
  then have "distinct (map kc_id (ks_codes s @ [r]))" using assms(1) by (simp add: codes_ok_def)
  moreover have "codes_apart t (ks_codes s @ [r])"
    using assms(1,4) unfolding codes_ok_def codes_apart_def by (simp, metis)
  ultimately show ?thesis using assms(1,3) by (simp add: codes_ok_def)
qed

lemma create_pairing_codeD:
  assumes "create_pairing_code kx now key draw nonce slug k by_id s = Inr (s', out)"
  obtains x s1 f code r where "get_screen_or_404 k s = Inr x" and "kd_active x" and "kd_remote x"
    and "s1 = s\<lparr>ks_codes := map f (ks_codes s)\<rparr>" and "spends f" and "\<forall>p \<in> set (ks_codes s1). live_code now p \<longrightarrow> kc_screen_id p \<noteq> k"
    and "\<not> list_ex (\<lambda>p. kc_code_hash p = hash_pairing_code kx slug code \<and> live_code now p) (ks_codes s1)"
    and "r = \<lparr>kc_id = key, kc_screen_id = k, kc_code_hash = hash_pairing_code kx slug code, kc_expires_at = now + pairing_code_ttl, kc_used_at = None,
           kc_created_by = Some by_id, kc_created_at = now\<rparr>"
    and "s' = s1\<lparr>ks_codes := ks_codes s1 @ [r]\<rparr>"
    and "out = \<lparr>ko_screen_id = k, ko_code = code, ko_expires_at = now + pairing_code_ttl,
           ko_payload = encode_pairing_payload kx nonce slug k code (now + pairing_code_ttl)\<rparr>"
proof -
  define f where "f = (\<lambda>p. if kc_screen_id p = k \<and> live_code now p then p\<lparr>kc_used_at := Some now\<rparr> else p)"
  define s1 where "s1 = s\<lparr>ks_codes := map f (ks_codes s)\<rparr>"
  obtain x where x: "get_screen_or_404 k s = Inr x" "kd_active x" "kd_remote x"
    using assms by (auto simp: create_pairing_code_def split: if_splits)
  have rest: "rbind (generate_unique_pairing_code kx slug now draw s1) (\<lambda>(code, h).
      Inr (s1\<lparr>ks_codes := ks_codes s1 @ [\<lparr>kc_id = key, kc_screen_id = k, kc_code_hash = h, kc_expires_at = now + pairing_code_ttl, kc_used_at = None,
             kc_created_by = Some by_id, kc_created_at = now\<rparr>]\<rparr>,
           \<lparr>ko_screen_id = k, ko_code = code, ko_expires_at = now + pairing_code_ttl,
             ko_payload = encode_pairing_payload kx nonce slug k code (now + pairing_code_ttl)\<rparr>)) = Inr (s', out)"
    using assms x by (simp add: create_pairing_code_def s1_def f_def Let_def del: rbind_eq_Inr)
  then obtain code h where gen: "generate_unique_pairing_code kx slug now draw s1 = Inr (code, h)"
    and s': "s' = s1\<lparr>ks_codes := ks_codes s1 @ [\<lparr>kc_id = key, kc_screen_id = k, kc_code_hash = h, kc_expires_at = now + pairing_code_ttl, kc_used_at = None,
             kc_created_by = Some by_id, kc_created_at = now\<rparr>]\<rparr>"
    and out: "out = \<lparr>ko_screen_id = k, ko_code = code, ko_expires_at = now + pairing_code_ttl,
             ko_payload = encode_pairing_payload kx nonce slug k code (now + pairing_code_ttl)\<rparr>"
    by (cases "generate_unique_pairing_code kx slug now draw s1") auto
  have h: "h = hash_pairing_code kx slug code" and fresh: "\<not> list_ex (\<lambda>p. kc_code_hash p = hash_pairing_code kx slug code \<and> live_code now p) (ks_codes s1)"
    using gen by (auto simp: generate_unique_pairing_code_def find_Some_iff split: option.splits)
  have f: "spends f" by (auto simp: spends_def f_def)
  have other: "\<forall>p \<in> set (ks_codes s1). live_code now p \<longrightarrow> kc_screen_id p \<noteq> k"
  proof
    fix p assume "p \<in> set (ks_codes s1)"
    then obtain q where q: "p = f q" by (auto simp: s1_def)
    show "live_code now p \<longrightarrow> kc_screen_id p \<noteq> k" unfolding q f_def live_code_def by auto
  qed
  show ?thesis by (rule that [OF x s1_def f other fresh refl s' [unfolded h] out])
qed

lemma create_code_ok:
  assumes "create_pairing_code kx now key draw nonce slug k by_id s = Inr (s', out)" and "codes_ok (t, s)" and "t \<le> now"
    and "\<forall>p \<in> set (ks_codes s). kc_id p < key"
  shows "codes_ok (now, s')"
  using assms(1)
proof (rule create_pairing_codeD)
  fix x s1 f code r
  assume s1: "s1 = s\<lparr>ks_codes := map f (ks_codes s)\<rparr>" "spends f" "\<forall>p \<in> set (ks_codes s1). live_code now p \<longrightarrow> kc_screen_id p \<noteq> k"
    and fresh: "\<not> list_ex (\<lambda>p. kc_code_hash p = hash_pairing_code kx slug code \<and> live_code now p) (ks_codes s1)"
    and r: "r = \<lparr>kc_id = key, kc_screen_id = k, kc_code_hash = hash_pairing_code kx slug code, kc_expires_at = now + pairing_code_ttl, kc_used_at = None,
           kc_created_by = Some by_id, kc_created_at = now\<rparr>"
    and s': "s' = s1\<lparr>ks_codes := ks_codes s1 @ [r]\<rparr>"
  have ok: "codes_ok (now, s1)" by (rule codes_ok_spend [OF assms(2,3) _ s1(2)]) (simp add: s1(1))
  show ?thesis
    unfolding s'
  proof (rule codes_ok_add [OF ok])
    show "\<forall>p \<in> set (ks_codes s1). kc_id p < kc_id r" using assms(4) by (simp add: s1(1) r spends_fields(1) [OF s1(2)])
    show "\<forall>p \<in> set (ks_codes s1). live_code now p \<longrightarrow> kc_screen_id p \<noteq> kc_screen_id r \<and> kc_code_hash p \<noteq> kc_code_hash r"
      using s1(3) fresh by (auto simp: r list_ex_iff)
  qed (simp add: r)
qed

lemma spends_upd: "ks_codes (s\<lparr>ks_codes := row_upd kc_id i (\<lambda>q. q\<lparr>kc_used_at := Some now\<rparr>) (ks_codes s)\<rparr>)
    = map (\<lambda>q. if kc_id q = i then q\<lparr>kc_used_at := Some now\<rparr> else q) (ks_codes s)"
  by (simp add: row_upd_def)

lemma pair_remoteD:
  assumes "pair_remote kx now key draw slug code by_id device s = Inr (s', out)"
  obtains p ps x token where "pairing_candidates (hash_pairing_code kx slug code) s = p # ps" and "kc_used_at p = None" and "now < kc_expires_at p"
    and "get_screen_or_404 (kc_screen_id p) s = Inr x" and "kd_active x"
    and "hash_remote_session_token kx slug token \<notin> kr_hash ` set (ks_remotes s)"
    and "s' = s\<lparr>ks_codes := row_upd kc_id (kc_id p) (\<lambda>q. q\<lparr>kc_used_at := Some now\<rparr>) (ks_codes s),
           ks_remotes := ks_remotes s @ [\<lparr>kr_id = key, kr_hash = hash_remote_session_token kx slug token, kr_screen_id = kd_id x, kr_paired_by = Some by_id,
             kr_device = device, kr_created_at = now, kr_last_seen_at = now, kr_expires_at = now + remote_session_ttl, kr_revoked_at = None\<rparr>]\<rparr>"
  using assms
  by (auto simp: pair_remote_def generate_unique_remote_token_def is_expired_def Let_def find_Some_iff list_ex_iff
      split: list.splits option.splits if_splits intro!: that)

lemma kds_step_codes_ok:
  assumes "kds_step kx ts ts'" and "codes_ok ts"
  shows "codes_ok ts'"
  using assms
proof (cases rule: kds_step.cases)
  case (kdstep_create_screen t now key b s s' x)
  then have "ks_codes s' = ks_codes s" by (auto simp: create_screen_def Let_def split: if_splits)
  then show ?thesis using kdstep_create_screen assms(2) codes_ok_same by simp
next
  case (kdstep_update_screen t now k b s s' x)
  then have "ks_codes s' = ks_codes s" by (auto simp: update_screen_def Let_def split: if_splits)
  then show ?thesis using kdstep_update_screen assms(2) codes_ok_same by simp
next
  case (kdstep_code t now s key draw nonce slug k by_id s' out)
  then show ?thesis using create_code_ok assms(2) by simp
next
  case (kdstep_pair t now key s draw slug code by_id device s' out)
  from kdstep_pair(5) show ?thesis
  proof (rule pair_remoteD)
    fix p ps x token assume s': "s' = s\<lparr>ks_codes := row_upd kc_id (kc_id p) (\<lambda>q. q\<lparr>kc_used_at := Some now\<rparr>) (ks_codes s),
           ks_remotes := ks_remotes s @ [\<lparr>kr_id = key, kr_hash = hash_remote_session_token kx slug token, kr_screen_id = kd_id x, kr_paired_by = Some by_id,
             kr_device = device, kr_created_at = now, kr_last_seen_at = now, kr_expires_at = now + remote_session_ttl, kr_revoked_at = None\<rparr>]\<rparr>"
    have spend: "spends (\<lambda>q. if kc_id q = kc_id p then q\<lparr>kc_used_at := Some now\<rparr> else q)" by (auto simp: spends_def)
    have "codes_ok (t, s)" using assms(2) kdstep_pair(1) by simp
    then have "codes_ok (now, s')" by (rule codes_ok_spend [OF _ kdstep_pair(3) _ spend]) (simp add: s' row_upd_def)
    then show ?thesis by (simp add: kdstep_pair(2))
  qed
next
  case (kdstep_resolve t now slug token touch s s' out)
  then have "ks_codes s' = ks_codes s" by (auto simp: resolve_remote_session_def update_remote_def Let_def split: if_splits option.splits)
  then show ?thesis using kdstep_resolve assms(2) codes_ok_same by simp
next
  case (kdstep_revoke t now slug token s s')
  then have "ks_codes s' = ks_codes s" by (auto simp: revoke_remote_session_def update_remote_def split: if_splits option.splits)
  then show ?thesis using kdstep_revoke assms(2) codes_ok_same by simp
next
  case (kdstep_revoke_screen t now k s s' n)
  then have "ks_codes s' = ks_codes s" by (auto simp: revoke_screen_sessions_def Let_def)
  then show ?thesis using kdstep_revoke_screen assms(2) codes_ok_same by simp
qed

interpretation pairing: invariant_steps "kds_step kx" codes_ok
  by unfold_locales (rule kds_step_codes_ok)

text \<open>C38. Starting without codes, whatever is done to screens, codes and sessions, one request served after another: at any time a
  screen has at most one code that can still be used, and two screens never show the same one.\<close>

theorem live_codes_name_one_screen:
  assumes "(kds_step kx)\<^sup>*\<^sup>* (t0, s0) (t, s)" and "ks_codes s0 = []"
    and "p \<in> set (ks_codes s)" and "q \<in> set (ks_codes s)" and "live_code t p" and "live_code t q"
    and "kc_screen_id p = kc_screen_id q \<or> kc_code_hash p = kc_code_hash q"
  shows "p = q"
proof -
  have "codes_ok (t0, s0)" using assms(2) by (simp add: codes_ok_def codes_apart_def)
  then have "codes_ok (t, s)" by (rule pairing.run_inv [OF assms(1)])
  then show ?thesis using assms(3-7) by (auto simp: codes_ok_def codes_apart_def)
qed

subsection \<open>Sessions\<close>

definition remotes_ok :: "kds_db \<Rightarrow> bool" where
  "remotes_ok s \<longleftrightarrow> distinct (map kr_id (ks_remotes s)) \<and> distinct (map kr_hash (ks_remotes s))"

text \<open>Rows keep their key, hash and screen, and stay revoked; new rows have a new key and a new hash.\<close>

definition keeps_remote :: "(remote_row \<Rightarrow> remote_row) \<Rightarrow> bool" where
  "keeps_remote f \<longleftrightarrow> (\<forall>r. kr_id (f r) = kr_id r \<and> kr_hash (f r) = kr_hash r \<and> (kr_revoked_at r \<noteq> None \<longrightarrow> kr_revoked_at (f r) \<noteq> None))"

definition remotes_grow :: "kds_db \<Rightarrow> kds_db \<Rightarrow> bool" where
  "remotes_grow s s' \<longleftrightarrow> (\<exists>f news. ks_remotes s' = map f (ks_remotes s) @ news \<and> keeps_remote f
     \<and> (\<forall>r \<in> set news. kr_id r \<notin> kr_id ` set (ks_remotes s) \<and> kr_hash r \<notin> kr_hash ` set (ks_remotes s)) \<and> length news \<le> 1)"

lemma remotes_grow_same: "ks_remotes s' = ks_remotes s \<Longrightarrow> remotes_grow s s'"
  unfolding remotes_grow_def by (rule exI [of _ id], rule exI [of _ "[]"]) (simp add: keeps_remote_def)

lemma remotes_grow_map: "ks_remotes s' = map f (ks_remotes s) \<Longrightarrow> keeps_remote f \<Longrightarrow> remotes_grow s s'"
  unfolding remotes_grow_def by (rule exI [of _ f], rule exI [of _ "[]"]) simp

lemma remotes_grow_update:
  assumes "distinct (map kr_id (ks_remotes s))" and "r \<in> set (ks_remotes s)" and "kr_id r' = kr_id r" and "kr_hash r' = kr_hash r"
    and "kr_revoked_at r \<noteq> None \<longrightarrow> kr_revoked_at r' \<noteq> None"
  shows "remotes_grow s (update_remote r' s)"
proof (rule remotes_grow_map)
  show "keeps_remote (\<lambda>x. if x = r then r' else x)" using assms(3-5) by (simp add: keeps_remote_def)
  show "ks_remotes (update_remote r' s) = map (\<lambda>x. if x = r then r' else x) (ks_remotes s)"
    using assms(1-3) by (auto simp: update_remote_def row_upd_def distinct_map dest: inj_onD)
qed

lemma keeps_remote_maps: "keeps_remote f \<Longrightarrow> map kr_id (map f rows) = map kr_id rows \<and> map kr_hash (map f rows) = map kr_hash rows"
  by (simp add: keeps_remote_def)

lemma remotes_grow_ok:
  assumes "remotes_grow s s'" and "remotes_ok s"
  shows "remotes_ok s'"
proof -
  obtain f news where f: "ks_remotes s' = map f (ks_remotes s) @ news" "keeps_remote f"
    and news: "\<forall>r \<in> set news. kr_id r \<notin> kr_id ` set (ks_remotes s) \<and> kr_hash r \<notin> kr_hash ` set (ks_remotes s)" "length news \<le> 1"
    using assms(1) by (auto simp: remotes_grow_def)
  have maps: "map kr_id (ks_remotes s') = map kr_id (ks_remotes s) @ map kr_id news" "map kr_hash (ks_remotes s') = map kr_hash (ks_remotes s) @ map kr_hash news"
    using keeps_remote_maps [OF f(2)] by (simp_all only: f(1) map_append)
  from news(2) consider "news = []" | r where "news = [r]" by (cases news) auto
  then show ?thesis
  proof cases
    case 1
    then show ?thesis using assms(2) by (simp add: remotes_ok_def maps)
  next
    case (2 r)
    then show ?thesis using assms(2) news(1) by (simp add: remotes_ok_def maps)
  qed
qed

definition session_dead :: "string \<Rightarrow> kds_db \<Rightarrow> bool" where
  "session_dead h s \<longleftrightarrow> remotes_ok s \<and> (\<exists>r \<in> set (ks_remotes s). kr_hash r = h \<and> kr_revoked_at r \<noteq> None)"

lemma session_dead_grow:
  assumes "remotes_grow s s'" and "session_dead h s"
  shows "session_dead h s'"
proof -
  obtain f news where f: "ks_remotes s' = map f (ks_remotes s) @ news" "keeps_remote f" using assms(1) by (auto simp: remotes_grow_def)
  obtain r where r: "r \<in> set (ks_remotes s)" "kr_hash r = h" "kr_revoked_at r \<noteq> None" using assms(2) by (auto simp: session_dead_def)
  have "f r \<in> set (ks_remotes s')" "kr_hash (f r) = h" "kr_revoked_at (f r) \<noteq> None" using r f by (simp_all add: keeps_remote_def)
  then show ?thesis using remotes_grow_ok assms by (auto simp: session_dead_def)
qed

lemma remote_by_token_in: "remote_by_token kx slug token s = Some r \<Longrightarrow> r \<in> set (ks_remotes s) \<and> kr_hash r = hash_remote_session_token kx slug (py_strip token)"
  by (auto simp: remote_by_token_def find_Some_iff)

lemma resolve_grows:
  assumes "resolve_remote_session kx now slug token touch s = Inr (s', out)" and "remotes_ok s"
  shows "remotes_grow s s'"
proof -
  obtain r where r: "remote_by_token kx slug token s = Some r" "s' = s \<or> s' = update_remote (r\<lparr>kr_last_seen_at := now\<rparr>) s"
    using assms(1) by (auto simp: resolve_remote_session_def Let_def split: if_splits option.splits)
  then have "r \<in> set (ks_remotes s)" using remote_by_token_in by blast
  then have "remotes_grow s (update_remote (r\<lparr>kr_last_seen_at := now\<rparr>) s)" using assms(2) by (intro remotes_grow_update) (auto simp: remotes_ok_def)
  then show ?thesis using r(2) remotes_grow_same [of s s] by auto
qed

lemma revoke_grows:
  assumes "revoke_remote_session kx now slug token s = Inr s'" and "remotes_ok s"
  shows "remotes_grow s s'"
proof -
  obtain r where r: "remote_by_token kx slug token s = Some r" "s' = s \<or> s' = update_remote (r\<lparr>kr_revoked_at := Some now\<rparr>) s"
    using assms(1) by (auto simp: revoke_remote_session_def split: if_splits option.splits)
  then have "r \<in> set (ks_remotes s)" using remote_by_token_in by blast
  then have "remotes_grow s (update_remote (r\<lparr>kr_revoked_at := Some now\<rparr>) s)" using assms(2) by (intro remotes_grow_update) (simp_all add: remotes_ok_def)
  then show ?thesis using r(2) remotes_grow_same [of s s] by auto
qed

lemma revoke_screenD:
  assumes "revoke_screen_sessions now k s = Inr (s', n)"
  shows "s' = s\<lparr>ks_remotes := map (\<lambda>r. if kr_screen_id r = k \<and> kr_revoked_at r = None then r\<lparr>kr_revoked_at := Some now\<rparr> else r) (ks_remotes s)\<rparr>"
  using assms by (auto simp: revoke_screen_sessions_def Let_def)

lemma revoke_screen_grows: "revoke_screen_sessions now k s = Inr (s', n) \<Longrightarrow> remotes_grow s s'"
  by (rule remotes_grow_map [where f = "\<lambda>r. if kr_screen_id r = k \<and> kr_revoked_at r = None then r\<lparr>kr_revoked_at := Some now\<rparr> else r"])
     (auto dest: revoke_screenD simp: keeps_remote_def)

lemma pair_grows:
  assumes "pair_remote kx now key draw slug code by_id device s = Inr (s', out)" and "key \<notin> kr_id ` set (ks_remotes s)"
  shows "remotes_grow s s'"
  using assms(1)
proof (rule pair_remoteD)
  fix p ps x token
  assume new: "hash_remote_session_token kx slug token \<notin> kr_hash ` set (ks_remotes s)"
    and s': "s' = s\<lparr>ks_codes := row_upd kc_id (kc_id p) (\<lambda>q. q\<lparr>kc_used_at := Some now\<rparr>) (ks_codes s),
           ks_remotes := ks_remotes s @ [\<lparr>kr_id = key, kr_hash = hash_remote_session_token kx slug token, kr_screen_id = kd_id x, kr_paired_by = Some by_id,
             kr_device = device, kr_created_at = now, kr_last_seen_at = now, kr_expires_at = now + remote_session_ttl, kr_revoked_at = None\<rparr>]\<rparr>"
  show ?thesis
    unfolding remotes_grow_def s' by (rule exI [of _ id], rule exI) (use new assms(2) in \<open>auto simp: keeps_remote_def\<close>)
qed

lemma kds_step_grows:
  assumes "kds_step kx ts ts'" and "remotes_ok (snd ts)"
  shows "remotes_grow (snd ts) (snd ts')"
  using assms
proof (cases rule: kds_step.cases)
  case (kdstep_create_screen t now key b s s' x)
  then show ?thesis by (auto simp: create_screen_def Let_def split: if_splits intro: remotes_grow_same)
next
  case (kdstep_update_screen t now k b s s' x)
  then show ?thesis by (auto simp: update_screen_def Let_def split: if_splits intro: remotes_grow_same)
next
  case (kdstep_code t now s key draw nonce slug k by_id s' out)
  from kdstep_code(5) have "ks_remotes s' = ks_remotes s" by (rule create_pairing_codeD) simp
  then show ?thesis using kdstep_code remotes_grow_same by simp
next
  case (kdstep_pair t now key s draw slug code by_id device s' out)
  then show ?thesis using pair_grows by simp
next
  case (kdstep_resolve t now slug token touch s s' out)
  then show ?thesis using resolve_grows assms(2) by simp
next
  case (kdstep_revoke t now slug token s s')
  then show ?thesis using revoke_grows assms(2) by simp
next
  case (kdstep_revoke_screen t now k s s' n)
  then show ?thesis using revoke_screen_grows by simp
qed

interpretation kds_sessions: invariant_steps "kds_step kx" "\<lambda>ts. session_dead h (snd ts)"
  by unfold_locales (meson kds_step_grows session_dead_def session_dead_grow)

text \<open>Revoking the sessions of a screen ends them for good: the token of a session that existed is refused with 401 in every later
  state, even after the screen was paired again.\<close>

theorem screen_revocation_is_final:
  assumes "revoke_screen_sessions now k s = Inr (s1, n)" and "(kds_step kx)\<^sup>*\<^sup>* (now, s1) (t2, s2)" and "remotes_ok s"
    and "r \<in> set (ks_remotes s)" and "kr_screen_id r = k" and "kr_hash r = hash_remote_session_token kx slug (py_strip token)" and "py_strip token \<noteq> []"
  shows "resolve_remote_session kx now' slug token touch s2 = Inl (AppError ''KDS_SESSION_REVOKED'' 401)"
proof -
  let ?h = "hash_remote_session_token kx slug (py_strip token)" and ?f = "\<lambda>r. if kr_screen_id r = k \<and> kr_revoked_at r = None then r\<lparr>kr_revoked_at := Some now\<rparr> else r"
  have "?f r \<in> set (ks_remotes s1)" using imageI [OF assms(4), of ?f] by (simp add: revoke_screenD [OF assms(1)])
  moreover have "kr_hash (?f r) = ?h" "kr_revoked_at (?f r) \<noteq> None" using assms(5,6) by auto
  ultimately have "session_dead ?h s1"
    using remotes_grow_ok [OF revoke_screen_grows [OF assms(1)] assms(3)] unfolding session_dead_def by blast
  then have dead: "session_dead ?h s2" using kds_sessions.run_inv [OF assms(2), of ?h] by simp
  then obtain q where q: "q \<in> set (ks_remotes s2)" "kr_hash q = ?h" "kr_revoked_at q \<noteq> None" and inj: "inj_on kr_hash (set (ks_remotes s2))"
    by (auto simp: session_dead_def remotes_ok_def distinct_map)
  obtain x where x: "remote_by_token kx slug token s2 = Some x" using q(1,2) by (cases "remote_by_token kx slug token s2") (auto simp: remote_by_token_def find_None_iff)
  have "x = q" using remote_by_token_in [OF x] q(1,2) inj by (metis inj_onD)
  moreover have "token \<noteq> []" using assms(7) by (auto simp: py_strip_def)
  ultimately show ?thesis using assms(7) q(3) by (auto simp: resolve_remote_session_def x)
qed

subsection \<open>From the code to the session\<close>

lemma insort_before_last: "f x \<le> f p \<Longrightarrow> insort_key f x (ys @ [p]) = insort_key f x ys @ [p]" for f :: "'a \<Rightarrow> 'k::linorder"
  by (induction ys) auto

lemma sort_key_snoc: "\<forall>x \<in> set xs. f x \<le> f p \<Longrightarrow> sort_key f (xs @ [p]) = sort_key f xs @ [p]" for f :: "'a \<Rightarrow> 'k::linorder"
  by (induction xs) (simp_all add: insort_before_last)

lemma list_ex_key: "list_ex (\<lambda>r. key r = l) rows \<longleftrightarrow> l \<in> key ` set rows"
  by (induction rows) auto

lemma find_fresh: "l \<notin> key ` set rows \<Longrightarrow> find (\<lambda>r. key r = l) (rows @ [r]) = (if key r = l then Some r else None)"
  by (induction rows) auto

lemma newest_candidate:
  assumes "\<forall>q \<in> set qs. kc_created_at q \<le> kc_created_at p \<and> kc_id q < kc_id p" and "ks_codes s = qs @ [p]"
  shows "pairing_candidates (kc_code_hash p) s = p # rev (sort_key (\<lambda>p. (kc_created_at p, kc_id p)) (filter (\<lambda>q. kc_code_hash q = kc_code_hash p) qs))"
  using assms(1) sort_key_snoc [of "filter (\<lambda>q. kc_code_hash q = kc_code_hash p) qs" "\<lambda>p. (kc_created_at p, kc_id p)" p]
  by (force simp: pairing_candidates_def assms(2) less_eq_prod_def)

text \<open>A code shown on a screen opens it: until the code expires, reading the QR code and entering the code both name that screen,
  and the token handed out is accepted for it during the twelve hours that follow (the first token drawn being new).\<close>

theorem pairing_opens_the_screen:
  assumes "create_pairing_code kx t key draw nonce slug k by_id s = Inr (s1, out)" and "codes_ok (t, s)" and "\<forall>p \<in> set (ks_codes s). kc_id p < key"
    and "t \<le> t1" and "t1 + second_us \<le> t + pairing_code_ttl" and "six_digits (ko_code out)"
    and "kx_decrypt kx (py_strip (ko_payload out)) = Some (pairing_payload nonce slug k (ko_code out) (t + pairing_code_ttl))"
    and "hash_remote_session_token kx slug (draw' 0) \<notin> kr_hash ` set (ks_remotes s)" and "py_strip (draw' 0) = draw' 0" and "draw' 0 \<noteq> []"
    and "t1 \<le> t2" and "t2 < t1 + remote_session_ttl"
  shows "\<exists>x s2 token e r. row_get kd_id k (ks_screens s) = Some x
    \<and> resolve_pairing_payload kx t1 slug (ko_payload out) s1 = Inr (k, ko_code out, (t + pairing_code_ttl) div second_us * second_us, x)
    \<and> pair_remote kx t1 key' draw' slug (ko_code out) by' device s1 = Inr (s2, token, e, x)
    \<and> resolve_remote_session kx t2 slug token False s2 = Inr (s2, r, x)"
  using assms(1)
proof (rule create_pairing_codeD)
  fix x s1' f code p
  assume x: "get_screen_or_404 k s = Inr x" "kd_active x" "kd_remote x" and s1': "s1' = s\<lparr>ks_codes := map f (ks_codes s)\<rparr>" "spends f"
    and p: "p = \<lparr>kc_id = key, kc_screen_id = k, kc_code_hash = hash_pairing_code kx slug code, kc_expires_at = t + pairing_code_ttl, kc_used_at = None,
           kc_created_by = Some by_id, kc_created_at = t\<rparr>"
    and s1: "s1 = s1'\<lparr>ks_codes := ks_codes s1' @ [p]\<rparr>"
    and out: "out = \<lparr>ko_screen_id = k, ko_code = code, ko_expires_at = t + pairing_code_ttl,
           ko_payload = encode_pairing_payload kx nonce slug k code (t + pairing_code_ttl)\<rparr>"
  have row: "row_get kd_id k (ks_screens s) = Some x" "kd_id x = k"
    using x(1) by (auto simp: get_screen_or_404_def dest: row_get_SomeD split: option.splits)
  have found: "get_screen_or_404 k s1 = Inr x" using x(1) by (simp add: get_screen_or_404_def s1 s1'(1))
  have "\<forall>q \<in> set (map f (ks_codes s)). kc_created_at q \<le> kc_created_at p \<and> kc_id q < kc_id p"
    using assms(2,3) by (simp add: p codes_ok_def spends_fields [OF s1'(2)])
  from newest_candidate [OF this, of s1] obtain ps where cands: "pairing_candidates (hash_pairing_code kx slug code) s1 = p # ps" by (simp add: s1 s1'(1) p)
  have pid: "kc_screen_id p = k" "kc_used_at p = None" "kc_expires_at p = t + pairing_code_ttl" "kc_id p = key" "ks_remotes s1 = ks_remotes s"
    by (simp_all add: p s1 s1'(1))
  have draws: "map draw' [0..<10] = draw' 0 # map draw' [1..<10]" by (simp add: upt_conv_Cons)
  have "\<not> list_ex (\<lambda>r. kr_hash r = hash_remote_session_token kx slug (draw' 0)) (ks_remotes s)" using assms(8) by (simp add: list_ex_key)
  then have gen: "generate_unique_remote_token kx slug draw' (s1\<lparr>ks_codes := cs\<rparr>) = Inr (draw' 0, hash_remote_session_token kx slug (draw' 0))" for cs
    by (simp add: generate_unique_remote_token_def draws s1 s1'(1))
  have time: "\<not> (t + pairing_code_ttl) div second_us \<le> t1 div second_us" "t1 < t + pairing_code_ttl"
    using assms(5) zdiv_mono1 [of "t1 + second_us" "t + pairing_code_ttl" second_us] by simp_all
  have "resolve_pairing_payload kx t1 slug (ko_payload out) s1 = Inr (k, ko_code out, (t + pairing_code_ttl) div second_us * second_us, x)"
    using assms(6,7) time(1) x(2,3)
    by (simp add: resolve_pairing_payload_def decode_pairing_payload_def out pairing_payload_def found)
  moreover define row where "row = \<lparr>kr_id = key', kr_hash = hash_remote_session_token kx slug (draw' 0), kr_screen_id = k, kr_paired_by = Some by',
      kr_device = device, kr_created_at = t1, kr_last_seen_at = t1, kr_expires_at = t1 + remote_session_ttl, kr_revoked_at = None\<rparr>"
  moreover define s2 where "s2 = s1\<lparr>ks_codes := row_upd kc_id key (\<lambda>q. q\<lparr>kc_used_at := Some t1\<rparr>) (ks_codes s1), ks_remotes := ks_remotes s @ [row]\<rparr>"
  moreover have "pair_remote kx t1 key' draw' slug (ko_code out) by' device s1 = Inr (s2, draw' 0, t1 + remote_session_ttl, x)"
    using time(2) x(2) row(2) by (simp add: pair_remote_def out cands is_expired_def found gen pid Let_def s2_def row_def)
  moreover have "resolve_remote_session kx t2 slug (draw' 0) False s2 = Inr (s2, row, x)"
  proof -
    have "remote_by_token kx slug (draw' 0) s2 = Some row"
      using assms(8,9) by (simp add: remote_by_token_def s2_def row_def find_fresh)
    then show ?thesis using assms(9,10,12) found x(2) by (simp add: resolve_remote_session_def row_def is_expired_def s2_def get_screen_or_404_def)
  qed
  ultimately show ?thesis using row(1) by blast
qed

subsection \<open>Examples\<close>

definition demo_kds_crypto :: kds_crypto where
  "demo_kds_crypto = \<lparr>kx_digest = (\<lambda>scope slug x. scope @ slug @ x), kx_encrypt = (\<lambda>_. ''qr''),
     kx_decrypt = (\<lambda>t. if t = ''qr'' then Some (pairing_payload ''n'' ''roma'' 1 ''222222'' (1 + pairing_code_ttl)) else None)\<rparr>"

definition demo_screen :: kds_screen where
  "demo_screen = \<lparr>kd_id = 1, kd_name = ''Pass'', kd_key = ''pass'', kd_mode = ''kitchen'', kd_station = ''kitchen'', kd_interaction = ''wall'',
     kd_per_page = 4, kd_active = True, kd_remote = True, kd_created_at = 0, kd_updated_at = 0\<rparr>"

definition demo_kds :: kds_db where
  "demo_kds = \<lparr>ks_screens = [demo_screen], ks_codes = [], ks_remotes = []\<rparr>"

definition demo_code :: "int \<Rightarrow> instant \<Rightarrow> string \<Rightarrow> pairing_row" where
  "demo_code k t code = \<lparr>kc_id = k, kc_screen_id = 1, kc_code_hash = hash_pairing_code demo_kds_crypto ''roma'' code, kc_expires_at = t + pairing_code_ttl,
     kc_used_at = None, kc_created_by = Some 7, kc_created_at = t\<rparr>"

lemma ten_draws: "map draw [0..<10] = draw 0 # map draw [Suc 0..<10]"
  by (simp add: upt_conv_Cons)

lemma demo_first: "\<exists>out. create_pairing_code demo_kds_crypto 0 1 (\<lambda>_. ''111111'') ''n'' ''roma'' 1 7 demo_kds = Inr (demo_kds\<lparr>ks_codes := [demo_code 1 0 ''111111'']\<rparr>, out)"
  by (simp add: create_pairing_code_def get_screen_or_404_def demo_kds_def row_simps demo_screen_def generate_unique_pairing_code_def ten_draws demo_code_def Let_def)

lemma demo_second: "\<exists>out. create_pairing_code demo_kds_crypto 1 2 (\<lambda>_. ''222222'') ''n'' ''roma'' 1 7 (demo_kds\<lparr>ks_codes := [demo_code 1 0 ''111111'']\<rparr>)
    = Inr (demo_kds\<lparr>ks_codes := [(demo_code 1 0 ''111111'')\<lparr>kc_used_at := Some 1\<rparr>, demo_code 2 1 ''222222'']\<rparr>, out)
      \<and> ko_code out = ''222222'' \<and> ko_payload out = ''qr''"
  by (simp add: create_pairing_code_def get_screen_or_404_def demo_kds_def row_simps demo_screen_def generate_unique_pairing_code_def ten_draws demo_code_def Let_def
      live_code_def pairing_code_ttl_def hash_pairing_code_def demo_kds_crypto_def encode_pairing_payload_def)

lemma demo_kds_run: "(kds_step demo_kds_crypto)\<^sup>*\<^sup>* (0, demo_kds)
    (1, demo_kds\<lparr>ks_codes := [(demo_code 1 0 ''111111'')\<lparr>kc_used_at := Some 1\<rparr>, demo_code 2 1 ''222222'']\<rparr>)"
proof -
  obtain o1 o2 where c: "create_pairing_code demo_kds_crypto 0 1 (\<lambda>_. ''111111'') ''n'' ''roma'' 1 7 demo_kds = Inr (demo_kds\<lparr>ks_codes := [demo_code 1 0 ''111111'']\<rparr>, o1)"
    "create_pairing_code demo_kds_crypto 1 2 (\<lambda>_. ''222222'') ''n'' ''roma'' 1 7 (demo_kds\<lparr>ks_codes := [demo_code 1 0 ''111111'']\<rparr>)
      = Inr (demo_kds\<lparr>ks_codes := [(demo_code 1 0 ''111111'')\<lparr>kc_used_at := Some 1\<rparr>, demo_code 2 1 ''222222'']\<rparr>, o2)"
    using demo_first demo_second by blast
  have "kds_step demo_kds_crypto (0, demo_kds) (0, demo_kds\<lparr>ks_codes := [demo_code 1 0 ''111111'']\<rparr>)"
    by (rule kdstep_code [OF order_refl _ c(1)]) (simp add: demo_kds_def)
  moreover have "kds_step demo_kds_crypto (0, demo_kds\<lparr>ks_codes := [demo_code 1 0 ''111111'']\<rparr>)
      (1, demo_kds\<lparr>ks_codes := [(demo_code 1 0 ''111111'')\<lparr>kc_used_at := Some 1\<rparr>, demo_code 2 1 ''222222'']\<rparr>)"
    by (rule kdstep_code [OF _ _ c(2)]) (simp_all add: demo_code_def)
  ultimately show ?thesis by (meson converse_rtranclp_into_rtranclp rtranclp.rtrancl_refl)
qed

theorem live_codes_name_one_screen_witness:
  "\<exists>s. (kds_step demo_kds_crypto)\<^sup>*\<^sup>* (0, demo_kds) (1, s) \<and> length (ks_codes s) = 2 \<and> live_code 1 (demo_code 2 1 ''222222'')
     \<and> (\<forall>q. \<not> (q \<in> set (ks_codes s) \<and> live_code 1 q \<and> kc_screen_id q = 1 \<and> q \<noteq> demo_code 2 1 ''222222''))"
proof -
  let ?s = "demo_kds\<lparr>ks_codes := [(demo_code 1 0 ''111111'')\<lparr>kc_used_at := Some 1\<rparr>, demo_code 2 1 ''222222'']\<rparr>"
  have empty: "ks_codes demo_kds = []" by (simp add: demo_kds_def)
  have new: "demo_code 2 1 ''222222'' \<in> set (ks_codes ?s)" "live_code 1 (demo_code 2 1 ''222222'')" "kc_screen_id (demo_code 2 1 ''222222'') = 1"
    by (simp_all add: live_code_def demo_code_def pairing_code_ttl_def)
  have "q = demo_code 2 1 ''222222''" if "q \<in> set (ks_codes ?s)" "live_code 1 q" "kc_screen_id q = 1" for q
    by (rule live_codes_name_one_screen [OF demo_kds_run empty that(1) new(1) that(2) new(2)]) (simp add: that(3) new(3))
  then show ?thesis using demo_kds_run new(2) by (intro exI [of _ ?s]) auto
qed

theorem pairing_opens_the_screen_witness:
  "\<exists>s1 out s2 token e r. create_pairing_code demo_kds_crypto 1 2 (\<lambda>_. ''222222'') ''n'' ''roma'' 1 7 (demo_kds\<lparr>ks_codes := [demo_code 1 0 ''111111'']\<rparr>) = Inr (s1, out)
     \<and> pair_remote demo_kds_crypto 60000000 5 (\<lambda>_. ''tok'') ''roma'' (ko_code out) 7 None s1 = Inr (s2, token, e, demo_screen)
     \<and> resolve_remote_session demo_kds_crypto 120000000 ''roma'' token False s2 = Inr (s2, r, demo_screen)"
proof -
  let ?s = "demo_kds\<lparr>ks_codes := [demo_code 1 0 ''111111'']\<rparr>"
  obtain s1 out where c: "create_pairing_code demo_kds_crypto 1 2 (\<lambda>_. ''222222'') ''n'' ''roma'' 1 7 ?s = Inr (s1, out)"
    and out: "ko_code out = ''222222''" "ko_payload out = ''qr''" using demo_second by blast
  have ok: "codes_ok (1, ?s)" by (simp add: codes_ok_def codes_apart_def demo_code_def)
  have ids: "\<forall>p \<in> set (ks_codes ?s). kc_id p < 2" by (simp add: demo_code_def)
  have row: "row_get kd_id 1 (ks_screens ?s) = Some demo_screen" by (simp add: demo_kds_def demo_screen_def row_simps)
  show ?thesis
    using c row pairing_opens_the_screen [OF c ok ids, of 60000000 "\<lambda>_. ''tok''" 120000000 5 7 None]
    by (auto simp: out six_digits_def char_in_def demo_kds_crypto_def pairing_code_ttl_def remote_session_ttl_def py_strip_def py_space_def demo_kds_def)
qed

definition demo_remote :: remote_row where
  "demo_remote = \<lparr>kr_id = 5, kr_hash = hash_remote_session_token demo_kds_crypto ''roma'' ''tok'', kr_screen_id = 1, kr_paired_by = Some 7, kr_device = None,
     kr_created_at = 0, kr_last_seen_at = 0, kr_expires_at = 10 ^ 12, kr_revoked_at = None\<rparr>"

theorem screen_revocation_is_final_witness:
  "\<exists>s1 n. revoke_screen_sessions 9 1 (demo_kds\<lparr>ks_remotes := [demo_remote]\<rparr>) = Inr (s1, n)
     \<and> resolve_remote_session demo_kds_crypto 10 ''roma'' ''tok'' True s1 = Inl (AppError ''KDS_SESSION_REVOKED'' 401)"
proof -
  obtain s1 n where c: "revoke_screen_sessions 9 1 (demo_kds\<lparr>ks_remotes := [demo_remote]\<rparr>) = Inr (s1, n)"
    by (simp add: revoke_screen_sessions_def get_screen_or_404_def demo_kds_def demo_screen_def row_simps Let_def)
  have "resolve_remote_session demo_kds_crypto 10 ''roma'' ''tok'' True s1 = Inl (AppError ''KDS_SESSION_REVOKED'' 401)"
    by (rule screen_revocation_is_final [OF c rtranclp.rtrancl_refl, of demo_remote])
       (simp_all add: remotes_ok_def demo_remote_def py_strip_def py_space_def)
  then show ?thesis using c by blast
qed

end
