(* ===== verification/Hr.thy ===== *)
theory Hr
  imports Csv_Text Kitchen_Data Money
begin

text \<open>
  Employees, shifts and the time clock, \<^verbatim>\<open>app/modules/hr/service.py\<close>, and the alerts the worker sends about them,
  \<^verbatim>\<open>worker/tasks/hr_alerts.py\<close>. The exports as spreadsheet and PDF are not modelled; the text export is.
\<close>

subsection \<open>Tables\<close>

record employee_profile =
  hp_id :: int
  hp_user_id :: int
  hp_establishment_id :: int
  hp_rate_cents :: "int option"
  hp_weekly_hours :: int
  hp_hire_date :: "int option"
  hp_active :: bool

record shift =
  wf_id :: int
  wf_employee_id :: int
  wf_establishment_id :: int
  wf_starts_at :: instant
  wf_ends_at :: instant
  wf_break_minutes :: int
  wf_status :: string
  wf_created_by :: "int option"

datatype clock_status = Clock_open | Clock_break | Clock_closed | Clock_corrected

record time_entry =
  te_id :: int
  te_employee_id :: int
  te_shift_id :: "int option"
  te_establishment_id :: int
  te_in_at :: instant
  te_out_at :: "instant option"
  te_method :: string
  te_status :: clock_status

record clock_correction =
  tx_id :: int
  tx_entry_id :: int
  tx_by :: int
  tx_old_in :: "instant option"
  tx_old_out :: "instant option"
  tx_new_in :: "instant option"
  tx_new_out :: "instant option"
  tx_reason :: string

text \<open>Values of the JSON column; \<^verbatim>\<open>float("inf")\<close> is not one PostgreSQL accepts.\<close>

datatype hr_value = Hr_null | Hr_int int | Hr_num rat | Hr_text string | Hr_infinity

type_synonym hr_payload = "(string \<times> hr_value) list"

record hr_alert =
  ha_id :: int
  ha_employee_id :: "int option"
  ha_establishment_id :: "int option"
  ha_type :: string
  ha_severity :: string
  ha_payload :: hr_payload
  ha_triggered_at :: instant
  ha_resolved_at :: "instant option"
  ha_sent_at :: "instant option"

record hr_config =
  hf_establishment_id :: int
  hf_weekly_threshold :: int
  hf_late_tolerance :: int
  hf_cooldown_hours :: int
  hf_cost_target :: rat

record hr_db =
  hz_establishments :: "int list"
  hz_configs :: "hr_config list"
  hz_employees :: "employee_profile list"
  hz_shifts :: "shift list"
  hz_entries :: "time_entry list"
  hz_corrections :: "clock_correction list"
  hz_alerts :: "hr_alert list"

abbreviation hour_us :: int where "hour_us \<equiv> 3600000000"
abbreviation minute_us :: int where "minute_us \<equiv> 60000000"

subsection \<open>Employees\<close>

text \<open>Foreign keys and the unique index on \<^verbatim>\<open>user_id\<close>.\<close>

definition create_employee_profile :: "int \<Rightarrow> int \<Rightarrow> int \<Rightarrow> int option \<Rightarrow> int \<Rightarrow> int option \<Rightarrow> hr_db \<Rightarrow> (hr_db \<times> employee_profile) res" where
  "create_employee_profile key user_id establishment_id rate weekly hire s =
     (if establishment_id \<notin> set (hz_establishments s) \<or> list_ex (\<lambda>e. hp_user_id e = user_id) (hz_employees s) then Inl IntegrityError
      else let e = \<lparr>hp_id = key, hp_user_id = user_id, hp_establishment_id = establishment_id, hp_rate_cents = rate, hp_weekly_hours = weekly,
                 hp_hire_date = hire, hp_active = True\<rparr>
           in Inr (s\<lparr>hz_employees := hz_employees s @ [e]\<rparr>, e))"

definition list_employee_profiles :: "hr_db \<Rightarrow> employee_profile list" where
  "list_employee_profiles s = sort_key hp_id (hz_employees s)"

definition get_employee_profile_by_user_id :: "int \<Rightarrow> hr_db \<Rightarrow> employee_profile res" where
  "get_employee_profile_by_user_id user_id s =
     (case find (\<lambda>e. hp_user_id e = user_id) (hz_employees s) of None \<Rightarrow> Inl (AppError ''NOT_FOUND'' 404) | Some e \<Rightarrow> Inr e)"

text \<open>A field of a partial update is absent, null or given.\<close>

type_synonym 'a field = "'a option option"

definition null_field :: "'a field \<Rightarrow> bool" where
  "null_field v \<longleftrightarrow> v = Some None"

definition set_field :: "'a field \<Rightarrow> 'a \<Rightarrow> 'a" where
  "set_field v old = (case v of Some (Some x) \<Rightarrow> x | _ \<Rightarrow> old)"

record employee_patch =
  eb_rate_cents :: "int field"
  eb_weekly_hours :: "int field"
  eb_establishment_id :: "int field"
  eb_active :: "bool field"

definition update_employee_profile :: "int \<Rightarrow> employee_patch \<Rightarrow> hr_db \<Rightarrow> (hr_db \<times> employee_profile) res" where
  "update_employee_profile k b s =
     (case row_get hp_id k (hz_employees s) of
        None \<Rightarrow> Inl (AppError ''NOT_FOUND'' 404)
      | Some e \<Rightarrow>
          if null_field (eb_weekly_hours b) \<or> null_field (eb_establishment_id b) \<or> null_field (eb_active b)
             \<or> set_field (eb_establishment_id b) (hp_establishment_id e) \<notin> set (hz_establishments s) then Inl IntegrityError
          else let e' = e\<lparr>hp_rate_cents := (case eb_rate_cents b of None \<Rightarrow> hp_rate_cents e | Some r \<Rightarrow> r),
                     hp_weekly_hours := set_field (eb_weekly_hours b) (hp_weekly_hours e),
                     hp_establishment_id := set_field (eb_establishment_id b) (hp_establishment_id e), hp_active := set_field (eb_active b) (hp_active e)\<rparr>
               in Inr (s\<lparr>hz_employees := row_upd hp_id k (\<lambda>_. e') (hz_employees s)\<rparr>, e'))"

subsection \<open>Shifts\<close>

definition has_employee :: "int \<Rightarrow> hr_db \<Rightarrow> bool" where
  "has_employee k s \<longleftrightarrow> list_ex (\<lambda>e. hp_id e = k) (hz_employees s)"

definition create_shift :: "int \<Rightarrow> int \<Rightarrow> int \<Rightarrow> instant \<Rightarrow> instant \<Rightarrow> int \<Rightarrow> int \<Rightarrow> hr_db \<Rightarrow> (hr_db \<times> shift) res" where
  "create_shift key employee_id establishment_id starts_at ends_at break_minutes by_id s =
     (if ends_at \<le> starts_at then Inl (AppError [] 422)
      else if \<not> has_employee employee_id s \<or> establishment_id \<notin> set (hz_establishments s) then Inl IntegrityError
      else let w = \<lparr>wf_id = key, wf_employee_id = employee_id, wf_establishment_id = establishment_id, wf_starts_at = starts_at, wf_ends_at = ends_at,
                 wf_break_minutes = break_minutes, wf_status = ''scheduled'', wf_created_by = Some by_id\<rparr>
           in Inr (s\<lparr>hz_shifts := hz_shifts s @ [w]\<rparr>, w))"

record shift_patch =
  su_starts_at :: "instant field"
  su_ends_at :: "instant field"
  su_break_minutes :: "int field"
  su_status :: "string field"

text \<open>The order of the two instants is checked when a shift is created, not here.\<close>

definition update_shift :: "int \<Rightarrow> shift_patch \<Rightarrow> hr_db \<Rightarrow> (hr_db \<times> shift) res" where
  "update_shift k b s =
     (if \<not> (case su_status b of Some (Some st) \<Rightarrow> st \<in> set [''scheduled'', ''cancelled''] | _ \<Rightarrow> True) then Inl (AppError [] 422)
      else
        case row_get wf_id k (hz_shifts s) of
          None \<Rightarrow> Inl (AppError ''NOT_FOUND'' 404)
        | Some w \<Rightarrow>
            if null_field (su_starts_at b) \<or> null_field (su_ends_at b) \<or> null_field (su_break_minutes b) \<or> null_field (su_status b) then Inl IntegrityError
            else let w' = w\<lparr>wf_starts_at := set_field (su_starts_at b) (wf_starts_at w), wf_ends_at := set_field (su_ends_at b) (wf_ends_at w),
                       wf_break_minutes := set_field (su_break_minutes b) (wf_break_minutes w), wf_status := set_field (su_status b) (wf_status w)\<rparr>
                 in Inr (s\<lparr>hz_shifts := row_upd wf_id k (\<lambda>_. w') (hz_shifts s)\<rparr>, w'))"

definition in_window :: "instant option \<Rightarrow> instant option \<Rightarrow> instant \<Rightarrow> bool" where
  "in_window date_from date_to t \<longleftrightarrow> (case date_from of None \<Rightarrow> True | Some a \<Rightarrow> a \<le> t) \<and> (case date_to of None \<Rightarrow> True | Some b \<Rightarrow> t \<le> b)"

definition list_shifts :: "int option \<Rightarrow> instant option \<Rightarrow> instant option \<Rightarrow> hr_db \<Rightarrow> shift list" where
  "list_shifts employee_id date_from date_to s =
     sort_key wf_starts_at (filter (\<lambda>w. (employee_id = None \<or> employee_id = Some (wf_employee_id w)) \<and> in_window date_from date_to (wf_starts_at w)) (hz_shifts s))"

definition list_my_shifts :: "int \<Rightarrow> instant option \<Rightarrow> instant option \<Rightarrow> hr_db \<Rightarrow> shift list" where
  "list_my_shifts employee_id date_from date_to s = list_shifts (Some employee_id) date_from date_to s"

subsection \<open>Tolerances\<close>

definition config_of :: "int \<Rightarrow> hr_db \<Rightarrow> hr_config option" where
  "config_of establishment_id s = find (\<lambda>c. hf_establishment_id c = establishment_id) (hz_configs s)"

text \<open>\<^verbatim>\<open>int(getattr(config, "late_tolerance_minutes", None) or 10)\<close>\<close>

definition late_tolerance_minutes :: "int \<Rightarrow> hr_db \<Rightarrow> int" where
  "late_tolerance_minutes establishment_id s =
     (case config_of establishment_id s of None \<Rightarrow> 10 | Some c \<Rightarrow> if hf_late_tolerance c = 0 then 10 else hf_late_tolerance c)"

text \<open>Minutes beyond the tolerance, truncated.\<close>

definition minutes_beyond :: "int \<Rightarrow> instant \<Rightarrow> instant \<Rightarrow> int option" where
  "minutes_beyond tolerance actual planned =
     (if actual - planned \<le> tolerance * minute_us then None else Some ((actual - planned - tolerance * minute_us) div minute_us))"

text \<open>Employee, shift and minutes: what the queued task receives.\<close>

definition detect_late_arrival :: "time_entry \<Rightarrow> hr_db \<Rightarrow> (int \<times> int \<times> int) option" where
  "detect_late_arrival t s =
     (case te_shift_id t of
        None \<Rightarrow> None
      | Some k \<Rightarrow>
          (case row_get wf_id k (hz_shifts s) of
             None \<Rightarrow> None
           | Some w \<Rightarrow> map_option (\<lambda>m. (te_employee_id t, wf_id w, m))
               (minutes_beyond (late_tolerance_minutes (te_establishment_id t) s) (te_in_at t) (wf_starts_at w))))"

definition detect_shift_overrun :: "time_entry \<Rightarrow> hr_db \<Rightarrow> (int \<times> int \<times> int) option" where
  "detect_shift_overrun t s =
     (case (te_shift_id t, te_out_at t) of
        (Some k, Some out) \<Rightarrow>
          (case row_get wf_id k (hz_shifts s) of
             None \<Rightarrow> None
           | Some w \<Rightarrow> map_option (\<lambda>m. (te_employee_id t, wf_id w, m))
               (minutes_beyond (late_tolerance_minutes (te_establishment_id t) s) out (wf_ends_at w)))
      | _ \<Rightarrow> None)"

subsection \<open>The time clock\<close>

definition entries_in :: "clock_status list \<Rightarrow> int \<Rightarrow> hr_db \<Rightarrow> time_entry list" where
  "entries_in sts employee_id s = filter (\<lambda>t. te_employee_id t = employee_id \<and> te_status t \<in> set sts) (hz_entries s)"

text \<open>\<^verbatim>\<open>scalar_one_or_none\<close>\<close>

definition one_or_none :: "'a list \<Rightarrow> 'a option res" where
  "one_or_none rows = (case rows of [] \<Rightarrow> Inr None | [r] \<Rightarrow> Inr (Some r) | _ \<Rightarrow> Inl (AppError ''MultipleResultsFound'' 500))"

definition put_entry :: "time_entry \<Rightarrow> hr_db \<Rightarrow> hr_db" where
  "put_entry t s = s\<lparr>hz_entries := row_upd te_id (te_id t) (\<lambda>_. t) (hz_entries s)\<rparr>"

text \<open>The entry, and the task queued where the employee is late (\<open>pool\<close>: a queue is configured).\<close>

definition clock_in ::
    "instant \<Rightarrow> int \<Rightarrow> bool \<Rightarrow> int \<Rightarrow> string \<Rightarrow> int \<Rightarrow> int option \<Rightarrow> hr_db \<Rightarrow> (hr_db \<times> time_entry \<times> (int \<times> int \<times> int) option) res" where
  "clock_in now key pool employee_id method establishment_id shift_id s =
     (if method \<notin> set [''web'', ''mobile'', ''qrcode''] then Inl (AppError [] 422)
      else
        rbind (one_or_none (entries_in [Clock_open, Clock_break] employee_id s)) (\<lambda>running.
          if running \<noteq> None then Inl (AppError ''ALREADY_CLOCKED_IN'' 409)
          else if \<not> has_employee employee_id s \<or> establishment_id \<notin> set (hz_establishments s)
              \<or> (case shift_id of None \<Rightarrow> False | Some k \<Rightarrow> row_get wf_id k (hz_shifts s) = None) then Inl IntegrityError
          else
            let t = \<lparr>te_id = key, te_employee_id = employee_id, te_shift_id = shift_id, te_establishment_id = establishment_id, te_in_at = now,
                     te_out_at = None, te_method = method, te_status = Clock_open\<rparr>;
                s' = s\<lparr>hz_entries := hz_entries s @ [t]\<rparr>
            in Inr (s', t, if pool then detect_late_arrival t s' else None)))"

definition clock_out :: "instant \<Rightarrow> bool \<Rightarrow> int \<Rightarrow> hr_db \<Rightarrow> (hr_db \<times> time_entry \<times> (int \<times> int \<times> int) option) res" where
  "clock_out now pool employee_id s =
     rbind (one_or_none (entries_in [Clock_open, Clock_break] employee_id s)) (\<lambda>running.
       case running of
         None \<Rightarrow> Inl (AppError ''NOT_CLOCKED_IN'' 409)
       | Some t \<Rightarrow>
           let t' = t\<lparr>te_out_at := Some now, te_status := Clock_closed\<rparr>; s' = put_entry t' s
           in Inr (s', t', if pool then detect_shift_overrun t' s' else None))"

definition start_break :: "int \<Rightarrow> hr_db \<Rightarrow> (hr_db \<times> time_entry) res" where
  "start_break employee_id s =
     rbind (one_or_none (entries_in [Clock_open] employee_id s)) (\<lambda>running.
       case running of
         None \<Rightarrow> Inl (AppError ''NOT_CLOCKED_IN'' 409)
       | Some t \<Rightarrow> let t' = t\<lparr>te_status := Clock_break\<rparr> in Inr (put_entry t' s, t'))"

definition end_break :: "int \<Rightarrow> hr_db \<Rightarrow> (hr_db \<times> time_entry) res" where
  "end_break employee_id s =
     rbind (one_or_none (entries_in [Clock_break] employee_id s)) (\<lambda>running.
       case running of
         None \<Rightarrow> Inl (AppError ''NOT_ON_BREAK'' 409)
       | Some t \<Rightarrow> let t' = t\<lparr>te_status := Clock_open\<rparr> in Inr (put_entry t' s, t'))"

definition list_time_clock_entries :: "int option \<Rightarrow> instant option \<Rightarrow> instant option \<Rightarrow> clock_status option \<Rightarrow> hr_db \<Rightarrow> time_entry list" where
  "list_time_clock_entries employee_id date_from date_to status s =
     sort_key (\<lambda>t. - te_in_at t) (filter (\<lambda>t. (employee_id = None \<or> employee_id = Some (te_employee_id t)) \<and> in_window date_from date_to (te_in_at t)
       \<and> (status = None \<or> status = Some (te_status t))) (hz_entries s))"

definition list_my_time_clock_entries :: "int \<Rightarrow> instant option \<Rightarrow> instant option \<Rightarrow> hr_db \<Rightarrow> time_entry list" where
  "list_my_time_clock_entries employee_id date_from date_to s = list_time_clock_entries (Some employee_id) date_from date_to None s"

definition correct_time_clock_entry ::
    "int \<Rightarrow> int \<Rightarrow> instant option \<Rightarrow> instant option \<Rightarrow> string \<Rightarrow> int \<Rightarrow> hr_db \<Rightarrow> (hr_db \<times> time_entry) res" where
  "correct_time_clock_entry key entry_id new_in new_out reason by_id s =
     (if reason = [] then Inl (AppError [] 422)
      else
        case row_get te_id entry_id (hz_entries s) of
          None \<Rightarrow> Inl (AppError ''NOT_FOUND'' 404)
        | Some t \<Rightarrow>
            let x = \<lparr>tx_id = key, tx_entry_id = entry_id, tx_by = by_id, tx_old_in = Some (te_in_at t), tx_old_out = te_out_at t, tx_new_in = new_in,
                     tx_new_out = new_out, tx_reason = reason\<rparr>;
                t' = t\<lparr>te_in_at := (case new_in of None \<Rightarrow> te_in_at t | Some i \<Rightarrow> i), te_out_at := (case new_out of None \<Rightarrow> te_out_at t | Some i \<Rightarrow> Some i),
                       te_status := Clock_corrected\<rparr>
            in Inr ((put_entry t' s)\<lparr>hz_corrections := hz_corrections s @ [x]\<rparr>, t'))"

subsection \<open>Alerts\<close>

text \<open>An alert is stored unless its payload is not JSON.\<close>

definition add_alert :: "hr_alert \<Rightarrow> hr_db \<Rightarrow> hr_db res" where
  "add_alert x s = (if Hr_infinity \<in> snd ` set (ha_payload x) then Inl (AppError ''DataError'' 500) else Inr (s\<lparr>hz_alerts := hz_alerts s @ [x]\<rparr>))"

definition stripped_or_null :: "string option \<Rightarrow> hr_value" where
  "stripped_or_null v = (case v of None \<Rightarrow> Hr_null | Some t \<Rightarrow> if py_strip t = [] then Hr_null else Hr_text (py_strip t))"

definition opt_int_value :: "int option \<Rightarrow> hr_value" where
  "opt_int_value v = (case v of None \<Rightarrow> Hr_null | Some k \<Rightarrow> Hr_int k)"

definition report_late :: "instant \<Rightarrow> int \<Rightarrow> employee_profile \<Rightarrow> int option \<Rightarrow> string option \<Rightarrow> hr_db \<Rightarrow> (hr_db \<times> hr_alert) res" where
  "report_late now key e shift_id reason s =
     (if (case reason of None \<Rightarrow> False | Some t \<Rightarrow> 512 < length t) then Inl (AppError [] 422)
      else
        let x = \<lparr>ha_id = key, ha_employee_id = Some (hp_id e), ha_establishment_id = Some (hp_establishment_id e), ha_type = ''late_reported'',
                 ha_severity = ''warning'', ha_payload = [(''shift_id'', opt_int_value shift_id), (''reason'', stripped_or_null reason),
                   (''reported_by_user_id'', Hr_int (hp_user_id e))], ha_triggered_at = now, ha_resolved_at = None, ha_sent_at = None\<rparr>
        in rbind (add_alert x s) (\<lambda>s'. Inr (s', x)))"

definition list_hr_alerts :: "bool option \<Rightarrow> hr_db \<Rightarrow> hr_alert list" where
  "list_hr_alerts resolved s =
     sort_key (\<lambda>x. - ha_triggered_at x) (filter (\<lambda>x. resolved = None \<or> resolved = Some (ha_resolved_at x \<noteq> None)) (hz_alerts s))"

definition resolve_alert :: "instant \<Rightarrow> int \<Rightarrow> hr_db \<Rightarrow> (hr_db \<times> hr_alert) res" where
  "resolve_alert now k s =
     (case row_get ha_id k (hz_alerts s) of
        None \<Rightarrow> Inl (AppError ''NOT_FOUND'' 404)
      | Some x \<Rightarrow> let x' = x\<lparr>ha_resolved_at := Some now\<rparr> in Inr (s\<lparr>hz_alerts := row_upd ha_id k (\<lambda>_. x') (hz_alerts s)\<rparr>, x'))"

subsection \<open>Text exports\<close>

text \<open>\<open>isof\<close> is \<^verbatim>\<open>datetime.isoformat\<close>.\<close>

definition clock_status_text :: "clock_status \<Rightarrow> string" where
  "clock_status_text st = (case st of Clock_open \<Rightarrow> ''open'' | Clock_break \<Rightarrow> ''break'' | Clock_closed \<Rightarrow> ''closed'' | Clock_corrected \<Rightarrow> ''corrected'')"

definition shift_export_headers :: "string list" where
  "shift_export_headers = [''id'', ''employee_id'', ''establishment_id'', ''starts_at'', ''ends_at'', ''status'']"

definition time_clock_export_headers :: "string list" where
  "time_clock_export_headers = [''id'', ''employee_id'', ''clock_in_at'', ''clock_out_at'', ''method'', ''status'']"

definition shift_row :: "(instant \<Rightarrow> string) \<Rightarrow> shift \<Rightarrow> string list" where
  "shift_row isof w = [py_str_int (wf_id w), py_str_int (wf_employee_id w), py_str_int (wf_establishment_id w), isof (wf_starts_at w), isof (wf_ends_at w), wf_status w]"

definition time_clock_row :: "(instant \<Rightarrow> string) \<Rightarrow> time_entry \<Rightarrow> string list" where
  "time_clock_row isof t = [py_str_int (te_id t), py_str_int (te_employee_id t), isof (te_in_at t), (case te_out_at t of None \<Rightarrow> [] | Some o' \<Rightarrow> isof o'),
     te_method t, clock_status_text (te_status t)]"

definition export_shifts_csv :: "(instant \<Rightarrow> string) \<Rightarrow> int option \<Rightarrow> instant option \<Rightarrow> instant option \<Rightarrow> hr_db \<Rightarrow> string" where
  "export_shifts_csv isof employee_id date_from date_to s =
     csv_write (shift_export_headers # map (shift_row isof) (list_shifts employee_id date_from date_to s))"

definition export_time_clock_csv :: "(instant \<Rightarrow> string) \<Rightarrow> int option \<Rightarrow> instant option \<Rightarrow> instant option \<Rightarrow> hr_db \<Rightarrow> string" where
  "export_time_clock_csv isof employee_id date_from date_to s =
     csv_write (time_clock_export_headers # map (time_clock_row isof) (list_time_clock_entries employee_id date_from date_to None s))"

subsection \<open>The worker: recording an alert\<close>

definition establishment_of :: "int \<Rightarrow> hr_db \<Rightarrow> int option" where
  "establishment_of employee_id s = map_option hp_establishment_id (row_get hp_id employee_id (hz_employees s))"

definition cooldown_hours :: "int option \<Rightarrow> int option \<Rightarrow> hr_db \<Rightarrow> int" where
  "cooldown_hours employee_id establishment_id s =
     (let est = (case establishment_id of Some k \<Rightarrow> Some k | None \<Rightarrow> (case employee_id of None \<Rightarrow> None | Some e \<Rightarrow> establishment_of e s))
      in case est of None \<Rightarrow> 4 | Some k \<Rightarrow> (case config_of k s of None \<Rightarrow> 4 | Some c \<Rightarrow> hf_cooldown_hours c))"

text \<open>The alerts the new one is compared with.\<close>

definition same_alert_key :: "string \<Rightarrow> int option \<Rightarrow> int option \<Rightarrow> hr_alert \<Rightarrow> bool" where
  "same_alert_key typ employee_id establishment_id x \<longleftrightarrow> ha_type x = typ
     \<and> (if employee_id \<noteq> None then ha_employee_id x = employee_id
        else if establishment_id \<noteq> None then ha_establishment_id x = establishment_id else ha_employee_id x = None)"

definition last_alert :: "(hr_alert \<Rightarrow> bool) \<Rightarrow> hr_db \<Rightarrow> hr_alert option" where
  "last_alert p s = (case rev (sort_key ha_id (filter p (hz_alerts s))) of [] \<Rightarrow> None | x # _ \<Rightarrow> Some x)"

definition payload_establishment :: "hr_payload \<Rightarrow> int option" where
  "payload_establishment pl = (case map_of pl ''establishment_id'' of Some (Hr_int k) \<Rightarrow> Some k | _ \<Rightarrow> None)"

definition alert_establishment :: "int option \<Rightarrow> hr_payload \<Rightarrow> int option \<Rightarrow> hr_db \<Rightarrow> int option" where
  "alert_establishment employee_id pl establishment_id s =
     (case (case establishment_id of Some k \<Rightarrow> Some k | None \<Rightarrow> payload_establishment pl) of
        Some k \<Rightarrow> Some k
      | None \<Rightarrow> (case employee_id of None \<Rightarrow> None | Some e \<Rightarrow> establishment_of e s))"

definition in_cooldown :: "instant \<Rightarrow> int \<Rightarrow> hr_alert option \<Rightarrow> bool" where
  "in_cooldown now hours prev =
     (case prev of None \<Rightarrow> False | Some x \<Rightarrow> (case ha_sent_at x of None \<Rightarrow> False | Some t \<Rightarrow> now < t + hours * hour_us))"

definition record_alert_if_not_in_cooldown ::
    "instant \<Rightarrow> int \<Rightarrow> int option \<Rightarrow> string \<Rightarrow> string \<Rightarrow> hr_payload \<Rightarrow> int option \<Rightarrow> hr_db \<Rightarrow> (hr_db \<times> hr_alert option) res" where
  "record_alert_if_not_in_cooldown now key employee_id typ severity pl establishment_id s =
     (let est = alert_establishment employee_id pl establishment_id s;
          prev = last_alert (same_alert_key typ employee_id est) s
      in if in_cooldown now (cooldown_hours employee_id est s) prev then Inr (s, None)
         else
           let x = \<lparr>ha_id = key, ha_employee_id = employee_id, ha_establishment_id = est, ha_type = typ, ha_severity = severity, ha_payload = pl,
                    ha_triggered_at = now, ha_resolved_at = None, ha_sent_at = Some now\<rparr>
           in rbind (add_alert x s) (\<lambda>s'. Inr (s', Some x)))"

text \<open>The alert is what the staff is then notified of.\<close>

definition send_hr_late_alert :: "instant \<Rightarrow> int \<Rightarrow> int \<times> int \<times> int \<Rightarrow> hr_db \<Rightarrow> (hr_db \<times> hr_alert option) res" where
  "send_hr_late_alert now key job s =
     (case job of (employee_id, shift_id, minutes) \<Rightarrow>
        record_alert_if_not_in_cooldown now key (Some employee_id) ''late'' ''warning''
          [(''shift_id'', Hr_int shift_id), (''minutes_late'', Hr_int minutes)] None s)"

definition send_hr_overrun_alert :: "instant \<Rightarrow> int \<Rightarrow> int \<times> int \<times> int \<Rightarrow> hr_db \<Rightarrow> (hr_db \<times> hr_alert option) res" where
  "send_hr_overrun_alert now key job s =
     (case job of (employee_id, shift_id, minutes) \<Rightarrow>
        record_alert_if_not_in_cooldown now key (Some employee_id) ''shift_overrun'' ''warning''
          [(''shift_id'', Hr_int shift_id), (''minutes_over'', Hr_int minutes)] None s)"

subsection \<open>The worker: hours and cost of a week\<close>

text \<open>Midnight (UTC) of the Monday of the week; day 0 was a Thursday.\<close>

definition monday_of :: "instant \<Rightarrow> instant" where
  "monday_of t = (let d = t div (24 * hour_us) in (d - (d + 3) mod 7) * (24 * hour_us))"

definition worked_us :: "time_entry \<Rightarrow> int" where
  "worked_us t = (case te_out_at t of None \<Rightarrow> 0 | Some out \<Rightarrow> out - te_in_at t)"

definition weekly_hours_worked :: "int \<Rightarrow> instant \<Rightarrow> hr_db \<Rightarrow> rat" where
  "weekly_hours_worked employee_id as_of s =
     money (of_int (sum_list (map worked_us (filter (\<lambda>t. te_employee_id t = employee_id \<and> te_status t = Clock_closed \<and> monday_of as_of \<le> te_in_at t)
       (hz_entries s)))) / of_int hour_us)"

text \<open>A configuration that is not stored has no values: the threshold of a missing row is \<^verbatim>\<open>int(None)\<close>. Alerts already committed stay,
  and the error leaves the loop.\<close>

fun check_overtime_of :: "instant \<Rightarrow> (nat \<Rightarrow> int) \<Rightarrow> nat \<Rightarrow> employee_profile list \<Rightarrow> hr_db \<Rightarrow> hr_alert list \<Rightarrow> hr_db \<times> hr_alert list res" where
  "check_overtime_of now keys n [] s sent = (s, Inr sent)"
| "check_overtime_of now keys n (e # es) s sent =
     (case config_of (hp_establishment_id e) s of
        None \<Rightarrow> (s, Inl PyTypeError)
      | Some c \<Rightarrow>
          let hours = weekly_hours_worked (hp_id e) now s
          in if hours \<le> of_int (hf_weekly_threshold c) then check_overtime_of now keys n es s sent
             else (case record_alert_if_not_in_cooldown now (keys n) (Some (hp_id e)) ''weekly_overtime'' ''warning''
                       [(''hours_worked'', Hr_num hours), (''threshold'', Hr_int (hf_weekly_threshold c)), (''establishment_id'', Hr_int (hp_establishment_id e))]
                       (Some (hp_establishment_id e)) s of
                     Inl er \<Rightarrow> (s, Inl er)
                   | Inr (s', None) \<Rightarrow> check_overtime_of now keys n es s' sent
                   | Inr (s', Some x) \<Rightarrow> check_overtime_of now keys (Suc n) es s' (sent @ [x])))"

definition check_weekly_overtime :: "instant \<Rightarrow> (nat \<Rightarrow> int) \<Rightarrow> hr_db \<Rightarrow> hr_db \<times> hr_alert list res" where
  "check_weekly_overtime now keys s = check_overtime_of now keys 0 (filter hp_active (hz_employees s)) s []"

datatype cost_ratio = Ratio rat | Infinite_ratio

definition labor_cost_ratio :: "int \<Rightarrow> instant \<Rightarrow> order list \<Rightarrow> hr_db \<Rightarrow> cost_ratio" where
  "labor_cost_ratio establishment_id since orders s =
     (let cost = sum_list (map (\<lambda>e. case hp_rate_cents e of None \<Rightarrow> 0 | Some r \<Rightarrow> weekly_hours_worked (hp_id e) (since + 6 * (24 * hour_us)) s * of_int r)
            (filter (\<lambda>e. hp_establishment_id e = establishment_id \<and> hp_active e) (hz_employees s)));
          revenue = sum_list (map ord_total (filter (\<lambda>o'. since \<le> ord_created_at o' \<and> ord_created_at o' < since + 7 * (24 * hour_us)) orders)) * 100
      in if revenue \<le> 0 then (if cost = 0 then Ratio 0 else Infinite_ratio) else Ratio (of_int (py_round (10000 * (cost / revenue))) / 10000))"

fun check_labor_cost_of :: "instant \<Rightarrow> (nat \<Rightarrow> int) \<Rightarrow> order list \<Rightarrow> nat \<Rightarrow> hr_config list \<Rightarrow> hr_db \<Rightarrow> hr_alert list \<Rightarrow> hr_db \<times> hr_alert list res" where
  "check_labor_cost_of now keys orders n [] s sent = (s, Inr sent)"
| "check_labor_cost_of now keys orders n (c # cs) s sent =
     (let r = labor_cost_ratio (hf_establishment_id c) (monday_of now) orders s
      in if (case r of Ratio x \<Rightarrow> x \<le> hf_cost_target c | Infinite_ratio \<Rightarrow> False) then check_labor_cost_of now keys orders n cs s sent
         else (case record_alert_if_not_in_cooldown now (keys n) None ''labor_cost_risk'' ''critical''
                   [(''establishment_id'', Hr_int (hf_establishment_id c)), (''ratio'', case r of Ratio x \<Rightarrow> Hr_num x | Infinite_ratio \<Rightarrow> Hr_infinity),
                    (''target_ratio'', Hr_num (hf_cost_target c))] (Some (hf_establishment_id c)) s of
                 Inl er \<Rightarrow> (s, Inl er)
               | Inr (s', None) \<Rightarrow> check_labor_cost_of now keys orders n cs s' sent
               | Inr (s', Some x) \<Rightarrow> check_labor_cost_of now keys orders (Suc n) cs s' (sent @ [x])))"

definition check_labor_cost_risk :: "instant \<Rightarrow> (nat \<Rightarrow> int) \<Rightarrow> order list \<Rightarrow> hr_db \<Rightarrow> hr_db \<times> hr_alert list res" where
  "check_labor_cost_risk now keys orders s = check_labor_cost_of now keys orders 0 (hz_configs s) s []"

end
