(* ===== verification/Hr_Props.thy ===== *)
theory Hr_Props
  imports Hr Machines
begin

text \<open>
  What the time clock and the alerts keep: an employee has one running entry at most, so the queries that expect one row never find two;
  and the staff is not told twice of the same thing within the cooldown.
\<close>

subsection \<open>Steps\<close>

text \<open>A state is taken with the time of its last operation; keys come from sequences.\<close>

definition fresh_alert_keys :: "(nat \<Rightarrow> int) \<Rightarrow> hr_db \<Rightarrow> bool" where
  "fresh_alert_keys keys s \<longleftrightarrow> (\<forall>x \<in> set (hz_alerts s). ha_id x < keys 0) \<and> (\<forall>i j. i < j \<longrightarrow> keys i < keys j)"

inductive hr_step :: "instant \<times> hr_db \<Rightarrow> instant \<times> hr_db \<Rightarrow> bool" where
  hrstep_employee: "t \<le> now \<Longrightarrow> create_employee_profile key user_id est rate weekly hire s = Inr (s', e) \<Longrightarrow> hr_step (t, s) (now, s')"
| hrstep_update_employee: "t \<le> now \<Longrightarrow> update_employee_profile k b s = Inr (s', e) \<Longrightarrow> hr_step (t, s) (now, s')"
| hrstep_shift: "t \<le> now \<Longrightarrow> create_shift key e est a b br by_id s = Inr (s', w) \<Longrightarrow> hr_step (t, s) (now, s')"
| hrstep_update_shift: "t \<le> now \<Longrightarrow> update_shift k p s = Inr (s', w) \<Longrightarrow> hr_step (t, s) (now, s')"
| hrstep_in: "t \<le> now \<Longrightarrow> key \<notin> te_id ` set (hz_entries s) \<Longrightarrow> clock_in now key pool e m est shift_id s = Inr (s', out) \<Longrightarrow> hr_step (t, s) (now, s')"
| hrstep_out: "t \<le> now \<Longrightarrow> clock_out now pool e s = Inr (s', out) \<Longrightarrow> hr_step (t, s) (now, s')"
| hrstep_break: "t \<le> now \<Longrightarrow> start_break e s = Inr (s', x) \<Longrightarrow> hr_step (t, s) (now, s')"
| hrstep_end_break: "t \<le> now \<Longrightarrow> end_break e s = Inr (s', x) \<Longrightarrow> hr_step (t, s) (now, s')"
| hrstep_correct: "t \<le> now \<Longrightarrow> correct_time_clock_entry key k a b reason by_id s = Inr (s', x) \<Longrightarrow> hr_step (t, s) (now, s')"
| hrstep_report: "t \<le> now \<Longrightarrow> key \<notin> ha_id ` set (hz_alerts s) \<Longrightarrow> report_late now key e sh reason s = Inr (s', al) \<Longrightarrow> hr_step (t, s) (now, s')"
| hrstep_resolve: "t \<le> now \<Longrightarrow> resolve_alert now k s = Inr (s', al) \<Longrightarrow> hr_step (t, s) (now, s')"
| hrstep_late: "t \<le> now \<Longrightarrow> fresh_alert_keys keys s \<Longrightarrow> send_hr_late_alert now (keys 0) job s = Inr (s', al) \<Longrightarrow> hr_step (t, s) (now, s')"
| hrstep_overrun: "t \<le> now \<Longrightarrow> fresh_alert_keys keys s \<Longrightarrow> send_hr_overrun_alert now (keys 0) job s = Inr (s', al) \<Longrightarrow> hr_step (t, s) (now, s')"
| hrstep_overtime: "t \<le> now \<Longrightarrow> fresh_alert_keys keys s \<Longrightarrow> check_weekly_overtime now keys s = (s', r) \<Longrightarrow> hr_step (t, s) (now, s')"
| hrstep_cost: "t \<le> now \<Longrightarrow> fresh_alert_keys keys s \<Longrightarrow> check_labor_cost_risk now keys orders s = (s', r') \<Longrightarrow> hr_step (t, s) (now, s')"

subsection \<open>The time clock\<close>

definition running :: "time_entry \<Rightarrow> bool" where
  "running t \<longleftrightarrow> te_status t = Clock_open \<or> te_status t = Clock_break"

definition entries_ok :: "time_entry list \<Rightarrow> bool" where
  "entries_ok ts \<longleftrightarrow> distinct (map te_id ts)
     \<and> (\<forall>t \<in> set ts. \<forall>u \<in> set ts. running t \<longrightarrow> running u \<longrightarrow> te_employee_id t = te_employee_id u \<longrightarrow> t = u)"

lemma entries_in_running: "entries_in [Clock_open, Clock_break] e s = filter (\<lambda>t. te_employee_id t = e \<and> running t) (hz_entries s)"
  by (simp add: entries_in_def running_def)

lemma at_most_one:
  assumes "distinct xs" and "\<And>x y. x \<in> set xs \<Longrightarrow> y \<in> set xs \<Longrightarrow> x = y"
  shows "length xs \<le> 1"
proof (cases xs)
  case (Cons x ys)
  then show ?thesis using assms(1) assms(2) [of x "hd ys"] by (cases ys) auto
qed simp

lemma entries_ok_one:
  assumes "entries_ok (hz_entries s)"
  shows "length (entries_in [Clock_open, Clock_break] e s) \<le> 1"
  unfolding entries_in_running
  by (rule at_most_one) (use assms in \<open>auto simp: entries_ok_def distinct_map\<close>)

lemma entries_sub_one:
  assumes "entries_ok (hz_entries s)" and "set sts \<subseteq> {Clock_open, Clock_break}"
  shows "length (entries_in sts e s) \<le> 1"
  by (rule at_most_one) (use assms in \<open>auto simp: entries_in_def entries_ok_def distinct_map running_def\<close>)

lemma one_or_none_ok: "length xs \<le> 1 \<Longrightarrow> \<exists>o'. one_or_none xs = Inr o'"
  by (cases xs; cases "tl xs") (auto simp: one_or_none_def)

lemma one_or_none_in: "one_or_none xs = Inr (Some t) \<Longrightarrow> t \<in> set xs"
  by (auto simp: one_or_none_def split: list.splits)

lemma entries_ok_put:
  assumes "entries_ok (hz_entries s)" and "t \<in> set (hz_entries s)" and "te_id t' = te_id t" and "te_employee_id t' = te_employee_id t"
    and "running t' \<longrightarrow> running t"
  shows "entries_ok (hz_entries (put_entry t' s))"
proof -
  let ?f = "\<lambda>x. if te_id x = te_id t' then t' else x"
  have old: "?f x = x \<or> x = t" if "x \<in> set (hz_entries s)" for x
    using that assms(1-3) by (auto simp: entries_ok_def distinct_map dest: inj_onD)
  have keep: "te_id (?f x) = te_id x" "te_employee_id (?f x) = te_employee_id x" "running (?f x) \<longrightarrow> running x" if "x \<in> set (hz_entries s)" for x
    using old [OF that] assms(3-5) by auto
  have rows: "hz_entries (put_entry t' s) = map ?f (hz_entries s)" by (simp add: put_entry_def row_upd_def)
  have "map te_id (map ?f (hz_entries s)) = map te_id (hz_entries s)" using keep(1) by simp
  then have ids: "distinct (map te_id (map ?f (hz_entries s)))" using assms(1) by (simp only: entries_ok_def)
  have same: "?f x = ?f y" if "x \<in> set (hz_entries s)" "y \<in> set (hz_entries s)" "running (?f x)" "running (?f y)"
      "te_employee_id (?f x) = te_employee_id (?f y)" for x y
  proof -
    have "x = y" using keep [OF that(1)] keep [OF that(2)] that assms(1) unfolding entries_ok_def by metis
    then show ?thesis by simp
  qed
  have "\<forall>u \<in> ?f ` set (hz_entries s). \<forall>v \<in> ?f ` set (hz_entries s). running u \<longrightarrow> running v \<longrightarrow> te_employee_id u = te_employee_id v \<longrightarrow> u = v"
    unfolding ball_simps by (intro ballI impI, rule same)
  then show ?thesis unfolding rows entries_ok_def list.set_map by (rule conjI [OF ids])
qed

lemma one_in_entries: "one_or_none (entries_in sts e s) = Inr (Some t) \<Longrightarrow> t \<in> set (hz_entries s) \<and> te_status t \<in> set sts"
  using one_or_none_in [of "entries_in sts e s" t] by (auto simp: entries_in_def)

lemma clock_in_ok:
  assumes "clock_in now key pool e m est shift_id s = Inr (s', out)" and "entries_ok (hz_entries s)" and "key \<notin> te_id ` set (hz_entries s)"
  shows "entries_ok (hz_entries s')"
proof -
  have none: "one_or_none (entries_in [Clock_open, Clock_break] e s) = Inr None"
    using assms(1) by (auto simp: clock_in_def split: if_splits)
  then have idle: "\<not> (te_employee_id t = e \<and> running t)" if "t \<in> set (hz_entries s)" for t
    using that unfolding entries_in_running by (auto simp: one_or_none_def filter_empty_conv split: list.splits)
  obtain t where s': "hz_entries s' = hz_entries s @ [t]" "te_id t = key" "te_employee_id t = e"
    using assms(1) none by (auto simp: clock_in_def Let_def split: if_splits)
  show ?thesis using assms(2,3) idle by (auto simp: entries_ok_def s')
qed

lemma put_step_ok:
  assumes "entries_ok (hz_entries s)" and "t \<in> set (hz_entries s)" and "hz_entries s' = hz_entries (put_entry t' s)"
    and "te_id t' = te_id t" and "te_employee_id t' = te_employee_id t" and "running t' \<longrightarrow> running t"
  shows "entries_ok (hz_entries s')"
  unfolding assms(3) by (rule entries_ok_put [OF assms(1,2,4-6)])

lemma clock_out_ok:
  assumes "clock_out now pool e s = Inr (s', out)" and "entries_ok (hz_entries s)"
  shows "entries_ok (hz_entries s')"
proof -
  obtain t where t: "one_or_none (entries_in [Clock_open, Clock_break] e s) = Inr (Some t)"
    and s': "s' = put_entry (t\<lparr>te_out_at := Some now, te_status := Clock_closed\<rparr>) s"
    using assms(1) by (auto simp: clock_out_def Let_def split: option.splits)
  have "t \<in> set (hz_entries s)" "te_status t = Clock_open \<or> te_status t = Clock_break" using one_in_entries [OF t] by auto
  then show ?thesis
    by (intro put_step_ok [OF assms(2), of t _ "t\<lparr>te_out_at := Some now, te_status := Clock_closed\<rparr>"]) (auto simp: s' running_def)
qed

lemma breaks_ok:
  assumes "start_break e s = Inr (s', x) \<or> end_break e s = Inr (s', x)" and "entries_ok (hz_entries s)"
  shows "entries_ok (hz_entries s')"
proof -
  obtain t st where t: "one_or_none (entries_in [st] e s) = Inr (Some t)" "st = Clock_open \<or> st = Clock_break"
    and s': "s' = put_entry (t\<lparr>te_status := Clock_break\<rparr>) s \<or> s' = put_entry (t\<lparr>te_status := Clock_open\<rparr>) s"
    using assms(1) by (auto simp: start_break_def end_break_def Let_def split: option.splits)
  then have "t \<in> set (hz_entries s)" "running t" using one_in_entries [OF t(1)] by (auto simp: running_def)
  then show ?thesis 
    using s' put_step_ok [OF assms(2), of t s' "t\<lparr>te_status := Clock_break\<rparr>"] put_step_ok [OF assms(2), of t s' "t\<lparr>te_status := Clock_open\<rparr>"] by auto
qed

lemma correct_ok:
  assumes "correct_time_clock_entry key k a b reason by_id s = Inr (s', x)" and "entries_ok (hz_entries s)"
  shows "entries_ok (hz_entries s')"
proof -
  obtain t i o' cs where t: "row_get te_id k (hz_entries s) = Some t"
    and s': "s' = (put_entry (t\<lparr>te_in_at := i, te_out_at := o', te_status := Clock_corrected\<rparr>) s)\<lparr>hz_corrections := cs\<rparr>"
    using assms(1) by (cases "row_get te_id k (hz_entries s)") (auto simp: correct_time_clock_entry_def Let_def split: if_splits)
  have "t \<in> set (hz_entries s)" using row_get_SomeD [OF t] by simp
  then show ?thesis
    by (rule put_step_ok [OF assms(2), of t _ "t\<lparr>te_in_at := i, te_out_at := o', te_status := Clock_corrected\<rparr>"]) (simp_all add: s' running_def)
qed

lemma record_entries: "record_alert_if_not_in_cooldown now key emp typ sev pl est s = Inr (s', r) \<Longrightarrow> hz_entries s' = hz_entries s"
  by (auto simp: record_alert_if_not_in_cooldown_def add_alert_def Let_def split: if_splits)

lemma overtime_entries: "check_overtime_of now keys n es s sent = (s', r) \<Longrightarrow> hz_entries s' = hz_entries s"
  by (induction now keys n es s sent rule: check_overtime_of.induct) (auto simp: Let_def record_entries split: option.splits if_splits sum.splits)

lemma labor_cost_entries: "check_labor_cost_of now keys orders n cs s sent = (s', r) \<Longrightarrow> hz_entries s' = hz_entries s"
  by (induction now keys orders n cs s sent rule: check_labor_cost_of.induct)
     (auto simp: Let_def record_entries split: option.splits if_splits sum.splits)

lemma hr_step_entries:
  assumes "hr_step ts ts'" and "entries_ok (hz_entries (snd ts))"
  shows "entries_ok (hz_entries (snd ts'))"
  using assms
proof (cases rule: hr_step.cases)
  case (hrstep_employee t now key user_id est rate weekly hire s s' e)
  then show ?thesis using assms(2) by (auto simp: create_employee_profile_def Let_def split: if_splits)
next
  case (hrstep_update_employee t now k b s s' e)
  then show ?thesis using assms(2) by (auto simp: update_employee_profile_def Let_def split: if_splits option.splits)
next
  case (hrstep_shift t now key e est a b br by_id s s' w)
  then show ?thesis using assms(2) by (auto simp: create_shift_def Let_def split: if_splits)
next
  case (hrstep_update_shift t now k p s s' w)
  then have "hz_entries s' = hz_entries s" by (cases "row_get wf_id k (hz_shifts s)") (auto simp: update_shift_def Let_def split: if_splits)
  then show ?thesis using hrstep_update_shift assms(2) by simp
next
  case (hrstep_in t now key s pool e m est shift_id s' out)
  then show ?thesis using clock_in_ok assms(2) by simp
next
  case (hrstep_out t now pool e s s' out)
  then show ?thesis using clock_out_ok assms(2) by simp
next
  case (hrstep_break t now e s s' x)
  then show ?thesis using breaks_ok [OF disjI1] assms(2) by simp
next
  case (hrstep_end_break t now e s s' x)
  then show ?thesis using breaks_ok [OF disjI2] assms(2) by simp
next
  case (hrstep_correct t now key k a b reason by_id s s' x)
  then show ?thesis using correct_ok assms(2) by simp
next
  case (hrstep_report t now key s e sh reason s' al)
  then show ?thesis using assms(2) by (auto simp: report_late_def add_alert_def Let_def split: if_splits)
next
  case (hrstep_resolve t now k s s' al)
  then show ?thesis using assms(2) by (auto simp: resolve_alert_def Let_def split: option.splits)
next
  case (hrstep_late t now keys s job s' al)
  then show ?thesis using assms(2) record_entries by (cases job) (simp add: send_hr_late_alert_def)
next
  case (hrstep_overrun t now keys s job s' al)
  then show ?thesis using assms(2) record_entries by (cases job) (simp add: send_hr_overrun_alert_def)
next
  case (hrstep_overtime t now keys s s' r)
  then show ?thesis using assms(2) overtime_entries by (simp add: check_weekly_overtime_def)
next
  case (hrstep_cost t now keys s orders s' r)
  then show ?thesis using assms(2) labor_cost_entries by (simp add: check_labor_cost_risk_def)
qed

interpretation clock: invariant_steps hr_step "\<lambda>ts. entries_ok (hz_entries (snd ts))"
  by unfold_locales (rule hr_step_entries)

subsection \<open>Alerts\<close>

definition spaced :: "int \<Rightarrow> hr_alert \<Rightarrow> hr_alert \<Rightarrow> bool" where
  "spaced h x y \<longleftrightarrow> (ha_type x = ha_type y \<longrightarrow> ha_employee_id x \<noteq> None \<longrightarrow> ha_employee_id x = ha_employee_id y \<longrightarrow> ha_id x < ha_id y
     \<longrightarrow> (\<forall>u v. ha_sent_at x = Some u \<longrightarrow> ha_sent_at y = Some v \<longrightarrow> u + h * hour_us \<le> v))"

definition alert_dated :: "instant \<Rightarrow> hr_alert \<Rightarrow> bool" where
  "alert_dated t x \<longleftrightarrow> (case ha_sent_at x of None \<Rightarrow> ha_type x = ''late_reported'' | Some u \<Rightarrow> u \<le> t)"

definition alerts_ok :: "int \<Rightarrow> instant \<Rightarrow> hr_alert list \<Rightarrow> bool" where
  "alerts_ok h t xs \<longleftrightarrow> distinct (map ha_id xs) \<and> (\<forall>x \<in> set xs. alert_dated t x) \<and> (\<forall>x \<in> set xs. \<forall>y \<in> set xs. spaced h x y)"

definition cooldowns_ok :: "int \<Rightarrow> hr_db \<Rightarrow> bool" where
  "cooldowns_ok h s \<longleftrightarrow> 0 \<le> h \<and> h \<le> 4 \<and> (\<forall>c \<in> set (hz_configs s). h \<le> hf_cooldown_hours c)"

lemma alerts_later: "alerts_ok h t xs \<Longrightarrow> t \<le> t' \<Longrightarrow> alerts_ok h t' xs"
  by (fastforce simp: alerts_ok_def alert_dated_def split: option.splits)

lemma cooldown_at_least: "cooldowns_ok h s \<Longrightarrow> h \<le> cooldown_hours employee_id est s"
  by (auto simp: cooldowns_ok_def cooldown_hours_def config_of_def Let_def find_Some_iff split: option.splits)

lemma last_alert_max:
  assumes "last_alert p s = Some z"
  shows "z \<in> set (hz_alerts s)" and "p z" and "\<forall>y \<in> set (hz_alerts s). p y \<longrightarrow> ha_id y \<le> ha_id z"
proof -
  obtain zs where zs: "rev (sort_key ha_id (filter p (hz_alerts s))) = z # zs" using assms by (auto simp: last_alert_def split: list.splits)
  then have sorted: "sort_key ha_id (filter p (hz_alerts s)) = rev zs @ [z]" by (metis rev_rev_ident rev.simps(2))
  have "set (rev zs @ [z]) = set (filter p (hz_alerts s))" using arg_cong [OF sorted, of set] by simp
  moreover have "sorted (map ha_id (rev zs @ [z]))" using sorted sorted_sort_key [of ha_id "filter p (hz_alerts s)"] by simp
  ultimately show "z \<in> set (hz_alerts s)" "p z" "\<forall>y \<in> set (hz_alerts s). p y \<longrightarrow> ha_id y \<le> ha_id z"
    by (auto simp: sorted_append)
qed

lemma last_alert_none: "last_alert p s = None \<Longrightarrow> \<forall>y \<in> set (hz_alerts s). \<not> p y"
  by (auto simp: last_alert_def filter_empty_conv split: list.splits dest!: arg_cong [where f = set])

lemma alerts_ok_add:
  assumes "alerts_ok h t xs" and "alert_dated t x" and "\<forall>y \<in> set xs. ha_id y < ha_id x" and "\<forall>y \<in> set xs. spaced h y x"
  shows "alerts_ok h t (xs @ [x])"
proof -
  have "ha_id x \<notin> ha_id ` set xs" using assms(3) by auto
  moreover have "spaced h x x" "\<forall>y \<in> set xs. spaced h x y" using assms(3) by (force simp: spaced_def)+
  ultimately show ?thesis using assms by (auto simp: alerts_ok_def)
qed

lemma record_alert_keeps:
  assumes "record_alert_if_not_in_cooldown now key emp typ sev pl est s = Inr (s', r)" and "alerts_ok h t (hz_alerts s)" and "t \<le> now"
    and "cooldowns_ok h s" and "\<forall>x \<in> set (hz_alerts s). ha_id x < key" and "typ \<noteq> ''late_reported''"
  shows "alerts_ok h now (hz_alerts s')" and "\<forall>x \<in> set (hz_alerts s'). ha_id x \<le> key" and "hz_configs s' = hz_configs s" and "r = None \<Longrightarrow> s' = s"
proof -
  let ?est = "alert_establishment emp pl est s"
  let ?last = "last_alert (same_alert_key typ emp ?est) s"
  let ?x = "\<lparr>ha_id = key, ha_employee_id = emp, ha_establishment_id = ?est, ha_type = typ, ha_severity = sev, ha_payload = pl,
      ha_triggered_at = now, ha_resolved_at = None, ha_sent_at = Some now\<rparr>"
  have now: "alerts_ok h now (hz_alerts s)" by (rule alerts_later [OF assms(2,3)])
  consider "s' = s" "r = None" | "\<not> in_cooldown now (cooldown_hours emp ?est s) ?last" "s' = s\<lparr>hz_alerts := hz_alerts s @ [?x]\<rparr>" "r = Some ?x"
    using assms(1) by (auto simp: record_alert_if_not_in_cooldown_def Let_def add_alert_def split: if_splits)
  note cases' = this
  have spaced: "\<forall>y \<in> set (hz_alerts s). spaced h y ?x" if free: "\<not> in_cooldown now (cooldown_hours emp ?est s) ?last"
  proof
    fix y assume y: "y \<in> set (hz_alerts s)"
    show "spaced h y ?x"
      unfolding spaced_def
    proof (intro impI allI)
      fix u v assume same: "ha_type y = ha_type ?x" "ha_employee_id y \<noteq> None" "ha_employee_id y = ha_employee_id ?x"
        and sent: "ha_sent_at y = Some u" "ha_sent_at ?x = Some v"
      then have p: "same_alert_key typ emp ?est y" by (simp add: same_alert_key_def)
      then obtain z where z: "?last = Some z" using last_alert_none y by (cases ?last) auto
      note zmax = last_alert_max [OF z]
      have "ha_type z = typ" "ha_employee_id z = emp" using zmax(2) same by (auto simp: same_alert_key_def split: if_splits)
      moreover have "ha_type z \<noteq> ''late_reported''" using assms(6) calculation(1) by simp
      then obtain w where w: "ha_sent_at z = Some w" using assms(2) zmax(1) by (fastforce simp: alerts_ok_def alert_dated_def split: option.splits)
      have far: "w + h * hour_us \<le> now"
        using free cooldown_at_least [OF assms(4), of emp ?est] by (simp add: in_cooldown_def z w)
      have "u \<le> w"
      proof (cases "ha_id y = ha_id z")
        case True
        then have "y = z" using assms(2) y zmax(1) by (auto simp: alerts_ok_def distinct_map dest: inj_onD)
        then show ?thesis using sent(1) w by simp
      next
        case False
        then have "ha_id y < ha_id z" using zmax(3) y p by fastforce
        moreover have "spaced h y z" using assms(2) y zmax(1) by (simp add: alerts_ok_def)
        ultimately have "u + h * hour_us \<le> w" using same sent(1) w \<open>ha_type z = typ\<close> \<open>ha_employee_id z = emp\<close> by (simp add: spaced_def)
        then show ?thesis using assms(4) by (simp add: cooldowns_ok_def)
      qed
      then show "u + h * hour_us \<le> v" using far sent(2) by simp
    qed
  qed
  show "alerts_ok h now (hz_alerts s')"
    by (rule cases') (use now spaced assms(5) in \<open>auto intro!: alerts_ok_add simp: alert_dated_def\<close>)
  show "\<forall>x \<in> set (hz_alerts s'). ha_id x \<le> key" by (rule cases') (use assms(5) in auto)
  show "hz_configs s' = hz_configs s" by (rule cases') simp_all
  show "r = None \<Longrightarrow> s' = s" by (rule cases') auto
qed

definition pass_ok :: "int \<Rightarrow> instant \<Rightarrow> hr_db \<Rightarrow> hr_db \<Rightarrow> bool" where
  "pass_ok h now s s' \<longleftrightarrow> alerts_ok h now (hz_alerts s') \<and> hz_configs s' = hz_configs s"

lemma pass_ok_trans: "pass_ok h now s s1 \<Longrightarrow> pass_ok h now s1 s2 \<Longrightarrow> pass_ok h now s s2"
  by (simp add: pass_ok_def)

lemma record_pass:
  assumes "record_alert_if_not_in_cooldown now (keys n) emp typ sev pl est s = Inr (s', r)" and "alerts_ok h now (hz_alerts s)"
    and "cooldowns_ok h s" and "\<forall>x \<in> set (hz_alerts s). ha_id x < keys n" and "typ \<noteq> ''late_reported''" and "\<forall>i j. i < j \<longrightarrow> keys i < keys j"
  shows "pass_ok h now s s'" and "cooldowns_ok h s'" and "\<forall>x \<in> set (hz_alerts s'). ha_id x < keys (Suc n)" and "r = None \<Longrightarrow> \<forall>x \<in> set (hz_alerts s'). ha_id x < keys n"
proof -
  note keeps = record_alert_keeps [OF assms(1,2) order_refl assms(3-5)]
  show "pass_ok h now s s'" using keeps(1,3) by (simp add: pass_ok_def)
  show "cooldowns_ok h s'" using assms(3) by (simp add: cooldowns_ok_def keeps(3))
  show "\<forall>x \<in> set (hz_alerts s'). ha_id x < keys (Suc n)" using keeps(2) assms(6) by (meson le_less_trans lessI)
  show "r = None \<Longrightarrow> \<forall>x \<in> set (hz_alerts s'). ha_id x < keys n" using keeps(4) assms(4) by simp
qed

lemma overtime_pass:
  assumes "check_overtime_of now keys n es s sent = (s', r)" and "alerts_ok h now (hz_alerts s)" and "cooldowns_ok h s"
    and "\<forall>x \<in> set (hz_alerts s). ha_id x < keys n" and "\<forall>i j. i < j \<longrightarrow> keys i < keys j"
  shows "pass_ok h now s s'"
  using assms(1-4)
proof (induction es arbitrary: n s sent)
  case (Cons e es)
  have same: "pass_ok h now s s" using Cons.prems(2) by (simp add: pass_ok_def)
  show ?case
  proof (cases "config_of (hp_establishment_id e) s")
    case (Some c)
    let ?hours = "weekly_hours_worked (hp_id e) now s"
    let ?rec = "record_alert_if_not_in_cooldown now (keys n) (Some (hp_id e)) ''weekly_overtime'' ''warning''
        [(''hours_worked'', Hr_num ?hours), (''threshold'', Hr_int (hf_weekly_threshold c)), (''establishment_id'', Hr_int (hp_establishment_id e))]
        (Some (hp_establishment_id e)) s"
    show ?thesis
    proof (cases "?hours \<le> of_int (hf_weekly_threshold c)")
      case True
      then show ?thesis using Cons.IH [OF _ Cons.prems(2-4)] Cons.prems(1) by (simp add: Some)
    next
      case False
      show ?thesis
      proof (cases ?rec)
        case (Inl er)
        then show ?thesis using Cons.prems(1) False same by (simp add: Some)
      next
        case (Inr out)
        obtain s1 found where out: "out = (s1, found)" by fastforce
        note keeps = record_pass [OF Inr [unfolded out] Cons.prems(2-4) _ assms(5)]
        have ok: "pass_ok h now s s1" "cooldowns_ok h s1" "alerts_ok h now (hz_alerts s1)" using keeps(1,2) by (simp_all add: pass_ok_def)
        show ?thesis
        proof (cases found)
          case None
          then have "check_overtime_of now keys n es s1 sent = (s', r)" using Cons.prems(1) False Inr by (simp add: Some out)
          from Cons.IH [OF this ok(3,2)] keeps(4) None ok(1) show ?thesis using pass_ok_trans by blast
        next
          case (Some x)
          then have "check_overtime_of now keys (Suc n) es s1 (sent @ [x]) = (s', r)"
            using Cons.prems(1) False Inr \<open>config_of _ s = Some c\<close> by (simp add: out)
          from Cons.IH [OF this ok(3,2)] keeps(3) ok(1) show ?thesis using pass_ok_trans by blast
        qed
      qed
    qed
  qed (use Cons.prems(1) same in simp)
qed (simp add: pass_ok_def)

lemma labor_cost_pass:
  assumes "check_labor_cost_of now keys orders n cs s sent = (s', r)" and "alerts_ok h now (hz_alerts s)" and "cooldowns_ok h s"
    and "\<forall>x \<in> set (hz_alerts s). ha_id x < keys n" and "\<forall>i j. i < j \<longrightarrow> keys i < keys j"
  shows "pass_ok h now s s'"
  using assms(1-4)
proof (induction cs arbitrary: n s sent)
  case (Cons c cs)
  have same: "pass_ok h now s s" using Cons.prems(2) by (simp add: pass_ok_def)
  let ?ratio = "labor_cost_ratio (hf_establishment_id c) (monday_of now) orders s"
  let ?fine = "case ?ratio of Ratio x \<Rightarrow> x \<le> hf_cost_target c | Infinite_ratio \<Rightarrow> False"
  let ?rec = "record_alert_if_not_in_cooldown now (keys n) None ''labor_cost_risk'' ''critical''
      [(''establishment_id'', Hr_int (hf_establishment_id c)), (''ratio'', case ?ratio of Ratio x \<Rightarrow> Hr_num x | Infinite_ratio \<Rightarrow> Hr_infinity),
       (''target_ratio'', Hr_num (hf_cost_target c))] (Some (hf_establishment_id c)) s"
  show ?case
  proof (cases ?fine)
    case True
    then show ?thesis using Cons.IH [OF _ Cons.prems(2-4)] Cons.prems(1) by simp
  next
    case False
    show ?thesis
    proof (cases ?rec)
      case (Inl er)
      then show ?thesis using Cons.prems(1) False same by simp
    next
      case (Inr out)
      obtain s1 found where out: "out = (s1, found)" by fastforce
      note keeps = record_pass [OF Inr [unfolded out] Cons.prems(2-4) _ assms(5)]
      have ok: "pass_ok h now s s1" "cooldowns_ok h s1" "alerts_ok h now (hz_alerts s1)" using keeps(1,2) by (simp_all add: pass_ok_def)
      show ?thesis
      proof (cases found)
        case None
        then have "check_labor_cost_of now keys orders n cs s1 sent = (s', r)" using Cons.prems(1) False Inr by (simp add: out)
        from Cons.IH [OF this ok(3,2)] keeps(4) None ok(1) show ?thesis using pass_ok_trans by blast
      next
        case (Some x)
        then have "check_labor_cost_of now keys orders (Suc n) cs s1 (sent @ [x]) = (s', r)" using Cons.prems(1) False Inr by (simp add: out)
        from Cons.IH [OF this ok(3,2)] keeps(3) ok(1) show ?thesis using pass_ok_trans by blast
      qed
    qed
  qed
qed (simp add: pass_ok_def)

definition hr_ok :: "int \<Rightarrow> instant \<times> hr_db \<Rightarrow> bool" where
  "hr_ok h ts \<longleftrightarrow> alerts_ok h (fst ts) (hz_alerts (snd ts)) \<and> cooldowns_ok h (snd ts)"

lemma hr_ok_pass: "hr_ok h (t, s) \<Longrightarrow> pass_ok h now s s' \<Longrightarrow> hr_ok h (now, s')"
  by (simp add: hr_ok_def pass_ok_def cooldowns_ok_def)

lemma hr_ok_frame:
  assumes "hr_ok h (t, s)" and "t \<le> now" and "hz_alerts s' = hz_alerts s" and "hz_configs s' = hz_configs s"
  shows "hr_ok h (now, s')"
  using assms alerts_later [OF _ assms(2)] by (simp add: hr_ok_def cooldowns_ok_def)

lemma alerts_ok_map:
  assumes "alerts_ok h t xs" and "\<And>x. ha_id (f x) = ha_id x \<and> ha_type (f x) = ha_type x \<and> ha_employee_id (f x) = ha_employee_id x \<and> ha_sent_at (f x) = ha_sent_at x"
  shows "alerts_ok h t (map f xs)"
proof -
  have "map ha_id (map f xs) = map ha_id xs" using assms(2) by simp
  moreover have "alert_dated t (f x) = alert_dated t x" "spaced h (f x) (f y) = spaced h x y" for x y
    using assms(2) [of x] assms(2) [of y] by (simp_all add: alert_dated_def spaced_def split: option.split)
  ultimately show ?thesis using assms(1) unfolding alerts_ok_def list.set_map ball_simps by presburger
qed

lemma put_entry_frame [simp]: "hz_alerts (put_entry x s) = hz_alerts s" "hz_configs (put_entry x s) = hz_configs s"
  by (simp_all add: put_entry_def)

lemma resolve_ok:
  assumes "resolve_alert now k s = Inr (s', x')" and "alerts_ok h t (hz_alerts s)"
  shows "alerts_ok h t (hz_alerts s')" and "hz_configs s' = hz_configs s"
proof -
  obtain x where x: "row_get ha_id k (hz_alerts s) = Some x"
    and s': "s' = s\<lparr>hz_alerts := row_upd ha_id k (\<lambda>_. x\<lparr>ha_resolved_at := Some now\<rparr>) (hz_alerts s)\<rparr>"
    using assms(1) by (auto simp: resolve_alert_def Let_def split: option.splits)
  have "hz_alerts s' = map (\<lambda>y. if y = x then x\<lparr>ha_resolved_at := Some now\<rparr> else y) (hz_alerts s)"
    using assms(2) row_get_SomeD [OF x] by (auto simp: s' row_upd_def alerts_ok_def distinct_map dest: inj_onD)
  then show "alerts_ok h t (hz_alerts s')" using alerts_ok_map [OF assms(2), of "\<lambda>y. if y = x then x\<lparr>ha_resolved_at := Some now\<rparr> else y"] by simp
qed (use assms(1) in \<open>auto simp: resolve_alert_def Let_def split: option.splits\<close>)

lemma report_ok:
  assumes "report_late now key e sh reason s = Inr (s', al)" and "alerts_ok h now (hz_alerts s)" and "key \<notin> ha_id ` set (hz_alerts s)"
  shows "alerts_ok h now (hz_alerts s')" and "hz_configs s' = hz_configs s"
proof -
  have al: "hz_alerts s' = hz_alerts s @ [al]" "ha_id al = key" "ha_type al = ''late_reported''" "ha_sent_at al = None"
    using assms(1) by (auto simp: report_late_def Let_def add_alert_def split: if_splits)
  have "spaced h al y" "spaced h y al" for y by (simp_all add: spaced_def al)
  moreover have "alert_dated now al" by (simp add: alert_dated_def al)
  ultimately show "alerts_ok h now (hz_alerts s')" using assms(2,3) by (simp add: alerts_ok_def al)
qed (use assms(1) in \<open>auto simp: report_late_def Let_def add_alert_def split: if_splits\<close>)

lemma hr_step_keeps:
  assumes "hr_step ts ts'" and "hr_ok h ts"
  shows "hr_ok h ts'"
  using assms
proof (cases rule: hr_step.cases)
  case (hrstep_employee t now key user_id est rate weekly hire s s' e)
  then show ?thesis using hr_ok_frame [of h t s now s'] assms(2) by (auto simp: hr_ok_def create_employee_profile_def Let_def split: if_splits)
next
  case (hrstep_update_employee t now k b s s' e)
  then show ?thesis
    using hr_ok_frame [of h t s now s'] assms(2) by (auto simp: hr_ok_def update_employee_profile_def Let_def split: if_splits option.splits)
next
  case (hrstep_shift t now key e est a b br by_id s s' w)
  then show ?thesis using hr_ok_frame [of h t s now s'] assms(2) by (auto simp: hr_ok_def create_shift_def Let_def split: if_splits)
next
  case (hrstep_update_shift t now k p s s' w)
  then have "hz_entries s' = hz_entries s" "hz_alerts s' = hz_alerts s" "hz_configs s' = hz_configs s"
    by (cases "row_get wf_id k (hz_shifts s)"; auto simp: update_shift_def Let_def split: if_splits)+
  then show ?thesis using hrstep_update_shift hr_ok_frame [of h t s now s'] assms(2) by (simp add: hr_ok_def)
next
  case (hrstep_in t now key s pool e m est shift_id s' out)
  have "hz_alerts s' = hz_alerts s" "hz_configs s' = hz_configs s"
    using hrstep_in(5) by (auto simp: clock_in_def Let_def split: if_splits)
  then show ?thesis using hrstep_in hr_ok_frame [of h t s now s'] assms(2) by (simp add: hr_ok_def)
next
  case (hrstep_out t now pool e s s' out)
  have "hz_alerts s' = hz_alerts s" "hz_configs s' = hz_configs s"
    using hrstep_out(4) by (auto simp: clock_out_def Let_def split: option.splits)
  then show ?thesis using hrstep_out hr_ok_frame [of h t s now s'] assms(2) by (simp add: hr_ok_def)
next
  case (hrstep_break t now e s s' x)
  have "hz_alerts s' = hz_alerts s" "hz_configs s' = hz_configs s"
    using hrstep_break(4) by (auto simp: start_break_def Let_def split: option.splits)
  then show ?thesis using hrstep_break hr_ok_frame [of h t s now s'] assms(2) by (simp add: hr_ok_def)
next
  case (hrstep_end_break t now e s s' x)
  have "hz_alerts s' = hz_alerts s" "hz_configs s' = hz_configs s"
    using hrstep_end_break(4) by (auto simp: end_break_def Let_def split: option.splits)
  then show ?thesis using hrstep_end_break hr_ok_frame [of h t s now s'] assms(2) by (simp add: hr_ok_def)
next
  case (hrstep_correct t now key k a b reason by_id s s' x)
  have "hz_alerts s' = hz_alerts s" "hz_configs s' = hz_configs s"
    using hrstep_correct(4) by (cases "row_get te_id k (hz_entries s)"; auto simp: correct_time_clock_entry_def Let_def split: if_splits)+
  then show ?thesis using hrstep_correct hr_ok_frame [of h t s now s'] assms(2) by (simp add: hr_ok_def)
next
  case (hrstep_report t now key s e sh reason s' al)
  have "alerts_ok h now (hz_alerts s)" using alerts_later [OF _ hrstep_report(3)] assms(2) hrstep_report(1) by (simp add: hr_ok_def)
  from report_ok [OF hrstep_report(5) this hrstep_report(4)] show ?thesis using assms(2) by (simp add: hrstep_report(1,2) hr_ok_def cooldowns_ok_def)
next
  case (hrstep_resolve t now k s s' al)
  have "alerts_ok h now (hz_alerts s)" using alerts_later [OF _ hrstep_resolve(3)] assms(2) hrstep_resolve(1) by (simp add: hr_ok_def)
  from resolve_ok [OF hrstep_resolve(4) this] show ?thesis using assms(2) by (simp add: hrstep_resolve(1,2) hr_ok_def cooldowns_ok_def)
next
  case (hrstep_late t now keys s job s' al)
  obtain e w m where job: "job = (e, w, m)" by (cases job)
  have ok: "alerts_ok h now (hz_alerts s)" "cooldowns_ok h s" using alerts_later [OF _ hrstep_late(3)] assms(2) hrstep_late(1) by (simp_all add: hr_ok_def)
  have "pass_ok h now s s'"
    by (rule record_pass(1) [OF _ ok]) (use hrstep_late(4,5) in \<open>auto simp: send_hr_late_alert_def job fresh_alert_keys_def\<close>)
  then show ?thesis using hr_ok_pass assms(2) by (simp add: hrstep_late(1,2))
next
  case (hrstep_overrun t now keys s job s' al)
  obtain e w m where job: "job = (e, w, m)" by (cases job)
  have ok: "alerts_ok h now (hz_alerts s)" "cooldowns_ok h s" using alerts_later [OF _ hrstep_overrun(3)] assms(2) hrstep_overrun(1) by (simp_all add: hr_ok_def)
  have "pass_ok h now s s'"
    by (rule record_pass(1) [OF _ ok]) (use hrstep_overrun(4,5) in \<open>auto simp: send_hr_overrun_alert_def job fresh_alert_keys_def\<close>)
  then show ?thesis using hr_ok_pass assms(2) by (simp add: hrstep_overrun(1,2))
next
  case (hrstep_overtime t now keys s s' r)
  have ok: "alerts_ok h now (hz_alerts s)" "cooldowns_ok h s" using alerts_later [OF _ hrstep_overtime(3)] assms(2) hrstep_overtime(1) by (simp_all add: hr_ok_def)
  have "pass_ok h now s s'"
    by (rule overtime_pass [OF _ ok]) (use hrstep_overtime(4,5) in \<open>auto simp: check_weekly_overtime_def fresh_alert_keys_def\<close>)
  then show ?thesis using hr_ok_pass assms(2) by (simp add: hrstep_overtime(1,2))
next
  case (hrstep_cost t now keys s orders s' r)
  have ok: "alerts_ok h now (hz_alerts s)" "cooldowns_ok h s" using alerts_later [OF _ hrstep_cost(3)] assms(2) hrstep_cost(1) by (simp_all add: hr_ok_def)
  have "pass_ok h now s s'"
    by (rule labor_cost_pass [OF _ ok]) (use hrstep_cost(4,5) in \<open>auto simp: check_labor_cost_risk_def fresh_alert_keys_def\<close>)
  then show ?thesis using hr_ok_pass assms(2) by (simp add: hrstep_cost(1,2))
qed

interpretation staffing: invariant_steps hr_step "hr_ok h"
  by unfold_locales (rule hr_step_keeps)

text \<open>C39. In whatever order operations on employees, shifts, clockings, corrections and alerts are served, each to its end before the
  next, an employee has at most one running entry; so the queries of the clock, which fail with 500 when they find two rows,
  always answer. Two requests served at once are not covered, see \<open>simultaneous_clock_ins_block_clock\<close>.\<close>

theorem time_clock_never_ambiguous:
  assumes "hr_step\<^sup>*\<^sup>* (t0, s0) (t, s)" and "hz_entries s0 = []" and "set sts \<subseteq> {Clock_open, Clock_break}"
  shows "length (entries_in [Clock_open, Clock_break] e s) \<le> 1 \<and> (\<exists>found. one_or_none (entries_in sts e s) = Inr found)"
proof -
  have "entries_ok (hz_entries s0)" using assms(2) by (simp add: entries_ok_def)
  then have "entries_ok (hz_entries s)" using clock.run_inv [OF assms(1)] by simp
  then show ?thesis using entries_ok_one entries_sub_one [OF _ assms(3)] one_or_none_ok by metis
qed

text \<open>The staff is not told of the same thing again too soon: two alerts of one type about one employee are at least the cooldown
  apart, where every establishment is configured with \<open>h\<close> hours or more (at most the four of the default).\<close>

theorem hr_alerts_respect_cooldown:
  assumes "hr_step\<^sup>*\<^sup>* (t0, s0) (t, s)" and "hz_alerts s0 = []"
    and "\<forall>c \<in> set (hz_configs s0). h \<le> hf_cooldown_hours c" and "0 \<le> h" and "h \<le> 4"
    and "x \<in> set (hz_alerts s)" and "y \<in> set (hz_alerts s)" and "ha_id x < ha_id y" and "ha_type x = ha_type y"
    and "ha_employee_id x = Some e" and "ha_employee_id y = Some e" and "ha_sent_at x = Some u" and "ha_sent_at y = Some v"
  shows "u + h * hour_us \<le> v"
proof -
  have "hr_ok h (t0, s0)" using assms(2-5) by (simp add: hr_ok_def alerts_ok_def cooldowns_ok_def)
  then have "hr_ok h (t, s)" by (rule staffing.run_inv [OF assms(1)])
  then have "spaced h x y" using assms(6,7) by (simp add: hr_ok_def alerts_ok_def)
  then show ?thesis using assms(8-13) by (simp add: spaced_def)
qed

subsection \<open>Defaults\<close>

text \<open>The daily check of working hours stops with an exception at an active employee whose establishment has no configuration row: the
  fallback object it makes has no threshold. A tolerance of zero minutes is read as ten.\<close>

lemma overtime_needs_configuration:
  assumes "filter hp_active (hz_employees s) = e # es" and "config_of (hp_establishment_id e) s = None"
  shows "check_weekly_overtime now keys s = (s, Inl PyTypeError)"
  using assms by (simp add: check_weekly_overtime_def)

lemma zero_tolerance_is_ten: "config_of est s = Some c \<Longrightarrow> hf_late_tolerance c = 0 \<Longrightarrow> late_tolerance_minutes est s = 10"
  by (simp add: late_tolerance_minutes_def)

text \<open>A week with costs and no revenue cannot be recorded as an alert, and the check stops there.\<close>

lemma infinite_ratio_fails:
  assumes "hz_configs s = c # cs" and "labor_cost_ratio (hf_establishment_id c) (monday_of now) orders s = Infinite_ratio"
    and "\<not> in_cooldown now (cooldown_hours None (Some (hf_establishment_id c)) s) (last_alert (same_alert_key ''labor_cost_risk'' None (Some (hf_establishment_id c))) s)"
  shows "check_labor_cost_risk now keys orders s = (s, Inl (AppError ''DataError'' 500))"
  using assms by (simp add: check_labor_cost_risk_def record_alert_if_not_in_cooldown_def alert_establishment_def add_alert_def Let_def)

subsection \<open>Two requests at once\<close>

text \<open>No lock and no constraint of the table stands between the test of \<^verbatim>\<open>clock_in\<close> and its insertion. Two requests that are both
  decided on the same rows leave two running entries, and from then on the clock of the employee fails.\<close>

lemma simultaneous_clock_ins_block_clock:
  assumes "clock_in n1 k1 pool e m1 est1 sh1 s = Inr (s1, t1, l1)" and "clock_in n2 k2 pool e m2 est2 sh2 s = Inr (s2, t2, l2)"
  shows "clock_out now pool e (s\<lparr>hz_entries := hz_entries s @ [t1, t2]\<rparr>) = Inl (AppError ''MultipleResultsFound'' 500)"
proof -
  have "entries_in [Clock_open, Clock_break] e s = []" using assms(1)
    by (cases "entries_in [Clock_open, Clock_break] e s"; cases "tl (entries_in [Clock_open, Clock_break] e s)")
      (auto simp: clock_in_def one_or_none_def split: if_splits)
  moreover from this have "te_employee_id t1 = e \<and> te_status t1 = Clock_open" "te_employee_id t2 = e \<and> te_status t2 = Clock_open"
    using assms by (auto simp: clock_in_def one_or_none_def Let_def split: if_splits)
  ultimately have "entries_in [Clock_open, Clock_break] e (s\<lparr>hz_entries := hz_entries s @ [t1, t2]\<rparr>) = [t1, t2]"
    by (simp add: entries_in_def)
  then show ?thesis by (simp add: clock_out_def one_or_none_def)
qed

subsection \<open>Examples\<close>

definition demo_employee :: employee_profile where
  "demo_employee = \<lparr>hp_id = 3, hp_user_id = 7, hp_establishment_id = 1, hp_rate_cents = Some 1200, hp_weekly_hours = 35, hp_hire_date = None, hp_active = True\<rparr>"

definition demo_hr :: hr_db where
  "demo_hr = \<lparr>hz_establishments = [1], hz_configs = [\<lparr>hf_establishment_id = 1, hf_weekly_threshold = 35, hf_late_tolerance = 10, hf_cooldown_hours = 4,
      hf_cost_target = 3 / 10\<rparr>], hz_employees = [demo_employee], hz_shifts = [], hz_entries = [], hz_corrections = [], hz_alerts = []\<rparr>"

definition demo_alert :: "int \<Rightarrow> instant \<Rightarrow> hr_alert" where
  "demo_alert k t = \<lparr>ha_id = k, ha_employee_id = Some 3, ha_establishment_id = Some 1, ha_type = ''late'', ha_severity = ''warning'',
     ha_payload = [(''shift_id'', Hr_int 5), (''minutes_late'', Hr_int 12)], ha_triggered_at = t, ha_resolved_at = None, ha_sent_at = Some t\<rparr>"

theorem time_clock_never_ambiguous_witness:
  "\<exists>s. hr_step\<^sup>*\<^sup>* (0, demo_hr) (5, s) \<and> length (hz_entries s) = 1 \<and> (\<exists>found. one_or_none (entries_in [Clock_open] 3 s) = Inr found)"
proof -
  obtain s out where c: "clock_in 5 1 True 3 ''web'' 1 None demo_hr = Inr (s, out)" and one: "length (hz_entries s) = 1"
    by (simp add: clock_in_def demo_hr_def entries_in_def one_or_none_def has_employee_def demo_employee_def Let_def)
  have "hr_step (0, demo_hr) (5, s)" by (rule hrstep_in [OF _ _ c]) (simp_all add: demo_hr_def)
  then have run: "hr_step\<^sup>*\<^sup>* (0, demo_hr) (5, s)" by blast
  have empty: "hz_entries demo_hr = []" by (simp add: demo_hr_def)
  have "\<exists>found. one_or_none (entries_in [Clock_open] 3 s) = Inr found" using time_clock_never_ambiguous [OF run empty, of "[Clock_open]" 3] by simp
  then show ?thesis using run one by blast
qed

theorem hr_alerts_respect_cooldown_witness:
  "\<exists>s x y. hr_step\<^sup>*\<^sup>* (0, demo_hr) (5 * hour_us, s) \<and> hz_alerts s = [x, y] \<and> ha_sent_at x = Some 0 \<and> ha_sent_at y = Some (5 * hour_us)
     \<and> 0 + 4 * hour_us \<le> 5 * hour_us"
proof -
  let ?s1 = "demo_hr\<lparr>hz_alerts := [demo_alert 1 0]\<rparr>" and ?s2 = "demo_hr\<lparr>hz_alerts := [demo_alert 1 0, demo_alert 2 (5 * hour_us)]\<rparr>"
  have c1: "send_hr_late_alert 0 1 (3, 5, 12) demo_hr = Inr (?s1, Some (demo_alert 1 0))"
    by (simp add: send_hr_late_alert_def record_alert_if_not_in_cooldown_def last_alert_def in_cooldown_def alert_establishment_def payload_establishment_def
        establishment_of_def demo_hr_def demo_employee_def row_simps add_alert_def demo_alert_def Let_def)
  have c2: "send_hr_late_alert (5 * hour_us) 2 (3, 5, 12) ?s1 = Inr (?s2, Some (demo_alert 2 (5 * hour_us)))"
    by (simp add: send_hr_late_alert_def record_alert_if_not_in_cooldown_def last_alert_def in_cooldown_def alert_establishment_def payload_establishment_def
        establishment_of_def demo_hr_def demo_employee_def row_simps add_alert_def demo_alert_def same_alert_key_def cooldown_hours_def config_of_def Let_def)
  have "hr_step (0, demo_hr) (0, ?s1)"
    by (rule hrstep_late [where keys = "\<lambda>i. 1 + int i"]) (use c1 in \<open>simp_all add: fresh_alert_keys_def demo_hr_def\<close>)
  moreover have "hr_step (0, ?s1) (5 * hour_us, ?s2)"
    by (rule hrstep_late [where keys = "\<lambda>i. 2 + int i"]) (use c2 in \<open>simp_all add: fresh_alert_keys_def demo_alert_def\<close>)
  ultimately have run: "hr_step\<^sup>*\<^sup>* (0, demo_hr) (5 * hour_us, ?s2)" by (meson converse_rtranclp_into_rtranclp rtranclp.rtrancl_refl)
  have "0 + 4 * hour_us \<le> 5 * hour_us"
    by (rule hr_alerts_respect_cooldown [OF run, where x = "demo_alert 1 0" and y = "demo_alert 2 (5 * hour_us)"])
       (simp_all add: demo_hr_def demo_alert_def)
  then show ?thesis using run
    by (intro exI [of _ ?s2] exI [of _ "demo_alert 1 0"] exI [of _ "demo_alert 2 (5 * hour_us)"]) (simp add: demo_alert_def)
qed

end
