(* ===== verification/Spec2Isabelle.thy ===== *)
theory Spec2Isabelle
  imports Stock_Props Delivery_Props Promotion_Props Loyalty_Props Dispatch_Props Haccp_Props Reorder_Props Payments_Props
    Tenant_Props Menu_Card Allergen_Props Catalog_Roundtrip Auth_Props Customer_Props Kds_Props Hr_Props
begin

text \<open>
  Verification of the kitchen ordering service (\<^verbatim>\<open>app/\<close>): the tenant-side logic of a restaurant that takes
  orders, keeps its stock and its hygiene controls, delivers, rewards its customers and employs its staff, and the
  accounts and sessions of everyone who uses it.

  \<^bold>\<open>The program and its parts.\<close> One database schema per restaurant holds the tables below. An order is created from
  the catalogue, priced (promotion codes, loyalty points, delivery fee), and moved through a status machine by the
  staff, the kitchen screens, the drivers and the customer. Every status change has effects on the other parts:
  confirming deducts stock, cancelling gives it back, leaving and arriving move the delivery, delivering credits
  loyalty points, closing settles the card hold, and messages are queued. The parts are modelled by groups of
  theories; each group ends in a theory of properties.

  \<^item> \<^bold>\<open>Foundations.\<close> \<open>Kitchen_Prelude\<close>: results (\<open>'a res\<close>, an exception is \<open>Inl (AppError code http)\<close>), tables as lists
    of rows with a key, Python dictionaries as association lists, and the lemma collections the components share.
    \<open>Money\<close>: amounts and rounding to cents. \<open>Py_Text\<close>: \<^verbatim>\<open>strip\<close>, \<^verbatim>\<open>upper\<close>, \<^verbatim>\<open>split\<close>, \<^verbatim>\<open>min\<close> with a key. \<open>Calendar\<close>:
    \<^verbatim>\<open>datetime.date\<close>. \<open>Kitchen_Data\<close>: catalogue and order rows. \<open>Machines\<close>: the two contracts \<open>invariant_steps\<close>
    and \<open>ledger\<close>, stated as locales and interpreted by every component that promises an invariant or a journal.

  \<^item> \<^bold>\<open>Stock\<close> (\<^verbatim>\<open>stock/service.py\<close>, \<^verbatim>\<open>models.py\<close>, \<^verbatim>\<open>schemas.py\<close>). \<open>Stock_Batches\<close>: units, use-by dates, batches.
    \<open>Stock_Recipes\<close>: the tables, recipes, availability, automatic overrides. \<open>Stock_Ops\<close>: the write operations.
    \<open>Stock_Orders\<close>: deduction and restoration for an order. \<open>Stock_Recipe_Edit\<close>, \<open>Stock_Overview\<close>, \<open>Stock_Overrides\<close>:
    recipe administration, the use-by overview, what the overrides achieve. \<open>Stock_Machine\<close>: all of them as a step
    relation. \<open>Stock_Props\<close>: quantities are never negative and are explained by the journal; deduction succeeds
    exactly when stock suffices and restoration undoes it; availability, overview and deduction agree.

  \<^item> \<^bold>\<open>Stock per establishment\<close> (\<^verbatim>\<open>stock/site_stock_service.py\<close>, \<^verbatim>\<open>site_models.py\<close>). \<open>Site_Stock\<close>, \<open>Site_Props\<close>: lots are
    allocated first expired first out, the refusal is exact, and an allocation is given back at most once.

  \<^item> \<^bold>\<open>Hygiene control\<close> (\<^verbatim>\<open>haccp/strict_checklist.py\<close>, \<^verbatim>\<open>strict_service.py\<close>, \<^verbatim>\<open>order_gate.py\<close>). \<open>Haccp_Checklist\<close>,
    \<open>Haccp_Strict\<close>, \<open>Haccp_Props\<close>: what must be checked on a day, evidence, validation, regularisation, the gate on
    orders; a validated session is proved, the gate is sound, and repeated requests change nothing.

  \<^item> \<^bold>\<open>Delivery zones and fees\<close> (\<^verbatim>\<open>delivery/geometry.py\<close>, \<^verbatim>\<open>pricing.py\<close>, \<^verbatim>\<open>service.py\<close>). \<open>Geometry\<close>,
    \<open>Delivery_Pricing\<close>, \<open>Delivery_Zones\<close>, \<open>Delivery_Props\<close>: polygons, pricing windows and rules, the zone of an
    address, zone administration; the precedence of the rules, the most specific zone, the limit on active zones.

  \<^item> \<^bold>\<open>Promotions\<close> (\<^verbatim>\<open>promotions/service.py\<close>). \<open>Promotions\<close>: eligibility, stacking, quotas. \<open>Promotion_Admin\<close>: editing a
    code, statistics, the list for administrators. \<open>Promotion_Props\<close>: discounts stay within the order; quotas hold along
    every run, editing included, as long as no edit puts a limit below the uses already made; preview and application agree.

  \<^item> \<^bold>\<open>Loyalty\<close> (\<^verbatim>\<open>loyalty/account\<close>, \<^verbatim>\<open>loyalty/config\<close>). \<open>Loyalty\<close>, \<open>Loyalty_Ledger\<close>, \<open>Loyalty_Rewards\<close>, \<open>Loyalty_Props\<close>:
    accounts, transactions, reservations, earning rules, expiry, rewards; balances equal the sum of their
    transactions and are never negative, an order is credited once, caps hold.

  \<^item> \<^bold>\<open>Orders, deliveries and card holds\<close> (\<^verbatim>\<open>orders/service.py\<close>, \<^verbatim>\<open>delivery/lifecycle.py\<close>, \<^verbatim>\<open>proof.py\<close>,
    \<^verbatim>\<open>estimates.py\<close>, \<^verbatim>\<open>dispatch_settings.py\<close>, \<^verbatim>\<open>dispatch_service.py\<close>, \<^verbatim>\<open>failures.py\<close>, \<^verbatim>\<open>payments/guarantee.py\<close>).
    \<open>Delivery_Lifecycle\<close>, \<open>Payments_Guarantee\<close>, \<open>Orders_Status\<close>, \<open>Orders_Preparation\<close>, \<open>Delivery_Dispatch\<close>: the
    operations on the record \<open>shop\<close>, which holds every table an order touches. \<open>Orders_Frame\<close>: what a status change
    leaves alone. \<open>Orders_Coherence\<close>: every operation as \<open>shop_step\<close>, and orders agree with their deliveries.
    \<open>Orders_Life\<close>: the abstract life cycle the shop refines, and the status history. \<open>Orders_Props\<close>,
    \<open>Dispatch_Props\<close>: the properties of confirmation, cancellation, hand-over, self-assignment and card holds.

  \<^item> \<^bold>\<open>Creating and showing orders\<close> (\<^verbatim>\<open>orders/service.py\<close>, \<^verbatim>\<open>schemas.py\<close>). \<open>Orders_Create\<close>: \<^verbatim>\<open>create_order\<close> with all it
    resolves: catalogue lines, extras, menus, promotion, loyalty, establishment or delivery zone, the hygiene gate,
    the insertion and the replay of a key. \<open>Orders_Views\<close>: the order detail as a tree, the receipt, the reorder
    payload. \<open>Orders_Manual\<close>: orders entered by the staff, with their payment. \<open>Checkout_Props\<close>, \<open>Reorder_Props\<close>: the
    bill adds up, prices are the catalogue's, a retry creates nothing, a strict establishment takes no order without
    its control, and, over creation and every later operation together, each order is accounted for.

  \<^item> \<^bold>\<open>Payments\<close> (\<^verbatim>\<open>payments/service.py\<close>, \<^verbatim>\<open>guarantee.py\<close>). \<open>Payments_Desk\<close>: the record \<open>desk\<close> (the shop with refunds and
    events), validation of Stripe's intents, opening payments, links and holds. \<open>Payments_Settle\<close>: finalisation,
    refunds, events, expiry of payments and of stale orders, detail and figures. A finalisation takes two desks, what is
    committed (\<open>base\<close>) and what the transaction has flushed, because a failed confirmation rolls back to the first.
    \<open>Payments_Frame\<close>: what each operation does to payment rows.
    \<open>Payments_Runs\<close>: all of them as \<open>desk_step\<close> with the invariant of the refunds. \<open>Payments_Props\<close>: refunds stay
    within what was collected, settled money is final, an event counts once, only a full and matching charge pays an
    order, and an unconfirmed payment is given back.

  \<^item> \<^bold>\<open>Menus\<close> (\<^verbatim>\<open>catalog/menu_service.py\<close>, \<^verbatim>\<open>menu_schemas.py\<close>). \<open>Menu_Admin\<close>: the board of menus, groups and items,
    its administration, the publication control, the public card. \<open>Menu_Props\<close>: all operations as \<open>menu_step\<close>, and the
    composition they keep. \<open>Menu_Card\<close>: a menu on sale is complete, and a menu the card announces can be ordered.

  \<^item> \<^bold>\<open>Allergens\<close> (\<^verbatim>\<open>catalog/allergen/allergen_service.py\<close>, \<^verbatim>\<open>catalog/service.py\<close>). \<open>Allergens\<close>: declarations of
    ingredients and products, their propagation, the audit trail, tags, what is told about a selection.
    \<open>Allergen_Props\<close>: what is told is exactly what is declared, with the highest level; declarations by hand survive.

  \<^item> \<^bold>\<open>Catalogue administration\<close> (\<^verbatim>\<open>catalog/service.py\<close>, \<^verbatim>\<open>providers.py\<close>). \<open>Catalog_Admin\<close>: the tables (\<open>shelf\<close>, of
    which the orders see \<open>show_shelf\<close>), categories, products, variants, extras, links, recommendations, the price audit.
    \<open>Csv_Text\<close>: Python's CSV reader (a state machine) and writer, and numbers as text. \<open>Catalog_Import\<close>: the dry run, the
    confirmation row by row, the export. \<open>Catalog_Props\<close>: all operations as \<open>shelf_step\<close>, prices are explained by their
    audit trail, an import is applied once and whole. \<open>Catalog_Roundtrip\<close>: an exported catalogue is imported unchanged.

  \<^item> \<^bold>\<open>Restaurant settings\<close> (\<^verbatim>\<open>admin/tenants/service.py\<close>, \<^verbatim>\<open>models.py\<close>, \<^verbatim>\<open>schemas.py\<close>, \<^verbatim>\<open>scheduled_closures.py\<close>).
    \<open>Tenant_Settings\<close>: the settings row, its validators, every update with its audit rows, the scheduled closure.
    \<open>Tenant_Hours\<close>: opening hours, exceptional closures, the public status and the next opening. \<open>Tenant_Runs\<close>: all of
    them as a step relation. \<open>Tenant_Props\<close>: settings stay valid and are explained by the audit trail, hours never
    overlap, the currency is locked by the first payment, a closed restaurant opens when it says it will.

  \<^item> \<^bold>\<open>Accounts and sessions\<close> (\<^verbatim>\<open>auth/service.py\<close>, \<^verbatim>\<open>core/auth\<close>, \<^verbatim>\<open>core/http/deps.py\<close>, \<^verbatim>\<open>customer/service.py\<close>,
    \<^verbatim>\<open>admin/users/service.py\<close>, \<^verbatim>\<open>super_admin/service.py\<close>). \<open>Auth_Data\<close>: accounts, refresh tokens, claims, the list of those
    cut off. \<open>Auth_Service\<close>: sign-in with the second factor, rotation, sessions, passwords. \<open>Super_Admin\<close>: the
    administrators of the platform and impersonation. \<open>Auth_Access\<close>: the identity of a request, roles and permissions, accounts
    managed by administrators, customers and their phone codes. \<open>Auth_Sessions\<close>: all of them as a step relation over all
    restaurants. \<open>Auth_Props\<close>: a request is made by a live account, a refresh token is exchanged once, a revoked session
    stays dead, a code is locked after five guesses, an impersonation only reads.

  \<^item> \<^bold>\<open>Customer administration\<close> (\<^verbatim>\<open>admin/customers/service.py\<close>, \<^verbatim>\<open>worker/tasks/emails.py\<close>). \<open>Customer_Admin\<close>: lists, messages,
    the worker that sends them, deactivation and anonymisation. \<open>Customer_Props\<close>: messages to many respect consent.

  \<^item> \<^bold>\<open>Kitchen display\<close> (\<^verbatim>\<open>kds/service.py\<close>, \<^verbatim>\<open>schemas.py\<close>). \<open>Kds\<close>: screens, pairing codes, remote sessions. \<open>Kds_Props\<close>: a screen
    has at most one live code and no two screens share one, pairing opens the screen of the code, revocation is final.

  \<^item> \<^bold>\<open>Staff and time clock\<close> (\<^verbatim>\<open>hr/service.py\<close>, \<^verbatim>\<open>worker/tasks/hr_alerts.py\<close>). \<open>Hr\<close>: profiles, shifts, clocking, corrections,
    alerts, the daily checks. \<open>Hr_Props\<close>: at most one running entry per employee, alerts respect their cooldown.

  \<^bold>\<open>How the code is read.\<close> A table is a list of records with the columns the modelled code reads or writes, named with
  a prefix per table. A service function becomes a function from its arguments and the tables to a result; an
  exception is an error value and leaves the tables as they were, because the request's transaction is rolled back.
  Operations that commit before they raise return the new tables together with the outcome. Instants are
  microseconds (\<open>int\<close>), dates are proleptic ordinals; \<^verbatim>\<open>utcnow()\<close> is an argument \<open>now\<close> and the next value of a
  key sequence is an argument. An error raised without a code of its own (\<^verbatim>\<open>HTTPException\<close>, a validation
  error) is \<open>AppError [] status\<close>. Amounts and quantities, floats in the source, are exact rationals and every
  \<^verbatim>\<open>round(x, 2)\<close> is written out (the scale of a numeric column is not); coordinates and travel estimates are reals.
  Each operation is one atomic step, as the row locks make it where the code takes them, so concurrent requests appear
  as sequences of steps; where it takes none (the time clock, the codes of the kitchen screens), the theorems are about
  requests served one after another.

  \<^bold>\<open>What is a parameter.\<close> The time-zone database, the text order of the database, Stripe's answers, the
  Mapbox isochrone, random draws, the keyed hash behind hand-over codes and the cryptography behind passwords, tokens and
  pairing codes are function arguments or fields of an environment record. SHA-256 digests used as equality tests are the hashed value itself.

  \<^bold>\<open>Loops.\<close> All loops run over finite lists and are structural recursions or folds; nothing uses fuel.

  \<^bold>\<open>Not modelled.\<close> Routers and schemas beyond the fields used, the registration of a restaurant, tenant provisioning,
  database schemas and migrations, rate limits, back-up scripts, sending of messages (they are queued as values), the
  transport to Stripe, terminal readers and Connect onboarding, catalogue search and galleries, the external catalogue hub
  with its synchronisation task, point-of-sale connectors, exports other than the CSV of the catalogue, the shifts and the
  time clock, and statistics of the platform. They are input and output, rest on third-party services, or are plain row
  access; the component list of the manifest names them one by one.
\<close>

end
